(* ===== verification/Prelude.thy ===== *)
theory Prelude
  imports Main "HOL-Library.Char_ord" "HOL-Library.List_Lexorder" "HOL-Library.Sublist"
begin

text \<open>
  The shared prelude: results of fallible Python code as sums, decimal rendering and
  reading of integers, the string methods the sources use, and association lists read
  as Python dictionaries.

  A Python string is modelled by a \<^typ>\<open>string\<close> whose characters are its code points,
  so the model covers strings over the code points 0 to 255; \<open>length\<close> counts code points
  as Python's \<open>len\<close> does, and lexicographic order is code point order as in \<open>sorted\<close>.
\<close>

named_theorems result_simps \<open>equations and inversions for fallible computations\<close>
named_theorems dict_simps \<open>lookup facts for association lists read as dictionaries\<close>
named_theorems str_simps \<open>facts on rendered and sliced strings\<close>


section \<open>Fallible computations\<close>

text \<open>\<open>Inl\<close> is a raised exception, \<open>Inr\<close> a normal return; a bind is Python sequencing.\<close>

fun rbind :: "'e + 'a \<Rightarrow> ('a \<Rightarrow> 'e + 'b) \<Rightarrow> 'e + 'b" where
  "rbind (Inl e) f = Inl e"
| "rbind (Inr a) f = f a"

definition guard :: "bool \<Rightarrow> 'e \<Rightarrow> 'e + unit" where
  "guard b e = (if b then Inr () else Inl e)"

lemma rbind_Inr_iff [result_simps]:
  "rbind m f = Inr b \<longleftrightarrow> (\<exists>a. m = Inr a \<and> f a = Inr b)"
  by (cases m) auto

lemma rbind_Inl_iff [result_simps]:
  "rbind m f = Inl e \<longleftrightarrow> m = Inl e \<or> (\<exists>a. m = Inr a \<and> f a = Inl e)"
  by (cases m) auto

lemma guard_Inr_iff [simp, result_simps]: "guard b e = Inr u \<longleftrightarrow> b"
  by (simp add: guard_def)

lemma guard_Inl_iff [simp, result_simps]: "guard b e = Inl e' \<longleftrightarrow> \<not> b \<and> e = e'"
  by (auto simp: guard_def)

lemma guard_True [simp]: "guard True e = Inr ()"
  by (simp add: guard_def)

lemma guard_False [simp]: "guard False e = Inl e"
  by (simp add: guard_def)

text \<open>A loop over a list whose body may raise.\<close>

fun rmap :: "('a \<Rightarrow> 'e + 'b) \<Rightarrow> 'a list \<Rightarrow> 'e + 'b list" where
  "rmap f [] = Inr []"
| "rmap f (x # xs) = rbind (f x) (\<lambda>y. rbind (rmap f xs) (\<lambda>ys. Inr (y # ys)))"

fun rfold :: "('s \<Rightarrow> 'a \<Rightarrow> 'e + 's) \<Rightarrow> 's \<Rightarrow> 'a list \<Rightarrow> 'e + 's" where
  "rfold f s [] = Inr s"
| "rfold f s (x # xs) = rbind (f s x) (\<lambda>s'. rfold f s' xs)"

lemma rfold_invariant:
  assumes "rfold f s xs = Inr s'" and "P s"
    and "\<And>t x t'. P t \<Longrightarrow> x \<in> set xs \<Longrightarrow> f t x = Inr t' \<Longrightarrow> P t'"
  shows "P s'"
  using assms
proof (induction xs arbitrary: s)
  case Nil
  then show ?case by simp
next
  case (Cons x xs)
  from Cons.prems(1) obtain t where t: "f s x = Inr t" "rfold f t xs = Inr s'"
    by (auto simp: rbind_Inr_iff)
  from t(1) Cons.prems(2,3) have "P t" by (meson list.set_intros(1))
  then show ?case
    by (rule Cons.IH [OF t(2)]) (meson Cons.prems(3) list.set_intros(2))
qed

lemma rfold_snoc: "rfold f s (xs @ [y]) = rbind (rfold f s xs) (\<lambda>t. f t y)"
proof (induction xs arbitrary: s)
  case Nil
  show ?case by (cases "f s y") simp_all
next
  case (Cons x xs)
  then show ?case by (cases "f s x") simp_all
qed

lemma find_SomeD: "List.find P xs = Some x \<Longrightarrow> x \<in> set xs \<and> P x"
  by (induction xs) (auto split: if_splits)


section \<open>Decimal integers\<close>

definition digit_char :: "nat \<Rightarrow> char" where
  "digit_char d = char_of (48 + d)"

definition char_digit :: "char \<Rightarrow> nat" where
  "char_digit c = of_char c - 48"

definition is_digit :: "char \<Rightarrow> bool" where
  "is_digit c \<longleftrightarrow> 48 \<le> (of_char c :: nat) \<and> (of_char c :: nat) \<le> 57"

lemma of_char_digit_char: "d < 10 \<Longrightarrow> (of_char (digit_char d) :: nat) = 48 + d"
  by (simp add: digit_char_def)

lemma char_digit_digit_char [simp]: "d < 10 \<Longrightarrow> char_digit (digit_char d) = d"
  by (simp add: char_digit_def of_char_digit_char)

lemma is_digit_digit_char [simp]: "d < 10 \<Longrightarrow> is_digit (digit_char d)"
  by (simp add: is_digit_def of_char_digit_char)

fun nat_str :: "nat \<Rightarrow> string" where
  "nat_str n = (if n < 10 then [digit_char n] else nat_str (n div 10) @ [digit_char (n mod 10)])"

declare nat_str.simps [simp del]

definition str_nat :: "string \<Rightarrow> nat" where
  "str_nat s = foldl (\<lambda>a c. 10 * a + char_digit c) 0 s"

lemma str_nat_nat_str [simp]: "str_nat (nat_str n) = n"
proof (induction n rule: nat_str.induct)
  case (1 n)
  show ?case
  proof (cases "n < 10")
    case True
    then show ?thesis by (simp add: nat_str.simps str_nat_def)
  next
    case False
    with "1.IH" have IH: "str_nat (nat_str (n div 10)) = n div 10" by simp
    have "str_nat (nat_str n) = 10 * str_nat (nat_str (n div 10)) + n mod 10"
      using False by (subst nat_str.simps) (simp add: str_nat_def)
    with IH show ?thesis by simp
  qed
qed

lemma nat_str_inject [simp]: "nat_str m = nat_str n \<longleftrightarrow> m = n"
  by (metis str_nat_nat_str)

lemma nat_str_digits: "c \<in> set (nat_str n) \<Longrightarrow> is_digit c"
proof (induction n rule: nat_str.induct)
  case (1 n)
  then show ?case
    by (cases "n < 10") (auto simp: nat_str.simps [of n])
qed

lemma nat_str_nonempty [simp]: "nat_str n \<noteq> []"
  by (subst nat_str.simps) simp

definition int_str :: "int \<Rightarrow> string" where
  "int_str i = (if i < 0 then CHR ''-'' # nat_str (nat (- i)) else nat_str (nat i))"

lemma not_digit_minus: "\<not> is_digit CHR ''-''"
  by (simp add: is_digit_def)

lemma int_str_inject [simp]: "int_str i = int_str j \<longleftrightarrow> i = j"
proof -
  have "nat_str n \<noteq> CHR ''-'' # s" for n s
    using nat_str_digits [of "CHR ''-''" n] not_digit_minus by auto
  then show ?thesis
    by (auto simp: int_str_def) metis+
qed

text \<open>Reading an integer, as Python's \<open>int(s)\<close>: surrounding blanks, a sign, digits with
  single underscores between them.\<close>

definition is_space :: "char \<Rightarrow> bool" where
  "is_space c \<longleftrightarrow> (let n = (of_char c :: nat) in
     (9 \<le> n \<and> n \<le> 13) \<or> (28 \<le> n \<and> n \<le> 32) \<or> n = 133 \<or> n = 160)"

definition strip :: "string \<Rightarrow> string" where
  "strip s = rev (dropWhile is_space (rev (dropWhile is_space s)))"

fun read_digits :: "nat \<Rightarrow> string \<Rightarrow> nat option" where
  "read_digits a [] = Some a"
| "read_digits a (c # s) =
     (if is_digit c then read_digits (10 * a + char_digit c) s
      else if c = CHR ''_'' then
        (case s of [] \<Rightarrow> None
         | d # s' \<Rightarrow> if is_digit d then read_digits (10 * a + char_digit d) s' else None)
      else None)"

definition read_nat :: "string \<Rightarrow> nat option" where
  "read_nat s = (case s of [] \<Rightarrow> None
     | c # s' \<Rightarrow> if is_digit c then read_digits (char_digit c) s' else None)"

definition int_of_str :: "string \<Rightarrow> int option" where
  "int_of_str s = (case strip s of
       [] \<Rightarrow> None
     | c # s' \<Rightarrow>
         if c = CHR ''-'' then map_option (\<lambda>n. - int n) (read_nat s')
         else if c = CHR ''+'' then map_option int (read_nat s')
         else map_option int (read_nat (c # s')))"


section \<open>String methods\<close>

definition lower_char :: "char \<Rightarrow> char" where
  "lower_char c = (let n = (of_char c :: nat) in
     if (65 \<le> n \<and> n \<le> 90) \<or> (192 \<le> n \<and> n \<le> 222 \<and> n \<noteq> 215) then char_of (n + 32) else c)"

definition lower :: "string \<Rightarrow> string" where
  "lower s = map lower_char s"

definition is_lower_alpha :: "char \<Rightarrow> bool" where
  "is_lower_alpha c \<longleftrightarrow> 97 \<le> (of_char c :: nat) \<and> (of_char c :: nat) \<le> 122"

definition is_upper_alpha :: "char \<Rightarrow> bool" where
  "is_upper_alpha c \<longleftrightarrow> 65 \<le> (of_char c :: nat) \<and> (of_char c :: nat) \<le> 90"

definition is_alpha :: "char \<Rightarrow> bool" where
  "is_alpha c \<longleftrightarrow> is_lower_alpha c \<or> is_upper_alpha c"

definition is_lower_hex :: "char \<Rightarrow> bool" where
  "is_lower_hex c \<longleftrightarrow> is_digit c \<or> (97 \<le> (of_char c :: nat) \<and> (of_char c :: nat) \<le> 102)"

definition is_hex :: "char \<Rightarrow> bool" where
  "is_hex c \<longleftrightarrow> is_lower_hex c \<or> (65 \<le> (of_char c :: nat) \<and> (of_char c :: nat) \<le> 70)"

text \<open>\<open>s.startswith(p)\<close>, \<open>s.endswith(p)\<close> and \<open>p in s\<close>.\<close>

abbreviation startswith :: "string \<Rightarrow> string \<Rightarrow> bool" where
  "startswith s p \<equiv> prefix p s"

abbreviation endswith :: "string \<Rightarrow> string \<Rightarrow> bool" where
  "endswith s p \<equiv> suffix p s"

fun contains :: "string \<Rightarrow> string \<Rightarrow> bool" where
  "contains [] p = (p = [])"
| "contains (c # s) p = (prefix p (c # s) \<or> contains s p)"

lemma contains_iff_sublist: "contains s p \<longleftrightarrow> sublist p s"
  by (induction s) (auto simp: sublist_Cons_right)

text \<open>\<open>s.rstrip(c)\<close> for one character, and \<open>s.split(c)\<close>.\<close>

definition rstrip_char :: "char \<Rightarrow> string \<Rightarrow> string" where
  "rstrip_char c s = rev (dropWhile (\<lambda>x. x = c) (rev s))"

fun split_on :: "char \<Rightarrow> string \<Rightarrow> string list" where
  "split_on c [] = [[]]"
| "split_on c (x # xs) =
     (if x = c then [] # split_on c xs
      else (case split_on c xs of [] \<Rightarrow> [[x]] | w # ws \<Rightarrow> (x # w) # ws))"

fun join_with :: "string \<Rightarrow> string list \<Rightarrow> string" where
  "join_with sep [] = []"
| "join_with sep [w] = w"
| "join_with sep (w # v # ws) = w @ sep @ join_with sep (v # ws)"

lemma length_take_le [str_simps]: "length (take n s) \<le> n"
  by simp


section \<open>Dictionaries as association lists\<close>

text \<open>
  A dictionary is an association list in insertion order. Reading is \<^const>\<open>map_of\<close>;
  assignment replaces the value in place or appends the key, as Python's \<open>d[k] = v\<close> does.
\<close>

fun dict_set :: "'k \<Rightarrow> 'v \<Rightarrow> ('k \<times> 'v) list \<Rightarrow> ('k \<times> 'v) list" where
  "dict_set k v [] = [(k, v)]"
| "dict_set k v ((k', v') # d) = (if k' = k then (k, v) # d else (k', v') # dict_set k v d)"

definition dict_del :: "'k \<Rightarrow> ('k \<times> 'v) list \<Rightarrow> ('k \<times> 'v) list" where
  "dict_del k d = filter (\<lambda>(k', _). k' \<noteq> k) d"

abbreviation dict_keys :: "('k \<times> 'v) list \<Rightarrow> 'k list" where
  "dict_keys d \<equiv> map fst d"

abbreviation has_key :: "('k \<times> 'v) list \<Rightarrow> 'k \<Rightarrow> bool" where
  "has_key d k \<equiv> k \<in> set (map fst d)"

lemma map_of_dict_set [simp, dict_simps]: "map_of (dict_set k v d) = (map_of d)(k \<mapsto> v)"
  by (induction d) (auto simp: fun_eq_iff)

lemma dict_keys_dict_set [dict_simps]:
  "set (dict_keys (dict_set k v d)) = insert k (set (dict_keys d))"
  by (induction k v d rule: dict_set.induct) auto

lemma distinct_dict_set [dict_simps]: "distinct (dict_keys d) \<Longrightarrow> distinct (dict_keys (dict_set k v d))"
proof (induction k v d rule: dict_set.induct)
  case (2 k v k' v' d)
  then show ?case
    using dict_keys_dict_set [of k v d] by auto
qed simp

lemma map_of_dict_del [simp, dict_simps]:
  "map_of (dict_del k d) k' = (if k' = k then None else map_of d k')"
  by (induction d) (auto simp: dict_del_def)

lemma set_insort_key_fst: "set (dict_keys (insort_key fst p d)) = insert (fst p) (set (dict_keys d))"
  by (simp add: set_insort_key)

lemma distinct_keys_insort:
  "distinct (dict_keys (insort_key fst p d)) \<longleftrightarrow> fst p \<notin> set (dict_keys d) \<and> distinct (dict_keys d)"
proof (induction d)
  case (Cons q d)
  then show ?case
    using set_insort_key_fst [of p d] by auto
qed simp

lemma distinct_keys_sort [dict_simps]:
  "distinct (dict_keys (sort_key fst d)) \<longleftrightarrow> distinct (dict_keys d)"
proof (induction d)
  case (Cons p d)
  have "set (dict_keys (sort_key fst d)) = set (dict_keys d)" by simp
  with Cons show ?case
    by (simp add: distinct_keys_insort)
qed simp

lemma map_of_sort_key_fst [simp, dict_simps]:
  assumes "distinct (dict_keys d)"
  shows "map_of (sort_key fst d) = map_of d"
  using assms by (intro iffD2 [OF map_of_inject_set]) (simp_all add: distinct_keys_sort)

end
