(* ===== verification/Regex.thy ===== *)
theory Regex
  imports Prelude
begin

text \<open>
  The fragment of Python's \<open>re\<close> the sources rely on: a backtracking matcher that returns
  every way a pattern can match from a position, in the order the engine tries them.
  The engine's answer is the first element; a possessive quantifier is an atomic group,
  which keeps the first way only.

  A state is the current position with the captured groups. Iterations that consume
  nothing end a repetition, so the matcher is total.
\<close>

type_synonym rx_groups = "(string \<times> (nat \<times> nat)) list"
type_synonym rx_state = "nat \<times> rx_groups"

datatype regex =
    Eps
  | CS "char \<Rightarrow> bool"
  | Seq regex regex
  | Alt regex regex
  | Rep nat "nat option" regex
  | LazyRep nat "nat option" regex
  | Atom regex
  | Grp string regex
  | Backref string
  | Look regex
  | NotLook regex
  | NotAfter "char \<Rightarrow> bool"
  | WordBoundary
  | LineStart
  | LineEnd
  | TextEnd

definition is_word :: "char \<Rightarrow> bool" where
  "is_word c \<longleftrightarrow> (let n = (of_char c :: nat) in is_alpha c \<or> is_digit c \<or> n = 95 \<or>
     n \<in> {170, 178, 179, 181, 185, 186, 188, 189, 190} \<or> (192 \<le> n \<and> n \<noteq> 215 \<and> n \<noteq> 247))"

definition word_at :: "string \<Rightarrow> nat \<Rightarrow> bool" where
  "word_at t i \<longleftrightarrow> i < length t \<and> is_word (t ! i)"

definition at_boundary :: "string \<Rightarrow> nat \<Rightarrow> bool" where
  "at_boundary t i \<longleftrightarrow> (0 < i \<and> word_at t (i - 1)) \<noteq> word_at t i"

text \<open>One more iteration either consumes text or uses up a required one.\<close>

definition rep_progress :: "nat \<Rightarrow> nat \<Rightarrow> nat \<Rightarrow> nat \<Rightarrow> bool" where
  "rep_progress n lo p p' \<longleftrightarrow> (p < p' \<and> p' \<le> n) \<or> (0 < lo \<and> p' = p)"

function rep_loop ::
  "nat \<Rightarrow> bool \<Rightarrow> (rx_state \<Rightarrow> rx_state list) \<Rightarrow> nat \<Rightarrow> nat option \<Rightarrow> rx_state \<Rightarrow> rx_state list" where
  "rep_loop n greedy m lo hi st =
     (let stop = (if lo = 0 then [st] else []);
          more = (if hi = Some 0 then []
                  else concat (map (\<lambda>st'. rep_loop n greedy m (lo - 1) (map_option (\<lambda>h. h - 1) hi) st')
                         (filter (\<lambda>st'. rep_progress n lo (fst st) (fst st')) (m st))))
      in if greedy then more @ stop else stop @ more)"
  by pat_completeness auto
termination
  by (relation "measure (\<lambda>(n, _, _, lo, _, st). lo + (n - fst st))")
    (auto simp: rep_progress_def)

declare rep_loop.simps [simp del]

primrec rx :: "regex \<Rightarrow> string \<Rightarrow> rx_state \<Rightarrow> rx_state list" where
  "rx Eps t st = [st]"
| "rx (CS P) t st = (if fst st < length t \<and> P (t ! fst st) then [(Suc (fst st), snd st)] else [])"
| "rx (Seq a b) t st = concat (map (rx b t) (rx a t st))"
| "rx (Alt a b) t st = rx a t st @ rx b t st"
| "rx (Rep lo hi r) t st = rep_loop (length t) True (rx r t) lo hi st"
| "rx (LazyRep lo hi r) t st = rep_loop (length t) False (rx r t) lo hi st"
| "rx (Atom r) t st = take 1 (rx r t st)"
| "rx (Grp g r) t st = map (\<lambda>st'. (fst st', dict_set g (fst st, fst st') (snd st'))) (rx r t st)"
| "rx (Backref g) t st = (case map_of (snd st) g of
       None \<Rightarrow> []
     | Some (i, j) \<Rightarrow> if prefix (drop i (take j t)) (drop (fst st) t)
                     then [(fst st + (j - i), snd st)] else [])"
| "rx (Look r) t st = (case rx r t st of [] \<Rightarrow> [] | st' # _ \<Rightarrow> [(fst st, snd st')])"
| "rx (NotLook r) t st = (if rx r t st = [] then [st] else [])"
| "rx (NotAfter P) t st =
     (if 0 < fst st \<and> fst st \<le> length t \<and> P (t ! (fst st - 1)) then [] else [st])"
| "rx WordBoundary t st = (if at_boundary t (fst st) then [st] else [])"
| "rx LineStart t st =
     (if fst st = 0 \<or> (fst st \<le> length t \<and> t ! (fst st - 1) = CHR 0x0A) then [st] else [])"
| "rx LineEnd t st =
     (if fst st = length t \<or> (fst st < length t \<and> t ! fst st = CHR 0x0A) then [st] else [])"
| "rx TextEnd t st = (if fst st = length t then [st] else [])"

record rx_match =
  m_start :: nat
  m_end :: nat
  m_groups :: rx_groups

text \<open>\<open>pattern.fullmatch(t)\<close>, and the first match of \<open>search\<close> at or after a position.\<close>

definition fullmatch :: "regex \<Rightarrow> string \<Rightarrow> bool" where
  "fullmatch r t \<longleftrightarrow> (\<exists>st \<in> set (rx r t (0, [])). fst st = length t)"

definition match_at :: "regex \<Rightarrow> string \<Rightarrow> bool \<Rightarrow> nat \<Rightarrow> rx_match option" where
  "match_at r t advance i =
     map_option (\<lambda>st. \<lparr>m_start = i, m_end = fst st, m_groups = snd st\<rparr>)
       (List.find (\<lambda>st. advance \<longrightarrow> fst st \<noteq> i) (rx r t (i, [])))"

function search_from :: "regex \<Rightarrow> string \<Rightarrow> bool \<Rightarrow> nat \<Rightarrow> rx_match option" where
  "search_from r t advance i =
     (case match_at r t advance i of
        Some m \<Rightarrow> Some m
      | None \<Rightarrow> if i < length t then search_from r t False (Suc i) else None)"
  by pat_completeness auto
termination
  by (relation "measure (\<lambda>(_, t, _, i). length t - i)") auto

declare search_from.simps [simp del]

text \<open>
  \<open>pattern.finditer(t)\<close>: successive matches, the next one starting where the last ended;
  after an empty match the next must not be empty at the same place. The number of matches
  is at most \<open>2 * length t + 2\<close>: two successive empty matches never start together.
\<close>

fun finditer_loop :: "nat \<Rightarrow> regex \<Rightarrow> string \<Rightarrow> bool \<Rightarrow> nat \<Rightarrow> rx_match list" where
  "finditer_loop 0 r t advance i = []"
| "finditer_loop (Suc k) r t advance i =
     (case search_from r t advance i of
        None \<Rightarrow> []
      | Some m \<Rightarrow> m # finditer_loop k r t (m_end m = m_start m) (m_end m))"

definition finditer :: "regex \<Rightarrow> string \<Rightarrow> rx_match list" where
  "finditer r t = finditer_loop (2 * length t + 2) r t False 0"

definition m_span :: "rx_match \<Rightarrow> nat \<times> nat" where
  "m_span m = (m_start m, m_end m)"


section \<open>Building patterns\<close>

fun seqs :: "regex list \<Rightarrow> regex" where
  "seqs [] = Eps"
| "seqs [r] = r"
| "seqs (r # rs) = Seq r (seqs rs)"

fun alts :: "regex list \<Rightarrow> regex" where
  "alts [] = NotLook Eps"
| "alts [r] = r"
| "alts (r # rs) = Alt r (alts rs)"

abbreviation star :: "regex \<Rightarrow> regex" where "star r \<equiv> Rep 0 None r"
abbreviation plus1 :: "regex \<Rightarrow> regex" where "plus1 r \<equiv> Rep 1 None r"
abbreviation optional :: "regex \<Rightarrow> regex" where "optional r \<equiv> Rep 0 (Some 1) r"
abbreviation lazy_star :: "regex \<Rightarrow> regex" where "lazy_star r \<equiv> LazyRep 0 None r"
abbreviation pstar :: "regex \<Rightarrow> regex" where "pstar r \<equiv> Atom (Rep 0 None r)"
abbreviation pplus :: "regex \<Rightarrow> regex" where "pplus r \<equiv> Atom (Rep 1 None r)"

text \<open>A literal, case-sensitive or under the \<open>i\<close> flag; a class given by its members.\<close>

definition lit_char :: "bool \<Rightarrow> char \<Rightarrow> regex" where
  "lit_char icase c = CS (\<lambda>x. x = c \<or> (icase \<and> lower_char x = lower_char c))"

definition lit :: "string \<Rightarrow> regex" where
  "lit s = seqs (map (lit_char False) s)"

definition ilit :: "string \<Rightarrow> regex" where
  "ilit s = seqs (map (lit_char True) s)"

definition oneof :: "string \<Rightarrow> regex" where
  "oneof s = CS (\<lambda>x. x \<in> set s)"

definition noneof :: "string \<Rightarrow> regex" where
  "noneof s = CS (\<lambda>x. x \<notin> set s)"

definition anychar :: regex where
  "anychar = CS (\<lambda>_. True)"

definition space_class :: regex where
  "space_class = CS is_space"


section \<open>Positions\<close>

text \<open>Every state of a match lies between the start and the end of the text.\<close>

definition groups_ok :: "string \<Rightarrow> rx_groups \<Rightarrow> bool" where
  "groups_ok t g \<longleftrightarrow> (\<forall>k i j. map_of g k = Some (i, j) \<longrightarrow> i \<le> j \<and> j \<le> length t)"

lemma rep_loop_groups:
  assumes "\<And>st st'. fst st \<le> n \<Longrightarrow> G (snd st) \<Longrightarrow> st' \<in> set (m st) \<Longrightarrow>
      fst st \<le> fst st' \<and> fst st' \<le> n \<and> G (snd st')"
  shows "fst st \<le> n \<Longrightarrow> G (snd st) \<Longrightarrow> st' \<in> set (rep_loop n greedy m lo hi st) \<Longrightarrow>
      fst st \<le> fst st' \<and> fst st' \<le> n \<and> G (snd st')"
  using assms
proof (induction n greedy m lo hi st rule: rep_loop.induct)
  case (1 n greedy m lo hi st)
  show ?case
  proof (cases "st' = st")
    case True
    with "1.prems"(1,2) show ?thesis by simp
  next
    case False
    with "1.prems"(3) obtain st2 where st2: "hi \<noteq> Some 0" "st2 \<in> set (m st)"
        "rep_progress n lo (fst st) (fst st2)"
        "st' \<in> set (rep_loop n greedy m (lo - 1) (map_option (\<lambda>h. h - 1) hi) st2)"
      by (subst (asm) rep_loop.simps) (auto simp: Let_def split: if_splits)
    with "1.prems"(1,2,4) have *: "fst st \<le> fst st2" "fst st2 \<le> n" "G (snd st2)" by blast+
    have "st2 \<in> set (filter (\<lambda>st'. rep_progress n lo (fst st) (fst st')) (m st))"
      using st2 by simp
    from "1.IH" [OF refl st2(1) this *(2,3) st2(4) "1.prems"(4)] * show ?thesis by auto
  qed
qed

lemma rx_bounds:
  "fst st \<le> length t \<Longrightarrow> groups_ok t (snd st) \<Longrightarrow> st' \<in> set (rx r t st) \<Longrightarrow>
     fst st \<le> fst st' \<and> fst st' \<le> length t \<and> groups_ok t (snd st')"
proof (induction r arbitrary: st st')
  case (Seq a b)
  from Seq.prems(3) obtain s1 where s1: "s1 \<in> set (rx a t st)" "st' \<in> set (rx b t s1)" by auto
  from Seq.IH(1) [OF Seq.prems(1,2) s1(1)] have "fst st \<le> fst s1" and le: "fst s1 \<le> length t"
    and ok: "groups_ok t (snd s1)" by auto
  with Seq.IH(2) [OF le ok s1(2)] show ?case by auto
next
  case (Rep lo hi r)
  from rep_loop_groups [where m = "rx r t" and G = "groups_ok t", OF Rep.IH Rep.prems(1,2)] Rep.prems(3)
  show ?case by simp
next
  case (LazyRep lo hi r)
  from rep_loop_groups [where m = "rx r t" and G = "groups_ok t", OF LazyRep.IH LazyRep.prems(1,2)] LazyRep.prems(3)
  show ?case by simp
next
  case (Atom r)
  from Atom.prems(3) have "st' \<in> set (rx r t st)" by (auto dest: in_set_takeD)
  from Atom.IH [OF Atom.prems(1,2) this] show ?case .
next
  case (Grp g r)
  from Grp.prems(3) obtain s1 where s1: "s1 \<in> set (rx r t st)"
    and st': "st' = (fst s1, dict_set g (fst st, fst s1) (snd s1))" by auto
  from Grp.IH [OF Grp.prems(1,2) s1] show ?case by (simp add: st' groups_ok_def)
next
  case (Backref g)
  from Backref.prems(3) obtain i j where ij: "map_of (snd st) g = Some (i, j)"
    and pre: "prefix (drop i (take j t)) (drop (fst st) t)" and st': "st' = (fst st + (j - i), snd st)"
    by (cases "map_of (snd st) g") (auto split: if_splits)
  from ij Backref.prems(2) have "i \<le> j" "j \<le> length t" by (auto simp: groups_ok_def)
  with prefix_length_le [OF pre] Backref.prems(1,2) show ?case
    by (auto simp: st' min_def split: if_splits)
next
  case (Look r)
  from Look.prems(3) obtain s1 ss where s1: "rx r t st = s1 # ss" and st': "st' = (fst st, snd s1)"
    by (cases "rx r t st") auto
  from Look.IH [OF Look.prems(1,2), of s1] s1 Look.prems(1) show ?case by (simp add: st')
next
  case (Alt a b)
  from Alt.prems(3) consider "st' \<in> set (rx a t st)" | "st' \<in> set (rx b t st)" by auto
  then show ?case
    by cases (rule Alt.IH(1) [OF Alt.prems(1,2)] Alt.IH(2) [OF Alt.prems(1,2)]; assumption)+
next
  case (NotLook r)
  from NotLook.prems(3) have "st' = st" by (simp split: if_splits)
  with NotLook.prems(1,2) show ?case by simp
qed (auto split: if_splits)

lemma groups_ok_Nil [simp]: "groups_ok t []"
  by (simp add: groups_ok_def)

lemma match_at_bounds:
  assumes "match_at r t advance i = Some m" and "i \<le> length t"
  shows "m_start m = i" "i \<le> m_end m" "m_end m \<le> length t" "groups_ok t (m_groups m)"
    "advance \<Longrightarrow> i < m_end m"
proof -
  from assms(1) obtain st where st: "st \<in> set (rx r t (i, []))" "advance \<longrightarrow> fst st \<noteq> i"
    and m: "m = \<lparr>m_start = i, m_end = fst st, m_groups = snd st\<rparr>"
    by (auto simp: match_at_def dest: find_SomeD)
  from rx_bounds [of "(i, [])" t st r] st(1) assms(2)
  have "i \<le> fst st" "fst st \<le> length t" "groups_ok t (snd st)" by simp_all
  with st(2) m show "m_start m = i" "i \<le> m_end m" "m_end m \<le> length t"
    "groups_ok t (m_groups m)" "advance \<Longrightarrow> i < m_end m"
    by auto
qed

lemma search_from_bounds:
  assumes "search_from r t advance i = Some m" and "i \<le> length t"
  shows "i \<le> m_start m \<and> m_start m \<le> m_end m \<and> m_end m \<le> length t \<and> groups_ok t (m_groups m)
    \<and> (advance \<longrightarrow> i < m_end m)"
  using assms
proof (induction r t advance i rule: search_from.induct)
  case (1 r t advance i)
  show ?case
  proof (cases "match_at r t advance i")
    case None
    with "1.prems" have "i < length t" "search_from r t False (Suc i) = Some m"
      by (auto simp: search_from.simps [of r t advance i] split: if_splits)
    with "1.IH" [OF None] show ?thesis by auto
  next
    case (Some m')
    with "1.prems" have "m' = m" by (simp add: search_from.simps [of r t advance i])
    with match_at_bounds [OF Some "1.prems"(2)] show ?thesis by auto
  qed
qed

text \<open>The spans of \<open>finditer\<close> are within the text, in order, and do not overlap.\<close>

fun spans_from :: "nat \<Rightarrow> nat \<Rightarrow> (nat \<times> nat) list \<Rightarrow> bool" where
  "spans_from i n [] \<longleftrightarrow> i \<le> n"
| "spans_from i n ((a, b) # ss) \<longleftrightarrow> i \<le> a \<and> a \<le> b \<and> spans_from b n ss"

lemma spans_from_mono: "spans_from i n ss \<Longrightarrow> j \<le> i \<Longrightarrow> spans_from j n ss"
  by (cases ss) auto

lemma finditer_loop_spans:
  "i \<le> length t \<Longrightarrow> spans_from i (length t) (map m_span (finditer_loop k r t advance i))"
proof (induction k arbitrary: i advance)
  case (Suc k)
  show ?case
  proof (cases "search_from r t advance i")
    case (Some m)
    from search_from_bounds [OF Some Suc.prems] Suc.IH [of "m_end m"] Some show ?thesis
      by (simp add: m_span_def)
  qed (use Suc.prems in simp)
qed simp

lemma finditer_spans: "spans_from 0 (length t) (map m_span (finditer r t))"
  unfolding finditer_def by (rule finditer_loop_spans) simp

lemma finditer_loop_groups:
  "i \<le> length t \<Longrightarrow> m \<in> set (finditer_loop k r t advance i) \<Longrightarrow> groups_ok t (m_groups m)"
proof (induction k arbitrary: i advance)
  case (Suc k)
  show ?case
  proof (cases "search_from r t advance i")
    case (Some m')
    from search_from_bounds [OF Some Suc.prems(1)] Suc.IH [of "m_end m'"] Suc.prems(2) Some show ?thesis
      by auto
  qed (use Suc.prems in simp)
qed simp

lemma finditer_groups: "m \<in> set (finditer r t) \<Longrightarrow> groups_ok t (m_groups m)"
  unfolding finditer_def by (erule finditer_loop_groups [rotated]) simp

lemma spans_from_le: "spans_from i n ss \<Longrightarrow> i \<le> n"
  by (induction ss arbitrary: i) fastforce+

lemma spans_from_snoc: "spans_from i n (ss @ [(a, b)]) \<longleftrightarrow> spans_from i a ss \<and> a \<le> b \<and> b \<le> n"
  by (induction ss arbitrary: i) auto

lemma spans_from_bounds: "spans_from i n ss \<Longrightarrow> (a, b) \<in> set ss \<Longrightarrow> i \<le> a \<and> a \<le> b \<and> b \<le> n"
proof (induction ss arbitrary: i)
  case (Cons s ss)
  obtain c d where s: "s = (c, d)" by (cases s)
  with Cons.prems spans_from_le [of d n ss] Cons.IH [of d] show ?case by auto
qed simp

text \<open>The positions a list of spans covers.\<close>

definition cov :: "(nat \<times> nat) list \<Rightarrow> nat set" where
  "cov ss = (\<Union>(a, b) \<in> set ss. {a..<b})"

lemma cov_simps [simp]:
  "cov [] = {}" "cov ((a, b) # ss) = {a..<b} \<union> cov ss" "cov (ss @ ts) = cov ss \<union> cov ts"
  "cov (rev ss) = cov ss"
  by (auto simp: cov_def)

lemma in_cov_iff: "x \<in> cov ss \<longleftrightarrow> (\<exists>a b. (a, b) \<in> set ss \<and> a \<le> x \<and> x < b)"
  by (fastforce simp: cov_def)

end
