(* ===== verification/SecretPatterns.thy ===== *)
theory SecretPatterns
  imports Regex
begin

text \<open>
  The compiled patterns of \<open>netbox_rpc/event_store.py\<close> (and the vault reference pattern of
  \<open>constants.py\<close>) written as terms of the matcher, alternative by alternative. A
  byte-order mark (U+FEFF) lies outside the modelled code points, so the parts of the
  patterns that skip one match nothing here.
\<close>

abbreviation CR :: char where "CR \<equiv> CHR 0x0D"
abbreviation LF :: char where "LF \<equiv> CHR 0x0A"
abbreviation TAB :: char where "TAB \<equiv> CHR 0x09"
abbreviation DQ :: char where "DQ \<equiv> CHR 0x22"
abbreviation SQ :: char where "SQ \<equiv> CHR 0x27"
abbreviation BSL :: char where "BSL \<equiv> CHR 0x5C"

definition key_char :: "char \<Rightarrow> bool" where
  "key_char c \<longleftrightarrow> is_alpha c \<or> is_digit c \<or> c \<in> {CHR ''_'', CHR ''.'', CHR ''-''}"

definition blank :: regex where
  "blank = oneof [CHR '' '', TAB]"

definition not_eol :: regex where
  "not_eol = noneof [CR, LF]"

definition quote_opt :: regex where
  "quote_opt = optional (oneof [DQ, SQ])"

definition line_break :: regex where
  "line_break = alts [lit [CR, LF], Seq (lit [CR]) (NotLook (lit [LF])), lit [LF]]"

definition eol_ahead :: regex where
  "eol_ahead = Look (alts [lit [CR], lit [LF], TextEnd])"

definition at_line_start :: regex where
  "at_line_start = NotAfter (\<lambda>c. c \<noteq> CR \<and> c \<noteq> LF)"

definition SECRET_KEY_FRAGMENT :: "bool \<Rightarrow> regex" where
  "SECRET_KEY_FRAGMENT icase =
     (let w = (\<lambda>s. seqs (map (lit_char icase) s)) in
      alts [w ''token'', w ''password'', w ''passphrase'', w ''secret'', w ''authorization'',
            seqs [w ''api'', optional (oneof ''-_#''), w ''key''],
            seqs [w ''access'', optional (oneof ''-_''), w ''key''],
            seqs [w ''private'', optional (oneof ''-_''), w ''key''],
            w ''credential''])"

definition SECRET_KEY_RUN :: regex where
  "SECRET_KEY_RUN = pstar (CS key_char)"

definition secret_key_ahead :: "bool \<Rightarrow> regex" where
  "secret_key_ahead icase =
     Look (seqs [quote_opt, lazy_star (CS key_char), SECRET_KEY_FRAGMENT icase])"

definition pem_label :: regex where
  "pem_label = CS (\<lambda>c. is_upper_alpha c \<or> is_digit c \<or> c = CHR '' '')"

definition private_key_ahead :: regex where
  "private_key_ahead = Look (Seq (lazy_star pem_label) (lit ''PRIVATE KEY''))"

definition pem_block :: regex where
  "pem_block =
     seqs [lit ''-----BEGIN '',
           Grp ''pem'' (Seq private_key_ahead (Atom (Rep 1 (Some 128) pem_label))),
           lit ''-----'', lazy_star anychar,
           alts [seqs [lit ''-----END '', Backref ''pem'', lit ''-----''], TextEnd]]"

definition pem_long_label :: regex where
  "pem_long_label =
     seqs [lit ''-----BEGIN '', private_key_ahead, pstar pem_label, lit ''-----'', star anychar]"

text \<open>A block scalar indicator with its comment, and the lines of its body.\<close>

definition block_indicator :: regex where
  "block_indicator =
     seqs [oneof ''|>'',
           optional (alts [Seq (CS (\<lambda>c. is_digit c \<and> c \<noteq> CHR ''0'')) (optional (oneof ''+-'')),
                           Seq (oneof ''+-'') (optional (CS (\<lambda>c. is_digit c \<and> c \<noteq> CHR ''0'')))]),
           star blank, optional (Seq (lit ''#'') (star not_eol)), eol_ahead]"

definition block_body :: regex where
  "block_body =
     star (Seq line_break
             (alts [seqs [Backref ''yaml_indent'', blank, star not_eol],
                    Seq (star blank) eol_ahead]))"

definition yaml_block_scalar :: regex where
  "yaml_block_scalar =
     seqs [at_line_start, Grp ''yaml_indent'' (star blank), star (Seq (lit ''-'') (plus1 blank)),
           secret_key_ahead False, quote_opt, SECRET_KEY_RUN, quote_opt,
           star space_class, lit '':'', star space_class, block_indicator, block_body]"

definition bearer_header :: regex where
  "bearer_header =
     seqs [WordBoundary, alts [ilit ''authorization'', ilit ''bearer''], star space_class,
           oneof '':='', star space_class, LazyRep 1 None not_eol,
           Look (Seq (optional (lit [CR])) LineEnd)]"

definition double_quoted_value :: regex where
  "double_quoted_value =
     seqs [lit [DQ],
           star (alts [lit [DQ, DQ], Seq (lit [BSL]) (alts [anychar, TextEnd]), noneof [DQ, BSL]]),
           optional (lit [DQ])]"

definition single_quoted_value :: regex where
  "single_quoted_value =
     seqs [lit [SQ],
           star (alts [lit [SQ, SQ], Seq (lit [BSL]) (alts [anychar, TextEnd]), noneof [SQ, BSL]]),
           optional (lit [SQ])]"

definition keyed_assignment :: regex where
  "keyed_assignment =
     seqs [optional (alts [Seq LineStart (star blank), Seq (oneof '',{'') (star space_class),
                           Seq (lit ''-'') (plus1 space_class)]),
           NotAfter key_char, secret_key_ahead True, quote_opt, SECRET_KEY_RUN, quote_opt,
           pstar space_class, oneof '':='', pstar space_class,
           alts [double_quoted_value, single_quoted_value, plus1 not_eol]]"

definition scheme_char :: "char \<Rightarrow> bool" where
  "scheme_char c \<longleftrightarrow> is_alpha c \<or> is_digit c \<or> c \<in> {CHR ''+'', CHR ''.'', CHR ''-''}"

definition url_userinfo :: regex where
  "url_userinfo =
     seqs [NotAfter scheme_char, CS is_alpha, pstar (CS scheme_char), lit ''://'',
           plus1 (CS (\<lambda>c. \<not> is_space c \<and> c \<notin> set ''/:@'')), lit '':'',
           plus1 (CS (\<lambda>c. \<not> is_space c \<and> c \<notin> set ''/@'')), lit ''@'']"

definition SECRET_CONTENT_RE :: regex where
  "SECRET_CONTENT_RE =
     alts [pem_block, pem_long_label, yaml_block_scalar, bearer_header, keyed_assignment,
           url_userinfo]"


section \<open>YAML headers and structural rules\<close>

definition YAML_DOUBLE_QUOTED_LINE :: regex where
  "YAML_DOUBLE_QUOTED_LINE =
     seqs [lit [DQ], pstar (alts [Seq (lit [BSL]) not_eol, noneof [DQ, BSL, CR, LF]]), lit [DQ]]"

definition YAML_SINGLE_QUOTED_LINE :: regex where
  "YAML_SINGLE_QUOTED_LINE =
     seqs [lit [SQ], pstar (alts [lit [SQ, SQ], noneof [SQ, CR, LF]]), lit [SQ]]"

definition YAML_BLOCK_SCALAR_HEADER_RE :: regex where
  "YAML_BLOCK_SCALAR_HEADER_RE =
     seqs [at_line_start, Grp ''yaml_indent'' (pstar blank), pstar (Seq (lit ''-'') (pplus blank)),
           Atom (optional (Seq (lit ''?'') (pplus blank))),
           Look (alts [Seq (lazy_star not_eol) (SECRET_KEY_FRAGMENT True),
                       seqs [oneof [DQ, SQ], lazy_star not_eol, lit [BSL]]]),
           alts [YAML_DOUBLE_QUOTED_LINE, YAML_SINGLE_QUOTED_LINE,
                 pstar (alts [noneof [CR, LF, CHR '':'', CHR ''#''],
                              Seq (NotAfter (\<lambda>c. c = CHR '' '' \<or> c = TAB)) (lit ''#'')])],
           optional (seqs [pstar blank, lit ''#'', pstar not_eol]),
           star space_class, lit '':'',
           pstar (seqs [plus1 blank, oneof ''&!'', star (noneof [CHR '' '', TAB, CR, LF])]),
           star space_class, block_indicator, block_body]"

definition YAML_REGION_BODY :: regex where
  "YAML_REGION_BODY =
     alts [seqs [Backref ''yaml_indent'', blank, pstar not_eol],
           seqs [pstar blank, optional (Seq (lit ''#'') (pstar not_eol)), eol_ahead]]"

text \<open>A colon that does not end a mapping key: not followed by a blank, a break or the end.\<close>

definition inner_colon :: regex where
  "inner_colon = Seq (lit '':'') (NotLook (alts [oneof [CHR '' '', TAB, CR, LF], TextEnd]))"

definition plain_key_char :: regex where
  "plain_key_char = alts [noneof [CR, LF, CHR '':''], inner_colon]"

definition YAML_PLAIN_KEY_RUN :: regex where
  "YAML_PLAIN_KEY_RUN = pstar plain_key_char"

definition YAML_SINGLE_LINE_SCALAR :: regex where
  "YAML_SINGLE_LINE_SCALAR =
     Seq (pplus blank)
       (alts [seqs [alts [YAML_DOUBLE_QUOTED_LINE, YAML_SINGLE_QUOTED_LINE], pstar blank,
                    optional (Seq (lit ''#'') (pstar not_eol)), eol_ahead],
              Seq (noneof ([CHR '' '', TAB, CR, LF, DQ, SQ] @ ''|>[{&!*%@`#'')) (pstar not_eol)])"

definition YAML_RESOLVED_EXPLICIT_KEY :: regex where
  "YAML_RESOLVED_EXPLICIT_KEY =
     seqs [alts [Seq (alts [seqs [lit [DQ], pstar (noneof [DQ, BSL, CR, LF]), lit [DQ]],
                            YAML_SINGLE_QUOTED_LINE]) (pstar blank),
                 Seq (noneof ([CHR '' '', TAB, CR, LF, DQ, SQ] @ ''&!*|>[{#%@`?:-''))
                     (pstar (noneof [CR, LF, CHR ''#'']))],
           optional (Seq (lit ''#'') (pstar not_eol)), line_break, Backref ''yaml_indent'', lit '':'']"

definition explicit_key_line :: regex where
  "explicit_key_line =
     seqs [lit ''?'', alts [pplus blank, eol_ahead],
           alts [Look (Seq (lazy_star not_eol) (SECRET_KEY_FRAGMENT True)),
                 NotLook YAML_RESOLVED_EXPLICIT_KEY],
           pstar not_eol, Grp ''explicit_tail'' (pstar anychar)]"

definition implicit_key_line :: regex where
  "implicit_key_line =
     seqs [Look (alts [Seq (lazy_star plain_key_char) (SECRET_KEY_FRAGMENT True),
                       seqs [lit [DQ], lazy_star (alts [Seq (lit [BSL]) not_eol, noneof [DQ, BSL, CR, LF]]),
                             SECRET_KEY_FRAGMENT True],
                       seqs [lit [SQ], lazy_star (alts [lit [SQ, SQ], noneof [SQ, CR, LF]]),
                             SECRET_KEY_FRAGMENT True],
                       seqs [lit [DQ], pstar (noneof [DQ, BSL, CR, LF]), lit [BSL]]]),
           Look (seqs [lazy_star not_eol, lit '':'', alts [oneof [CHR '' '', TAB, CR, LF], TextEnd]]),
           alts [seqs [alts [YAML_DOUBLE_QUOTED_LINE, YAML_SINGLE_QUOTED_LINE,
                             Seq (NotLook (oneof [DQ, SQ])) YAML_PLAIN_KEY_RUN],
                       pstar blank, lit '':'', YAML_SINGLE_LINE_SCALAR,
                       Grp ''region'' (pstar (Seq line_break YAML_REGION_BODY))],
                 Seq (pstar not_eol) (Grp ''tail'' (pstar anychar))]]"

definition YAML_SENSITIVE_VALUE_RE :: regex where
  "YAML_SENSITIVE_VALUE_RE =
     seqs [at_line_start, Grp ''yaml_indent'' (pstar blank), pstar (Seq (lit ''-'') (pplus blank)),
           pstar (seqs [oneof ''&!'', pstar (noneof [CHR '' '', TAB, CR, LF]), pplus blank]),
           alts [explicit_key_line, implicit_key_line]]"

definition FLOW_OPENER_RE :: regex where
  "FLOW_OPENER_RE = alts [lit ''{'', Seq (lit ''['') (NotLook (lit ''REDACTED]''))]"

definition FLOW_SENSITIVE_TOKEN_RE :: regex where
  "FLOW_SENSITIVE_TOKEN_RE =
     alts [SECRET_KEY_FRAGMENT True, lit [BSL],
           seqs [at_line_start, pstar blank, lit ''?'',
                 Look (alts [oneof [CHR '' '', TAB, CR, LF], TextEnd])]]"

definition QUOTED_KEY_END_RE :: regex where
  "QUOTED_KEY_END_RE = seqs [lit [DQ], pstar blank, lit '':'']"

definition LINE_BREAK_RE :: regex where
  "LINE_BREAK_RE = alts [lit [CR, LF], lit [CR], lit [LF]]"



section \<open>The vault reference of constants.py\<close>

definition NMS_SECRET_REFERENCE_RE :: regex where
  "NMS_SECRET_REFERENCE_RE =
     (let hex = (\<lambda>n. Rep n (Some n) (CS is_hex)) in
      seqs [lit ''nms-secret:'', hex 8, lit ''-'', hex 4, lit ''-'', oneof ''12345'', hex 3, lit ''-'',
            oneof ''89abAB'', hex 3, lit ''-'', hex 12, TextEnd])"

end
