(* ===== verification/SpanRedaction.thy ===== *)
theory SpanRedaction
  imports SecretPatterns "HOL-Library.Product_Lexorder"
begin

text \<open>
  Redaction of secret content in persisted text, \<open>netbox_rpc/event_store.py\<close> from
  \<open>_escaped_key_line_start\<close> to \<open>_redact_secret_text\<close>: the spans the base patterns and
  the structural YAML rules select, the pieces that carry the original position of every
  kept character through the passes, and the bounded fixed point.

  A piece is a length with the original start of its first character, \<open>None\<close> (the
  source's -1) for inserted characters.
\<close>

type_synonym span = "nat \<times> nat"
type_synonym piece = "nat \<times> nat option"

section \<open>Spans\<close>

definition str_find :: "string \<Rightarrow> char \<Rightarrow> nat \<Rightarrow> nat option" where
  "str_find t c i = List.find (\<lambda>j. t ! j = c) [i..<length t]"

text \<open>\<open>max(t.rfind("\n", 0, i), t.rfind("\r", 0, i)) + 1\<close>.\<close>

definition line_start :: "string \<Rightarrow> nat \<Rightarrow> nat" where
  "line_start t i = (case List.find (\<lambda>j. t ! j = LF \<or> t ! j = CR) (rev [0..<min i (length t)]) of
       None \<Rightarrow> 0 | Some j \<Rightarrow> Suc j)"

function escaped_key_line_start_from :: "string \<Rightarrow> nat \<Rightarrow> nat option" where
  "escaped_key_line_start_from t position =
     (case str_find t BSL position of
        None \<Rightarrow> None
      | Some backslash \<Rightarrow>
          (let line_break = search_from LINE_BREAK_RE t False backslash;
               line_end = (case line_break of None \<Rightarrow> length t | Some m \<Rightarrow> m_start m)
           in if search_from QUOTED_KEY_END_RE (take line_end t) False backslash \<noteq> None
              then Some (line_start t backslash)
              else (case line_break of
                  None \<Rightarrow> None
                | Some m \<Rightarrow> if position < m_end m \<and> position < length t
                            then escaped_key_line_start_from t (m_end m) else None)))"
  by pat_completeness auto
termination
  by (relation "measure (\<lambda>(t, p). length t - p)") auto

declare escaped_key_line_start_from.simps [simp del]

definition escaped_key_line_start :: "string \<Rightarrow> nat option" where
  "escaped_key_line_start t = escaped_key_line_start_from t 0"

definition fail_closed_tails :: "string \<Rightarrow> span list" where
  "fail_closed_tails t =
     (case search_from FLOW_OPENER_RE t False 0 of
        None \<Rightarrow> []
      | Some opener \<Rightarrow>
          (case search_from FLOW_SENSITIVE_TOKEN_RE t False (line_start t (m_start opener)) of
             None \<Rightarrow> [] | Some tk \<Rightarrow> [(m_start tk, length t)]))
     @ (case escaped_key_line_start t of None \<Rightarrow> [] | Some e \<Rightarrow> [(e, length t)])"

definition value_group :: "rx_groups \<Rightarrow> span" where
  "value_group g = (case map_of g ''explicit_tail'' of
       Some s \<Rightarrow> s
     | None \<Rightarrow> (case map_of g ''tail'' of
           Some s \<Rightarrow> s
         | None \<Rightarrow> (case map_of g ''region'' of Some s \<Rightarrow> s | None \<Rightarrow> (0, 0))))"

definition sensitive_value_spans :: "string \<Rightarrow> span list" where
  "sensitive_value_spans t =
     filter (\<lambda>(a, b). a < b)
       (map (\<lambda>m. let (a, b) = value_group (m_groups m)
                 in (a + (if prefix [CR, LF] (drop a t) then 2 else 1), b))
          (finditer YAML_SENSITIVE_VALUE_RE t)
        @ fail_closed_tails t)"

definition merge_step :: "span list \<Rightarrow> span \<Rightarrow> span list" where
  "merge_step merged s = (case merged of
       [] \<Rightarrow> [s]
     | (a, b) # rest \<Rightarrow> if fst s < b then (a, max b (snd s)) # rest else s # merged)"

definition merge_spans :: "span list \<Rightarrow> span list" where
  "merge_spans ss = rev (foldl merge_step [] (sort ss))"

definition secret_spans :: "string \<Rightarrow> span list" where
  "secret_spans t =
     (let spans = map m_span (finditer SECRET_CONTENT_RE t);
          extra = map m_span (finditer YAML_BLOCK_SCALAR_HEADER_RE t)
      in if extra = [] then spans else merge_spans (spans @ extra))"

definition REDACTION_MARKER :: string where
  "REDACTION_MARKER = ''[REDACTED]''"


section \<open>Pieces\<close>

text \<open>
  \<open>_PieceCursor.take\<close>: the cursor is the list of pieces not yet passed with the offset of
  its first one; the result is the pieces covering the range and the moved cursor.
\<close>

fun cursor_take :: "piece list \<Rightarrow> nat \<Rightarrow> nat \<Rightarrow> nat \<Rightarrow> piece list \<times> piece list \<times> nat" where
  "cursor_take [] off a b = ([], [], off)"
| "cursor_take ((len, src) # ps) off a b =
     (let piece_end = off + len;
          low = max a off;
          high = min b piece_end;
          out = (if low < high then [(high - low, map_option (\<lambda>s. s + low - off) src)] else [])
      in if piece_end > b then (out, (len, src) # ps, off)
         else (let (r, cur) = cursor_take ps piece_end a b in (out @ r, cur)))"

fun redact_spans_pieces :: "nat \<Rightarrow> piece list \<Rightarrow> nat \<Rightarrow> nat \<Rightarrow> span list \<Rightarrow> piece list" where
  "redact_spans_pieces n ps off pos [] = fst (cursor_take ps off pos n)"
| "redact_spans_pieces n ps off pos ((a, b) # ss) =
     (let (r, ps1, off1) = cursor_take ps off pos a;
          (_, ps2, off2) = cursor_take ps1 off1 a b
      in r @ (length REDACTION_MARKER, None) # redact_spans_pieces n ps2 off2 b ss)"

text \<open>Replacing ranges of a list by a mark, reading the list from position \<open>pos\<close>.\<close>

fun replace_ranges :: "'a list \<Rightarrow> 'a list \<Rightarrow> nat \<Rightarrow> span list \<Rightarrow> 'a list" where
  "replace_ranges mark xs pos [] = drop pos xs"
| "replace_ranges mark xs pos ((a, b) # ss) =
     take (a - pos) (drop pos xs) @ mark @ replace_ranges mark xs b ss"

definition redact_spans_tracked :: "string \<Rightarrow> piece list \<Rightarrow> span list \<Rightarrow> string \<times> piece list" where
  "redact_spans_tracked t ps spans =
     (replace_ranges REDACTION_MARKER t 0 spans, redact_spans_pieces (length t) ps 0 0 spans)"

text \<open>The binary search of \<open>_bound_tracked\<close> for the longest common prefix.\<close>

function common_prefix :: "string \<Rightarrow> string \<Rightarrow> nat \<Rightarrow> nat \<Rightarrow> nat" where
  "common_prefix t u low high =
     (if low < high then
        (let middle = (low + high + 1) div 2
         in if take middle t = take middle u then common_prefix t u middle high
            else common_prefix t u low (middle - 1))
      else low)"
  by pat_completeness auto
termination
  by (relation "measure (\<lambda>(_, _, low, high). high - low)") auto

declare common_prefix.simps [simp del]

definition bound_tracked :: "string \<Rightarrow> piece list \<Rightarrow> string \<Rightarrow> piece list" where
  "bound_tracked t ps bounded =
     (if bounded = t then ps
      else (let low = common_prefix t bounded 0 (min (length t) (length bounded))
            in fst (cursor_take ps 0 0 low)
               @ (if low < length bounded then [(length bounded - low, None)] else [])))"

fun masked_loop :: "piece list \<Rightarrow> span list \<Rightarrow> nat \<Rightarrow> span list" where
  "masked_loop [] structural off = []"
| "masked_loop ((len, src) # ps) structural off =
     (case src of
        None \<Rightarrow> masked_loop ps structural (off + len)
      | Some s \<Rightarrow>
          (let rest = dropWhile (\<lambda>(a, b). b \<le> s) structural;
               hits = takeWhile (\<lambda>(a, b). a < s + len) rest
           in map (\<lambda>(a, b). (off + (max a s - s), off + (min b (s + len) - s))) hits
              @ masked_loop ps rest (off + len)))"

definition merge_touching_step :: "span list \<Rightarrow> span \<Rightarrow> span list" where
  "merge_touching_step merged s = (case merged of
       [] \<Rightarrow> [s]
     | (a, b) # rest \<Rightarrow> if fst s \<le> b then (a, max b (snd s)) # rest else s # merged)"

definition merge_touching :: "span list \<Rightarrow> span list" where
  "merge_touching ss = rev (foldl merge_touching_step [] ss)"

fun inserted_ranges_from :: "piece list \<Rightarrow> nat \<Rightarrow> span list" where
  "inserted_ranges_from [] off = []"
| "inserted_ranges_from ((len, src) # ps) off =
     (if src = None then [(off, off + len)] else []) @ inserted_ranges_from ps (off + len)"

definition inserted_ranges :: "piece list \<Rightarrow> span list" where
  "inserted_ranges ps = inserted_ranges_from ps 0"

definition group_step ::
  "(nat \<times> nat \<times> bool) list \<Rightarrow> nat \<times> nat \<times> bool \<Rightarrow> (nat \<times> nat \<times> bool) list" where
  "group_step groups e = (case groups of
       [] \<Rightarrow> [e]
     | (a, b, m) # rest \<Rightarrow>
         if fst e \<le> b then (a, max b (fst (snd e)), m \<or> snd (snd e)) # rest else e # groups)"

definition absorb_inserted :: "piece list \<Rightarrow> span list \<Rightarrow> span list" where
  "absorb_inserted ps ranges =
     (if ranges = [] then []
      else (let tagged = map (\<lambda>(a, b). (a, b, True)) ranges
                       @ map (\<lambda>(a, b). (a, b, False)) (inserted_ranges ps);
                groups = rev (foldl group_step [] (sort tagged))
            in map (\<lambda>(a, b, _). (a, b)) (filter (\<lambda>(_, _, m). m) groups)))"

definition masked_ranges :: "piece list \<Rightarrow> span list \<Rightarrow> span list" where
  "masked_ranges ps structural = absorb_inserted ps (merge_touching (masked_loop ps structural 0))"

definition mask_structural :: "string \<Rightarrow> piece list \<Rightarrow> span list \<Rightarrow> string" where
  "mask_structural t ps structural = replace_ranges REDACTION_MARKER t 0 (masked_ranges ps structural)"

definition redact_secret_spans :: "string \<Rightarrow> string" where
  "redact_secret_spans t = fst (redact_spans_tracked t [(length t, Some 0)] (secret_spans t))"


section \<open>The bounded fixed point\<close>

definition SECRET_TEXT_PASSES :: nat where
  "SECRET_TEXT_PASSES = 4"

fun fixed_point_passes ::
  "nat \<Rightarrow> (string \<Rightarrow> string) \<Rightarrow> string \<Rightarrow> piece list \<Rightarrow> (string \<times> piece list) option" where
  "fixed_point_passes 0 bound current ps = None"
| "fixed_point_passes (Suc k) bound current ps =
     (let (redacted, rps) = redact_spans_tracked current ps (secret_spans current);
          bounded = bound redacted;
          bps = bound_tracked redacted rps bounded
      in if bounded = current then Some (current, ps)
         else fixed_point_passes k bound bounded bps)"

definition base_fixed_point :: "string \<Rightarrow> (string \<Rightarrow> string) \<Rightarrow> (string \<times> piece list) option" where
  "base_fixed_point t bound =
     fixed_point_passes SECRET_TEXT_PASSES bound t (if t = [] then [] else [(length t, Some 0)])"

definition redact_bounded :: "string \<Rightarrow> (string \<Rightarrow> string) \<Rightarrow> string" where
  "redact_bounded t bound =
     (if fullmatch NMS_SECRET_REFERENCE_RE t then t
      else (case base_fixed_point t bound of
          None \<Rightarrow> REDACTION_MARKER
        | Some (current, ps) \<Rightarrow>
            (let structural = merge_spans (sensitive_value_spans t)
             in if structural = [] then current
                else (case base_fixed_point (bound (mask_structural current ps structural)) bound of
                    None \<Rightarrow> REDACTION_MARKER
                  | Some (again, _) \<Rightarrow> again))))"

definition redact_secret_text :: "string \<Rightarrow> string" where
  "redact_secret_text t = redact_bounded t (\<lambda>v. v)"

definition contains_secret_text :: "string \<Rightarrow> bool" where
  "contains_secret_text t \<longleftrightarrow> redact_secret_text t \<noteq> t"


section \<open>The result is stable under another pass\<close>

lemma fixed_point_passes_stable:
  "fixed_point_passes k bound current ps = Some (r, q) \<Longrightarrow> bound (redact_secret_spans r) = r"
  by (induction k arbitrary: current ps)
    (auto simp: Let_def redact_spans_tracked_def redact_secret_spans_def split: if_splits)

lemma base_fixed_point_stable:
  "base_fixed_point t bound = Some (r, q) \<Longrightarrow> bound (redact_secret_spans r) = r"
  by (auto simp: base_fixed_point_def dest: fixed_point_passes_stable)

lemma redact_bounded_cases:
  obtains (reference) "fullmatch NMS_SECRET_REFERENCE_RE t" "redact_bounded t bound = t"
    | (marker) "redact_bounded t bound = REDACTION_MARKER"
    | (stable) "bound (redact_secret_spans (redact_bounded t bound)) = redact_bounded t bound"
proof -
  show thesis
  proof (cases "fullmatch NMS_SECRET_REFERENCE_RE t \<or> redact_bounded t bound = REDACTION_MARKER")
    case True
    with reference marker show ?thesis by (auto simp: redact_bounded_def)
  next
    case False
    then have "bound (redact_secret_spans (redact_bounded t bound)) = redact_bounded t bound"
      by (auto simp: redact_bounded_def Let_def split: option.splits prod.splits if_splits
          dest: base_fixed_point_stable)
    with stable show ?thesis .
  qed
qed


section \<open>Where the kept characters come from\<close>

text \<open>The original position of every character of a text, read off its pieces.\<close>

definition piece_origins :: "piece \<Rightarrow> nat option list" where
  "piece_origins p = map (\<lambda>i. map_option (\<lambda>s. s + i) (snd p)) [0..<fst p]"

definition origins :: "piece list \<Rightarrow> nat option list" where
  "origins ps = concat (map piece_origins ps)"

lemma origins_simps [simp]:
  "origins [] = []"
  "origins (p # ps) = piece_origins p @ origins ps"
  "origins (ps @ qs) = origins ps @ origins qs"
  by (simp_all add: origins_def)

lemma length_piece_origins [simp]: "length (piece_origins p) = fst p"
  by (simp add: piece_origins_def)

definition slice :: "nat \<Rightarrow> nat \<Rightarrow> 'a list \<Rightarrow> 'a list" where
  "slice a b xs = drop a (take b xs)"

lemma length_slice [simp]: "length (slice a b xs) = min b (length xs) - a"
  by (simp add: slice_def)

lemma nth_slice [simp]: "i < min b (length xs) - a \<Longrightarrow> slice a b xs ! i = xs ! (a + i)"
  unfolding slice_def by (subst nth_drop) auto

lemma slice_append:
  "slice a b (xs @ ys) = slice a b xs @ slice (a - length xs) (b - length xs) ys"
  by (cases "b \<le> length xs") (simp_all add: slice_def min_def)

lemma slice_clip: "slice a (min b (length xs)) xs = slice a b xs"
  by (cases "b \<le> length xs") (simp_all add: slice_def min_def)

lemma piece_origins_slice:
  assumes "low < high" "off \<le> low" "high \<le> off + len"
  shows "piece_origins (high - low, map_option (\<lambda>s. s + low - off) src) =
    slice (low - off) (high - off) (piece_origins (len, src))"
  using assms by (intro nth_equalityI) (auto simp: piece_origins_def option.map_comp comp_def
      intro: option.map_cong)

lemma slice_empty [simp]: "min b (length xs) \<le> a \<Longrightarrow> slice a b xs = []"
  by (simp add: slice_def)

text \<open>
  Taking a range from a cursor returns the origins of that range, and moves the cursor to a
  suffix that still holds everything from the end of the range on.
\<close>

lemma cursor_take_origins:
  assumes "cursor_take ps off a b = (r, ps', off')"
  shows "origins r = slice (a - off) (b - off) (origins ps)"
    and "\<exists>k. off' = off + k \<and> origins ps' = drop k (origins ps) \<and> (off \<le> b \<longrightarrow> off' \<le> b) \<and> k \<le> length (origins ps)"
  using assms
proof (induction ps off a b arbitrary: r ps' off' rule: cursor_take.induct)
  case (1 off a b)
  {
    case 1
    then show ?case by (simp add: slice_def)
  next
    case 2
    then show ?case by simp
  }
next
  case (2 len src ps off a b)
  define out where "out = (if max a off < min b (off + len)
      then [(min b (off + len) - max a off, map_option (\<lambda>s. s + max a off - off) src)] else [])"
  have step: "cursor_take ((len, src) # ps) off a b =
      (if off + len > b then (out, (len, src) # ps, off)
       else (let (r, cur) = cursor_take ps (off + len) a b in (out @ r, cur)))"
    by (simp only: cursor_take.simps Let_def out_def)
  have out: "origins out = slice (a - off) (b - off) (piece_origins (len, src))"
  proof (cases "max a off < min b (off + len)")
    case True
    have "max a off - off = a - off" "min b (off + len) - off = min (b - off) len" by auto
    then have "slice (max a off - off) (min b (off + len) - off) (piece_origins (len, src)) =
        slice (a - off) (b - off) (piece_origins (len, src))"
      using slice_clip [of "a - off" "b - off" "piece_origins (len, src)"] by simp
    with piece_origins_slice [OF True, of off len src] True show ?thesis
      by (simp add: out_def)
  next
    case False
    then show ?thesis by (auto simp: out_def)
  qed
  {
    case 1
    show ?case
    proof (cases "off + len > b")
      case True
      with 1 have "r = out" by (simp add: step del: cursor_take.simps)
      moreover have "slice (a - off - len) (b - off - len) (origins ps) = []" using True by simp
      ultimately show ?thesis using out by (simp add: slice_append)
    next
      case False
      with 1 obtain r2 cur where c: "cursor_take ps (off + len) a b = (r2, cur)" "r = out @ r2"
        by (auto simp: step Let_def simp del: cursor_take.simps split: prod.splits)
      obtain ps2 off2 where "cur = (ps2, off2)" by (cases cur)
      with c "2.IH"(1) [OF refl refl refl refl False] show ?thesis
        by (simp add: out slice_append)
    qed
  next
    case 2
    show ?case
    proof (cases "off + len > b")
      case True
      with 2 have "ps' = (len, src) # ps" "off' = off" by (auto simp: Let_def)
      then show ?thesis by (intro exI [of _ 0]) simp
    next
      case False
      with 2 obtain r2 where c: "cursor_take ps (off + len) a b = (r2, ps', off')"
        by (auto simp: Let_def split: prod.splits)
      from "2.IH"(2) [OF refl refl refl refl False c] obtain k where
        "off' = off + len + k" "origins ps' = drop k (origins ps)" "off' \<le> b" "k \<le> length (origins ps)"
        using False by auto
      then show ?thesis by (intro exI [of _ "len + k"]) auto
    qed
  }
qed


section \<open>Merging\<close>

lemma merge_step_inv:
  assumes "spans_from 0 n (rev acc)" "c \<le> d" "d \<le> n" "acc \<noteq> [] \<longrightarrow> fst (hd acc) \<le> c"
  shows "spans_from 0 n (rev (merge_step acc (c, d)))" "cov (merge_step acc (c, d)) = cov acc \<union> {c..<d}"
    "fst (hd (merge_step acc (c, d))) \<le> c" "merge_step acc (c, d) \<noteq> []"
proof -
  have "spans_from 0 n (rev (merge_step acc (c, d))) \<and>
    cov (merge_step acc (c, d)) = cov acc \<union> {c..<d} \<and>
    fst (hd (merge_step acc (c, d))) \<le> c \<and> merge_step acc (c, d) \<noteq> []"
  proof (cases acc)
  case (Cons s rest)
  obtain a b where s: "s = (a, b)" by (cases s)
  from assms Cons s have "spans_from 0 a (rev rest)" "a \<le> b" "b \<le> n" "a \<le> c"
    by (simp_all add: spans_from_snoc)
  moreover have "spans_from 0 c (rev rest @ [(a, b)])" if "\<not> c < b"
    using calculation that by (simp add: spans_from_snoc)
  ultimately show ?thesis
    using Cons s assms(2,3) spans_from_snoc [of 0 n "rev rest @ [(a, b)]" c d]
    by (auto simp: merge_step_def spans_from_snoc)
  qed (use assms in \<open>simp add: merge_step_def\<close>)
  then show "spans_from 0 n (rev (merge_step acc (c, d)))"
    "cov (merge_step acc (c, d)) = cov acc \<union> {c..<d}"
    "fst (hd (merge_step acc (c, d))) \<le> c" "merge_step acc (c, d) \<noteq> []"
    by blast+
qed

lemma foldl_merge_inv:
  assumes "sorted ss" "\<And>a b. (a, b) \<in> set ss \<Longrightarrow> a \<le> b \<and> b \<le> n"
    "spans_from 0 n (rev acc)" "acc \<noteq> [] \<longrightarrow> (\<forall>s \<in> set ss. fst (hd acc) \<le> fst s)"
  shows "spans_from 0 n (rev (foldl merge_step acc ss)) \<and> cov (foldl merge_step acc ss) = cov acc \<union> cov ss"
  using assms
proof (induction ss arbitrary: acc)
  case (Cons s ss)
  obtain c d where s: "s = (c, d)" by (cases s)
  note step = merge_step_inv [of n acc c d]
  have le: "c \<le> d" "d \<le> n" using Cons.prems(2) s by auto
  have hd: "acc \<noteq> [] \<longrightarrow> fst (hd acc) \<le> c" using Cons.prems(4) s by auto
  have "c \<le> fst t" if "t \<in> set ss" for t
    using Cons.prems(1) s that by (auto simp: less_eq_prod_def)
  then have nxt: "\<forall>t \<in> set ss. fst (hd (merge_step acc (c, d))) \<le> fst t"
    using step(3) [OF Cons.prems(3) le hd] by fastforce
  have "spans_from 0 n (rev (foldl merge_step (merge_step acc (c, d)) ss)) \<and>
      cov (foldl merge_step (merge_step acc (c, d)) ss) = cov (merge_step acc (c, d)) \<union> cov ss"
    by (rule Cons.IH) (use Cons.prems(1,2) s step(1) [OF Cons.prems(3) le hd] nxt in auto)
  with step(2) [OF Cons.prems(3) le hd] s show ?case by auto
qed simp

lemma merge_spans_spec:
  assumes "\<And>a b. (a, b) \<in> set ss \<Longrightarrow> a \<le> b \<and> b \<le> n"
  shows "spans_from 0 n (merge_spans ss)" and "cov (merge_spans ss) = cov ss"
proof -
  have "spans_from 0 n (rev (foldl merge_step [] (sort ss))) \<and>
      cov (foldl merge_step [] (sort ss)) = cov [] \<union> cov (sort ss)"
    by (rule foldl_merge_inv) (use assms in auto)
  moreover have "cov (sort ss) = cov ss" by (simp add: cov_def)
  ultimately show "spans_from 0 n (merge_spans ss)" "cov (merge_spans ss) = cov ss"
    by (simp_all add: merge_spans_def)
qed

lemma secret_spans_ok: "spans_from 0 (length t) (secret_spans t)"
proof -
  have fi: "a \<le> b \<and> b \<le> length t" if "(a, b) \<in> set (map m_span (finditer r t))" for a b r
    using spans_from_bounds [OF finditer_spans that] by simp
  have "spans_from 0 (length t)
      (merge_spans (map m_span (finditer SECRET_CONTENT_RE t) @ map m_span (finditer YAML_BLOCK_SCALAR_HEADER_RE t)))"
    by (rule merge_spans_spec(1)) (use fi in \<open>auto simp del: set_map\<close>)
  then show ?thesis
    by (simp add: secret_spans_def Let_def finditer_spans)
qed


section \<open>Replacement keeps origins\<close>

lemma slice_drop: "off \<le> a \<Longrightarrow> slice (a - off) (b - off) (drop off xs) = slice a b xs"
  by (cases "off \<le> b") (auto simp: slice_def take_drop)

lemma slice_take_drop: "slice a b xs = take (b - a) (drop a xs)"
  by (simp add: slice_def drop_take)

lemma redact_spans_pieces_origins:
  assumes "length orgs = n" "origins ps = drop off orgs" "off \<le> pos" "spans_from pos n ss"
  shows "origins (redact_spans_pieces n ps off pos ss) =
    replace_ranges (replicate (length REDACTION_MARKER) None) orgs pos ss"
  using assms(2-4)
proof (induction ss arbitrary: ps off pos)
  case Nil
  obtain r ps' off' where c: "cursor_take ps off pos n = (r, ps', off')" by (cases "cursor_take ps off pos n") auto
  from cursor_take_origins(1) [OF c] Nil assms(1) show ?case
    by (simp add: c slice_drop) (simp add: slice_def)
next
  case (Cons s ss)
  obtain a b where s: "s = (a, b)" by (cases s)
  obtain r ps1 off1 where c1: "cursor_take ps off pos a = (r, ps1, off1)"
    by (cases "cursor_take ps off pos a") auto
  obtain r2 ps2 off2 where c2: "cursor_take ps1 off1 a b = (r2, ps2, off2)"
    by (cases "cursor_take ps1 off1 a b") auto
  from Cons.prems s have le: "off \<le> a" "a \<le> b" "spans_from b n ss" by auto
  from cursor_take_origins(2) [OF c1] le Cons.prems(1) obtain "off1 \<le> a" "origins ps1 = drop off1 orgs"
    by (auto simp: add.commute)
  with cursor_take_origins(2) [OF c2] le obtain "off2 \<le> b" "origins ps2 = drop off2 orgs"
    by (auto simp: add.commute)
  from Cons.IH [OF this(2,1) le(3)] cursor_take_origins(1) [OF c1] Cons.prems s show ?case
    by (simp add: c1 c2 slice_drop slice_take_drop) (simp add: piece_origins_def map_replicate_trivial map_replicate_const)
qed


section \<open>The tracking invariant\<close>

fun present :: "'a option list \<Rightarrow> 'a list" where
  "present [] = []"
| "present (None # xs) = present xs"
| "present (Some x # xs) = x # present xs"

text \<open>
  The pieces \<open>ps\<close> of \<open>t\<close> describe where it came from in \<open>orig\<close>: there is one origin per
  character, an origin names the same character of the original text, origins increase, and
  no piece is empty.
\<close>

definition tracked :: "string \<Rightarrow> string \<Rightarrow> piece list \<Rightarrow> bool" where
  "tracked orig t ps \<longleftrightarrow>
     length (origins ps) = length t \<and>
     (\<forall>(c, o1) \<in> set (zip t (origins ps)). \<forall>p. o1 = Some p \<longrightarrow> p < length orig \<and> orig ! p = c) \<and>
     sorted_wrt (<) (present (origins ps)) \<and>
     (\<forall>p \<in> set ps. 0 < fst p)"

lemma present_append [simp]: "present (xs @ ys) = present xs @ present ys"
  by (induction xs rule: present.induct) auto

lemma present_None [simp]: "present (replicate k None) = []"
  by (induction k) simp_all

lemma replace_ranges_subseq:
  assumes "spans_from pos (length xs) ss"
  shows "subseq (present (replace_ranges (replicate k None) xs pos ss))
           (present (drop pos xs))"
  using assms
proof (induction ss arbitrary: pos)
  case (Cons s ss)
  obtain a b where s: "s = (a, b)" by (cases s)
  with Cons.prems have le: "pos \<le> a" "a \<le> b" "spans_from b (length xs) ss" by auto
  have "drop pos xs = take (a - pos) (drop pos xs) @ drop a xs"
    using le(1) by (metis append_take_drop_id drop_drop le_add_diff_inverse2)
  moreover have "drop a xs = take (b - a) (drop a xs) @ drop b xs"
    using le(2) by (metis append_take_drop_id drop_drop le_add_diff_inverse2)
  ultimately have "present (drop pos xs) =
      present (take (a - pos) (drop pos xs)) @ present (take (b - a) (drop a xs))
      @ present (drop b xs)"
    by (metis present_append)
  with Cons.IH [OF le(3)] s show ?case
    by (simp add: list_emb_append_mono list_emb_append2)
qed simp

lemma sorted_wrt_subseq: "subseq xs ys \<Longrightarrow> sorted_wrt P ys \<Longrightarrow> sorted_wrt P xs"
proof (induction rule: list_emb.induct)
  case (list_emb_Cons2 x y xs ys)
  then show ?case by (auto dest: list_emb_set)
qed auto

lemma replace_ranges_set:
  assumes "spans_from pos (length xs) ss" "x \<in> set (replace_ranges mark xs pos ss)"
  shows "x \<in> set mark \<or> (\<exists>i < length xs. pos \<le> i \<and> i \<notin> cov ss \<and> x = xs ! i)"
  using assms
proof (induction ss arbitrary: pos)
  case Nil
  then show ?case by (auto simp: in_set_conv_nth) (metis le_add1 less_diff_conv add.commute)
next
  case (Cons s ss)
  obtain a b where s: "s = (a, b)" by (cases s)
  with Cons.prems have le: "pos \<le> a" "a \<le> b" "spans_from b (length xs) ss" by auto
  from Cons.prems(2) s consider "x \<in> set (take (a - pos) (drop pos xs))" | "x \<in> set mark"
    | "x \<in> set (replace_ranges mark xs b ss)" by auto
  then show ?case
  proof cases
    case 1
    then obtain j where j: "j < a - pos" "pos + j < length xs" "x = xs ! (pos + j)"
      by (auto simp: in_set_conv_nth)
    moreover have "pos + j \<notin> cov ss"
      using j(1) le spans_from_bounds [OF le(3)] by (fastforce simp: in_cov_iff)
    ultimately show ?thesis using s by (intro disjI2 exI [of _ "pos + j"]) auto
  next
    case 3
    with Cons.IH [OF le(3)] le s show ?thesis by fastforce
  qed simp
qed

lemma zip_replace_ranges:
  assumes "length xs = length ys" "length m = length k"
  shows "zip (replace_ranges m xs pos ss) (replace_ranges k ys pos ss) = replace_ranges (zip m k) (zip xs ys) pos ss"
  using assms by (induction ss arbitrary: pos) (auto simp: zip_append drop_zip take_zip)

lemma length_replace_ranges:
  "length xs = length ys \<Longrightarrow> length m = length k \<Longrightarrow>
     length (replace_ranges m xs pos ss) = length (replace_ranges k ys pos ss)"
  by (induction ss arbitrary: pos) auto

lemma cursor_take_pos:
  "cursor_take ps off a b = (r, ps', off') \<Longrightarrow> (\<forall>p \<in> set r. 0 < fst p)"
proof (induction ps off a b arbitrary: r ps' off' rule: cursor_take.induct)
  case (2 len src ps off a b)
  then show ?case
    by (fastforce simp: Let_def split: if_splits prod.splits)
qed simp

lemma redact_spans_pieces_pos: "\<forall>p \<in> set (redact_spans_pieces n ps off pos ss). 0 < fst p"
proof (induction ss arbitrary: ps off pos)
  case Nil
  then show ?case
    using cursor_take_pos by (cases "cursor_take ps off pos n") fastforce
next
  case (Cons s ss)
  obtain a b where s: "s = (a, b)" by (cases s)
  obtain r ps1 off1 where c1: "cursor_take ps off pos a = (r, ps1, off1)"
    by (cases "cursor_take ps off pos a") auto
  obtain r2 ps2 off2 where c2: "cursor_take ps1 off1 a b = (r2, ps2, off2)"
    by (cases "cursor_take ps1 off1 a b") auto
  from Cons.IH [of ps2 off2 b] cursor_take_pos [OF c1] s show ?case
    by (auto simp: c1 c2 REDACTION_MARKER_def)
qed

lemma tracked_redact_spans:
  assumes "tracked orig t ps" "spans_from 0 (length t) ss" "redact_spans_tracked t ps ss = (u, qs)"
  shows "tracked orig u qs"
proof -
  let ?none = "replicate (length REDACTION_MARKER) None :: nat option list"
  have len: "length (origins ps) = length t" using assms(1) by (simp add: tracked_def)
  have u: "u = replace_ranges REDACTION_MARKER t 0 ss" and qs: "qs = redact_spans_pieces (length t) ps 0 0 ss"
    using assms(3) by (simp_all add: redact_spans_tracked_def)
  have o: "origins qs = replace_ranges ?none (origins ps) 0 ss"
    unfolding qs using redact_spans_pieces_origins [OF len, of ps 0 0 ss] assms(2) by simp
  have z: "zip u (origins qs) = replace_ranges (zip REDACTION_MARKER ?none) (zip t (origins ps)) 0 ss"
    unfolding u o by (rule zip_replace_ranges) (simp_all add: len)
  have ok: "spans_from 0 (length (zip t (origins ps))) ss" using assms(2) len by simp
  have "p < length orig \<and> orig ! p = c" if "(c, Some p) \<in> set (zip u (origins qs))" for c p
    using replace_ranges_set [OF ok that [unfolded z]] assms(1) nth_mem [of _ "zip t (origins ps)"]
    by (fastforce simp: tracked_def dest: set_zip_rightD)
  moreover have "length (origins qs) = length u"
    unfolding u o using length_replace_ranges [OF len, of ?none REDACTION_MARKER 0 ss] by simp
  moreover have "sorted_wrt (<) (present (origins qs))"
    using sorted_wrt_subseq [OF replace_ranges_subseq [of 0 "origins ps" ss]] assms(1,2) len
    by (simp add: o tracked_def)
  ultimately show ?thesis
    using redact_spans_pieces_pos by (auto simp: tracked_def qs)
qed


lemma common_prefix_spec:
  assumes "take low t = take low u" "low \<le> high"
  shows "take (common_prefix t u low high) t = take (common_prefix t u low high) u
    \<and> low \<le> common_prefix t u low high \<and> common_prefix t u low high \<le> high"
  using assms
proof (induction t u low high rule: common_prefix.induct)
  case (1 t u low high)
  show ?case
  proof (cases "low < high")
    case True
    define middle where "middle = (low + high + 1) div 2"
    have m: "low < middle" "middle \<le> high" using True by (auto simp: middle_def)
    show ?thesis
    proof (cases "take middle t = take middle u")
      case eq: True
      with True have "common_prefix t u low high = common_prefix t u middle high"
        by (subst common_prefix.simps) (simp add: middle_def Let_def)
      with "1.IH"(1) [OF True middle_def eq eq m(2)] m show ?thesis by simp
    next
      case ne: False
      with True have "common_prefix t u low high = common_prefix t u low (middle - 1)"
        by (subst common_prefix.simps) (simp add: middle_def Let_def)
      with "1.IH"(2) [OF True middle_def ne "1.prems"(1)] m show ?thesis by force
    qed
  next
    case False
    then have "common_prefix t u low high = low" by (subst common_prefix.simps) simp
    with "1.prems" show ?thesis by simp
  qed
qed

lemma present_take_subseq: "subseq (present (take k xs)) (present xs)"
  by (metis append_take_drop_id list_emb_append2 present_append subseq_order.refl
      subseq_append_iff list_emb_Nil list_emb_append_mono append_Nil2)

lemma tracked_bound:
  assumes "tracked orig t ps"
  shows "tracked orig u (bound_tracked t ps u)"
proof (cases "u = t")
  case True
  with assms show ?thesis by (simp add: bound_tracked_def)
next
  case False
  define low where "low = common_prefix t u 0 (min (length t) (length u))"
  have low: "take low t = take low u" "low \<le> length t" "low \<le> length u"
    using common_prefix_spec [of 0 t u "min (length t) (length u)"] by (simp_all add: low_def)
  obtain r ps' off' where c: "cursor_take ps 0 0 low = (r, ps', off')"
    by (cases "cursor_take ps 0 0 low") auto
  let ?new = "if low < length u then [(length u - low, None)] else [] :: piece list"
  have b: "bound_tracked t ps u = r @ ?new"
    using False by (simp add: bound_tracked_def low_def [symmetric] c)
  have orgs: "origins (bound_tracked t ps u) = take low (origins ps) @ replicate (length u - low) None"
    using cursor_take_origins(1) [OF c]
    by (auto simp: b slice_def piece_origins_def map_replicate_const)
  have len: "length (origins ps) = length t" using assms by (simp add: tracked_def)
  have "zip u (origins (bound_tracked t ps u)) =
      zip (take low u) (take low (origins ps)) @ zip (drop low u) (replicate (length u - low) None)"
    using low len by (subst append_take_drop_id [of low u, symmetric]) (simp add: orgs zip_append del: append_take_drop_id)
  then have z: "zip u (origins (bound_tracked t ps u)) =
      take low (zip t (origins ps)) @ zip (drop low u) (replicate (length u - low) None)"
    using low(1) by (simp add: take_zip)
  have "p < length orig \<and> orig ! p = c" if "(c, Some p) \<in> set (zip u (origins (bound_tracked t ps u)))" for c p
    using that assms unfolding z by (fastforce simp: tracked_def dest: in_set_takeD set_zip_rightD)
  moreover have "sorted_wrt (<) (present (origins (bound_tracked t ps u)))"
    using sorted_wrt_subseq [OF present_take_subseq [of low "origins ps"]] assms
    by (simp add: orgs tracked_def)
  moreover have "\<forall>p \<in> set (bound_tracked t ps u). 0 < fst p"
    using cursor_take_pos [OF c] by (auto simp: b)
  ultimately show ?thesis
    using low len by (auto simp: tracked_def orgs)
qed

lemma tracked_initial: "tracked t t (if t = [] then [] else [(length t, Some 0)])"
proof -
  have o: "origins [(length t, Some 0)] = map Some [0..<length t]"
    by (simp add: piece_origins_def)
  have p: "present (map Some xs) = xs" for xs :: "nat list" by (induction xs) auto
  show ?thesis
    unfolding tracked_def by (auto simp: o p set_zip simp del: origins_simps(2))
qed

lemma tracked_passes:
  "tracked orig current ps \<Longrightarrow> fixed_point_passes k bound current ps = Some (r, q) \<Longrightarrow> tracked orig r q"
proof (induction k arbitrary: current ps)
  case (Suc k)
  obtain u us where u: "redact_spans_tracked current ps (secret_spans current) = (u, us)" by fastforce
  have "tracked orig u us"
    using tracked_redact_spans [OF Suc.prems(1) secret_spans_ok u] .
  from Suc.IH [OF tracked_bound [OF this, of "bound u"]] Suc.prems u show ?case
    by (auto simp: Let_def split: if_splits)
qed simp

lemma base_fixed_point_tracked:
  "base_fixed_point t bound = Some (r, q) \<Longrightarrow> tracked t r q"
  using tracked_passes [OF tracked_initial] by (simp add: base_fixed_point_def)


section \<open>Structural masking\<close>

lemma spans_from_dropWhile: "spans_from k n ss \<Longrightarrow> \<exists>k'. spans_from k' n (dropWhile P ss)"
  by (induction ss arbitrary: k) (auto simp del: spans_from.simps(1) intro: exI)

lemma cov_dropWhile: "p \<in> cov ss \<Longrightarrow> s \<le> p \<Longrightarrow> p \<in> cov (dropWhile (\<lambda>(a, b). b \<le> s) ss)"
  by (induction ss) auto

lemma cov_takeWhile:
  "spans_from k n ss \<Longrightarrow> p \<in> cov ss \<Longrightarrow> p < m \<Longrightarrow> p \<in> cov (takeWhile (\<lambda>(a, b). a < m) ss)"
proof (induction ss arbitrary: k)
  case (Cons s ss)
  obtain a b where s: "s = (a, b)" by (cases s)
  have "a < m"
  proof (cases "p \<in> {a..<b}")
    case False
    with Cons.prems s obtain c d where "(c, d) \<in> set ss" "c \<le> p" by (auto simp: in_cov_iff)
    with Cons.prems s spans_from_bounds [of b n ss c d] show ?thesis by auto
  qed (use Cons.prems in auto)
  with Cons s show ?case by auto
qed simp

lemma sorted_present_tail:
  assumes "sorted_wrt (<) (present (piece_origins (len, Some s) @ rest))" "0 < len" "Some p \<in> set rest"
  shows "s + len \<le> p"
proof -
  have "Some (s + (len - 1)) \<in> set (piece_origins (len, Some s))"
    using assms(2) by (simp add: piece_origins_def image_iff) (rule bexI [of _ "len - 1"]; simp)
  moreover have present_set: "x \<in> set (present xs) \<longleftrightarrow> Some x \<in> set xs" for x :: nat and xs
    by (induction xs rule: present.induct) auto
  ultimately have "s + (len - 1) < p"
    using assms(1,3) by (simp add: sorted_wrt_append)
  with assms(2) show ?thesis by simp
qed

lemma masked_loop_covers:
  assumes "sorted_wrt (<) (present (origins ps))" "\<forall>p \<in> set ps. 0 < fst p" "spans_from k n structural"
    "i < length (origins ps)" "origins ps ! i = Some p" "p \<in> cov structural"
  shows "off + i \<in> cov (masked_loop ps structural off)"
  using assms
proof (induction ps structural off arbitrary: i k rule: masked_loop.induct)
  case (2 len src ps structural off)
  show ?case
  proof (cases src)
    case None
    have ge: "len \<le> i" using "2.prems"(4,5) None by (rule_tac ccontr) (simp add: nth_append piece_origins_def)
    have srt: "sorted_wrt (<) (present (origins ps))"
      using "2.prems"(1) None by (simp add: sorted_wrt_append)
    from "2.IH"(1) [OF None srt _ "2.prems"(3), of "i - len"] "2.prems" ge None show ?thesis
      by (auto simp: nth_append)
  next
    case (Some s)
    define rest where "rest = dropWhile (\<lambda>(a, b). b \<le> s) structural"
    define hits where "hits = takeWhile (\<lambda>(a, b). a < s + len) rest"
    have pos: "0 < len" using "2.prems"(2) by simp
    have later: "s \<le> p"
    proof (cases "i < len")
      case True
      with "2.prems"(5) Some show ?thesis by (auto simp: nth_append piece_origins_def)
    next
      case False
      with "2.prems"(4,5) have "Some p \<in> set (origins ps)"
        by (simp add: nth_append) (metis add_diff_inverse_nat nat_add_left_cancel_less nth_mem)
      from sorted_present_tail [of len s "origins ps", OF _ pos this] "2.prems"(1) Some show ?thesis by simp
    qed
    obtain k' where ok: "spans_from k' n rest"
      using "2.prems"(3) unfolding rest_def by (metis spans_from_dropWhile)
    have in_rest: "p \<in> cov rest"
      using "2.prems"(6) later unfolding rest_def by (rule cov_dropWhile)
    have eq: "masked_loop ((len, src) # ps) structural off =
        map (\<lambda>(a, b). (off + (max a s - s), off + (min b (s + len) - s))) hits @ masked_loop ps rest (off + len)"
      using Some by (simp add: rest_def hits_def Let_def)
    show ?thesis
    proof (cases "i < len")
      case True
      with "2.prems"(5) Some have p: "p = s + i" by (auto simp: nth_append piece_origins_def)
      with True in_rest have "p \<in> cov hits"
        unfolding hits_def by (intro cov_takeWhile [OF ok]) auto
      then obtain a b where ab: "(a, b) \<in> set hits" "a \<le> p" "p < b" by (auto simp: in_cov_iff)
      then have "off + i \<in> cov (map (\<lambda>(a, b). (off + (max a s - s), off + (min b (s + len) - s))) hits)"
        using p True by (force simp: in_cov_iff)
      then show ?thesis unfolding eq cov_simps ..
    next
      case False
      have srt: "sorted_wrt (<) (present (origins ps))"
        using "2.prems"(1) by (simp add: sorted_wrt_append)
      from "2.IH"(2) [OF Some rest_def hits_def srt _ ok _ _ in_rest, of "i - len"] "2.prems" False
      have "off + len + (i - len) \<in> cov (masked_loop ps rest (off + len))"
        by (auto simp: nth_append)
      then have "off + i \<in> cov (masked_loop ps rest (off + len))" using False by simp
      then show ?thesis unfolding eq cov_simps ..
    qed
  qed
qed simp


lemma spans_from_map_mono:
  assumes "mono g" "spans_from k n ss"
  shows "spans_from (g k) (g n) (map (\<lambda>(a, b). (g a, g b)) ss)"
  using assms(2) by (induction ss arbitrary: k) (auto dest: monoD [OF assms(1)])

lemma spans_from_takeWhile: "spans_from k n ss \<Longrightarrow> spans_from k n (takeWhile P ss)"
  by (induction ss arbitrary: k) (auto dest: spans_from_le)

lemma dropWhile_ends:
  "spans_from k n ss \<Longrightarrow> (a, b) \<in> set (dropWhile (\<lambda>(a, b). b \<le> s) ss) \<Longrightarrow> s < b"
proof (induction ss arbitrary: k)
  case (Cons t ss)
  obtain c d where t: "t = (c, d)" by (cases t)
  with Cons spans_from_bounds [of d n ss a b] show ?case by (auto split: if_splits)
qed simp

lemma spans_from_append:
  "spans_from k m ss \<Longrightarrow> spans_from m n ts \<Longrightarrow> spans_from k n (ss @ ts)"
  by (induction ss arbitrary: k) (auto intro: spans_from_mono)

lemma spans_from_weaken: "spans_from k n ss \<Longrightarrow> n \<le> m \<Longrightarrow> spans_from k m ss"
  by (induction ss arbitrary: k) auto

lemma masked_loop_spans:
  "spans_from k n structural \<Longrightarrow> spans_from off (off + length (origins ps)) (masked_loop ps structural off)"
proof (induction ps structural off arbitrary: k rule: masked_loop.induct)
  case (2 len src ps structural off)
  show ?case
  proof (cases src)
    case None
    from spans_from_mono [OF 2(1) [OF None 2(3)], of off] None show ?thesis by (simp add: add.assoc)
  next
    case (Some s)
    define rest where "rest = dropWhile (\<lambda>(a, b). b \<le> s) structural"
    define hits where "hits = takeWhile (\<lambda>(a, b). a < s + len) rest"
    define g where "g = (\<lambda>x. off + (min (max x s) (s + len) - s))"
    from 2(3) obtain k' where ok: "spans_from k' n rest" unfolding rest_def by (metis spans_from_dropWhile)
    have "(off + (max a s - s), off + (min b (s + len) - s)) = (g a, g b)"
      if "(a, b) \<in> set hits" for a b
    proof -
      have "a < s + len" using that by (auto simp: hits_def dest: set_takeWhileD)
      moreover have "s < b"
        using that dropWhile_ends [OF 2(3), of a b s] by (auto simp: hits_def rest_def dest: set_takeWhileD)
      ultimately have "max a s = min (max a s) (s + len)" "min b (s + len) = min (max b s) (s + len)" by auto
      then show ?thesis by (simp only: g_def)
    qed
    then have "map (\<lambda>(a, b). (off + (max a s - s), off + (min b (s + len) - s))) hits =
        map (\<lambda>(a, b). (g a, g b)) hits"
      by (intro map_cong refl) (simp only: prod.case split: prod.split, blast)
    moreover have "mono g" unfolding g_def by (intro monoI) (auto simp: min_def max_def)
    ultimately have "spans_from (g k') (g n)
        (map (\<lambda>(a, b). (off + (max a s - s), off + (min b (s + len) - s))) hits)"
      using spans_from_map_mono [of g k' n hits] spans_from_takeWhile [OF ok] by (simp only: hits_def)
    moreover have "off \<le> g k'" "g n \<le> off + len" by (auto simp: g_def)
    ultimately have first: "spans_from off (off + len)
        (map (\<lambda>(a, b). (off + (max a s - s), off + (min b (s + len) - s))) hits)"
      by (meson spans_from_mono spans_from_weaken)
    have "spans_from (off + len) (off + len + length (origins ps)) (masked_loop ps rest (off + len))"
      using 2(2) [OF Some rest_def hits_def ok] by simp
    from spans_from_append [OF first this] Some show ?thesis
      by (simp add: rest_def hits_def Let_def add.assoc)
  qed
qed simp

lemma foldl_merge_touching:
  assumes "spans_from p n ss" "\<And>a b. (a, b) \<in> set acc \<Longrightarrow> a \<le> b \<and> b \<le> p"
  shows "cov (foldl merge_touching_step acc ss) = cov acc \<union> cov ss
    \<and> (\<forall>(a, b) \<in> set (foldl merge_touching_step acc ss). a \<le> b \<and> b \<le> n)"
  using assms
proof (induction ss arbitrary: acc p)
  case Nil
  then show ?case by fastforce
next
  case (Cons s ss)
  obtain c d where s: "s = (c, d)" by (cases s)
  with Cons.prems have le: "p \<le> c" "c \<le> d" "spans_from d n ss" by auto
  have acc: "cov (merge_touching_step acc (c, d)) = cov acc \<union> {c..<d} \<and>
    (\<forall>(a, b) \<in> set (merge_touching_step acc (c, d)). a \<le> b \<and> b \<le> d)"
  proof (cases acc)
    case Nil
    with le show ?thesis by (simp add: merge_touching_step_def)
  next
    case acc: (Cons h rest)
    obtain a b where h: "h = (a, b)" by (cases h)
    have "a \<le> b" "b \<le> p" using Cons.prems(2) acc h by auto
    moreover have "\<forall>(a, b) \<in> set rest. a \<le> b \<and> b \<le> d" using Cons.prems(2) acc le by fastforce
    ultimately show ?thesis using acc h le by (auto simp: merge_touching_step_def)
  qed
  have "cov (foldl merge_touching_step (merge_touching_step acc (c, d)) ss) =
      cov (merge_touching_step acc (c, d)) \<union> cov ss
    \<and> (\<forall>(a, b) \<in> set (foldl merge_touching_step (merge_touching_step acc (c, d)) ss). a \<le> b \<and> b \<le> n)"
    by (rule Cons.IH [OF le(3)]) (use acc in blast)+
  with acc s show ?case by auto
qed

lemma merge_touching_spec:
  assumes "spans_from 0 n ss"
  shows "cov (merge_touching ss) = cov ss" "(a, b) \<in> set (merge_touching ss) \<Longrightarrow> a \<le> b \<and> b \<le> n"
  using foldl_merge_touching [OF assms, of "[]"] by (auto simp: merge_touching_def)

definition masked_cov :: "(nat \<times> nat \<times> bool) list \<Rightarrow> nat set" where
  "masked_cov gs = cov (map (\<lambda>(a, b, _). (a, b)) (filter (\<lambda>(_, _, m). m) gs))"

lemma foldl_group_inv:
  assumes "sorted ts" "\<And>a b m. (a, b, m) \<in> set ts \<Longrightarrow> a \<le> b \<and> b \<le> n"
    "spans_from 0 n (rev (map (\<lambda>(a, b, _). (a, b)) acc))" "acc \<noteq> [] \<longrightarrow> (\<forall>t \<in> set ts. fst (hd acc) \<le> fst t)"
  shows "spans_from 0 n (rev (map (\<lambda>(a, b, _). (a, b)) (foldl group_step acc ts)))
    \<and> masked_cov acc \<union> masked_cov ts \<subseteq> masked_cov (foldl group_step acc ts)"
  using assms
proof (induction ts arbitrary: acc)
  case (Cons t ts)
  obtain c d m where t: "t = (c, d, m)" by (cases t)
  have le: "c \<le> d" "d \<le> n" using Cons.prems(2) t by auto
  have later: "\<forall>t \<in> set ts. c \<le> fst t"
    using Cons.prems(1) t by (auto simp: less_eq_prod_def)
  let ?f = "\<lambda>(a, b, _ :: bool). (a, b) :: nat \<times> nat"
  have "spans_from 0 n (rev (map ?f (group_step acc t))) \<and> fst (hd (group_step acc t)) \<le> c
      \<and> masked_cov acc \<union> masked_cov [t] \<subseteq> masked_cov (group_step acc t)"
  proof (cases acc)
    case Nil
    with t le show ?thesis by (simp add: group_step_def masked_cov_def)
  next
    case acc: (Cons g gs)
    obtain a b m' where g: "g = (a, b, m')" by (cases g)
    from Cons.prems(3,4) acc g t have *: "spans_from 0 a (rev (map ?f gs))" "a \<le> b" "b \<le> n" "a \<le> c"
      by (simp_all add: spans_from_snoc)
    moreover have "spans_from 0 c (rev (map ?f gs) @ [(a, b)])" if "\<not> c \<le> b"
      using * that by (simp add: spans_from_snoc)
    ultimately show ?thesis
      using acc g t le spans_from_snoc [of 0 n "rev (map ?f gs) @ [(a, b)]" c d]
      by (auto simp: group_step_def spans_from_snoc masked_cov_def)
  qed
  then have step: "spans_from 0 n (rev (map ?f (group_step acc t)))" "fst (hd (group_step acc t)) \<le> c"
    "masked_cov acc \<union> masked_cov [t] \<subseteq> masked_cov (group_step acc t)" by blast+
  have "spans_from 0 n (rev (map ?f (foldl group_step (group_step acc t) ts)))
    \<and> masked_cov (group_step acc t) \<union> masked_cov ts \<subseteq> masked_cov (foldl group_step (group_step acc t) ts)"
    by (rule Cons.IH) (use Cons.prems(1,2) step(1,2) later in \<open>auto intro: order_trans\<close>)
  moreover have "masked_cov (t # ts) = masked_cov [t] \<union> masked_cov ts"
    by (auto simp: masked_cov_def)
  ultimately show ?case using step(3) by auto
qed (simp add: masked_cov_def)


lemma spans_from_filter:
  "spans_from k n (map f gs) \<Longrightarrow> spans_from k n (map f (filter Q gs))"
proof (induction gs arbitrary: k)
  case (Cons g gs)
  obtain a b where "f g = (a, b)" by (cases "f g")
  with Cons Cons.IH [of b] show ?case by (auto intro: spans_from_mono)
qed simp

lemma inserted_ranges_bounds:
  "(a, b) \<in> set (inserted_ranges_from ps off) \<Longrightarrow> a \<le> b \<and> b \<le> off + length (origins ps)"
  by (induction ps off rule: inserted_ranges_from.induct) (fastforce split: if_splits)+

lemma absorb_inserted_spec:
  assumes "\<And>a b. (a, b) \<in> set ranges \<Longrightarrow> a \<le> b \<and> b \<le> n" "n = length (origins ps)"
  shows "spans_from 0 n (absorb_inserted ps ranges)" "cov ranges \<subseteq> cov (absorb_inserted ps ranges)"
proof -
  let ?f = "\<lambda>(a, b, _ :: bool). (a, b) :: nat \<times> nat"
  define tagged where "tagged = map (\<lambda>(a, b). (a, b, True)) ranges
      @ map (\<lambda>(a, b). (a, b, False)) (inserted_ranges ps)"
  define groups where "groups = rev (foldl group_step [] (sort tagged))"
  have "spans_from 0 n (rev (map ?f (foldl group_step [] (sort tagged))))
      \<and> masked_cov [] \<union> masked_cov (sort tagged) \<subseteq> masked_cov (foldl group_step [] (sort tagged))"
  proof (rule foldl_group_inv)
    show "a \<le> b \<and> b \<le> n" if "(a, b, m) \<in> set (sort tagged)" for a b m
      using that assms inserted_ranges_bounds [of _ _ ps 0] by (fastforce simp: tagged_def inserted_ranges_def)
  qed simp_all
  moreover have "masked_cov (rev gs) = masked_cov gs" for gs
    by (simp add: masked_cov_def cov_def)
  ultimately have g: "spans_from 0 n (map ?f groups)" "masked_cov (sort tagged) \<subseteq> masked_cov groups"
    by (simp_all add: groups_def rev_map)
  have "cov ranges \<subseteq> masked_cov (sort tagged)"
    by (fastforce simp: masked_cov_def cov_def tagged_def)
  moreover have "ranges \<noteq> [] \<Longrightarrow> absorb_inserted ps ranges = map ?f (filter (\<lambda>(_, _, m). m) groups)"
    by (simp add: absorb_inserted_def tagged_def groups_def Let_def)
  ultimately show "spans_from 0 n (absorb_inserted ps ranges)" "cov ranges \<subseteq> cov (absorb_inserted ps ranges)"
    using g spans_from_filter [OF g(1)] by (cases "ranges = []"; auto simp: absorb_inserted_def masked_cov_def)+
qed

lemma masked_ranges_spec:
  assumes "tracked orig t ps" "spans_from 0 n structural"
  shows "spans_from 0 (length t) (masked_ranges ps structural)"
    and "\<And>i p. i < length t \<Longrightarrow> origins ps ! i = Some p \<Longrightarrow> p \<in> cov structural \<Longrightarrow>
      i \<in> cov (masked_ranges ps structural)"
proof -
  have len: "length (origins ps) = length t" using assms(1) by (simp add: tracked_def)
  have "spans_from 0 (length t) (masked_loop ps structural 0)"
    using masked_loop_spans [OF assms(2), of 0 ps] len by simp
  note mt = merge_touching_spec [OF this]
  note ab = absorb_inserted_spec [of "merge_touching (masked_loop ps structural 0)" "length t" ps]
  show "spans_from 0 (length t) (masked_ranges ps structural)"
    unfolding masked_ranges_def by (rule ab(1)) (use mt(2) len in auto)
  show "i \<in> cov (masked_ranges ps structural)"
    if "i < length t" "origins ps ! i = Some p" "p \<in> cov structural" for i p
  proof -
    have "0 + i \<in> cov (masked_loop ps structural 0)"
      by (rule masked_loop_covers [OF _ _ assms(2)]) (use assms(1) that len in \<open>auto simp: tracked_def\<close>)
    with mt(1) ab(2) mt(2) len show ?thesis unfolding masked_ranges_def by fastforce
  qed
qed

text \<open>The masked text with the origin of each character, inserted characters having none.\<close>

definition masked_with_origins :: "string \<Rightarrow> piece list \<Rightarrow> span list \<Rightarrow> (char \<times> nat option) list" where
  "masked_with_origins t ps structural =
     replace_ranges (zip REDACTION_MARKER (replicate (length REDACTION_MARKER) None))
       (zip t (origins ps)) 0 (masked_ranges ps structural)"

lemma map_replace_ranges:
  "map f (replace_ranges m xs pos ss) = replace_ranges (map f m) (map f xs) pos ss"
  by (induction ss arbitrary: pos) (auto simp: take_map drop_map)

lemma map_fst_masked:
  "tracked orig t ps \<Longrightarrow> map fst (masked_with_origins t ps structural) = mask_structural t ps structural"
  by (simp add: masked_with_origins_def mask_structural_def map_replace_ranges tracked_def)

lemma masked_keeps_no_structural:
  assumes "tracked orig t ps" "spans_from 0 n structural" "(c, Some p) \<in> set (masked_with_origins t ps structural)"
  shows "p \<notin> cov structural \<and> p < length orig \<and> orig ! p = c"
proof -
  let ?z = "zip t (origins ps)"
  have len: "length (origins ps) = length t" using assms(1) by (simp add: tracked_def)
  have "spans_from 0 (length ?z) (masked_ranges ps structural)"
    using masked_ranges_spec(1) [OF assms(1,2)] len by simp
  from replace_ranges_set [OF this assms(3) [unfolded masked_with_origins_def]]
  obtain i where i: "i < length t" "i \<notin> cov (masked_ranges ps structural)" "t ! i = c" "origins ps ! i = Some p"
    using len by (auto dest: set_zip_rightD)
  have "(c, Some p) \<in> set ?z"
    using i len by (force simp: set_zip)
  with assms(1) have "p < length orig \<and> orig ! p = c" by (auto simp: tracked_def)
  with masked_ranges_spec(2) [OF assms(1,2) i(1,4)] i(2) show ?thesis by blast
qed


lemma sensitive_value_spans_bounds:
  assumes "(a, b) \<in> set (sensitive_value_spans t)"
  shows "a \<le> b \<and> b \<le> length t"
proof -
  have "b \<le> length t" if "m \<in> set (finditer YAML_SENSITIVE_VALUE_RE t)"
    "value_group (m_groups m) = (c, b)" for m c b
    using finditer_groups [OF that(1)] that(2)
    by (auto simp: value_group_def groups_ok_def split: option.splits)
  moreover have "b = length t" if "(a, b) \<in> set (fail_closed_tails t)" for a b
    using that by (auto simp: fail_closed_tails_def split: option.splits)
  ultimately show ?thesis
    using assms by (fastforce simp: sensitive_value_spans_def split: prod.splits)
qed


section \<open>Properties of text redaction\<close>

text \<open>
  Redacting a text ends in one of three ways: the text is exactly a vault reference and
  is returned unchanged, it is replaced whole by the marker, or the result is a fixed point,
  that is, one more pass of the secret patterns and the bound leaves it as it is.
\<close>

theorem redact_bounded_outcome:
  "(fullmatch NMS_SECRET_REFERENCE_RE t \<and> redact_bounded t bound = t)
   \<or> redact_bounded t bound = REDACTION_MARKER
   \<or> bound (redact_secret_spans (redact_bounded t bound)) = redact_bounded t bound"
  by (rule redact_bounded_cases [of t bound]) auto

text \<open>
  After the base fixed point, the structural mask leaves no character that comes from a
  structurally sensitive value of the original text, and every character it keeps is the
  original character at its recorded position.
\<close>

theorem structural_values_masked:
  assumes "base_fixed_point t bound = Some (current, ps)"
  shows "let S = merge_spans (sensitive_value_spans t) in
    map fst (masked_with_origins current ps S) = mask_structural current ps S \<and>
    (\<forall>c p. (c, Some p) \<in> set (masked_with_origins current ps S) \<longrightarrow>
       p < length t \<and> t ! p = c \<and> p \<notin> cov (sensitive_value_spans t))"
proof -
  note tr = base_fixed_point_tracked [OF assms]
  note ms = merge_spans_spec [of "sensitive_value_spans t" "length t", OF sensitive_value_spans_bounds]
  show ?thesis
    using map_fst_masked [OF tr] masked_keeps_no_structural [OF tr ms(1)] ms(2)
    by (fastforce simp: Let_def)
qed

theorem structural_values_masked_witness:
  "let S = merge_spans (sensitive_value_spans ''ok'') in
    map fst (masked_with_origins ''ok'' [(2, Some 0)] S) = mask_structural ''ok'' [(2, Some 0)] S \<and>
    (\<forall>c p. (c, Some p) \<in> set (masked_with_origins ''ok'' [(2, Some 0)] S) \<longrightarrow>
       p < length ''ok'' \<and> ''ok'' ! p = c \<and> p \<notin> cov (sensitive_value_spans ''ok''))"
proof (rule structural_values_masked)
  show "base_fixed_point ''ok'' (\<lambda>v. v) = Some (''ok'', [(2, Some 0)])" by code_simp
qed

end
