(* ===== verification/Timestamps.thy ===== *)
theory Timestamps
  imports Prelude
begin

text \<open>
  Python's \<open>datetime\<close> values as the event ledger uses them: the calendar fields with an
  optional UTC offset in whole seconds, \<open>isoformat()\<close>, \<open>fromisoformat()\<close> and the order
  of instants. Reading the strings \<open>isoformat\<close> writes is concrete; the other ISO 8601
  spellings the standard library accepts are read by the parameter \<open>isop\<close>.
\<close>

record datetime =
  dt_year :: nat
  dt_month :: nat
  dt_day :: nat
  dt_hour :: nat
  dt_minute :: nat
  dt_second :: nat
  dt_micro :: nat
  dt_offset :: "int option"

definition is_leap :: "nat \<Rightarrow> bool" where
  "is_leap y \<longleftrightarrow> y mod 4 = 0 \<and> (y mod 100 \<noteq> 0 \<or> y mod 400 = 0)"

definition days_in_month :: "nat \<Rightarrow> nat \<Rightarrow> nat" where
  "days_in_month y m =
     (if m = 2 then (if is_leap y then 29 else 28)
      else if m \<in> {4, 6, 9, 11} then 30 else 31)"

definition dt_valid :: "datetime \<Rightarrow> bool" where
  "dt_valid t \<longleftrightarrow>
     1 \<le> dt_year t \<and> dt_year t \<le> 9999 \<and> 1 \<le> dt_month t \<and> dt_month t \<le> 12 \<and>
     1 \<le> dt_day t \<and> dt_day t \<le> days_in_month (dt_year t) (dt_month t) \<and>
     dt_hour t \<le> 23 \<and> dt_minute t \<le> 59 \<and> dt_second t \<le> 59 \<and> dt_micro t \<le> 999999 \<and>
     (case dt_offset t of None \<Rightarrow> True | Some z \<Rightarrow> - 86400 < z \<and> z < 86400)"


section \<open>Instants\<close>

definition days_before_year :: "nat \<Rightarrow> nat" where
  "days_before_year y = (let z = y - 1 in z * 365 + z div 4 - z div 100 + z div 400)"

definition ymd2ord :: "nat \<Rightarrow> nat \<Rightarrow> nat \<Rightarrow> nat" where
  "ymd2ord y m d =
     days_before_year y + sum_list (map (days_in_month y) [1..<m]) + d"

text \<open>Microseconds since the epoch of the proleptic calendar, in UTC when aware.\<close>

definition dt_instant :: "datetime \<Rightarrow> int" where
  "dt_instant t =
     1000000 * (86400 * int (ymd2ord (dt_year t) (dt_month t) (dt_day t))
        + int (3600 * dt_hour t + 60 * dt_minute t + dt_second t)
        - (case dt_offset t of None \<Rightarrow> 0 | Some z \<Rightarrow> z))
     + int (dt_micro t)"

text \<open>Equality: a naive and an aware value are never equal; others compare as instants.\<close>

definition dt_eq :: "datetime \<Rightarrow> datetime \<Rightarrow> bool" where
  "dt_eq s t \<longleftrightarrow> (dt_offset s = None \<longleftrightarrow> dt_offset t = None) \<and> dt_instant s = dt_instant t"

lemma dt_eq_refl [simp]: "dt_eq t t"
  by (simp add: dt_eq_def)


section \<open>Writing\<close>

fun pad :: "nat \<Rightarrow> nat \<Rightarrow> string" where
  "pad 0 n = []"
| "pad (Suc w) n = pad w (n div 10) @ [digit_char (n mod 10)]"

definition format_offset :: "int option \<Rightarrow> string" where
  "format_offset off = (case off of None \<Rightarrow> []
     | Some z \<Rightarrow>
         (let a = nat \<bar>z\<bar> in
          (if z < 0 then ''-'' else ''+'') @ pad 2 (a div 3600) @ '':'' @ pad 2 (a div 60 mod 60)
          @ (if a mod 60 = 0 then [] else '':'' @ pad 2 (a mod 60))))"

definition isoformat :: "datetime \<Rightarrow> string" where
  "isoformat t =
     pad 4 (dt_year t) @ ''-'' @ pad 2 (dt_month t) @ ''-'' @ pad 2 (dt_day t) @ ''T''
     @ pad 2 (dt_hour t) @ '':'' @ pad 2 (dt_minute t) @ '':'' @ pad 2 (dt_second t)
     @ (if dt_micro t = 0 then [] else ''.'' @ pad 6 (dt_micro t))
     @ format_offset (dt_offset t)"

lemma length_pad [simp]: "length (pad w n) = w"
  by (induction w arbitrary: n) auto

lemma str_nat_snoc: "str_nat (s @ [c]) = 10 * str_nat s + char_digit c"
  by (simp add: str_nat_def)

lemma str_nat_pad: "str_nat (pad w n) = n mod 10 ^ w"
proof (induction w arbitrary: n)
  case 0
  then show ?case by (simp add: str_nat_def)
next
  case (Suc w)
  have "10 * (n div 10 mod 10 ^ w) + n mod 10 = n mod 10 ^ Suc w"
    by (simp add: mod_mult2_eq)
  with Suc show ?case
    by (simp add: str_nat_snoc)
qed

lemma str_nat_pad_small [simp]: "n < 10 ^ w \<Longrightarrow> str_nat (pad w n) = n"
  by (simp add: str_nat_pad)

lemma str_nat_pads [simp]:
  "n < 100 \<Longrightarrow> str_nat (pad 2 n) = n"
  "n < 10000 \<Longrightarrow> str_nat (pad 4 n) = n"
  "n < 1000000 \<Longrightarrow> str_nat (pad 6 n) = n"
  by (simp_all add: str_nat_pad)


section \<open>Reading\<close>

definition read_offset :: "string \<Rightarrow> int option" where
  "read_offset s = (case s of [] \<Rightarrow> None
     | c # r \<Rightarrow>
         (let a = int (3600 * str_nat (take 2 r) + 60 * str_nat (take 2 (drop 3 r))
                       + str_nat (take 2 (drop 6 r)))
          in Some (if c = CHR ''-'' then - a else a)))"

definition read_canonical :: "string \<Rightarrow> datetime" where
  "read_canonical s =
     (let r = drop 19 s; frac = take 1 r = ''.'' in
      \<lparr>dt_year = str_nat (take 4 s), dt_month = str_nat (take 2 (drop 5 s)),
       dt_day = str_nat (take 2 (drop 8 s)), dt_hour = str_nat (take 2 (drop 11 s)),
       dt_minute = str_nat (take 2 (drop 14 s)), dt_second = str_nat (take 2 (drop 17 s)),
       dt_micro = (if frac then str_nat (take 6 (drop 1 r)) else 0),
       dt_offset = read_offset (if frac then drop 7 r else r)\<rparr>)"

text \<open>
  \<open>datetime.fromisoformat(s)\<close>, \<open>None\<close> for its ValueError: a string that is the
  \<open>isoformat\<close> of a valid datetime is read field by field, any other spelling by \<open>isop\<close>.
\<close>

definition fromisoformat :: "(string \<Rightarrow> datetime option) \<Rightarrow> string \<Rightarrow> datetime option" where
  "fromisoformat isop s =
     (let t = read_canonical s in
      if dt_valid t \<and> isoformat t = s then Some t else isop s)"

lemma read_offset_format [simp]:
  assumes "case z of None \<Rightarrow> True | Some z \<Rightarrow> - 86400 < z \<and> z < 86400"
  shows "read_offset (format_offset z) = z"
proof (cases z)
  case None
  then show ?thesis by (simp add: format_offset_def read_offset_def)
next
  case (Some i)
  define a where "a = nat \<bar>i\<bar>"
  from assms Some have a: "a < 86400" by (auto simp: a_def)
  have zero: "str_nat [] = 0" by (simp add: str_nat_def)
  have small: "a div 3600 < 100" "a div 60 mod 60 < 100" "a mod 60 < 100"
    using a by simp_all
  have sum: "3600 * (a div 3600) + 60 * (a div 60 mod 60) + a mod 60 = a"
  proof -
    have "a div 3600 = a div 60 div 60" by (simp add: div_mult2_eq [symmetric])
    moreover have "60 * (a div 60 div 60) + a div 60 mod 60 = a div 60" by simp
    moreover have "60 * (a div 60) + a mod 60 = a" by simp
    ultimately show ?thesis by linarith
  qed
  define r where "r = pad 2 (a div 3600) @ '':'' @ pad 2 (a div 60 mod 60)
    @ (if a mod 60 = 0 then [] else '':'' @ pad 2 (a mod 60))"
  have fields: "str_nat (take 2 r) = a div 3600" "str_nat (take 2 (drop 3 r)) = a div 60 mod 60"
    "str_nat (take 2 (drop 6 r)) = a mod 60"
    using small by (simp_all add: r_def zero)
  have "format_offset z = (if i < 0 then CHR ''-'' else CHR ''+'') # r"
    by (simp add: Some format_offset_def Let_def r_def a_def)
  then show ?thesis
    by (simp add: read_offset_def fields sum Let_def Some del: of_nat_add of_nat_mult)
      (simp add: a_def)
qed

lemma format_offset_not_dot [simp]: "take (Suc 0) (format_offset z) \<noteq> ''.''"
  by (cases z) (simp_all add: format_offset_def Let_def)

lemma read_canonical_isoformat [simp]:
  assumes "dt_valid t"
  shows "read_canonical (isoformat t) = t"
proof -
  have "days_in_month (dt_year t) (dt_month t) \<le> 31"
    by (simp add: days_in_month_def)
  with assms have "dt_year t < 10000" "dt_month t < 100" "dt_day t < 100"
    "dt_hour t < 100" "dt_minute t < 100" "dt_second t < 100" "dt_micro t < 1000000"
    by (auto simp: dt_valid_def)
  moreover have "case dt_offset t of None \<Rightarrow> True | Some z \<Rightarrow> - 86400 < z \<and> z < 86400"
    using assms by (simp add: dt_valid_def)
  ultimately show ?thesis
    by (intro datetime.equality)
      (simp_all add: read_canonical_def isoformat_def Let_def)
qed

lemma fromisoformat_isoformat [simp]:
  "dt_valid t \<Longrightarrow> fromisoformat isop (isoformat t) = Some t"
  by (simp add: fromisoformat_def)

lemma isoformat_nonempty [simp]: "isoformat t \<noteq> []"
  by (simp add: isoformat_def)

lemma isoformat_inject:
  "dt_valid s \<Longrightarrow> dt_valid t \<Longrightarrow> isoformat s = isoformat t \<longleftrightarrow> s = t"
  by (metis read_canonical_isoformat)

end
