(* ===== verification/PyValues.thy ===== *)
theory PyValues
  imports Timestamps
begin

text \<open>
  The dynamically typed Python values that flow through event payloads, execution rows
  and backend responses, with the built-in conversions the sources apply to them:
  truthiness, \<open>==\<close>, \<open>str\<close>, \<open>int\<close>, \<open>dict\<close> and \<open>dict.get\<close>.

  A float is carried as its \<open>repr\<close> token; a dictionary is an association list in
  insertion order with string keys (the shape of every JSON object).
\<close>

datatype pyval =
    VNone
  | VBool bool
  | VInt int
  | VFloat string
  | VStr string
  | VTime datetime
  | VList "pyval list"
  | VDict "(string \<times> pyval) list"

type_synonym pydict = "(string \<times> pyval) list"

text \<open>\<open>OutsideModel\<close> marks the one conversion whose result is not representable here: a
  dictionary with a key that is not a string.\<close>

datatype pyexc = ValueError | TypeError | AttributeError | KeyError string | OverflowError | OutsideModel

text \<open>
  What the program calls and this development does not take apart: the ISO spellings
  \<open>isoformat\<close> never writes, truncation of a float to an integer, the \<open>jsonschema\<close>
  validator (schema, instance), Django's \<open>salted_hmac\<close> hex digest (salt, text) keyed with
  the deployment secret, and the SHA-256 hex digest of a text.
\<close>

record python_rt =
  rt_iso :: "string \<Rightarrow> datetime option"
  rt_float_int :: "string \<Rightarrow> int option"
  rt_schema :: "pyval \<Rightarrow> pyval \<Rightarrow> bool"
  rt_hmac :: "string \<Rightarrow> string \<Rightarrow> string"
  rt_sha256 :: "string \<Rightarrow> string"

definition plain_rt :: python_rt where
  "plain_rt = \<lparr>rt_iso = (\<lambda>_. None), rt_float_int = (\<lambda>_. None), rt_schema = (\<lambda>_ _. True),
     rt_hmac = (\<lambda>_ s. s), rt_sha256 = (\<lambda>s. s)\<rparr>"

fun is_str :: "pyval \<Rightarrow> bool" where
  "is_str (VStr _) = True"
| "is_str _ = False"

fun is_dict :: "pyval \<Rightarrow> bool" where
  "is_dict (VDict _) = True"
| "is_dict _ = False"

fun is_list :: "pyval \<Rightarrow> bool" where
  "is_list (VList _) = True"
| "is_list _ = False"

fun is_bool :: "pyval \<Rightarrow> bool" where
  "is_bool (VBool _) = True"
| "is_bool _ = False"

text \<open>\<open>isinstance(v, int)\<close>, true of booleans too.\<close>

fun is_int :: "pyval \<Rightarrow> bool" where
  "is_int (VInt _) = True"
| "is_int (VBool _) = True"
| "is_int _ = False"

fun truthy :: "pyval \<Rightarrow> bool" where
  "truthy VNone = False"
| "truthy (VBool b) = b"
| "truthy (VInt i) = (i \<noteq> 0)"
| "truthy (VFloat s) = (s \<noteq> ''0.0'' \<and> s \<noteq> ''-0.0'')"
| "truthy (VStr s) = (s \<noteq> [])"
| "truthy (VTime _) = True"
| "truthy (VList xs) = (xs \<noteq> [])"
| "truthy (VDict d) = (d \<noteq> [])"

text \<open>\<open>a or b\<close>.\<close>

definition py_or :: "pyval \<Rightarrow> pyval \<Rightarrow> pyval" where
  "py_or a b = (if truthy a then a else b)"

lemma py_or_simps [simp]:
  "truthy a \<Longrightarrow> py_or a b = a"
  "\<not> truthy a \<Longrightarrow> py_or a b = b"
  by (simp_all add: py_or_def)

text \<open>\<open>d.get(k)\<close>.\<close>

definition dget :: "pydict \<Rightarrow> string \<Rightarrow> pyval" where
  "dget d k = (case map_of d k of None \<Rightarrow> VNone | Some v \<Rightarrow> v)"

text \<open>\<open>v[k]\<close> with a string key, and iteration over a value.\<close>

fun py_index :: "pyval \<Rightarrow> string \<Rightarrow> pyexc + pyval" where
  "py_index (VDict d) k = (case map_of d k of None \<Rightarrow> Inl (KeyError k) | Some v \<Rightarrow> Inr v)"
| "py_index _ k = Inl TypeError"

fun py_iter :: "pyval \<Rightarrow> pyexc + pyval list" where
  "py_iter (VList xs) = Inr xs"
| "py_iter (VStr s) = Inr (map (\<lambda>c. VStr [c]) s)"
| "py_iter (VDict d) = Inr (map (\<lambda>(k, _). VStr k) d)"
| "py_iter _ = Inl TypeError"

lemma dget_Nil [simp]: "dget [] k = VNone"
  by (simp add: dget_def)

lemma dget_Cons [simp]: "dget ((k', v) # d) k = (if k = k' then v else dget d k)"
  by (simp add: dget_def)

lemma dget_dict_set [simp]: "dget (dict_set k v d) k' = (if k' = k then v else dget d k')"
  by (simp add: dget_def)


section \<open>Equality\<close>

definition float_key :: "string \<Rightarrow> string" where
  "float_key s = (if s = ''-0.0'' then ''0.0'' else s)"

text \<open>
  \<open>==\<close>: booleans are the integers 0 and 1, an integral float equals its integer,
  dictionaries compare without regard to order, lists element by element.
\<close>

fun py_eq :: "pyval \<Rightarrow> pyval \<Rightarrow> bool" where
  "py_eq VNone w = (w = VNone)"
| "py_eq (VBool a) w = (case w of VBool b \<Rightarrow> a = b | VInt j \<Rightarrow> of_bool a = j
     | VFloat t \<Rightarrow> float_key t = int_str (of_bool a) @ ''.0'' | _ \<Rightarrow> False)"
| "py_eq (VInt i) w = (case w of VInt j \<Rightarrow> i = j | VBool b \<Rightarrow> i = of_bool b
     | VFloat t \<Rightarrow> float_key t = int_str i @ ''.0'' | _ \<Rightarrow> False)"
| "py_eq (VFloat s) w = (case w of VFloat t \<Rightarrow> s \<noteq> ''nan'' \<and> float_key s = float_key t
     | VInt j \<Rightarrow> float_key s = int_str j @ ''.0''
     | VBool b \<Rightarrow> float_key s = int_str (of_bool b) @ ''.0'' | _ \<Rightarrow> False)"
| "py_eq (VStr s) w = (w = VStr s)"
| "py_eq (VTime t) w = (case w of VTime u \<Rightarrow> dt_eq t u | _ \<Rightarrow> False)"
| "py_eq (VList xs) w = (case w of VList ys \<Rightarrow> list_all2 py_eq xs ys | _ \<Rightarrow> False)"
| "py_eq (VDict d) w = (case w of
       VDict e \<Rightarrow> length d = length e \<and>
         list_all (\<lambda>(k, v). case map_of e k of None \<Rightarrow> False | Some u \<Rightarrow> py_eq v u) d
     | _ \<Rightarrow> False)"

lemma py_eq_None_iff [simp]: "py_eq v VNone \<longleftrightarrow> v = VNone"
  by (cases v) auto

lemma py_eq_VStr_iff [simp]: "py_eq v (VStr s) \<longleftrightarrow> v = VStr s"
  by (cases v) auto

text \<open>Values that JSON can carry: no datetimes, no NaN, dictionaries with distinct keys.\<close>

fun json_value :: "pyval \<Rightarrow> bool" where
  "json_value (VTime _) = False"
| "json_value (VFloat s) = (s \<noteq> ''nan'')"
| "json_value (VList xs) = list_all json_value xs"
| "json_value (VDict d) = (distinct (map fst d) \<and> list_all (\<lambda>(_, v). json_value v) d)"
| "json_value _ = True"

lemma py_eq_refl_json: "json_value v \<Longrightarrow> py_eq v v"
proof (induction v rule: json_value.induct)
  case (3 xs)
  then show ?case by (simp add: list_all_iff list.rel_refl_strong list_all2_same)
next
  case (4 d)
  then have "py_eq v v" if "(k, v) \<in> set d" for k v
    using that by (fastforce simp: list_all_iff)
  with 4 show ?case
    by (auto simp: list_all_iff)
qed (auto simp: float_key_def)


section \<open>Rendering\<close>

definition hex_digit :: "nat \<Rightarrow> char" where
  "hex_digit n = char_of (if n < 10 then 48 + n else 87 + n)"

definition printable :: "char \<Rightarrow> bool" where
  "printable c \<longleftrightarrow> (let n = (of_char c :: nat) in (32 \<le> n \<and> n \<le> 126) \<or> (161 \<le> n \<and> n \<noteq> 173))"

definition repr_char :: "char \<Rightarrow> char \<Rightarrow> string" where
  "repr_char q c = (let n = (of_char c :: nat) in
     if c = q \<or> n = 92 then [char_of (92::nat), c]
     else if n = 9 then [char_of (92::nat), CHR ''t'']
     else if n = 10 then [char_of (92::nat), CHR ''n'']
     else if n = 13 then [char_of (92::nat), CHR ''r'']
     else if printable c then [c]
     else [char_of (92::nat), CHR ''x'', hex_digit (n div 16), hex_digit (n mod 16)])"

definition str_repr :: "string \<Rightarrow> string" where
  "str_repr s =
     (let sq = char_of (39::nat); dq = char_of (34::nat);
          q = (if sq \<in> set s \<and> dq \<notin> set s then dq else sq)
      in q # concat (map (repr_char q) s) @ [q])"

definition offset_repr :: "int \<Rightarrow> string" where
  "offset_repr z =
     (if z = 0 then ''datetime.timezone.utc''
      else ''datetime.timezone(datetime.timedelta(''
        @ (if z < 0 then ''days=-1, seconds='' @ int_str (z + 86400) else ''seconds='' @ int_str z)
        @ ''))'')"

definition datetime_repr :: "datetime \<Rightarrow> string" where
  "datetime_repr t =
     ''datetime.datetime(''
     @ join_with '', '' (map nat_str ([dt_year t, dt_month t, dt_day t, dt_hour t, dt_minute t]
         @ (if dt_micro t \<noteq> 0 then [dt_second t, dt_micro t]
            else if dt_second t \<noteq> 0 then [dt_second t] else [])))
     @ (case dt_offset t of None \<Rightarrow> [] | Some z \<Rightarrow> '', tzinfo='' @ offset_repr z) @ '')''"

fun py_repr :: "pyval \<Rightarrow> string" where
  "py_repr VNone = ''None''"
| "py_repr (VBool b) = (if b then ''True'' else ''False'')"
| "py_repr (VInt i) = int_str i"
| "py_repr (VFloat s) = s"
| "py_repr (VStr s) = str_repr s"
| "py_repr (VTime t) = datetime_repr t"
| "py_repr (VList xs) = ''['' @ join_with '', '' (map py_repr xs) @ '']''"
| "py_repr (VDict d) =
     ''{'' @ join_with '', '' (map (\<lambda>(k, v). str_repr k @ '': '' @ py_repr v) d) @ ''}''"

definition py_str :: "pyval \<Rightarrow> string" where
  "py_str v = (case v of
       VStr s \<Rightarrow> s
     | VTime t \<Rightarrow> map (\<lambda>c. if c = CHR ''T'' then CHR '' '' else c) (isoformat t)
     | _ \<Rightarrow> py_repr v)"

lemma py_str_simps [simp]:
  "py_str (VStr s) = s"
  "py_str (VInt i) = int_str i"
  "py_str VNone = ''None''"
  "py_str (VBool b) = (if b then ''True'' else ''False'')"
  by (simp_all add: py_str_def)


section \<open>Conversions\<close>

definition py_int :: "python_rt \<Rightarrow> pyval \<Rightarrow> pyexc + int" where
  "py_int rt v = (case v of
       VInt i \<Rightarrow> Inr i
     | VBool b \<Rightarrow> Inr (of_bool b)
     | VStr s \<Rightarrow> (case int_of_str s of None \<Rightarrow> Inl ValueError | Some i \<Rightarrow> Inr i)
     | VFloat s \<Rightarrow> if s = ''inf'' \<or> s = ''-inf'' then Inl OverflowError
         else (case rt_float_int rt s of None \<Rightarrow> Inl ValueError | Some i \<Rightarrow> Inr i)
     | _ \<Rightarrow> Inl TypeError)"

text \<open>One element of the iterable that \<open>dict(...)\<close> reads: a sequence of length two.\<close>

definition py_pair :: "pyval \<Rightarrow> pyexc + (string \<times> pyval)" where
  "py_pair v = (case v of
       VList [a, b] \<Rightarrow> (case a of
           VStr k \<Rightarrow> Inr (k, b)
         | VList _ \<Rightarrow> Inl TypeError
         | VDict _ \<Rightarrow> Inl TypeError
         | _ \<Rightarrow> Inl OutsideModel)
     | VStr [a, b] \<Rightarrow> Inr ([a], VStr [b])
     | VDict [(k, _), (k', _)] \<Rightarrow> Inr (k, VStr k')
     | VList _ \<Rightarrow> Inl ValueError
     | VStr _ \<Rightarrow> Inl ValueError
     | VDict _ \<Rightarrow> Inl ValueError
     | _ \<Rightarrow> Inl TypeError)"

definition py_dict :: "pyval \<Rightarrow> pyexc + pydict" where
  "py_dict v = (case v of
       VDict d \<Rightarrow> Inr d
     | VList xs \<Rightarrow> rbind (rmap py_pair xs) (\<lambda>ps. Inr (foldl (\<lambda>d (k, u). dict_set k u d) [] ps))
     | VStr s \<Rightarrow> if s = [] then Inr [] else Inl ValueError
     | _ \<Rightarrow> Inl TypeError)"

text \<open>\<open>dict(v or {})\<close> and \<open>str(v or default)\<close>, the two idioms of the event decoders.\<close>

definition dict_or_empty :: "pyval \<Rightarrow> pyexc + pydict" where
  "dict_or_empty v = py_dict (py_or v (VDict []))"

definition str_or :: "pyval \<Rightarrow> string \<Rightarrow> string" where
  "str_or v s = py_str (py_or v (VStr s))"

lemma dict_or_empty_VDict [simp]: "dict_or_empty (VDict d) = Inr d"
  by (cases d) (simp_all add: dict_or_empty_def py_or_def py_dict_def)

lemma dict_or_empty_VNone [simp]: "dict_or_empty VNone = Inr []"
  by (simp add: dict_or_empty_def py_or_def py_dict_def)

lemma str_or_VStr [simp]: "str_or (VStr s) d = (if s = [] then d else s)"
  by (simp add: str_or_def py_or_def)

lemma str_or_VNone [simp]: "str_or VNone d = d"
  by (simp add: str_or_def py_or_def)

lemma py_int_VInt [simp]: "py_int rt (VInt i) = Inr i"
  by (simp add: py_int_def)

end
