(* ===== verification/CanonicalJson.thy ===== *)
theory CanonicalJson
  imports PyValues
begin

text \<open>
  \<open>json.dumps(value, sort_keys=True, separators=(",", ":"), default=str)\<close>, the canonical
  form under every hash of the program, with the fact that makes hashing it meaningful:
  the rendering of a float-free JSON value determines the value up to key order.
\<close>

abbreviation BSLASH :: char where "BSLASH \<equiv> CHR 0x5C"
abbreviation DQUOTE :: char where "DQUOTE \<equiv> CHR 0x22"

definition json_short :: "char \<Rightarrow> char option" where
  "json_short c = map_of
     [(DQUOTE, DQUOTE), (BSLASH, BSLASH), (CHR 0x0A, CHR ''n''), (CHR 0x0D, CHR ''r''),
      (CHR 0x09, CHR ''t''), (CHR 0x0C, CHR ''f''), (CHR 0x08, CHR ''b'')] c"

definition json_char :: "char \<Rightarrow> string" where
  "json_char c = (case json_short c of
       Some e \<Rightarrow> [BSLASH, e]
     | None \<Rightarrow> (let n = (of_char c :: nat) in
         if 32 \<le> n \<and> n \<le> 126 then [c]
         else BSLASH # ''u00'' @ [hex_digit (n div 16), hex_digit (n mod 16)]))"

definition json_str :: "string \<Rightarrow> string" where
  "json_str s = DQUOTE # concat (map json_char s) @ [DQUOTE]"

definition json_float :: "string \<Rightarrow> string" where
  "json_float s = (if s = ''nan'' then ''NaN'' else if s = ''inf'' then ''Infinity''
     else if s = ''-inf'' then ''-Infinity'' else s)"

fun json_dumps :: "pyval \<Rightarrow> string" where
  "json_dumps VNone = ''null''"
| "json_dumps (VBool b) = (if b then ''true'' else ''false'')"
| "json_dumps (VInt i) = int_str i"
| "json_dumps (VFloat s) = json_float s"
| "json_dumps (VStr s) = json_str s"
| "json_dumps (VTime t) = json_str (py_str (VTime t))"
| "json_dumps (VList xs) = ''['' @ join_with '','' (map json_dumps xs) @ '']''"
| "json_dumps (VDict d) =
     ''{'' @ join_with '','' (map (\<lambda>(k, v). json_str k @ '':'' @ v)
                             (sort_key fst (map (\<lambda>(k, v). (k, json_dumps v)) d))) @ ''}''"

text \<open>The value with every dictionary in key order.\<close>

fun key_sorted :: "pyval \<Rightarrow> pyval" where
  "key_sorted (VList xs) = VList (map key_sorted xs)"
| "key_sorted (VDict d) = VDict (sort_key fst (map (\<lambda>(k, v). (k, key_sorted v)) d))"
| "key_sorted v = v"

text \<open>The values the unique reading covers: no floats, no datetimes.\<close>

fun exact_json :: "pyval \<Rightarrow> bool" where
  "exact_json (VFloat _) = False"
| "exact_json (VTime _) = False"
| "exact_json (VList xs) = list_all exact_json xs"
| "exact_json (VDict d) = list_all (\<lambda>(_, v). exact_json v) d"
| "exact_json _ = True"


section \<open>Strings read back uniquely\<close>

lemma of_char_hex_digit: "n < 16 \<Longrightarrow> (of_char (hex_digit n) :: nat) = (if n < 10 then 48 + n else 87 + n)"
  by (simp add: hex_digit_def)

lemma hex_digit_inject:
  assumes "m < 16" "n < 16" "hex_digit m = hex_digit n"
  shows "m = n"
proof -
  from assms(3) have "(of_char (hex_digit m) :: nat) = of_char (hex_digit n)" by simp
  with assms(1,2) show ?thesis
    by (simp only: of_char_hex_digit) (simp split: if_splits)
qed

lemma json_short_inject: "json_short c = Some e \<Longrightarrow> json_short d = Some e \<Longrightarrow> c = d"
  by (simp add: json_short_def split: if_splits) auto

lemma json_short_not_u: "json_short c \<noteq> Some CHR ''u''"
  by (simp add: json_short_def)

lemma json_short_special: "json_short DQUOTE = Some DQUOTE" "json_short BSLASH = Some BSLASH"
  by (simp_all add: json_short_def)

lemma json_char_nonempty [simp]: "json_char c \<noteq> []"
  by (simp add: json_char_def Let_def split: option.split)

lemma json_char_cases:
  obtains (short) e where "json_short c = Some e" "json_char c = [BSLASH, e]" "e \<noteq> CHR ''u''"
    | (plain) "json_char c = [c]" "c \<noteq> BSLASH" "c \<noteq> DQUOTE"
    | (hex) "json_char c = BSLASH # ''u00'' @ [hex_digit (of_char c div 16), hex_digit (of_char c mod 16)]"
proof (cases "json_short c")
  case None
  then have "c \<noteq> BSLASH" "c \<noteq> DQUOTE" using json_short_special by auto
  with None plain hex show ?thesis
    by (cases "32 \<le> (of_char c :: nat) \<and> (of_char c :: nat) \<le> 126") (simp_all add: json_char_def Let_def)
next
  case (Some e)
  with short json_short_not_u [of c] show ?thesis by (auto simp: json_char_def)
qed

lemma json_char_not_quote: "json_char c @ x \<noteq> DQUOTE # y"
  by (cases c rule: json_char_cases) auto

lemma json_char_inject:
  assumes "json_char c @ x = json_char d @ y"
  shows "c = d \<and> x = y"
proof (cases c rule: json_char_cases)
  case (short e)
  with assms show ?thesis
    by (cases d rule: json_char_cases) (auto dest: json_short_inject)
next
  case plain
  with assms show ?thesis by (cases d rule: json_char_cases) auto
next
  case hex
  note c = this
  show ?thesis
  proof (cases d rule: json_char_cases)
    case hex
    let ?m = "of_char c :: nat" and ?n = "of_char d :: nat"
    have lt: "?m div 16 < 16" "?n div 16 < 16"
      by (simp_all add: less_mult_imp_div_less nat_of_char_less_256)
    from assms c hex have "hex_digit (?m div 16) = hex_digit (?n div 16)"
      "hex_digit (?m mod 16) = hex_digit (?n mod 16)" "x = y" by auto
    with lt have "?m div 16 = ?n div 16" "?m mod 16 = ?n mod 16" "x = y"
      by (auto intro: hex_digit_inject)
    then have "?m = ?n" "x = y" by (metis div_mult_mod_eq)+
    then show ?thesis by simp
  qed (use assms c in auto)
qed

lemma json_chars_inject:
  "concat (map json_char s) @ DQUOTE # x = concat (map json_char t) @ DQUOTE # y \<Longrightarrow> s = t \<and> x = y"
proof (induction s arbitrary: t)
  case Nil
  then show ?case
    by (cases t) (auto dest!: sym [of _ "_ @ _"] simp: json_char_not_quote)
next
  case (Cons c s)
  show ?case
  proof (cases t)
    case Nil
    with Cons.prems show ?thesis by (auto simp: json_char_not_quote)
  next
    case t: (Cons d t')
    from Cons.prems t have "json_char c @ (concat (map json_char s) @ DQUOTE # x) =
        json_char d @ (concat (map json_char t') @ DQUOTE # y)" by simp
    from json_char_inject [OF this] Cons.IH t show ?thesis by auto
  qed
qed

lemma json_str_inject: "json_str s @ x = json_str t @ y \<Longrightarrow> s = t \<and> x = y"
  using json_chars_inject [of s x t y] by (simp add: json_str_def)


section \<open>Values read back uniquely\<close>

text \<open>The rendering without sorting; \<^const>\<open>json_dumps\<close> is this on the sorted value.\<close>

fun json_raw :: "pyval \<Rightarrow> string" where
  "json_raw VNone = ''null''"
| "json_raw (VBool b) = (if b then ''true'' else ''false'')"
| "json_raw (VInt i) = int_str i"
| "json_raw (VFloat s) = json_float s"
| "json_raw (VStr s) = json_str s"
| "json_raw (VTime t) = json_str (py_str (VTime t))"
| "json_raw (VList xs) = CHR ''['' # join_with '','' (map json_raw xs) @ '']''"
| "json_raw (VDict d) =
     CHR ''{'' # join_with '','' (map (\<lambda>(k, v). json_str k @ '':'' @ json_raw v) d) @ ''}''"

lemma insort_map_snd:
  "insort_key fst (k, f v) (map (\<lambda>(k, v). (k, f v)) d) = map (\<lambda>(k, v). (k, f v)) (insort_key fst (k, v) d)"
  by (induction d) auto

lemma sort_map_snd:
  "sort_key fst (map (\<lambda>(k, v). (k, f v)) d) = map (\<lambda>(k, v). (k, f v)) (sort_key fst d)"
  by (induction d) (auto simp: insort_map_snd)

lemma json_dumps_raw: "json_dumps v = json_raw (key_sorted v)"
proof (induction v rule: json_dumps.induct)
  case (8 d)
  have "map (\<lambda>(k, v). (k, json_dumps v)) d = map (\<lambda>(k, v). (k, json_raw (key_sorted v))) d"
    using 8 by auto
  then have L: "sort_key fst (map (\<lambda>(k, v). (k, json_dumps v)) d) =
      map (\<lambda>(k, v). (k, json_raw (key_sorted v))) (sort_key fst d)"
    using sort_map_snd [of "\<lambda>v. json_raw (key_sorted v)" d] by (simp only:)
  show ?case
    by (simp only: json_dumps.simps key_sorted.simps json_raw.simps L sort_map_snd [of key_sorted d])
      (simp add: case_prod_unfold comp_def)
qed (auto cong: map_cong)

lemma exact_json_key_sorted [simp]: "exact_json (key_sorted v) = exact_json v"
proof (induction v rule: key_sorted.induct)
  case (1 xs)
  then show ?case by (simp add: list_all_iff)
next
  case (2 d)
  then show ?case by (fastforce simp: list_all_iff)
qed auto

definition delim :: "string \<Rightarrow> bool" where
  "delim r \<longleftrightarrow> r = [] \<or> hd r \<in> {CHR '','', CHR '']'', CHR ''}''}"

definition num_char :: "char \<Rightarrow> bool" where
  "num_char c \<longleftrightarrow> is_digit c \<or> c = CHR ''-''"

lemma int_str_num: "c \<in> set (int_str i) \<Longrightarrow> num_char c"
  by (auto simp: int_str_def num_char_def dest: nat_str_digits split: if_splits)

lemma int_str_nonempty [simp]: "int_str i \<noteq> []"
  by (simp add: int_str_def)

lemma delim_not_num: "delim (c # r) \<Longrightarrow> \<not> num_char c"
  by (auto simp: delim_def num_char_def is_digit_def)

lemma takeWhile_int_str: "delim x \<Longrightarrow> takeWhile num_char (int_str i @ x) = int_str i"
  by (cases x) (auto simp: takeWhile_append2 int_str_num dest: delim_not_num)

lemma int_str_unique:
  assumes "int_str i @ x = int_str j @ y" "delim x" "delim y"
  shows "i = j \<and> x = y"
proof -
  have "int_str i = int_str j"
    using assms by (metis takeWhile_int_str)
  with assms(1) show ?thesis by simp
qed

text \<open>The first character of a rendering tells the shape of the value.\<close>

definition head_kind :: "char \<Rightarrow> nat" where
  "head_kind c = (if c = CHR ''n'' then 0 else if c = CHR ''t'' then 1 else if c = CHR ''f'' then 2
     else if c = DQUOTE then 3 else if c = CHR ''['' then 4 else if c = CHR ''{'' then 5
     else if num_char c then 6 else 7)"

fun value_kind :: "pyval \<Rightarrow> nat" where
  "value_kind VNone = 0"
| "value_kind (VBool b) = (if b then 1 else 2)"
| "value_kind (VStr _) = 3"
| "value_kind (VList _) = 4"
| "value_kind (VDict _) = 5"
| "value_kind _ = 6"

lemma head_kind_num: "num_char c \<Longrightarrow> head_kind c = 6"
  by (auto simp: head_kind_def num_char_def is_digit_def)

lemma head_kind_raw: "exact_json v \<Longrightarrow> json_raw v \<noteq> [] \<and> head_kind (hd (json_raw v)) = value_kind v"
proof (cases v)
  case (VInt i)
  then show ?thesis
    using int_str_num [of "hd (int_str i)" i] by (simp add: head_kind_num)
qed (auto simp: head_kind_def json_str_def num_char_def)

lemma raw_head_not_close: "exact_json v \<Longrightarrow> hd (json_raw v) \<noteq> CHR '']''"
proof
  assume "exact_json v" "hd (json_raw v) = CHR '']''"
  moreover have "head_kind CHR '']'' = 7" by (simp add: head_kind_def num_char_def is_digit_def)
  moreover have "value_kind v < 7" by (cases v) simp_all
  ultimately show False using head_kind_raw [of v] by simp
qed

lemma kind_shape:
  assumes "exact_json w"
  shows "value_kind w = 0 \<Longrightarrow> w = VNone" "value_kind w = 1 \<Longrightarrow> w = VBool True"
    "value_kind w = 2 \<Longrightarrow> w = VBool False" "value_kind w = 3 \<Longrightarrow> \<exists>s. w = VStr s"
    "value_kind w = 4 \<Longrightarrow> \<exists>xs. w = VList xs" "value_kind w = 5 \<Longrightarrow> \<exists>d. w = VDict d"
    "value_kind w = 6 \<Longrightarrow> \<exists>i. w = VInt i"
  using assms by (cases w; simp split: if_splits)+

lemma kinds_agree:
  assumes "json_raw v @ x = json_raw w @ y" "exact_json v" "exact_json w"
  shows "value_kind v = value_kind w"
  using assms head_kind_raw [of v] head_kind_raw [of w] by (metis hd_append2)

text \<open>A renderer whose outputs read back uniquely before a delimiter.\<close>

definition reads_back :: "('a \<Rightarrow> string) \<Rightarrow> 'a set \<Rightarrow> 'a set \<Rightarrow> bool" where
  "reads_back f A B \<longleftrightarrow> (\<forall>a \<in> A. \<forall>b \<in> B. \<forall>x y. delim x \<longrightarrow> delim y \<longrightarrow> f a @ x = f b @ y \<longrightarrow> a = b \<and> x = y)"

lemma reads_backD: "reads_back f A B \<Longrightarrow> a \<in> A \<Longrightarrow> b \<in> B \<Longrightarrow> delim x \<Longrightarrow> delim y \<Longrightarrow>
    f a @ x = f b @ y \<Longrightarrow> a = b \<and> x = y"
  by (simp add: reads_back_def)

lemma delim_simps [simp]:
  "delim (CHR '','' # r)" "delim (CHR '']'' # r)" "delim (CHR ''}'' # r)"
  by (simp_all add: delim_def)

lemma join_Cons: "join_with sep (w # ws) = (if ws = [] then w else w @ sep @ join_with sep ws)"
  by (cases ws) auto

lemma join_unique:
  assumes "reads_back f (set xs) (set ys)" and c: "c = CHR '']'' \<or> c = CHR ''}''"
    and "\<And>a. a \<in> set xs \<union> set ys \<Longrightarrow> f a \<noteq> [] \<and> hd (f a) \<noteq> c"
    and "join_with '','' (map f xs) @ c # x = join_with '','' (map f ys) @ c # y"
  shows "xs = ys \<and> x = y"
  using assms(1,3,4)
proof (induction xs arbitrary: ys)
  case Nil
  then show ?case
    by (cases ys) (auto simp: join_Cons split: if_splits, (metis hd_append2 list.sel(1))+)
next
  case (Cons a xs)
  show ?case
  proof (cases ys)
    case Nil
    with Cons.prems show ?thesis
      by (auto simp: join_Cons split: if_splits) (metis hd_append2 list.sel(1))+
  next
    case ys: (Cons b ys')
    define r where "r = (if xs = [] then c # x else CHR '','' # join_with '','' (map f xs) @ c # x)"
    define q where "q = (if ys' = [] then c # y else CHR '','' # join_with '','' (map f ys') @ c # y)"
    have "f a @ r = f b @ q" using Cons.prems(3) ys
      by (cases "xs = []"; cases "ys' = []") (simp_all add: join_Cons r_def q_def)
    moreover have "delim r" "delim q" using c by (auto simp: r_def q_def)
    ultimately have ab: "a = b" and rq: "r = q"
      using reads_backD [OF Cons.prems(1), of a b r q] ys by auto
    have sub: "reads_back f (set xs) (set ys')"
      using Cons.prems(1) ys by (simp add: reads_back_def)
    show ?thesis
    proof (cases "xs = [] \<or> ys' = []")
      case True
      with rq c ys ab show ?thesis by (auto simp: r_def q_def split: if_splits)
    next
      case False
      with rq have "join_with '','' (map f xs) @ c # x = join_with '','' (map f ys') @ c # y"
        by (simp add: r_def q_def)
      from Cons.IH [OF sub _ this] Cons.prems(2) ys ab show ?thesis by auto
    qed
  qed
qed

lemma raw_unique:
  assumes "exact_json v" "exact_json w" "delim x" "delim y" "json_raw v @ x = json_raw w @ y"
  shows "v = w \<and> x = y"
  using assms
proof (induction v arbitrary: w x y rule: json_raw.induct)
  case 1
  from kinds_agree [OF 1(5,1,2)] kind_shape(1) [OF 1(2)] have "w = VNone" by (metis value_kind.simps(1))
  with 1(5) show ?case by simp
next
  case (2 b)
  from kinds_agree [OF 2(5,1,2)] kind_shape(2,3) [OF 2(2)] have "w = VBool b" by (metis value_kind.simps(2))
  with 2(5) show ?case by simp
next
  case (3 i)
  from kinds_agree [OF 3(5,1,2)] kind_shape(7) [OF 3(2)] obtain j where w: "w = VInt j"
    by (metis value_kind.simps(6))
  from 3(5) w have "int_str i @ x = int_str j @ y" by (simp only: json_raw.simps)
  from int_str_unique [OF this 3(3,4)] w show ?case by simp
next
  case (5 s)
  from kinds_agree [OF 5(5,1,2)] kind_shape(4) [OF 5(2)] obtain t where w: "w = VStr t"
    by (metis value_kind.simps(3))
  from 5(5) w have "json_str s @ x = json_str t @ y" by (simp only: json_raw.simps)
  from json_str_inject [OF this] w show ?case by simp
next
  case (7 xs)
  from kinds_agree [OF 7(6,2,3)] kind_shape(5) [OF 7(3)] obtain ys where w: "w = VList ys"
    by (metis value_kind.simps(4))
  have ex: "\<And>a. a \<in> set xs \<Longrightarrow> exact_json a" "\<And>a. a \<in> set ys \<Longrightarrow> exact_json a"
    using 7(2,3) w by (simp_all add: list_all_iff)
  have R: "reads_back json_raw (set xs) (set ys)"
    unfolding reads_back_def by (intro ballI allI impI) (rule 7(1) [OF _ ex(1) ex(2)])
  have H: "json_raw a \<noteq> [] \<and> hd (json_raw a) \<noteq> CHR '']''" if "a \<in> set xs \<union> set ys" for a
    using head_kind_raw [of a] raw_head_not_close [of a] that ex by blast
  have "join_with '','' (map json_raw xs) @ CHR '']'' # x = join_with '','' (map json_raw ys) @ CHR '']'' # y"
    using 7(6) w by (simp only: json_raw.simps append_Cons append_assoc append_Nil list.inject)
  from join_unique [OF R _ H this] have "xs = ys \<and> x = y" by simp
  with w show ?case by simp
next
  case (8 d)
  from kinds_agree [OF 8(6,2,3)] kind_shape(6) [OF 8(3)] obtain e where w: "w = VDict e"
    by (metis value_kind.simps(5))
  let ?f = "\<lambda>(k, v). json_str k @ '':'' @ json_raw v"
  have "reads_back ?f (set d) (set e)"
    unfolding reads_back_def
  proof (intro ballI allI impI)
    fix p q x y
    assume *: "p \<in> set d" "q \<in> set e" "delim x" "delim y" "?f p @ x = ?f q @ y"
    obtain k v k' v' where pq: "p = (k, v)" "q = (k', v')" by (cases p; cases q)
    with * have "k = k'" "json_raw v @ x = json_raw v' @ y"
      using json_str_inject [of k "CHR '':'' # json_raw v @ x" k' "CHR '':'' # json_raw v' @ y"] by auto
    with * 8(1) [OF *(1) pq(1) [symmetric], of v' x y] 8(2,3) w pq show "p = q \<and> x = y"
      by (auto simp: list_all_iff)
  qed
  note R = this
  have H: "?f a \<noteq> [] \<and> hd (?f a) \<noteq> CHR ''}''" for a
    by (cases a) (simp add: json_str_def)
  have "join_with '','' (map ?f d) @ CHR ''}'' # x = join_with '','' (map ?f e) @ CHR ''}'' # y"
    using 8(6) w by (simp only: json_raw.simps append_Cons append_assoc append_Nil list.inject)
  from join_unique [OF R _ H this] have "d = e \<and> x = y" by simp
  with w show ?case by simp
qed auto

lemma json_dumps_unique:
  assumes "exact_json v" "exact_json w" "json_dumps v = json_dumps w"
  shows "key_sorted v = key_sorted w"
  using raw_unique [of "key_sorted v" "key_sorted w" "[]" "[]"] assms
  by (simp add: json_dumps_raw delim_def)

end
