(* ===== verification/CredentialContract.thy ===== *)
theory CredentialContract
  imports CanonicalJson Regex
begin

text \<open>
  The immutable credential reference contract of \<open>netbox_rpc/credential_contract.py\<close>:
  validation of one reference and of a named mapping of references, the normal form they
  are rewritten to, the fingerprint they add to the normalized parameters, and the only
  credential values that event redaction lets through.
\<close>

definition MAX_REFERENCE_LEASE_SECONDS :: int where
  "MAX_REFERENCE_LEASE_SECONDS = 300"

definition name_char :: "char \<Rightarrow> bool" where
  "name_char c \<longleftrightarrow> is_lower_alpha c \<or> is_digit c \<or> c = CHR ''_''"

text \<open>The pattern without its anchors; \<open>fullmatch\<close> makes them redundant.\<close>

definition NAME_PATTERN :: regex where
  "NAME_PATTERN = Seq (CS is_lower_alpha) (Rep 0 (Some 63) (CS name_char))"

definition OBJECT_TYPE_PATTERN :: regex where
  "OBJECT_TYPE_PATTERN = seqs [NAME_PATTERN, lit ''.'', NAME_PATTERN]"

definition POSITIVE_ID :: pyval where
  "POSITIVE_ID = VDict [(''type'', VStr ''integer''), (''minimum'', VInt 1),
     (''maximum'', VInt 9007199254740991)]"

definition strs :: "string list \<Rightarrow> pyval" where
  "strs ss = VList (map VStr ss)"

definition REFERENCE_TARGET_SCHEMA :: pyval where
  "REFERENCE_TARGET_SCHEMA = VDict
     [(''type'', VStr ''object''), (''additionalProperties'', VBool False),
      (''required'', strs [''object_type'', ''object_id'']),
      (''properties'', VDict
         [(''object_type'', VDict [(''type'', VStr ''string''), (''maxLength'', VInt 129),
             (''pattern'', VStr (''^[a-z][a-z0-9_]{0,63}'' @ [CHR 0x5C] @ ''.[a-z][a-z0-9_]{0,63}$''))]),
          (''object_id'', POSITIVE_ID)])]"

definition REFERENCE_VERSION_SCHEMA :: pyval where
  "REFERENCE_VERSION_SCHEMA = VDict [(''oneOf'', VList
     [VDict [(''type'', VStr ''object''), (''additionalProperties'', VBool False),
             (''required'', strs [''policy'']),
             (''properties'', VDict [(''policy'', VDict [(''const'', VStr ''live'')])])],
      VDict [(''type'', VStr ''object''), (''additionalProperties'', VBool False),
             (''required'', strs [''policy'', ''number'']),
             (''properties'', VDict [(''policy'', VDict [(''const'', VStr ''pinned'')]),
                                     (''number'', POSITIVE_ID)])]])]"

definition REFERENCE_SCHEMA :: pyval where
  "REFERENCE_SCHEMA = VDict
     [(''type'', VStr ''object''), (''additionalProperties'', VBool False),
      (''required'', strs [''schema_version'', ''provider'', ''target'', ''purpose'', ''fields'', ''version'']),
      (''properties'', VDict
         [(''schema_version'', VDict [(''type'', VStr ''integer''), (''const'', VInt 1)]),
          (''provider'', VDict [(''const'', VStr ''netbox-openbao'')]),
          (''assignment_id'', POSITIVE_ID),
          (''credential_uuid'', VDict [(''type'', VStr ''string''), (''minLength'', VInt 36),
                                       (''maxLength'', VInt 36)]),
          (''target'', REFERENCE_TARGET_SCHEMA),
          (''purpose'', VDict [(''enum'', strs [''login'', ''enable'', ''console'', ''oob'', ''api'',
                                                ''agent'', ''backup''])]),
          (''fields'', VDict [(''type'', VStr ''array''), (''minItems'', VInt 1), (''maxItems'', VInt 16),
             (''uniqueItems'', VBool True),
             (''items'', VDict [(''type'', VStr ''string''), (''maxLength'', VInt 64),
                                (''pattern'', VStr ''^[a-z][a-z0-9_]{0,63}$'')])]),
          (''version'', REFERENCE_VERSION_SCHEMA)]),
      (''oneOf'', VList [VDict [(''required'', strs [''assignment_id''])],
                         VDict [(''required'', strs [''credential_uuid''])]])]"

datatype credential_error = CredentialContractError | Uncaught pyexc

text \<open>The \<open>except\<close> clause of the validator: everything it runs into but a missing key.\<close>

fun as_contract_error :: "pyexc \<Rightarrow> credential_error" where
  "as_contract_error (KeyError k) = Uncaught (KeyError k)"
| "as_contract_error _ = CredentialContractError"

definition contract_try :: "pyexc + 'a \<Rightarrow> credential_error + 'a" where
  "contract_try r = (case r of Inl e \<Rightarrow> Inl (as_contract_error e) | Inr a \<Rightarrow> Inr a)"

definition canonical_hash :: "python_rt \<Rightarrow> pyval \<Rightarrow> string" where
  "canonical_hash rt v = rt_sha256 rt (json_dumps v)"

record CredentialReferenceV1 =
  cr_schema_version :: int
  cr_provider :: string
  cr_assignment_id :: pyval
  cr_credential_uuid :: pyval
  cr_object_type :: pyval
  cr_object_id :: pyval
  cr_purpose :: pyval
  cr_fields :: "pyval list"
  cr_policy :: pyval
  cr_number :: pyval

fun exact_int :: "pyval \<Rightarrow> bool" where
  "exact_int (VInt _) = True"
| "exact_int _ = False"

definition strict_reference_integers :: "pyval \<Rightarrow> credential_error + unit" where
  "strict_reference_integers v =
     contract_try
       (rbind (py_index v ''schema_version'') (\<lambda>sv.
        rbind (py_index v ''target'') (\<lambda>tg.
        rbind (py_index tg ''object_id'') (\<lambda>oid.
        rbind (case v of VDict d \<Rightarrow> Inr (case map_of d ''assignment_id'' of None \<Rightarrow> [] | Some a \<Rightarrow> [a])
               | _ \<Rightarrow> Inl TypeError) (\<lambda>asg.
        rbind (py_index v ''version'') (\<lambda>ver.
        rbind (case ver of VDict d \<Rightarrow> Inr (case map_of d ''number'' of None \<Rightarrow> [] | Some n \<Rightarrow> [n])
               | _ \<Rightarrow> Inl TypeError) (\<lambda>num.
          if list_all exact_int ([sv, oid] @ asg @ num) then Inr () else Inl ValueError)))))))"

text \<open>\<open>str(UUID(s)) == s\<close>: thirty-two lower-case hexadecimal digits in the usual grouping.\<close>

definition CANONICAL_UUID :: regex where
  "CANONICAL_UUID =
     (let hex = (\<lambda>n. Rep n (Some n) (CS is_lower_hex)) in
      seqs [hex 8, lit ''-'', hex 4, lit ''-'', hex 4, lit ''-'', hex 4, lit ''-'', hex 12])"

definition check_uuid :: "pyval \<Rightarrow> pyexc + unit" where
  "check_uuid v = (case v of
       VNone \<Rightarrow> Inr ()
     | VStr s \<Rightarrow> if fullmatch CANONICAL_UUID s then Inr () else Inl ValueError
     | _ \<Rightarrow> Inl AttributeError)"

definition check_matches :: "regex \<Rightarrow> pyval \<Rightarrow> pyexc + unit" where
  "check_matches r v = (case v of
       VStr s \<Rightarrow> if fullmatch r s then Inr () else Inl ValueError
     | _ \<Rightarrow> Inl TypeError)"

definition py_get :: "pyval \<Rightarrow> string \<Rightarrow> pyexc + pyval" where
  "py_get v k = (case v of VDict d \<Rightarrow> Inr (dget d k) | _ \<Rightarrow> Inl AttributeError)"

definition from_mapping :: "python_rt \<Rightarrow> pyval \<Rightarrow> credential_error + CredentialReferenceV1" where
  "from_mapping rt v =
     rbind (guard (rt_schema rt REFERENCE_SCHEMA v) CredentialContractError) (\<lambda>_.
     rbind (strict_reference_integers v) (\<lambda>_.
     rbind (contract_try (py_get v ''credential_uuid'')) (\<lambda>ident.
     rbind (contract_try (check_uuid ident)) (\<lambda>_.
     rbind (contract_try (rbind (py_index v ''fields'') py_iter)) (\<lambda>fs.
     rbind (contract_try (rmap (check_matches NAME_PATTERN) fs)) (\<lambda>_.
     rbind (contract_try (rbind (py_index v ''target'') (\<lambda>t. py_index t ''object_type''))) (\<lambda>label.
     rbind (contract_try (check_matches OBJECT_TYPE_PATTERN label)) (\<lambda>_.
     rbind (map_sum Uncaught id (rbind (py_index v ''target'') (\<lambda>t. py_index t ''object_id''))) (\<lambda>oid.
     rbind (map_sum Uncaught id (py_index v ''purpose'')) (\<lambda>pu.
     rbind (map_sum Uncaught id (py_index v ''version'')) (\<lambda>ver.
     rbind (map_sum Uncaught id (py_index ver ''policy'')) (\<lambda>pol.
     rbind (map_sum Uncaught id (py_get ver ''number'')) (\<lambda>num.
     rbind (map_sum Uncaught id (py_get v ''assignment_id'')) (\<lambda>asg.
       Inr \<lparr>cr_schema_version = 1, cr_provider = ''netbox-openbao'', cr_assignment_id = asg,
            cr_credential_uuid = ident, cr_object_type = label, cr_object_id = oid, cr_purpose = pu,
            cr_fields = fs, cr_policy = pol, cr_number = num\<rparr>))))))))))))))"

definition to_mapping :: "CredentialReferenceV1 \<Rightarrow> pydict" where
  "to_mapping r =
     [(''schema_version'', VInt (cr_schema_version r)), (''provider'', VStr (cr_provider r)),
      (''target'', VDict [(''object_type'', cr_object_type r), (''object_id'', cr_object_id r)]),
      (''purpose'', cr_purpose r), (''fields'', VList (cr_fields r)),
      (''version'', VDict ((''policy'', cr_policy r) #
         (if cr_number r = VNone then [] else [(''number'', cr_number r)])))]
     @ (if cr_assignment_id r \<noteq> VNone then [(''assignment_id'', cr_assignment_id r)]
        else [(''credential_uuid'', cr_credential_uuid r)])"

definition validate_entry :: "python_rt \<Rightarrow> string \<times> pyval \<Rightarrow> credential_error + (string \<times> pyval)" where
  "validate_entry rt p =
     rbind (guard (fullmatch NAME_PATTERN (fst p)) CredentialContractError) (\<lambda>_.
     rbind (from_mapping rt (snd p)) (\<lambda>r. Inr (fst p, VDict (to_mapping r))))"

definition validate_named_references :: "python_rt \<Rightarrow> pyval \<Rightarrow> credential_error + pydict" where
  "validate_named_references rt v = (case v of
       VDict d \<Rightarrow> if length d > 16 then Inl CredentialContractError else rmap (validate_entry rt) d
     | _ \<Rightarrow> Inl CredentialContractError)"

text \<open>
  \<open>apply_credential_fingerprint\<close> on the two attributes of the execution it reads; the
  normalized parameters are returned updated. A \<open>command_fingerprint\<close> that is not a mapping
  raises.
\<close>

definition apply_credential_fingerprint ::
  "python_rt \<Rightarrow> pyval \<Rightarrow> pydict \<Rightarrow> pydict \<Rightarrow> credential_error + pydict" where
  "apply_credential_fingerprint rt references snapshot normalized =
     (if \<not> truthy references then Inr normalized
      else rbind (validate_named_references rt references) (\<lambda>refs.
        if snapshot = [] \<or> \<not> py_eq (dget snapshot ''references'') (VDict refs)
        then Inl CredentialContractError
        else
          let h = canonical_hash rt (VDict snapshot);
              n1 = dict_set ''credential_references'' (VDict refs) normalized;
              fp = (case map_of n1 ''command_fingerprint'' of None \<Rightarrow> VDict [] | Some v \<Rightarrow> v)
          in (case fp of
                VDict f \<Rightarrow>
                  Inr (dict_set ''credential_policy_ref'' (VStr (''credential-authority:'' @ h))
                        (dict_set ''command_fingerprint''
                          (VDict (dict_set ''credential_authority_sha256'' (VStr h) f)) n1))
              | _ \<Rightarrow> Inl (Uncaught TypeError))))"

definition sha256_hex :: regex where
  "sha256_hex = Rep 64 (Some 64) (CS is_lower_hex)"

definition public_credential_metadata :: "python_rt \<Rightarrow> pyval \<Rightarrow> string \<Rightarrow> pyval option" where
  "public_credential_metadata rt v key =
     (if key = ''credential_references'' then
        (case validate_named_references rt v of Inl _ \<Rightarrow> None | Inr d \<Rightarrow> Some (VDict d))
      else (case v of
          VStr s \<Rightarrow>
            if (key = ''credential_authority_sha256'' \<and> fullmatch sha256_hex s) \<or>
               (key = ''credential_policy_ref'' \<and>
                fullmatch (Seq (lit ''credential-authority:'') sha256_hex) s)
            then Some v else None
        | _ \<Rightarrow> None))"

end
