(* ===== verification/Redaction.thy ===== *)
theory Redaction
  imports SpanRedaction CredentialContract
begin

text \<open>
  Redaction of structured event data, \<open>netbox_rpc/event_store.py\<close> from
  \<open>_is_sensitive_key\<close> to \<open>_bounded_event_message\<close>: sensitive key names, bounded texts,
  mappings and lists, keyed placeholders for secret-bearing names, and the event level and
  message the ledger stores.
\<close>

section \<open>Limits and names\<close>

definition SENSITIVE_KEY_FRAGMENTS :: "string list" where
  "SENSITIVE_KEY_FRAGMENTS = [''auth'', ''community'', ''credential'', ''key'', ''password'', ''private'',
     ''secret'', ''token'']"

definition SAFE_REFERENCE_KEYS :: "string list" where
  "SAFE_REFERENCE_KEYS = [''credential_pk'', ''guest_credential_pk'', ''host_key_fingerprint'',
     ''host_key_pinned'', ''known_hosts_entry'', ''key_id'', ''key_version'', ''password_bytes'',
     ''password_sha256'', ''restconf_credential_pk'', ''rpc_ssh_credential_pk'',
     ''rpc_ssh_strict_host_key_checking'']"

definition BOOLEAN_POLICY_KEYS :: "string list" where
  "BOOLEAN_POLICY_KEYS = [''rpc_ssh_strict_host_key_checking'']"

definition MAX_EVENT_STRING_LENGTH :: nat where "MAX_EVENT_STRING_LENGTH = 4096"
definition MAX_EVENT_LIST_ITEMS :: nat where "MAX_EVENT_LIST_ITEMS = 50"
definition MAX_EVENT_DICT_ITEMS :: nat where "MAX_EVENT_DICT_ITEMS = 100"
definition MAX_REDACTION_DEPTH :: nat where "MAX_REDACTION_DEPTH = 32"

definition TRUNCATION_MARKER :: string where
  "TRUNCATION_MARKER = ''...[truncated]''"

definition EVENT_MAPPING_NAME_SALT :: string where
  "EVENT_MAPPING_NAME_SALT = ''netbox_rpc.event_mapping_name.v1''"

definition MAPPING_NAME_PLACEHOLDER_PREFIX :: string where
  "MAPPING_NAME_PLACEHOLDER_PREFIX = ''[REDACTED-NAME:''"

definition EVENT_LEVELS :: "string list" where
  "EVENT_LEVELS = [''debug'', ''info'', ''warning'', ''error'']"

text \<open>Per-path string limits; a path that is not listed has the default limit.\<close>

type_synonym string_limits = "(string list \<times> nat) list"

definition limit_at :: "string_limits \<Rightarrow> string list \<Rightarrow> nat" where
  "limit_at lim path = (case map_of lim path of None \<Rightarrow> MAX_EVENT_STRING_LENGTH | Some n \<Rightarrow> n)"

definition is_sensitive_key :: "string \<Rightarrow> bool" where
  "is_sensitive_key key =
     (let normalized = lower key in
      if normalized \<in> set SAFE_REFERENCE_KEYS \<or> endswith normalized ''_credential_pk'' then False
      else list_ex (contains normalized) SENSITIVE_KEY_FRAGMENTS)"

definition is_vaulted_secret_reference :: "pyval \<Rightarrow> bool" where
  "is_vaulted_secret_reference v = (case v of VStr s \<Rightarrow> fullmatch NMS_SECRET_REFERENCE_RE s | _ \<Rightarrow> False)"

definition text_bound :: "nat \<Rightarrow> string \<Rightarrow> string" where
  "text_bound n t = (if length t > n then take n t @ TRUNCATION_MARKER else t)"

definition redact_event_text :: "string_limits \<Rightarrow> string list \<Rightarrow> string \<Rightarrow> string" where
  "redact_event_text lim path t = redact_bounded t (text_bound (limit_at lim path))"

definition mapping_name_is_secret_bearing :: "string \<Rightarrow> bool" where
  "mapping_name_is_secret_bearing name \<longleftrightarrow> redact_secret_text name \<noteq> name"

definition keyed_mapping_name :: "python_rt \<Rightarrow> string \<Rightarrow> string" where
  "keyed_mapping_name rt name =
     MAPPING_NAME_PLACEHOLDER_PREFIX @ rt_hmac rt EVENT_MAPPING_NAME_SALT name @ '']''"

text \<open>
  The loop of \<open>_unused_placeholder\<close>; the number of taken names bounds its iterations,
  because every candidate is new.
\<close>

fun unused_loop :: "nat \<Rightarrow> string \<Rightarrow> string list \<Rightarrow> nat \<Rightarrow> string \<Rightarrow> string" where
  "unused_loop 0 placeholder taken sfx candidate = candidate"
| "unused_loop (Suc k) placeholder taken sfx candidate =
     (if candidate \<in> set taken
      then unused_loop k placeholder taken (sfx + 1) (placeholder @ ''#'' @ nat_str (sfx + 1))
      else candidate)"

definition unused_placeholder :: "python_rt \<Rightarrow> string \<Rightarrow> string list \<Rightarrow> string" where
  "unused_placeholder rt name taken =
     (let placeholder = keyed_mapping_name rt name
      in unused_loop (Suc (length taken)) placeholder taken 1 placeholder)"

fun persist_entries ::
  "python_rt \<Rightarrow> (string \<Rightarrow> bool) \<Rightarrow> string list \<Rightarrow> (string \<times> 'v) list \<Rightarrow> (string \<times> string \<times> 'v) list" where
  "persist_entries rt secret taken [] = []"
| "persist_entries rt secret taken ((name, item) # es) =
     (if secret name
      then (let persisted = unused_placeholder rt name taken
            in (persisted, name, item) # persist_entries rt secret (persisted # taken) es)
      else (name, name, item) # persist_entries rt secret taken es)"

definition persisted_mapping_entries ::
  "python_rt \<Rightarrow> (string \<times> 'v) list \<Rightarrow> (string \<times> string \<times> 'v) list" where
  "persisted_mapping_entries rt named =
     persist_entries rt mapping_name_is_secret_bearing
       (filter (\<lambda>n. \<not> mapping_name_is_secret_bearing n) (map fst named)) (sort_key fst named)"

definition mapping_window :: "pydict \<Rightarrow> pydict \<times> bool" where
  "mapping_window d =
     (if length d = MAX_EVENT_DICT_ITEMS + 1 \<and> map_of d ''_truncated'' = Some (VBool True)
      then (filter (\<lambda>(k, _). k \<noteq> ''_truncated'') d, True)
      else (take MAX_EVENT_DICT_ITEMS d, length d > MAX_EVENT_DICT_ITEMS))"

definition is_truncation_marker :: "pyval \<Rightarrow> bool" where
  "is_truncation_marker v = (case v of
       VDict d \<Rightarrow> set (map fst d) = {''_truncated'', ''remaining''} \<and>
         dget d ''_truncated'' = VBool True \<and> exact_int (dget d ''remaining'')
     | _ \<Rightarrow> False)"

definition sequence_window :: "pyval list \<Rightarrow> pyval list \<times> pyval option" where
  "sequence_window xs =
     (if length xs = MAX_EVENT_LIST_ITEMS + 1 \<and> is_truncation_marker (xs ! MAX_EVENT_LIST_ITEMS)
      then (butlast xs, Some (xs ! MAX_EVENT_LIST_ITEMS))
      else (take MAX_EVENT_LIST_ITEMS xs,
            if length xs > MAX_EVENT_LIST_ITEMS
            then Some (VDict [(''_truncated'', VBool True),
                              (''remaining'', VInt (int (length xs) - int MAX_EVENT_LIST_ITEMS))])
            else None))"

definition redact_sensitive_value :: "python_rt \<Rightarrow> pyval \<Rightarrow> string \<Rightarrow> pyval" where
  "redact_sensitive_value rt v parent_key =
     (if is_bool v then v
      else (case public_credential_metadata rt v parent_key of
          Some p \<Rightarrow> p
        | None \<Rightarrow> if is_vaulted_secret_reference v then v else VStr REDACTION_MARKER))"

definition assign_all :: "(string \<times> pyval) list \<Rightarrow> pydict" where
  "assign_all ps = foldl (\<lambda>d (k, v). dict_set k v d) [] ps"

lemma size_window: "(k, v) \<in> set (fst (mapping_window d)) \<Longrightarrow> (k, v) \<in> set d"
  by (auto simp: mapping_window_def dest: in_set_takeD split: if_splits)

lemma persist_entries_source: "(p, n, v) \<in> set (persist_entries rt secret taken es) \<Longrightarrow> (n, v) \<in> set es"
  by (induction rt secret taken es rule: persist_entries.induct) (auto simp: Let_def split: if_splits)

lemma persisted_source: "(p, n, v) \<in> set (persisted_mapping_entries rt es) \<Longrightarrow> (n, v) \<in> set es"
  by (auto simp: persisted_mapping_entries_def dest: persist_entries_source)

lemma sequence_window_subset: "x \<in> set (fst (sequence_window xs)) \<Longrightarrow> x \<in> set xs"
  by (auto simp: sequence_window_def dest: in_set_takeD in_set_butlastD split: if_splits)

lemma size_in_dict: "(k, v) \<in> set d \<Longrightarrow> size v < size (VDict d)"
  by (induction d) auto

lemma size_in_list: "v \<in> set xs \<Longrightarrow> size v < size (VList xs)"
  by (induction xs) auto

lemma size_persisted:
  "(p, n, v) \<in> set (persisted_mapping_entries rt (fst (mapping_window d))) \<Longrightarrow> size v < size (VDict d)"
  by (rule size_in_dict [OF size_window [OF persisted_source]])

lemma size_sequence: "x \<in> set (fst (sequence_window xs)) \<Longrightarrow> size x < size (VList xs)"
  by (rule size_in_list [OF sequence_window_subset])

function redact_event_value ::
  "python_rt \<Rightarrow> string_limits \<Rightarrow> string \<Rightarrow> string list \<Rightarrow> nat \<Rightarrow> pyval \<Rightarrow> pyval" where
  "redact_event_value rt lim parent_key path depth v =
     (if parent_key \<noteq> [] \<and> lower parent_key \<in> set BOOLEAN_POLICY_KEYS
      then (if is_bool v then v else VStr REDACTION_MARKER)
      else if parent_key \<noteq> [] \<and> is_sensitive_key parent_key
      then redact_sensitive_value rt v parent_key
      else (case v of
          VDict d \<Rightarrow>
            if depth > MAX_REDACTION_DEPTH then VStr ''[truncated]''
            else (let es = assign_all (map (\<lambda>(p, n, item).
                             (p, redact_event_value rt lim n (path @ [n]) (depth + 1) item))
                             (persisted_mapping_entries rt (fst (mapping_window d))))
                  in VDict (if snd (mapping_window d) then dict_set ''_truncated'' (VBool True) es else es))
        | VList xs \<Rightarrow>
            if depth > MAX_REDACTION_DEPTH then VStr ''[truncated]''
            else VList (map (redact_event_value rt lim parent_key (path @ [''*'']) (depth + 1))
                          (fst (sequence_window xs))
                        @ (case snd (sequence_window xs) of None \<Rightarrow> [] | Some m \<Rightarrow> [m]))
        | VStr s \<Rightarrow> VStr (redact_event_text lim path s)
        | VTime t \<Rightarrow> VStr (redact_event_text lim path (py_str v))
        | _ \<Rightarrow> v))"
  by pat_completeness auto
termination
  by (relation "measure (\<lambda>(_, _, _, _, _, v). size v)")
    (auto dest: size_persisted size_sequence simp del: pyval.size)

declare redact_event_value.simps [simp del]

definition redact_event_data :: "python_rt \<Rightarrow> string_limits \<Rightarrow> pydict \<Rightarrow> pydict" where
  "redact_event_data rt lim d =
     (case redact_event_value rt lim [] [] 0 (VDict d) of VDict r \<Rightarrow> r | _ \<Rightarrow> [])"

definition bounded_event_message :: "string \<Rightarrow> string" where
  "bounded_event_message m =
     redact_bounded m (\<lambda>t. if length t \<le> MAX_EVENT_STRING_LENGTH then t
       else take (MAX_EVENT_STRING_LENGTH - length TRUNCATION_MARKER) t @ TRUNCATION_MARKER)"

definition ledger_event_level :: "pyval \<Rightarrow> string" where
  "ledger_event_level v = (case v of VStr s \<Rightarrow> if s \<in> set EVENT_LEVELS then s else ''info'' | _ \<Rightarrow> ''info'')"

end
