(* ===== verification/RegexFacts.thy ===== *)
theory RegexFacts
  imports Redaction
begin

text \<open>
  Facts about the patterns that the component proofs use: the exact language of a
  character class repetition, and a criterion for a text to hold nothing any secret
  pattern or structural rule could match.
\<close>

section \<open>Repeated character classes\<close>

lemma rep_class_sound:
  assumes "st \<in> set (rep_loop (length t) True (rx (CS Q) t) 0 (Some h) (i, g))"
  shows "\<exists>k \<le> h. st = (i + k, g) \<and> (\<forall>j < k. i + j < length t \<and> Q (t ! (i + j)))"
  using assms
proof (induction h arbitrary: i)
  case 0
  then show ?case by (simp add: rep_loop.simps)
next
  case (Suc h)
  from Suc.prems consider "st = (i, g)" | "i < length t" "Q (t ! i)"
      "st \<in> set (rep_loop (length t) True (rx (CS Q) t) 0 (Some h) (Suc i, g))"
    by (subst (asm) rep_loop.simps) (auto simp: Let_def rep_progress_def split: if_splits)
  then show ?case
  proof cases
    case 2
    from Suc.IH [OF 2(3)] obtain k where k: "k \<le> h" "st = (Suc i + k, g)"
      "\<forall>j < k. Suc i + j < length t \<and> Q (t ! (Suc i + j))" by blast
    have "i + j < length t \<and> Q (t ! (i + j))" if "j < Suc k" for j
      using that 2(1,2) k(3) by (cases j) auto
    with k show ?thesis by (intro exI [of _ "Suc k"]) auto
  qed auto
qed

lemma fullmatch_class:
  assumes "fullmatch (Seq (CS P) (Rep 0 (Some n) (CS Q))) s"
  shows "\<exists>c r. s = c # r \<and> P c \<and> list_all Q r \<and> length r \<le> n"
proof -
  from assms obtain st where st: "0 < length s" "P (s ! 0)" "fst st = length s"
    "st \<in> set (rep_loop (length s) True (rx (CS Q) s) 0 (Some n) (Suc 0, []))"
    by (auto simp: fullmatch_def split: if_splits)
  from rep_class_sound [OF st(4)] obtain k where k: "k \<le> n" "st = (Suc 0 + k, [])"
    "\<forall>j < k. Suc 0 + j < length s \<and> Q (s ! (Suc 0 + j))" by blast
  then have "length s = Suc k" "\<forall>j < k. Q (s ! (Suc j))" using st(3) by simp_all
  moreover from this(1) obtain c r where "s = c # r" by (cases s) auto
  ultimately show ?thesis using k(1) st(2)
    by (auto simp: list_all_length)
qed

section \<open>Patterns that need a character\<close>

text \<open>Every match of the pattern reads, somewhere, a character with the property.\<close>

fun needs :: "regex \<Rightarrow> (char \<Rightarrow> bool) \<Rightarrow> bool" where
  "needs (CS Q) P = (\<forall>c. Q c \<longrightarrow> P c)"
| "needs (Seq a b) P = (needs a P \<or> needs b P)"
| "needs (Alt a b) P = (needs a P \<and> needs b P)"
| "needs (Rep lo hi r) P = (0 < lo \<and> needs r P)"
| "needs (LazyRep lo hi r) P = (0 < lo \<and> needs r P)"
| "needs (Atom r) P = needs r P"
| "needs (Grp g r) P = needs r P"
| "needs (Look r) P = needs r P"
| "needs (NotLook Eps) P = True"
| "needs _ P = False"

lemma needs_no_match:
  "needs r P \<Longrightarrow> \<forall>c \<in> set t. \<not> P c \<Longrightarrow> rx r t st = []"
proof (induction r P arbitrary: st rule: needs.induct)
  case (1 Q P)
  then show ?case by (simp, metis nth_mem)
next
  case (4 lo hi r P)
  then have "rx r t st = []" "0 < lo" by simp_all
  then show ?case by (subst rx.simps, subst rep_loop.simps) (simp add: Let_def)
next
  case (5 lo hi r P)
  then have "rx r t st = []" "0 < lo" by simp_all
  then show ?case by (subst rx.simps, subst rep_loop.simps) (simp add: Let_def)
qed auto

lemma needs_no_search:
  assumes "needs r P" "\<forall>c \<in> set t. \<not> P c"
  shows "search_from r t advance i = None"
proof -
  have "search_from r t advance i = None" if "\<And>adv j. match_at r t adv j = None"
    using that
  proof (induction r t advance i rule: search_from.induct)
    case (1 r t advance i)
    then show ?case by (subst search_from.simps) simp
  qed
  then show ?thesis by (simp add: match_at_def needs_no_match [OF assms])
qed

lemma needs_no_finditer: "needs r P \<Longrightarrow> \<forall>c \<in> set t. \<not> P c \<Longrightarrow> finditer r t = []"
  by (simp add: finditer_def needs_no_search del: finditer_loop.simps)
    (simp only: numeral_2_eq_2 add_Suc_right finditer_loop.simps needs_no_search option.case)


section \<open>Plain words\<close>

text \<open>
  A text of letters, digits and underscores holds none of the characters a secret pattern
  must read; the catalog's error codes and the field names of the events are such texts.
\<close>

definition word_char :: "char \<Rightarrow> bool" where
  "word_char c \<longleftrightarrow> is_alpha c \<or> is_digit c \<or> c = CHR ''_''"

definition code_char :: "char \<Rightarrow> bool" where
  "code_char c \<longleftrightarrow> is_upper_alpha c \<or> is_digit c \<or> c = CHR ''_''"

lemma code_char_word: "code_char c \<Longrightarrow> word_char c"
  by (auto simp: code_char_def word_char_def is_alpha_def)

lemma word_char_excludes:
  "\<not> word_char CHR ''-''" "\<not> word_char CHR '':''" "\<not> word_char CHR ''=''" "\<not> word_char CHR ''?''"
  "\<not> word_char CHR ''{''" "\<not> word_char CHR ''[''" "\<not> word_char BSL"
  by code_simp+

lemma needs_lit_char: "needs (lit_char False c) P = P c"
  by (simp add: lit_char_def)

lemmas pattern_defs = SECRET_CONTENT_RE_def pem_block_def pem_long_label_def yaml_block_scalar_def
  bearer_header_def keyed_assignment_def url_userinfo_def YAML_BLOCK_SCALAR_HEADER_RE_def
  YAML_SENSITIVE_VALUE_RE_def explicit_key_line_def implicit_key_line_def FLOW_OPENER_RE_def lit_def oneof_def

lemma secret_patterns_need:
  "needs SECRET_CONTENT_RE (\<lambda>c. \<not> word_char c)"
  "needs YAML_BLOCK_SCALAR_HEADER_RE (\<lambda>c. \<not> word_char c)"
  "needs YAML_SENSITIVE_VALUE_RE (\<lambda>c. \<not> word_char c)"
  "needs FLOW_OPENER_RE (\<lambda>c. \<not> word_char c)"
  by (simp_all add: pattern_defs needs_lit_char word_char_excludes)

lemma redact_plain_word:
  assumes "list_all word_char t" "bound t = t"
  shows "redact_bounded t bound = t"
proof -
  have all: "\<forall>c \<in> set t. \<not> \<not> word_char c" using assms(1) by (simp add: list_all_iff)
  note none = needs_no_finditer [OF secret_patterns_need(1) all] needs_no_finditer [OF secret_patterns_need(2) all]
    needs_no_finditer [OF secret_patterns_need(3) all] needs_no_search [OF secret_patterns_need(4) all]
  have spans: "secret_spans t = []" by (simp add: secret_spans_def none)
  have "str_find t BSL 0 = None"
    using all word_char_excludes(7) nth_mem by (fastforce simp: str_find_def find_None_iff)
  then have "sensitive_value_spans t = []"
    by (simp add: sensitive_value_spans_def fail_closed_tails_def none escaped_key_line_start_def
        escaped_key_line_start_from.simps)
  moreover have "\<exists>ps. base_fixed_point t bound = Some (t, ps)"
    by (simp add: base_fixed_point_def SECRET_TEXT_PASSES_def numeral_eq_Suc spans redact_spans_tracked_def assms(2) Let_def)
  ultimately show ?thesis
    by (auto simp: redact_bounded_def merge_spans_def)
qed

lemma redact_plain_code: "list_all code_char t \<Longrightarrow> bound t = t \<Longrightarrow> redact_bounded t bound = t"
  by (rule redact_plain_word) (auto simp: list_all_iff code_char_word)

lemma plain_name_clean: "list_all word_char n \<Longrightarrow> \<not> mapping_name_is_secret_bearing n"
  by (simp add: mapping_name_is_secret_bearing_def redact_secret_text_def redact_plain_word)

end
