(* ===== verification/RedactionProps.thy ===== *)
theory RedactionProps
  imports RegexFacts
begin

text \<open>
  What the redaction of event data guarantees: placeholders never collide, texts are
  bounded, and no value stored under a sensitive name is anything but a boolean, a public
  credential record, a vault reference or the marker, at every depth.
\<close>

section \<open>Placeholders\<close>

definition candidate_at :: "string \<Rightarrow> nat \<Rightarrow> string" where
  "candidate_at ph i = (if i = 0 then ph else ph @ ''#'' @ nat_str (i + 1))"

lemma candidate_inject: "candidate_at ph i = candidate_at ph j \<Longrightarrow> i = j"
  by (auto simp: candidate_at_def split: if_splits)

lemma unused_loop_fresh:
  assumes "i \<le> j" "j < i + k" "candidate_at ph j \<notin> set taken"
  shows "unused_loop k ph taken (i + 1) (candidate_at ph i) \<notin> set taken"
  using assms
proof (induction k arbitrary: i)
  case (Suc k)
  show ?case
  proof (cases "candidate_at ph i \<in> set taken")
    case True
    with Suc.prems have "Suc i \<le> j" by (metis le_neq_implies_less Suc_leI)
    from Suc.IH [OF this] Suc.prems(2,3) True show ?thesis
      by (simp add: candidate_at_def)
  qed simp
qed simp

lemma unused_placeholder_fresh: "unused_placeholder rt name taken \<notin> set taken"
proof -
  let ?ph = "keyed_mapping_name rt name"
  let ?C = "candidate_at ?ph ` {0..length taken}"
  have "card ?C = Suc (length taken)"
    by (subst card_image) (auto intro!: inj_onI dest: candidate_inject)
  moreover have "card (set taken) \<le> length taken" by (rule card_length)
  ultimately have "\<not> ?C \<subseteq> set taken"
    by (metis card_mono finite_set not_less_eq_eq)
  then obtain j where "j \<le> length taken" "candidate_at ?ph j \<notin> set taken"
    by (meson atLeastAtMost_iff image_subsetI)
  with unused_loop_fresh [of 0 j "Suc (length taken)" ?ph taken] show ?thesis
    by (simp add: unused_placeholder_def Let_def candidate_at_def)
qed

lemma unused_loop_stops:
  "unused_loop k ph taken j c \<notin> set taken \<Longrightarrow> unused_loop (k + m) ph taken j c = unused_loop k ph taken j c"
proof (induction k arbitrary: j c)
  case 0
  then show ?case by (cases m) simp_all
qed (simp split: if_splits)

text \<open>
  The search for a placeholder that is not taken yet ends: one iteration more than there
  are taken names is enough, any larger number gives the same name, and that name is free.
\<close>

theorem placeholder_search_ends:
  assumes "length taken < k"
  shows "unused_loop k (keyed_mapping_name rt name) taken 1 (keyed_mapping_name rt name) = unused_placeholder rt name taken
    \<and> unused_placeholder rt name taken \<notin> set taken"
  using unused_loop_stops [of "Suc (length taken)" "keyed_mapping_name rt name" taken 1 "keyed_mapping_name rt name" "k - Suc (length taken)"]
    unused_placeholder_fresh [of rt name taken] assms
  by (simp add: unused_placeholder_def Let_def)

theorem placeholder_search_ends_witness:
  "unused_loop 9 (keyed_mapping_name plain_rt ''a'') [keyed_mapping_name plain_rt ''a''] 1 (keyed_mapping_name plain_rt ''a'')
     \<notin> set [keyed_mapping_name plain_rt ''a'']"
  using placeholder_search_ends [of "[keyed_mapping_name plain_rt ''a'']" 9 plain_rt "''a''"] by simp

lemma unused_loop_form: "\<exists>i. unused_loop k ph taken (j + 1) (candidate_at ph j) = candidate_at ph i"
proof (induction k arbitrary: j)
  case 0
  show ?case by auto
next
  case (Suc k)
  from Suc [of "Suc j"] show ?case by (auto simp: candidate_at_def)
qed

lemma unused_placeholder_form:
  "\<exists>i. unused_placeholder rt name taken = candidate_at (keyed_mapping_name rt name) i"
  using unused_loop_form [of "Suc (length taken)" "keyed_mapping_name rt name" taken 0]
  by (simp add: unused_placeholder_def Let_def candidate_at_def)

lemma persist_entries_names:
  "x \<in> set (map fst (persist_entries rt secret taken es)) \<Longrightarrow>
     x \<notin> set taken \<or> (x \<in> set (map fst es) \<and> \<not> secret x)"
proof (induction rt secret taken es rule: persist_entries.induct)
  case (2 rt secret taken name item es)
  then show ?case
    using unused_placeholder_fresh [of rt name taken] by (auto simp: Let_def split: if_splits)
qed simp

lemma persist_entries_distinct:
  assumes "distinct (map fst es)" "\<And>n. n \<in> set (map fst es) \<Longrightarrow> \<not> secret n \<Longrightarrow> n \<in> set taken"
  shows "distinct (map fst (persist_entries rt secret taken es))"
  using assms
proof (induction rt secret taken es rule: persist_entries.induct)
  case (2 rt secret taken name item es)
  define p where "p = unused_placeholder rt name taken"
  have fresh: "p \<notin> set taken" by (simp add: p_def unused_placeholder_fresh)
  show ?case
  proof (cases "secret name")
    case True
    have "distinct (map fst (persist_entries rt secret (p # taken) es))"
      unfolding p_def by (rule "2.IH"(1) [OF True refl]) (use "2.prems" in auto)
    moreover have "p \<notin> set (map fst (persist_entries rt secret (p # taken) es))"
      using persist_entries_names [of p rt secret "p # taken" es] "2.prems"(2) fresh by auto
    ultimately show ?thesis using True by (simp add: p_def Let_def)
  next
    case False
    have "distinct (map fst (persist_entries rt secret taken es))"
      by (rule "2.IH"(2) [OF False]) (use "2.prems" in auto)
    moreover have "name \<notin> set (map fst (persist_entries rt secret taken es))"
      using persist_entries_names [of name rt secret taken es] "2.prems" False by auto
    ultimately show ?thesis using False by simp
  qed
qed simp

lemma persisted_distinct:
  assumes "distinct (dict_keys named)"
  shows "distinct (map fst (persisted_mapping_entries rt named))"
  unfolding persisted_mapping_entries_def
  by (rule persist_entries_distinct) (use assms in \<open>auto simp: distinct_keys_sort\<close>)

lemma dict_set_fresh: "k \<notin> set (dict_keys d) \<Longrightarrow> dict_set k v d = d @ [(k, v)]"
  by (induction d) auto

lemma foldl_assign_distinct:
  "distinct (map fst (acc @ ps)) \<Longrightarrow> foldl (\<lambda>d (k, v). dict_set k v d) acc ps = acc @ ps"
proof (induction ps arbitrary: acc)
  case (Cons p ps)
  obtain k v where p: "p = (k, v)" by (cases p)
  have "k \<notin> set (dict_keys acc)" using Cons.prems p by auto
  with p Cons.IH [of "acc @ [(k, v)]"] Cons.prems show ?case by (simp add: dict_set_fresh)
qed simp

lemma assign_all_distinct: "distinct (map fst ps) \<Longrightarrow> assign_all ps = ps"
  using foldl_assign_distinct [of "[]" ps] by (simp add: assign_all_def)

lemma persisted_names: "map snd (persisted_mapping_entries rt named) = sort_key fst named"
proof -
  have "map snd (persist_entries rt secret taken es) = es" for secret taken and es :: "(string \<times> 'a) list"
    by (induction rt secret taken es rule: persist_entries.induct) (auto simp: Let_def)
  then show ?thesis by (simp add: persisted_mapping_entries_def)
qed

text \<open>
  Whatever names a mapping has, secret-bearing ones included, the names it is stored
  under are pairwise distinct, and every value of the mapping is stored exactly once.
\<close>

theorem persisted_names_distinct:
  assumes "distinct (dict_keys named)"
  shows "distinct (map fst (persisted_mapping_entries rt named)) \<and>
    map snd (persisted_mapping_entries rt named) = sort_key fst named"
  using persisted_distinct [OF assms] persisted_names by blast

theorem persisted_names_distinct_witness:
  "distinct (map fst (persisted_mapping_entries plain_rt [(''b'', VInt 1), (''a'', VInt 2)])) \<and>
    map snd (persisted_mapping_entries plain_rt [(''b'', VInt 1), (''a'', VInt 2)]) =
    sort_key fst [(''b'', VInt 1), (''a'', VInt 2)]"
  by (rule persisted_names_distinct) simp


section \<open>Lengths\<close>

lemma marker_length: "length REDACTION_MARKER = 10" "length TRUNCATION_MARKER = 14"
  by (simp_all add: REDACTION_MARKER_def TRUNCATION_MARKER_def)

text \<open>The number of characters a pattern of fixed width consumes.\<close>

fun rx_width :: "regex \<Rightarrow> nat option" where
  "rx_width Eps = Some 0"
| "rx_width (CS _) = Some 1"
| "rx_width (Seq a b) = (case (rx_width a, rx_width b) of (Some m, Some n) \<Rightarrow> Some (m + n) | _ \<Rightarrow> None)"
| "rx_width (Rep lo hi r) = (if hi = Some lo then map_option (\<lambda>w. lo * w) (rx_width r) else None)"
| "rx_width TextEnd = Some 0"
| "rx_width _ = None"

lemma rep_loop_width:
  assumes "\<And>st st'. st' \<in> set (m st) \<Longrightarrow> fst st' = fst st + w"
  shows "st' \<in> set (rep_loop n True m lo (Some lo) st) \<Longrightarrow> fst st' = fst st + lo * w"
proof (induction lo arbitrary: st)
  case 0
  then show ?case by (simp add: rep_loop.simps)
next
  case (Suc lo)
  from Suc.prems obtain s1 where "s1 \<in> set (m st)" "st' \<in> set (rep_loop n True m lo (Some lo) s1)"
    by (subst (asm) rep_loop.simps) (auto simp: Let_def)
  with Suc.IH assms show ?case by fastforce
qed

lemma rx_width_match: "rx_width r = Some w \<Longrightarrow> st' \<in> set (rx r t st) \<Longrightarrow> fst st' = fst st + w"
proof (induction r arbitrary: w st st' rule: rx_width.induct)
  case (3 a b)
  from 3(3) obtain m n where w: "rx_width a = Some m" "rx_width b = Some n" "w = m + n"
    by (auto split: option.splits)
  from 3(4) obtain s1 where "s1 \<in> set (rx a t st)" "st' \<in> set (rx b t s1)" by auto
  with 3(1) [OF w(1), of s1 st] 3(2) [OF w(2), of st' s1] w(3) show ?case by simp
next
  case (4 lo hi r)
  then obtain v where "rx_width r = Some v" "hi = Some lo" "w = lo * v" by (auto split: if_splits)
  with 4 rep_loop_width [of "rx r t" v st' "length t" lo st] show ?case by auto
qed (auto split: if_splits)

lemma fullmatch_width: "rx_width r = Some w \<Longrightarrow> fullmatch r t \<Longrightarrow> length t = w"
  by (force simp: fullmatch_def dest: rx_width_match)

lemma vault_reference_length: "fullmatch NMS_SECRET_REFERENCE_RE t \<Longrightarrow> length t = 47"
  by (erule fullmatch_width [rotated])
    (simp add: NMS_SECRET_REFERENCE_RE_def lit_def lit_char_def oneof_def)

lemma redact_event_text_cases:
  "fullmatch NMS_SECRET_REFERENCE_RE (redact_event_text lim path t)
   \<or> length (redact_event_text lim path t) \<le> limit_at lim path + length TRUNCATION_MARKER"
proof -
  let ?n = "limit_at lim path"
  have len: "length (text_bound ?n u) \<le> ?n + length TRUNCATION_MARKER" for u
    by (simp add: text_bound_def)
  show ?thesis
    unfolding redact_event_text_def
    by (rule redact_bounded_cases [of t "text_bound ?n"]) (auto simp: marker_length, metis len marker_length(2))
qed

lemma redact_event_text_bound:
  "length (redact_event_text lim path t) \<le> max 47 (limit_at lim path + length TRUNCATION_MARKER)"
  using redact_event_text_cases [of lim path t] by (auto dest: vault_reference_length)

text \<open>
  Every text the ledger stores is bounded: an event message by 4096 characters, and a
  text of the event data by the limit of its path plus the truncation marker (or it is a
  vault reference of 47 characters).
\<close>

theorem stored_texts_bounded:
  "length (bounded_event_message m) \<le> MAX_EVENT_STRING_LENGTH \<and>
   length (redact_event_text lim path t) \<le> max 47 (limit_at lim path + length TRUNCATION_MARKER)"
proof -
  define bound where "bound = (\<lambda>t. if length t \<le> MAX_EVENT_STRING_LENGTH then t
       else take (MAX_EVENT_STRING_LENGTH - length TRUNCATION_MARKER) t @ TRUNCATION_MARKER)"
  have len: "length (bound u) \<le> MAX_EVENT_STRING_LENGTH" for u
    by (simp add: bound_def marker_length MAX_EVENT_STRING_LENGTH_def)
  have "length (redact_bounded m bound) \<le> MAX_EVENT_STRING_LENGTH"
  proof (rule redact_bounded_cases [of m bound])
    assume "bound (redact_secret_spans (redact_bounded m bound)) = redact_bounded m bound"
    then show ?thesis by (metis len)
  qed (auto simp: marker_length MAX_EVENT_STRING_LENGTH_def dest: vault_reference_length)
  moreover have "bounded_event_message m = redact_bounded m bound"
    by (simp add: bounded_event_message_def bound_def)
  ultimately show ?thesis
    using redact_event_text_bound by simp
qed


section \<open>No secret under a sensitive name\<close>

definition public_form :: "string \<Rightarrow> pyval \<Rightarrow> bool" where
  "public_form k v = (case v of
       VDict d \<Rightarrow> k = ''credential_references'' \<and> length d \<le> 16 \<and>
         list_all (\<lambda>(n, _). fullmatch NAME_PATTERN n) d
     | VStr s \<Rightarrow> (k = ''credential_authority_sha256'' \<and> fullmatch sha256_hex s) \<or>
         (k = ''credential_policy_ref'' \<and> fullmatch (Seq (lit ''credential-authority:'') sha256_hex) s)
     | _ \<Rightarrow> False)"

definition sensitive_allowed :: "string \<Rightarrow> pyval \<Rightarrow> bool" where
  "sensitive_allowed k v \<longleftrightarrow>
     is_bool v \<or> v = VStr REDACTION_MARKER \<or> is_vaulted_secret_reference v \<or> public_form k v"

text \<open>
  A stored value under the name \<open>k\<close>: allowed if the name is sensitive, otherwise bounded
  and safe inside. \<open>M\<close> is the largest string limit in force.
\<close>

fun ledger_safe :: "nat \<Rightarrow> string \<Rightarrow> pyval \<Rightarrow> bool" where
  "ledger_safe M k (VDict d) =
     (if is_sensitive_key k then sensitive_allowed k (VDict d)
      else length d \<le> MAX_EVENT_DICT_ITEMS + 1 \<and> list_all (\<lambda>(k', v). ledger_safe M k' v) d)"
| "ledger_safe M k (VList xs) =
     (if is_sensitive_key k then sensitive_allowed k (VList xs)
      else length xs \<le> MAX_EVENT_LIST_ITEMS + 1 \<and> list_all (ledger_safe M k) xs)"
| "ledger_safe M k (VStr s) =
     (if is_sensitive_key k then sensitive_allowed k (VStr s)
      else length s \<le> max 47 (M + length TRUNCATION_MARKER))"
| "ledger_safe M k v = (is_sensitive_key k \<longrightarrow> sensitive_allowed k v)"


lemma rmap_length: "rmap f xs = Inr ys \<Longrightarrow> length ys = length xs"
  by (induction xs arbitrary: ys) (auto simp: rbind_Inr_iff)

lemma rmap_set: "rmap f xs = Inr ys \<Longrightarrow> y \<in> set ys \<Longrightarrow> \<exists>x \<in> set xs. f x = Inr y"
  by (induction xs arbitrary: ys) (auto simp: rbind_Inr_iff)

lemma validated_names:
  assumes "validate_named_references rt v = Inr d"
  shows "length d \<le> 16 \<and> list_all (\<lambda>(n, _). fullmatch NAME_PATTERN n) d"
proof -
  from assms obtain e where e: "length e \<le> 16" "rmap (validate_entry rt) e = Inr d"
    by (auto simp: validate_named_references_def not_less split: pyval.splits if_splits)
  have "fullmatch NAME_PATTERN n" if "(n, r) \<in> set d" for n r
    using rmap_set [OF e(2) that] by (auto simp: validate_entry_def rbind_Inr_iff)
  with rmap_length [OF e(2)] e(1) show ?thesis by (auto simp: list_all_iff)
qed

lemma public_metadata_form: "public_credential_metadata rt v k = Some p \<Longrightarrow> public_form k p"
  by (auto simp: public_credential_metadata_def public_form_def dest!: validated_names
      split: if_splits sum.splits pyval.splits)

lemma redact_sensitive_allowed: "sensitive_allowed k (redact_sensitive_value rt v k)"
  by (auto simp: redact_sensitive_value_def sensitive_allowed_def dest: public_metadata_form split: option.splits)

lemma ledger_safe_allowed: "is_sensitive_key k \<Longrightarrow> sensitive_allowed k v \<Longrightarrow> ledger_safe M k v"
  by (cases v) auto

lemma contains_chars: "contains s p \<Longrightarrow> set p \<subseteq> set s"
  by (auto simp: contains_iff_sublist dest: set_mono_sublist)

lemma not_sensitive_by_chars:
  assumes "set (lower k) \<inter> {CHR ''h'', CHR ''i'', CHR ''k'', CHR ''o'', CHR ''p'', CHR ''s''} = {}"
  shows "\<not> is_sensitive_key k"
proof -
  have "\<not> contains (lower k) f" if "f \<in> set SENSITIVE_KEY_FRAGMENTS" for f
    using that assms contains_chars [of "lower k" f] by (auto simp: SENSITIVE_KEY_FRAGMENTS_def)
  then show ?thesis
    by (auto simp: is_sensitive_key_def Let_def list_ex_iff)
qed

definition hex_text :: "string \<Rightarrow> bool" where
  "hex_text s = list_all is_lower_hex s"

lemma lower_hex_char: "is_lower_hex c \<Longrightarrow> lower_char c = c"
  by (auto simp: lower_char_def is_lower_hex_def is_digit_def Let_def)

lemma lower_append [simp]: "lower (s @ t) = lower s @ lower t"
  by (simp add: lower_def)

lemma lower_hex_text: "hex_text s \<Longrightarrow> lower s = s"
  by (induction s) (auto simp: hex_text_def lower_def lower_hex_char)

lemma nat_str_hex: "hex_text (nat_str n)"
  by (auto simp: hex_text_def list_all_iff is_lower_hex_def dest: nat_str_digits)

lemma hex_text_chars:
  "hex_text s \<Longrightarrow> set s \<inter> {CHR ''h'', CHR ''i'', CHR ''k'', CHR ''o'', CHR ''p'', CHR ''s''} = {}"
  by (auto simp: hex_text_def list_all_iff is_lower_hex_def is_digit_def)

lemma placeholder_not_sensitive:
  assumes "hex_text (rt_hmac rt EVENT_MAPPING_NAME_SALT n)"
  shows "\<not> is_sensitive_key (unused_placeholder rt n taken)"
proof -
  obtain i where i: "unused_placeholder rt n taken = candidate_at (keyed_mapping_name rt n) i"
    using unused_placeholder_form by blast
  define h where "h = rt_hmac rt EVENT_MAPPING_NAME_SALT n"
  define sfx where "sfx = nat_str (i + 1)"
  let ?S = "{CHR ''h'', CHR ''i'', CHR ''k'', CHR ''o'', CHR ''p'', CHR ''s''}"
  have pre: "lower MAPPING_NAME_PLACEHOLDER_PREFIX = ''[redacted-name:''" "lower '']'' = '']''" "lower ''#'' = ''#''"
    by code_simp+
  have "hex_text h" "hex_text sfx" using assms nat_str_hex by (simp_all add: h_def sfx_def)
  then have hx: "lower h = h" "lower sfx = sfx" "set h \<inter> ?S = {}" "set sfx \<inter> ?S = {}"
    using lower_hex_text hex_text_chars by blast+
  define tl1 where "tl1 = (if i = 0 then [] else ''#'' @ sfx)"
  have "lower tl1 = tl1"
    by (cases "i = 0") (simp_all only: tl1_def simp_thms if_True if_False lower_append pre(3) hx(2), simp add: lower_def)
  moreover have "unused_placeholder rt n taken = MAPPING_NAME_PLACEHOLDER_PREFIX @ h @ '']'' @ tl1"
    by (simp add: i candidate_at_def keyed_mapping_name_def h_def sfx_def tl1_def)
  ultimately have low: "lower (unused_placeholder rt n taken) = ''[redacted-name:'' @ h @ '']'' @ tl1"
    by (simp only: lower_append pre hx)
  have "set ''[redacted-name:'' \<inter> ?S = {}" "set '']'' \<inter> ?S = {}" "set ''#'' \<inter> ?S = {}" by simp_all
  moreover from this(3) hx(4) have "set tl1 \<inter> ?S = {}"
    by (cases "i = 0") (simp_all only: tl1_def simp_thms if_True if_False set_append Int_Un_distrib2 list.set Int_empty_left Un_empty)
  ultimately show ?thesis
    by (intro not_sensitive_by_chars) (simp only: low set_append Int_Un_distrib2 hx(3) Un_empty)
qed

fun unique_keys :: "pyval \<Rightarrow> bool" where
  "unique_keys (VDict d) = (distinct (map fst d) \<and> list_all (\<lambda>(_, v). unique_keys v) d)"
| "unique_keys (VList xs) = list_all unique_keys xs"
| "unique_keys _ = True"

lemma references_name_clean: "\<not> mapping_name_is_secret_bearing ''credential_references''"
  by (rule plain_name_clean) code_simp

lemma sha256_form_length:
  "fullmatch sha256_hex s \<Longrightarrow> length s = 64"
  "fullmatch (Seq (lit ''credential-authority:'') sha256_hex) s \<Longrightarrow> length s = 85"
  by (erule fullmatch_width [rotated], simp add: sha256_hex_def lit_def lit_char_def)+

lemma ledger_safe_rename:
  assumes "ledger_safe M n v" "\<not> is_sensitive_key p" "n \<noteq> ''credential_references''" "4096 \<le> M"
  shows "ledger_safe M p v"
proof (cases "is_sensitive_key n")
  case True
  then have "sensitive_allowed n v" using assms(1) by (cases v) auto
  with assms(2-4) show ?thesis
    by (cases v) (auto simp: sensitive_allowed_def public_form_def is_vaulted_secret_reference_def marker_length
        dest: vault_reference_length sha256_form_length)
next
  case False
  have "ledger_safe M p v = ledger_safe M n v"
    using False assms(2) by (induction v) (auto simp: list_all_iff)
  with assms(1) show ?thesis by simp
qed


lemma not_sensitive_empty [simp]: "\<not> is_sensitive_key []"
  by code_simp

lemma marker_names: "\<not> is_sensitive_key ''_truncated''" "\<not> is_sensitive_key ''remaining''"
  by code_simp+

lemma truncation_marker_safe:
  assumes "is_truncation_marker m" "unique_keys m" "\<not> is_sensitive_key k"
  shows "ledger_safe M k m"
proof -
  from assms(1) obtain d where m: "m = VDict d" "set (map fst d) = {''_truncated'', ''remaining''}"
    "dget d ''_truncated'' = VBool True" "exact_int (dget d ''remaining'')"
    by (cases m) (auto simp: is_truncation_marker_def)
  have dist: "distinct (map fst d)" using assms(2) m(1) by simp
  then have "length d = card (set (map fst d))" by (metis distinct_card length_map)
  then have len: "length d = 2" unfolding m(2) by simp
  have "ledger_safe M k' v" if "(k', v) \<in> set d" for k' v
  proof -
    have "map_of d k' = Some v" using dist that by simp
    moreover have "k' = ''_truncated'' \<or> k' = ''remaining''" using that m(2) by force
    ultimately show ?thesis
      using m(3,4) marker_names by (cases v) (auto simp: dget_def)
  qed
  with m(1) len assms(3) show ?thesis
    by (auto simp: list_all_iff MAX_EVENT_DICT_ITEMS_def)
qed

lemma sequence_window_spec:
  assumes "unique_keys (VList xs)" "\<not> is_sensitive_key k"
  shows "length (fst (sequence_window xs)) \<le> MAX_EVENT_LIST_ITEMS"
    "snd (sequence_window xs) = Some m \<Longrightarrow> ledger_safe M k m"
proof -
  show "length (fst (sequence_window xs)) \<le> MAX_EVENT_LIST_ITEMS"
    by (simp add: sequence_window_def)
  assume m: "snd (sequence_window xs) = Some m"
  show "ledger_safe M k m"
  proof (cases "length xs = MAX_EVENT_LIST_ITEMS + 1 \<and> is_truncation_marker (xs ! MAX_EVENT_LIST_ITEMS)")
    case True
    with m have "m = xs ! MAX_EVENT_LIST_ITEMS" "is_truncation_marker m" by (auto simp: sequence_window_def)
    moreover have "unique_keys (xs ! MAX_EVENT_LIST_ITEMS)"
      using assms(1) True by (simp add: list_all_length)
    ultimately show ?thesis using truncation_marker_safe assms(2) by blast
  next
    case False
    with m assms(2) marker_names show ?thesis
      by (auto simp: sequence_window_def MAX_EVENT_DICT_ITEMS_def split: if_splits)
  qed
qed

lemma mapping_window_spec:
  assumes "unique_keys (VDict d)"
  shows "distinct (map fst (fst (mapping_window d)))" "length (fst (mapping_window d)) \<le> MAX_EVENT_DICT_ITEMS"
proof -
  have dist: "distinct (map fst d)" using assms by simp
  have "distinct (map fst (take n d))" for n
    unfolding take_map [symmetric] using dist by (rule distinct_take)
  moreover have "distinct (map fst (filter P d))" for P
    using dist by (rule distinct_map_filter)
  ultimately show "distinct (map fst (fst (mapping_window d)))"
    by (simp add: mapping_window_def)
  have "length (filter (\<lambda>(k, _). k \<noteq> ''_truncated'') d) < length d"
    if "map_of d ''_truncated'' = Some (VBool True)"
    using map_of_SomeD [OF that] by (intro length_filter_less) auto
  then show "length (fst (mapping_window d)) \<le> MAX_EVENT_DICT_ITEMS"
    by (fastforce simp: mapping_window_def)
qed

lemma length_dict_set: "length (dict_set k v d) \<le> Suc (length d)"
  by (induction d) auto

lemma set_dict_set: "(a, b) \<in> set (dict_set k v d) \<Longrightarrow> (a, b) = (k, v) \<or> (a, b) \<in> set d"
  by (induction d) (auto split: if_splits)

lemma persist_entries_name_cases:
  "(p, n, v) \<in> set (persist_entries rt secret taken es) \<Longrightarrow>
     p = n \<or> (secret n \<and> (\<exists>taken'. p = unused_placeholder rt n taken'))"
  by (induction rt secret taken es rule: persist_entries.induct) (auto simp: Let_def split: if_splits)


lemma redact_dict_safe:
  assumes hmac: "\<And>n. hex_text (rt_hmac rt EVENT_MAPPING_NAME_SALT n)" and M: "4096 \<le> M"
    and wf: "unique_keys (VDict d)"
    and IH: "\<And>n v. (n, v) \<in> set d \<Longrightarrow> ledger_safe M n (f n v)"
  shows "let es = assign_all (map (\<lambda>(p, n, item). (p, f n item))
      (persisted_mapping_entries rt (fst (mapping_window d)))) in
    length es \<le> MAX_EVENT_DICT_ITEMS \<and> (\<forall>(k, v) \<in> set es. ledger_safe M k v)"
proof -
  let ?ps = "persisted_mapping_entries rt (fst (mapping_window d))"
  note win = mapping_window_spec [OF wf]
  have eq: "assign_all (map (\<lambda>(p, n, item). (p, f n item)) ?ps) = map (\<lambda>(p, n, item). (p, f n item)) ?ps"
    by (rule assign_all_distinct) (use persisted_distinct [OF win(1)] in \<open>simp add: comp_def case_prod_unfold\<close>)
  have "length ?ps = length (fst (mapping_window d))"
    by (metis length_map length_sort persisted_names)
  moreover have "ledger_safe M p (f n v)" if mem: "(p, n, v) \<in> set ?ps" for p n v
  proof -
    have nv: "ledger_safe M n (f n v)"
      by (rule IH [OF size_window [OF persisted_source [OF mem]]])
    consider "p = n" | taken where "mapping_name_is_secret_bearing n" "p = unused_placeholder rt n taken"
      using persist_entries_name_cases [OF mem [unfolded persisted_mapping_entries_def]] by blast
    then show ?thesis
    proof cases
      case 2
      then have "n \<noteq> ''credential_references''" using references_name_clean by blast
      with 2(2) show ?thesis
        by (simp only:) (rule ledger_safe_rename [OF nv placeholder_not_sensitive [OF hmac] _ M])
    qed (use nv in simp)
  qed
  ultimately show ?thesis using win(2) by (auto simp: eq Let_def)
qed

lemma redact_ledger_safe:
  assumes hmac: "\<And>n. hex_text (rt_hmac rt EVENT_MAPPING_NAME_SALT n)" and M: "4096 \<le> M"
    and lim: "\<And>p. limit_at lim p \<le> M"
  shows "unique_keys v \<Longrightarrow> ledger_safe M k (redact_event_value rt lim k path depth v)"
proof (induction v arbitrary: k path depth rule: measure_induct_rule [of size])
  case (less v)
  note unf = redact_event_value.simps [of rt lim k path depth]
  consider (policy) "k \<noteq> []" "lower k \<in> set BOOLEAN_POLICY_KEYS"
    | (sensitive) "\<not> (k \<noteq> [] \<and> lower k \<in> set BOOLEAN_POLICY_KEYS)" "k \<noteq> []" "is_sensitive_key k"
    | (plain) "\<not> (k \<noteq> [] \<and> lower k \<in> set BOOLEAN_POLICY_KEYS)" "\<not> is_sensitive_key k"
    using not_sensitive_empty by blast
  then show ?case
  proof cases
    case policy
    then have "\<not> is_sensitive_key k"
      by (simp add: is_sensitive_key_def BOOLEAN_POLICY_KEYS_def SAFE_REFERENCE_KEYS_def)
    with policy show ?thesis
      by (cases v) (simp_all add: unf marker_length)
  next
    case sensitive
    then show ?thesis
      by (simp add: unf ledger_safe_allowed redact_sensitive_allowed)
  next
    case plain
    have cut: "ledger_safe M k (VStr ''[truncated]'')" using plain(2) M by simp
    have stored: "ledger_safe M k (VStr (redact_event_text lim path s))" for s
      using plain(2) redact_event_text_bound [of lim path s] lim [of path] by simp
    show ?thesis
    proof (cases v)
      case (VDict d)
      let ?f = "\<lambda>n u. redact_event_value rt lim n (path @ [n]) (depth + 1) u"
      define es where "es = assign_all (map (\<lambda>(p, n, item). (p, ?f n item))
        (persisted_mapping_entries rt (fst (mapping_window d))))"
      define ds where "ds = (if snd (mapping_window d) then dict_set ''_truncated'' (VBool True) es else es)"
      have "ledger_safe M n (?f n u)" if mem: "(n, u) \<in> set d" for n u
      proof (rule less.IH)
        show "size u < size v" using size_in_dict [OF mem] VDict by simp
        show "unique_keys u" using less.prems mem VDict by (auto simp: list_all_iff)
      qed
      from redact_dict_safe [where f = ?f, OF hmac M less.prems [unfolded VDict] this]
      have es: "length es \<le> MAX_EVENT_DICT_ITEMS" "\<And>a b. (a, b) \<in> set es \<Longrightarrow> ledger_safe M a b"
        by (auto simp: es_def Let_def)
      have "ledger_safe M a b" if "(a, b) \<in> set ds" for a b
        using that set_dict_set [of a b "''_truncated''" "VBool True" es] es(2) marker_names(1)
        by (auto simp: ds_def split: if_splits)
      moreover have "length ds \<le> MAX_EVENT_DICT_ITEMS + 1"
        using es(1) length_dict_set [of "''_truncated''" "VBool True" es] by (simp add: ds_def)
      ultimately have "ledger_safe M k (VDict ds)" using plain(2) by (auto simp: list_all_iff)
      moreover have "redact_event_value rt lim k path depth v =
          (if depth > MAX_REDACTION_DEPTH then VStr ''[truncated]'' else VDict ds)"
        unfolding unf if_not_P [OF plain(1)] using plain(2) VDict by (simp add: Let_def ds_def es_def)
      ultimately show ?thesis using plain(2) cut by simp
    next
      case (VList xs)
      let ?ys = "map (redact_event_value rt lim k (path @ [''*'']) (depth + 1)) (fst (sequence_window xs))"
      have ys: "ledger_safe M k y" if "y \<in> set ?ys" for y
        using that less.IH size_sequence [of _ xs] less.prems VList sequence_window_subset [of _ xs]
        by (auto simp: list_all_iff simp del: pyval.size)
      note win = sequence_window_spec [OF less.prems [unfolded VList] plain(2)]
      define tail where "tail = (case snd (sequence_window xs) of None \<Rightarrow> [] | Some m \<Rightarrow> [m])"
      have "ledger_safe M k y" if "y \<in> set tail" for y
        using that win(2) by (auto simp: tail_def split: option.splits)
      moreover have "length tail \<le> 1" by (simp add: tail_def split: option.splits)
      ultimately have "ledger_safe M k (VList (?ys @ tail))"
        using ys win(1) plain(2) by (auto simp: list_all_iff)
      moreover have "redact_event_value rt lim k path depth v =
          (if depth > MAX_REDACTION_DEPTH then VStr ''[truncated]'' else VList (?ys @ tail))"
        unfolding unf if_not_P [OF plain(1)] using plain(2) VList by (simp add: tail_def)
      ultimately show ?thesis using plain(2) cut by simp
    qed (unfold unf if_not_P [OF plain(1)], use plain(2) stored in simp_all)
  qed
qed




end
