(* ===== verification/Events.thy ===== *)
theory Events
  imports PyValues
begin

text \<open>
  The domain vocabulary of \<open>netbox_rpc/domain/value_objects.py\<close> and the fifteen ledger
  events of \<open>netbox_rpc/domain/events.py\<close>: each dataclass is a constructor with the
  source's fields in order, \<open>data\<close> is the payload it writes and \<open>from_record\<close> the
  dispatcher that reads a stored row back.
\<close>

section \<open>Value objects\<close>

datatype ExecutionStatus =
    REQUESTED | PENDING_APPROVAL | APPROVED | REJECTED | EXPIRED
  | QUEUED | RUNNING | SUCCEEDED | FAILED | CANCELLED

primrec status_value :: "ExecutionStatus \<Rightarrow> string" where
  "status_value REQUESTED = ''requested''"
| "status_value PENDING_APPROVAL = ''pending_approval''"
| "status_value APPROVED = ''approved''"
| "status_value REJECTED = ''rejected''"
| "status_value EXPIRED = ''expired''"
| "status_value QUEUED = ''queued''"
| "status_value RUNNING = ''running''"
| "status_value SUCCEEDED = ''succeeded''"
| "status_value FAILED = ''failed''"
| "status_value CANCELLED = ''cancelled''"

definition approval_terminal :: "ExecutionStatus set" where
  "approval_terminal = {REJECTED, EXPIRED}"

lemma status_value_inject [simp]: "status_value s = status_value t \<longleftrightarrow> s = t"
  by (cases s; cases t; simp)

datatype Effect = READ | WRITE | DESTRUCTIVE

primrec effect_value :: "Effect \<Rightarrow> string" where
  "effect_value READ = ''read''"
| "effect_value WRITE = ''write''"
| "effect_value DESTRUCTIVE = ''destructive''"

datatype ExecutionMode = SEQUENTIAL | PARALLEL


section \<open>Events\<close>

datatype domain_event =
    ExecutionQueued pyval
  | ExecutionStarted pyval
  | ParametersNormalized pydict string
  | JobEnqueued pyval
  | BackendEventRecorded string pydict string string
  | ExecutionSucceeded pydict pyval
  | ExecutionFailed string string pyval pydict
  | ExecutionEnqueueFailed string string pyval
  | ExecutionCancelled pyval pyval string
  | ExecutionRequested pyval
  | ApprovalRequested string pyval pyval
  | ExecutionApproved pyval string pyval string
  | ExecutionRejected pyval pyval string
  | ExecutionExpired pyval string
  | DispatchLeaseIssued string string int int string pyval int

fun serialize_datetime :: "pyval \<Rightarrow> pyval" where
  "serialize_datetime (VTime t) = VStr (isoformat t)"
| "serialize_datetime v = v"

definition str_default :: "string \<Rightarrow> string \<Rightarrow> string" where
  "str_default s d = (if s = [] then d else s)"

lemma str_default_simps [simp]:
  "str_default [] d = d" "s \<noteq> [] \<Longrightarrow> str_default s d = s"
  by (simp_all add: str_default_def)

fun event_name :: "domain_event \<Rightarrow> string" where
  "event_name (ExecutionQueued _) = ''ExecutionQueued''"
| "event_name (ExecutionStarted _) = ''ExecutionStarted''"
| "event_name (ParametersNormalized _ _) = ''ParametersNormalized''"
| "event_name (JobEnqueued _) = ''JobEnqueued''"
| "event_name (BackendEventRecorded n _ _ _) = str_default n ''BackendEventRecorded''"
| "event_name (ExecutionSucceeded _ _) = ''ExecutionSucceeded''"
| "event_name (ExecutionFailed _ _ _ _) = ''ExecutionFailed''"
| "event_name (ExecutionEnqueueFailed _ _ _) = ''ExecutionEnqueueFailed''"
| "event_name (ExecutionCancelled _ _ _) = ''ExecutionCancelled''"
| "event_name (ExecutionRequested _) = ''ExecutionRequested''"
| "event_name (ApprovalRequested _ _ _) = ''ApprovalRequested''"
| "event_name (ExecutionApproved _ _ _ _) = ''ExecutionApproved''"
| "event_name (ExecutionRejected _ _ _) = ''ExecutionRejected''"
| "event_name (ExecutionExpired _ _) = ''ExecutionExpired''"
| "event_name (DispatchLeaseIssued _ _ _ _ _ _ _) = ''DispatchLeaseIssued''"

fun event_level :: "domain_event \<Rightarrow> string" where
  "event_level (ExecutionFailed _ _ _ _) = ''error''"
| "event_level (ExecutionEnqueueFailed _ _ _) = ''error''"
| "event_level (ExecutionCancelled _ _ _) = ''warning''"
| "event_level (ExecutionRejected _ _ _) = ''warning''"
| "event_level (ExecutionExpired _ _) = ''warning''"
| "event_level (BackendEventRecorded _ _ l _) = str_default l ''info''"
| "event_level _ = ''info''"

fun event_message :: "domain_event \<Rightarrow> string" where
  "event_message (ExecutionQueued _) = ''RPC execution queued.''"
| "event_message (ExecutionStarted _) = ''RPC execution started.''"
| "event_message (ParametersNormalized _ _) = ''Execution parameters normalized by NetBox.''"
| "event_message (JobEnqueued _) = ''RPC execution job enqueued.''"
| "event_message (BackendEventRecorded _ _ _ m) = m"
| "event_message (ExecutionSucceeded _ _) = ''RPC execution completed.''"
| "event_message (ExecutionFailed m _ _ _) = str_default m ''RPC execution failed.''"
| "event_message (ExecutionEnqueueFailed m _ _) = str_default m ''Failed to enqueue RPC job.''"
| "event_message (ExecutionCancelled _ _ r) = str_default r ''RPC execution cancelled.''"
| "event_message (ExecutionRequested _) = ''RPC execution requested (approval required).''"
| "event_message (ApprovalRequested _ _ _) =
     ''Approval requested; execution is pending an authorized decision.''"
| "event_message (ExecutionApproved _ _ _ r) = str_default r ''RPC execution approved.''"
| "event_message (ExecutionRejected _ _ r) = str_default r ''RPC execution rejected.''"
| "event_message (ExecutionExpired _ r) =
     str_default r ''Approval request expired before a decision.''"
| "event_message (DispatchLeaseIssued _ _ _ _ _ _ _) = ''Signed dispatch lease issued.''"

text \<open>\<open>if x is not None: data[k] = x\<close> and \<open>if s: data[k] = s\<close>.\<close>

definition opt_entry :: "string \<Rightarrow> pyval \<Rightarrow> pydict" where
  "opt_entry k v = (if v = VNone then [] else [(k, v)])"

definition str_entry :: "string \<Rightarrow> string \<Rightarrow> pydict" where
  "str_entry k s = (if s = [] then [] else [(k, VStr s)])"

definition status_entry :: "ExecutionStatus \<Rightarrow> string \<times> pyval" where
  "status_entry s = (''status'', VStr (status_value s))"

fun event_data :: "domain_event \<Rightarrow> pydict" where
  "event_data (ExecutionQueued r) = status_entry QUEUED # opt_entry ''requested_by_id'' r"
| "event_data (ExecutionStarted t) =
     [status_entry RUNNING, (''started_at'', serialize_datetime t)]"
| "event_data (ParametersNormalized p h) =
     [(''command_hash'', VStr h), (''normalized_params'', VDict p)]"
| "event_data (JobEnqueued j) = [(''job_id'', j)]"
| "event_data (BackendEventRecorded _ d _ _) = d"
| "event_data (ExecutionSucceeded r t) =
     [status_entry SUCCEEDED, (''result'', VDict r), (''finished_at'', serialize_datetime t)]"
| "event_data (ExecutionFailed m c t r) =
     [status_entry FAILED, (''code'', VStr (str_default c ''RPC_EXECUTION_FAILED'')),
      (''error_message'', VStr (event_message (ExecutionFailed m c t r))),
      (''finished_at'', serialize_datetime t)]
     @ (if r = [] then [] else [(''result'', VDict r)])"
| "event_data (ExecutionEnqueueFailed m c t) =
     [status_entry FAILED, (''code'', VStr (str_default c ''RPC_ENQUEUE_FAILED'')),
      (''error_message'', VStr (event_message (ExecutionEnqueueFailed m c t))),
      (''finished_at'', serialize_datetime t)]"
| "event_data (ExecutionCancelled t by r) =
     [status_entry CANCELLED, (''finished_at'', serialize_datetime t)]
     @ opt_entry ''cancelled_by_id'' by @ str_entry ''reason'' r"
| "event_data (ExecutionRequested r) = status_entry REQUESTED # opt_entry ''requested_by_id'' r"
| "event_data (ApprovalRequested h e r) =
     [status_entry PENDING_APPROVAL, (''snapshot_hash'', VStr h)]
     @ opt_entry ''expires_at'' (serialize_datetime e) @ opt_entry ''requested_by_id'' r"
| "event_data (ExecutionApproved by h t r) =
     [status_entry APPROVED, (''approved_by_id'', by), (''snapshot_hash'', VStr h),
      (''decided_at'', serialize_datetime t)] @ str_entry ''reason'' r"
| "event_data (ExecutionRejected by t r) =
     [status_entry REJECTED, (''rejected_by_id'', by), (''decided_at'', serialize_datetime t)]
     @ str_entry ''reason'' r"
| "event_data (ExecutionExpired t r) =
     [status_entry EXPIRED, (''expired_at'', serialize_datetime t)] @ str_entry ''reason'' r"
| "event_data (DispatchLeaseIssued n k kv sv a e ev) =
     [(''nonce'', VStr n), (''key_id'', VStr k), (''key_version'', VInt kv),
      (''stream_version'', VInt sv), (''audience'', VStr a),
      (''expires_at'', serialize_datetime e), (''envelope_version'', VInt ev)]"


section \<open>Reading a stored event\<close>

definition queued_from_data :: "pydict \<Rightarrow> pyexc + domain_event" where
  "queued_from_data d = Inr (ExecutionQueued (dget d ''requested_by_id''))"

definition started_from_data :: "pydict \<Rightarrow> pyexc + domain_event" where
  "started_from_data d = Inr (ExecutionStarted (dget d ''started_at''))"

definition normalized_from_data :: "pydict \<Rightarrow> pyexc + domain_event" where
  "normalized_from_data d =
     rbind (dict_or_empty (dget d ''normalized_params'')) (\<lambda>p.
       Inr (ParametersNormalized p
              (str_or (py_or (dget d ''command_hash'') (dget d ''resolved_command_hash'')) [])))"

definition job_enqueued_from_data :: "pydict \<Rightarrow> pyexc + domain_event" where
  "job_enqueued_from_data d = Inr (JobEnqueued (dget d ''job_id''))"

definition backend_from_data :: "pydict \<Rightarrow> pyexc + domain_event" where
  "backend_from_data d = Inr (BackendEventRecorded ''BackendEventRecorded'' d ''info'' [])"

definition succeeded_from_data :: "pydict \<Rightarrow> pyexc + domain_event" where
  "succeeded_from_data d =
     rbind (dict_or_empty (dget d ''result'')) (\<lambda>r.
       Inr (ExecutionSucceeded r (dget d ''finished_at'')))"

definition failed_from_data :: "pydict \<Rightarrow> pyexc + domain_event" where
  "failed_from_data d =
     rbind (dict_or_empty (dget d ''result'')) (\<lambda>r.
       Inr (ExecutionFailed (str_or (dget d ''error_message'') ''RPC execution failed.'')
              (str_or (dget d ''code'') ''RPC_EXECUTION_FAILED'') (dget d ''finished_at'') r))"

definition enqueue_failed_from_data :: "pydict \<Rightarrow> pyexc + domain_event" where
  "enqueue_failed_from_data d =
     Inr (ExecutionEnqueueFailed (str_or (dget d ''error_message'') ''Failed to enqueue RPC job.'')
            (str_or (dget d ''code'') ''RPC_ENQUEUE_FAILED'') (dget d ''finished_at''))"

definition cancelled_from_data :: "pydict \<Rightarrow> pyexc + domain_event" where
  "cancelled_from_data d =
     Inr (ExecutionCancelled (dget d ''finished_at'') (dget d ''cancelled_by_id'')
            (str_or (dget d ''reason'') []))"

definition requested_from_data :: "pydict \<Rightarrow> pyexc + domain_event" where
  "requested_from_data d = Inr (ExecutionRequested (dget d ''requested_by_id''))"

definition approval_requested_from_data :: "pydict \<Rightarrow> pyexc + domain_event" where
  "approval_requested_from_data d =
     Inr (ApprovalRequested (str_or (dget d ''snapshot_hash'') []) (dget d ''expires_at'')
            (dget d ''requested_by_id''))"

definition approved_from_data :: "pydict \<Rightarrow> pyexc + domain_event" where
  "approved_from_data d =
     Inr (ExecutionApproved (dget d ''approved_by_id'') (str_or (dget d ''snapshot_hash'') [])
            (dget d ''decided_at'') (str_or (dget d ''reason'') []))"

definition rejected_from_data :: "pydict \<Rightarrow> pyexc + domain_event" where
  "rejected_from_data d =
     Inr (ExecutionRejected (dget d ''rejected_by_id'') (dget d ''decided_at'')
            (str_or (dget d ''reason'') []))"

definition expired_from_data :: "pydict \<Rightarrow> pyexc + domain_event" where
  "expired_from_data d =
     Inr (ExecutionExpired (dget d ''expired_at'') (str_or (dget d ''reason'') []))"

definition lease_issued_from_data :: "python_rt \<Rightarrow> pydict \<Rightarrow> pyexc + domain_event" where
  "lease_issued_from_data rt d =
     rbind (py_int rt (py_or (dget d ''key_version'') (VInt 1))) (\<lambda>kv.
     rbind (py_int rt (py_or (dget d ''stream_version'') (VInt 0))) (\<lambda>sv.
     rbind (py_int rt (py_or (dget d ''envelope_version'') (VInt 1))) (\<lambda>ev.
       Inr (DispatchLeaseIssued (str_or (dget d ''nonce'') []) (str_or (dget d ''key_id'') [])
              kv sv (str_or (dget d ''audience'') []) (dget d ''expires_at'') ev))))"

definition EVENT_TYPES :: "python_rt \<Rightarrow> (string \<times> (pydict \<Rightarrow> pyexc + domain_event)) list" where
  "EVENT_TYPES rt =
     [(''ExecutionRequested'', requested_from_data),
      (''ApprovalRequested'', approval_requested_from_data),
      (''ExecutionApproved'', approved_from_data),
      (''ExecutionRejected'', rejected_from_data),
      (''ExecutionExpired'', expired_from_data),
      (''ExecutionQueued'', queued_from_data),
      (''ExecutionStarted'', started_from_data),
      (''ParametersNormalized'', normalized_from_data),
      (''JobEnqueued'', job_enqueued_from_data),
      (''DispatchLeaseIssued'', lease_issued_from_data rt),
      (''BackendEventRecorded'', backend_from_data),
      (''ExecutionSucceeded'', succeeded_from_data),
      (''ExecutionFailed'', failed_from_data),
      (''ExecutionEnqueueFailed'', enqueue_failed_from_data),
      (''ExecutionCancelled'', cancelled_from_data)]"

definition from_record :: "python_rt \<Rightarrow> string \<Rightarrow> pydict \<Rightarrow> pyexc + domain_event" where
  "from_record rt name d = (case map_of (EVENT_TYPES rt) name of
       None \<Rightarrow> Inr (BackendEventRecorded name d ''info'' [])
     | Some from_data \<Rightarrow> from_data d)"

definition domain_event_names :: "string set" where
  "domain_event_names = set (map fst (EVENT_TYPES plain_rt))"

lemma dict_keys_EVENT_TYPES: "dict_keys (EVENT_TYPES rt) = dict_keys (EVENT_TYPES plain_rt)"
  by (simp add: EVENT_TYPES_def)

lemma domain_event_names_iff: "n \<in> domain_event_names \<longleftrightarrow> map_of (EVENT_TYPES rt) n \<noteq> None"
  unfolding domain_event_names_def map_of_eq_None_iff
  by (metis dict_keys_EVENT_TYPES image_set)

lemmas from_data_defs = queued_from_data_def started_from_data_def normalized_from_data_def
  job_enqueued_from_data_def backend_from_data_def succeeded_from_data_def failed_from_data_def
  enqueue_failed_from_data_def cancelled_from_data_def requested_from_data_def
  approval_requested_from_data_def approved_from_data_def rejected_from_data_def
  expired_from_data_def lease_issued_from_data_def

text \<open>The event a stored row of \<open>e\<close> is expected to read back as: times in ISO form, the
  empty texts replaced by their defaults, level and message of a backend event dropped.\<close>

fun stored_form :: "domain_event \<Rightarrow> domain_event" where
  "stored_form (ExecutionStarted t) = ExecutionStarted (serialize_datetime t)"
| "stored_form (ExecutionSucceeded r t) = ExecutionSucceeded r (serialize_datetime t)"
| "stored_form (ExecutionFailed m c t r) =
     ExecutionFailed (str_default m ''RPC execution failed.'')
       (str_default c ''RPC_EXECUTION_FAILED'') (serialize_datetime t) r"
| "stored_form (ExecutionEnqueueFailed m c t) =
     ExecutionEnqueueFailed (str_default m ''Failed to enqueue RPC job.'')
       (str_default c ''RPC_ENQUEUE_FAILED'') (serialize_datetime t)"
| "stored_form (ExecutionCancelled t by r) = ExecutionCancelled (serialize_datetime t) by r"
| "stored_form (ApprovalRequested h e r) = ApprovalRequested h (serialize_datetime e) r"
| "stored_form (ExecutionApproved by h t r) = ExecutionApproved by h (serialize_datetime t) r"
| "stored_form (ExecutionRejected by t r) = ExecutionRejected by (serialize_datetime t) r"
| "stored_form (ExecutionExpired t r) = ExecutionExpired (serialize_datetime t) r"
| "stored_form (DispatchLeaseIssued n k kv sv a e ev) =
     DispatchLeaseIssued n k kv sv a (serialize_datetime e) ev"
| "stored_form (BackendEventRecorded n d l m) =
     BackendEventRecorded (str_default n ''BackendEventRecorded'') d ''info'' []"
| "stored_form e = e"

text \<open>
  Which events round-trip: a backend event must not carry the name of a domain event, and
  the versions of a lease must not be the zero that the decoder's \<open>or 1\<close> replaces.
\<close>

fun faithful_event :: "domain_event \<Rightarrow> bool" where
  "faithful_event (BackendEventRecorded n _ _ _) \<longleftrightarrow>
     n \<notin> domain_event_names - {''BackendEventRecorded''}"
| "faithful_event (DispatchLeaseIssued _ _ kv _ _ _ ev) \<longleftrightarrow> kv \<noteq> 0 \<and> ev \<noteq> 0"
| "faithful_event _ \<longleftrightarrow> True"

lemma serialize_datetime_None_iff [simp]: "serialize_datetime v = VNone \<longleftrightarrow> v = VNone"
  by (cases v) auto

lemma dget_opt_entry [simp]:
  "dget (opt_entry k v) k = v" "k' \<noteq> k \<Longrightarrow> dget (opt_entry k v) k' = VNone"
  by (auto simp: opt_entry_def)

lemma dget_append: "dget (d @ e) k = (case map_of d k of None \<Rightarrow> dget e k | Some v \<Rightarrow> v)"
  by (simp add: dget_def map_add_def split: option.split)

lemma str_or_str_entry [simp]:
  "str_or (dget (str_entry k s) k) [] = s"
  "k' \<noteq> k \<Longrightarrow> dget (str_entry k s) k' = VNone"
  by (auto simp: str_entry_def)

lemma map_of_entries:
  "map_of (opt_entry k v) k' = (if k' = k \<and> v \<noteq> VNone then Some v else None)"
  "map_of (str_entry k s) k' = (if k' = k \<and> s \<noteq> [] then Some (VStr s) else None)"
  by (auto simp: opt_entry_def str_entry_def)

lemmas event_codec = from_data_defs from_record_def EVENT_TYPES_def status_entry_def dget_append
  map_of_entries py_or_def str_default_def

lemma backend_name_decodes:
  assumes "n \<notin> domain_event_names - {''BackendEventRecorded''}"
  shows "from_record rt (str_default n ''BackendEventRecorded'') d =
    Inr (BackendEventRecorded (str_default n ''BackendEventRecorded'') d ''info'' [])"
proof -
  have B: "from_record rt ''BackendEventRecorded'' d =
      Inr (BackendEventRecorded ''BackendEventRecorded'' d ''info'' [])"
    by (simp add: from_record_def EVENT_TYPES_def backend_from_data_def)
  show ?thesis
  proof (cases "n = [] \<or> n = ''BackendEventRecorded''")
    case True
    with B show ?thesis by (auto simp: str_default_def)
  next
    case False
    with assms have "n \<notin> domain_event_names" by simp
    with False show ?thesis
      by (simp add: from_record_def domain_event_names_iff [of n rt])
  qed
qed

lemma from_record_round_trip:
  assumes "faithful_event e"
  shows "from_record rt (event_name e) (event_data e) = Inr (stored_form e)"
proof (cases e)
  case (BackendEventRecorded n d l m)
  with assms show ?thesis by (simp add: backend_name_decodes)
next
  case (DispatchLeaseIssued n k kv sv a t ev)
  with assms show ?thesis by (auto simp: event_codec)
qed (auto simp: event_codec)

text \<open>
  Reading back the row an event writes gives the same event with its times in ISO
  form, for every one of the fifteen event types (a backend event must not carry a domain
  event's name, and a lease's key and envelope versions must be nonzero).
\<close>

theorem from_record_event_data:
  assumes "faithful_event e"
  shows "from_record rt (event_name e) (event_data e) = Inr (stored_form e)"
  using assms by (rule from_record_round_trip)

theorem from_record_event_data_witness:
  "from_record plain_rt ''ExecutionFailed''
     (event_data (ExecutionFailed ''boom'' [] (VStr ''2024-05-01T10:00:00+00:00'')
        [(''stdout'', VStr ''x'')])) =
   Inr (ExecutionFailed ''boom'' ''RPC_EXECUTION_FAILED'' (VStr ''2024-05-01T10:00:00+00:00'')
          [(''stdout'', VStr ''x'')])"
  using from_record_event_data [of "ExecutionFailed ''boom'' [] (VStr ''2024-05-01T10:00:00+00:00'')
        [(''stdout'', VStr ''x'')]" plain_rt] by simp

text \<open>
  C40: The decoder of a lease event replaces a key version of zero, which the lease claims
  allow, by one.
\<close>

theorem lease_key_version_zero_reads_as_one:
  "from_record rt ''DispatchLeaseIssued''
     (event_data (DispatchLeaseIssued n k 0 sv a t ev)) =
   Inr (DispatchLeaseIssued n k 1 sv a (serialize_datetime t) (if ev = 0 then 1 else ev))"
  by (auto simp: event_codec)

end
