(* ===== verification/Projection.thy ===== *)
theory Projection
  imports Events
begin

text \<open>
  The read model of \<open>netbox_rpc/domain/projection.py\<close>: the projected columns of an
  execution, the fold \<open>apply\<close> over one event and \<open>rebuild\<close> over a stream, and the facts
  the event store rests on: an event folds as its stored row does, and the fold only
  depends on the status of terminal streams in the ways the lifecycle allows.
\<close>

record ProjectionState =
  status :: ExecutionStatus
  started_at :: pyval
  finished_at :: pyval
  error_code :: string
  error_message :: string
  result :: pydict
  normalized_params :: pydict
  resolved_command_hash :: string
  job_id :: pyval
  approved_by_id :: pyval

definition projection_initial :: ProjectionState where
  "projection_initial =
     \<lparr>status = QUEUED, started_at = VNone, finished_at = VNone, error_code = [],
      error_message = [], result = [], normalized_params = [], resolved_command_hash = [],
      job_id = VNone, approved_by_id = VNone\<rparr>"

definition coerce_datetime :: "python_rt \<Rightarrow> pyval \<Rightarrow> pyval" where
  "coerce_datetime rt v = (case v of
       VStr s \<Rightarrow> if s = [] then v
         else (case fromisoformat (rt_iso rt) s of None \<Rightarrow> v | Some t \<Rightarrow> VTime t)
     | _ \<Rightarrow> v)"

fun apply_event :: "python_rt \<Rightarrow> ProjectionState \<Rightarrow> domain_event \<Rightarrow> ProjectionState" where
  "apply_event rt s (ExecutionRequested _) = s\<lparr>status := REQUESTED\<rparr>"
| "apply_event rt s (ApprovalRequested _ _ _) = s\<lparr>status := PENDING_APPROVAL\<rparr>"
| "apply_event rt s (ExecutionApproved by _ _ _) = s\<lparr>status := APPROVED, approved_by_id := by\<rparr>"
| "apply_event rt s (ExecutionRejected _ t _) =
     s\<lparr>status := REJECTED, error_code := [], error_message := [],
       finished_at := coerce_datetime rt t\<rparr>"
| "apply_event rt s (ExecutionExpired t _) =
     s\<lparr>status := EXPIRED, error_code := [], error_message := [],
       finished_at := coerce_datetime rt t\<rparr>"
| "apply_event rt s (ExecutionQueued _) = s\<lparr>status := QUEUED\<rparr>"
| "apply_event rt s (ExecutionStarted t) =
     s\<lparr>status := RUNNING, started_at := coerce_datetime rt t\<rparr>"
| "apply_event rt s (ParametersNormalized p h) =
     s\<lparr>normalized_params := p, resolved_command_hash := h\<rparr>"
| "apply_event rt s (JobEnqueued j) = s\<lparr>job_id := j\<rparr>"
| "apply_event rt s (DispatchLeaseIssued _ _ _ _ _ _ _) = s"
| "apply_event rt s (BackendEventRecorded _ _ _ _) = s"
| "apply_event rt s (ExecutionSucceeded r t) =
     s\<lparr>status := SUCCEEDED, result := r, error_code := [], error_message := [],
       finished_at := coerce_datetime rt t\<rparr>"
| "apply_event rt s (ExecutionFailed m c t r) =
     s\<lparr>status := FAILED, result := r, error_code := str_default c ''RPC_EXECUTION_FAILED'',
       error_message := event_message (ExecutionFailed m c t r),
       finished_at := coerce_datetime rt t\<rparr>"
| "apply_event rt s (ExecutionEnqueueFailed m c t) =
     s\<lparr>status := FAILED, error_code := str_default c ''RPC_ENQUEUE_FAILED'',
       error_message := event_message (ExecutionEnqueueFailed m c t),
       finished_at := coerce_datetime rt t\<rparr>"
| "apply_event rt s (ExecutionCancelled t _ _) =
     s\<lparr>status := CANCELLED, error_code := [], error_message := [],
       finished_at := coerce_datetime rt t\<rparr>"

definition rebuild :: "python_rt \<Rightarrow> domain_event list \<Rightarrow> ProjectionState" where
  "rebuild rt es = foldl (apply_event rt) projection_initial es"

definition FIELD_NAMES :: "string list" where
  "FIELD_NAMES = [''status'', ''started_at'', ''finished_at'', ''error_code'', ''error_message'',
     ''result'', ''normalized_params'', ''resolved_command_hash'', ''job_id'', ''approved_by_id'']"

definition as_update_dict :: "ProjectionState \<Rightarrow> pydict" where
  "as_update_dict s =
     zip FIELD_NAMES
       [VStr (status_value (status s)), started_at s, finished_at s, VStr (error_code s),
        VStr (error_message s), VDict (result s), VDict (normalized_params s),
        VStr (resolved_command_hash s), job_id s, approved_by_id s]"


section \<open>Replay\<close>

text \<open>A time as the recorders pass it: a valid datetime, or a value that is no datetime.\<close>

definition time_ok :: "pyval \<Rightarrow> bool" where
  "time_ok v = (case v of VTime t \<Rightarrow> dt_valid t | _ \<Rightarrow> True)"

lemma coerce_serialize [simp]:
  "time_ok v \<Longrightarrow> coerce_datetime rt (serialize_datetime v) = coerce_datetime rt v"
  by (cases v) (simp_all add: coerce_datetime_def time_ok_def)

lemma coerce_VTime [simp]: "coerce_datetime rt (VTime t) = VTime t"
  by (simp add: coerce_datetime_def)

fun event_time_ok :: "domain_event \<Rightarrow> bool" where
  "event_time_ok (ExecutionStarted t) = time_ok t"
| "event_time_ok (ExecutionSucceeded _ t) = time_ok t"
| "event_time_ok (ExecutionFailed _ _ t _) = time_ok t"
| "event_time_ok (ExecutionEnqueueFailed _ _ t) = time_ok t"
| "event_time_ok (ExecutionCancelled t _ _) = time_ok t"
| "event_time_ok (ExecutionRejected _ t _) = time_ok t"
| "event_time_ok (ExecutionExpired t _) = time_ok t"
| "event_time_ok _ = True"

lemma apply_stored_form [simp]:
  "event_time_ok e \<Longrightarrow> apply_event rt s (stored_form e) = apply_event rt s e"
  by (cases e) (simp_all add: str_default_def)

text \<open>Reading a stored event back and folding it; a row that does not decode raises.\<close>

definition apply_record ::
  "python_rt \<Rightarrow> ProjectionState \<Rightarrow> string \<times> pydict \<Rightarrow> pyexc + ProjectionState" where
  "apply_record rt s r = rbind (from_record rt (fst r) (snd r)) (\<lambda>e. Inr (apply_event rt s e))"

lemma rebuild_snoc [simp]: "rebuild rt (es @ [e]) = apply_event rt (rebuild rt es) e"
  by (simp add: rebuild_def)

lemma rebuild_Nil [simp]: "rebuild rt [] = projection_initial"
  by (simp add: rebuild_def)

lemma lease_row_decodes:
  "\<exists>e'. from_record rt (event_name (DispatchLeaseIssued n k kv sv a t ev))
      (event_data (DispatchLeaseIssued n k kv sv a t ev)) = Inr e' \<and> apply_event rt s e' = s"
  by (auto simp: event_codec)

text \<open>Unlike the exact round trip, folding needs no condition on a lease's versions.\<close>

definition replayable :: "domain_event \<Rightarrow> bool" where
  "replayable e \<longleftrightarrow> event_time_ok e \<and>
     (case e of BackendEventRecorded n _ _ _ \<Rightarrow> n \<notin> domain_event_names - {''BackendEventRecorded''}
      | _ \<Rightarrow> True)"

lemma replay_cases:
  assumes "replayable e"
  obtains (lease) n k kv sv a t ev where "e = DispatchLeaseIssued n k kv sv a t ev"
    | (other) "faithful_event e" "event_time_ok e"
  using assms by (cases e) (auto simp: replayable_def)

lemma apply_record_event:
  assumes "replayable e"
  shows "apply_record rt s (event_name e, event_data e) = Inr (apply_event rt s e)"
  using assms
proof (cases rule: replay_cases)
  case (lease n k kv sv a t ev)
  then show ?thesis
    using lease_row_decodes [of rt n k kv sv a t ev s]
    by (auto simp: apply_record_def simp del: event_data.simps event_name.simps)
next
  case other
  then show ?thesis
    by (simp add: apply_record_def from_record_round_trip)
qed

lemma replay_stream:
  assumes "list_all replayable es"
  shows "rfold (apply_record rt) s (map (\<lambda>e. (event_name e, event_data e)) es) =
    Inr (foldl (apply_event rt) s es)"
  using assms by (induction es arbitrary: s) (simp_all add: apply_record_event)


section \<open>What the fold changes\<close>

lemma apply_status_neutral:
  assumes "e = ParametersNormalized p h \<or> e = JobEnqueued j \<or> e = BackendEventRecorded n d l m
    \<or> e = DispatchLeaseIssued c k kv sv a t ev"
  shows "status (apply_event rt s e) = status s"
  using assms by auto

lemma apply_event_ext:
  "apply_event rt (s\<lparr>job_id := j\<rparr>) e = (apply_event rt s e)\<lparr>job_id :=
     (case e of JobEnqueued j' \<Rightarrow> j' | _ \<Rightarrow> j)\<rparr>"
  by (cases e) simp_all

end
