(* ===== verification/EventStore.thy ===== *)
theory EventStore
  imports Projection Redaction
begin

text \<open>
  The append side of \<open>netbox_rpc/event_store.py\<close>: sequence numbers with their collision
  retries, the row \<open>append_execution_event\<close> writes, \<open>_append_and_project\<close> with the
  redacted event folded into the projection, and the column-wise write of
  \<open>_write_projection\<close>.

  The store of one execution is the in-memory object the code holds, the committed columns
  of its row, and its committed events in sequence order. The two copies of the columns are
  separate because an object may be stale.
\<close>

section \<open>State\<close>

record event_row =
  ev_sequence :: nat
  ev_level :: string
  ev_event :: string
  ev_message :: string
  ev_data :: pydict
  ev_payload_hash :: string

record execution = ProjectionState +
  pk :: int
  requested_by_id :: pyval
  procedure_name :: string
  result_schema :: pyval
  params :: pyval

record exec_store =
  obj :: execution
  row :: ProjectionState
  events :: "event_row list"

datatype store_error = RPCEventStoreError | StoreRaised pyexc


section \<open>Limits taken from a result schema\<close>

text \<open>The sub-schemas that the limit collection visits, with their paths.\<close>

definition schema_children :: "string list \<Rightarrow> pydict \<Rightarrow> (string list \<times> pydict) list" where
  "schema_children path d =
     (case dget d ''properties'' of
        VDict ps \<Rightarrow> concat (map (\<lambda>(k, c). case c of VDict c' \<Rightarrow> [(path @ [k], c')] | _ \<Rightarrow> []) ps)
      | _ \<Rightarrow> [])
     @ (case dget d ''items'' of VDict c \<Rightarrow> [(path @ [''*''], c)] | _ \<Rightarrow> [])"

lemma dget_in: "dget d k = v \<Longrightarrow> v \<noteq> VNone \<Longrightarrow> (k, v) \<in> set d"
  by (auto simp: dget_def split: option.splits dest: map_of_SomeD)

lemma schema_children_size: "(p, c) \<in> set (schema_children path d) \<Longrightarrow> size (VDict c) < size (VDict d)"
proof -
  assume "(p, c) \<in> set (schema_children path d)"
  then consider ps k where "dget d ''properties'' = VDict ps" "(k, VDict c) \<in> set ps"
    | "dget d ''items'' = VDict c"
    by (auto simp: schema_children_def split: pyval.splits) metis
  then show ?thesis
  proof cases
    case 1
    then have "(''properties'', VDict ps) \<in> set d" by (simp add: dget_in)
    from size_in_dict [OF this] size_in_dict [OF 1(2)] show ?thesis by linarith
  next
    case 2
    then have "(''items'', VDict c) \<in> set d" by (simp add: dget_in)
    from size_in_dict [OF this] show ?thesis .
  qed
qed

definition own_limit :: "string list \<Rightarrow> pydict \<Rightarrow> string_limits" where
  "own_limit path d = (case dget d ''maxLength'' of
       VInt n \<Rightarrow> if n > int MAX_EVENT_STRING_LENGTH then [(path, nat n)] else []
     | _ \<Rightarrow> [])"

function collect_schema_string_limits :: "string list \<Rightarrow> pydict \<Rightarrow> string_limits" where
  "collect_schema_string_limits path d =
     own_limit path d
     @ concat (map (\<lambda>(p, c). collect_schema_string_limits p c) (schema_children path d))"
  by pat_completeness auto
termination
  by (relation "measure (\<lambda>(_, d). size (VDict d))") (auto dest: schema_children_size simp del: pyval.size)

declare collect_schema_string_limits.simps [simp del]

text \<open>
  The collection assigns into one dictionary, so a later assignment to a path replaces an
  earlier one (a property named \<open>*\<close> beside \<open>items\<close>).
\<close>

definition schema_string_limits :: "pydict \<Rightarrow> string_limits" where
  "schema_string_limits d =
     foldl (\<lambda>l (p, n). dict_set p n l) [] (collect_schema_string_limits [] d)"

definition result_schema_string_limits :: "pyval \<Rightarrow> string_limits" where
  "result_schema_string_limits schema = (case schema of
       VDict d \<Rightarrow> map (\<lambda>(p, n). (p, n - length TRUNCATION_MARKER)) (schema_string_limits d)
     | _ \<Rightarrow> [])"

definition LARGE_NORMALIZED_CONTENT_FIELDS :: "string list" where
  "LARGE_NORMALIZED_CONTENT_FIELDS = [''config_content'', ''content'']"

definition LARGE_NORMALIZED_CONTENT_LIMIT :: nat where
  "LARGE_NORMALIZED_CONTENT_LIMIT = 1024 * 1024"

definition normalized_params_string_limits :: string_limits where
  "normalized_params_string_limits =
     map (\<lambda>f. ([''normalized_params'', f], LARGE_NORMALIZED_CONTENT_LIMIT)) LARGE_NORMALIZED_CONTENT_FIELDS"

definition ledger_normalized_params :: "python_rt \<Rightarrow> pydict \<Rightarrow> pyexc + pydict" where
  "ledger_normalized_params rt p =
     dict_or_empty (dget (redact_event_data rt normalized_params_string_limits
       [(''normalized_params'', VDict p)]) ''normalized_params'')"


section \<open>Appending\<close>

definition stable_hash :: "python_rt \<Rightarrow> pyval \<Rightarrow> string" where
  "stable_hash rt v = rt_sha256 rt (json_dumps v)"

definition next_event_sequence :: "event_row list \<Rightarrow> nat" where
  "next_event_sequence es = foldr max (map ev_sequence es) 0 + 1"

text \<open>
  The retry loop: before each insert other writers may have committed rows (\<open>itf\<close>, one
  list per attempt); the insert fails on a sequence that is taken, and the next attempt
  reads the sequence again.
\<close>

fun insert_attempts ::
  "(nat \<Rightarrow> event_row) \<Rightarrow> event_row list list \<Rightarrow> nat \<Rightarrow> event_row list \<Rightarrow> store_error + (event_row \<times> event_row list)" where
  "insert_attempts mk [] sequence es = Inl RPCEventStoreError"
| "insert_attempts mk (others # itf) sequence es =
     (let es' = es @ others in
      if sequence \<in> set (map ev_sequence es')
      then insert_attempts mk itf (next_event_sequence es') es'
      else Inr (mk sequence, es' @ [mk sequence]))"

definition APPEND_ATTEMPTS :: nat where
  "APPEND_ATTEMPTS = 3"

text \<open>Exactly three attempts: missing interference lists mean that nobody interfered.\<close>

definition three_attempts :: "event_row list list \<Rightarrow> event_row list list" where
  "three_attempts itf = take APPEND_ATTEMPTS (itf @ replicate APPEND_ATTEMPTS [])"

definition append_execution_event ::
  "python_rt \<Rightarrow> event_row list list \<Rightarrow> event_row list \<Rightarrow> string \<Rightarrow> string \<Rightarrow> string \<Rightarrow> pydict \<Rightarrow>
   string_limits \<Rightarrow> store_error + (event_row \<times> event_row list)" where
  "append_execution_event rt itf es level event message data lim =
     (let lv = ledger_event_level (VStr level);
          d = redact_event_data rt lim data;
          m = bounded_event_message message;
          h = stable_hash rt (VDict [(''level'', VStr lv), (''event'', VStr event), (''message'', VStr m),
                                     (''data'', VDict d)])
      in insert_attempts
           (\<lambda>n. \<lparr>ev_sequence = n, ev_level = lv, ev_event = event, ev_message = m, ev_data = d,
                  ev_payload_hash = h\<rparr>)
           (three_attempts itf) (next_event_sequence es) es)"


section \<open>Failure codes\<close>

definition BACKEND_ERROR_CODE_RE :: regex where
  "BACKEND_ERROR_CODE_RE =
     Seq (CS is_upper_alpha) (Rep 0 (Some 99) (CS (\<lambda>c. is_upper_alpha c \<or> is_digit c \<or> c = CHR ''_'')))"

definition is_catalog_error_code :: "pyval \<Rightarrow> bool" where
  "is_catalog_error_code v = (case v of VStr s \<Rightarrow> fullmatch BACKEND_ERROR_CODE_RE s | _ \<Rightarrow> False)"

fun persistable_failure_event :: "domain_event \<Rightarrow> domain_event" where
  "persistable_failure_event (ExecutionFailed m c t r) =
     (if is_catalog_error_code (VStr c) then ExecutionFailed m c t r
      else ExecutionFailed m ''RPC_EXECUTION_FAILED'' t r)"
| "persistable_failure_event (ExecutionEnqueueFailed m c t) =
     (if is_catalog_error_code (VStr c) then ExecutionEnqueueFailed m c t
      else ExecutionEnqueueFailed m ''RPC_ENQUEUE_FAILED'' t)"
| "persistable_failure_event e = e"


section \<open>Append and project\<close>

text \<open>\<open>type(event).from_data\<close>: a backend event always decodes as one.\<close>

fun own_from_data :: "python_rt \<Rightarrow> domain_event \<Rightarrow> pydict \<Rightarrow> pyexc + domain_event" where
  "own_from_data rt (BackendEventRecorded _ _ _ _) d = backend_from_data d"
| "own_from_data rt e d = from_record rt (event_name e) d"

fun event_string_limits :: "pyval \<Rightarrow> domain_event \<Rightarrow> string_limits" where
  "event_string_limits schema (ExecutionSucceeded _ _) =
     map (\<lambda>(p, n). (''result'' # p, n)) (result_schema_string_limits schema)"
| "event_string_limits schema (ExecutionFailed _ _ _ _) =
     map (\<lambda>(p, n). (''result'' # p, n)) (result_schema_string_limits schema)"
| "event_string_limits schema (ParametersNormalized _ _) = normalized_params_string_limits"
| "event_string_limits schema _ = []"

definition from_execution :: "execution \<Rightarrow> ProjectionState" where
  "from_execution x = ProjectionState.truncate x"

text \<open>
  One column of \<open>_write_projection\<close>: assigned in memory and saved only when the in-memory
  value differs.
\<close>

definition write_field ::
  "bool \<Rightarrow> (execution \<Rightarrow> execution) \<Rightarrow> (ProjectionState \<Rightarrow> ProjectionState) \<Rightarrow> exec_store \<Rightarrow> exec_store" where
  "write_field same fo fr s = (if same then s else s\<lparr>obj := fo (obj s), row := fr (row s)\<rparr>)"

definition write_projection :: "exec_store \<Rightarrow> ProjectionState \<Rightarrow> exec_store" where
  "write_projection s p =
     (let x = obj s in
      write_field (py_eq (approved_by_id x) (approved_by_id p)) (approved_by_id_update (\<lambda>_. approved_by_id p))
        (approved_by_id_update (\<lambda>_. approved_by_id p))
     (write_field (py_eq (job_id x) (job_id p)) (job_id_update (\<lambda>_. job_id p)) (job_id_update (\<lambda>_. job_id p))
     (write_field (resolved_command_hash x = resolved_command_hash p)
        (resolved_command_hash_update (\<lambda>_. resolved_command_hash p))
        (resolved_command_hash_update (\<lambda>_. resolved_command_hash p))
     (write_field (py_eq (VDict (normalized_params x)) (VDict (normalized_params p)))
        (normalized_params_update (\<lambda>_. normalized_params p)) (normalized_params_update (\<lambda>_. normalized_params p))
     (write_field (py_eq (VDict (result x)) (VDict (result p))) (result_update (\<lambda>_. result p))
        (result_update (\<lambda>_. result p))
     (write_field (error_message x = error_message p) (error_message_update (\<lambda>_. error_message p))
        (error_message_update (\<lambda>_. error_message p))
     (write_field (error_code x = error_code p) (error_code_update (\<lambda>_. error_code p))
        (error_code_update (\<lambda>_. error_code p))
     (write_field (py_eq (finished_at x) (finished_at p)) (finished_at_update (\<lambda>_. finished_at p))
        (finished_at_update (\<lambda>_. finished_at p))
     (write_field (py_eq (started_at x) (started_at p)) (started_at_update (\<lambda>_. started_at p))
        (started_at_update (\<lambda>_. started_at p))
     (write_field (status x = status p) (status_update (\<lambda>_. status p)) (status_update (\<lambda>_. status p)) s))))))))))"

definition append_and_project ::
  "python_rt \<Rightarrow> event_row list list \<Rightarrow> exec_store \<Rightarrow> domain_event \<Rightarrow> store_error + exec_store" where
  "append_and_project rt itf s e0 =
     (let e = persistable_failure_event e0 in
      rbind (append_execution_event rt itf (events s) (event_level e) (event_name e) (event_message e)
               (event_data e) (event_string_limits (result_schema (obj s)) e)) (\<lambda>(r, es).
      rbind (map_sum StoreRaised id (own_from_data rt e (ev_data r))) (\<lambda>redacted.
        Inr (write_projection (s\<lparr>events := es\<rparr>) (apply_event rt (from_execution (obj s)) redacted)))))"

definition rebuild_projection :: "python_rt \<Rightarrow> event_row list \<Rightarrow> pyexc + ProjectionState" where
  "rebuild_projection rt es =
     rfold (apply_record rt) projection_initial (map (\<lambda>r. (ev_event r, ev_data r)) es)"

definition reproject :: "python_rt \<Rightarrow> exec_store \<Rightarrow> pyexc + exec_store" where
  "reproject rt s = rbind (rebuild_projection rt (events s)) (\<lambda>p. Inr (write_projection s p))"


section \<open>Recorders\<close>

text \<open>Each recorder of the event store is one append inside its own transaction.\<close>


definition record_execution_queued :: "python_rt \<Rightarrow> event_row list list \<Rightarrow> exec_store \<Rightarrow> store_error + exec_store" where
  "record_execution_queued rt itf s =
     append_and_project rt itf s (ExecutionQueued (requested_by_id (obj s)))"

definition record_execution_enqueued ::
  "python_rt \<Rightarrow> event_row list list \<Rightarrow> pyval \<Rightarrow> exec_store \<Rightarrow> store_error + exec_store" where
  "record_execution_enqueued rt itf j s = append_and_project rt itf s (JobEnqueued j)"

definition mark_execution_running ::
  "python_rt \<Rightarrow> event_row list list \<Rightarrow> datetime \<Rightarrow> exec_store \<Rightarrow> store_error + exec_store" where
  "mark_execution_running rt itf now s = append_and_project rt itf s (ExecutionStarted (VTime now))"

definition record_dispatch_lease_issued ::
  "python_rt \<Rightarrow> event_row list list \<Rightarrow> string \<Rightarrow> string \<Rightarrow> int \<Rightarrow> int \<Rightarrow> string \<Rightarrow> pyval \<Rightarrow> int \<Rightarrow>
   exec_store \<Rightarrow> store_error + exec_store" where
  "record_dispatch_lease_issued rt itf nonce key_id key_version stream_version audience expires_at
     envelope_version s =
     append_and_project rt itf s
       (DispatchLeaseIssued nonce key_id key_version stream_version audience expires_at envelope_version)"

definition mark_execution_failed ::
  "python_rt \<Rightarrow> event_row list list \<Rightarrow> datetime \<Rightarrow> string \<Rightarrow> string \<Rightarrow> string \<Rightarrow> exec_store \<Rightarrow> store_error + exec_store" where
  "mark_execution_failed rt itf now event_nm message code s =
     append_and_project rt itf s
       (if event_nm = ''ExecutionEnqueueFailed'' then ExecutionEnqueueFailed message code (VTime now)
        else ExecutionFailed message code (VTime now) [])"

definition record_execution_normalized ::
  "python_rt \<Rightarrow> event_row list list \<Rightarrow> pydict \<Rightarrow> string \<Rightarrow> exec_store \<Rightarrow> store_error + exec_store" where
  "record_execution_normalized rt itf p h s = append_and_project rt itf s (ParametersNormalized p h)"

definition record_execution_succeeded ::
  "python_rt \<Rightarrow> event_row list list \<Rightarrow> datetime \<Rightarrow> pydict \<Rightarrow> exec_store \<Rightarrow> store_error + exec_store" where
  "record_execution_succeeded rt itf now r s = append_and_project rt itf s (ExecutionSucceeded r (VTime now))"

definition record_execution_cancelled ::
  "python_rt \<Rightarrow> event_row list list \<Rightarrow> datetime \<Rightarrow> pyval \<Rightarrow> string \<Rightarrow> exec_store \<Rightarrow> store_error + exec_store" where
  "record_execution_cancelled rt itf now user_pk reason s =
     append_and_project rt itf s (ExecutionCancelled (VTime now) user_pk reason)"

definition record_execution_requested ::
  "python_rt \<Rightarrow> event_row list list \<Rightarrow> pyval \<Rightarrow> exec_store \<Rightarrow> store_error + exec_store" where
  "record_execution_requested rt itf by s =
     append_and_project rt itf s (ExecutionRequested (if by = VNone then requested_by_id (obj s) else by))"

definition record_approval_requested ::
  "python_rt \<Rightarrow> event_row list list \<Rightarrow> string \<Rightarrow> pyval \<Rightarrow> pyval \<Rightarrow> exec_store \<Rightarrow> store_error + exec_store" where
  "record_approval_requested rt itf h expires by s =
     append_and_project rt itf s (ApprovalRequested h expires by)"

definition record_execution_approved ::
  "python_rt \<Rightarrow> event_row list list \<Rightarrow> datetime \<Rightarrow> pyval \<Rightarrow> string \<Rightarrow> string \<Rightarrow> exec_store \<Rightarrow> store_error + exec_store" where
  "record_execution_approved rt itf now by h reason s =
     append_and_project rt itf s (ExecutionApproved by h (VTime now) reason)"

definition record_execution_rejected ::
  "python_rt \<Rightarrow> event_row list list \<Rightarrow> datetime \<Rightarrow> pyval \<Rightarrow> string \<Rightarrow> exec_store \<Rightarrow> store_error + exec_store" where
  "record_execution_rejected rt itf now by reason s =
     append_and_project rt itf s (ExecutionRejected by (VTime now) reason)"

definition record_execution_expired ::
  "python_rt \<Rightarrow> event_row list list \<Rightarrow> datetime \<Rightarrow> string \<Rightarrow> exec_store \<Rightarrow> store_error + exec_store" where
  "record_execution_expired rt itf now reason s =
     append_and_project rt itf s (ExecutionExpired (VTime now) reason)"

end
