(* ===== verification/EventStoreProps.thy ===== *)
theory EventStoreProps
  imports EventStore RedactionProps RegexFacts
begin

text \<open>
  Correctness of the event store: sequence numbers stay contiguous under concurrent
  writers, an append fails only after three collisions, and the committed columns of an
  execution always agree with replaying its ledger.
\<close>

section \<open>Sequence numbers\<close>

definition contiguous :: "event_row list \<Rightarrow> bool" where
  "contiguous es \<longleftrightarrow> map ev_sequence es = [1..<length es + 1]"

text \<open>Rows of other writers continue the numbering they find.\<close>

fun orderly :: "event_row list \<Rightarrow> event_row list list \<Rightarrow> bool" where
  "orderly es [] = True"
| "orderly es (others # itf) = (contiguous (es @ others) \<and> orderly (es @ others) itf)"

lemma foldr_max_upt: "foldr max [1..<n + 1] (0::nat) = n"
proof -
  have "foldr max [a..<b] (0::nat) = (if a < b then b - 1 else 0)" for a b :: nat
  proof (induction "b - a" arbitrary: a)
    case (Suc k)
    then have "a < b" by simp
    with Suc(1) [of "Suc a"] Suc(2) show ?case by (auto simp: upt_conv_Cons)
  qed simp
  from this [of 1 "n + 1"] show ?thesis by (simp del: upt_Suc)
qed

lemma next_sequence_contiguous: "contiguous es \<Longrightarrow> next_event_sequence es = length es + 1"
  using foldr_max_upt [of "length es"] by (simp add: next_event_sequence_def contiguous_def)

lemma contiguous_taken: "contiguous es \<Longrightarrow> n \<in> set (map ev_sequence es) \<longleftrightarrow> 1 \<le> n \<and> n \<le> length es"
  by (auto simp: contiguous_def)

lemma contiguous_snoc: "contiguous es \<Longrightarrow> ev_sequence r = length es + 1 \<Longrightarrow> contiguous (es @ [r])"
  by (simp add: contiguous_def)

lemma insert_attempts_ok:
  assumes "contiguous es" "orderly es itf" "sequence = length es + 1" "\<And>n. ev_sequence (mk n) = n"
    "insert_attempts mk itf sequence es = Inr (r, es')"
  shows "contiguous es' \<and> (\<exists>others. es' = es @ others @ [r]) \<and> r = mk (length es')"
  using assms
proof (induction itf arbitrary: es sequence)
  case (Cons others itf)
  let ?es = "es @ others"
  have c: "contiguous ?es" "orderly ?es itf" using Cons.prems(2) by auto
  show ?case
  proof (cases "sequence \<in> set (map ev_sequence ?es)")
    case True
    with Cons.prems(5) have "insert_attempts mk itf (next_event_sequence ?es) ?es = Inr (r, es')"
      by (simp add: Let_def image_Un)
    from Cons.IH [OF c _ Cons.prems(4) this] next_sequence_contiguous [OF c(1)] show ?thesis
      by (auto intro: exI [of _ "others @ _"])
  next
    case False
    with Cons.prems(5) have r: "r = mk sequence" "es' = ?es @ [mk sequence]"
      by (auto simp: Let_def image_Un)
    from False contiguous_taken [OF c(1), of sequence] Cons.prems(3) have "others = []"
      by (cases others) auto
    with r Cons.prems(3,4) contiguous_snoc [OF c(1), of r] show ?thesis by auto
  qed
qed simp

lemma insert_attempts_error:
  assumes "contiguous es" "orderly es itf" "sequence = length es + 1"
  shows "(\<exists>e. insert_attempts mk itf sequence es = Inl e) \<longleftrightarrow> list_all (\<lambda>others. others \<noteq> []) itf"
  using assms
proof (induction itf arbitrary: es sequence)
  case (Cons others itf)
  let ?es = "es @ others"
  have c: "contiguous ?es" "orderly ?es itf" using Cons.prems(2) by auto
  have "sequence \<in> set (map ev_sequence ?es) \<longleftrightarrow> others \<noteq> []"
    using contiguous_taken [OF c(1), of sequence] Cons.prems(3) by (cases others) auto
  with Cons.IH [OF c] next_sequence_contiguous [OF c(1)] show ?case
    by (auto simp: Let_def image_Un)
qed simp

lemma append_row_sequence:
  "append_execution_event rt itf es level event message data lim = Inr (r, es') \<Longrightarrow>
     ev_event r = event \<and> ev_data r = redact_event_data rt lim data"
proof -
  have *: "insert_attempts mk itf sequence es = Inr (r, es') \<Longrightarrow> \<exists>n. r = mk n" for mk itf sequence es
    by (induction itf arbitrary: sequence es) (auto simp: Let_def split: if_splits)
  assume "append_execution_event rt itf es level event message data lim = Inr (r, es')"
  then show ?thesis unfolding append_execution_event_def Let_def by (auto dest!: *)
qed

text \<open>
  Appending keeps the ledger of an execution numbered 1, 2, 3, ... without gaps or
  duplicates, whatever other writers commit in between, never changes or reorders rows
  that were there, and puts the new row last.
\<close>

theorem append_keeps_contiguous:
  assumes "contiguous es" and "orderly es (three_attempts itf)"
    and "append_execution_event rt itf es level event message data lim = Inr (r, es')"
  shows "contiguous es' \<and> (\<exists>others. es' = es @ others @ [r]) \<and> ev_sequence r = length es'"
  using insert_attempts_ok [OF assms(1,2) refl _ assms(3) [unfolded append_execution_event_def Let_def
    next_sequence_contiguous [OF assms(1)]]] by auto

theorem append_keeps_contiguous_witness:
  "contiguous [\<lparr>ev_sequence = 1, ev_level = ''info'', ev_event = ''E'', ev_message = '''', ev_data = [],
     ev_payload_hash = json_dumps (VDict [(''level'', VStr ''info''), (''event'', VStr ''E''),
       (''message'', VStr ''''), (''data'', VDict [])])\<rparr>]"
proof -
  let ?r = "\<lparr>ev_sequence = 1, ev_level = ''info'', ev_event = ''E'', ev_message = '''', ev_data = [],
     ev_payload_hash = json_dumps (VDict [(''level'', VStr ''info''), (''event'', VStr ''E''),
       (''message'', VStr ''''), (''data'', VDict [])])\<rparr>"
  have m: "bounded_event_message '''' = ''''" and d: "redact_event_data plain_rt [] [] = []"
    by code_simp+
  have "append_execution_event plain_rt [] [] ''info'' ''E'' '''' [] [] = Inr (?r, [?r])"
    unfolding append_execution_event_def m d
    by (simp add: three_attempts_def APPEND_ATTEMPTS_def next_event_sequence_def stable_hash_def plain_rt_def
        ledger_event_level_def EVENT_LEVELS_def Let_def numeral_3_eq_3)
  from append_keeps_contiguous [OF _ _ this] show ?thesis
    by (simp add: contiguous_def three_attempts_def APPEND_ATTEMPTS_def numeral_3_eq_3)
qed

text \<open>
  Appending fails exactly when another writer commits before each of the three
  attempts; a single undisturbed attempt is enough for it to succeed.
\<close>

theorem append_fails_iff_three_collisions:
  assumes "contiguous es" and "orderly es (three_attempts itf)"
  shows "append_execution_event rt itf es level event message data lim = Inl RPCEventStoreError \<longleftrightarrow>
    list_all (\<lambda>others. others \<noteq> []) (three_attempts itf)"
proof -
  have "insert_attempts mk l n es = Inl e \<Longrightarrow> e = RPCEventStoreError" for mk l n es e
    by (induction l arbitrary: n es) (auto simp: Let_def split: if_splits)
  with insert_attempts_error [OF assms refl] show ?thesis
    by (simp add: append_execution_event_def Let_def next_sequence_contiguous [OF assms(1)]) blast
qed

theorem append_fails_iff_three_collisions_witness:
  "append_execution_event plain_rt [] [] ''info'' ''JobEnqueued'' [] [(''job_id'', VInt 7)] [] \<noteq>
     Inl RPCEventStoreError"
  using append_fails_iff_three_collisions
    [of "[]" "[]" plain_rt "''info''" "''JobEnqueued''" "[]" "[(''job_id'', VInt 7)]" "[]"]
  by (simp add: contiguous_def three_attempts_def APPEND_ATTEMPTS_def numeral_3_eq_3)


section \<open>The columns agree with the replayed ledger\<close>

definition same_val :: "pyval \<Rightarrow> pyval \<Rightarrow> bool" where
  "same_val v w \<longleftrightarrow> v = w \<or> py_eq v w"

text \<open>Two projections agree: equal texts and statuses, equal values as Python compares them.\<close>

definition proj_eq :: "ProjectionState \<Rightarrow> ProjectionState \<Rightarrow> bool" where
  "proj_eq p q \<longleftrightarrow>
     status p = status q \<and> same_val (started_at p) (started_at q) \<and>
     same_val (finished_at p) (finished_at q) \<and> error_code p = error_code q \<and>
     error_message p = error_message q \<and> same_val (VDict (result p)) (VDict (result q)) \<and>
     same_val (VDict (normalized_params p)) (VDict (normalized_params q)) \<and>
     resolved_command_hash p = resolved_command_hash q \<and> same_val (job_id p) (job_id q) \<and>
     same_val (approved_by_id p) (approved_by_id q)"

lemma same_val_refl [simp]: "same_val v v"
  by (simp add: same_val_def)

lemma proj_eq_refl [simp]: "proj_eq p p"
  by (simp add: proj_eq_def)

text \<open>The object in memory holds the committed columns.\<close>

definition synced :: "exec_store \<Rightarrow> bool" where
  "synced s \<longleftrightarrow> from_execution (obj s) = row s"

definition row_consistent :: "python_rt \<Rightarrow> exec_store \<Rightarrow> bool" where
  "row_consistent rt s \<longleftrightarrow> (case rebuild_projection rt (events s) of Inl _ \<Rightarrow> False | Inr p \<Rightarrow> proj_eq (row s) p)"

lemma write_field_sel [simp]:
  "events (write_field c f g s) = events s"
  "obj (write_field c f g s) = (if c then obj s else f (obj s))"
  "row (write_field c f g s) = (if c then row s else g (row s))"
  by (simp_all add: write_field_def)

lemma events_write_projection [simp]: "events (write_projection s p) = events s"
  by (simp add: write_projection_def Let_def)

lemma row_write_projection:
  "row (write_projection s p) =
     \<lparr>status = (if status (obj s) = status p then status (row s) else status p),
      started_at = (if py_eq (started_at (obj s)) (started_at p) then started_at (row s) else started_at p),
      finished_at = (if py_eq (finished_at (obj s)) (finished_at p) then finished_at (row s) else finished_at p),
      error_code = (if error_code (obj s) = error_code p then error_code (row s) else error_code p),
      error_message = (if error_message (obj s) = error_message p then error_message (row s) else error_message p),
      result = (if py_eq (VDict (result (obj s))) (VDict (result p)) then result (row s) else result p),
      normalized_params = (if py_eq (VDict (normalized_params (obj s))) (VDict (normalized_params p))
        then normalized_params (row s) else normalized_params p),
      resolved_command_hash = (if resolved_command_hash (obj s) = resolved_command_hash p
        then resolved_command_hash (row s) else resolved_command_hash p),
      job_id = (if py_eq (job_id (obj s)) (job_id p) then job_id (row s) else job_id p),
      approved_by_id = (if py_eq (approved_by_id (obj s)) (approved_by_id p) then approved_by_id (row s)
        else approved_by_id p)\<rparr>"
  by (rule ProjectionState.equality) (simp_all add: write_projection_def Let_def)

lemma from_execution_sel [simp]:
  "status (from_execution x) = status x" "started_at (from_execution x) = started_at x"
  "finished_at (from_execution x) = finished_at x" "error_code (from_execution x) = error_code x"
  "error_message (from_execution x) = error_message x" "result (from_execution x) = result x"
  "normalized_params (from_execution x) = normalized_params x"
  "resolved_command_hash (from_execution x) = resolved_command_hash x"
  "job_id (from_execution x) = job_id x" "approved_by_id (from_execution x) = approved_by_id x"
  by (simp_all add: from_execution_def ProjectionState.truncate_def)

lemma obj_write_projection:
  "from_execution (obj (write_projection s p)) =
     \<lparr>status = status p,
      started_at = (if py_eq (started_at (obj s)) (started_at p) then started_at (obj s) else started_at p),
      finished_at = (if py_eq (finished_at (obj s)) (finished_at p) then finished_at (obj s) else finished_at p),
      error_code = error_code p, error_message = error_message p,
      result = (if py_eq (VDict (result (obj s))) (VDict (result p)) then result (obj s) else result p),
      normalized_params = (if py_eq (VDict (normalized_params (obj s))) (VDict (normalized_params p))
        then normalized_params (obj s) else normalized_params p),
      resolved_command_hash = resolved_command_hash p,
      job_id = (if py_eq (job_id (obj s)) (job_id p) then job_id (obj s) else job_id p),
      approved_by_id = (if py_eq (approved_by_id (obj s)) (approved_by_id p) then approved_by_id (obj s)
        else approved_by_id p)\<rparr>"
  by (rule ProjectionState.equality) (simp_all add: write_projection_def Let_def)

lemma synced_fields:
  assumes "synced s"
  shows "status (obj s) = status (row s)" "started_at (obj s) = started_at (row s)"
    "finished_at (obj s) = finished_at (row s)" "error_code (obj s) = error_code (row s)"
    "error_message (obj s) = error_message (row s)" "result (obj s) = result (row s)"
    "normalized_params (obj s) = normalized_params (row s)"
    "resolved_command_hash (obj s) = resolved_command_hash (row s)"
    "job_id (obj s) = job_id (row s)" "approved_by_id (obj s) = approved_by_id (row s)"
  using assms unfolding synced_def by (metis from_execution_sel)+

lemma synced_write: "synced s \<Longrightarrow> synced (write_projection s p)"
  unfolding synced_def [of "write_projection s p"] obj_write_projection row_write_projection
  by (simp add: synced_fields)

text \<open>Folding an event commutes with writing through a synchronised object.\<close>

lemma proj_eq_step:
  assumes "synced s" "proj_eq (row s) p"
  shows "proj_eq (row (write_projection s (apply_event rt (from_execution (obj s)) e))) (apply_event rt p e)"
  using assms(2) unfolding row_write_projection
  by (cases e) (auto simp: synced_fields [OF assms(1)] proj_eq_def same_val_def)


section \<open>Stored data always decodes\<close>

lemma assign_all_source: "(k, v) \<in> set (assign_all ps) \<Longrightarrow> (k, v) \<in> set ps"
proof -
  have "(k, v) \<in> set (foldl (\<lambda>d (k, v). dict_set k v d) acc ps) \<Longrightarrow> (k, v) \<in> set acc \<or> (k, v) \<in> set ps" for acc
  proof (induction ps arbitrary: acc)
    case (Cons p ps)
    obtain a b where "p = (a, b)" by (cases p)
    with Cons.IH [of "dict_set a b acc"] Cons.prems set_dict_set [of k v a b acc] show ?case by auto
  qed simp
  then show "(k, v) \<in> set (assign_all ps) \<Longrightarrow> ?thesis" by (fastforce simp: assign_all_def)
qed

lemma placeholder_prefix: "prefix MAPPING_NAME_PLACEHOLDER_PREFIX (unused_placeholder rt n taken)"
  using unused_placeholder_form [of rt n taken] by (auto simp: candidate_at_def keyed_mapping_name_def)

text \<open>A stored entry is the redaction of the entry of that name.\<close>

lemma redacted_entry:
  assumes "dget (redact_event_data rt lim d) k = v" "v \<noteq> VNone"
    "\<not> prefix MAPPING_NAME_PLACEHOLDER_PREFIX k" "k \<noteq> ''_truncated''"
  shows "\<exists>item. (k, item) \<in> set d \<and> v = redact_event_value rt lim k [k] 1 item"
proof -
  let ?es = "assign_all (map (\<lambda>(p, n, item). (p, redact_event_value rt lim n [n] 1 item))
      (persisted_mapping_entries rt (fst (mapping_window d))))"
  have "redact_event_data rt lim d =
      (if snd (mapping_window d) then dict_set ''_truncated'' (VBool True) ?es else ?es)"
    by (simp add: redact_event_data_def redact_event_value.simps [of rt lim "[]"] MAX_REDACTION_DEPTH_def Let_def)
  with dget_in [OF assms(1,2)] assms(4) have "(k, v) \<in> set ?es"
    by (auto split: if_splits dest: set_dict_set)
  from assign_all_source [OF this] obtain n item where
    e: "(k, n, item) \<in> set (persisted_mapping_entries rt (fst (mapping_window d)))"
    and v: "v = redact_event_value rt lim n [n] 1 item" by auto
  have "k = n"
    using persist_entries_name_cases [OF e [unfolded persisted_mapping_entries_def]] placeholder_prefix assms(3) by blast
  with v size_window [OF persisted_source [OF e]] show ?thesis by blast
qed

lemma plain_names:
  "\<not> is_sensitive_key ''result''" "\<not> is_sensitive_key ''normalized_params''"
  "\<not> is_sensitive_key ''key_version''" "\<not> is_sensitive_key ''stream_version''"
  "\<not> is_sensitive_key ''envelope_version''"
  "lower ''result'' \<notin> set BOOLEAN_POLICY_KEYS" "lower ''normalized_params'' \<notin> set BOOLEAN_POLICY_KEYS"
  "lower ''key_version'' \<notin> set BOOLEAN_POLICY_KEYS" "lower ''stream_version'' \<notin> set BOOLEAN_POLICY_KEYS"
  "lower ''envelope_version'' \<notin> set BOOLEAN_POLICY_KEYS"
  by code_simp+

lemma redact_plain_dict:
  "\<not> is_sensitive_key k \<Longrightarrow> lower k \<notin> set BOOLEAN_POLICY_KEYS \<Longrightarrow>
     \<exists>r. redact_event_value rt lim k path 1 (VDict d) = VDict r"
  by (simp add: redact_event_value.simps MAX_REDACTION_DEPTH_def Let_def)

lemma redact_plain_int:
  "\<not> is_sensitive_key k \<Longrightarrow> lower k \<notin> set BOOLEAN_POLICY_KEYS \<Longrightarrow>
     redact_event_value rt lim k path depth (VInt i) = VInt i"
  by (simp add: redact_event_value.simps)

lemma stored_dict:
  assumes "\<not> is_sensitive_key k" "lower k \<notin> set BOOLEAN_POLICY_KEYS"
    "\<not> prefix MAPPING_NAME_PLACEHOLDER_PREFIX k" "k \<noteq> ''_truncated''"
    "\<And>item. (k, item) \<in> set d \<Longrightarrow> is_dict item"
  shows "\<exists>r. dict_or_empty (dget (redact_event_data rt lim d) k) = Inr r"
proof (cases "dget (redact_event_data rt lim d) k = VNone")
  case False
  from redacted_entry [OF refl this assms(3,4)] obtain item where
    "(k, item) \<in> set d" "dget (redact_event_data rt lim d) k = redact_event_value rt lim k [k] 1 item" by blast
  moreover from assms(5) [OF this(1)] obtain e where "item = VDict e" by (cases item) auto
  ultimately show ?thesis using redact_plain_dict [OF assms(1,2)] by (metis dict_or_empty_VDict)
qed simp

lemma stored_int:
  assumes "\<not> is_sensitive_key k" "lower k \<notin> set BOOLEAN_POLICY_KEYS"
    "\<not> prefix MAPPING_NAME_PLACEHOLDER_PREFIX k" "k \<noteq> ''_truncated''"
    "\<And>item. (k, item) \<in> set d \<Longrightarrow> \<exists>i. item = VInt i"
  shows "\<exists>i. py_int rt (py_or (dget (redact_event_data rt lim d) k) (VInt n)) = Inr i"
proof (cases "dget (redact_event_data rt lim d) k = VNone")
  case False
  from redacted_entry [OF refl this assms(3,4)] assms(5) redact_plain_int [OF assms(1,2)] show ?thesis
    by (fastforce simp: py_or_def)
qed (simp add: py_or_def)

lemma own_from_data_total:
  "\<exists>e'. own_from_data rt e (redact_event_data rt lim (event_data e)) = Inr e'"
proof (cases e)
  case (ParametersNormalized p h)
  have "\<exists>r. dict_or_empty (dget (redact_event_data rt lim (event_data e)) ''normalized_params'') = Inr r"
    by (rule stored_dict) (use plain_names ParametersNormalized in \<open>auto simp: MAPPING_NAME_PLACEHOLDER_PREFIX_def\<close>)
  with ParametersNormalized show ?thesis by (auto simp: event_codec)
next
  case (ExecutionSucceeded r t)
  have "\<exists>r. dict_or_empty (dget (redact_event_data rt lim (event_data e)) ''result'') = Inr r"
    by (rule stored_dict)
      (use plain_names ExecutionSucceeded in \<open>auto simp: MAPPING_NAME_PLACEHOLDER_PREFIX_def status_entry_def\<close>)
  with ExecutionSucceeded show ?thesis by (auto simp: event_codec)
next
  case (ExecutionFailed m c t r)
  have "\<exists>r. dict_or_empty (dget (redact_event_data rt lim (event_data e)) ''result'') = Inr r"
    by (rule stored_dict)
      (use plain_names ExecutionFailed in \<open>auto simp: MAPPING_NAME_PLACEHOLDER_PREFIX_def status_entry_def split: if_splits\<close>)
  with ExecutionFailed show ?thesis by (auto simp: from_data_defs from_record_def EVENT_TYPES_def)
next
  case (DispatchLeaseIssued n k kv sv a t ev)
  let ?d = "redact_event_data rt lim (event_data e)"
  have "\<exists>i. py_int rt (py_or (dget ?d ''key_version'') (VInt 1)) = Inr i"
    by (rule stored_int) (use plain_names DispatchLeaseIssued in \<open>auto simp: MAPPING_NAME_PLACEHOLDER_PREFIX_def\<close>)
  moreover have "\<exists>i. py_int rt (py_or (dget ?d ''stream_version'') (VInt 0)) = Inr i"
    by (rule stored_int) (use plain_names DispatchLeaseIssued in \<open>auto simp: MAPPING_NAME_PLACEHOLDER_PREFIX_def\<close>)
  moreover have "\<exists>i. py_int rt (py_or (dget ?d ''envelope_version'') (VInt 1)) = Inr i"
    by (rule stored_int) (use plain_names DispatchLeaseIssued in \<open>auto simp: MAPPING_NAME_PLACEHOLDER_PREFIX_def\<close>)
  ultimately show ?thesis
    using DispatchLeaseIssued by (auto simp: from_data_defs from_record_def EVENT_TYPES_def)
qed (simp_all add: from_data_defs from_record_def EVENT_TYPES_def)


section \<open>Appending without interference\<close>

text \<open>A backend event must not carry the name of a domain event.\<close>

definition proper_name :: "domain_event \<Rightarrow> bool" where
  "proper_name e = (case e of
       BackendEventRecorded n _ _ _ \<Rightarrow> n \<notin> domain_event_names - {''BackendEventRecorded''}
     | _ \<Rightarrow> True)"

lemma persistable_name [simp]: "event_name (persistable_failure_event e) = event_name e"
  by (cases e) simp_all

lemma proper_name_persistable [simp]: "proper_name (persistable_failure_event e) = proper_name e"
  by (cases e) (simp_all add: proper_name_def)

lemma append_undisturbed:
  assumes "contiguous es"
  shows "\<exists>r. append_execution_event rt [] es level event message data lim = Inr (r, es @ [r]) \<and>
    contiguous (es @ [r]) \<and> ev_event r = event \<and> ev_data r = redact_event_data rt lim data"
proof -
  have "insert_attempts mk (three_attempts []) (next_event_sequence es) es =
      Inr (mk (length es + 1), es @ [mk (length es + 1)])" for mk
    using contiguous_taken [OF assms, of "Suc (length es)"]
    by (simp add: three_attempts_def APPEND_ATTEMPTS_def numeral_3_eq_3 next_sequence_contiguous [OF assms] Let_def)
  then show ?thesis
    using assms by (simp add: append_execution_event_def Let_def contiguous_def)
qed

lemma append_and_project_undisturbed:
  assumes "contiguous (events s)"
  obtains r e' where
    "append_and_project rt [] s e =
       Inr (write_projection (s\<lparr>events := events s @ [r]\<rparr>) (apply_event rt (from_execution (obj s)) e'))"
    "own_from_data rt (persistable_failure_event e) (ev_data r) = Inr e'"
    "ev_event r = event_name e" "contiguous (events s @ [r])"
    "ev_data r = redact_event_data rt (event_string_limits (result_schema (obj s)) (persistable_failure_event e))
       (event_data (persistable_failure_event e))"
proof -
  let ?e = "persistable_failure_event e"
  from append_undisturbed [OF assms] obtain r where
    r: "append_execution_event rt [] (events s) (event_level ?e) (event_name ?e) (event_message ?e) (event_data ?e)
      (event_string_limits (result_schema (obj s)) ?e) = Inr (r, events s @ [r])"
    "contiguous (events s @ [r])" "ev_event r = event_name ?e"
    "ev_data r = redact_event_data rt (event_string_limits (result_schema (obj s)) ?e) (event_data ?e)" by blast
  from own_from_data_total obtain e' where e': "own_from_data rt ?e (ev_data r) = Inr e'"
    unfolding r(4) by blast
  show thesis
    by (rule that [OF _ e' _ r(2,4)]) (use r e' in \<open>simp_all add: append_and_project_def Let_def\<close>)
qed

lemma replay_stored:
  assumes "own_from_data rt e d = Inr e'" "proper_name e"
  shows "apply_record rt p (event_name e, d) = Inr (apply_event rt p e')"
proof (cases e)
  case (BackendEventRecorded n b l m)
  with assms backend_name_decodes [of n rt d] show ?thesis
    by (auto simp: apply_record_def proper_name_def backend_from_data_def)
qed (use assms in \<open>simp_all add: apply_record_def\<close>)

lemma rebuild_snoc_row:
  assumes "rebuild_projection rt es = Inr p" "apply_record rt p (ev_event r, ev_data r) = Inr q"
  shows "rebuild_projection rt (es @ [r]) = Inr q"
  using assms by (simp add: rebuild_projection_def rfold_snoc)

text \<open>The state every writer keeps: object and row agree, and both agree with the ledger.\<close>

definition live :: "python_rt \<Rightarrow> exec_store \<Rightarrow> bool" where
  "live rt s \<longleftrightarrow> synced s \<and> row_consistent rt s \<and> contiguous (events s)"

lemma live_step:
  assumes "live rt s" "proper_name e"
  shows "\<exists>s' r. append_and_project rt [] s e = Inr s' \<and> live rt s' \<and> events s' = events s @ [r]"
proof -
  from assms(1) have s: "synced s" "row_consistent rt s" "contiguous (events s)" by (simp_all add: live_def)
  obtain r e' where a: "append_and_project rt [] s e =
      Inr (write_projection (s\<lparr>events := events s @ [r]\<rparr>) (apply_event rt (from_execution (obj s)) e'))"
    "own_from_data rt (persistable_failure_event e) (ev_data r) = Inr e'"
    "ev_event r = event_name e" "contiguous (events s @ [r])"
    by (rule append_and_project_undisturbed [OF s(3)])
  let ?s = "s\<lparr>events := events s @ [r]\<rparr>"
  let ?s' = "write_projection ?s (apply_event rt (from_execution (obj s)) e')"
  from s(2) obtain p where p: "rebuild_projection rt (events s) = Inr p" "proj_eq (row s) p"
    by (auto simp: row_consistent_def split: sum.splits)
  have sy: "synced ?s" using s(1) by (simp add: synced_def)
  have "rebuild_projection rt (events s @ [r]) = Inr (apply_event rt p e')"
    using rebuild_snoc_row [OF p(1)] replay_stored [OF a(2)] assms(2) a(3) by simp
  moreover have "proj_eq (row ?s') (apply_event rt p e')"
    using proj_eq_step [OF sy, of p rt e'] p(2) by simp
  ultimately have "live rt ?s'"
    using synced_write [OF sy] a(4) by (simp add: live_def row_consistent_def)
  with a(1) show ?thesis by auto
qed


section \<open>The writer interface\<close>

text \<open>
  What a client of an event stream relies on: an allowed operation on a good state always
  succeeds, appends one record and leaves a good state.
\<close>

locale stream_writer =
  fixes step :: "'s \<Rightarrow> 'op \<Rightarrow> 'x + 's"
    and good :: "'s \<Rightarrow> bool"
    and allowed :: "'op \<Rightarrow> bool"
    and log :: "'s \<Rightarrow> 'r list"
  assumes progress: "good s \<Longrightarrow> allowed a \<Longrightarrow> \<exists>s' r. step s a = Inr s' \<and> good s' \<and> log s' = log s @ [r]"
begin

lemma run_progress:
  "good s \<Longrightarrow> list_all allowed as \<Longrightarrow>
     \<exists>s'. rfold step s as = Inr s' \<and> good s' \<and> prefix (log s) (log s') \<and> length (log s') = length (log s) + length as"
proof (induction as arbitrary: s)
  case (Cons a as)
  from progress [of s a] Cons.prems obtain s1 r where s1: "step s a = Inr s1" "good s1" "log s1 = log s @ [r]" by auto
  from Cons.IH [OF s1(2)] Cons.prems(2) obtain s' where
    "rfold step s1 as = Inr s'" "good s'" "prefix (log s1) (log s')" "length (log s') = length (log s1) + length as"
    by auto
  with s1 show ?case by (auto simp: prefix_def)
qed simp

end

interpretation ledger: stream_writer "append_and_project rt []" "live rt" proper_name events
  for rt
  by unfold_locales (rule live_step)

text \<open>
  C4: Every sequence of events recorded through one up-to-date object succeeds; the ledger
  grows by exactly those events, stays numbered without gaps, and afterwards the committed
  columns are, value by value, what \<open>rebuild_projection\<close> folds from the stored, redacted
  rows.
\<close>

theorem live_projection_matches_rebuild:
  assumes "synced s" and "row_consistent rt s" and "contiguous (events s)" and "list_all proper_name es"
  shows "\<exists>s' p. rfold (append_and_project rt []) s es = Inr s' \<and>
    rebuild_projection rt (events s') = Inr p \<and> proj_eq (row s') p \<and>
    prefix (events s) (events s') \<and> length (events s') = length (events s) + length es \<and>
    contiguous (events s')"
proof -
  have "live rt s" using assms(1-3) by (simp add: live_def)
  from ledger.run_progress [OF this assms(4)] obtain s' where
    "rfold (append_and_project rt []) s es = Inr s'" "live rt s'" "prefix (events s) (events s')"
    "length (events s') = length (events s) + length es" by blast
  moreover from this(2) obtain p where "rebuild_projection rt (events s') = Inr p" "proj_eq (row s') p"
    by (auto simp: live_def row_consistent_def split: sum.splits)
  ultimately show ?thesis by (auto simp: live_def)
qed

definition fresh_store :: exec_store where
  "fresh_store = \<lparr>obj = ProjectionState.extend projection_initial
       \<lparr>pk = 1, requested_by_id = VInt 1, procedure_name = ''demo'', result_schema = VNone, params = VDict []\<rparr>,
     row = projection_initial, events = []\<rparr>"

lemma fresh_store_live: "live rt fresh_store"
  by (simp add: live_def synced_def row_consistent_def contiguous_def fresh_store_def rebuild_projection_def
      from_execution_def ProjectionState.defs)

theorem live_projection_matches_rebuild_witness:
  "\<exists>s' p. rfold (append_and_project plain_rt []) fresh_store
       [ExecutionQueued (VInt 1), ExecutionStarted (VStr ''2024-05-01T10:00:00''), ExecutionSucceeded [] VNone] = Inr s' \<and>
    rebuild_projection plain_rt (events s') = Inr p \<and> proj_eq (row s') p \<and>
    prefix (events fresh_store) (events s') \<and> length (events s') = length (events fresh_store) +
      length [ExecutionQueued (VInt 1), ExecutionStarted (VStr ''2024-05-01T10:00:00''), ExecutionSucceeded [] VNone] \<and>
    contiguous (events s')"
  using fresh_store_live [of plain_rt]
  by (intro live_projection_matches_rebuild) (simp_all add: live_def proper_name_def)


section \<open>Stale writers\<close>

text \<open>The object's values compare equal to themselves (they hold no NaN).\<close>

definition self_equal :: "execution \<Rightarrow> bool" where
  "self_equal x \<longleftrightarrow> py_eq (started_at x) (started_at x) \<and> py_eq (finished_at x) (finished_at x) \<and>
     py_eq (VDict (result x)) (VDict (result x)) \<and>
     py_eq (VDict (normalized_params x)) (VDict (normalized_params x)) \<and>
     py_eq (approved_by_id x) (approved_by_id x)"

text \<open>
  Recording the queue job through a stale object cannot lose a concurrent transition:
  whatever the object in memory still believes, the committed columns other than the job
  id, the status above all, are left exactly as they are.
\<close>

theorem stale_job_write_keeps_row:
  assumes "contiguous (events s)" and "self_equal (obj s)"
    and "record_execution_enqueued rt [] j s = Inr s'"
  shows "row s' = (row s)\<lparr>job_id := job_id (row s')\<rparr> \<and> length (events s') = length (events s) + 1"
proof -
  obtain r e' where a: "append_and_project rt [] s (JobEnqueued j) =
      Inr (write_projection (s\<lparr>events := events s @ [r]\<rparr>) (apply_event rt (from_execution (obj s)) e'))"
    "own_from_data rt (persistable_failure_event (JobEnqueued j)) (ev_data r) = Inr e'"
    by (rule append_and_project_undisturbed [OF assms(1)])
  have "\<exists>k. e' = JobEnqueued k"
    using a(2) by (auto simp: from_record_def EVENT_TYPES_def job_enqueued_from_data_def)
  then obtain k where "e' = JobEnqueued k" ..
  with a(1) assms(2,3) show ?thesis
    by (auto simp: record_execution_enqueued_def row_write_projection self_equal_def)
qed

theorem stale_job_write_keeps_row_witness:
  "let s = fresh_store\<lparr>row := projection_initial\<lparr>status := RUNNING\<rparr>\<rparr> in
     \<exists>s'. record_execution_enqueued plain_rt [] (VInt 9) s = Inr s' \<and>
       row s' = (row s)\<lparr>job_id := job_id (row s')\<rparr> \<and> length (events s') = length (events s) + 1"
proof -
  let ?s = "fresh_store\<lparr>row := projection_initial\<lparr>status := RUNNING\<rparr>\<rparr>"
  have c: "contiguous (events ?s)" by (simp add: fresh_store_def contiguous_def)
  have "self_equal (obj ?s)"
    by (simp add: self_equal_def fresh_store_def projection_initial_def ProjectionState.defs)
  moreover obtain s' where s': "record_execution_enqueued plain_rt [] (VInt 9) ?s = Inr s'"
    unfolding record_execution_enqueued_def by (rule append_and_project_undisturbed [OF c]) blast
  ultimately show ?thesis
    using stale_job_write_keeps_row [OF c _ s'] s' by auto
qed


section \<open>Failure codes\<close>

definition catalog_code :: "string \<Rightarrow> bool" where
  "catalog_code c \<longleftrightarrow> c \<noteq> [] \<and> list_all code_char c \<and> length c \<le> 100"

lemma fullmatch_catalog: "is_catalog_error_code (VStr c) \<Longrightarrow> catalog_code c"
  by (auto simp: is_catalog_error_code_def BACKEND_ERROR_CODE_RE_def catalog_code_def code_char_def list_all_iff
      dest!: fullmatch_class)

lemma fallback_codes: "catalog_code ''RPC_EXECUTION_FAILED''" "catalog_code ''RPC_ENQUEUE_FAILED''"
  by code_simp+

lemma redact_catalog_text: "catalog_code c \<Longrightarrow> limit_at lim path \<ge> 100 \<Longrightarrow> redact_event_text lim path c = c"
  by (simp add: redact_event_text_def catalog_code_def text_bound_def redact_plain_code)

lemma code_name: "\<not> is_sensitive_key ''code''" "lower ''code'' \<notin> set BOOLEAN_POLICY_KEYS"
  by code_simp+

lemma limit_at_result_code: "limit_at (map (\<lambda>(p, n). (''result'' # p, n)) lim) [''code''] = MAX_EVENT_STRING_LENGTH"
proof -
  have "map_of (map (\<lambda>(p, n). (''result'' # p, n)) lim) [''code''] = None"
    by (auto simp: map_of_eq_None_iff)
  then show ?thesis by (simp add: limit_at_def)
qed

lemma stored_code:
  assumes "(''code'', VStr c) \<in> set d" "\<And>v. (''code'', v) \<in> set d \<Longrightarrow> v = VStr c" "catalog_code c"
    "limit_at lim [''code''] = MAX_EVENT_STRING_LENGTH"
  shows "dget (redact_event_data rt lim d) ''code'' = VNone \<or> dget (redact_event_data rt lim d) ''code'' = VStr c"
proof (cases "dget (redact_event_data rt lim d) ''code'' = VNone")
  case False
  from redacted_entry [OF refl this] obtain item where
    "(''code'', item) \<in> set d" "dget (redact_event_data rt lim d) ''code'' = redact_event_value rt lim ''code'' [''code''] 1 item"
    by (auto simp: MAPPING_NAME_PLACEHOLDER_PREFIX_def)
  moreover from assms(2) [OF this(1)] have "item = VStr c" .
  ultimately show ?thesis
    using assms(3,4) code_name
    by (simp add: redact_event_value.simps [of rt lim "''code''"] redact_catalog_text MAX_EVENT_STRING_LENGTH_def)
qed simp

lemma failed_row: "from_record rt ''ExecutionFailed'' d = failed_from_data d"
  by (simp add: from_record_def EVENT_TYPES_def)

lemma enqueue_failed_row: "from_record rt ''ExecutionEnqueueFailed'' d = enqueue_failed_from_data d"
  by (simp add: from_record_def EVENT_TYPES_def)

lemma projected_error_code:
  assumes "own_from_data rt (persistable_failure_event e)
      (redact_event_data rt (event_string_limits schema (persistable_failure_event e))
        (event_data (persistable_failure_event e))) = Inr e'"
    and "error_code p = [] \<or> catalog_code (error_code p)"
  shows "error_code (apply_event rt p e') = [] \<or> catalog_code (error_code (apply_event rt p e'))"
proof -
  define c where "c e = (if is_catalog_error_code (VStr e) then e else ''RPC_EXECUTION_FAILED'')" for e
  define q where "q e = (if is_catalog_error_code (VStr e) then e else ''RPC_ENQUEUE_FAILED'')" for e
  have cc: "catalog_code (c x)" "catalog_code (q x)" for x
    using fullmatch_catalog fallback_codes by (simp_all add: c_def q_def)
  show ?thesis
  proof (cases e)
    case (ExecutionFailed m x t r)
    let ?e = "ExecutionFailed m (c x) t r"
    let ?lim = "map (\<lambda>(p, n). (''result'' # p, n)) (result_schema_string_limits schema)"
    have e: "persistable_failure_event e = ?e" by (simp add: ExecutionFailed c_def)
    have "str_default (c x) ''RPC_EXECUTION_FAILED'' = c x" using cc(1) [of x] by (simp add: catalog_code_def)
    then have st: "dget (redact_event_data rt ?lim (event_data ?e)) ''code'' = VNone \<or>
        dget (redact_event_data rt ?lim (event_data ?e)) ''code'' = VStr (c x)"
      by (intro stored_code) (auto simp: status_entry_def cc limit_at_result_code split: if_splits)
    have "from_record rt ''ExecutionFailed'' (redact_event_data rt ?lim (event_data ?e)) = Inr e'"
      using assms(1) unfolding e by simp
    then obtain m' t' r' k where "e' = ExecutionFailed m' k t' r'"
      "k = str_or (dget (redact_event_data rt ?lim (event_data ?e)) ''code'') ''RPC_EXECUTION_FAILED''"
      unfolding failed_row by (auto simp: rbind_Inr_iff failed_from_data_def)
    moreover from this(2) st cc(1) [of x] have "k = c x \<or> k = ''RPC_EXECUTION_FAILED''"
      by (auto simp: catalog_code_def)
    ultimately have "e' = ExecutionFailed m' k t' r'" "k = c x \<or> k = ''RPC_EXECUTION_FAILED''" by blast+
    with cc(1) [of x] fallback_codes(1) show ?thesis by (auto simp: str_default_def catalog_code_def)
  next
    case (ExecutionEnqueueFailed m x t)
    let ?e = "ExecutionEnqueueFailed m (q x) t"
    have e: "persistable_failure_event e = ?e" by (simp add: ExecutionEnqueueFailed q_def)
    have "str_default (q x) ''RPC_ENQUEUE_FAILED'' = q x" using cc(2) [of x] by (simp add: catalog_code_def)
    then have st: "dget (redact_event_data rt [] (event_data ?e)) ''code'' = VNone \<or>
        dget (redact_event_data rt [] (event_data ?e)) ''code'' = VStr (q x)"
      by (intro stored_code) (auto simp: status_entry_def cc limit_at_def)
    have "from_record rt ''ExecutionEnqueueFailed'' (redact_event_data rt [] (event_data ?e)) = Inr e'"
      using assms(1) unfolding e by simp
    then obtain m' t' k where "e' = ExecutionEnqueueFailed m' k t'"
      "k = str_or (dget (redact_event_data rt [] (event_data ?e)) ''code'') ''RPC_ENQUEUE_FAILED''"
      unfolding enqueue_failed_row by (auto simp: enqueue_failed_from_data_def)
    moreover from this(2) st cc(2) [of x] have "k = q x \<or> k = ''RPC_ENQUEUE_FAILED''"
      by (auto simp: catalog_code_def)
    ultimately have "e' = ExecutionEnqueueFailed m' k t'" "k = q x \<or> k = ''RPC_ENQUEUE_FAILED''" by blast+
    with cc(2) [of x] fallback_codes(2) show ?thesis by (auto simp: str_default_def catalog_code_def)
  qed (use assms in \<open>auto simp: from_data_defs from_record_def EVENT_TYPES_def rbind_Inr_iff\<close>)
qed


text \<open>
  The error code column never holds anything but the empty text or a catalog-shaped
  code (upper case, digits and underscores, at most 100 characters), whatever code a
  failure event carries.
\<close>

theorem error_code_always_catalog:
  assumes "contiguous (events s)" and "synced s"
    and "error_code (row s) = [] \<or> catalog_code (error_code (row s))"
    and "append_and_project rt [] s e = Inr s'"
  shows "error_code (row s') = [] \<or> catalog_code (error_code (row s'))"
proof -
  obtain r e' where a: "append_and_project rt [] s e =
      Inr (write_projection (s\<lparr>events := events s @ [r]\<rparr>) (apply_event rt (from_execution (obj s)) e'))"
    "own_from_data rt (persistable_failure_event e) (ev_data r) = Inr e'"
    "ev_data r = redact_event_data rt (event_string_limits (result_schema (obj s)) (persistable_failure_event e))
       (event_data (persistable_failure_event e))"
    by (rule append_and_project_undisturbed [OF assms(1)])
  from projected_error_code [OF a(2) [unfolded a(3)], of "from_execution (obj s)"] assms(3) a(1) assms(4)
  show ?thesis by (auto simp: row_write_projection synced_fields [OF assms(2)])
qed

theorem error_code_always_catalog_witness:
  "\<exists>s'. append_and_project plain_rt [] fresh_store (ExecutionFailed ''boom'' ''not a code!'' VNone []) = Inr s' \<and>
     (error_code (row s') = [] \<or> catalog_code (error_code (row s')))"
proof -
  have l: "contiguous (events fresh_store)" "synced fresh_store" using fresh_store_live by (auto simp: live_def)
  obtain s' where s': "append_and_project plain_rt [] fresh_store (ExecutionFailed ''boom'' ''not a code!'' VNone []) = Inr s'"
    by (rule append_and_project_undisturbed [OF l(1)]) blast
  from error_code_always_catalog [OF l _ s'] s' show ?thesis
    by (auto simp: fresh_store_def projection_initial_def)
qed

end
