(* ===== verification/Catalog.thy ===== *)
theory Catalog
  imports Prelude
begin

text \<open>
  The procedure names and name sets of \<open>netbox_rpc/constants.py\<close> that decide how an
  execution is gated: which procedures need a protected two-person approval, which need an
  explicitly advertised backend capability, and which carry a closed response envelope.
  A frozenset is a list here; only membership is used.
\<close>

definition PASSBOLT_EXPORT_SECRETS :: string where
  "PASSBOLT_EXPORT_SECRETS = ''services.passbolt.export_secrets''"

definition PASSBOLT_TRANSFER_SECRETS :: string where
  "PASSBOLT_TRANSFER_SECRETS = ''services.passbolt.transfer_secrets''"

definition PASSBOLT_IMPORT_SECRETS :: string where
  "PASSBOLT_IMPORT_SECRETS = ''services.passbolt.import_secrets''"

definition PASSBOLT_CLEANUP :: string where
  "PASSBOLT_CLEANUP = ''services.passbolt.cleanup''"

definition PASSBOLT_PROCEDURE_NAMES :: "string list" where
  "PASSBOLT_PROCEDURE_NAMES =
     [PASSBOLT_EXPORT_SECRETS, PASSBOLT_TRANSFER_SECRETS, PASSBOLT_IMPORT_SECRETS, PASSBOLT_CLEANUP]"

definition NETBOX_STAGING_ROTATE_BACKEND_TOKEN :: string where
  "NETBOX_STAGING_ROTATE_BACKEND_TOKEN = ''service.netbox.staging.rotate_backend_token''"

definition NETBOX_STAGING_DEPLOY_DNS_PAIR :: string where
  "NETBOX_STAGING_DEPLOY_DNS_PAIR = ''service.netbox.staging.deploy_dns_pair''"

definition NETBOX_OPENBAO_IMPORT_DRY_RUN :: string where
  "NETBOX_OPENBAO_IMPORT_DRY_RUN = ''service.netbox.openbao_import.dry_run''"

definition NETBOX_OPENBAO_IMPORT_APPLY :: string where
  "NETBOX_OPENBAO_IMPORT_APPLY = ''service.netbox.openbao_import.apply''"

definition NETBOX_OPENBAO_IMPORT_PROCEDURE_NAMES :: "string list" where
  "NETBOX_OPENBAO_IMPORT_PROCEDURE_NAMES =
     [NETBOX_OPENBAO_IMPORT_DRY_RUN, NETBOX_OPENBAO_IMPORT_APPLY]"

definition NMULTICLOUD_DEPLOY_RELEASE_MARKER_CHECK :: string where
  "NMULTICLOUD_DEPLOY_RELEASE_MARKER_CHECK = ''service.nmulticloud.deploy.release_marker_check''"

definition NMULTICLOUD_DEPLOY_RELEASE_MARKER_RECONCILE :: string where
  "NMULTICLOUD_DEPLOY_RELEASE_MARKER_RECONCILE = ''service.nmulticloud.deploy.release_marker_reconcile''"

definition NMULTICLOUD_DEPLOY_RELEASE_MARKER_PROCEDURE_NAMES :: "string list" where
  "NMULTICLOUD_DEPLOY_RELEASE_MARKER_PROCEDURE_NAMES =
     [NMULTICLOUD_DEPLOY_RELEASE_MARKER_CHECK, NMULTICLOUD_DEPLOY_RELEASE_MARKER_RECONCILE]"

definition PROXBOX_API_RELEASE_IMAGES_INSPECT :: string where
  "PROXBOX_API_RELEASE_IMAGES_INSPECT = ''service.proxbox_api.release_images.inspect''"

definition PROXBOX_API_RELEASE_IMAGES_RECOVER :: string where
  "PROXBOX_API_RELEASE_IMAGES_RECOVER = ''service.proxbox_api.release_images.recover''"

definition PROXBOX_API_RELEASE_IMAGES_PROCEDURE_NAMES :: "string list" where
  "PROXBOX_API_RELEASE_IMAGES_PROCEDURE_NAMES =
     [PROXBOX_API_RELEASE_IMAGES_INSPECT, PROXBOX_API_RELEASE_IMAGES_RECOVER]"

definition GITEA_PRODUCTION_UPGRADE_1_27_1 :: string where
  "GITEA_PRODUCTION_UPGRADE_1_27_1 = ''service.gitea.production.upgrade_1_27_1''"

definition GITEA_RUNNER_REGISTER :: string where
  "GITEA_RUNNER_REGISTER = ''service.gitea.runner.register''"

definition GITEA_ORG_CI_RUNNER_PROVISION :: string where
  "GITEA_ORG_CI_RUNNER_PROVISION = ''service.gitea.actions_runner.provision_org_ci_runner''"

definition GITEA_ORG_CI_RUNNER_PROCEDURE_NAMES :: "string list" where
  "GITEA_ORG_CI_RUNNER_PROCEDURE_NAMES =
     [GITEA_ORG_CI_RUNNER_PROVISION]"

definition GITEA_PROTECTED_PUBLICATION_PAIR_PROVE :: string where
  "GITEA_PROTECTED_PUBLICATION_PAIR_PROVE = ''service.gitea.actions_runner.protected_pair.prove''"

definition GITEA_PROTECTED_PUBLICATION_PAIR_PROVISION :: string where
  "GITEA_PROTECTED_PUBLICATION_PAIR_PROVISION = ''service.gitea.actions_runner.protected_pair.provision''"

definition GITEA_PROTECTED_PUBLICATION_PAIR_PROCEDURE_NAMES :: "string list" where
  "GITEA_PROTECTED_PUBLICATION_PAIR_PROCEDURE_NAMES =
     [GITEA_PROTECTED_PUBLICATION_PAIR_PROVE, GITEA_PROTECTED_PUBLICATION_PAIR_PROVISION]"

definition GITEA_USER_CI_RUNNER_DIAGNOSE :: string where
  "GITEA_USER_CI_RUNNER_DIAGNOSE = ''service.gitea.actions_runner.diagnose_user_ci_runner''"

definition GITEA_USER_CI_RUNNER_RECOVER :: string where
  "GITEA_USER_CI_RUNNER_RECOVER = ''service.gitea.actions_runner.recover_user_ci_runner''"

definition GITEA_USER_CI_RUNNER_PROCEDURE_NAMES :: "string list" where
  "GITEA_USER_CI_RUNNER_PROCEDURE_NAMES =
     [GITEA_USER_CI_RUNNER_DIAGNOSE, GITEA_USER_CI_RUNNER_RECOVER]"

definition GITEA_ORG_CI_RUNNER_DIAGNOSE :: string where
  "GITEA_ORG_CI_RUNNER_DIAGNOSE = ''service.gitea.actions_runner.diagnose_org_ci_runner''"

definition GITEA_ORG_CI_RUNNER_RECOVER :: string where
  "GITEA_ORG_CI_RUNNER_RECOVER = ''service.gitea.actions_runner.recover_org_ci_runner''"

definition GITEA_ORG_CI_RUNNER_RECOVERY_PROCEDURE_NAMES :: "string list" where
  "GITEA_ORG_CI_RUNNER_RECOVERY_PROCEDURE_NAMES =
     [GITEA_ORG_CI_RUNNER_DIAGNOSE, GITEA_ORG_CI_RUNNER_RECOVER]"

definition INFLUXDB3_DEBIAN13_PREFLIGHT :: string where
  "INFLUXDB3_DEBIAN13_PREFLIGHT = ''os.linux.debian.13.preflight_influxdb3_core''"

definition INFLUXDB3_DEBIAN13_INSTALL :: string where
  "INFLUXDB3_DEBIAN13_INSTALL = ''os.linux.debian.13.install_influxdb3_core''"

definition INFLUXDB3_DEBIAN13_PROCEDURE_NAMES :: "string list" where
  "INFLUXDB3_DEBIAN13_PROCEDURE_NAMES =
     [INFLUXDB3_DEBIAN13_PREFLIGHT, INFLUXDB3_DEBIAN13_INSTALL]"

definition PBS_1_STATUS :: string where
  "PBS_1_STATUS = ''service.pbs.1.status''"

definition PBS_1_CERT_FINGERPRINT :: string where
  "PBS_1_CERT_FINGERPRINT = ''service.pbs.1.cert_fingerprint''"

definition PBS_1_DISK_LIST :: string where
  "PBS_1_DISK_LIST = ''service.pbs.1.disk_list''"

definition PBS_1_DATASTORE_FROM_DISK :: string where
  "PBS_1_DATASTORE_FROM_DISK = ''service.pbs.1.datastore_from_disk''"

definition PBS_1_PROCEDURE_NAMES :: "string list" where
  "PBS_1_PROCEDURE_NAMES =
     [PBS_1_STATUS, PBS_1_CERT_FINGERPRINT, PBS_1_DISK_LIST, PBS_1_DATASTORE_FROM_DISK]"

definition AKVORADO_BOOTSTRAP_DEBIAN13_PREFLIGHT :: string where
  "AKVORADO_BOOTSTRAP_DEBIAN13_PREFLIGHT = ''os.linux.debian.13.preflight_akvorado''"

definition AKVORADO_BOOTSTRAP_DEBIAN13_INSTALL :: string where
  "AKVORADO_BOOTSTRAP_DEBIAN13_INSTALL = ''os.linux.debian.13.install_akvorado''"

definition AKVORADO_BOOTSTRAP_DEBIAN13_PROCEDURE_NAMES :: "string list" where
  "AKVORADO_BOOTSTRAP_DEBIAN13_PROCEDURE_NAMES =
     [AKVORADO_BOOTSTRAP_DEBIAN13_PREFLIGHT, AKVORADO_BOOTSTRAP_DEBIAN13_INSTALL]"

definition OPENBAO_1_PROVISION_NETBOX_APPROLE :: string where
  "OPENBAO_1_PROVISION_NETBOX_APPROLE = ''service.openbao.1.provision_netbox_approle''"

definition LINUX_PROXMOX_OCI_REGISTRY_PULL :: string where
  "LINUX_PROXMOX_OCI_REGISTRY_PULL = ''os.linux.proxmox.oci_registry_pull''"

definition UBUNTU_26_SAMBA_AD_DC_PREFLIGHT :: string where
  "UBUNTU_26_SAMBA_AD_DC_PREFLIGHT = ''os.linux.ubuntu.26.samba_ad_dc.preflight''"

definition UBUNTU_26_SAMBA_AD_DC_PROVISION :: string where
  "UBUNTU_26_SAMBA_AD_DC_PROVISION = ''os.linux.ubuntu.26.samba_ad_dc.provision''"

definition UBUNTU_26_SAMBA_AD_DC_VERIFY :: string where
  "UBUNTU_26_SAMBA_AD_DC_VERIFY = ''os.linux.ubuntu.26.samba_ad_dc.verify''"

definition UBUNTU_26_SAMBA_AD_DC_PROCEDURE_NAMES :: "string list" where
  "UBUNTU_26_SAMBA_AD_DC_PROCEDURE_NAMES =
     [UBUNTU_26_SAMBA_AD_DC_PREFLIGHT, UBUNTU_26_SAMBA_AD_DC_PROVISION,
     UBUNTU_26_SAMBA_AD_DC_VERIFY]"

definition NETBOX_PRODUCTION_STATUS_RQ_WORKER :: string where
  "NETBOX_PRODUCTION_STATUS_RQ_WORKER = ''service.netbox.production.status_rq_worker''"

definition NETBOX_PRODUCTION_RESTART_RQ_WORKER :: string where
  "NETBOX_PRODUCTION_RESTART_RQ_WORKER = ''service.netbox.production.restart_rq_worker''"

definition NETBOX_PRODUCTION_RQ_WORKER_PROCEDURE_NAMES :: "string list" where
  "NETBOX_PRODUCTION_RQ_WORKER_PROCEDURE_NAMES =
     [NETBOX_PRODUCTION_STATUS_RQ_WORKER, NETBOX_PRODUCTION_RESTART_RQ_WORKER]"

definition KEYCLOAK_IAM_UI_PROCEDURE_NAMES :: "string list" where
  "KEYCLOAK_IAM_UI_PROCEDURE_NAMES =
     map (\<lambda>mode. ''service.keycloak.iam_ui.'' @ mode) [''inspect'', ''configure'',
     ''certificate'', ''activate'']"

definition KEYCLOAK_IAM_UI_WRITE_PROCEDURE_NAMES :: "string list" where
  "KEYCLOAK_IAM_UI_WRITE_PROCEDURE_NAMES =
     filter (\<lambda>n. n \<noteq> ''service.keycloak.iam_ui.inspect'') KEYCLOAK_IAM_UI_PROCEDURE_NAMES"

definition EXPLICIT_BACKEND_CAPABILITY_PROCEDURE_NAMES :: "string list" where
  "EXPLICIT_BACKEND_CAPABILITY_PROCEDURE_NAMES =
     AKVORADO_BOOTSTRAP_DEBIAN13_PROCEDURE_NAMES @ NETBOX_PRODUCTION_RQ_WORKER_PROCEDURE_NAMES @
     KEYCLOAK_IAM_UI_PROCEDURE_NAMES @ PBS_1_PROCEDURE_NAMES @
     UBUNTU_26_SAMBA_AD_DC_PROCEDURE_NAMES @ [NETBOX_STAGING_DEPLOY_DNS_PAIR,
     GITEA_PRODUCTION_UPGRADE_1_27_1, GITEA_RUNNER_REGISTER, GITEA_ORG_CI_RUNNER_PROVISION,
     GITEA_PROTECTED_PUBLICATION_PAIR_PROVE, GITEA_PROTECTED_PUBLICATION_PAIR_PROVISION,
     GITEA_USER_CI_RUNNER_DIAGNOSE, GITEA_USER_CI_RUNNER_RECOVER, GITEA_ORG_CI_RUNNER_DIAGNOSE,
     GITEA_ORG_CI_RUNNER_RECOVER, OPENBAO_1_PROVISION_NETBOX_APPROLE,
     LINUX_PROXMOX_OCI_REGISTRY_PULL, PROXBOX_API_RELEASE_IMAGES_INSPECT,
     PROXBOX_API_RELEASE_IMAGES_RECOVER]"

definition PROTECTED_APPROVAL_PROCEDURE_NAMES :: "string list" where
  "PROTECTED_APPROVAL_PROCEDURE_NAMES =
     KEYCLOAK_IAM_UI_WRITE_PROCEDURE_NAMES @ [NETBOX_STAGING_ROTATE_BACKEND_TOKEN,
     NETBOX_STAGING_DEPLOY_DNS_PAIR, GITEA_PRODUCTION_UPGRADE_1_27_1, GITEA_RUNNER_REGISTER,
     GITEA_ORG_CI_RUNNER_PROVISION, GITEA_PROTECTED_PUBLICATION_PAIR_PROVISION,
     GITEA_USER_CI_RUNNER_RECOVER, GITEA_ORG_CI_RUNNER_RECOVER,
     AKVORADO_BOOTSTRAP_DEBIAN13_INSTALL, OPENBAO_1_PROVISION_NETBOX_APPROLE,
     NETBOX_OPENBAO_IMPORT_APPLY, NMULTICLOUD_DEPLOY_RELEASE_MARKER_RECONCILE,
     LINUX_PROXMOX_OCI_REGISTRY_PULL, PROXBOX_API_RELEASE_IMAGES_RECOVER,
     NETBOX_PRODUCTION_RESTART_RQ_WORKER]"

end
