(* ===== verification/Response.thy ===== *)
theory Response
  imports EventStore Catalog
begin

text \<open>
  Recording a backend response, \<open>netbox_rpc/event_store.py\<close> from
  \<open>_skips_result_validation\<close> to \<open>_backend_result_schema_mismatch\<close>: which contract the
  procedure's response must meet, the closed envelope checks, the two schema passes, the
  progress events and the one terminal event.

  The JSON schema validator is a parameter: given an instance and a schema it returns
  nothing, or the absolute path and the validator name of the error that
  \<open>jsonschema.validate\<close> raises.
\<close>

type_synonym json_validator = "pyval \<Rightarrow> pyval \<Rightarrow> (pyval list \<times> pyval) option"

definition MAX_BACKEND_EVENTS :: nat where "MAX_BACKEND_EVENTS = 50"
definition BACKEND_EVENT_PREFIX :: string where "BACKEND_EVENT_PREFIX = ''Backend::''"
definition RESULT_SCHEMA_MISMATCH_CODE :: string where
  "RESULT_SCHEMA_MISMATCH_CODE = ''RPC_RESULT_SCHEMA_MISMATCH''"
definition MAX_SCHEMA_MISMATCH_MESSAGE_LENGTH :: nat where "MAX_SCHEMA_MISMATCH_MESSAGE_LENGTH = 512"


section \<open>The contract of one procedure\<close>

definition skips_result_validation :: "pyval \<Rightarrow> bool \<Rightarrow> pyval \<Rightarrow> pyval \<Rightarrow> bool \<Rightarrow> bool" where
  "skips_result_validation ok result_present raw_result code dedicated =
     (if dedicated \<or> ok \<noteq> VBool False then False
      else if result_present \<and> raw_result \<noteq> VDict [] then False
      else is_catalog_error_code code)"

record response_contract =
  is_staging_rotation :: bool
  is_dns_staging_deploy :: bool
  is_protected :: bool
  is_gitea_upgrade :: bool
  requires_envelope_state_match :: bool

definition has_dedicated_validation :: "response_contract \<Rightarrow> bool" where
  "has_dedicated_validation c \<longleftrightarrow> is_gitea_upgrade c \<or> is_staging_rotation c \<or> is_dns_staging_deploy c"

record backend_outcome =
  out_ok :: bool
  out_result :: pydict
  out_has_nested_result :: bool
  out_error_code :: string
  out_error_message :: string
  out_skip_result_validation :: bool

definition contract_of :: "string \<Rightarrow> response_contract" where
  "contract_of name =
     (let protected = name \<in> set PROTECTED_APPROVAL_PROCEDURE_NAMES
      in \<lparr>is_staging_rotation = (name = NETBOX_STAGING_ROTATE_BACKEND_TOKEN),
          is_dns_staging_deploy = (name = NETBOX_STAGING_DEPLOY_DNS_PAIR),
          is_protected = protected,
          is_gitea_upgrade = (name = GITEA_PRODUCTION_UPGRADE_1_27_1),
          requires_envelope_state_match =
            (protected \<or> name \<in> set AKVORADO_BOOTSTRAP_DEBIAN13_PROCEDURE_NAMES
               \<or> name \<in> set INFLUXDB3_DEBIAN13_PROCEDURE_NAMES)\<rparr>)"


section \<open>Failure fields\<close>

text \<open>
  The diagnostics of the production Gitea upgrade are looked up by the whole result state;
  a state that holds a list or an object is not hashable.
\<close>

definition RESULT_DIAGNOSTICS :: "(pyval list \<times> string \<times> string) list" where
  "RESULT_DIAGNOSTICS =
     [([VBool True, VBool True, VBool True, VStr ''complete''], '''', ''''),
      ([VBool True, VBool False, VBool True, VStr ''complete''], '''', ''''),
      ([VBool False, VBool False, VBool False, VStr ''execute''],
       ''RPC_GITEA_UPGRADE_PRE_MUTATION_FAILURE'',
       ''Production Gitea upgrade failed before guest mutation.''),
      ([VBool False, VBool False, VBool True, VStr ''rolled_back''],
       ''RPC_GITEA_UPGRADE_ROLLED_BACK'',
       ''Production Gitea upgrade failed and was rolled back safely.''),
      ([VBool False, VBool True, VBool False, VStr ''complete''],
       ''RPC_GITEA_UPGRADE_COMMITTED_FAILURE'',
       ''Production Gitea upgrade committed but did not become healthy.''),
      ([VBool False, VNone, VNone, VStr ''indeterminate''],
       ''RPC_BACKEND_INDETERMINATE'',
       ''Backend dispatch outcome is indeterminate; reconcile before retry.'')]"

fun py_hashable :: "pyval \<Rightarrow> bool" where
  "py_hashable (VList _) = False"
| "py_hashable (VDict _) = False"
| "py_hashable _ = True"

definition result_diagnostics :: "pydict \<Rightarrow> pyexc + (string \<times> string)" where
  "result_diagnostics r =
     (let state = map (dget r) [''ok'', ''changed'', ''healthy'', ''stage''] in
      if list_all py_hashable state
      then Inr (case List.find (\<lambda>(k, _). list_all2 py_eq state k) RESULT_DIAGNOSTICS of
            None \<Rightarrow> ('''', '''') | Some (_, d) \<Rightarrow> d)
      else Inl TypeError)"

definition backend_failure_fields :: "pydict \<Rightarrow> pyval \<Rightarrow> response_contract \<Rightarrow> pyexc + (string \<times> string)" where
  "backend_failure_fields response raw_result c =
     (case (is_gitea_upgrade c, raw_result) of
        (True, VDict r) \<Rightarrow> result_diagnostics r
      | _ \<Rightarrow> Inr (str_or (dget response ''error_code'') '''', str_or (dget response ''error_message'') ''''))"


section \<open>Envelope checks\<close>

definition envelope_ok_state_mismatch :: "pydict \<Rightarrow> pyval \<Rightarrow> string" where
  "envelope_ok_state_mismatch response raw_result =
     (if \<not> is_bool (dget response ''ok'')
      then ''Backend result schema mismatch at response.ok: boolean required.''
      else if ''result'' \<notin> set (map fst response)
      then ''Backend result schema mismatch at result: required validation failed.''
      else (case raw_result of
          VDict r \<Rightarrow>
            if \<not> is_bool (dget r ''ok'') \<or> dget r ''ok'' \<noteq> dget response ''ok''
            then ''Backend result schema mismatch at result.ok: envelope state mismatch.''
            else ''''
        | _ \<Rightarrow> ''Backend result schema mismatch at result: object validation failed.''))"

definition protected_backend_response_mismatch :: "pydict \<Rightarrow> pyval \<Rightarrow> string" where
  "protected_backend_response_mismatch response raw_result =
     (let envelope_mismatch = envelope_ok_state_mismatch response raw_result in
      if envelope_mismatch \<noteq> [] then envelope_mismatch
      else if dget response ''events'' \<noteq> VNone \<and> \<not> py_eq (dget response ''events'') (VList [])
      then ''Backend result schema mismatch at events: protected events are forbidden.''
      else '''')"

definition gitea_backend_response_mismatch :: "pydict \<Rightarrow> pyval \<Rightarrow> string" where
  "gitea_backend_response_mismatch response raw_result =
     (if set (map fst response) \<noteq> {''ok'', ''result''}
      then ''Backend result schema mismatch at response: unexpected property.''
      else protected_backend_response_mismatch response raw_result)"

definition staging_backend_response_mismatch :: "pydict \<Rightarrow> pyval \<Rightarrow> string" where
  "staging_backend_response_mismatch response raw_result =
     protected_backend_response_mismatch response raw_result"

definition dns_staging_response_mismatch :: "execution \<Rightarrow> pydict \<Rightarrow> pyval \<Rightarrow> string" where
  "dns_staging_response_mismatch x response raw_result =
     (let schema_mismatch = protected_backend_response_mismatch response raw_result;
          expected_commit = (case params x of VDict p \<Rightarrow> dget p ''commit_sha'' | _ \<Rightarrow> VNone)
      in (case raw_result of
            VDict r \<Rightarrow>
              if schema_mismatch = [] \<and> \<not> py_eq (dget r ''commit_sha'') expected_commit
              then ''Backend result schema mismatch at commit_sha.'' else schema_mismatch
          | _ \<Rightarrow> schema_mismatch))"

definition envelope_response_mismatch :: "execution \<Rightarrow> response_contract \<Rightarrow> pydict \<Rightarrow> pyval \<Rightarrow> string" where
  "envelope_response_mismatch x c response raw_result =
     (if is_gitea_upgrade c then gitea_backend_response_mismatch response raw_result
      else if is_staging_rotation c then staging_backend_response_mismatch response raw_result
      else if is_dns_staging_deploy c then dns_staging_response_mismatch x response raw_result
      else if requires_envelope_state_match c then envelope_ok_state_mismatch response raw_result
      else '''')"


section \<open>Schema passes\<close>

lemma properties_child_size:
  "(''properties'', VDict ps) \<in> set d \<Longrightarrow> (n, VDict c) \<in> set ps \<Longrightarrow> size (VDict c) < size (VDict d)"
  using size_in_dict [of "''properties''" "VDict ps" d] size_in_dict [of n "VDict c" ps] by linarith

text \<open>
  \<open>_strip_max_length_at_paths\<close> on a copy: the schema without \<open>maxLength\<close> at the listed
  paths, along the same traversal the limits were collected on.
\<close>

function strip_max_length_at_paths :: "string_limits \<Rightarrow> string list \<Rightarrow> pydict \<Rightarrow> pydict" where
  "strip_max_length_at_paths lim path d =
     map (\<lambda>(k, v). (k,
        if k = ''properties''
        then (case v of
            VDict ps \<Rightarrow> VDict (map (\<lambda>(n, c). (n, case c of
                VDict c' \<Rightarrow> VDict (strip_max_length_at_paths lim (path @ [n]) c')
              | _ \<Rightarrow> c)) ps)
          | _ \<Rightarrow> v)
        else if k = ''items''
        then (case v of VDict c \<Rightarrow> VDict (strip_max_length_at_paths lim (path @ [''*'']) c) | _ \<Rightarrow> v)
        else v))
     (filter (\<lambda>(k, _). \<not> (path \<in> set (map fst lim) \<and> k = ''maxLength'')) d)"
  by pat_completeness auto
termination
  by (relation "measure (\<lambda>(_, _, d). size (VDict d))")
    (auto dest: properties_child_size size_in_dict simp del: pyval.size)

declare strip_max_length_at_paths.simps [simp del]

definition relax_schema_string_lengths :: "string_limits \<Rightarrow> pyval \<Rightarrow> pyval" where
  "relax_schema_string_lengths lim schema =
     (case schema of VDict d \<Rightarrow> VDict (strip_max_length_at_paths lim [] d) | _ \<Rightarrow> schema)"

definition schema_mismatch_message :: "pyval list \<Rightarrow> pyval \<Rightarrow> string" where
  "schema_mismatch_message absolute_path validator =
     (let path = join_with ''.'' (map (\<lambda>part. take 64 (py_str part)) absolute_path);
          location = (if path \<noteq> [] then ''result.'' @ path else ''result'');
          v = take 64 (str_or validator ''schema'')
      in take MAX_SCHEMA_MISMATCH_MESSAGE_LENGTH
           (''Backend result schema mismatch at '' @ location @ '': '' @ v @ '' validation failed.''))"

definition backend_result_schema_mismatch ::
  "json_validator \<Rightarrow> execution \<Rightarrow> pyval \<Rightarrow> string_limits \<Rightarrow> string" where
  "backend_result_schema_mismatch validate x raw_result lim =
     (let schema = result_schema x in
      if \<not> truthy schema then ''''
      else (case validate raw_result
              (if lim \<noteq> [] then relax_schema_string_lengths lim schema else schema) of
          None \<Rightarrow> ''''
        | Some (p, v) \<Rightarrow> schema_mismatch_message p v))"

definition response_schema_mismatch ::
  "json_validator \<Rightarrow> execution \<Rightarrow> response_contract \<Rightarrow> pydict \<Rightarrow> pyval \<Rightarrow> pyval \<Rightarrow> string_limits \<Rightarrow> bool \<Rightarrow> string" where
  "response_schema_mismatch validate x c response raw_result ledger lim should_validate =
     (let m = envelope_response_mismatch x c response raw_result in
      if \<not> should_validate \<or> m \<noteq> [] then m
      else (let m' = backend_result_schema_mismatch validate x raw_result lim in
            if m' \<noteq> [] then m' else backend_result_schema_mismatch validate x ledger []))"


section \<open>Recording\<close>

definition BACKEND_NAME_LIMIT :: nat where
  "BACKEND_NAME_LIMIT = 100 - length BACKEND_EVENT_PREFIX"

definition backend_progress_event :: "pydict \<Rightarrow> domain_event" where
  "backend_progress_event item =
     BackendEventRecorded
       (BACKEND_EVENT_PREFIX @ redact_bounded (str_or (dget item ''event'') ''BackendEventRecorded'')
          (take BACKEND_NAME_LIMIT))
       (case dget item ''data'' of VDict d \<Rightarrow> d | _ \<Rightarrow> [])
       (ledger_event_level (dget item ''level''))
       (str_or (dget item ''message'') '''')"

definition progress_items :: "pydict \<Rightarrow> pydict list" where
  "progress_items response =
     (case py_or (dget response ''events'') (VList []) of
        VList xs \<Rightarrow> concat (map (\<lambda>v. case v of VDict d \<Rightarrow> [d] | _ \<Rightarrow> []) (take MAX_BACKEND_EVENTS xs))
      | _ \<Rightarrow> [])"

text \<open>One append per event, in order; \<open>itf k\<close> is what other writers do around the k-th append.\<close>

fun append_all ::
  "python_rt \<Rightarrow> (nat \<Rightarrow> event_row list list) \<Rightarrow> nat \<Rightarrow> exec_store \<Rightarrow> domain_event list \<Rightarrow> store_error + exec_store" where
  "append_all rt itf k s [] = Inr s"
| "append_all rt itf k s (e # es) =
     rbind (append_and_project rt (itf k) s e) (\<lambda>s'. append_all rt itf (Suc k) s' es)"

definition record_backend_progress_events ::
  "python_rt \<Rightarrow> (nat \<Rightarrow> event_row list list) \<Rightarrow> exec_store \<Rightarrow> pydict \<Rightarrow> store_error + exec_store" where
  "record_backend_progress_events rt itf s response =
     append_all rt itf 0 s (map backend_progress_event (progress_items response))"

definition backend_terminal_event :: "backend_outcome \<Rightarrow> string \<Rightarrow> pyval \<Rightarrow> domain_event" where
  "backend_terminal_event out schema_mismatch finished =
     (if out_ok out \<and> schema_mismatch = [] then ExecutionSucceeded (out_result out) finished
      else (let (code, message) =
                 (if schema_mismatch \<noteq> [] then (RESULT_SCHEMA_MISMATCH_CODE, schema_mismatch)
                  else if out_skip_result_validation out
                  then (out_error_code out, ''Backend reported '' @ out_error_code out @ ''.'')
                  else (out_error_code out, out_error_message out));
                m = bounded_event_message message
            in ExecutionFailed
                 (if m = [] then ''RPC execution failed.'' else m)
                 (if code = [] then ''RPC_EXECUTION_FAILED'' else code)
                 finished
                 (if out_has_nested_result out \<and> schema_mismatch = [] then out_result out else [])))"

definition record_backend_terminal_event ::
  "python_rt \<Rightarrow> event_row list list \<Rightarrow> exec_store \<Rightarrow> backend_outcome \<Rightarrow> string \<Rightarrow> pyval \<Rightarrow> store_error + exec_store" where
  "record_backend_terminal_event rt itf s out schema_mismatch finished =
     append_and_project rt itf s (backend_terminal_event out schema_mismatch finished)"

definition ledger_result :: "python_rt \<Rightarrow> pydict \<Rightarrow> string_limits \<Rightarrow> pyval" where
  "ledger_result rt r lim =
     dget (redact_event_data rt (map (\<lambda>(p, n). (''result'' # p, n)) lim) [(''result'', VDict r)]) ''result''"

text \<open>The locals of \<open>record_backend_response\<close> that decide the outcome.\<close>

definition persisted_result :: "pydict \<Rightarrow> pydict" where
  "persisted_result response = (case dget response ''result'' of VDict r \<Rightarrow> r | _ \<Rightarrow> [])"

definition skip_result_validation :: "execution \<Rightarrow> pydict \<Rightarrow> bool" where
  "skip_result_validation x response =
     skips_result_validation (dget response ''ok'') (''result'' \<in> set (map fst response))
       (dget response ''result'') (dget response ''error_code'')
       (has_dedicated_validation (contract_of (procedure_name x)))"

definition response_mismatch :: "python_rt \<Rightarrow> json_validator \<Rightarrow> execution \<Rightarrow> pydict \<Rightarrow> string" where
  "response_mismatch rt validate x response =
     (let c = contract_of (procedure_name x);
          lim = result_schema_string_limits (result_schema x)
      in if skip_result_validation x response then ''''
         else response_schema_mismatch validate x c response (dget response ''result'')
                (ledger_result rt (persisted_result response) lim) lim
                (truthy (dget response ''ok'') \<or> ''result'' \<in> set (map fst response)
                   \<or> requires_envelope_state_match c))"

definition response_outcome :: "execution \<Rightarrow> pydict \<Rightarrow> string \<times> string \<Rightarrow> backend_outcome" where
  "response_outcome x response f =
     \<lparr>out_ok = truthy (dget response ''ok''), out_result = persisted_result response,
      out_has_nested_result = is_dict (dget response ''result''),
      out_error_code = fst f, out_error_message = snd f,
      out_skip_result_validation = skip_result_validation x response\<rparr>"

definition record_backend_response ::
  "python_rt \<Rightarrow> json_validator \<Rightarrow> (nat \<Rightarrow> event_row list list) \<Rightarrow> datetime \<Rightarrow> exec_store \<Rightarrow> pydict \<Rightarrow>
   store_error + exec_store" where
  "record_backend_response rt validate itf now s response =
     (let x = obj s; c = contract_of (procedure_name x) in
      rbind (map_sum StoreRaised id (backend_failure_fields response (dget response ''result'') c)) (\<lambda>f.
      rbind (if \<not> is_protected c \<and> \<not> skip_result_validation x response
             then record_backend_progress_events rt itf s response else Inr s) (\<lambda>s'.
        record_backend_terminal_event rt (itf MAX_BACKEND_EVENTS) s' (response_outcome x response f)
          (response_mismatch rt validate x response) (VTime now))))"

end
