(* ===== verification/ResponseProps.thy ===== *)
theory ResponseProps
  imports Response EventStoreProps
begin

text \<open>
  What recording a backend response guarantees: it always ends the execution with exactly
  one terminal event, a success needs agreeing envelope states, the relaxed schema has no
  wide limit left while the stored value still fits the declared one, and a catalog-coded
  failure keeps its code.
\<close>

section \<open>Ending the execution\<close>

lemma append_all_quiet: "append_all rt (\<lambda>_. []) k s es = rfold (append_and_project rt []) s es"
proof (induction es arbitrary: k s)
  case (Cons e es)
  then show ?case by (cases "append_and_project rt [] s e") simp_all
qed simp

lemma progress_proper: "proper_name (backend_progress_event item)"
  by (auto simp: proper_name_def backend_progress_event_def BACKEND_EVENT_PREFIX_def domain_event_names_def
      EVENT_TYPES_def)

lemma progress_items_bound: "length (progress_items response) \<le> MAX_BACKEND_EVENTS"
proof -
  have "length (concat (map (\<lambda>v. case v of VDict d \<Rightarrow> [d] | _ \<Rightarrow> []) xs)) \<le> length xs" for xs :: "pyval list"
    by (induction xs) (auto split: pyval.splits)
  from this [of "take MAX_BACKEND_EVENTS xs" for xs] have
    "length (concat (map (\<lambda>v. case v of VDict d \<Rightarrow> [d] | _ \<Rightarrow> []) (take MAX_BACKEND_EVENTS xs))) \<le> MAX_BACKEND_EVENTS"
    for xs :: "pyval list" by (rule order.trans) simp
  then show ?thesis
    by (cases "py_or (dget response ''events'') (VList [])") (simp_all only: progress_items_def pyval.case list.size le0)
qed

lemma terminal_event_cases:
  obtains (succeeded) r t where "backend_terminal_event out m f = ExecutionSucceeded r t" "out_ok out" "m = []"
  | (failed) msg code t r where "backend_terminal_event out m f = ExecutionFailed msg code t r"
proof (cases "out_ok out \<and> m = []")
  case True
  then show ?thesis by (intro succeeded) (simp_all add: backend_terminal_event_def)
next
  case False
  have "\<exists>msg code t r. backend_terminal_event out m f = ExecutionFailed msg code t r"
    by (simp only: backend_terminal_event_def if_not_P [OF False] Let_def case_prod_beta) blast
  then show ?thesis using failed by blast
qed

lemma terminal_proper: "proper_name (backend_terminal_event out m f)"
  by (cases rule: terminal_event_cases [of out m f]) (simp_all add: proper_name_def)

lemma terminal_decoded:
  assumes "own_from_data rt (persistable_failure_event (backend_terminal_event out m f)) d = Inr e'"
  shows "(\<exists>r t. e' = ExecutionSucceeded r t) \<and> out_ok out \<or> (\<exists>msg c t r. e' = ExecutionFailed msg c t r)"
  using assms
  by (cases rule: terminal_event_cases [of out m f])
    (auto simp: from_record_def EVENT_TYPES_def succeeded_from_data_def failed_from_data_def rbind_Inr_iff
      split: if_splits)

lemma terminal_status:
  assumes "live rt s"
  shows "\<exists>s' r. record_backend_terminal_event rt [] s out m f = Inr s' \<and> live rt s' \<and>
    events s' = events s @ [r] \<and> status (row s') \<in> {SUCCEEDED, FAILED} \<and>
    ev_event r = event_name (backend_terminal_event out m f)"
proof -
  from assms have c: "contiguous (events s)" "synced s" by (simp_all add: live_def)
  from live_step [OF assms terminal_proper] obtain s' r where
    s': "append_and_project rt [] s (backend_terminal_event out m f) = Inr s'" "live rt s'" "events s' = events s @ [r]"
    by blast
  obtain r' e' where a: "append_and_project rt [] s (backend_terminal_event out m f) =
      Inr (write_projection (s\<lparr>events := events s @ [r']\<rparr>) (apply_event rt (from_execution (obj s)) e'))"
    "own_from_data rt (persistable_failure_event (backend_terminal_event out m f)) (ev_data r') = Inr e'"
    "ev_event r' = event_name (backend_terminal_event out m f)"
    by (rule append_and_project_undisturbed [OF c(1)])
  from terminal_decoded [OF a(2)] have "status (apply_event rt (from_execution (obj s)) e') \<in> {SUCCEEDED, FAILED}"
    by auto
  with a(1) s'(1) have "status (row s') \<in> {SUCCEEDED, FAILED}"
    by (auto simp: row_write_projection synced_fields [OF c(2)])
  moreover have "events s' = events s @ [r']" using s'(1) a(1) by auto
  then have "r' = r" using s'(3) by simp
  ultimately show ?thesis using s' a(3) by (auto simp: record_backend_terminal_event_def)
qed

lemma progress_live:
  assumes "live rt s"
  shows "\<exists>s'. record_backend_progress_events rt (\<lambda>_. []) s response = Inr s' \<and> live rt s' \<and>
    prefix (events s) (events s') \<and> length (events s') \<le> length (events s) + MAX_BACKEND_EVENTS"
proof -
  have "list_all proper_name (map backend_progress_event (progress_items response))"
    by (simp add: list_all_iff progress_proper)
  from ledger.run_progress [OF assms this] show ?thesis
    using progress_items_bound [of response] by (auto simp: record_backend_progress_events_def append_all_quiet)
qed

text \<open>The result state of the Gitea upgrade is read as a dictionary key before anything is validated.\<close>

definition readable_response :: "execution \<Rightarrow> pydict \<Rightarrow> bool" where
  "readable_response x response \<longleftrightarrow>
     (\<exists>f. backend_failure_fields response (dget response ''result'') (contract_of (procedure_name x)) = Inr f)"

lemma readable_no_object:
  assumes "\<not> is_dict (dget response ''result'')"
  shows "readable_response x response"
  using assms
  by (cases "dget response ''result''"; cases "is_gitea_upgrade (contract_of (procedure_name x))")
    (simp_all add: readable_response_def backend_failure_fields_def)

lemma response_recorded:
  assumes "live rt s" and "backend_failure_fields response (dget response ''result'')
      (contract_of (procedure_name (obj s))) = Inr f"
  shows "\<exists>s'. record_backend_response rt validate (\<lambda>_. []) now s response = Inr s' \<and> live rt s' \<and>
    status (row s') \<in> {SUCCEEDED, FAILED} \<and> strict_prefix (events s) (events s') \<and>
    length (events s') \<le> length (events s) + MAX_BACKEND_EVENTS + 1 \<and>
    ev_event (last (events s')) = event_name (backend_terminal_event (response_outcome (obj s) response f)
      (response_mismatch rt validate (obj s) response) (VTime now))"
proof -
  define go where "go = (\<not> is_protected (contract_of (procedure_name (obj s))) \<and> \<not> skip_result_validation (obj s) response)"
  define run where "run = (if go then record_backend_progress_events rt (\<lambda>_. []) s response else Inr s)"
  obtain s1 where s1: "run = Inr s1" "live rt s1" "prefix (events s) (events s1)"
      "length (events s1) \<le> length (events s) + MAX_BACKEND_EVENTS"
    using progress_live [OF assms(1), of response] assms(1) by (cases go) (auto simp: run_def)
  let ?out = "response_outcome (obj s) response f"
  let ?m = "response_mismatch rt validate (obj s) response"
  from terminal_status [OF s1(2), of ?out ?m "VTime now"] obtain s' r where
    s': "record_backend_terminal_event rt [] s1 ?out ?m (VTime now) = Inr s'" "live rt s'" "events s' = events s1 @ [r]"
    "status (row s') \<in> {SUCCEEDED, FAILED}" "ev_event r = event_name (backend_terminal_event ?out ?m (VTime now))" by blast
  have "strict_prefix (events s) (events s1 @ [r])"
    using s1(3) by (auto simp: prefix_def strict_prefix_def)
  moreover have "record_backend_response rt validate (\<lambda>_. []) now s response = Inr s'"
    using s1(1) s'(1) by (simp add: record_backend_response_def Let_def assms(2) run_def go_def)
  ultimately show ?thesis using s1 s' by simp
qed




section \<open>Looking up a stored entry\<close>

lemma map_of_assign_all: "map_of (assign_all ps) = map_of (rev ps)"
proof -
  have "map_of (foldl (\<lambda>d (k, v). dict_set k v d) acc ps) = map_of acc ++ map_of (rev ps)" for acc
    by (induction ps arbitrary: acc) auto
  from this [of "[]"] show ?thesis by (simp add: assign_all_def)
qed

lemma persist_plain:
  "\<forall>n \<in> set (map fst es). \<not> secret n \<Longrightarrow> persist_entries rt secret taken es = map (\<lambda>(n, v). (n, n, v)) es"
  by (induction rt secret taken es rule: persist_entries.induct) auto

text \<open>An event whose field names are plain words is stored field by field.\<close>

lemma redact_plain_lookup:
  assumes "distinct (map fst d)" "length d \<le> MAX_EVENT_DICT_ITEMS" "\<forall>n \<in> set (map fst d). list_all word_char n"
  shows "dget (redact_event_data rt lim d) k =
    (case map_of d k of None \<Rightarrow> VNone | Some v \<Rightarrow> redact_event_value rt lim k [k] 1 v)"
proof -
  let ?f = "\<lambda>e. (fst e, redact_event_value rt lim (fst e) [fst e] 1 (snd e))"
  have w: "mapping_window d = (d, False)" using assms(2) by (simp add: mapping_window_def)
  have "persisted_mapping_entries rt d = map (\<lambda>(n, v). (n, n, v)) (sort_key fst d)"
    unfolding persisted_mapping_entries_def
    by (rule persist_plain) (use assms(3) plain_name_clean in fastforce)
  then have "map_of (redact_event_data rt lim d) = map_of (rev (map ?f (sort_key fst d)))"
    by (simp add: redact_event_data_def redact_event_value.simps [of rt lim "[]"] MAX_REDACTION_DEPTH_def Let_def w
        comp_def case_prod_beta flip: map_of_assign_all)
  also have "\<dots> = map_of (map ?f d)"
  proof (rule iffD2 [OF map_of_inject_set])
    have m: "map fst (map ?f xs) = map fst xs" for xs by (induction xs) auto
    show "distinct (map fst (map ?f d))" unfolding m by (rule assms(1))
    have "distinct (map fst (sort_key fst d))" using assms(1) by (simp add: distinct_map)
    then show "distinct (map fst (rev (map ?f (sort_key fst d))))" unfolding rev_map m by (simp flip: rev_map)
  qed simp
  finally have "map_of (redact_event_data rt lim d) = map_of (map ?f d)" .
  moreover have "map_of (map ?f xs) k = map_option (redact_event_value rt lim k [k] 1) (map_of xs k)" for xs
    by (induction xs) auto
  ultimately show ?thesis by (simp add: dget_def split: option.splits)
qed


section \<open>Success\<close>

lemma append_last_event:
  assumes "append_and_project rt itf s e = Inr s'"
  shows "\<exists>es r. events s' = es @ [r] \<and> ev_event r = event_name e \<and>
    ev_data r = redact_event_data rt (event_string_limits (result_schema (obj s)) (persistable_failure_event e))
      (event_data (persistable_failure_event e))"
proof -
  have ins: "insert_attempts mk l n es = Inr (r, es') \<Longrightarrow> (\<exists>k. r = mk k) \<and> (\<exists>us. es' = us @ [r])" for mk l n es r es'
    by (induction mk l n es rule: insert_attempts.induct) (auto simp: Let_def split: if_splits)
  from assms obtain r es where
    "append_execution_event rt itf (events s) (event_level (persistable_failure_event e)) (event_name e)
       (event_message (persistable_failure_event e)) (event_data (persistable_failure_event e))
       (event_string_limits (result_schema (obj s)) (persistable_failure_event e)) = Inr (r, es)"
    "events s' = es"
    by (auto simp: append_and_project_def Let_def rbind_Inr_iff)
  then show ?thesis by (auto simp: append_execution_event_def Let_def dest!: ins)
qed

lemma write_field_keeps: "(\<And>x. g (fo x) = g x) \<Longrightarrow> g (obj (write_field same fo fr s)) = g (obj s)"
  by (simp add: write_field_def)

lemma obj_write_fixed:
  "result_schema (obj (write_projection s p)) = result_schema (obj s)"
  "procedure_name (obj (write_projection s p)) = procedure_name (obj s)"
  "params (obj (write_projection s p)) = params (obj s)"
  "pk (obj (write_projection s p)) = pk (obj s)"
  "requested_by_id (obj (write_projection s p)) = requested_by_id (obj s)"
  unfolding write_projection_def Let_def by (simp_all add: write_field_keeps)

lemma obj_append_fixed:
  assumes "append_and_project rt itf s e = Inr s'"
  shows "result_schema (obj s') = result_schema (obj s)" "procedure_name (obj s') = procedure_name (obj s)"
    "params (obj s') = params (obj s)" "pk (obj s') = pk (obj s)" "requested_by_id (obj s') = requested_by_id (obj s)"
  using assms by (auto simp: append_and_project_def Let_def rbind_Inr_iff obj_write_fixed)


lemma append_all_fixed:
  "append_all rt itf k s es = Inr s' \<Longrightarrow> result_schema (obj s') = result_schema (obj s)"
proof (induction es arbitrary: k s)
  case (Cons e es)
  then show ?case by (fastforce simp: rbind_Inr_iff dest: obj_append_fixed(1))
qed simp

lemma mismatch_message_nonempty: "schema_mismatch_message p v \<noteq> []"
  by (simp add: schema_mismatch_message_def Let_def MAX_SCHEMA_MISMATCH_MESSAGE_LENGTH_def)

lemma envelope_agrees:
  assumes "envelope_ok_state_mismatch response raw = []"
  shows "\<exists>b r. dget response ''ok'' = VBool b \<and> raw = VDict r \<and> dget r ''ok'' = VBool b"
  using assms
  by (cases raw; cases "dget response ''ok''") (simp_all add: envelope_ok_state_mismatch_def split: if_splits)

lemma protected_agrees: "protected_backend_response_mismatch response raw = [] \<Longrightarrow> envelope_ok_state_mismatch response raw = []"
  by (simp add: protected_backend_response_mismatch_def Let_def split: if_splits)

lemma dns_agrees: "dns_staging_response_mismatch x response raw = [] \<Longrightarrow> protected_backend_response_mismatch response raw = []"
  by (cases raw) (simp_all add: dns_staging_response_mismatch_def Let_def split: if_splits)

lemma envelope_checked:
  assumes "envelope_response_mismatch x c response raw = []" "requires_envelope_state_match c"
  shows "envelope_ok_state_mismatch response raw = []"
  using assms protected_agrees dns_agrees
  by (auto simp: envelope_response_mismatch_def gitea_backend_response_mismatch_def
      staging_backend_response_mismatch_def split: if_splits)

lemma schema_pass:
  assumes "backend_result_schema_mismatch validate x v lim = []" "truthy (result_schema x)"
  shows "validate v (if lim \<noteq> [] then relax_schema_string_lengths lim (result_schema x) else result_schema x) = None"
  using assms mismatch_message_nonempty
  by (auto simp: backend_result_schema_mismatch_def Let_def split: option.splits)

lemma success_checks:
  assumes "record_backend_response rt validate itf now s response = Inr s'"
    and "ev_event (last (events s')) = ''ExecutionSucceeded''"
  defines "lim \<equiv> result_schema_string_limits (result_schema (obj s))"
  shows "truthy (dget response ''ok'')"
    "response_schema_mismatch validate (obj s) (contract_of (procedure_name (obj s))) response
       (dget response ''result'') (ledger_result rt (persisted_result response) lim) lim True = []"
    "\<exists>es r. events s' = es @ [r] \<and> ev_data r = redact_event_data rt (map (\<lambda>(p, n). (''result'' # p, n)) lim)
       (event_data (ExecutionSucceeded (persisted_result response) (VTime now)))"
proof -
  let ?m = "response_mismatch rt validate (obj s) response"
  from assms(1) obtain s1 f where
    s1: "s1 = s \<or> record_backend_progress_events rt itf s response = Inr s1"
    and t: "record_backend_terminal_event rt (itf MAX_BACKEND_EVENTS) s1 (response_outcome (obj s) response f) ?m
       (VTime now) = Inr s'"
    unfolding record_backend_response_def Let_def by (auto simp: rbind_Inr_iff split: if_splits)
  let ?e = "backend_terminal_event (response_outcome (obj s) response f) ?m (VTime now)"
  have sch: "result_schema (obj s1) = result_schema (obj s)"
    using s1 append_all_fixed by (auto simp: record_backend_progress_events_def)
  from append_last_event [OF t [unfolded record_backend_terminal_event_def]] obtain es r where
    r: "events s' = es @ [r]" "ev_event r = event_name ?e"
      "ev_data r = redact_event_data rt (event_string_limits (result_schema (obj s1)) (persistable_failure_event ?e))
       (event_data (persistable_failure_event ?e))" by blast
  have e: "truthy (dget response ''ok'')" "?m = []"
    by (cases rule: terminal_event_cases [of "response_outcome (obj s) response f" ?m "VTime now"],
        use r assms(2) in \<open>simp_all add: response_outcome_def\<close>)+
  then have tm: "?e = ExecutionSucceeded (persisted_result response) (VTime now)"
    by (simp add: backend_terminal_event_def response_outcome_def)
  show "truthy (dget response ''ok'')" by (rule e)
  have "\<not> skip_result_validation (obj s) response"
    using e by (auto simp: skip_result_validation_def skips_result_validation_def)
  with e show "response_schema_mismatch validate (obj s) (contract_of (procedure_name (obj s))) response
       (dget response ''result'') (ledger_result rt (persisted_result response) lim) lim True = []"
    by (simp add: response_mismatch_def Let_def lim_def)
  show "\<exists>es r. events s' = es @ [r] \<and> ev_data r = redact_event_data rt (map (\<lambda>(p, n). (''result'' # p, n)) lim)
       (event_data (ExecutionSucceeded (persisted_result response) (VTime now)))"
    using r tm sch by (auto simp: lim_def)
qed

text \<open>
  C5: A protected or installer procedure is recorded as succeeded only when the outer
  response and the nested result both say \<open>ok\<close> with the boolean true: a failed operation
  wrapped in a successful response, or a truthy value that is not a boolean, never is.
\<close>

theorem success_needs_agreeing_envelope:
  assumes "record_backend_response rt validate itf now s response = Inr s'"
    and "ev_event (last (events s')) = ''ExecutionSucceeded''"
    and "requires_envelope_state_match (contract_of (procedure_name (obj s)))"
  shows "dget response ''ok'' = VBool True \<and>
    (\<exists>r. dget response ''result'' = VDict r \<and> dget r ''ok'' = VBool True)"
proof -
  from success_checks [OF assms(1,2)] have "truthy (dget response ''ok'')"
    "envelope_response_mismatch (obj s) (contract_of (procedure_name (obj s))) response (dget response ''result'') = []"
    by (simp_all add: response_schema_mismatch_def Let_def split: if_splits)
  with envelope_agrees [OF envelope_checked [OF this(2) assms(3)]] show ?thesis by auto
qed

text \<open>An execution of the token rotation, and a response it accepts.\<close>

definition rotation_store :: exec_store where
  "rotation_store = fresh_store\<lparr>obj := (obj fresh_store)\<lparr>procedure_name := NETBOX_STAGING_ROTATE_BACKEND_TOKEN,
     result_schema := VDict [(''type'', VStr ''object'')]\<rparr>\<rparr>"

definition rotation_response :: pydict where
  "rotation_response = [(''ok'', VBool True), (''result'', VDict [(''ok'', VBool True)])]"

definition noon :: datetime where
  "noon = \<lparr>dt_year = 2024, dt_month = 5, dt_day = 1, dt_hour = 12, dt_minute = 0, dt_second = 0, dt_micro = 0,
     dt_offset = Some 0\<rparr>"

lemma rotation_live: "live rt rotation_store"
  using fresh_store_live [of rt]
  by (auto simp: rotation_store_def live_def synced_def row_consistent_def from_execution_def ProjectionState.defs
      split: sum.splits)

lemma rotation_contract: "contract_of NETBOX_STAGING_ROTATE_BACKEND_TOKEN =
    \<lparr>is_staging_rotation = True, is_dns_staging_deploy = False, is_protected = True, is_gitea_upgrade = False,
     requires_envelope_state_match = True\<rparr>"
  by code_simp

text \<open>A validator for that schema: it accepts objects.\<close>

definition object_validator :: json_validator where
  "object_validator v schema = (if is_dict v then None else Some ([], VStr ''type''))"

lemma ledger_result_redacted:
  "ledger_result rt r lim =
     redact_event_value rt (map (\<lambda>(p, n). (''result'' # p, n)) lim) ''result'' [''result''] 1 (VDict r)"
proof -
  have "list_all word_char ''result''" by code_simp
  then show ?thesis
    unfolding ledger_result_def by (subst redact_plain_lookup) (simp_all add: MAX_EVENT_DICT_ITEMS_def)
qed

lemma ledger_result_dict: "is_dict (ledger_result rt r lim)"
  using redact_plain_dict [OF plain_names(1) plain_names(6)] by (metis is_dict.simps(1) ledger_result_redacted)

lemma rotation_recorded:
  "\<exists>s'. record_backend_response plain_rt object_validator (\<lambda>_. []) noon rotation_store rotation_response = Inr s' \<and>
     ev_event (last (events s')) = ''ExecutionSucceeded''"
proof -
  have p: "procedure_name (obj rotation_store) = NETBOX_STAGING_ROTATE_BACKEND_TOKEN" by (simp add: rotation_store_def)
  have "\<exists>f. backend_failure_fields rotation_response (dget rotation_response ''result'')
      (contract_of (procedure_name (obj rotation_store))) = Inr f"
    by (simp add: p rotation_contract rotation_response_def backend_failure_fields_def)
  then obtain f where f: "backend_failure_fields rotation_response (dget rotation_response ''result'')
      (contract_of (procedure_name (obj rotation_store))) = Inr f" ..
  have "response_mismatch plain_rt object_validator (obj rotation_store) rotation_response = []"
    by (simp add: response_mismatch_def Let_def p rotation_contract response_schema_mismatch_def
        envelope_response_mismatch_def staging_backend_response_mismatch_def protected_backend_response_mismatch_def
        envelope_ok_state_mismatch_def rotation_response_def backend_result_schema_mismatch_def
        object_validator_def ledger_result_dict)
  then have "event_name (backend_terminal_event (response_outcome (obj rotation_store) rotation_response f)
      (response_mismatch plain_rt object_validator (obj rotation_store) rotation_response) (VTime noon)) = ''ExecutionSucceeded''"
    by (simp add: backend_terminal_event_def response_outcome_def rotation_response_def)
  with response_recorded [OF rotation_live [of plain_rt] f, where validate = object_validator and now = noon] show ?thesis by auto
qed

theorem success_needs_agreeing_envelope_witness:
  "\<exists>s'. record_backend_response plain_rt object_validator (\<lambda>_. []) noon rotation_store rotation_response = Inr s' \<and>
     ev_event (last (events s')) = ''ExecutionSucceeded'' \<and>
     dget rotation_response ''ok'' = VBool True \<and>
     (\<exists>r. dget rotation_response ''result'' = VDict r \<and> dget r ''ok'' = VBool True)"
proof -
  from rotation_recorded obtain s' where
    s': "record_backend_response plain_rt object_validator (\<lambda>_. []) noon rotation_store rotation_response = Inr s'"
    "ev_event (last (events s')) = ''ExecutionSucceeded''" by blast
  have "requires_envelope_state_match (contract_of (procedure_name (obj rotation_store)))"
    by (simp add: rotation_store_def rotation_contract)
  from success_needs_agreeing_envelope [OF s' this] s' show ?thesis by blast
qed

text \<open>
  What was validated is what is stored. When a procedure with a result schema is
  recorded as succeeded, the complete raw result passed the relaxed schema, and the very
  value that the ledger holds under \<open>result\<close> passed the unrelaxed one.
\<close>

theorem stored_result_is_validated:
  assumes "record_backend_response rt validate itf now s response = Inr s'"
    and "ev_event (last (events s')) = ''ExecutionSucceeded''"
    and "truthy (result_schema (obj s))"
  shows "validate (dget (ev_data (last (events s'))) ''result'') (result_schema (obj s)) = None \<and>
    validate (dget response ''result'')
      (let lim = result_schema_string_limits (result_schema (obj s))
       in if lim = [] then result_schema (obj s) else relax_schema_string_lengths lim (result_schema (obj s))) = None"
proof -
  define lim where "lim = result_schema_string_limits (result_schema (obj s))"
  define p where "p = map (\<lambda>(p, n). (''result'' # p, n)) lim"
  note c = success_checks [OF assms(1,2), folded lim_def]
  from c(2) have pass: "backend_result_schema_mismatch validate (obj s) (dget response ''result'') lim = []"
    "backend_result_schema_mismatch validate (obj s) (ledger_result rt (persisted_result response) lim) [] = []"
    by (simp_all add: response_schema_mismatch_def Let_def split: if_splits)
  from c(3) obtain es r where r: "events s' = es @ [r]"
    "ev_data r = redact_event_data rt p (event_data (ExecutionSucceeded (persisted_result response) (VTime now)))"
    unfolding p_def by blast
  have w: "\<forall>n \<in> set [''status'', ''result'', ''finished_at'']. list_all word_char n" by code_simp
  have "dget (ev_data r) ''result'' = redact_event_value rt p ''result'' [''result''] 1 (VDict (persisted_result response))"
    unfolding r(2) by (subst redact_plain_lookup, simp_all only: MAX_EVENT_DICT_ITEMS_def event_data.simps)
      (use w in \<open>simp_all add: status_entry_def\<close>)
  then have "dget (ev_data (last (events s'))) ''result'' = ledger_result rt (persisted_result response) lim"
    using r(1) by (simp add: ledger_result_redacted p_def)
  with schema_pass [OF pass(1) assms(3)] schema_pass [OF pass(2) assms(3)] show ?thesis
    by (cases "lim = []") (simp_all add: lim_def [symmetric] Let_def)
qed

theorem stored_result_is_validated_witness:
  "\<exists>s'. record_backend_response plain_rt object_validator (\<lambda>_. []) noon rotation_store rotation_response = Inr s' \<and>
     ev_event (last (events s')) = ''ExecutionSucceeded'' \<and> truthy (result_schema (obj rotation_store)) \<and>
     object_validator (dget (ev_data (last (events s'))) ''result'') (result_schema (obj rotation_store)) = None"
proof -
  from rotation_recorded obtain s' where
    s': "record_backend_response plain_rt object_validator (\<lambda>_. []) noon rotation_store rotation_response = Inr s'"
    "ev_event (last (events s')) = ''ExecutionSucceeded''" by blast
  have t: "truthy (result_schema (obj rotation_store))" by (simp add: rotation_store_def)
  from stored_result_is_validated [OF s' t] s' t show ?thesis by blast
qed


section \<open>Wide fields\<close>

lemma schema_limits_map: "map_of (foldl (\<lambda>l (p, n). dict_set p n l) acc xs) = map_of acc ++ map_of (rev xs)"
  by (induction xs arbitrary: acc) auto

lemma collected_limit_wide:
  "(p, n) \<in> set (collect_schema_string_limits path d) \<Longrightarrow> n > MAX_EVENT_STRING_LENGTH"
proof (induction path d rule: collect_schema_string_limits.induct)
  case (1 path d)
  then show ?case
    by (subst (asm) (2) collect_schema_string_limits.simps)
      (auto simp: own_limit_def split: pyval.splits if_splits)
qed

lemma schema_limits_source:
  "map_of (schema_string_limits d) p = Some n \<Longrightarrow> (p, n) \<in> set (collect_schema_string_limits [] d)"
  unfolding schema_string_limits_def schema_limits_map by (auto dest!: map_of_SomeD)

text \<open>
  A text stored at a field whose schema widens the limit never exceeds the declared
  \<open>maxLength\<close>, truncation marker included, whatever the backend sent there.
\<close>

theorem wide_value_fits_schema:
  assumes "map_of (schema_string_limits d) path = Some max_length"
  shows "length (redact_event_text (result_schema_string_limits (VDict d)) path t) \<le> max_length"
proof -
  have "max_length > MAX_EVENT_STRING_LENGTH"
    using collected_limit_wide [OF schema_limits_source [OF assms]] .
  moreover have "map_of (map (\<lambda>(p, n). (p, n - length TRUNCATION_MARKER)) l) path =
      map_option (\<lambda>n. n - length TRUNCATION_MARKER) (map_of l path)" for l :: string_limits
    by (induction l) auto
  with assms have "limit_at (result_schema_string_limits (VDict d)) path = max_length - length TRUNCATION_MARKER"
    by (simp add: limit_at_def result_schema_string_limits_def)
  ultimately show ?thesis
    using redact_event_text_bound [of "result_schema_string_limits (VDict d)" path t]
    by (simp add: MAX_EVENT_STRING_LENGTH_def TRUNCATION_MARKER_def)
qed

theorem wide_value_fits_schema_witness:
  "map_of (schema_string_limits [(''properties'', VDict [(''log'', VDict [(''maxLength'', VInt 65536)])])]) [''log''] = Some 65536 \<and>
   length (redact_event_text (result_schema_string_limits
     (VDict [(''properties'', VDict [(''log'', VDict [(''maxLength'', VInt 65536)])])])) [''log''] ''token=abc'') \<le> 65536"
proof -
  have "map_of (schema_string_limits [(''properties'', VDict [(''log'', VDict [(''maxLength'', VInt 65536)])])]) [''log''] =
      Some 65536"
    by (simp add: schema_string_limits_def collect_schema_string_limits.simps own_limit_def schema_children_def
        MAX_EVENT_STRING_LENGTH_def)
  with wide_value_fits_schema [OF this] show ?thesis by blast
qed

lemma dget_map_values: "dget (map (\<lambda>(k, v). (k, f k v)) d) k = (case map_of d k of None \<Rightarrow> VNone | Some v \<Rightarrow> f k v)"
  by (induction d) (auto simp: dget_def)

lemma dget_filter: "k \<noteq> k' \<Longrightarrow> map_of (filter (\<lambda>(n, _). b \<longrightarrow> n \<noteq> k') d) k = map_of d k"
  by (induction d) auto

lemma map_of_filter_gone: "map_of (filter (\<lambda>(n, _). n \<noteq> k) d) k = None"
  by (induction d) auto

lemma strip_maxLength:
  "dget (strip_max_length_at_paths lim path d) ''maxLength'' =
     (if path \<in> set (map fst lim) then VNone else dget d ''maxLength'')"
  by (subst strip_max_length_at_paths.simps, subst dget_map_values)
    (simp add: map_of_filter_gone dget_def split: option.splits)

lemma strip_children:
  "schema_children path (strip_max_length_at_paths lim path d) =
     map (\<lambda>(p, c). (p, strip_max_length_at_paths lim p c)) (schema_children path d)"
proof -
  let ?st = "strip_max_length_at_paths lim path d"
  have p: "dget ?st ''properties'' = (case dget d ''properties'' of
      VDict ps \<Rightarrow> VDict (map (\<lambda>(n, c). (n, case c of VDict c' \<Rightarrow> VDict (strip_max_length_at_paths lim (path @ [n]) c')
        | _ \<Rightarrow> c)) ps) | v \<Rightarrow> v)"
    by (subst strip_max_length_at_paths.simps, subst dget_map_values)
      (simp add: dget_filter dget_def split: option.splits pyval.splits)
  have i: "dget ?st ''items'' = (case dget d ''items'' of
      VDict c \<Rightarrow> VDict (strip_max_length_at_paths lim (path @ [''*'']) c) | v \<Rightarrow> v)"
    by (subst strip_max_length_at_paths.simps, subst dget_map_values)
      (simp add: dget_filter dget_def split: option.splits pyval.splits)
  have "concat (map (\<lambda>(k, c). case c of VDict c' \<Rightarrow> [(path @ [k], c')] | _ \<Rightarrow> [])
      (map (\<lambda>(n, c). (n, case c of VDict c' \<Rightarrow> VDict (strip_max_length_at_paths lim (path @ [n]) c') | _ \<Rightarrow> c)) ps)) =
     map (\<lambda>(p, c). (p, strip_max_length_at_paths lim p c))
      (concat (map (\<lambda>(k, c). case c of VDict c' \<Rightarrow> [(path @ [k], c')] | _ \<Rightarrow> []) ps))" for ps
    by (induction ps) (auto split: pyval.splits)
  with p i show ?thesis
    unfolding schema_children_def by (auto split: pyval.splits)
qed

lemma strip_removes:
  "\<forall>(p, n) \<in> set (collect_schema_string_limits path d). p \<in> set (map fst lim) \<Longrightarrow>
     collect_schema_string_limits path (strip_max_length_at_paths lim path d) = []"
proof (induction path d rule: collect_schema_string_limits.induct)
  case (1 path d)
  have own: "own_limit path (strip_max_length_at_paths lim path d) = []"
  proof (cases "own_limit path d = []")
    case True
    then show ?thesis by (simp add: own_limit_def strip_maxLength)
  next
    case False
    then have "path \<in> set (map fst lim)"
      using "1.prems" by (subst (asm) collect_schema_string_limits.simps)
        (auto simp: own_limit_def split: pyval.splits if_splits)
    then show ?thesis by (simp add: own_limit_def strip_maxLength)
  qed
  have "collect_schema_string_limits p (strip_max_length_at_paths lim p c) = []"
    if "(p, c) \<in> set (schema_children path d)" for p c
  proof (rule "1.IH" [OF that refl])
    show "\<forall>(q, n) \<in> set (collect_schema_string_limits p c). q \<in> set (map fst lim)"
      using "1.prems" that by (subst (asm) collect_schema_string_limits.simps) fastforce
  qed
  then show ?case
    by (subst collect_schema_string_limits.simps) (auto simp: own strip_children)
qed

text \<open>
  The relaxed schema constrains no wide field any more: collecting limits from it
  finds none, so a long diagnostic text cannot fail validation for its length alone.
\<close>

theorem relaxed_schema_has_no_wide_limit:
  "collect_schema_string_limits []
     (strip_max_length_at_paths (result_schema_string_limits (VDict d)) [] d) = []"
proof (rule strip_removes)
  have keys: "p \<in> set (map fst (schema_string_limits d))" if "(p, n) \<in> set (collect_schema_string_limits [] d)" for p n
  proof -
    from that have "p \<in> fst ` set (rev (collect_schema_string_limits [] d))" by force
    then have "map_of (rev (collect_schema_string_limits [] d)) p \<noteq> None"
      by (simp only: map_of_eq_None_iff not_not)
    then have "map_of (schema_string_limits d) p \<noteq> None"
      by (simp add: schema_string_limits_def schema_limits_map)
    then show ?thesis by (simp only: map_of_eq_None_iff not_not set_map)
  qed
  have "map fst (map (\<lambda>(p, n). (p, n - length TRUNCATION_MARKER)) l) = map fst l" for l :: string_limits
    by (induction l) auto
  with keys show "\<forall>(p, n) \<in> set (collect_schema_string_limits [] d).
      p \<in> set (map fst (result_schema_string_limits (VDict d)))"
    by (auto simp del: map_map simp add: result_schema_string_limits_def)
qed


section \<open>Catalog-coded failures\<close>

lemma failed_event_code:
  assumes "catalog_code c"
  shows "dget (redact_event_data rt (map (\<lambda>(p, n). (''result'' # p, n)) lim) (event_data (ExecutionFailed m c t []))) ''code''
    = VStr c"
proof -
  have w: "\<forall>n \<in> set [''status'', ''code'', ''error_message'', ''finished_at'']. list_all word_char n" by code_simp
  have "str_default c ''RPC_EXECUTION_FAILED'' = c" using assms by (simp add: catalog_code_def)
  then show ?thesis
    by (subst redact_plain_lookup, simp_all only: MAX_EVENT_DICT_ITEMS_def event_data.simps)
      (use w assms code_name in \<open>simp_all add: status_entry_def redact_event_value.simps redact_catalog_text
        limit_at_result_code MAX_EVENT_STRING_LENGTH_def\<close>)
qed

lemma skipped_response:
  assumes "skip_result_validation x response"
  obtains c where "dget response ''ok'' = VBool False" "dget response ''error_code'' = VStr c"
    "is_catalog_error_code (VStr c)" "persisted_result response = []"
    "\<not> is_gitea_upgrade (contract_of (procedure_name x))"
proof -
  from assms have s: "dget response ''ok'' = VBool False" "is_catalog_error_code (dget response ''error_code'')"
    "''result'' \<in> set (map fst response) \<longrightarrow> dget response ''result'' = VDict []"
    "\<not> is_gitea_upgrade (contract_of (procedure_name x))"
    by (auto simp: skip_result_validation_def skips_result_validation_def has_dedicated_validation_def split: if_splits)
  from s(2) obtain c where "dget response ''error_code'' = VStr c"
    by (auto simp: is_catalog_error_code_def split: pyval.splits)
  moreover have "persisted_result response = []"
  proof (cases "''result'' \<in> set (map fst response)")
    case False
    then have "dget response ''result'' = VNone" by (simp add: dget_def map_of_eq_None_iff [THEN iffD2])
    then show ?thesis by (simp add: persisted_result_def)
  qed (use s(3) in \<open>simp add: persisted_result_def\<close>)
  ultimately show thesis using that s by simp
qed

text \<open>
  A failure whose only content is a catalog-shaped error code is recorded with exactly
  that code: one failed event, no progress events, and no schema mismatch hides the code.
\<close>

theorem catalog_failure_keeps_code:
  assumes "live rt s" and "skip_result_validation (obj s) response"
  shows "\<exists>s' c. record_backend_response rt validate (\<lambda>_. []) now s response = Inr s' \<and>
    dget response ''error_code'' = VStr c \<and> error_code (row s') = c \<and> status (row s') = FAILED \<and>
    length (events s') = length (events s) + 1"
proof -
  from assms(1) have l: "contiguous (events s)" "synced s" by (simp_all add: live_def)
  obtain c where c: "dget response ''ok'' = VBool False" "dget response ''error_code'' = VStr c"
    "is_catalog_error_code (VStr c)" "persisted_result response = []"
    "\<not> is_gitea_upgrade (contract_of (procedure_name (obj s)))"
    by (rule skipped_response [OF assms(2)])
  have cc: "catalog_code c" "c \<noteq> []" using fullmatch_catalog [OF c(3)] by (simp_all add: catalog_code_def)
  obtain msg where f: "backend_failure_fields response (dget response ''result'') (contract_of (procedure_name (obj s))) =
      Inr (c, msg)"
    using c(2,5) cc(2) by (cases "dget response ''result''") (simp_all add: backend_failure_fields_def)
  define e where "e = backend_terminal_event (response_outcome (obj s) response (c, msg)) [] (VTime now)"
  have "\<exists>m. e = ExecutionFailed m c (VTime now) []"
    by (simp add: e_def backend_terminal_event_def response_outcome_def c assms(2) cc Let_def)
  then obtain m where e: "e = ExecutionFailed m c (VTime now) []" ..
  have rec: "record_backend_response rt validate (\<lambda>_. []) now s response = append_and_project rt [] s e"
    by (simp add: record_backend_response_def Let_def f assms(2) response_mismatch_def record_backend_terminal_event_def e_def)
  obtain r e' where a: "append_and_project rt [] s e =
      Inr (write_projection (s\<lparr>events := events s @ [r]\<rparr>) (apply_event rt (from_execution (obj s)) e'))"
    "own_from_data rt (persistable_failure_event e) (ev_data r) = Inr e'"
    "ev_data r = redact_event_data rt (event_string_limits (result_schema (obj s)) (persistable_failure_event e))
       (event_data (persistable_failure_event e))"
    by (rule append_and_project_undisturbed [OF l(1)])
  have "dget (ev_data r) ''code'' = VStr c"
    unfolding a(3) e using failed_event_code [OF cc(1)] c(3) by (simp del: event_data.simps)
  with a(2) have "\<exists>m' t r'. e' = ExecutionFailed m' c t r'"
    by (auto simp: e c(3) failed_row failed_from_data_def rbind_Inr_iff cc(2))
  then have "error_code (apply_event rt (from_execution (obj s)) e') = c"
    "status (apply_event rt (from_execution (obj s)) e') = FAILED"
    by (auto simp: str_default_def cc(2))
  then show ?thesis
    using rec a(1) c(2) by (auto simp: row_write_projection synced_fields [OF l(2)])
qed

theorem catalog_failure_keeps_code_witness:
  "\<exists>s' c. record_backend_response plain_rt object_validator (\<lambda>_. []) noon fresh_store
       [(''ok'', VBool False), (''error_code'', VStr ''SSH_TIMEOUT'')] = Inr s' \<and>
     dget [(''ok'', VBool False), (''error_code'', VStr ''SSH_TIMEOUT'')] ''error_code'' = VStr c \<and>
     error_code (row s') = c \<and> status (row s') = FAILED \<and> length (events s') = length (events fresh_store) + 1"
proof -
  have "skip_result_validation (obj fresh_store) [(''ok'', VBool False), (''error_code'', VStr ''SSH_TIMEOUT'')]"
    by code_simp
  from catalog_failure_keeps_code [OF fresh_store_live this] show ?thesis .
qed


section \<open>Names of progress events\<close>

text \<open>
  A backend cannot forge a domain event or overflow the name column: every progress
  event is stored under a name that starts with \<open>Backend::\<close>, has at most 100 characters,
  and is not the name of any domain event.
\<close>

theorem progress_name_is_namespaced:
  "prefix BACKEND_EVENT_PREFIX (event_name (backend_progress_event item)) \<and>
   length (event_name (backend_progress_event item)) \<le> 100 \<and>
   event_name (backend_progress_event item) \<notin> domain_event_names"
proof -
  let ?t = "str_or (dget item ''event'') ''BackendEventRecorded''"
  let ?n = "redact_bounded ?t (take BACKEND_NAME_LIMIT)"
  have "length ?n \<le> BACKEND_NAME_LIMIT"
  proof (rule redact_bounded_cases [of ?t "take BACKEND_NAME_LIMIT"])
    assume "take BACKEND_NAME_LIMIT (redact_secret_spans ?n) = ?n"
    then show ?thesis by (metis length_take min.cobounded2)
  qed (auto simp: marker_length BACKEND_NAME_LIMIT_def BACKEND_EVENT_PREFIX_def dest: vault_reference_length)
  moreover have "BACKEND_EVENT_PREFIX @ ?n \<notin> domain_event_names"
    by (auto simp: BACKEND_EVENT_PREFIX_def domain_event_names_def EVENT_TYPES_def)
  ultimately show ?thesis
    by (auto simp: backend_progress_event_def BACKEND_NAME_LIMIT_def BACKEND_EVENT_PREFIX_def str_default_def)
qed

end
