(* ===== verification/ApprovalSnapshot.thy ===== *)
theory ApprovalSnapshot
  imports PyValues CanonicalJson
begin

text \<open>
  The approval snapshot of \<open>netbox_rpc/models.py\<close> (\<open>RPCApprovalRequest\<close> and
  \<open>compute_approval_snapshot_hash\<close>): the protected fields a decision is made on, the
  canonical hash over them, and the comparison with the current state.
\<close>

record approval_request =
  ap_procedure_id :: int
  ap_procedure_version :: string
  ap_procedure_policy_sha256 :: string
  ap_params_schema_sha256 :: string
  ap_result_schema_sha256 :: string
  ap_effect :: string
  ap_target_type_id :: int
  ap_target_id :: int
  ap_target_snapshot_hash :: string
  ap_normalized_params :: pydict
  ap_command_fingerprint :: pydict
  ap_backend_id :: pyval
  ap_backend_target_sha256 :: string
  ap_credential_policy_ref :: string
  ap_requested_by_id :: pyval
  ap_expires_at :: pyval
  ap_stream_version :: int
  ap_payload_hash :: string

datatype model_error = ImmutableRow

definition PROTECTED_FIELDS :: "string list" where
  "PROTECTED_FIELDS =
     [''procedure_id'', ''procedure_version'', ''procedure_policy_sha256'', ''params_schema_sha256'',
      ''result_schema_sha256'', ''effect'', ''target_type_id'', ''target_id'', ''target_snapshot_hash'',
      ''normalized_params'', ''command_fingerprint'', ''backend_id'', ''backend_target_sha256'',
      ''credential_policy_ref'', ''requested_by_id'']"

definition compute_approval_snapshot_hash :: "python_rt \<Rightarrow> pydict \<Rightarrow> string" where
  "compute_approval_snapshot_hash rt protected = rt_sha256 rt (json_dumps (VDict protected))"

definition protected_payload :: "approval_request \<Rightarrow> pydict" where
  "protected_payload a =
     zip PROTECTED_FIELDS
       [VInt (ap_procedure_id a), VStr (ap_procedure_version a), VStr (ap_procedure_policy_sha256 a),
        VStr (ap_params_schema_sha256 a), VStr (ap_result_schema_sha256 a), VStr (ap_effect a),
        VInt (ap_target_type_id a), VInt (ap_target_id a), VStr (ap_target_snapshot_hash a),
        VDict (ap_normalized_params a), VDict (ap_command_fingerprint a), ap_backend_id a,
        VStr (ap_backend_target_sha256 a), VStr (ap_credential_policy_ref a), ap_requested_by_id a]"

definition compute_hash :: "python_rt \<Rightarrow> approval_request \<Rightarrow> string" where
  "compute_hash rt a = compute_approval_snapshot_hash rt (protected_payload a)"

text \<open>The scoped dictionary is built from a set; the hash sorts the keys, so the order is immaterial.\<close>

definition scoped :: "pydict \<Rightarrow> pydict" where
  "scoped current = map (\<lambda>k. (k, dget current k)) PROTECTED_FIELDS"

definition matches_current :: "python_rt \<Rightarrow> approval_request \<Rightarrow> pydict \<Rightarrow> bool" where
  "matches_current rt a current \<longleftrightarrow>
     ap_payload_hash a \<noteq> [] \<and> ap_payload_hash a = compute_approval_snapshot_hash rt (scoped current)"

text \<open>\<open>save\<close> stamps the hash of a new row and refuses an existing one; \<open>delete\<close> always refuses.\<close>

definition save_approval :: "python_rt \<Rightarrow> bool \<Rightarrow> approval_request \<Rightarrow> model_error + approval_request" where
  "save_approval rt adding a =
     (if \<not> adding then Inl ImmutableRow
      else Inr (if ap_payload_hash a = [] then a\<lparr>ap_payload_hash := compute_hash rt a\<rparr> else a))"

definition delete_approval :: "approval_request \<Rightarrow> model_error + unit" where
  "delete_approval a = Inl ImmutableRow"


section \<open>What a matching snapshot pins\<close>

lemma protected_keys: "map fst (protected_payload a) = PROTECTED_FIELDS"
  by (simp add: protected_payload_def PROTECTED_FIELDS_def)

lemma distinct_protected: "distinct PROTECTED_FIELDS"
  by (simp add: PROTECTED_FIELDS_def)

lemma sorted_dict_lookup:
  assumes "key_sorted (VDict d) = key_sorted (VDict e)" "distinct (map fst d)" "distinct (map fst e)"
  shows "map_option key_sorted (map_of d k) = map_option key_sorted (map_of e k)"
proof -
  let ?f = "map (\<lambda>(k, v). (k, key_sorted v))"
  have keys: "map fst (?f xs) = map fst xs" for xs by (induction xs) auto
  have lookup: "map_of (sort_key fst (?f xs)) = map_option key_sorted \<circ> map_of xs" if "distinct (map fst xs)" for xs
  proof -
    have d: "distinct (map fst (?f xs))" unfolding keys by (rule that)
    have "distinct (map fst (sort_key fst (?f xs)))" using d by (simp only: distinct_map distinct_sort set_sort)
    from map_of_inject_set [OF this d] have "map_of (sort_key fst (?f xs)) = map_of (?f xs)" by simp
    then show ?thesis by (simp add: map_of_map)
  qed
  from assms(1) have "sort_key fst (?f d) = sort_key fst (?f e)" by simp
  with lookup [OF assms(2)] lookup [OF assms(3)] show ?thesis by (metis comp_apply)
qed

text \<open>
  An approval holds only for the state it was requested on. When a stamped snapshot
  still matches, every protected field has the value it had at request time (up to the
  order of object keys), provided the digest does not map the two payloads to one value.
\<close>

theorem matching_snapshot_pins_fields:
  assumes "ap_payload_hash a = compute_hash rt a" and "matches_current rt a current"
    and "rt_sha256 rt (json_dumps (VDict (protected_payload a))) = rt_sha256 rt (json_dumps (VDict (scoped current))) \<Longrightarrow>
      json_dumps (VDict (protected_payload a)) = json_dumps (VDict (scoped current))"
    and "exact_json (VDict (protected_payload a))" and "exact_json (VDict (scoped current))"
    and "k \<in> set PROTECTED_FIELDS"
  shows "key_sorted (dget current k) = key_sorted (dget (protected_payload a) k)"
proof -
  have "json_dumps (VDict (protected_payload a)) = json_dumps (VDict (scoped current))"
    using assms(1-3) by (simp add: matches_current_def compute_hash_def compute_approval_snapshot_hash_def)
  from json_dumps_unique [OF assms(4,5) this]
  have "map_option key_sorted (map_of (protected_payload a) k) = map_option key_sorted (map_of (scoped current) k)"
    by (rule sorted_dict_lookup) (simp_all add: protected_keys distinct_protected scoped_def comp_def)
  moreover have "map_of (scoped current) k = Some (dget current k)"
    using assms(6) by (simp add: scoped_def map_of_map_restrict)
  ultimately show ?thesis by (auto simp: dget_def)
qed

definition sample_approval :: approval_request where
  "sample_approval = \<lparr>ap_procedure_id = 3, ap_procedure_version = ''1'', ap_procedure_policy_sha256 = ''p'',
     ap_params_schema_sha256 = ''q'', ap_result_schema_sha256 = ''r'', ap_effect = ''write'', ap_target_type_id = 5,
     ap_target_id = 170, ap_target_snapshot_hash = ''t'', ap_normalized_params = [(''a'', VInt 1)],
     ap_command_fingerprint = [], ap_backend_id = VInt 1, ap_backend_target_sha256 = ''b'',
     ap_credential_policy_ref = ''c'', ap_requested_by_id = VInt 7, ap_expires_at = VNone, ap_stream_version = 2,
     ap_payload_hash = []\<rparr>"

theorem matching_snapshot_pins_fields_witness:
  "\<exists>a. save_approval plain_rt True sample_approval = Inr a \<and> matches_current plain_rt a (rev (protected_payload a)) \<and>
     key_sorted (dget (rev (protected_payload a)) ''target_id'') = key_sorted (dget (protected_payload a) ''target_id'') \<and>
     dget (protected_payload a) ''target_id'' = VInt 170"
proof -
  define a where "a = sample_approval\<lparr>ap_payload_hash := compute_hash plain_rt sample_approval\<rparr>"
  have p: "protected_payload a = protected_payload sample_approval"
    by (simp add: a_def protected_payload_def)
  have s: "scoped (rev (protected_payload a)) = protected_payload a"
    by (simp add: scoped_def protected_payload_def PROTECTED_FIELDS_def)
  have h: "ap_payload_hash a = compute_hash plain_rt a"
    unfolding compute_hash_def p by (simp add: a_def compute_hash_def)
  have ne: "compute_hash plain_rt a \<noteq> []"
    by (simp add: compute_hash_def compute_approval_snapshot_hash_def plain_rt_def)
  have m: "matches_current plain_rt a (rev (protected_payload a))"
    using h ne by (simp add: matches_current_def s compute_hash_def)
  have e: "exact_json (VDict (protected_payload a))"
    unfolding p by (simp add: sample_approval_def protected_payload_def PROTECTED_FIELDS_def)
  have k: "''target_id'' \<in> set PROTECTED_FIELDS" by (simp add: PROTECTED_FIELDS_def)
  have "save_approval plain_rt True sample_approval = Inr a"
    by (simp add: save_approval_def a_def sample_approval_def)
  moreover have "dget (protected_payload a) ''target_id'' = VInt 170"
    unfolding p by (simp add: sample_approval_def protected_payload_def PROTECTED_FIELDS_def)
  ultimately show ?thesis
    using matching_snapshot_pins_fields [OF h m _ e _ k] m e s by auto
qed

end
