(* ===== verification/Aggregate.thy ===== *)
theory Aggregate
  imports Response ApprovalSnapshot
begin

text \<open>
  The command side of one execution, \<open>netbox_rpc/domain/aggregate.py\<close>: every guarded
  transition of \<open>RPCExecutionAggregate\<close>, with its guards in source order, over the event
  store's recorders.

  The aggregate is the store of one execution plus its approval snapshot, if there is one.
  What the outside supplies to one call (library functions, schema validator, clock, other
  writers around each append) is the call's environment.
\<close>

record aggregate =
  store :: exec_store
  approval :: "approval_request option"

record call_env =
  env_rt :: python_rt
  env_validate :: json_validator
  env_now :: datetime
  env_itf :: "nat \<Rightarrow> event_row list list"

datatype agg_error = RPCExecutionAggregateError string | AggStore store_error

definition TERMINAL_STATUSES :: "ExecutionStatus list" where
  "TERMINAL_STATUSES = [SUCCEEDED, FAILED, CANCELLED, REJECTED, EXPIRED]"

abbreviation agg_status :: "aggregate \<Rightarrow> ExecutionStatus" where
  "agg_status a \<equiv> status (obj (store a))"

definition ensure_not_terminal :: "aggregate \<Rightarrow> agg_error + unit" where
  "ensure_not_terminal a =
     guard (agg_status a \<notin> set TERMINAL_STATUSES)
       (RPCExecutionAggregateError (''Cannot transition execution from terminal status ''
          @ str_repr (status_value (agg_status a)) @ ''.''))"

definition require_status :: "ExecutionStatus \<Rightarrow> string \<Rightarrow> aggregate \<Rightarrow> agg_error + unit" where
  "require_status st message a = guard (agg_status a = st) (RPCExecutionAggregateError message)"

definition require_no_events :: "string \<Rightarrow> aggregate \<Rightarrow> agg_error + unit" where
  "require_no_events message a = guard (events (store a) = []) (RPCExecutionAggregateError message)"

text \<open>A recorder applied to the aggregate's store.\<close>

definition recording :: "(exec_store \<Rightarrow> store_error + exec_store) \<Rightarrow> aggregate \<Rightarrow> agg_error + aggregate" where
  "recording f a = rbind (map_sum AggStore id (f (store a))) (\<lambda>s. Inr (a\<lparr>store := s\<rparr>))"


section \<open>Dispatch side\<close>

definition queue :: "call_env \<Rightarrow> aggregate \<Rightarrow> agg_error + aggregate" where
  "queue env a =
     rbind (require_status QUEUED ''Only a queued execution can be queued.'' a) (\<lambda>_.
     rbind (require_no_events ''ExecutionQueued must be the first event in a stream.'' a) (\<lambda>_.
       recording (record_execution_queued (env_rt env) (env_itf env 0)) a))"

text \<open>\<open>k\<close> is the number of appends the caller made before in the same transaction.\<close>

definition queue_after_approval_at :: "call_env \<Rightarrow> nat \<Rightarrow> aggregate \<Rightarrow> agg_error + aggregate" where
  "queue_after_approval_at env k a =
     rbind (require_status APPROVED ''Only an approved execution can be queued after approval.'' a) (\<lambda>_.
       recording (record_execution_queued (env_rt env) (env_itf env k)) a)"

definition queue_after_approval :: "call_env \<Rightarrow> aggregate \<Rightarrow> agg_error + aggregate" where
  "queue_after_approval env a = queue_after_approval_at env 0 a"

definition enqueue :: "call_env \<Rightarrow> pyval \<Rightarrow> aggregate \<Rightarrow> agg_error + aggregate" where
  "enqueue env j a =
     rbind (ensure_not_terminal a) (\<lambda>_.
     rbind (require_status QUEUED ''Only a queued execution can record job enqueue.'' a) (\<lambda>_.
       recording (record_execution_enqueued (env_rt env) (env_itf env 0) j) a))"

definition start :: "call_env \<Rightarrow> aggregate \<Rightarrow> agg_error + aggregate" where
  "start env a =
     rbind (ensure_not_terminal a) (\<lambda>_.
     rbind (require_status QUEUED ''Only a queued execution can start.'' a) (\<lambda>_.
       recording (mark_execution_running (env_rt env) (env_itf env 0) (env_now env)) a))"

definition normalize :: "call_env \<Rightarrow> pydict \<Rightarrow> string \<Rightarrow> aggregate \<Rightarrow> agg_error + aggregate" where
  "normalize env p h a =
     rbind (ensure_not_terminal a) (\<lambda>_.
     rbind (require_status RUNNING ''Only a running execution can record normalized parameters.'' a) (\<lambda>_.
       recording (record_execution_normalized (env_rt env) (env_itf env 0) p h) a))"

definition agg_record_backend_response :: "call_env \<Rightarrow> pydict \<Rightarrow> aggregate \<Rightarrow> agg_error + aggregate" where
  "agg_record_backend_response env response a =
     rbind (ensure_not_terminal a) (\<lambda>_.
     rbind (require_status RUNNING ''Only a running execution can record a backend response.'' a) (\<lambda>_.
       recording (\<lambda>s. record_backend_response (env_rt env) (env_validate env) (env_itf env) (env_now env) s response) a))"

definition agg_record_dispatch_lease_issued ::
  "call_env \<Rightarrow> string \<Rightarrow> string \<Rightarrow> int \<Rightarrow> int \<Rightarrow> string \<Rightarrow> pyval \<Rightarrow> int \<Rightarrow> aggregate \<Rightarrow> agg_error + aggregate" where
  "agg_record_dispatch_lease_issued env nonce key_id key_version stream_version audience expires_at envelope_version a =
     rbind (ensure_not_terminal a) (\<lambda>_.
     rbind (require_status RUNNING ''Only a running execution can issue a dispatch lease.'' a) (\<lambda>_.
       recording (record_dispatch_lease_issued (env_rt env) (env_itf env 0) nonce key_id key_version stream_version
         audience expires_at envelope_version) a))"

definition succeed :: "call_env \<Rightarrow> pydict \<Rightarrow> aggregate \<Rightarrow> agg_error + aggregate" where
  "succeed env r a =
     rbind (ensure_not_terminal a) (\<lambda>_.
       recording (record_execution_succeeded (env_rt env) (env_itf env 0) (env_now env) r) a)"

definition fail :: "call_env \<Rightarrow> string \<Rightarrow> string \<Rightarrow> aggregate \<Rightarrow> agg_error + aggregate" where
  "fail env message code a =
     rbind (ensure_not_terminal a) (\<lambda>_.
       recording (mark_execution_failed (env_rt env) (env_itf env 0) (env_now env) ''ExecutionFailed'' message code) a)"

definition cancel :: "call_env \<Rightarrow> pyval \<Rightarrow> aggregate \<Rightarrow> agg_error + aggregate" where
  "cancel env user_pk a =
     rbind (guard (agg_status a = QUEUED \<or> agg_status a = PENDING_APPROVAL)
       (RPCExecutionAggregateError ''Only a queued or pending-approval execution can be cancelled.'')) (\<lambda>_.
       recording (record_execution_cancelled (env_rt env) (env_itf env 0) (env_now env) user_pk '''') a)"


section \<open>Approval side\<close>

definition request :: "call_env \<Rightarrow> pyval \<Rightarrow> aggregate \<Rightarrow> agg_error + aggregate" where
  "request env by a =
     rbind (require_no_events ''ExecutionRequested must be the first event in a stream.'' a) (\<lambda>_.
       recording (record_execution_requested (env_rt env) (env_itf env 0) by) a)"

definition request_approval :: "call_env \<Rightarrow> string \<Rightarrow> pyval \<Rightarrow> pyval \<Rightarrow> aggregate \<Rightarrow> agg_error + aggregate" where
  "request_approval env snapshot_hash expires by a =
     rbind (require_status REQUESTED ''Only a requested execution can enter pending approval.'' a) (\<lambda>_.
     rbind (guard (snapshot_hash \<noteq> [])
       (RPCExecutionAggregateError ''An approval snapshot hash is required to request approval.'')) (\<lambda>_.
       recording (record_approval_requested (env_rt env) (env_itf env 0) snapshot_hash expires by) a))"

definition require_snapshot :: "aggregate \<Rightarrow> agg_error + approval_request" where
  "require_snapshot a = (case approval a of
       None \<Rightarrow> Inl (RPCExecutionAggregateError ''Execution has no approval request snapshot to decide.'')
     | Some snapshot \<Rightarrow> Inr snapshot)"

definition require_distinct_actor :: "pyval \<Rightarrow> approval_request \<Rightarrow> agg_error + unit" where
  "require_distinct_actor actor snapshot =
     rbind (guard (actor \<noteq> VNone)
       (RPCExecutionAggregateError ''An authenticated approver is required to decide an approval.'')) (\<lambda>_.
       guard (\<not> (ap_requested_by_id snapshot \<noteq> VNone \<and> py_str actor = py_str (ap_requested_by_id snapshot)))
         (RPCExecutionAggregateError
            ''The requester cannot approve or reject their own execution (segregation of duties).''))"

text \<open>The row lock: the decision is made on the committed status, which the object then takes over.\<close>

definition decide_from_pending ::
  "(aggregate \<Rightarrow> agg_error + aggregate) \<Rightarrow> aggregate \<Rightarrow> agg_error + aggregate" where
  "decide_from_pending record_decision a =
     (let locked = status (row (store a)) in
      rbind (guard (locked = PENDING_APPROVAL)
        (RPCExecutionAggregateError (''Only a pending-approval execution can be decided (currently ''
           @ str_repr (status_value locked) @ '').''))) (\<lambda>_.
        record_decision (a\<lparr>store := (store a)\<lparr>obj := (obj (store a))\<lparr>status := locked\<rparr>\<rparr>\<rparr>)))"

definition approve ::
  "call_env \<Rightarrow> pyval \<Rightarrow> bool \<Rightarrow> pydict option \<Rightarrow> string \<Rightarrow> bool \<Rightarrow> aggregate \<Rightarrow> agg_error + aggregate" where
  "approve env approver allow_requester_approval current_protected reason queue_after a =
     rbind (require_snapshot a) (\<lambda>snapshot.
     rbind (if \<not> allow_requester_approval then require_distinct_actor approver snapshot
            else guard (approver \<noteq> VNone)
              (RPCExecutionAggregateError ''An authenticated approver is required to decide an approval.'')) (\<lambda>_.
     rbind (guard (case current_protected of None \<Rightarrow> True | Some current \<Rightarrow> matches_current (env_rt env) snapshot current)
       (RPCExecutionAggregateError
          ''Approval snapshot no longer matches the current execution state; a new request is required.'')) (\<lambda>_.
       decide_from_pending (\<lambda>b.
         rbind (recording (record_execution_approved (env_rt env) (env_itf env 0) (env_now env) approver
                  (ap_payload_hash snapshot) reason) b) (\<lambda>b'.
           if queue_after then queue_after_approval_at env 1 b' else Inr b')) a)))"

definition reject :: "call_env \<Rightarrow> pyval \<Rightarrow> string \<Rightarrow> aggregate \<Rightarrow> agg_error + aggregate" where
  "reject env rejecter reason a =
     rbind (require_snapshot a) (\<lambda>snapshot.
     rbind (require_distinct_actor rejecter snapshot) (\<lambda>_.
       decide_from_pending
         (recording (record_execution_rejected (env_rt env) (env_itf env 0) (env_now env) rejecter reason)) a))"

definition expire :: "call_env \<Rightarrow> string \<Rightarrow> aggregate \<Rightarrow> agg_error + aggregate" where
  "expire env reason a =
     decide_from_pending (recording (record_execution_expired (env_rt env) (env_itf env 0) (env_now env) reason)) a"


section \<open>All transitions\<close>

datatype agg_op =
    OpQueue
  | OpQueueAfterApproval
  | OpEnqueue pyval
  | OpStart
  | OpNormalize pydict string
  | OpBackendResponse pydict
  | OpLeaseIssued string string int int string pyval int
  | OpSucceed pydict
  | OpFail string string
  | OpCancel pyval
  | OpRequest pyval
  | OpRequestApproval string pyval pyval
  | OpApprove pyval bool "pydict option" string bool
  | OpReject pyval string
  | OpExpire string

fun run_op :: "call_env \<Rightarrow> agg_op \<Rightarrow> aggregate \<Rightarrow> agg_error + aggregate" where
  "run_op env OpQueue = queue env"
| "run_op env OpQueueAfterApproval = queue_after_approval env"
| "run_op env (OpEnqueue j) = enqueue env j"
| "run_op env OpStart = start env"
| "run_op env (OpNormalize p h) = normalize env p h"
| "run_op env (OpBackendResponse r) = agg_record_backend_response env r"
| "run_op env (OpLeaseIssued n k kv sv au ex ev) = agg_record_dispatch_lease_issued env n k kv sv au ex ev"
| "run_op env (OpSucceed r) = succeed env r"
| "run_op env (OpFail m c) = fail env m c"
| "run_op env (OpCancel u) = cancel env u"
| "run_op env (OpRequest by) = request env by"
| "run_op env (OpRequestApproval h ex by) = request_approval env h ex by"
| "run_op env (OpApprove by allow cur reason q) = approve env by allow cur reason q"
| "run_op env (OpReject by reason) = reject env by reason"
| "run_op env (OpExpire reason) = expire env reason"

end
