(* ===== verification/AggregateProps.thy ===== *)
theory AggregateProps
  imports Aggregate ResponseProps
begin

text \<open>
  What the aggregate guarantees: every operation follows the status lifecycle, a terminal
  status is final, concurrent decisions resolve to one, an approval-gated stream never runs
  without an approval in its ledger, and the requester is not the approver.
\<close>

section \<open>The effect of one append\<close>

fun next_status :: "domain_event \<Rightarrow> ExecutionStatus \<Rightarrow> ExecutionStatus" where
  "next_status (ExecutionRequested _) st = REQUESTED"
| "next_status (ApprovalRequested _ _ _) st = PENDING_APPROVAL"
| "next_status (ExecutionApproved _ _ _ _) st = APPROVED"
| "next_status (ExecutionRejected _ _ _) st = REJECTED"
| "next_status (ExecutionExpired _ _) st = EXPIRED"
| "next_status (ExecutionQueued _) st = QUEUED"
| "next_status (ExecutionStarted _) st = RUNNING"
| "next_status (ExecutionSucceeded _ _) st = SUCCEEDED"
| "next_status (ExecutionFailed _ _ _ _) st = FAILED"
| "next_status (ExecutionEnqueueFailed _ _ _) st = FAILED"
| "next_status (ExecutionCancelled _ _ _) st = CANCELLED"
| "next_status _ st = st"

lemma next_status_persistable [simp]: "next_status (persistable_failure_event e) st = next_status e st"
  by (cases e) simp_all

lemma decoded_status:
  assumes "own_from_data rt e d = Inr e'"
  shows "status (apply_event rt p e') = next_status e (status p)"
  using assms
  by (cases e) (auto simp: from_record_def EVENT_TYPES_def from_data_defs rbind_Inr_iff)

lemma map_sum_Inr_iff [simp]: "map_sum f id m = Inr x \<longleftrightarrow> m = Inr x"
  by (cases m) simp_all

lemma append_effect:
  assumes "append_and_project rt itf s e = Inr s'"
  obtains us r e' where "s' = write_projection (s\<lparr>events := events s @ us @ [r]\<rparr>) (apply_event rt (from_execution (obj s)) e')"
    "own_from_data rt (persistable_failure_event e) (ev_data r) = Inr e'" "ev_event r = event_name e"
    "contiguous (events s) \<Longrightarrow> itf = [] \<Longrightarrow> us = []"
proof -
  have ins: "insert_attempts mk l n es = Inr (r, es') \<Longrightarrow> (\<exists>k. r = mk k) \<and> (\<exists>us. es' = es @ us @ [r])" for mk l n es r es'
  proof (induction mk l n es rule: insert_attempts.induct)
    case (2 mk others itf sequence es)
    then show ?case by (auto simp: Let_def split: if_splits)
  qed simp
  from assms obtain r es e' where
    a: "append_execution_event rt itf (events s) (event_level (persistable_failure_event e)) (event_name e)
       (event_message (persistable_failure_event e)) (event_data (persistable_failure_event e))
       (event_string_limits (result_schema (obj s)) (persistable_failure_event e)) = Inr (r, es)"
    "own_from_data rt (persistable_failure_event e) (ev_data r) = Inr e'"
    "s' = write_projection (s\<lparr>events := es\<rparr>) (apply_event rt (from_execution (obj s)) e')"
    by (auto simp: append_and_project_def Let_def rbind_Inr_iff)
  from a(1) obtain us where us: "es = events s @ us @ [r]" "ev_event r = event_name e"
    by (auto simp: append_execution_event_def Let_def dest!: ins)
  have "us = []" if c: "contiguous (events s)" "itf = []"
  proof -
    obtain r' where "append_execution_event rt [] (events s) (event_level (persistable_failure_event e)) (event_name e)
       (event_message (persistable_failure_event e)) (event_data (persistable_failure_event e))
       (event_string_limits (result_schema (obj s)) (persistable_failure_event e)) = Inr (r', events s @ [r'])"
      using append_undisturbed [OF c(1)] by blast
    with a(1) us(1) c(2) show ?thesis by simp
  qed
  with a us show thesis using that by blast
qed

lemma row_status_write: "synced s \<Longrightarrow> status (row (write_projection (s\<lparr>events := es\<rparr>) p)) = status p"
  by (simp add: row_write_projection synced_fields)

lemma synced_events [simp]: "synced (s\<lparr>events := es\<rparr>) = synced s"
  by (simp add: synced_def)

text \<open>What one recording does to an up-to-date aggregate.\<close>

definition recorded :: "aggregate \<Rightarrow> domain_event \<Rightarrow> event_row list \<Rightarrow> aggregate \<Rightarrow> bool" where
  "recorded a e us a' \<longleftrightarrow> synced (store a') \<and>
     status (row (store a')) = next_status e (status (row (store a))) \<and> approval a' = approval a \<and>
     (\<exists>r. events (store a') = events (store a) @ us @ [r] \<and> ev_event r = event_name e)"

lemma recording_effect:
  assumes "recording f a = Inr a'" "\<And>s. f s = append_and_project rt itf s (e s)" "synced (store a)"
  shows "\<exists>us. recorded a (e (store a)) us a' \<and> (contiguous (events (store a)) \<longrightarrow> itf = [] \<longrightarrow> us = [])"
proof -
  from assms(1,2) obtain s' where s': "append_and_project rt itf (store a) (e (store a)) = Inr s'" "a' = a\<lparr>store := s'\<rparr>"
    by (cases "append_and_project rt itf (store a) (e (store a))") (auto simp: recording_def)
  obtain us r e' where eff: "s' = write_projection (store a\<lparr>events := events (store a) @ us @ [r]\<rparr>)
      (apply_event rt (from_execution (obj (store a))) e')"
    "own_from_data rt (persistable_failure_event (e (store a))) (ev_data r) = Inr e'" "ev_event r = event_name (e (store a))"
    "contiguous (events (store a)) \<Longrightarrow> itf = [] \<Longrightarrow> us = []"
    using append_effect [OF s'(1)] by blast
  have "recorded a (e (store a)) us a'"
    using eff(1,3) s'(2) assms(3) decoded_status [OF eff(2)]
    by (auto simp: recorded_def synced_write row_status_write synced_fields)
  with eff(4) show ?thesis by blast
qed


section \<open>The lifecycle\<close>

text \<open>The status changes the design allows, operation by operation.\<close>

fun allowed_next :: "agg_op \<Rightarrow> ExecutionStatus \<Rightarrow> ExecutionStatus set" where
  "allowed_next OpQueue st = (if st = QUEUED then {QUEUED} else {})"
| "allowed_next OpQueueAfterApproval st = (if st = APPROVED then {QUEUED} else {})"
| "allowed_next (OpEnqueue _) st = (if st = QUEUED then {QUEUED} else {})"
| "allowed_next OpStart st = (if st = QUEUED then {RUNNING} else {})"
| "allowed_next (OpNormalize _ _) st = (if st = RUNNING then {RUNNING} else {})"
| "allowed_next (OpBackendResponse _) st = (if st = RUNNING then {SUCCEEDED, FAILED} else {})"
| "allowed_next (OpLeaseIssued _ _ _ _ _ _ _) st = (if st = RUNNING then {RUNNING} else {})"
| "allowed_next (OpSucceed _) st = (if st \<in> set TERMINAL_STATUSES then {} else {SUCCEEDED})"
| "allowed_next (OpFail _ _) st = (if st \<in> set TERMINAL_STATUSES then {} else {FAILED})"
| "allowed_next (OpCancel _) st = (if st \<in> {QUEUED, PENDING_APPROVAL} then {CANCELLED} else {})"
| "allowed_next (OpRequest _) st = {REQUESTED}"
| "allowed_next (OpRequestApproval _ _ _) st = (if st = REQUESTED then {PENDING_APPROVAL} else {})"
| "allowed_next (OpApprove _ _ _ _ q) st = (if st = PENDING_APPROVAL then {if q then QUEUED else APPROVED} else {})"
| "allowed_next (OpReject _ _) st = (if st = PENDING_APPROVAL then {REJECTED} else {})"
| "allowed_next (OpExpire _) st = (if st = PENDING_APPROVAL then {EXPIRED} else {})"

lemma synced_status: "synced s \<Longrightarrow> status (obj s) = status (row s)"
  by (simp add: synced_fields)

text \<open>What any operation does: the object stays up to date and rows are only added.\<close>

definition op_effect :: "aggregate \<Rightarrow> ExecutionStatus set \<Rightarrow> string list \<Rightarrow> aggregate \<Rightarrow> bool" where
  "op_effect a sts names a' \<longleftrightarrow> synced (store a') \<and> status (row (store a')) \<in> sts \<and> approval a' = approval a \<and>
     (\<exists>rs. events (store a') = events (store a) @ rs \<and> rs \<noteq> [] \<and> ev_event (last rs) \<in> set names)"

lemma recorded_op_effect:
  assumes "recorded a e us a'" "next_status e (status (row (store a))) \<in> sts" "event_name e \<in> set names"
  shows "op_effect a sts names a'"
  using assms by (auto simp: recorded_def op_effect_def)

lemma single_effect:
  assumes "recording f a = Inr a'" "\<And>s. f s = append_and_project rt itf s (e s)" "synced (store a)"
    "next_status (e (store a)) (status (row (store a))) \<in> sts" "event_name (e (store a)) \<in> set names"
  shows "op_effect a sts names a'"
  using recording_effect [OF assms(1-3)] recorded_op_effect assms(4,5) by blast

lemma op_effect_trans:
  assumes "op_effect a sts names a'" "op_effect a' sts' names' a''"
  shows "op_effect a sts' names' a''"
  using assms by (auto simp: op_effect_def)

lemmas recorder_defs = record_execution_queued_def record_execution_enqueued_def mark_execution_running_def
  record_dispatch_lease_issued_def mark_execution_failed_def record_execution_normalized_def
  record_execution_succeeded_def record_execution_cancelled_def record_execution_requested_def
  record_approval_requested_def record_execution_approved_def record_execution_rejected_def
  record_execution_expired_def

lemmas guard_defs = require_status_def require_no_events_def ensure_not_terminal_def

lemma decide_effect:
  assumes "decide_from_pending f a = Inr a'" "synced (store a)"
  shows "status (row (store a)) = PENDING_APPROVAL \<and> f a = Inr a'"
proof -
  have "(obj (store a))\<lparr>status := status (row (store a))\<rparr> = obj (store a)"
    using synced_status [OF assms(2)] by (simp flip: synced_status [OF assms(2)])
  with assms(1) show ?thesis by (auto simp: decide_from_pending_def Let_def rbind_Inr_iff)
qed


lemma append_all_effect:
  assumes "append_all rt itf k s es = Inr s'" "synced s"
  shows "synced s' \<and> status (row s') = foldl (\<lambda>st e. next_status e st) (status (row s)) es \<and>
    (\<exists>rs. events s' = events s @ rs)"
  using assms
proof (induction es arbitrary: k s)
  case (Cons e es)
  from Cons.prems(1) obtain s1 where s1: "append_and_project rt (itf k) s e = Inr s1" "append_all rt itf (Suc k) s1 es = Inr s'"
    by (auto simp: rbind_Inr_iff)
  obtain us r e' where eff: "s1 = write_projection (s\<lparr>events := events s @ us @ [r]\<rparr>) (apply_event rt (from_execution (obj s)) e')"
    "own_from_data rt (persistable_failure_event e) (ev_data r) = Inr e'"
    using append_effect [OF s1(1)] by blast
  then have "synced s1" "status (row s1) = next_status e (status (row s))" "events s1 = events s @ us @ [r]"
    using Cons.prems(2) decoded_status [OF eff(2)]
    by (simp_all add: synced_write row_status_write synced_fields)
  with Cons.IH [OF s1(2)] show ?case by auto
qed auto

lemma progress_next_status: "foldl (\<lambda>st e. next_status e st) st (map backend_progress_event items) = st"
  by (induction items) (simp_all add: backend_progress_event_def)

lemma terminal_name:
  "event_name (backend_terminal_event out m f) \<in> {''ExecutionSucceeded'', ''ExecutionFailed''}"
  "next_status (backend_terminal_event out m f) st \<in> {SUCCEEDED, FAILED}"
  by (cases rule: terminal_event_cases [of out m f], simp_all)+

lemma response_effect:
  assumes "recording (\<lambda>s. record_backend_response rt validate itf now s response) a = Inr a'" "synced (store a)"
  shows "op_effect a {SUCCEEDED, FAILED} [''ExecutionSucceeded'', ''ExecutionFailed''] a'"
proof -
  from assms(1) obtain s' where s': "record_backend_response rt validate itf now (store a) response = Inr s'" "a' = a\<lparr>store := s'\<rparr>"
    by (cases "record_backend_response rt validate itf now (store a) response") (auto simp: recording_def)
  from s'(1) obtain s1 f where
    s1: "s1 = store a \<or> record_backend_progress_events rt itf (store a) response = Inr s1"
    and t: "record_backend_terminal_event rt (itf MAX_BACKEND_EVENTS) s1 (response_outcome (obj (store a)) response f)
       (response_mismatch rt validate (obj (store a)) response) (VTime now) = Inr s'"
    unfolding record_backend_response_def Let_def by (auto simp: rbind_Inr_iff split: if_splits)
  have p: "synced s1 \<and> (\<exists>rs. events s1 = events (store a) @ rs)"
    using s1 append_all_effect assms(2) by (auto simp: record_backend_progress_events_def)
  have "op_effect (a\<lparr>store := s1\<rparr>) {SUCCEEDED, FAILED} [''ExecutionSucceeded'', ''ExecutionFailed''] a'"
  proof (rule single_effect)
    show "recording (\<lambda>s. append_and_project rt (itf MAX_BACKEND_EVENTS) s
      (backend_terminal_event (response_outcome (obj (store a)) response f)
       (response_mismatch rt validate (obj (store a)) response) (VTime now))) (a\<lparr>store := s1\<rparr>) = Inr a'"
      using t s'(2) by (simp add: recording_def record_backend_terminal_event_def)
  next
    show "next_status (backend_terminal_event (response_outcome (obj (store a)) response f)
       (response_mismatch rt validate (obj (store a)) response) (VTime now)) (status (row (store (a\<lparr>store := s1\<rparr>))))
      \<in> {SUCCEEDED, FAILED}" by (rule terminal_name)
  next
    show "event_name (backend_terminal_event (response_outcome (obj (store a)) response f)
       (response_mismatch rt validate (obj (store a)) response) (VTime now)) \<in> set [''ExecutionSucceeded'', ''ExecutionFailed'']"
      using terminal_name(1) by (simp only: set_simps)
  qed (use p in simp_all)
  with p show ?thesis by (auto simp: op_effect_def)
qed

text \<open>The names the operations write last.\<close>

fun op_names :: "agg_op \<Rightarrow> string list" where
  "op_names OpQueue = [''ExecutionQueued'']"
| "op_names OpQueueAfterApproval = [''ExecutionQueued'']"
| "op_names (OpEnqueue _) = [''JobEnqueued'']"
| "op_names OpStart = [''ExecutionStarted'']"
| "op_names (OpNormalize _ _) = [''ParametersNormalized'']"
| "op_names (OpBackendResponse _) = [''ExecutionSucceeded'', ''ExecutionFailed'']"
| "op_names (OpLeaseIssued _ _ _ _ _ _ _) = [''DispatchLeaseIssued'']"
| "op_names (OpSucceed _) = [''ExecutionSucceeded'']"
| "op_names (OpFail _ _) = [''ExecutionFailed'']"
| "op_names (OpCancel _) = [''ExecutionCancelled'']"
| "op_names (OpRequest _) = [''ExecutionRequested'']"
| "op_names (OpRequestApproval _ _ _) = [''ApprovalRequested'']"
| "op_names (OpApprove _ _ _ _ q) = (if q then [''ExecutionQueued''] else [''ExecutionApproved''])"
| "op_names (OpReject _ _) = [''ExecutionRejected'']"
| "op_names (OpExpire _) = [''ExecutionExpired'']"

lemma approve_effect:
  assumes "approve env by allow cur reason q a = Inr a'" "synced (store a)"
  shows "status (row (store a)) = PENDING_APPROVAL \<and>
    (\<exists>b. op_effect a {APPROVED} [''ExecutionApproved''] b \<and>
      (if q then op_effect b {QUEUED} [''ExecutionQueued''] a' else a' = b))"
proof -
  from assms(1) obtain snap :: approval_request where "decide_from_pending (\<lambda>b.
         rbind (recording (record_execution_approved (env_rt env) (env_itf env 0) (env_now env) by
                  (ap_payload_hash snap) reason) b) (\<lambda>b'.
           if q then queue_after_approval_at env 1 b' else Inr b')) a = Inr a'"
    unfolding approve_def rbind_Inr_iff by blast
  from decide_effect [OF this assms(2)] obtain b where
    b: "status (row (store a)) = PENDING_APPROVAL"
    "recording (record_execution_approved (env_rt env) (env_itf env 0) (env_now env) by (ap_payload_hash snap) reason) a = Inr b"
    "(if q then queue_after_approval_at env 1 b else Inr b) = Inr a'"
    by (auto simp: rbind_Inr_iff)
  have e: "op_effect a {APPROVED} [''ExecutionApproved''] b"
    by (rule single_effect [OF b(2) record_execution_approved_def assms(2)]) simp_all
  then have sb: "synced (store b)" by (simp add: op_effect_def)
  have "op_effect b {QUEUED} [''ExecutionQueued''] a'" if q
  proof -
    from that b(3) have "recording (record_execution_queued (env_rt env) (env_itf env 1)) b = Inr a'"
      by (simp add: queue_after_approval_at_def require_status_def guard_def split: if_splits)
    then show ?thesis by (rule single_effect [OF _ record_execution_queued_def sb]) simp_all
  qed
  with b e show ?thesis by auto
qed

lemma run_op_effect:
  assumes "run_op env op a = Inr a'" "synced (store a)"
  shows "op_effect a (allowed_next op (status (row (store a)))) (op_names op) a'"
proof -
  note st = synced_status [OF assms(2)]
  note se = single_effect [OF _ _ assms(2)]
  show ?thesis
  proof (cases op)
    case (OpApprove u allow cur reason q)
    from approve_effect [OF assms(1) [unfolded OpApprove run_op.simps] assms(2)] show ?thesis
      using OpApprove op_effect_trans by (cases q) auto
  next
    case (OpBackendResponse r)
    with assms response_effect show ?thesis
      by (auto simp: agg_record_backend_response_def guard_defs rbind_Inr_iff st)
  next
    case (OpReject u reason)
    with assms(1) have
      "decide_from_pending (recording (record_execution_rejected (env_rt env) (env_itf env 0) (env_now env) u reason)) a = Inr a'"
      by (auto simp: reject_def rbind_Inr_iff)
    from decide_effect [OF this assms(2)] OpReject show ?thesis
      by (auto intro!: se [OF _ record_execution_rejected_def])
  next
    case (OpExpire reason)
    with assms(1) have
      "decide_from_pending (recording (record_execution_expired (env_rt env) (env_itf env 0) (env_now env) reason)) a = Inr a'"
      by (simp add: expire_def)
    from decide_effect [OF this assms(2)] OpExpire show ?thesis
      by (auto intro!: se [OF _ record_execution_expired_def])
  next
    case OpQueue
    with assms(1) show ?thesis
      by (auto simp: queue_def guard_defs rbind_Inr_iff st intro!: se [OF _ record_execution_queued_def])
  next
    case OpQueueAfterApproval
    with assms(1) show ?thesis
      by (auto simp: queue_after_approval_def queue_after_approval_at_def guard_defs rbind_Inr_iff st
          intro!: se [OF _ record_execution_queued_def])
  next
    case (OpEnqueue j)
    with assms(1) show ?thesis
      by (auto simp: enqueue_def guard_defs rbind_Inr_iff st intro!: se [OF _ record_execution_enqueued_def])
  next
    case OpStart
    with assms(1) show ?thesis
      by (auto simp: start_def guard_defs rbind_Inr_iff st intro!: se [OF _ mark_execution_running_def])
  next
    case (OpNormalize p h)
    with assms(1) show ?thesis
      by (auto simp: normalize_def guard_defs rbind_Inr_iff st intro!: se [OF _ record_execution_normalized_def])
  next
    case (OpLeaseIssued n k kv sv au ex ev)
    with assms(1) show ?thesis
      by (auto simp: agg_record_dispatch_lease_issued_def guard_defs rbind_Inr_iff st
          intro!: se [OF _ record_dispatch_lease_issued_def])
  next
    case (OpSucceed r)
    with assms(1) show ?thesis
      by (auto simp: succeed_def guard_defs rbind_Inr_iff st intro!: se [OF _ record_execution_succeeded_def])
  next
    case (OpFail m c)
    with assms(1) show ?thesis
      by (auto simp: fail_def guard_defs rbind_Inr_iff st intro!: se [OF _ mark_execution_failed_def])
  next
    case (OpCancel u)
    with assms(1) show ?thesis
      by (auto simp: cancel_def guard_defs rbind_Inr_iff st intro!: se [OF _ record_execution_cancelled_def])
  next
    case (OpRequest u)
    with assms(1) show ?thesis
      by (auto simp: request_def guard_defs rbind_Inr_iff st intro!: se [OF _ record_execution_requested_def])
  next
    case (OpRequestApproval h ex u)
    with assms(1) show ?thesis
      by (auto simp: request_approval_def guard_defs rbind_Inr_iff st intro!: se [OF _ record_approval_requested_def])
  qed
qed


section \<open>Refinement of the lifecycle\<close>

text \<open>
  A machine whose operations refine an abstract transition table: what the table excludes,
  the machine refuses, and the views along any successful run form a path of the table.
\<close>

locale table_machine =
  fixes run :: "'op \<Rightarrow> 's \<Rightarrow> 'e + 's"
    and good :: "'s \<Rightarrow> bool"
    and view :: "'s \<Rightarrow> 'v"
    and table :: "'op \<Rightarrow> 'v \<Rightarrow> 'v set"
  assumes refines: "good s \<Longrightarrow> run op s = Inr s' \<Longrightarrow> good s' \<and> view s' \<in> table op (view s)"
begin

fun path :: "'v \<Rightarrow> 'op list \<Rightarrow> 'v \<Rightarrow> bool" where
  "path v [] w = (v = w)"
| "path v (op # ops) w = (\<exists>u \<in> table op v. path u ops w)"

lemma run_path: "good s \<Longrightarrow> rfold (\<lambda>s op. run op s) s ops = Inr s' \<Longrightarrow> good s' \<and> path (view s) ops (view s')"
proof (induction ops arbitrary: s)
  case (Cons op ops)
  then obtain t where t: "run op s = Inr t" "rfold (\<lambda>s op. run op s) t ops = Inr s'" by (auto simp: rbind_Inr_iff)
  from refines [OF Cons.prems(1) t(1)] Cons.IH [OF _ t(2)] show ?case by auto
qed simp

lemma refused: "good s \<Longrightarrow> table op (view s) = {} \<Longrightarrow> \<exists>e. run op s = Inl e"
  using refines [of s op] by (cases "run op s") auto

end

definition agg_good :: "aggregate \<Rightarrow> bool" where
  "agg_good a \<longleftrightarrow> synced (store a)"

definition committed_status :: "aggregate \<Rightarrow> ExecutionStatus" where
  "committed_status a = status (row (store a))"

interpretation lifecycle: table_machine "run_op env" agg_good committed_status allowed_next
  for env
  by unfold_locales
    (use run_op_effect in \<open>auto simp: agg_good_def committed_status_def op_effect_def\<close>)

text \<open>The lifecycle as a path of statuses, written out.\<close>

fun lifecycle_path :: "ExecutionStatus \<Rightarrow> agg_op list \<Rightarrow> ExecutionStatus \<Rightarrow> bool" where
  "lifecycle_path v [] w = (v = w)"
| "lifecycle_path v (op # ops) w = (\<exists>u \<in> allowed_next op v. lifecycle_path u ops w)"

lemma lifecycle_path_eq: "lifecycle.path v ops w = lifecycle_path v ops w"
  by (induction v ops w rule: lifecycle_path.induct) simp_all

text \<open>
  C34: The aggregate refines the lifecycle table. Along every sequence of operations that
  succeeds on an up-to-date execution, the committed statuses follow the table's edges,
  and the object stays up to date.
\<close>

theorem operations_follow_lifecycle:
  assumes "synced (store a)" and "rfold (\<lambda>a op. run_op env op a) a ops = Inr a'"
  shows "synced (store a') \<and> lifecycle_path (status (row (store a))) ops (status (row (store a')))"
  using lifecycle.run_path [of a env ops a'] assms
  by (simp add: agg_good_def committed_status_def lifecycle_path_eq)

text \<open>A fresh aggregate, and one call environment without interference.\<close>

definition fresh_aggregate :: aggregate where
  "fresh_aggregate = \<lparr>store = fresh_store, approval = None\<rparr>"

definition quiet_env :: call_env where
  "quiet_env = \<lparr>env_rt = plain_rt, env_validate = object_validator, env_now = noon, env_itf = (\<lambda>_. [])\<rparr>"

lemma recording_quiet:
  assumes "live rt (store a)" "\<And>s. f s = append_and_project rt [] s (e s)" "proper_name (e (store a))"
  shows "\<exists>a'. recording f a = Inr a' \<and> live rt (store a') \<and> approval a' = approval a \<and>
    status (row (store a')) = next_status (e (store a)) (status (row (store a)))"
proof -
  from live_step [OF assms(1,3)] obtain s' where s': "append_and_project rt [] (store a) (e (store a)) = Inr s'" "live rt s'"
    by blast
  have r: "recording f a = Inr (a\<lparr>store := s'\<rparr>)" by (simp add: recording_def assms(2) s')
  moreover have "synced (store a)" using assms(1) by (simp add: live_def)
  from recording_effect [OF r assms(2) this]
  have "status (row s') = next_status (e (store a)) (status (row (store a)))" by (auto simp: recorded_def)
  ultimately show ?thesis using s'(2) by auto
qed

lemma fresh_started:
  "\<exists>a'. rfold (\<lambda>a op. run_op quiet_env op a) fresh_aggregate [OpQueue, OpStart] = Inr a' \<and>
     live plain_rt (store a') \<and> status (row (store a')) = RUNNING"
proof -
  have l: "live plain_rt (store fresh_aggregate)" by (simp add: fresh_aggregate_def fresh_store_live)
  have st: "status (obj (store fresh_aggregate)) = QUEUED" "events (store fresh_aggregate) = []"
    by (simp_all add: fresh_aggregate_def fresh_store_def projection_initial_def ProjectionState.defs)
  obtain a1 where a1: "recording (record_execution_queued plain_rt []) fresh_aggregate = Inr a1"
    "live plain_rt (store a1)" "status (row (store a1)) = QUEUED"
    using recording_quiet [OF l record_execution_queued_def] by (auto simp: proper_name_def)
  then have s1: "status (obj (store a1)) = QUEUED" using synced_status by (simp add: live_def)
  obtain a2 where a2: "recording (mark_execution_running plain_rt [] noon) a1 = Inr a2"
    "live plain_rt (store a2)" "status (row (store a2)) = RUNNING"
    using recording_quiet [OF a1(2) mark_execution_running_def [of plain_rt "[]" noon]] by (auto simp: proper_name_def)
  have "run_op quiet_env OpQueue fresh_aggregate = Inr a1" "run_op quiet_env OpStart a1 = Inr a2"
    using a1 a2 st s1 by (simp_all add: queue_def start_def guard_defs quiet_env_def TERMINAL_STATUSES_def)
  with a2 show ?thesis by simp
qed

theorem operations_follow_lifecycle_witness:
  "\<exists>a'. rfold (\<lambda>a op. run_op quiet_env op a) fresh_aggregate [OpQueue, OpStart] = Inr a' \<and>
     synced (store a') \<and> lifecycle_path (status (row (store fresh_aggregate))) [OpQueue, OpStart] (status (row (store a')))"
proof -
  from fresh_started obtain a' where a': "rfold (\<lambda>a op. run_op quiet_env op a) fresh_aggregate [OpQueue, OpStart] = Inr a'"
    by blast
  have "synced (store fresh_aggregate)" using fresh_store_live [of plain_rt] by (simp add: fresh_aggregate_def live_def)
  from operations_follow_lifecycle [OF this a'] a' show ?thesis by blast
qed

text \<open>
  A terminal status is final: once an execution with a ledger has succeeded, failed or
  been cancelled, rejected or expired, every operation of the aggregate is refused.
\<close>

theorem terminal_status_is_final:
  assumes "synced (store a)" and "status (row (store a)) \<in> set TERMINAL_STATUSES" and "events (store a) \<noteq> []"
  shows "\<exists>e. run_op env op a = Inl e"
proof (cases "\<exists>u. op = OpRequest u")
  case True
  with assms(3) show ?thesis by (auto simp: request_def require_no_events_def)
next
  case False
  have "allowed_next op (committed_status a) = {}"
    using assms(2) False by (cases op) (auto simp: committed_status_def TERMINAL_STATUSES_def)
  with lifecycle.refused [of a op env] assms(1) show ?thesis by (simp add: agg_good_def)
qed

theorem terminal_status_is_final_witness:
  "\<exists>a. synced (store a) \<and> status (row (store a)) \<in> set TERMINAL_STATUSES \<and> events (store a) \<noteq> [] \<and>
     (\<exists>e. run_op quiet_env OpStart a = Inl e)"
proof -
  have l: "live plain_rt (store fresh_aggregate)" by (simp add: fresh_aggregate_def fresh_store_live)
  obtain a where a: "recording (record_execution_succeeded plain_rt [] noon []) fresh_aggregate = Inr a"
    "live plain_rt (store a)" "status (row (store a)) = SUCCEEDED"
    using recording_quiet [OF l record_execution_succeeded_def [of plain_rt "[]" noon "[]"]] by (auto simp: proper_name_def)
  from recording_effect [OF a(1) record_execution_succeeded_def] l
  have ne: "events (store a) \<noteq> []" by (auto simp: recorded_def live_def)
  have t: "status (row (store a)) \<in> set TERMINAL_STATUSES" "synced (store a)"
    using a by (simp_all add: TERMINAL_STATUSES_def live_def)
  from terminal_status_is_final [OF t(2,1) ne] t ne show ?thesis by blast
qed


section \<open>Decisions\<close>

fun is_decision :: "agg_op \<Rightarrow> bool" where
  "is_decision (OpApprove _ _ _ _ _) = True"
| "is_decision (OpReject _ _) = True"
| "is_decision (OpExpire _) = True"
| "is_decision _ = False"

lemma obj_status_write: "status (obj (write_projection s p)) = status p"
  using arg_cong [OF obj_write_projection, of status s p] by simp

lemma decision_row_status:
  assumes "recording f b = Inr b'" "\<And>s. f s = append_and_project rt itf s (e s)"
    "status (obj (store b)) = status (row (store b))" "next_status (e (store b)) st \<noteq> status (row (store b))"
    "\<And>st st'. next_status (e (store b)) st = next_status (e (store b)) st'"
  shows "status (row (store b')) = next_status (e (store b)) st \<and> status (obj (store b')) = next_status (e (store b)) st"
proof -
  from assms(1,2) obtain s' where s': "append_and_project rt itf (store b) (e (store b)) = Inr s'" "b' = b\<lparr>store := s'\<rparr>"
    by (cases "append_and_project rt itf (store b) (e (store b))") (auto simp: recording_def)
  obtain us r e' where eff: "s' = write_projection (store b\<lparr>events := events (store b) @ us @ [r]\<rparr>)
      (apply_event rt (from_execution (obj (store b))) e')"
    "own_from_data rt (persistable_failure_event (e (store b))) (ev_data r) = Inr e'"
    using append_effect [OF s'(1)] by blast
  have "status (apply_event rt (from_execution (obj (store b))) e') = next_status (e (store b)) st"
    using decoded_status [OF eff(2)] assms(5) by (metis next_status_persistable)
  with eff(1) s'(2) assms(3,4) show ?thesis
    by (auto simp: row_write_projection obj_status_write)
qed

lemma decided_row:
  assumes "is_decision op" "run_op env op a = Inr a'"
  shows "status (row (store a')) \<noteq> PENDING_APPROVAL"
proof -
  let ?b = "a\<lparr>store := (store a)\<lparr>obj := (obj (store a))\<lparr>status := status (row (store a))\<rparr>\<rparr>\<rparr>"
  have fresh: "status (obj (store ?b)) = status (row (store ?b))" by simp
  show ?thesis
  proof (cases op)
    case (OpApprove u allow cur reason q)
    with assms(2) obtain snap :: approval_request where "decide_from_pending (\<lambda>b.
         rbind (recording (record_execution_approved (env_rt env) (env_itf env 0) (env_now env) u
                  (ap_payload_hash snap) reason) b) (\<lambda>b'.
           if q then queue_after_approval_at env 1 b' else Inr b')) a = Inr a'"
      unfolding OpApprove run_op.simps approve_def rbind_Inr_iff by blast
    then obtain b where b: "status (row (store a)) = PENDING_APPROVAL"
      "recording (record_execution_approved (env_rt env) (env_itf env 0) (env_now env) u (ap_payload_hash snap) reason) ?b = Inr b"
      "(if q then queue_after_approval_at env 1 b else Inr b) = Inr a'"
      by (auto simp: decide_from_pending_def Let_def rbind_Inr_iff)
    have s: "status (row (store b)) = APPROVED" "status (obj (store b)) = APPROVED"
      using decision_row_status [OF b(2) record_execution_approved_def fresh, of QUEUED] b(1) by simp_all
    show ?thesis
    proof (cases q)
      case True
      with b(3) have "recording (record_execution_queued (env_rt env) (env_itf env 1)) b = Inr a'"
        by (simp add: queue_after_approval_at_def require_status_def guard_def split: if_splits)
      from decision_row_status [OF this record_execution_queued_def, of QUEUED] s show ?thesis by simp
    qed (use b(3) s in simp)
  next
    case (OpReject u reason)
    with assms(2) have "status (row (store a)) = PENDING_APPROVAL"
      "recording (record_execution_rejected (env_rt env) (env_itf env 0) (env_now env) u reason) ?b = Inr a'"
      by (auto simp: reject_def decide_from_pending_def Let_def rbind_Inr_iff)
    with decision_row_status [OF this(2) record_execution_rejected_def fresh, of QUEUED] show ?thesis by simp
  next
    case (OpExpire reason)
    with assms(2) have "status (row (store a)) = PENDING_APPROVAL"
      "recording (record_execution_expired (env_rt env) (env_itf env 0) (env_now env) reason) ?b = Inr a'"
      by (auto simp: expire_def decide_from_pending_def Let_def rbind_Inr_iff)
    with decision_row_status [OF this(2) record_execution_expired_def fresh, of QUEUED] show ?thesis by simp
  qed (use assms(1) in simp_all)
qed

lemma decision_needs_pending:
  assumes "is_decision op" "status (row (store a)) \<noteq> PENDING_APPROVAL"
  shows "\<exists>m. run_op env op a = Inl (RPCExecutionAggregateError m)"
proof -
  have d: "\<exists>m. decide_from_pending f a = Inl (RPCExecutionAggregateError m)" for f
    using assms(2) by (simp add: decide_from_pending_def Let_def guard_def)
  have s: "\<exists>m. rbind (require_snapshot a) g = Inl (RPCExecutionAggregateError m)"
    if "\<And>x. \<exists>m. g x = Inl (RPCExecutionAggregateError m)" for g :: "approval_request \<Rightarrow> agg_error + aggregate"
    using that by (cases "approval a") (simp_all add: require_snapshot_def)
  have g: "\<exists>m. rbind (guard c (RPCExecutionAggregateError n)) g = Inl (RPCExecutionAggregateError m)"
    if "\<And>x. \<exists>m. g x = Inl (RPCExecutionAggregateError m)" for c n and g :: "unit \<Rightarrow> agg_error + aggregate"
    using that by (cases c) simp_all
  have q: "\<exists>m. rbind (require_distinct_actor u x) g = Inl (RPCExecutionAggregateError m)"
    if "\<And>x. \<exists>m. g x = Inl (RPCExecutionAggregateError m)" for u x and g :: "unit \<Rightarrow> agg_error + aggregate"
    using that by (simp add: require_distinct_actor_def guard_def)
  show ?thesis
  proof (cases op)
    case (OpApprove u allow cur reason q')
    show ?thesis unfolding OpApprove run_op.simps approve_def
      by (cases allow; simp only: if_True if_False not_True_eq_False not_False_eq_True; intro s g q d)
  next
    case (OpReject u reason)
    show ?thesis unfolding OpReject run_op.simps reject_def by (intro s q d)
  next
    case (OpExpire reason)
    show ?thesis unfolding OpExpire run_op.simps expire_def by (rule d)
  qed (use assms(1) in simp_all)
qed

text \<open>
  C33: Concurrent decisions resolve to one. After any approval, rejection or expiry has
  committed, a second decision made through another object of the same execution is
  refused, however stale the status and the other fields of that object are.
\<close>

theorem one_decision_wins:
  assumes "is_decision op" and "run_op env op a = Inr a'" and "is_decision op'"
  shows "\<exists>m. run_op env' op' (a'\<lparr>store := (store a')\<lparr>obj := stale\<rparr>\<rparr>) = Inl (RPCExecutionAggregateError m)"
  by (rule decision_needs_pending [OF assms(3)]) (use decided_row [OF assms(1,2)] in simp)


text \<open>A pending execution and its snapshot, requested by user 7.\<close>

definition pending_aggregate :: aggregate where
  "pending_aggregate = \<lparr>store = fresh_store\<lparr>obj := (obj fresh_store)\<lparr>status := PENDING_APPROVAL\<rparr>,
     row := (row fresh_store)\<lparr>status := PENDING_APPROVAL\<rparr>\<rparr>, approval = Some sample_approval\<rparr>"

lemma pending_store:
  "contiguous (events (store pending_aggregate))" "synced (store pending_aggregate)"
  "status (row (store pending_aggregate)) = PENDING_APPROVAL" "status (obj (store pending_aggregate)) = PENDING_APPROVAL"
  by (simp_all add: pending_aggregate_def contiguous_def synced_def fresh_store_def projection_initial_def
      from_execution_def ProjectionState.defs)

lemma recording_succeeds:
  assumes "contiguous (events (store a))" "\<And>s. f s = append_and_project rt [] s (e s)"
  shows "\<exists>a'. recording f a = Inr a'"
  unfolding recording_def assms(2)
  by (rule append_and_project_undisturbed [OF assms(1), of rt "e (store a)"]) simp

lemma pending_unchanged:
  "pending_aggregate\<lparr>store := (store pending_aggregate)\<lparr>obj := (obj (store pending_aggregate))\<lparr>status := PENDING_APPROVAL\<rparr>\<rparr>\<rparr>
     = pending_aggregate"
  by (simp add: pending_aggregate_def)

lemma pending_approves:
  "\<exists>a'. run_op quiet_env (OpApprove (VInt 9) False None '''' False) pending_aggregate = Inr a'"
proof -
  obtain a' where "recording (record_execution_approved plain_rt [] noon (VInt 9) (ap_payload_hash sample_approval) '''')
      pending_aggregate = Inr a'"
    using recording_succeeds [OF pending_store(1) record_execution_approved_def
        [of plain_rt "[]" noon "VInt 9" "ap_payload_hash sample_approval" "''''"]] by blast
  moreover have "approval pending_aggregate = Some sample_approval" by (simp add: pending_aggregate_def)
  moreover have "int_str 9 \<noteq> int_str 7" by (simp add: int_str_def)
  ultimately have "approve quiet_env (VInt 9) False None '''' False pending_aggregate = Inr a'"
    by (simp add: approve_def require_snapshot_def require_distinct_actor_def sample_approval_def [THEN arg_cong [of _ _ ap_requested_by_id]]
        decide_from_pending_def pending_store pending_unchanged quiet_env_def)
  then show ?thesis by simp
qed

theorem one_decision_wins_witness:
  "\<exists>a'. run_op quiet_env (OpApprove (VInt 9) False None '''' False) pending_aggregate = Inr a' \<and>
     (\<exists>m. run_op quiet_env (OpReject (VInt 4) '''') (a'\<lparr>store := (store a')\<lparr>obj := obj (store pending_aggregate)\<rparr>\<rparr>) =
        Inl (RPCExecutionAggregateError m))"
proof -
  from pending_approves obtain a' where
    a': "run_op quiet_env (OpApprove (VInt 9) False None '''' False) pending_aggregate = Inr a'" ..
  from one_decision_wins [OF _ this, of "OpReject (VInt 4) ''''"] a' show ?thesis by auto
qed

lemma approver_stored:
  assumes "recording (record_execution_approved rt itf now (VInt n) h reason) a = Inr b" "synced (store a)"
  shows "py_eq (approved_by_id (row (store b))) (VInt n) \<and> synced (store b)"
proof -
  let ?e = "ExecutionApproved (VInt n) h (VTime now) reason"
  from assms(1) obtain s' where s': "append_and_project rt itf (store a) ?e = Inr s'" "b = a\<lparr>store := s'\<rparr>"
    by (cases "append_and_project rt itf (store a) ?e") (auto simp: recording_def record_execution_approved_def)
  obtain us r e' where eff: "s' = write_projection (store a\<lparr>events := events (store a) @ us @ [r]\<rparr>)
      (apply_event rt (from_execution (obj (store a))) e')"
    "own_from_data rt (persistable_failure_event ?e) (ev_data r) = Inr e'"
    using append_effect [OF s'(1)] by blast
  from append_last_event [OF s'(1)] eff(1) have d: "ev_data r = redact_event_data rt [] (event_data ?e)" by auto
  have w: "\<forall>n \<in> set [''status'', ''approved_by_id'', ''snapshot_hash'', ''decided_at'', ''reason'']. list_all word_char n"
    and k: "\<not> is_sensitive_key ''approved_by_id''" "lower ''approved_by_id'' \<notin> set BOOLEAN_POLICY_KEYS" by code_simp+
  have "dget (ev_data r) ''approved_by_id'' = VInt n"
    unfolding d by (subst redact_plain_lookup, simp_all only: MAX_EVENT_DICT_ITEMS_def event_data.simps)
      (use w k in \<open>auto simp: status_entry_def str_entry_def redact_plain_int\<close>)
  with eff(2) obtain h' t' r' where "e' = ExecutionApproved (VInt n) h' t' r'"
    by (auto simp: from_record_def EVENT_TYPES_def approved_from_data_def)
  with eff(1) s'(2) assms(2) show ?thesis
    by (auto simp: row_write_projection synced_write synced_fields)
qed

lemma queued_keeps_approver:
  assumes "recording (record_execution_queued rt itf) b = Inr a'" "synced (store b)"
  shows "approved_by_id (row (store a')) = approved_by_id (row (store b))"
proof -
  let ?e = "ExecutionQueued (requested_by_id (obj (store b)))"
  from assms(1) obtain s' where s': "append_and_project rt itf (store b) ?e = Inr s'" "a' = b\<lparr>store := s'\<rparr>"
    by (cases "append_and_project rt itf (store b) ?e") (auto simp: recording_def record_execution_queued_def)
  obtain us r e' where eff: "s' = write_projection (store b\<lparr>events := events (store b) @ us @ [r]\<rparr>)
      (apply_event rt (from_execution (obj (store b))) e')"
    "own_from_data rt (persistable_failure_event ?e) (ev_data r) = Inr e'"
    using append_effect [OF s'(1)] by blast
  from eff(2) obtain u where "e' = ExecutionQueued u"
    by (auto simp: from_record_def EVENT_TYPES_def queued_from_data_def)
  with eff(1) s'(2) assms(2) show ?thesis by (auto simp: row_write_projection synced_fields)
qed

text \<open>
  Segregation of duties. An approval that does not carry the explicit self-approval
  permission succeeds only for an authenticated actor who is not the requester of the
  snapshot, only while the committed status is pending, and, when the current protected
  values are supplied, only if the snapshot still matches them; the approver is then the
  one the committed row names.
\<close>

theorem approver_is_not_requester:
  assumes "approve env (VInt approver) False (Some current) reason q a = Inr a'"
    and "synced (store a)"
  shows "\<exists>snap. approval a = Some snap \<and> ap_requested_by_id snap \<noteq> VInt approver \<and>
    matches_current (env_rt env) snap current \<and> status (row (store a)) = PENDING_APPROVAL \<and>
    py_eq (approved_by_id (row (store a'))) (VInt approver)"
proof -
  from assms(1) obtain snap :: approval_request where snap: "require_snapshot a = Inr snap"
    "require_distinct_actor (VInt approver) snap = Inr ()" "matches_current (env_rt env) snap current"
    and dec: "decide_from_pending (\<lambda>b.
         rbind (recording (record_execution_approved (env_rt env) (env_itf env 0) (env_now env) (VInt approver)
                  (ap_payload_hash snap) reason) b) (\<lambda>b'.
           if q then queue_after_approval_at env 1 b' else Inr b')) a = Inr a'"
    by (auto simp: approve_def rbind_Inr_iff)
  from decide_effect [OF dec assms(2)] obtain b where b: "status (row (store a)) = PENDING_APPROVAL"
    "recording (record_execution_approved (env_rt env) (env_itf env 0) (env_now env) (VInt approver) (ap_payload_hash snap) reason) a = Inr b"
    "(if q then queue_after_approval_at env 1 b else Inr b) = Inr a'"
    by (auto simp: rbind_Inr_iff)
  note st = approver_stored [OF b(2) assms(2)]
  have "approved_by_id (row (store a')) = approved_by_id (row (store b))"
  proof (cases q)
    case True
    with b(3) have "recording (record_execution_queued (env_rt env) (env_itf env 1)) b = Inr a'"
      by (simp add: queue_after_approval_at_def require_status_def guard_def split: if_splits)
    with queued_keeps_approver st show ?thesis by blast
  qed (use b(3) in simp)
  moreover from snap(1) have "approval a = Some snap" by (simp add: require_snapshot_def split: option.splits)
  moreover have "ap_requested_by_id snap \<noteq> VInt approver"
    using snap(2) by (auto simp: require_distinct_actor_def rbind_Inr_iff)
  ultimately show ?thesis using snap(3) b(1) st by auto
qed

definition stamped_aggregate :: aggregate where
  "stamped_aggregate = pending_aggregate\<lparr>approval :=
     Some (sample_approval\<lparr>ap_payload_hash := compute_hash plain_rt sample_approval\<rparr>)\<rparr>"

theorem approver_is_not_requester_witness:
  "\<exists>a'. approve quiet_env (VInt 9) False (Some (protected_payload sample_approval)) '''' False stamped_aggregate = Inr a' \<and>
     (\<exists>snap. approval stamped_aggregate = Some snap \<and> ap_requested_by_id snap \<noteq> VInt 9 \<and>
        matches_current (env_rt quiet_env) snap (protected_payload sample_approval) \<and>
        status (row (store stamped_aggregate)) = PENDING_APPROVAL \<and> py_eq (approved_by_id (row (store a'))) (VInt 9))"
proof -
  let ?snap = "sample_approval\<lparr>ap_payload_hash := compute_hash plain_rt sample_approval\<rparr>"
  have st: "store stamped_aggregate = store pending_aggregate" "approval stamped_aggregate = Some ?snap"
    by (simp_all add: stamped_aggregate_def)
  have c: "contiguous (events (store stamped_aggregate))" "synced (store stamped_aggregate)"
    by (simp_all add: st pending_store)
  obtain a' where a': "recording (record_execution_approved plain_rt [] noon (VInt 9) (ap_payload_hash ?snap) '''')
      stamped_aggregate = Inr a'"
    using recording_succeeds [OF c(1) record_execution_approved_def
        [of plain_rt "[]" noon "VInt 9" "ap_payload_hash ?snap" "''''"]] by blast
  have same: "stamped_aggregate\<lparr>store := (store stamped_aggregate)\<lparr>obj := (obj (store stamped_aggregate))\<lparr>status := PENDING_APPROVAL\<rparr>\<rparr>\<rparr>
     = stamped_aggregate" by (simp add: stamped_aggregate_def pending_aggregate_def)
  have "scoped (protected_payload sample_approval) = protected_payload sample_approval"
    by (simp add: scoped_def protected_payload_def PROTECTED_FIELDS_def)
  then have m: "matches_current plain_rt ?snap (protected_payload sample_approval)"
    by (simp add: matches_current_def compute_hash_def compute_approval_snapshot_hash_def plain_rt_def)
  have by7: "ap_requested_by_id ?snap = VInt 7" by (simp add: sample_approval_def)
  have "int_str 9 \<noteq> int_str 7" by (simp add: int_str_def)
  then have "approve quiet_env (VInt 9) False (Some (protected_payload sample_approval)) '''' False stamped_aggregate = Inr a'"
    using a' m by7
    by (simp add: approve_def require_snapshot_def require_distinct_actor_def decide_from_pending_def st pending_store
        quiet_env_def same [unfolded st])
  from approver_is_not_requester [OF this c(2)] this show ?thesis by blast
qed


section \<open>Reachable executions\<close>

text \<open>
  The executions the program can reach: a new row, the operations of the aggregate (each on
  an object read from the committed row, calls on one execution serialised), and the
  creation of the one snapshot.
\<close>

inductive reachable :: "aggregate \<Rightarrow> bool" where
  new: "live rt s \<Longrightarrow> events s = [] \<Longrightarrow> reachable \<lparr>store = s, approval = None\<rparr>"
| operation: "reachable a \<Longrightarrow> env_itf env = (\<lambda>_. []) \<Longrightarrow> run_op env op a = Inr a' \<Longrightarrow> reachable a'"
| snapshot: "reachable a \<Longrightarrow> approval a = None \<Longrightarrow> reachable (a\<lparr>approval := Some snap\<rparr>)"

definition gated :: "aggregate \<Rightarrow> bool" where
  "gated a \<longleftrightarrow> events (store a) \<noteq> [] \<and> ev_event (hd (events (store a))) = ''ExecutionRequested''"

definition approved_in_ledger :: "aggregate \<Rightarrow> bool" where
  "approved_in_ledger a \<longleftrightarrow> ''ExecutionApproved'' \<in> set (map ev_event (events (store a)))"


text \<open>Rows added without interference: which names they may have.\<close>

definition adds :: "aggregate \<Rightarrow> (string \<Rightarrow> bool) \<Rightarrow> string set \<Rightarrow> aggregate \<Rightarrow> bool" where
  "adds a ok must a' \<longleftrightarrow> contiguous (events (store a')) \<and>
     (\<exists>rs. events (store a') = events (store a) @ rs \<and> (\<forall>r \<in> set rs. ok (ev_event r)) \<and> must \<subseteq> set (map ev_event rs))"

lemma adds_mono: "adds a ok must a' \<Longrightarrow> (\<And>n. ok n \<Longrightarrow> ok' n) \<Longrightarrow> must' \<subseteq> must \<Longrightarrow> adds a ok' must' a'"
  unfolding adds_def by blast

lemma adds_events: "events (store b) = events (store a) \<Longrightarrow> adds b ok must c = adds a ok must c"
  by (simp add: adds_def)

lemma adds_trans: "adds a ok must a' \<Longrightarrow> adds a' ok must' a'' \<Longrightarrow> adds a ok must a''"
  unfolding adds_def by fastforce

lemma append_adds:
  assumes "append_and_project rt [] s e = Inr s'" "contiguous (events s)"
  shows "\<exists>r. events s' = events s @ [r] \<and> ev_event r = event_name e \<and> contiguous (events s')"
proof -
  obtain r e' where "append_and_project rt [] s e =
      Inr (write_projection (s\<lparr>events := events s @ [r]\<rparr>) (apply_event rt (from_execution (obj s)) e'))"
    "ev_event r = event_name e" "contiguous (events s @ [r])"
    by (rule append_and_project_undisturbed [OF assms(2)])
  with assms(1) show ?thesis by auto
qed

lemma recording_adds:
  assumes "recording f a = Inr a'" "\<And>s. f s = append_and_project rt [] s (e s)" "contiguous (events (store a))"
  shows "adds a (\<lambda>n. n = event_name (e (store a))) {event_name (e (store a))} a'"
proof -
  from assms(1,2) obtain s' where s': "append_and_project rt [] (store a) (e (store a)) = Inr s'" "a' = a\<lparr>store := s'\<rparr>"
    by (cases "append_and_project rt [] (store a) (e (store a))") (auto simp: recording_def)
  from append_adds [OF s'(1) assms(3)] s'(2) show ?thesis by (auto simp: adds_def)
qed

lemma append_all_adds:
  assumes "append_all rt (\<lambda>_. []) k s es = Inr s'" "contiguous (events s)"
  shows "\<exists>rs. events s' = events s @ rs \<and> map ev_event rs = map event_name es \<and> contiguous (events s')"
  using assms
proof (induction es arbitrary: k s)
  case (Cons e es)
  from Cons.prems(1) obtain s1 where s1: "append_and_project rt [] s e = Inr s1" "append_all rt (\<lambda>_. []) (Suc k) s1 es = Inr s'"
    by (auto simp: rbind_Inr_iff)
  from append_adds [OF s1(1) Cons.prems(2)] obtain r where
    r: "events s1 = events s @ [r]" "ev_event r = event_name e" "contiguous (events s1)" by blast
  from Cons.IH [OF s1(2) r(3)] obtain rs where
    "events s' = events s1 @ rs" "map ev_event rs = map event_name es" "contiguous (events s')" by blast
  with r show ?case by (intro exI [of _ "r # rs"]) simp
qed simp

lemma progress_not_requested: "event_name (backend_progress_event item) \<noteq> ''ExecutionRequested''"
  by (simp add: backend_progress_event_def BACKEND_EVENT_PREFIX_def)

lemma response_adds:
  assumes "recording (\<lambda>s. record_backend_response rt validate (\<lambda>_. []) now s response) a = Inr a'"
    "contiguous (events (store a))"
  shows "adds a (\<lambda>n. n \<noteq> ''ExecutionRequested'') {} a'"
proof -
  from assms(1) obtain s' where s': "record_backend_response rt validate (\<lambda>_. []) now (store a) response = Inr s'" "a' = a\<lparr>store := s'\<rparr>"
    by (cases "record_backend_response rt validate (\<lambda>_. []) now (store a) response") (auto simp: recording_def)
  from s'(1) obtain s1 f where
    s1: "s1 = store a \<or> record_backend_progress_events rt (\<lambda>_. []) (store a) response = Inr s1"
    and t: "record_backend_terminal_event rt [] s1 (response_outcome (obj (store a)) response f)
       (response_mismatch rt validate (obj (store a)) response) (VTime now) = Inr s'"
    unfolding record_backend_response_def Let_def by (auto simp: rbind_Inr_iff split: if_splits)
  have "\<exists>rs. events s1 = events (store a) @ rs \<and> (\<forall>r \<in> set rs. ev_event r \<noteq> ''ExecutionRequested'') \<and> contiguous (events s1)"
  proof (cases "s1 = store a")
    case False
    with s1 have "append_all rt (\<lambda>_. []) 0 (store a) (map backend_progress_event (progress_items response)) = Inr s1"
      by (simp add: record_backend_progress_events_def)
    from append_all_adds [OF this assms(2)] obtain rs where
      rs: "events s1 = events (store a) @ rs" "contiguous (events s1)"
      "map ev_event rs = map event_name (map backend_progress_event (progress_items response))" by blast
    have "ev_event r \<noteq> ''ExecutionRequested''" if "r \<in> set rs" for r
    proof -
      from that have "ev_event r \<in> set (map ev_event rs)" by simp
      then obtain x where "ev_event r = event_name (backend_progress_event x)" unfolding rs(3) by auto
      then show ?thesis using progress_not_requested by simp
    qed
    with rs show ?thesis by blast
  qed (use assms(2) in simp)
  then obtain rs where rs: "events s1 = events (store a) @ rs" "\<forall>r \<in> set rs. ev_event r \<noteq> ''ExecutionRequested''"
    "contiguous (events s1)" by blast
  from append_adds [OF t [unfolded record_backend_terminal_event_def] rs(3)] obtain r where
    r: "events s' = events s1 @ [r]" "ev_event r \<in> {''ExecutionSucceeded'', ''ExecutionFailed''}" "contiguous (events s')"
    using terminal_name(1) by metis
  then have "ev_event r \<noteq> ''ExecutionRequested''" by auto
  with r(1,3) rs(1,2) s'(2) show ?thesis
    by (simp add: adds_def)
qed


lemma approve_adds:
  assumes "approve env u allow cur reason q a = Inr a'" "env_itf env = (\<lambda>_. [])" "contiguous (events (store a))"
  shows "adds a (\<lambda>n. n \<noteq> ''ExecutionRequested'') {''ExecutionApproved''} a'"
proof -
  let ?b = "a\<lparr>store := (store a)\<lparr>obj := (obj (store a))\<lparr>status := status (row (store a))\<rparr>\<rparr>\<rparr>"
  from assms(1) obtain snap :: approval_request where "decide_from_pending (\<lambda>b.
         rbind (recording (record_execution_approved (env_rt env) (env_itf env 0) (env_now env) u
                  (ap_payload_hash snap) reason) b) (\<lambda>b'.
           if q then queue_after_approval_at env 1 b' else Inr b')) a = Inr a'"
    unfolding approve_def rbind_Inr_iff by blast
  then obtain b where b:
    "recording (record_execution_approved (env_rt env) [] (env_now env) u (ap_payload_hash snap) reason) ?b = Inr b"
    "(if q then queue_after_approval_at env 1 b else Inr b) = Inr a'"
    by (auto simp: decide_from_pending_def Let_def rbind_Inr_iff assms(2))
  have "adds ?b (\<lambda>n. n = ''ExecutionApproved'') {''ExecutionApproved''} b"
    using recording_adds [OF b(1) record_execution_approved_def] assms(3) by simp
  then have "adds a (\<lambda>n. n = ''ExecutionApproved'') {''ExecutionApproved''} b"
    by (subst (asm) adds_events [of ?b a]) simp_all
  then have e: "adds a (\<lambda>n. n \<noteq> ''ExecutionRequested'') {''ExecutionApproved''} b"
    by (rule adds_mono) simp_all
  show ?thesis
  proof (cases q)
    case True
    with b(2) have "recording (record_execution_queued (env_rt env) []) b = Inr a'"
      by (simp add: queue_after_approval_at_def require_status_def guard_def assms(2) split: if_splits)
    from recording_adds [OF this record_execution_queued_def] e
    have "adds b (\<lambda>n. n = ''ExecutionQueued'') {''ExecutionQueued''} a'" by (simp add: adds_def)
    then have "adds b (\<lambda>n. n \<noteq> ''ExecutionRequested'') {} a'" by (rule adds_mono) simp_all
    with e show ?thesis by (rule adds_trans)
  qed (use b(2) e in simp)
qed

lemma quiet_op_adds:
  assumes "run_op env op a = Inr a'" "env_itf env = (\<lambda>_. [])" "contiguous (events (store a))" "\<forall>u. op \<noteq> OpRequest u"
  shows "adds a (\<lambda>n. n \<noteq> ''ExecutionRequested'') {} a'"
proof -
  have ra: "adds a (\<lambda>n. n \<noteq> ''ExecutionRequested'') {} a'"
    if "recording f b = Inr a'" "\<And>s. f s = append_and_project rt [] s (e s)" "events (store b) = events (store a)"
      "event_name (e (store b)) \<noteq> ''ExecutionRequested''" for f rt e b
  proof -
    have "adds b (\<lambda>n. n = event_name (e (store b))) {event_name (e (store b))} a'"
      using recording_adds [OF that(1,2)] assms(3) that(3) by simp
    then have "adds a (\<lambda>n. n = event_name (e (store b))) {event_name (e (store b))} a'"
      by (simp only: adds_events [OF that(3)])
    then show ?thesis by (rule adds_mono) (use that(4) in simp_all)
  qed
  note i = assms(2)
  note defs = queue_def queue_after_approval_def queue_after_approval_at_def enqueue_def start_def normalize_def
    agg_record_backend_response_def agg_record_dispatch_lease_issued_def succeed_def fail_def cancel_def
    request_approval_def reject_def expire_def decide_from_pending_def Let_def guard_defs rbind_Inr_iff i
  show ?thesis
  proof (cases op)
    case (OpApprove u allow cur reason q)
    from approve_adds [OF assms(1) [unfolded OpApprove run_op.simps] i assms(3)] show ?thesis
      by (rule adds_mono) simp_all
  next
    case (OpBackendResponse r)
    with assms(1) show ?thesis
      by (auto simp: agg_record_backend_response_def guard_defs rbind_Inr_iff i intro: response_adds [OF _ assms(3)])
  next
    case OpQueue
    with assms(1) show ?thesis by (auto simp: defs intro!: ra [OF _ record_execution_queued_def])
  next
    case OpQueueAfterApproval
    with assms(1) show ?thesis by (auto simp: defs intro!: ra [OF _ record_execution_queued_def])
  next
    case (OpEnqueue j)
    with assms(1) show ?thesis by (auto simp: defs intro!: ra [OF _ record_execution_enqueued_def])
  next
    case OpStart
    with assms(1) show ?thesis by (auto simp: defs intro!: ra [OF _ mark_execution_running_def])
  next
    case (OpNormalize p h)
    with assms(1) show ?thesis by (auto simp: defs intro!: ra [OF _ record_execution_normalized_def])
  next
    case (OpLeaseIssued n k kv sv au ex ev)
    with assms(1) show ?thesis by (auto simp: defs intro!: ra [OF _ record_dispatch_lease_issued_def])
  next
    case (OpSucceed r)
    with assms(1) show ?thesis by (auto simp: defs intro!: ra [OF _ record_execution_succeeded_def])
  next
    case (OpFail m c)
    with assms(1) show ?thesis by (auto simp: defs intro!: ra [OF _ mark_execution_failed_def])
  next
    case (OpCancel u)
    with assms(1) show ?thesis by (auto simp: defs intro!: ra [OF _ record_execution_cancelled_def])
  next
    case (OpRequestApproval h ex u)
    with assms(1) show ?thesis by (auto simp: defs intro!: ra [OF _ record_approval_requested_def])
  next
    case (OpReject u reason)
    with assms(1) show ?thesis by (auto simp: defs intro!: ra [OF _ record_execution_rejected_def])
  next
    case (OpExpire reason)
    with assms(1) show ?thesis by (auto simp: defs intro!: ra [OF _ record_execution_expired_def])
  qed (use assms(4) in simp)
qed


lemma request_needs_new: "run_op env (OpRequest u) a = Inr a' \<Longrightarrow> events (store a) = []"
  by (auto simp: request_def require_no_events_def rbind_Inr_iff)

definition gate_invariant :: "aggregate \<Rightarrow> bool" where
  "gate_invariant a \<longleftrightarrow> synced (store a) \<and> contiguous (events (store a)) \<and>
     (gated a \<and> status (row (store a)) \<in> {APPROVED, QUEUED, RUNNING} \<longrightarrow> approved_in_ledger a)"

lemma ledger_grows:
  assumes "events (store a') = events (store a) @ rs"
  shows "approved_in_ledger a \<Longrightarrow> approved_in_ledger a'" "events (store a) \<noteq> [] \<Longrightarrow> gated a' = gated a"
  using assms by (auto simp: approved_in_ledger_def gated_def)

text \<open>Every operation keeps the invariant.\<close>

lemma gate_step:
  assumes "gate_invariant a" "env_itf env = (\<lambda>_. [])" "run_op env op a = Inr a'"
  shows "gate_invariant a'"
proof -
  from assms(1) have s: "synced (store a)" "contiguous (events (store a))" by (simp_all add: gate_invariant_def)
  from run_op_effect [OF assms(3) s(1)] have eff: "synced (store a')"
    "status (row (store a')) \<in> allowed_next op (status (row (store a)))" by (simp_all add: op_effect_def)
  show ?thesis
  proof (cases "\<exists>u. op = OpRequest u")
    case True
    then obtain u where u: "op = OpRequest u" by blast
    from assms(2,3) u have "recording (record_execution_requested (env_rt env) [] u) a = Inr a'"
      by (auto simp: request_def guard_defs rbind_Inr_iff)
    from recording_adds [OF this record_execution_requested_def s(2)] have "contiguous (events (store a'))"
      by (simp add: adds_def)
    with eff u show ?thesis by (simp add: gate_invariant_def)
  next
    case False
    then obtain rs where rs: "events (store a') = events (store a) @ rs" "\<forall>r \<in> set rs. ev_event r \<noteq> ''ExecutionRequested''"
      "contiguous (events (store a'))"
      using quiet_op_adds [OF assms(3,2) s(2)] by (auto simp: adds_def)
    have "approved_in_ledger a'" if g: "gated a'" "status (row (store a')) \<in> {APPROVED, QUEUED, RUNNING}"
    proof (cases "\<exists>u allow cur reason q. op = OpApprove u allow cur reason q")
      case True
      with assms(3) approve_adds [OF _ assms(2) s(2)] have "adds a (\<lambda>n. n \<noteq> ''ExecutionRequested'') {''ExecutionApproved''} a'"
        by auto
      then show ?thesis by (auto simp: adds_def approved_in_ledger_def)
    next
      case not_approve: False
      have ne: "events (store a) \<noteq> []"
      proof
        assume "events (store a) = []"
        with g(1) rs show False by (cases rs) (auto simp: gated_def)
      qed
      from g(2) eff(2) False not_approve have "status (row (store a)) \<in> {APPROVED, QUEUED, RUNNING}"
        by (cases op) (auto split: if_splits)
      with assms(1) g(1) ledger_grows [OF rs(1)] ne show ?thesis by (simp add: gate_invariant_def)
    qed
    with eff rs show ?thesis by (simp add: gate_invariant_def)
  qed
qed

lemma reachable_gate: "reachable a \<Longrightarrow> gate_invariant a"
proof (induction rule: reachable.induct)
  case (new rt s)
  then show ?case by (auto simp: gate_invariant_def live_def gated_def)
next
  case (operation a env op a')
  from operation.IH operation.hyps(2,3) show ?case by (rule gate_step)
next
  case (snapshot a snap)
  then show ?case by (simp add: gate_invariant_def gated_def approved_in_ledger_def)
qed

text \<open>
  C3: An approval-gated execution never runs without an approval. In every reachable state
  whose ledger begins with \<open>ExecutionRequested\<close>, an approved, queued or running status
  means that the ledger holds an \<open>ExecutionApproved\<close> event.
\<close>

theorem gated_execution_runs_only_approved:
  assumes "reachable a" and "events (store a) = r # rs" and "ev_event r = ''ExecutionRequested''"
    and "status (row (store a)) \<in> {APPROVED, QUEUED, RUNNING}"
  shows "''ExecutionApproved'' \<in> set (map ev_event rs)"
proof -
  have "approved_in_ledger a"
    using reachable_gate [OF assms(1)] assms(2-4) by (auto simp: gate_invariant_def gated_def)
  with assms(2,3) show ?thesis by (auto simp: approved_in_ledger_def)
qed

lemma gated_run:
  "\<exists>a r rs. reachable a \<and> events (store a) = r # rs \<and> ev_event r = ''ExecutionRequested'' \<and> status (row (store a)) = APPROVED"
proof -
  have q: "env_itf quiet_env = (\<lambda>_. [])" by (simp add: quiet_env_def)
  have l: "live plain_rt (store fresh_aggregate)" "events (store fresh_aggregate) = []" "approval fresh_aggregate = None"
    by (simp_all add: fresh_aggregate_def fresh_store_live) (simp add: fresh_store_def)
  have f: "reachable fresh_aggregate"
    using reachable.new [OF fresh_store_live [of plain_rt]] by (simp add: fresh_aggregate_def fresh_store_def)
  obtain a1 where a1: "recording (record_execution_requested plain_rt [] (VInt 7)) fresh_aggregate = Inr a1"
    "live plain_rt (store a1)" "status (row (store a1)) = REQUESTED" "approval a1 = None"
    using recording_quiet [OF l(1) record_execution_requested_def [of plain_rt "[]" "VInt 7"]] l(3) by (auto simp: proper_name_def)
  have r1: "run_op quiet_env (OpRequest (VInt 7)) fresh_aggregate = Inr a1"
    using a1(1) l(2) by (simp add: request_def require_no_events_def quiet_env_def)
  from recording_adds [OF a1(1) record_execution_requested_def] l(1) have
    ad: "adds fresh_aggregate (\<lambda>n. n = ''ExecutionRequested'') {''ExecutionRequested''} a1" by (simp add: live_def)
  then obtain r rs where e1: "events (store a1) = r # rs" "ev_event r = ''ExecutionRequested''"
    by (cases "events (store a1)") (auto simp: adds_def l(2))
  let ?a2 = "a1\<lparr>approval := Some sample_approval\<rparr>"
  have r2: "reachable ?a2" by (rule reachable.snapshot [OF reachable.operation [OF f q r1] a1(4)])
  have l2: "live plain_rt (store ?a2)" using a1(2) by simp
  obtain a3 where a3: "recording (record_approval_requested plain_rt [] ''h'' VNone (VInt 7)) ?a2 = Inr a3"
    "live plain_rt (store a3)" "status (row (store a3)) = PENDING_APPROVAL" "approval a3 = Some sample_approval"
    using recording_quiet [OF l2 record_approval_requested_def [of plain_rt "[]" "''h''" VNone "VInt 7"]]
    by (auto simp: proper_name_def)
  have r3: "run_op quiet_env (OpRequestApproval ''h'' VNone (VInt 7)) ?a2 = Inr a3"
    using a3(1) a1(2,3) synced_status by (simp add: request_approval_def guard_defs quiet_env_def live_def)
  note reach3 = reachable.operation [OF r2 q r3]
  from quiet_op_adds [OF r3 q] l2 obtain us where e3: "events (store a3) = r # rs @ us"
    by (auto simp: adds_def live_def e1)
  have s3: "status (obj (store a3)) = PENDING_APPROVAL" using a3(2,3) synced_status by (simp add: live_def)
  obtain a4 where a4: "recording (record_execution_approved plain_rt [] noon (VInt 9) (ap_payload_hash sample_approval) '''') a3 = Inr a4"
    "live plain_rt (store a4)" "status (row (store a4)) = APPROVED"
    using recording_quiet [OF a3(2) record_execution_approved_def [of plain_rt "[]" noon "VInt 9" "ap_payload_hash sample_approval" "''''"]]
    by (auto simp: proper_name_def)
  have "a3\<lparr>store := (store a3)\<lparr>obj := (obj (store a3))\<lparr>status := PENDING_APPROVAL\<rparr>\<rparr>\<rparr> = a3"
    using s3 by (simp flip: s3)
  moreover have "int_str 9 \<noteq> int_str 7" by (simp add: int_str_def)
  moreover have "ap_requested_by_id sample_approval = VInt 7" by (simp add: sample_approval_def)
  ultimately have r4: "run_op quiet_env (OpApprove (VInt 9) False None '''' False) a3 = Inr a4"
    using a4(1) a3(3,4)
    by (simp add: approve_def require_snapshot_def require_distinct_actor_def decide_from_pending_def quiet_env_def)
  from quiet_op_adds [OF r4 q] a3(2) obtain vs where "events (store a4) = r # rs @ us @ vs"
    by (auto simp: adds_def live_def e3)
  with reachable.operation [OF reach3 q r4] a4(3) e1(2) show ?thesis by blast
qed

theorem gated_execution_runs_only_approved_witness:
  "\<exists>a r rs. reachable a \<and> events (store a) = r # rs \<and> ev_event r = ''ExecutionRequested'' \<and>
     status (row (store a)) \<in> {APPROVED, QUEUED, RUNNING} \<and> ''ExecutionApproved'' \<in> set (map ev_event rs)"
proof -
  from gated_run obtain a r rs where g: "reachable a" "events (store a) = r # rs" "ev_event r = ''ExecutionRequested''"
    "status (row (store a)) = APPROVED" by blast
  then have "status (row (store a)) \<in> {APPROVED, QUEUED, RUNNING}" by simp
  from gated_execution_runs_only_approved [OF g(1-3) this] g this show ?thesis by blast
qed

end
