(* ===== verification/Procedure.thy ===== *)
theory Procedure
  imports CanonicalJson Catalog
begin

text \<open>
  The catalog rows of \<open>netbox_rpc/models.py\<close> that the capability handshake, the dispatch
  lease and the transport policy read: a procedure and its command steps. JSON columns are
  \<^typ>\<open>pyval\<close>, the array column is a list of texts, the positive integer columns are \<open>int\<close>.
\<close>

record procedure_command =
  cmd_sequence :: int
  cmd_step_type :: string
  cmd_device_cli_mode :: string
  cmd_argv :: pyval
  cmd_description :: string
  cmd_condition_param :: string
  cmd_condition_negate :: bool
  cmd_for_each_param :: string
  cmd_continue_on_error :: bool
  cmd_render_mode :: string
  cmd_produces_var :: string
  cmd_capture_kind :: string
  cmd_capture_expression :: string

record rpc_procedure =
  proc_pk :: int
  proc_name :: string
  proc_handler_id :: string
  proc_version :: int
  proc_enabled :: bool
  proc_target_models :: "string list"
  proc_effect :: string
  proc_timeout_seconds :: int
  proc_approval_required :: bool
  proc_params_schema :: pyval
  proc_result_schema :: pyval
  proc_transport_driver :: string
  proc_transport_pinned :: bool
  proc_transport_driver_chain :: "string list"
  proc_output_parser :: string
  proc_output_schema :: pyval
  proc_description :: string
  proc_commands :: "procedure_command list"

text \<open>\<open>int(procedure.version or 1)\<close>.\<close>

definition version_or_one :: "rpc_procedure \<Rightarrow> int" where
  "version_or_one p = (if proc_version p = 0 then 1 else proc_version p)"

definition sample_command :: procedure_command where
  "sample_command = \<lparr>cmd_sequence = 1, cmd_step_type = ''shell_argv'', cmd_device_cli_mode = [],
     cmd_argv = VList [VStr ''uptime''], cmd_description = [], cmd_condition_param = [], cmd_condition_negate = False,
     cmd_for_each_param = [], cmd_continue_on_error = False, cmd_render_mode = ''literal'',
     cmd_produces_var = [], cmd_capture_kind = [], cmd_capture_expression = []\<rparr>"

definition sample_procedure :: rpc_procedure where
  "sample_procedure = \<lparr>proc_pk = 7, proc_name = ''os.linux.uptime'', proc_handler_id = ''os.linux.uptime'',
     proc_version = 1, proc_enabled = True, proc_target_models = [''dcim.device''], proc_effect = ''read'',
     proc_timeout_seconds = 30, proc_approval_required = False, proc_params_schema = VDict [],
     proc_result_schema = VDict [], proc_transport_driver = ''asyncssh'', proc_transport_pinned = False,
     proc_transport_driver_chain = [], proc_output_parser = ''none'', proc_output_schema = VDict [],
     proc_description = [], proc_commands = [sample_command]\<rparr>"

end
