(* ===== verification/Capability.thy ===== *)
theory Capability
  imports Procedure
begin

text \<open>
  The backend capability handshake of \<open>netbox_rpc/capabilities.py\<close>: the advertised
  manifest, the command contract hash, the cached fetch and the verification of a
  procedure, with the \<open>semantic_capability_extension\<close> functions of the contract modules
  the hash dispatches to.

  Parameters: SHA-256 is \<^const>\<open>rt_sha256\<close> of the canonical text; the large constant
  tables of the contract modules are the record \<open>contract_tables\<close>; \<open>json.loads\<close> and the
  type coercion of Pydantic are the record \<open>manifest_reader\<close> (the field constraints are
  the source's own and are checked here); \<open>requests.get\<close> is a function from the moment and
  the target to what the backend sends. Time is \<open>time.monotonic()\<close> in nanoseconds.
\<close>

definition SUPPORTED_ENVELOPE_VERSIONS :: "int list" where
  "SUPPORTED_ENVELOPE_VERSIONS = [1]"

definition MAX_MANIFEST_BYTES :: nat where
  "MAX_MANIFEST_BYTES = 512 * 1024"

definition MAX_HANDLERS :: nat where
  "MAX_HANDLERS = 2000"

definition CACHE_TTL_SECONDS :: int where
  "CACHE_TTL_SECONDS = 30"

definition SEMANTIC_CAPABILITY_HANDLER_IDS :: "string list" where
  "SEMANTIC_CAPABILITY_HANDLER_IDS =
     [''service.gitea.production.upgrade_1_27_1'', ''service.gitea.runner.register'',
      ''service.gitea.actions_runner.provision_org_ci_runner'',
      ''service.gitea.actions_runner.protected_pair.prove'',
      ''service.gitea.actions_runner.protected_pair.provision'',
      ''service.gitea.actions_runner.diagnose_user_ci_runner'',
      ''service.gitea.actions_runner.recover_user_ci_runner'',
      ''service.gitea.actions_runner.diagnose_org_ci_runner'',
      ''service.gitea.actions_runner.recover_org_ci_runner'',
      ''service.netbox.staging.deploy_dns_pair'']"

datatype capability_status = COMPATIBLE | MISMATCH | UNKNOWN

definition capability_status_value :: "capability_status \<Rightarrow> string" where
  "capability_status_value s = (case s of COMPATIBLE \<Rightarrow> ''compatible'' | MISMATCH \<Rightarrow> ''mismatch'' | UNKNOWN \<Rightarrow> ''unknown'')"

record HandlerCapability =
  hc_handler_id :: string
  hc_version :: int
  hc_effect :: string
  hc_contract_hash :: string
  hc_compatible_contract_hashes :: "string list"

record BackendCapabilityManifest =
  mf_envelope_version :: int
  mf_credential_reference_versions :: "int list"
  mf_credential_provider_versions :: "(string \<times> int list) list"
  mf_dispatch_lease_versions :: "int list"
  mf_handlers :: "HandlerCapability list"

text \<open>The declared field constraints.\<close>

definition handler_constraints :: "HandlerCapability \<Rightarrow> bool" where
  "handler_constraints h \<longleftrightarrow>
     length (hc_handler_id h) \<le> 255 \<and> 0 \<le> hc_version h \<and> length (hc_effect h) \<le> 20
     \<and> length (hc_contract_hash h) \<le> 128 \<and> length (hc_compatible_contract_hashes h) \<le> 8"

definition CredentialCapabilityVersions :: "int list \<Rightarrow> bool" where
  "CredentialCapabilityVersions vs \<longleftrightarrow> length vs \<le> 8 \<and> list_all (\<lambda>v. 1 \<le> v \<and> v \<le> 255) vs"

definition manifest_constraints :: "BackendCapabilityManifest \<Rightarrow> bool" where
  "manifest_constraints m \<longleftrightarrow>
     0 \<le> mf_envelope_version m \<and> CredentialCapabilityVersions (mf_credential_reference_versions m)
     \<and> length (mf_credential_provider_versions m) \<le> 8
     \<and> list_all (\<lambda>(_, vs). CredentialCapabilityVersions vs) (mf_credential_provider_versions m)
     \<and> CredentialCapabilityVersions (mf_dispatch_lease_versions m)
     \<and> length (mf_handlers m) \<le> MAX_HANDLERS \<and> list_all handler_constraints (mf_handlers m)"

definition manifest_handler :: "BackendCapabilityManifest \<Rightarrow> string \<Rightarrow> HandlerCapability option" where
  "manifest_handler m i = List.find (\<lambda>h. hc_handler_id h = i) (mf_handlers m)"


section \<open>The command contract hash\<close>

definition command_payload :: "procedure_command \<Rightarrow> pyval list \<Rightarrow> pyval" where
  "command_payload c argv = VDict
     [(''sequence'', VInt (cmd_sequence c)), (''step_type'', VStr (cmd_step_type c)),
      (''device_cli_mode'', VStr (cmd_device_cli_mode c)), (''argv'', VList argv),
      (''render_mode'', VStr (cmd_render_mode c)), (''produces_var'', VStr (cmd_produces_var c)),
      (''capture_kind'', VStr (cmd_capture_kind c)), (''capture_expression'', VStr (cmd_capture_expression c)),
      (''condition_param'', VStr (cmd_condition_param c)), (''condition_negate'', VBool (cmd_condition_negate c)),
      (''for_each_param'', VStr (cmd_for_each_param c)), (''continue_on_error'', VBool (cmd_continue_on_error c))]"

definition command_entry :: "procedure_command \<Rightarrow> pyexc + pyval" where
  "command_entry c = rbind (py_iter (py_or (cmd_argv c) (VList []))) (\<lambda>argv. Inr (command_payload c argv))"

definition base_command_contract_payload :: "rpc_procedure \<Rightarrow> pyexc + pydict" where
  "base_command_contract_payload p =
     rbind (rmap command_entry (sort_key cmd_sequence (proc_commands p))) (\<lambda>commands.
       Inr [(''handler_id'', VStr (proc_handler_id p)), (''version'', VInt (version_or_one p)),
            (''effect'', VStr (proc_effect p)), (''commands'', VList commands)])"

definition derive_legacy_command_contract_hash :: "python_rt \<Rightarrow> rpc_procedure \<Rightarrow> pyexc + string" where
  "derive_legacy_command_contract_hash rt p =
     rbind (base_command_contract_payload p) (\<lambda>payload. Inr (rt_sha256 rt (json_dumps (VDict payload))))"

text \<open>
  The tables of the contract modules: one fixed extension per handler of
  \<^const>\<open>SEMANTIC_CAPABILITY_HANDLER_IDS\<close>, and the schemas and the runtime description that the
  per-procedure extensions include, by module and procedure name.
\<close>

record contract_tables =
  ct_fixed :: "string \<Rightarrow> pyval"
  ct_normalized_params :: "string \<Rightarrow> (string \<times> pyval) list"
  ct_command_fingerprint :: "string \<Rightarrow> (string \<times> pyval) list"
  ct_runtime :: "string \<Rightarrow> pyval"

definition canonical_sha256 :: "python_rt \<Rightarrow> pyval \<Rightarrow> pyval" where
  "canonical_sha256 rt v = VStr (rt_sha256 rt (json_dumps v))"

definition or_empty_object :: "pyval \<Rightarrow> pyval" where
  "or_empty_object v = py_or v (VDict [])"

definition schema_digests :: "python_rt \<Rightarrow> rpc_procedure \<Rightarrow> pydict" where
  "schema_digests rt p =
     [(''output_schema_sha256'', canonical_sha256 rt (or_empty_object (proc_output_schema p))),
      (''params_schema_sha256'', canonical_sha256 rt (or_empty_object (proc_params_schema p))),
      (''result_schema_sha256'', canonical_sha256 rt (or_empty_object (proc_result_schema p)))]"

definition policy_fields :: "rpc_procedure \<Rightarrow> pydict" where
  "policy_fields p =
     [(''timeout_seconds'', VInt (proc_timeout_seconds p)),
      (''approval_required'', VBool (proc_approval_required p)),
      (''transport_driver'', VStr (proc_transport_driver p)),
      (''transport_pinned'', VBool (proc_transport_pinned p)),
      (''transport_driver_chain'', VList (map VStr (proc_transport_driver_chain p))),
      (''output_parser'', VStr (proc_output_parser p))]"

definition contract_digests :: "python_rt \<Rightarrow> contract_tables \<Rightarrow> string \<Rightarrow> string \<Rightarrow> pyexc + pydict" where
  "contract_digests rt ct module name =
     rbind (py_index (VDict (ct_normalized_params ct module)) name) (\<lambda>normalized.
     rbind (py_index (VDict (ct_command_fingerprint ct module)) name) (\<lambda>fingerprint.
       Inr [(''normalized_params_schema_sha256'', canonical_sha256 rt normalized),
            (''command_fingerprint_schema_sha256'', canonical_sha256 rt fingerprint)]))"

text \<open>The extension shared in shape by the NetBox worker and the two Akvorado contracts.\<close>

definition policy_extension :: "python_rt \<Rightarrow> contract_tables \<Rightarrow> string \<Rightarrow> rpc_procedure \<Rightarrow> pyexc + pyval" where
  "policy_extension rt ct module p =
     rbind (contract_digests rt ct module (proc_name p)) (\<lambda>digests. Inr (VDict
       [(''procedure_policy'', VDict ([(''name'', VStr (proc_name p)), (''description'', VStr (proc_description p)),
            (''target_models'', VList (map VStr (sort (proc_target_models p))))]
          @ policy_fields p @ schema_digests rt p @ digests)),
        (''runtime'', ct_runtime ct module)]))"

definition netbox_rq_semantic_extension :: "python_rt \<Rightarrow> contract_tables \<Rightarrow> rpc_procedure \<Rightarrow> pyexc + pyval" where
  "netbox_rq_semantic_extension rt ct p = policy_extension rt ct ''netbox_rq_worker'' p"

definition akvorado_semantic_capability_extension :: "python_rt \<Rightarrow> contract_tables \<Rightarrow> rpc_procedure \<Rightarrow> pyexc + pyval" where
  "akvorado_semantic_capability_extension rt ct p = policy_extension rt ct ''akvorado_bootstrap'' p"

definition lifecycle_semantic_capability_extension :: "python_rt \<Rightarrow> contract_tables \<Rightarrow> rpc_procedure \<Rightarrow> pyexc + pyval" where
  "lifecycle_semantic_capability_extension rt ct p = policy_extension rt ct ''akvorado_lifecycle'' p"

text \<open>The IAM contract reads the columns as they are: the target models keep their order and
  an empty schema is hashed as stored.\<close>

definition iam_ui_semantic_capability_extension :: "python_rt \<Rightarrow> contract_tables \<Rightarrow> rpc_procedure \<Rightarrow> pyexc + pyval" where
  "iam_ui_semantic_capability_extension rt ct p =
     rbind (contract_digests rt ct ''iam_ui'' (proc_name p)) (\<lambda>digests. Inr (VDict
       [(''procedure_policy'', VDict ([(''name'', VStr (proc_name p)), (''description'', VStr (proc_description p)),
            (''target_models'', VList (map VStr (proc_target_models p)))]
          @ policy_fields p
          @ [(''output_schema_sha256'', canonical_sha256 rt (proc_output_schema p)),
             (''params_schema_sha256'', canonical_sha256 rt (proc_params_schema p)),
             (''result_schema_sha256'', canonical_sha256 rt (proc_result_schema p))]
          @ digests)),
        (''runtime'', ct_runtime ct ''iam_ui'')]))"

definition SAMBA_INSTALLER_SHA256 :: string where
  "SAMBA_INSTALLER_SHA256 = ''df7a5fc827c56418e3b3b10320ed76c31395b87aa20a6bc5808ff2f0398caa0a''"

definition INSTALLER_MODES :: "string list" where
  "INSTALLER_MODES = [''confirm_firewall'', ''preflight'', ''provision'', ''provision_continue'',
     ''rollback_firewall'', ''verify'']"

definition protocol_contract :: pyval where
  "protocol_contract = VDict
     [(''stdin_version'', VInt 1), (''modes'', VList (map VStr (sort INSTALLER_MODES))),
      (''firewall_proof'', VStr ''fresh-ssh-connection-confirm-v1''),
      (''result'', VStr ''samba-ad-dc-result-v1'')]"

definition samba_semantic_extension :: "python_rt \<Rightarrow> rpc_procedure \<Rightarrow> pyval" where
  "samba_semantic_extension rt p = VDict
     [(''contract_version'', VInt 1), (''installer_sha256'', VStr SAMBA_INSTALLER_SHA256),
      (''protocol'', protocol_contract),
      (''procedure_policy'', VDict ([(''name'', VStr (proc_name p)),
            (''target_models'', VList (map VStr (sort (proc_target_models p)))), (''effect'', VStr (proc_effect p))]
          @ policy_fields p @ schema_digests rt p))]"

definition IAM_UI_HANDLER_IDS :: "string list" where
  "IAM_UI_HANDLER_IDS = map ((@) ''service.keycloak.iam_ui.'') [''inspect'', ''configure'', ''certificate'', ''activate'']"

definition SAMBA_AD_DC_HANDLER_IDS :: "string list" where
  "SAMBA_AD_DC_HANDLER_IDS = [''os.linux.ubuntu.26.samba_ad_dc.preflight'',
     ''os.linux.ubuntu.26.samba_ad_dc.provision'', ''os.linux.ubuntu.26.samba_ad_dc.verify'']"

definition AKVORADO_BOOTSTRAP_HANDLER_IDS :: "string list" where
  "AKVORADO_BOOTSTRAP_HANDLER_IDS = [''os.linux_debian_13.preflight_akvorado'', ''os.linux_debian_13.install_akvorado'']"

definition AKVORADO_LIFECYCLE_HANDLER_IDS :: "string list" where
  "AKVORADO_LIFECYCLE_HANDLER_IDS = [''service.akvorado.1.config_read'', ''service.akvorado.1.config_deploy'',
     ''service.akvorado.1.status_stack'', ''service.akvorado.1.restart_stack'']"

definition semantic_contract :: "python_rt \<Rightarrow> contract_tables \<Rightarrow> rpc_procedure \<Rightarrow> pyexc + pyval option" where
  "semantic_contract rt ct p =
     (let h = proc_handler_id p in
      if h \<in> set SEMANTIC_CAPABILITY_HANDLER_IDS then Inr (Some (ct_fixed ct h))
      else if h \<in> set IAM_UI_HANDLER_IDS then rbind (iam_ui_semantic_capability_extension rt ct p) (\<lambda>v. Inr (Some v))
      else if h \<in> set NETBOX_PRODUCTION_RQ_WORKER_PROCEDURE_NAMES then
        rbind (netbox_rq_semantic_extension rt ct p) (\<lambda>v. Inr (Some v))
      else if h \<in> set SAMBA_AD_DC_HANDLER_IDS then Inr (Some (samba_semantic_extension rt p))
      else if h \<in> set AKVORADO_BOOTSTRAP_HANDLER_IDS then
        rbind (akvorado_semantic_capability_extension rt ct p) (\<lambda>v. Inr (Some v))
      else if h \<in> set AKVORADO_LIFECYCLE_HANDLER_IDS then
        rbind (lifecycle_semantic_capability_extension rt ct p) (\<lambda>v. Inr (Some v))
      else Inr None)"

definition contract_payload :: "python_rt \<Rightarrow> contract_tables \<Rightarrow> rpc_procedure \<Rightarrow> pyexc + pydict" where
  "contract_payload rt ct p =
     rbind (base_command_contract_payload p) (\<lambda>payload.
     rbind (semantic_contract rt ct p) (\<lambda>ext. Inr (case ext of
         None \<Rightarrow> payload
       | Some v \<Rightarrow> dict_set ''semantic_contract'' v payload)))"

definition derive_command_contract_hash :: "python_rt \<Rightarrow> contract_tables \<Rightarrow> rpc_procedure \<Rightarrow> pyexc + string" where
  "derive_command_contract_hash rt ct p =
     rbind (contract_payload rt ct p) (\<lambda>payload. Inr (rt_sha256 rt (json_dumps (VDict payload))))"


section \<open>Fetching the manifest\<close>

record backend_target =
  bt_url :: string
  bt_headers :: "(string \<times> string) list"
  bt_verify_ssl :: bool

text \<open>What a request gives: a \<open>RequestException\<close>, or a status and the outcome of reading at
  most \<^const>\<open>MAX_MANIFEST_BYTES\<close> + 1 bytes of the body (an exception, \<open>None\<close>, or bytes).\<close>

datatype raw_body = ReadRaises | NoContent | Content string

datatype http_reply = RequestRaises | Reply int raw_body

record manifest_reader =
  mr_loads :: "string \<Rightarrow> pyval option"
  mr_coerce :: "pyval \<Rightarrow> BackendCapabilityManifest option"

definition model_validate :: "manifest_reader \<Rightarrow> pyval \<Rightarrow> BackendCapabilityManifest option" where
  "model_validate mr v = (case mr_coerce mr v of
       None \<Rightarrow> None
     | Some m \<Rightarrow> if manifest_constraints m then Some m else None)"

definition fetch_uncached :: "manifest_reader \<Rightarrow> http_reply \<Rightarrow> BackendCapabilityManifest option" where
  "fetch_uncached mr reply = (case reply of
       RequestRaises \<Rightarrow> None
     | Reply status_code raw \<Rightarrow>
         if status_code \<noteq> 200 then None
         else (case raw of
             ReadRaises \<Rightarrow> None
           | NoContent \<Rightarrow> None
           | Content content \<Rightarrow>
               if length content > MAX_MANIFEST_BYTES then None
               else (case mr_loads mr content of
                   None \<Rightarrow> None
                 | Some data \<Rightarrow> model_validate mr data)))"

type_synonym manifest_cache = "(string \<times> (int \<times> BackendCapabilityManifest option)) list"

type_synonym backend_network = "int \<Rightarrow> backend_target \<Rightarrow> http_reply"

definition base_url :: "backend_target \<Rightarrow> string" where
  "base_url t = rstrip_char CHR ''/'' (bt_url t)"

text \<open>The call \<open>fetch_backend_capabilities(target, use_cache=...)\<close> at a moment, on the module's
  cache; the result and the new cache.\<close>

definition fetch_backend_capabilities ::
  "manifest_reader \<Rightarrow> backend_network \<Rightarrow> int \<Rightarrow> bool \<Rightarrow> backend_target option \<Rightarrow> manifest_cache
     \<Rightarrow> BackendCapabilityManifest option \<times> manifest_cache" where
  "fetch_backend_capabilities mr net now use_cache target cache = (case target of
       None \<Rightarrow> (None, cache)
     | Some t \<Rightarrow>
         (let base = base_url t; fetched = fetch_uncached mr (net now t) in
          if base = [] then (None, cache)
          else (case (if use_cache then map_of cache base else None) of
              Some (at, manifest) \<Rightarrow>
                if now - at < CACHE_TTL_SECONDS * 10 ^ 9 then (manifest, cache)
                else (fetched, dict_set base (now, fetched) cache)
            | None \<Rightarrow> (fetched, dict_set base (now, fetched) cache))))"

definition clear_capability_cache :: "manifest_cache \<Rightarrow> manifest_cache" where
  "clear_capability_cache cache = []"


section \<open>Verifying a procedure\<close>

definition AKVORADO_LIFECYCLE_CURRENT_CAPABILITY_HASHES :: "(string \<times> string) list" where
  "AKVORADO_LIFECYCLE_CURRENT_CAPABILITY_HASHES =
     [(''service.akvorado.1.config_deploy'', ''6a8d8fee107c3c825db6bf334ccecfdec8a71135bd6cd2e89734b85a00de2082''),
      (''service.akvorado.1.config_read'', ''5c9faf273d18d2316c1f00453d03cdce0ea6ca6eae416a1f0168f7dd412f53e6''),
      (''service.akvorado.1.restart_stack'', ''472ed07c0582ebeaaaa7b5da8490bdab2386f1183910a3593c5eee8d5c707d49''),
      (''service.akvorado.1.status_stack'', ''682f89b76b6246cbc88d4ac223c9201cd69efabacaf8dcf2da7137a6b484b785'')]"

definition verify_procedure_capability ::
  "python_rt \<Rightarrow> contract_tables \<Rightarrow> rpc_procedure \<Rightarrow> BackendCapabilityManifest option \<Rightarrow> pyexc + capability_status" where
  "verify_procedure_capability rt ct p manifest = (case manifest of
       None \<Rightarrow> Inr UNKNOWN
     | Some m \<Rightarrow>
         if mf_envelope_version m \<notin> set SUPPORTED_ENVELOPE_VERSIONS then Inr MISMATCH
         else (case manifest_handler m (proc_handler_id p) of
             None \<Rightarrow> Inr MISMATCH
           | Some cap \<Rightarrow>
               if hc_version cap \<noteq> version_or_one p then Inr MISMATCH
               else if hc_effect cap \<noteq> proc_effect p then Inr MISMATCH
               else rbind (derive_command_contract_hash rt ct p) (\<lambda>expected.
                 if expected \<in> set (hc_contract_hash cap # hc_compatible_contract_hashes cap) then Inr COMPATIBLE
                 else if proc_handler_id p \<in> set AKVORADO_LIFECYCLE_HANDLER_IDS
                   \<and> map_of AKVORADO_LIFECYCLE_CURRENT_CAPABILITY_HASHES (proc_handler_id p) = Some expected
                 then rbind (derive_legacy_command_contract_hash rt p) (\<lambda>legacy.
                   Inr (if hc_contract_hash cap = legacy then COMPATIBLE else MISMATCH))
                 else Inr MISMATCH)))"

end
