(* ===== verification/CapabilityDiagnostics.thy ===== *)
theory CapabilityDiagnostics
  imports Capability
begin

text \<open>
  The bounded projection of the handshake in \<open>netbox_rpc/capability_diagnostics.py\<close>: the
  strict handler identity, the reason of a status, the catalog entry and the document
  returned by the API.
\<close>

definition MAX_CATALOG_PROCEDURES :: nat where
  "MAX_CATALOG_PROCEDURES = 200"

definition Digest :: "string \<Rightarrow> bool" where
  "Digest s \<longleftrightarrow> length s = 64 \<and> list_all is_lower_hex s"

definition handler_id_char :: "char \<Rightarrow> bool" where
  "handler_id_char c \<longleftrightarrow> is_alpha c \<or> is_digit c \<or> c \<in> set ''_.:-''"

text \<open>\<open>HandlerIdentity\<close>: the constraints of its fields, and \<open>model_dump\<close>.\<close>

definition HandlerIdentity :: "HandlerCapability \<Rightarrow> bool" where
  "HandlerIdentity h \<longleftrightarrow>
     length (hc_handler_id h) \<le> 255 \<and> hc_handler_id h \<noteq> [] \<and> list_all handler_id_char (hc_handler_id h)
     \<and> 0 \<le> hc_version h \<and> hc_version h \<le> 2147483647
     \<and> hc_effect h \<in> {''read'', ''write'', ''destructive''}
     \<and> Digest (hc_contract_hash h)
     \<and> length (hc_compatible_contract_hashes h) \<le> 8 \<and> list_all Digest (hc_compatible_contract_hashes h)"

definition model_dump :: "HandlerCapability \<Rightarrow> pyval" where
  "model_dump h = VDict
     [(''handler_id'', VStr (hc_handler_id h)), (''version'', VInt (hc_version h)), (''effect'', VStr (hc_effect h)),
      (''contract_hash'', VStr (hc_contract_hash h)),
      (''compatible_contract_hashes'', VList (map VStr (hc_compatible_contract_hashes h)))]"

text \<open>A \<open>ValidationError\<close> is a \<open>ValueError\<close>.\<close>

definition expected_identity :: "python_rt \<Rightarrow> contract_tables \<Rightarrow> rpc_procedure \<Rightarrow> pyexc + HandlerCapability" where
  "expected_identity rt ct p =
     rbind (derive_command_contract_hash rt ct p) (\<lambda>hash.
       let h = \<lparr>hc_handler_id = proc_handler_id p, hc_version = version_or_one p, hc_effect = proc_effect p,
                hc_contract_hash = hash, hc_compatible_contract_hashes = []\<rparr>
       in if HandlerIdentity h then Inr h else Inl ValueError)"

definition mismatch_reason :: "rpc_procedure \<Rightarrow> BackendCapabilityManifest option \<Rightarrow> capability_status \<Rightarrow> string" where
  "mismatch_reason p manifest result = (case manifest of
       None \<Rightarrow> ''unknown_manifest''
     | Some m \<Rightarrow>
         if result = COMPATIBLE then ''compatible''
         else if mf_envelope_version m \<notin> set SUPPORTED_ENVELOPE_VERSIONS then ''envelope_mismatch''
         else (case manifest_handler m (proc_handler_id p) of
             None \<Rightarrow> ''missing_handler''
           | Some advertised \<Rightarrow>
               if hc_version advertised \<noteq> version_or_one p then ''version_mismatch''
               else if hc_effect advertised \<noteq> proc_effect p then ''effect_mismatch''
               else ''contract_mismatch''))"

definition catalog_entry ::
  "python_rt \<Rightarrow> contract_tables \<Rightarrow> BackendCapabilityManifest option \<Rightarrow> rpc_procedure \<Rightarrow> pyexc + pyval" where
  "catalog_entry rt ct manifest p =
     rbind (expected_identity rt ct p) (\<lambda>expected.
     rbind (verify_procedure_capability rt ct p manifest) (\<lambda>result.
       let advertised = (case manifest of None \<Rightarrow> None | Some m \<Rightarrow> manifest_handler m (proc_handler_id p));
           projected = (case advertised of None \<Rightarrow> None
             | Some a \<Rightarrow> if HandlerIdentity a then Some (model_dump a) else None)
       in Inr (VDict
         [(''procedure_id'', VInt (proc_pk p)), (''expected'', model_dump expected),
          (''advertised'', case projected of None \<Rightarrow> VNone | Some v \<Rightarrow> v),
          (''advertised_projection_valid'', VBool (advertised = None \<or> projected \<noteq> None)),
          (''status'', VStr (capability_status_value result)),
          (''reason'', VStr (mismatch_reason p manifest result))])))"

definition project_capabilities ::
  "python_rt \<Rightarrow> contract_tables \<Rightarrow> int \<Rightarrow> rpc_procedure list \<Rightarrow> BackendCapabilityManifest option \<Rightarrow> pyexc + pyval" where
  "project_capabilities rt ct backend_id procedures manifest =
     (let envelope = map_option mf_envelope_version manifest;
          valid_envelope = (case envelope of None \<Rightarrow> True | Some e \<Rightarrow> 0 \<le> e \<and> e \<le> 2147483647)
      in rbind (rmap (catalog_entry rt ct manifest) (take MAX_CATALOG_PROCEDURES procedures)) (\<lambda>entries.
        Inr (VDict
          [(''backend_id'', VInt backend_id), (''manifest_available'', VBool (manifest \<noteq> None)),
           (''supported_envelope_versions'', VList (map VInt (sort SUPPORTED_ENVELOPE_VERSIONS))),
           (''advertised_envelope_version'', case envelope of
               Some e \<Rightarrow> if valid_envelope then VInt e else VNone | None \<Rightarrow> VNone),
           (''advertised_envelope_projection_valid'', VBool valid_envelope),
           (''catalog_limit'', VInt (int MAX_CATALOG_PROCEDURES)),
           (''catalog_truncated'', VBool (length procedures > MAX_CATALOG_PROCEDURES)),
           (''procedures'', VList entries)])))"

end
