(* ===== verification/CapabilityProps.thy ===== *)
theory CapabilityProps
  imports CapabilityDiagnostics ApprovalSnapshot
begin

text \<open>
  What the handshake guarantees: a compatible verdict rests on agreeing fields and an
  advertised hash, the hash binds the command rows, a fetched manifest is recent and
  within its declared bounds, and the diagnostic reason explains the status.
\<close>

section \<open>A compatible verdict\<close>

lemmas verify_cases = verify_procedure_capability_def rbind_Inr_iff

lemma manifest_handlerD:
  "manifest_handler m i = Some h \<Longrightarrow> h \<in> set (mf_handlers m) \<and> hc_handler_id h = i"
  by (auto simp: manifest_handler_def dest: find_SomeD)

lemma verify_compatibleE:
  assumes "verify_procedure_capability rt ct p manifest = Inr COMPATIBLE"
  obtains m cap expected where "manifest = Some m" "mf_envelope_version m \<in> set SUPPORTED_ENVELOPE_VERSIONS"
    "manifest_handler m (proc_handler_id p) = Some cap" "hc_version cap = version_or_one p"
    "hc_effect cap = proc_effect p" "derive_command_contract_hash rt ct p = Inr expected"
    "expected \<in> set (hc_contract_hash cap # hc_compatible_contract_hashes cap)
     \<or> (proc_handler_id p \<in> set AKVORADO_LIFECYCLE_HANDLER_IDS
        \<and> map_of AKVORADO_LIFECYCLE_CURRENT_CAPABILITY_HASHES (proc_handler_id p) = Some expected
        \<and> derive_legacy_command_contract_hash rt p = Inr (hc_contract_hash cap))"
proof (cases manifest)
  case None
  with assms show ?thesis by (simp add: verify_procedure_capability_def)
next
  case (Some m)
  with assms obtain cap where cap: "mf_envelope_version m \<in> set SUPPORTED_ENVELOPE_VERSIONS"
    "manifest_handler m (proc_handler_id p) = Some cap" "hc_version cap = version_or_one p"
    "hc_effect cap = proc_effect p"
    by (auto simp: verify_procedure_capability_def split: if_splits option.splits)
  with assms Some obtain expected where ex: "derive_command_contract_hash rt ct p = Inr expected"
    by (auto simp: verify_cases)
  with assms Some cap have "expected \<in> set (hc_contract_hash cap # hc_compatible_contract_hashes cap)
     \<or> (proc_handler_id p \<in> set AKVORADO_LIFECYCLE_HANDLER_IDS
        \<and> map_of AKVORADO_LIFECYCLE_CURRENT_CAPABILITY_HASHES (proc_handler_id p) = Some expected
        \<and> derive_legacy_command_contract_hash rt p = Inr (hc_contract_hash cap))"
    by (auto simp: verify_cases split: if_splits)
  with that Some cap ex show ?thesis by blast
qed

definition sample_manifest :: "string \<Rightarrow> BackendCapabilityManifest" where
  "sample_manifest h = \<lparr>mf_envelope_version = 1, mf_credential_reference_versions = [], mf_credential_provider_versions = [],
     mf_dispatch_lease_versions = [1], mf_handlers = [\<lparr>hc_handler_id = ''os.linux.uptime'', hc_version = 1,
       hc_effect = ''read'', hc_contract_hash = h, hc_compatible_contract_hashes = []\<rparr>]\<rparr>"

definition sample_tables :: contract_tables where
  "sample_tables = \<lparr>ct_fixed = (\<lambda>_. VNone), ct_normalized_params = (\<lambda>_. []), ct_command_fingerprint = (\<lambda>_. []),
     ct_runtime = (\<lambda>_. VNone)\<rparr>"

lemma sample_fields:
  "proc_handler_id sample_procedure = ''os.linux.uptime''" "proc_effect sample_procedure = ''read''"
  "proc_version sample_procedure = 1" "version_or_one sample_procedure = 1"
  "manifest_handler (sample_manifest h) ''os.linux.uptime'' = Some \<lparr>hc_handler_id = ''os.linux.uptime'', hc_version = 1,
     hc_effect = ''read'', hc_contract_hash = h, hc_compatible_contract_hashes = []\<rparr>"
  "mf_envelope_version (sample_manifest h) = 1"
  by (simp_all add: sample_procedure_def version_or_one_def sample_manifest_def manifest_handler_def)

lemma sample_no_semantic: "proc_handler_id p = ''os.linux.uptime'' \<Longrightarrow> semantic_contract rt ct p = Inr None"
  by (simp add: semantic_contract_def SEMANTIC_CAPABILITY_HANDLER_IDS_def IAM_UI_HANDLER_IDS_def
      NETBOX_PRODUCTION_RQ_WORKER_PROCEDURE_NAMES_def NETBOX_PRODUCTION_STATUS_RQ_WORKER_def
      NETBOX_PRODUCTION_RESTART_RQ_WORKER_def SAMBA_AD_DC_HANDLER_IDS_def AKVORADO_BOOTSTRAP_HANDLER_IDS_def
      AKVORADO_LIFECYCLE_HANDLER_IDS_def)

lemma sample_payload:
  "contract_payload rt ct sample_procedure = Inr [(''handler_id'', VStr ''os.linux.uptime''), (''version'', VInt 1),
     (''effect'', VStr ''read''), (''commands'', VList [command_payload sample_command [VStr ''uptime'']])]"
  by (simp add: contract_payload_def sample_no_semantic sample_fields base_command_contract_payload_def)
    (simp add: sample_procedure_def version_or_one_def command_entry_def sample_command_def py_or_def)

definition sample_hash :: string where
  "sample_hash = json_dumps (VDict [(''handler_id'', VStr ''os.linux.uptime''), (''version'', VInt 1),
     (''effect'', VStr ''read''), (''commands'', VList [command_payload sample_command [VStr ''uptime'']])])"

lemma sample_derive: "derive_command_contract_hash plain_rt ct sample_procedure = Inr sample_hash"
  by (simp add: derive_command_contract_hash_def sample_payload plain_rt_def sample_hash_def)

lemma sample_compatible:
  "verify_procedure_capability plain_rt ct sample_procedure (Some (sample_manifest sample_hash)) = Inr COMPATIBLE"
  by (simp add: verify_procedure_capability_def sample_derive sample_fields SUPPORTED_ENVELOPE_VERSIONS_def)

text \<open>
  The handshake fails closed. A procedure is reported compatible only if a manifest with a
  supported envelope lists its handler with the same version and effect, and either
  advertises the hash of the procedure's current contract, or (Akvorado lifecycle handlers
  only) that hash is the reviewed one and the backend advertises the command-only hash.
\<close>

theorem compatible_needs_agreeing_manifest:
  assumes "verify_procedure_capability rt ct p manifest = Inr COMPATIBLE"
  shows "\<exists>m cap expected. manifest = Some m \<and> mf_envelope_version m = 1 \<and> cap \<in> set (mf_handlers m)
     \<and> hc_handler_id cap = proc_handler_id p \<and> hc_version cap = version_or_one p \<and> hc_effect cap = proc_effect p
     \<and> derive_command_contract_hash rt ct p = Inr expected
     \<and> (expected \<in> set (hc_contract_hash cap # hc_compatible_contract_hashes cap)
        \<or> (map_of AKVORADO_LIFECYCLE_CURRENT_CAPABILITY_HASHES (proc_handler_id p) = Some expected
            \<and> derive_legacy_command_contract_hash rt p = Inr (hc_contract_hash cap)))"
  using verify_compatibleE [OF assms]
proof cases
  case (1 m cap expected)
  moreover have "mf_envelope_version m = 1" using 1(2) by (simp add: SUPPORTED_ENVELOPE_VERSIONS_def)
  ultimately show ?thesis using manifest_handlerD [OF 1(3)] by blast
qed

theorem compatible_needs_agreeing_manifest_witness:
  "\<exists>m cap expected. Some (sample_manifest sample_hash) = Some m \<and> mf_envelope_version m = 1 \<and> cap \<in> set (mf_handlers m)
     \<and> hc_handler_id cap = proc_handler_id sample_procedure \<and> hc_version cap = version_or_one sample_procedure
     \<and> hc_effect cap = proc_effect sample_procedure
     \<and> derive_command_contract_hash plain_rt sample_tables sample_procedure = Inr expected
     \<and> (expected \<in> set (hc_contract_hash cap # hc_compatible_contract_hashes cap)
        \<or> (map_of AKVORADO_LIFECYCLE_CURRENT_CAPABILITY_HASHES (proc_handler_id sample_procedure) = Some expected
            \<and> derive_legacy_command_contract_hash plain_rt sample_procedure = Inr (hc_contract_hash cap)))"
  by (rule compatible_needs_agreeing_manifest [OF sample_compatible])


section \<open>The hash binds the command rows\<close>

text \<open>Equal but for the description, which the contract leaves out, and the order of keys inside an argument.\<close>

definition same_step :: "procedure_command \<Rightarrow> procedure_command \<Rightarrow> bool" where
  "same_step c d \<longleftrightarrow> c\<lparr>cmd_argv := VNone, cmd_description := []\<rparr> = d\<lparr>cmd_argv := VNone, cmd_description := []\<rparr>
     \<and> (\<exists>a b. py_iter (py_or (cmd_argv c) (VList [])) = Inr a \<and> py_iter (py_or (cmd_argv d) (VList [])) = Inr b
          \<and> map key_sorted a = map key_sorted b)"

lemma command_payload_keys: "command_payload c a = VDict d \<Longrightarrow> distinct (map fst d)"
  by (auto simp: command_payload_def)

lemma command_payload_inject:
  assumes "key_sorted (command_payload c a) = key_sorted (command_payload d b)"
  shows "c\<lparr>cmd_argv := VNone, cmd_description := []\<rparr> = d\<lparr>cmd_argv := VNone, cmd_description := []\<rparr> \<and> map key_sorted a = map key_sorted b"
proof -
  obtain u w where uw: "command_payload c a = VDict u" "command_payload d b = VDict w"
    by (simp add: command_payload_def)
  note L = sorted_dict_lookup [OF assms [unfolded uw] uw [THEN command_payload_keys]]
  have simple:
    "cmd_sequence c = cmd_sequence d" "cmd_step_type c = cmd_step_type d" "cmd_device_cli_mode c = cmd_device_cli_mode d"
    "cmd_render_mode c = cmd_render_mode d" "cmd_produces_var c = cmd_produces_var d" "cmd_capture_kind c = cmd_capture_kind d"
    "cmd_capture_expression c = cmd_capture_expression d" "cmd_condition_param c = cmd_condition_param d"
    "cmd_condition_negate c = cmd_condition_negate d" "cmd_for_each_param c = cmd_for_each_param d"
    "cmd_continue_on_error c = cmd_continue_on_error d" "map key_sorted a = map key_sorted b"
    using L [of "''sequence''"] L [of "''step_type''"] L [of "''device_cli_mode''"] L [of "''render_mode''"]
      L [of "''produces_var''"] L [of "''capture_kind''"] L [of "''capture_expression''"] L [of "''condition_param''"]
      L [of "''condition_negate''"] L [of "''for_each_param''"] L [of "''continue_on_error''"] L [of "''argv''"]
    unfolding uw [symmetric, unfolded command_payload_def, THEN pyval.inject(7) [THEN iffD1]]
    by simp_all
  then show ?thesis by simp
qed

lemma command_entry_iff:
  "command_entry c = Inr e \<longleftrightarrow> (\<exists>a. py_iter (py_or (cmd_argv c) (VList [])) = Inr a \<and> e = command_payload c a)"
  by (auto simp: command_entry_def rbind_Inr_iff)

lemma entries_same_steps:
  "rmap command_entry cs = Inr es \<Longrightarrow> rmap command_entry ds = Inr fs \<Longrightarrow> map key_sorted es = map key_sorted fs
    \<Longrightarrow> list_all2 same_step cs ds"
proof (induction cs arbitrary: ds es fs)
  case Nil
  then show ?case by (cases ds) (auto simp: rbind_Inr_iff)
next
  case (Cons c cs)
  from Cons.prems obtain d ds' where ds: "ds = d # ds'" by (cases ds) (auto simp: rbind_Inr_iff)
  from Cons.prems(1) obtain a es' where c: "py_iter (py_or (cmd_argv c) (VList [])) = Inr a"
    "es = command_payload c a # es'" "rmap command_entry cs = Inr es'"
    by (auto simp: rbind_Inr_iff command_entry_iff)
  from Cons.prems(2) ds obtain b fs' where d: "py_iter (py_or (cmd_argv d) (VList [])) = Inr b"
    "fs = command_payload d b # fs'" "rmap command_entry ds' = Inr fs'"
    by (auto simp: rbind_Inr_iff command_entry_iff)
  have "same_step c d"
    using command_payload_inject [of c a d b] Cons.prems(3) c d by (auto simp: same_step_def)
  with Cons.IH [OF c(3) d(3)] Cons.prems(3) c(2) d(2) ds show ?case by simp
qed

lemma contract_payloadE:
  assumes "contract_payload rt ct p = Inr payload"
  obtains es where "rmap command_entry (sort_key cmd_sequence (proc_commands p)) = Inr es"
    "distinct (map fst payload)" "map_of payload ''handler_id'' = Some (VStr (proc_handler_id p))"
    "map_of payload ''version'' = Some (VInt (version_or_one p))" "map_of payload ''effect'' = Some (VStr (proc_effect p))"
    "map_of payload ''commands'' = Some (VList es)"
  using assms
  by (auto simp: contract_payload_def base_command_contract_payload_def rbind_Inr_iff split: option.splits)

text \<open>
  The contract hash binds the catalog row. When two procedures have the same contract
  hash, and the digest does not map their two canonical contracts to one value, they have
  the same handler, version and effect, and the same command steps in sequence order.
\<close>

theorem contract_hash_binds_commands:
  assumes "contract_payload rt ct p = Inr payload_p" and "contract_payload rt ct q = Inr payload_q"
    and "derive_command_contract_hash rt ct p = derive_command_contract_hash rt ct q"
    and "rt_sha256 rt (json_dumps (VDict payload_p)) = rt_sha256 rt (json_dumps (VDict payload_q)) \<Longrightarrow>
      json_dumps (VDict payload_p) = json_dumps (VDict payload_q)"
    and "exact_json (VDict payload_p)" and "exact_json (VDict payload_q)"
  shows "proc_handler_id p = proc_handler_id q \<and> version_or_one p = version_or_one q \<and> proc_effect p = proc_effect q
    \<and> list_all2 same_step (sort_key cmd_sequence (proc_commands p)) (sort_key cmd_sequence (proc_commands q))"
proof -
  from contract_payloadE [OF assms(1)] obtain es where p: "rmap command_entry (sort_key cmd_sequence (proc_commands p)) = Inr es"
    "distinct (map fst payload_p)" "map_of payload_p ''handler_id'' = Some (VStr (proc_handler_id p))"
    "map_of payload_p ''version'' = Some (VInt (version_or_one p))" "map_of payload_p ''effect'' = Some (VStr (proc_effect p))"
    "map_of payload_p ''commands'' = Some (VList es)" .
  from contract_payloadE [OF assms(2)] obtain fs where q: "rmap command_entry (sort_key cmd_sequence (proc_commands q)) = Inr fs"
    "distinct (map fst payload_q)" "map_of payload_q ''handler_id'' = Some (VStr (proc_handler_id q))"
    "map_of payload_q ''version'' = Some (VInt (version_or_one q))" "map_of payload_q ''effect'' = Some (VStr (proc_effect q))"
    "map_of payload_q ''commands'' = Some (VList fs)" .
  have "json_dumps (VDict payload_p) = json_dumps (VDict payload_q)"
    using assms(1-4) by (simp add: derive_command_contract_hash_def)
  from json_dumps_unique [OF assms(5,6) this] have S: "key_sorted (VDict payload_p) = key_sorted (VDict payload_q)" .
  note L = sorted_dict_lookup [OF S p(2) q(2)]
  have "map key_sorted es = map key_sorted fs" using L [of "''commands''"] p(6) q(6) by simp
  from entries_same_steps [OF p(1) q(1) this] L [of "''handler_id''"] L [of "''version''"] L [of "''effect''"] p(3-5) q(3-5)
  show ?thesis by simp
qed

theorem contract_hash_binds_commands_witness:
  "list_all2 same_step (sort_key cmd_sequence (proc_commands sample_procedure))
     (sort_key cmd_sequence (proc_commands (sample_procedure\<lparr>proc_enabled := False\<rparr>)))"
proof -
  let ?q = "sample_procedure\<lparr>proc_enabled := False\<rparr>"
  have pay: "contract_payload plain_rt sample_tables ?q = contract_payload plain_rt sample_tables sample_procedure"
    by (simp add: contract_payload_def sample_no_semantic sample_fields base_command_contract_payload_def version_or_one_def)
  show ?thesis
    using contract_hash_binds_commands [OF sample_payload sample_payload [folded pay],
      unfolded derive_command_contract_hash_def pay]
    by (simp add: command_payload_def)
qed


section \<open>A fetched manifest is recent and bounded\<close>

inductive cache_run :: "manifest_reader \<Rightarrow> backend_network \<Rightarrow> int \<Rightarrow> manifest_cache \<Rightarrow> bool"
  for mr net where
  start: "cache_run mr net now []"
| fetch: "cache_run mr net before cache \<Longrightarrow> before \<le> now
    \<Longrightarrow> cache_run mr net now (snd (fetch_backend_capabilities mr net now use_cache target cache))"
| clear: "cache_run mr net now cache \<Longrightarrow> cache_run mr net now (clear_capability_cache cache)"

definition cache_traced :: "manifest_reader \<Rightarrow> backend_network \<Rightarrow> int \<Rightarrow> manifest_cache \<Rightarrow> bool" where
  "cache_traced mr net now cache \<longleftrightarrow> (\<forall>base at m. map_of cache base = Some (at, m) \<longrightarrow>
     at \<le> now \<and> (\<exists>t. base_url t = base \<and> m = fetch_uncached mr (net at t)))"

lemma cache_tracedD: "cache_traced mr net now cache \<Longrightarrow> map_of cache base = Some (at, m) \<Longrightarrow>
    at \<le> now \<and> (\<exists>t. base_url t = base \<and> m = fetch_uncached mr (net at t))"
  by (auto simp: cache_traced_def)

lemma cache_traced_set:
  assumes "cache_traced mr net before cache" "before \<le> now"
  shows "cache_traced mr net now (dict_set (base_url t) (now, fetch_uncached mr (net now t)) cache)"
  using assms unfolding cache_traced_def by (fastforce split: if_splits)

lemma cache_traced_mono: "cache_traced mr net before cache \<Longrightarrow> before \<le> now \<Longrightarrow> cache_traced mr net now cache"
  unfolding cache_traced_def by fastforce

lemma cache_run_traced: "cache_run mr net now cache \<Longrightarrow> cache_traced mr net now cache"
proof (induction rule: cache_run.induct)
  case (fetch before cache now use_cache target)
  then show ?case
    by (auto simp: fetch_backend_capabilities_def Let_def cache_traced_set split: option.splits
        intro: cache_traced_mono)
qed (auto simp: cache_traced_def clear_capability_cache_def)

lemma fetch_uncached_bounded: "fetch_uncached mr r = Some m \<Longrightarrow> manifest_constraints m"
  by (auto simp: fetch_uncached_def model_validate_def split: http_reply.splits raw_body.splits option.splits if_splits)

text \<open>
  Whatever calls filled or cleared the cache before, a fetch answers with the outcome of a
  request to the same base URL made less than thirty seconds ago, the request of this very
  call when the cache is bypassed; and any manifest it returns meets the declared bounds.
\<close>

theorem fetched_manifest_is_recent:
  assumes "cache_run mr net before cache" and "before \<le> now" and "base_url t \<noteq> []"
  shows "\<exists>at t'. base_url t' = base_url t \<and> at \<le> now \<and> now - at < 30 * 10 ^ 9
     \<and> fst (fetch_backend_capabilities mr net now use_cache (Some t) cache) = fetch_uncached mr (net at t')
     \<and> (\<not> use_cache \<longrightarrow> at = now \<and> t' = t)
     \<and> (\<forall>m. fst (fetch_backend_capabilities mr net now use_cache (Some t) cache) = Some m \<longrightarrow> manifest_constraints m)"
proof (cases "\<exists>at m. use_cache \<and> map_of cache (base_url t) = Some (at, m) \<and> now - at < 30 * 10 ^ 9")
  case True
  then obtain at m where c: "use_cache" "map_of cache (base_url t) = Some (at, m)" "now - at < 30 * 10 ^ 9" by blast
  from cache_tracedD [OF cache_run_traced [OF assms(1)] c(2)] assms(2) obtain t' where
    t': "at \<le> now" "base_url t' = base_url t" "m = fetch_uncached mr (net at t')" by force
  from c assms(3) have "fst (fetch_backend_capabilities mr net now use_cache (Some t) cache) = m"
    by (simp add: fetch_backend_capabilities_def CACHE_TTL_SECONDS_def Let_def)
  with c(1,3) t' show ?thesis using fetch_uncached_bounded [of mr "net at t'"] by (intro exI [of _ at] exI [of _ t']) auto
next
  case False
  with assms(3) have "fst (fetch_backend_capabilities mr net now use_cache (Some t) cache) = fetch_uncached mr (net now t)"
    by (cases use_cache) (auto simp: fetch_backend_capabilities_def CACHE_TTL_SECONDS_def Let_def split: option.splits)
  then show ?thesis using fetch_uncached_bounded [of mr "net now t"] by (intro exI [of _ now] exI [of _ t]) auto
qed

theorem fetched_manifest_is_recent_witness:
  "\<exists>at t'. base_url t' = ''http://b'' \<and> at \<le> (5 :: int) \<and> 5 - at < 30 * 10 ^ 9
     \<and> fst (fetch_backend_capabilities \<lparr>mr_loads = (\<lambda>_. None), mr_coerce = (\<lambda>_. None)\<rparr> (\<lambda>_ _. RequestRaises) 5 True
          (Some \<lparr>bt_url = ''http://b/'', bt_headers = [], bt_verify_ssl = True\<rparr>) [])
       = fetch_uncached \<lparr>mr_loads = (\<lambda>_. None), mr_coerce = (\<lambda>_. None)\<rparr> RequestRaises"
  using fetched_manifest_is_recent [OF cache_run.start, of 0 5 "\<lparr>bt_url = ''http://b/'', bt_headers = [], bt_verify_ssl = True\<rparr>"
      "\<lparr>mr_loads = (\<lambda>_. None), mr_coerce = (\<lambda>_. None)\<rparr>" "\<lambda>_ _. RequestRaises" True]
  by (auto simp: base_url_def rstrip_char_def)


section \<open>Diagnostics\<close>

text \<open>
  The diagnostic reason never disagrees with the verdict: it is \<open>unknown_manifest\<close> exactly
  when the status is unknown, \<open>compatible\<close> exactly when the status is compatible, and
  otherwise one of the five mismatch reasons.
\<close>

theorem reason_explains_status:
  assumes "verify_procedure_capability rt ct p manifest = Inr status"
  shows "(mismatch_reason p manifest status = ''unknown_manifest'' \<longleftrightarrow> status = UNKNOWN)
    \<and> (mismatch_reason p manifest status = ''compatible'' \<longleftrightarrow> status = COMPATIBLE)
    \<and> (status = MISMATCH \<longrightarrow> mismatch_reason p manifest status \<in>
         {''envelope_mismatch'', ''missing_handler'', ''version_mismatch'', ''effect_mismatch'', ''contract_mismatch''})"
proof (cases manifest)
  case None
  with assms show ?thesis by (auto simp: verify_procedure_capability_def mismatch_reason_def)
next
  case (Some m)
  with assms have "status \<noteq> UNKNOWN"
    by (auto simp: verify_cases split: if_splits option.splits)
  with Some show ?thesis
    by (cases status) (auto simp: mismatch_reason_def split: option.splits)
qed

theorem reason_explains_status_witness:
  "mismatch_reason sample_procedure (Some (sample_manifest sample_hash)) COMPATIBLE = ''compatible''"
  using reason_explains_status [OF sample_compatible] by blast

end
