(* ===== verification/KeyFile.thy ===== *)
theory KeyFile
  imports PyValues "HOL-Library.Word"
begin

text \<open>
  Reading the lease signing key from a file, \<open>netbox_rpc/dispatch_lease.py\<close>
  (\<open>_metadata_is_trusted_directory\<close>, \<open>_metadata_is_trusted_key_file\<close>,
  \<open>_secure_read_signing_key_file\<close>).

  The file system may change while the function runs, so the model takes what each system
  call returned: \<open>None\<close> for an \<open>OSError\<close>, a stat record or bytes otherwise. Modes are the
  integers of \<open>st_mode\<close>, in decimal: 61440 is \<open>0o170000\<close>, 16384 \<open>S_IFDIR\<close>, 32768
  \<open>S_IFREG\<close>, 4095 \<open>0o7777\<close>, 512 \<open>S_ISVTX\<close>, 18 \<open>0o022\<close>, 288 \<open>0o440\<close>, 416 \<open>0o640\<close>.
  UTF-8 decoding of the bytes read is a parameter, since it can give code points outside
  the modelled range.
\<close>

unbundle bit_operations_syntax

record file_stat =
  st_dev :: int
  st_ino :: int
  st_uid :: int
  st_mode :: int
  st_nlink :: int
  st_size :: int
  st_mtime_ns :: int
  st_ctime_ns :: int

record key_fs =
  fs_supported :: bool
  fs_euid :: int
  fs_directory :: "string list \<Rightarrow> file_stat option"
  fs_stat :: "file_stat option"
  fs_open :: "file_stat option"
  fs_reads :: "string option list"
  fs_after :: "file_stat option"
  fs_decode :: "string \<Rightarrow> string option"

definition MAX_SIGNING_KEY_FILE_BYTES :: nat where
  "MAX_SIGNING_KEY_FILE_BYTES = 16 * 1024"

definition MAX_SIGNING_KEY_PATH_BYTES :: nat where
  "MAX_SIGNING_KEY_PATH_BYTES = 4096"

definition S_IMODE :: "int \<Rightarrow> int" where "S_IMODE mode = mode AND 4095"
definition S_ISDIR :: "int \<Rightarrow> bool" where "S_ISDIR mode \<longleftrightarrow> mode AND 61440 = 16384"
definition S_ISREG :: "int \<Rightarrow> bool" where "S_ISREG mode \<longleftrightarrow> mode AND 61440 = 32768"

definition metadata_is_trusted_directory :: "int \<Rightarrow> file_stat \<Rightarrow> bool" where
  "metadata_is_trusted_directory euid metadata =
     (if \<not> S_ISDIR (st_mode metadata) then False
      else if st_uid metadata \<notin> {0, euid} then False
      else let writable_by_others = (S_IMODE (st_mode metadata) AND 18 \<noteq> 0);
               root_sticky = (st_uid metadata = 0 \<and> st_mode metadata AND 512 \<noteq> 0)
           in \<not> writable_by_others \<or> root_sticky)"

definition metadata_is_trusted_key_file :: "int \<Rightarrow> file_stat \<Rightarrow> bool" where
  "metadata_is_trusted_key_file euid metadata \<longleftrightarrow>
     (let mode = S_IMODE (st_mode metadata) in
      S_ISREG (st_mode metadata) \<and> st_uid metadata \<in> {0, euid} \<and> st_nlink metadata = 1
      \<and> mode AND 288 \<noteq> 0 \<and> \<not> (mode AND NOT 416 \<noteq> 0)
      \<and> 0 < st_size metadata \<and> st_size metadata \<le> int MAX_SIGNING_KEY_FILE_BYTES)"

text \<open>The length of \<open>os.fsencode(path)\<close>: code points above 127 take two bytes.\<close>

definition fsencode_length :: "string \<Rightarrow> nat" where
  "fsencode_length path = sum_list (map (\<lambda>c. if (of_char c :: nat) < 128 then 1 else 2) path)"

definition control_char :: "char \<Rightarrow> bool" where
  "control_char c \<longleftrightarrow> (of_char c :: nat) < 32 \<or> (of_char c :: nat) = 127"

definition key_path_components :: "string \<Rightarrow> string list option" where
  "key_path_components path =
     (if \<not> startswith path ''/'' then None
      else if fsencode_length path > MAX_SIGNING_KEY_PATH_BYTES \<or> list_ex control_char path then None
      else let components = tl (split_on CHR ''/'' path)
           in if components = [] \<or> list_ex (\<lambda>c. c \<in> {[], ''.'', ''..''}) components then None
              else Some components)"

text \<open>Opening the directories from the root down to the one that holds the file.\<close>

fun walk_directories :: "key_fs \<Rightarrow> string list \<Rightarrow> string list \<Rightarrow> bool" where
  "walk_directories fs reached [] = True"
| "walk_directories fs reached (component # rest) =
     (case fs_directory fs (reached @ [component]) of
        None \<Rightarrow> False
      | Some metadata \<Rightarrow> metadata_is_trusted_directory (fs_euid fs) metadata
          \<and> walk_directories fs (reached @ [component]) rest)"

definition open_directories :: "key_fs \<Rightarrow> string list \<Rightarrow> bool" where
  "open_directories fs components = (case fs_directory fs [] of
       None \<Rightarrow> False
     | Some metadata \<Rightarrow> metadata_is_trusted_directory (fs_euid fs) metadata
         \<and> walk_directories fs [] (butlast components))"

text \<open>The read loop: each \<open>os.read\<close> returns at most the bytes asked for, an empty result ends it.\<close>

fun read_chunks :: "nat \<Rightarrow> string option list \<Rightarrow> string option" where
  "read_chunks remaining [] = Some []"
| "read_chunks remaining (r # rs) =
     (if remaining = 0 then Some []
      else (case r of
          None \<Rightarrow> None
        | Some bytes \<Rightarrow>
            (let chunk = take (min 4096 remaining) bytes in
             if chunk = [] then Some []
             else map_option ((@) chunk) (read_chunks (remaining - length chunk) rs))))"

definition read_open_file :: "key_fs \<Rightarrow> file_stat \<Rightarrow> string option" where
  "read_open_file fs opened =
     (case read_chunks (MAX_SIGNING_KEY_FILE_BYTES + 1) (fs_reads fs) of
        None \<Rightarrow> None
      | Some material \<Rightarrow> (case fs_after fs of
            None \<Rightarrow> None
          | Some after \<Rightarrow>
              if length material > MAX_SIGNING_KEY_FILE_BYTES \<or> int (length material) \<noteq> st_size opened
                 \<or> \<not> metadata_is_trusted_key_file (fs_euid fs) after \<or> after \<noteq> opened
              then None else fs_decode fs material))"

definition secure_read_signing_key_file :: "key_fs \<Rightarrow> string \<Rightarrow> string option" where
  "secure_read_signing_key_file fs path =
     (if \<not> fs_supported fs then None
      else (case key_path_components path of
          None \<Rightarrow> None
        | Some components \<Rightarrow>
            if \<not> open_directories fs components then None
            else (case fs_stat fs of
                None \<Rightarrow> None
              | Some before \<Rightarrow>
                  if \<not> metadata_is_trusted_key_file (fs_euid fs) before then None
                  else (case fs_open fs of
                      None \<Rightarrow> None
                    | Some opened \<Rightarrow>
                        if \<not> metadata_is_trusted_key_file (fs_euid fs) opened \<or> opened \<noteq> before then None
                        else read_open_file fs opened))))"


section \<open>What a successful read guarantees\<close>

lemma read_chunks_bounded: "read_chunks n rs = Some m \<Longrightarrow> length m \<le> n"
proof (induction rs arbitrary: n m)
  case (Cons r rs)
  show ?case
  proof (cases "n = 0 \<or> r = None")
    case True
    with Cons.prems show ?thesis by (auto split: if_splits)
  next
    case False
    then obtain bytes where r: "r = Some bytes" "n \<noteq> 0" by auto
    define chunk where "chunk = take (min 4096 n) bytes"
    have c: "length chunk \<le> n" by (simp add: chunk_def)
    have step: "read_chunks n (r # rs) =
        (if chunk = [] then Some [] else map_option ((@) chunk) (read_chunks (n - length chunk) rs))"
      by (simp only: read_chunks.simps r option.case if_False Let_def chunk_def)
    show ?thesis
    proof (cases "chunk = []")
      case True
      with Cons.prems step show ?thesis by (simp del: read_chunks.simps)
    next
      case False
      with Cons.prems [unfolded step] obtain m' where "read_chunks (n - length chunk) rs = Some m'" "m = chunk @ m'"
        by auto
      with Cons.IH c show ?thesis by fastforce
    qed
  qed
qed simp

lemma key_path_componentsD:
  assumes "key_path_components path = Some components"
  shows "startswith path ''/'' \<and> length path \<le> 4096 \<and> components \<noteq> []
    \<and> (\<forall>c \<in> set components. c \<notin> {[], ''.'', ''..''}) \<and> (\<forall>c \<in> set path. \<not> control_char c)"
proof -
  have "length path \<le> fsencode_length path"
    unfolding fsencode_length_def by (induction path) auto
  with assms show ?thesis
    by (auto simp: key_path_components_def MAX_SIGNING_KEY_PATH_BYTES_def list_ex_iff Let_def split: if_splits)
qed

lemma walk_directoriesD:
  "walk_directories fs reached rest \<Longrightarrow> n \<le> length rest \<Longrightarrow> 0 < n \<Longrightarrow>
    \<exists>m. fs_directory fs (reached @ take n rest) = Some m \<and> metadata_is_trusted_directory (fs_euid fs) m"
proof (induction fs reached rest arbitrary: n rule: walk_directories.induct)
  case (2 fs reached component rest)
  then obtain m where m: "fs_directory fs (reached @ [component]) = Some m" "metadata_is_trusted_directory (fs_euid fs) m"
    "walk_directories fs (reached @ [component]) rest" by (auto split: option.splits)
  show ?case
  proof (cases "n = 1")
    case True
    with m show ?thesis by simp
  next
    case False
    with "2.IH" [OF m(1,3), of "n - 1"] "2.prems" show ?thesis by (cases n) auto
  qed
qed simp

lemma open_directoriesD:
  assumes "open_directories fs components" "n < length components"
  shows "\<exists>m. fs_directory fs (take n components) = Some m \<and> metadata_is_trusted_directory (fs_euid fs) m"
proof (cases "n = 0")
  case True
  with assms show ?thesis by (auto simp: open_directories_def split: option.splits)
next
  case False
  with assms walk_directoriesD [of fs "[]" "butlast components" n] show ?thesis
    by (auto simp: open_directories_def take_butlast split: option.splits)
qed

text \<open>The permission bits of an accepted key file: no access for others, none for the group but
  reading, nothing executable, no set-id or sticky bit.\<close>

lemma trusted_key_mode:
  assumes "metadata_is_trusted_key_file euid m"
  shows "st_mode m AND 3679 = 0"
proof -
  have "(st_mode m AND 4095) AND NOT 416 = 0"
    using assms by (simp add: metadata_is_trusted_key_file_def S_IMODE_def Let_def)
  moreover have "(st_mode m AND 4095) AND NOT 416 = st_mode m AND (4095 AND NOT 416)"
    by (simp only: and.assoc)
  moreover have "(4095 :: int) AND NOT 416 = 3679" by simp
  ultimately show ?thesis by simp
qed

definition sample_key_stat :: file_stat where
  "sample_key_stat = \<lparr>st_dev = 1, st_ino = 2, st_uid = 0, st_mode = 33184, st_nlink = 1, st_size = 3,
     st_mtime_ns = 10, st_ctime_ns = 10\<rparr>"

definition sample_key_fs :: key_fs where
  "sample_key_fs = \<lparr>fs_supported = True, fs_euid = 1000,
     fs_directory = (\<lambda>_. Some (sample_key_stat\<lparr>st_mode := 16877\<rparr>)), fs_stat = Some sample_key_stat,
     fs_open = Some sample_key_stat, fs_reads = [Some ''pem'', Some []], fs_after = Some sample_key_stat,
     fs_decode = Some\<rparr>"

lemma sample_key_trusted:
  "metadata_is_trusted_key_file euid sample_key_stat"
  "metadata_is_trusted_directory euid (sample_key_stat\<lparr>st_mode := 16877\<rparr>)"
  by (simp_all add: metadata_is_trusted_key_file_def metadata_is_trusted_directory_def sample_key_stat_def
      S_IMODE_def S_ISREG_def S_ISDIR_def MAX_SIGNING_KEY_FILE_BYTES_def)

lemma sample_key_read: "secure_read_signing_key_file sample_key_fs ''/run/key'' = Some ''pem''"
proof -
  have "key_path_components ''/run/key'' = Some [''run'', ''key'']"
    by (simp add: key_path_components_def fsencode_length_def MAX_SIGNING_KEY_PATH_BYTES_def control_char_def)
  moreover have "open_directories sample_key_fs [''run'', ''key'']"
    by (simp add: open_directories_def sample_key_fs_def sample_key_trusted)
  moreover have "read_open_file sample_key_fs sample_key_stat = Some ''pem''"
    by (simp add: read_open_file_def sample_key_fs_def sample_key_trusted MAX_SIGNING_KEY_FILE_BYTES_def)
      (simp add: sample_key_stat_def)
  moreover have "fs_supported sample_key_fs" "fs_stat sample_key_fs = Some sample_key_stat"
    "fs_open sample_key_fs = Some sample_key_stat" by (simp_all add: sample_key_fs_def)
  ultimately show ?thesis by (simp add: secure_read_signing_key_file_def sample_key_trusted)
qed

text \<open>
  Key material is returned only for an absolute path of at most 4096 characters without
  empty, \<open>.\<close> or \<open>..\<close> components, whose directories from the root down are all owned by root
  or the process and not writable by others (or root-owned and sticky), and whose last
  component is one regular file, seen with the same metadata before opening, after opening
  and after reading: owned by root or the process, with a single link, no permission bit
  outside \<open>0o640\<close>, and as many bytes as were read, at most 16384.
\<close>

theorem signing_key_file_is_trusted:
  assumes "secure_read_signing_key_file fs path = Some pem"
  shows "\<exists>components s material. startswith path ''/'' \<and> length path \<le> 4096 \<and> components = tl (split_on CHR ''/'' path)
    \<and> (\<forall>c \<in> set components. c \<notin> {[], ''.'', ''..''})
    \<and> (\<forall>n < length components. \<exists>m. fs_directory fs (take n components) = Some m
         \<and> metadata_is_trusted_directory (fs_euid fs) m)
    \<and> fs_stat fs = Some s \<and> fs_open fs = Some s \<and> fs_after fs = Some s \<and> S_ISREG (st_mode s)
    \<and> st_uid s \<in> {0, fs_euid fs} \<and> st_nlink s = 1 \<and> st_mode s AND 3679 = 0
    \<and> int (length material) = st_size s \<and> length material \<le> 16384 \<and> fs_decode fs material = Some pem"
proof -
  from assms obtain components s where c: "key_path_components path = Some components" "open_directories fs components"
    "fs_stat fs = Some s" "fs_open fs = Some s" "metadata_is_trusted_key_file (fs_euid fs) s" "read_open_file fs s = Some pem"
    by (auto simp: secure_read_signing_key_file_def split: if_splits option.splits)
  from c(6) obtain material where m: "fs_after fs = Some s" "int (length material) = st_size s"
    "length material \<le> 16384" "fs_decode fs material = Some pem"
    by (auto simp: read_open_file_def MAX_SIGNING_KEY_FILE_BYTES_def split: if_splits option.splits)
  have "components = tl (split_on CHR ''/'' path)"
    using c(1) by (auto simp: key_path_components_def Let_def split: if_splits)
  with key_path_componentsD [OF c(1)] open_directoriesD [OF c(2)] trusted_key_mode [OF c(5)] c(3,4,5) m show ?thesis
    by (intro exI [of _ components] exI [of _ s] exI [of _ material]) (simp add: metadata_is_trusted_key_file_def Let_def)
qed

theorem signing_key_file_is_trusted_witness:
  "\<exists>components s material. startswith ''/run/key'' ''/'' \<and> length ''/run/key'' \<le> 4096
    \<and> components = tl (split_on CHR ''/'' ''/run/key'')
    \<and> (\<forall>c \<in> set components. c \<notin> {[], ''.'', ''..''})
    \<and> (\<forall>n < length components. \<exists>m. fs_directory sample_key_fs (take n components) = Some m
         \<and> metadata_is_trusted_directory (fs_euid sample_key_fs) m)
    \<and> fs_stat sample_key_fs = Some s \<and> fs_open sample_key_fs = Some s \<and> fs_after sample_key_fs = Some s
    \<and> S_ISREG (st_mode s) \<and> st_uid s \<in> {0, fs_euid sample_key_fs} \<and> st_nlink s = 1 \<and> st_mode s AND 3679 = 0
    \<and> int (length material) = st_size s \<and> length material \<le> 16384 \<and> fs_decode sample_key_fs material = Some ''pem''"
  by (rule signing_key_file_is_trusted [OF sample_key_read])

end
