(* ===== verification/Base64.thy ===== *)
theory Base64
  imports Prelude
begin

text \<open>
  Base64 as \<open>base64.b64encode\<close> and \<open>base64.b64decode(..., validate=True)\<close> read and write it;
  a byte string is a \<^typ>\<open>string\<close> whose characters are its bytes. The strict decoder
  refuses characters outside the alphabet, padding anywhere but at the end, and texts that
  are not whole groups of four; it does not look at the unused bits of a padded group.
\<close>

definition sextet_char :: "nat \<Rightarrow> char" where
  "sextet_char n =
     (if n < 26 then char_of (65 + n) else if n < 52 then char_of (71 + n)
      else if n < 62 then char_of (n - 4) else if n = 62 then CHR ''+'' else CHR ''/'')"

definition char_sextet :: "char \<Rightarrow> nat option" where
  "char_sextet c =
     (let n = (of_char c :: nat) in
      if 65 \<le> n \<and> n \<le> 90 then Some (n - 65)
      else if 97 \<le> n \<and> n \<le> 122 then Some (n - 71)
      else if 48 \<le> n \<and> n \<le> 57 then Some (n + 4)
      else if n = 43 then Some 62 else if n = 47 then Some 63 else None)"

abbreviation byte :: "char \<Rightarrow> nat" where
  "byte c \<equiv> of_char c"

fun b64encode :: "string \<Rightarrow> string" where
  "b64encode [] = []"
| "b64encode [a] = [sextet_char (byte a div 4), sextet_char (byte a mod 4 * 16), CHR ''='', CHR ''='']"
| "b64encode [a, b] =
     [sextet_char (byte a div 4), sextet_char (byte a mod 4 * 16 + byte b div 16),
      sextet_char (byte b mod 16 * 4), CHR ''='']"
| "b64encode (a # b # c # s) =
     sextet_char (byte a div 4) # sextet_char (byte a mod 4 * 16 + byte b div 16)
     # sextet_char (byte b mod 16 * 4 + byte c div 64) # sextet_char (byte c mod 64) # b64encode s"

definition group1 :: "nat \<Rightarrow> nat \<Rightarrow> char" where "group1 p q = char_of (p * 4 + q div 16)"
definition group2 :: "nat \<Rightarrow> nat \<Rightarrow> char" where "group2 q r = char_of (q mod 16 * 16 + r div 4)"
definition group3 :: "nat \<Rightarrow> nat \<Rightarrow> char" where "group3 r t = char_of (r mod 4 * 64 + t)"

fun b64decode :: "string \<Rightarrow> string option" where
  "b64decode [] = Some []"
| "b64decode (a # b # c # d # s) =
     (case (char_sextet a, char_sextet b) of
        (Some p, Some q) \<Rightarrow>
          (if c = CHR ''='' then (if d = CHR ''='' \<and> s = [] then Some [group1 p q] else None)
           else (case char_sextet c of
               None \<Rightarrow> None
             | Some r \<Rightarrow>
                 if d = CHR ''='' then (if s = [] then Some [group1 p q, group2 q r] else None)
                 else (case char_sextet d of
                     None \<Rightarrow> None
                   | Some t \<Rightarrow> map_option (\<lambda>u. group1 p q # group2 q r # group3 r t # u) (b64decode s))))
      | _ \<Rightarrow> None)"
| "b64decode _ = None"

lemma sextet_range: "n < 64 \<Longrightarrow> (of_char (sextet_char n) :: nat) =
    (if n < 26 then 65 + n else if n < 52 then 71 + n else if n < 62 then n - 4 else if n = 62 then 43 else 47)"
  by (auto simp: sextet_char_def)

lemma char_sextet_char [simp]: "n < 64 \<Longrightarrow> char_sextet (sextet_char n) = Some n"
  by (auto simp: char_sextet_def sextet_range Let_def)

lemma sextet_not_pad [simp]: "n < 64 \<Longrightarrow> sextet_char n \<noteq> CHR ''=''"
proof
  assume "n < 64" "sextet_char n = CHR ''=''"
  then have "char_sextet (CHR ''='') = Some n" using char_sextet_char [of n] by simp
  then show False by (simp add: char_sextet_def)
qed

lemma byte_less [simp]: "byte c < 256"
  by (cases c) (simp add: of_char_Char [where 'a = nat])

lemma sextets_less [simp]:
  "byte a div 4 < 64" "byte a mod 4 * 16 < 64" "byte a mod 4 * 16 + byte b div 16 < 64"
  "byte b mod 16 * 4 < 64" "byte b mod 16 * 4 + byte c div 64 < 64" "byte c mod 64 < 64"
proof -
  have "byte b div 16 < 16" "byte c div 64 < 4" using byte_less [of b] byte_less [of c] by (simp_all add: less_mult_imp_div_less)
  moreover have "byte a mod 4 < 4" "byte b mod 16 < 16" by simp_all
  ultimately show "byte a mod 4 * 16 + byte b div 16 < 64" "byte b mod 16 * 4 + byte c div 64 < 64"
    "byte a mod 4 * 16 < 64" "byte b mod 16 * 4 < 64" by linarith+
qed (use byte_less [of a] in \<open>simp_all add: less_mult_imp_div_less\<close>)

lemma groups_back:
  "group1 (byte a div 4) (byte a mod 4 * 16) = a"
  "group1 (byte a div 4) (byte a mod 4 * 16 + byte b div 16) = a"
  "group2 (byte a mod 4 * 16 + byte b div 16) (byte b mod 16 * 4) = b"
  "group2 (byte a mod 4 * 16 + byte b div 16) (byte b mod 16 * 4 + byte c div 64) = b"
  "group3 (byte b mod 16 * 4 + byte c div 64) (byte c mod 64) = c"
proof -
  have q: "byte b div 16 < 16" "byte c div 64 < 4" using byte_less [of b] byte_less [of c] by (simp_all add: less_mult_imp_div_less)
  have "byte a div 4 * 4 + byte a mod 4 = byte a" "byte b div 16 * 16 + byte b mod 16 = byte b"
    "byte c div 64 * 64 + byte c mod 64 = byte c" by simp_all
  with q show "group1 (byte a div 4) (byte a mod 4 * 16) = a"
    "group1 (byte a div 4) (byte a mod 4 * 16 + byte b div 16) = a"
    "group2 (byte a mod 4 * 16 + byte b div 16) (byte b mod 16 * 4) = b"
    "group2 (byte a mod 4 * 16 + byte b div 16) (byte b mod 16 * 4 + byte c div 64) = b"
    "group3 (byte b mod 16 * 4 + byte c div 64) (byte c mod 64) = c"
    by (simp_all add: group1_def group2_def group3_def mult.commute)
qed

lemma b64decode_encode [simp]: "b64decode (b64encode s) = Some s"
  by (induction s rule: b64encode.induct) (simp_all add: groups_back del: One_nat_def)

lemma b64encode_length: "length (b64encode s) = 4 * ((length s + 2) div 3)"
proof (induction s rule: b64encode.induct)
  case (4 a b c s)
  have "(length (a # b # c # s) + 2) div 3 = Suc ((length s + 2) div 3)" by simp
  with 4 show ?case by simp
qed simp_all

end
