(* ===== verification/DateArith.thy ===== *)
theory DateArith
  imports Timestamps
begin

text \<open>
  \<open>datetime + timedelta(seconds=n)\<close> for a non-negative whole number of seconds: the time of
  day carries into the date, day by day; leaving year 9999 is Python's \<open>OverflowError\<close>,
  \<open>None\<close> here. Adding moves the instant by exactly \<open>n\<close> seconds.
\<close>

definition next_day :: "datetime \<Rightarrow> datetime option" where
  "next_day t =
     (if dt_day t < days_in_month (dt_year t) (dt_month t) then Some (t\<lparr>dt_day := dt_day t + 1\<rparr>)
      else if dt_month t < 12 then Some (t\<lparr>dt_month := dt_month t + 1, dt_day := 1\<rparr>)
      else if dt_year t < 9999 then Some (t\<lparr>dt_year := dt_year t + 1, dt_month := 1, dt_day := 1\<rparr>)
      else None)"

fun add_days :: "nat \<Rightarrow> datetime \<Rightarrow> datetime option" where
  "add_days 0 t = Some t"
| "add_days (Suc n) t = (case next_day t of None \<Rightarrow> None | Some u \<Rightarrow> add_days n u)"

definition seconds_of_day :: "datetime \<Rightarrow> nat" where
  "seconds_of_day t = 3600 * dt_hour t + 60 * dt_minute t + dt_second t"

definition dt_add_seconds :: "nat \<Rightarrow> datetime \<Rightarrow> datetime option" where
  "dt_add_seconds n t =
     (let total = seconds_of_day t + n; s = total mod 86400 in
      add_days (total div 86400)
        (t\<lparr>dt_hour := s div 3600, dt_minute := s div 60 mod 60, dt_second := s mod 60\<rparr>))"

text \<open>\<open>a > b\<close>: a naive and an aware value cannot be ordered (\<open>TypeError\<close>, \<open>None\<close> here).\<close>

definition dt_gt :: "datetime \<Rightarrow> datetime \<Rightarrow> bool option" where
  "dt_gt a b =
     (if (dt_offset a = None) \<noteq> (dt_offset b = None) then None else Some (dt_instant a > dt_instant b))"


section \<open>The calendar\<close>

lemma sum_days_Suc: "1 \<le> m \<Longrightarrow> sum_list (map f [1..<Suc m]) = sum_list (map f [1..<m]) + (f m :: nat)"
  by simp

lemma year_length: "sum_list (map (days_in_month y) [1..<13]) = (if is_leap y then 366 else 365)"
proof -
  have "[1..<13] = [1, 2, 3, 4, 5, 6, 7, 8, 9, 10, 11, 12 :: nat]" by code_simp
  then show ?thesis by (simp add: days_in_month_def)
qed

lemma next_multiple: "Suc z div k = z div k + (if Suc z mod k = 0 then 1 else 0)" if "0 < k" for z k :: nat
  using that by (simp add: div_Suc)

lemma leap_cycle: "(if C then 1 else 0) + (if A then 1 else 0) = (if B then 1 else 0) + (if A \<and> (\<not> B \<or> C) then 1 else (0::nat))"
  if "C \<longrightarrow> B" "B \<longrightarrow> A" for A B C
  using that by (cases A; cases B; cases C) simp_all

lemma days_before_year_Suc:
  assumes "1 \<le> y"
  shows "days_before_year (Suc y) = days_before_year y + 365 + (if is_leap y then 1 else 0)"
proof -
  from assms obtain z where y: "y = Suc z" by (cases y) auto
  define A B C where "A = (Suc z mod 4 = 0)" and "B = (Suc z mod 100 = 0)" and "C = (Suc z mod 400 = 0)"
  have m: "C \<longrightarrow> B" "B \<longrightarrow> A"
    using mod_mod_cancel [of 100 400 "Suc z"] mod_mod_cancel [of 4 100 "Suc z"] by (auto simp: A_def B_def C_def)
  have leap: "is_leap y \<longleftrightarrow> A \<and> (\<not> B \<or> C)" by (simp add: is_leap_def y A_def B_def C_def)
  have d: "Suc z div 4 = z div 4 + (if A then 1 else 0)" "Suc z div 100 = z div 100 + (if B then 1 else 0)"
    "Suc z div 400 = z div 400 + (if C then 1 else 0)"
    unfolding A_def B_def C_def by (rule next_multiple, simp)+
  have le: "z div 100 \<le> z div 4" "Suc z div 100 \<le> Suc z div 4" by (simp_all add: div_le_mono2)
  have "days_before_year (Suc y) + Suc z div 100 = Suc z * 365 + Suc z div 4 + Suc z div 400"
    "days_before_year y + z div 100 = z * 365 + z div 4 + z div 400"
    using le by (simp_all add: days_before_year_def Let_def y)
  then show ?thesis
    unfolding leap d using leap_cycle [OF m] by simp
qed

lemma next_day_instant:
  assumes "dt_valid t" "next_day t = Some u"
  shows "dt_valid u \<and> dt_instant u = dt_instant t + 1000000 * 86400 \<and>
    dt_hour u = dt_hour t \<and> dt_minute u = dt_minute t \<and> dt_second u = dt_second t \<and> dt_offset u = dt_offset t"
proof -
  let ?dim = "days_in_month (dt_year t) (dt_month t)"
  consider (day) "dt_day t < ?dim" "u = t\<lparr>dt_day := dt_day t + 1\<rparr>"
    | (month) "dt_day t = ?dim" "dt_month t < 12" "u = t\<lparr>dt_month := dt_month t + 1, dt_day := 1\<rparr>"
    | (year) "dt_day t = ?dim" "dt_month t = 12" "dt_year t < 9999"
        "u = t\<lparr>dt_year := dt_year t + 1, dt_month := 1, dt_day := 1\<rparr>"
    using assms by (auto simp: next_day_def dt_valid_def split: if_splits)
  then show ?thesis
  proof cases
    case day
    with assms(1) show ?thesis by (auto simp: dt_valid_def dt_instant_def ymd2ord_def)
  next
    case month
    moreover have "1 \<le> days_in_month y m" for y m by (simp add: days_in_month_def)
    ultimately show ?thesis
      using assms(1) sum_days_Suc [of "dt_month t" "days_in_month (dt_year t)"]
      by (auto simp: dt_valid_def dt_instant_def ymd2ord_def)
  next
    case year
    have "sum_list (map (days_in_month (dt_year t)) [1..<12]) + ?dim = (if is_leap (dt_year t) then 366 else 365)"
      using year_length [of "dt_year t"] sum_days_Suc [of 12 "days_in_month (dt_year t)"] year(2) by simp
    then have "ymd2ord (Suc (dt_year t)) 1 1 = Suc (ymd2ord (dt_year t) 12 (dt_day t))"
      using days_before_year_Suc [of "dt_year t"] assms(1) year(1) by (simp add: ymd2ord_def dt_valid_def split: if_splits)
    with year assms(1) show ?thesis
      by (auto simp: dt_valid_def dt_instant_def days_in_month_def)
  qed
qed

lemma add_days_instant:
  "dt_valid t \<Longrightarrow> add_days n t = Some u \<Longrightarrow>
     dt_valid u \<and> dt_instant u = dt_instant t + 1000000 * 86400 * int n \<and> dt_offset u = dt_offset t"
proof (induction n arbitrary: t)
  case (Suc n)
  then obtain v where v: "next_day t = Some v" "add_days n v = Some u" by (auto split: option.splits)
  from next_day_instant [OF Suc.prems(1) v(1)] Suc.IH [OF _ v(2)] show ?case by (simp add: algebra_simps)
qed simp

lemma dt_instant_split:
  "dt_instant t = 1000000 * (86400 * int (ymd2ord (dt_year t) (dt_month t) (dt_day t))
      - (case dt_offset t of None \<Rightarrow> 0 | Some z \<Rightarrow> z)) + int (dt_micro t) + 1000000 * int (seconds_of_day t)"
  by (simp add: dt_instant_def seconds_of_day_def)

lemma dt_add_seconds_instant:
  assumes "dt_valid t" "dt_add_seconds n t = Some u"
  shows "dt_valid u \<and> dt_instant u = dt_instant t + 1000000 * int n \<and> dt_offset u = dt_offset t"
proof -
  define total where "total = seconds_of_day t + n"
  define s where "s = total mod 86400"
  let ?v = "t\<lparr>dt_hour := s div 3600, dt_minute := s div 60 mod 60, dt_second := s mod 60\<rparr>"
  have s: "s < 86400" "total = 86400 * (total div 86400) + s" by (simp_all add: s_def)
  have "60 * (s div 60 div 60) + s div 60 mod 60 = s div 60" "60 * (s div 60) + s mod 60 = s"
    by (rule mult_div_mod_eq)+
  moreover have "s div 3600 = s div 60 div 60" using div_mult2_eq [of s 60 60] by simp
  ultimately have "3600 * (s div 3600) + 60 * (s div 60 mod 60) + s mod 60 = s" by linarith
  then have "seconds_of_day ?v = s" by (simp add: seconds_of_day_def)
  then have i: "dt_instant ?v = dt_instant t + 1000000 * (int s - int (seconds_of_day t))"
    unfolding dt_instant_split by simp
  have "s div 3600 < 24" using s(1) by (simp add: less_mult_imp_div_less)
  then have v: "dt_valid ?v" using assms(1) by (simp add: dt_valid_def less_Suc_eq_le [symmetric])
  have "add_days (total div 86400) ?v = Some u"
    using assms(2) by (simp add: dt_add_seconds_def Let_def total_def s_def)
  note a = add_days_instant [OF v this]
  have "int total = 86400 * int (total div 86400) + int s" using arg_cong [OF s(2), of int] by simp
  then have "int (seconds_of_day t) + int n = 86400 * int (total div 86400) + int s" by (simp add: total_def)
  with a i show ?thesis by auto
qed

end
