(* ===== verification/DispatchLease.thy ===== *)
theory DispatchLease
  imports KeyFile Base64 DateArith Capability CredentialContract
begin

text \<open>
  The one-time signed dispatch lease of \<open>netbox_rpc/dispatch_lease.py\<close>: the claims and their
  bounds, the key configuration, issuing and verifying.

  The \<open>cryptography\<close> package is the record \<open>ed25519\<close> (keys are opaque texts; loading a PEM
  that is not an Ed25519 key, or any exception while loading, is \<open>None\<close>); the nonce of
  \<open>secrets.token_hex\<close> and the current time are arguments.
\<close>

definition LEASE_ENVELOPE_VERSION :: int where "LEASE_ENVELOPE_VERSION = 1"
definition SUPPORTED_LEASE_ENVELOPE_VERSIONS :: "int list" where "SUPPORTED_LEASE_ENVELOPE_VERSIONS = [1]"
definition SIGNING_ALGORITHM :: string where "SIGNING_ALGORITHM = ''ed25519''"
definition DEFAULT_AUDIENCE :: string where "DEFAULT_AUDIENCE = ''netbox-rpc-backend''"
definition DEFAULT_TTL_SECONDS :: int where "DEFAULT_TTL_SECONDS = 120"
definition MAX_TTL_SECONDS :: int where "MAX_TTL_SECONDS = 900"
definition MAX_ENV_KEY_VERSION :: int where "MAX_ENV_KEY_VERSION = 2147483647"
definition MAX_ID_LEN :: nat where "MAX_ID_LEN = 255"
definition MAX_HASH_LEN :: nat where "MAX_HASH_LEN = 128"
definition MAX_NONCE_LEN :: nat where "MAX_NONCE_LEN = 128"
definition MAX_SIG_LEN :: nat where "MAX_SIG_LEN = 512"
definition MAX_REF_LEN :: nat where "MAX_REF_LEN = 255"

record LeaseClaims =
  lc_envelope_version :: int
  lc_execution_id :: int
  lc_stream_version :: int
  lc_nonce :: string
  lc_audience :: string
  lc_handler_id :: string
  lc_handler_version :: int
  lc_effect :: string
  lc_contract_hash :: string
  lc_target_snapshot_hash :: string
  lc_params_fingerprint :: string
  lc_credential_policy :: string
  lc_requested_by_id :: "int option"
  lc_approved_by_id :: "int option"
  lc_issued_at :: string
  lc_expires_at :: string
  lc_trace_id :: string
  lc_key_id :: string
  lc_key_version :: int

definition claims_constraints :: "LeaseClaims \<Rightarrow> bool" where
  "claims_constraints c \<longleftrightarrow>
     0 \<le> lc_envelope_version c \<and> 0 \<le> lc_execution_id c \<and> 0 \<le> lc_stream_version c
     \<and> 1 \<le> length (lc_nonce c) \<and> length (lc_nonce c) \<le> MAX_NONCE_LEN
     \<and> 1 \<le> length (lc_audience c) \<and> length (lc_audience c) \<le> MAX_REF_LEN
     \<and> length (lc_handler_id c) \<le> MAX_ID_LEN \<and> 0 \<le> lc_handler_version c \<and> length (lc_effect c) \<le> 20
     \<and> length (lc_contract_hash c) \<le> MAX_HASH_LEN \<and> length (lc_target_snapshot_hash c) \<le> MAX_HASH_LEN
     \<and> length (lc_params_fingerprint c) \<le> MAX_HASH_LEN \<and> length (lc_credential_policy c) \<le> MAX_REF_LEN
     \<and> pred_option (\<lambda>i. 0 \<le> i) (lc_requested_by_id c) \<and> pred_option (\<lambda>i. 0 \<le> i) (lc_approved_by_id c)
     \<and> length (lc_issued_at c) \<le> 64 \<and> length (lc_expires_at c) \<le> 64 \<and> length (lc_trace_id c) \<le> MAX_ID_LEN
     \<and> 1 \<le> length (lc_key_id c) \<and> length (lc_key_id c) \<le> MAX_ID_LEN \<and> 0 \<le> lc_key_version c"

definition opt_int :: "int option \<Rightarrow> pyval" where
  "opt_int i = (case i of None \<Rightarrow> VNone | Some n \<Rightarrow> VInt n)"

definition opt_str :: "string option \<Rightarrow> pyval" where
  "opt_str s = (case s of None \<Rightarrow> VNone | Some t \<Rightarrow> VStr t)"

definition claims_dump :: "LeaseClaims \<Rightarrow> pydict" where
  "claims_dump c =
     [(''envelope_version'', VInt (lc_envelope_version c)), (''execution_id'', VInt (lc_execution_id c)),
      (''stream_version'', VInt (lc_stream_version c)), (''nonce'', VStr (lc_nonce c)),
      (''audience'', VStr (lc_audience c)), (''handler_id'', VStr (lc_handler_id c)),
      (''handler_version'', VInt (lc_handler_version c)), (''effect'', VStr (lc_effect c)),
      (''contract_hash'', VStr (lc_contract_hash c)), (''target_snapshot_hash'', VStr (lc_target_snapshot_hash c)),
      (''params_fingerprint'', VStr (lc_params_fingerprint c)), (''credential_policy'', VStr (lc_credential_policy c)),
      (''requested_by_id'', opt_int (lc_requested_by_id c)), (''approved_by_id'', opt_int (lc_approved_by_id c)),
      (''issued_at'', VStr (lc_issued_at c)), (''expires_at'', VStr (lc_expires_at c)),
      (''trace_id'', VStr (lc_trace_id c)), (''key_id'', VStr (lc_key_id c)), (''key_version'', VInt (lc_key_version c))]"

definition canonical_bytes :: "LeaseClaims \<Rightarrow> string" where
  "canonical_bytes c = json_dumps (VDict (claims_dump c))"

record SignedDispatchLease =
  sl_algorithm :: string
  sl_claims :: LeaseClaims
  sl_signature :: string

definition to_body :: "SignedDispatchLease \<Rightarrow> pyval" where
  "to_body l = VDict [(''algorithm'', VStr (sl_algorithm l)), (''claims'', VDict (claims_dump (sl_claims l))),
     (''signature'', VStr (sl_signature l))]"

definition lease_constraints :: "SignedDispatchLease \<Rightarrow> bool" where
  "lease_constraints l \<longleftrightarrow> length (sl_algorithm l) \<le> 32 \<and> 1 \<le> length (sl_signature l)
     \<and> length (sl_signature l) \<le> MAX_SIG_LEN"

datatype LeaseStatus = VALID | INVALID | NOT_ISSUED

record LeaseVerification =
  lv_status :: LeaseStatus
  lv_reason :: string


section \<open>Key material\<close>

record ed25519 =
  ed_load_private :: "string \<Rightarrow> string option"
  ed_load_public_pem :: "string \<Rightarrow> string option"
  ed_from_public_bytes :: "string \<Rightarrow> string option"
  ed_public_of :: "string \<Rightarrow> string"
  ed_sign :: "string \<Rightarrow> string \<Rightarrow> string"
  ed_verify :: "string \<Rightarrow> string \<Rightarrow> string \<Rightarrow> bool"

record signing_key =
  sk_key_id :: string
  sk_key_version :: int
  sk_private_key :: string

definition lease_sign :: "ed25519 \<Rightarrow> signing_key \<Rightarrow> string \<Rightarrow> string" where
  "lease_sign ed k message = b64encode (ed_sign ed (sk_private_key k) message)"

definition public_key :: "ed25519 \<Rightarrow> signing_key \<Rightarrow> string" where
  "public_key ed k = ed_public_of ed (sk_private_key k)"

definition load_ed25519_public_key :: "ed25519 \<Rightarrow> string \<Rightarrow> string option" where
  "load_ed25519_public_key ed material =
     (let stripped = strip material in
      if contains stripped ''BEGIN'' then ed_load_public_pem ed stripped
      else (case b64decode stripped of None \<Rightarrow> None | Some raw \<Rightarrow> ed_from_public_bytes ed raw))"

text \<open>The settings (\<open>PLUGINS_CONFIG\<close>), the three environment variables and the file system.\<close>

record lease_env =
  env_plugins_config :: pyval
  env_key_file :: "string option"
  env_key_id :: "string option"
  env_key_version :: "string option"
  env_fs :: key_fs

definition plugin_setting :: "lease_env \<Rightarrow> string \<Rightarrow> pyval option" where
  "plugin_setting env name = (case env_plugins_config env of
       VDict d \<Rightarrow> (case map_of d ''netbox_rpc'' of
           Some (VDict e) \<Rightarrow> map_of e name
         | _ \<Rightarrow> None)
     | _ \<Rightarrow> None)"

definition env_key_id_char :: "char \<Rightarrow> bool" where
  "env_key_id_char c \<longleftrightarrow> is_alpha c \<or> is_digit c \<or> c \<in> set ''._:-''"

definition ENV_KEY_ID_RE :: "string \<Rightarrow> bool" where
  "ENV_KEY_ID_RE s \<longleftrightarrow> s \<noteq> [] \<and> (is_alpha (hd s) \<or> is_digit (hd s)) \<and> length s \<le> 255 \<and> list_all env_key_id_char s"

definition or_empty :: "string option \<Rightarrow> string" where
  "or_empty s = (case s of None \<Rightarrow> [] | Some t \<Rightarrow> t)"

definition load_environment_signing_key :: "ed25519 \<Rightarrow> lease_env \<Rightarrow> signing_key option" where
  "load_environment_signing_key ed env =
     (let path = or_empty (env_key_file env); key_id = or_empty (env_key_id env);
          raw_version = or_empty (env_key_version env)
      in if path = [] \<and> key_id = [] \<and> raw_version = [] then None
         else if path = [] \<or> key_id = [] \<or> raw_version = [] \<or> \<not> ENV_KEY_ID_RE key_id then None
         else (case int_of_str raw_version of
             None \<Rightarrow> None
           | Some key_version \<Rightarrow>
               if \<not> (1 \<le> key_version \<and> key_version \<le> MAX_ENV_KEY_VERSION) then None
               else (case secure_read_signing_key_file (env_fs env) path of
                   None \<Rightarrow> None
                 | Some pem \<Rightarrow> (case ed_load_private ed pem of
                       None \<Rightarrow> None
                     | Some private_key \<Rightarrow>
                         Some \<lparr>sk_key_id = key_id, sk_key_version = key_version, sk_private_key = private_key\<rparr>))))"

text \<open>\<open>int(entry.get("key_version", 1))\<close>; a \<open>TypeError\<close> or a \<open>ValueError\<close> skips the entry, an
  \<open>OverflowError\<close> leaves the loop.\<close>

definition entry_key_version :: "python_rt \<Rightarrow> pydict \<Rightarrow> pyexc + int option" where
  "entry_key_version rt entry =
     (case py_int rt (case map_of entry ''key_version'' of None \<Rightarrow> VInt 1 | Some v \<Rightarrow> v) of
        Inr i \<Rightarrow> Inr (Some i)
      | Inl e \<Rightarrow> if e = TypeError \<or> e = ValueError then Inr None else Inl e)"

definition entry_key_id :: "pydict \<Rightarrow> string" where
  "entry_key_id entry = strip (str_or (dget entry ''key_id'') [])"

definition active_entry :: "python_rt \<Rightarrow> ed25519 \<Rightarrow> pyval \<Rightarrow> pyexc + signing_key option" where
  "active_entry rt ed v = (case v of
       VDict entry \<Rightarrow>
         if \<not> truthy (dget entry ''active'') then Inr None
         else (case dget entry ''private_key_pem'' of
             VStr pem \<Rightarrow>
               if entry_key_id entry = [] \<or> strip pem = [] then Inr None
               else rbind (entry_key_version rt entry) (\<lambda>kv. Inr (case kv of
                   None \<Rightarrow> None
                 | Some key_version \<Rightarrow>
                     if key_version < 0 \<or> length (entry_key_id entry) > MAX_ID_LEN then None
                     else map_option (\<lambda>private_key. \<lparr>sk_key_id = entry_key_id entry,
                         sk_key_version = key_version, sk_private_key = private_key\<rparr>) (ed_load_private ed pem)))
           | _ \<Rightarrow> Inr None)
     | _ \<Rightarrow> Inr None)"

fun first_active :: "python_rt \<Rightarrow> ed25519 \<Rightarrow> pyval list \<Rightarrow> pyexc + signing_key option" where
  "first_active rt ed [] = Inr None"
| "first_active rt ed (v # vs) =
     rbind (active_entry rt ed v) (\<lambda>k. case k of None \<Rightarrow> first_active rt ed vs | Some k \<Rightarrow> Inr (Some k))"

definition load_active_signing_key :: "python_rt \<Rightarrow> ed25519 \<Rightarrow> lease_env \<Rightarrow> pyexc + signing_key option" where
  "load_active_signing_key rt ed env = (case plugin_setting env ''dispatch_lease_signing_keys'' of
       None \<Rightarrow> Inr (load_environment_signing_key ed env)
     | Some (VList entries) \<Rightarrow> first_active rt ed entries
     | Some _ \<Rightarrow> Inr None)"

type_synonym key_lineage = "((string \<times> int) \<times> string) list"

definition entry_public_key :: "ed25519 \<Rightarrow> pydict \<Rightarrow> string option" where
  "entry_public_key ed entry =
     (let public = (case py_or (dget entry ''public_key_pem'') (dget entry ''public_key_b64'') of
             VStr material \<Rightarrow> if strip material \<noteq> [] then load_ed25519_public_key ed material else None
           | _ \<Rightarrow> None)
      in if public \<noteq> None then public
         else (case dget entry ''private_key_pem'' of
             VStr pem \<Rightarrow> map_option (ed_public_of ed) (ed_load_private ed pem)
           | _ \<Rightarrow> None))"

definition lineage_step :: "python_rt \<Rightarrow> ed25519 \<Rightarrow> key_lineage \<Rightarrow> pyval \<Rightarrow> pyexc + key_lineage" where
  "lineage_step rt ed out v = (case v of
       VDict entry \<Rightarrow>
         if entry_key_id entry = [] then Inr out
         else rbind (entry_key_version rt entry) (\<lambda>kv. Inr (case kv of
             None \<Rightarrow> out
           | Some key_version \<Rightarrow> (case entry_public_key ed entry of
                 None \<Rightarrow> out
               | Some public \<Rightarrow> dict_set (entry_key_id entry, key_version) public out)))
     | _ \<Rightarrow> Inr out)"

definition load_verifier_public_keys :: "python_rt \<Rightarrow> ed25519 \<Rightarrow> lease_env \<Rightarrow> pyexc + key_lineage" where
  "load_verifier_public_keys rt ed env = (case plugin_setting env ''dispatch_lease_signing_keys'' of
       None \<Rightarrow> Inr (case load_environment_signing_key ed env of
           None \<Rightarrow> []
         | Some k \<Rightarrow> [((sk_key_id k, sk_key_version k), public_key ed k)])
     | Some (VList entries) \<Rightarrow> rfold (lineage_step rt ed) [] entries
     | Some _ \<Rightarrow> Inr [])"


section \<open>Issuing\<close>

record lease_execution =
  le_pk :: "int option"
  le_procedure :: "rpc_procedure option"
  le_credential_references :: pyval
  le_requested_by_id :: pyval
  le_approved_by_id :: pyval

definition hash_json :: "python_rt \<Rightarrow> pyval \<Rightarrow> string" where
  "hash_json rt v = (if v = VNone then [] else rt_sha256 rt (json_dumps v))"

text \<open>\<open>_maybe_int\<close>: only an \<open>OverflowError\<close> passes.\<close>

definition maybe_int :: "python_rt \<Rightarrow> pyval \<Rightarrow> pyexc + int option" where
  "maybe_int rt v = (if v = VNone then Inr None else (case py_int rt v of
       Inr i \<Rightarrow> Inr (Some i)
     | Inl e \<Rightarrow> if e = TypeError \<or> e = ValueError then Inr None else Inl e))"

definition resolve_audience :: "lease_env \<Rightarrow> string option \<Rightarrow> string" where
  "resolve_audience env audience =
     take MAX_REF_LEN (py_str (py_or (opt_str audience)
       (py_or (case plugin_setting env ''dispatch_lease_audience'' of None \<Rightarrow> VNone | Some v \<Rightarrow> v)
         (VStr DEFAULT_AUDIENCE))))"

definition resolve_ttl :: "python_rt \<Rightarrow> lease_env \<Rightarrow> int option \<Rightarrow> pyexc + int" where
  "resolve_ttl rt env ttl_seconds =
     (let ttl = (case ttl_seconds of Some n \<Rightarrow> VInt n
          | None \<Rightarrow> (case plugin_setting env ''dispatch_lease_ttl_seconds'' of None \<Rightarrow> VNone | Some v \<Rightarrow> v))
      in rbind (if ttl = VNone then Inr DEFAULT_TTL_SECONDS
                else (case py_int rt ttl of
                    Inr n \<Rightarrow> Inr n
                  | Inl e \<Rightarrow> if e = TypeError \<or> e = ValueError then Inr DEFAULT_TTL_SECONDS else Inl e))
           (\<lambda>n. Inr (max 1 (min n MAX_TTL_SECONDS))))"

definition lease_ttl :: "python_rt \<Rightarrow> lease_env \<Rightarrow> lease_execution \<Rightarrow> int option \<Rightarrow> pyexc + int" where
  "lease_ttl rt env execution ttl_seconds = rbind (resolve_ttl rt env ttl_seconds) (\<lambda>ttl.
     Inr (if truthy (le_credential_references execution) then min ttl MAX_REFERENCE_LEASE_SECONDS else ttl))"

definition fingerprint_source :: "pydict option \<Rightarrow> pyval" where
  "fingerprint_source normalized_params =
     dget (case normalized_params of None \<Rightarrow> [] | Some d \<Rightarrow> d) ''command_fingerprint''"

definition target_hash :: "pyval \<Rightarrow> string" where
  "target_hash fingerprint = (case fingerprint of
       VDict d \<Rightarrow> take MAX_HASH_LEN (str_or (dget d ''target_object_sha256'') [])
     | _ \<Rightarrow> [])"

record lease_request =
  lr_stream_version :: int
  lr_normalized_params :: "pydict option"
  lr_credential_policy :: string
  lr_trace_id :: string
  lr_audience :: "string option"
  lr_ttl_seconds :: "int option"

definition build_claims ::
  "python_rt \<Rightarrow> contract_tables \<Rightarrow> lease_env \<Rightarrow> signing_key \<Rightarrow> int \<Rightarrow> rpc_procedure \<Rightarrow> lease_execution
     \<Rightarrow> lease_request \<Rightarrow> datetime \<Rightarrow> datetime \<Rightarrow> string \<Rightarrow> pyexc + LeaseClaims" where
  "build_claims rt ct env k execution_id p execution rq now expires nonce =
     rbind (derive_command_contract_hash rt ct p) (\<lambda>contract_hash.
     rbind (maybe_int rt (le_requested_by_id execution)) (\<lambda>requested_by.
     rbind (maybe_int rt (le_approved_by_id execution)) (\<lambda>approved_by.
       let fingerprint = fingerprint_source (lr_normalized_params rq);
           claims = \<lparr>lc_envelope_version = LEASE_ENVELOPE_VERSION, lc_execution_id = execution_id,
             lc_stream_version = lr_stream_version rq, lc_nonce = nonce,
             lc_audience = resolve_audience env (lr_audience rq), lc_handler_id = take MAX_ID_LEN (proc_handler_id p),
             lc_handler_version = version_or_one p, lc_effect = take 20 (proc_effect p),
             lc_contract_hash = contract_hash, lc_target_snapshot_hash = target_hash fingerprint,
             lc_params_fingerprint = hash_json rt fingerprint,
             lc_credential_policy = take MAX_REF_LEN (lr_credential_policy rq),
             lc_requested_by_id = requested_by, lc_approved_by_id = approved_by, lc_issued_at = isoformat now,
             lc_expires_at = isoformat expires, lc_trace_id = take MAX_ID_LEN (lr_trace_id rq),
             lc_key_id = sk_key_id k, lc_key_version = sk_key_version k\<rparr>
       in if claims_constraints claims then Inr claims else Inl ValueError)))"

text \<open>\<open>now + timedelta(seconds=ttl)\<close> raises \<open>OverflowError\<close> past the last year; the handler of
  the claims catches \<open>ValueError\<close> and \<open>TypeError\<close> only. Building the signed lease is outside it.\<close>

definition sign_lease :: "ed25519 \<Rightarrow> signing_key \<Rightarrow> LeaseClaims \<Rightarrow> pyexc + SignedDispatchLease option" where
  "sign_lease ed k claims =
     (let lease = \<lparr>sl_algorithm = SIGNING_ALGORITHM, sl_claims = claims,
          sl_signature = lease_sign ed k (canonical_bytes claims)\<rparr>
      in if lease_constraints lease then Inr (Some lease) else Inl ValueError)"

definition issue_dispatch_lease ::
  "python_rt \<Rightarrow> contract_tables \<Rightarrow> ed25519 \<Rightarrow> lease_env \<Rightarrow> lease_execution \<Rightarrow> lease_request \<Rightarrow> datetime \<Rightarrow> string
     \<Rightarrow> pyexc + SignedDispatchLease option" where
  "issue_dispatch_lease rt ct ed env execution rq now nonce =
     rbind (load_active_signing_key rt ed env) (\<lambda>signing_key. case signing_key of
         None \<Rightarrow> Inr None
       | Some k \<Rightarrow> (case (le_procedure execution, le_pk execution) of
           (Some p, Some execution_id) \<Rightarrow>
             rbind (lease_ttl rt env execution (lr_ttl_seconds rq)) (\<lambda>ttl.
               (case rbind (case dt_add_seconds (nat ttl) now of None \<Rightarrow> Inl OverflowError | Some e \<Rightarrow> Inr e)
                       (\<lambda>expires. build_claims rt ct env k execution_id p execution rq now expires nonce) of
                  Inl e \<Rightarrow> if e = TypeError \<or> e = ValueError then Inr None else Inl e
                | Inr claims \<Rightarrow> sign_lease ed k claims))
         | _ \<Rightarrow> Inr None))"


section \<open>Verifying\<close>

record lease_expectations =
  ex_execution_id :: "int option"
  ex_stream_version :: "int option"
  ex_contract_hash :: "string option"
  ex_handler_id :: "string option"
  ex_handler_version :: "int option"
  ex_effect :: "string option"
  ex_target_snapshot_hash :: "string option"
  ex_params_fingerprint :: "string option"
  ex_credential_policy :: "string option"
  ex_requested_by_id :: "int option"
  ex_approved_by_id :: "int option"
  ex_seen_nonces :: "string list option"

definition invalid_lease :: "string \<Rightarrow> LeaseVerification" where
  "invalid_lease reason = \<lparr>lv_status = INVALID, lv_reason = take 255 reason\<rparr>"

definition parse_iso :: "python_rt \<Rightarrow> string \<Rightarrow> datetime option" where
  "parse_iso rt s = (if s = [] then None else fromisoformat (rt_iso rt) s)"

definition binding_checks :: "lease_expectations \<Rightarrow> LeaseClaims \<Rightarrow> (pyval \<times> pyval \<times> string) list" where
  "binding_checks ex c =
     [(opt_int (ex_execution_id ex), VInt (lc_execution_id c), ''execution id mismatch''),
      (opt_int (ex_stream_version ex), VInt (lc_stream_version c), ''stream version mismatch''),
      (opt_str (ex_contract_hash ex), VStr (lc_contract_hash c), ''contract hash mismatch''),
      (opt_str (ex_handler_id ex), VStr (lc_handler_id c), ''handler id mismatch''),
      (opt_int (ex_handler_version ex), VInt (lc_handler_version c), ''handler version mismatch''),
      (opt_str (ex_effect ex), VStr (lc_effect c), ''effect mismatch''),
      (opt_str (ex_target_snapshot_hash ex), VStr (lc_target_snapshot_hash c), ''target snapshot mismatch''),
      (opt_str (ex_params_fingerprint ex), VStr (lc_params_fingerprint c), ''params fingerprint mismatch''),
      (opt_str (ex_credential_policy ex), VStr (lc_credential_policy c), ''credential policy mismatch''),
      (opt_int (ex_requested_by_id ex), opt_int (lc_requested_by_id c), ''requester mismatch''),
      (opt_int (ex_approved_by_id ex), opt_int (lc_approved_by_id c), ''approver mismatch'')]"

definition binding_differs :: "pyval \<times> pyval \<times> string \<Rightarrow> bool" where
  "binding_differs b = (case b of (expected, actual, _) \<Rightarrow> expected \<noteq> VNone \<and> \<not> py_eq actual expected)"

definition verify_bindings :: "lease_expectations \<Rightarrow> LeaseClaims \<Rightarrow> LeaseVerification" where
  "verify_bindings ex c = (case List.find binding_differs (binding_checks ex c) of
       Some (_, _, reason) \<Rightarrow> invalid_lease reason
     | None \<Rightarrow>
         if (case ex_seen_nonces ex of None \<Rightarrow> False | Some seen \<Rightarrow> lc_nonce c \<in> set seen)
         then invalid_lease ''nonce replay''
         else \<lparr>lv_status = VALID, lv_reason = []\<rparr>)"

text \<open>Comparing a naive with an aware time raises \<open>TypeError\<close>.\<close>

definition verify_times ::
  "python_rt \<Rightarrow> datetime \<Rightarrow> lease_expectations \<Rightarrow> LeaseClaims \<Rightarrow> pyexc + LeaseVerification" where
  "verify_times rt now ex c = (case (parse_iso rt (lc_expires_at c), parse_iso rt (lc_issued_at c)) of
       (Some expires, Some _) \<Rightarrow> (case dt_gt now expires of
           None \<Rightarrow> Inl TypeError
         | Some expired \<Rightarrow> Inr (if expired then invalid_lease ''lease expired'' else verify_bindings ex c))
     | _ \<Rightarrow> Inr (invalid_lease ''malformed lease timestamps''))"

definition verify_dispatch_lease ::
  "python_rt \<Rightarrow> ed25519 \<Rightarrow> key_lineage \<Rightarrow> string \<Rightarrow> datetime \<Rightarrow> lease_expectations \<Rightarrow> SignedDispatchLease
     \<Rightarrow> pyexc + LeaseVerification" where
  "verify_dispatch_lease rt ed public_keys audience now ex lease =
     (let claims = sl_claims lease in
      if lc_envelope_version claims \<notin> set SUPPORTED_LEASE_ENVELOPE_VERSIONS then
        Inr (invalid_lease ''unsupported envelope version'')
      else if sl_algorithm lease \<noteq> SIGNING_ALGORITHM then Inr (invalid_lease ''unsupported signing algorithm'')
      else (case map_of public_keys (lc_key_id claims, lc_key_version claims) of
          None \<Rightarrow> Inr (invalid_lease ''unknown signing key lineage'')
        | Some public \<Rightarrow> (case b64decode (sl_signature lease) of
              None \<Rightarrow> Inr (invalid_lease ''malformed signature encoding'')
            | Some signature \<Rightarrow>
                if \<not> ed_verify ed public signature (canonical_bytes claims) then
                  Inr (invalid_lease ''signature verification failed'')
                else if lc_audience claims \<noteq> audience then Inr (invalid_lease ''wrong audience'')
                else verify_times rt now ex claims)))"

end
