(* ===== verification/DispatchLeaseProps.thy ===== *)
theory DispatchLeaseProps
  imports DispatchLease CapabilityProps
begin

text \<open>
  What a lease guarantees: the signed bytes determine the claims, an issued lease lives for
  at most its bounded time and verifies at the other end, and a valid verdict implies the
  signature, the audience, the time window, every expected binding and an unseen nonce.
\<close>

section \<open>The signed bytes determine the claims\<close>

lemma claims_lookup:
  "map_of (claims_dump c) ''envelope_version'' = Some (VInt (lc_envelope_version c))"
  "map_of (claims_dump c) ''execution_id'' = Some (VInt (lc_execution_id c))"
  "map_of (claims_dump c) ''stream_version'' = Some (VInt (lc_stream_version c))"
  "map_of (claims_dump c) ''nonce'' = Some (VStr (lc_nonce c))"
  "map_of (claims_dump c) ''audience'' = Some (VStr (lc_audience c))"
  "map_of (claims_dump c) ''handler_id'' = Some (VStr (lc_handler_id c))"
  "map_of (claims_dump c) ''handler_version'' = Some (VInt (lc_handler_version c))"
  "map_of (claims_dump c) ''effect'' = Some (VStr (lc_effect c))"
  "map_of (claims_dump c) ''contract_hash'' = Some (VStr (lc_contract_hash c))"
  "map_of (claims_dump c) ''target_snapshot_hash'' = Some (VStr (lc_target_snapshot_hash c))"
  "map_of (claims_dump c) ''params_fingerprint'' = Some (VStr (lc_params_fingerprint c))"
  "map_of (claims_dump c) ''credential_policy'' = Some (VStr (lc_credential_policy c))"
  "map_of (claims_dump c) ''requested_by_id'' = Some (opt_int (lc_requested_by_id c))"
  "map_of (claims_dump c) ''approved_by_id'' = Some (opt_int (lc_approved_by_id c))"
  "map_of (claims_dump c) ''issued_at'' = Some (VStr (lc_issued_at c))"
  "map_of (claims_dump c) ''expires_at'' = Some (VStr (lc_expires_at c))"
  "map_of (claims_dump c) ''trace_id'' = Some (VStr (lc_trace_id c))"
  "map_of (claims_dump c) ''key_id'' = Some (VStr (lc_key_id c))"
  "map_of (claims_dump c) ''key_version'' = Some (VInt (lc_key_version c))"
  by (simp_all add: claims_dump_def)

lemma claims_dump_distinct: "distinct (map fst (claims_dump c))"
  by (simp add: claims_dump_def)

lemma opt_int_key_sorted [simp]: "key_sorted (opt_int i) = opt_int i" "exact_json (opt_int i)"
  by (simp_all add: opt_int_def split: option.split)

lemma opt_int_inject [simp]: "opt_int i = opt_int j \<longleftrightarrow> i = j"
  by (simp add: opt_int_def split: option.split)

lemma claims_exact: "exact_json (VDict (claims_dump c))"
  by (simp add: claims_dump_def)

text \<open>
  The signature is over an unambiguous message: two claim sets with the same canonical
  bytes are equal, so a signature of one lease is a signature of no other.
\<close>

theorem canonical_bytes_determine_claims:
  assumes "canonical_bytes c = canonical_bytes d"
  shows "c = d"
proof -
  have "key_sorted (VDict (claims_dump c)) = key_sorted (VDict (claims_dump d))"
    using assms unfolding canonical_bytes_def by (intro json_dumps_unique claims_exact)
  note L = sorted_dict_lookup [OF this claims_dump_distinct claims_dump_distinct]
  from L [of "''envelope_version''"] L [of "''execution_id''"] L [of "''stream_version''"] L [of "''nonce''"]
    L [of "''audience''"] L [of "''handler_id''"] L [of "''handler_version''"] L [of "''effect''"]
    L [of "''contract_hash''"] L [of "''target_snapshot_hash''"] L [of "''params_fingerprint''"]
    L [of "''credential_policy''"] L [of "''requested_by_id''"] L [of "''approved_by_id''"] L [of "''issued_at''"]
    L [of "''expires_at''"] L [of "''trace_id''"] L [of "''key_id''"] L [of "''key_version''"]
  show ?thesis
    unfolding claims_lookup by (intro LeaseClaims.equality) simp_all
qed

definition sample_claims :: LeaseClaims where
  "sample_claims = \<lparr>lc_envelope_version = 1, lc_execution_id = 9, lc_stream_version = 3, lc_nonce = ''n1'',
     lc_audience = ''netbox-rpc-backend'', lc_handler_id = ''os.linux.uptime'', lc_handler_version = 1,
     lc_effect = ''read'', lc_contract_hash = ''h'', lc_target_snapshot_hash = [], lc_params_fingerprint = [],
     lc_credential_policy = [], lc_requested_by_id = Some 4, lc_approved_by_id = None, lc_issued_at = ''t0'',
     lc_expires_at = ''t1'', lc_trace_id = [], lc_key_id = ''k'', lc_key_version = 1\<rparr>"

theorem canonical_bytes_determine_claims_witness:
  "canonical_bytes sample_claims \<noteq> canonical_bytes (sample_claims\<lparr>lc_nonce := ''n2''\<rparr>)"
  using canonical_bytes_determine_claims [of sample_claims "sample_claims\<lparr>lc_nonce := ''n2''\<rparr>"]
  by (auto simp: sample_claims_def)


section \<open>Verification\<close>

text \<open>Every expectation that is given equals the claim.\<close>

definition lease_agrees :: "lease_expectations \<Rightarrow> LeaseClaims \<Rightarrow> bool" where
  "lease_agrees ex c \<longleftrightarrow>
     pred_option ((=) (lc_execution_id c)) (ex_execution_id ex)
     \<and> pred_option ((=) (lc_stream_version c)) (ex_stream_version ex)
     \<and> pred_option ((=) (lc_contract_hash c)) (ex_contract_hash ex)
     \<and> pred_option ((=) (lc_handler_id c)) (ex_handler_id ex)
     \<and> pred_option ((=) (lc_handler_version c)) (ex_handler_version ex)
     \<and> pred_option ((=) (lc_effect c)) (ex_effect ex)
     \<and> pred_option ((=) (lc_target_snapshot_hash c)) (ex_target_snapshot_hash ex)
     \<and> pred_option ((=) (lc_params_fingerprint c)) (ex_params_fingerprint ex)
     \<and> pred_option ((=) (lc_credential_policy c)) (ex_credential_policy ex)
     \<and> pred_option (\<lambda>i. lc_requested_by_id c = Some i) (ex_requested_by_id ex)
     \<and> pred_option (\<lambda>i. lc_approved_by_id c = Some i) (ex_approved_by_id ex)"

definition nonce_unseen :: "lease_expectations \<Rightarrow> LeaseClaims \<Rightarrow> bool" where
  "nonce_unseen ex c \<longleftrightarrow> pred_option (\<lambda>seen. lc_nonce c \<notin> set seen) (ex_seen_nonces ex)"

lemma binding_differs_simps:
  "binding_differs (opt_int e, VInt a, r) \<longleftrightarrow> \<not> pred_option ((=) a) e"
  "binding_differs (opt_str f, VStr s, r) \<longleftrightarrow> \<not> pred_option ((=) s) f"
  "binding_differs (opt_int e, opt_int b, r) \<longleftrightarrow> \<not> pred_option (\<lambda>i. b = Some i) e"
  by (cases e; cases b; simp add: binding_differs_def opt_int_def)
    (cases e; cases f; cases b; auto simp: binding_differs_def opt_int_def opt_str_def)+

lemma find_None_iff_all: "List.find P xs = None \<longleftrightarrow> list_all (\<lambda>x. \<not> P x) xs"
  by (induction xs) auto

lemma no_binding_differs: "List.find binding_differs (binding_checks ex c) = None \<longleftrightarrow> lease_agrees ex c"
  unfolding find_None_iff_all binding_checks_def lease_agrees_def list.pred_inject binding_differs_simps
    not_not by simp

lemma verify_bindings_valid:
  "lv_status (verify_bindings ex c) = VALID \<longleftrightarrow> lease_agrees ex c \<and> nonce_unseen ex c"
proof (cases "List.find binding_differs (binding_checks ex c)")
  case None
  then show ?thesis
    using no_binding_differs [of ex c]
    by (simp add: verify_bindings_def nonce_unseen_def invalid_lease_def split: option.split)
next
  case (Some b)
  then have "\<not> lease_agrees ex c" using no_binding_differs [of ex c] by simp
  with Some show ?thesis by (cases b) (simp add: verify_bindings_def invalid_lease_def)
qed

lemma invalid_not_valid [simp]: "lv_status (invalid_lease r) \<noteq> VALID"
  by (simp add: invalid_lease_def)

lemma verify_times_valid:
  "verify_times rt now ex c = Inr v \<and> lv_status v = VALID \<longleftrightarrow>
     (\<exists>expires issued. parse_iso rt (lc_expires_at c) = Some expires \<and> parse_iso rt (lc_issued_at c) = Some issued
        \<and> dt_gt now expires = Some False) \<and> v = verify_bindings ex c \<and> lease_agrees ex c \<and> nonce_unseen ex c"
  using verify_bindings_valid [of ex c]
  by (auto simp: verify_times_def split: option.splits if_splits)

lemma verify_lease_valid:
  "verify_dispatch_lease rt ed keys audience now ex lease = Inr v \<and> lv_status v = VALID \<longleftrightarrow>
     lc_envelope_version (sl_claims lease) = 1 \<and> sl_algorithm lease = ''ed25519''
     \<and> (\<exists>public signature. map_of keys (lc_key_id (sl_claims lease), lc_key_version (sl_claims lease)) = Some public
          \<and> b64decode (sl_signature lease) = Some signature
          \<and> ed_verify ed public signature (canonical_bytes (sl_claims lease)))
     \<and> lc_audience (sl_claims lease) = audience
     \<and> verify_times rt now ex (sl_claims lease) = Inr v \<and> lv_status v = VALID"
  by (auto simp: verify_dispatch_lease_def Let_def SUPPORTED_LEASE_ENVELOPE_VERSIONS_def SIGNING_ALGORITHM_def
      split: option.splits if_splits)

definition toy_ed :: ed25519 where
  "toy_ed = \<lparr>ed_load_private = Some, ed_load_public_pem = Some, ed_from_public_bytes = Some, ed_public_of = id,
     ed_sign = (\<lambda>k m. take 64 (k @ m)), ed_verify = (\<lambda>k s m. s = take 64 (k @ m))\<rparr>"

definition no_expectations :: lease_expectations where
  "no_expectations = \<lparr>ex_execution_id = None, ex_stream_version = None, ex_contract_hash = None, ex_handler_id = None,
     ex_handler_version = None, ex_effect = None, ex_target_snapshot_hash = None, ex_params_fingerprint = None,
     ex_credential_policy = None, ex_requested_by_id = None, ex_approved_by_id = None, ex_seen_nonces = Some [''used'']\<rparr>"

definition noon :: datetime where
  "noon = \<lparr>dt_year = 2026, dt_month = 1, dt_day = 2, dt_hour = 12, dt_minute = 0, dt_second = 0, dt_micro = 0,
     dt_offset = Some 0\<rparr>"

definition sample_lease :: SignedDispatchLease where
  "sample_lease = (let c = sample_claims\<lparr>lc_issued_at := isoformat noon, lc_expires_at := isoformat noon\<rparr>
     in \<lparr>sl_algorithm = ''ed25519'', sl_claims = c, sl_signature = b64encode (take 64 (''secret'' @ canonical_bytes c))\<rparr>)"

lemma noon_valid [simp]: "dt_valid noon"
  by (simp add: noon_def dt_valid_def days_in_month_def)

lemma sample_lease_fields:
  "lc_envelope_version (sl_claims sample_lease) = 1" "sl_algorithm sample_lease = ''ed25519''"
  "lc_key_id (sl_claims sample_lease) = ''k''" "lc_key_version (sl_claims sample_lease) = 1"
  "lc_audience (sl_claims sample_lease) = ''netbox-rpc-backend''"
  "lc_expires_at (sl_claims sample_lease) = isoformat noon" "lc_issued_at (sl_claims sample_lease) = isoformat noon"
  "lc_nonce (sl_claims sample_lease) = ''n1''"
  by (simp_all add: sample_lease_def Let_def sample_claims_def)

lemma sample_lease_signature:
  "b64decode (sl_signature sample_lease) = Some (take 64 (''secret'' @ canonical_bytes (sl_claims sample_lease)))"
  by (simp only: sample_lease_def Let_def SignedDispatchLease.simps b64decode_encode)

lemma sample_lease_valid:
  "verify_dispatch_lease plain_rt toy_ed [((''k'', 1), ''secret'')] ''netbox-rpc-backend'' noon no_expectations sample_lease
     = Inr (verify_bindings no_expectations (sl_claims sample_lease))
   \<and> lv_status (verify_bindings no_expectations (sl_claims sample_lease)) = VALID"
proof -
  have "dt_gt noon noon = Some False" by (simp add: dt_gt_def)
  moreover have "lease_agrees no_expectations (sl_claims sample_lease)" "nonce_unseen no_expectations (sl_claims sample_lease)"
    by (simp_all add: lease_agrees_def nonce_unseen_def no_expectations_def sample_lease_fields)
  ultimately show ?thesis
    unfolding verify_lease_valid verify_times_valid
    by (simp add: sample_lease_fields sample_lease_signature parse_iso_def toy_ed_def)
qed

text \<open>
  C37: The verifier fails closed. A lease is valid only if its signature verifies, over exactly
  these claims, under the public key registered for its key id and version; its audience
  is this one; it has not expired; every expectation given by the caller equals the claim;
  and its nonce has not been seen.
\<close>

theorem valid_lease_is_authentic:
  assumes "verify_dispatch_lease rt ed keys audience now ex lease = Inr v" and "lv_status v = VALID"
  shows "lc_envelope_version (sl_claims lease) = 1 \<and> sl_algorithm lease = ''ed25519''
    \<and> (\<exists>public signature. map_of keys (lc_key_id (sl_claims lease), lc_key_version (sl_claims lease)) = Some public
         \<and> b64decode (sl_signature lease) = Some signature
         \<and> ed_verify ed public signature (canonical_bytes (sl_claims lease)))
    \<and> lc_audience (sl_claims lease) = audience
    \<and> (\<exists>expires. parse_iso rt (lc_expires_at (sl_claims lease)) = Some expires \<and> dt_gt now expires = Some False)
    \<and> lease_agrees ex (sl_claims lease) \<and> nonce_unseen ex (sl_claims lease)"
  using verify_lease_valid [of rt ed keys audience now ex lease v] verify_times_valid [of rt now ex "sl_claims lease" v] assms
  by blast

theorem valid_lease_is_authentic_witness:
  "\<exists>expires. parse_iso plain_rt (lc_expires_at (sl_claims sample_lease)) = Some expires \<and> dt_gt noon expires = Some False"
  using valid_lease_is_authentic [OF conjunct1 [OF sample_lease_valid] conjunct2 [OF sample_lease_valid]] by blast


section \<open>Issuing\<close>

lemma resolve_ttl_bounds: "resolve_ttl rt env s = Inr ttl \<Longrightarrow> 1 \<le> ttl \<and> ttl \<le> 900"
  by (auto simp: resolve_ttl_def rbind_Inr_iff Let_def MAX_TTL_SECONDS_def)

lemma lease_ttl_bounds:
  "lease_ttl rt env execution s = Inr ttl \<Longrightarrow>
     1 \<le> ttl \<and> ttl \<le> 900 \<and> (truthy (le_credential_references execution) \<longrightarrow> ttl \<le> 300)"
  by (auto simp: lease_ttl_def rbind_Inr_iff MAX_REFERENCE_LEASE_SECONDS_def dest: resolve_ttl_bounds)

lemma build_claimsD:
  assumes "build_claims rt ct env k i p execution rq now expires nonce = Inr c"
  shows "claims_constraints c \<and> lc_envelope_version c = 1 \<and> lc_execution_id c = i \<and> lc_nonce c = nonce
    \<and> lc_issued_at c = isoformat now \<and> lc_expires_at c = isoformat expires \<and> lc_key_id c = sk_key_id k
    \<and> lc_key_version c = sk_key_version k \<and> lc_audience c = resolve_audience env (lr_audience rq)
    \<and> derive_command_contract_hash rt ct p = Inr (lc_contract_hash c)
    \<and> lc_handler_version c = version_or_one p \<and> lc_stream_version c = lr_stream_version rq"
  using assms by (auto simp: build_claims_def rbind_Inr_iff Let_def LEASE_ENVELOPE_VERSION_def split: if_splits)

lemma issueE:
  assumes "issue_dispatch_lease rt ct ed env execution rq now nonce = Inr (Some lease)"
  obtains k p i ttl expires where "load_active_signing_key rt ed env = Inr (Some k)" "le_procedure execution = Some p"
    "le_pk execution = Some i" "lease_ttl rt env execution (lr_ttl_seconds rq) = Inr ttl"
    "dt_add_seconds (nat ttl) now = Some expires"
    "build_claims rt ct env k i p execution rq now expires nonce = Inr (sl_claims lease)"
    "sl_algorithm lease = ''ed25519''" "sl_signature lease = lease_sign ed k (canonical_bytes (sl_claims lease))"
proof -
  from assms obtain k where k1: "load_active_signing_key rt ed env = Inr (Some k)"
    unfolding issue_dispatch_lease_def rbind_Inr_iff by (elim exE conjE) (auto split: option.splits)
  from assms obtain p i where k2: "le_procedure execution = Some p" "le_pk execution = Some i"
    unfolding issue_dispatch_lease_def k1 rbind.simps option.case
    by (cases "le_procedure execution"; cases "le_pk execution") auto
  from assms obtain ttl where k3: "lease_ttl rt env execution (lr_ttl_seconds rq) = Inr ttl"
    unfolding issue_dispatch_lease_def k1 k2 rbind.simps option.case prod.case rbind_Inr_iff by blast
  note k = k1 k2 k3
  note I = assms [unfolded issue_dispatch_lease_def k rbind.simps option.case prod.case]
  show ?thesis
  proof (cases "dt_add_seconds (nat ttl) now")
    case None
    with I show ?thesis by simp
  next
    case (Some expires)
    show ?thesis
    proof (cases "build_claims rt ct env k i p execution rq now expires nonce")
      case (Inl e)
      with I Some show ?thesis by (simp split: if_splits)
    next
      case (Inr c)
      with I Some have "sign_lease ed k c = Inr (Some lease)" by simp
      then have "sl_claims lease = c" "sl_algorithm lease = ''ed25519''" "sl_signature lease = lease_sign ed k (canonical_bytes c)"
        by (auto simp: sign_lease_def Let_def SIGNING_ALGORITHM_def split: if_splits)
      with that k Some Inr show ?thesis by blast
    qed
  qed
qed

lemma issued_times:
  assumes "issue_dispatch_lease rt ct ed env execution rq now nonce = Inr (Some lease)" "dt_valid now"
  shows "\<exists>expires ttl. parse_iso rt (lc_issued_at (sl_claims lease)) = Some now
    \<and> parse_iso rt (lc_expires_at (sl_claims lease)) = Some expires \<and> dt_offset expires = dt_offset now
    \<and> dt_instant expires = dt_instant now + 1000000 * ttl \<and> 1 \<le> ttl \<and> ttl \<le> 900
    \<and> (truthy (le_credential_references execution) \<longrightarrow> ttl \<le> 300)"
  using assms(1)
proof (cases rule: issueE)
  case (1 k p i ttl expires)
  note b = lease_ttl_bounds [OF 1(4)]
  note c = build_claimsD [OF 1(6)]
  note e = dt_add_seconds_instant [OF assms(2) 1(5)]
  show ?thesis
    by (intro exI [of _ expires] exI [of _ ttl]) (use b c e assms(2) in \<open>simp add: parse_iso_def\<close>)
qed

definition sample_env :: lease_env where
  "sample_env = \<lparr>env_plugins_config = VDict [], env_key_file = Some ''/run/key'', env_key_id = Some ''k'',
     env_key_version = Some ''1'', env_fs = sample_key_fs\<rparr>"

definition sample_lease_execution :: lease_execution where
  "sample_lease_execution = \<lparr>le_pk = Some 9, le_procedure = Some sample_procedure, le_credential_references = VNone,
     le_requested_by_id = VInt 4, le_approved_by_id = VNone\<rparr>"

definition sample_request :: lease_request where
  "sample_request = \<lparr>lr_stream_version = 3, lr_normalized_params = None, lr_credential_policy = [], lr_trace_id = [],
     lr_audience = None, lr_ttl_seconds = Some 60\<rparr>"

definition short_hash_rt :: python_rt where
  "short_hash_rt = plain_rt\<lparr>rt_sha256 := take 64\<rparr>"

definition one_past_noon :: datetime where
  "one_past_noon = noon\<lparr>dt_minute := 1\<rparr>"

lemma sample_setting_absent: "plugin_setting sample_env name = None"
  by (simp add: plugin_setting_def sample_env_def)

lemma sample_active_key: "load_active_signing_key rt toy_ed sample_env =
    Inr (Some \<lparr>sk_key_id = ''k'', sk_key_version = 1, sk_private_key = ''pem''\<rparr>)"
proof -
  have "int_of_str ''1'' = Some 1" by code_simp
  then show ?thesis
    by (simp add: load_active_signing_key_def sample_setting_absent load_environment_signing_key_def)
      (simp add: sample_env_def or_empty_def ENV_KEY_ID_RE_def env_key_id_char_def is_alpha_def is_lower_alpha_def
        sample_key_read toy_ed_def MAX_ENV_KEY_VERSION_def)
qed

lemma sample_issued_claims: "build_claims short_hash_rt sample_tables sample_env
    \<lparr>sk_key_id = ''k'', sk_key_version = 1, sk_private_key = ''pem''\<rparr> 9 sample_procedure sample_lease_execution
    sample_request noon one_past_noon ''n1'' = Inr
     \<lparr>lc_envelope_version = 1, lc_execution_id = 9, lc_stream_version = 3, lc_nonce = ''n1'',
      lc_audience = ''netbox-rpc-backend'', lc_handler_id = ''os.linux.uptime'', lc_handler_version = 1,
      lc_effect = ''read'', lc_contract_hash = take 64 sample_hash, lc_target_snapshot_hash = [],
      lc_params_fingerprint = [], lc_credential_policy = [], lc_requested_by_id = Some 4, lc_approved_by_id = None,
      lc_issued_at = isoformat noon, lc_expires_at = isoformat one_past_noon, lc_trace_id = [], lc_key_id = ''k'',
      lc_key_version = 1\<rparr>"
proof -
  have h: "derive_command_contract_hash short_hash_rt ct sample_procedure = Inr (take 64 sample_hash)" for ct
    by (simp only: derive_command_contract_hash_def sample_payload rbind.simps short_hash_rt_def plain_rt_def sample_hash_def
        python_rt.simps)
  have a: "resolve_audience sample_env None = ''netbox-rpc-backend''"
    by (simp add: resolve_audience_def sample_setting_absent opt_str_def DEFAULT_AUDIENCE_def MAX_REF_LEN_def)
  have l: "length (isoformat noon) \<le> 64" "length (isoformat one_past_noon) \<le> 64"
    by (simp_all add: isoformat_def noon_def one_past_noon_def format_offset_def)
  show ?thesis
    by (simp add: build_claims_def h sample_lease_execution_def sample_request_def maybe_int_def a fingerprint_source_def
        target_hash_def hash_json_def claims_constraints_def l MAX_NONCE_LEN_def MAX_REF_LEN_def MAX_ID_LEN_def
        MAX_HASH_LEN_def LEASE_ENVELOPE_VERSION_def sample_fields)
qed

definition sample_issued :: SignedDispatchLease where
  "sample_issued = (case issue_dispatch_lease short_hash_rt sample_tables toy_ed sample_env sample_lease_execution
     sample_request noon ''n1'' of Inr (Some l) \<Rightarrow> l | _ \<Rightarrow> sample_lease)"

lemma sample_issue: "issue_dispatch_lease short_hash_rt sample_tables toy_ed sample_env sample_lease_execution
    sample_request noon ''n1'' = Inr (Some sample_issued)"
proof -
  have t: "lease_ttl short_hash_rt sample_env sample_lease_execution (lr_ttl_seconds sample_request) = Inr 60"
    by (simp add: lease_ttl_def resolve_ttl_def sample_request_def sample_lease_execution_def MAX_TTL_SECONDS_def)
  have e: "dt_add_seconds 60 noon = Some one_past_noon"
    by (simp add: dt_add_seconds_def noon_def one_past_noon_def seconds_of_day_def)
  have x: "le_procedure sample_lease_execution = Some sample_procedure" "le_pk sample_lease_execution = Some 9"
    by (simp_all add: sample_lease_execution_def)
  have s: "\<exists>l. sign_lease toy_ed k c = Inr (Some l)" if "sk_private_key k = ''pem''" for k c
  proof -
    have "1 \<le> length (lease_sign toy_ed k (canonical_bytes c))" "length (lease_sign toy_ed k (canonical_bytes c)) \<le> 88"
      by (simp_all add: lease_sign_def toy_ed_def b64encode_length that)
    then show ?thesis by (simp add: sign_lease_def Let_def lease_constraints_def SIGNING_ALGORITHM_def MAX_SIG_LEN_def)
  qed
  let ?k = "\<lparr>sk_key_id = ''k'', sk_key_version = 1, sk_private_key = ''pem''\<rparr>"
  from sample_issued_claims obtain c where c: "build_claims short_hash_rt sample_tables sample_env ?k 9 sample_procedure
      sample_lease_execution sample_request noon one_past_noon ''n1'' = Inr c" by blast
  from s obtain l where "sign_lease toy_ed ?k c = Inr (Some l)" by force
  then show ?thesis
    by (simp add: sample_issued_def issue_dispatch_lease_def sample_active_key t x e c)
qed

text \<open>
  A lease lives at least one second and at most fifteen minutes, at most five minutes when
  the execution carries credential references, whatever the settings and the caller ask.
\<close>

theorem lease_lifetime_bounded:
  assumes "issue_dispatch_lease rt ct ed env execution rq now nonce = Inr (Some lease)" and "dt_valid now"
  shows "\<exists>expires ttl. parse_iso rt (lc_issued_at (sl_claims lease)) = Some now
    \<and> parse_iso rt (lc_expires_at (sl_claims lease)) = Some expires
    \<and> dt_instant expires = dt_instant now + 1000000 * ttl \<and> 1 \<le> ttl \<and> ttl \<le> 900
    \<and> (truthy (le_credential_references execution) \<longrightarrow> ttl \<le> 300)"
  using issued_times [OF assms] by blast

theorem lease_lifetime_bounded_witness:
  "\<exists>expires ttl. parse_iso short_hash_rt (lc_issued_at (sl_claims sample_issued)) = Some noon
    \<and> parse_iso short_hash_rt (lc_expires_at (sl_claims sample_issued)) = Some expires
    \<and> dt_instant expires = dt_instant noon + 1000000 * ttl \<and> 1 \<le> ttl \<and> ttl \<le> 900"
  using lease_lifetime_bounded [OF sample_issue noon_valid] by blast

text \<open>
  C38: A lease that was issued is accepted: when the signature scheme verifies what it signs and
  the verifier's table holds the public key of the active signing key under its id and
  version, the verifier answers valid for the audience of the lease, at any time up to its
  expiry, for expectations that agree with the claims and a nonce it has not seen.
\<close>

theorem issued_lease_verifies:
  assumes "issue_dispatch_lease rt ct ed env execution rq now nonce = Inr (Some lease)" and "dt_valid now"
    and "load_active_signing_key rt ed env = Inr (Some k)"
    and "map_of keys (sk_key_id k, sk_key_version k) = Some (public_key ed k)"
    and "\<And>private m. ed_verify ed (ed_public_of ed private) (ed_sign ed private m) m"
    and "parse_iso rt (lc_expires_at (sl_claims lease)) = Some expires" and "dt_gt later expires = Some False"
    and "lease_agrees ex (sl_claims lease)" and "nonce_unseen ex (sl_claims lease)"
  shows "\<exists>v. verify_dispatch_lease rt ed keys (lc_audience (sl_claims lease)) later ex lease = Inr v \<and> lv_status v = VALID"
  using assms(1)
proof (cases rule: issueE)
  case (1 k' p i ttl expires')
  with assms(3) have k: "k' = k" by simp
  note c = build_claimsD [OF 1(6)]
  have "ed_verify ed (public_key ed k) (ed_sign ed (sk_private_key k) (canonical_bytes (sl_claims lease)))
      (canonical_bytes (sl_claims lease))"
    using assms(5) by (simp add: public_key_def)
  moreover have "b64decode (sl_signature lease) = Some (ed_sign ed (sk_private_key k) (canonical_bytes (sl_claims lease)))"
    by (simp add: 1(8) k lease_sign_def)
  moreover have "parse_iso rt (lc_issued_at (sl_claims lease)) = Some now"
    using c assms(2) by (simp add: parse_iso_def)
  ultimately show ?thesis
    unfolding verify_lease_valid verify_times_valid using c 1(7) k assms(4,6-9) by auto
qed

theorem issued_lease_verifies_witness:
  "\<exists>v. verify_dispatch_lease short_hash_rt toy_ed [((''k'', 1), ''pem'')] (lc_audience (sl_claims sample_issued)) noon
     no_expectations sample_issued = Inr v \<and> lv_status v = VALID"
proof -
  from issued_times [OF sample_issue noon_valid] obtain expires ttl where
    e: "parse_iso short_hash_rt (lc_expires_at (sl_claims sample_issued)) = Some expires" "dt_offset expires = dt_offset noon"
      "dt_instant expires = dt_instant noon + 1000000 * ttl" "1 \<le> ttl" by blast
  have "lc_nonce (sl_claims sample_issued) = ''n1''"
    using sample_issue by (cases rule: issueE) (use build_claimsD in blast)
  then have "nonce_unseen no_expectations (sl_claims sample_issued)"
    by (simp add: nonce_unseen_def no_expectations_def)
  moreover have "lease_agrees no_expectations c" for c
    by (simp add: lease_agrees_def no_expectations_def)
  moreover have "dt_gt noon expires = Some False" using e(2-4) by (simp add: dt_gt_def)
  ultimately show ?thesis
    by (intro issued_lease_verifies [OF sample_issue noon_valid sample_active_key _ _ e(1)])
      (simp_all add: toy_ed_def public_key_def)
qed

end
