(* ===== verification/Transport.thy ===== *)
theory Transport
  imports Procedure
begin

text \<open>
  The transport policy of \<open>netbox_rpc/transport.py\<close>: the driver vocabulary, the Ansible
  context of a platform, and the table of protected procedure fields with its rules. The
  estate-wide chain of \<open>RpcPluginSettings\<close> (\<open>models.py\<close>) and its resolution and injection
  into the normalized parameters (\<open>domain/normalization.py\<close>) follow.
\<close>

section \<open>Drivers\<close>

definition TRANSPORT_DRIVERS :: "string list" where
  "TRANSPORT_DRIVERS = [''ansible'', ''ansible-network'', ''asyncssh'', ''paramiko'', ''subprocess'', ''fabric'',
     ''scrapli'', ''netmiko'', ''napalm'', ''nornir'']"

definition LINUX_SHELL_DRIVERS :: "string list" where
  "LINUX_SHELL_DRIVERS = [''ansible'', ''asyncssh'', ''paramiko'', ''subprocess'', ''fabric'']"

definition NETWORK_CLI_DRIVERS :: "string list" where
  "NETWORK_CLI_DRIVERS = [''ansible-network'', ''scrapli'', ''netmiko'', ''napalm'', ''nornir'']"

definition ANSIBLE_DRIVERS :: "string list" where
  "ANSIBLE_DRIVERS = [''ansible'', ''ansible-network'']"

definition CAPABILITY_LINUX_SHELL :: string where "CAPABILITY_LINUX_SHELL = ''linux_shell''"
definition CAPABILITY_NETWORK_CLI :: string where "CAPABILITY_NETWORK_CLI = ''network_cli''"

definition RAW_CAPABILITY_DEFAULT :: "(string \<times> string) list" where
  "RAW_CAPABILITY_DEFAULT = [(CAPABILITY_LINUX_SHELL, ''asyncssh''), (CAPABILITY_NETWORK_CLI, ''scrapli'')]"

definition normalize_driver_name :: "string \<Rightarrow> string" where
  "normalize_driver_name driver = map (\<lambda>c. if c = CHR ''_'' then CHR ''-'' else c) (lower (strip driver))"

definition driver_capability :: "string \<Rightarrow> string" where
  "driver_capability driver =
     (let normalized = normalize_driver_name driver in
      if normalized \<in> set LINUX_SHELL_DRIVERS then CAPABILITY_LINUX_SHELL
      else if normalized \<in> set NETWORK_CLI_DRIVERS then CAPABILITY_NETWORK_CLI
      else [])"

definition ANSIBLE_CONTEXT_STRING_KEYS :: "string list" where
  "ANSIBLE_CONTEXT_STRING_KEYS = [''network_os'', ''connection'', ''become_method'']"

fun context_entries :: "pydict \<Rightarrow> string list \<Rightarrow> pydict" where
  "context_entries entry [] = []"
| "context_entries entry (key # keys) = (case dget entry key of
       VStr value \<Rightarrow> if strip value \<noteq> [] then (key, VStr (strip value)) # context_entries entry keys
         else context_entries entry keys
     | _ \<Rightarrow> context_entries entry keys)"

definition ansible_context_from_platform_map :: "pyval \<Rightarrow> string \<Rightarrow> pydict" where
  "ansible_context_from_platform_map mapping platform_slug =
     (let slug = lower (strip platform_slug) in
      if slug = [] then []
      else (case mapping of
          VDict m \<Rightarrow> (case dget m slug of
              VDict entry \<Rightarrow> context_entries entry ANSIBLE_CONTEXT_STRING_KEYS
                @ (case dget entry ''become'' of VBool b \<Rightarrow> [(''become'', VBool b)] | _ \<Rightarrow> [])
            | _ \<Rightarrow> [])
        | _ \<Rightarrow> []))"


section \<open>Protected fields\<close>

definition lowering_is_refused :: "pyval \<Rightarrow> pyval \<Rightarrow> bool \<Rightarrow> bool" where
  "lowering_is_refused previously_set requested may_approve =
     (if previously_set \<noteq> VBool True \<or> requested = VNone then False
      else if truthy requested then False
      else \<not> may_approve)"

definition EFFECT_RANKS :: "(string \<times> int) list" where
  "EFFECT_RANKS = [(''read'', 0), (''write'', 1), (''destructive'', 2)]"

definition stored_rank :: "pyval \<Rightarrow> int" where
  "stored_rank v = (case map_of EFFECT_RANKS (py_str v) of None \<Rightarrow> int (length EFFECT_RANKS) | Some r \<Rightarrow> r)"

definition requested_rank :: "pyval \<Rightarrow> int" where
  "requested_rank v = (case map_of EFFECT_RANKS (py_str v) of None \<Rightarrow> - 1 | Some r \<Rightarrow> r)"

definition effect_lowering_is_refused :: "pyval \<Rightarrow> pyval \<Rightarrow> bool \<Rightarrow> bool" where
  "effect_lowering_is_refused previous requested may_approve =
     (if previous = VNone \<or> requested = VNone \<or> py_eq requested previous then False
      else if requested_rank requested \<ge> stored_rank previous then False
      else \<not> may_approve)"

definition enabling_is_refused :: "pyval \<Rightarrow> pyval \<Rightarrow> bool \<Rightarrow> bool" where
  "enabling_is_refused previously_enabled requested may_approve =
     (if previously_enabled \<noteq> VBool False \<or> requested = VNone \<or> requested = VBool False then False
      else \<not> may_approve)"

text \<open>Equality of the type-exact canonical forms that \<open>_as_comparable\<close> builds: values of
  different types differ, a mapping is a set of entries.\<close>

fun as_comparable_eq :: "pyval \<Rightarrow> pyval \<Rightarrow> bool" where
  "as_comparable_eq (VFloat s) w = (case w of VFloat t \<Rightarrow> s \<noteq> ''nan'' \<and> float_key s = float_key t | _ \<Rightarrow> False)"
| "as_comparable_eq (VTime t) w = (case w of VTime u \<Rightarrow> dt_eq t u | _ \<Rightarrow> False)"
| "as_comparable_eq (VList xs) w = (case w of VList ys \<Rightarrow> list_all2 as_comparable_eq xs ys | _ \<Rightarrow> False)"
| "as_comparable_eq (VDict d) w = (case w of
       VDict e \<Rightarrow> length d = length e \<and>
         list_all (\<lambda>(k, v). case map_of e k of None \<Rightarrow> False | Some u \<Rightarrow> as_comparable_eq v u) d
     | _ \<Rightarrow> False)"
| "as_comparable_eq v w = (v = w)"

definition change_is_refused :: "pyval \<Rightarrow> pyval \<Rightarrow> bool \<Rightarrow> bool" where
  "change_is_refused previous requested may_approve =
     (if previous = VNone \<or> requested = VNone then False
      else if as_comparable_eq previous requested then False
      else \<not> may_approve)"

definition change_denied_message :: "string \<Rightarrow> string" where
  "change_denied_message label = ''Only users with netbox_rpc.approve_rpcprocedure can change the '' @ label
     @ '' of an existing RPC procedure.''"

definition PROTECTED_PROCEDURE_FIELD_RULES :: "(string \<times> (pyval \<Rightarrow> pyval \<Rightarrow> bool \<Rightarrow> bool) \<times> string) list" where
  "PROTECTED_PROCEDURE_FIELD_RULES =
     [(''transport_pinned'', lowering_is_refused,
        ''Only users with netbox_rpc.approve_rpcprocedure can un-pin a transport-pinned RPC procedure.''),
      (''approval_required'', lowering_is_refused,
        ''Only users with netbox_rpc.approve_rpcprocedure can disable approval for an existing RPC procedure.''),
      (''effect'', effect_lowering_is_refused,
        ''Only users with netbox_rpc.approve_rpcprocedure can lower the effect of an existing RPC procedure.''),
      (''enabled'', enabling_is_refused,
        ''Only users with netbox_rpc.approve_rpcprocedure can enable a disabled RPC procedure.''),
      (''transport_driver'', change_is_refused, change_denied_message ''transport driver''),
      (''transport_driver_chain'', change_is_refused, change_denied_message ''transport driver chain''),
      (''handler_id'', change_is_refused, change_denied_message ''handler''),
      (''name'', change_is_refused, change_denied_message ''name''),
      (''version'', change_is_refused, change_denied_message ''version''),
      (''target_models'', change_is_refused, change_denied_message ''target models''),
      (''params_schema'', change_is_refused, change_denied_message ''parameter schema''),
      (''timeout_seconds'', change_is_refused, change_denied_message ''timeout''),
      (''result_schema'', change_is_refused, change_denied_message ''result schema''),
      (''output_parser'', change_is_refused, change_denied_message ''output parser''),
      (''output_schema'', change_is_refused, change_denied_message ''output schema''),
      (''tags'', change_is_refused, change_denied_message ''tags''),
      (''custom_field_data'', change_is_refused, change_denied_message ''custom fields'')]"

text \<open>\<open>tag_keys\<close> on a list of primary keys; keys that do not compare raise \<open>TypeError\<close>.\<close>

definition int_key :: "pyval \<Rightarrow> int" where
  "int_key v = (case v of VInt i \<Rightarrow> i | VBool b \<Rightarrow> of_bool b | _ \<Rightarrow> 0)"

definition tag_keys :: "pyval \<Rightarrow> pyexc + pyval" where
  "tag_keys v = (if v = VNone then Inr VNone
     else rbind (py_iter v) (\<lambda>items.
       if list_all is_int items then Inr (VList (sort_key int_key items))
       else if list_all is_str items then Inr (VList (sort_key py_str items))
       else if length items \<le> 1 then Inr (VList items)
       else Inl TypeError))"

record catalog_procedure = rpc_procedure +
  proc_tags :: "int list"
  proc_custom_field_data :: pyval

definition protected_field_snapshot :: "catalog_procedure option \<Rightarrow> pydict option" where
  "protected_field_snapshot procedure = map_option (\<lambda>p.
     [(''transport_pinned'', VBool (proc_transport_pinned p)), (''approval_required'', VBool (proc_approval_required p)),
      (''effect'', VStr (proc_effect p)), (''enabled'', VBool (proc_enabled p)),
      (''transport_driver'', VStr (proc_transport_driver p)),
      (''transport_driver_chain'', VList (map VStr (proc_transport_driver_chain p))),
      (''handler_id'', VStr (proc_handler_id p)), (''name'', VStr (proc_name p)), (''version'', VInt (proc_version p)),
      (''target_models'', VList (map VStr (proc_target_models p))), (''params_schema'', proc_params_schema p),
      (''timeout_seconds'', VInt (proc_timeout_seconds p)), (''result_schema'', proc_result_schema p),
      (''output_parser'', VStr (proc_output_parser p)), (''output_schema'', proc_output_schema p),
      (''custom_field_data'', proc_custom_field_data p), (''tags'', VList (map VInt (sort (proc_tags p))))]) procedure"

fun refusal_loop ::
  "(string \<times> (pyval \<Rightarrow> pyval \<Rightarrow> bool \<Rightarrow> bool) \<times> string) list \<Rightarrow> pydict \<Rightarrow> pydict \<Rightarrow> bool \<Rightarrow> pyexc + (string \<times> string) list" where
  "refusal_loop [] stored requested may_approve = Inr []"
| "refusal_loop ((field, rule, message) # rules) stored requested may_approve =
     rbind (if field = ''tags'' then tag_keys (dget requested field) else Inr (dget requested field)) (\<lambda>value.
     rbind (refusal_loop rules stored requested may_approve) (\<lambda>refused.
       Inr (if rule (dget stored field) value may_approve then (field, message) # refused else refused)))"

definition protected_field_refusals :: "pydict option \<Rightarrow> pydict \<Rightarrow> bool \<Rightarrow> pyexc + (string \<times> string) list" where
  "protected_field_refusals stored requested may_approve = (case stored of
       None \<Rightarrow> Inr []
     | Some s \<Rightarrow> refusal_loop PROTECTED_PROCEDURE_FIELD_RULES s requested may_approve)"

text \<open>A user with a \<open>has_perm\<close> method is its answer for the stored object.\<close>

definition may_approve_procedure ::
  "(string \<Rightarrow> catalog_procedure \<Rightarrow> bool) option \<Rightarrow> catalog_procedure option \<Rightarrow> bool" where
  "may_approve_procedure has_perm procedure = (case (has_perm, procedure) of
       (Some perm, Some p) \<Rightarrow> perm ''netbox_rpc.approve_rpcprocedure'' p
     | _ \<Rightarrow> False)"


section \<open>The effective driver chain\<close>

record plugin_settings =
  ps_default_transport_driver_chain :: "string list"
  ps_default_network_driver_chain :: "string list"
  ps_ansible_platform_map :: pyval

definition stripped_entries :: "string list \<Rightarrow> string list" where
  "stripped_entries raw = filter (\<lambda>e. e \<noteq> []) (map strip raw)"

definition default_chain_for :: "plugin_settings \<Rightarrow> string \<Rightarrow> string list" where
  "default_chain_for s capability =
     stripped_entries (if capability = CAPABILITY_NETWORK_CLI then ps_default_network_driver_chain s
       else ps_default_transport_driver_chain s)"

definition wrong_entries :: "string list \<Rightarrow> string \<Rightarrow> string list" where
  "wrong_entries chain capability = filter (\<lambda>e. driver_capability e \<noteq> capability) chain"

definition chain_error :: "string \<Rightarrow> string list \<Rightarrow> string" where
  "chain_error capability wrong = ''These drivers do not serve the '' @ capability
     @ '' capability and would be skipped: '' @ join_with '', '' (sort wrong)"

definition settings_clean :: "plugin_settings \<Rightarrow> (string \<times> string) list" where
  "settings_clean s = concat (map (\<lambda>(field, chain, capability).
       let wrong = wrong_entries chain capability in
       if wrong \<noteq> [] then [(field, chain_error capability wrong)] else [])
     [(''default_transport_driver_chain'', ps_default_transport_driver_chain s, CAPABILITY_LINUX_SHELL),
      (''default_network_driver_chain'', ps_default_network_driver_chain s, CAPABILITY_NETWORK_CLI)])"

definition ansible_context_for_platform :: "plugin_settings \<Rightarrow> string \<Rightarrow> pydict" where
  "ansible_context_for_platform s slug = ansible_context_from_platform_map (ps_ansible_platform_map s) slug"

definition resolve_driver_chain :: "rpc_procedure \<Rightarrow> plugin_settings option \<Rightarrow> string list" where
  "resolve_driver_chain p policy =
     (let explicit = stripped_entries (proc_transport_driver_chain p);
          driver = strip (proc_transport_driver p);
          capability = driver_capability driver
      in if explicit \<noteq> [] then explicit
         else if proc_transport_pinned p then []
         else if driver = [] then []
         else if capability = [] then []
         else (case policy of
             None \<Rightarrow> []
           | Some s \<Rightarrow>
               (let default_chain = default_chain_for s capability in
                if default_chain = [] then []
                else let chain = (if driver \<in> set default_chain then default_chain else default_chain @ [driver])
                     in if list_all (\<lambda>e. e \<in> set ANSIBLE_DRIVERS) chain
                        then chain @ [the (map_of RAW_CAPABILITY_DEFAULT capability)] else chain)))"


section \<open>Injection into the normalized parameters\<close>

text \<open>An assignment to the fingerprint dictionary that the normalized parameters hold.\<close>

definition set_fingerprint :: "string \<Rightarrow> pyval \<Rightarrow> pydict \<Rightarrow> pydict" where
  "set_fingerprint k v normalized = (case map_of normalized ''command_fingerprint'' of
       Some (VDict fp) \<Rightarrow> dict_set ''command_fingerprint'' (VDict (dict_set k v fp)) normalized
     | _ \<Rightarrow> normalized)"

definition apply_ansible_context ::
  "plugin_settings option \<Rightarrow> string \<Rightarrow> string list \<Rightarrow> pydict \<Rightarrow> pydict" where
  "apply_ansible_context policy slug chain normalized =
     (if \<not> list_ex (\<lambda>e. e \<in> set ANSIBLE_DRIVERS) chain then normalized
      else (case policy of
          None \<Rightarrow> normalized
        | Some s \<Rightarrow>
            (let context = ansible_context_for_platform s slug in
             if context = [] then normalized
             else set_fingerprint ''ansible_context'' (VDict context)
               (dict_set ''_ansible'' (VDict context) normalized))))"

definition normalization_hash_json :: "python_rt \<Rightarrow> pyval \<Rightarrow> string" where
  "normalization_hash_json rt v = (if v = VNone then [] else rt_sha256 rt (json_dumps v))"

definition override :: "bool \<Rightarrow> string \<Rightarrow> pyval \<Rightarrow> string \<Rightarrow> pyval \<Rightarrow> pydict \<Rightarrow> pydict" where
  "override active key v fingerprint_key w normalized =
     (if active then set_fingerprint fingerprint_key w (dict_set key v normalized) else normalized)"

definition apply_driver_pipeline_overrides ::
  "python_rt \<Rightarrow> plugin_settings option \<Rightarrow> string \<Rightarrow> rpc_procedure \<Rightarrow> pydict \<Rightarrow> pydict" where
  "apply_driver_pipeline_overrides rt policy slug p normalized =
     (let driver = strip (proc_transport_driver p);
          chain = resolve_driver_chain p policy;
          parser = strip (proc_output_parser p);
          schema = proc_output_schema p;
          n1 = override (driver \<noteq> [] \<and> driver \<noteq> ''asyncssh'') ''transport_driver'' (VStr driver)
                 ''transport_driver'' (VStr driver) normalized;
          n2 = (if chain \<noteq> [] then apply_ansible_context policy slug chain
                 (override True ''transport_driver_chain'' (VList (map VStr chain))
                   ''transport_driver_chain'' (VList (map VStr chain)) n1) else n1);
          n3 = override (parser \<noteq> [] \<and> parser \<noteq> ''none'') ''output_parser'' (VStr parser)
                 ''output_parser'' (VStr parser) n2
      in override (truthy schema) ''output_schema'' schema
           ''output_schema_sha256'' (VStr (normalization_hash_json rt schema)) n3)"

end
