(* ===== verification/TransportProps.thy ===== *)
theory TransportProps
  imports Transport
begin

text \<open>
  The transport policy keeps its promises: without the approve permission no edit weakens a
  procedure, with it no edit is refused; a chain taken from the estate-wide policy serves
  the procedure's capability and ends in a driver that needs no Ansible; what is injected
  for dispatch is also in the approved fingerprint.
\<close>

section \<open>Protected fields\<close>

lemma refusal_loop_empty:
  "refusal_loop rules stored requested may = Inr refused \<Longrightarrow> refused = [] \<Longrightarrow> (f, rule, msg) \<in> set rules \<Longrightarrow>
    (f \<noteq> ''tags'' \<longrightarrow> \<not> rule (dget stored f) (dget requested f) may)
    \<and> (f = ''tags'' \<longrightarrow> (\<exists>v. tag_keys (dget requested f) = Inr v \<and> \<not> rule (dget stored f) v may))"
proof (induction rules stored requested may arbitrary: refused rule: refusal_loop.induct)
  case (2 field rule' message rules stored requested may)
  from "2.prems"(1) obtain v refused' where
    v: "(if field = ''tags'' then tag_keys (dget requested field) else Inr (dget requested field)) = Inr v"
      "refusal_loop rules stored requested may = Inr refused'"
      "refused = (if rule' (dget stored field) v may then (field, message) # refused' else refused')"
    by (auto simp: rbind_Inr_iff)
  from v(3) "2.prems"(2) have r: "\<not> rule' (dget stored field) v may" "refused' = []" by (auto split: if_splits)
  show ?case
  proof (cases "(f, rule, msg) \<in> set rules")
    case True
    from "2.IH" [OF v(2) r(2) True] show ?thesis .
  next
    case False
    with "2.prems"(3) have "f = field" "rule = rule'" by auto
    with v(1) r(1) show ?thesis by (auto split: if_splits)
  qed
qed simp

lemma refusal_loop_approved:
  assumes "tag_keys (dget requested ''tags'') = Inr v"
    and "\<And>f rule msg old new. (f, rule, msg) \<in> set rules \<Longrightarrow> \<not> rule old new True"
  shows "refusal_loop rules stored requested True = Inr []"
  using assms(2)
proof (induction rules)
  case (Cons r rules)
  obtain f rule msg where r: "r = (f, rule, msg)" by (cases r)
  have "\<not> rule old new True" for old new using Cons.prems r by (metis list.set_intros(1))
  moreover have "refusal_loop rules stored requested True = Inr []"
    using Cons.prems by (intro Cons.IH) (meson list.set_intros(2))
  ultimately show ?case by (simp add: r assms(1))
qed simp

lemma rules_approved:
  assumes "(f, rule, msg) \<in> set PROTECTED_PROCEDURE_FIELD_RULES"
  shows "\<not> rule old new True"
proof -
  have "list_all (\<lambda>(_, rule, _). \<forall>old new. \<not> rule old new True) PROTECTED_PROCEDURE_FIELD_RULES"
    by (simp add: PROTECTED_PROCEDURE_FIELD_RULES_def lowering_is_refused_def effect_lowering_is_refused_def
        enabling_is_refused_def change_is_refused_def)
  with assms show ?thesis by (auto simp: list_all_iff)
qed

definition edited :: "pydict \<Rightarrow> pydict \<Rightarrow> string \<Rightarrow> pyval" where
  "edited stored requested f = (if dget requested f = VNone then dget stored f else dget requested f)"

definition CHANGE_FIELDS :: "string list" where
  "CHANGE_FIELDS = [''transport_driver'', ''transport_driver_chain'', ''handler_id'', ''name'', ''version'',
     ''target_models'', ''params_schema'', ''timeout_seconds'', ''result_schema'', ''output_parser'', ''output_schema'',
     ''custom_field_data'']"

lemma rule_lookup:
  "map_of PROTECTED_PROCEDURE_FIELD_RULES ''transport_driver'' = Some (change_is_refused, change_denied_message ''transport driver'')"
  "map_of PROTECTED_PROCEDURE_FIELD_RULES ''transport_driver_chain'' = Some (change_is_refused, change_denied_message ''transport driver chain'')"
  "map_of PROTECTED_PROCEDURE_FIELD_RULES ''handler_id'' = Some (change_is_refused, change_denied_message ''handler'')"
  "map_of PROTECTED_PROCEDURE_FIELD_RULES ''name'' = Some (change_is_refused, change_denied_message ''name'')"
  "map_of PROTECTED_PROCEDURE_FIELD_RULES ''version'' = Some (change_is_refused, change_denied_message ''version'')"
  "map_of PROTECTED_PROCEDURE_FIELD_RULES ''target_models'' = Some (change_is_refused, change_denied_message ''target models'')"
  "map_of PROTECTED_PROCEDURE_FIELD_RULES ''params_schema'' = Some (change_is_refused, change_denied_message ''parameter schema'')"
  "map_of PROTECTED_PROCEDURE_FIELD_RULES ''timeout_seconds'' = Some (change_is_refused, change_denied_message ''timeout'')"
  "map_of PROTECTED_PROCEDURE_FIELD_RULES ''result_schema'' = Some (change_is_refused, change_denied_message ''result schema'')"
  "map_of PROTECTED_PROCEDURE_FIELD_RULES ''output_parser'' = Some (change_is_refused, change_denied_message ''output parser'')"
  "map_of PROTECTED_PROCEDURE_FIELD_RULES ''output_schema'' = Some (change_is_refused, change_denied_message ''output schema'')"
  "map_of PROTECTED_PROCEDURE_FIELD_RULES ''tags'' = Some (change_is_refused, change_denied_message ''tags'')"
  "map_of PROTECTED_PROCEDURE_FIELD_RULES ''custom_field_data'' = Some (change_is_refused, change_denied_message ''custom fields'')"
  by (simp_all add: PROTECTED_PROCEDURE_FIELD_RULES_def)

lemma change_rule:
  assumes "f \<in> set CHANGE_FIELDS"
  shows "f \<noteq> ''tags'' \<and> (\<exists>m. (f, change_is_refused, m) \<in> set PROTECTED_PROCEDURE_FIELD_RULES)"
proof -
  have "list_all (\<lambda>f. f \<noteq> ''tags'' \<and> (\<exists>m. map_of PROTECTED_PROCEDURE_FIELD_RULES f = Some (change_is_refused, m))) CHANGE_FIELDS"
    by (simp add: CHANGE_FIELDS_def rule_lookup)
  with assms show ?thesis by (auto simp: list_all_iff dest: map_of_SomeD)
qed

lemma special_rules:
  "\<exists>m. (''transport_pinned'', lowering_is_refused, m) \<in> set PROTECTED_PROCEDURE_FIELD_RULES"
  "\<exists>m. (''approval_required'', lowering_is_refused, m) \<in> set PROTECTED_PROCEDURE_FIELD_RULES"
  "\<exists>m. (''effect'', effect_lowering_is_refused, m) \<in> set PROTECTED_PROCEDURE_FIELD_RULES"
  "\<exists>m. (''enabled'', enabling_is_refused, m) \<in> set PROTECTED_PROCEDURE_FIELD_RULES"
  "\<exists>m. (''tags'', change_is_refused, m) \<in> set PROTECTED_PROCEDURE_FIELD_RULES"
  unfolding PROTECTED_PROCEDURE_FIELD_RULES_def
  by (rule exI, rule list.set_intros(1) list.set_intros(1) [THEN list.set_intros(2)]
      list.set_intros(1) [THEN list.set_intros(2), THEN list.set_intros(2)]
      list.set_intros(1) [THEN list.set_intros(2), THEN list.set_intros(2), THEN list.set_intros(2)])+
    (use map_of_SomeD [OF rule_lookup(12)] in \<open>simp only: PROTECTED_PROCEDURE_FIELD_RULES_def, blast\<close>)

lemma snapshot_fields:
  assumes "protected_field_snapshot (Some p) = Some stored"
  shows "dget stored ''transport_pinned'' = VBool (proc_transport_pinned p)"
    "dget stored ''approval_required'' = VBool (proc_approval_required p)"
    "dget stored ''effect'' = VStr (proc_effect p)" "dget stored ''enabled'' = VBool (proc_enabled p)"
    "dget stored ''tags'' = VList (map VInt (sort (proc_tags p)))"
  using assms by (auto simp: protected_field_snapshot_def)

lemma rank_known: "e \<in> {''read'', ''write'', ''destructive''} \<Longrightarrow> stored_rank (VStr e) = requested_rank (VStr e)"
  by (auto simp: stored_rank_def requested_rank_def EFFECT_RANKS_def)

definition sample_catalog :: catalog_procedure where
  "sample_catalog = rpc_procedure.extend sample_procedure \<lparr>proc_tags = [2, 1], proc_custom_field_data = VDict []\<rparr>"

lemma sample_edit:
  "protected_field_refusals (protected_field_snapshot (Some sample_catalog)) [(''description'', VStr ''new'')] False = Inr []"
  by (simp add: protected_field_refusals_def protected_field_snapshot_def PROTECTED_PROCEDURE_FIELD_RULES_def
      tag_keys_def lowering_is_refused_def effect_lowering_is_refused_def enabling_is_refused_def change_is_refused_def)

text \<open>
  An edit by a user without the approve permission that is not refused weakens nothing: a
  pinned procedure stays pinned, required approval stays required, the effect does not drop
  to a less dangerous level, a disabled procedure stays disabled, and every other protected
  field is absent from the edit or has the same value with the same types.
\<close>

theorem unapproved_edit_keeps_safety:
  assumes "protected_field_snapshot (Some p) = Some stored"
    and "protected_field_refusals (Some stored) requested False = Inr []"
    and "proc_effect p \<in> {''read'', ''write'', ''destructive''}"
  shows "(proc_transport_pinned p \<longrightarrow> truthy (edited stored requested ''transport_pinned''))
    \<and> (proc_approval_required p \<longrightarrow> truthy (edited stored requested ''approval_required''))
    \<and> stored_rank (VStr (proc_effect p)) \<le> requested_rank (edited stored requested ''effect'')
    \<and> (\<not> proc_enabled p \<longrightarrow> edited stored requested ''enabled'' = VBool False)
    \<and> (\<forall>f \<in> set CHANGE_FIELDS. dget requested f = VNone \<or> dget stored f = VNone
         \<or> as_comparable_eq (dget stored f) (dget requested f))
    \<and> (\<exists>v. tag_keys (dget requested ''tags'') = Inr v
         \<and> (v = VNone \<or> as_comparable_eq (VList (map VInt (sort (proc_tags p)))) v))"
proof -
  note S = snapshot_fields [OF assms(1)]
  from assms(2) have loop: "refusal_loop PROTECTED_PROCEDURE_FIELD_RULES stored requested False = Inr []"
    by (simp add: protected_field_refusals_def)
  note R = refusal_loop_empty [OF loop refl]
  have pin: "\<not> lowering_is_refused (VBool (proc_transport_pinned p)) (dget requested ''transport_pinned'') False"
    using special_rules(1) R S(1) by fastforce
  have app: "\<not> lowering_is_refused (VBool (proc_approval_required p)) (dget requested ''approval_required'') False"
    using special_rules(2) R S(2) by fastforce
  have eff: "\<not> effect_lowering_is_refused (VStr (proc_effect p)) (dget requested ''effect'') False"
    using special_rules(3) R S(3) by fastforce
  have enb: "\<not> enabling_is_refused (VBool (proc_enabled p)) (dget requested ''enabled'') False"
    using special_rules(4) R S(4) by fastforce
  have tag: "\<exists>v. tag_keys (dget requested ''tags'') = Inr v \<and> \<not> change_is_refused (dget stored ''tags'') v False"
    using special_rules(5) R by fastforce
  have chg: "\<not> change_is_refused (dget stored f) (dget requested f) False" if "f \<in> set CHANGE_FIELDS" for f
    using change_rule [OF that] R by blast
  from pin have 1: "proc_transport_pinned p \<longrightarrow> truthy (edited stored requested ''transport_pinned'')"
    by (auto simp: lowering_is_refused_def edited_def S split: if_splits)
  from app have 2: "proc_approval_required p \<longrightarrow> truthy (edited stored requested ''approval_required'')"
    by (auto simp: lowering_is_refused_def edited_def S split: if_splits)
  from eff have 3: "stored_rank (VStr (proc_effect p)) \<le> requested_rank (edited stored requested ''effect'')"
    using rank_known [OF assms(3)] by (auto simp: effect_lowering_is_refused_def edited_def S split: if_splits)
  from enb have 4: "\<not> proc_enabled p \<longrightarrow> edited stored requested ''enabled'' = VBool False"
    by (auto simp: enabling_is_refused_def edited_def S split: if_splits)
  from chg have 5: "\<forall>f \<in> set CHANGE_FIELDS. dget requested f = VNone \<or> dget stored f = VNone
      \<or> as_comparable_eq (dget stored f) (dget requested f)"
    unfolding change_is_refused_def by (metis (full_types))
  from tag have 6: "\<exists>v. tag_keys (dget requested ''tags'') = Inr v
      \<and> (v = VNone \<or> as_comparable_eq (VList (map VInt (sort (proc_tags p)))) v)"
    by (auto simp: change_is_refused_def S split: if_splits)
  from 1 2 3 4 5 6 show ?thesis by blast
qed

theorem unapproved_edit_keeps_safety_witness:
  "stored_rank (VStr (proc_effect sample_catalog)) \<le> requested_rank (edited (the (protected_field_snapshot (Some sample_catalog)))
     [(''description'', VStr ''new'')] ''effect'')"
proof -
  obtain stored where s: "protected_field_snapshot (Some sample_catalog) = Some stored"
    by (simp add: protected_field_snapshot_def)
  show ?thesis
    using unapproved_edit_keeps_safety [OF s sample_edit [unfolded s]] s
    by (simp add: sample_catalog_def sample_procedure_def rpc_procedure.defs)
qed

text \<open>
  The approve permission lifts every rule: with it, no edit of a procedure is refused as
  long as its tags can be compared.
\<close>

theorem approved_edit_never_refused:
  assumes "tag_keys (dget requested ''tags'') = Inr v"
  shows "protected_field_refusals stored requested True = Inr []"
  using refusal_loop_approved [OF assms, of PROTECTED_PROCEDURE_FIELD_RULES] rules_approved
  by (auto simp: protected_field_refusals_def split: option.split)

theorem approved_edit_never_refused_witness:
  "protected_field_refusals (protected_field_snapshot (Some sample_catalog)) [(''enabled'', VBool False), (''tags'', VList [VInt 3])] True = Inr []"
  by (rule approved_edit_never_refused) (simp add: tag_keys_def)


section \<open>The effective chain\<close>

lemma settings_clean_chain:
  assumes "settings_clean s = []"
  shows "\<forall>e \<in> set (ps_default_transport_driver_chain s). driver_capability e = CAPABILITY_LINUX_SHELL"
    "\<forall>e \<in> set (ps_default_network_driver_chain s). driver_capability e = CAPABILITY_NETWORK_CLI"
  using assms by (auto simp: settings_clean_def wrong_entries_def Let_def filter_empty_conv split: if_splits)

lemma dropWhile_idem: "dropWhile P (dropWhile P xs) = dropWhile P xs"
  by (induction xs) auto

lemma dropWhile_rev_keep: "dropWhile P xs = xs \<Longrightarrow> dropWhile P (rev (dropWhile P (rev xs))) = rev (dropWhile P (rev xs))"
proof -
  assume a: "dropWhile P xs = xs"
  define r where "r = rev (dropWhile P (rev xs))"
  have "\<exists>t. xs = r @ t"
    unfolding r_def by (metis rev_append rev_rev_ident takeWhile_dropWhile_id)
  then obtain t where t: "xs = r @ t" by blast
  show "dropWhile P r = r"
  proof (cases r)
    case (Cons c cs)
    with t a have "\<not> P c" by (metis append_Cons dropWhile.simps(2) dropWhile_eq_Cons_conv list.sel(1) list.distinct(1) hd_dropWhile list.simps(3))
    with Cons show ?thesis by simp
  qed simp
qed

lemma strip_idem [simp]: "strip (strip s) = strip s"
  unfolding strip_def by (simp add: dropWhile_idem dropWhile_rev_keep)

lemma driver_capability_strip [simp]: "driver_capability (strip d) = driver_capability d"
  by (simp add: driver_capability_def normalize_driver_name_def)

lemma default_chain_capability:
  assumes "settings_clean s = []" and "c = CAPABILITY_LINUX_SHELL \<or> c = CAPABILITY_NETWORK_CLI"
    and "e \<in> set (default_chain_for s c)"
  shows "driver_capability e = c"
proof -
  have "\<exists>raw. e = strip raw \<and> raw \<in> set (if c = CAPABILITY_NETWORK_CLI then ps_default_network_driver_chain s
      else ps_default_transport_driver_chain s)"
    using assms(3) by (auto simp: default_chain_for_def stripped_entries_def)
  with settings_clean_chain [OF assms(1)] assms(2) show ?thesis by (auto split: if_splits)
qed

lemma capability_cases: "driver_capability d \<noteq> [] \<Longrightarrow> driver_capability d = CAPABILITY_LINUX_SHELL \<or> driver_capability d = CAPABILITY_NETWORK_CLI"
  by (auto simp: driver_capability_def Let_def split: if_splits)

lemma raw_default:
  "c = CAPABILITY_LINUX_SHELL \<or> c = CAPABILITY_NETWORK_CLI \<Longrightarrow>
    driver_capability (the (map_of RAW_CAPABILITY_DEFAULT c)) = c \<and> the (map_of RAW_CAPABILITY_DEFAULT c) \<notin> set ANSIBLE_DRIVERS"
  by (auto simp: RAW_CAPABILITY_DEFAULT_def CAPABILITY_LINUX_SHELL_def CAPABILITY_NETWORK_CLI_def ANSIBLE_DRIVERS_def
      driver_capability_def normalize_driver_name_def strip_def is_space_def lower_def lower_char_def
      LINUX_SHELL_DRIVERS_def NETWORK_CLI_DRIVERS_def Let_def)

definition sample_settings :: plugin_settings where
  "sample_settings = \<lparr>ps_default_transport_driver_chain = [''ansible''], ps_default_network_driver_chain = [],
     ps_ansible_platform_map = VDict []\<rparr>"

text \<open>
  A chain that comes from the estate-wide policy (the procedure has none of its own) is
  given only to a procedure that is not pinned; it starts with the configured default chain,
  contains the procedure's own driver, serves one capability throughout when the settings
  passed validation, and always contains a driver that does not need an Ansible control node.
\<close>

theorem policy_chain_has_raw_fallback:
  assumes "resolve_driver_chain p (Some s) = chain" and "chain \<noteq> []"
    and "stripped_entries (proc_transport_driver_chain p) = []" and "settings_clean s = []"
  shows "\<not> proc_transport_pinned p
    \<and> (\<exists>rest. chain = default_chain_for s (driver_capability (proc_transport_driver p)) @ rest)
    \<and> strip (proc_transport_driver p) \<in> set chain
    \<and> (\<forall>e \<in> set chain. driver_capability e = driver_capability (proc_transport_driver p))
    \<and> (\<exists>e \<in> set chain. e \<notin> set ANSIBLE_DRIVERS)"
proof -
  let ?d = "strip (proc_transport_driver p)" and ?c = "driver_capability (proc_transport_driver p)"
  define base where "base = (if ?d \<in> set (default_chain_for s ?c) then default_chain_for s ?c else default_chain_for s ?c @ [?d])"
  from assms(1,2,3) have *: "\<not> proc_transport_pinned p" "?c \<noteq> []"
    "chain = (if list_all (\<lambda>e. e \<in> set ANSIBLE_DRIVERS) base then base @ [the (map_of RAW_CAPABILITY_DEFAULT ?c)] else base)"
    by (auto simp: resolve_driver_chain_def Let_def base_def split: if_splits)
  note c = capability_cases [OF *(2)]
  have cap: "driver_capability e = ?c" if "e \<in> set base" for e
    using that default_chain_capability [OF assms(4) c] by (auto simp: base_def split: if_splits)
  have pre: "\<exists>rest. base = default_chain_for s ?c @ rest" by (auto simp: base_def)
  have own: "?d \<in> set base" by (simp add: base_def)
  show ?thesis
  proof (cases "list_all (\<lambda>e. e \<in> set ANSIBLE_DRIVERS) base")
    case True
    with * have "chain = base @ [the (map_of RAW_CAPABILITY_DEFAULT ?c)]" by simp
    with *(1) pre own cap raw_default [OF c] show ?thesis by (auto simp del: set_map)
  next
    case False
    with * have "chain = base" by simp
    with *(1) pre own cap False show ?thesis by (auto simp: list_all_iff)
  qed
qed

lemma sample_chain: "resolve_driver_chain (sample_procedure\<lparr>proc_transport_driver := ''ansible''\<rparr>) (Some sample_settings)
    = [''ansible'', ''asyncssh'']"
  by (simp add: resolve_driver_chain_def sample_settings_def sample_procedure_def stripped_entries_def default_chain_for_def
      driver_capability_def normalize_driver_name_def strip_def is_space_def lower_def lower_char_def LINUX_SHELL_DRIVERS_def
      CAPABILITY_LINUX_SHELL_def CAPABILITY_NETWORK_CLI_def ANSIBLE_DRIVERS_def RAW_CAPABILITY_DEFAULT_def)

theorem policy_chain_has_raw_fallback_witness:
  "\<exists>e \<in> set [''ansible'', ''asyncssh'']. e \<notin> set ANSIBLE_DRIVERS"
proof -
  have "settings_clean sample_settings = []"
    by (simp add: settings_clean_def sample_settings_def wrong_entries_def driver_capability_def normalize_driver_name_def
        strip_def is_space_def lower_def lower_char_def LINUX_SHELL_DRIVERS_def CAPABILITY_LINUX_SHELL_def)
  then show ?thesis
    using policy_chain_has_raw_fallback [OF sample_chain] by (simp add: sample_procedure_def stripped_entries_def)
qed


section \<open>The fingerprint covers what is injected\<close>

text \<open>The injected entries with their names in the fingerprint; the schema is bound by its hash.\<close>

definition INJECTED :: "(string \<times> string) list" where
  "INJECTED = [(''transport_driver'', ''transport_driver''), (''transport_driver_chain'', ''transport_driver_chain''),
     (''output_parser'', ''output_parser''), (''_ansible'', ''ansible_context'')]"

definition covered :: "python_rt \<Rightarrow> pydict \<Rightarrow> pydict \<Rightarrow> bool" where
  "covered rt n0 n \<longleftrightarrow> (\<exists>fp. map_of n ''command_fingerprint'' = Some (VDict fp)
     \<and> (\<forall>(k, fk) \<in> set INJECTED. map_of n k \<noteq> map_of n0 k \<longrightarrow> map_of fp fk = map_of n k)
     \<and> (map_of n ''output_schema'' \<noteq> map_of n0 ''output_schema'' \<longrightarrow>
          map_of fp ''output_schema_sha256'' = Some (VStr (normalization_hash_json rt (dget n ''output_schema''))))
     \<and> (\<forall>k. k \<notin> {''output_schema'', ''command_fingerprint''} \<union> fst ` set INJECTED \<longrightarrow> map_of n k = map_of n0 k))"

lemma injected_names:
  assumes "(k, fk) \<in> set INJECTED"
  shows "k \<noteq> ''output_schema''" "k \<noteq> ''command_fingerprint''" "fk \<noteq> ''output_schema_sha256''"
    "\<And>k' fk'. (k', fk') \<in> set INJECTED \<Longrightarrow> k' = k \<longleftrightarrow> fk' = fk"
  using assms by (auto simp: INJECTED_def)

lemma override_lookup:
  assumes "map_of n ''command_fingerprint'' = Some (VDict fp)" "key \<noteq> ''command_fingerprint''"
  shows "map_of (override True key v fk w n) ''command_fingerprint'' = Some (VDict (dict_set fk w fp))"
    "x \<noteq> ''command_fingerprint'' \<Longrightarrow> map_of (override True key v fk w n) x = (if x = key then Some v else map_of n x)"
  using assms by (simp_all add: override_def set_fingerprint_def)

lemma override_injected:
  assumes "covered rt n0 n" and "(k, fk) \<in> set INJECTED"
  shows "covered rt n0 (override active k v fk v n)"
proof (cases active)
  case True
  from assms(1) obtain fp where c: "map_of n ''command_fingerprint'' = Some (VDict fp)"
    "\<forall>(k, fk) \<in> set INJECTED. map_of n k \<noteq> map_of n0 k \<longrightarrow> map_of fp fk = map_of n k"
    "map_of n ''output_schema'' \<noteq> map_of n0 ''output_schema'' \<longrightarrow>
          map_of fp ''output_schema_sha256'' = Some (VStr (normalization_hash_json rt (dget n ''output_schema'')))"
    "\<forall>k. k \<notin> {''output_schema'', ''command_fingerprint''} \<union> fst ` set INJECTED \<longrightarrow> map_of n k = map_of n0 k"
    by (auto simp: covered_def)
  note N = injected_names [OF assms(2)]
  note L = override_lookup [OF c(1) N(2), where v = v and fk = fk and w = v]
  have "map_of (override True k v fk v n) k' \<noteq> map_of n0 k' \<longrightarrow>
      map_of (dict_set fk v fp) fk' = map_of (override True k v fk v n) k'" if "(k', fk') \<in> set INJECTED" for k' fk'
  proof (cases "k' = k")
    case True
    with N(4) [OF that] L(2) [OF injected_names(2) [OF that]] show ?thesis by simp
  next
    case False
    have "map_of n k' \<noteq> map_of n0 k' \<longrightarrow> map_of fp fk' = map_of n k'" using bspec [OF c(2) that] by simp
    with False N(4) [OF that] L(2) [OF injected_names(2) [OF that]] show ?thesis by simp
  qed
  moreover have "map_of (override True k v fk v n) k' = map_of n0 k'"
    if "k' \<notin> {''output_schema'', ''command_fingerprint''} \<union> fst ` set INJECTED" for k'
  proof -
    from that assms(2) have "k' \<noteq> k" "k' \<noteq> ''command_fingerprint''" by force+
    with that c(4) L(2) [of k'] show ?thesis by simp
  qed
  ultimately show ?thesis
    using True L(1) L(2) [of "''output_schema''"] N(1,3) c(3)
    by (simp add: covered_def dget_def case_prod_unfold)
next
  case False
  with assms show ?thesis by (simp add: override_def)
qed

lemma override_schema:
  assumes "covered rt n0 n"
  shows "covered rt n0 (override active ''output_schema'' v ''output_schema_sha256''
    (VStr (normalization_hash_json rt v)) n)"
proof (cases active)
  case True
  from assms obtain fp where c: "map_of n ''command_fingerprint'' = Some (VDict fp)"
    "\<forall>(k, fk) \<in> set INJECTED. map_of n k \<noteq> map_of n0 k \<longrightarrow> map_of fp fk = map_of n k"
    "\<forall>k. k \<notin> {''output_schema'', ''command_fingerprint''} \<union> fst ` set INJECTED \<longrightarrow> map_of n k = map_of n0 k"
    by (auto simp: covered_def)
  let ?w = "VStr (normalization_hash_json rt v)"
  let ?o = "override True ''output_schema'' v ''output_schema_sha256'' ?w n"
  have L: "map_of ?o ''command_fingerprint'' = Some (VDict (dict_set ''output_schema_sha256'' ?w fp))"
    "\<And>x. x \<noteq> ''command_fingerprint'' \<Longrightarrow> map_of ?o x = (if x = ''output_schema'' then Some v else map_of n x)"
    by (rule override_lookup [OF c(1)], simp)+
  have "map_of ?o k \<noteq> map_of n0 k \<longrightarrow> map_of (dict_set ''output_schema_sha256'' ?w fp) fk = map_of ?o k"
    if "(k, fk) \<in> set INJECTED" for k fk
    using c(2) that L(2) [OF injected_names(2) [OF that]] injected_names(1,3) [OF that] by auto
  moreover have "map_of ?o k' = map_of n0 k'"
    if "k' \<notin> {''output_schema'', ''command_fingerprint''} \<union> fst ` set INJECTED" for k'
    using that c(3) L(2) [of k'] by auto
  ultimately show ?thesis
    using True L(1) L(2) [of "''output_schema''"] by (simp add: covered_def dget_def case_prod_unfold)
next
  case False
  with assms show ?thesis by (simp add: override_def)
qed

lemma ansible_covered:
  assumes "covered rt n0 n"
  shows "covered rt n0 (apply_ansible_context policy slug chain n)"
proof (cases "apply_ansible_context policy slug chain n = n")
  case True
  with assms show ?thesis by simp
next
  case False
  then obtain ctx where "apply_ansible_context policy slug chain n =
      override True ''_ansible'' ctx ''ansible_context'' ctx n"
    by (auto simp: apply_ansible_context_def override_def Let_def split: option.splits if_splits)
  with override_injected [OF assms, of "''_ansible''" "''ansible_context''"] show ?thesis by (simp add: INJECTED_def)
qed

lemma overrides_covered:
  assumes "covered rt n0 n"
  shows "covered rt n0 (apply_driver_pipeline_overrides rt policy slug p n)"
proof -
  have I: "(''transport_driver'', ''transport_driver'') \<in> set INJECTED"
    "(''transport_driver_chain'', ''transport_driver_chain'') \<in> set INJECTED"
    "(''output_parser'', ''output_parser'') \<in> set INJECTED" by (simp_all add: INJECTED_def)
  note D = override_injected [OF assms I(1)]
  have "covered rt n0 (if c then apply_ansible_context policy slug chain (override True ''transport_driver_chain'' v
      ''transport_driver_chain'' v m) else m)" if "covered rt n0 m" for c chain v m
    using that by (simp add: ansible_covered override_injected [OF that I(2)])
  note C = this [OF D]
  show ?thesis
    unfolding apply_driver_pipeline_overrides_def Let_def
    by (rule override_schema [OF override_injected [OF C I(3)]])
qed

text \<open>
  Everything the driver pipeline adds to the dispatch payload is bound by the command
  fingerprint that an approval covers: a changed driver, chain or parser appears there with
  the same value, the Ansible context too, an output schema by its hash; no other entry of
  the payload changes.
\<close>

theorem injected_settings_are_fingerprinted:
  assumes "map_of n ''command_fingerprint'' = Some (VDict fp)"
    and "apply_driver_pipeline_overrides rt policy slug p n = n'"
  shows "\<exists>fp'. map_of n' ''command_fingerprint'' = Some (VDict fp')
    \<and> (\<forall>(k, fk) \<in> set [(''transport_driver'', ''transport_driver''), (''transport_driver_chain'', ''transport_driver_chain''),
           (''output_parser'', ''output_parser''), (''_ansible'', ''ansible_context'')].
         map_of n' k \<noteq> map_of n k \<longrightarrow> map_of fp' fk = map_of n' k)
    \<and> (map_of n' ''output_schema'' \<noteq> map_of n ''output_schema'' \<longrightarrow>
         map_of fp' ''output_schema_sha256'' = Some (VStr (normalization_hash_json rt (dget n' ''output_schema''))))
    \<and> (\<forall>k. k \<notin> {''output_schema'', ''command_fingerprint''} \<union> fst ` set INJECTED \<longrightarrow> map_of n' k = map_of n k)"
proof -
  have "covered rt n n" using assms(1) by (simp add: covered_def)
  from overrides_covered [OF this, of policy slug p] show ?thesis
    unfolding assms(2) covered_def unfolding INJECTED_def by blast
qed

definition sample_normalized :: pydict where
  "sample_normalized = [(''command_fingerprint'', VDict [(''handler_id'', VStr ''os.linux.uptime'')])]"

theorem injected_settings_are_fingerprinted_witness:
  "\<exists>fp'. map_of (apply_driver_pipeline_overrides plain_rt None [] (sample_procedure\<lparr>proc_transport_driver := ''fabric''\<rparr>)
        sample_normalized) ''command_fingerprint'' = Some (VDict fp')"
proof -
  have "map_of sample_normalized ''command_fingerprint'' = Some (VDict [(''handler_id'', VStr ''os.linux.uptime'')])"
    by (simp add: sample_normalized_def)
  from injected_settings_are_fingerprinted [OF this refl, of plain_rt None "[]" "sample_procedure\<lparr>proc_transport_driver := ''fabric''\<rparr>"]
  show ?thesis by (elim exE conjE) (rule exI)
qed


section \<open>The Ansible context\<close>

lemma context_entries_typed:
  "(k, v) \<in> set (context_entries entry keys) \<Longrightarrow> k \<in> set keys \<and> (\<exists>s. v = VStr s \<and> s \<noteq> [] \<and> strip s = s)"
  by (induction entry keys rule: context_entries.induct) (auto split: pyval.splits if_splits)

lemma context_entries_keys: "distinct keys \<Longrightarrow> distinct (map fst (context_entries entry keys))"
proof (induction entry keys rule: context_entries.induct)
  case (2 entry key keys)
  have "key \<notin> set (map fst (context_entries entry keys))"
    using context_entries_typed [of key] 2 by fastforce
  with 2 show ?case by (auto split: pyval.split)
qed simp

text \<open>
  C39: Whatever an operator wrote into the platform map, the Ansible context sent to the backend
  is a dictionary with distinct keys among the four recognised ones, where \<open>become\<close> is a
  boolean and the others are nonempty texts without surrounding blanks.
\<close>

theorem ansible_context_well_typed:
  "distinct (map fst (ansible_context_from_platform_map mapping slug))
   \<and> list_all (\<lambda>(k, v). if k = ''become'' then is_bool v
        else k \<in> {''network_os'', ''connection'', ''become_method''} \<and> (case v of VStr s \<Rightarrow> s \<noteq> [] \<and> strip s = s | _ \<Rightarrow> False))
      (ansible_context_from_platform_map mapping slug)"
proof -
  have 1: "distinct (map fst (context_entries entry ANSIBLE_CONTEXT_STRING_KEYS))" for entry
    by (rule context_entries_keys) (simp add: ANSIBLE_CONTEXT_STRING_KEYS_def)
  have 2: "k \<in> {''network_os'', ''connection'', ''become_method''} \<and> (case v of VStr s \<Rightarrow> s \<noteq> [] \<and> strip s = s | _ \<Rightarrow> False)"
    if "(k, v) \<in> set (context_entries entry ANSIBLE_CONTEXT_STRING_KEYS)" for k v entry
    using context_entries_typed [OF that] by (auto simp: ANSIBLE_CONTEXT_STRING_KEYS_def)
  have 3: "''become'' \<notin> fst ` set (context_entries entry ANSIBLE_CONTEXT_STRING_KEYS)" for entry
    using 2 by fastforce
  show ?thesis
    using 1 2 3 unfolding ansible_context_from_platform_map_def Let_def
    by (auto simp: list_all_iff split: pyval.split)
qed

end
