(* ===== verification/TargetSnapshot.thy ===== *)
theory TargetSnapshot
  imports Transport Redaction "HOL-Library.Product_Lexorder"
begin

text \<open>
  The bounded snapshot of the target object that Jinja commands read,
  \<open>netbox_rpc/domain/normalization.py\<close> from \<open>_has_jinja_command\<close> to
  \<open>_apply_target_object_context\<close>: a copy of the object's fields within a budget of nodes and
  serialized bytes, its redacted persisted form, and the two digests in the fingerprint.

  Mapping keys are texts. The depth argument of the source is the remaining depth here
  (four at the top), so the recursion is structural. \<open>_MatchedText\<close>, the marked text class,
  is the constructor \<open>SMatched\<close>.
\<close>

definition TARGET_SNAPSHOT_MAX_NODES :: nat where "TARGET_SNAPSHOT_MAX_NODES = 1000"
definition TARGET_SNAPSHOT_MAX_BYTES :: nat where "TARGET_SNAPSHOT_MAX_BYTES = 65536"
definition TARGET_SNAPSHOT_MAX_KEYS :: nat where "TARGET_SNAPSHOT_MAX_KEYS = 95"
definition TARGET_SNAPSHOT_MAX_ITEMS :: nat where "TARGET_SNAPSHOT_MAX_ITEMS = 50"
definition TARGET_SNAPSHOT_MAX_VALUE_LEN :: nat where "TARGET_SNAPSHOT_MAX_VALUE_LEN = 1024"
definition TARGET_SNAPSHOT_MAX_DEPTH :: nat where "TARGET_SNAPSHOT_MAX_DEPTH = 4"
definition TARGET_SNAPSHOT_MARKER :: string where "TARGET_SNAPSHOT_MARKER = ''_truncated''"
definition TARGET_SNAPSHOT_MARKER_BYTES :: nat where "TARGET_SNAPSHOT_MARKER_BYTES = 18"

definition SENSITIVE_FIELD_WORDS :: "string list" where
  "SENSITIVE_FIELD_WORDS =
     [''pass'', ''secret'', ''token'', ''credential'', ''community'', ''psk'', ''passphrase'']
     @ concat (map (\<lambda>w. [w @ ''key'', w @ ''_key'', w @ ''-key''])
         [''private'', ''api'', ''ssh'', ''auth'', ''access'', ''encryption'', ''secret''])"

definition SENSITIVE_FIELD_RE :: "string \<Rightarrow> bool" where
  "SENSITIVE_FIELD_RE name \<longleftrightarrow> list_ex (contains (lower name)) SENSITIVE_FIELD_WORDS"

definition has_jinja_command :: "rpc_procedure \<Rightarrow> bool" where
  "has_jinja_command p \<longleftrightarrow> list_ex (\<lambda>c. cmd_render_mode c = ''jinja'') (proc_commands p)"


section \<open>The budget\<close>

record snapshot_budget =
  bg_nodes :: nat
  bg_bytes :: nat
  bg_truncated :: bool

definition new_budget :: snapshot_budget where
  "new_budget = \<lparr>bg_nodes = 0, bg_bytes = 0, bg_truncated = False\<rparr>"

definition restore :: "snapshot_budget \<Rightarrow> snapshot_budget \<Rightarrow> snapshot_budget" where
  "restore checkpoint b = b\<lparr>bg_nodes := bg_nodes checkpoint, bg_bytes := bg_bytes checkpoint\<rparr>"

definition truncate_mark :: "bool \<Rightarrow> snapshot_budget \<Rightarrow> snapshot_budget" where
  "truncate_mark t b = (if t then b\<lparr>bg_truncated := True\<rparr> else b)"

definition spend :: "nat \<Rightarrow> nat \<Rightarrow> snapshot_budget \<Rightarrow> bool \<times> snapshot_budget" where
  "spend nodes bytes b =
     (if bg_nodes b + nodes > TARGET_SNAPSHOT_MAX_NODES - 1
         \<or> bg_bytes b + bytes > TARGET_SNAPSHOT_MAX_BYTES - TARGET_SNAPSHOT_MARKER_BYTES
      then (False, b\<lparr>bg_truncated := True\<rparr>)
      else (True, b\<lparr>bg_nodes := bg_nodes b + nodes, bg_bytes := bg_bytes b + bytes\<rparr>))"

datatype snap = SScalar pyval | SMatched string | SList "snap list" | SDict "(string \<times> snap) list"

text \<open>The plain value a snapshot serializes as.\<close>

fun erase :: "snap \<Rightarrow> pyval" where
  "erase (SScalar v) = v"
| "erase (SMatched s) = VStr s"
| "erase (SList xs) = VList (map erase xs)"
| "erase (SDict d) = VDict (map (\<lambda>(k, v). (k, erase v)) d)"

definition json_length :: "pyval \<Rightarrow> nat" where
  "json_length v = length (json_raw v)"

definition json_safe_scalar :: "pyval \<Rightarrow> pyval" where
  "json_safe_scalar v = (case v of
       VStr s \<Rightarrow> VStr (take TARGET_SNAPSHOT_MAX_VALUE_LEN s)
     | VTime t \<Rightarrow> VStr (take TARGET_SNAPSHOT_MAX_VALUE_LEN (py_str (VTime t)))
     | _ \<Rightarrow> v)"

fun keep_first :: "string list \<Rightarrow> (string \<times> 'a) list \<Rightarrow> (string \<times> 'a) list" where
  "keep_first seen [] = []"
| "keep_first seen ((k, v) # d) = (if k \<in> set seen then keep_first seen d else (k, v) # keep_first (k # seen) d)"

definition ordered_items :: "pydict \<Rightarrow> pydict" where
  "ordered_items d = map (\<lambda>(k, v). (take TARGET_SNAPSHOT_MAX_VALUE_LEN k, v))
     (sort_key (\<lambda>(k, _). (take TARGET_SNAPSHOT_MAX_VALUE_LEN k, str_repr k)) (take TARGET_SNAPSHOT_MAX_KEYS d))"

definition canonical_mapping_items :: "pydict \<Rightarrow> snapshot_budget \<Rightarrow> pydict \<times> snapshot_budget" where
  "canonical_mapping_items d b =
     (let ordered = ordered_items d; canonical = keep_first [] ordered in
      (canonical, truncate_mark (length d > TARGET_SNAPSHOT_MAX_KEYS \<or> length canonical < length ordered) b))"

definition mapping_entry_bytes :: "string \<Rightarrow> bool \<Rightarrow> nat" where
  "mapping_entry_bytes key has_entries = json_length (VStr key) + 1 + (if has_entries then 1 else 0)"

text \<open>\<open>_append_snapshot_value\<close> for a given copying function of the value.\<close>

definition append_snapshot_with ::
  "(snapshot_budget \<Rightarrow> pyval \<Rightarrow> snap option \<times> snapshot_budget) \<Rightarrow> string \<Rightarrow> pyval
     \<Rightarrow> (string \<times> snap) list \<times> snapshot_budget \<Rightarrow> (string \<times> snap) list \<times> snapshot_budget" where
  "append_snapshot_with copy key v ob = (case ob of (output, b) \<Rightarrow>
     (case spend 0 (mapping_entry_bytes key (output \<noteq> [])) b of
        (False, b1) \<Rightarrow> (output, b1)
      | (True, b1) \<Rightarrow> (case copy b1 v of
          (None, b2) \<Rightarrow> (output, truncate_mark True (restore b b2))
        | (Some s, b2) \<Rightarrow> (dict_set key s output, b2))))"

fun mapping_loop ::
  "(snapshot_budget \<Rightarrow> pyval \<Rightarrow> snap option \<times> snapshot_budget) \<Rightarrow> pydict
     \<Rightarrow> (string \<times> snap) list \<times> snapshot_budget \<Rightarrow> (string \<times> snap) list \<times> snapshot_budget" where
  "mapping_loop copy [] ob = ob"
| "mapping_loop copy ((k, v) # d) ob = mapping_loop copy d (append_snapshot_with copy k v ob)"

fun sequence_loop ::
  "(snapshot_budget \<Rightarrow> pyval \<Rightarrow> snap option \<times> snapshot_budget) \<Rightarrow> pyval list
     \<Rightarrow> snap list \<times> snapshot_budget \<Rightarrow> snap list \<times> snapshot_budget" where
  "sequence_loop copy [] ob = ob"
| "sequence_loop copy (v # vs) (output, b) =
     (case spend 0 (if output \<noteq> [] then 1 else 0) b of
        (False, b1) \<Rightarrow> (output, b1)
      | (True, b1) \<Rightarrow> (case copy b1 v of
          (None, b2) \<Rightarrow> sequence_loop copy vs (output, truncate_mark True (restore b b2))
        | (Some s, b2) \<Rightarrow> sequence_loop copy vs (output @ [s], b2)))"

definition json_safe_mapping ::
  "(snapshot_budget \<Rightarrow> pyval \<Rightarrow> snap option \<times> snapshot_budget) \<Rightarrow> snapshot_budget \<Rightarrow> pydict \<Rightarrow> snap option \<times> snapshot_budget" where
  "json_safe_mapping copy b d = (case spend 1 2 b of
       (False, b1) \<Rightarrow> (None, b1)
     | (True, b1) \<Rightarrow> (case canonical_mapping_items d b1 of
         (items, b2) \<Rightarrow> (case mapping_loop copy items ([], b2) of (output, b3) \<Rightarrow> (Some (SDict output), b3))))"

definition json_safe_sequence ::
  "(snapshot_budget \<Rightarrow> pyval \<Rightarrow> snap option \<times> snapshot_budget) \<Rightarrow> snapshot_budget \<Rightarrow> pyval list \<Rightarrow> snap option \<times> snapshot_budget" where
  "json_safe_sequence copy b xs = (case spend 1 2 b of
       (False, b1) \<Rightarrow> (None, b1)
     | (True, b1) \<Rightarrow> (case sequence_loop copy (take TARGET_SNAPSHOT_MAX_ITEMS xs) ([], b1) of
         (output, b2) \<Rightarrow> (Some (SList output), truncate_mark (length xs > length output) b2)))"

definition json_safe_leaf :: "snapshot_budget \<Rightarrow> pyval \<Rightarrow> snap option \<times> snapshot_budget" where
  "json_safe_leaf b v =
     (let safe = json_safe_scalar v in
      case spend 1 (json_length safe) b of
        (False, b1) \<Rightarrow> (None, b1)
      | (True, b1) \<Rightarrow> (Some (case (v, safe) of
            (VStr s, VStr t) \<Rightarrow> if contains_secret_text s then SMatched t else SScalar safe
          | _ \<Rightarrow> SScalar safe), b1))"

primrec json_safe_value :: "nat \<Rightarrow> snapshot_budget \<Rightarrow> pyval \<Rightarrow> snap option \<times> snapshot_budget" where
  "json_safe_value 0 b v = json_safe_leaf b (if is_dict v \<or> is_list v then VStr ''[truncated]'' else v)"
| "json_safe_value (Suc n) b v = (case v of
       VDict d \<Rightarrow> json_safe_mapping (json_safe_value n) b d
     | VList xs \<Rightarrow> json_safe_sequence (json_safe_value n) b xs
     | _ \<Rightarrow> json_safe_leaf b v)"

definition append_snapshot_value ::
  "string \<Rightarrow> pyval \<Rightarrow> (string \<times> snap) list \<times> snapshot_budget \<Rightarrow> (string \<times> snap) list \<times> snapshot_budget" where
  "append_snapshot_value key v ob = append_snapshot_with (json_safe_value TARGET_SNAPSHOT_MAX_DEPTH) key v ob"

definition add_marker :: "(string \<times> snap) list \<times> snapshot_budget \<Rightarrow> (string \<times> snap) list \<times> snapshot_budget" where
  "add_marker ob = (case ob of (snapshot, b) \<Rightarrow>
     (dict_set TARGET_SNAPSHOT_MARKER (SScalar (VBool True)) snapshot,
      b\<lparr>bg_nodes := bg_nodes b + 1, bg_bytes := bg_bytes b + TARGET_SNAPSHOT_MARKER_BYTES\<rparr>))"


section \<open>The snapshot of an object\<close>

record target_object =
  to_id :: pyval
  to_display :: string
  to_name :: pyval
  to_custom_field_data :: pyval
  to_fields :: "(string \<times> pyval) list"

fun custom_loop :: "pydict \<Rightarrow> (string \<times> snap) list \<times> snapshot_budget \<Rightarrow> (string \<times> snap) list \<times> snapshot_budget" where
  "custom_loop [] ob = ob"
| "custom_loop ((k, v) # d) ob =
     custom_loop d (if SENSITIVE_FIELD_RE k then ob else append_snapshot_value k v ob)"

definition append_custom_fields ::
  "pydict \<Rightarrow> (string \<times> snap) list \<times> snapshot_budget \<Rightarrow> (string \<times> snap) list \<times> snapshot_budget" where
  "append_custom_fields custom_fields ob = (case ob of (snapshot, b) \<Rightarrow>
     (case spend 0 (mapping_entry_bytes ''custom_fields'' (snapshot \<noteq> [])) b of
        (False, b1) \<Rightarrow> (snapshot, b1)
      | (True, b1) \<Rightarrow> (case spend 1 2 b1 of
          (False, b2) \<Rightarrow> (snapshot, restore b b2)
        | (True, b2) \<Rightarrow> (case canonical_mapping_items custom_fields b2 of
            (items, b3) \<Rightarrow> (case custom_loop items ([], b3) of
              (output, b4) \<Rightarrow> if output \<noteq> [] then (dict_set ''custom_fields'' (SDict output) snapshot, b4)
                else (snapshot, restore b b4))))))"

definition skipped_field :: "string \<Rightarrow> (string \<times> snap) list \<Rightarrow> bool" where
  "skipped_field name snapshot \<longleftrightarrow> startswith name ''_'' \<or> name = ''custom_field_data'' \<or> SENSITIVE_FIELD_RE name
     \<or> has_key snapshot name"

fun field_loop :: "(string \<times> pyval) list \<Rightarrow> (string \<times> snap) list \<times> snapshot_budget \<Rightarrow> (string \<times> snap) list \<times> snapshot_budget" where
  "field_loop [] ob = ob"
| "field_loop ((n, v) # rest) (snapshot, b) =
     (let name = take TARGET_SNAPSHOT_MAX_VALUE_LEN n in
      if skipped_field name snapshot then field_loop rest (snapshot, b)
      else if length snapshot \<ge> TARGET_SNAPSHOT_MAX_KEYS - 1 then (snapshot, truncate_mark True b)
      else field_loop rest (append_snapshot_value name v (snapshot, b)))"

text \<open>Collecting the fields marks the budget when there are more than the key limit.\<close>

definition append_fields ::
  "(string \<times> pyval) list \<Rightarrow> (string \<times> snap) list \<times> snapshot_budget \<Rightarrow> (string \<times> snap) list \<times> snapshot_budget" where
  "append_fields fs ob = (case ob of (snapshot, b) \<Rightarrow>
     field_loop (take TARGET_SNAPSHOT_MAX_KEYS fs)
       (snapshot, truncate_mark (length fs > TARGET_SNAPSHOT_MAX_KEYS) b))"

definition snapshot_state :: "target_object \<Rightarrow> (string \<times> snap) list \<times> snapshot_budget" where
  "snapshot_state obj =
     (let s0 = ([], snd (spend 1 2 new_budget));
          s1 = append_snapshot_value ''id'' (to_id obj) s0;
          s2 = append_snapshot_value ''display'' (VStr (to_display obj)) s1;
          s3 = (if to_name obj \<noteq> VNone then append_snapshot_value ''name'' (to_name obj) s2 else s2);
          s4 = (case to_custom_field_data obj of
              VDict d \<Rightarrow> if d \<noteq> [] then append_custom_fields d s3 else s3
            | _ \<Rightarrow> s3)
      in append_fields (to_fields obj) s4)"

definition build_target_object_snapshot :: "target_object \<Rightarrow> (string \<times> snap) list \<times> snapshot_budget" where
  "build_target_object_snapshot obj =
     (let s = snapshot_state obj in if bg_truncated (snd s) then add_marker s else s)"


section \<open>The persisted form\<close>

definition TARGET_SNAPSHOT_KEY_SALT :: string where
  "TARGET_SNAPSHOT_KEY_SALT = ''netbox_rpc.target_object.key.v1''"

definition TARGET_SNAPSHOT_RAW_DIGEST_SALT :: string where
  "TARGET_SNAPSHOT_RAW_DIGEST_SALT = ''netbox_rpc.target_object.raw.v1''"

definition free_text_policy_key :: "python_rt \<Rightarrow> string \<Rightarrow> string" where
  "free_text_policy_key rt key =
     (if \<not> contains_secret_text key then key
      else ''[REDACTED-FIELD:'' @ take 32 (rt_hmac rt TARGET_SNAPSHOT_KEY_SALT key) @ '']'')"

fun free_text_policy_copy :: "python_rt \<Rightarrow> snap \<Rightarrow> pyval" where
  "free_text_policy_copy rt (SMatched s) = VStr ''[REDACTED]''"
| "free_text_policy_copy rt (SScalar v) = v"
| "free_text_policy_copy rt (SList xs) = VList (map (free_text_policy_copy rt) xs)"
| "free_text_policy_copy rt (SDict d) =
     VDict (foldl (\<lambda>out (k, v). dict_set k v out) []
       (map (\<lambda>(k, v). (free_text_policy_key rt k, free_text_policy_copy rt v)) d))"

fun persisted_loop :: "pydict \<Rightarrow> (string \<times> snap) list \<times> snapshot_budget \<Rightarrow> (string \<times> snap) list \<times> snapshot_budget" where
  "persisted_loop [] ob = ob"
| "persisted_loop ((k, v) # d) ob =
     persisted_loop d (if k = TARGET_SNAPSHOT_MARKER then ob else append_snapshot_value k v ob)"

definition bounded_persisted_snapshot :: "python_rt \<Rightarrow> pydict \<Rightarrow> (string \<times> snap) list \<times> snapshot_budget" where
  "bounded_persisted_snapshot rt snapshot =
     (let redacted = redact_event_data rt [] snapshot;
          s = persisted_loop (sort_key fst redacted) ([], snd (spend 1 2 new_budget))
      in if bg_truncated (snd s) \<or> dget redacted TARGET_SNAPSHOT_MARKER = VBool True then add_marker s else s)"

definition keyed_target_snapshot_digest :: "python_rt \<Rightarrow> pydict \<Rightarrow> string" where
  "keyed_target_snapshot_digest rt snapshot = rt_hmac rt TARGET_SNAPSHOT_RAW_DIGEST_SALT (json_dumps (VDict snapshot))"

definition apply_target_object_context :: "python_rt \<Rightarrow> rpc_procedure \<Rightarrow> target_object option \<Rightarrow> pydict \<Rightarrow> pydict" where
  "apply_target_object_context rt p obj normalized =
     (if \<not> has_jinja_command p then normalized
      else (case obj of
          None \<Rightarrow> normalized
        | Some target \<Rightarrow>
            (let snapshot = fst (build_target_object_snapshot target) in
             if snapshot = [] then normalized
             else (case free_text_policy_copy rt (SDict snapshot) of
                 VDict copied \<Rightarrow>
                   (let persisted = erase (SDict (fst (bounded_persisted_snapshot rt copied))) in
                    set_fingerprint ''target_object_raw_hmac_sha256''
                      (VStr (keyed_target_snapshot_digest rt (map (\<lambda>(k, v). (k, erase v)) snapshot)))
                      (set_fingerprint ''target_object_sha256'' (VStr (normalization_hash_json rt persisted))
                        (dict_set ''_target_object'' persisted normalized)))
               | _ \<Rightarrow> normalized))))"

end
