(* ===== verification/TargetSnapshotProps.thy ===== *)
theory TargetSnapshotProps
  imports TargetSnapshot
begin

text \<open>
  The budget of the target snapshot is exact: its byte counter is the length of the compact
  JSON text of what was kept and its node counter the number of values, so the limits of
  the source hold for the snapshot and for its persisted copy.
\<close>

section \<open>Sizes\<close>

fun node_count :: "snap \<Rightarrow> nat" where
  "node_count (SScalar v) = 1"
| "node_count (SMatched s) = 1"
| "node_count (SList xs) = 1 + sum_list (map node_count xs)"
| "node_count (SDict d) = 1 + sum_list (map (\<lambda>(_, v). node_count v) d)"

definition list_body :: "snap list \<Rightarrow> nat" where
  "list_body xs = sum_list (map (\<lambda>s. json_length (erase s)) xs) + (length xs - 1)"

definition dict_body :: "(string \<times> snap) list \<Rightarrow> nat" where
  "dict_body d = sum_list (map (\<lambda>(k, s). json_length (VStr k) + 1 + json_length (erase s)) d) + (length d - 1)"

definition dict_nodes :: "(string \<times> snap) list \<Rightarrow> nat" where
  "dict_nodes d = sum_list (map (\<lambda>(_, s). node_count s) d)"

lemma length_join: "length sep = 1 \<Longrightarrow> length (join_with sep ws) = sum_list (map length ws) + (length ws - 1)"
proof (induction ws)
  case (Cons w ws)
  then show ?case by (cases ws) simp_all
qed simp

lemma json_length_list: "json_length (erase (SList xs)) = 2 + list_body xs"
proof -
  have "sum_list (map length (map json_raw (map erase xs))) = sum_list (map (\<lambda>s. json_length (erase s)) xs)"
    by (simp add: json_length_def comp_def)
  then show ?thesis by (simp add: json_length_def list_body_def length_join)
qed

lemma json_length_dict: "json_length (erase (SDict d)) = 2 + dict_body d"
proof -
  have "sum_list (map length (map (\<lambda>(k, v). json_str k @ '':'' @ json_raw v) (map (\<lambda>(k, v). (k, erase v)) d)))
      = sum_list (map (\<lambda>(k, s). json_length (VStr k) + 1 + json_length (erase s)) d)"
    by (induction d) (auto simp: json_length_def)
  then show ?thesis by (simp add: json_length_def dict_body_def length_join)
qed

lemma dict_body_snoc:
  "dict_body (d @ [(k, s)]) = dict_body d + mapping_entry_bytes k (d \<noteq> []) + json_length (erase s)"
  by (cases d) (simp_all add: dict_body_def mapping_entry_bytes_def)

lemma list_body_snoc: "list_body (xs @ [s]) = list_body xs + (if xs \<noteq> [] then 1 else 0) + json_length (erase s)"
  by (cases xs) (simp_all add: list_body_def)

lemma dict_set_new: "k \<notin> set (map fst d) \<Longrightarrow> dict_set k v d = d @ [(k, v)]"
  by (induction k v d rule: dict_set.induct) auto

lemma dict_nodes_snoc: "dict_nodes (d @ [(k, s)]) = dict_nodes d + node_count s"
  by (simp add: dict_nodes_def)


section \<open>The budget\<close>

definition within :: "snapshot_budget \<Rightarrow> bool" where
  "within b \<longleftrightarrow> bg_nodes b \<le> 999 \<and> bg_bytes b \<le> 65518"

lemma spend_cases:
  assumes "spend n k b = (ok, b')"
  obtains (refuse) "\<not> ok" "bg_nodes b' = bg_nodes b" "bg_bytes b' = bg_bytes b"
    | (accept) "ok" "bg_nodes b' = bg_nodes b + n" "bg_bytes b' = bg_bytes b + k" "within b'"
  using assms
  by (auto simp: spend_def within_def TARGET_SNAPSHOT_MAX_NODES_def TARGET_SNAPSHOT_MAX_BYTES_def
      TARGET_SNAPSHOT_MARKER_BYTES_def split: if_splits)

lemma truncate_mark_counts [simp]:
  "bg_nodes (truncate_mark t b) = bg_nodes b" "bg_bytes (truncate_mark t b) = bg_bytes b"
  "within (truncate_mark t b) = within b"
  by (simp_all add: truncate_mark_def within_def)

lemma restore_counts [simp]: "bg_nodes (restore c b) = bg_nodes c" "bg_bytes (restore c b) = bg_bytes c"
  "within (restore c b) = within c"
  by (simp_all add: restore_def within_def)

text \<open>A copying function that accounts exactly for what it returns.\<close>

definition exact_copy :: "(snapshot_budget \<Rightarrow> pyval \<Rightarrow> snap option \<times> snapshot_budget) \<Rightarrow> bool" where
  "exact_copy copy \<longleftrightarrow> (\<forall>b v s b'. within b \<longrightarrow> copy b v = (Some s, b') \<longrightarrow>
     within b' \<and> bg_bytes b' = bg_bytes b + json_length (erase s) \<and> bg_nodes b' = bg_nodes b + node_count s)"

lemma exact_copyD: "exact_copy copy \<Longrightarrow> within b \<Longrightarrow> copy b v = (Some s, b') \<Longrightarrow>
    within b' \<and> bg_bytes b' = bg_bytes b + json_length (erase s) \<and> bg_nodes b' = bg_nodes b + node_count s"
  by (auto simp: exact_copy_def)

text \<open>The counters equal a base plus the size of the entries collected so far.\<close>

definition accounted :: "nat \<Rightarrow> nat \<Rightarrow> (string \<times> snap) list \<times> snapshot_budget \<Rightarrow> bool" where
  "accounted n k ob \<longleftrightarrow> within (snd ob) \<and> bg_nodes (snd ob) = n + dict_nodes (fst ob)
     \<and> bg_bytes (snd ob) = k + dict_body (fst ob) \<and> distinct (map fst (fst ob))"

lemma append_accounted:
  assumes "exact_copy copy" "accounted n k (out, b)" "key \<notin> set (map fst out)"
    and "append_snapshot_with copy key v (out, b) = (out', b')"
  shows "accounted n k (out', b') \<and> (out' = out \<or> (\<exists>s. out' = out @ [(key, s)]))"
proof -
  obtain ok b1 where sp: "spend 0 (mapping_entry_bytes key (out \<noteq> [])) b = (ok, b1)" by fastforce
  show ?thesis
  proof (cases rule: spend_cases [OF sp])
    case 1
    with assms(2,4) sp show ?thesis by (auto simp: append_snapshot_with_def accounted_def within_def)
  next
    case 2
    obtain r b2 where r: "copy b1 v = (r, b2)" by fastforce
    show ?thesis
    proof (cases r)
      case None
      with 2 assms(2,4) sp r show ?thesis by (auto simp: append_snapshot_with_def accounted_def)
    next
      case (Some s)
      with exact_copyD [OF assms(1) 2(4)] r have e: "within b2" "bg_bytes b2 = bg_bytes b1 + json_length (erase s)"
        "bg_nodes b2 = bg_nodes b1 + node_count s" by blast+
      have "out' = out @ [(key, s)]" "b' = b2"
        using 2(1) assms(3,4) sp r Some by (auto simp: append_snapshot_with_def dict_set_new)
      with e 2 assms(2,3) show ?thesis by (auto simp: accounted_def dict_body_snoc dict_nodes_snoc)
    qed
  qed
qed

lemma mapping_loop_accounted:
  assumes "exact_copy copy"
  shows "accounted n k (out, b) \<Longrightarrow> distinct (map fst items) \<Longrightarrow> set (map fst items) \<inter> set (map fst out) = {} \<Longrightarrow>
    accounted n k (mapping_loop copy items (out, b))"
proof (induction items arbitrary: out b)
  case (Cons kv items)
  obtain key v where kv: "kv = (key, v)" by (cases kv)
  obtain out' b' where a: "append_snapshot_with copy key v (out, b) = (out', b')" by fastforce
  from append_accounted [OF assms Cons.prems(1) _ a] Cons.prems(3) kv
  have "accounted n k (out', b')" "set (map fst out') \<subseteq> insert key (set (map fst out))" by auto
  moreover have "set (map fst items) \<inter> set (map fst out') = {}"
  proof -
    have "key \<notin> set (map fst items)" "set (map fst items) \<inter> set (map fst out) = {}" using Cons.prems(2,3) kv by auto
    with calculation(2) show ?thesis by blast
  qed
  ultimately have "accounted n k (mapping_loop copy items (out', b'))" using Cons.prems(2) kv by (intro Cons.IH) simp_all
  with kv a show ?case by simp
qed simp

lemma keep_first_distinct:
  "distinct (map fst (keep_first seen d)) \<and> set (map fst (keep_first seen d)) \<inter> set seen = {}"
  by (induction seen d rule: keep_first.induct) auto

lemma canonical_items:
  "canonical_mapping_items d b = (items, b') \<Longrightarrow> distinct (map fst items) \<and> (\<exists>t. b' = truncate_mark t b)"
  using keep_first_distinct by (auto simp: canonical_mapping_items_def Let_def)

lemma accounted_start: "within b \<Longrightarrow> accounted (bg_nodes b) (bg_bytes b) ([], b)"
  by (simp add: accounted_def dict_nodes_def dict_body_def)

lemma mapping_exact:
  assumes "exact_copy copy" "within b" "json_safe_mapping copy b d = (Some s, b')"
  shows "within b' \<and> bg_bytes b' = bg_bytes b + json_length (erase s) \<and> bg_nodes b' = bg_nodes b + node_count s"
proof -
  obtain ok b1 where sp: "spend 1 2 b = (ok, b1)" by fastforce
  show ?thesis
  proof (cases rule: spend_cases [OF sp])
    case 1
    with assms(3) sp show ?thesis by (simp add: json_safe_mapping_def)
  next
    case 2
    obtain items b2 where i: "canonical_mapping_items d b1 = (items, b2)" by fastforce
    obtain out b3 where o: "mapping_loop copy items ([], b2) = (out, b3)" by fastforce
    from canonical_items [OF i] 2(4) have "distinct (map fst items)" "within b2"
      "bg_nodes b2 = bg_nodes b1" "bg_bytes b2 = bg_bytes b1" by auto
    with mapping_loop_accounted [OF assms(1) accounted_start [of b2], of items] o
    have "accounted (bg_nodes b1) (bg_bytes b1) (out, b3)" by simp
    moreover have "s = SDict out" "b' = b3" using assms(3) sp 2(1) i o by (auto simp: json_safe_mapping_def)
    ultimately show ?thesis using 2 by (auto simp: accounted_def json_length_dict dict_nodes_def simp del: erase.simps)
  qed
qed

lemma sequence_loop_exact:
  assumes "exact_copy copy"
  shows "within b \<Longrightarrow> bg_nodes b = n + sum_list (map node_count out) \<Longrightarrow> bg_bytes b = k + list_body out \<Longrightarrow>
    sequence_loop copy xs (out, b) = (out', b') \<Longrightarrow>
    within b' \<and> bg_nodes b' = n + sum_list (map node_count out') \<and> bg_bytes b' = k + list_body out'"
proof (induction xs arbitrary: out b)
  case (Cons v xs)
  obtain ok b1 where sp: "spend 0 (if out \<noteq> [] then 1 else 0) b = (ok, b1)" by fastforce
  show ?case
  proof (cases rule: spend_cases [OF sp])
    case 1
    with Cons.prems sp show ?thesis by (auto simp: within_def)
  next
    case 2
    obtain r b2 where r: "copy b1 v = (r, b2)" by fastforce
    show ?thesis
    proof (cases r)
      case None
      then have "sequence_loop copy xs (out, truncate_mark True (restore b b2)) = (out', b')"
        using Cons.prems(4) 2(1) sp r by simp
      from Cons.IH [OF _ _ _ this] Cons.prems(1-3) show ?thesis by simp
    next
      case (Some s)
      with exact_copyD [OF assms 2(4)] r have e: "within b2" "bg_bytes b2 = bg_bytes b1 + json_length (erase s)"
        "bg_nodes b2 = bg_nodes b1 + node_count s" by blast+
      from Some have "sequence_loop copy xs (out @ [s], b2) = (out', b')" using Cons.prems(4) 2(1) sp r by simp
      from Cons.IH [OF e(1) _ _ this] e 2 Cons.prems(2,3) show ?thesis by (simp add: list_body_snoc)
    qed
  qed
qed simp

lemma sequence_exact:
  assumes "exact_copy copy" "within b" "json_safe_sequence copy b xs = (Some s, b')"
  shows "within b' \<and> bg_bytes b' = bg_bytes b + json_length (erase s) \<and> bg_nodes b' = bg_nodes b + node_count s"
proof -
  obtain ok b1 where sp: "spend 1 2 b = (ok, b1)" by fastforce
  show ?thesis
  proof (cases rule: spend_cases [OF sp])
    case 1
    with assms(3) sp show ?thesis by (simp add: json_safe_sequence_def)
  next
    case 2
    obtain out b2 where o: "sequence_loop copy (take TARGET_SNAPSHOT_MAX_ITEMS xs) ([], b1) = (out, b2)" by fastforce
    from sequence_loop_exact [OF assms(1) 2(4) _ _ o, of "bg_nodes b1" "bg_bytes b1"]
    have "within b2 \<and> bg_nodes b2 = bg_nodes b1 + sum_list (map node_count out) \<and> bg_bytes b2 = bg_bytes b1 + list_body out"
      by (simp add: list_body_def)
    moreover have "s = SList out" "\<exists>t. b' = truncate_mark t b2"
      using assms(3) sp 2(1) o by (auto simp: json_safe_sequence_def)
    ultimately show ?thesis using 2 by (auto simp: json_length_list simp del: erase.simps)
  qed
qed

lemma leaf_exact:
  assumes "within b" "json_safe_leaf b v = (Some s, b')"
  shows "within b' \<and> bg_bytes b' = bg_bytes b + json_length (erase s) \<and> bg_nodes b' = bg_nodes b + node_count s"
proof -
  obtain ok b1 where sp: "spend 1 (json_length (json_safe_scalar v)) b = (ok, b1)" by fastforce
  with assms have "ok" "b' = b1" "erase s = json_safe_scalar v" "node_count s = 1"
    by (auto simp: json_safe_leaf_def Let_def split: bool.splits pyval.splits if_splits)
  with spend_cases [OF sp] show ?thesis by auto
qed

lemma json_safe_value_exact: "exact_copy (json_safe_value n)"
proof (induction n)
  case 0
  show ?case unfolding exact_copy_def by (auto dest: leaf_exact)
next
  case (Suc n)
  show ?case
    unfolding exact_copy_def
  proof (intro allI impI)
    fix b v s b'
    assume *: "within b" "json_safe_value (Suc n) b v = (Some s, b')"
    show "within b' \<and> bg_bytes b' = bg_bytes b + json_length (erase s) \<and> bg_nodes b' = bg_nodes b + node_count s"
    proof (cases v)
      case (VList xs)
      with * sequence_exact [OF Suc] show ?thesis by simp
    next
      case (VDict d)
      with * mapping_exact [OF Suc] show ?thesis by simp
    qed (use * leaf_exact in simp_all)
  qed
qed


section \<open>The snapshot\<close>

lemma append_value_accounted:
  assumes "accounted n k (out, b)" "key \<notin> set (map fst out)" "append_snapshot_value key v (out, b) = (out', b')"
  shows "accounted n k (out', b') \<and> (out' = out \<or> (\<exists>s. out' = out @ [(key, s)]))"
  using append_accounted [OF json_safe_value_exact assms(1,2)] assms(3) by (simp add: append_snapshot_value_def)

text \<open>The names a snapshot may have: no sensitive one, none with a leading underscore.\<close>

definition plain_names :: "(string \<times> snap) list \<Rightarrow> bool" where
  "plain_names out \<longleftrightarrow> (\<forall>k \<in> set (map fst out). \<not> startswith k ''_'' \<and> \<not> SENSITIVE_FIELD_RE k)"

definition snapshot_ok :: "(string \<times> snap) list \<times> snapshot_budget \<Rightarrow> bool" where
  "snapshot_ok ob \<longleftrightarrow> accounted 1 2 ob \<and> plain_names (fst ob)"

lemma append_value_ok:
  assumes "snapshot_ok ob" "key \<notin> set (map fst (fst ob))" "\<not> startswith key ''_''" "\<not> SENSITIVE_FIELD_RE key"
  shows "snapshot_ok (append_snapshot_value key v ob)
    \<and> set (map fst (fst (append_snapshot_value key v ob))) \<subseteq> insert key (set (map fst (fst ob)))"
proof -
  obtain out b out' b' where o: "ob = (out, b)" "append_snapshot_value key v (out, b) = (out', b')" by fastforce
  with append_value_accounted [OF _ _ o(2), of 1 2] assms show ?thesis
    by (auto simp: snapshot_ok_def plain_names_def)
qed

lemma custom_loop_accounted:
  "accounted n k (out, b) \<Longrightarrow> distinct (map fst items) \<Longrightarrow> set (map fst items) \<inter> set (map fst out) = {} \<Longrightarrow>
    \<forall>x \<in> set (map fst out). \<not> SENSITIVE_FIELD_RE x \<Longrightarrow>
    accounted n k (custom_loop items (out, b)) \<and> (\<forall>x \<in> set (map fst (fst (custom_loop items (out, b)))). \<not> SENSITIVE_FIELD_RE x)"
proof (induction items arbitrary: out b)
  case (Cons kv items)
  obtain key v where kv: "kv = (key, v)" by (cases kv)
  have new: "key \<notin> set (map fst items)" "key \<notin> set (map fst out)" "set (map fst items) \<inter> set (map fst out) = {}"
    using Cons.prems(2,3) kv by auto
  show ?case
  proof (cases "SENSITIVE_FIELD_RE key")
    case True
    with Cons.IH [OF Cons.prems(1) _ new(3) Cons.prems(4)] Cons.prems(2) kv show ?thesis by simp
  next
    case False
    obtain out' b' where a: "append_snapshot_value key v (out, b) = (out', b')" by fastforce
    from append_value_accounted [OF Cons.prems(1) new(2) a]
    have acc: "accounted n k (out', b')" and ks: "set (map fst out') \<subseteq> insert key (set (map fst out))" by auto
    have d: "set (map fst items) \<inter> set (map fst out') = {}" using ks new by blast
    have s: "\<forall>x \<in> set (map fst out'). \<not> SENSITIVE_FIELD_RE x" using ks Cons.prems(4) False by blast
    from Cons.IH [OF acc _ d s] Cons.prems(2) kv False a show ?thesis by simp
  qed
qed simp

lemma accounted_restore: "accounted n k (out, b) \<Longrightarrow> accounted n k (out, restore b b')"
  by (simp add: accounted_def)

lemma custom_fields_ok:
  assumes "snapshot_ok (out, b)" "''custom_fields'' \<notin> set (map fst out)"
  shows "snapshot_ok (append_custom_fields d (out, b))
    \<and> set (map fst (fst (append_custom_fields d (out, b)))) \<subseteq> insert ''custom_fields'' (set (map fst out))
    \<and> (\<forall>x. map_of (fst (append_custom_fields d (out, b))) ''custom_fields'' = Some (SDict x) \<longrightarrow>
         (\<forall>n \<in> set (map fst x). \<not> SENSITIVE_FIELD_RE n))"
proof -
  let ?mb = "mapping_entry_bytes ''custom_fields'' (out \<noteq> [])"
  obtain ok1 b1 where s1: "spend 0 ?mb b = (ok1, b1)" by fastforce
  obtain ok2 b2 where s2: "spend 1 2 b1 = (ok2, b2)" by fastforce
  obtain items b3 where i: "canonical_mapping_items d b2 = (items, b3)" by fastforce
  obtain o' b4 where l: "custom_loop items ([], b3) = (o', b4)" by fastforce
  have none: "map_of out ''custom_fields'' = None" using assms(2) by (simp add: map_of_eq_None_iff)
  have plain: "\<not> startswith ''custom_fields'' ''_''" "\<not> SENSITIVE_FIELD_RE ''custom_fields''"
    by (simp_all add: SENSITIVE_FIELD_RE_def SENSITIVE_FIELD_WORDS_def lower_def lower_char_def)
  show ?thesis
  proof (cases "ok1 \<and> ok2 \<and> o' \<noteq> []")
    case False
    then obtain b' where "append_custom_fields d (out, b) = (out, b')" "bg_nodes b' = bg_nodes b" "bg_bytes b' = bg_bytes b"
      using s1 s2 i l spend_cases [OF s1] by (cases ok1; cases ok2) (auto simp: append_custom_fields_def)
    with assms none show ?thesis by (auto simp: snapshot_ok_def accounted_def within_def)
  next
    case True
    from True spend_cases [OF s1] have c1: "bg_nodes b1 = bg_nodes b" "bg_bytes b1 = bg_bytes b + ?mb" by auto
    from True spend_cases [OF s2] have c2: "bg_nodes b2 = bg_nodes b1 + 1" "bg_bytes b2 = bg_bytes b1 + 2" "within b2" by auto
    from canonical_items [OF i] c2(3) have c3: "distinct (map fst items)" "within b3" "bg_nodes b3 = bg_nodes b2"
      "bg_bytes b3 = bg_bytes b2" by auto
    from custom_loop_accounted [OF accounted_start [OF c3(2)] c3(1)] l
    have c4: "accounted (bg_nodes b3) (bg_bytes b3) (o', b4)" "\<forall>x \<in> set (map fst o'). \<not> SENSITIVE_FIELD_RE x" by auto
    have res: "append_custom_fields d (out, b) = (out @ [(''custom_fields'', SDict o')], b4)"
      using True s1 s2 i l assms(2) by (simp add: append_custom_fields_def dict_set_new)
    have "accounted 1 2 (out @ [(''custom_fields'', SDict o')], b4)"
      using assms c1 c2 c3 c4(1)
      by (auto simp: snapshot_ok_def accounted_def dict_body_snoc dict_nodes_snoc json_length_dict dict_nodes_def simp del: erase.simps)
    with assms(1) plain none c4(2) show ?thesis
      by (auto simp: res snapshot_ok_def plain_names_def map_add_def split: option.splits)
  qed
qed

lemma field_loop_ok:
  "snapshot_ok ob \<Longrightarrow> snapshot_ok (field_loop fs ob)
    \<and> (''custom_fields'' \<notin> (\<lambda>(n, _). take TARGET_SNAPSHOT_MAX_VALUE_LEN n) ` set fs \<longrightarrow>
         map_of (fst (field_loop fs ob)) ''custom_fields'' = map_of (fst ob) ''custom_fields'')"
proof (induction fs arbitrary: ob)
  case (Cons nv fs)
  obtain n v out b where nv: "nv = (n, v)" "ob = (out, b)" by (cases nv; cases ob)
  let ?n = "take TARGET_SNAPSHOT_MAX_VALUE_LEN n"
  show ?case
  proof (cases "skipped_field ?n out")
    case True
    with Cons.IH [OF Cons.prems] nv show ?thesis by simp
  next
    case name: False
    show ?thesis
    proof (cases "length out \<ge> TARGET_SNAPSHOT_MAX_KEYS - 1")
      case True
      then have "field_loop (nv # fs) ob = (out, truncate_mark True b)" using name nv by simp
      with Cons.prems nv show ?thesis by (simp add: snapshot_ok_def accounted_def)
    next
      case False
      then have step: "field_loop (nv # fs) ob = field_loop fs (append_snapshot_value ?n v (out, b))"
        using name nv by simp
      obtain out' b' where a: "append_snapshot_value ?n v (out, b) = (out', b')" by fastforce
      from name have "?n \<notin> set (map fst out)" "\<not> startswith ?n ''_''" "\<not> SENSITIVE_FIELD_RE ?n"
        by (auto simp: skipped_field_def)
      with append_value_ok [of "(out, b)" ?n v] Cons.prems nv a have ok: "snapshot_ok (out', b')" by simp
      have "out' = out \<or> (\<exists>s. out' = out @ [(?n, s)])"
        using append_value_accounted [OF _ \<open>?n \<notin> set (map fst out)\<close> a] Cons.prems nv by (auto simp: snapshot_ok_def)
      then have "?n \<noteq> ''custom_fields'' \<Longrightarrow> map_of out' ''custom_fields'' = map_of out ''custom_fields''"
        by (auto simp: map_add_def split: option.splits)
      with Cons.IH [OF ok] step a nv show ?thesis by auto
    qed
  qed
qed simp

lemma fixed_names_plain:
  "\<not> startswith ''id'' ''_''" "\<not> SENSITIVE_FIELD_RE ''id''" "\<not> startswith ''display'' ''_''" "\<not> SENSITIVE_FIELD_RE ''display''"
  "\<not> startswith ''name'' ''_''" "\<not> SENSITIVE_FIELD_RE ''name''"
  by (simp_all add: SENSITIVE_FIELD_RE_def SENSITIVE_FIELD_WORDS_def lower_def lower_char_def)

lemma start_ok: "snapshot_ok ([], snd (spend 1 2 new_budget))"
  by (simp add: snapshot_ok_def accounted_def plain_names_def spend_def new_budget_def within_def dict_nodes_def dict_body_def
      TARGET_SNAPSHOT_MAX_NODES_def TARGET_SNAPSHOT_MAX_BYTES_def TARGET_SNAPSHOT_MARKER_BYTES_def)

definition custom_clean :: "(string \<times> snap) list \<Rightarrow> bool" where
  "custom_clean out \<longleftrightarrow> (\<forall>x. map_of out ''custom_fields'' = Some (SDict x) \<longrightarrow> (\<forall>n \<in> set (map fst x). \<not> SENSITIVE_FIELD_RE n))"

lemma snapshot_state_ok:
  "snapshot_ok (snapshot_state obj)
   \<and> (''custom_fields'' \<notin> (\<lambda>(n, _). take TARGET_SNAPSHOT_MAX_VALUE_LEN n) ` set (to_fields obj) \<longrightarrow>
        custom_clean (fst (snapshot_state obj)))"
proof -
  define s0 :: "(string \<times> snap) list \<times> snapshot_budget" where "s0 = ([], snd (spend 1 2 new_budget))"
  define s1 where "s1 = append_snapshot_value ''id'' (to_id obj) s0"
  define s2 where "s2 = append_snapshot_value ''display'' (VStr (to_display obj)) s1"
  define s3 where "s3 = (if to_name obj \<noteq> VNone then append_snapshot_value ''name'' (to_name obj) s2 else s2)"
  define s4 where "s4 = (case to_custom_field_data obj of VDict d \<Rightarrow> if d \<noteq> [] then append_custom_fields d s3 else s3 | _ \<Rightarrow> s3)"
  have 0: "snapshot_ok s0" "set (map fst (fst s0)) = {}" using start_ok by (simp_all add: s0_def)
  from append_value_ok [OF 0(1), of "''id''" "to_id obj"] 0(2) fixed_names_plain
  have 1: "snapshot_ok s1" "set (map fst (fst s1)) \<subseteq> {''id''}" by (simp_all add: s1_def)
  have "''display'' \<notin> set (map fst (fst s1))" using 1(2) by auto
  from append_value_ok [OF 1(1) this fixed_names_plain(3,4), of "VStr (to_display obj)"] 1(2)
  have 2: "snapshot_ok s2" "set (map fst (fst s2)) \<subseteq> {''id'', ''display''}" unfolding s2_def by blast+
  have "''name'' \<notin> set (map fst (fst s2))" using 2(2) by auto
  from append_value_ok [OF 2(1) this fixed_names_plain(5,6), of "to_name obj"] 2
  have 3: "snapshot_ok s3" "set (map fst (fst s3)) \<subseteq> {''id'', ''display'', ''name''}" unfolding s3_def by (auto simp del: set_map)
  have n3: "''custom_fields'' \<notin> set (map fst (fst s3))" using 3(2) by auto
  then have m3: "map_of (fst s3) ''custom_fields'' = None" by (simp add: map_of_eq_None_iff)
  have "snapshot_ok (append_custom_fields d s3) \<and> custom_clean (fst (append_custom_fields d s3))" for d
    using custom_fields_ok [of "fst s3" "snd s3" d] 3(1) n3 by (simp add: custom_clean_def)
  then have 4: "snapshot_ok s4" "custom_clean (fst s4)"
    using 3(1) m3 unfolding s4_def by (auto simp: custom_clean_def split: pyval.splits)
  have res: "snapshot_state obj = append_fields (to_fields obj) s4"
    by (simp only: snapshot_state_def Let_def s0_def s1_def s2_def s3_def s4_def)
  let ?t = "truncate_mark (length (to_fields obj) > TARGET_SNAPSHOT_MAX_KEYS) (snd s4)"
  have ok: "snapshot_ok (fst s4, ?t)" using 4(1) by (simp add: snapshot_ok_def accounted_def)
  have "append_fields (to_fields obj) s4 = field_loop (take TARGET_SNAPSHOT_MAX_KEYS (to_fields obj)) (fst s4, ?t)"
    by (simp add: append_fields_def split_beta)
  note loop = field_loop_ok [OF ok, of "take TARGET_SNAPSHOT_MAX_KEYS (to_fields obj)", folded this, folded res]
  have "(\<lambda>(n, _). take TARGET_SNAPSHOT_MAX_VALUE_LEN n) ` set (take TARGET_SNAPSHOT_MAX_KEYS (to_fields obj))
      \<subseteq> (\<lambda>(n, _). take TARGET_SNAPSHOT_MAX_VALUE_LEN n) ` set (to_fields obj)"
    by (intro image_mono set_take_subset)
  then have "map_of (fst (snapshot_state obj)) ''custom_fields'' = map_of (fst s4) ''custom_fields''"
    if "''custom_fields'' \<notin> (\<lambda>(n, _). take TARGET_SNAPSHOT_MAX_VALUE_LEN n) ` set (to_fields obj)"
    using loop that unfolding fst_conv by blast
  with 4(2) have "''custom_fields'' \<notin> (\<lambda>(n, _). take TARGET_SNAPSHOT_MAX_VALUE_LEN n) ` set (to_fields obj) \<longrightarrow>
      custom_clean (fst (snapshot_state obj))"
    unfolding custom_clean_def by metis
  with loop show ?thesis by blast
qed

lemma marked_bounds:
  assumes "accounted 1 2 ob" "TARGET_SNAPSHOT_MARKER \<notin> set (map fst (fst ob))"
  shows "json_length (erase (SDict (fst ob))) = bg_bytes (snd ob) \<and> node_count (SDict (fst ob)) = bg_nodes (snd ob)
    \<and> json_length (erase (SDict (fst ob))) \<le> 65536 \<and> node_count (SDict (fst ob)) \<le> 1000
    \<and> json_length (erase (SDict (fst (add_marker ob)))) \<le> 65536 \<and> node_count (SDict (fst (add_marker ob))) \<le> 1000"
proof -
  obtain out b where ob: "ob = (out, b)" by (cases ob)
  let ?m = "(TARGET_SNAPSHOT_MARKER, SScalar (VBool True))"
  have m: "fst (add_marker ob) = out @ [?m]" using assms(2) ob by (simp add: add_marker_def dict_set_new)
  have "mapping_entry_bytes TARGET_SNAPSHOT_MARKER c + json_length (VBool True) \<le> 18" for c
    by (simp add: mapping_entry_bytes_def json_length_def TARGET_SNAPSHOT_MARKER_def json_str_def json_char_def json_short_def)
  then have "dict_body (out @ [?m]) \<le> dict_body out + 18" by (simp add: dict_body_snoc add.assoc)
  moreover have "dict_nodes (out @ [?m]) = dict_nodes out + 1" by (simp add: dict_nodes_snoc)
  moreover have "bg_bytes b = 2 + dict_body out" "bg_nodes b = 1 + dict_nodes out" "bg_bytes b \<le> 65518" "bg_nodes b \<le> 999"
    using assms(1) ob by (simp_all add: accounted_def within_def)
  moreover have "node_count (SDict x) = 1 + dict_nodes x" for x by (simp add: dict_nodes_def)
  ultimately show ?thesis
    unfolding m unfolding ob fst_conv snd_conv json_length_dict by (simp only:) simp
qed

text \<open>
  The target snapshot is bounded and its accounting exact. Whatever the object holds, the
  compact JSON text of the snapshot has at most 65536 bytes and the snapshot at most 1000
  values, the truncation marker included; when nothing was truncated the byte and node
  counters are exactly the size of the text and the number of values.
\<close>

theorem target_snapshot_bounded:
  "build_target_object_snapshot obj = (snapshot, b) \<Longrightarrow>
     json_length (erase (SDict snapshot)) \<le> 65536 \<and> node_count (SDict snapshot) \<le> 1000
     \<and> (\<not> bg_truncated b \<longrightarrow> bg_bytes b = json_length (erase (SDict snapshot)) \<and> bg_nodes b = node_count (SDict snapshot))"
proof -
  assume built: "build_target_object_snapshot obj = (snapshot, b)"
  let ?s = "snapshot_state obj"
  have ok: "accounted 1 2 ?s" "plain_names (fst ?s)" using snapshot_state_ok [of obj] by (simp_all add: snapshot_ok_def)
  have "TARGET_SNAPSHOT_MARKER \<notin> set (map fst (fst ?s))"
  proof
    assume "TARGET_SNAPSHOT_MARKER \<in> set (map fst (fst ?s))"
    with ok(2) have "\<not> startswith TARGET_SNAPSHOT_MARKER ''_''" unfolding plain_names_def by blast
    then show False by (simp add: TARGET_SNAPSHOT_MARKER_def)
  qed
  note B = marked_bounds [OF ok(1) this]
  show ?thesis
  proof (cases "bg_truncated (snd ?s)")
    case True
    then have "add_marker ?s = (snapshot, b)" using built by (simp add: build_target_object_snapshot_def)
    moreover from this True have "bg_truncated b" by (auto simp: add_marker_def split_beta)
    ultimately show ?thesis using B by (metis fst_conv)
  next
    case False
    then have "?s = (snapshot, b)" using built by (simp add: build_target_object_snapshot_def)
    then show ?thesis using B by (metis fst_conv snd_conv)
  qed
qed

definition sample_target :: target_object where
  "sample_target = \<lparr>to_id = VInt 7, to_display = ''sw1'', to_name = VStr ''sw1'',
     to_custom_field_data = VDict [(''api_token'', VStr ''x''), (''site'', VStr ''lab'')],
     to_fields = [(''serial'', VStr ''S1''), (''ssh_key'', VStr ''k'')]\<rparr>"

theorem target_snapshot_bounded_witness:
  "json_length (erase (SDict (fst (build_target_object_snapshot sample_target)))) \<le> 65536"
  using target_snapshot_bounded [of sample_target "fst (build_target_object_snapshot sample_target)"
      "snd (build_target_object_snapshot sample_target)"] by simp

text \<open>
  No field with a sensitive name reaches the snapshot: none of its names, and none of the
  names of the custom fields mapping (unless a model field of that very name supplied the
  mapping), matches the sensitive field pattern.
\<close>

theorem snapshot_has_no_sensitive_names:
  assumes "''custom_fields'' \<notin> (\<lambda>(n, _). take TARGET_SNAPSHOT_MAX_VALUE_LEN n) ` set (to_fields obj)"
  shows "(\<forall>k \<in> set (map fst (fst (build_target_object_snapshot obj))). \<not> SENSITIVE_FIELD_RE k)
    \<and> (\<forall>x. map_of (fst (build_target_object_snapshot obj)) ''custom_fields'' = Some (SDict x) \<longrightarrow>
         (\<forall>n \<in> set (map fst x). \<not> SENSITIVE_FIELD_RE n))"
proof -
  let ?s = "snapshot_state obj"
  have ok: "plain_names (fst ?s)" "custom_clean (fst ?s)"
    using snapshot_state_ok [of obj] assms by (simp_all add: snapshot_ok_def)
  have m: "\<not> SENSITIVE_FIELD_RE TARGET_SNAPSHOT_MARKER" "TARGET_SNAPSHOT_MARKER \<noteq> ''custom_fields''"
    by (simp_all add: TARGET_SNAPSHOT_MARKER_def SENSITIVE_FIELD_RE_def SENSITIVE_FIELD_WORDS_def lower_def lower_char_def)
  have f: "fst (build_target_object_snapshot obj) = fst ?s
      \<or> fst (build_target_object_snapshot obj) = dict_set TARGET_SNAPSHOT_MARKER (SScalar (VBool True)) (fst ?s)"
    by (auto simp: build_target_object_snapshot_def add_marker_def Let_def split_beta)
  from f show ?thesis
  proof
    assume "fst (build_target_object_snapshot obj) = fst ?s"
    with ok show ?thesis by (auto simp: plain_names_def custom_clean_def)
  next
    assume e: "fst (build_target_object_snapshot obj) = dict_set TARGET_SNAPSHOT_MARKER (SScalar (VBool True)) (fst ?s)"
    have "set (map fst (fst (build_target_object_snapshot obj))) = insert TARGET_SNAPSHOT_MARKER (set (map fst (fst ?s)))"
      unfolding e by (rule dict_keys_dict_set)
    moreover have "map_of (fst (build_target_object_snapshot obj)) ''custom_fields'' = map_of (fst ?s) ''custom_fields''"
      unfolding e using m(2) by simp
    ultimately show ?thesis using ok m(1) unfolding plain_names_def custom_clean_def by simp
  qed
qed

theorem snapshot_has_no_sensitive_names_witness:
  "list_all (\<lambda>k. \<not> SENSITIVE_FIELD_RE k) (map fst (fst (build_target_object_snapshot sample_target)))"
  using snapshot_has_no_sensitive_names [of sample_target]
  by (simp add: sample_target_def TARGET_SNAPSHOT_MAX_VALUE_LEN_def list_all_iff)


section \<open>The persisted copy\<close>

lemma assign_all_keys_distinct: "distinct (map fst (assign_all ps))"
proof -
  have "distinct (map fst (foldl (\<lambda>d (k, v). dict_set k v d) acc ps))" if "distinct (map fst acc)" for acc
    using that by (induction ps arbitrary: acc) (auto intro: distinct_dict_set)
  then show ?thesis by (simp add: assign_all_def)
qed

lemma redacted_keys_distinct: "distinct (map fst (redact_event_data rt lim d))"
  by (simp add: redact_event_data_def redact_event_value.simps [of rt lim "[]" "[]" 0 "VDict d"] Let_def
      assign_all_keys_distinct distinct_dict_set)

lemma persisted_loop_accounted:
  "accounted n k (out, b) \<Longrightarrow> distinct (map fst items) \<Longrightarrow> set (map fst items) \<inter> set (map fst out) = {} \<Longrightarrow>
    TARGET_SNAPSHOT_MARKER \<notin> set (map fst out) \<Longrightarrow>
    accounted n k (persisted_loop items (out, b))
    \<and> TARGET_SNAPSHOT_MARKER \<notin> set (map fst (fst (persisted_loop items (out, b))))"
proof (induction items arbitrary: out b)
  case (Cons kv items)
  obtain key v where kv: "kv = (key, v)" by (cases kv)
  have new: "key \<notin> set (map fst items)" "key \<notin> set (map fst out)" "set (map fst items) \<inter> set (map fst out) = {}"
    using Cons.prems(2,3) kv by auto
  show ?case
  proof (cases "key = TARGET_SNAPSHOT_MARKER")
    case True
    with Cons.IH [OF Cons.prems(1) _ new(3) Cons.prems(4)] Cons.prems(2) kv show ?thesis by simp
  next
    case False
    obtain out' b' where a: "append_snapshot_value key v (out, b) = (out', b')" by fastforce
    from append_value_accounted [OF Cons.prems(1) new(2) a]
    have acc: "accounted n k (out', b')" and ks: "set (map fst out') \<subseteq> insert key (set (map fst out))" by auto
    have d: "set (map fst items) \<inter> set (map fst out') = {}" using ks new by blast
    have s: "TARGET_SNAPSHOT_MARKER \<notin> set (map fst out')" using ks Cons.prems(4) False by blast
    from Cons.IH [OF acc _ d s] Cons.prems(2) kv False a show ?thesis by simp
  qed
qed simp

text \<open>
  Redaction can lengthen values, but the copy that the ledger stores stays within the same
  limits: at most 65536 bytes of compact JSON and 1000 values, whatever the snapshot and the
  redaction of it.
\<close>

theorem persisted_snapshot_bounded:
  "json_length (erase (SDict (fst (bounded_persisted_snapshot rt snapshot)))) \<le> 65536
   \<and> node_count (SDict (fst (bounded_persisted_snapshot rt snapshot))) \<le> 1000"
proof -
  let ?items = "sort_key fst (redact_event_data rt [] snapshot)"
  let ?s = "persisted_loop ?items ([], snd (spend 1 2 new_budget))"
  have "accounted 1 2 ([], snd (spend 1 2 new_budget))" using start_ok by (simp add: snapshot_ok_def)
  moreover have "distinct (map fst ?items)" by (simp add: distinct_keys_sort redacted_keys_distinct)
  ultimately have "accounted 1 2 ?s" "TARGET_SNAPSHOT_MARKER \<notin> set (map fst (fst ?s))"
    using persisted_loop_accounted [of 1 2 "[]" "snd (spend 1 2 new_budget)" ?items] by auto
  note B = marked_bounds [OF this]
  have "bounded_persisted_snapshot rt snapshot = ?s \<or> bounded_persisted_snapshot rt snapshot = add_marker ?s"
    unfolding bounded_persisted_snapshot_def Let_def by auto
  with B show ?thesis by metis
qed

end
