(* ===== verification/CommandTemplating.thy ===== *)
theory CommandTemplating
  imports Procedure SpanRedaction
begin

text \<open>
  The author-time contract of a procedure's commands: the literal token charset and
  placeholders of \<open>netbox_rpc/command_contract.py\<close>, the Jinja tokens and output capture of
  \<open>netbox_rpc/command_templating.py\<close>, and \<open>RPCProcedureCommand.clean\<close> of \<open>models.py\<close>.

  Parsing a template (Jinja) and compiling a capture pattern (\<open>re.compile\<close>) are parameters: the first
  gives a syntax error message or the tree, the second an error message or the number of
  groups. A node of the tree is its kind with its child nodes in field order, so the inner
  node of an attribute access is its first child and the subscript of an item access the second.
\<close>

section \<open>Literal tokens\<close>

definition safe_literal_char :: "char \<Rightarrow> bool" where
  "safe_literal_char c \<longleftrightarrow> is_alpha c \<or> is_digit c \<or> c \<in> set ''_@%+=:,./-''"

definition SAFE_TOKEN_RE :: "string \<Rightarrow> bool" where
  "SAFE_TOKEN_RE s \<longleftrightarrow> s \<noteq> [] \<and> list_all (\<lambda>c. safe_literal_char c \<or> c \<in> set ''{}'') s"

definition placeholder_start :: "char \<Rightarrow> bool" where
  "placeholder_start c \<longleftrightarrow> is_alpha c \<or> c = CHR ''_''"

definition placeholder_char :: "char \<Rightarrow> bool" where
  "placeholder_char c \<longleftrightarrow> placeholder_start c \<or> is_digit c"

definition PLACEHOLDER_RE :: regex where
  "PLACEHOLDER_RE = seqs [lit ''{'', Seq (CS placeholder_start) (Rep 0 None (CS placeholder_char)), lit ''}'']"

definition COMMAND_RUNTIME_KEYS :: "string list" where
  "COMMAND_RUNTIME_KEYS = [''rpc_ssh_host'', ''rpc_ssh_port'', ''rpc_ssh_credential_pk'', ''rpc_openbao_assignment_id'',
     ''rpc_ssh_known_hosts_entry'', ''rpc_ssh_strict_host_key_checking'', ''target'', ''item'', ''members_csv'']"

text \<open>The name is the match without its braces.\<close>

definition extract_placeholders :: "string \<Rightarrow> string list" where
  "extract_placeholders token =
     map (\<lambda>m. take (m_end m - m_start m - 2) (drop (m_start m + 1) token)) (finditer PLACEHOLDER_RE token)"

definition token_has_balanced_placeholders :: "string \<Rightarrow> bool" where
  "token_has_balanced_placeholders token =
     (let stripped = replace_ranges [] token 0 (map m_span (finditer PLACEHOLDER_RE token))
      in CHR ''{'' \<notin> set stripped \<and> CHR ''}'' \<notin> set stripped)"

definition token_is_safe :: "string \<Rightarrow> bool" where
  "token_is_safe token = SAFE_TOKEN_RE token"


section \<open>Jinja tokens\<close>

definition RENDER_MODES :: "string list" where "RENDER_MODES = [''literal'', ''jinja'']"

definition CAPTURE_KINDS :: "string list" where
  "CAPTURE_KINDS = [''stdout'', ''stdout_stripped'', ''json'', ''regex'', ''line'']"

definition CAPTURE_KINDS_REQUIRING_EXPRESSION :: "string list" where
  "CAPTURE_KINDS_REQUIRING_EXPRESSION = [''json'', ''regex'', ''line'']"

definition JINJA_CONTEXT_ROOTS :: "string list" where
  "JINJA_CONTEXT_ROOTS = [''params'', ''target'', ''vars'', ''runtime'', ''item'']"

definition JINJA_RUNTIME_KEYS :: "string list" where
  "JINJA_RUNTIME_KEYS = [''rpc_ssh_host'', ''rpc_ssh_port'', ''rpc_ssh_credential_pk'', ''rpc_ssh_known_hosts_entry'',
     ''rpc_ssh_strict_host_key_checking'']"

definition VAR_NAME_RE :: "string \<Rightarrow> bool" where
  "VAR_NAME_RE s \<longleftrightarrow> s \<noteq> [] \<and> is_lower_alpha (hd s) \<and> list_all (\<lambda>c. is_lower_alpha c \<or> is_digit c \<or> c = CHR ''_'') s"

definition JINJA_LITERAL_SAFE_RE :: "string \<Rightarrow> bool" where
  "JINJA_LITERAL_SAFE_RE s \<longleftrightarrow> list_all safe_literal_char s"

definition JSON_PATH_RE :: "string \<Rightarrow> bool" where
  "JSON_PATH_RE s \<longleftrightarrow> s \<noteq> [] \<and>
     list_all (\<lambda>c. is_alpha c \<or> is_digit c \<or> c \<in> set ''_.[]-'' \<or> c = CHR 0x22 \<or> c = CHR 0x27) s"

definition STATEMENT_RE :: "string \<Rightarrow> bool" where
  "STATEMENT_RE s \<longleftrightarrow> contains s ''{%'' \<or> contains s ''%}'' \<or> contains s ''{#'' \<or> contains s ''#}''"

definition ALLOWED_FILTERS :: "string list" where
  "ALLOWED_FILTERS = [''int'', ''float'', ''string'', ''default'', ''upper'', ''lower'', ''trim'', ''capitalize'',
     ''title'', ''replace'', ''truncate'', ''length'', ''abs'', ''round'', ''join'']"

datatype jkind = KName string | KConst pyval | KGetattr string | KGetitem | KFilter string | KCall | KData string | KOther string

datatype jnode = JNode (jn_kind: jkind) (jn_kids: "jnode list")

record template_tools =
  tt_parse :: "string \<Rightarrow> string + jnode"
  tt_compile :: "string \<Rightarrow> string + nat"

text \<open>\<open>find_all\<close>: the nodes below a node, each before its own descendants.\<close>

fun find_all :: "jnode \<Rightarrow> jnode list" where
  "find_all (JNode k kids) = concat (map (\<lambda>c. c # find_all c) kids)"

definition const_str :: "jnode \<Rightarrow> string option" where
  "const_str n = (case jn_kind n of KConst (VStr s) \<Rightarrow> Some s | _ \<Rightarrow> None)"

definition is_access :: "jnode \<Rightarrow> bool" where
  "is_access n = (case jn_kind n of KGetattr _ \<Rightarrow> True | KGetitem \<Rightarrow> True | _ \<Rightarrow> False)"

definition access_attr :: "jnode \<Rightarrow> string option" where
  "access_attr n = (case jn_kind n of
       KGetattr a \<Rightarrow> Some a
     | _ \<Rightarrow> (case jn_kids n of _ # arg # _ \<Rightarrow> const_str arg | _ \<Rightarrow> None))"

type_synonym VarRef = "string \<times> string option"

definition attributed_ref :: "jnode \<Rightarrow> VarRef option" where
  "attributed_ref n = (case jn_kids n of
       JNode (KName x) _ # _ \<Rightarrow> Some (x, access_attr n)
     | _ \<Rightarrow> None)"

text \<open>The names that are not the inner node of an access.\<close>

fun bare_names :: "jnode \<Rightarrow> string list" where
  "bare_names (JNode k kids) =
     (let below = concat (map bare_names kids) in
      if is_access (JNode k kids) then
        (case kids of
           JNode (KName x) ks # rest \<Rightarrow> concat (map bare_names (JNode (KOther []) ks # rest))
         | _ \<Rightarrow> below)
      else (case k of KName x \<Rightarrow> x # below | _ \<Rightarrow> below))"

record TokenAnalysis =
  ta_errors :: "string list"
  ta_refs :: "VarRef list"

definition call_errors :: "string \<Rightarrow> jnode list \<Rightarrow> string list" where
  "call_errors r ns = (if list_ex (\<lambda>n. jn_kind n = KCall) ns
     then [r @ '': function/method calls are not allowed in command tokens''] else [])"

definition filter_errors :: "string \<Rightarrow> jnode list \<Rightarrow> string list" where
  "filter_errors r ns = concat (map (\<lambda>n. case jn_kind n of
       KFilter f \<Rightarrow> if f \<in> set ALLOWED_FILTERS then []
         else [r @ '': filter '' @ str_repr f @ '' is not allowed (allowed: '' @ join_with '', '' (sort ALLOWED_FILTERS) @ '')'']
     | _ \<Rightarrow> []) ns)"

definition data_errors :: "string \<Rightarrow> jnode list \<Rightarrow> string list" where
  "data_errors r ns = concat (map (\<lambda>n. case jn_kind n of
       KData d \<Rightarrow> if JINJA_LITERAL_SAFE_RE d then []
         else [r @ '': literal text '' @ str_repr d @ '' contains characters outside the safe argv charset'']
     | _ \<Rightarrow> []) ns)"

definition const_errors :: "string \<Rightarrow> jnode list \<Rightarrow> string list" where
  "const_errors r ns = concat (map (\<lambda>n. case const_str n of
       Some s \<Rightarrow> if JINJA_LITERAL_SAFE_RE s then []
         else [r @ '': string literal '' @ str_repr s @ '' contains characters outside the safe argv charset'']
     | None \<Rightarrow> []) ns)"

definition private_errors :: "string \<Rightarrow> jnode list \<Rightarrow> string list" where
  "private_errors r ns = concat (map (\<lambda>n. case access_attr n of
       Some a \<Rightarrow> if startswith a ''_'' then [r @ '': private/dunder attribute access ('' @ str_repr a @ '') is not allowed''] else []
     | None \<Rightarrow> []) (filter is_access ns))"

definition analyze_token :: "template_tools \<Rightarrow> pyval \<Rightarrow> TokenAnalysis" where
  "analyze_token tt v = (case v of
       VStr token \<Rightarrow>
         if token = [] then \<lparr>ta_errors = [''must be a non-empty string''], ta_refs = []\<rparr>
         else if STATEMENT_RE token then \<lparr>ta_errors = [str_repr token @ '': statement/comment blocks ({% %} / {# #}) are not ''
           @ ''allowed; command tokens are expressions only''], ta_refs = []\<rparr>
         else (case tt_parse tt token of
             Inl msg \<Rightarrow> \<lparr>ta_errors = [str_repr token @ '': invalid Jinja template ('' @ msg @ '')''], ta_refs = []\<rparr>
           | Inr ast \<Rightarrow>
               (let ns = find_all ast; r = str_repr token in
                \<lparr>ta_errors = call_errors r ns @ filter_errors r ns @ data_errors r ns @ const_errors r ns @ private_errors r ns,
                 ta_refs = List.map_filter attributed_ref (filter is_access ns) @ map (\<lambda>x. (x, None)) (concat (map bare_names (jn_kids ast)))\<rparr>))
     | _ \<Rightarrow> \<lparr>ta_errors = [''must be a non-empty string''], ta_refs = []\<rparr>)"

definition listing :: "string list \<Rightarrow> string \<Rightarrow> string" where
  "listing names none = (if names = [] then none else join_with '', '' (sort (remdups names)))"

definition validate_ref :: "string list \<Rightarrow> string list \<Rightarrow> bool \<Rightarrow> VarRef \<Rightarrow> string list" where
  "validate_ref param_names produced_vars for_each_present ref = (case ref of (root, attr) \<Rightarrow>
     if root \<notin> set JINJA_CONTEXT_ROOTS then
       [''unknown variable root '' @ str_repr root @ '' (allowed roots: '' @ listing JINJA_CONTEXT_ROOTS [] @ '')'']
     else if root = ''item'' then
       (if \<not> for_each_present then [str_repr ''item'' @ '' is only available when a '' @ str_repr ''for each'' @ '' parameter is set''] else [])
     else (case attr of
         None \<Rightarrow> [''reference a specific key of '' @ str_repr root @ '' (for example '' @ root @ ''.<name>), not the whole object'']
       | Some a \<Rightarrow>
           if root = ''params'' \<and> a \<notin> set param_names then
             [''params.'' @ a @ '' is not declared in the procedure params schema (available: ''
               @ listing param_names ''(none declared)'' @ '')'']
           else if root = ''vars'' \<and> a \<notin> set produced_vars then
             [''vars.'' @ a @ '' is not produced by any earlier command (available output variables: ''
               @ listing produced_vars ''(none produced earlier)'' @ '')'']
           else if root = ''runtime'' \<and> a \<notin> set JINJA_RUNTIME_KEYS then
             [''runtime.'' @ a @ '' is not a known runtime key (available: '' @ listing JINJA_RUNTIME_KEYS [] @ '')'']
           else []))"

definition token_messages :: "nat \<Rightarrow> string list \<Rightarrow> string list" where
  "token_messages i ms = map (\<lambda>m. ''token '' @ nat_str i @ '': '' @ m) ms"

fun validate_tokens :: "template_tools \<Rightarrow> string list \<Rightarrow> string list \<Rightarrow> bool \<Rightarrow> nat \<Rightarrow> pyval list \<Rightarrow> string list" where
  "validate_tokens tt params produced each i [] = []"
| "validate_tokens tt params produced each i (token # rest) =
     (let analysis = analyze_token tt token in
      token_messages i (ta_errors analysis)
      @ concat (map (\<lambda>ref. token_messages i (validate_ref params produced each ref)) (ta_refs analysis))
      @ validate_tokens tt params produced each (i + 1) rest)"

definition validate_jinja_argv :: "template_tools \<Rightarrow> string list \<Rightarrow> string list \<Rightarrow> bool \<Rightarrow> pyval \<Rightarrow> string list" where
  "validate_jinja_argv tt params produced each argv = (case argv of
       VList tokens \<Rightarrow> if tokens = [] then [''argv must be a non-empty list of non-empty string tokens.'']
         else validate_tokens tt params produced each 1 tokens
     | _ \<Rightarrow> [''argv must be a non-empty list of non-empty string tokens.''])"


section \<open>Output capture\<close>

definition capture_name_errors :: "string \<Rightarrow> string list \<Rightarrow> string list" where
  "capture_name_errors var others =
     (if \<not> VAR_NAME_RE var then [''produces_var '' @ str_repr var @ '' must be a snake_case identifier ([a-z][a-z0-9_]*).''] else [])
     @ (if var \<in> set JINJA_CONTEXT_ROOTS then [''produces_var '' @ str_repr var @ '' is a reserved context name (''
          @ listing JINJA_CONTEXT_ROOTS [] @ '').''] else [])
     @ (if var \<in> set others then [''produces_var '' @ str_repr var @ '' is already produced by another command in this ''
          @ ''procedure; output variable names must be unique.''] else [])"

definition capture_expression_errors :: "template_tools \<Rightarrow> string \<Rightarrow> string \<Rightarrow> string list" where
  "capture_expression_errors tt kind e =
     (if e = [] then []
      else if kind = ''regex'' then (case tt_compile tt e of
          Inl msg \<Rightarrow> [''capture_expression is not a valid regex: '' @ msg @ ''.'']
        | Inr groups \<Rightarrow> if groups \<noteq> 1 then [''regex capture_expression must contain exactly one capturing group (found ''
            @ nat_str groups @ '').''] else [])
      else if kind = ''line'' then (case int_of_str e of
          None \<Rightarrow> [''line capture_expression must be an integer line index.''] | Some _ \<Rightarrow> [])
      else if kind = ''json'' \<and> \<not> JSON_PATH_RE e then
        [''json capture_expression may only contain identifiers, digits, dots, and [] indexing.'']
      else [])"

definition validate_capture :: "template_tools \<Rightarrow> string \<Rightarrow> string \<Rightarrow> string \<Rightarrow> string list \<Rightarrow> string list" where
  "validate_capture tt produces_var capture_kind capture_expression others =
     (let var = strip produces_var; kind = strip capture_kind; e = strip capture_expression;
          requires = kind \<in> set CAPTURE_KINDS_REQUIRING_EXPRESSION
      in if var = [] then
           (if kind \<noteq> [] \<or> e \<noteq> [] then [''capture_kind/capture_expression require produces_var to be set.''] else [])
         else capture_name_errors var others
           @ (if kind = [] then [''capture_kind is required when produces_var is set.'']
              else if kind \<notin> set CAPTURE_KINDS then [''capture_kind '' @ str_repr kind @ '' is not one of ''
                @ py_repr (VList (map VStr (sort CAPTURE_KINDS))) @ ''.'']
              else (if requires \<and> e = [] then [''capture_expression is required for capture_kind='' @ kind @ ''.''] else [])
                @ (if \<not> requires \<and> e \<noteq> [] then [''capture_expression must be empty for capture_kind='' @ kind @ ''.''] else [])
                @ capture_expression_errors tt kind e))"


section \<open>Validation of a command row\<close>

definition schema_properties :: "pyval \<Rightarrow> string list" where
  "schema_properties schema = (case schema of
       VDict d \<Rightarrow> (case dget d ''properties'' of VDict e \<Rightarrow> map fst e | _ \<Rightarrow> [])
     | _ \<Rightarrow> [])"

definition param_names :: "pyval \<Rightarrow> string list" where
  "param_names schema = schema_properties schema"

definition allowed_placeholder_names :: "pyval \<Rightarrow> string list" where
  "allowed_placeholder_names schema = schema_properties schema @ COMMAND_RUNTIME_KEYS"

definition effective_render_mode :: "procedure_command \<Rightarrow> string" where
  "effective_render_mode c = (if cmd_render_mode c = [] then ''literal'' else cmd_render_mode c)"

definition produced_var :: "procedure_command \<Rightarrow> string" where
  "produced_var c = strip (cmd_produces_var c)"

definition produced_before :: "int \<Rightarrow> procedure_command list \<Rightarrow> string list" where
  "produced_before seq cs = map produced_var (filter (\<lambda>d. produced_var d \<noteq> [] \<and> cmd_sequence d < seq) cs)"

definition literal_token_errors :: "string list \<Rightarrow> nat \<Rightarrow> pyval \<Rightarrow> string list" where
  "literal_token_errors allowed i v = (case v of
       VStr token \<Rightarrow>
         if token = [] then [''token '' @ nat_str i @ '' must be a non-empty string'']
         else if \<not> token_is_safe token then [str_repr token @ '' contains unsafe characters'']
         else let placeholders = extract_placeholders token in
           (if length placeholders > 1 then [str_repr token @ '' contains more than one placeholder''] else [])
           @ (if \<not> token_has_balanced_placeholders token then [str_repr token @ '' contains malformed placeholder braces''] else [])
           @ map (\<lambda>p. str_repr token @ '' references unknown placeholder '' @ str_repr p)
               (filter (\<lambda>p. p \<notin> set allowed) placeholders)
     | _ \<Rightarrow> [''token '' @ nat_str i @ '' must be a non-empty string''])"

fun literal_errors :: "string list \<Rightarrow> nat \<Rightarrow> pyval list \<Rightarrow> string list" where
  "literal_errors allowed i [] = []"
| "literal_errors allowed i (v # vs) = literal_token_errors allowed i v @ literal_errors allowed (i + 1) vs"

definition argv_errors :: "template_tools \<Rightarrow> pyval \<Rightarrow> procedure_command list \<Rightarrow> procedure_command \<Rightarrow> string list" where
  "argv_errors tt schema siblings c = (case cmd_argv c of
       VList tokens \<Rightarrow>
         if tokens = [] then [''argv must be a non-empty list of non-empty string tokens.'']
         else if effective_render_mode c = ''jinja'' then
           validate_jinja_argv tt (param_names schema) (produced_before (cmd_sequence c) siblings)
             (cmd_for_each_param c \<noteq> []) (cmd_argv c)
         else literal_errors (allowed_placeholder_names schema) 1 tokens
     | _ \<Rightarrow> [''argv must be a non-empty list of non-empty string tokens.''])"

definition referenced_vars :: "template_tools \<Rightarrow> procedure_command \<Rightarrow> string list" where
  "referenced_vars tt c = (case cmd_argv c of
       VList tokens \<Rightarrow> concat (map (\<lambda>v. if is_str v then
           List.map_filter (\<lambda>(root, attr). if root = ''vars'' \<and> attr \<noteq> None \<and> attr \<noteq> Some [] then attr else None)
             (ta_refs (analyze_token tt v)) else []) tokens)
     | _ \<Rightarrow> [])"

definition missing_vars :: "template_tools \<Rightarrow> procedure_command list \<Rightarrow> procedure_command \<Rightarrow> string list" where
  "missing_vars tt cs c =
     (if effective_render_mode c \<noteq> ''jinja'' then []
      else filter (\<lambda>x. x \<notin> set (produced_before (cmd_sequence c) cs)) (sort (remdups (referenced_vars tt c))))"

definition chain_consistency_errors :: "template_tools \<Rightarrow> procedure_command list \<Rightarrow> procedure_command \<Rightarrow> string list" where
  "chain_consistency_errors tt siblings self = concat (map (\<lambda>c.
     let missing = missing_vars tt (siblings @ [self]) c in
     if missing = [] then []
     else [''This change leaves command #'' @ int_str (cmd_sequence c) @ [CHR 0x27] @ ''s output variable reference(s) ''
       @ join_with '', '' missing @ '' unresolved (no earlier command produces them).'']) siblings)"

definition field_error :: "string \<Rightarrow> string list \<Rightarrow> (string \<times> string list) list" where
  "field_error name ms = (if ms = [] then [] else [(name, ms)])"

definition undeclared_errors :: "string list \<Rightarrow> string \<Rightarrow> string list" where
  "undeclared_errors allowed value = (if value \<noteq> [] \<and> value \<notin> set allowed
     then [str_repr value @ '' is not declared in the procedure params schema.''] else [])"

text \<open>\<open>RPCProcedureCommand.clean\<close>: the errors by field; the row is accepted when there are none.\<close>

definition command_clean ::
  "template_tools \<Rightarrow> pyval \<Rightarrow> procedure_command list \<Rightarrow> procedure_command \<Rightarrow> (string \<times> string list) list" where
  "command_clean tt schema siblings c =
     (let allowed = allowed_placeholder_names schema;
          others = filter (\<lambda>v. v \<noteq> []) (map produced_var siblings)
      in field_error ''device_cli_mode'' (if cmd_step_type c \<noteq> ''device_cli'' \<and> cmd_device_cli_mode c \<noteq> []
             then [''device_cli_mode is only valid for device_cli steps.''] else [])
         @ field_error ''render_mode'' (if effective_render_mode c \<notin> set RENDER_MODES
             then [str_repr (effective_render_mode c) @ '' is not a valid render mode.''] else [])
         @ field_error ''argv'' (argv_errors tt schema siblings c)
         @ field_error ''condition_param'' (undeclared_errors allowed (cmd_condition_param c))
         @ field_error ''for_each_param'' (undeclared_errors allowed (cmd_for_each_param c))
         @ field_error ''produces_var'' (validate_capture tt (cmd_produces_var c) (cmd_capture_kind c) (cmd_capture_expression c) others)
         @ field_error ''__all__'' (chain_consistency_errors tt siblings c))"

end
