(* ===== verification/CommandTemplatingProps.thy ===== *)
theory CommandTemplatingProps
  imports CommandTemplating RegexFacts
begin

text \<open>
  What the author-time contract guarantees of a procedure's commands: what an accepted token
  can contain, and that the output variables of the commands of a procedure always resolve
  to an earlier command, whatever sequence of accepted additions and edits made them.
\<close>

section \<open>Accepted rows\<close>

lemma field_error_Nil [simp]: "field_error n ms = [] \<longleftrightarrow> ms = []"
  by (simp add: field_error_def)

lemma command_clean_accepts:
  assumes "command_clean tt schema siblings c = []"
  shows "effective_render_mode c \<in> set RENDER_MODES" "argv_errors tt schema siblings c = []"
    "validate_capture tt (cmd_produces_var c) (cmd_capture_kind c) (cmd_capture_expression c)
       (filter (\<lambda>v. v \<noteq> []) (map produced_var siblings)) = []"
    "chain_consistency_errors tt siblings c = []"
  using assms by (simp_all add: command_clean_def Let_def split: if_splits)

lemma validate_tokens_Nil:
  "validate_tokens tt ps vs each i tokens = [] \<longleftrightarrow>
     (\<forall>v \<in> set tokens. ta_errors (analyze_token tt v) = [] \<and>
        (\<forall>ref \<in> set (ta_refs (analyze_token tt v)). validate_ref ps vs each ref = []))"
  by (induction tt ps vs each i tokens rule: validate_tokens.induct) (auto simp: Let_def token_messages_def)

lemma accepted_jinja_tokens:
  assumes "argv_errors tt schema siblings c = []" "effective_render_mode c = ''jinja''"
  obtains tokens where "cmd_argv c = VList tokens" "tokens \<noteq> []"
    "\<And>v. v \<in> set tokens \<Longrightarrow> ta_errors (analyze_token tt v) = []"
    "\<And>v ref. v \<in> set tokens \<Longrightarrow> ref \<in> set (ta_refs (analyze_token tt v)) \<Longrightarrow>
       validate_ref (param_names schema) (produced_before (cmd_sequence c) siblings) (cmd_for_each_param c \<noteq> []) ref = []"
proof -
  from assms(1) obtain tokens where t: "cmd_argv c = VList tokens" "tokens \<noteq> []"
    by (cases "cmd_argv c") (auto simp: argv_errors_def split: if_splits)
  with assms have "validate_tokens tt (param_names schema) (produced_before (cmd_sequence c) siblings)
      (cmd_for_each_param c \<noteq> []) 1 tokens = []"
    by (simp add: argv_errors_def validate_jinja_argv_def)
  with t that show thesis unfolding validate_tokens_Nil by blast
qed

lemma validate_ref_vars: "validate_ref ps vs each (''vars'', Some a) = [] \<Longrightarrow> a \<in> set vs"
  by (simp add: validate_ref_def JINJA_CONTEXT_ROOTS_def split: if_splits)

lemma mem_map_filter: "y \<in> set (List.map_filter f xs) \<longleftrightarrow> (\<exists>x \<in> set xs. f x = Some y)"
  by (force simp: List.map_filter_def)

lemma referenced_vars_iff:
  "x \<in> set (referenced_vars tt c) \<longleftrightarrow> (\<exists>tokens v. cmd_argv c = VList tokens \<and> v \<in> set tokens \<and> is_str v \<and> x \<noteq> [] \<and>
     (''vars'', Some x) \<in> set (ta_refs (analyze_token tt v)))"
proof (cases "cmd_argv c")
  case (VList tokens)
  show ?thesis unfolding referenced_vars_def VList pyval.case
    by (force simp: mem_map_filter split: if_splits)
qed (auto simp: referenced_vars_def)


section \<open>Output variables resolve\<close>

text \<open>Every output variable a templated command refers to is produced by an earlier command.\<close>

definition chain_closed :: "template_tools \<Rightarrow> procedure_command list \<Rightarrow> bool" where
  "chain_closed tt cs \<longleftrightarrow> (\<forall>c \<in> set cs. effective_render_mode c = ''jinja'' \<longrightarrow>
     (\<forall>x \<in> set (referenced_vars tt c). \<exists>d \<in> set cs. produced_var d = x \<and> cmd_sequence d < cmd_sequence c))"

definition output_names :: "procedure_command list \<Rightarrow> string list" where
  "output_names cs = filter (\<lambda>v. v \<noteq> []) (map produced_var cs)"

lemma produced_before_iff:
  "x \<in> set (produced_before n cs) \<longleftrightarrow> x \<noteq> [] \<and> (\<exists>d \<in> set cs. produced_var d = x \<and> cmd_sequence d < n)"
  by (auto simp: produced_before_def)

lemma accepted_row_resolves:
  assumes "argv_errors tt schema siblings c = []" "effective_render_mode c = ''jinja''" "x \<in> set (referenced_vars tt c)"
  shows "x \<in> set (produced_before (cmd_sequence c) siblings)"
proof (rule accepted_jinja_tokens [OF assms(1,2)])
  fix tokens assume t: "cmd_argv c = VList tokens"
    and ok: "\<And>v ref. v \<in> set tokens \<Longrightarrow> ref \<in> set (ta_refs (analyze_token tt v)) \<Longrightarrow>
       validate_ref (param_names schema) (produced_before (cmd_sequence c) siblings) (cmd_for_each_param c \<noteq> []) ref = []"
  from assms(3) t obtain v where "v \<in> set tokens" "(''vars'', Some x) \<in> set (ta_refs (analyze_token tt v))"
    by (auto simp: referenced_vars_iff)
  from ok [OF this] show ?thesis by (rule validate_ref_vars)
qed

lemma reported_none:
  "concat (map (\<lambda>c. let m = f c in if m = [] then [] else [g c m]) cs) = [] \<Longrightarrow> c \<in> set cs \<Longrightarrow> f c = []"
  by (auto simp: Let_def split: if_splits)

lemma accepted_siblings_resolve:
  assumes "chain_consistency_errors tt siblings self = []" "c \<in> set siblings" "effective_render_mode c = ''jinja''"
    "x \<in> set (referenced_vars tt c)"
  shows "x \<in> set (produced_before (cmd_sequence c) (siblings @ [self]))"
proof -
  from assms(1,2) have "missing_vars tt (siblings @ [self]) c = []"
    unfolding chain_consistency_errors_def by (rule reported_none)
  with assms(3,4) show ?thesis by (auto simp: missing_vars_def filter_empty_conv)
qed

lemma clean_row_closes_chain:
  assumes "command_clean tt schema siblings c = []" "set rows = insert c (set siblings)"
  shows "chain_closed tt rows"
  unfolding chain_closed_def
proof (intro ballI impI)
  fix e x assume e: "e \<in> set rows" "effective_render_mode e = ''jinja''" "x \<in> set (referenced_vars tt e)"
  then consider "e = c" | "e \<in> set siblings" using assms(2) by blast
  then have "x \<in> set (produced_before (cmd_sequence e) (siblings @ [c]))"
  proof cases
    case 1
    with accepted_row_resolves [OF command_clean_accepts(2) [OF assms(1)]] e show ?thesis
      by (auto simp: produced_before_iff)
  next
    case 2
    from accepted_siblings_resolve [OF command_clean_accepts(4) [OF assms(1)] this e(2,3)] show ?thesis .
  qed
  with assms(2) show "\<exists>d \<in> set rows. produced_var d = x \<and> cmd_sequence d < cmd_sequence e"
    by (auto simp: produced_before_iff)
qed

lemma clean_row_output_fresh:
  assumes "command_clean tt schema siblings c = []" "produced_var c \<noteq> []"
  shows "produced_var c \<notin> set (output_names siblings)" "VAR_NAME_RE (produced_var c)"
    "produced_var c \<notin> set JINJA_CONTEXT_ROOTS"
proof -
  from command_clean_accepts(3) [OF assms(1)] assms(2)
  have "capture_name_errors (produced_var c) (output_names siblings) = []"
    by (simp add: validate_capture_def Let_def produced_var_def output_names_def)
  then show "produced_var c \<notin> set (output_names siblings)" "VAR_NAME_RE (produced_var c)"
    "produced_var c \<notin> set JINJA_CONTEXT_ROOTS"
    by (simp_all add: capture_name_errors_def split: if_splits)
qed

text \<open>
  The rows of one procedure: additions and edits, each accepted by \<open>clean\<close> against the rows
  present at that moment.
\<close>

inductive authored :: "template_tools \<Rightarrow> pyval \<Rightarrow> procedure_command list \<Rightarrow> bool" for tt schema where
  none: "authored tt schema []"
| add: "authored tt schema cs \<Longrightarrow> command_clean tt schema cs c = [] \<Longrightarrow> authored tt schema (cs @ [c])"
| edit: "authored tt schema (xs @ old # ys) \<Longrightarrow> command_clean tt schema (xs @ ys) c = [] \<Longrightarrow> authored tt schema (xs @ c # ys)"

lemma output_names_append [simp]: "output_names (xs @ ys) = output_names xs @ output_names ys"
  by (simp add: output_names_def)

lemma output_names_Cons [simp]: "output_names (c # cs) = (if produced_var c = [] then [] else [produced_var c]) @ output_names cs"
  by (simp add: output_names_def)

lemma output_names_Nil [simp]: "output_names [] = []"
  by (simp add: output_names_def)

lemma authored_names_distinct: "authored tt schema cs \<Longrightarrow> distinct (output_names cs)"
proof (induction rule: authored.induct)
  case (add cs c)
  then show ?case using clean_row_output_fresh(1) [OF add.hyps(2)] by auto
next
  case (edit xs old ys c)
  then show ?case using clean_row_output_fresh(1) [OF edit.hyps(2)] by (auto split: if_splits)
qed simp

lemma authored_chain_closed: "authored tt schema cs \<Longrightarrow> chain_closed tt cs"
proof (induction rule: authored.induct)
  case none
  then show ?case by (simp add: chain_closed_def)
next
  case (add cs c)
  then show ?case by (intro clean_row_closes_chain [OF add.hyps(2)]) simp
next
  case (edit xs old ys c)
  then show ?case by (intro clean_row_closes_chain [OF edit.hyps(2)]) auto
qed

lemma distinct_filter_index:
  "distinct (filter P (map f cs)) \<Longrightarrow> i < length cs \<Longrightarrow> j < length cs \<Longrightarrow> f (cs ! i) = f (cs ! j) \<Longrightarrow> P (f (cs ! i)) \<Longrightarrow> i = j"
proof (induction cs arbitrary: i j)
  case (Cons c cs)
  then show ?case by (cases i; cases j) (auto split: if_splits intro: rev_image_eqI [OF nth_mem])
qed simp

text \<open>
  In a procedure whose commands were made by any sequence of accepted additions and edits,
  every output variable that a templated command refers to is produced by exactly one command,
  and that command has a strictly smaller sequence number.
\<close>

theorem output_variable_has_one_earlier_producer:
  assumes "authored tt schema cs" "i < length cs" "effective_render_mode (cs ! i) = ''jinja''"
    "x \<in> set (referenced_vars tt (cs ! i))"
  shows "\<exists>j < length cs. cmd_sequence (cs ! j) < cmd_sequence (cs ! i) \<and>
    (\<forall>k < length cs. produced_var (cs ! k) = x \<longleftrightarrow> k = j)"
proof -
  from authored_chain_closed [OF assms(1)] assms(2-4) obtain d where "d \<in> set cs" "produced_var d = x"
    "cmd_sequence d < cmd_sequence (cs ! i)" unfolding chain_closed_def by (metis nth_mem)
  then obtain j where j: "j < length cs" "produced_var (cs ! j) = x" "cmd_sequence (cs ! j) < cmd_sequence (cs ! i)"
    by (auto simp: in_set_conv_nth)
  moreover have "x \<noteq> []" using assms(4) by (auto simp: referenced_vars_iff)
  ultimately have "k = j" if "k < length cs" "produced_var (cs ! k) = x" for k
    using that distinct_filter_index [OF authored_names_distinct [OF assms(1), unfolded output_names_def]] by metis
  with j show ?thesis by blast
qed


section \<open>What an accepted templated token contains\<close>

text \<open>What one node of the tree may be.\<close>

definition node_allowed :: "jnode \<Rightarrow> bool" where
  "node_allowed n \<longleftrightarrow> jn_kind n \<noteq> KCall
     \<and> (\<forall>f. jn_kind n = KFilter f \<longrightarrow> f \<in> set ALLOWED_FILTERS)
     \<and> (\<forall>d. jn_kind n = KData d \<longrightarrow> list_all safe_literal_char d)
     \<and> (\<forall>s. jn_kind n = KConst (VStr s) \<longrightarrow> list_all safe_literal_char s)
     \<and> (\<forall>a. is_access n \<longrightarrow> access_attr n = Some a \<longrightarrow> \<not> startswith a ''_'')"

text \<open>What one variable reference may resolve to.\<close>

definition ref_resolves :: "string list \<Rightarrow> string list \<Rightarrow> bool \<Rightarrow> VarRef \<Rightarrow> bool" where
  "ref_resolves params produced each ref \<longleftrightarrow>
     (fst ref = ''item'' \<and> each)
     \<or> (\<exists>a. ref = (''params'', Some a) \<and> a \<in> set params)
     \<or> (\<exists>a. ref = (''vars'', Some a) \<and> a \<in> set produced)
     \<or> (\<exists>a. ref = (''runtime'', Some a) \<and> a \<in> set JINJA_RUNTIME_KEYS)
     \<or> (\<exists>a. ref = (''target'', Some a))"

lemma validate_ref_resolves: "validate_ref ps vs each ref = [] \<Longrightarrow> ref_resolves ps vs each ref"
  by (cases ref; cases "snd ref")
    (auto simp: validate_ref_def ref_resolves_def JINJA_CONTEXT_ROOTS_def split: if_splits)

lemma per_node_Nil: "concat (map f ns) = [] \<Longrightarrow> n \<in> set ns \<Longrightarrow> f n = []"
  by simp

lemma call_errors_Nil: "call_errors r ns = [] \<Longrightarrow> n \<in> set ns \<Longrightarrow> jn_kind n \<noteq> KCall"
  by (auto simp: call_errors_def list_ex_iff split: if_splits)

lemma filter_errors_Nil: "filter_errors r ns = [] \<Longrightarrow> n \<in> set ns \<Longrightarrow> jn_kind n = KFilter f \<Longrightarrow> f \<in> set ALLOWED_FILTERS"
  unfolding filter_errors_def by (drule (1) per_node_Nil) (simp split: if_splits)

lemma data_errors_Nil: "data_errors r ns = [] \<Longrightarrow> n \<in> set ns \<Longrightarrow> jn_kind n = KData d \<Longrightarrow> list_all safe_literal_char d"
  unfolding data_errors_def by (drule (1) per_node_Nil) (simp add: JINJA_LITERAL_SAFE_RE_def split: if_splits)

lemma const_errors_Nil:
  "const_errors r ns = [] \<Longrightarrow> n \<in> set ns \<Longrightarrow> jn_kind n = KConst (VStr s) \<Longrightarrow> list_all safe_literal_char s"
  unfolding const_errors_def by (drule (1) per_node_Nil) (simp add: JINJA_LITERAL_SAFE_RE_def const_str_def split: if_splits)

lemma private_errors_Nil:
  assumes "private_errors r ns = []" "n \<in> set ns" "is_access n" "access_attr n = Some a"
  shows "\<not> startswith a ''_''"
proof -
  have "n \<in> set (filter is_access ns)" using assms(2,3) by simp
  from per_node_Nil [OF assms(1) [unfolded private_errors_def] this] assms(4) show ?thesis by (simp split: if_splits)
qed

lemma accepted_token:
  assumes "ta_errors (analyze_token tt v) = []"
  obtains token ast where "v = VStr token" "tt_parse tt token = Inr ast" "\<not> STATEMENT_RE token"
    "\<And>n. n \<in> set (find_all ast) \<Longrightarrow> node_allowed n"
proof (cases v)
  case (VStr token)
  with assms have t: "token \<noteq> []" "\<not> STATEMENT_RE token" by (auto simp: analyze_token_def split: if_splits)
  with VStr assms obtain ast where a: "tt_parse tt token = Inr ast"
    by (cases "tt_parse tt token") (auto simp: analyze_token_def)
  let ?ns = "find_all ast" and ?r = "str_repr token"
  from VStr assms t a have "call_errors ?r ?ns = []" "filter_errors ?r ?ns = []" "data_errors ?r ?ns = []"
    "const_errors ?r ?ns = []" "private_errors ?r ?ns = []"
    by (simp_all add: analyze_token_def Let_def)
  then have "node_allowed n" if "n \<in> set ?ns" for n
    unfolding node_allowed_def
    using that call_errors_Nil filter_errors_Nil data_errors_Nil const_errors_Nil private_errors_Nil by blast
  with VStr a t(2) that show thesis by blast
qed (use assms in \<open>simp_all add: analyze_token_def\<close>)

text \<open>
  A templated command is accepted only if each of its tokens is a text without statement
  or comment blocks that parses to a tree with, at any depth, no call, no filter outside the
  list, no text or string constant outside the safe characters and no access to a name that
  starts with an underscore, and in which every variable reference resolves: to a declared
  parameter, to the output of a sibling with a smaller sequence number, to a runtime key, to
  a field of the target, or to the loop item when there is a loop parameter.
\<close>

theorem accepted_template_is_restricted:
  assumes "command_clean tt schema siblings c = []" "effective_render_mode c = ''jinja''"
  shows "\<exists>tokens. cmd_argv c = VList tokens \<and> tokens \<noteq> [] \<and>
    (\<forall>v \<in> set tokens. \<exists>token ast. v = VStr token \<and> \<not> STATEMENT_RE token \<and> tt_parse tt token = Inr ast
       \<and> (\<forall>n \<in> set (find_all ast). node_allowed n)
       \<and> (\<forall>ref \<in> set (ta_refs (analyze_token tt v)).
            ref_resolves (param_names schema) (produced_before (cmd_sequence c) siblings) (cmd_for_each_param c \<noteq> []) ref))"
proof (rule accepted_jinja_tokens [OF command_clean_accepts(2) [OF assms(1)] assms(2)])
  fix tokens
  assume t: "cmd_argv c = VList tokens" "tokens \<noteq> []"
    and e: "\<And>v. v \<in> set tokens \<Longrightarrow> ta_errors (analyze_token tt v) = []"
    and r: "\<And>v ref. v \<in> set tokens \<Longrightarrow> ref \<in> set (ta_refs (analyze_token tt v)) \<Longrightarrow>
       validate_ref (param_names schema) (produced_before (cmd_sequence c) siblings) (cmd_for_each_param c \<noteq> []) ref = []"
  show ?thesis
    by (intro exI [of _ tokens] conjI t ballI) (metis accepted_token e r validate_ref_resolves)
qed


section \<open>What an accepted literal token contains\<close>

lemma star_class_sound:
  "st \<in> set (rep_loop (length t) True (rx (CS Q) t) 0 None (i, g)) \<Longrightarrow>
     \<exists>k. st = (i + k, g) \<and> (\<forall>j < k. i + j < length t \<and> Q (t ! (i + j)))"
proof (induction "length t - i" arbitrary: i rule: less_induct)
  case less
  from less.prems consider "st = (i, g)" | "i < length t" "Q (t ! i)"
      "st \<in> set (rep_loop (length t) True (rx (CS Q) t) 0 None (Suc i, g))"
    by (subst (asm) rep_loop.simps) (auto simp: Let_def rep_progress_def split: if_splits)
  then show ?case
  proof cases
    case 2
    have "length t - Suc i < length t - i" using 2(1) by simp
    from less.hyps [OF this 2(3)] obtain k where k: "st = (Suc i + k, g)"
      "\<forall>j < k. Suc i + j < length t \<and> Q (t ! (Suc i + j))" by auto
    have "i + j < length t \<and> Q (t ! (i + j))" if "j < Suc k" for j
      using that 2(1,2) k(2) by (cases j) auto
    with k show ?thesis by (intro exI [of _ "Suc k"]) auto
  qed auto
qed

lemma placeholder_match:
  assumes "st \<in> set (rx PLACEHOLDER_RE t (i, []))"
  shows "\<exists>name post. drop i t = CHR ''{'' # name @ CHR ''}'' # post \<and> fst st = i + length name + 2
    \<and> name \<noteq> [] \<and> list_all placeholder_char name"
proof -
  from assms obtain a where a: "i < length t" "t ! i = CHR ''{''" "Suc i < length t" "placeholder_start (t ! Suc i)"
    "a \<in> set (rx (star (CS placeholder_char)) t (Suc (Suc i), []))" "fst a < length t" "t ! fst a = CHR ''}''" "fst st = Suc (fst a)"
    by (auto simp: PLACEHOLDER_RE_def lit_def lit_char_def simp del: rx.simps(5) split: if_splits)
  from star_class_sound [OF a(5) [unfolded rx.simps(5)]] a
  obtain k where k: "i < length t" "t ! i = CHR ''{''" "Suc i < length t" "placeholder_start (t ! Suc i)"
    "\<forall>j < k. Suc (Suc i) + j < length t \<and> placeholder_char (t ! (Suc (Suc i) + j))"
    "i + k + 2 < length t" "t ! (i + k + 2) = CHR ''}''" "fst st = i + k + 3"
    by (auto simp: numeral_2_eq_2 numeral_3_eq_3)
  let ?name = "take (Suc k) (drop (Suc i) t)"
  have "drop i t = t ! i # drop (Suc i) t" using k(1) by (simp add: Cons_nth_drop_Suc)
  also have "drop (Suc i) t = ?name @ drop (i + k + 2) t"
    using append_take_drop_id [of "Suc k" "drop (Suc i) t", symmetric] by (simp add: add.commute add.left_commute)
  also have "drop (i + k + 2) t = CHR ''}'' # drop (i + k + 3) t" using k(6,7) Cons_nth_drop_Suc [OF k(6)] by (simp add: numeral_3_eq_3 numeral_2_eq_2)
  finally have d: "drop i t = CHR ''{'' # ?name @ CHR ''}'' # drop (i + k + 3) t" using k(2) by simp
  have "placeholder_char (?name ! j)" if "j < length ?name" for j
    using that k(4,5) by (cases j) (auto simp: placeholder_char_def)
  moreover have "length ?name = Suc k" using k(6) by simp
  ultimately show ?thesis using d k(8) by (intro exI [of _ ?name] exI [of _ "drop (i + k + 3) t"]) (auto simp: list_all_length)
qed

lemma search_from_match:
  "search_from r t advance i = Some m \<Longrightarrow> \<exists>st \<in> set (rx r t (m_start m, [])). m_end m = fst st"
proof (induction r t advance i rule: search_from.induct)
  case (1 r t advance i)
  then show ?case
    by (cases "match_at r t advance i")
      (auto simp: search_from.simps [of r t advance i] match_at_def split: if_splits dest!: find_SomeD intro: rev_bexI)
qed

lemma finditer_loop_match:
  "m \<in> set (finditer_loop k r t advance i) \<Longrightarrow> \<exists>st \<in> set (rx r t (m_start m, [])). m_end m = fst st"
  by (induction k arbitrary: i advance) (auto split: option.splits dest: search_from_match [OF sym])

lemma placeholder_found:
  assumes "m \<in> set (finditer PLACEHOLDER_RE t)"
  shows "\<exists>name post. t = take (m_start m) t @ CHR ''{'' # name @ CHR ''}'' # post \<and> post = drop (m_end m) t
    \<and> name = take (m_end m - m_start m - 2) (drop (m_start m + 1) t) \<and> list_all placeholder_char name"
proof -
  from finditer_loop_match [OF assms [unfolded finditer_def]] obtain st where
    "st \<in> set (rx PLACEHOLDER_RE t (m_start m, []))" "m_end m = fst st" by blast
  with placeholder_match obtain name post where n: "drop (m_start m) t = CHR ''{'' # name @ CHR ''}'' # post"
    "m_end m = m_start m + length name + 2" "list_all placeholder_char name" by metis
  have "drop (m_start m + 1) t = name @ CHR ''}'' # post" "drop (m_end m) t = post"
    using arg_cong [OF n(1), of "drop 1"] arg_cong [OF n(1), of "drop (length name + 2)"] n(2) by (simp_all add: add.commute)
  moreover have "t = take (m_start m) t @ CHR ''{'' # name @ CHR ''}'' # post"
    using append_take_drop_id [of "m_start m" t] n(1) by simp
  ultimately show ?thesis using n(2,3) by (intro exI [of _ name] exI [of _ post]) simp
qed


text \<open>
  A literal token: safe characters around at most one placeholder, which names a declared
  parameter or a runtime key.
\<close>

definition literal_shape :: "string list \<Rightarrow> string \<Rightarrow> bool" where
  "literal_shape allowed token \<longleftrightarrow>
     (token \<noteq> [] \<and> list_all safe_literal_char token)
     \<or> (\<exists>pre name post. token = pre @ CHR ''{'' # name @ CHR ''}'' # post \<and> name \<in> set allowed
          \<and> list_all safe_literal_char (pre @ name @ post))"

lemma placeholder_char_safe: "placeholder_char c \<Longrightarrow> safe_literal_char c"
  by (auto simp: placeholder_char_def placeholder_start_def safe_literal_char_def)

lemma safe_without_braces:
  "list_all (\<lambda>c. safe_literal_char c \<or> c \<in> set ''{}'') s \<Longrightarrow> CHR ''{'' \<notin> set s \<Longrightarrow> CHR ''}'' \<notin> set s \<Longrightarrow> list_all safe_literal_char s"
  by (auto simp: list_all_iff)

lemma literal_token_shape:
  assumes "literal_token_errors allowed i v = []"
  shows "\<exists>token. v = VStr token \<and> literal_shape allowed token"
proof -
  from assms obtain token where v: "v = VStr token" "token \<noteq> []"
    by (cases v) (auto simp: literal_token_errors_def split: if_splits)
  with assms have safe: "SAFE_TOKEN_RE token" by (simp add: literal_token_errors_def token_is_safe_def split: if_splits)
  let ?ms = "finditer PLACEHOLDER_RE token"
  let ?stripped = "replace_ranges [] token 0 (map m_span ?ms)"
  from assms v safe have ok: "length ?ms \<le> 1" "CHR ''{'' \<notin> set ?stripped" "CHR ''}'' \<notin> set ?stripped"
    "\<forall>p \<in> set (extract_placeholders token). p \<in> set allowed"
    by (simp_all add: literal_token_errors_def token_is_safe_def Let_def token_has_balanced_placeholders_def
        filter_empty_conv extract_placeholders_def split: if_splits)
  from safe have all: "list_all (\<lambda>c. safe_literal_char c \<or> c \<in> set ''{}'') token" by (simp add: SAFE_TOKEN_RE_def)
  consider "?ms = []" | m where "?ms = [m]" using ok(1) by (cases ?ms) auto
  then have "literal_shape allowed token"
  proof cases
    case 1
    with ok(2,3) all v(2) show ?thesis by (simp add: literal_shape_def safe_without_braces)
  next
    case 2
    let ?pre = "take (m_start m) token" and ?post = "drop (m_end m) token"
    from 2 placeholder_found [of m token] obtain name where n: "token = ?pre @ CHR ''{'' # name @ CHR ''}'' # ?post"
      "name \<in> set (extract_placeholders token)" "list_all placeholder_char name"
      by (auto simp: extract_placeholders_def)
    have "?stripped = ?pre @ ?post" by (simp add: 2 m_span_def)
    with ok(2,3) have "CHR ''{'' \<notin> set (?pre @ ?post)" "CHR ''}'' \<notin> set (?pre @ ?post)" by simp_all
    moreover have "list_all (\<lambda>c. safe_literal_char c \<or> c \<in> set ''{}'') (?pre @ ?post)"
      using all by (auto simp: list_all_iff dest: in_set_takeD in_set_dropD)
    ultimately have "list_all safe_literal_char (?pre @ ?post)" by (rule safe_without_braces [rotated 1])
    moreover have "list_all safe_literal_char name" using n(3) placeholder_char_safe by (auto simp: list_all_iff)
    ultimately show ?thesis using n ok(4) unfolding literal_shape_def
      by (intro disjI2 exI [of _ ?pre] exI [of _ name] exI [of _ ?post]) auto
  qed
  with v show ?thesis by blast
qed

lemma literal_errors_Nil: "literal_errors allowed i vs = [] \<Longrightarrow> v \<in> set vs \<Longrightarrow> \<exists>j. literal_token_errors allowed j v = []"
  by (induction allowed i vs rule: literal_errors.induct) auto

text \<open>
  A literal command is accepted only if its argument vector is a non-empty list of texts,
  each made of safe characters and at most one well-formed placeholder that names a property
  of the parameter schema or a runtime key.
\<close>

theorem accepted_literal_is_restricted:
  assumes "command_clean tt schema siblings c = []" "effective_render_mode c \<noteq> ''jinja''"
  shows "\<exists>tokens. cmd_argv c = VList tokens \<and> tokens \<noteq> [] \<and>
    (\<forall>v \<in> set tokens. \<exists>token. v = VStr token \<and> literal_shape (allowed_placeholder_names schema) token)"
proof -
  from command_clean_accepts(2) [OF assms(1)] obtain tokens where t: "cmd_argv c = VList tokens" "tokens \<noteq> []"
    by (cases "cmd_argv c") (auto simp: argv_errors_def split: if_splits)
  with command_clean_accepts(2) [OF assms(1)] assms(2)
  have "literal_errors (allowed_placeholder_names schema) 1 tokens = []" by (simp add: argv_errors_def)
  with t literal_errors_Nil literal_token_shape show ?thesis by meson
qed


section \<open>A two-step procedure\<close>

text \<open>
  A first step captures its output into \<open>disk\<close>, a second uses it. The template parser of the
  samples knows the one expression they use; any other text is plain data.
\<close>

definition sample_tools :: template_tools where
  "sample_tools = \<lparr>tt_parse = (\<lambda>t. if t = ''{{ vars.disk }}''
       then Inr (JNode (KOther ''Template'') [JNode (KOther ''Output'') [JNode (KGetattr ''disk'') [JNode (KName ''vars'') []]]])
       else Inr (JNode (KOther ''Template'') [JNode (KOther ''Output'') [JNode (KData t) []]])),
     tt_compile = (\<lambda>e. Inr 0)\<rparr>"

definition producer_step :: procedure_command where
  "producer_step = sample_command\<lparr>cmd_argv := VList [VStr ''lsblk'', VStr ''{target}''], cmd_produces_var := ''disk'', cmd_capture_kind := ''stdout_stripped''\<rparr>"

definition consumer_step :: procedure_command where
  "consumer_step = sample_command\<lparr>cmd_sequence := 2, cmd_argv := VList [VStr ''smartctl'', VStr ''{{ vars.disk }}''], cmd_render_mode := ''jinja''\<rparr>"

lemma producer_accepted: "command_clean sample_tools (VDict []) [] producer_step = []"
  by code_simp

lemma consumer_accepted: "command_clean sample_tools (VDict []) [producer_step] consumer_step = []"
  by code_simp

lemma steps_authored: "authored sample_tools (VDict []) [producer_step, consumer_step]"
  using authored.add [OF authored.add [OF authored.none producer_accepted [simplified]] , of consumer_step] consumer_accepted by simp

theorem output_variable_has_one_earlier_producer_witness:
  "\<exists>j < length [producer_step, consumer_step].
     cmd_sequence ([producer_step, consumer_step] ! j) < cmd_sequence ([producer_step, consumer_step] ! 1)"
proof -
  have "effective_render_mode ([producer_step, consumer_step] ! 1) = ''jinja''" by code_simp
  moreover have "''disk'' \<in> set (referenced_vars sample_tools ([producer_step, consumer_step] ! 1))" by code_simp
  ultimately show ?thesis
    using output_variable_has_one_earlier_producer [OF steps_authored, of 1] by (metis One_nat_def length_Cons lessI list.size(3) less_SucI)
qed

theorem accepted_template_is_restricted_witness:
  "\<exists>tokens token ast. cmd_argv consumer_step = VList tokens \<and> VStr token \<in> set tokens
     \<and> tt_parse sample_tools token = Inr ast \<and> list_all node_allowed (find_all ast)"
proof -
  have "effective_render_mode consumer_step = ''jinja''" by code_simp
  from accepted_template_is_restricted [OF consumer_accepted this] show ?thesis
    unfolding list_all_iff by (metis list.set_intros(1) neq_Nil_conv)
qed

theorem accepted_literal_is_restricted_witness:
  "\<exists>tokens token. cmd_argv producer_step = VList tokens \<and> VStr token \<in> set tokens
     \<and> literal_shape (allowed_placeholder_names (VDict [])) token"
proof -
  have "effective_render_mode producer_step \<noteq> ''jinja''" by code_simp
  from accepted_literal_is_restricted [OF producer_accepted this] show ?thesis
    by (metis list.set_intros(1) neq_Nil_conv)
qed

end
