(* ===== verification/HandlerError.thy ===== *)
theory HandlerError
  imports Aggregate
begin

text \<open>
  The exceptions that leave the command handlers of \<open>application/command_handlers.py\<close>: the
  execution error with its code, the API errors, the database errors of the tables they
  write, and what the aggregate or the language raises.
\<close>

datatype handler_error =
    RPCExecutionError string string
  | ValidationError string string
  | PermissionDenied string
  | DoesNotExist
  | IntegrityError
  | HandlerRaised pyexc
  | HandlerAggregate agg_error

abbreviation raised :: "pyexc + 'a \<Rightarrow> handler_error + 'a" where
  "raised m \<equiv> map_sum HandlerRaised id m"

end
