(* ===== verification/Backends.thy ===== *)
theory Backends
  imports Capability
begin

text \<open>
  Choosing the backend of a dispatch: \<open>netbox_rpc/backends.py\<close>, the \<open>RPCBackend\<close> row of
  \<open>models.py\<close> with the URL it composes, and the choice of the settings row. A configured
  resolver and the netbox-nms plugin are code outside the repository and parameters here.
\<close>

section \<open>Backend rows\<close>

record rpc_backend =
  rb_ip_address :: "string option"
  rb_domain :: string
  rb_port :: int
  rb_use_https :: bool
  rb_base_url :: string
  rb_verify_ssl :: bool
  rb_auth_header_name :: string
  rb_auth_token :: string

definition hostname_edge :: "char \<Rightarrow> bool" where
  "hostname_edge c \<longleftrightarrow> is_alpha c \<or> is_digit c"

definition hostname_char :: "char \<Rightarrow> bool" where
  "hostname_char c \<longleftrightarrow> hostname_edge c \<or> c \<in> set ''.-''"

definition BACKEND_HOSTNAME_RE :: "string \<Rightarrow> bool" where
  "BACKEND_HOSTNAME_RE s \<longleftrightarrow> s \<noteq> [] \<and> hostname_edge (hd s) \<and> hostname_edge (last s) \<and> list_all hostname_char s"

text \<open>\<open>clean\<close>: the field in error; its message is left out.\<close>

definition backend_clean :: "rpc_backend \<Rightarrow> string list" where
  "backend_clean b =
     (let domain = strip (rb_domain b) in
      if domain \<noteq> [] \<and> \<not> BACKEND_HOSTNAME_RE domain
      then [''domain'']
      else [])"

definition backend_ip :: "rpc_backend \<Rightarrow> string" where
  "backend_ip b = (case rb_ip_address b of None \<Rightarrow> [] | Some a \<Rightarrow> hd (split_on CHR ''/'' a))"

definition composed_url :: "rpc_backend \<Rightarrow> string" where
  "composed_url b =
     (let domain = strip (rb_domain b); host = (if domain = [] then backend_ip b else domain) in
      if host = [] then []
      else (let literal = (if CHR '':'' \<in> set host \<and> \<not> startswith host ''['' then ''['' @ host @ '']'' else host)
            in (if rb_use_https b then ''https'' else ''http'') @ ''://'' @ literal @ '':'' @ int_str (rb_port b)))"

definition backend_url :: "rpc_backend \<Rightarrow> string" where
  "backend_url b = (if rb_base_url b = [] then composed_url b else rb_base_url b)"

definition get_auth_headers :: "rpc_backend \<Rightarrow> (string \<times> string) list" where
  "get_auth_headers b = (if rb_auth_token b = [] then [] else [(rb_auth_header_name b, rb_auth_token b)])"


section \<open>Resolution\<close>

record backend_env =
  be_resolver :: "(pyval \<Rightarrow> pyexc + backend_target option) option"
  be_nms :: "(pyval \<Rightarrow> pyexc + rpc_backend option) option"
  be_rows :: "(int \<times> rpc_backend) list"

definition adapt_backend :: "rpc_backend \<Rightarrow> backend_target" where
  "adapt_backend b = \<lparr>bt_url = backend_url b, bt_headers = get_auth_headers b, bt_verify_ssl = rb_verify_ssl b\<rparr>"

definition no_backend_given :: "pyval \<Rightarrow> bool" where
  "no_backend_given pk \<longleftrightarrow> pk = VNone \<or> pk = VStr []"

definition resolve_local_backend :: "python_rt \<Rightarrow> (int \<times> rpc_backend) list \<Rightarrow> pyval \<Rightarrow> pyexc + backend_target option" where
  "resolve_local_backend rt rows pk =
     (if no_backend_given pk then Inr None
      else (case py_int rt pk of
          Inl e \<Rightarrow> if e = TypeError \<or> e = ValueError then Inr None else Inl e
        | Inr i \<Rightarrow> Inr (map_option adapt_backend (map_of rows i))))"

definition resolve_backend :: "python_rt \<Rightarrow> backend_env \<Rightarrow> pyval \<Rightarrow> pyexc + backend_target option" where
  "resolve_backend rt be pk = (case be_resolver be of
       Some resolver \<Rightarrow> resolver pk
     | None \<Rightarrow> (case be_nms be of
         Some get_backend \<Rightarrow> rbind (get_backend pk) (\<lambda>b. Inr (map_option adapt_backend b))
       | None \<Rightarrow> resolve_local_backend rt (be_rows be) pk))"

definition local_rpcbackend_resolver :: "python_rt \<Rightarrow> (int \<times> rpc_backend) list \<Rightarrow> pyval \<Rightarrow> pyexc + backend_target option" where
  "local_rpcbackend_resolver rt rows pk =
     (if \<not> no_backend_given pk then resolve_local_backend rt rows pk
      else (case rows of [(i, b)] \<Rightarrow> Inr (Some (adapt_backend b)) | _ \<Rightarrow> Inr None))"

text \<open>\<open>RpcPluginSettings.resolved_backend_target\<close>: the selected row, or the resolution chain.\<close>

definition resolved_backend_target :: "python_rt \<Rightarrow> backend_env \<Rightarrow> rpc_backend option \<Rightarrow> pyexc + backend_target option" where
  "resolved_backend_target rt be selected = (case selected of
       Some b \<Rightarrow> Inr (Some (adapt_backend b))
     | None \<Rightarrow> resolve_backend rt be VNone)"


section \<open>What resolution guarantees\<close>

text \<open>A requested backend is never replaced by another one.\<close>

lemma local_resolver_exact:
  assumes "\<not> no_backend_given pk" "local_rpcbackend_resolver rt rows pk = Inr (Some t)"
  shows "\<exists>i b. py_int rt pk = Inr i \<and> map_of rows i = Some b \<and> t = adapt_backend b"
  using assms
  by (auto simp: local_rpcbackend_resolver_def resolve_local_backend_def split: sum.splits if_splits)

lemma hostname_has_no_delimiter:
  "BACKEND_HOSTNAME_RE s \<Longrightarrow> c \<in> set s \<Longrightarrow> c \<notin> set '':/@?#[] ''"
  by (auto simp: BACKEND_HOSTNAME_RE_def list_all_iff hostname_char_def hostname_edge_def is_alpha_def is_lower_alpha_def
      is_upper_alpha_def is_digit_def)

text \<open>
  The URL composed for a cleaned row with a domain has exactly that domain as its host and
  the port of the row: nothing in the domain can be read as a scheme, a user, a path or a port.
\<close>

lemma composed_url_host:
  assumes "backend_clean b = []" "strip (rb_domain b) \<noteq> []"
  shows "composed_url b = (if rb_use_https b then ''https'' else ''http'') @ ''://'' @ strip (rb_domain b) @ '':'' @ int_str (rb_port b)
    \<and> set (strip (rb_domain b)) \<inter> set '':/@?#[] '' = {}"
proof -
  have re: "BACKEND_HOSTNAME_RE (strip (rb_domain b))" using assms by (simp add: backend_clean_def Let_def split: if_splits)
  then have "CHR '':'' \<notin> set (strip (rb_domain b))" using hostname_has_no_delimiter by fastforce
  with assms(2) hostname_has_no_delimiter [OF re] show ?thesis by (auto simp: composed_url_def Let_def)
qed

end
