(* ===== verification/ProtectedPolicy.thy ===== *)
theory ProtectedPolicy
  imports HandlerError Backends
begin

text \<open>
  The policy side of the protected procedures in \<open>application/command_handlers.py\<close>: their
  contract, label and reason tables, the bound backend, the catalog policy that must equal
  the reviewed one, the approval payload and its revalidation before dispatch.

  A contract module is constant data: the expected policy and schemas of its procedure, the
  bound backend and the optional semantic digest. It is a parameter by procedure name, and
  so is Django's keyed digest.
\<close>

section \<open>Tables\<close>

record protected_contract =
  pc_policy :: pyval
  pc_params_schema :: pyval
  pc_result_schema :: pyval
  pc_semantic_sha256 :: "string option"
  pc_transport_pinned :: "bool option"
  pc_backend_id :: "int option"
  pc_backend_base_url :: "string option"
  pc_backend_verify_ssl :: bool

record policy_env =
  pe_rt :: python_rt
  pe_tables :: contract_tables
  pe_contract :: "string \<Rightarrow> protected_contract"
  pe_salted_hmac :: "string \<Rightarrow> string \<Rightarrow> string"
  pe_backends :: backend_env

definition PROTECTED_LABELS :: "(string \<times> string) list" where
  "PROTECTED_LABELS =
     [(NETBOX_STAGING_ROTATE_BACKEND_TOKEN, ''Staging token rotation''),
      (NETBOX_STAGING_DEPLOY_DNS_PAIR, ''Staging DNS-pair deployment''),
      (GITEA_PRODUCTION_UPGRADE_1_27_1, ''Production Gitea upgrade''),
      (GITEA_RUNNER_REGISTER, ''Gitea runner registration''),
      (GITEA_ORG_CI_RUNNER_PROVISION, ''Gitea organization CI runner provisioning''),
      (GITEA_PROTECTED_PUBLICATION_PAIR_PROVISION, ''Protected publication runner pair provisioning''),
      (GITEA_USER_CI_RUNNER_RECOVER, ''Gitea user CI runner recovery''),
      (GITEA_ORG_CI_RUNNER_RECOVER, ''Gitea organization CI runner network recovery''),
      (AKVORADO_BOOTSTRAP_DEBIAN13_INSTALL, ''Debian 13 Akvorado bootstrap''),
      (NETBOX_OPENBAO_IMPORT_APPLY, ''netbox-openbao credential import''),
      (NMULTICLOUD_DEPLOY_RELEASE_MARKER_RECONCILE, ''Release-marker reconcile''),
      (LINUX_PROXMOX_OCI_REGISTRY_PULL, ''Proxmox OCI registry pull''),
      (PROXBOX_API_RELEASE_IMAGES_RECOVER, ''Proxbox API retained-image recovery''),
      (NETBOX_PRODUCTION_RESTART_RQ_WORKER, ''Production NetBox RQ worker restart'')]"

definition PROTECTED_APPROVAL_REASON :: "(string \<times> string) list" where
  "PROTECTED_APPROVAL_REASON =
     [(NETBOX_STAGING_ROTATE_BACKEND_TOKEN, ''Approved audited staging backend token rotation.''),
      (NETBOX_STAGING_DEPLOY_DNS_PAIR, ''Approved audited staging DNS-pair deployment.''),
      (GITEA_PRODUCTION_UPGRADE_1_27_1, ''Approved audited production Gitea 1.27.1 upgrade.''),
      (GITEA_RUNNER_REGISTER, ''Approved audited Gitea runner registration.''),
      (GITEA_ORG_CI_RUNNER_PROVISION, ''Approved audited Gitea organization CI runner provisioning.''),
      (GITEA_PROTECTED_PUBLICATION_PAIR_PROVISION,
        ''Approved audited provisioning of the fixed protected publication-runner pair.''),
      (GITEA_USER_CI_RUNNER_RECOVER, ''Approved audited recovery of the fixed user-scoped Gitea CI runner.''),
      (GITEA_ORG_CI_RUNNER_RECOVER,
        ''Approved audited task-network reclamation for the fixed organization Gitea CI runner.''),
      (AKVORADO_BOOTSTRAP_DEBIAN13_INSTALL, ''Approved audited Debian 13 Akvorado bootstrap.''),
      (NETBOX_OPENBAO_IMPORT_APPLY, ''Approved audited netbox-openbao credential import.''),
      (NMULTICLOUD_DEPLOY_RELEASE_MARKER_RECONCILE, ''Approved audited release-marker reconcile.''),
      (LINUX_PROXMOX_OCI_REGISTRY_PULL, ''Approved audited Proxmox OCI registry pull.''),
      (PROXBOX_API_RELEASE_IMAGES_RECOVER, ''Approved audited recovery of retained proxbox-api release images.''),
      (NETBOX_PRODUCTION_RESTART_RQ_WORKER, ''Approved audited production NetBox RQ worker restart.'')]"

definition PROTECTED_REJECTION_REASON :: "(string \<times> string) list" where
  "PROTECTED_REJECTION_REASON =
     [(NETBOX_STAGING_ROTATE_BACKEND_TOKEN, ''Rejected audited staging backend token rotation.''),
      (NETBOX_STAGING_DEPLOY_DNS_PAIR, ''Rejected audited staging DNS-pair deployment.''),
      (GITEA_PRODUCTION_UPGRADE_1_27_1, ''Rejected audited production Gitea 1.27.1 upgrade.''),
      (GITEA_RUNNER_REGISTER, ''Rejected audited Gitea runner registration.''),
      (GITEA_ORG_CI_RUNNER_PROVISION, ''Rejected audited Gitea organization CI runner provisioning.''),
      (GITEA_PROTECTED_PUBLICATION_PAIR_PROVISION,
        ''Rejected audited provisioning of the fixed protected publication-runner pair.''),
      (GITEA_USER_CI_RUNNER_RECOVER, ''Rejected audited recovery of the fixed user-scoped Gitea CI runner.''),
      (GITEA_ORG_CI_RUNNER_RECOVER,
        ''Rejected audited task-network reclamation for the fixed organization Gitea CI runner.''),
      (AKVORADO_BOOTSTRAP_DEBIAN13_INSTALL, ''Rejected audited Debian 13 Akvorado bootstrap.''),
      (NETBOX_OPENBAO_IMPORT_APPLY, ''Rejected audited netbox-openbao credential import.''),
      (NMULTICLOUD_DEPLOY_RELEASE_MARKER_RECONCILE, ''Rejected audited release-marker reconcile.''),
      (LINUX_PROXMOX_OCI_REGISTRY_PULL, ''Rejected audited Proxmox OCI registry pull.''),
      (PROXBOX_API_RELEASE_IMAGES_RECOVER, ''Rejected audited recovery of retained proxbox-api release images.''),
      (NETBOX_PRODUCTION_RESTART_RQ_WORKER, ''Rejected audited production NetBox RQ worker restart.'')]"

text \<open>The keys of \<open>_PROTECTED_CONTRACTS\<close>; the contract itself is data of its module.\<close>

definition PROTECTED_CONTRACTS :: "string list" where
  "PROTECTED_CONTRACTS = KEYCLOAK_IAM_UI_WRITE_PROCEDURE_NAMES @
     [NETBOX_STAGING_ROTATE_BACKEND_TOKEN, NETBOX_STAGING_DEPLOY_DNS_PAIR, GITEA_PRODUCTION_UPGRADE_1_27_1,
      GITEA_RUNNER_REGISTER, GITEA_ORG_CI_RUNNER_PROVISION, GITEA_PROTECTED_PUBLICATION_PAIR_PROVISION,
      GITEA_USER_CI_RUNNER_RECOVER, GITEA_ORG_CI_RUNNER_RECOVER, AKVORADO_BOOTSTRAP_DEBIAN13_INSTALL,
      NETBOX_OPENBAO_IMPORT_APPLY, NMULTICLOUD_DEPLOY_RELEASE_MARKER_RECONCILE, LINUX_PROXMOX_OCI_REGISTRY_PULL,
      PROXBOX_API_RELEASE_IMAGES_RECOVER, NETBOX_PRODUCTION_RESTART_RQ_WORKER]"

definition protected_contract_of :: "policy_env \<Rightarrow> string \<Rightarrow> handler_error + protected_contract" where
  "protected_contract_of pe name =
     (if name \<in> set PROTECTED_CONTRACTS then Inr (pe_contract pe name) else Inl (HandlerRaised ValueError))"

definition protected_label :: "string \<Rightarrow> string" where
  "protected_label name = (case map_of PROTECTED_LABELS name of Some l \<Rightarrow> l | None \<Rightarrow> ''Protected RPC procedure'')"


section \<open>The bound backend\<close>

definition backend_error :: "string \<Rightarrow> string \<Rightarrow> handler_error" where
  "backend_error name m = ValidationError ''backend'' (protected_label name @ m)"

definition require_concrete_protected_backend_id :: "policy_env \<Rightarrow> pyval \<Rightarrow> string \<Rightarrow> handler_error + int" where
  "require_concrete_protected_backend_id pe backend_id name =
     (case py_int (pe_rt pe) backend_id of
        Inl e \<Rightarrow> if e = TypeError \<or> e = ValueError
          then Inl (backend_error name '' requires an explicitly selected authoritative RPC backend.'') else Inl (HandlerRaised e)
      | Inr i \<Rightarrow>
          if i \<le> 0 then Inl (backend_error name '' requires an explicitly selected authoritative RPC backend.'')
          else rbind (protected_contract_of pe name) (\<lambda>c. case pc_backend_id c of
              Some b \<Rightarrow> if i \<noteq> b then Inl (backend_error name ('' requires authoritative RPC backend '' @ int_str b @ ''.'')) else Inr i
            | None \<Rightarrow> Inr i))"

definition protected_backend_target_sha256 ::
  "policy_env \<Rightarrow> pyval \<Rightarrow> string \<Rightarrow> backend_target option \<Rightarrow> handler_error + string" where
  "protected_backend_target_sha256 pe backend_id name given =
     rbind (protected_contract_of pe name) (\<lambda>c.
     rbind (require_concrete_protected_backend_id pe backend_id name) (\<lambda>i.
     rbind (case given of Some t \<Rightarrow> Inr (Some t) | None \<Rightarrow> raised (resolve_backend (pe_rt pe) (pe_backends pe) (VInt i))) (\<lambda>target.
     case target of
       None \<Rightarrow> Inl (backend_error name '' authoritative backend is unavailable.'')
     | Some t \<Rightarrow>
         rbind (case pc_backend_base_url c of
            Some url \<Rightarrow> if bt_url t \<noteq> url \<or> bt_verify_ssl t \<noteq> pc_backend_verify_ssl c
              then Inl (backend_error name '' authoritative backend URL/TLS policy does not match the immutable reviewed contract.'')
              else Inr ()
          | None \<Rightarrow> Inr ()) (\<lambda>_.
         Inr (stable_hash (pe_rt pe) (VDict [(''backend_id'', VInt i), (''url'', VStr (bt_url t)),
           (''verify_ssl'', VBool (bt_verify_ssl t))]))))))"


text \<open>\<open>_resolve_validated_protected_backend_target\<close> with a target already read: the same target.\<close>

definition resolve_validated_protected_backend_target ::
  "policy_env \<Rightarrow> pyval \<Rightarrow> string \<Rightarrow> backend_target option \<Rightarrow> handler_error + backend_target option" where
  "resolve_validated_protected_backend_target pe backend_id name given =
     rbind (require_concrete_protected_backend_id pe backend_id name) (\<lambda>i.
     rbind (case given of Some t \<Rightarrow> Inr (Some t) | None \<Rightarrow> raised (resolve_backend (pe_rt pe) (pe_backends pe) (VInt i))) (\<lambda>target.
     rbind (protected_backend_target_sha256 pe (VInt i) name target) (\<lambda>_. Inr target)))"


section \<open>The catalog policy\<close>

definition command_row :: "procedure_command \<Rightarrow> pyval" where
  "command_row c = VDict
     [(''sequence'', VInt (cmd_sequence c)), (''step_type'', VStr (cmd_step_type c)),
      (''device_cli_mode'', VStr (cmd_device_cli_mode c)), (''argv'', cmd_argv c),
      (''description'', VStr (cmd_description c)), (''condition_param'', VStr (cmd_condition_param c)),
      (''condition_negate'', VBool (cmd_condition_negate c)), (''for_each_param'', VStr (cmd_for_each_param c)),
      (''continue_on_error'', VBool (cmd_continue_on_error c)), (''render_mode'', VStr (cmd_render_mode c)),
      (''produces_var'', VStr (cmd_produces_var c)), (''capture_kind'', VStr (cmd_capture_kind c)),
      (''capture_expression'', VStr (cmd_capture_expression c))]"

definition strings :: "string list \<Rightarrow> pyval" where
  "strings ss = VList (map VStr ss)"

definition protected_procedure_policy :: "policy_env \<Rightarrow> protected_contract \<Rightarrow> rpc_procedure \<Rightarrow> pydict" where
  "protected_procedure_policy pe c p =
     [(''name'', VStr (proc_name p)), (''handler_id'', VStr (proc_handler_id p)), (''version'', VInt (proc_version p)),
      (''enabled'', VBool (proc_enabled p)), (''target_models'', strings (proc_target_models p)),
      (''effect'', VStr (proc_effect p)), (''timeout_seconds'', VInt (proc_timeout_seconds p)),
      (''approval_required'', VBool (proc_approval_required p)), (''transport_driver'', VStr (proc_transport_driver p)),
      (''transport_driver_chain'', strings (proc_transport_driver_chain p)),
      (''output_parser'', VStr (proc_output_parser p)), (''output_schema'', proc_output_schema p),
      (''command_contract_sha256'', canonical_sha256 (pe_rt pe)
         (VList (map command_row (sort_key cmd_sequence (proc_commands p)))))]
     @ (case pc_semantic_sha256 c of None \<Rightarrow> [] | Some h \<Rightarrow> [(''semantic_contract_sha256'', VStr h)])
     @ (if pc_transport_pinned c = None then [] else [(''transport_pinned'', VBool (proc_transport_pinned p))])"

definition AKVORADO_INSTALL_CAPABILITY_HASH :: string where
  "AKVORADO_INSTALL_CAPABILITY_HASH = ''b7a42b3e417541a9593726d64eb2159401dfcd8faffc807cdcfa1f39090afcfa''"

definition policy_error :: "string \<Rightarrow> handler_error" where
  "policy_error m = ValidationError ''procedure_id'' m"

definition require_protected_procedure_policy :: "policy_env \<Rightarrow> rpc_procedure \<Rightarrow> handler_error + unit" where
  "require_protected_procedure_policy pe p =
     (let name = proc_name p in
      rbind (protected_contract_of pe name) (\<lambda>c.
        if name = AKVORADO_BOOTSTRAP_DEBIAN13_INSTALL then
          (if \<not> proc_enabled p then
             Inl (policy_error ''Debian 13 Akvorado bootstrap catalog policy does not match the immutable reviewed contract.'')
           else rbind (raised (derive_command_contract_hash (pe_rt pe) (pe_tables pe) p)) (\<lambda>h.
             guard (h = AKVORADO_INSTALL_CAPABILITY_HASH)
               (policy_error ''Debian 13 Akvorado bootstrap catalog policy does not match the immutable reviewed contract.'')))
        else guard (py_eq (VDict (protected_procedure_policy pe c p)) (pc_policy c)
            \<and> py_eq (proc_params_schema p) (pc_params_schema c) \<and> py_eq (proc_result_schema p) (pc_result_schema c))
          (policy_error (protected_label name @ '' catalog policy does not match the immutable reviewed contract.''))))"


section \<open>Requests and approvals\<close>

text \<open>The columns and relations of an execution row that no event changes.\<close>

record exec_request =
  rq_procedure :: rpc_procedure
  rq_target_type_id :: int
  rq_target_id :: int
  rq_target_model_label :: string
  rq_target_display :: string
  rq_backend_id :: pyval
  rq_credential_references :: pyval
  rq_credential_authority :: pyval
  rq_approver_is_superuser :: bool

definition approval_identities_are_authorized :: "exec_request \<Rightarrow> aggregate \<Rightarrow> bool" where
  "approval_identities_are_authorized rq a =
     (let x = obj (store a); by = requested_by_id x; ok = approved_by_id x in
      by \<noteq> VNone \<and> ok \<noteq> VNone \<and>
      (py_str by \<noteq> py_str ok
       \<or> (proc_name (rq_procedure rq) \<noteq> NETBOX_PRODUCTION_RESTART_RQ_WORKER \<and> rq_approver_is_superuser rq)))"

definition allow_protected_self_approval :: "string \<Rightarrow> bool \<Rightarrow> bool" where
  "allow_protected_self_approval name is_superuser \<longleftrightarrow> name \<noteq> NETBOX_PRODUCTION_RESTART_RQ_WORKER \<and> is_superuser"

definition approval_target_display :: "policy_env \<Rightarrow> string \<Rightarrow> string" where
  "approval_target_display pe display =
     (if \<not> contains_secret_text display then display
      else ''keyed-display:'' @ pe_salted_hmac pe ''netbox_rpc.approval_target_display.v1'' display)"

definition policy_text :: "string \<Rightarrow> bool" where
  "policy_text s \<longleftrightarrow> s \<noteq> [] \<and> length s \<le> 200 \<and> list_all (\<lambda>c. (of_char c :: nat) \<ge> 32 \<and> (of_char c :: nat) \<noteq> 127) s"

definition credential_policy_reference :: "policy_env \<Rightarrow> exec_request \<Rightarrow> pydict \<Rightarrow> pyexc + string" where
  "credential_policy_reference pe rq normalized =
     rbind (ledger_normalized_params (pe_rt pe) normalized) (\<lambda>n.
       if truthy (rq_credential_references rq) then
         (let expected = ''credential-authority:'' @ canonical_hash (pe_rt pe) (rq_credential_authority rq) in
          if dget n ''credential_policy_ref'' \<noteq> VStr expected then Inl ValueError else Inr expected)
       else (let explicit = (case dget n ''ssh_policy_ref'' of VStr s \<Rightarrow> strip s | _ \<Rightarrow> []) in
         if policy_text explicit then Inr explicit
         else if dget n ''rpc_ssh_credential_pk'' \<noteq> VNone
         then Inr (take 255 (''device_credential:'' @ py_str (dget n ''rpc_ssh_credential_pk'')))
         else Inr (take 255 (''procedure_effect:'' @ proc_effect (rq_procedure rq)))))"

definition target_snapshot_hash :: "policy_env \<Rightarrow> exec_request \<Rightarrow> string" where
  "target_snapshot_hash pe rq = stable_hash (pe_rt pe) (VDict
     [(''target_type_id'', VInt (rq_target_type_id rq)), (''target_id'', VInt (rq_target_id rq)),
      (''target_model_label'', VStr (rq_target_model_label rq)),
      (''target_display'', VStr (approval_target_display pe (rq_target_display rq)))])"

definition approval_protected_payload ::
  "policy_env \<Rightarrow> exec_request \<Rightarrow> aggregate \<Rightarrow> pydict \<Rightarrow> backend_target option \<Rightarrow> handler_error + pydict" where
  "approval_protected_payload pe rq a normalized target =
     (let p = rq_procedure rq; rt = pe_rt pe in
      rbind (raised (ledger_normalized_params rt normalized)) (\<lambda>n.
      rbind (protected_contract_of pe (proc_name p)) (\<lambda>c.
      rbind (protected_backend_target_sha256 pe (rq_backend_id rq) (proc_name p) target) (\<lambda>backend_sha.
      rbind (raised (credential_policy_reference pe rq n)) (\<lambda>policy_ref.
        Inr [(''procedure_id'', VInt (proc_pk p)), (''procedure_version'', VStr (int_str (proc_version p))),
             (''procedure_policy_sha256'', canonical_sha256 rt (VDict (protected_procedure_policy pe c p))),
             (''params_schema_sha256'', canonical_sha256 rt (proc_params_schema p)),
             (''result_schema_sha256'', canonical_sha256 rt (proc_result_schema p)),
             (''effect'', VStr (proc_effect p)), (''target_type_id'', VInt (rq_target_type_id rq)),
             (''target_id'', VInt (rq_target_id rq)), (''target_snapshot_hash'', VStr (target_snapshot_hash pe rq)),
             (''normalized_params'', VDict n),
             (''command_fingerprint'', case dget n ''command_fingerprint'' of VDict f \<Rightarrow> VDict f | _ \<Rightarrow> VDict []),
             (''backend_id'', rq_backend_id rq), (''backend_target_sha256'', VStr backend_sha),
             (''credential_policy_ref'', VStr policy_ref), (''requested_by_id'', requested_by_id (obj (store a)))])))))"


section \<open>Revalidation before dispatch\<close>

text \<open>\<open>hmac.compare_digest\<close> on two texts is equality.\<close>

definition require_approved_backend_target_before_io ::
  "policy_env \<Rightarrow> exec_request \<Rightarrow> aggregate \<Rightarrow> backend_target option \<Rightarrow> handler_error + unit" where
  "require_approved_backend_target_before_io pe rq a target =
     (let name = proc_name (rq_procedure rq);
          expected = (case approval a of None \<Rightarrow> [] | Some s \<Rightarrow> ap_backend_target_sha256 s);
          changed = RPCExecutionError (protected_label name @ '' backend binding changed after approval.'') ''RPC_APPROVAL_INVALIDATED''
      in case protected_backend_target_sha256 pe (rq_backend_id rq) name target of
           Inl (ValidationError _ _) \<Rightarrow> Inl changed
         | Inl e \<Rightarrow> Inl e
         | Inr current \<Rightarrow> guard (length expected = 64 \<and> length current = 64 \<and> expected = current) changed)"

definition require_current_protected_approval ::
  "policy_env \<Rightarrow> exec_request \<Rightarrow> aggregate \<Rightarrow> pydict \<Rightarrow> backend_target option \<Rightarrow> handler_error + unit" where
  "require_current_protected_approval pe rq a normalized target =
     (let name = proc_name (rq_procedure rq) in
      rbind (case require_protected_procedure_policy pe (rq_procedure rq) of
          Inl (ValidationError _ _) \<Rightarrow> Inl (RPCExecutionError (protected_label name @ '' procedure policy changed after approval.'')
            ''RPC_APPROVAL_INVALIDATED'')
        | m \<Rightarrow> m) (\<lambda>_.
      rbind (guard (approval_identities_are_authorized rq a)
        (RPCExecutionError (protected_label name @ '' requires authorized approval identities.'') ''RPC_APPROVAL_REQUIRED'')) (\<lambda>_.
      rbind (approval_protected_payload pe rq a normalized target) (\<lambda>current.
        guard (case approval a of None \<Rightarrow> False | Some s \<Rightarrow> matches_current (pe_rt pe) s current)
          (RPCExecutionError (protected_label name @ '' approval no longer matches the execution.'') ''RPC_APPROVAL_INVALIDATED'')))))"

end
