(* ===== verification/ScopeFence.thy ===== *)
theory ScopeFence
  imports HandlerError
begin

text \<open>
  The durable fence of a reusable Gitea registration token: \<open>RPCGiteaRunnerScopeFence\<close> of
  \<open>models.py\<close> and its three transactions in \<open>application/command_handlers.py\<close>
  (\<open>_reserve_gitea_runner_scope\<close>, \<open>_block_gitea_runner_scope\<close>,
  \<open>_record_gitea_runner_response\<close>).

  The state is the fence rows by canonical scope and the executions by primary key, each
  with the object its worker holds. Every transaction locks the fence row, so the
  transactions of different workers interleave but never overlap. The JSON schemas of the
  two resultult contracts are data of the contract modules and an argument here.
\<close>

section \<open>State\<close>

record scope_fence =
  fence_state :: string
  blocking_execution_id :: "int option"
  reconciliation_execution_id :: "int option"
  takeover_generation :: int
  expected_token_sha256 :: string
  last_reset_state :: string
  last_prior_token_id :: pyval
  last_replacement_token_id :: pyval
  last_prior_active_sha256 :: string
  last_updated :: "datetime option"

record fence_world =
  fences :: "string \<Rightarrow> scope_fence option"
  execs :: "int \<Rightarrow> aggregate option"

definition STATE_CLEAR :: string where "STATE_CLEAR = ''clear''"
definition STATE_PENDING :: string where "STATE_PENDING = ''pending''"
definition STATE_BLOCKED :: string where "STATE_BLOCKED = ''blocked''"

text \<open>The two check constraints of the table; a row that violates one is not written.\<close>

definition fence_constraints :: "scope_fence \<Rightarrow> bool" where
  "fence_constraints f \<longleftrightarrow>
     ((fence_state f = STATE_CLEAR \<and> blocking_execution_id f = None \<and> expected_token_sha256 f = [])
      \<or> (fence_state f \<in> {STATE_PENDING, STATE_BLOCKED} \<and> blocking_execution_id f \<noteq> None))
     \<and> (reconciliation_execution_id f = None \<or> fence_state f = STATE_BLOCKED)"

definition digest_pattern :: "string \<Rightarrow> bool" where
  "digest_pattern s \<longleftrightarrow> length s = 64 \<and> list_all is_lower_hex s"

definition fence_clean :: "scope_fence \<Rightarrow> (string \<times> string) list" where
  "fence_clean f =
     (if fence_state f = STATE_CLEAR then
        (if blocking_execution_id f \<noteq> None then
           [(''blocking_execution'', ''A clear Gitea runner scope cannot retain a blocking execution.'')] else [])
        @ (if expected_token_sha256 f \<noteq> [] \<and> digest_pattern (expected_token_sha256 f) then
           [(''expected_token_sha256'', ''A clear Gitea runner scope cannot retain an expected token digest.'')] else [])
      else if blocking_execution_id f = None then
        [(''blocking_execution'', ''A pending or blocked Gitea runner scope requires its execution.'')] else [])
     @ (if expected_token_sha256 f \<noteq> [] \<and> \<not> digest_pattern (expected_token_sha256 f) then
          [(''expected_token_sha256'', ''Enter one lowercase SHA-256 digest.'')] else [])
     @ (if last_prior_active_sha256 f \<noteq> [] \<and> \<not> digest_pattern (last_prior_active_sha256 f) then
          [(''last_prior_active_sha256'', ''Enter one lowercase SHA-256 digest.'')] else [])"

text \<open>\<open>fence.save(...)\<close>: the time stamp is renewed and the constraints are checked.\<close>

definition save_fence :: "datetime \<Rightarrow> string \<Rightarrow> scope_fence \<Rightarrow> fence_world \<Rightarrow> handler_error + fence_world" where
  "save_fence now scope f w =
     (if fence_constraints f then Inr (w\<lparr>fences := (fences w)(scope \<mapsto> f\<lparr>last_updated := Some now\<rparr>)\<rparr>) else Inl IntegrityError)"


section \<open>Contracts\<close>

definition JS_SAFE_INTEGER_MAX :: int where "JS_SAFE_INTEGER_MAX = 9007199254740991"

definition FENCE_UNKNOWN_SHA256 :: string where "FENCE_UNKNOWN_SHA256 = replicate 64 CHR ''0''"

text \<open>Both contracts wait for the same thirty minutes.\<close>

definition RECONCILIATION_QUIESCENCE_SECONDS :: int where "RECONCILIATION_QUIESCENCE_SECONDS = 1800"

definition uses_org_contract :: "string \<Rightarrow> bool" where
  "uses_org_contract procedure = (procedure = GITEA_ORG_CI_RUNNER_PROVISION)"

definition gitea_runner_start_operation :: "string \<Rightarrow> string" where
  "gitea_runner_start_operation procedure =
     (if procedure = GITEA_ORG_CI_RUNNER_PROVISION then ''provision'' else ''register'')"

definition SETTLED_STATUSES :: "string list" where
  "SETTLED_STATUSES = [''cancelled'', ''expired'', ''failed'', ''rejected'', ''succeeded'']"

text \<open>The committed status of an execution, as a fresh read of its row gives it.\<close>

definition stored_status :: "fence_world \<Rightarrow> int \<Rightarrow> string option" where
  "stored_status w e = map_option (\<lambda>a. status_value (status (row (store a)))) (execs w e)"

definition gitea_runner_fence_is_quiescent :: "datetime \<Rightarrow> fence_world \<Rightarrow> scope_fence \<Rightarrow> bool" where
  "gitea_runner_fence_is_quiescent now w f = (case blocking_execution_id f of
       None \<Rightarrow> False
     | Some b \<Rightarrow> (case stored_status w b of
         None \<Rightarrow> False
       | Some st \<Rightarrow>
           (st \<in> set SETTLED_STATUSES \<or> (fence_state f = ''pending'' \<and> st = ''running''))
           \<and> (case last_updated f of
                None \<Rightarrow> False
              | Some t \<Rightarrow> dt_offset t \<noteq> None
                  \<and> dt_instant t \<le> dt_instant now - 1000000 * RECONCILIATION_QUIESCENCE_SECONDS)))"


section \<open>Reserving a scope\<close>

definition opt_id :: "int option \<Rightarrow> pyval" where
  "opt_id i = (case i of None \<Rightarrow> VNone | Some n \<Rightarrow> VInt n)"

text \<open>The fence still is what the parameters were normalized against, one generation later.\<close>

definition fence_unchanged :: "scope_fence \<Rightarrow> pydict \<Rightarrow> bool" where
  "fence_unchanged f n \<longleftrightarrow>
     fence_state f = str_or (dget n ''fence_state'') []
     \<and> py_eq (opt_id (blocking_execution_id f)) (dget n ''fence_execution_id'')
     \<and> (if expected_token_sha256 f = [] then FENCE_UNKNOWN_SHA256 else expected_token_sha256 f)
         = str_or (dget n ''fence_expected_sha256'') []
     \<and> (case dget n ''fence_generation'' of
          VInt g \<Rightarrow> g = takeover_generation f + 1 \<and> g \<le> JS_SAFE_INTEGER_MAX
        | _ \<Rightarrow> False)"

text \<open>A fresh object of a locked execution row: the projected columns come from the row.\<close>

definition locked_store :: "exec_store \<Rightarrow> exec_store" where
  "locked_store s = s\<lparr>obj := ProjectionState.extend (row s) (ProjectionState.more (obj s))\<rparr>"

text \<open>
  The lost worker's execution is failed through an object of its own; the object the worker
  holds keeps its old columns.
\<close>

definition fail_lost_worker :: "call_env \<Rightarrow> int \<Rightarrow> fence_world \<Rightarrow> handler_error + fence_world" where
  "fail_lost_worker env b w = (case execs w b of
       None \<Rightarrow> Inl (RPCExecutionError ''Gitea runner blocking execution is unavailable.'' ''RPC_SCOPE_FENCE_CHANGED'')
     | Some a \<Rightarrow>
         (let st = status_value (status (row (store a))) in
          if st = ''running'' then
            (case mark_execution_failed (env_rt env) (env_itf env 0) (env_now env) ''ExecutionFailed''
                 ''Gitea runner worker was lost after scope reservation; reconciliation is required.''
                 ''RPC_RUNNER_WORKER_LOST'' (locked_store (store a)) of
               Inl err \<Rightarrow> Inl (HandlerAggregate (AggStore err))
             | Inr s \<Rightarrow> Inr (w\<lparr>execs := (execs w)(b \<mapsto> a\<lparr>store := s\<lparr>obj := obj (store a)\<rparr>\<rparr>)\<rparr>))
          else if st \<in> set SETTLED_STATUSES then Inr w
          else Inl (RPCExecutionError ''Gitea runner blocking execution is not recoverable.'' ''RPC_SCOPE_FENCE_BUSY'')))"

definition reserve_start :: "int \<Rightarrow> scope_fence \<Rightarrow> handler_error + scope_fence" where
  "reserve_start e f =
     (if fence_state f \<noteq> STATE_CLEAR \<or> blocking_execution_id f \<noteq> None
      then Inl (RPCExecutionError ''Gitea runner token scope is already fenced.'' ''RPC_SCOPE_FENCE_BLOCKED'')
      else Inr (f\<lparr>fence_state := STATE_PENDING, blocking_execution_id := Some e,
        reconciliation_execution_id := None, expected_token_sha256 := []\<rparr>))"

definition reserve_reconcile ::
  "call_env \<Rightarrow> int \<Rightarrow> scope_fence \<Rightarrow> fence_world \<Rightarrow> handler_error + (scope_fence \<times> fence_world)" where
  "reserve_reconcile env e f w = (case blocking_execution_id f of
       None \<Rightarrow> Inl (RPCExecutionError ''Gitea runner token scope has no blocked operation.'' ''RPC_SCOPE_FENCE_CLEAR'')
     | Some b \<Rightarrow>
         if fence_state f \<notin> {STATE_PENDING, STATE_BLOCKED} \<or> reconciliation_execution_id f \<noteq> None
         then Inl (RPCExecutionError ''Gitea runner token scope has no blocked operation.'' ''RPC_SCOPE_FENCE_CLEAR'')
         else if \<not> gitea_runner_fence_is_quiescent (env_now env) w f
         then Inl (RPCExecutionError ''Gitea runner scope is still inside its remote-operation safety window.''
           ''RPC_SCOPE_FENCE_BUSY'')
         else rbind (if fence_state f = STATE_PENDING then fail_lost_worker env b w else Inr w) (\<lambda>w'.
           Inr (f\<lparr>fence_state := STATE_BLOCKED, reconciliation_execution_id := Some e\<rparr>, w')))"

definition reserve_gitea_runner_scope ::
  "call_env \<Rightarrow> int \<Rightarrow> string \<Rightarrow> pydict \<Rightarrow> fence_world \<Rightarrow> handler_error + fence_world" where
  "reserve_gitea_runner_scope env e procedure n w =
     (let operation = str_or (dget n ''operation'') []; scope = str_or (dget n ''gitea_scope'') [] in
      case fences w scope of
        None \<Rightarrow> Inl (RPCExecutionError ''Gitea runner scope fence is unavailable.'' ''RPC_SCOPE_FENCE_UNAVAILABLE'')
      | Some f \<Rightarrow>
          rbind (guard (fence_unchanged f n)
            (RPCExecutionError ''Gitea runner scope fence changed after approval.'' ''RPC_SCOPE_FENCE_CHANGED'')) (\<lambda>_.
          rbind (if operation = gitea_runner_start_operation procedure then map_sum id (\<lambda>g. (g, w)) (reserve_start e f)
                 else if operation = ''reconcile'' then reserve_reconcile env e f w
                 else Inl (RPCExecutionError ''Gitea runner lifecycle operation is invalid.'' ''RPC_PARAM_INVALID'')) (\<lambda>(g, w').
            save_fence (env_now env) scope (g\<lparr>takeover_generation := takeover_generation f + 1\<rparr>) w')))"


section \<open>Blocking and completing\<close>

text \<open>The checks of generation and ownership that both later transactions make on the locked row.\<close>

definition check_ownership :: "int \<Rightarrow> string \<Rightarrow> string \<Rightarrow> pydict \<Rightarrow> scope_fence \<Rightarrow> handler_error + unit" where
  "check_ownership e start_operation operation n f =
     rbind (guard (py_eq (VInt (takeover_generation f)) (dget n ''fence_generation''))
       (RPCExecutionError ''Gitea runner scope fence generation differs.'' ''RPC_SCOPE_FENCE_CHANGED'')) (\<lambda>_.
     rbind (guard (\<not> (operation = start_operation
         \<and> (blocking_execution_id f \<noteq> Some e \<or> reconciliation_execution_id f \<noteq> None)))
       (RPCExecutionError ''Gitea runner scope fence ownership differs.'' ''RPC_SCOPE_FENCE_CHANGED'')) (\<lambda>_.
       guard (\<not> (operation = ''reconcile'' \<and> reconciliation_execution_id f \<noteq> Some e))
         (RPCExecutionError ''Gitea runner reconciliation fence ownership differs.'' ''RPC_SCOPE_FENCE_CHANGED'')))"

definition block_gitea_runner_scope ::
  "call_env \<Rightarrow> int \<Rightarrow> string \<Rightarrow> pydict \<Rightarrow> fence_world \<Rightarrow> handler_error + fence_world" where
  "block_gitea_runner_scope env e procedure n w =
     (let operation = str_or (dget n ''operation'') []; scope = str_or (dget n ''gitea_scope'') [] in
      case fences w scope of
        None \<Rightarrow> Inl DoesNotExist
      | Some f \<Rightarrow>
          rbind (check_ownership e (gitea_runner_start_operation procedure) operation n f) (\<lambda>_.
            save_fence (env_now env) scope
              (if operation = ''reconcile'' then f\<lparr>fence_state := STATE_BLOCKED, reconciliation_execution_id := None\<rparr>
               else f\<lparr>fence_state := STATE_BLOCKED\<rparr>) w))"

text \<open>The result of a response that matches the closed contract.\<close>

definition valid_runner_result ::
  "json_validator \<Rightarrow> (bool \<Rightarrow> pyval) \<Rightarrow> string \<Rightarrow> pydict \<Rightarrow> pydict \<Rightarrow> pydict option" where
  "valid_runner_result validate schemas procedure n response = (case dget response ''result'' of
       VDict res \<Rightarrow>
         if set (map fst response) = {''ok'', ''result''}
           \<and> is_bool (dget response ''ok'') \<and> dget res ''ok'' = dget response ''ok''
           \<and> validate (VDict res) (schemas (uses_org_contract procedure)) = None
           \<and> dget res ''operation'' = VStr (str_or (dget n ''operation'') [])
           \<and> dget res ''scope'' = VStr (str_or (dget n ''scope'') [])
           \<and> py_eq (dget res ''fence_execution_id'') (dget n ''fence_execution_id'')
           \<and> py_eq (dget res ''fence_generation'') (dget n ''fence_generation'')
           \<and> (uses_org_contract procedure \<longrightarrow> py_eq (dget res ''lane'') (dget n ''lane''))
         then Some res else None
     | _ \<Rightarrow> None)"

definition TOKENLESS_STAGES :: "string list" where
  "TOKENLESS_STAGES = [''generate_token'', ''preconditions'', ''docker'', ''image'', ''config'']"

definition clear_without_token :: "string \<Rightarrow> string \<Rightarrow> pydict \<Rightarrow> bool" where
  "clear_without_token start_operation operation res \<longleftrightarrow>
     operation = start_operation
     \<and> (\<exists>stage \<in> set TOKENLESS_STAGES. dget res ''stage'' = VStr stage)
     \<and> dget res ''token_sha256'' = VNone
     \<and> dget res ''token_reset_required'' = VBool False"

definition reset_proven :: "pydict \<Rightarrow> bool" where
  "reset_proven res \<longleftrightarrow> dget res ''token_invalidated'' = VBool True \<and> dget res ''token_reset_required'' = VBool False"

definition completed_fence :: "string \<Rightarrow> string \<Rightarrow> pydict \<Rightarrow> scope_fence \<Rightarrow> scope_fence" where
  "completed_fence start_operation operation res f =
     (let f1 = (case dget res ''token_sha256'' of
                 VStr t \<Rightarrow> if operation = start_operation then f\<lparr>expected_token_sha256 := t\<rparr> else f
               | _ \<Rightarrow> f);
          f2 = f1\<lparr>last_reset_state := str_or (dget res ''reset_state'') [],
                 last_prior_token_id := dget res ''prior_token_id'',
                 last_replacement_token_id := dget res ''replacement_token_id'',
                 last_prior_active_sha256 := str_or (dget res ''prior_active_sha256'') []\<rparr>
      in if clear_without_token start_operation operation res \<or> reset_proven res then
           f2\<lparr>fence_state := STATE_CLEAR, blocking_execution_id := None, reconciliation_execution_id := None,
              expected_token_sha256 := []\<rparr>
         else if operation = ''reconcile'' then f2\<lparr>fence_state := STATE_BLOCKED, reconciliation_execution_id := None\<rparr>
         else f2\<lparr>fence_state := STATE_BLOCKED\<rparr>)"

text \<open>An unhashable stage cannot be looked up in a set.\<close>

definition stage_hashable :: "string \<Rightarrow> string \<Rightarrow> pydict \<Rightarrow> bool" where
  "stage_hashable start_operation operation res \<longleftrightarrow> (operation = start_operation \<longrightarrow> py_hashable (dget res ''stage''))"

definition record_gitea_runner_response ::
  "call_env \<Rightarrow> (bool \<Rightarrow> pyval) \<Rightarrow> int \<Rightarrow> string \<Rightarrow> pydict \<Rightarrow> pydict \<Rightarrow> fence_world \<Rightarrow> handler_error + fence_world" where
  "record_gitea_runner_response env schemas e procedure n response w =
     (let operation = str_or (dget n ''operation'') []; scope = str_or (dget n ''gitea_scope'') [];
          start_operation = gitea_runner_start_operation procedure
      in case valid_runner_result (env_validate env) schemas procedure n response of
           None \<Rightarrow> Inl (RPCExecutionError ''Gitea runner backend response does not match its closed contract.''
             ''RPC_BACKEND_BAD_RESPONSE'')
         | Some res \<Rightarrow>
             rbind (guard (\<not> (operation = ''reconcile'' \<and> \<not> py_eq (dget res ''token_sha256'') (dget n ''fence_expected_sha256'')))
               (RPCExecutionError ''Gitea runner reconciliation proof does not match the scope fence.'' ''RPC_SCOPE_FENCE_CHANGED'')) (\<lambda>_.
             (case fences w scope of
                None \<Rightarrow> Inl DoesNotExist
              | Some f \<Rightarrow>
                  rbind (check_ownership e start_operation operation n f) (\<lambda>_.
                  rbind (guard (stage_hashable start_operation operation res) (HandlerRaised TypeError)) (\<lambda>_.
                  rbind (save_fence (env_now env) scope (completed_fence start_operation operation res f) w) (\<lambda>w'.
                  (case execs w' e of
                     None \<Rightarrow> Inl DoesNotExist
                   | Some a \<Rightarrow>
                       (case agg_record_backend_response env response a of
                          Inl err \<Rightarrow> Inl (HandlerAggregate err)
                        | Inr a' \<Rightarrow> Inr (w'\<lparr>execs := (execs w')(e \<mapsto> a')\<rparr>)))))))))"

end
