(* ===== verification/Dispatch.thy ===== *)
theory Dispatch
  imports ProtectedPolicy ScopeFence DispatchLease
begin

text \<open>
  The worker side of \<open>application/command_handlers.py\<close>: the locked claim of a queued
  execution, the resolution and revalidation of its backend, normalization, the dispatch
  lease, the backend call and the handling of every failure (\<open>run_execution\<close>), and the
  expiry of overdue restarts.

  The per-procedure normalizers, the credential authority and the HTTP call to the backend
  are parameters. A run returns the exception it ends with, the new state and the backend
  calls it made. Each call of an aggregate operation has its own environment.
\<close>

record dispatch_env =
  de_policy :: policy_env
  de_calls :: "nat \<Rightarrow> call_env"
  de_integration_enabled :: bool
  de_claim_procedure :: rpc_procedure
  de_queued_at :: "datetime option"
  de_org_params_schema :: pyval
  de_lanes :: "(string \<times> pyval) list"
  de_schemas :: "bool \<Rightarrow> pyval"
  de_normalize :: "exec_request \<Rightarrow> handler_error + pydict"
  de_reference_guard :: "string \<Rightarrow> backend_target option \<Rightarrow> pydict \<Rightarrow> handler_error + unit"
  de_reader :: manifest_reader
  de_network :: backend_network
  de_clock :: int
  de_signature :: ed25519
  de_lease_env :: lease_env
  de_nonce :: string
  de_backend :: "backend_target \<Rightarrow> SignedDispatchLease option \<Rightarrow> handler_error + pydict"
  de_exc_text :: "handler_error \<Rightarrow> string"

type_synonym backend_call = "backend_target \<times> SignedDispatchLease option \<times> pydict"

abbreviation de_rt :: "dispatch_env \<Rightarrow> python_rt" where
  "de_rt d \<equiv> pe_rt (de_policy d)"

abbreviation aggregated :: "agg_error + 'a \<Rightarrow> handler_error + 'a" where
  "aggregated m \<equiv> map_sum HandlerAggregate id m"


section \<open>Overdue restarts\<close>

definition CONTROL_QUEUE_MAX_AGE_SECONDS :: int where "CONTROL_QUEUE_MAX_AGE_SECONDS = 600"

text \<open>The current time is taken in the zone of the queue time, so the subtraction is defined.\<close>

definition restart_queue_is_stale :: "string \<Rightarrow> datetime option \<Rightarrow> datetime \<Rightarrow> bool" where
  "restart_queue_is_stale name queued_at now =
     (name = NETBOX_PRODUCTION_RESTART_RQ_WORKER \<and>
      (case queued_at of
         None \<Rightarrow> True
       | Some t \<Rightarrow> dt_instant now - dt_instant t \<ge> 1000000 * CONTROL_QUEUE_MAX_AGE_SECONDS))"

definition restart_queue_deadline :: "datetime option \<Rightarrow> handler_error + datetime" where
  "restart_queue_deadline queued_at = (case queued_at of
       None \<Rightarrow> Inl (HandlerRaised ValueError)
     | Some t \<Rightarrow> (case dt_add_seconds (nat CONTROL_QUEUE_MAX_AGE_SECONDS) t of
         None \<Rightarrow> Inl (HandlerRaised OverflowError) | Some u \<Rightarrow> Inr u))"

definition STALE_RESTART_MESSAGE :: string where
  "STALE_RESTART_MESSAGE = ''The production NetBox RQ worker restart exceeded the 10-minute queue age and was not dispatched.''"

definition locked_aggregate :: "aggregate \<Rightarrow> aggregate" where
  "locked_aggregate a = a\<lparr>store := locked_store (store a)\<rparr>"

definition expire_stale_restart_execution ::
  "call_env \<Rightarrow> string \<Rightarrow> datetime option \<Rightarrow> aggregate \<Rightarrow> handler_error + (bool \<times> aggregate)" where
  "expire_stale_restart_execution env name queued_at a =
     (let locked = locked_aggregate a in
      if agg_status locked \<noteq> QUEUED \<or> \<not> restart_queue_is_stale name queued_at (env_now env) then Inr (False, a)
      else rbind (aggregated (fail env STALE_RESTART_MESSAGE ''RPC_CONTROL_QUEUE_STALE'' locked)) (\<lambda>b. Inr (True, b)))"


section \<open>Claiming\<close>

definition activation_unavailable_reason :: "(string \<times> pyval) list \<Rightarrow> pydict \<Rightarrow> string option" where
  "activation_unavailable_reason lanes ps = (case dget ps ''lane'' of
       VStr lane \<Rightarrow> if map_of lanes lane = Some (VBool False)
         then Some (lane @ '' host generation is unavailable until N-MultiCloud/nmulticloud-context#411 publishes a reviewed ''
           @ ''content-addressed provision-and-prove boundary.'')
         else None
     | _ \<Rightarrow> None)"

definition INTERNAL_PARAM_KEYS :: "string list" where
  "INTERNAL_PARAM_KEYS = [''_intent'', ''_intent_name'', ''_timeout_seconds_snapshot'']"

definition declared_properties :: "pyval \<Rightarrow> string list" where
  "declared_properties schema = (case schema of
       VDict s \<Rightarrow> (case dget s ''properties'' of VDict ps \<Rightarrow> map fst ps | _ \<Rightarrow> [])
     | _ \<Rightarrow> [])"

text \<open>The message and code the claim fails with, if any.\<close>

definition reject_invalid_gitea_org_claim :: "dispatch_env \<Rightarrow> aggregate \<Rightarrow> (string \<times> string) option" where
  "reject_invalid_gitea_org_claim d a =
     (if proc_name (de_claim_procedure d) \<noteq> GITEA_ORG_CI_RUNNER_PROVISION then None
      else (let closed = (''Gitea organization CI runner params do not match the closed schema.'', ''RPC_PARAM_INVALID'') in
        case params (obj (store a)) of
          VDict ps \<Rightarrow>
            if list_ex (\<lambda>(k, _). k \<notin> set (declared_properties (de_org_params_schema d)) \<and> k \<notin> set INTERNAL_PARAM_KEYS) ps
            then Some closed
            else (let raw = filter (\<lambda>(k, _). k \<notin> set INTERNAL_PARAM_KEYS) ps in
              if env_validate (de_calls d 0) (VDict raw) (de_org_params_schema d) \<noteq> None then Some closed
              else map_option (\<lambda>m. (m, ''RPC_HOST_GENERATION_UNAVAILABLE'')) (activation_unavailable_reason (de_lanes d) raw))
        | _ \<Rightarrow> Some closed))"

definition reject_invalid_protected_claim :: "dispatch_env \<Rightarrow> exec_request \<Rightarrow> aggregate \<Rightarrow> handler_error + (string \<times> string) option" where
  "reject_invalid_protected_claim d rq a =
     (let p = de_claim_procedure d in
      if proc_name p \<notin> set PROTECTED_APPROVAL_PROCEDURE_NAMES then Inr None
      else (case require_protected_procedure_policy (de_policy d) p of
          Inl (ValidationError _ _) \<Rightarrow>
            Inr (Some (protected_label (proc_name p) @ '' catalog policy changed after approval.'', ''RPC_APPROVAL_INVALIDATED''))
        | Inl e \<Rightarrow> Inl e
        | Inr _ \<Rightarrow> Inr (if approval_identities_are_authorized rq a then None
            else Some (protected_label (proc_name p)
              @ '' requires a destructive, approval-required procedure and authorized approval identities.'', ''RPC_APPROVAL_REQUIRED''))))"

definition claim_if_procedure_enabled :: "dispatch_env \<Rightarrow> exec_request \<Rightarrow> aggregate \<Rightarrow> handler_error + aggregate" where
  "claim_if_procedure_enabled d rq a =
     (let env = de_calls d 0; failing = (\<lambda>(m, c). aggregated (fail env m c a)) in
      if agg_status a \<noteq> QUEUED
      then Inl (HandlerAggregate (RPCExecutionAggregateError ''Only a queued execution can be claimed by a worker.''))
      else if \<not> proc_enabled (de_claim_procedure d)
      then failing (''The RPC procedure for this execution has been disabled; execution not dispatched.'', ''RPC_PROCEDURE_DISABLED'')
      else if restart_queue_is_stale (proc_name (de_claim_procedure d)) (de_queued_at d) (env_now env)
      then failing (STALE_RESTART_MESSAGE, ''RPC_CONTROL_QUEUE_STALE'')
      else (case reject_invalid_gitea_org_claim d a of
          Some r \<Rightarrow> failing r
        | None \<Rightarrow> rbind (reject_invalid_protected_claim d rq a) (\<lambda>r. case r of
              Some f \<Rightarrow> failing f
            | None \<Rightarrow> aggregated (start env a))))"


section \<open>Backend\<close>

definition select_backend :: "dispatch_env \<Rightarrow> exec_request \<Rightarrow> pyval \<Rightarrow> handler_error + pyval" where
  "select_backend d rq backend_pk =
     (let name = proc_name (rq_procedure rq) in
      if name \<notin> set PROTECTED_APPROVAL_PROCEDURE_NAMES
      then Inr (if backend_pk \<noteq> VNone then backend_pk else rq_backend_id rq)
      else rbind (require_concrete_protected_backend_id (de_policy d) (rq_backend_id rq) name) (\<lambda>i.
        rbind (if backend_pk = VNone then Inr () else rbind (raised (py_int (de_rt d) backend_pk)) (\<lambda>j.
          guard (j = i) (HandlerRaised ValueError))) (\<lambda>_. Inr (VInt i))))"

text \<open>The errors of the selection that are turned into a failed execution.\<close>

fun binding_error :: "handler_error \<Rightarrow> bool" where
  "binding_error (ValidationError _ _) = True"
| "binding_error (HandlerRaised e) = (e = TypeError \<or> e = ValueError)"
| "binding_error _ = False"

definition verify_backend_capability :: "dispatch_env \<Rightarrow> rpc_procedure \<Rightarrow> backend_target \<Rightarrow> handler_error + unit" where
  "verify_backend_capability d p t =
     rbind (raised (verify_procedure_capability (de_rt d) (pe_tables (de_policy d)) p
       (fst (fetch_backend_capabilities (de_reader d) (de_network d) (de_clock d) False (Some t) [])))) (\<lambda>st.
     guard (\<not> (st = MISMATCH \<or> (proc_name p \<in> set EXPLICIT_BACKEND_CAPABILITY_PROCEDURE_NAMES \<and> st \<noteq> COMPATIBLE)))
       (ValidationError ''procedure_id'' (''The selected backend does not advertise a compatible ''
          @ ''capability for this procedure (handler/version/effect/contract mismatch).'')))"

definition protected_target :: "dispatch_env \<Rightarrow> exec_request \<Rightarrow> aggregate \<Rightarrow> pyval \<Rightarrow> backend_target \<Rightarrow> handler_error + backend_target" where
  "protected_target d rq a selector t =
     (let name = proc_name (rq_procedure rq) in
      rbind (case resolve_validated_protected_backend_target (de_policy d) selector name (Some t) of
          Inl (ValidationError _ _) \<Rightarrow> Inl (RPCExecutionError (protected_label name @ '' backend binding is invalid.'') ''RPC_BACKEND_BINDING_INVALID'')
        | m \<Rightarrow> m) (\<lambda>_.
      rbind (require_approved_backend_target_before_io (de_policy d) rq a (Some t)) (\<lambda>_. Inr t)))"

definition resolve_dispatch_target ::
  "dispatch_env \<Rightarrow> exec_request \<Rightarrow> aggregate \<Rightarrow> pyval \<Rightarrow> handler_error + backend_target" where
  "resolve_dispatch_target d rq a selector =
     (let p = rq_procedure rq in
      case resolve_backend (de_rt d) (pe_backends (de_policy d)) selector of
        Inl _ \<Rightarrow> Inl (RPCExecutionError ''RPC backend resolution failed; execution not dispatched.'' ''RPC_BACKEND_RESOLUTION_FAILED'')
      | Inr None \<Rightarrow> Inl (RPCExecutionError ''No NMSBackend configured for RPC execution.'' ''RPC_BACKEND_NOT_CONFIGURED'')
      | Inr (Some t) \<Rightarrow>
          rbind (if proc_name p \<in> set PROTECTED_APPROVAL_PROCEDURE_NAMES then protected_target d rq a selector t else Inr t) (\<lambda>t'.
          rbind (if proc_name p \<in> set EXPLICIT_BACKEND_CAPABILITY_PROCEDURE_NAMES
                 then verify_backend_capability d p t' else Inr ()) (\<lambda>_. Inr t')))"


section \<open>Normalization and lease\<close>

definition reference_execution_guard :: "dispatch_env \<Rightarrow> exec_request \<Rightarrow> string \<Rightarrow> backend_target option \<Rightarrow> pydict \<Rightarrow> handler_error + unit" where
  "reference_execution_guard d rq stage t n =
     (if truthy (rq_credential_references rq) then de_reference_guard d stage t n else Inr ())"

definition requires_signed_dispatch :: "exec_request \<Rightarrow> bool" where
  "requires_signed_dispatch rq \<longleftrightarrow>
     proc_name (rq_procedure rq) \<in> set PROTECTED_APPROVAL_PROCEDURE_NAMES \<or> truthy (rq_credential_references rq)"

definition current_stream_version :: "aggregate \<Rightarrow> int" where
  "current_stream_version a = int (foldr max (map ev_sequence (events (store a))) 0)"

definition lease_inputs :: "dispatch_env \<Rightarrow> exec_request \<Rightarrow> int \<Rightarrow> aggregate \<Rightarrow> pydict \<Rightarrow> string \<Rightarrow> lease_execution \<times> lease_request" where
  "lease_inputs d rq e a n policy =
     (\<lparr>le_pk = Some e, le_procedure = Some (rq_procedure rq), le_credential_references = rq_credential_references rq,
       le_requested_by_id = requested_by_id (obj (store a)), le_approved_by_id = approved_by_id (obj (store a))\<rparr>,
      \<lparr>lr_stream_version = current_stream_version a, lr_normalized_params = Some n, lr_credential_policy = policy,
       lr_trace_id = (case rq_credential_authority rq of VDict c \<Rightarrow> str_or (dget c ''correlation_id'') [] | _ \<Rightarrow> []),
       lr_audience = None, lr_ttl_seconds = None\<rparr>)"

text \<open>Minting the lease and recording it; the aggregate is the one after the recording.\<close>

definition dispatch_lease :: "dispatch_env \<Rightarrow> exec_request \<Rightarrow> int \<Rightarrow> aggregate \<Rightarrow> pydict \<Rightarrow> handler_error + (aggregate \<times> SignedDispatchLease option)" where
  "dispatch_lease d rq e a n =
     rbind (raised (credential_policy_reference (de_policy d) rq n)) (\<lambda>policy.
     (let (le, lr) = lease_inputs d rq e a n policy in
      rbind (raised (issue_dispatch_lease (de_rt d) (pe_tables (de_policy d)) (de_signature d) (de_lease_env d) le lr
          (env_now (de_calls d 2)) (de_nonce d))) (\<lambda>lease. case lease of
        None \<Rightarrow> Inr (a, None)
      | Some l \<Rightarrow> (let c = sl_claims l in
          rbind (aggregated (agg_record_dispatch_lease_issued (de_calls d 2) (lc_nonce c) (lc_key_id c) (lc_key_version c)
              (lc_stream_version c) (lc_audience c) (VStr (lc_expires_at c)) (lc_envelope_version c) a)) (\<lambda>a'.
            Inr (a', Some l))))))"

text \<open>The parameters the dispatch uses, after every check that precedes the first recording.\<close>

definition admitted_params :: "dispatch_env \<Rightarrow> exec_request \<Rightarrow> aggregate \<Rightarrow> backend_target \<Rightarrow> handler_error + pydict" where
  "admitted_params d rq a t =
     rbind (reference_execution_guard d rq ''dispatch'' (Some t) []) (\<lambda>_.
     rbind (de_normalize d rq) (\<lambda>raw.
     rbind (raised (ledger_normalized_params (de_rt d) raw)) (\<lambda>n.
     rbind (reference_execution_guard d rq ''approval'' (Some t) n) (\<lambda>_.
     rbind (if proc_name (rq_procedure rq) \<in> set PROTECTED_APPROVAL_PROCEDURE_NAMES
            then require_current_protected_approval (de_policy d) rq a n (Some t) else Inr ()) (\<lambda>_. Inr n)))))"

definition prepare_dispatch ::
  "dispatch_env \<Rightarrow> exec_request \<Rightarrow> int \<Rightarrow> backend_target \<Rightarrow> aggregate \<Rightarrow> aggregate \<times> (handler_error + (pydict \<times> SignedDispatchLease option))" where
  "prepare_dispatch d rq e t a = (case admitted_params d rq a t of
       Inl err \<Rightarrow> (a, Inl err)
     | Inr n \<Rightarrow> (case aggregated (normalize (de_calls d 1) n (hash_json (de_rt d) (dget n ''command_fingerprint'')) a) of
         Inl err \<Rightarrow> (a, Inl err)
       | Inr a1 \<Rightarrow> (case dispatch_lease d rq e a1 n of
           Inl err \<Rightarrow> (a1, Inl err)
         | Inr (a2, lease) \<Rightarrow>
             if requires_signed_dispatch rq \<and> lease = None
             then (a2, Inl (RPCExecutionError (protected_label (proc_name (rq_procedure rq)) @ '' requires a signed one-time dispatch lease.'')
               ''RPC_DISPATCH_LEASE_REQUIRED''))
             else (a2, Inr (n, lease)))))"


section \<open>The run\<close>

definition GITEA_RUNNER_SCOPE_PROCEDURE_NAMES :: "string list" where
  "GITEA_RUNNER_SCOPE_PROCEDURE_NAMES = [GITEA_RUNNER_REGISTER, GITEA_ORG_CI_RUNNER_PROVISION]"

record dispatch_outcome =
  do_error :: "handler_error option"
  do_world :: fence_world
  do_calls :: "backend_call list"
  do_reserved :: bool

definition put_aggregate :: "int \<Rightarrow> aggregate \<Rightarrow> fence_world \<Rightarrow> fence_world" where
  "put_aggregate e a w = w\<lparr>execs := (execs w)(e \<mapsto> a)\<rparr>"

definition plain_dispatch ::
  "dispatch_env \<Rightarrow> int \<Rightarrow> backend_target \<Rightarrow> SignedDispatchLease option \<Rightarrow> pydict \<Rightarrow> aggregate \<Rightarrow> fence_world \<Rightarrow> dispatch_outcome" where
  "plain_dispatch d e t lease n a w =
     (let calls = [(t, lease, n)] in
      case de_backend d t lease of
        Inl err \<Rightarrow> \<lparr>do_error = Some err, do_world = w, do_calls = calls, do_reserved = False\<rparr>
      | Inr response \<Rightarrow> (case aggregated (agg_record_backend_response (de_calls d 3) response a) of
          Inl err \<Rightarrow> \<lparr>do_error = Some err, do_world = w, do_calls = calls, do_reserved = False\<rparr>
        | Inr a' \<Rightarrow> \<lparr>do_error = None, do_world = put_aggregate e a' w, do_calls = calls, do_reserved = False\<rparr>))"

definition fenced_dispatch ::
  "dispatch_env \<Rightarrow> exec_request \<Rightarrow> int \<Rightarrow> backend_target \<Rightarrow> SignedDispatchLease option \<Rightarrow> pydict \<Rightarrow> fence_world \<Rightarrow> dispatch_outcome" where
  "fenced_dispatch d rq e t lease n w =
     (let name = proc_name (rq_procedure rq) in
      case reserve_gitea_runner_scope (de_calls d 5) e name n w of
        Inl err \<Rightarrow> \<lparr>do_error = Some err, do_world = w, do_calls = [], do_reserved = False\<rparr>
      | Inr w1 \<Rightarrow>
          (let calls = [(t, lease, n)] in
           case de_backend d t lease of
             Inl err \<Rightarrow> \<lparr>do_error = Some err, do_world = w1, do_calls = calls, do_reserved = True\<rparr>
           | Inr response \<Rightarrow> (case record_gitea_runner_response (de_calls d 3) (de_schemas d) e name n response w1 of
               Inl err \<Rightarrow> \<lparr>do_error = Some err, do_world = w1, do_calls = calls, do_reserved = True\<rparr>
             | Inr w2 \<Rightarrow> \<lparr>do_error = None, do_world = w2, do_calls = calls, do_reserved = True\<rparr>)))"

definition dispatch_to_backend ::
  "dispatch_env \<Rightarrow> exec_request \<Rightarrow> int \<Rightarrow> backend_target \<Rightarrow> SignedDispatchLease option \<Rightarrow> pydict \<Rightarrow> aggregate \<Rightarrow> fence_world \<Rightarrow> dispatch_outcome" where
  "dispatch_to_backend d rq e t lease n a w =
     (if proc_name (rq_procedure rq) \<notin> set GITEA_RUNNER_SCOPE_PROCEDURE_NAMES then plain_dispatch d e t lease n a w
      else fenced_dispatch d rq e t lease n w)"

text \<open>The stages inside the failure handler, with the parameters known when it is entered.\<close>

definition dispatch_stages ::
  "dispatch_env \<Rightarrow> exec_request \<Rightarrow> int \<Rightarrow> pyval \<Rightarrow> aggregate \<Rightarrow> fence_world \<Rightarrow> pydict \<times> dispatch_outcome" where
  "dispatch_stages d rq e selector a w =
     (let stopped = (\<lambda>err w'. \<lparr>do_error = Some err, do_world = w', do_calls = [], do_reserved = False\<rparr>) in
      case rbind (reference_execution_guard d rq ''backend'' None []) (\<lambda>_. resolve_dispatch_target d rq a selector) of
        Inl err \<Rightarrow> ([], stopped err w)
      | Inr t \<Rightarrow> (case prepare_dispatch d rq e t a of
          (a', Inl err) \<Rightarrow> ([], stopped err (put_aggregate e a' w))
        | (a', Inr (n, lease)) \<Rightarrow> (n, dispatch_to_backend d rq e t lease n a' (put_aggregate e a' w))))"

text \<open>Blocking the scope never masks the failure.\<close>

definition block_runner_scope_after_failure :: "dispatch_env \<Rightarrow> exec_request \<Rightarrow> int \<Rightarrow> pydict \<Rightarrow> fence_world \<Rightarrow> fence_world" where
  "block_runner_scope_after_failure d rq e n w =
     (case block_gitea_runner_scope (de_calls d 6) e (proc_name (rq_procedure rq)) n w of Inl _ \<Rightarrow> w | Inr w' \<Rightarrow> w')"

fun error_code_of :: "handler_error \<Rightarrow> string" where
  "error_code_of (RPCExecutionError _ code) = code"
| "error_code_of _ = ''RPC_EXECUTION_FAILED''"

text \<open>
  Failing the execution through the worker's object: an aggregate refusal is swallowed, any
  other exception replaces the one being handled.
\<close>

definition fail_execution :: "dispatch_env \<Rightarrow> int \<Rightarrow> string \<Rightarrow> string \<Rightarrow> handler_error option \<Rightarrow> fence_world \<Rightarrow> handler_error option \<times> fence_world" where
  "fail_execution d e m code err w = (case execs w e of
       None \<Rightarrow> (err, w)
     | Some a \<Rightarrow> (case fail (de_calls d 4) m code a of
         Inr a' \<Rightarrow> (err, put_aggregate e a' w)
       | Inl (RPCExecutionAggregateError _) \<Rightarrow> (err, w)
       | Inl e' \<Rightarrow> (Some (HandlerAggregate e'), w)))"

record run_result =
  rr_error :: "handler_error option"
  rr_world :: fence_world
  rr_calls :: "backend_call list"

definition run_claimed :: "dispatch_env \<Rightarrow> exec_request \<Rightarrow> int \<Rightarrow> pyval \<Rightarrow> aggregate \<Rightarrow> fence_world \<Rightarrow> run_result" where
  "run_claimed d rq e backend_pk a w =
     (if \<not> de_integration_enabled d then
        (case fail_execution d e ''The netbox-rpc integration is disabled; execution not dispatched.'' ''RPC_INTEGRATION_DISABLED'' None w of
           (err, w') \<Rightarrow> \<lparr>rr_error = err, rr_world = w', rr_calls = []\<rparr>)
      else (case select_backend d rq backend_pk of
          Inl err \<Rightarrow>
            if binding_error err then
              (let m = protected_label (proc_name (rq_procedure rq)) @ '' backend binding is invalid.'' in
               case aggregated (fail (de_calls d 4) m ''RPC_BACKEND_BINDING_INVALID'' a) of
                 Inl e' \<Rightarrow> \<lparr>rr_error = Some e', rr_world = w, rr_calls = []\<rparr>
               | Inr a' \<Rightarrow> \<lparr>rr_error = Some (RPCExecutionError m ''RPC_BACKEND_BINDING_INVALID''),
                   rr_world = put_aggregate e a' w, rr_calls = []\<rparr>)
            else \<lparr>rr_error = Some err, rr_world = w, rr_calls = []\<rparr>
        | Inr selector \<Rightarrow> (case dispatch_stages d rq e selector a w of
            (n, out) \<Rightarrow> (case do_error out of
                None \<Rightarrow> \<lparr>rr_error = None, rr_world = do_world out, rr_calls = do_calls out\<rparr>
              | Some err \<Rightarrow>
                  (let w1 = (if do_reserved out then block_runner_scope_after_failure d rq e n (do_world out) else do_world out) in
                   case fail_execution d e (de_exc_text d err) (error_code_of err) (Some err) w1 of
                     (err', w2) \<Rightarrow> \<lparr>rr_error = err', rr_world = w2, rr_calls = do_calls out\<rparr>)))))"

definition run_execution :: "dispatch_env \<Rightarrow> exec_request \<Rightarrow> int \<Rightarrow> pyval \<Rightarrow> fence_world \<Rightarrow> run_result" where
  "run_execution d rq e backend_pk w = (case execs w e of
       None \<Rightarrow> \<lparr>rr_error = Some DoesNotExist, rr_world = w, rr_calls = []\<rparr>
     | Some a0 \<Rightarrow> (case claim_if_procedure_enabled d rq (locked_aggregate a0) of
         Inl (HandlerAggregate (RPCExecutionAggregateError _)) \<Rightarrow> \<lparr>rr_error = None, rr_world = w, rr_calls = []\<rparr>
       | Inl err \<Rightarrow> \<lparr>rr_error = Some err, rr_world = w, rr_calls = []\<rparr>
       | Inr a \<Rightarrow>
           (let w1 = put_aggregate e a w in
            if agg_status a \<noteq> RUNNING then \<lparr>rr_error = None, rr_world = w1, rr_calls = []\<rparr>
            else run_claimed d rq e backend_pk a w1)))"

text \<open>\<open>cancel_execution\<close>, under the same row lock.\<close>

definition cancel_execution :: "call_env \<Rightarrow> bool \<Rightarrow> pyval \<Rightarrow> aggregate \<Rightarrow> handler_error + aggregate" where
  "cancel_execution env may_execute user_pk a =
     (if \<not> may_execute then Inl (PermissionDenied ''execute_rpcprocedure permission is required.'')
      else (case cancel env user_pk (locked_aggregate a) of
          Inl (RPCExecutionAggregateError m) \<Rightarrow> Inl (ValidationError ''status'' m)
        | Inl e \<Rightarrow> Inl (HandlerAggregate e)
        | Inr a' \<Rightarrow> Inr a'))"

end
