(* ===== verification/ScopeFenceProps.thy ===== *)
theory ScopeFenceProps
  imports ScopeFence AggregateProps
begin

text \<open>
  Mutual exclusion by the scope fence, over every interleaving of the fence transactions of
  any number of executions: a late worker cannot touch a scope that another execution took
  over, a scope is reserved again only after a validated proof that its token is gone, the
  table constraints are never violated and the generations count the reservations.
\<close>

section \<open>Interleavings\<close>

datatype fence_op = Reserve int | Block int | Complete int pydict

fun op_execution :: "fence_op \<Rightarrow> int" where
  "op_execution (Reserve e) = e"
| "op_execution (Block e) = e"
| "op_execution (Complete e _) = e"

text \<open>The procedure and the normalized parameters an execution was dispatched with.\<close>

type_synonym fence_jobs = "int \<Rightarrow> string \<times> pydict"

definition job_scope :: "fence_jobs \<Rightarrow> int \<Rightarrow> string" where
  "job_scope jobs e = str_or (dget (snd (jobs e)) ''gitea_scope'') []"

definition job_operation :: "fence_jobs \<Rightarrow> int \<Rightarrow> string" where
  "job_operation jobs e = str_or (dget (snd (jobs e)) ''operation'') []"

definition job_start :: "fence_jobs \<Rightarrow> int \<Rightarrow> string" where
  "job_start jobs e = gitea_runner_start_operation (fst (jobs e))"

definition job_generation :: "fence_jobs \<Rightarrow> int \<Rightarrow> pyval" where
  "job_generation jobs e = dget (snd (jobs e)) ''fence_generation''"

fun fence_apply ::
  "call_env \<Rightarrow> (bool \<Rightarrow> pyval) \<Rightarrow> fence_jobs \<Rightarrow> fence_op \<Rightarrow> fence_world \<Rightarrow> handler_error + fence_world" where
  "fence_apply env schemas jobs (Reserve e) w = reserve_gitea_runner_scope env e (fst (jobs e)) (snd (jobs e)) w"
| "fence_apply env schemas jobs (Block e) w = block_gitea_runner_scope env e (fst (jobs e)) (snd (jobs e)) w"
| "fence_apply env schemas jobs (Complete e r) w = record_gitea_runner_response env schemas e (fst (jobs e)) (snd (jobs e)) r w"

text \<open>
  The histories of committed fence transactions, newest first. A worker blocks or completes
  only a scope it reserved; any other transaction may change the executions.
\<close>

inductive fence_run ::
  "json_validator \<Rightarrow> (bool \<Rightarrow> pyval) \<Rightarrow> fence_jobs \<Rightarrow> fence_world \<Rightarrow> fence_op list \<Rightarrow> fence_world \<Rightarrow> bool"
  for validate schemas jobs w0 where
  initially: "fence_run validate schemas jobs w0 [] w0"
| reserve: "fence_run validate schemas jobs w0 h w \<Longrightarrow>
    fence_apply env schemas jobs (Reserve e) w = Inr w' \<Longrightarrow> fence_run validate schemas jobs w0 (Reserve e # h) w'"
| finish: "fence_run validate schemas jobs w0 h w \<Longrightarrow> Reserve (op_execution p) \<in> set h \<Longrightarrow> env_validate env = validate \<Longrightarrow>
    fence_apply env schemas jobs p w = Inr w' \<Longrightarrow> fence_run validate schemas jobs w0 (p # h) w'"
| other: "fence_run validate schemas jobs w0 h w \<Longrightarrow> fences w' = fences w \<Longrightarrow> fence_run validate schemas jobs w0 h w'"


section \<open>Effects of the transactions\<close>

lemma save_fence_Inr: "save_fence now c f w = Inr w' \<longleftrightarrow>
    fence_constraints f \<and> w' = w\<lparr>fences := (fences w)(c \<mapsto> f\<lparr>last_updated := Some now\<rparr>)\<rparr>"
  by (auto simp: save_fence_def)

lemma constraints_stamp [simp]: "fence_constraints (f\<lparr>last_updated := t\<rparr>) = fence_constraints f"
  by (simp add: fence_constraints_def)

lemma fail_lost_worker_fences: "fail_lost_worker env b w = Inr w' \<Longrightarrow> fences w' = fences w"
  by (auto simp: fail_lost_worker_def Let_def split: option.splits if_splits sum.splits)

lemma start_not_reconcile: "gitea_runner_start_operation p \<noteq> ''reconcile''"
  by (simp add: gitea_runner_start_operation_def)

lemma fence_unchanged_generation:
  "fence_unchanged f n \<Longrightarrow> dget n ''fence_generation'' = VInt (takeover_generation f + 1) \<and> takeover_generation f + 1 \<le> JS_SAFE_INTEGER_MAX"
  by (auto simp: fence_unchanged_def split: pyval.splits)

lemma reserve_effect:
  assumes "fence_apply env schemas jobs (Reserve e) w = Inr w'"
  obtains f g where "fences w (job_scope jobs e) = Some f" "fences w' = (fences w)(job_scope jobs e \<mapsto> g)"
    "job_generation jobs e = VInt (takeover_generation f + 1)" "takeover_generation f + 1 \<le> JS_SAFE_INTEGER_MAX"
    "takeover_generation g = takeover_generation f + 1" "fence_constraints g" "fence_state g \<noteq> STATE_CLEAR"
    "job_operation jobs e = job_start jobs e \<and> fence_state f = STATE_CLEAR
      \<or> job_operation jobs e = ''reconcile'' \<and> fence_state f \<noteq> STATE_CLEAR"
proof -
  let ?c = "job_scope jobs e" and ?n = "snd (jobs e)"
  from assms obtain f g1 w1 where f: "fences w ?c = Some f" "fence_unchanged f ?n"
    and r: "(if job_operation jobs e = job_start jobs e then map_sum id (\<lambda>g. (g, w)) (reserve_start e f)
        else if job_operation jobs e = ''reconcile'' then reserve_reconcile env e f w
        else Inl (RPCExecutionError ''Gitea runner lifecycle operation is invalid.'' ''RPC_PARAM_INVALID'')) = Inr (g1, w1)"
    and s: "save_fence (env_now env) ?c (g1\<lparr>takeover_generation := takeover_generation f + 1\<rparr>) w1 = Inr w'"
    unfolding fence_apply.simps reserve_gitea_runner_scope_def Let_def job_scope_def [symmetric] job_operation_def [symmetric]
      job_start_def [symmetric]
    by (auto simp: result_simps guard_def split: option.splits if_split_asm)
  consider "job_operation jobs e = job_start jobs e" "reserve_start e f = Inr g1" "w1 = w"
    | "job_operation jobs e = ''reconcile''" "reserve_reconcile env e f w = Inr (g1, w1)"
    using r by (cases "reserve_start e f") (auto split: if_splits)
  then have "fences w1 = fences w \<and> fence_state g1 \<noteq> STATE_CLEAR \<and>
      (job_operation jobs e = job_start jobs e \<and> fence_state f = STATE_CLEAR
       \<or> job_operation jobs e = ''reconcile'' \<and> fence_state f \<noteq> STATE_CLEAR)"
  proof cases
    case 1
    then show ?thesis by (auto simp: reserve_start_def STATE_PENDING_def STATE_CLEAR_def split: if_splits)
  next
    case 2
    then show ?thesis
      by (auto simp: reserve_reconcile_def STATE_PENDING_def STATE_CLEAR_def STATE_BLOCKED_def result_simps
          dest: fail_lost_worker_fences split: option.splits if_splits)
  qed
  with f s fence_unchanged_generation [OF f(2)] that show thesis
    by (auto simp: save_fence_Inr job_generation_def)
qed

lemma check_ownership_generation:
  "check_ownership e so op n f = Inr u \<Longrightarrow> py_eq (VInt (takeover_generation f)) (dget n ''fence_generation'')"
  by (auto simp: check_ownership_def result_simps guard_def simp del: py_eq.simps split: if_splits)

lemma block_effect:
  assumes "fence_apply env schemas jobs (Block e) w = Inr w'"
  obtains f g where "fences w (job_scope jobs e) = Some f" "fences w' = (fences w)(job_scope jobs e \<mapsto> g)"
    "py_eq (VInt (takeover_generation f)) (job_generation jobs e)"
    "takeover_generation g = takeover_generation f" "fence_constraints g" "fence_state g = STATE_BLOCKED"
  using assms that unfolding fence_apply.simps block_gitea_runner_scope_def Let_def job_scope_def [symmetric] job_generation_def
  by (auto simp: result_simps save_fence_Inr simp del: py_eq.simps dest: check_ownership_generation split: option.splits if_splits)

text \<open>A response that proves that the scope holds no usable token.\<close>

definition proves_clear :: "json_validator \<Rightarrow> (bool \<Rightarrow> pyval) \<Rightarrow> fence_jobs \<Rightarrow> int \<Rightarrow> pydict \<Rightarrow> bool" where
  "proves_clear validate schemas jobs e r \<longleftrightarrow> (\<exists>res.
     valid_runner_result validate schemas (fst (jobs e)) (snd (jobs e)) r = Some res
     \<and> (clear_without_token (job_start jobs e) (job_operation jobs e) res \<or> reset_proven res))"

lemma completed_fence_state:
  "fence_state (completed_fence so op res f) =
     (if clear_without_token so op res \<or> reset_proven res then STATE_CLEAR else STATE_BLOCKED)"
  "takeover_generation (completed_fence so op res f) = takeover_generation f"
  by (auto simp: completed_fence_def Let_def split: pyval.split)

lemma complete_effect:
  assumes "fence_apply env schemas jobs (Complete e r) w = Inr w'"
  obtains f g where "fences w (job_scope jobs e) = Some f" "fences w' = (fences w)(job_scope jobs e \<mapsto> g)"
    "py_eq (VInt (takeover_generation f)) (job_generation jobs e)"
    "takeover_generation g = takeover_generation f" "fence_constraints g"
    "fence_state g = STATE_CLEAR \<Longrightarrow> proves_clear (env_validate env) schemas jobs e r"
proof -
  let ?n = "snd (jobs e)"
  from assms obtain res f a a' where v: "valid_runner_result (env_validate env) schemas (fst (jobs e)) ?n r = Some res"
    and f: "fences w (job_scope jobs e) = Some f"
    and own: "check_ownership e (job_start jobs e) (job_operation jobs e) ?n f = Inr ()"
    and s: "fence_constraints (completed_fence (job_start jobs e) (job_operation jobs e) res f)"
    and w': "fences w' = (fences w)(job_scope jobs e \<mapsto>
        (completed_fence (job_start jobs e) (job_operation jobs e) res f)\<lparr>last_updated := Some (env_now env)\<rparr>)"
    unfolding fence_apply.simps record_gitea_runner_response_def Let_def job_scope_def [symmetric]
      job_operation_def [symmetric] job_start_def [symmetric]
    by (auto simp: result_simps save_fence_Inr split: option.splits sum.splits)
  have "STATE_BLOCKED \<noteq> STATE_CLEAR" by (simp add: STATE_BLOCKED_def STATE_CLEAR_def)
  with v have "fence_state (completed_fence (job_start jobs e) (job_operation jobs e) res f) = STATE_CLEAR
      \<Longrightarrow> proves_clear (env_validate env) schemas jobs e r"
    by (auto simp: proves_clear_def completed_fence_state split: if_splits)
  with that [OF f w'] check_ownership_generation [OF own] s show thesis
    by (simp add: job_generation_def completed_fence_state)
qed


section \<open>The invariant of one scope\<close>

text \<open>The executions that reserved the scope, newest first.\<close>

fun reservers :: "fence_jobs \<Rightarrow> string \<Rightarrow> fence_op list \<Rightarrow> int list" where
  "reservers jobs c [] = []"
| "reservers jobs c (Reserve e # h) = (if job_scope jobs e = c then e # reservers jobs c h else reservers jobs c h)"
| "reservers jobs c (p # h) = reservers jobs c h"

lemma reservers_append [simp]: "reservers jobs c (h1 @ h2) = reservers jobs c h1 @ reservers jobs c h2"
  by (induction jobs c h1 rule: reservers.induct) auto

lemma mem_reservers: "e \<in> set (reservers jobs c h) \<longleftrightarrow> Reserve e \<in> set h \<and> job_scope jobs e = c"
  by (induction jobs c h rule: reservers.induct) auto

text \<open>
  Since the newest reservation, the execution that made it has completed with a response that
  proves the scope clear.
\<close>

definition cleared_since ::
  "json_validator \<Rightarrow> (bool \<Rightarrow> pyval) \<Rightarrow> fence_jobs \<Rightarrow> string \<Rightarrow> fence_op list \<Rightarrow> bool" where
  "cleared_since validate schemas jobs c h \<longleftrightarrow> (\<exists>h1 e r h2. h = h1 @ Complete e r # h2
     \<and> reservers jobs c h1 = [] \<and> take 1 (reservers jobs c h2) = [e] \<and> proves_clear validate schemas jobs e r)"

definition scope_inv ::
  "json_validator \<Rightarrow> (bool \<Rightarrow> pyval) \<Rightarrow> fence_jobs \<Rightarrow> string \<Rightarrow> int \<Rightarrow> fence_op list \<Rightarrow> scope_fence \<Rightarrow> bool" where
  "scope_inv validate schemas jobs c g0 h f \<longleftrightarrow>
     fence_constraints f
     \<and> takeover_generation f = g0 + int (length (reservers jobs c h))
     \<and> (g0 \<le> JS_SAFE_INTEGER_MAX \<longrightarrow> takeover_generation f \<le> JS_SAFE_INTEGER_MAX)
     \<and> (\<forall>i < length (reservers jobs c h). job_generation jobs (reservers jobs c h ! i) = VInt (takeover_generation f - int i))
     \<and> (fence_state f = STATE_CLEAR \<longrightarrow> reservers jobs c h = [] \<or> cleared_since validate schemas jobs c h)"

lemma cleared_sinceI:
  "reservers jobs c h1 = [] \<Longrightarrow> take 1 (reservers jobs c h2) = [e] \<Longrightarrow> proves_clear validate schemas jobs e r \<Longrightarrow>
    cleared_since validate schemas jobs c (h1 @ Complete e r # h2)"
  unfolding cleared_since_def by blast

lemma cleared_since_Cons:
  "cleared_since validate schemas jobs c h \<Longrightarrow> reservers jobs c [p] = [] \<Longrightarrow> cleared_since validate schemas jobs c (p # h)"
  unfolding cleared_since_def
proof (elim exE conjE)
  fix h1 e r h2 assume *: "reservers jobs c [p] = []" "h = h1 @ Complete e r # h2" "reservers jobs c h1 = []"
    "take 1 (reservers jobs c h2) = [e]" "proves_clear validate schemas jobs e r"
  show "\<exists>h1 e r h2. p # h = h1 @ Complete e r # h2 \<and> reservers jobs c h1 = [] \<and>
      take 1 (reservers jobs c h2) = [e] \<and> proves_clear validate schemas jobs e r"
    using * reservers_append [of jobs c "[p]" h1]
    by (intro exI [of _ "p # h1"] exI [of _ e] exI [of _ r] exI [of _ h2]) auto
qed

text \<open>Whoever passes the generation check is the newest reserver.\<close>

lemma current_generation_newest:
  assumes "scope_inv validate schemas jobs c g0 h f" "e \<in> set (reservers jobs c h)"
    "py_eq (VInt (takeover_generation f)) (job_generation jobs e)"
  shows "take 1 (reservers jobs c h) = [e]"
proof -
  from assms(2) obtain i where i: "i < length (reservers jobs c h)" "reservers jobs c h ! i = e"
    by (auto simp: in_set_conv_nth)
  with assms(1) have "job_generation jobs e = VInt (takeover_generation f - int i)" by (auto simp: scope_inv_def)
  with assms(3) have "i = 0" by simp
  with i show ?thesis by (cases "reservers jobs c h") auto
qed

lemma scope_inv_reserve:
  assumes "scope_inv validate schemas jobs c g0 h f" "job_scope jobs e = c"
    "job_generation jobs e = VInt (takeover_generation f + 1)" "takeover_generation f + 1 \<le> JS_SAFE_INTEGER_MAX"
    "takeover_generation g = takeover_generation f + 1" "fence_constraints g" "fence_state g \<noteq> STATE_CLEAR"
  shows "scope_inv validate schemas jobs c g0 (Reserve e # h) g"
proof -
  let ?rs = "reservers jobs c h"
  from assms(1) have old: "\<forall>i < length ?rs. job_generation jobs (?rs ! i) = VInt (takeover_generation f - int i)"
    "takeover_generation f = g0 + int (length ?rs)" by (simp_all add: scope_inv_def)
  have "job_generation jobs ((e # ?rs) ! i) = VInt (takeover_generation g - int i)" if "i < length (e # ?rs)" for i
    using that old(1) assms(3,5) by (cases i) auto
  with old(2) assms show ?thesis by (auto simp: scope_inv_def)
qed

lemma scope_inv_keep:
  assumes "scope_inv validate schemas jobs c g0 h f" "reservers jobs c [p] = []"
    "takeover_generation g = takeover_generation f" "fence_constraints g"
    "fence_state g = STATE_CLEAR \<Longrightarrow> cleared_since validate schemas jobs c (p # h)"
  shows "scope_inv validate schemas jobs c g0 (p # h) g"
  using assms reservers_append [of jobs c "[p]" h] by (auto simp: scope_inv_def)

lemma finish_effect:
  assumes "fence_apply env schemas jobs p w = Inr w'" "\<And>e. p \<noteq> Reserve e"
  obtains f g where "fences w (job_scope jobs (op_execution p)) = Some f"
    "fences w' = (fences w)(job_scope jobs (op_execution p) \<mapsto> g)"
    "py_eq (VInt (takeover_generation f)) (job_generation jobs (op_execution p))"
    "takeover_generation g = takeover_generation f" "fence_constraints g"
    "fence_state g = STATE_CLEAR \<Longrightarrow> \<exists>r. p = Complete (op_execution p) r \<and> proves_clear (env_validate env) schemas jobs (op_execution p) r"
proof (cases p)
  case (Block e)
  have "STATE_BLOCKED \<noteq> STATE_CLEAR" by (simp add: STATE_BLOCKED_def STATE_CLEAR_def)
  then show thesis using Block assms(1) that by (auto elim!: block_effect simp del: fence_apply.simps py_eq.simps)
next
  case (Complete e r)
  then show thesis using assms(1) that by (auto elim!: complete_effect simp del: fence_apply.simps py_eq.simps)
qed (use assms(2) in simp)

lemma scope_inv_reserve_step:
  assumes "fence_apply env schemas jobs (Reserve e) w = Inr w'" "fences w c = Some f" "scope_inv validate schemas jobs c g0 h f"
  shows "\<exists>g. fences w' c = Some g \<and> scope_inv validate schemas jobs c g0 (Reserve e # h) g"
proof (rule reserve_effect [OF assms(1)])
  fix f' g
  assume r: "fences w (job_scope jobs e) = Some f'" "fences w' = (fences w)(job_scope jobs e \<mapsto> g)"
    "job_generation jobs e = VInt (takeover_generation f' + 1)" "takeover_generation f' + 1 \<le> JS_SAFE_INTEGER_MAX"
    "takeover_generation g = takeover_generation f' + 1" "fence_constraints g" "fence_state g \<noteq> STATE_CLEAR"
  show ?thesis
  proof (cases "job_scope jobs e = c")
    case True
    with r assms(2) have "f' = f" by simp
    with r True scope_inv_reserve [OF assms(3) True] show ?thesis by auto
  next
    case False
    with r(2) assms(2,3) show ?thesis
      by (auto simp: scope_inv_def intro: cleared_since_Cons)
  qed
qed

lemma scope_inv_finish_step:
  assumes "fence_apply env schemas jobs p w = Inr w'" "\<And>e. p \<noteq> Reserve e" "Reserve (op_execution p) \<in> set h"
    "env_validate env = validate" "fences w c = Some f" "scope_inv validate schemas jobs c g0 h f"
  shows "\<exists>g. fences w' c = Some g \<and> scope_inv validate schemas jobs c g0 (p # h) g"
proof (rule finish_effect [OF assms(1,2)])
  fix f' g
  let ?e = "op_execution p"
  assume r: "fences w (job_scope jobs ?e) = Some f'" "fences w' = (fences w)(job_scope jobs ?e \<mapsto> g)"
    "py_eq (VInt (takeover_generation f')) (job_generation jobs ?e)"
    "takeover_generation g = takeover_generation f'" "fence_constraints g"
    "fence_state g = STATE_CLEAR \<Longrightarrow> \<exists>r. p = Complete ?e r \<and> proves_clear (env_validate env) schemas jobs ?e r"
  have np: "reservers jobs c [p] = []" using assms(2) by (cases p) auto
  show ?thesis
  proof (cases "job_scope jobs ?e = c")
    case True
    with r(1) assms(5) have f: "f' = f" by simp
    from True assms(3) have mem: "?e \<in> set (reservers jobs c h)" by (simp add: mem_reservers)
    from current_generation_newest [OF assms(6) mem] r(3) f have newest: "take 1 (reservers jobs c h) = [?e]" by simp
    have "cleared_since validate schemas jobs c (p # h)" if clear: "fence_state g = STATE_CLEAR"
      using r(6) [OF clear] newest assms(4) cleared_sinceI [of jobs c "[]" h ?e] by (metis append_Nil reservers.simps(1))
    from scope_inv_keep [OF assms(6) np _ _ this] r(2,4,5) f True show ?thesis by auto
  next
    case False
    have "fences w' c = Some f" using False r(2) assms(5) by simp
    moreover have "scope_inv validate schemas jobs c g0 (p # h) f"
      using assms(6) np reservers_append [of jobs c "[p]" h] by (auto simp: scope_inv_def intro: cleared_since_Cons)
    ultimately show ?thesis by blast
  qed
qed

lemma fence_run_inv:
  assumes "fence_run validate schemas jobs w0 h w" "fences w0 c = Some f0" "fence_constraints f0"
    "fence_state f0 = STATE_CLEAR"
  shows "\<exists>f. fences w c = Some f \<and> scope_inv validate schemas jobs c (takeover_generation f0) h f"
  using assms
proof (induction rule: fence_run.induct)
  case initially
  then show ?case by (simp add: scope_inv_def)
next
  case (reserve h w env e w')
  then show ?case using scope_inv_reserve_step by blast
next
  case (finish h w p env w')
  then obtain f where f: "fences w c = Some f" "scope_inv validate schemas jobs c (takeover_generation f0) h f" by blast
  show ?case
  proof (cases "\<exists>e. p = Reserve e")
    case True
    then show ?thesis using scope_inv_reserve_step f finish.hyps(4) by blast
  next
    case False
    then show ?thesis using scope_inv_finish_step [OF finish.hyps(4) _ finish.hyps(2,3) f] by blast
  qed
qed simp



section \<open>Consequences\<close>

text \<open>The operation of an execution that reserved a scope is one of the two the fence knows.\<close>

lemma reserver_operation:
  "fence_run validate schemas jobs w0 h w \<Longrightarrow> Reserve e \<in> set h \<Longrightarrow>
     job_operation jobs e = job_start jobs e \<or> job_operation jobs e = ''reconcile''"
proof (induction rule: fence_run.induct)
  case (reserve h w env e' w')
  then show ?case using reserve_effect [OF reserve.hyps(2)] by (metis fence_op.inject(1) set_ConsD)
next
  case (finish h w p env w')
  show ?case
  proof (cases "p = Reserve e")
    case True
    with finish.hyps(4) reserve_effect show ?thesis by metis
  qed (use finish in auto)
qed simp_all

lemma owner_blocks:
  assumes "check_ownership e so operation n f = Inr u" "operation = so \<or> operation = ''reconcile''" "fence_constraints f"
  shows "blocking_execution_id f \<noteq> None" "operation \<noteq> ''reconcile'' \<Longrightarrow> reconciliation_execution_id f = None"
  using assms by (auto simp: check_ownership_def guard_def result_simps fence_constraints_def STATE_CLEAR_def STATE_BLOCKED_def
      simp del: py_eq.simps split: if_splits)

lemma completed_constraints:
  assumes "fence_constraints f" "blocking_execution_id f \<noteq> None" "operation \<noteq> ''reconcile'' \<Longrightarrow> reconciliation_execution_id f = None"
  shows "fence_constraints (completed_fence so operation res f)"
  using assms by (auto simp: completed_fence_def Let_def fence_constraints_def split: pyval.split)

lemma save_fence_ok: "fence_constraints f \<Longrightarrow> save_fence now c f w \<noteq> Inl IntegrityError"
  by (simp add: save_fence_def)

lemma reserve_integrity:
  assumes "fence_constraints f" "fences w (job_scope jobs e) = Some f"
  shows "fence_apply env schemas jobs (Reserve e) w \<noteq> Inl IntegrityError"
proof -
  have start: "fence_constraints (g\<lparr>takeover_generation := k\<rparr>)" if "reserve_start e f = Inr g" for g k
    using that by (auto simp: reserve_start_def fence_constraints_def split: if_splits)
  have rec: "fence_constraints (g\<lparr>takeover_generation := k\<rparr>)" if "reserve_reconcile env e f w = Inr (g, w')" for g k w'
    using that by (auto simp: reserve_reconcile_def fence_constraints_def result_simps split: option.splits if_splits)
  have lost: "fail_lost_worker env b w \<noteq> Inl IntegrityError" for b
    by (auto simp: fail_lost_worker_def Let_def split: option.split sum.split)
  have rec': "reserve_reconcile env e f w \<noteq> Inl IntegrityError"
    using lost by (auto simp: reserve_reconcile_def rbind_Inl_iff split: option.split)
  have start': "reserve_start e f \<noteq> Inl IntegrityError" by (simp add: reserve_start_def)
  let ?r = "if job_operation jobs e = job_start jobs e then map_sum id (\<lambda>g. (g, w)) (reserve_start e f)
      else if job_operation jobs e = ''reconcile'' then reserve_reconcile env e f w
      else Inl (RPCExecutionError ''Gitea runner lifecycle operation is invalid.'' ''RPC_PARAM_INVALID'')"
  have "?r \<noteq> Inl IntegrityError" using rec' start' by (cases "reserve_start e f") simp_all
  moreover have "fence_constraints (g\<lparr>takeover_generation := k\<rparr>)" if "?r = Inr (g, w')" for g w' k
    using that start rec by (cases "reserve_start e f") (auto split: if_splits)
  ultimately show ?thesis
    unfolding fence_apply.simps reserve_gitea_runner_scope_def Let_def job_scope_def [symmetric] job_operation_def [symmetric]
      job_start_def [symmetric] assms(2) option.case rbind_Inl_iff
    by (auto simp: guard_def save_fence_def simp del: if_split split: prod.splits)
qed


lemma finish_integrity:
  assumes "fence_constraints f" "fences w (job_scope jobs (op_execution p)) = Some f" "\<And>e. p \<noteq> Reserve e"
    "job_operation jobs (op_execution p) = job_start jobs (op_execution p) \<or> job_operation jobs (op_execution p) = ''reconcile''"
  shows "fence_apply env schemas jobs p w \<noteq> Inl IntegrityError"
proof -
  let ?e = "op_execution p" and ?n = "snd (jobs (op_execution p))"
  have own: "check_ownership ?e so operation ?n f \<noteq> Inl IntegrityError" for so operation
    by (auto simp: check_ownership_def rbind_Inl_iff simp del: py_eq.simps)
  note owner = owner_blocks [OF _ assms(4,1), of ?e ?n]
  have blocked: "fence_constraints (if job_operation jobs ?e = ''reconcile''
        then f\<lparr>fence_state := STATE_BLOCKED, reconciliation_execution_id := None\<rparr> else f\<lparr>fence_state := STATE_BLOCKED\<rparr>)"
    if "check_ownership ?e (job_start jobs ?e) (job_operation jobs ?e) ?n f = Inr u" for u
    using owner [OF that] by (auto simp: fence_constraints_def)
  have completed: "fence_constraints (completed_fence (job_start jobs ?e) (job_operation jobs ?e) res f)"
    if "check_ownership ?e (job_start jobs ?e) (job_operation jobs ?e) ?n f = Inr u" for u res
    by (rule completed_constraints [OF assms(1) owner [OF that]])
  show ?thesis
  proof (cases p)
    case (Block e)
    with assms(2) own blocked show ?thesis
      by (auto simp: block_gitea_runner_scope_def Let_def job_scope_def job_operation_def job_start_def rbind_Inl_iff save_fence_def
          simp del: py_eq.simps)
  next
    case (Complete e r)
    with assms(2) own completed show ?thesis
      by (auto simp: record_gitea_runner_response_def Let_def job_scope_def job_operation_def job_start_def rbind_Inl_iff
          save_fence_def simp del: py_eq.simps split: option.split sum.split)
  qed (use assms(3) in simp)
qed

text \<open>
  C31: In every interleaving, a worker blocks or completes a scope only while it is the newest
  one to have reserved it: once another execution took the scope over, the late worker's
  transactions are refused and leave the fence alone.
\<close>

theorem only_newest_reserver_changes_scope:
  assumes "fence_run validate schemas jobs w0 h w"
    and "fences w0 (job_scope jobs (op_execution p)) = Some f0" "fence_constraints f0" "fence_state f0 = STATE_CLEAR"
    and "Reserve (op_execution p) \<in> set h" "\<And>e. p \<noteq> Reserve e" "fence_apply env schemas jobs p w = Inr w'"
  shows "take 1 (reservers jobs (job_scope jobs (op_execution p)) h) = [op_execution p]"
proof -
  let ?c = "job_scope jobs (op_execution p)"
  from fence_run_inv [OF assms(1-4)] obtain f where f: "fences w ?c = Some f"
    "scope_inv validate schemas jobs ?c (takeover_generation f0) h f" by blast
  from finish_effect [OF assms(7,6)] f(1) have "py_eq (VInt (takeover_generation f)) (job_generation jobs (op_execution p))"
    by (metis option.inject)
  with f(2) assms(5) show ?thesis by (intro current_generation_newest) (simp_all add: mem_reservers)
qed

text \<open>
  C32: In every interleaving, a scope is reserved for a new token only if it was never reserved
  before, or if since its newest reservation the execution that made it has completed with a
  validated response which proves that no token was created or that the token was reset.
\<close>

theorem scope_reused_only_after_proof:
  assumes "fence_run validate schemas jobs w0 h w"
    and "fences w0 (job_scope jobs e) = Some f0" "fence_constraints f0" "fence_state f0 = STATE_CLEAR"
    and "job_operation jobs e = job_start jobs e" "fence_apply env schemas jobs (Reserve e) w = Inr w'"
  shows "reservers jobs (job_scope jobs e) h = [] \<or> cleared_since validate schemas jobs (job_scope jobs e) h"
proof -
  let ?c = "job_scope jobs e"
  from fence_run_inv [OF assms(1-4)] obtain f where f: "fences w ?c = Some f"
    "scope_inv validate schemas jobs ?c (takeover_generation f0) h f" by blast
  have "job_operation jobs e \<noteq> ''reconcile''" using assms(5) by (simp add: job_start_def start_not_reconcile)
  with reserve_effect [OF assms(6)] f(1) have "fence_state f = STATE_CLEAR" by (metis option.inject)
  with f(2) show ?thesis by (simp add: scope_inv_def)
qed

text \<open>
  No fence transaction of any interleaving is refused by the check constraints of the
  fence table.
\<close>

theorem fence_constraints_never_violated:
  assumes "fence_run validate schemas jobs w0 h w"
    and "fences w0 (job_scope jobs (op_execution p)) = Some f0" "fence_constraints f0" "fence_state f0 = STATE_CLEAR"
    and "(\<exists>e. p = Reserve e) \<or> Reserve (op_execution p) \<in> set h"
  shows "fence_apply env schemas jobs p w \<noteq> Inl IntegrityError"
proof -
  let ?c = "job_scope jobs (op_execution p)"
  from fence_run_inv [OF assms(1-4)] obtain f where f: "fences w ?c = Some f" "fence_constraints f"
    by (auto simp: scope_inv_def)
  show ?thesis
  proof (cases "\<exists>e. p = Reserve e")
    case True
    then obtain e where "p = Reserve e" by blast
    with reserve_integrity [OF f(2)] f(1) show ?thesis by simp
  next
    case False
    with assms(5) reserver_operation [OF assms(1)] finish_integrity [OF f(2,1)] show ?thesis by blast
  qed
qed

text \<open>
  The generation of a scope counts its reservations, every execution that reserved it
  knows a different one, and it stays within the integers JavaScript represents exactly.
\<close>

theorem generation_counts_reservations:
  assumes "fence_run validate schemas jobs w0 h w"
    and "fences w0 c = Some f0" "fence_constraints f0" "fence_state f0 = STATE_CLEAR" "takeover_generation f0 \<le> JS_SAFE_INTEGER_MAX"
  shows "\<exists>f. fences w c = Some f \<and> takeover_generation f = takeover_generation f0 + int (length (reservers jobs c h))
    \<and> takeover_generation f \<le> 2 ^ 53 - 1 \<and> distinct (reservers jobs c h)"
proof -
  from fence_run_inv [OF assms(1-4)] obtain f where f: "fences w c = Some f"
    "scope_inv validate schemas jobs c (takeover_generation f0) h f" by blast
  have "distinct (reservers jobs c h)"
  proof (rule distinct_conv_nth [THEN iffD2], intro allI impI notI)
    fix i j assume "i < length (reservers jobs c h)" "j < length (reservers jobs c h)" "i \<noteq> j"
      "reservers jobs c h ! i = reservers jobs c h ! j"
    with f(2) have "VInt (takeover_generation f - int i) = VInt (takeover_generation f - int j)"
      unfolding scope_inv_def by metis
    with \<open>i \<noteq> j\<close> show False by simp
  qed
  with f assms(5) show ?thesis by (auto simp: scope_inv_def JS_SAFE_INTEGER_MAX_def)
qed


section \<open>Recovery\<close>

lemma locked_store_synced [simp]: "synced (locked_store s)"
  by (simp add: synced_def from_execution_def locked_store_def ProjectionState.defs)

lemma locked_store_sel [simp]: "row (locked_store s) = row s" "events (locked_store s) = events s"
  by (simp_all add: locked_store_def)

lemma lost_worker_failed:
  assumes "execs w b = Some a" "status (row (store a)) = RUNNING" "contiguous (events (store a))" "env_itf env = (\<lambda>_. [])"
  shows "\<exists>w' a'. fail_lost_worker env b w = Inr w' \<and> execs w' b = Some a' \<and> status (row (store a')) = FAILED"
proof -
  let ?s = "locked_store (store a)"
  let ?ev = "ExecutionFailed ''Gitea runner worker was lost after scope reservation; reconciliation is required.''
      ''RPC_RUNNER_WORKER_LOST'' (VTime (env_now env)) []"
  obtain r e' where e': "append_and_project (env_rt env) [] ?s ?ev =
      Inr (write_projection (?s\<lparr>events := events ?s @ [r]\<rparr>) (apply_event (env_rt env) (from_execution (obj ?s)) e'))"
    "own_from_data (env_rt env) (persistable_failure_event ?ev) (ev_data r) = Inr e'"
    by (rule append_and_project_undisturbed [of ?s "env_rt env" ?ev]) (use assms(3) in simp_all)
  have "status (row (write_projection (?s\<lparr>events := events ?s @ [r]\<rparr>) (apply_event (env_rt env) (from_execution (obj ?s)) e'))) = FAILED"
    using row_status_write [OF locked_store_synced] decoded_status [OF e'(2)] by simp
  then show ?thesis
    using assms(1,2,4) e'(1) by (simp add: fail_lost_worker_def mark_execution_failed_def)
qed

lemma settled_iff: "status_value st \<in> set SETTLED_STATUSES \<longleftrightarrow> st \<in> set TERMINAL_STATUSES"
  by (cases st) (simp_all add: SETTLED_STATUSES_def TERMINAL_STATUSES_def)

text \<open>
  A fenced scope that nobody is reconciling is never stuck: thirty minutes after its last
  change, a reconciliation whose parameters were normalized against the current fence takes
  it over, if the execution that blocks it ended or its worker was lost while the scope was
  pending; a lost execution is failed by the take-over.
\<close>

theorem fenced_scope_can_be_reconciled:
  assumes "fences w c = Some f" "fence_constraints f" "fence_state f \<noteq> STATE_CLEAR" "reconciliation_execution_id f = None"
    and "blocking_execution_id f = Some b" "execs w b = Some a"
    and "status (row (store a)) \<in> set TERMINAL_STATUSES
      \<or> fence_state f = STATE_PENDING \<and> status (row (store a)) = RUNNING \<and> contiguous (events (store a))"
    and "last_updated f = Some t" "dt_offset t \<noteq> None" "dt_instant t + 1800 * 1000000 \<le> dt_instant (env_now env)"
    and "fence_unchanged f n" "str_or (dget n ''gitea_scope'') [] = c" "str_or (dget n ''operation'') [] = ''reconcile''"
    and "env_itf env = (\<lambda>_. [])"
  shows "\<exists>w' g a'. reserve_gitea_runner_scope env e p n w = Inr w' \<and> fences w' c = Some g \<and> fence_state g = STATE_BLOCKED
    \<and> reconciliation_execution_id g = Some e \<and> takeover_generation g = takeover_generation f + 1
    \<and> execs w' b = Some a' \<and> status (row (store a')) \<in> set TERMINAL_STATUSES"
proof -
  have st: "fence_state f = STATE_PENDING \<or> fence_state f = STATE_BLOCKED" using assms(2,3) by (auto simp: fence_constraints_def)
  have q: "gitea_runner_fence_is_quiescent (env_now env) w f"
    using assms(5-10) settled_iff [of "status (row (store a))"]
    by (auto simp: gitea_runner_fence_is_quiescent_def stored_status_def RECONCILIATION_QUIESCENCE_SECONDS_def STATE_PENDING_def)
  obtain w1 a1 where w1: "(if fence_state f = STATE_PENDING then fail_lost_worker env b w else Inr w) = Inr w1"
    "execs w1 b = Some a1" "status (row (store a1)) \<in> set TERMINAL_STATUSES"
  proof (cases "status (row (store a)) \<in> set TERMINAL_STATUSES")
    case True
    then have "status_value (status (row (store a))) \<in> set SETTLED_STATUSES" by (simp add: settled_iff)
    then have "fail_lost_worker env b w = Inr w" using assms(6) by (auto simp: fail_lost_worker_def Let_def SETTLED_STATUSES_def)
    with True assms(6) that show thesis by auto
  next
    case False
    with assms(7) lost_worker_failed [OF assms(6) _ _ assms(14)] that show thesis
      by (auto simp: TERMINAL_STATUSES_def)
  qed
  let ?g = "f\<lparr>fence_state := STATE_BLOCKED, reconciliation_execution_id := Some e\<rparr>"
  have "reserve_reconcile env e f w = Inr (?g, w1)"
    using assms(4,5) st q w1(1) by (auto simp: reserve_reconcile_def)
  moreover have "fence_constraints (?g\<lparr>takeover_generation := takeover_generation f + 1\<rparr>)"
    using assms(5) by (simp add: fence_constraints_def)
  ultimately show ?thesis
    using assms(1,11-13) w1(2,3) start_not_reconcile [of p] start_not_reconcile [of p, symmetric]
    by (simp add: reserve_gitea_runner_scope_def Let_def save_fence_def)
qed


section \<open>A sample scope\<close>

text \<open>
  Execution 1 registers a runner and stops before a token exists; execution 3 registers
  again; execution 2 reconciles the first one after its worker was lost.
\<close>

definition sample_scope :: string where "sample_scope = ''N-MultiCloud''"

definition sample_fence :: scope_fence where
  "sample_fence = \<lparr>fence_state = STATE_CLEAR, blocking_execution_id = None, reconciliation_execution_id = None,
     takeover_generation = 0, expected_token_sha256 = [], last_reset_state = [], last_prior_token_id = VNone,
     last_replacement_token_id = VNone, last_prior_active_sha256 = [], last_updated = None\<rparr>"

definition sample_world :: fence_world where
  "sample_world = \<lparr>fences = [sample_scope \<mapsto> sample_fence], execs = Map.empty\<rparr>"

definition fence_params :: "string \<Rightarrow> string \<Rightarrow> pyval \<Rightarrow> int \<Rightarrow> pydict" where
  "fence_params operation st b g = [(''operation'', VStr operation), (''gitea_scope'', VStr sample_scope), (''scope'', VStr ''org''),
     (''fence_state'', VStr st), (''fence_execution_id'', b), (''fence_expected_sha256'', VStr FENCE_UNKNOWN_SHA256),
     (''fence_generation'', VInt g)]"

definition sample_jobs :: fence_jobs where
  "sample_jobs e = (GITEA_RUNNER_REGISTER,
     if e = 1 then fence_params ''register'' STATE_CLEAR VNone 1
     else if e = 2 then fence_params ''reconcile'' STATE_PENDING (VInt 1) 2
     else fence_params ''register'' STATE_CLEAR VNone 2)"

definition tokenless_response :: pydict where
  "tokenless_response = [(''ok'', VBool False), (''result'', VDict [(''ok'', VBool False), (''operation'', VStr ''register''),
     (''scope'', VStr ''org''), (''stage'', VStr ''docker''), (''fence_generation'', VInt 1), (''token_reset_required'', VBool False)])]"

definition pending_fence :: scope_fence where
  "pending_fence = sample_fence\<lparr>fence_state := STATE_PENDING, blocking_execution_id := Some 1, takeover_generation := 1,
     last_updated := Some noon\<rparr>"

lemmas sample_defs = sample_world_def sample_fence_def sample_jobs_def fence_params_def sample_scope_def pending_fence_def
  tokenless_response_def STATE_CLEAR_def STATE_PENDING_def STATE_BLOCKED_def FENCE_UNKNOWN_SHA256_def JS_SAFE_INTEGER_MAX_def
  GITEA_RUNNER_REGISTER_def GITEA_ORG_CI_RUNNER_PROVISION_def quiet_env_def

lemma sample_clear: "fences sample_world sample_scope = Some sample_fence" "fence_constraints sample_fence"
    "fence_state sample_fence = STATE_CLEAR"
  by (simp_all add: sample_world_def sample_fence_def fence_constraints_def)

lemma sample_job_scope: "job_scope sample_jobs e = sample_scope"
  by (simp add: job_scope_def sample_jobs_def fence_params_def dget_def sample_scope_def)

lemma sample_reserve: "fence_apply quiet_env schemas sample_jobs (Reserve 1) sample_world
    = Inr (sample_world\<lparr>fences := [sample_scope \<mapsto> pending_fence]\<rparr>)"
  by (simp add: reserve_gitea_runner_scope_def fence_unchanged_def reserve_start_def save_fence_def fence_constraints_def
      gitea_runner_start_operation_def opt_id_def dget_def sample_defs)

lemma sample_block: "\<exists>w. fence_apply quiet_env schemas sample_jobs (Block 1) (sample_world\<lparr>fences := [sample_scope \<mapsto> pending_fence]\<rparr>)
    = Inr w"
  by (simp add: block_gitea_runner_scope_def check_ownership_def save_fence_def fence_constraints_def
      gitea_runner_start_operation_def dget_def sample_defs)

theorem only_newest_reserver_changes_scope_witness:
  "take 1 (reservers sample_jobs sample_scope [Reserve 1]) = [1]"
proof -
  let ?w = "sample_world\<lparr>fences := [sample_scope \<mapsto> pending_fence]\<rparr>"
  have run: "fence_run object_validator (\<lambda>_. VNone) sample_jobs sample_world [Reserve 1] ?w"
    by (rule fence_run.reserve [OF fence_run.initially sample_reserve])
  obtain w' where w': "fence_apply quiet_env (\<lambda>_. VNone) sample_jobs (Block 1) ?w = Inr w'" using sample_block by blast
  from only_newest_reserver_changes_scope [OF run, of "Block 1" sample_fence quiet_env w'] w' sample_clear show ?thesis
    by (simp add: sample_job_scope del: fence_apply.simps)
qed

theorem fence_constraints_never_violated_witness:
  "fence_apply quiet_env (\<lambda>_. VNone) sample_jobs (Block 1) (sample_world\<lparr>fences := [sample_scope \<mapsto> pending_fence]\<rparr>)
     \<noteq> Inl IntegrityError"
proof -
  let ?w = "sample_world\<lparr>fences := [sample_scope \<mapsto> pending_fence]\<rparr>"
  have "fence_run object_validator (\<lambda>_. VNone) sample_jobs sample_world [Reserve 1] ?w"
    by (rule fence_run.reserve [OF fence_run.initially sample_reserve])
  from fence_constraints_never_violated [OF this, of "Block 1" sample_fence quiet_env] sample_clear show ?thesis
    by (simp add: sample_job_scope del: fence_apply.simps)
qed

theorem generation_counts_reservations_witness:
  "\<exists>f. fences (sample_world\<lparr>fences := [sample_scope \<mapsto> pending_fence]\<rparr>) sample_scope = Some f \<and> takeover_generation f = 1"
proof -
  have "fence_run object_validator (\<lambda>_. VNone) sample_jobs sample_world [Reserve 1] (sample_world\<lparr>fences := [sample_scope \<mapsto> pending_fence]\<rparr>)"
    by (rule fence_run.reserve [OF fence_run.initially sample_reserve])
  from generation_counts_reservations [OF this sample_clear] show ?thesis
    by (auto simp: sample_job_scope sample_fence_def JS_SAFE_INTEGER_MAX_def)
qed

lemma tokenless_recorded:
  assumes "live plain_rt (store a)" "status (row (store a)) = RUNNING"
  shows "\<exists>a'. agg_record_backend_response quiet_env tokenless_response a = Inr a'"
proof -
  have st: "status (obj (store a)) = RUNNING" using assms synced_status by (simp add: live_def)
  have "\<exists>f. backend_failure_fields tokenless_response (dget tokenless_response ''result'') c = Inr f" for c
    by (cases "is_gitea_upgrade c")
      (simp_all add: backend_failure_fields_def tokenless_response_def dget_def result_diagnostics_def Let_def)
  then obtain s' where "record_backend_response plain_rt object_validator (\<lambda>_. []) noon (store a) tokenless_response = Inr s'"
    using response_recorded [OF assms(1)] by metis
  with st show ?thesis
    by (simp add: agg_record_backend_response_def guard_defs TERMINAL_STATUSES_def recording_def quiet_env_def)
qed

lemma sample_complete:
  assumes "agg_record_backend_response quiet_env tokenless_response a = Inr a'"
  shows "fence_apply quiet_env (\<lambda>_. VNone) sample_jobs (Complete 1 tokenless_response)
      \<lparr>fences = [sample_scope \<mapsto> pending_fence], execs = [1 \<mapsto> a]\<rparr>
    = Inr \<lparr>fences = [sample_scope \<mapsto> sample_fence\<lparr>takeover_generation := 1, last_updated := Some noon\<rparr>], execs = [1 \<mapsto> a']\<rparr>"
proof -
  let ?n = "fence_params ''register'' STATE_CLEAR VNone 1"
  obtain res where res: "dget tokenless_response ''result'' = VDict res" "dget res ''stage'' = VStr ''docker''"
    "dget res ''token_sha256'' = VNone" "dget res ''token_reset_required'' = VBool False" "dget res ''reset_state'' = VNone"
    "dget res ''prior_token_id'' = VNone" "dget res ''replacement_token_id'' = VNone" "dget res ''prior_active_sha256'' = VNone"
    "dget res ''ok'' = VBool False" "dget res ''operation'' = VStr ''register''" "dget res ''scope'' = VStr ''org''"
    "dget res ''fence_execution_id'' = VNone" "dget res ''fence_generation'' = VInt 1"
    by (simp add: tokenless_response_def dget_def)
  have n: "dget ?n ''operation'' = VStr ''register''" "dget ?n ''gitea_scope'' = VStr sample_scope" "dget ?n ''scope'' = VStr ''org''"
    "dget ?n ''fence_execution_id'' = VNone" "dget ?n ''fence_generation'' = VInt 1"
    by (simp_all add: fence_params_def dget_def)
  have v: "valid_runner_result object_validator (\<lambda>_. VNone) GITEA_RUNNER_REGISTER ?n tokenless_response = Some res"
    by (simp add: valid_runner_result_def res n uses_org_contract_def GITEA_RUNNER_REGISTER_def GITEA_ORG_CI_RUNNER_PROVISION_def
        object_validator_def) (auto simp: tokenless_response_def dget_def)
  have c: "completed_fence ''register'' ''register'' res pending_fence = sample_fence\<lparr>takeover_generation := 1, last_updated := Some noon\<rparr>"
    by (simp add: completed_fence_def Let_def res clear_without_token_def TOKENLESS_STAGES_def pending_fence_def sample_fence_def)
  have o: "check_ownership 1 ''register'' ''register'' ?n pending_fence = Inr ()"
    by (simp add: check_ownership_def n pending_fence_def sample_fence_def)
  have k: "fence_constraints (sample_fence\<lparr>takeover_generation := 1\<rparr>)"
    by (simp add: sample_fence_def fence_constraints_def)
  have so: "gitea_runner_start_operation GITEA_RUNNER_REGISTER = ''register''"
    by (simp add: gitea_runner_start_operation_def GITEA_RUNNER_REGISTER_def GITEA_ORG_CI_RUNNER_PROVISION_def)
  have e: "env_validate quiet_env = object_validator" "env_now quiet_env = noon" by (simp_all add: quiet_env_def)
  have sc: "sample_scope \<noteq> []" by (simp add: sample_scope_def)
  show ?thesis
    by (simp add: record_gitea_runner_response_def Let_def sample_jobs_def e so v n sc o c k save_fence_def stage_hashable_def res assms)
qed

theorem scope_reused_only_after_proof_witness:
  "cleared_since object_validator (\<lambda>_. VNone) sample_jobs sample_scope [Complete 1 tokenless_response, Reserve 1]"
proof -
  obtain a :: aggregate where a: "live plain_rt (store a)" "status (row (store a)) = RUNNING" using fresh_started by blast
  obtain a' where a': "agg_record_backend_response quiet_env tokenless_response a = Inr a'" using tokenless_recorded [OF a] by blast
  let ?w = "\<lparr>fences = [sample_scope \<mapsto> sample_fence\<lparr>takeover_generation := 1, last_updated := Some noon\<rparr>], execs = [1 \<mapsto> a']\<rparr>"
  have "fence_run object_validator (\<lambda>_. VNone) sample_jobs sample_world [Reserve 1] \<lparr>fences = [sample_scope \<mapsto> pending_fence], execs = [1 \<mapsto> a]\<rparr>"
    by (rule fence_run.other [OF fence_run.reserve [OF fence_run.initially sample_reserve]]) simp
  then have run: "fence_run object_validator (\<lambda>_. VNone) sample_jobs sample_world [Complete 1 tokenless_response, Reserve 1] ?w"
    by (rule fence_run.finish [OF _ _ _ sample_complete [OF a']]) (simp_all add: quiet_env_def)
  have "\<exists>w'. fence_apply quiet_env (\<lambda>_. VNone) sample_jobs (Reserve 3) ?w = Inr w'"
    by (simp add: reserve_gitea_runner_scope_def fence_unchanged_def reserve_start_def save_fence_def fence_constraints_def
      gitea_runner_start_operation_def opt_id_def dget_def sample_defs)
  then obtain w' where "fence_apply quiet_env (\<lambda>_. VNone) sample_jobs (Reserve 3) ?w = Inr w'" ..
  moreover have "job_operation sample_jobs 3 = job_start sample_jobs 3"
    by (simp add: job_operation_def job_start_def gitea_runner_start_operation_def dget_def sample_defs)
  ultimately show ?thesis
    using scope_reused_only_after_proof [OF run, of 3 sample_fence] sample_clear by (simp add: sample_job_scope del: fence_apply.simps)
qed

definition half_past_noon :: datetime where "half_past_noon = noon\<lparr>dt_minute := 30\<rparr>"

theorem fenced_scope_can_be_reconciled_witness:
  "\<exists>w a w' g. fences w sample_scope = Some pending_fence \<and> execs w 1 = Some a
     \<and> reserve_gitea_runner_scope (quiet_env\<lparr>env_now := half_past_noon\<rparr>) 2 GITEA_RUNNER_REGISTER (snd (sample_jobs 2)) w = Inr w'
     \<and> fences w' sample_scope = Some g \<and> reconciliation_execution_id g = Some 2"
proof -
  obtain a :: aggregate where a: "live plain_rt (store a)" "status (row (store a)) = RUNNING" using fresh_started by blast
  let ?w = "\<lparr>fences = [sample_scope \<mapsto> pending_fence], execs = [1 \<mapsto> a]\<rparr>"
  have "\<exists>w' g a'. reserve_gitea_runner_scope (quiet_env\<lparr>env_now := half_past_noon\<rparr>) 2 GITEA_RUNNER_REGISTER (snd (sample_jobs 2)) ?w = Inr w'
      \<and> fences w' sample_scope = Some g \<and> fence_state g = STATE_BLOCKED \<and> reconciliation_execution_id g = Some 2
      \<and> takeover_generation g = takeover_generation pending_fence + 1
      \<and> execs w' 1 = Some a' \<and> status (row (store a')) \<in> set TERMINAL_STATUSES"
  proof (rule fenced_scope_can_be_reconciled [where t = noon])
    show "fence_unchanged pending_fence (snd (sample_jobs 2))"
      by (simp add: fence_unchanged_def opt_id_def dget_def sample_defs)
    show "dt_instant noon + 1800 * 1000000 \<le> dt_instant (env_now (quiet_env\<lparr>env_now := half_past_noon\<rparr>))"
      unfolding half_past_noon_def by (simp add: dt_instant_def noon_def)
    show "status (row (store a)) \<in> set TERMINAL_STATUSES
      \<or> fence_state pending_fence = STATE_PENDING \<and> status (row (store a)) = RUNNING \<and> contiguous (events (store a))"
      using a by (simp add: live_def sample_defs)
  qed (simp_all add: sample_defs fence_constraints_def dget_def noon_def)
  moreover have "fences ?w sample_scope = Some pending_fence" "execs ?w 1 = Some a" by simp_all
  ultimately show ?thesis by blast
qed

end
