(* ===== verification/DispatchProps.thy ===== *)
theory DispatchProps
  imports Dispatch ScopeFenceProps
begin

text \<open>
  What a run of the worker guarantees, whatever the normalizer, the resolver, the backend
  and the credential authority do: a backend is called only for an execution that passed
  every gate, at most once, and a claimed execution always ends.
\<close>

section \<open>Aggregate operations on a claimed execution\<close>

text \<open>
  A claimed execution; with the flag \<open>q\<close>, nobody else writes to its ledger, so its events
  stay contiguous.
\<close>

definition held :: "bool \<Rightarrow> aggregate \<Rightarrow> bool" where
  "held q a \<longleftrightarrow> synced (store a) \<and> status (row (store a)) = RUNNING \<and> (q \<longrightarrow> contiguous (events (store a)))"

definition quiet :: "bool \<Rightarrow> call_env \<Rightarrow> bool" where
  "quiet q env \<longleftrightarrow> (q \<longrightarrow> env_itf env = (\<lambda>_. []))"

lemma locked_aggregate_synced [simp]: "synced (store (locked_aggregate a))"
  by (simp add: locked_aggregate_def)

lemma locked_aggregate_sel [simp]:
  "row (store (locked_aggregate a)) = row (store a)" "events (store (locked_aggregate a)) = events (store a)"
  "approval (locked_aggregate a) = approval a"
  by (simp_all add: locked_aggregate_def)

lemma agg_status_row: "synced (store a) \<Longrightarrow> agg_status a = status (row (store a))"
  by (simp add: synced_status)

lemma op_kept:
  assumes "run_op env op a = Inr a'" "synced (store a)"
  shows "synced (store a')" "status (row (store a')) \<in> allowed_next op (status (row (store a)))" "approval a' = approval a"
  using run_op_effect [OF assms] by (simp_all add: op_effect_def)

lemma op_contiguous:
  "run_op env op a = Inr a' \<Longrightarrow> quiet q env \<Longrightarrow> (\<forall>u. op \<noteq> OpRequest u) \<Longrightarrow> (q \<longrightarrow> contiguous (events (store a))) \<Longrightarrow>
     q \<longrightarrow> contiguous (events (store a'))"
  using quiet_op_adds [of env op a a'] by (auto simp: quiet_def adds_def)

lemma start_held:
  assumes "start env a = Inr a'" "synced (store a)" "quiet q env" "q \<longrightarrow> contiguous (events (store a))"
  shows "held q a'"
  using op_kept [of env OpStart a a'] op_contiguous [of env OpStart a a' q] assms by (auto simp: held_def split: if_splits)

lemma fail_ends: "fail env m c a = Inr a' \<Longrightarrow> synced (store a) \<Longrightarrow> synced (store a') \<and> status (row (store a')) = FAILED"
  using op_kept [of env "OpFail m c" a a'] by (auto split: if_splits)

lemma normalize_held:
  "normalize env n h a = Inr a' \<Longrightarrow> held q a \<Longrightarrow> quiet q env \<Longrightarrow> held q a' \<and> approval a' = approval a"
  using op_kept [of env "OpNormalize n h" a a'] op_contiguous [of env "OpNormalize n h" a a' q]
  by (auto simp: held_def split: if_splits)

lemma lease_held:
  "agg_record_dispatch_lease_issued env n k kv sv au ex ev a = Inr a' \<Longrightarrow> held q a \<Longrightarrow> quiet q env \<Longrightarrow>
     held q a' \<and> approval a' = approval a"
  using op_kept [of env "OpLeaseIssued n k kv sv au ex ev" a a'] op_contiguous [of env "OpLeaseIssued n k kv sv au ex ev" a a' q]
  by (auto simp: held_def split: if_splits)

lemma response_ends:
  "agg_record_backend_response env r a = Inr a' \<Longrightarrow> held q a \<Longrightarrow> status (row (store a')) \<in> {SUCCEEDED, FAILED}"
  using op_kept [of env "OpBackendResponse r" a a'] by (auto simp: held_def split: if_splits)

lemma held_fails:
  assumes "held True a" "quiet True env"
  shows "\<exists>a'. fail env m c a = Inr a'"
proof -
  have "agg_status a = RUNNING" using assms(1) by (simp add: held_def synced_status)
  moreover have "\<exists>a'. recording (mark_execution_failed (env_rt env) [] (env_now env) ''ExecutionFailed'' m c) a = Inr a'"
    using assms(1) recording_succeeds [OF _ mark_execution_failed_def [of "env_rt env" "[]" "env_now env" "''ExecutionFailed''" m c], of a]
    by (simp add: held_def)
  ultimately show ?thesis
    using assms(2) by (simp add: fail_def ensure_not_terminal_def TERMINAL_STATUSES_def quiet_def)
qed

lemma aggregated_Inr_iff [simp]: "aggregated m = Inr x \<longleftrightarrow> m = Inr x"
  by (cases m) simp_all

lemma raised_Inr_iff [simp]: "raised m = Inr x \<longleftrightarrow> m = Inr x"
  by (cases m) simp_all


section \<open>The claim\<close>

text \<open>What a claim has checked when it leaves the execution running.\<close>

definition claim_checked :: "dispatch_env \<Rightarrow> exec_request \<Rightarrow> aggregate \<Rightarrow> bool" where
  "claim_checked d rq a \<longleftrightarrow>
     agg_status a = QUEUED \<and> proc_enabled (de_claim_procedure d)
     \<and> \<not> restart_queue_is_stale (proc_name (de_claim_procedure d)) (de_queued_at d) (env_now (de_calls d 0))
     \<and> reject_invalid_gitea_org_claim d a = None
     \<and> (proc_name (de_claim_procedure d) \<in> set PROTECTED_APPROVAL_PROCEDURE_NAMES \<longrightarrow>
          require_protected_procedure_policy (de_policy d) (de_claim_procedure d) = Inr ()
          \<and> approval_identities_are_authorized rq a)"

lemma protected_claim_passes:
  "reject_invalid_protected_claim d rq a = Inr None \<Longrightarrow> proc_name (de_claim_procedure d) \<in> set PROTECTED_APPROVAL_PROCEDURE_NAMES \<Longrightarrow>
     require_protected_procedure_policy (de_policy d) (de_claim_procedure d) = Inr () \<and> approval_identities_are_authorized rq a"
  by (auto simp: reject_invalid_protected_claim_def Let_def split: sum.splits handler_error.splits if_splits)

lemma claim_cases:
  assumes "claim_if_procedure_enabled d rq a = Inr a'" "synced (store a)"
  shows "synced (store a') \<and> (status (row (store a')) = FAILED
    \<or> status (row (store a')) = RUNNING \<and> start (de_calls d 0) a = Inr a' \<and> approval a' = approval a \<and> claim_checked d rq a)"
proof -
  have failing: "synced (store a') \<and> status (row (store a')) = FAILED" if "fail (de_calls d 0) m c a = Inr a'" for m c
    using fail_ends [OF that assms(2)] .
  have q: "agg_status a = QUEUED" using assms(1) by (auto simp: claim_if_procedure_enabled_def Let_def split: if_splits)
  consider (failed) m c where "fail (de_calls d 0) m c a = Inr a'"
    | (started) "start (de_calls d 0) a = Inr a'" "claim_checked d rq a"
  proof (cases "proc_enabled (de_claim_procedure d) \<and>
      \<not> restart_queue_is_stale (proc_name (de_claim_procedure d)) (de_queued_at d) (env_now (de_calls d 0))
      \<and> reject_invalid_gitea_org_claim d a = None \<and> reject_invalid_protected_claim d rq a = Inr None")
    case True
    with assms(1) q have "start (de_calls d 0) a = Inr a'" by (simp add: claim_if_procedure_enabled_def)
    moreover have "claim_checked d rq a" using True q protected_claim_passes unfolding claim_checked_def by blast
    ultimately show thesis using started by blast
  next
    case False
    then have "\<exists>m c. fail (de_calls d 0) m c a = Inr a'"
      using assms(1) q unfolding claim_if_procedure_enabled_def Let_def
      by (auto simp: rbind_Inr_iff split: if_splits option.splits prod.splits) blast
    then show thesis using failed by blast
  qed
  then show ?thesis
  proof cases
    case started
    with op_kept [of "de_calls d 0" OpStart a a'] assms(2) show ?thesis by (auto split: if_splits)
  qed (use failing in blast)
qed


section \<open>The stages\<close>

lemma prepare_held:
  assumes "prepare_dispatch d rq e t a = (a', r)" "held q a" "\<And>k. quiet q (de_calls d k)"
  shows "held q a'"
proof -
  have lease: "held q a2" if "dispatch_lease d rq e a1 n = Inr (a2, l)" "held q a1" for a1 a2 n l
    using that lease_held [OF _ that(2) assms(3)]
    by (auto simp: dispatch_lease_def lease_inputs_def Let_def rbind_Inr_iff split: option.splits)
  show ?thesis
    using assms(1,2) normalize_held [OF _ assms(2,3)] lease
    by (auto simp: prepare_dispatch_def split: sum.splits prod.splits if_splits)
qed

lemma prepare_admits:
  "prepare_dispatch d rq e t a = (a', Inr (n, lease)) \<Longrightarrow>
     admitted_params d rq a t = Inr n \<and> (requires_signed_dispatch rq \<longrightarrow> lease \<noteq> None)"
  by (auto simp: prepare_dispatch_def split: sum.splits prod.splits if_splits)

lemma dispatch_calls: "set (do_calls (dispatch_to_backend d rq e t lease n a w)) \<subseteq> {(t, lease, n)}"
    "length (do_calls (dispatch_to_backend d rq e t lease n a w)) \<le> 1"
  by (auto simp: dispatch_to_backend_def plain_dispatch_def fenced_dispatch_def Let_def split: sum.split)

lemma stages_call:
  assumes "dispatch_stages d rq e selector a w = (n, out)" "c \<in> set (do_calls out)"
  shows "\<exists>t lease a'. c = (t, lease, n) \<and> resolve_dispatch_target d rq a selector = Inr t
    \<and> prepare_dispatch d rq e t a = (a', Inr (n, lease))"
  using assms dispatch_calls(1)
  by (auto simp: dispatch_stages_def Let_def rbind_Inr_iff split: sum.splits prod.splits) fastforce+


lemma claimed_call:
  assumes "c \<in> set (rr_calls (run_claimed d rq e bpk a w))"
  shows "de_integration_enabled d \<and> (\<exists>selector t lease n a'. select_backend d rq bpk = Inr selector \<and> c = (t, lease, n)
    \<and> resolve_dispatch_target d rq a selector = Inr t \<and> prepare_dispatch d rq e t a = (a', Inr (n, lease)))"
proof -
  have on: "de_integration_enabled d"
  proof (rule ccontr)
    assume "\<not> de_integration_enabled d"
    with assms show False by (simp add: run_claimed_def split: prod.splits)
  qed
  from assms on obtain selector where sel: "select_backend d rq bpk = Inr selector"
    by (cases "select_backend d rq bpk") (auto simp: run_claimed_def Let_def split: if_splits sum.splits)
  obtain n out where out: "dispatch_stages d rq e selector a w = (n, out)" by (cases "dispatch_stages d rq e selector a w")
  with assms on sel have "c \<in> set (do_calls out)"
    by (auto simp: run_claimed_def Let_def split: option.splits prod.splits)
  from stages_call [OF out this] on sel show ?thesis by blast
qed

lemma run_call:
  assumes "c \<in> set (rr_calls (run_execution d rq e bpk w))"
  shows "\<exists>a0 a. execs w e = Some a0 \<and> claim_if_procedure_enabled d rq (locked_aggregate a0) = Inr a \<and> agg_status a = RUNNING
    \<and> c \<in> set (rr_calls (run_claimed d rq e bpk a (put_aggregate e a w)))"
proof -
  from assms obtain a0 where a0: "execs w e = Some a0" by (cases "execs w e") (auto simp: run_execution_def)
  from assms a0 obtain a where a: "claim_if_procedure_enabled d rq (locked_aggregate a0) = Inr a"
    by (cases "claim_if_procedure_enabled d rq (locked_aggregate a0)")
      (auto simp: run_execution_def split: handler_error.splits agg_error.splits)
  from assms a0 a show ?thesis by (auto simp: run_execution_def Let_def split: if_splits)
qed

lemma admitted_approval:
  assumes "admitted_params d rq a t = Inr n" "proc_name (rq_procedure rq) \<in> set PROTECTED_APPROVAL_PROCEDURE_NAMES"
  shows "require_current_protected_approval (de_policy d) rq a n (Some t) = Inr ()"
  using assms by (auto simp: admitted_params_def rbind_Inr_iff)

lemma current_approval:
  assumes "require_current_protected_approval pe rq a n t = Inr u"
  shows "require_protected_procedure_policy pe (rq_procedure rq) = Inr ()" "approval_identities_are_authorized rq a"
    "\<exists>snap current. approval a = Some snap \<and> approval_protected_payload pe rq a n t = Inr current
       \<and> matches_current (pe_rt pe) snap current"
  using assms
  by (auto simp: require_current_protected_approval_def Let_def rbind_Inr_iff
      split: sum.splits handler_error.splits option.splits)

lemma resolved_protected:
  assumes "resolve_dispatch_target d rq a selector = Inr t" "proc_name (rq_procedure rq) \<in> set PROTECTED_APPROVAL_PROCEDURE_NAMES"
  shows "\<exists>snap. approval a = Some snap \<and>
    protected_backend_target_sha256 (de_policy d) (rq_backend_id rq) (proc_name (rq_procedure rq)) (Some t) = Inr (ap_backend_target_sha256 snap)"
proof -
  from assms obtain t0 where "protected_target d rq a selector t0 = Inr t"
    by (auto simp: resolve_dispatch_target_def Let_def rbind_Inr_iff split: sum.splits option.splits)
  then have "require_approved_backend_target_before_io (de_policy d) rq a (Some t) = Inr ()"
    by (auto simp: protected_target_def Let_def rbind_Inr_iff)
  then show ?thesis
    by (auto simp: require_approved_backend_target_before_io_def Let_def split: sum.splits handler_error.splits option.splits)
qed

lemma resolved_explicit:
  assumes "resolve_dispatch_target d rq a selector = Inr t" "proc_name (rq_procedure rq) \<in> set EXPLICIT_BACKEND_CAPABILITY_PROCEDURE_NAMES"
  shows "verify_procedure_capability (de_rt d) (pe_tables (de_policy d)) (rq_procedure rq)
     (fst (fetch_backend_capabilities (de_reader d) (de_network d) (de_clock d) False (Some t) [])) = Inr COMPATIBLE"
  using assms by (auto simp: resolve_dispatch_target_def verify_backend_capability_def Let_def rbind_Inr_iff split: sum.splits option.splits)


section \<open>Gates\<close>

text \<open>
  C6: Whatever the normalizer, the resolver, the signer and the backend do, a backend is
  called only if the claim passed (the execution was queued, its procedure enabled, a restart
  not overdue), the integration is enabled, and for a protected procedure: the catalog
  policy is the reviewed one, the approving identities are authorized, the stored approval
  matches the payload of exactly the dispatched parameters and target, the digest of the
  called target is the approved one, and the call carries a signed lease. A procedure with an
  explicit capability is called only on a backend whose fresh manifest is compatible.
\<close>

theorem backend_called_only_through_gates:
  assumes "(t, lease, n) \<in> set (rr_calls (run_execution d rq e bpk w))"
  shows "\<exists>a0 a. execs w e = Some a0 \<and> start (de_calls d 0) (locked_aggregate a0) = Inr a
    \<and> claim_checked d rq (locked_aggregate a0) \<and> de_integration_enabled d
    \<and> (proc_name (rq_procedure rq) \<in> set PROTECTED_APPROVAL_PROCEDURE_NAMES \<longrightarrow>
         require_protected_procedure_policy (de_policy d) (rq_procedure rq) = Inr ()
         \<and> approval_identities_are_authorized rq a \<and> lease \<noteq> None
         \<and> (\<exists>snap current. approval a0 = Some snap
              \<and> approval_protected_payload (de_policy d) rq a n (Some t) = Inr current
              \<and> matches_current (de_rt d) snap current
              \<and> protected_backend_target_sha256 (de_policy d) (rq_backend_id rq) (proc_name (rq_procedure rq)) (Some t)
                  = Inr (ap_backend_target_sha256 snap)))
    \<and> (proc_name (rq_procedure rq) \<in> set EXPLICIT_BACKEND_CAPABILITY_PROCEDURE_NAMES \<longrightarrow>
         verify_procedure_capability (de_rt d) (pe_tables (de_policy d)) (rq_procedure rq)
           (fst (fetch_backend_capabilities (de_reader d) (de_network d) (de_clock d) False (Some t) [])) = Inr COMPATIBLE)"
proof -
  from run_call [OF assms] obtain a0 a where a0: "execs w e = Some a0"
    "claim_if_procedure_enabled d rq (locked_aggregate a0) = Inr a" "agg_status a = RUNNING"
    "(t, lease, n) \<in> set (rr_calls (run_claimed d rq e bpk a (put_aggregate e a w)))" by blast
  from claim_cases [OF a0(2)] a0(3) agg_status_row [of a] have cl: "start (de_calls d 0) (locked_aggregate a0) = Inr a"
    "approval a = approval a0" "claim_checked d rq (locked_aggregate a0)" by auto
  from claimed_call [OF a0(4)] obtain selector a' where st: "de_integration_enabled d"
    "resolve_dispatch_target d rq a selector = Inr t" "prepare_dispatch d rq e t a = (a', Inr (n, lease))" by auto
  note adm = prepare_admits [OF st(3)]
  have "require_protected_procedure_policy (de_policy d) (rq_procedure rq) = Inr ()
         \<and> approval_identities_are_authorized rq a \<and> lease \<noteq> None
         \<and> (\<exists>snap current. approval a0 = Some snap
              \<and> approval_protected_payload (de_policy d) rq a n (Some t) = Inr current
              \<and> matches_current (de_rt d) snap current
              \<and> protected_backend_target_sha256 (de_policy d) (rq_backend_id rq) (proc_name (rq_procedure rq)) (Some t)
                  = Inr (ap_backend_target_sha256 snap))"
    if p: "proc_name (rq_procedure rq) \<in> set PROTECTED_APPROVAL_PROCEDURE_NAMES"
  proof -
    note cur = current_approval [OF admitted_approval [OF adm [THEN conjunct1] p]]
    show ?thesis using cur resolved_protected [OF st(2) p] adm p cl(2) by (auto simp: requires_signed_dispatch_def)
  qed
  with a0(1) cl st(1) resolved_explicit [OF st(2)] show ?thesis by blast
qed



section \<open>Endings\<close>

definition no_own_fence :: "int \<Rightarrow> fence_world \<Rightarrow> bool" where
  "no_own_fence e w \<longleftrightarrow> (\<forall>c f. fences w c = Some f \<longrightarrow> blocking_execution_id f \<noteq> Some e)"

lemma fail_lost_worker_other: "fail_lost_worker env b w = Inr w' \<Longrightarrow> b \<noteq> e \<Longrightarrow> execs w' e = execs w e"
  by (auto simp: fail_lost_worker_def Let_def split: option.splits if_splits sum.splits)

lemma reserve_keeps:
  assumes "reserve_gitea_runner_scope env e p n w = Inr w'" "no_own_fence e w"
  shows "execs w' e = execs w e"
proof -
  have rec: "execs w1 e = execs w e" if "reserve_reconcile env e f w = Inr (g, w1)" "fences w c = Some f" for f g w1 c
  proof -
    have "blocking_execution_id f \<noteq> Some e" using assms(2) that(2) by (auto simp: no_own_fence_def)
    then show ?thesis using that(1)
      by (auto simp: reserve_reconcile_def rbind_Inr_iff split: option.splits if_splits intro: fail_lost_worker_other)
  qed
  show ?thesis
    using assms(1) rec
    by (auto simp: reserve_gitea_runner_scope_def Let_def rbind_Inr_iff save_fence_Inr reserve_start_def split: option.splits if_splits)
qed

lemma complete_execution:
  assumes "record_gitea_runner_response env schemas e p n r w = Inr w'"
  shows "\<exists>a a'. execs w e = Some a \<and> agg_record_backend_response env r a = Inr a' \<and> execs w' e = Some a'"
  using assms
  by (auto simp: record_gitea_runner_response_def Let_def rbind_Inr_iff save_fence_Inr simp del: py_eq.simps split: option.splits sum.splits)

lemma block_keeps: "execs (block_runner_scope_after_failure d rq e n w) = execs w"
proof -
  have "execs w' = execs w" if "block_gitea_runner_scope env e p n w = Inr w'" for env p w'
    using that by (auto simp: block_gitea_runner_scope_def Let_def rbind_Inr_iff save_fence_Inr split: option.splits if_splits)
  then show ?thesis by (auto simp: block_runner_scope_after_failure_def split: sum.split)
qed

lemma dispatch_ends:
  assumes "held q a" "execs w e = Some a" "no_own_fence e w"
  shows "case do_error (dispatch_to_backend d rq e t lease n a w) of
      None \<Rightarrow> \<exists>a'. execs (do_world (dispatch_to_backend d rq e t lease n a w)) e = Some a'
        \<and> status (row (store a')) \<in> {SUCCEEDED, FAILED}
    | Some _ \<Rightarrow> execs (do_world (dispatch_to_backend d rq e t lease n a w)) e = Some a"
proof (cases "proc_name (rq_procedure rq) \<in> set GITEA_RUNNER_SCOPE_PROCEDURE_NAMES")
  case True
  have "execs w1 e = Some a" if "reserve_gitea_runner_scope (de_calls d 5) e (proc_name (rq_procedure rq)) n w = Inr w1" for w1
    using reserve_keeps [OF that assms(3)] assms(2) by simp
  with True complete_execution response_ends [OF _ assms(1)] assms(2) show ?thesis
    by (fastforce simp: dispatch_to_backend_def fenced_dispatch_def Let_def split: sum.split)
next
  case False
  with response_ends [OF _ assms(1)] assms(2) show ?thesis
    by (auto simp: dispatch_to_backend_def plain_dispatch_def put_aggregate_def Let_def split: sum.split)
qed

lemma stages_end:
  assumes "dispatch_stages d rq e selector a w = (n, out)" "held q a" "execs w e = Some a" "no_own_fence e w"
    "\<And>k. quiet q (de_calls d k)"
  shows "case do_error out of
      None \<Rightarrow> \<exists>a'. execs (do_world out) e = Some a' \<and> status (row (store a')) \<in> {SUCCEEDED, FAILED}
    | Some _ \<Rightarrow> \<exists>a'. execs (do_world out) e = Some a' \<and> held q a'"
proof (cases "rbind (reference_execution_guard d rq ''backend'' None []) (\<lambda>_. resolve_dispatch_target d rq a selector)")
  case (Inl err)
  with assms(1-3) show ?thesis by (auto simp: dispatch_stages_def Let_def)
next
  case (Inr t)
  obtain a' r where p: "prepare_dispatch d rq e t a = (a', r)" by (cases "prepare_dispatch d rq e t a")
  from prepare_held [OF p assms(2,5)] have h: "held q a'" .
  have w: "execs (put_aggregate e a' w) e = Some a'" "no_own_fence e (put_aggregate e a' w)"
    using assms(4) by (simp_all add: put_aggregate_def no_own_fence_def)
  show ?thesis
  proof (cases r)
    case (Inl err)
    with assms(1) Inr p h w(1) show ?thesis by (auto simp: dispatch_stages_def Let_def)
  next
    case (Inr nl)
    obtain n' lease where nl: "nl = (n', lease)" by (cases nl)
    with assms(1) \<open>rbind _ _ = Inr t\<close> p Inr have out: "out = dispatch_to_backend d rq e t lease n' a' (put_aggregate e a' w)"
      by (auto simp: dispatch_stages_def Let_def)
    from dispatch_ends [OF h w, of d rq t lease n'] h show ?thesis unfolding out by (auto split: option.splits)
  qed
qed

lemma fail_execution_ends:
  assumes "fail_execution d e m c err w = (err', w')" "execs w e = Some a" "held q a" "quiet q (de_calls d 4)"
  shows "\<exists>a'. execs w' e = Some a' \<and> status (row (store a')) \<in> {RUNNING, FAILED} \<and> (q \<longrightarrow> status (row (store a')) = FAILED)"
proof -
  have s: "synced (store a)" "status (row (store a)) = RUNNING" using assms(3) by (simp_all add: held_def)
  have ok: "\<exists>a'. fail (de_calls d 4) m c a = Inr a'" if q using held_fails assms(3,4) that by simp
  show ?thesis
    using assms(1,2) s ok fail_ends [OF _ s(1)]
    by (cases "fail (de_calls d 4) m c a") (auto simp: fail_execution_def put_aggregate_def split: agg_error.splits)
qed


lemma claimed_ends:
  assumes "held q a" "execs w e = Some a" "no_own_fence e w" "\<And>k. quiet q (de_calls d k)"
    and "q \<longrightarrow> (\<forall>err. select_backend d rq bpk = Inl err \<longrightarrow> binding_error err)"
  shows "\<exists>a'. execs (rr_world (run_claimed d rq e bpk a w)) e = Some a' \<and> status (row (store a')) \<in> {RUNNING, SUCCEEDED, FAILED}
    \<and> (q \<longrightarrow> status (row (store a')) \<in> {SUCCEEDED, FAILED})"
proof (cases "de_integration_enabled d")
  case False
  obtain err w' where f: "fail_execution d e ''The netbox-rpc integration is disabled; execution not dispatched.''
      ''RPC_INTEGRATION_DISABLED'' None w = (err, w')" by (meson prod.exhaust)
  from fail_execution_ends [OF f assms(2,1,4)] False f show ?thesis by (auto simp: run_claimed_def)
next
  case on: True
  show ?thesis
  proof (cases "select_backend d rq bpk")
    case (Inl err)
    have s: "synced (store a)" "status (row (store a)) = RUNNING" using assms(1) by (simp_all add: held_def)
    have ok: "\<exists>a'. fail (de_calls d 4) m c a = Inr a'" if q for m c using held_fails assms(1,4) that by simp
    show ?thesis
      using on Inl assms(2,5) s ok fail_ends [OF _ s(1)]
      by (fastforce simp: run_claimed_def Let_def put_aggregate_def split: sum.split)
  next
    case (Inr selector)
    obtain n out where out: "dispatch_stages d rq e selector a w = (n, out)" by (cases "dispatch_stages d rq e selector a w")
    note ends = stages_end [OF out assms(1-4)]
    show ?thesis
    proof (cases "do_error out")
      case None
      with ends on Inr out show ?thesis by (auto simp: run_claimed_def)
    next
      case (Some err)
      with ends obtain a1 where a1: "execs (do_world out) e = Some a1" "held q a1" by auto
      define w1 where "w1 = (if do_reserved out then block_runner_scope_after_failure d rq e n (do_world out) else do_world out)"
      have w1: "execs w1 e = Some a1" using a1(1) block_keeps by (simp add: w1_def)
      obtain err' w2 where f: "fail_execution d e (de_exc_text d err) (error_code_of err) (Some err) w1 = (err', w2)" by (meson prod.exhaust)
      have "rr_world (run_claimed d rq e bpk a w) = w2"
        using on Inr out Some f by (simp add: run_claimed_def Let_def w1_def)
      with fail_execution_ends [OF f w1 a1(2) assms(4)] show ?thesis by auto
    qed
  qed
qed

text \<open>
  C7: A claimed execution always ends. When nobody else writes to its ledger, a run leaves a
  queued execution either still queued (the claim itself raised) or with a terminal status,
  never running, whatever the normalizer, the resolver, the backend and the signer do; and
  if a backend was called, the status is terminal.
\<close>

theorem run_never_strands_execution:
  assumes "execs w e = Some a0" "status (row (store a0)) = QUEUED" "contiguous (events (store a0))" "no_own_fence e w"
    and "\<And>k. env_itf (de_calls d k) = (\<lambda>_. [])"
    and "rq_backend_id rq = VNone \<or> (\<exists>i. rq_backend_id rq = VInt i)" "bpk = VNone \<or> (\<exists>i. bpk = VInt i)"
  shows "\<exists>a'. execs (rr_world (run_execution d rq e bpk w)) e = Some a' \<and> status (row (store a')) \<in> {QUEUED, SUCCEEDED, FAILED}
    \<and> (rr_calls (run_execution d rq e bpk w) \<noteq> [] \<longrightarrow> status (row (store a')) \<in> {SUCCEEDED, FAILED})"
proof (cases "claim_if_procedure_enabled d rq (locked_aggregate a0)")
  case (Inl err)
  with assms(1,2) show ?thesis
    by (auto simp: run_execution_def split: handler_error.splits agg_error.splits)
next
  case (Inr a)
  have quiet: "quiet True (de_calls d k)" for k using assms(5) by (simp add: quiet_def)
  have binding: "binding_error err" if "select_backend d rq bpk = Inl err" for err
    using that assms(6,7)
    by (auto simp: select_backend_def require_concrete_protected_backend_id_def backend_error_def protected_contract_of_def
        Let_def rbind_Inl_iff py_int_def split: if_splits option.splits)
  from claim_cases [OF Inr] consider "synced (store a)" "status (row (store a)) = FAILED"
    | "synced (store a)" "status (row (store a)) = RUNNING" "start (de_calls d 0) (locked_aggregate a0) = Inr a" by auto
  then show ?thesis
  proof cases
    case 1
    with assms(1) Inr agg_status_row [of a] show ?thesis by (auto simp: run_execution_def put_aggregate_def)
  next
    case 2
    have h: "held True a" using start_held [OF 2(3) _ quiet] assms(3) by simp
    have "execs (put_aggregate e a w) e = Some a" "no_own_fence e (put_aggregate e a w)"
      using assms(4) by (simp_all add: put_aggregate_def no_own_fence_def)
    from claimed_ends [OF h this quiet, of rq bpk] binding 2 Inr assms(1) agg_status_row [of a] show ?thesis
      by (auto simp: run_execution_def Let_def)
  qed
qed

text \<open>
  A backend is called at most once for an execution. A run makes at most one call, and
  after a run that made one no later run, in any environment and with any request data,
  makes another: its claim is refused and it changes nothing.
\<close>

theorem dispatched_at_most_once:
  assumes "rr_calls (run_execution d rq e bpk w) \<noteq> []" "no_own_fence e w"
  shows "length (rr_calls (run_execution d rq e bpk w)) = 1
    \<and> run_execution d' rq' e bpk' (rr_world (run_execution d rq e bpk w))
        = \<lparr>rr_error = None, rr_world = rr_world (run_execution d rq e bpk w), rr_calls = []\<rparr>"
proof -
  from assms(1) obtain c where "c \<in> set (rr_calls (run_execution d rq e bpk w))" by (meson last_in_set)
  from run_call [OF this] obtain a0 a where a: "execs w e = Some a0"
    "claim_if_procedure_enabled d rq (locked_aggregate a0) = Inr a" "agg_status a = RUNNING" by blast
  let ?w = "put_aggregate e a w"
  have r: "run_execution d rq e bpk w = run_claimed d rq e bpk a ?w" using a by (simp add: run_execution_def)
  from claim_cases [OF a(2)] a(3) agg_status_row [of a] have h: "held False a" by (auto simp: held_def)
  have "execs ?w e = Some a" "no_own_fence e ?w" using assms(2) by (simp_all add: put_aggregate_def no_own_fence_def)
  from claimed_ends [OF h this, of d rq bpk] obtain a' where a': "execs (rr_world (run_claimed d rq e bpk a ?w)) e = Some a'"
    "status (row (store a')) \<noteq> QUEUED" by (auto simp: quiet_def)
  have "agg_status (locked_aggregate a') \<noteq> QUEUED" using a'(2) agg_status_row [of "locked_aggregate a'"] by simp
  then have "claim_if_procedure_enabled d' rq' (locked_aggregate a')
      = Inl (HandlerAggregate (RPCExecutionAggregateError ''Only a queued execution can be claimed by a worker.''))"
    by (simp add: claim_if_procedure_enabled_def)
  with a'(1) have again: "run_execution d' rq' e bpk' (rr_world (run_claimed d rq e bpk a ?w))
      = \<lparr>rr_error = None, rr_world = rr_world (run_claimed d rq e bpk a ?w), rr_calls = []\<rparr>"
    by (simp add: run_execution_def)
  have "length (rr_calls (run_claimed d rq e bpk a ?w)) \<le> 1"
    using dispatch_calls(2) by (auto simp: run_claimed_def dispatch_stages_def Let_def split: sum.split prod.split option.split)
  then have "length (rr_calls (run_execution d rq e bpk w)) = 1" using assms(1) r by (cases "rr_calls (run_execution d rq e bpk w)") auto
  with again show ?thesis by (simp only: r)
qed

section \<open>A run\<close>

text \<open>A read-only procedure on a freshly queued execution, with no signing key and a backend that does not answer.\<close>

definition down_backend :: backend_target where
  "down_backend = \<lparr>bt_url = ''http://b'', bt_headers = [], bt_verify_ssl = True\<rparr>"

definition down_policy :: policy_env where
  "down_policy = \<lparr>pe_rt = plain_rt,
     pe_tables = \<lparr>ct_fixed = (\<lambda>_. VNone), ct_normalized_params = (\<lambda>_. []), ct_command_fingerprint = (\<lambda>_. []), ct_runtime = (\<lambda>_. VNone)\<rparr>,
     pe_contract = (\<lambda>_. \<lparr>pc_policy = VNone, pc_params_schema = VNone, pc_result_schema = VNone, pc_semantic_sha256 = None,
       pc_transport_pinned = None, pc_backend_id = None, pc_backend_base_url = None, pc_backend_verify_ssl = True\<rparr>),
     pe_salted_hmac = (\<lambda>_ s. s),
     pe_backends = \<lparr>be_resolver = Some (\<lambda>_. Inr (Some down_backend)), be_nms = None, be_rows = []\<rparr>\<rparr>"

definition no_key_env :: lease_env where
  "no_key_env = \<lparr>env_plugins_config = VDict [], env_key_file = None, env_key_id = None, env_key_version = None,
     env_fs = \<lparr>fs_supported = False, fs_euid = 0, fs_directory = (\<lambda>_. None), fs_stat = None, fs_open = None,
       fs_reads = [], fs_after = None, fs_decode = (\<lambda>_. None)\<rparr>\<rparr>"

definition down_dispatch :: dispatch_env where
  "down_dispatch = \<lparr>de_policy = down_policy, de_calls = (\<lambda>_. quiet_env), de_integration_enabled = True,
     de_claim_procedure = sample_procedure, de_queued_at = None, de_org_params_schema = VNone, de_lanes = [],
     de_schemas = (\<lambda>_. VNone), de_normalize = (\<lambda>_. Inr []), de_reference_guard = (\<lambda>_ _ _. Inr ()),
     de_reader = \<lparr>mr_loads = (\<lambda>_. None), mr_coerce = (\<lambda>_. None)\<rparr>, de_network = (\<lambda>_ _. RequestRaises), de_clock = 0,
     de_signature = \<lparr>ed_load_private = (\<lambda>_. None), ed_load_public_pem = (\<lambda>_. None), ed_from_public_bytes = (\<lambda>_. None),
       ed_public_of = (\<lambda>k. k), ed_sign = (\<lambda>_ m. m), ed_verify = (\<lambda>_ s m. s = m)\<rparr>,
     de_lease_env = no_key_env, de_nonce = ''n'',
     de_backend = (\<lambda>_ _. Inl (RPCExecutionError ''The backend timed out.'' ''RPC_BACKEND_TIMEOUT'')),
     de_exc_text = (\<lambda>_. ''The backend timed out.'')\<rparr>"

definition uptime_request :: exec_request where
  "uptime_request = \<lparr>rq_procedure = sample_procedure, rq_target_type_id = 3, rq_target_id = 8, rq_target_model_label = ''dcim.device'',
     rq_target_display = ''sw1'', rq_backend_id = VNone, rq_credential_references = VNone, rq_credential_authority = VNone,
     rq_approver_is_superuser = False\<rparr>"

definition queued_world :: fence_world where
  "queued_world = \<lparr>fences = (\<lambda>_. None), execs = [5 \<mapsto> fresh_aggregate]\<rparr>"

lemma sample_ungated:
  "proc_name sample_procedure \<notin> set PROTECTED_APPROVAL_PROCEDURE_NAMES"
  "proc_name sample_procedure \<notin> set EXPLICIT_BACKEND_CAPABILITY_PROCEDURE_NAMES"
  "proc_name sample_procedure \<notin> set GITEA_RUNNER_SCOPE_PROCEDURE_NAMES"
  "proc_name sample_procedure \<noteq> NETBOX_PRODUCTION_RESTART_RQ_WORKER"
  "proc_name sample_procedure \<noteq> GITEA_ORG_CI_RUNNER_PROVISION"
  by code_simp+

lemma fresh_queued:
  "locked_aggregate fresh_aggregate = fresh_aggregate" "agg_status fresh_aggregate = QUEUED"
  "status (row (store fresh_aggregate)) = QUEUED" "contiguous (events (store fresh_aggregate))" "live plain_rt (store fresh_aggregate)"
  using fresh_store_live [of plain_rt]
  by (simp_all add: fresh_aggregate_def locked_aggregate_def locked_store_def fresh_store_def projection_initial_def ProjectionState.defs live_def)

lemma down_claim:
  "\<exists>a. claim_if_procedure_enabled down_dispatch uptime_request (locked_aggregate fresh_aggregate) = Inr a \<and> held True a \<and> agg_status a = RUNNING"
proof -
  obtain a where a: "recording (mark_execution_running plain_rt [] noon) fresh_aggregate = Inr a"
    "live plain_rt (store a)" "status (row (store a)) = RUNNING"
    using recording_quiet [OF fresh_queued(5) mark_execution_running_def [of plain_rt "[]" noon]] by (auto simp: proper_name_def)
  have "start quiet_env fresh_aggregate = Inr a"
    using a(1) fresh_queued(2) by (simp add: start_def guard_defs quiet_env_def TERMINAL_STATUSES_def)
  moreover have "proc_enabled sample_procedure" by (simp add: sample_procedure_def)
  ultimately have "claim_if_procedure_enabled down_dispatch uptime_request fresh_aggregate = Inr a"
    using sample_ungated fresh_queued(2)
    by (simp add: claim_if_procedure_enabled_def down_dispatch_def restart_queue_is_stale_def reject_invalid_gitea_org_claim_def
        reject_invalid_protected_claim_def)
  with a(2,3) agg_status_row [of a] show ?thesis by (auto simp: fresh_queued(1) held_def live_def)
qed

lemma params_ledgered: "\<exists>n. ledger_normalized_params rt p = Inr n"
  unfolding ledger_normalized_params_def by (rule stored_dict) (use plain_names in \<open>auto simp: MAPPING_NAME_PLACEHOLDER_PREFIX_def\<close>)

lemma down_params: "\<exists>n. \<forall>a t. admitted_params down_dispatch uptime_request a t = Inr n"
proof -
  obtain n where "ledger_normalized_params plain_rt [] = Inr n" using params_ledgered by blast
  with sample_ungated show ?thesis
    by (auto simp: admitted_params_def down_dispatch_def down_policy_def reference_execution_guard_def uptime_request_def)
qed

lemma down_lease: "dispatch_lease down_dispatch uptime_request 5 a n = Inr (a, None)"
proof -
  obtain m where "ledger_normalized_params plain_rt n = Inr m" using params_ledgered by blast
  then have "\<exists>policy. credential_policy_reference down_policy uptime_request n = Inr policy"
    by (simp add: credential_policy_reference_def Let_def down_policy_def uptime_request_def)
  then obtain policy where "credential_policy_reference down_policy uptime_request n = Inr policy" ..
  then show ?thesis
    by (simp add: dispatch_lease_def lease_inputs_def Let_def issue_dispatch_lease_def down_dispatch_def
        load_active_signing_key_def plugin_setting_def load_environment_signing_key_def no_key_env_def or_empty_def)
qed

lemma down_prepared: "\<exists>n. \<forall>a t. held True a \<longrightarrow> (\<exists>a'. prepare_dispatch down_dispatch uptime_request 5 t a = (a', Inr (n, None)))"
proof -
  obtain n where n: "\<And>a t. admitted_params down_dispatch uptime_request a t = Inr n" using down_params by blast
  have "\<exists>a'. prepare_dispatch down_dispatch uptime_request 5 t a = (a', Inr (n, None))" if "held True a" for a t
  proof -
    let ?h = "hash_json (de_rt down_dispatch) (dget n ''command_fingerprint'')"
    have "agg_status a = RUNNING" using that by (simp add: held_def synced_status)
    with that obtain a1 where "normalize (de_calls down_dispatch 1) n ?h a = Inr a1"
      using recording_succeeds [OF _ record_execution_normalized_def [of plain_rt "[]" n ?h], of a]
      by (auto simp: normalize_def guard_defs quiet_env_def TERMINAL_STATUSES_def held_def down_dispatch_def [THEN arg_cong [of _ _ de_calls]])
    with n down_lease [of a1 n] sample_ungated(1) show ?thesis
      by (simp add: prepare_dispatch_def requires_signed_dispatch_def uptime_request_def)
  qed
  then show ?thesis by blast
qed

lemma down_run_calls: "\<exists>n. rr_calls (run_execution down_dispatch uptime_request 5 VNone queued_world) = [(down_backend, None, n)]"
proof -
  obtain a where a: "claim_if_procedure_enabled down_dispatch uptime_request (locked_aggregate fresh_aggregate) = Inr a"
    "held True a" "agg_status a = RUNNING" using down_claim by blast
  obtain n a' where p: "prepare_dispatch down_dispatch uptime_request 5 down_backend a = (a', Inr (n, None))"
    using down_prepared a(2) by blast
  have sel: "select_backend down_dispatch uptime_request VNone = Inr VNone"
    using sample_ungated(1) by (simp add: select_backend_def uptime_request_def)
  have t: "resolve_dispatch_target down_dispatch uptime_request a VNone = Inr down_backend"
    using sample_ungated(1,2) by (simp add: resolve_dispatch_target_def resolve_backend_def down_dispatch_def down_policy_def uptime_request_def)
  have g: "reference_execution_guard down_dispatch uptime_request ''backend'' None [] = Inr ()"
    by (simp add: reference_execution_guard_def uptime_request_def)
  have c: "do_calls (snd (dispatch_stages down_dispatch uptime_request 5 VNone a w)) = [(down_backend, None, n)]" for w
    using sample_ungated(3) p t g
    by (simp add: dispatch_stages_def dispatch_to_backend_def plain_dispatch_def uptime_request_def [THEN arg_cong [of _ _ rq_procedure]])
      (simp add: down_dispatch_def)
  have "rr_calls (run_claimed down_dispatch uptime_request 5 VNone a w) = [(down_backend, None, n)]" for w
    using sel c [of w] by (cases "dispatch_stages down_dispatch uptime_request 5 VNone a w")
      (simp add: run_claimed_def Let_def down_dispatch_def [THEN arg_cong [of _ _ de_integration_enabled]] split: prod.split option.split)
  with a show ?thesis by (simp add: run_execution_def queued_world_def)
qed

theorem backend_called_only_through_gates_witness:
  "\<exists>a0 a. execs queued_world 5 = Some a0 \<and> start (de_calls down_dispatch 0) (locked_aggregate a0) = Inr a
    \<and> claim_checked down_dispatch uptime_request (locked_aggregate a0) \<and> de_integration_enabled down_dispatch"
  using backend_called_only_through_gates [of down_backend None _ down_dispatch uptime_request 5 VNone queued_world] down_run_calls
  by fastforce

theorem run_never_strands_execution_witness:
  "\<exists>a'. execs (rr_world (run_execution down_dispatch uptime_request 5 VNone queued_world)) 5 = Some a'
    \<and> status (row (store a')) \<in> {SUCCEEDED, FAILED}"
  using run_never_strands_execution [of queued_world 5 fresh_aggregate down_dispatch uptime_request VNone] fresh_queued(3,4) down_run_calls
  by (auto simp: queued_world_def no_own_fence_def down_dispatch_def [THEN arg_cong [of _ _ de_calls]] quiet_env_def
      uptime_request_def [THEN arg_cong [of _ _ rq_backend_id]])

theorem dispatched_at_most_once_witness:
  "rr_calls (run_execution down_dispatch uptime_request 5 VNone
     (rr_world (run_execution down_dispatch uptime_request 5 VNone queued_world))) = []"
  using dispatched_at_most_once [of down_dispatch uptime_request 5 VNone queued_world down_dispatch uptime_request VNone] down_run_calls
  by (auto simp: queued_world_def no_own_fence_def)

end
