(* ===== verification/AdmissionChecks.thy ===== *)
theory AdmissionChecks
  imports Dispatch
begin

text \<open>
  The checks of \<open>application/command_handlers.py\<close> that a request passes before an execution
  row exists: the code gates of \<open>domain/normalization.py\<close>, the schema, the opt-in and the
  selected backend, the protected policy, scopes and request shape, the target, the payload
  and the backend capability.

  What a check reads from the database, from Redis or from a content validator of one
  procedure family is a field of \<open>admission_env\<close>.
\<close>

record content_type =
  ctype_id :: int
  ctype_app_label :: string
  ctype_model :: string

text \<open>The object a restricted query found; only its name is read here.\<close>

record assigned_object =
  ao_name :: pyval

record api_user =
  us_pk :: pyval
  us_superuser :: bool
  us_perms :: "string list"
  us_scopes :: "(string \<times> int) list"

text \<open>The validated data of the serializer, and what the caller supplied to it.\<close>

record creation_data =
  cd_procedure :: rpc_procedure
  cd_params :: pyval
  cd_object_type :: "content_type option"
  cd_object_id :: pyval
  cd_credential_references :: pyval

record creation_input =
  ci_fields :: "string list"
  ci_credential_references :: pyval
  ci_validated :: "handler_error + creation_data"

record admission_env =
  ad_policy :: policy_env
  ad_calls :: "nat \<Rightarrow> call_env"
  ad_enabled :: bool
  ad_selected :: "(int \<times> rpc_backend) option"
  ad_schema_error :: "pyval \<Rightarrow> pyval \<Rightarrow> string option"
  ad_lanes :: "(string \<times> pyval) list"
  ad_control_worker :: bool
  ad_secret_ingress :: "pydict \<Rightarrow> string option"
  ad_viewable :: "content_type \<Rightarrow> pyval \<Rightarrow> assigned_object option"
  ad_target_error :: "string \<Rightarrow> assigned_object option \<Rightarrow> string \<Rightarrow> pyval \<Rightarrow> string option"
  ad_akvorado_error :: "pyval \<Rightarrow> string option"
  ad_reader :: manifest_reader
  ad_network :: backend_network
  ad_clock :: int
  ad_cache :: manifest_cache
  ad_prepare_references :: "creation_data \<Rightarrow> pyval \<Rightarrow> handler_error + (pyval \<times> pyval)"
  ad_normalize :: "exec_request \<Rightarrow> handler_error + pydict"
  ad_display :: string
  ad_new_pk :: int
  ad_enqueue :: "handler_error + int"
  ad_schedule :: "handler_error + unit"
  ad_queued_at :: "datetime option"

abbreviation ad_rt :: "admission_env \<Rightarrow> python_rt" where
  "ad_rt d \<equiv> pe_rt (ad_policy d)"

definition has_perm :: "api_user \<Rightarrow> string \<Rightarrow> bool" where
  "has_perm u p \<longleftrightarrow> p \<in> set (us_perms u)"


section \<open>Names\<close>

definition NETBOX_PLUGIN_INSTALL :: string where "NETBOX_PLUGIN_INSTALL = ''netbox.plugin.install''"

definition HUAWEI_NE8000_F1A_SHOW_BGP_PEER :: string where
  "HUAWEI_NE8000_F1A_SHOW_BGP_PEER = ''network.device.huawei.router.ne8000.f1a.show_bgp_peer''"

definition AKVORADO_1_CONFIG_READ :: string where "AKVORADO_1_CONFIG_READ = ''service.akvorado.1.config_read''"

definition AKVORADO_1_CONFIG_DEPLOY :: string where "AKVORADO_1_CONFIG_DEPLOY = ''service.akvorado.1.config_deploy''"

definition AKVORADO_1_STATUS_STACK :: string where "AKVORADO_1_STATUS_STACK = ''service.akvorado.1.status_stack''"

definition AKVORADO_1_RESTART_STACK :: string where "AKVORADO_1_RESTART_STACK = ''service.akvorado.1.restart_stack''"

definition AKVORADO_1_PROCEDURE_NAMES :: "string list" where
  "AKVORADO_1_PROCEDURE_NAMES =
     [AKVORADO_1_CONFIG_READ, AKVORADO_1_CONFIG_DEPLOY, AKVORADO_1_STATUS_STACK, AKVORADO_1_RESTART_STACK]"

definition PASSWORD_BEARING_HANDLER_IDS :: "string list" where
  "PASSWORD_BEARING_HANDLER_IDS = [''service.samba_1.user_create'', ''service.samba_1.user_set_password'']"

definition ASSIGNED_OBJECT_SCOPED_PROCEDURE_NAMES :: "string list" where
  "ASSIGNED_OBJECT_SCOPED_PROCEDURE_NAMES =
     AKVORADO_1_PROCEDURE_NAMES @ AKVORADO_BOOTSTRAP_DEBIAN13_PROCEDURE_NAMES @ INFLUXDB3_DEBIAN13_PROCEDURE_NAMES
     @ NETBOX_PRODUCTION_RQ_WORKER_PROCEDURE_NAMES @ UBUNTU_26_SAMBA_AD_DC_PROCEDURE_NAMES
     @ [GITEA_RUNNER_REGISTER, GITEA_ORG_CI_RUNNER_PROVISION] @ GITEA_ORG_CI_RUNNER_RECOVERY_PROCEDURE_NAMES
     @ GITEA_PROTECTED_PUBLICATION_PAIR_PROCEDURE_NAMES @ GITEA_USER_CI_RUNNER_PROCEDURE_NAMES
     @ NETBOX_OPENBAO_IMPORT_PROCEDURE_NAMES @ NMULTICLOUD_DEPLOY_RELEASE_MARKER_PROCEDURE_NAMES
     @ [LINUX_PROXMOX_OCI_REGISTRY_PULL, ''service.proxbox_api.release_images.inspect'',
        ''service.proxbox_api.release_images.recover'']"

definition OPENBAO_PROCEDURE_PREFIX :: string where
  "OPENBAO_PROCEDURE_PREFIX = ''service.openbao.1.''"

definition STAGING_ROTATION_CREATE_FIELDS :: "string list" where
  "STAGING_ROTATION_CREATE_FIELDS =
     [''procedure_id'', ''assigned_object_type'', ''assigned_object_id'', ''params'', ''credential_references'']"

record target_policy =
  tp_content_type :: string
  tp_object_id :: int
  tp_required_message :: string

definition runner_policy :: "int \<Rightarrow> string \<Rightarrow> target_policy" where
  "runner_policy i message =
     \<lparr>tp_content_type = ''virtualization.virtualmachine'', tp_object_id = i, tp_required_message = message\<rparr>"

definition GITEA_RUNNER_TARGET_POLICIES :: "(string \<times> target_policy) list" where
  "GITEA_RUNNER_TARGET_POLICIES =
     [(GITEA_RUNNER_REGISTER, runner_policy 399 ''The exact isolated Gitea runner VM is required.''),
      (GITEA_ORG_CI_RUNNER_PROVISION, runner_policy 416 ''The exact dedicated Gitea CI runner VM is required.'')]
     @ map (\<lambda>n. (n, runner_policy 416 ''The exact dedicated Gitea runner VM is required.''))
         GITEA_PROTECTED_PUBLICATION_PAIR_PROCEDURE_NAMES
     @ map (\<lambda>n. (n, runner_policy 604 ''The exact user-scoped Gitea CI runner VM is required.''))
         [GITEA_USER_CI_RUNNER_DIAGNOSE, GITEA_USER_CI_RUNNER_RECOVER]
     @ map (\<lambda>n. (n, runner_policy 604 ''The exact organization-scoped Gitea CI runner VM is required.''))
         [GITEA_ORG_CI_RUNNER_DIAGNOSE, GITEA_ORG_CI_RUNNER_RECOVER]"


section \<open>Code gates\<close>

text \<open>Every availability flag of the module is false at this commit.\<close>

definition gitea_runner_code_gate_unavailable_reason :: "string \<Rightarrow> string option" where
  "gitea_runner_code_gate_unavailable_reason name =
     (if name \<in> set GITEA_ORG_CI_RUNNER_PROCEDURE_NAMES then
        Some (name @ '' cannot run yet: no service.gitea.actions_runner.* execution handler is deployed in netbox-rpc-backend, so an ''
          @ ''execution could only queue and then fail on an unknown handler. Enable it in the coordinated rollout that ships the handler and ''
          @ ''its approved capability contract.'')
      else if name \<in> set GITEA_PROTECTED_PUBLICATION_PAIR_PROCEDURE_NAMES then
        Some (name @ '' cannot run until the fixed protected publication runner host generation, content-addressed helpers, and matching ''
          @ ''backend semantic capability are deployed and reviewed.'')
      else None)"

definition code_gate_unavailable_reason :: "string \<Rightarrow> string option" where
  "code_gate_unavailable_reason name =
     (if name = ''os.linux_env_file.upsert_var'' then
        Some (''os.linux_env_file.upsert_var cannot run yet: the nms-backend execution handler is not deployed, credential_pk is not ''
          @ ''object-scoped-authorization checked against the requester (issue #203), and approval decisions are not yet bound to an ''
          @ ''allowlist-policy snapshot (issue #163).'')
      else if name = NETBOX_PLUGIN_INSTALL then
        Some (''netbox.plugin.install cannot run yet: the nms-backend execution handler is not deployed. Note also that approval decisions are not ''
          @ ''yet bound to a snapshot of the RPCNetBoxPluginAllowlist row the worker resolves at claim time (issue #163), so an approver could ''
          @ ''approve against one row and the worker execute against another edited in between.'')
      else if name = GITEA_RUNNER_REGISTER then
        Some (''service.gitea.runner.register cannot run until the composite secret-silent backend handler and exact isolated-runner host ''
          @ ''generation are deployed and reviewed.'')
      else if name = HUAWEI_NE8000_F1A_SHOW_BGP_PEER then
        Some (HUAWEI_NE8000_F1A_SHOW_BGP_PEER @ '' cannot run yet: the netbox-rpc-backend execution handler and its approved capability ''
          @ ''contract are not deployed, and the coordinated BGP rollout has not been authorized.'')
      else if name \<in> set INFLUXDB3_DEBIAN13_PROCEDURE_NAMES then
        Some (name @ '' cannot run yet: no os.linux_debian_13.* execution handler is deployed in netbox-rpc-backend, so an ''
          @ ''execution could only queue and then fail on an unknown handler. Enable it in the coordinated rollout that ships the handlers and ''
          @ ''their approved capability contract.'')
      else if name \<in> set PBS_1_PROCEDURE_NAMES then
        Some (name @ '' cannot run yet: the service.pbs.1.* backend handlers and matching capability contracts must be deployed before the catalog ''
          @ ''procedures are enabled.'')
      else (case gitea_runner_code_gate_unavailable_reason name of
          Some r \<Rightarrow> Some r
        | None \<Rightarrow>
            if name \<in> set AKVORADO_BOOTSTRAP_DEBIAN13_PROCEDURE_NAMES then
              Some (name @ '' cannot run yet: the Debian 13 Akvorado bootstrap handlers and approved capability contracts are not deployed in ''
                @ ''netbox-rpc-backend.'')
            else None))"


section \<open>The request\<close>

definition validate_creation_admission :: "admission_env \<Rightarrow> rpc_procedure \<Rightarrow> pydict \<Rightarrow> handler_error + unit" where
  "validate_creation_admission d p ps =
     rbind (guard (proc_enabled p) (ValidationError ''procedure_id'' ''This procedure is disabled.'')) (\<lambda>_.
     rbind (if \<not> truthy (proc_params_schema p) then Inr ()
            else (case ad_schema_error d (VDict ps) (proc_params_schema p) of
                None \<Rightarrow> Inr () | Some m \<Rightarrow> Inl (ValidationError ''params'' m))) (\<lambda>_.
     rbind (if proc_name p \<noteq> GITEA_ORG_CI_RUNNER_PROVISION then Inr ()
            else (case activation_unavailable_reason (ad_lanes d) ps of
                None \<Rightarrow> Inr () | Some m \<Rightarrow> Inl (ValidationError ''params'' m))) (\<lambda>_.
     (case code_gate_unavailable_reason (proc_name p) of
        None \<Rightarrow> Inr () | Some m \<Rightarrow> Inl (ValidationError ''procedure_id'' m)))))"

definition require_enabled_and_authoritative_backend :: "admission_env \<Rightarrow> handler_error + pyval" where
  "require_enabled_and_authoritative_backend d =
     rbind (guard (ad_enabled d) (PermissionDenied
       ''The netbox-rpc integration is disabled. Enable it in RPC settings before creating executions.'')) (\<lambda>_.
     rbind (raised (resolved_backend_target (ad_rt d) (pe_backends (ad_policy d)) (map_option snd (ad_selected d)))) (\<lambda>t.
     rbind (guard (t \<noteq> None) (ValidationError ''backend''
       ''No RPC backend is configured. Select a backend in RPC settings before creating executions.'')) (\<lambda>_.
       Inr (case ad_selected d of None \<Rightarrow> VNone | Some (i, _) \<Rightarrow> VInt i))))"

definition require_protected_procedure_scope :: "rpc_procedure \<Rightarrow> api_user \<Rightarrow> string \<Rightarrow> handler_error + unit" where
  "require_protected_procedure_scope p u action =
     guard ((action, proc_pk p) \<in> set (us_scopes u))
       (PermissionDenied (''Object-scoped '' @ action @ ''_rpcprocedure permission is required for '' @ protected_label (proc_name p) @ ''.''))"

definition require_restart_requester_scopes :: "rpc_procedure \<Rightarrow> api_user \<Rightarrow> handler_error + unit" where
  "require_restart_requester_scopes p u =
     (if proc_name p \<noteq> NETBOX_PRODUCTION_RESTART_RQ_WORKER then Inr ()
      else require_protected_procedure_scope p u ''approve'')"

definition require_restart_control_consumer :: "admission_env \<Rightarrow> string \<Rightarrow> handler_error + unit" where
  "require_restart_control_consumer d name =
     (if name \<noteq> NETBOX_PRODUCTION_RESTART_RQ_WORKER then Inr ()
      else guard (ad_control_worker d) (ValidationError ''procedure_id''
        (''The dedicated netbox_rpc.control queue has no live consumer; ''
         @ ''the production NetBox RQ worker restart was not accepted.'')))"

text \<open>Python's \<open>!=\<close> between the validated references and the ones read again.\<close>

definition require_validated_reference_creation_shape :: "admission_env \<Rightarrow> creation_input \<Rightarrow> creation_data \<Rightarrow> handler_error + unit" where
  "require_validated_reference_creation_shape d ci cd =
     (let invalid = ValidationError ''credential_references'' ''Invalid named credential references.'' in
      case validate_named_references (ad_rt d) (ci_credential_references ci) of
        Inr refs \<Rightarrow> guard (py_eq (VDict refs) (cd_credential_references cd)) invalid
      | Inl (Uncaught e) \<Rightarrow> Inl (HandlerRaised e)
      | Inl _ \<Rightarrow> Inl invalid)"

definition require_protected_creation_shape :: "admission_env \<Rightarrow> creation_input \<Rightarrow> creation_data \<Rightarrow> string \<Rightarrow> handler_error + unit" where
  "require_protected_creation_shape d ci cd name =
     rbind (if ''credential_references'' \<in> set (ci_fields ci) then require_validated_reference_creation_shape d ci cd else Inr ()) (\<lambda>_.
       guard (set (ci_fields ci) \<subseteq> set STAGING_ROTATION_CREATE_FIELDS) (ValidationError ''non_field_errors''
         (protected_label name @ '' accepts only procedure_id, assigned object, its closed params object and validated credential ''
          @ ''references; other request metadata is forbidden.'')))"

definition prepare_creation_authorization ::
  "admission_env \<Rightarrow> rpc_procedure \<Rightarrow> api_user \<Rightarrow> creation_input \<Rightarrow> creation_data \<Rightarrow> pyval
     \<Rightarrow> handler_error + (pyval \<times> backend_target option)" where
  "prepare_creation_authorization d p u ci cd backend_id =
     (let name = proc_name p in
      if name \<in> set PROTECTED_APPROVAL_PROCEDURE_NAMES then
        rbind (require_concrete_protected_backend_id (ad_policy d) backend_id name) (\<lambda>i.
        rbind (require_protected_procedure_policy (ad_policy d) p) (\<lambda>_.
        rbind (require_protected_procedure_scope p u ''execute'') (\<lambda>_.
        rbind (require_restart_requester_scopes p u) (\<lambda>_.
        rbind (require_restart_control_consumer d name) (\<lambda>_.
        rbind (require_protected_creation_shape d ci cd name) (\<lambda>_.
        rbind (resolve_validated_protected_backend_target (ad_policy d) (VInt i) name None) (\<lambda>t. Inr (VInt i, t))))))))
      else rbind (guard (\<not> proc_approval_required p \<or> has_perm u ''netbox_rpc.approve_rpcprocedure'')
          (PermissionDenied ''This procedure requires approval (approve_rpcprocedure permission).'')) (\<lambda>_.
        Inr (backend_id, None)))"


section \<open>Target and payload\<close>

definition target_error :: "string \<Rightarrow> handler_error" where
  "target_error m = ValidationError ''assigned_object_id'' m"

definition type_label :: "content_type option \<Rightarrow> string" where
  "type_label c = (case c of None \<Rightarrow> ''.'' | Some t \<Rightarrow> ctype_app_label t @ ''.'' @ ctype_model t)"

definition find_viewable :: "admission_env \<Rightarrow> creation_data \<Rightarrow> assigned_object option" where
  "find_viewable d cd = (case cd_object_type cd of None \<Rightarrow> None | Some t \<Rightarrow> ad_viewable d t (cd_object_id cd))"

definition require_viewable_assigned_object :: "admission_env \<Rightarrow> creation_data \<Rightarrow> handler_error + unit" where
  "require_viewable_assigned_object d cd =
     (let name = proc_name (cd_procedure cd) in
      if name \<notin> set ASSIGNED_OBJECT_SCOPED_PROCEDURE_NAMES \<and> \<not> startswith name OPENBAO_PROCEDURE_PREFIX then Inr ()
      else rbind (guard (cd_object_type cd \<noteq> None \<and> cd_object_id cd \<noteq> VNone)
          (target_error ''An assigned NetBox object is required.'')) (\<lambda>_.
        guard (find_viewable d cd \<noteq> None) (target_error ''The assigned NetBox object does not exist.'')))"

definition require_staging_rotation_assigned_object :: "admission_env \<Rightarrow> creation_data \<Rightarrow> handler_error + unit" where
  "require_staging_rotation_assigned_object d cd =
     (if proc_name (cd_procedure cd) \<notin> {NETBOX_STAGING_ROTATE_BACKEND_TOKEN, NETBOX_STAGING_DEPLOY_DNS_PAIR} then Inr ()
      else rbind (guard (cd_object_id cd \<noteq> VNone \<and>
            (case cd_object_type cd of None \<Rightarrow> False | Some t \<Rightarrow> ctype_app_label t = ''dcim'' \<and> ctype_model t = ''device''))
          (target_error ''The nms-front-door device is required.'')) (\<lambda>_.
        guard (case find_viewable d cd of None \<Rightarrow> False | Some t \<Rightarrow> ao_name t = VStr ''nms-front-door'')
          (target_error ''The nms-front-door device does not exist.'')))"

text \<open>\<open>getattr(assigned_object, "name", None)\<close> is passed on by the validators of the family.\<close>

definition run_target_validator :: "admission_env \<Rightarrow> creation_data \<Rightarrow> handler_error + unit" where
  "run_target_validator d cd =
     (case ad_target_error d (proc_name (cd_procedure cd)) (find_viewable d cd) (type_label (cd_object_type cd)) (cd_object_id cd) of
        None \<Rightarrow> Inr () | Some m \<Rightarrow> Inl (target_error m))"

definition require_gitea_upgrade_assigned_object :: "admission_env \<Rightarrow> creation_data \<Rightarrow> handler_error + unit" where
  "require_gitea_upgrade_assigned_object d cd =
     (if proc_name (cd_procedure cd) \<noteq> GITEA_PRODUCTION_UPGRADE_1_27_1 then Inr ()
      else rbind (guard (type_label (cd_object_type cd) = ''virtualization.virtualmachine'' \<and> py_eq (cd_object_id cd) (VInt 170))
          (target_error ''Production Gitea VM PK 170 is required.'')) (\<lambda>_.
        run_target_validator d cd))"

definition require_gitea_runner_assigned_object :: "admission_env \<Rightarrow> creation_data \<Rightarrow> handler_error + unit" where
  "require_gitea_runner_assigned_object d cd =
     (case map_of GITEA_RUNNER_TARGET_POLICIES (proc_name (cd_procedure cd)) of
        None \<Rightarrow> Inr ()
      | Some tp \<Rightarrow>
          rbind (guard (type_label (cd_object_type cd) = tp_content_type tp \<and> py_eq (cd_object_id cd) (VInt (tp_object_id tp))
              \<and> \<not> is_bool (cd_object_id cd))
            (target_error (tp_required_message tp))) (\<lambda>_.
          run_target_validator d cd))"

definition validate_openbao_payload :: "admission_env \<Rightarrow> string \<Rightarrow> pydict \<Rightarrow> handler_error + unit" where
  "validate_openbao_payload d name ps =
     (if \<not> startswith name OPENBAO_PROCEDURE_PREFIX then Inr ()
      else (case ad_secret_ingress d ps of None \<Rightarrow> Inr () | Some m \<Rightarrow> Inl (ValidationError ''params'' m)))"

definition validate_akvorado_content_params :: "admission_env \<Rightarrow> string \<Rightarrow> pydict \<Rightarrow> handler_error + unit" where
  "validate_akvorado_content_params d name ps =
     (if name \<noteq> AKVORADO_1_CONFIG_DEPLOY then Inr ()
      else (case ad_akvorado_error d (dget ps ''config_content'') of None \<Rightarrow> Inr () | Some m \<Rightarrow> Inl (ValidationError ''params'' m)))"

text \<open>Length of the UTF-8 form of a text over the modelled code points.\<close>

definition utf8_length :: "string \<Rightarrow> nat" where
  "utf8_length s = sum_list (map (\<lambda>c. if (of_char c :: nat) < 128 then 1 else 2) s)"

definition scrub_password_param :: "python_rt \<Rightarrow> pydict \<Rightarrow> pydict" where
  "scrub_password_param rt ps = (case map_of ps ''password'' of
       None \<Rightarrow> ps
     | Some raw \<Rightarrow> dict_set ''password_bytes'' (VInt (int (utf8_length (py_str raw))))
         (dict_set ''password_sha256'' (VStr (rt_sha256 rt (py_str raw))) (dict_del ''password'' ps)))"

definition validate_creation_payload :: "admission_env \<Rightarrow> creation_data \<Rightarrow> pydict \<Rightarrow> handler_error + pydict" where
  "validate_creation_payload d cd ps =
     (let p = cd_procedure cd in
      rbind (validate_openbao_payload d (proc_name p) ps) (\<lambda>_.
      rbind (require_viewable_assigned_object d cd) (\<lambda>_.
      rbind (require_staging_rotation_assigned_object d cd) (\<lambda>_.
      rbind (require_gitea_upgrade_assigned_object d cd) (\<lambda>_.
      rbind (require_gitea_runner_assigned_object d cd) (\<lambda>_.
      rbind (validate_akvorado_content_params d (proc_name p) ps) (\<lambda>_.
        Inr (if proc_handler_id p \<in> set PASSWORD_BEARING_HANDLER_IDS then scrub_password_param (ad_rt d) ps else ps)))))))) "

text \<open>\<open>_verify_backend_capability\<close> with the target, or without one: the settings' target.\<close>

definition verify_capability_of :: "admission_env \<Rightarrow> rpc_procedure \<Rightarrow> bool \<Rightarrow> backend_target option \<Rightarrow> handler_error + unit" where
  "verify_capability_of d p use_cache given =
     rbind (case given of Some t \<Rightarrow> Inr (Some t)
        | None \<Rightarrow> raised (resolved_backend_target (ad_rt d) (pe_backends (ad_policy d)) (map_option snd (ad_selected d)))) (\<lambda>target.
     rbind (raised (verify_procedure_capability (ad_rt d) (pe_tables (ad_policy d)) p
         (fst (fetch_backend_capabilities (ad_reader d) (ad_network d) (ad_clock d) use_cache target (ad_cache d))))) (\<lambda>st.
       guard (\<not> (st = MISMATCH \<or> (proc_name p \<in> set EXPLICIT_BACKEND_CAPABILITY_PROCEDURE_NAMES \<and> st \<noteq> COMPATIBLE)))
         (ValidationError ''procedure_id'' (''The selected backend does not advertise a compatible ''
          @ ''capability for this procedure (handler/version/effect/contract mismatch).''))))"


section \<open>Job deadline\<close>

definition RPC_JOB_TIMEOUT_HEADROOM_SECONDS :: int where "RPC_JOB_TIMEOUT_HEADROOM_SECONDS = 60"

definition RPC_JOB_TIMEOUT_FLOOR_SECONDS :: int where "RPC_JOB_TIMEOUT_FLOOR_SECONDS = 600"

definition execution_job_timeout :: "python_rt \<Rightarrow> pyval \<Rightarrow> pyexc + int" where
  "execution_job_timeout rt timeout_seconds =
     rbind (py_int rt (py_or timeout_seconds (VInt 0))) (\<lambda>n.
       Inr (max (n + RPC_JOB_TIMEOUT_HEADROOM_SECONDS) RPC_JOB_TIMEOUT_FLOOR_SECONDS))"

definition TIMEOUT_SECONDS_SNAPSHOT_PARAM_KEY :: string where
  "TIMEOUT_SECONDS_SNAPSHOT_PARAM_KEY = ''_timeout_seconds_snapshot''"

text \<open>
  The worker's side: \<open>_resolve_backend_timeout_seconds\<close> of \<open>jobs.py\<close> on the stored parameters
  (a float never gets there: the stamp is the procedure's integer), and the read timeout of
  the HTTP call built from it.
\<close>

definition resolve_backend_timeout_seconds :: "rpc_procedure \<Rightarrow> pyval \<Rightarrow> int" where
  "resolve_backend_timeout_seconds p stored =
     (case dget (case stored of VDict ps \<Rightarrow> ps | _ \<Rightarrow> []) TIMEOUT_SECONDS_SNAPSHOT_PARAM_KEY of
        VInt n \<Rightarrow> if n \<le> 0 then proc_timeout_seconds p else n
      | VBool b \<Rightarrow> if b then 1 else proc_timeout_seconds p
      | _ \<Rightarrow> proc_timeout_seconds p)"

definition backend_read_timeout :: "int \<Rightarrow> int" where
  "backend_read_timeout timeout_seconds = max (timeout_seconds + 10) 30"

end
