(* ===== verification/Admission.thy ===== *)
theory Admission
  imports AdmissionChecks
begin

text \<open>
  The request side of \<open>application/command_handlers.py\<close>: creating an execution, enqueueing
  its job, deciding an approval and fanning out an intent.

  The service is the state all handlers share: the executions and fences, the columns of
  the execution rows that no event changes, and the jobs handed to the queue. A handler
  returns its result or exception and the new service; a transaction that raises leaves the
  service as it was.
\<close>

datatype rpc_job = ExecutionJob int pyval int | ExpiryJob int datetime

record service =
  sv_world :: fence_world
  sv_requests :: "(int \<times> exec_request) list"
  sv_jobs :: "rpc_job list"

definition put_exec :: "int \<Rightarrow> aggregate \<Rightarrow> service \<Rightarrow> service" where
  "put_exec e a s = s\<lparr>sv_world := put_aggregate e a (sv_world s)\<rparr>"

definition add_job :: "rpc_job \<Rightarrow> service \<Rightarrow> service" where
  "add_job j s = s\<lparr>sv_jobs := sv_jobs s @ [j]\<rparr>"


section \<open>Admission\<close>

record admitted =
  am_data :: creation_data
  am_params :: pydict
  am_backend_id :: pyval
  am_target :: "backend_target option"
  am_references :: pyval
  am_authority :: pyval

definition creation_params :: "creation_data \<Rightarrow> handler_error + pydict" where
  "creation_params cd = (case py_or (cd_params cd) (VDict []) of
       VDict ps \<Rightarrow> Inr ps
     | _ \<Rightarrow> Inl (ValidationError ''params'' ''Parameters must be a JSON object.''))"

definition stamp_timeout :: "rpc_procedure \<Rightarrow> pydict \<Rightarrow> pydict" where
  "stamp_timeout p ps = dict_set TIMEOUT_SECONDS_SNAPSHOT_PARAM_KEY (VInt (proc_timeout_seconds p)) ps"

definition prepare_references :: "admission_env \<Rightarrow> creation_data \<Rightarrow> pyval \<Rightarrow> handler_error + (pyval \<times> pyval)" where
  "prepare_references d cd backend_id =
     (if truthy (cd_credential_references cd) then ad_prepare_references d cd backend_id
      else Inr (cd_credential_references cd, VDict []))"

text \<open>Everything \<open>create_execution\<close> checks before it opens its transaction.\<close>

definition admit :: "admission_env \<Rightarrow> api_user \<Rightarrow> creation_input \<Rightarrow> handler_error + admitted" where
  "admit d u ci =
     rbind (guard (has_perm u ''netbox_rpc.execute_rpcprocedure'')
       (PermissionDenied ''execute_rpcprocedure permission is required.'')) (\<lambda>_.
     rbind (ci_validated ci) (\<lambda>cd.
     rbind (creation_params cd) (\<lambda>ps.
     (let p = cd_procedure cd in
     rbind (validate_creation_admission d p ps) (\<lambda>_.
     rbind (require_enabled_and_authoritative_backend d) (\<lambda>selected.
     rbind (prepare_creation_authorization d p u ci cd selected) (\<lambda>(backend_id, target).
     rbind (validate_creation_payload d cd ps) (\<lambda>ps1.
     rbind (verify_capability_of d p True target) (\<lambda>_.
     (let ps2 = stamp_timeout p ps1 in
     rbind (prepare_references d (cd\<lparr>cd_params := VDict ps2\<rparr>) backend_id) (\<lambda>(refs, authority).
     rbind (validate_openbao_payload d (proc_name p) ps2) (\<lambda>_.
       Inr \<lparr>am_data = cd, am_params = ps2, am_backend_id = backend_id, am_target = target,
            am_references = refs, am_authority = authority\<rparr>))))))))))))"


section \<open>The new row\<close>

text \<open>\<open>validate_immutable_reference_fields\<close> on a row that is being added.\<close>

definition validate_new_reference_fields :: "python_rt \<Rightarrow> pyval \<Rightarrow> pyval \<Rightarrow> handler_error + unit" where
  "validate_new_reference_fields rt refs authority =
     rbind (if \<not> truthy refs then Inr ()
       else (let invalid = ValidationError ''__all__'' ''Invalid credential authority snapshot.'' in
         case validate_named_references rt refs of
           Inl (Uncaught e) \<Rightarrow> Inl (HandlerRaised e)
         | Inl _ \<Rightarrow> Inl invalid
         | Inr named \<Rightarrow> (case authority of
             VDict au \<Rightarrow> guard (py_eq (VDict named) (dget au ''references'')) invalid
           | _ \<Rightarrow> Inl (HandlerRaised AttributeError)))) (\<lambda>_.
     guard (truthy refs = truthy authority)
       (PermissionDenied ''Credential resolution is not authorized for this execution.''))"

definition new_request :: "admission_env \<Rightarrow> admitted \<Rightarrow> handler_error + exec_request" where
  "new_request d am = (case (cd_object_type (am_data am), cd_object_id (am_data am)) of
       (Some t, VInt i) \<Rightarrow> Inr \<lparr>rq_procedure = cd_procedure (am_data am), rq_target_type_id = ctype_id t, rq_target_id = i,
         rq_target_model_label = ctype_app_label t @ ''.'' @ ctype_model t, rq_target_display = ad_display d,
         rq_backend_id = am_backend_id am, rq_credential_references = am_references am,
         rq_credential_authority = am_authority am, rq_approver_is_superuser = False\<rparr>
     | _ \<Rightarrow> Inl IntegrityError)"

definition new_aggregate :: "admission_env \<Rightarrow> api_user \<Rightarrow> admitted \<Rightarrow> aggregate" where
  "new_aggregate d u am =
     (let p = cd_procedure (am_data am) in
      \<lparr>store = \<lparr>obj = ProjectionState.extend projection_initial
           \<lparr>pk = ad_new_pk d, requested_by_id = us_pk u, procedure_name = proc_name p, result_schema = proc_result_schema p,
            params = VDict (am_params am)\<rparr>,
         row = projection_initial, events = []\<rparr>,
       approval = None\<rparr>)"

definition save_execution :: "admission_env \<Rightarrow> api_user \<Rightarrow> admitted \<Rightarrow> handler_error + (exec_request \<times> aggregate)" where
  "save_execution d u am =
     rbind (validate_new_reference_fields (ad_rt d) (am_references am) (am_authority am)) (\<lambda>_.
     rbind (validate_openbao_payload d (proc_name (cd_procedure (am_data am))) (am_params am)) (\<lambda>_.
     rbind (new_request d am) (\<lambda>rq. Inr (rq, new_aggregate d u am))))"

text \<open>\<open>except RPCExecutionError as exc: raise ValidationError({"params": str(exc)})\<close>.\<close>

definition as_params_error :: "handler_error + 'a \<Rightarrow> handler_error + 'a" where
  "as_params_error m = (case m of Inl (RPCExecutionError t c) \<Rightarrow> Inl (ValidationError ''params'' t) | _ \<Rightarrow> m)"

definition as_status_error :: "handler_error + 'a \<Rightarrow> handler_error + 'a" where
  "as_status_error m = (case m of
       Inl (HandlerAggregate (RPCExecutionAggregateError t)) \<Rightarrow> Inl (ValidationError ''status'' t) | _ \<Rightarrow> m)"


section \<open>The approval request\<close>

definition int_column :: "pydict \<Rightarrow> string \<Rightarrow> int" where
  "int_column p k = (case dget p k of VInt i \<Rightarrow> i | _ \<Rightarrow> 0)"

definition str_column :: "pydict \<Rightarrow> string \<Rightarrow> string" where
  "str_column p k = (case dget p k of VStr s \<Rightarrow> s | _ \<Rightarrow> [])"

definition dict_column :: "pydict \<Rightarrow> string \<Rightarrow> pydict" where
  "dict_column p k = (case dget p k of VDict d \<Rightarrow> d | _ \<Rightarrow> [])"

definition approval_from_payload :: "int \<Rightarrow> pydict \<Rightarrow> approval_request" where
  "approval_from_payload version p =
     \<lparr>ap_procedure_id = int_column p ''procedure_id'', ap_procedure_version = str_column p ''procedure_version'',
      ap_procedure_policy_sha256 = str_column p ''procedure_policy_sha256'', ap_params_schema_sha256 = str_column p ''params_schema_sha256'',
      ap_result_schema_sha256 = str_column p ''result_schema_sha256'', ap_effect = str_column p ''effect'',
      ap_target_type_id = int_column p ''target_type_id'', ap_target_id = int_column p ''target_id'',
      ap_target_snapshot_hash = str_column p ''target_snapshot_hash'', ap_normalized_params = dict_column p ''normalized_params'',
      ap_command_fingerprint = dict_column p ''command_fingerprint'', ap_backend_id = dget p ''backend_id'',
      ap_backend_target_sha256 = str_column p ''backend_target_sha256'', ap_credential_policy_ref = str_column p ''credential_policy_ref'',
      ap_requested_by_id = dget p ''requested_by_id'', ap_expires_at = VNone, ap_stream_version = version, ap_payload_hash = []\<rparr>"

definition create_approval_request ::
  "admission_env \<Rightarrow> exec_request \<Rightarrow> aggregate \<Rightarrow> pydict \<Rightarrow> backend_target option \<Rightarrow> handler_error + approval_request" where
  "create_approval_request d rq a n target =
     rbind (approval_protected_payload (ad_policy d) rq a n target) (\<lambda>payload.
       map_sum (\<lambda>_. ValidationError ''__all__'' ''RPCApprovalRequest rows are immutable.'') id
         (save_approval (ad_rt d) True (approval_from_payload (current_stream_version a) payload)))"


section \<open>Persisting\<close>

definition SAMBA_PROVISION_OPEN_STATUSES :: "string list" where
  "SAMBA_PROVISION_OPEN_STATUSES = [''requested'', ''pending_approval'', ''approved'', ''queued'', ''running'']"

definition same_target :: "creation_data \<Rightarrow> exec_request \<Rightarrow> bool" where
  "same_target cd rq \<longleftrightarrow> proc_pk (rq_procedure rq) = proc_pk (cd_procedure cd)
     \<and> (case cd_object_type cd of None \<Rightarrow> False | Some t \<Rightarrow> ctype_id t = rq_target_type_id rq)
     \<and> cd_object_id cd = VInt (rq_target_id rq)"

definition open_execution :: "service \<Rightarrow> int \<Rightarrow> bool" where
  "open_execution s e = (case execs (sv_world s) e of
       None \<Rightarrow> False | Some a \<Rightarrow> status_value (status (row (store a))) \<in> set SAMBA_PROVISION_OPEN_STATUSES)"

definition require_no_concurrent_samba_provision :: "service \<Rightarrow> creation_data \<Rightarrow> handler_error + unit" where
  "require_no_concurrent_samba_provision s cd =
     (if proc_name (cd_procedure cd) \<noteq> UBUNTU_26_SAMBA_AD_DC_PROVISION then Inr ()
      else guard (\<not> list_ex (\<lambda>(e, rq). same_target cd rq \<and> open_execution s e) (sv_requests s))
        (target_error (''Another Samba AD DC provision for this target is still open (requested, pending approval, approved, queued or ''
           @ ''running). The bootstrap is not rerunnable; wait for it to finish or be rejected before requesting another.'')))"

definition validate_samba_provision_at_admission :: "admission_env \<Rightarrow> exec_request \<Rightarrow> handler_error + unit" where
  "validate_samba_provision_at_admission d rq =
     (if proc_name (rq_procedure rq) \<noteq> UBUNTU_26_SAMBA_AD_DC_PROVISION then Inr ()
      else rbind (as_params_error (ad_normalize d rq)) (\<lambda>_. Inr ()))"

definition request_protected ::
  "admission_env \<Rightarrow> api_user \<Rightarrow> backend_target option \<Rightarrow> exec_request \<Rightarrow> aggregate \<Rightarrow> handler_error + aggregate" where
  "request_protected d u target rq a =
     rbind (as_params_error (ad_normalize d rq)) (\<lambda>n.
     rbind (aggregated (request (ad_calls d 0) (us_pk u) a)) (\<lambda>a1.
     rbind (create_approval_request d rq a1 n target) (\<lambda>snapshot.
       aggregated (request_approval (ad_calls d 1) (ap_payload_hash snapshot) VNone (us_pk u) (a1\<lparr>approval := Some snapshot\<rparr>)))))"

definition persist_execution_request ::
  "admission_env \<Rightarrow> api_user \<Rightarrow> admitted \<Rightarrow> service \<Rightarrow> handler_error + (exec_request \<times> aggregate)" where
  "persist_execution_request d u am s =
     (let p = cd_procedure (am_data am) in
      rbind (require_no_concurrent_samba_provision s (am_data am)) (\<lambda>_.
      rbind (save_execution d u am) (\<lambda>(rq, a).
      rbind (if proc_name p \<in> set PROTECTED_APPROVAL_PROCEDURE_NAMES then request_protected d u (am_target am) rq a
             else rbind (validate_samba_provision_at_admission d rq) (\<lambda>_. aggregated (queue (ad_calls d 0) a))) (\<lambda>a'.
        Inr (rq, a')))))"


section \<open>Enqueueing\<close>

definition enqueue_restart_expiry_job :: "admission_env \<Rightarrow> exec_request \<Rightarrow> int \<Rightarrow> service \<Rightarrow> handler_error + service" where
  "enqueue_restart_expiry_job d rq e s =
     (if proc_name (rq_procedure rq) \<noteq> NETBOX_PRODUCTION_RESTART_RQ_WORKER then Inr s
      else rbind (restart_queue_deadline (ad_queued_at d)) (\<lambda>deadline.
        rbind (ad_schedule d) (\<lambda>_. Inr (add_job (ExpiryJob e deadline) s))))"

definition mark_enqueue_failed :: "call_env \<Rightarrow> aggregate \<Rightarrow> agg_error + aggregate" where
  "mark_enqueue_failed env a =
     recording (mark_execution_failed (env_rt env) (env_itf env 0) (env_now env) ''ExecutionEnqueueFailed''
       ''Failed to enqueue RPC job. Check RQ/Redis connectivity.'' ''RPC_ENQUEUE_FAILED'') a"

definition enqueue_execution_job ::
  "admission_env \<Rightarrow> exec_request \<Rightarrow> int \<Rightarrow> pyval \<Rightarrow> aggregate \<Rightarrow> service \<Rightarrow> handler_error option \<times> service" where
  "enqueue_execution_job d rq e snapshot a s =
     (case rbind (raised (execution_job_timeout (ad_rt d) snapshot)) (\<lambda>t. rbind (ad_enqueue d) (\<lambda>j. Inr (t, j))) of
        Inl err \<Rightarrow> (case mark_enqueue_failed (ad_calls d 2) a of
            Inl err' \<Rightarrow> (Some (HandlerAggregate err'), s)
          | Inr a' \<Rightarrow> (Some err, put_exec e a' s))
      | Inr (t, j) \<Rightarrow>
          (let s1 = add_job (ExecutionJob e (rq_backend_id rq) t) s in
           case enqueue (ad_calls d 2) (VInt j) a of
             Inl err' \<Rightarrow> (Some (HandlerAggregate err'), s1)
           | Inr a' \<Rightarrow>
               (let s2 = put_exec e a' s1 in
                (None, case enqueue_restart_expiry_job d rq e s2 of Inl _ \<Rightarrow> s2 | Inr s3 \<Rightarrow> s3))))"


section \<open>Creating\<close>

definition insert_execution :: "int \<Rightarrow> exec_request \<Rightarrow> aggregate \<Rightarrow> service \<Rightarrow> service" where
  "insert_execution e rq a s = put_exec e a (s\<lparr>sv_requests := dict_set e rq (sv_requests s)\<rparr>)"

definition create_execution :: "admission_env \<Rightarrow> api_user \<Rightarrow> creation_input \<Rightarrow> service \<Rightarrow> (handler_error + int) \<times> service" where
  "create_execution d u ci s =
     (case rbind (admit d u ci) (\<lambda>am. rbind (persist_execution_request d u am s) (\<lambda>(rq, a). Inr (am, rq, a))) of
        Inl err \<Rightarrow> (Inl err, s)
      | Inr (am, rq, a) \<Rightarrow>
          (let e = ad_new_pk d; p = cd_procedure (am_data am); s1 = insert_execution e rq a s in
           if proc_name p \<in> set PROTECTED_APPROVAL_PROCEDURE_NAMES then (Inr e, s1)
           else (case enqueue_execution_job d rq e (VInt (proc_timeout_seconds p)) a s1 of
               (Some err, s2) \<Rightarrow> (Inl err, s2)
             | (None, s2) \<Rightarrow> (Inr e, s2))))"


section \<open>Deciding\<close>

definition require_approval_authorization :: "exec_request \<Rightarrow> api_user \<Rightarrow> handler_error + unit" where
  "require_approval_authorization rq u =
     rbind (guard (has_perm u ''netbox_rpc.approve_rpcprocedure'')
       (PermissionDenied ''approve_rpcprocedure permission is required.'')) (\<lambda>_.
     guard ((''view'', proc_pk (rq_procedure rq)) \<in> set (us_scopes u))
       (PermissionDenied ''You do not have object-scoped access to this procedure.''))"

text \<open>The note check and the scope that both decisions on a protected procedure make.\<close>

definition require_protected_decision :: "exec_request \<Rightarrow> api_user \<Rightarrow> string \<Rightarrow> handler_error + unit" where
  "require_protected_decision rq u reason =
     rbind (guard (reason = []) (ValidationError ''reason''
       (protected_label (proc_name (rq_procedure rq)) @ '' does not accept operator notes.''))) (\<lambda>_.
     require_protected_procedure_scope (rq_procedure rq) u ''approve'')"

definition fixed_reason :: "(string \<times> string) list \<Rightarrow> string \<Rightarrow> handler_error + string" where
  "fixed_reason reasons name = (case map_of reasons name of
       None \<Rightarrow> Inl (HandlerRaised (KeyError name)) | Some r \<Rightarrow> Inr r)"

text \<open>The transaction of \<open>_approve_protected_execution\<close> on the locked row.\<close>

definition approve_protected :: "admission_env \<Rightarrow> api_user \<Rightarrow> exec_request \<Rightarrow> aggregate \<Rightarrow> handler_error + aggregate" where
  "approve_protected d u rq locked =
     (let p = rq_procedure rq; name = proc_name p in
      rbind (require_restart_control_consumer d name) (\<lambda>_.
      rbind (require_protected_procedure_policy (ad_policy d) p) (\<lambda>_.
      rbind (resolve_validated_protected_backend_target (ad_policy d) (rq_backend_id rq) name None) (\<lambda>target.
      rbind (require_approved_backend_target_before_io (ad_policy d) rq locked target) (\<lambda>_.
      rbind (verify_capability_of d p False target) (\<lambda>_.
      rbind (ad_normalize d rq) (\<lambda>n.
      rbind (approval_protected_payload (ad_policy d) rq locked n target) (\<lambda>current.
      rbind (fixed_reason PROTECTED_APPROVAL_REASON name) (\<lambda>reason.
        aggregated (approve (ad_calls d 0) (us_pk u) (allow_protected_self_approval name (us_superuser u)) (Some current)
          reason True locked))))))))))"

definition stored_timeout :: "rpc_procedure \<Rightarrow> pyval \<Rightarrow> handler_error + pyval" where
  "stored_timeout p stored = (case py_or stored (VDict []) of
       VDict ps \<Rightarrow> Inr (case map_of ps TIMEOUT_SECONDS_SNAPSHOT_PARAM_KEY of
           None \<Rightarrow> VInt (proc_timeout_seconds p) | Some v \<Rightarrow> v)
     | _ \<Rightarrow> Inl (HandlerRaised AttributeError))"

definition put_decision :: "int \<Rightarrow> api_user \<Rightarrow> exec_request \<Rightarrow> aggregate \<Rightarrow> service \<Rightarrow> service" where
  "put_decision e u rq a s =
     put_exec e a (s\<lparr>sv_requests := dict_set e (rq\<lparr>rq_approver_is_superuser := us_superuser u\<rparr>) (sv_requests s)\<rparr>)"

definition approve_protected_execution ::
  "admission_env \<Rightarrow> api_user \<Rightarrow> int \<Rightarrow> exec_request \<Rightarrow> aggregate \<Rightarrow> service \<Rightarrow> handler_error option \<times> service" where
  "approve_protected_execution d u e rq a s =
     (case as_status_error (as_params_error (approve_protected d u rq (locked_aggregate a))) of
        Inl err \<Rightarrow> (Some err, s)
      | Inr b \<Rightarrow>
          (let s1 = put_decision e u rq b s in
           case stored_timeout (rq_procedure rq) (params (obj (store b))) of
             Inl err \<Rightarrow> (Some err, s1)
           | Inr snapshot \<Rightarrow> enqueue_execution_job d rq e snapshot b s1))"

definition approve_execution ::
  "admission_env \<Rightarrow> api_user \<Rightarrow> int \<Rightarrow> string \<Rightarrow> service \<Rightarrow> handler_error option \<times> service" where
  "approve_execution d u e reason s = (case (map_of (sv_requests s) e, execs (sv_world s) e) of
       (Some rq, Some a) \<Rightarrow>
         (case require_approval_authorization rq u of
            Inl err \<Rightarrow> (Some err, s)
          | Inr _ \<Rightarrow>
              if proc_name (rq_procedure rq) \<in> set PROTECTED_APPROVAL_PROCEDURE_NAMES then
                (case require_protected_decision rq u reason of
                   Inl err \<Rightarrow> (Some err, s)
                 | Inr _ \<Rightarrow> approve_protected_execution d u e rq a s)
              else (case as_status_error (aggregated (approve (ad_calls d 0) (us_pk u) (us_superuser u) None reason False a)) of
                  Inl err \<Rightarrow> (Some err, s)
                | Inr b \<Rightarrow> (None, put_decision e u rq (locked_aggregate b) s)))
     | _ \<Rightarrow> (Some DoesNotExist, s))"

definition reject_execution ::
  "admission_env \<Rightarrow> api_user \<Rightarrow> int \<Rightarrow> string \<Rightarrow> service \<Rightarrow> handler_error option \<times> service" where
  "reject_execution d u e reason s = (case (map_of (sv_requests s) e, execs (sv_world s) e) of
       (Some rq, Some a) \<Rightarrow>
         (case rbind (require_approval_authorization rq u) (\<lambda>_.
             rbind (if proc_name (rq_procedure rq) \<in> set PROTECTED_APPROVAL_PROCEDURE_NAMES
                    then rbind (require_protected_decision rq u reason) (\<lambda>_.
                      fixed_reason PROTECTED_REJECTION_REASON (proc_name (rq_procedure rq)))
                    else Inr reason) (\<lambda>r.
             as_status_error (aggregated (reject (ad_calls d 0) (us_pk u) r a)))) of
            Inl err \<Rightarrow> (Some err, s)
          | Inr b \<Rightarrow> (None, put_exec e (locked_aggregate b) s))
     | _ \<Rightarrow> (Some DoesNotExist, s))"


section \<open>Intents\<close>

record rpc_intent =
  in_enabled :: bool
  in_rows :: "(int \<times> int \<times> rpc_procedure) list"

text \<open>The rows in the order of their model: by sequence, then by id.\<close>

definition ordered_intent_procedures :: "rpc_intent \<Rightarrow> rpc_procedure list" where
  "ordered_intent_procedures i = map (snd \<circ> snd) (sort_key fst (sort_key (fst \<circ> snd) (in_rows i)))"

fun create_children ::
  "(nat \<Rightarrow> admission_env) \<Rightarrow> api_user \<Rightarrow> (rpc_procedure \<Rightarrow> creation_input) \<Rightarrow> nat \<Rightarrow> rpc_procedure list \<Rightarrow> service
     \<Rightarrow> (handler_error + int list) \<times> service" where
  "create_children ds u child k [] s = (Inr [], s)"
| "create_children ds u child k (p # rest) s =
     (case create_execution (ds k) u (child p) s of
        (Inl err, s1) \<Rightarrow> (Inl err, s1)
      | (Inr e, s1) \<Rightarrow> (case create_children ds u child (Suc k) rest s1 of
          (Inl err, s2) \<Rightarrow> (Inl err, s2)
        | (Inr es, s2) \<Rightarrow> (Inr (e # es), s2)))"

text \<open>\<open>child p ps\<close> is the serializer built for one procedure with a copy of the parameters.\<close>

definition execute_intent ::
  "(nat \<Rightarrow> admission_env) \<Rightarrow> api_user \<Rightarrow> rpc_intent \<Rightarrow> (rpc_procedure \<Rightarrow> pydict \<Rightarrow> creation_input) \<Rightarrow> pyval \<Rightarrow> service
     \<Rightarrow> (handler_error + int list) \<times> service" where
  "execute_intent ds u i child ps s =
     (if \<not> has_perm u ''netbox_rpc.execute_rpcintent''
      then (Inl (PermissionDenied ''execute_rpcintent permission is required.''), s)
      else if \<not> in_enabled i then (Inl (ValidationError ''intent'' ''This intent is disabled.''), s)
      else if ps \<noteq> VNone \<and> \<not> is_dict ps
      then (Inl (ValidationError ''params'' ''params must be a JSON object (mapping of param name to value).''), s)
      else if ordered_intent_procedures i = []
      then (Inl (ValidationError ''intent'' ''This intent has no grouped procedures to run.''), s)
      else create_children ds u (\<lambda>p. child p (case ps of VDict d \<Rightarrow> d | _ \<Rightarrow> [])) 0 (ordered_intent_procedures i) s)"

end
