(* ===== verification/AdmissionProps.thy ===== *)
theory AdmissionProps
  imports Admission DispatchProps
begin

text \<open>
  What the request handlers guarantee: a row exists only behind every gate, a protected
  procedure is only requested, a plain one is queued with a job whose deadline outlives the
  backend call, and no submitted password is stored.
\<close>

section \<open>New executions\<close>

lemma recording_identity:
  assumes "recording f a = Inr a'" "\<And>s. f s = append_and_project rt itf s (e s)"
  shows "params (obj (store a')) = params (obj (store a))" "requested_by_id (obj (store a')) = requested_by_id (obj (store a))"
proof -
  from assms obtain s' where s': "append_and_project rt itf (store a) (e (store a)) = Inr s'" "a' = a\<lparr>store := s'\<rparr>"
    by (cases "append_and_project rt itf (store a) (e (store a))") (auto simp: recording_def)
  from obj_append_fixed [OF s'(1)] s'(2)
  show "params (obj (store a')) = params (obj (store a))" "requested_by_id (obj (store a')) = requested_by_id (obj (store a))"
    by simp_all
qed

lemma new_aggregate_sel [simp]:
  "synced (store (new_aggregate d u am))" "status (row (store (new_aggregate d u am))) = QUEUED"
  "events (store (new_aggregate d u am)) = []" "approval (new_aggregate d u am) = None"
  "params (obj (store (new_aggregate d u am))) = VDict (am_params am)"
  "requested_by_id (obj (store (new_aggregate d u am))) = us_pk u"
  by (simp_all add: new_aggregate_def Let_def synced_def from_execution_def projection_initial_def ProjectionState.defs)

lemma payload_requester:
  "requested_by_id (obj (store a)) = requested_by_id (obj (store b)) \<Longrightarrow>
     approval_protected_payload pe rq a n t = approval_protected_payload pe rq b n t"
  by (simp add: approval_protected_payload_def)

lemma payload_columns:
  assumes "approval_protected_payload pe rq a n t = Inr p"
  shows "protected_payload (approval_from_payload v p) = p" "scoped p = p" "dget p ''requested_by_id'' = requested_by_id (obj (store a))"
proof -
  from assms obtain m c bs cr where q: "p =
     [(''procedure_id'', VInt (proc_pk (rq_procedure rq))), (''procedure_version'', VStr (int_str (proc_version (rq_procedure rq)))),
      (''procedure_policy_sha256'', canonical_sha256 (pe_rt pe) (VDict (protected_procedure_policy pe c (rq_procedure rq)))),
      (''params_schema_sha256'', canonical_sha256 (pe_rt pe) (proc_params_schema (rq_procedure rq))),
      (''result_schema_sha256'', canonical_sha256 (pe_rt pe) (proc_result_schema (rq_procedure rq))),
      (''effect'', VStr (proc_effect (rq_procedure rq))), (''target_type_id'', VInt (rq_target_type_id rq)),
      (''target_id'', VInt (rq_target_id rq)), (''target_snapshot_hash'', VStr (target_snapshot_hash pe rq)),
      (''normalized_params'', VDict m),
      (''command_fingerprint'', case dget m ''command_fingerprint'' of VDict f \<Rightarrow> VDict f | _ \<Rightarrow> VDict []), (''backend_id'', rq_backend_id rq),
      (''backend_target_sha256'', VStr bs), (''credential_policy_ref'', VStr cr),
      (''requested_by_id'', requested_by_id (obj (store a)))]"
    unfolding approval_protected_payload_def Let_def rbind_Inr_iff sum.inject by blast
  obtain fp where fp: "(case dget m ''command_fingerprint'' of VDict f \<Rightarrow> VDict f | _ \<Rightarrow> VDict []) = VDict fp"
    by (cases "dget m ''command_fingerprint''") auto
  note p = q [unfolded fp canonical_sha256_def]
  show "protected_payload (approval_from_payload v p) = p" "scoped p = p" "dget p ''requested_by_id'' = requested_by_id (obj (store a))"
    unfolding p
    by (simp_all add: protected_payload_def approval_from_payload_def int_column_def str_column_def dict_column_def
        PROTECTED_FIELDS_def dget_def scoped_def)
qed

text \<open>The snapshot that creation stores matches the payload it was made from.\<close>

lemma created_snapshot:
  assumes "create_approval_request d rq a n t = Inr snap" "ap_payload_hash snap \<noteq> []"
  shows "\<exists>p. approval_protected_payload (ad_policy d) rq a n t = Inr p \<and> matches_current (ad_rt d) snap p
    \<and> ap_requested_by_id snap = requested_by_id (obj (store a))"
proof -
  from assms(1) obtain p where p: "approval_protected_payload (ad_policy d) rq a n t = Inr p"
    and s: "save_approval (ad_rt d) True (approval_from_payload (current_stream_version a) p) = Inr snap"
    by (auto simp: create_approval_request_def rbind_Inr_iff)
  let ?r = "approval_from_payload (current_stream_version a) p"
  have snap: "snap = ?r\<lparr>ap_payload_hash := compute_hash (ad_rt d) ?r\<rparr>"
    using s by (auto simp: save_approval_def approval_from_payload_def split: if_splits)
  note cols = payload_columns [OF p]
  have "ap_payload_hash snap = compute_approval_snapshot_hash (ad_rt d) (scoped p)"
    by (simp add: snap compute_hash_def cols)
  moreover have "ap_requested_by_id snap = requested_by_id (obj (store a))"
    using cols(3) by (simp add: snap approval_from_payload_def)
  ultimately show ?thesis using assms(2) p by (auto simp: matches_current_def)
qed

lemma as_params_error_Inr [simp]: "as_params_error m = Inr x \<longleftrightarrow> m = Inr x"
  by (auto simp: as_params_error_def split: sum.splits handler_error.splits)

lemma as_status_error_Inr [simp]: "as_status_error m = Inr x \<longleftrightarrow> m = Inr x"
  by (auto simp: as_status_error_def split: sum.splits handler_error.splits agg_error.splits)

lemma request_protected_effect:
  assumes "request_protected d u t rq a = Inr a'" "synced (store a)"
  shows "synced (store a')" "status (row (store a')) = PENDING_APPROVAL" "params (obj (store a')) = params (obj (store a))"
    "requested_by_id (obj (store a')) = requested_by_id (obj (store a))"
    "\<exists>n p snap. ad_normalize d rq = Inr n \<and> approval a' = Some snap \<and> approval_protected_payload (ad_policy d) rq a' n t = Inr p
       \<and> matches_current (ad_rt d) snap p \<and> ap_requested_by_id snap = requested_by_id (obj (store a))"
proof -
  from assms(1) obtain n a1 snap where n: "ad_normalize d rq = Inr n" and a1: "request (ad_calls d 0) (us_pk u) a = Inr a1"
    and snap: "create_approval_request d rq a1 n t = Inr snap"
    and a2: "request_approval (ad_calls d 1) (ap_payload_hash snap) VNone (us_pk u) (a1\<lparr>approval := Some snap\<rparr>) = Inr a'"
    by (auto simp: request_protected_def rbind_Inr_iff)
  have s1: "synced (store a1)" using op_kept [of "ad_calls d 0" "OpRequest (us_pk u)" a a1] a1 assms(2) by simp
  have k: "synced (store a')" "status (row (store a')) = PENDING_APPROVAL" "approval a' = Some snap"
    using op_kept [of "ad_calls d 1" "OpRequestApproval (ap_payload_hash snap) VNone (us_pk u)" "a1\<lparr>approval := Some snap\<rparr>" a'] a2 s1
    by (auto split: if_splits)
  from a1 have "recording (record_execution_requested (env_rt (ad_calls d 0)) (env_itf (ad_calls d 0) 0) (us_pk u)) a = Inr a1"
    by (simp add: request_def rbind_Inr_iff)
  note i1 = recording_identity [OF this record_execution_requested_def]
  from a2 have r2: "recording (record_approval_requested (env_rt (ad_calls d 1)) (env_itf (ad_calls d 1) 0) (ap_payload_hash snap) VNone (us_pk u))
      (a1\<lparr>approval := Some snap\<rparr>) = Inr a'" and ne: "ap_payload_hash snap \<noteq> []"
    by (simp_all add: request_approval_def rbind_Inr_iff)
  note i2 = recording_identity [OF r2 record_approval_requested_def]
  from k show "synced (store a')" "status (row (store a')) = PENDING_APPROVAL" by simp_all
  from i1 i2 show "params (obj (store a')) = params (obj (store a))" and rb: "requested_by_id (obj (store a')) = requested_by_id (obj (store a))"
    by simp_all
  from created_snapshot [OF snap ne] n k(3) payload_requester [of a' a1 "ad_policy d" rq n t] i1(2) rb
  show "\<exists>n p snap. ad_normalize d rq = Inr n \<and> approval a' = Some snap \<and> approval_protected_payload (ad_policy d) rq a' n t = Inr p
       \<and> matches_current (ad_rt d) snap p \<and> ap_requested_by_id snap = requested_by_id (obj (store a))"
    by auto
qed


section \<open>Creation\<close>

lemma admitE:
  assumes "admit d u ci = Inr am"
  obtains ps ps1 selected where "has_perm u ''netbox_rpc.execute_rpcprocedure''" "ci_validated ci = Inr (am_data am)"
    "creation_params (am_data am) = Inr ps" "validate_creation_admission d (cd_procedure (am_data am)) ps = Inr ()"
    "require_enabled_and_authoritative_backend d = Inr selected"
    "prepare_creation_authorization d (cd_procedure (am_data am)) u ci (am_data am) selected = Inr (am_backend_id am, am_target am)"
    "validate_creation_payload d (am_data am) ps = Inr ps1" "am_params am = stamp_timeout (cd_procedure (am_data am)) ps1"
    "verify_capability_of d (cd_procedure (am_data am)) True (am_target am) = Inr ()"
  using assms unfolding admit_def Let_def rbind_Inr_iff guard_Inr_iff
  by (auto simp: rbind_Inr_iff split: prod.splits)

lemma admit_data: "admit d u ci = Inr am \<Longrightarrow> ci_validated ci = Inr (am_data am)"
  by (erule admitE)

lemma persistE:
  assumes "persist_execution_request d u am s = Inr (rq, a)"
  obtains "require_no_concurrent_samba_provision s (am_data am) = Inr ()" "new_request d am = Inr rq"
    "if proc_name (cd_procedure (am_data am)) \<in> set PROTECTED_APPROVAL_PROCEDURE_NAMES
     then request_protected d u (am_target am) rq (new_aggregate d u am) = Inr a
     else queue (ad_calls d 0) (new_aggregate d u am) = Inr a"
  using assms that
  by (auto simp: persist_execution_request_def save_execution_def Let_def rbind_Inr_iff split: if_splits)

lemma new_request_sel:
  "new_request d am = Inr rq \<Longrightarrow> rq_procedure rq = cd_procedure (am_data am) \<and> rq_backend_id rq = am_backend_id am"
  by (auto simp: new_request_def split: option.splits pyval.splits)

text \<open>A creation either changes nothing or inserts the one row, which then may get its job.\<close>

lemma create_cases:
  assumes "create_execution d u ci s = (r, s')"
  obtains (refused) err where "r = Inl err" "s' = s"
  | (requested) am rq a where "admit d u ci = Inr am" "persist_execution_request d u am s = Inr (rq, a)"
      "proc_name (cd_procedure (am_data am)) \<in> set PROTECTED_APPROVAL_PROCEDURE_NAMES"
      "r = Inr (ad_new_pk d)" "s' = insert_execution (ad_new_pk d) rq a s"
  | (queued) am rq a err where "admit d u ci = Inr am" "persist_execution_request d u am s = Inr (rq, a)"
      "proc_name (cd_procedure (am_data am)) \<notin> set PROTECTED_APPROVAL_PROCEDURE_NAMES"
      "enqueue_execution_job d rq (ad_new_pk d) (VInt (proc_timeout_seconds (cd_procedure (am_data am)))) a
         (insert_execution (ad_new_pk d) rq a s) = (err, s')"
      "r = (case err of None \<Rightarrow> Inr (ad_new_pk d) | Some e \<Rightarrow> Inl e)"
proof (cases "rbind (admit d u ci) (\<lambda>am. rbind (persist_execution_request d u am s) (\<lambda>(rq, a). Inr (am, rq, a)))")
  case (Inl err)
  with assms refused show thesis by (auto simp: create_execution_def)
next
  case (Inr x)
  then obtain am rq a where x: "admit d u ci = Inr am" "persist_execution_request d u am s = Inr (rq, a)" "x = (am, rq, a)"
    by (auto simp: rbind_Inr_iff)
  obtain err s2 where e: "enqueue_execution_job d rq (ad_new_pk d) (VInt (proc_timeout_seconds (cd_procedure (am_data am)))) a
      (insert_execution (ad_new_pk d) rq a s) = (err, s2)" by (meson prod.exhaust)
  show thesis
  proof (cases "proc_name (cd_procedure (am_data am)) \<in> set PROTECTED_APPROVAL_PROCEDURE_NAMES")
    case True
    with assms Inr x requested show thesis by (simp add: create_execution_def Let_def)
  next
    case False
    with assms Inr x e queued show thesis by (cases err) (simp_all add: create_execution_def Let_def)
  qed
qed


lemma exec_put [simp]: "execs (sv_world (put_exec e a s)) = (execs (sv_world s))(e \<mapsto> a)" "sv_jobs (put_exec e a s) = sv_jobs s"
    "sv_requests (put_exec e a s) = sv_requests s"
  by (simp_all add: put_exec_def put_aggregate_def)

lemma exec_job [simp]: "sv_world (add_job j s) = sv_world s" "sv_jobs (add_job j s) = sv_jobs s @ [j]" "sv_requests (add_job j s) = sv_requests s"
  by (simp_all add: add_job_def)

lemma insert_sel [simp]: "execs (sv_world (insert_execution e rq a s)) = (execs (sv_world s))(e \<mapsto> a)"
    "sv_jobs (insert_execution e rq a s) = sv_jobs s" "sv_requests (insert_execution e rq a s) = dict_set e rq (sv_requests s)"
  by (simp_all add: insert_execution_def)

text \<open>
  Creating a protected execution only requests it: the new row waits for approval, no job
  is enqueued, and it carries a snapshot that names the requester and matches the payload of
  exactly the normalized parameters and backend target of the creation.
\<close>

theorem protected_creation_only_requests:
  assumes "create_execution d u ci s = (Inr e, s')" "ci_validated ci = Inr cd"
    "proc_name (cd_procedure cd) \<in> set PROTECTED_APPROVAL_PROCEDURE_NAMES"
  shows "sv_jobs s' = sv_jobs s \<and> (\<exists>rq a snap n t p. execs (sv_world s') e = Some a \<and> map_of (sv_requests s') e = Some rq
    \<and> status (row (store a)) = PENDING_APPROVAL \<and> ad_normalize d rq = Inr n \<and> approval a = Some snap
    \<and> approval_protected_payload (ad_policy d) rq a n t = Inr p \<and> matches_current (ad_rt d) snap p
    \<and> ap_requested_by_id snap = us_pk u)"
  using assms(1)
proof (cases rule: create_cases)
  case (requested am rq a)
  have "request_protected d u (am_target am) rq (new_aggregate d u am) = Inr a"
    by (rule persistE [OF requested(2)]) (simp only: requested(3) if_True)
  note eff = request_protected_effect [OF this]
  from requested(4,5) eff(2,5) show ?thesis by (auto intro!: exI [of _ rq])
next
  case (queued am rq a err)
  from admit_data [OF queued(1)] assms(2,3) queued(3) show ?thesis by simp
qed simp

lemma queued_effect:
  assumes "queue env a = Inr a'" "synced (store a)"
  shows "synced (store a')" "status (row (store a')) = QUEUED" "approval a' = approval a"
    "params (obj (store a')) = params (obj (store a))" "requested_by_id (obj (store a')) = requested_by_id (obj (store a))"
proof -
  show "synced (store a')" "status (row (store a')) = QUEUED" "approval a' = approval a"
    using op_kept [of env OpQueue a a'] assms by (auto split: if_splits)
  from assms(1) have "recording (record_execution_queued (env_rt env) (env_itf env 0)) a = Inr a'" by (simp add: queue_def rbind_Inr_iff)
  from recording_identity [OF this record_execution_queued_def]
  show "params (obj (store a')) = params (obj (store a))" "requested_by_id (obj (store a')) = requested_by_id (obj (store a))" .
qed

lemma created_params:
  assumes "persist_execution_request d u am s = Inr (rq, a)"
  shows "params (obj (store a)) = VDict (am_params am)" "requested_by_id (obj (store a)) = us_pk u" "synced (store a)"
proof -
  have "params (obj (store a)) = VDict (am_params am) \<and> requested_by_id (obj (store a)) = us_pk u \<and> synced (store a)"
    using assms
  proof (rule persistE)
    assume "if proc_name (cd_procedure (am_data am)) \<in> set PROTECTED_APPROVAL_PROCEDURE_NAMES
     then request_protected d u (am_target am) rq (new_aggregate d u am) = Inr a
     else queue (ad_calls d 0) (new_aggregate d u am) = Inr a"
    then consider "request_protected d u (am_target am) rq (new_aggregate d u am) = Inr a"
      | "queue (ad_calls d 0) (new_aggregate d u am) = Inr a" by (auto split: if_splits)
    then show ?thesis by cases (simp_all add: request_protected_effect queued_effect)
  qed
  then show "params (obj (store a)) = VDict (am_params am)" "requested_by_id (obj (store a)) = us_pk u" "synced (store a)" by simp_all
qed

lemma enqueue_cases:
  assumes "enqueue_execution_job d rq e snapshot a s = (err, s')"
  obtains (broken) x y where "mark_enqueue_failed (ad_calls d 2) a = Inl x" "err = Some y" "s' = s"
  | (failed) a' x where "mark_enqueue_failed (ad_calls d 2) a = Inr a'" "err = Some x" "s' = put_exec e a' s"
  | (unrecorded) t j x where "execution_job_timeout (ad_rt d) snapshot = Inr t" "ad_enqueue d = Inr j"
      "enqueue (ad_calls d 2) (VInt j) a = Inl x" "err = Some (HandlerAggregate x)" "s' = add_job (ExecutionJob e (rq_backend_id rq) t) s"
  | (enqueued) t j a' js where "execution_job_timeout (ad_rt d) snapshot = Inr t" "ad_enqueue d = Inr j"
      "enqueue (ad_calls d 2) (VInt j) a = Inr a'" "err = None"
      "execs (sv_world s') = (execs (sv_world s))(e \<mapsto> a')" "sv_requests s' = sv_requests s"
      "sv_jobs s' = sv_jobs s @ ExecutionJob e (rq_backend_id rq) t # js" "fences (sv_world s') = fences (sv_world s)"
proof (cases "rbind (raised (execution_job_timeout (ad_rt d) snapshot)) (\<lambda>t. rbind (ad_enqueue d) (\<lambda>j. Inr (t, j)))")
  case (Inl x)
  with assms broken failed show thesis
    by (cases "mark_enqueue_failed (ad_calls d 2) a") (auto simp: enqueue_execution_job_def)
next
  case (Inr tj)
  then obtain t j where tj: "execution_job_timeout (ad_rt d) snapshot = Inr t" "ad_enqueue d = Inr j" "tj = (t, j)"
    by (auto simp: rbind_Inr_iff)
  show thesis
  proof (cases "enqueue (ad_calls d 2) (VInt j) a")
    case (Inl x)
    with assms Inr tj unrecorded show thesis by (auto simp: enqueue_execution_job_def Let_def)
  next
    case r: (Inr a')
    let ?s2 = "put_exec e a' (add_job (ExecutionJob e (rq_backend_id rq) t) s)"
    from assms Inr tj r have s': "err = None" "s' = (case enqueue_restart_expiry_job d rq e ?s2 of Inl _ \<Rightarrow> ?s2 | Inr s3 \<Rightarrow> s3)"
      by (auto simp: enqueue_execution_job_def Let_def)
    have "\<exists>js. s' = ?s2\<lparr>sv_jobs := sv_jobs ?s2 @ js\<rparr>"
    proof (cases "enqueue_restart_expiry_job d rq e ?s2")
      case (Inl x)
      with s'(2) show ?thesis by (intro exI [of _ "[]"]) simp
    next
      case (Inr s3)
      then have "s3 = ?s2 \<or> (\<exists>deadline. s3 = add_job (ExpiryJob e deadline) ?s2)"
        by (auto simp: enqueue_restart_expiry_job_def rbind_Inr_iff split: if_splits)
      moreover have "s' = s3" using s'(2) Inr by simp
      moreover have "?s2 = ?s2\<lparr>sv_jobs := sv_jobs ?s2 @ []\<rparr>" by simp
      ultimately show ?thesis unfolding add_job_def by blast
    qed
    then obtain js where js: "s' = ?s2\<lparr>sv_jobs := sv_jobs ?s2 @ js\<rparr>" ..
    show thesis by (rule enqueued [OF tj(1,2) r s'(1), of js]) (simp_all add: js put_exec_def put_aggregate_def)
  qed
qed

lemma enqueue_op_params:
  assumes "enqueue env j a = Inr a'"
  shows "params (obj (store a')) = params (obj (store a))"
proof -
  from assms have "recording (record_execution_enqueued (env_rt env) (env_itf env 0) j) a = Inr a'" by (simp add: enqueue_def rbind_Inr_iff)
  from recording_identity(1) [OF this record_execution_enqueued_def] show ?thesis .
qed

lemma mark_failed_params:
  assumes "mark_enqueue_failed env a = Inr a'"
  shows "params (obj (store a')) = params (obj (store a))"
  using recording_identity(1) [OF assms [unfolded mark_enqueue_failed_def] mark_execution_failed_def] .

text \<open>The parameters any creation stores are the admitted ones.\<close>

lemma stored_params:
  assumes "create_execution d u ci s = (r, s')" "s' \<noteq> s"
  shows "\<exists>am a. admit d u ci = Inr am \<and> execs (sv_world s') (ad_new_pk d) = Some a \<and> params (obj (store a)) = VDict (am_params am)"
  using assms(1)
proof (cases rule: create_cases)
  case (requested am rq a)
  then show ?thesis using created_params(1) [OF requested(2)] by auto
next
  case (queued am rq a err)
  note c = created_params(1) [OF queued(2)]
  from queued(4) show ?thesis
    by (cases rule: enqueue_cases) (use queued(1) c in \<open>auto simp: enqueue_op_params mark_failed_params\<close>)
qed (use assms in simp)

text \<open>
  C9: A submitted password is never stored. For the handlers that take one, the stored
  parameters have no password; they have the digest and the byte count of the submitted one.
\<close>

theorem stored_password_is_fingerprint:
  assumes "create_execution d u ci s = (r, s')" "s' \<noteq> s" "ci_validated ci = Inr cd"
    "proc_handler_id (cd_procedure cd) \<in> set PASSWORD_BEARING_HANDLER_IDS"
  shows "\<exists>a given stored. execs (sv_world s') (ad_new_pk d) = Some a \<and> params (obj (store a)) = VDict stored
    \<and> creation_params cd = Inr given \<and> map_of stored ''password'' = None
    \<and> (\<forall>raw. map_of given ''password'' = Some raw \<longrightarrow> map_of stored ''password_sha256'' = Some (VStr (rt_sha256 (ad_rt d) (py_str raw)))
         \<and> map_of stored ''password_bytes'' = Some (VInt (int (utf8_length (py_str raw)))))"
proof -
  from stored_params [OF assms(1,2)] obtain am a where am: "admit d u ci = Inr am"
    "execs (sv_world s') (ad_new_pk d) = Some a" "params (obj (store a)) = VDict (am_params am)" by blast
  from am(1) obtain ps ps1 where ps: "creation_params (am_data am) = Inr ps" "validate_creation_payload d (am_data am) ps = Inr ps1"
    "am_params am = stamp_timeout (cd_procedure (am_data am)) ps1" by (rule admitE)
  have cd: "am_data am = cd" using admit_data [OF am(1)] assms(3) by simp
  have "ps1 = scrub_password_param (ad_rt d) ps"
    using ps(2) assms(4) unfolding cd validate_creation_payload_def Let_def rbind_Inr_iff by simp
  then have "map_of (am_params am) ''password'' = None \<and>
     (\<forall>raw. map_of ps ''password'' = Some raw \<longrightarrow> map_of (am_params am) ''password_sha256'' = Some (VStr (rt_sha256 (ad_rt d) (py_str raw)))
         \<and> map_of (am_params am) ''password_bytes'' = Some (VInt (int (utf8_length (py_str raw)))))"
    by (auto simp: ps(3) stamp_timeout_def scrub_password_param_def TIMEOUT_SECONDS_SNAPSHOT_PARAM_KEY_def split: option.splits)
  with am(2,3) ps(1) show ?thesis unfolding cd by blast
qed

text \<open>
  The deadline of a job outlives the backend call it makes. For a created execution the
  job's timeout exceeds the HTTP read timeout the worker will use by at least fifty seconds,
  whatever the procedure's timeout is edited to in between.
\<close>

theorem job_outlives_backend_call:
  assumes "create_execution d u ci s = (Inr e, s')" "ci_validated ci = Inr cd" "0 < proc_timeout_seconds (cd_procedure cd)"
    "proc_name (cd_procedure cd) \<notin> set PROTECTED_APPROVAL_PROCEDURE_NAMES"
  shows "\<exists>a b t. execs (sv_world s') e = Some a \<and> ExecutionJob e b t \<in> set (sv_jobs s')
    \<and> (\<forall>p. backend_read_timeout (resolve_backend_timeout_seconds p (params (obj (store a)))) + 50 \<le> t)"
  using assms(1)
proof (cases rule: create_cases)
  case (requested am rq a)
  with assms(2,4) admit_data [OF requested(1)] show ?thesis by simp
next
  case (queued am rq a err)
  have cd: "am_data am = cd" using admit_data [OF queued(1)] assms(2) by simp
  from queued(1) obtain ps1 where "am_params am = stamp_timeout (cd_procedure (am_data am)) ps1" by (rule admitE)
  then have pa: "dget (am_params am) TIMEOUT_SECONDS_SNAPSHOT_PARAM_KEY = VInt (proc_timeout_seconds (cd_procedure cd))"
    by (simp add: stamp_timeout_def cd dget_def)
  from queued(5) have n: "err = None" and e: "e = ad_new_pk d" by (auto split: option.splits)
  from queued(4) show ?thesis
  proof (cases rule: enqueue_cases)
    case (enqueued t j a' js)
    have t: "t = max (proc_timeout_seconds (cd_procedure cd) + 60) 600"
      using enqueued(1) assms(3) by (simp add: execution_job_timeout_def py_int_def py_or_def cd RPC_JOB_TIMEOUT_HEADROOM_SECONDS_def
          RPC_JOB_TIMEOUT_FLOOR_SECONDS_def)
    have "params (obj (store a')) = VDict (am_params am)"
      using enqueue_op_params [OF enqueued(3)] created_params(1) [OF queued(2)] by simp
    then have "backend_read_timeout (resolve_backend_timeout_seconds p (params (obj (store a')))) + 50 \<le> t" for p
      using assms(3) by (simp add: resolve_backend_timeout_seconds_def pa backend_read_timeout_def t)
    with enqueued(5,7) e show ?thesis by auto
  qed (use n in simp_all)
qed simp

lemma quiet_enqueue:
  assumes "synced (store a)" "status (row (store a)) = QUEUED" "contiguous (events (store a))" "env_itf env = (\<lambda>_. [])"
  shows "\<exists>a'. mark_enqueue_failed env a = Inr a' \<and> status (row (store a')) = FAILED"
    "\<exists>a'. enqueue env j a = Inr a' \<and> status (row (store a')) = QUEUED"
proof -
  let ?f = "mark_execution_failed (env_rt env) [] (env_now env) ''ExecutionEnqueueFailed''
    ''Failed to enqueue RPC job. Check RQ/Redis connectivity.'' ''RPC_ENQUEUE_FAILED''"
  obtain a' where a': "recording ?f a = Inr a'"
    using recording_succeeds [OF assms(3) mark_execution_failed_def [of "env_rt env" "[]" "env_now env" "''ExecutionEnqueueFailed''"
      "''Failed to enqueue RPC job. Check RQ/Redis connectivity.''" "''RPC_ENQUEUE_FAILED''"]] by blast
  from recording_effect [OF a' mark_execution_failed_def assms(1)] have "status (row (store a')) = FAILED" by (auto simp: recorded_def)
  with a' assms(4) show "\<exists>a'. mark_enqueue_failed env a = Inr a' \<and> status (row (store a')) = FAILED" by (simp add: mark_enqueue_failed_def)
  obtain b where b: "recording (record_execution_enqueued (env_rt env) [] j) a = Inr b"
    using recording_succeeds [OF assms(3) record_execution_enqueued_def [of "env_rt env" "[]" j]] by blast
  have "enqueue env j a = Inr b"
    using b assms(1,2,4) synced_status by (simp add: enqueue_def guard_defs TERMINAL_STATUSES_def)
  with op_kept [of env "OpEnqueue j" a b] assms(1,2) show "\<exists>a'. enqueue env j a = Inr a' \<and> status (row (store a')) = QUEUED" by auto
qed

text \<open>
  A plain creation never loses its execution. When nobody else writes to the new ledger,
  a creation that stored a row ends with the row queued and its job handed over, or with the
  row failed, no job and an error for the caller, whatever the queue does.
\<close>

theorem plain_creation_queued_or_failed:
  assumes "create_execution d u ci s = (r, s')" "s' \<noteq> s" "ci_validated ci = Inr cd"
    "proc_name (cd_procedure cd) \<notin> set PROTECTED_APPROVAL_PROCEDURE_NAMES" "\<And>k. env_itf (ad_calls d k) = (\<lambda>_. [])"
  shows "\<exists>a. execs (sv_world s') (ad_new_pk d) = Some a \<and>
    (status (row (store a)) = QUEUED \<and> (\<exists>b t. ExecutionJob (ad_new_pk d) b t \<in> set (sv_jobs s')) \<and> r = Inr (ad_new_pk d)
     \<or> status (row (store a)) = FAILED \<and> sv_jobs s' = sv_jobs s \<and> (\<exists>err. r = Inl err))"
  using assms(1)
proof (cases rule: create_cases)
  case (requested am rq a)
  with assms(3,4) admit_data [OF requested(1)] show ?thesis by simp
next
  case (queued am rq a err)
  have q: "queue (ad_calls d 0) (new_aggregate d u am) = Inr a"
    by (rule persistE [OF queued(2)]) (simp only: queued(3) if_False)
  have a: "synced (store a)" "status (row (store a)) = QUEUED" using queued_effect [OF q] by simp_all
  have "contiguous (events (store a))"
    using quiet_op_adds [of "ad_calls d 0" OpQueue "new_aggregate d u am" a] q assms(5) by (simp add: adds_def contiguous_def)
  note en = quiet_enqueue [OF a this assms(5), where k1 = 2]
  from queued(4) show ?thesis
  proof (cases rule: enqueue_cases)
    case (broken x y)
    with en(1) show ?thesis by simp
  next
    case (failed a' x)
    with en(1) queued(5) show ?thesis by auto
  next
    case (unrecorded t j x)
    with en(2) [of "VInt j"] show ?thesis by simp
  next
    case (enqueued t j a' js)
    with en(2) [of "VInt j"] queued(5) show ?thesis by auto
  qed
qed (use assms(2) in simp)


section \<open>Gaps in the tables\<close>

lemma unreasoned:
  "name \<in> set (OPENBAO_1_PROVISION_NETBOX_APPROLE # KEYCLOAK_IAM_UI_WRITE_PROCEDURE_NAMES) \<Longrightarrow>
     name \<in> set PROTECTED_APPROVAL_PROCEDURE_NAMES \<and> map_of PROTECTED_APPROVAL_REASON name = None
     \<and> map_of PROTECTED_REJECTION_REASON name = None"
proof -
  have "list_all (\<lambda>name. name \<in> set PROTECTED_APPROVAL_PROCEDURE_NAMES \<and> map_of PROTECTED_APPROVAL_REASON name = None
     \<and> map_of PROTECTED_REJECTION_REASON name = None) (OPENBAO_1_PROVISION_NETBOX_APPROLE # KEYCLOAK_IAM_UI_WRITE_PROCEDURE_NAMES)"
    by code_simp
  then show "name \<in> set (OPENBAO_1_PROVISION_NETBOX_APPROLE # KEYCLOAK_IAM_UI_WRITE_PROCEDURE_NAMES) \<Longrightarrow>
     name \<in> set PROTECTED_APPROVAL_PROCEDURE_NAMES \<and> map_of PROTECTED_APPROVAL_REASON name = None
     \<and> map_of PROTECTED_REJECTION_REASON name = None" by (simp only: list_all_iff)
qed

text \<open>
  C23: The Keycloak write procedures and the OpenBao AppRole provisioning can be neither
  approved nor rejected. They are protected, but no fixed reason exists for them, so both
  decisions raise for every user and leave everything as it was.
\<close>

theorem protected_without_reason_is_undecidable:
  assumes "map_of (sv_requests s) e = Some rq" "execs (sv_world s) e = Some a"
    "proc_name (rq_procedure rq) \<in> set (OPENBAO_1_PROVISION_NETBOX_APPROLE # KEYCLOAK_IAM_UI_WRITE_PROCEDURE_NAMES)"
  shows "(\<exists>err. approve_execution d u e reason s = (Some err, s)) \<and> (\<exists>err. reject_execution d u e reason s = (Some err, s))"
proof -
  from unreasoned [OF assms(3)] have p: "proc_name (rq_procedure rq) \<in> set PROTECTED_APPROVAL_PROCEDURE_NAMES"
    and none: "map_of PROTECTED_APPROVAL_REASON (proc_name (rq_procedure rq)) = None"
      "map_of PROTECTED_REJECTION_REASON (proc_name (rq_procedure rq)) = None" by simp_all
  have "approve_protected d u rq x \<noteq> Inr y" for x y
    using none(1) unfolding approve_protected_def Let_def rbind_Inr_iff fixed_reason_def by simp
  then obtain err where "as_status_error (as_params_error (approve_protected d u rq (locked_aggregate a))) = Inl err"
    by (metis as_params_error_Inr as_status_error_Inr obj_sumE)
  then have ap: "\<exists>err. approve_protected_execution d u e rq a s = (Some err, s)" by (simp add: approve_protected_execution_def)
  have "\<exists>err. approve_execution d u e reason s = (Some err, s)"
    using assms(1,2) p ap
    by (cases "require_approval_authorization rq u"; cases "require_protected_decision rq u reason") (simp_all add: approve_execution_def)
  moreover have "\<exists>err. reject_execution d u e reason s = (Some err, s)"
    using assms(1,2) p none(2)
    by (cases "require_approval_authorization rq u"; cases "require_protected_decision rq u reason")
      (simp_all add: reject_execution_def fixed_reason_def)
  ultimately show ?thesis ..
qed

text \<open>
  C24: The OpenBao AppRole provisioning cannot even be requested: it has no reviewed contract,
  so every creation of it is refused and stores nothing.
\<close>

theorem protected_without_contract_is_never_created:
  assumes "ci_validated ci = Inr cd" "proc_name (cd_procedure cd) = OPENBAO_1_PROVISION_NETBOX_APPROLE"
  shows "\<exists>err. create_execution d u ci s = (Inl err, s)"
proof -
  have p: "OPENBAO_1_PROVISION_NETBOX_APPROLE \<in> set PROTECTED_APPROVAL_PROCEDURE_NAMES"
    and c: "OPENBAO_1_PROVISION_NETBOX_APPROLE \<notin> set PROTECTED_CONTRACTS" by code_simp+
  have no: "require_concrete_protected_backend_id (ad_policy d) b OPENBAO_1_PROVISION_NETBOX_APPROLE \<noteq> Inr i" for b i
    using c by (auto simp: require_concrete_protected_backend_id_def protected_contract_of_def split: sum.splits if_splits)
  have "admit d u ci \<noteq> Inr am" for am
  proof
    assume am: "admit d u ci = Inr am"
    have cd: "am_data am = cd" using admit_data [OF am] assms(1) by simp
    from am obtain selected where "prepare_creation_authorization d (cd_procedure (am_data am)) u ci (am_data am) selected
        = Inr (am_backend_id am, am_target am)" by (rule admitE)
    then show False using no p unfolding cd prepare_creation_authorization_def Let_def assms(2) if_P [OF p] rbind_Inr_iff by blast
  qed
  then obtain err where "admit d u ci = Inl err" by (metis obj_sumE)
  then show ?thesis by (simp add: create_execution_def)
qed


section \<open>Intents\<close>

lemma children_created:
  "create_children ds u child k ps s = (Inr es, s') \<Longrightarrow> length es = length ps \<and>
     (\<exists>st. st 0 = s \<and> st (length ps) = s' \<and>
        (\<forall>i < length ps. create_execution (ds (k + i)) u (child (ps ! i)) (st i) = (Inr (es ! i), st (Suc i))))"
proof (induction ps arbitrary: k s es)
  case (Cons p ps)
  then obtain e s1 es1 where e: "create_execution (ds k) u (child p) s = (Inr e, s1)"
    "create_children ds u child (Suc k) ps s1 = (Inr es1, s')" "es = e # es1"
    by (auto split: prod.splits sum.splits)
  from Cons.IH [OF e(2)] obtain st where "length es1 = length ps" and st: "st 0 = s1" "st (length ps) = s'"
    "\<forall>i < length ps. create_execution (ds (Suc k + i)) u (child (ps ! i)) (st i) = (Inr (es1 ! i), st (Suc i))" by blast
  then show ?case
    using e(1,3) by (intro conjI exI [of _ "case_nat s st"]) (auto simp: less_Suc_eq_0_disj)
qed auto

lemma children_refused:
  "create_children ds u child k ps s = (Inl err, s') \<Longrightarrow> \<exists>j < length ps. \<exists>es s1.
     create_children ds u child k (take j ps) s = (Inr es, s1) \<and> create_execution (ds (k + j)) u (child (ps ! j)) s1 = (Inl err, s')"
proof (induction ps arbitrary: k s)
  case (Cons p ps)
  obtain r s1 where r: "create_execution (ds k) u (child p) s = (r, s1)" by (meson prod.exhaust)
  show ?case
  proof (cases r)
    case (Inl x)
    with Cons.prems r show ?thesis by (intro exI [of _ 0]) auto
  next
    case (Inr e)
    with Cons.prems r have "create_children ds u child (Suc k) ps s1 = (Inl err, s')" by (auto split: prod.splits sum.splits)
    from Cons.IH [OF this] obtain j es s2 where "j < length ps" "create_children ds u child (Suc k) (take j ps) s1 = (Inr es, s2)"
      "create_execution (ds (Suc k + j)) u (child (ps ! j)) s2 = (Inl err, s')" by blast
    with Inr r show ?thesis by (intro exI [of _ "Suc j"]) auto
  qed
qed simp

text \<open>
  An intent is a sequence of direct creations. Its children are created in the declared
  order, each by an ordinary creation on the state the previous one left; the first child
  that is refused ends the run with exactly its error, and the earlier children stay.
\<close>

theorem intent_runs_direct_creations:
  assumes "execute_intent ds u i child ps s = (r, s')"
  shows "(\<exists>err. r = Inl err \<and> s' = s) \<or>
    (\<exists>n es st. n \<le> length (ordered_intent_procedures i) \<and> length es = n \<and> st 0 = s
      \<and> (\<forall>j < n. create_execution (ds j) u (child (ordered_intent_procedures i ! j) (case ps of VDict d \<Rightarrow> d | _ \<Rightarrow> [])) (st j)
           = (Inr (es ! j), st (Suc j)))
      \<and> (case r of Inr fs \<Rightarrow> fs = es \<and> n = length (ordered_intent_procedures i) \<and> s' = st n
         | Inl err \<Rightarrow> n < length (ordered_intent_procedures i)
             \<and> create_execution (ds n) u (child (ordered_intent_procedures i ! n) (case ps of VDict d \<Rightarrow> d | _ \<Rightarrow> [])) (st n) = (Inl err, s')))"
proof -
  let ?c = "\<lambda>p. child p (case ps of VDict d \<Rightarrow> d | _ \<Rightarrow> [])" and ?ps = "ordered_intent_procedures i"
  consider "\<exists>err. r = Inl err \<and> s' = s" | "create_children ds u ?c 0 ?ps s = (r, s')"
    using assms by (auto simp: execute_intent_def split: if_splits)
  then show ?thesis
  proof cases
    case 2
    show ?thesis
    proof (cases r)
      case (Inl err)
      from children_refused [OF 2 [unfolded Inl]] obtain j es s1 where j: "j < length ?ps"
        "create_children ds u ?c 0 (take j ?ps) s = (Inr es, s1)" "create_execution (ds j) u (?c (?ps ! j)) s1 = (Inl err, s')" by auto
      from children_created [OF j(2)] j(1) obtain st where "length es = j" "st 0 = s" "st j = s1"
        "\<forall>i < j. create_execution (ds i) u (?c (?ps ! i)) (st i) = (Inr (es ! i), st (Suc i))" by auto
      with Inl j(1,3) show ?thesis by (intro disjI2 exI [of _ j] exI [of _ es] exI [of _ st]) simp
    next
      case (Inr es)
      from children_created [OF 2 [unfolded Inr]] obtain st where "length es = length ?ps" "st 0 = s" "st (length ?ps) = s'"
        "\<forall>i < length ?ps. create_execution (ds i) u (?c (?ps ! i)) (st i) = (Inr (es ! i), st (Suc i))" by auto
      with Inr show ?thesis by (intro disjI2 exI [of _ "length ?ps"] exI [of _ es] exI [of _ st]) simp
    qed
  qed blast
qed


section \<open>Witnesses\<close>

text \<open>
  A NetBox whose backend does not answer, whose validators accept and whose digest is a
  constant of the right length; its protected contract is the sample's own policy.
\<close>

definition fixed_rt :: python_rt where
  "fixed_rt = plain_rt\<lparr>rt_sha256 := (\<lambda>_. replicate 64 CHR ''a'')\<rparr>"

definition rotate_procedure :: rpc_procedure where
  "rotate_procedure = sample_procedure\<lparr>proc_name := NETBOX_STAGING_ROTATE_BACKEND_TOKEN, proc_commands := []\<rparr>"

definition password_procedure :: rpc_procedure where
  "password_procedure = sample_procedure\<lparr>proc_name := ''service.samba.1.user_create'',
     proc_handler_id := ''service.samba_1.user_create''\<rparr>"

definition fixed_contract :: protected_contract where
  "fixed_contract = \<lparr>pc_policy = VNone, pc_params_schema = VDict [], pc_result_schema = VDict [], pc_semantic_sha256 = None,
     pc_transport_pinned = None, pc_backend_id = None, pc_backend_base_url = None, pc_backend_verify_ssl = True\<rparr>"

definition open_policy :: policy_env where
  "open_policy = down_policy\<lparr>pe_rt := fixed_rt,
     pe_contract := (\<lambda>_. fixed_contract\<lparr>pc_policy := VDict (protected_procedure_policy (down_policy\<lparr>pe_rt := fixed_rt\<rparr>) fixed_contract rotate_procedure)\<rparr>)\<rparr>"

definition open_admission :: admission_env where
  "open_admission = \<lparr>ad_policy = open_policy, ad_calls = (\<lambda>_. quiet_env), ad_enabled = True,
     ad_selected = Some (4, \<lparr>rb_ip_address = None, rb_domain = ''b'', rb_port = 80, rb_use_https = False, rb_base_url = [],
       rb_verify_ssl = True, rb_auth_header_name = [], rb_auth_token = []\<rparr>),
     ad_schema_error = (\<lambda>_ _. None), ad_lanes = [], ad_control_worker = False, ad_secret_ingress = (\<lambda>_. None),
     ad_viewable = (\<lambda>_ _. Some \<lparr>ao_name = VStr ''nms-front-door''\<rparr>), ad_target_error = (\<lambda>_ _ _ _. None),
     ad_akvorado_error = (\<lambda>_. None), ad_reader = \<lparr>mr_loads = (\<lambda>_. None), mr_coerce = (\<lambda>_. None)\<rparr>,
     ad_network = (\<lambda>_ _. RequestRaises), ad_clock = 0, ad_cache = [],
     ad_prepare_references = (\<lambda>_ _. Inr (VNone, VNone)), ad_normalize = (\<lambda>_. Inr []), ad_display = ''sw1'', ad_new_pk = 7,
     ad_enqueue = Inr 1, ad_schedule = Inr (), ad_queued_at = None\<rparr>"

definition operator :: api_user where
  "operator = \<lparr>us_pk = VInt 2, us_superuser = False,
     us_perms = [''netbox_rpc.execute_rpcprocedure'', ''netbox_rpc.approve_rpcprocedure'', ''netbox_rpc.execute_rpcintent''],
     us_scopes = [(''execute'', 7), (''approve'', 7), (''view'', 7)]\<rparr>"

definition device_data :: "rpc_procedure \<Rightarrow> pydict \<Rightarrow> creation_data" where
  "device_data p ps = \<lparr>cd_procedure = p, cd_params = VDict ps,
     cd_object_type = Some \<lparr>ctype_id = 3, ctype_app_label = ''dcim'', ctype_model = ''device''\<rparr>, cd_object_id = VInt 8,
     cd_credential_references = VDict []\<rparr>"

definition device_input :: "rpc_procedure \<Rightarrow> pydict \<Rightarrow> creation_input" where
  "device_input p ps = \<lparr>ci_fields = [''procedure_id'', ''params''], ci_credential_references = VDict [],
     ci_validated = Inr (device_data p ps)\<rparr>"

definition empty_service :: service where
  "empty_service = \<lparr>sv_world = \<lparr>fences = (\<lambda>_. None), execs = (\<lambda>_. None)\<rparr>, sv_requests = [], sv_jobs = []\<rparr>"

definition admission :: "rpc_procedure \<Rightarrow> pydict \<Rightarrow> pydict \<Rightarrow> admitted" where
  "admission p ps stored = \<lparr>am_data = device_data p ps, am_params = stamp_timeout p stored, am_backend_id = VInt 4, am_target = None,
     am_references = VDict [], am_authority = VDict []\<rparr>"

definition a_password :: pydict where
  "a_password = [(''password'', VStr ''s'')]"

lemma sample_admitted: "admit open_admission operator (device_input sample_procedure []) = Inr (admission sample_procedure [] [])"
  by code_simp

lemma password_admitted: "admit open_admission operator (device_input password_procedure a_password)
    = Inr (admission password_procedure a_password (scrub_password_param fixed_rt a_password))"
  by code_simp

lemma rotate_admitted: "admit open_admission operator (device_input rotate_procedure [])
    = Inr ((admission rotate_procedure [] [])\<lparr>am_target := Some down_backend\<rparr>)"
  by code_simp

lemma sample_names:
  "proc_name password_procedure \<notin> set PROTECTED_APPROVAL_PROCEDURE_NAMES" "proc_name password_procedure \<noteq> UBUNTU_26_SAMBA_AD_DC_PROVISION"
  "proc_name sample_procedure \<noteq> UBUNTU_26_SAMBA_AD_DC_PROVISION" "proc_name rotate_procedure \<noteq> UBUNTU_26_SAMBA_AD_DC_PROVISION"
  "proc_name rotate_procedure \<in> set PROTECTED_APPROVAL_PROCEDURE_NAMES"
  "\<not> startswith (proc_name sample_procedure) OPENBAO_PROCEDURE_PREFIX" "\<not> startswith (proc_name password_procedure) OPENBAO_PROCEDURE_PREFIX"
  "\<not> startswith (proc_name rotate_procedure) OPENBAO_PROCEDURE_PREFIX" "proc_timeout_seconds sample_procedure = 30"
  "proc_timeout_seconds password_procedure = 30"
  by code_simp+

lemma open_sel [simp]: "ad_new_pk open_admission = 7" "ad_calls open_admission = (\<lambda>_. quiet_env)" "ad_enqueue open_admission = Inr 1"
    "ad_normalize open_admission = (\<lambda>_. Inr [])" "ad_policy open_admission = open_policy" "us_pk operator = VInt 2"
    "env_itf quiet_env = (\<lambda>_. [])" "env_rt quiet_env = plain_rt" "pe_rt open_policy = fixed_rt" "rt_sha256 fixed_rt = (\<lambda>_. replicate 64 CHR ''a'')"
  by (simp_all add: open_admission_def operator_def quiet_env_def open_policy_def fixed_rt_def)

lemma admission_sel [simp]: "cd_procedure (am_data (admission p ps stored)) = p" "ci_validated (device_input p ps) = Inr (device_data p ps)"
    "cd_procedure (device_data p ps) = p"
  by (simp_all add: admission_def device_data_def device_input_def)

lemma open_save:
  assumes "\<not> startswith (proc_name p) OPENBAO_PROCEDURE_PREFIX"
  shows "\<exists>rq. save_execution open_admission operator ((admission p ps stored)\<lparr>am_target := t\<rparr>) =
     Inr (rq, new_aggregate open_admission operator ((admission p ps stored)\<lparr>am_target := t\<rparr>)) \<and> rq_procedure rq = p
     \<and> rq_backend_id rq = VInt 4 \<and> rq_credential_references rq = VDict []"
  using assms
  by (simp add: save_execution_def validate_new_reference_fields_def validate_openbao_payload_def new_request_def admission_def device_data_def)

lemma sample_created:
  assumes "admit open_admission operator (device_input p ps) = Inr (admission p ps stored)" "\<not> startswith (proc_name p) OPENBAO_PROCEDURE_PREFIX"
    "proc_name p \<notin> set PROTECTED_APPROVAL_PROCEDURE_NAMES" "proc_name p \<noteq> UBUNTU_26_SAMBA_AD_DC_PROVISION" "proc_timeout_seconds p = 30"
  shows "\<exists>s'. create_execution open_admission operator (device_input p ps) s = (Inr 7, s')"
proof -
  let ?a = "new_aggregate open_admission operator (admission p ps stored)"
  have same: "(admission p ps stored)\<lparr>am_target := None\<rparr> = admission p ps stored" by (simp add: admission_def)
  from open_save [OF assms(2), where ps = ps and stored = stored and t = None] obtain rq where rq: "rq_procedure rq = p"
    "save_execution open_admission operator (admission p ps stored) = Inr (rq, ?a)" unfolding same by blast
  obtain a where a: "recording (record_execution_queued plain_rt []) ?a = Inr a"
    using recording_succeeds [OF _ record_execution_queued_def, of ?a plain_rt] by (auto simp: contiguous_def)
  then have q: "queue quiet_env ?a = Inr a"
    using synced_status [of "store ?a"] by (simp add: queue_def guard_defs)
  have p: "persist_execution_request open_admission operator (admission p ps stored) s = Inr (rq, a)"
    using assms(3,4) rq q
    by (simp add: persist_execution_request_def require_no_concurrent_samba_provision_def validate_samba_provision_at_admission_def)
  have "synced (store a)" "status (row (store a)) = QUEUED" using queued_effect [OF q] by simp_all
  moreover have "contiguous (events (store a))"
    using quiet_op_adds [of quiet_env OpQueue ?a a] q by (simp add: adds_def contiguous_def)
  ultimately obtain a' where "enqueue quiet_env (VInt 1) a = Inr a'"
    using quiet_enqueue(2) [of a quiet_env "VInt 1"] by auto
  with assms(1,3,5) p show ?thesis
    by (simp add: create_execution_def enqueue_execution_job_def execution_job_timeout_def py_or_def py_int_def Let_def)
qed

definition after_creation :: "rpc_procedure \<Rightarrow> pydict \<Rightarrow> service" where
  "after_creation p ps = snd (create_execution open_admission operator (device_input p ps) empty_service)"

lemma sample_after: "create_execution open_admission operator (device_input sample_procedure []) empty_service = (Inr 7, after_creation sample_procedure [])"
  using sample_created [OF sample_admitted sample_names(6) sample_ungated(1) sample_names(3,9), of empty_service] by (auto simp: after_creation_def)

lemma password_after: "create_execution open_admission operator (device_input password_procedure a_password) empty_service
    = (Inr 7, after_creation password_procedure a_password)"
  using sample_created [OF password_admitted sample_names(7,1,2,10), of empty_service] by (auto simp: after_creation_def)

lemma rotate_payload:
  assumes "rq_procedure rq = rotate_procedure" "rq_backend_id rq = VInt 4" "rq_credential_references rq = VDict []"
  shows "\<exists>p. approval_protected_payload open_policy rq a [] (Some down_backend) = Inr p"
proof -
  obtain n where n: "ledger_normalized_params fixed_rt [] = Inr n" using params_ledgered by blast
  obtain m where m: "ledger_normalized_params fixed_rt n = Inr m" using params_ledgered by blast
  have c: "\<exists>c. protected_contract_of open_policy (proc_name rotate_procedure) = Inr c"
  proof -
    have "proc_name rotate_procedure \<in> set PROTECTED_CONTRACTS" by code_simp
    then show ?thesis by (simp add: protected_contract_of_def)
  qed
  have "protected_backend_target_sha256 open_policy (VInt 4) (proc_name rotate_procedure) (Some down_backend) = Inr (replicate 64 CHR ''a'')"
    by code_simp
  moreover have "\<exists>h. credential_policy_reference open_policy rq n = Inr h"
    using m assms(3) by (simp add: credential_policy_reference_def Let_def)
  ultimately show ?thesis using n c assms by (auto simp: approval_protected_payload_def Let_def)
qed

lemma rotate_after: "create_execution open_admission operator (device_input rotate_procedure []) empty_service = (Inr 7, after_creation rotate_procedure [])"
proof -
  let ?am = "(admission rotate_procedure [] [])\<lparr>am_target := Some down_backend\<rparr>"
  let ?a = "new_aggregate open_admission operator ?am"
  from open_save [OF sample_names(8), where ps = "[]" and stored = "[]" and t = "Some down_backend"] obtain rq where rq: "save_execution open_admission operator ?am = Inr (rq, ?a)"
    "rq_procedure rq = rotate_procedure" "rq_backend_id rq = VInt 4" "rq_credential_references rq = VDict []" by blast
  obtain a where a: "recording (record_execution_requested plain_rt [] (VInt 2)) ?a = Inr a"
    using recording_succeeds [OF _ record_execution_requested_def [of plain_rt "[]" "VInt 2"], of ?a] by (auto simp: contiguous_def)
  then have r: "request quiet_env (VInt 2) ?a = Inr a" by (simp add: request_def guard_defs)
  have k: "synced (store a)" "status (row (store a)) = REQUESTED"
    using op_kept [of quiet_env "OpRequest (VInt 2)" ?a a] r by (auto split: if_splits)
  have "contiguous (events (store a))"
    using recording_adds [OF a record_execution_requested_def] by (simp add: adds_def contiguous_def)
  note c = this
  from rotate_payload [OF rq(2-4)] obtain p where p: "approval_protected_payload open_policy rq a [] (Some down_backend) = Inr p" by blast
  define snap where "snap = (approval_from_payload (current_stream_version a) p)
    \<lparr>ap_payload_hash := compute_hash fixed_rt (approval_from_payload (current_stream_version a) p)\<rparr>"
  have snap: "create_approval_request open_admission rq a [] (Some down_backend) = Inr snap"
    by (simp add: create_approval_request_def p save_approval_def snap_def approval_from_payload_def)
  have h: "ap_payload_hash snap = replicate 64 CHR ''a''" by (simp add: snap_def compute_hash_def compute_approval_snapshot_hash_def)
  obtain b where b: "recording (record_approval_requested plain_rt [] (ap_payload_hash snap) VNone (VInt 2)) (a\<lparr>approval := Some snap\<rparr>) = Inr b"
    using recording_succeeds [OF _ record_approval_requested_def [of plain_rt "[]" "ap_payload_hash snap" VNone "VInt 2"],
      of "a\<lparr>approval := Some snap\<rparr>"] c by auto
  have s: "agg_status (a\<lparr>approval := Some snap\<rparr>) = REQUESTED" using k synced_status by simp
  have "request_approval quiet_env (ap_payload_hash snap) VNone (VInt 2) (a\<lparr>approval := Some snap\<rparr>) = Inr b"
    using b s by (simp add: request_approval_def guard_defs) (simp add: h)
  then have "request_protected open_admission operator (Some down_backend) rq ?a = Inr b"
    using r snap by (simp add: request_protected_def as_params_error_def)
  then have "persist_execution_request open_admission operator ?am empty_service = Inr (rq, b)"
    using sample_names(4,5) rq(1,2) by (simp add: persist_execution_request_def require_no_concurrent_samba_provision_def) 
  with rotate_admitted sample_names(5) show ?thesis
    by (simp add: create_execution_def after_creation_def Let_def)
qed

lemma after_new: "create_execution open_admission operator (device_input p ps) empty_service = (Inr 7, s') \<Longrightarrow> s' \<noteq> empty_service"
proof
  assume "create_execution open_admission operator (device_input p ps) empty_service = (Inr 7, s')" "s' = empty_service"
  then show False
  proof (cases rule: create_cases)
    case (requested am rq a)
    then have "execs (sv_world s') 7 = Some a" by simp
    then show ?thesis using \<open>s' = empty_service\<close> by (simp add: empty_service_def)
  next
    case (queued am rq a err)
    from queued(5) have "err = None" by (auto split: option.splits)
    with queued(4) obtain a' where "execs (sv_world s') 7 = Some a'" by (cases rule: enqueue_cases) auto
    then show ?thesis using \<open>s' = empty_service\<close> by (simp add: empty_service_def)
  qed simp
qed


theorem protected_creation_only_requests_witness:
  "\<exists>a snap. execs (sv_world (after_creation rotate_procedure [])) 7 = Some a \<and> approval a = Some snap
    \<and> status (row (store a)) = PENDING_APPROVAL \<and> ap_requested_by_id snap = VInt 2"
  using protected_creation_only_requests [OF rotate_after, of "device_data rotate_procedure []"] sample_names(5) by auto

theorem stored_password_is_fingerprint_witness:
  "\<exists>a stored. execs (sv_world (after_creation password_procedure a_password)) 7 = Some a \<and> params (obj (store a)) = VDict stored
    \<and> map_of stored ''password'' = None \<and> map_of stored ''password_bytes'' = Some (VInt 1)"
proof -
  have "proc_handler_id password_procedure \<in> set PASSWORD_BEARING_HANDLER_IDS" by code_simp
  moreover have "creation_params (device_data password_procedure a_password) = Inr a_password"
    by (simp add: creation_params_def device_data_def a_password_def py_or_def)
  ultimately show ?thesis
    using stored_password_is_fingerprint [OF password_after after_new [OF password_after], of "device_data password_procedure a_password"]
    by (auto simp: a_password_def utf8_length_def)
qed

theorem job_outlives_backend_call_witness:
  "\<exists>a b t. execs (sv_world (after_creation sample_procedure [])) 7 = Some a \<and> ExecutionJob 7 b t \<in> set (sv_jobs (after_creation sample_procedure []))
    \<and> backend_read_timeout (resolve_backend_timeout_seconds sample_procedure (params (obj (store a)))) + 50 \<le> t"
  using job_outlives_backend_call [OF sample_after, of "device_data sample_procedure []"] sample_ungated(1) sample_names(9) by auto

theorem plain_creation_queued_or_failed_witness:
  "\<exists>a. execs (sv_world (after_creation sample_procedure [])) 7 = Some a \<and> status (row (store a)) = QUEUED"
  using plain_creation_queued_or_failed [OF sample_after after_new [OF sample_after], of "device_data sample_procedure []"] sample_ungated(1)
  by auto

definition keycloak_service :: service where
  "keycloak_service = empty_service\<lparr>sv_world := \<lparr>fences = (\<lambda>_. None), execs = [5 \<mapsto> fresh_aggregate]\<rparr>,
     sv_requests := [(5, uptime_request\<lparr>rq_procedure := sample_procedure\<lparr>proc_name := hd KEYCLOAK_IAM_UI_WRITE_PROCEDURE_NAMES\<rparr>\<rparr>)]\<rparr>"

theorem protected_without_reason_is_undecidable_witness:
  "\<exists>err. approve_execution open_admission operator 5 [] keycloak_service = (Some err, keycloak_service)"
proof -
  have "hd KEYCLOAK_IAM_UI_WRITE_PROCEDURE_NAMES \<in> set KEYCLOAK_IAM_UI_WRITE_PROCEDURE_NAMES" by code_simp
  then show ?thesis
    using protected_without_reason_is_undecidable [of keycloak_service 5
        "uptime_request\<lparr>rq_procedure := sample_procedure\<lparr>proc_name := hd KEYCLOAK_IAM_UI_WRITE_PROCEDURE_NAMES\<rparr>\<rparr>" fresh_aggregate]
    by (simp add: keycloak_service_def)
qed

theorem protected_without_contract_is_never_created_witness:
  "\<exists>err. create_execution open_admission operator
     (device_input (sample_procedure\<lparr>proc_name := OPENBAO_1_PROVISION_NETBOX_APPROLE\<rparr>) []) empty_service = (Inl err, empty_service)"
  by (rule protected_without_contract_is_never_created
      [of _ "device_data (sample_procedure\<lparr>proc_name := OPENBAO_1_PROVISION_NETBOX_APPROLE\<rparr>) []"]) simp_all

definition uptime_intent :: rpc_intent where
  "uptime_intent = \<lparr>in_enabled = True, in_rows = [(2, 1, sample_procedure)]\<rparr>"

lemma intent_after: "execute_intent (\<lambda>_. open_admission) operator uptime_intent device_input VNone empty_service
    = (Inr [7], after_creation sample_procedure [])"
  using sample_after
  by (simp add: execute_intent_def uptime_intent_def ordered_intent_procedures_def operator_def has_perm_def)

theorem intent_runs_direct_creations_witness:
  "create_execution open_admission operator (device_input (ordered_intent_procedures uptime_intent ! 0) []) empty_service
     = (Inr 7, after_creation sample_procedure [])"
  using intent_runs_direct_creations [OF intent_after]
  by (auto simp: uptime_intent_def ordered_intent_procedures_def)

end
