(* ===== verification/Service.thy ===== *)
theory Service
  imports Admission
begin

text \<open>
  The service as a whole: the RQ jobs of \<open>jobs.py\<close> and \<open>system_jobs.py\<close> around the handlers,
  and one step of the service as seen from outside, which is an API command, the run of a job
  or an edit of the procedure catalog.
\<close>

section \<open>Queues\<close>

definition RPC_CONTROL_QUEUE_NAME :: string where "RPC_CONTROL_QUEUE_NAME = ''netbox_rpc.control''"

definition RPC_JOB_TIMEOUT :: int where "RPC_JOB_TIMEOUT = 600"

definition CONTROL_WORKER_HEARTBEAT_MAX_AGE_SECONDS :: int where "CONTROL_WORKER_HEARTBEAT_MAX_AGE_SECONDS = 120"

text \<open>What the RQ registry says of one worker; reading it may raise.\<close>

record rq_worker =
  wk_state :: pyval
  wk_heartbeat :: "datetime option"

definition worker_is_live :: "datetime \<Rightarrow> rq_worker option \<Rightarrow> bool" where
  "worker_is_live now worker = (case worker of
       None \<Rightarrow> False
     | Some w \<Rightarrow> lower (py_str (wk_state w)) \<in> {''started'', ''idle'', ''busy''} \<and>
         (case wk_heartbeat w of
            None \<Rightarrow> False
          | Some t \<Rightarrow> 0 \<le> dt_instant now - dt_instant t
              \<and> dt_instant now - dt_instant t \<le> 1000000 * CONTROL_WORKER_HEARTBEAT_MAX_AGE_SECONDS))"

text \<open>\<open>None\<close> stands for a registry that cannot be read.\<close>

definition control_queue_has_live_worker :: "datetime \<Rightarrow> bool \<Rightarrow> rq_worker option list option \<Rightarrow> bool" where
  "control_queue_has_live_worker now suspended workers = (case workers of
       None \<Rightarrow> False
     | Some ws \<Rightarrow> \<not> suspended \<and> list_ex (worker_is_live now) ws)"

text \<open>NetBox's default queue is an argument.\<close>

definition execution_queue_name :: "string \<Rightarrow> pyval \<Rightarrow> string" where
  "execution_queue_name default_queue name = (case name of
       VStr n \<Rightarrow> if n \<in> set NETBOX_PRODUCTION_RQ_WORKER_PROCEDURE_NAMES then RPC_CONTROL_QUEUE_NAME else default_queue
     | _ \<Rightarrow> default_queue)"


section \<open>The execution job\<close>

text \<open>The columns of NetBox's job row that the execution job reads.\<close>

record job_row =
  job_data :: pyval
  job_object_id :: pyval

datatype job_error = JobRuntimeError string | JobRaised handler_error

definition dict_setdefault :: "string \<Rightarrow> pyval \<Rightarrow> pydict \<Rightarrow> pydict" where
  "dict_setdefault k v d = (if has_key d k then d else dict_set k v d)"

definition set_if_given :: "string \<Rightarrow> pyval \<Rightarrow> pydict \<Rightarrow> pydict" where
  "set_if_given k v d = (if v = VNone then d else dict_set k v d)"

text \<open>The keyword arguments \<open>RPCExecutionJob.enqueue\<close> hands to NetBox's own \<open>enqueue\<close>.\<close>

definition execution_job_kwargs :: "string \<Rightarrow> pydict \<Rightarrow> pyexc + pydict" where
  "execution_job_kwargs default_queue kwargs =
     (let backend_pk = dget kwargs ''backend_pk''; execution_pk = dget kwargs ''execution_pk'';
          name = dget kwargs ''procedure_name'';
          kw = dict_setdefault ''job_timeout'' (VInt RPC_JOB_TIMEOUT)
            (dict_setdefault ''queue_name'' (VStr (execution_queue_name default_queue name))
              (dict_del ''procedure_name'' (dict_del ''backend_pk'' kwargs)))
      in if backend_pk = VNone \<and> execution_pk = VNone then Inr kw
         else rbind (py_dict (py_or (dget kw ''data'') (VDict []))) (\<lambda>data.
           Inr (dict_set ''data'' (VDict (set_if_given ''execution_pk'' execution_pk (set_if_given ''backend_pk'' backend_pk data))) kw)))"

definition repair_value :: "string \<Rightarrow> pyval \<Rightarrow> pydict \<Rightarrow> pydict" where
  "repair_value k v d = (if v = VNone \<or> py_eq (dget d k) v then d else dict_set k v d)"

text \<open>The identifiers are written again when the row NetBox returned lacks them.\<close>

definition execution_job_enqueue :: "string \<Rightarrow> (pydict \<Rightarrow> handler_error + job_row) \<Rightarrow> pydict \<Rightarrow> handler_error + job_row" where
  "execution_job_enqueue default_queue base_enqueue kwargs =
     rbind (raised (execution_job_kwargs default_queue kwargs)) (\<lambda>kw.
     rbind (base_enqueue kw) (\<lambda>job.
     rbind (raised (py_dict (py_or (job_data job) (VDict [])))) (\<lambda>data.
       Inr (job\<lparr>job_data := VDict (repair_value ''execution_pk'' (dget kwargs ''execution_pk'')
         (repair_value ''backend_pk'' (dget kwargs ''backend_pk'') data))\<rparr>))))"

definition job_dict :: "job_row \<Rightarrow> job_error + pydict" where
  "job_dict job = (case py_or (job_data job) (VDict []) of VDict d \<Rightarrow> Inr d | _ \<Rightarrow> Inl (JobRaised (HandlerRaised AttributeError)))"

definition get_execution :: "python_rt \<Rightarrow> pyval \<Rightarrow> job_row \<Rightarrow> job_error + int" where
  "get_execution rt execution_pk job =
     rbind (if execution_pk \<noteq> VNone then Inr execution_pk
            else rbind (job_dict job) (\<lambda>d. Inr (dget d ''execution_pk''))) (\<lambda>raw.
     (let raw_pk = (if raw = VNone then job_object_id job else raw) in
      if raw_pk = VNone then Inl (JobRuntimeError ''RPCExecutionJob requires an RPCExecution primary key.'')
      else (case py_int rt raw_pk of
          Inr i \<Rightarrow> Inr i
        | Inl e \<Rightarrow> if e = TypeError \<or> e = ValueError
            then Inl (JobRuntimeError ''RPCExecutionJob received an invalid RPCExecution primary key.'')
            else Inl (JobRaised (HandlerRaised e)))))"

text \<open>The identifiers of the run: the execution, and the backend unless the row decides.\<close>

definition job_identifiers :: "python_rt \<Rightarrow> pydict \<Rightarrow> job_row \<Rightarrow> job_error + (int \<times> pyval)" where
  "job_identifiers rt kwargs job =
     (let runtime = (case dget kwargs ''data'' of VDict d \<Rightarrow> d | _ \<Rightarrow> []) in
      rbind (get_execution rt (py_or (dget kwargs ''execution_pk'') (dget runtime ''execution_pk'')) job) (\<lambda>e.
      rbind (if truthy (dget runtime ''backend_pk'') then Inr [] else job_dict job) (\<lambda>d.
        Inr (e, py_or (dget runtime ''backend_pk'') (dget d ''backend_pk'')))))"

record job_result =
  jr_error :: "job_error option"
  jr_service :: service
  jr_calls :: "(int \<times> backend_call) list"

definition execution_job_run :: "dispatch_env \<Rightarrow> pydict \<Rightarrow> job_row \<Rightarrow> service \<Rightarrow> job_result" where
  "execution_job_run d kwargs job s = (case job_identifiers (de_rt d) kwargs job of
       Inl err \<Rightarrow> \<lparr>jr_error = Some err, jr_service = s, jr_calls = []\<rparr>
     | Inr (e, backend_pk) \<Rightarrow> (case map_of (sv_requests s) e of
         None \<Rightarrow> \<lparr>jr_error = Some (JobRaised DoesNotExist), jr_service = s, jr_calls = []\<rparr>
       | Some rq \<Rightarrow>
           (let r = run_execution d rq e (py_or backend_pk (rq_backend_id rq)) (sv_world s) in
            \<lparr>jr_error = map_option JobRaised (rr_error r), jr_service = s\<lparr>sv_world := rr_world r\<rparr>,
             jr_calls = map (Pair e) (rr_calls r)\<rparr>)))"


section \<open>Expiry\<close>

definition expire_row :: "call_env \<Rightarrow> datetime option \<Rightarrow> int \<Rightarrow> service \<Rightarrow> (handler_error + bool) \<times> service" where
  "expire_row env queued_at e s = (case (map_of (sv_requests s) e, execs (sv_world s) e) of
       (Some rq, Some a) \<Rightarrow>
         (case expire_stale_restart_execution env (proc_name (rq_procedure rq)) queued_at a of
            Inl err \<Rightarrow> (Inl err, s)
          | Inr (expired, b) \<Rightarrow> (Inr expired, if expired then put_exec e b s else s))
     | _ \<Rightarrow> (Inl DoesNotExist, s))"

definition queue_expiry_job_run :: "python_rt \<Rightarrow> call_env \<Rightarrow> datetime option \<Rightarrow> pydict \<Rightarrow> service \<Rightarrow> job_error option \<times> service" where
  "queue_expiry_job_run rt env queued_at kwargs s =
     (if dget kwargs ''execution_pk'' = VNone
      then (Some (JobRuntimeError ''RPCExecutionQueueExpiryJob requires an RPCExecution primary key.''), s)
      else (case py_int rt (dget kwargs ''execution_pk'') of
          Inl e \<Rightarrow> (Some (JobRaised (HandlerRaised e)), s)
        | Inr e \<Rightarrow> (case expire_row env queued_at e s of
            (Inl err, s') \<Rightarrow> (Some (JobRaised err), s') | (Inr _, s') \<Rightarrow> (None, s'))))"

text \<open>
  The rows the sweep selects: queued restarts with a queue event no later than the cutoff, by
  primary key. \<open>queue_times\<close> are the times of the \<open>ExecutionQueued\<close> events of a row, in order.
\<close>

definition overdue_restarts :: "datetime \<Rightarrow> (int \<Rightarrow> datetime list) \<Rightarrow> nat \<Rightarrow> service \<Rightarrow> int list" where
  "overdue_restarts now queue_times batch_size s =
     take batch_size (sort (concat (map (\<lambda>(e, rq).
       if proc_name (rq_procedure rq) = NETBOX_PRODUCTION_RESTART_RQ_WORKER
          \<and> (case execs (sv_world s) e of None \<Rightarrow> False | Some a \<Rightarrow> status (row (store a)) = QUEUED)
       then map (\<lambda>_. e) (filter (\<lambda>t. dt_instant t \<le> dt_instant now - 1000000 * CONTROL_QUEUE_MAX_AGE_SECONDS) (queue_times e))
       else []) (sv_requests s))))"

fun expire_all :: "(nat \<Rightarrow> call_env) \<Rightarrow> (int \<Rightarrow> datetime list) \<Rightarrow> nat \<Rightarrow> int list \<Rightarrow> service \<Rightarrow> (handler_error + nat) \<times> service" where
  "expire_all envs queue_times k [] s = (Inr 0, s)"
| "expire_all envs queue_times k (e # es) s =
     (case expire_row (envs k) (if queue_times e = [] then None else Some (last (queue_times e))) e s of
        (Inl err, s1) \<Rightarrow> (Inl err, s1)
      | (Inr expired, s1) \<Rightarrow> (case expire_all envs queue_times (Suc k) es s1 of
          (Inl err, s2) \<Rightarrow> (Inl err, s2)
        | (Inr n, s2) \<Rightarrow> (Inr (if expired then Suc n else n), s2)))"

definition expire_stale_restart_executions ::
  "datetime \<Rightarrow> (nat \<Rightarrow> call_env) \<Rightarrow> (int \<Rightarrow> datetime list) \<Rightarrow> nat \<Rightarrow> service \<Rightarrow> (handler_error + nat) \<times> service" where
  "expire_stale_restart_executions now envs queue_times batch_size s =
     expire_all envs queue_times 0 (overdue_restarts now queue_times batch_size s) s"


section \<open>API commands\<close>

text \<open>\<open>RPCExecutionViewSet.approve\<close> and \<open>reject\<close>: the body check, then the command; \<open>None\<close> is a body that is no mapping.\<close>

definition decision_reason :: "string \<Rightarrow> pydict option \<Rightarrow> handler_error + string" where
  "decision_reason name body =
     (if name = NETBOX_STAGING_ROTATE_BACKEND_TOKEN \<and> body \<noteq> Some []
      then Inl (ValidationError ''detail'' ''Staging token rotation decisions accept no request body.'')
      else Inr (case body of None \<Rightarrow> [] | Some b \<Rightarrow> py_str (py_or (dget b ''reason'') (VStr []))))"

definition view_decision ::
  "(string \<Rightarrow> service \<Rightarrow> handler_error option \<times> service) \<Rightarrow> int \<Rightarrow> pydict option \<Rightarrow> service \<Rightarrow> handler_error option \<times> service" where
  "view_decision decide e body s = (case map_of (sv_requests s) e of
       None \<Rightarrow> (Some DoesNotExist, s)
     | Some rq \<Rightarrow> (case decision_reason (proc_name (rq_procedure rq)) body of
         Inl err \<Rightarrow> (Some err, s)
       | Inr reason \<Rightarrow> decide reason s))"

definition cancel_row :: "call_env \<Rightarrow> api_user \<Rightarrow> int \<Rightarrow> service \<Rightarrow> handler_error option \<times> service" where
  "cancel_row env u e s = (case execs (sv_world s) e of
       None \<Rightarrow> (Some DoesNotExist, s)
     | Some a \<Rightarrow> (case cancel_execution env (has_perm u ''netbox_rpc.execute_rpcprocedure'') (us_pk u) a of
         Inl err \<Rightarrow> (Some err, s)
       | Inr b \<Rightarrow> (None, put_exec e b s)))"


section \<open>A step of the service\<close>

text \<open>Saving a procedure row changes what every execution of it reads.\<close>

definition edit_procedure :: "rpc_procedure \<Rightarrow> service \<Rightarrow> service" where
  "edit_procedure p s = s\<lparr>sv_requests := map (\<lambda>(e, rq).
     (e, if proc_pk (rq_procedure rq) = proc_pk p then rq\<lparr>rq_procedure := p\<rparr> else rq)) (sv_requests s)\<rparr>"

datatype service_op =
    CreateOp admission_env api_user creation_input
  | ApproveOp admission_env api_user int "pydict option"
  | RejectOp admission_env api_user int "pydict option"
  | CancelOp call_env api_user int
  | RunOp dispatch_env pydict job_row
  | ExpiryJobOp python_rt call_env "datetime option" pydict
  | SweepOp datetime "nat \<Rightarrow> call_env" "int \<Rightarrow> datetime list" nat
  | EditProcedureOp rpc_procedure

fun service_step :: "service_op \<Rightarrow> service \<Rightarrow> service \<times> (int \<times> backend_call) list" where
  "service_step (CreateOp d u ci) s = (snd (create_execution d u ci s), [])"
| "service_step (ApproveOp d u e body) s = (snd (view_decision (approve_execution d u e) e body s), [])"
| "service_step (RejectOp d u e body) s = (snd (view_decision (reject_execution d u e) e body s), [])"
| "service_step (CancelOp env u e) s = (snd (cancel_row env u e s), [])"
| "service_step (RunOp d kwargs job) s = (let r = execution_job_run d kwargs job s in (jr_service r, jr_calls r))"
| "service_step (ExpiryJobOp rt env queued_at kwargs) s = (snd (queue_expiry_job_run rt env queued_at kwargs s), [])"
| "service_step (SweepOp now envs queue_times batch) s = (snd (expire_stale_restart_executions now envs queue_times batch s), [])"
| "service_step (EditProcedureOp p) s = (edit_procedure p s, [])"

text \<open>A new primary key is one that no row has.\<close>

fun fresh :: "service_op \<Rightarrow> service \<Rightarrow> bool" where
  "fresh (CreateOp d u ci) s \<longleftrightarrow> execs (sv_world s) (ad_new_pk d) = None
     \<and> list_all (\<lambda>(e, _). e \<noteq> ad_new_pk d) (sv_requests s)"
| "fresh _ s \<longleftrightarrow> True"

text \<open>A history: the steps with the state each one started in, and every backend call made.\<close>

inductive history :: "service \<Rightarrow> (service_op \<times> service) list \<Rightarrow> (int \<times> backend_call) list \<Rightarrow> service \<Rightarrow> bool" for s0 where
  nothing: "history s0 [] [] s0"
| one_more: "history s0 h calls s \<Longrightarrow> fresh op s \<Longrightarrow> service_step op s = (s', made) \<Longrightarrow> history s0 (h @ [(op, s)]) (calls @ made) s'"

end
