(* ===== verification/ServiceProps.thy ===== *)
theory ServiceProps
  imports Service AdmissionProps
begin

text \<open>
  What holds over every history of the service: how a run touches other executions, that a
  spent execution never becomes claimable again, that a protected execution reaches a backend
  only through the approval of an authorised second person, and that a job finds the
  execution it was enqueued for.
\<close>

section \<open>What a run touches\<close>

definition lost :: "fence_world \<Rightarrow> fence_world \<Rightarrow> int \<Rightarrow> bool" where
  "lost w w' b \<longleftrightarrow> (\<exists>a a'. execs w b = Some a \<and> execs w' b = Some a' \<and> status (row (store a)) = RUNNING \<and> status (row (store a')) = FAILED)"

definition touches :: "int \<Rightarrow> fence_world \<Rightarrow> fence_world \<Rightarrow> bool" where
  "touches e w w' \<longleftrightarrow> (\<forall>b. b \<noteq> e \<longrightarrow> execs w' b = execs w b \<or> lost w w' b)
     \<and> (\<forall>c f. fences w' c = Some f \<longrightarrow> blocking_execution_id f \<in> {None, Some e}
          \<or> (\<exists>g. fences w c = Some g \<and> blocking_execution_id g = blocking_execution_id f))"

lemma touches_refl [simp]: "touches e w w"
  by (simp add: touches_def)

lemma touches_trans:
  assumes "touches e w w'" "touches e w' w''"
  shows "touches e w w''"
proof -
  have "execs w'' b = execs w b \<or> lost w w'' b" if "b \<noteq> e" for b
  proof -
    from assms that have "execs w' b = execs w b \<or> lost w w' b" "execs w'' b = execs w' b \<or> lost w' w'' b" by (simp_all add: touches_def)
    then show ?thesis by (auto simp: lost_def)
  qed
  moreover have "blocking_execution_id f \<in> {None, Some e} \<or> (\<exists>g. fences w c = Some g \<and> blocking_execution_id g = blocking_execution_id f)"
    if "fences w'' c = Some f" for c f
  proof -
    from assms(2) that have "blocking_execution_id f \<in> {None, Some e}
      \<or> (\<exists>g. fences w' c = Some g \<and> blocking_execution_id g = blocking_execution_id f)" unfolding touches_def by blast
    then show ?thesis
    proof
      assume "\<exists>g. fences w' c = Some g \<and> blocking_execution_id g = blocking_execution_id f"
      then obtain g where g: "fences w' c = Some g" "blocking_execution_id g = blocking_execution_id f" by blast
      with assms(1) have "blocking_execution_id g \<in> {None, Some e} \<or> (\<exists>h. fences w c = Some h \<and> blocking_execution_id h = blocking_execution_id g)"
        unfolding touches_def by blast
      with g(2) show ?thesis by simp
    qed blast
  qed
  ultimately show ?thesis unfolding touches_def by blast
qed

lemma touches_put [simp]: "touches e w (put_aggregate e a w)"
  by (simp add: touches_def put_aggregate_def)

lemma lost_worker_touches:
  assumes "fail_lost_worker env b w = Inr w'"
  shows "touches e w w'"
proof -
  from assms obtain a where a: "execs w b = Some a" by (auto simp: fail_lost_worker_def split: option.splits)
  show ?thesis
  proof (cases "w' = w")
    case False
    have run: "status_value st = ''running'' \<longleftrightarrow> st = RUNNING" for st by (cases st) simp_all
    with False assms a obtain s where s: "status (row (store a)) = RUNNING" "w' = w\<lparr>execs := (execs w)(b \<mapsto> a\<lparr>store := s\<lparr>obj := obj (store a)\<rparr>\<rparr>)\<rparr>"
      "mark_execution_failed (env_rt env) (env_itf env 0) (env_now env) ''ExecutionFailed''
         ''Gitea runner worker was lost after scope reservation; reconciliation is required.'' ''RPC_RUNNER_WORKER_LOST'' (locked_store (store a)) = Inr s"
      by (auto simp: fail_lost_worker_def Let_def split: if_splits sum.splits)
    have "recording (mark_execution_failed (env_rt env) (env_itf env 0) (env_now env) ''ExecutionFailed''
         ''Gitea runner worker was lost after scope reservation; reconciliation is required.'' ''RPC_RUNNER_WORKER_LOST'') (locked_aggregate a)
         = Inr (a\<lparr>store := s\<rparr>)"
      using s(3) by (simp add: recording_def locked_aggregate_def)
    from recording_effect [OF this mark_execution_failed_def] have "status (row s) = FAILED" by (auto simp: recorded_def)
    with a s show ?thesis by (auto simp: touches_def lost_def)
  qed simp
qed

lemma saved_touches:
  assumes "save_fence now c g w = Inr w'"
    "blocking_execution_id g \<in> {None, Some e} \<or> (\<exists>f. fences w c = Some f \<and> blocking_execution_id f = blocking_execution_id g)"
  shows "touches e w w'"
  using assms by (auto simp: save_fence_Inr touches_def)

lemma reserve_touches:
  assumes "reserve_gitea_runner_scope env e p n w = Inr w'"
  shows "touches e w w'"
proof -
  let ?c = "str_or (dget n ''gitea_scope'') []"
  from assms obtain f g w1 where f: "fences w ?c = Some f" "save_fence (env_now env) ?c (g\<lparr>takeover_generation := takeover_generation f + 1\<rparr>) w1 = Inr w'"
    and from_f: "reserve_start e f = Inr g \<and> w1 = w \<or> reserve_reconcile env e f w = Inr (g, w1)"
    by (cases "reserve_start e (the (fences w ?c))")
      (auto simp: reserve_gitea_runner_scope_def Let_def rbind_Inr_iff split: option.splits if_splits)
  from from_f show ?thesis
  proof
    assume "reserve_start e f = Inr g \<and> w1 = w"
    then have "blocking_execution_id g = Some e" "w1 = w" by (auto simp: reserve_start_def split: if_splits)
    with saved_touches [OF f(2), of e] show ?thesis by simp
  next
    assume r: "reserve_reconcile env e f w = Inr (g, w1)"
    then have g: "blocking_execution_id g = blocking_execution_id f" and w1: "w1 = w \<or> (\<exists>b. fail_lost_worker env b w = Inr w1)"
      by (auto simp: reserve_reconcile_def rbind_Inr_iff split: option.splits if_splits)
    have fe: "fences w1 = fences w"
      using w1 fail_lost_worker_fences by auto
    have "touches e w w1" using w1 lost_worker_touches by auto
    moreover have "touches e w1 w'" using saved_touches [OF f(2), of e] f(1) g fe by simp
    ultimately show ?thesis by (rule touches_trans)
  qed
qed

lemma block_touches: "touches e w (block_runner_scope_after_failure d rq e n w)"
proof -
  have "touches e w w'" if "block_gitea_runner_scope env e p n w = Inr w'" for env p w'
  proof -
    let ?c = "str_or (dget n ''gitea_scope'') []"
    from that obtain f g where f: "fences w ?c = Some f" "save_fence (env_now env) ?c g w = Inr w'" "blocking_execution_id g = blocking_execution_id f"
      by (auto simp: block_gitea_runner_scope_def Let_def rbind_Inr_iff split: option.splits if_splits)
    from saved_touches [OF f(2), of e] f(1,3) show ?thesis by simp
  qed
  then show ?thesis by (auto simp: block_runner_scope_after_failure_def split: sum.split)
qed

lemma completed_blocking: "blocking_execution_id (completed_fence so op res f) \<in> {None, blocking_execution_id f}"
  by (auto simp: completed_fence_def Let_def split: pyval.splits)

lemma response_touches:
  assumes "record_gitea_runner_response env schemas e p n r w = Inr w'"
  shows "touches e w w'"
proof -
  let ?c = "str_or (dget n ''gitea_scope'') []"
  obtain res f where res: "valid_runner_result (env_validate env) schemas p n r = Some res" and f: "fences w ?c = Some f"
    using assms by (auto simp: record_gitea_runner_response_def Let_def rbind_Inr_iff simp del: py_eq.simps split: option.split_asm)
  obtain w1 y where w1: "save_fence (env_now env) ?c (completed_fence (gitea_runner_start_operation p) (str_or (dget n ''operation'') []) res f) w = Inr w1"
    "(case execs w1 e of None \<Rightarrow> Inl DoesNotExist | Some a \<Rightarrow> (case agg_record_backend_response env r a of
        Inl err \<Rightarrow> Inl (HandlerAggregate err) | Inr a' \<Rightarrow> Inr (w1\<lparr>execs := (execs w1)(e \<mapsto> a')\<rparr>))) = Inr w'"
    using assms unfolding record_gitea_runner_response_def Let_def rbind_Inr_iff res option.case f by blast
  obtain a where a: "w' = put_aggregate e a w1"
    using w1(2) by (auto simp: put_aggregate_def split: option.split_asm sum.split_asm)
  have "touches e w w1"
    using saved_touches [OF w1(1), of e] f completed_blocking [of "gitea_runner_start_operation p" "str_or (dget n ''operation'') []" res f]
    by auto
  then show ?thesis unfolding a using touches_put touches_trans by blast
qed

lemma dispatch_touches: "touches e w (do_world (dispatch_to_backend d rq e t lease n a w))"
proof -
  have "touches e w (do_world (fenced_dispatch d rq e t lease n w))"
  proof (cases "reserve_gitea_runner_scope (de_calls d 5) e (proc_name (rq_procedure rq)) n w")
    case (Inr w1)
    note t1 = reserve_touches [OF Inr]
    with Inr response_touches touches_trans show ?thesis
      by (fastforce simp: fenced_dispatch_def Let_def split: sum.split)
  qed (simp add: fenced_dispatch_def Let_def)
  then show ?thesis by (auto simp: dispatch_to_backend_def plain_dispatch_def Let_def split: sum.split)
qed

lemma stages_touches: "touches e w (do_world (snd (dispatch_stages d rq e selector a w)))"
proof (cases "rbind (reference_execution_guard d rq ''backend'' None []) (\<lambda>_. resolve_dispatch_target d rq a selector)")
  case (Inr t)
  obtain a' r where p: "prepare_dispatch d rq e t a = (a', r)" by (meson prod.exhaust)
  show ?thesis
  proof (cases r)
    case (Inl err)
    with Inr p show ?thesis by (simp add: dispatch_stages_def Let_def)
  next
    case nl: (Inr nl)
    obtain n lease where "nl = (n, lease)" by (meson prod.exhaust)
    with Inr p nl have "do_world (snd (dispatch_stages d rq e selector a w)) = do_world (dispatch_to_backend d rq e t lease n a' (put_aggregate e a' w))"
      by (simp add: dispatch_stages_def Let_def)
    with touches_trans [OF touches_put dispatch_touches] show ?thesis by simp
  qed
qed (simp add: dispatch_stages_def Let_def)

lemma fail_touches: "touches e w (snd (fail_execution d e m c err w))"
  by (auto simp: fail_execution_def split: option.split sum.split agg_error.split)

lemma claimed_touches: "touches e w (rr_world (run_claimed d rq e bpk a w))"
proof -
  have f: "touches e w0 w2" if "fail_execution d e m c err w0 = (err', w2)" for m c err err' w0 w2
    using fail_touches [of e w0 d m c err] that by simp
  have "touches e w w2" if "dispatch_stages d rq e selector a w = (n, out)"
    "fail_execution d e m c err (if do_reserved out then block_runner_scope_after_failure d rq e n (do_world out) else do_world out) = (err', w2)"
    for selector n out m c err err' w2
  proof -
    have "touches e w (do_world out)" using stages_touches [of e w d rq selector a] that(1) by simp
    then have "touches e w (if do_reserved out then block_runner_scope_after_failure d rq e n (do_world out) else do_world out)"
      using block_touches touches_trans by auto
    with f [OF that(2)] touches_trans show ?thesis by blast
  qed
  moreover have "touches e w (do_world out)" if "dispatch_stages d rq e selector a w = (n, out)" for selector n out
    using stages_touches [of e w d rq selector a] that by simp
  ultimately show ?thesis
    using f by (auto simp: run_claimed_def Let_def split: prod.split sum.split option.split)
qed

lemma run_touches: "touches e w (rr_world (run_execution d rq e bpk w))"
proof -
  have "touches e w (rr_world (run_claimed d rq e bpk a (put_aggregate e a w)))" for a
    using claimed_touches touches_put touches_trans by blast
  then show ?thesis
    by (auto simp: run_execution_def Let_def split: option.split sum.split handler_error.split agg_error.split)
qed


section \<open>What the other commands touch\<close>

text \<open>\<open>alters e s s'\<close>: only the execution \<open>e\<close> may differ, and no fence does.\<close>

definition alters :: "int \<Rightarrow> service \<Rightarrow> service \<Rightarrow> bool" where
  "alters e s s' \<longleftrightarrow> fences (sv_world s') = fences (sv_world s) \<and> (\<forall>b. b \<noteq> e \<longrightarrow> execs (sv_world s') b = execs (sv_world s) b)"

lemma alters_simps [simp]:
  "alters e s s" "alters e s (put_exec e a s)" "alters e s (add_job j s)" "alters e s (insert_execution e rq a s)"
  "alters e s (put_decision e u rq a s)" "alters e s (put_exec e a (add_job j s))"
  by (simp_all add: alters_def put_exec_def put_aggregate_def add_job_def insert_execution_def put_decision_def)

lemma alters_trans: "alters e s s' \<Longrightarrow> alters e s' s'' \<Longrightarrow> alters e s s''"
  by (simp add: alters_def)

lemma enqueue_alters:
  assumes "enqueue_execution_job d rq e snapshot a s = (err, s')"
  shows "alters e s s'"
  using assms by (cases rule: enqueue_cases) (auto simp: alters_def put_exec_def put_aggregate_def add_job_def)

lemma create_alters: "alters (ad_new_pk d) s (snd (create_execution d u ci s))"
proof -
  obtain r s' where c: "create_execution d u ci s = (r, s')" by (meson prod.exhaust)
  then have "alters (ad_new_pk d) s s'"
  proof (cases rule: create_cases)
    case (queued am rq a err)
    with enqueue_alters [OF queued(4)] alters_trans alters_simps(4) show ?thesis by blast
  qed simp_all
  with c show ?thesis by simp
qed

lemma approve_alters: "alters e s (snd (approve_execution d u e reason s))"
proof -
  have "alters e s (snd (enqueue_execution_job d rq e snapshot b (put_decision e u rq b s)))" for rq snapshot b
    using enqueue_alters alters_trans alters_simps(5) by (metis prod.collapse)
  then show ?thesis
    by (auto simp: approve_execution_def approve_protected_execution_def Let_def split: option.split sum.split)
qed

lemma reject_alters: "alters e s (snd (reject_execution d u e reason s))"
  by (auto simp: reject_execution_def split: option.split sum.split)

lemma cancel_alters: "alters e s (snd (cancel_row env u e s))"
  by (auto simp: cancel_row_def split: option.split sum.split)

lemma expire_alters: "alters e s (snd (expire_row env queued_at e s))"
  by (auto simp: expire_row_def split: option.split sum.split)

lemma view_alters: "(\<And>reason. alters e s (snd (decide reason s))) \<Longrightarrow> alters e s (snd (view_decision decide e body s))"
  by (auto simp: view_decision_def split: option.split sum.split)


section \<open>Spent executions\<close>

text \<open>A spent execution has left the claimable part of the lifecycle for good.\<close>

definition SPENT :: "ExecutionStatus set" where
  "SPENT = {RUNNING, SUCCEEDED, FAILED, REJECTED, EXPIRED, CANCELLED}"

definition spent :: "fence_world \<Rightarrow> int \<Rightarrow> bool" where
  "spent w e \<longleftrightarrow> (\<exists>a. execs w e = Some a \<and> status (row (store a)) \<in> SPENT)"

lemma not_pending_undecided:
  assumes "status (row (store a)) \<noteq> PENDING_APPROVAL"
  shows "approve env by allow cur reason q a \<noteq> Inr b" "reject env by reason a \<noteq> Inr b"
  using assms by (auto simp: approve_def reject_def decide_from_pending_def Let_def rbind_Inr_iff)

lemma not_pending_refused:
  assumes "execs (sv_world s) e = Some a" "status (row (store a)) \<noteq> PENDING_APPROVAL"
  shows "snd (approve_execution d u e reason s) = s" "snd (reject_execution d u e reason s) = s"
proof -
  have n: "as_status_error (as_params_error (approve_protected d u rq (locked_aggregate a))) \<noteq> Inr b" for rq b
    using not_pending_undecided(1) [of "locked_aggregate a"] assms(2)
    by (auto simp: approve_protected_def Let_def rbind_Inr_iff)
  have m: "as_status_error (aggregated (approve env ap allow cur rs q a)) \<noteq> Inr b" for env ap allow cur rs q b
    using not_pending_undecided(1) [OF assms(2)] by auto
  show "snd (approve_execution d u e reason s) = s"
    using assms(1) n m by (auto simp: approve_execution_def approve_protected_execution_def split: option.split sum.split)
  show "snd (reject_execution d u e reason s) = s"
    using assms(1) not_pending_undecided(2) [OF assms(2)]
    by (auto simp: reject_execution_def rbind_Inr_iff split: option.split sum.split)
qed

lemma cancel_cases:
  assumes "execs (sv_world s) e = Some a"
  shows "snd (cancel_row env u e s) = s \<or> status (row (store a)) \<in> {QUEUED, PENDING_APPROVAL} \<and>
    (\<exists>b. snd (cancel_row env u e s) = put_exec e b s \<and> synced (store b) \<and> status (row (store b)) = CANCELLED \<and> approval b = approval a)"
proof (cases "snd (cancel_row env u e s) = s")
  case False
  with assms obtain b where b: "cancel env (us_pk u) (locked_aggregate a) = Inr b" "snd (cancel_row env u e s) = put_exec e b s"
    by (auto simp: cancel_row_def cancel_execution_def split: sum.splits agg_error.splits if_splits)
  from op_kept [of env "OpCancel (us_pk u)" "locked_aggregate a" b] b show ?thesis by (auto split: if_splits)
qed simp

lemma expire_cases:
  assumes "execs (sv_world s) e = Some a"
  shows "snd (expire_row env queued_at e s) = s \<or> status (row (store a)) = QUEUED \<and>
    (\<exists>b. snd (expire_row env queued_at e s) = put_exec e b s \<and> status (row (store b)) = FAILED)"
proof (cases "snd (expire_row env queued_at e s) = s")
  case False
  with assms obtain b where b: "fail env STALE_RESTART_MESSAGE ''RPC_CONTROL_QUEUE_STALE'' (locked_aggregate a) = Inr b"
    "snd (expire_row env queued_at e s) = put_exec e b s" "agg_status (locked_aggregate a) = QUEUED"
    by (auto simp: expire_row_def expire_stale_restart_execution_def Let_def rbind_Inr_iff split: option.splits sum.splits if_splits)
  from fail_ends [OF b(1)] b agg_status_row [of "locked_aggregate a"] show ?thesis by auto
qed simp

lemma unqueued_run:
  assumes "execs w e = Some a" "status (row (store a)) \<noteq> QUEUED"
  shows "run_execution d rq e bpk w = \<lparr>rr_error = None, rr_world = w, rr_calls = []\<rparr>"
proof -
  have "agg_status (locked_aggregate a) \<noteq> QUEUED" using assms(2) agg_status_row [of "locked_aggregate a"] by simp
  then show ?thesis using assms(1) by (simp add: run_execution_def claim_if_procedure_enabled_def)
qed


section \<open>Invariants of the service\<close>

text \<open>
  A condition that every command keeps, or that one kind of approval may end, holds along
  every history up to that approval. The views, the expiry job, the sweep and the identifiers
  of the execution job are dealt with here.
\<close>

locale guarded_service =
  fixes inv :: "service \<Rightarrow> bool" and unlock :: "admission_env \<Rightarrow> api_user \<Rightarrow> int \<Rightarrow> service \<Rightarrow> bool"
  assumes create: "inv s \<Longrightarrow> fresh (CreateOp d u ci) s \<Longrightarrow> inv (snd (create_execution d u ci s))"
    and approve: "inv s \<Longrightarrow> inv (snd (approve_execution d u e reason s)) \<or> unlock d u e s"
    and reject: "inv s \<Longrightarrow> inv (snd (reject_execution d u e reason s))"
    and cancel: "inv s \<Longrightarrow> inv (snd (cancel_row env u e s))"
    and expire: "inv s \<Longrightarrow> inv (snd (expire_row env queued_at e s))"
    and run: "inv s \<Longrightarrow> inv (s\<lparr>sv_world := rr_world (run_execution dd rq e bpk (sv_world s))\<rparr>)"
    and edit: "inv s \<Longrightarrow> inv (edit_procedure p s)"
begin

lemma viewed:
  "(\<And>reason. inv (snd (decide reason s)) \<or> out) \<Longrightarrow> inv s \<Longrightarrow> inv (snd (view_decision decide e body s)) \<or> out"
  by (auto simp: view_decision_def split: option.split sum.split)

lemma expired_all: "inv s \<Longrightarrow> inv (snd (expire_all envs queue_times k es s))"
proof (induction es arbitrary: k s)
  case (Cons e es)
  let ?q = "if queue_times e = [] then None else Some (last (queue_times e))"
  obtain r s1 where r: "expire_row (envs k) ?q e s = (r, s1)" by (meson prod.exhaust)
  have "inv s1" using expire [OF Cons.prems, of "envs k" ?q e] r by simp
  from Cons.IH [OF this, of "Suc k"] this r show ?case
    by (auto split: sum.split prod.split)
qed simp

lemma stepped:
  assumes "inv s" "fresh op s"
  shows "inv (fst (service_step op s)) \<or> (\<exists>d u e body. op = ApproveOp d u e body \<and> unlock d u e s)"
proof (cases op)
  case (CreateOp d u ci)
  with create assms show ?thesis by simp
next
  case (ApproveOp d u e body)
  with viewed [of "approve_execution d u e" s "unlock d u e s"] approve assms(1) show ?thesis by simp
next
  case (RejectOp d u e body)
  with viewed [of "reject_execution d u e" s False] reject assms(1) show ?thesis by simp
next
  case (RunOp d kwargs job)
  with run assms(1) show ?thesis
    by (auto simp: execution_job_run_def Let_def split: sum.split prod.split option.split)
next
  case (ExpiryJobOp rt env queued_at kwargs)
  have "inv s'" if "expire_row env queued_at e s = (r, s')" for e r s'
    using expire [OF assms(1), of env queued_at e] that by simp
  with ExpiryJobOp assms(1) show ?thesis by (auto simp: queue_expiry_job_run_def split: sum.split prod.split)
qed (use cancel edit expired_all assms(1) in \<open>simp_all add: expire_stale_restart_executions_def\<close>)

lemma held_along:
  assumes "history s0 h calls s" "inv s0"
  shows "inv s \<or> (\<exists>d u e body t. (ApproveOp d u e body, t) \<in> set h \<and> inv t \<and> unlock d u e t)"
  using assms
proof (induction rule: history.induct)
  case (one_more h calls s op s' made)
  then show ?case using stepped [of s op] by fastforce
qed simp

end

lemma spent_kept: "alters e s s' \<Longrightarrow> spent (sv_world s) b \<Longrightarrow> b \<noteq> e \<Longrightarrow> spent (sv_world s') b"
  by (simp add: alters_def spent_def)

lemma spent_not_pending: "spent w e \<Longrightarrow> \<exists>a. execs w e = Some a \<and> status (row (store a)) \<notin> {PENDING_APPROVAL, QUEUED}"
  by (auto simp: spent_def SPENT_def)

lemma spent_run: "spent w b \<Longrightarrow> spent (rr_world (run_execution d rq e bpk w)) b"
proof (cases "b = e")
  case True
  assume "spent w b"
  from spent_not_pending [OF this] True obtain a where "execs w e = Some a" "status (row (store a)) \<noteq> QUEUED" by auto
  from unqueued_run [OF this] \<open>spent w b\<close> show ?thesis by simp
next
  case False
  assume "spent w b"
  moreover have "execs (rr_world (run_execution d rq e bpk w)) b = execs w b \<or> lost w (rr_world (run_execution d rq e bpk w)) b"
    using run_touches [of e w d rq bpk] False by (simp add: touches_def)
  ultimately show ?thesis by (auto simp: spent_def lost_def SPENT_def)
qed

text \<open>No command brings a spent execution back.\<close>

lemma spent_commands:
  assumes "spent (sv_world s) b"
  shows "fresh (CreateOp d u ci) s \<Longrightarrow> spent (sv_world (snd (create_execution d u ci s))) b"
    "spent (sv_world (snd (approve_execution d u e reason s))) b" "spent (sv_world (snd (reject_execution d u e reason s))) b"
    "spent (sv_world (snd (cancel_row env u e s))) b" "spent (sv_world (snd (expire_row env queued_at e s))) b"
    "spent (sv_world (edit_procedure p s)) b"
proof -
  obtain a where a: "execs (sv_world s) b = Some a" "status (row (store a)) \<notin> {PENDING_APPROVAL, QUEUED}"
    using spent_not_pending [OF assms] by blast
  show "spent (sv_world (snd (create_execution d u ci s))) b" if "fresh (CreateOp d u ci) s"
    by (rule spent_kept [OF create_alters assms]) (use that a in auto)
  show "spent (sv_world (snd (approve_execution d u e reason s))) b" "spent (sv_world (snd (reject_execution d u e reason s))) b"
    using not_pending_refused [OF a(1)] a(2) spent_kept [OF approve_alters assms] spent_kept [OF reject_alters assms] assms
    by (cases "b = e"; fastforce)+
  show "spent (sv_world (snd (cancel_row env u e s))) b"
    using cancel_cases [of s e a env u] a spent_kept [OF cancel_alters assms] assms by (cases "b = e") fastforce+
  show "spent (sv_world (snd (expire_row env queued_at e s))) b"
    using expire_cases [of s e a env queued_at] a spent_kept [OF expire_alters assms] assms by (cases "b = e") fastforce+
  show "spent (sv_world (edit_procedure p s)) b" using assms by (simp add: edit_procedure_def)
qed

interpretation sp: guarded_service "\<lambda>s. spent (sv_world s) b" "\<lambda>_ _ _ _. False" for b
  by unfold_locales (simp_all add: spent_commands spent_run)

text \<open>Every holder of a fence is spent.\<close>

definition holders_spent :: "fence_world \<Rightarrow> bool" where
  "holders_spent w \<longleftrightarrow> (\<forall>c f b. fences w c = Some f \<longrightarrow> blocking_execution_id f = Some b \<longrightarrow> spent w b)"

lemma holders_alter:
  assumes "holders_spent (sv_world s)" "alters e s s'" "\<And>b. spent (sv_world s) b \<Longrightarrow> spent (sv_world s') b"
  shows "holders_spent (sv_world s')"
  using assms by (auto simp: holders_spent_def alters_def)

lemma queued_no_fence: "holders_spent w \<Longrightarrow> execs w e = Some a \<Longrightarrow> status (row (store a)) = QUEUED \<Longrightarrow> no_own_fence e w"
  by (fastforce simp: holders_spent_def no_own_fence_def spent_def SPENT_def)

lemma run_spends:
  assumes "no_own_fence e w" "execs w e = Some a0"
  shows "rr_world (run_execution d rq e bpk w) = w \<and> rr_calls (run_execution d rq e bpk w) = []
    \<or> spent (rr_world (run_execution d rq e bpk w)) e"
proof (cases "claim_if_procedure_enabled d rq (locked_aggregate a0)")
  case (Inl err)
  with assms(2) show ?thesis by (auto simp: run_execution_def split: handler_error.splits agg_error.splits)
next
  case (Inr a)
  from claim_cases [OF Inr] consider "status (row (store a)) = FAILED" "synced (store a)" | "held False a" by (auto simp: held_def)
  then show ?thesis
  proof cases
    case 1
    with Inr assms(2) agg_status_row [of a] show ?thesis by (simp add: run_execution_def put_aggregate_def spent_def SPENT_def)
  next
    case 2
    let ?w = "put_aggregate e a w"
    have "execs ?w e = Some a" "no_own_fence e ?w" using assms(1) by (simp_all add: put_aggregate_def no_own_fence_def)
    from claimed_ends [OF 2 this, of d rq bpk] have "spent (rr_world (run_claimed d rq e bpk a ?w)) e"
      by (auto simp: quiet_def spent_def SPENT_def)
    moreover have "agg_status a = RUNNING" using 2 agg_status_row [of a] by (simp add: held_def)
    ultimately show ?thesis using Inr assms(2) by (simp add: run_execution_def)
  qed
qed

lemma holders_run:
  assumes "holders_spent w"
  shows "holders_spent (rr_world (run_execution d rq e bpk w))"
proof -
  let ?r = "run_execution d rq e bpk w"
  consider "rr_world ?r = w" | "spent (rr_world ?r) e"
  proof (cases "execs w e")
    case (Some a)
    then show thesis
      using that unqueued_run [OF Some, of d rq bpk] run_spends [OF queued_no_fence [OF assms Some] Some, of d rq bpk]
      by (cases "status (row (store a)) = QUEUED") auto
  qed (use that in \<open>simp add: run_execution_def\<close>)
  then show ?thesis
  proof cases
    case 2
    have "spent (rr_world ?r) b" if "fences (rr_world ?r) c = Some f" "blocking_execution_id f = Some b" for c f b
    proof -
      from run_touches [of e w d rq bpk] that have "b = e \<or> (\<exists>g. fences w c = Some g \<and> blocking_execution_id g = Some b)"
        unfolding touches_def by fastforce
      then show ?thesis using 2 assms spent_run [of w b d rq e bpk] by (auto simp: holders_spent_def)
    qed
    then show ?thesis by (auto simp: holders_spent_def)
  qed (use assms in simp)
qed

interpretation ho: guarded_service "\<lambda>s. holders_spent (sv_world s)" "\<lambda>_ _ _ _. False"
proof unfold_locales
  fix s :: service and d u ci e reason env queued_at dd rq bpk and p :: rpc_procedure
  assume i: "holders_spent (sv_world s)"
  note k = spent_commands
  show "holders_spent (sv_world (snd (create_execution d u ci s)))" if "fresh (CreateOp d u ci) s"
    by (rule holders_alter [OF i create_alters]) (rule k(1) [OF _ that])
  show "holders_spent (sv_world (snd (approve_execution d u e reason s))) \<or> False"
    using holders_alter [OF i approve_alters k(2)] by blast
  show "holders_spent (sv_world (snd (reject_execution d u e reason s)))" by (rule holders_alter [OF i reject_alters k(3)])
  show "holders_spent (sv_world (snd (cancel_row env u e s)))" by (rule holders_alter [OF i cancel_alters k(4)])
  show "holders_spent (sv_world (snd (expire_row env queued_at e s)))" by (rule holders_alter [OF i expire_alters k(5)])
  show "holders_spent (sv_world (s\<lparr>sv_world := rr_world (run_execution dd rq e bpk (sv_world s))\<rparr>))" using holders_run [OF i] by simp
  show "holders_spent (sv_world (edit_procedure p s))" using i by (simp add: edit_procedure_def)
qed


section \<open>One call per execution\<close>

definition calls_of :: "int \<Rightarrow> (int \<times> backend_call) list \<Rightarrow> (int \<times> backend_call) list" where
  "calls_of e calls = filter (\<lambda>(b, _). b = e) calls"

lemma step_calls:
  assumes "service_step op s = (s', made)" "made \<noteq> []"
  obtains d rq e bpk where "made = map (Pair e) (rr_calls (run_execution d rq e bpk (sv_world s)))"
    "s' = s\<lparr>sv_world := rr_world (run_execution d rq e bpk (sv_world s))\<rparr>" "rr_calls (run_execution d rq e bpk (sv_world s)) \<noteq> []"
proof (cases op)
  case (RunOp d kwargs job)
  with assms that show thesis
    by (auto simp: execution_job_run_def Let_def split: sum.splits prod.splits option.splits)
qed (use assms in auto)

lemma run_one_call: "length (rr_calls (run_execution d rq e bpk w)) \<le> 1"
proof -
  have "length (rr_calls (run_claimed d rq e bpk a w')) \<le> 1" for a w'
    using dispatch_calls(2) by (auto simp: run_claimed_def dispatch_stages_def Let_def split: sum.split prod.split option.split)
  then show ?thesis
    by (auto simp: run_execution_def Let_def split: option.split sum.split handler_error.split agg_error.split)
qed

lemma called_spends:
  assumes "holders_spent w" "rr_calls (run_execution d rq e bpk w) \<noteq> []"
  shows "\<not> spent w e" "spent (rr_world (run_execution d rq e bpk w)) e"
proof -
  from assms(2) obtain a where a: "execs w e = Some a" by (auto simp: run_execution_def split: option.splits)
  have q: "status (row (store a)) = QUEUED" using unqueued_run [OF a, of d rq bpk] assms(2) by (metis run_result.select_convs(3))
  with a show "\<not> spent w e" by (simp add: spent_def SPENT_def)
  from run_spends [OF queued_no_fence [OF assms(1) a q] a, of d rq bpk] assms(2)
  show "spent (rr_world (run_execution d rq e bpk w)) e" by blast
qed

text \<open>
  C2: A backend is called at most once for an execution, over any history of the service:
  creations, decisions, cancellations, job runs and repeated job runs, expiries and catalog
  edits in any order, provided at the start every execution that holds a runner scope had
  left the queue.
\<close>

theorem one_backend_call_per_execution:
  assumes "history s0 h calls s" "holders_spent (sv_world s0)"
  shows "length (calls_of e calls) \<le> 1"
proof -
  have "length (calls_of e calls) \<le> 1 \<and> (calls_of e calls \<noteq> [] \<longrightarrow> spent (sv_world s) e)"
    using assms
  proof (induction rule: history.induct)
    case nothing
    show ?case by (simp add: calls_of_def)
  next
    case (one_more h calls s op s' made)
    have i: "holders_spent (sv_world s)" using ho.held_along [OF one_more.hyps(1) one_more.prems] by simp
    have k: "spent (sv_world s) e \<Longrightarrow> spent (sv_world s') e" using sp.stepped [OF _ one_more.hyps(2), of e] one_more.hyps(3) by simp
    show ?case
    proof (cases "calls_of e made = []")
      case True
      with one_more.IH [OF one_more.prems] k show ?thesis by (auto simp: calls_of_def)
    next
      case False
      then have "made \<noteq> []" by (auto simp: calls_of_def)
      with one_more.hyps(3) obtain d rq e' bpk where m: "made = map (Pair e') (rr_calls (run_execution d rq e' bpk (sv_world s)))"
        "s' = s\<lparr>sv_world := rr_world (run_execution d rq e' bpk (sv_world s))\<rparr>" "rr_calls (run_execution d rq e' bpk (sv_world s)) \<noteq> []"
        by (rule step_calls)
      have "e' = e" using False m(1) by (auto simp: calls_of_def filter_empty_conv)
      with called_spends [OF i m(3)] m(1,2) run_one_call [of d rq e bpk "sv_world s"] one_more.IH [OF one_more.prems]
      show ?thesis by (auto simp: calls_of_def)
    qed
  qed
  then show ?thesis ..
qed


section \<open>The second person\<close>

text \<open>An approval of the execution \<open>e\<close> in the state \<open>s\<close> by somebody other than the requester, or by a superuser.\<close>

definition second_person :: "api_user \<Rightarrow> admission_env \<Rightarrow> api_user \<Rightarrow> int \<Rightarrow> service \<Rightarrow> bool" where
  "second_person requester d u e s \<longleftrightarrow> (\<exists>rq a b. map_of (sv_requests s) e = Some rq \<and> execs (sv_world s) e = Some a
     \<and> approve_protected d u rq (locked_aggregate a) = Inr b \<and> has_perm u ''netbox_rpc.approve_rpcprocedure''
     \<and> (''view'', proc_pk (rq_procedure rq)) \<in> set (us_scopes u) \<and> (''approve'', proc_pk (rq_procedure rq)) \<in> set (us_scopes u)
     \<and> us_pk u \<noteq> VNone
     \<and> (py_str (us_pk u) \<noteq> py_str (us_pk requester)
        \<or> us_superuser u \<and> proc_name (rq_procedure rq) \<noteq> NETBOX_PRODUCTION_RESTART_RQ_WORKER))"

definition WAITING :: "ExecutionStatus set" where
  "WAITING = {PENDING_APPROVAL, APPROVED, REJECTED, CANCELLED}"

definition waiting :: "api_user \<Rightarrow> int \<Rightarrow> service \<Rightarrow> bool" where
  "waiting requester e s \<longleftrightarrow> (\<exists>a snap. execs (sv_world s) e = Some a \<and> synced (store a) \<and> status (row (store a)) \<in> WAITING
     \<and> approval a = Some snap \<and> ap_requested_by_id snap = us_pk requester)"

lemma waiting_kept: "alters b s s' \<Longrightarrow> waiting r e s \<Longrightarrow> b \<noteq> e \<Longrightarrow> waiting r e s'"
  by (simp add: alters_def waiting_def)

lemma waiting_put:
  assumes "execs (sv_world s) e = Some a" "approval a = Some snap" "ap_requested_by_id snap = us_pk r"
    "synced (store b)" "status (row (store b)) \<in> WAITING" "approval b = approval a"
  shows "waiting r e (put_exec e b s)" "waiting r e (put_decision e u rq b s)"
  using assms by (simp_all add: waiting_def put_decision_def)

lemma protected_approval_by_second_person:
  assumes "approve_protected d u rq (locked_aggregate a) = Inr b" "approval a = Some snap" "ap_requested_by_id snap = us_pk r"
    "us_pk r \<noteq> VNone"
  shows "us_pk u \<noteq> VNone \<and> (py_str (us_pk u) \<noteq> py_str (us_pk r)
    \<or> us_superuser u \<and> proc_name (rq_procedure rq) \<noteq> NETBOX_PRODUCTION_RESTART_RQ_WORKER)"
proof -
  from assms(1) obtain cur reason where ap: "approve (ad_calls d 0) (us_pk u) (allow_protected_self_approval (proc_name (rq_procedure rq)) (us_superuser u))
      (Some cur) reason True (locked_aggregate a) = Inr b"
    unfolding approve_protected_def Let_def rbind_Inr_iff aggregated_Inr_iff by blast
  have s: "require_snapshot (locked_aggregate a) = Inr snap" using assms(2) by (simp add: require_snapshot_def)
  from ap show ?thesis
    using assms(3,4)
    by (auto simp: approve_def s require_distinct_actor_def allow_protected_self_approval_def rbind_Inr_iff split: if_splits)
qed

lemma approve_waiting:
  assumes "waiting r e s" "us_pk r \<noteq> VNone"
  shows "waiting r e (snd (approve_execution d u b reason s)) \<or> b = e \<and> second_person r d u e s"
proof (cases "b = e")
  case False
  with waiting_kept [OF approve_alters assms(1)] show ?thesis by blast
next
  case True
  from assms(1) obtain a snap where a: "execs (sv_world s) e = Some a" "synced (store a)" "status (row (store a)) \<in> WAITING"
    "approval a = Some snap" "ap_requested_by_id snap = us_pk r" by (auto simp: waiting_def)
  show ?thesis
  proof (cases "snd (approve_execution d u e reason s) = s")
    case False
    then obtain rq where rq: "map_of (sv_requests s) e = Some rq" "require_approval_authorization rq u = Inr ()"
      using a(1) by (auto simp: approve_execution_def split: option.splits sum.splits)
    show ?thesis
    proof (cases "proc_name (rq_procedure rq) \<in> set PROTECTED_APPROVAL_PROCEDURE_NAMES")
      case p: True
      with False a(1) rq obtain y where dec: "require_protected_decision rq u reason = Inr ()"
        "approve_protected d u rq (locked_aggregate a) = Inr y"
        by (auto simp: approve_execution_def approve_protected_execution_def split: sum.splits)
      with rq protected_approval_by_second_person [OF dec(2) a(4,5) assms(2)] a(1) True show ?thesis
        by (auto simp: second_person_def require_approval_authorization_def require_protected_decision_def
            require_protected_procedure_scope_def rbind_Inr_iff)
    next
      case np: False
      let ?m = "as_status_error (aggregated (approve (ad_calls d 0) (us_pk u) (us_superuser u) None reason False a))"
      have "snd (approve_execution d u e reason s) = (case ?m of Inl _ \<Rightarrow> s | Inr y \<Rightarrow> put_decision e u rq (locked_aggregate y) s)"
        using np a(1) rq by (cases ?m) (simp_all add: approve_execution_def del: as_status_error_Inr)
      with False obtain y where "?m = Inr y" and y2: "snd (approve_execution d u e reason s) = put_decision e u rq (locked_aggregate y) s"
        by (cases ?m) auto
      then have "approve (ad_calls d 0) (us_pk u) (us_superuser u) None reason False a = Inr y" by simp
      note y = this y2
      from op_kept [of "ad_calls d 0" "OpApprove (us_pk u) (us_superuser u) None reason False" a y] y(1) a(2)
      have "status (row (store y)) \<in> WAITING" "approval y = approval a" by (auto simp: WAITING_def split: if_splits)
      then have "waiting r e (put_decision e u rq (locked_aggregate y) s)" by (intro waiting_put [OF a(1,4,5)]) simp_all
      with y(2) True show ?thesis by simp
    qed
  qed (use True assms(1) in simp)
qed

lemma reject_waiting:
  assumes "waiting r e s"
  shows "waiting r e (snd (reject_execution d u b reason s))"
proof (cases "b = e \<and> snd (reject_execution d u e reason s) \<noteq> s")
  case True
  from assms obtain a snap where a: "execs (sv_world s) e = Some a" "synced (store a)"
    "approval a = Some snap" "ap_requested_by_id snap = us_pk r" by (auto simp: waiting_def)
  with True obtain rs y where y: "reject (ad_calls d 0) (us_pk u) rs a = Inr y"
    "snd (reject_execution d u e reason s) = put_exec e (locked_aggregate y) s"
    by (auto simp: reject_execution_def rbind_Inr_iff split: option.splits sum.splits)
  from op_kept [of "ad_calls d 0" "OpReject (us_pk u) rs" a y] y(1) a(2)
  have "status (row (store y)) \<in> WAITING" "approval y = approval a" by (auto simp: WAITING_def split: if_splits)
  then have "waiting r e (put_exec e (locked_aggregate y) s)" by (intro waiting_put [OF a(1,3,4)]) simp_all
  with y(2) True show ?thesis by simp
next
  case False
  with waiting_kept [OF reject_alters assms, of b] assms show ?thesis by (cases "b = e") auto
qed

lemma waiting_run: "waiting r e s \<Longrightarrow> execs (rr_world (run_execution d rq b bpk (sv_world s))) e = execs (sv_world s) e"
  "waiting r e s \<Longrightarrow> rr_calls (run_execution d rq e bpk (sv_world s)) = []"
proof -
  assume w: "waiting r e s"
  then obtain a where a: "execs (sv_world s) e = Some a" "status (row (store a)) \<noteq> QUEUED" "status (row (store a)) \<noteq> RUNNING"
    by (auto simp: waiting_def WAITING_def)
  from unqueued_run [OF a(1,2)] show "rr_calls (run_execution d rq e bpk (sv_world s)) = []" by simp
  show "execs (rr_world (run_execution d rq b bpk (sv_world s))) e = execs (sv_world s) e"
  proof (cases "b = e")
    case False
    with run_touches [of b "sv_world s" d rq bpk] a show ?thesis by (auto simp: touches_def lost_def)
  qed (use unqueued_run [OF a(1,2)] in simp)
qed

interpretation wa: guarded_service "\<lambda>s. us_pk r \<noteq> VNone \<and> waiting r e s" "\<lambda>d u b s. b = e \<and> second_person r d u e s" for r e
proof unfold_locales
  fix s :: service and d u ci b reason env queued_at dd rq bpk and p :: rpc_procedure
  assume i: "us_pk r \<noteq> VNone \<and> waiting r e s"
  then obtain a snap where a: "execs (sv_world s) e = Some a" "synced (store a)" "status (row (store a)) \<in> WAITING"
    "approval a = Some snap" "ap_requested_by_id snap = us_pk r" by (auto simp: waiting_def)
  show "us_pk r \<noteq> VNone \<and> waiting r e (snd (create_execution d u ci s))" if "fresh (CreateOp d u ci) s"
  proof -
    have "ad_new_pk d \<noteq> e" using that a(1) by auto
    with i waiting_kept [OF create_alters, of r e s d u ci] show ?thesis by blast
  qed
  show "(us_pk r \<noteq> VNone \<and> waiting r e (snd (approve_execution d u b reason s))) \<or> b = e \<and> second_person r d u e s"
    using i approve_waiting by blast
  show "us_pk r \<noteq> VNone \<and> waiting r e (snd (reject_execution d u b reason s))" using i reject_waiting by blast
  show "us_pk r \<noteq> VNone \<and> waiting r e (snd (cancel_row env u b s))"
  proof (cases "b = e")
    case True
    from cancel_cases [OF a(1), of env u] waiting_put(1) [OF a(1,4,5)] i True show ?thesis by (auto simp: WAITING_def)
  qed (use i waiting_kept [OF cancel_alters] in blast)
  show "us_pk r \<noteq> VNone \<and> waiting r e (snd (expire_row env queued_at b s))"
  proof (cases "b = e")
    case True
    from expire_cases [OF a(1), of env queued_at] a(3) i True show ?thesis by (auto simp: WAITING_def)
  qed (use i waiting_kept [OF expire_alters] in blast)
  show "us_pk r \<noteq> VNone \<and> waiting r e (s\<lparr>sv_world := rr_world (run_execution dd rq b bpk (sv_world s))\<rparr>)"
    using i waiting_run(1) [of r e s dd rq b bpk] by (simp add: waiting_def)
  show "us_pk r \<noteq> VNone \<and> waiting r e (edit_procedure p s)" using i by (simp add: waiting_def edit_procedure_def)
qed

text \<open>
  C1: Without a second person nothing protected happens. After the creation of a protected
  execution, whatever the service does next, as long as no approval of it succeeds that is
  given by an approver with the permission and the object scopes who is not the requester, or
  who is a superuser and the procedure is not the worker restart, no backend is ever called
  for it and it is never queued: it is pending, approved without dispatch, rejected or
  cancelled.
\<close>

theorem no_protected_call_without_second_person:
  assumes "create_execution d u ci s = (Inr e, s0)" "ci_validated ci = Inr cd"
    "proc_name (cd_procedure cd) \<in> set PROTECTED_APPROVAL_PROCEDURE_NAMES" "us_pk u \<noteq> VNone"
    and "history s0 h calls s'"
    and "\<not> (\<exists>d' u' body t. (ApproveOp d' u' e body, t) \<in> set h \<and> second_person u d' u' e t)"
  shows "calls_of e calls = [] \<and> (\<exists>a. execs (sv_world s') e = Some a \<and> status (row (store a)) \<in> {PENDING_APPROVAL, APPROVED, REJECTED, CANCELLED})"
proof -
  have w0: "waiting u e s0"
    using assms(1)
  proof (cases rule: create_cases)
    case (requested am rq a)
    have "request_protected d u (am_target am) rq (new_aggregate d u am) = Inr a"
      by (rule persistE [OF requested(2)]) (simp only: requested(3) if_True)
    from request_protected_effect [OF this] requested(4,5) show ?thesis by (auto simp: waiting_def WAITING_def)
  next
    case (queued am rq a err)
    from admit_data [OF queued(1)] assms(2,3) queued(3) show ?thesis by simp
  qed simp
  have "calls_of e calls = [] \<and> waiting u e s'"
    using assms(5,6)
  proof (induction rule: history.induct)
    case nothing
    show ?case using w0 by (simp add: calls_of_def)
  next
    case (one_more h calls s op s' made)
    then have i: "waiting u e s" "calls_of e calls = []" by auto
    have "waiting u e s'"
      using wa.stepped [of u e s op] i(1) assms(4) one_more.hyps(2,3) one_more.prems by auto
    moreover have "calls_of e made = []"
    proof (cases "made = []")
      case False
      from one_more.hyps(3) this obtain dd rq b bpk where m: "made = map (Pair b) (rr_calls (run_execution dd rq b bpk (sv_world s)))"
        by (rule step_calls)
      then show ?thesis using waiting_run(2) [OF i(1), of dd rq bpk] by (cases "b = e") (auto simp: calls_of_def filter_empty_conv)
    qed (simp add: calls_of_def)
    ultimately show ?case using i(2) by (simp add: calls_of_def)
  qed
  then show ?thesis by (auto simp: waiting_def WAITING_def)
qed


section \<open>Jobs\<close>

text \<open>
  A job runs the execution it was enqueued for, on the backend it was enqueued with. This
  holds whether NetBox stores the job data it is given or drops it, and whether the worker
  passes the key again or not.
\<close>

theorem job_runs_its_execution:
  assumes "execution_job_enqueue q base_enqueue kwargs = Inr job" "dget kwargs ''execution_pk'' = VInt e" "dget kwargs ''data'' = VNone"
    and "\<And>kw j. base_enqueue kw = Inr j \<Longrightarrow> job_data j \<in> {dget kw ''data'', VNone, VDict []}"
    and "dget run_kwargs ''execution_pk'' \<in> {VNone, VInt e}" "dget run_kwargs ''data'' = VNone"
  shows "job_identifiers rt run_kwargs job = Inr (e, dget kwargs ''backend_pk'')"
proof -
  let ?b = "dget kwargs ''backend_pk''"
  from assms(1) obtain kw j data where kw: "execution_job_kwargs q kwargs = Inr kw" "base_enqueue kw = Inr j"
    "py_dict (py_or (job_data j) (VDict [])) = Inr data"
    and job: "job = j\<lparr>job_data := VDict (repair_value ''execution_pk'' (VInt e) (repair_value ''backend_pk'' ?b data))\<rparr>"
    using assms(2) by (auto simp: execution_job_enqueue_def rbind_Inr_iff)
  have "dget (dict_setdefault k v d) ''data'' = dget d ''data''" if "k \<noteq> ''data''" for k v d
    using that by (simp add: dict_setdefault_def dget_def)
  then have "dget kw ''data'' = VDict (set_if_given ''execution_pk'' (VInt e) (set_if_given ''backend_pk'' ?b []))"
    using kw(1) assms(2,3) by (auto simp: execution_job_kwargs_def Let_def py_or_def py_dict_def rbind_Inr_iff dget_def)
  with assms(4) [OF kw(2)] kw(3) have "data \<in> {[], set_if_given ''execution_pk'' (VInt e) (set_if_given ''backend_pk'' ?b [])}"
    by (auto simp: py_or_def py_dict_def set_if_given_def split: if_splits)
  then have d: "dget (repair_value ''execution_pk'' (VInt e) (repair_value ''backend_pk'' ?b data)) ''execution_pk'' = VInt e"
    "dget (repair_value ''execution_pk'' (VInt e) (repair_value ''backend_pk'' ?b data)) ''backend_pk'' = ?b"
    by (auto simp: set_if_given_def repair_value_def dget_def)
  let ?d = "repair_value ''execution_pk'' (VInt e) (repair_value ''backend_pk'' ?b data)"
  have jd: "job_dict job = Inr ?d" using d(1) by (cases ?d) (simp_all add: job job_dict_def py_or_def dget_def)
  have raw: "py_or (dget run_kwargs ''execution_pk'') VNone \<in> {VNone, VInt e}" using assms(5) by (auto simp: py_or_def)
  have "get_execution rt (py_or (dget run_kwargs ''execution_pk'') VNone) job = Inr e"
    using raw jd d(1) by (auto simp: get_execution_def py_int_def)
  moreover have "dget [] k = VNone" "truthy VNone = False" "py_or VNone x = x" for k x by (simp_all add: dget_def py_or_def)
  ultimately show ?thesis using jd d(2) assms(6) by (simp add: job_identifiers_def)
qed


section \<open>Witnesses\<close>

definition any_job :: job_row where
  "any_job = \<lparr>job_data = VDict [(''execution_pk'', VInt 5)], job_object_id = VNone\<rparr>"

definition queued_service :: service where
  "queued_service = \<lparr>sv_world = queued_world, sv_requests = [(5, uptime_request)], sv_jobs = []\<rparr>"

theorem one_backend_call_per_execution_witness:
  "\<exists>calls s. history queued_service [(RunOp down_dispatch [] any_job, queued_service)] calls s \<and> calls \<noteq> [] \<and> length (calls_of 5 calls) \<le> 1"
proof -
  have i: "job_identifiers rt [] any_job = Inr (5, VNone)" for rt
    by (simp add: job_identifiers_def get_execution_def job_dict_def any_job_def py_or_def dget_def py_int_def)
  obtain n where n: "rr_calls (run_execution down_dispatch uptime_request 5 VNone queued_world) = [(down_backend, None, n)]"
    using down_run_calls by blast
  have "py_or VNone (rq_backend_id uptime_request) = VNone" by (simp add: uptime_request_def py_or_def)
  with i n have "snd (service_step (RunOp down_dispatch [] any_job) queued_service) = [(5, down_backend, None, n)]"
    by (simp add: execution_job_run_def queued_service_def Let_def)
  then obtain s where s: "service_step (RunOp down_dispatch [] any_job) queued_service = (s, [(5, down_backend, None, n)])" by (metis prod.collapse)
  have h: "history queued_service [(RunOp down_dispatch [] any_job, queued_service)] [(5, down_backend, None, n)] s"
    using history.one_more [OF history.nothing _ s] by simp
  moreover have "holders_spent (sv_world queued_service)" by (simp add: holders_spent_def queued_service_def queued_world_def)
  ultimately show ?thesis using one_backend_call_per_execution [OF h, of 5] by auto
qed

theorem no_protected_call_without_second_person_witness:
  "\<exists>calls s. history (after_creation rotate_procedure []) [(RunOp down_dispatch [(''execution_pk'', VInt 7)] any_job, after_creation rotate_procedure [])] calls s
     \<and> calls_of 7 calls = []"
proof -
  let ?t = "after_creation rotate_procedure []" and ?op = "RunOp down_dispatch [(''execution_pk'', VInt 7)] any_job"
  obtain s made where s: "service_step ?op ?t = (s, made)" by (meson prod.exhaust)
  have h: "history ?t [(?op, ?t)] made s" using history.one_more [OF history.nothing _ s] by simp
  have "us_pk operator \<noteq> VNone" by simp
  from no_protected_call_without_second_person [OF rotate_after _ _ this h, of "device_data rotate_procedure []"] sample_names(5) h
  show ?thesis by auto
qed

theorem job_runs_its_execution_witness:
  "\<exists>job. execution_job_enqueue ''default'' (\<lambda>kw. Inr \<lparr>job_data = dget kw ''data'', job_object_id = VNone\<rparr>)
       [(''execution_pk'', VInt 7), (''backend_pk'', VInt 4)] = Inr job
     \<and> job_identifiers plain_rt [] job = Inr (7, VInt 4)"
proof -
  let ?kw = "[(''execution_pk'', VInt 7), (''backend_pk'', VInt 4)]" and ?base = "\<lambda>kw. Inr \<lparr>job_data = dget kw ''data'', job_object_id = VNone\<rparr>"
  obtain job where j: "execution_job_enqueue ''default'' ?base ?kw = Inr job"
    by (simp add: execution_job_enqueue_def execution_job_kwargs_def Let_def dget_def dict_setdefault_def py_or_def py_dict_def
        set_if_given_def RPC_JOB_TIMEOUT_def)
  from job_runs_its_execution [OF j, of 7 "[]" plain_rt] j show ?thesis by (auto simp: dget_def)
qed

end
