(* ===== verification/BackendCall.thy ===== *)
theory BackendCall
  imports Service
begin

text \<open>
  The HTTP call of \<open>jobs.py\<close>: which transport a procedure uses, the request it sends, the
  deadline and size limits of protected responses, and the closed envelopes that replace
  every answer of a protected backend that is late, oversized, malformed or not about this
  request.

  The network, the clock and the JSON parser are parameters. Times are integers in one unit.
\<close>

section \<open>Transports\<close>

datatype transport_kind =
    GENERIC | GITEA_UPGRADE | GITEA_RUNNER | GITEA_ORG_CI_RUNNER | GITEA_PROTECTED_PUBLICATION_PAIR
  | GITEA_DOCKER_RUNNER | DNS_STAGING_DEPLOY | AKVORADO_INSTALL | NETBOX_RQ_WORKER

definition PROCEDURE_TRANSPORT_KINDS :: "(string \<times> transport_kind) list" where
  "PROCEDURE_TRANSPORT_KINDS =
     [(''service.gitea.production.upgrade_1_27_1'', GITEA_UPGRADE),
      (''service.gitea.runner.register'', GITEA_RUNNER),
      (''service.gitea.actions_runner.provision_org_ci_runner'', GITEA_ORG_CI_RUNNER),
      (''service.gitea.actions_runner.protected_pair.prove'', GITEA_PROTECTED_PUBLICATION_PAIR),
      (''service.gitea.actions_runner.protected_pair.provision'', GITEA_PROTECTED_PUBLICATION_PAIR),
      (''service.gitea.actions_runner.diagnose_user_ci_runner'', GITEA_DOCKER_RUNNER),
      (''service.gitea.actions_runner.recover_user_ci_runner'', GITEA_DOCKER_RUNNER),
      (''service.gitea.actions_runner.diagnose_org_ci_runner'', GITEA_DOCKER_RUNNER),
      (''service.gitea.actions_runner.recover_org_ci_runner'', GITEA_DOCKER_RUNNER),
      (''service.netbox.staging.deploy_dns_pair'', DNS_STAGING_DEPLOY),
      (AKVORADO_BOOTSTRAP_DEBIAN13_INSTALL, AKVORADO_INSTALL)]
     @ map (\<lambda>n. (n, NETBOX_RQ_WORKER)) NETBOX_PRODUCTION_RQ_WORKER_PROCEDURE_NAMES"

definition SECRET_PROTECTED_TRANSPORTS :: "transport_kind list" where
  "SECRET_PROTECTED_TRANSPORTS = [GITEA_UPGRADE, GITEA_RUNNER, GITEA_ORG_CI_RUNNER, GITEA_DOCKER_RUNNER,
     GITEA_PROTECTED_PUBLICATION_PAIR, DNS_STAGING_DEPLOY]"

definition STREAMED_TRANSPORTS :: "transport_kind list" where
  "STREAMED_TRANSPORTS = [GITEA_RUNNER, GITEA_ORG_CI_RUNNER, GITEA_DOCKER_RUNNER, DNS_STAGING_DEPLOY, AKVORADO_INSTALL,
     GITEA_PROTECTED_PUBLICATION_PAIR, NETBOX_RQ_WORKER]"

definition CONNECT_FAILURE_STAGES :: "(transport_kind \<times> string) list" where
  "CONNECT_FAILURE_STAGES = [(GITEA_UPGRADE, ''execute''), (GITEA_RUNNER, ''generate_token''),
     (GITEA_ORG_CI_RUNNER, ''preconditions''), (DNS_STAGING_DEPLOY, ''execute'')]"

text \<open>The policy of one call; the properties of the class read the columns of the execution.\<close>

record transport_policy =
  tp_kind :: transport_kind
  tp_timeout_seconds :: int
  tp_params :: pydict
  tp_normalized :: pydict
  tp_name :: string
  tp_target_display :: string
  tp_result_schema :: pyval

definition secret_protected :: "transport_policy \<Rightarrow> bool" where
  "secret_protected policy \<longleftrightarrow> tp_kind policy \<in> set SECRET_PROTECTED_TRANSPORTS"

definition streamed :: "transport_policy \<Rightarrow> bool" where
  "streamed policy \<longleftrightarrow> tp_kind policy \<in> set STREAMED_TRANSPORTS"

definition policy_operation :: "transport_policy \<Rightarrow> string" where
  "policy_operation policy = str_or (dget (tp_params policy) ''operation'') ''register''"

definition runner_scope :: "transport_policy \<Rightarrow> string" where
  "runner_scope policy = str_or (dget (tp_params policy) ''scope'') []"

definition org_runner_scope :: "transport_policy \<Rightarrow> string" where
  "org_runner_scope policy = str_or (dget (tp_normalized policy) ''scope'') []"

definition org_runner_lane :: "transport_policy \<Rightarrow> string" where
  "org_runner_lane policy = str_or (dget (tp_params policy) ''lane'') []"

definition dns_commit_sha :: "transport_policy \<Rightarrow> string" where
  "dns_commit_sha policy = str_or (dget (tp_params policy) ''commit_sha'') []"

definition fence_digest :: "transport_policy \<Rightarrow> pyval" where
  "fence_digest policy = dget (tp_normalized policy) ''fence_expected_sha256''"

definition policy_fence_execution_id :: "transport_policy \<Rightarrow> pyval" where
  "policy_fence_execution_id policy = dget (tp_normalized policy) ''fence_execution_id''"

definition policy_fence_generation :: "transport_policy \<Rightarrow> pyval" where
  "policy_fence_generation policy = dget (tp_normalized policy) ''fence_generation''"

definition mapping_or_empty :: "pyval \<Rightarrow> pydict" where
  "mapping_or_empty v = (case v of VDict d \<Rightarrow> d | _ \<Rightarrow> [])"

definition resolve_backend_transport_policy :: "exec_request \<Rightarrow> aggregate \<Rightarrow> transport_policy" where
  "resolve_backend_transport_policy rq a =
     (let p = rq_procedure rq; x = obj (store a) in
      \<lparr>tp_kind = (case map_of PROCEDURE_TRANSPORT_KINDS (proc_name p) of None \<Rightarrow> GENERIC | Some k \<Rightarrow> k),
       tp_timeout_seconds = resolve_backend_timeout_seconds p (params x),
       tp_params = mapping_or_empty (params x), tp_normalized = normalized_params x,
       tp_name = proc_name p, tp_target_display = rq_target_display rq, tp_result_schema = proc_result_schema p\<rparr>)"


section \<open>Limits and request\<close>

definition ROUTE_BUDGETS :: "(string \<times> int) list" where
  "ROUTE_BUDGETS =
     [(''service.gitea.actions_runner.protected_pair.prove'', 300), (''service.gitea.actions_runner.protected_pair.provision'', 1740),
      (NETBOX_PRODUCTION_STATUS_RQ_WORKER, 55), (NETBOX_PRODUCTION_RESTART_RQ_WORKER, 160)]"

text \<open>Every procedure of the final two kinds has a budget in its contract.\<close>

definition protected_response_limits :: "transport_policy \<Rightarrow> (int \<times> nat) option" where
  "protected_response_limits policy = (case tp_kind policy of
       GITEA_ORG_CI_RUNNER \<Rightarrow> Some (1740, 8192)
     | GITEA_RUNNER \<Rightarrow> Some (300, 4096)
     | DNS_STAGING_DEPLOY \<Rightarrow> Some (2640, 4096)
     | AKVORADO_INSTALL \<Rightarrow> Some (max (tp_timeout_seconds policy + 10) 30, 65536)
     | GITEA_DOCKER_RUNNER \<Rightarrow> Some (max (tp_timeout_seconds policy + 10) 30, 65536)
     | GITEA_PROTECTED_PUBLICATION_PAIR \<Rightarrow> map_option (\<lambda>b. (b, 32768)) (map_of ROUTE_BUDGETS (tp_name policy))
     | NETBOX_RQ_WORKER \<Rightarrow> map_option (\<lambda>b. (b, 16384)) (map_of ROUTE_BUDGETS (tp_name policy))
     | _ \<Rightarrow> None)"

record request_plan =
  rp_url :: string
  rp_headers :: "(string \<times> string) list"
  rp_body :: pydict
  rp_verify :: bool
  rp_allow_redirects :: bool
  rp_stream :: bool
  rp_total_timeout :: "int option"
  rp_connect_timeout :: int
  rp_read_timeout :: int
  rp_response_deadline :: "int option"
  rp_response_max_bytes :: "nat option"

definition build_backend_request_plan ::
  "int \<Rightarrow> backend_target \<Rightarrow> int \<Rightarrow> transport_policy \<Rightarrow> SignedDispatchLease option \<Rightarrow> request_plan" where
  "build_backend_request_plan now target e policy lease =
     (let base = \<lparr>rp_url = rstrip_char CHR ''/'' (bt_url target) @ ''/rpc/executions/'' @ int_str e @ ''/run'',
          rp_headers = bt_headers target,
          rp_body = (case lease of None \<Rightarrow> [] | Some l \<Rightarrow> [(''dispatch_lease'', to_body l)]),
          rp_verify = bt_verify_ssl target,
          rp_allow_redirects = \<not> (secret_protected policy \<or> tp_kind policy = AKVORADO_INSTALL
            \<or> tp_kind policy = GITEA_PROTECTED_PUBLICATION_PAIR \<or> tp_kind policy = NETBOX_RQ_WORKER),
          rp_stream = False, rp_total_timeout = None, rp_connect_timeout = 10,
          rp_read_timeout = backend_read_timeout (tp_timeout_seconds policy),
          rp_response_deadline = None, rp_response_max_bytes = None\<rparr>
      in case protected_response_limits policy of
           None \<Rightarrow> base
         | Some (budget, max_bytes) \<Rightarrow>
             (let connect = min 10 budget in
              base\<lparr>rp_stream := True, rp_total_timeout := Some budget, rp_connect_timeout := connect,
                rp_read_timeout := max 1 (budget - connect), rp_response_deadline := Some (now + budget),
                rp_response_max_bytes := Some max_bytes\<rparr>))"


section \<open>Closed failures\<close>

definition false_result :: "pydict \<Rightarrow> pydict" where
  "false_result res = [(''ok'', VBool False), (''result'', VDict res)]"

definition null_if :: "bool \<Rightarrow> pyval" where
  "null_if indeterminate = (if indeterminate then VNone else VBool False)"

definition gitea_transport_failure_response :: "string \<Rightarrow> pydict" where
  "gitea_transport_failure_response stage =
     (let indeterminate = (stage = ''indeterminate'') in
      false_result [(''ok'', VBool False), (''procedure'', VStr ''service.gitea.production.upgrade_1_27_1''), (''target'', VStr ''Gitea''),
        (''changed'', null_if indeterminate), (''healthy'', null_if indeterminate), (''stage'', VStr stage)])"

definition hex_of_length :: "nat \<Rightarrow> string \<Rightarrow> bool" where
  "hex_of_length n s \<longleftrightarrow> length s = n \<and> list_all is_lower_hex s"

definition dns_staging_transport_failure_response :: "string \<Rightarrow> string \<Rightarrow> pydict" where
  "dns_staging_transport_failure_response commit_sha stage =
     false_result [(''ok'', VBool False), (''procedure'', VStr ''service.netbox.staging.deploy_dns_pair''),
       (''target'', VStr ''nms-front-door''),
       (''commit_sha'', VStr (if hex_of_length 40 commit_sha then commit_sha else replicate 40 CHR ''0'')),
       (''deployed'', null_if (stage = ''indeterminate'')), (''stage'', VStr stage)]"

definition RUNNER_SCOPES :: "string list" where
  "RUNNER_SCOPES = [''netbox-proxbox'', ''nmulticloud-org'', ''nmulticloud-org-root'', ''proxbox-api'',
     ''release-netbox-proxbox-build'', ''release-netbox-proxbox-validation'', ''release-proxbox-api-build'',
     ''release-proxbox-api-validation'']"

definition safe_positive :: "pyval \<Rightarrow> pyval \<Rightarrow> pyval" where
  "safe_positive other v = (case v of VInt i \<Rightarrow> if 0 < i \<and> i \<le> JS_SAFE_INTEGER_MAX then VInt i else other | _ \<Rightarrow> other)"

definition safe_digest :: "pyval \<Rightarrow> pyval" where
  "safe_digest v = (case v of VStr s \<Rightarrow> if hex_of_length 64 s then VStr s else VStr FENCE_UNKNOWN_SHA256 | _ \<Rightarrow> VStr FENCE_UNKNOWN_SHA256)"

definition gitea_runner_transport_failure_response ::
  "string \<Rightarrow> string \<Rightarrow> pyval \<Rightarrow> pyval \<Rightarrow> pyval \<Rightarrow> string \<Rightarrow> pydict" where
  "gitea_runner_transport_failure_response stage0 operation digest execution_id generation scope =
     (let op = (if operation \<in> {''reconcile'', ''register''} then operation else ''register'');
          stage = (if op = ''reconcile'' \<and> stage0 = ''generate_token'' then ''reconcile'' else stage0);
          indeterminate = (stage = ''indeterminate'');
          common = [(''ok'', VBool False), (''procedure'', VStr ''service.gitea.runner.register''),
            (''target'', VStr ''nmultifibra-ci-untrusted-01''), (''operation'', VStr op),
            (''scope'', VStr (if scope \<in> set RUNNER_SCOPES then scope else hd RUNNER_SCOPES)),
            (''fence_execution_id'', safe_positive VNone execution_id), (''fence_generation'', safe_positive (VInt 1) generation)];
          ids = [(''prior_token_id'', VNone), (''prior_active_sha256'', VNone), (''replacement_token_id'', VNone), (''stage'', VStr stage)]
      in false_result (common @
           (if op = ''reconcile'' then
              [(''registered'', VNone), (''reconciled'', VBool False), (''token_invalidated'', VBool False),
               (''token_reset_required'', VBool True), (''token_sha256'', safe_digest digest), (''reset_state'', VStr ''indeterminate'')]
            else
              [(''registered'', null_if indeterminate), (''reconciled'', VNone), (''token_invalidated'', VBool False),
               (''token_reset_required'', VBool indeterminate), (''token_sha256'', VNone),
               (''reset_state'', VStr (if indeterminate then ''indeterminate'' else ''not_started''))]) @ ids))"

text \<open>The one lane and its scope; the columns of the lane are data of the contract.\<close>

definition gitea_org_ci_runner_transport_failure_response ::
  "pydict \<Rightarrow> string \<Rightarrow> string \<Rightarrow> pyval \<Rightarrow> pyval \<Rightarrow> pyval \<Rightarrow> pydict" where
  "gitea_org_ci_runner_transport_failure_response lane_columns stage operation digest execution_id generation =
     (let op = (if operation \<in> {''provision'', ''reconcile''} then operation else ''provision'');
          indeterminate = (stage = ''indeterminate'');
          common = [(''ok'', VBool False), (''procedure'', VStr ''service.gitea.actions_runner.provision_org_ci_runner''),
            (''target'', VStr ''Gitea-Runner''), (''operation'', VStr op), (''scope'', VStr ''nmulticloud-org-root''),
            (''lane'', VStr ''root-python312''), (''fence_execution_id'', safe_positive VNone execution_id),
            (''fence_generation'', safe_positive (VInt 1) generation), (''organization'', VStr ''N-MultiCloud''),
            (''gitea_instance_url'', VStr ''http://10.0.30.96:3000''), (''prior_token_id'', VNone), (''prior_active_sha256'', VNone),
            (''replacement_token_id'', VNone)];
          outcome = (if op = ''reconcile'' then
              [(''provisioned'', VNone), (''registered'', VNone), (''reconciled'', VBool False),
               (''stage'', VStr (if indeterminate then stage else ''reconcile'')), (''token_invalidated'', VBool False),
               (''token_reset_required'', VBool True), (''token_sha256'', safe_digest digest), (''reset_state'', VStr ''indeterminate'')]
            else
              [(''provisioned'', null_if indeterminate), (''registered'', null_if indeterminate), (''reconciled'', VNone),
               (''stage'', VStr stage), (''token_invalidated'', VBool False), (''token_reset_required'', VBool indeterminate),
               (''token_sha256'', VNone), (''reset_state'', VStr (if indeterminate then ''indeterminate'' else ''not_started''))])
      in false_result (foldl (\<lambda>d (k, v). dict_set k v d) common (lane_columns @ outcome)))"

definition AKVORADO_SERVICES :: "string list" where
  "AKVORADO_SERVICES = [''clickhouse'', ''console'', ''inlet'', ''kafka'', ''orchestrator'', ''outlet'', ''redis'']"

definition akvorado_transport_failure_response :: "string \<Rightarrow> pydict" where
  "akvorado_transport_failure_response target =
     false_result [(''ok'', VBool False), (''procedure'', VStr AKVORADO_BOOTSTRAP_DEBIAN13_INSTALL), (''target'', VStr (take 255 target)),
       (''installed'', VNone), (''changed'', VNone), (''config_created'', VNone), (''docker_package_version'', VStr []),
       (''compose_package_version'', VStr []), (''docker_version'', VStr []), (''compose_version'', VStr []),
       (''compose_path'', VStr ''/opt/nmulticloud/deploy/compose/akvorado/docker-compose.yml''),
       (''config_path'', VStr ''/opt/nmulticloud/deploy/compose/akvorado/akvorado.yaml''), (''stack_healthy'', VBool False),
       (''services_expected'', strings AKVORADO_SERVICES), (''services_running'', VList []), (''services_healthy'', VList []),
       (''console_ready'', VBool False), (''ingress_ports_ready'', VBool False), (''ready'', VBool False),
       (''stage'', VStr ''outcome_unknown''), (''warnings'', strings [''Run Akvorado bootstrap preflight before retrying.'']),
       (''error'', VStr ''Backend transport outcome is indeterminate.'')]"

definition netbox_rq_worker_transport_failure_response :: "string \<Rightarrow> pydict" where
  "netbox_rq_worker_transport_failure_response name =
     false_result [(''ok'', VBool False), (''procedure'', VStr name), (''target'', VStr ''nmc-prod-207''), (''project'', VStr ''nmc-netbox''),
       (''service'', VStr ''netbox-rq''), (''status'', VStr ''indeterminate''),
       (''phase'', VStr (if name = NETBOX_PRODUCTION_RESTART_RQ_WORKER then ''restart'' else ''status'')),
       (''retry_requires_status_check'', VBool True), (''state'', VStr []), (''health'', VStr []), (''container'', VStr []),
       (''exit_code'', VInt (- 1)),
       (''output'', VStr (''The backend response is indeterminate. Run '' @ NETBOX_PRODUCTION_STATUS_RQ_WORKER @ '' before retry.''))]
     @ [(''error_code'', VStr ''RPC_BACKEND_OUTCOME_UNKNOWN''),
        (''error_message'', VStr ''The backend response is indeterminate; reconcile worker status before retry.'')]"

definition protected_publication_pair_transport_failure_response :: "string \<Rightarrow> pydict" where
  "protected_publication_pair_transport_failure_response name =
     [(''ok'', VBool False), (''result'', VNone), (''events'', VList []), (''error_code'', VStr ''RPC_BACKEND_INDETERMINATE''),
      (''error_message'', VStr (name @ '' outcome is indeterminate; prove current state before retrying.''))]"

text \<open>The two contracts of the Docker runners; only the user's one has probes and reviewed resolvers.\<close>

record docker_contract =
  dc_diagnose :: string
  dc_recover :: string
  dc_lane :: string
  dc_identity :: string
  dc_probes :: "string list option"

definition gitea_docker_runner_contract :: "string \<Rightarrow> docker_contract" where
  "gitea_docker_runner_contract name =
     (if endswith name ''_org_ci_runner'' then
        \<lparr>dc_diagnose = ''service.gitea.actions_runner.diagnose_org_ci_runner'',
         dc_recover = ''service.gitea.actions_runner.recover_org_ci_runner'', dc_lane = ''general-ubuntu'',
         dc_identity = ''ci-ubuntu-nmulticloud-org-241'', dc_probes = None\<rparr>
      else
        \<lparr>dc_diagnose = ''service.gitea.actions_runner.diagnose_user_ci_runner'',
         dc_recover = ''service.gitea.actions_runner.recover_user_ci_runner'', dc_lane = ''user-ubuntu'',
         dc_identity = ''ci-ubuntu-emersonfelipesp-241'', dc_probes = Some [''git.nmulti.cloud'', ''github.com'']\<rparr>)"

definition gitea_docker_runner_snapshot :: "docker_contract \<Rightarrow> pydict" where
  "gitea_docker_runner_snapshot c =
     [(''docker_active'', VBool False), (''runner_container_name'', VStr (dc_identity c)), (''runner_container_id'', VNone),
      (''runner_state'', VStr ''unknown''), (''active_job'', VBool False), (''default_address_pools'', VList []),
      (''networks'', VList []), (''address_pool_exhausted'', VBool False), (''last_log_activity'', VNone), (''truncated'', VBool True)]
     @ (case dc_probes c of
          None \<Rightarrow> []
        | Some hosts \<Rightarrow> [(''daemon_dns'', VList []), (''probes'', VList (map (\<lambda>h. VDict
            [(''host'', VStr h), (''resolved'', VBool False), (''addresses'', VList []), (''status'', VStr ''error'')]) hosts))])"

definition gitea_docker_runner_transport_failure_response :: "string \<Rightarrow> pydict" where
  "gitea_docker_runner_transport_failure_response name =
     (let c = gitea_docker_runner_contract name; snapshot = gitea_docker_runner_snapshot c;
          identity = (\<lambda>procedure stage. [(''ok'', VBool False), (''procedure'', VStr procedure), (''target'', VStr ''Gitea-Runner''),
            (''target_object_id'', VInt 604), (''lane'', VStr (dc_lane c)), (''stage'', VStr stage)])
      in false_result
           (if name = dc_diagnose c then snapshot @ identity (dc_diagnose c) ''diagnose''
            else identity (dc_recover c) ''indeterminate''
              @ [(''before'', VDict snapshot), (''after'', VNone), (''removed_network_ids'', VList []), (''refused_active_job'', VBool False)]
              @ (if dc_probes c = None then [] else [(''resolver_reconciled'', VBool False), (''restart_performed'', VBool False)])))"

text \<open>
  What ends a call early: the execution error, the alarm of the wall clock, a missing table
  entry, the failure the code regards as impossible, or what the libraries raise.
\<close>

datatype call_error =
    CallExecutionError string string
  | WallClockError
  | CallKeyError transport_kind
  | CallRuntimeError string
  | CallRaised pyexc

definition closed_backend_transport_failure :: "pydict \<Rightarrow> transport_policy \<Rightarrow> string \<Rightarrow> call_error + pydict" where
  "closed_backend_transport_failure lane_columns policy stage = (case tp_kind policy of
       AKVORADO_INSTALL \<Rightarrow> Inr (akvorado_transport_failure_response (tp_target_display policy))
     | GITEA_ORG_CI_RUNNER \<Rightarrow> Inr (gitea_org_ci_runner_transport_failure_response lane_columns stage (policy_operation policy)
         (fence_digest policy) (policy_fence_execution_id policy) (policy_fence_generation policy))
     | GITEA_RUNNER \<Rightarrow> Inr (gitea_runner_transport_failure_response stage (policy_operation policy) (fence_digest policy)
         (policy_fence_execution_id policy) (policy_fence_generation policy) (runner_scope policy))
     | DNS_STAGING_DEPLOY \<Rightarrow> Inr (dns_staging_transport_failure_response (dns_commit_sha policy) stage)
     | GITEA_UPGRADE \<Rightarrow> Inr (gitea_transport_failure_response stage)
     | GITEA_DOCKER_RUNNER \<Rightarrow> Inr (gitea_docker_runner_transport_failure_response (tp_name policy))
     | GITEA_PROTECTED_PUBLICATION_PAIR \<Rightarrow> Inr (protected_publication_pair_transport_failure_response (tp_name policy))
     | NETBOX_RQ_WORKER \<Rightarrow> Inr (netbox_rq_worker_transport_failure_response (tp_name policy))
     | GENERIC \<Rightarrow> Inl (CallRuntimeError ''generic backend transport has no closed failure envelope''))"


section \<open>The request\<close>

text \<open>A \<open>RequestException\<close>: whether the wall clock caused it, whether it is a connect timeout, its text.\<close>

datatype request_failure = RequestFailure (by_wall_clock: bool) (connect_timeout: bool) (failure_text: string)

text \<open>What one read of the body finds; the last entry of a response is the exhausted iterator.\<close>

datatype chunk = Bytes string | NotBytes | ReadFails request_failure

record read_event =
  re_now :: int
  re_socket :: bool

record http_response =
  hr_status :: int
  hr_encoding :: pyval
  hr_length :: pyval
  hr_chunks :: "(read_event \<times> chunk) list"
  hr_end :: read_event
  hr_json :: "request_failure option + pyval"

datatype request_outcome = Responded http_response | Failed request_failure

definition classify_backend_request_failure ::
  "pydict \<Rightarrow> transport_policy \<Rightarrow> request_failure \<Rightarrow> call_error + pydict" where
  "classify_backend_request_failure lanes policy exc =
     (if by_wall_clock exc then closed_backend_transport_failure lanes policy ''indeterminate''
      else if tp_kind policy \<in> {AKVORADO_INSTALL, GITEA_DOCKER_RUNNER, NETBOX_RQ_WORKER}
      then closed_backend_transport_failure lanes policy ''indeterminate''
      else if secret_protected policy then
        (if connect_timeout exc then (case map_of CONNECT_FAILURE_STAGES (tp_kind policy) of
             None \<Rightarrow> Inl (CallKeyError (tp_kind policy))
           | Some stage \<Rightarrow> closed_backend_transport_failure lanes policy stage)
         else closed_backend_transport_failure lanes policy ''indeterminate'')
      else Inl (CallExecutionError (''nms-backend is unreachable: '' @ failure_text exc) ''RPC_BACKEND_UNREACHABLE''))"

text \<open>The result is a response to go on with, or the value the call ends with.\<close>

definition perform_backend_request ::
  "pydict \<Rightarrow> transport_policy \<Rightarrow> request_outcome \<Rightarrow> call_error + (http_response + pydict)" where
  "perform_backend_request lanes policy outcome = (case outcome of
       Responded response \<Rightarrow> Inr (Inl response)
     | Failed exc \<Rightarrow> if by_wall_clock exc then Inl WallClockError
         else map_sum id Inr (classify_backend_request_failure lanes policy exc))"

definition redirected :: "http_response \<Rightarrow> bool" where
  "redirected r \<longleftrightarrow> 300 \<le> hr_status r \<and> hr_status r < 400"

definition successful :: "http_response \<Rightarrow> bool" where
  "successful r \<longleftrightarrow> 200 \<le> hr_status r \<and> hr_status r < 300"

definition classify_backend_http_response ::
  "pydict \<Rightarrow> transport_policy \<Rightarrow> http_response \<Rightarrow> call_error + pydict option" where
  "classify_backend_http_response lanes policy r =
     (let failure = map_sum id Some (closed_backend_transport_failure lanes policy ''indeterminate'') in
      if tp_kind policy = NETBOX_RQ_WORKER \<and> \<not> successful r then failure
      else if hr_status r = 401 \<and> \<not> secret_protected policy
      then Inl (CallExecutionError ''nms-backend returned 401 Unauthorized.'' ''RPC_BACKEND_UNAUTHORIZED'')
      else if (secret_protected policy \<or> tp_kind policy = GITEA_DOCKER_RUNNER) \<and> redirected r then failure
      else if tp_kind policy = AKVORADO_INSTALL \<and> redirected r then failure
      else Inr None)"


section \<open>Reading the body\<close>

datatype read_error = ProtectedResponseError string | ReadFailure request_failure | InvalidJson

definition set_protected_response_socket_deadline :: "int \<Rightarrow> read_event \<Rightarrow> read_error + unit" where
  "set_protected_response_socket_deadline deadline e =
     rbind (guard (re_now e < deadline) (ProtectedResponseError ''protected backend response exceeded its total deadline'')) (\<lambda>_.
       guard (re_socket e) (ProtectedResponseError ''protected backend response socket is unavailable''))"

definition byte_limit :: read_error where
  "byte_limit = ProtectedResponseError ''protected backend response exceeds the byte limit''"

text \<open>The one further read after a full body of unknown length.\<close>

definition check_no_extra :: "int \<Rightarrow> (read_event \<times> chunk) list \<Rightarrow> read_event \<Rightarrow> read_error + unit" where
  "check_no_extra deadline rest final = (case rest of
       [] \<Rightarrow> set_protected_response_socket_deadline deadline final
     | (e, c) # _ \<Rightarrow> rbind (set_protected_response_socket_deadline deadline e) (\<lambda>_. case c of
         ReadFails exc \<Rightarrow> Inl (ReadFailure exc)
       | NotBytes \<Rightarrow> Inl byte_limit
       | Bytes b \<Rightarrow> guard (b = []) byte_limit))"

fun read_body :: "int \<Rightarrow> nat \<Rightarrow> nat option \<Rightarrow> read_event \<Rightarrow> (read_event \<times> chunk) list \<Rightarrow> string \<Rightarrow> read_error + string" where
  "read_body deadline max_bytes expected final [] body =
     (if (case expected of None \<Rightarrow> True | Some n \<Rightarrow> length body < n)
      then rbind (set_protected_response_socket_deadline deadline final) (\<lambda>_. Inr body) else Inr body)"
| "read_body deadline max_bytes expected final ((e, c) # rest) body =
     (if (case expected of None \<Rightarrow> True | Some n \<Rightarrow> length body < n) then
        rbind (set_protected_response_socket_deadline deadline e) (\<lambda>_. case c of
          ReadFails exc \<Rightarrow> Inl (ReadFailure exc)
        | NotBytes \<Rightarrow> Inl (ProtectedResponseError ''protected backend response yielded a non-byte chunk'')
        | Bytes b \<Rightarrow>
            if b = [] then read_body deadline max_bytes expected final rest body
            else if length body + length b > max_bytes then Inl byte_limit
            else if expected = None \<and> length (body @ b) = max_bytes
            then rbind (check_no_extra deadline rest final) (\<lambda>_. Inr (body @ b))
            else read_body deadline max_bytes expected final rest (body @ b))
      else Inr body)"

definition declared_length :: "nat \<Rightarrow> pyval \<Rightarrow> read_error + nat option" where
  "declared_length max_bytes header =
     (if header = VNone then Inr None
      else (let raw = py_str header in
        if raw = [] \<or> \<not> list_all is_digit raw
        then Inl (ProtectedResponseError ''protected backend response Content-Length is invalid'')
        else if str_nat raw > max_bytes then Inl byte_limit else Inr (Some (str_nat raw))))"

definition read_bounded_body :: "int \<Rightarrow> nat \<Rightarrow> http_response \<Rightarrow> read_error + string" where
  "read_bounded_body deadline max_bytes r =
     rbind (guard (lower (str_or (hr_encoding r) []) \<in> {[], ''identity''})
       (ProtectedResponseError ''protected backend response content encoding is forbidden'')) (\<lambda>_.
     rbind (declared_length max_bytes (hr_length r)) (\<lambda>expected.
     rbind (read_body deadline max_bytes expected (hr_end r) (hr_chunks r) []) (\<lambda>body.
     rbind (guard (case expected of None \<Rightarrow> True | Some n \<Rightarrow> length body = n)
       (ProtectedResponseError ''protected backend response ended before Content-Length'')) (\<lambda>_.
     rbind (guard (body \<noteq> []) (ProtectedResponseError ''protected backend response body is empty'')) (\<lambda>_.
       Inr body)))))"

definition read_bounded_json_response :: "(string \<Rightarrow> pyval option) \<Rightarrow> int \<Rightarrow> nat \<Rightarrow> http_response \<Rightarrow> read_error + pyval" where
  "read_bounded_json_response loads deadline max_bytes r =
     rbind (read_bounded_body deadline max_bytes r) (\<lambda>body. case loads body of None \<Rightarrow> Inl InvalidJson | Some v \<Rightarrow> Inr v)"

definition read_backend_response ::
  "(string \<Rightarrow> pyval option) \<Rightarrow> pydict \<Rightarrow> request_plan \<Rightarrow> transport_policy \<Rightarrow> http_response \<Rightarrow> call_error + (pyval + pydict)" where
  "read_backend_response loads lanes plan policy r =
     (let data = (if streamed policy then
            (case (rp_response_deadline plan, rp_response_max_bytes plan) of
               (Some deadline, Some max_bytes) \<Rightarrow> read_bounded_json_response loads deadline max_bytes r
             | _ \<Rightarrow> Inl (ProtectedResponseError ''protected backend response deadline is unavailable''))
          else (case hr_json r of Inr v \<Rightarrow> Inr v | Inl None \<Rightarrow> Inl InvalidJson | Inl (Some exc) \<Rightarrow> Inl (ReadFailure exc)))
      in case data of
           Inr v \<Rightarrow> Inr (Inl v)
         | Inl err \<Rightarrow>
             if (case err of ReadFailure exc \<Rightarrow> by_wall_clock exc | _ \<Rightarrow> False) then Inl WallClockError
             else if secret_protected policy \<or> tp_kind policy \<in> {GITEA_DOCKER_RUNNER, AKVORADO_INSTALL, NETBOX_RQ_WORKER}
             then map_sum id Inr (closed_backend_transport_failure lanes policy ''indeterminate'')
             else Inl (CallExecutionError (''nms-backend returned non-JSON response: HTTP '' @ int_str (hr_status r)) ''RPC_BACKEND_BAD_RESPONSE''))"


section \<open>Normalizing the answer\<close>

definition ENVELOPE_KEYS :: "string list" where
  "ENVELOPE_KEYS = [''ok'', ''result'', ''events'', ''error_code'', ''error_message'']"

definition has_envelope_keys :: "pydict \<Rightarrow> bool" where
  "has_envelope_keys d \<longleftrightarrow> set (map fst d) = set ENVELOPE_KEYS"

text \<open>The checks that all output-free envelopes share; the result is the nested one.\<close>

definition closed_result :: "pyval \<Rightarrow> pydict option" where
  "closed_result data = (case data of
       VDict d \<Rightarrow> (case dget d ''result'' of
         VDict res \<Rightarrow>
           if has_envelope_keys d \<and> is_bool (dget d ''ok'') \<and> dget res ''ok'' = dget d ''ok'' \<and> py_eq (dget d ''events'') (VList [])
              \<and> is_str (dget d ''error_code'') \<and> is_str (dget d ''error_message'')
              \<and> \<not> (truthy (dget d ''ok'') \<and> (truthy (dget d ''error_code'') \<or> truthy (dget d ''error_message'')))
           then Some res else None
       | _ \<Rightarrow> None)
     | _ \<Rightarrow> None)"

definition reduced :: "pydict \<Rightarrow> pydict" where
  "reduced res = [(''ok'', dget res ''ok''), (''result'', VDict res)]"

text \<open>The schemas of the contracts by procedure name, and the validator.\<close>

record call_contracts =
  cc_schemas :: "string \<Rightarrow> pyval"
  cc_lane_columns :: pydict
  cc_validate :: json_validator

definition validates :: "call_contracts \<Rightarrow> pydict \<Rightarrow> pyval \<Rightarrow> bool" where
  "validates cc res schema \<longleftrightarrow> cc_validate cc (VDict res) schema = None"

definition normalize_gitea_closed_response :: "call_contracts \<Rightarrow> pyval \<Rightarrow> pydict option" where
  "normalize_gitea_closed_response cc data = (case closed_result data of
       Some res \<Rightarrow> if validates cc res (cc_schemas cc ''service.gitea.production.upgrade_1_27_1'') then Some (reduced res) else None
     | None \<Rightarrow> None)"

definition normalize_dns_staging_closed_response :: "call_contracts \<Rightarrow> string \<Rightarrow> pyval \<Rightarrow> pydict option" where
  "normalize_dns_staging_closed_response cc commit_sha data = (case closed_result data of
       Some res \<Rightarrow> if py_eq (dget res ''commit_sha'') (VStr commit_sha)
           \<and> validates cc res (cc_schemas cc ''service.netbox.staging.deploy_dns_pair'') then Some (reduced res) else None
     | None \<Rightarrow> None)"

definition normalize_gitea_runner_closed_response :: "call_contracts \<Rightarrow> transport_policy \<Rightarrow> pyval \<Rightarrow> pydict option" where
  "normalize_gitea_runner_closed_response cc policy data = (case closed_result data of
       Some res \<Rightarrow> if py_eq (dget res ''operation'') (VStr (policy_operation policy)) \<and> py_eq (dget res ''scope'') (VStr (runner_scope policy))
           \<and> py_eq (dget res ''fence_execution_id'') (policy_fence_execution_id policy)
           \<and> py_eq (dget res ''fence_generation'') (policy_fence_generation policy)
           \<and> validates cc res (cc_schemas cc ''service.gitea.runner.register'') then Some (reduced res) else None
     | None \<Rightarrow> None)"

definition normalize_gitea_org_ci_runner_closed_response :: "call_contracts \<Rightarrow> transport_policy \<Rightarrow> pyval \<Rightarrow> pydict option" where
  "normalize_gitea_org_ci_runner_closed_response cc policy data = (case closed_result data of
       Some res \<Rightarrow> if py_eq (dget res ''operation'') (VStr (policy_operation policy)) \<and> py_eq (dget res ''lane'') (VStr (org_runner_lane policy))
           \<and> py_eq (dget res ''scope'') (VStr (org_runner_scope policy))
           \<and> py_eq (dget res ''fence_execution_id'') (policy_fence_execution_id policy)
           \<and> py_eq (dget res ''fence_generation'') (policy_fence_generation policy)
           \<and> validates cc res (cc_schemas cc ''service.gitea.actions_runner.provision_org_ci_runner'') then Some (reduced res) else None
     | None \<Rightarrow> None)"

definition normalize_gitea_docker_runner_closed_response :: "call_contracts \<Rightarrow> transport_policy \<Rightarrow> pyval \<Rightarrow> pydict option" where
  "normalize_gitea_docker_runner_closed_response cc policy data = (case closed_result data of
       Some res \<Rightarrow> if py_eq (dget res ''procedure'') (VStr (tp_name policy)) \<and> py_eq (dget res ''target'') (VStr ''Gitea-Runner'')
           \<and> py_eq (dget res ''target_object_id'') (VInt 604)
           \<and> py_eq (dget res ''lane'') (VStr (dc_lane (gitea_docker_runner_contract (tp_name policy))))
           \<and> is_dict (cc_schemas cc (tp_name policy)) \<and> validates cc res (cc_schemas cc (tp_name policy)) then Some (reduced res) else None
     | None \<Rightarrow> None)"

definition DISTINCT_ROLE_FIELDS :: "string list" where
  "DISTINCT_ROLE_FIELDS = [''runner_id'', ''service_user'', ''process_identity'', ''workspace_root'', ''state_root'', ''cache_root'']"

text \<open>\<open>len({...}) == 3\<close> over the three roles: no two values are equal.\<close>

definition roles_have_distinct_values :: "pydict list \<Rightarrow> bool" where
  "roles_have_distinct_values roles \<longleftrightarrow> list_all (\<lambda>field. case map (\<lambda>r. dget r field) roles of
       [a, b, c] \<Rightarrow> \<not> py_eq a b \<and> \<not> py_eq a c \<and> \<not> py_eq b c | _ \<Rightarrow> False) DISTINCT_ROLE_FIELDS"

text \<open>A role that is no mapping has no \<open>get\<close>.\<close>

definition result_semantics_are_valid :: "pydict \<Rightarrow> pyexc + bool" where
  "result_semantics_are_valid res = (case (dget res ''roles'', dget res ''pair'', dget res ''set'') of
       (VDict roles, VDict pair, VDict role_set) \<Rightarrow>
         if set (map fst roles) \<noteq> {''builder'', ''publisher'', ''validator''} then Inr False
         else (case (dget roles ''builder'', dget roles ''publisher'', dget roles ''validator'') of
             (VDict builder, VDict publisher, VDict checker) \<Rightarrow>
               Inr (roles_have_distinct_values [builder, publisher, checker]
                 \<and> py_eq (dget builder ''package_mutation'') (VStr ''none'') \<and> py_eq (dget checker ''package_mutation'') (VStr ''none'')
                 \<and> py_eq (dget publisher ''package_mutation'') (VStr ''broker-socket-only'')
                 \<and> dget pair ''crossover_absent'' = VBool True \<and> dget role_set ''crossover_absent'' = VBool True
                 \<and> dget role_set ''validator_build_authority_absent'' = VBool True
                 \<and> dget role_set ''validator_publisher_socket_absent'' = VBool True)
           | _ \<Rightarrow> Inl AttributeError)
     | _ \<Rightarrow> Inr False)"

definition normalize_protected_publication_pair_closed_response ::
  "call_contracts \<Rightarrow> transport_policy \<Rightarrow> pyval \<Rightarrow> pyexc + pydict option" where
  "normalize_protected_publication_pair_closed_response cc policy data = (case data of
       VDict d \<Rightarrow> (case dget d ''result'' of
         VDict res \<Rightarrow>
           if has_envelope_keys d \<and> dget d ''ok'' = VBool True \<and> py_eq (dget d ''events'') (VList [])
              \<and> py_eq (dget d ''error_code'') (VStr []) \<and> py_eq (dget d ''error_message'') (VStr [])
              \<and> is_dict (cc_schemas cc (tp_name policy)) \<and> dget res ''ok'' = dget d ''ok''
              \<and> py_eq (dget res ''procedure'') (VStr (tp_name policy)) \<and> py_eq (dget res ''target'') (VStr ''Gitea-Runner'')
              \<and> validates cc res (cc_schemas cc (tp_name policy))
           then rbind (result_semantics_are_valid res) (\<lambda>valid.
             Inr (if valid then Some [(''ok'', VBool True), (''result'', VDict res)] else None))
           else Inr None
       | _ \<Rightarrow> Inr None)
     | _ \<Rightarrow> Inr None)"

definition normalize_akvorado_install_closed_response :: "call_contracts \<Rightarrow> transport_policy \<Rightarrow> pyval \<Rightarrow> pydict option" where
  "normalize_akvorado_install_closed_response cc policy data = (case data of
       VDict d \<Rightarrow> (case dget d ''result'' of
         VDict res \<Rightarrow>
           if has_envelope_keys d \<and> is_bool (dget d ''ok'') \<and> dget res ''ok'' = dget d ''ok'' \<and> is_list (dget d ''events'')
              \<and> is_str (dget d ''error_code'') \<and> is_str (dget d ''error_message'')
              \<and> \<not> (truthy (dget d ''ok'') \<and> (truthy (dget d ''error_code'') \<or> truthy (dget d ''error_message'')))
              \<and> py_eq (dget res ''target'') (VStr (take 255 (tp_target_display policy)))
              \<and> is_dict (tp_result_schema policy) \<and> truthy (tp_result_schema policy) \<and> validates cc res (tp_result_schema policy)
           then Some d else None
       | _ \<Rightarrow> None)
     | _ \<Rightarrow> None)"

definition normalize_generic_backend_response :: "http_response \<Rightarrow> pyval \<Rightarrow> call_error + pyval" where
  "normalize_generic_backend_response r data =
     (if hr_status r < 400 then Inr data
      else (case data of
          VDict d \<Rightarrow>
            (let message = (if is_str (dget d ''detail'') then dget d ''detail''
               else (case map_of d ''error'' of Some v \<Rightarrow> v | None \<Rightarrow> VStr (''HTTP '' @ int_str (hr_status r))))
             in Inl (CallExecutionError (py_str message) (str_or (dget d ''code'') ''RPC_BACKEND_ERROR'')))
        | _ \<Rightarrow> Inl (CallExecutionError (''nms-backend returned HTTP '' @ int_str (hr_status r)) ''RPC_BACKEND_ERROR'')))"

definition closed_response_matches_http_status :: "http_response \<Rightarrow> pydict \<Rightarrow> bool" where
  "closed_response_matches_http_status r normalized \<longleftrightarrow> successful r \<or> dget normalized ''ok'' = VBool False"

text \<open>A normalized answer whose status agrees, or the closed failure.\<close>

definition accepted_or_failure ::
  "call_contracts \<Rightarrow> transport_policy \<Rightarrow> http_response \<Rightarrow> pydict option \<Rightarrow> call_error + pyval" where
  "accepted_or_failure cc policy r normalized = (case normalized of
       Some n \<Rightarrow> if closed_response_matches_http_status r n then Inr (VDict n)
         else map_sum id VDict (closed_backend_transport_failure (cc_lane_columns cc) policy ''indeterminate'')
     | None \<Rightarrow> map_sum id VDict (closed_backend_transport_failure (cc_lane_columns cc) policy ''indeterminate''))"

definition normalize_akvorado_backend_response :: "call_contracts \<Rightarrow> transport_policy \<Rightarrow> http_response \<Rightarrow> pyval \<Rightarrow> call_error + pyval" where
  "normalize_akvorado_backend_response cc policy r data =
     (let failure = map_sum id VDict (closed_backend_transport_failure (cc_lane_columns cc) policy ''indeterminate'') in
      if hr_status r \<in> {408, 504} \<or> hr_status r \<ge> 500 then failure
      else if successful r then (case normalize_akvorado_install_closed_response cc policy data of
          None \<Rightarrow> failure | Some n \<Rightarrow> Inr (VDict n))
      else normalize_generic_backend_response r data)"

definition normalize_netbox_rq_worker_backend_response ::
  "call_contracts \<Rightarrow> transport_policy \<Rightarrow> http_response \<Rightarrow> pyval \<Rightarrow> call_error + pyval" where
  "normalize_netbox_rq_worker_backend_response cc policy r data =
     (let failure = map_sum id VDict (closed_backend_transport_failure (cc_lane_columns cc) policy ''indeterminate'') in
      case data of
        VDict d \<Rightarrow> (case dget d ''result'' of
          VDict res \<Rightarrow> if is_bool (dget d ''ok'') \<and> dget res ''ok'' = dget d ''ok''
              \<and> validates cc res (cc_schemas cc (tp_name policy)) \<and> successful r then Inr data else failure
        | _ \<Rightarrow> failure)
      | _ \<Rightarrow> failure)"

definition normalize_backend_response :: "call_contracts \<Rightarrow> transport_policy \<Rightarrow> http_response \<Rightarrow> pyval \<Rightarrow> call_error + pyval" where
  "normalize_backend_response cc policy r data = (case tp_kind policy of
       GITEA_UPGRADE \<Rightarrow> accepted_or_failure cc policy r (normalize_gitea_closed_response cc data)
     | GITEA_ORG_CI_RUNNER \<Rightarrow> accepted_or_failure cc policy r (normalize_gitea_org_ci_runner_closed_response cc policy data)
     | GITEA_RUNNER \<Rightarrow> accepted_or_failure cc policy r (normalize_gitea_runner_closed_response cc policy data)
     | DNS_STAGING_DEPLOY \<Rightarrow> accepted_or_failure cc policy r (normalize_dns_staging_closed_response cc (dns_commit_sha policy) data)
     | AKVORADO_INSTALL \<Rightarrow> normalize_akvorado_backend_response cc policy r data
     | GITEA_DOCKER_RUNNER \<Rightarrow> accepted_or_failure cc policy r (normalize_gitea_docker_runner_closed_response cc policy data)
     | GITEA_PROTECTED_PUBLICATION_PAIR \<Rightarrow>
         rbind (map_sum CallRaised id (normalize_protected_publication_pair_closed_response cc policy data)) (\<lambda>n.
           accepted_or_failure cc policy r (if successful r then n else None))
     | NETBOX_RQ_WORKER \<Rightarrow> normalize_netbox_rq_worker_backend_response cc policy r data
     | GENERIC \<Rightarrow> normalize_generic_backend_response r data)"


section \<open>The call\<close>

text \<open>The clock when the plan is built, when the guard is entered and when it is left.\<close>

record call_env_http =
  ch_post :: "request_plan \<Rightarrow> request_outcome"
  ch_loads :: "string \<Rightarrow> pyval option"
  ch_contracts :: call_contracts
  ch_main_thread :: bool
  ch_planned :: int
  ch_entered :: int
  ch_left :: int

definition call_backend_with_plan :: "call_env_http \<Rightarrow> request_plan \<Rightarrow> transport_policy \<Rightarrow> call_error + pyval" where
  "call_backend_with_plan h plan policy =
     (let lanes = cc_lane_columns (ch_contracts h) in
      rbind (perform_backend_request lanes policy (ch_post h plan)) (\<lambda>performed. case performed of
        Inr failure \<Rightarrow> Inr (VDict failure)
      | Inl r \<Rightarrow> rbind (classify_backend_http_response lanes policy r) (\<lambda>early. case early of
          Some failure \<Rightarrow> Inr (VDict failure)
        | None \<Rightarrow> rbind (read_backend_response (ch_loads h) lanes plan policy r) (\<lambda>read. case read of
            Inr failure \<Rightarrow> Inr (VDict failure)
          | Inl data \<Rightarrow> normalize_backend_response (ch_contracts h) policy r data))))"

text \<open>The guard raises on entry, on leaving late, or lets the exception of the body through.\<close>

definition protected_backend_wall_clock :: "call_env_http \<Rightarrow> int \<Rightarrow> call_error + 'a \<Rightarrow> call_error + 'a" where
  "protected_backend_wall_clock h deadline body =
     rbind (guard (ch_main_thread h) WallClockError) (\<lambda>_.
     rbind (guard (ch_entered h < deadline) WallClockError) (\<lambda>_.
     rbind body (\<lambda>v. rbind (guard (ch_left h < deadline) WallClockError) (\<lambda>_. Inr v))))"

definition call_backend ::
  "call_env_http \<Rightarrow> backend_target \<Rightarrow> int \<Rightarrow> transport_policy \<Rightarrow> SignedDispatchLease option \<Rightarrow> call_error + pyval" where
  "call_backend h target e policy lease =
     (let plan = build_backend_request_plan (ch_planned h) target e policy lease in
      case rp_response_deadline plan of
        None \<Rightarrow> call_backend_with_plan h plan policy
      | Some deadline \<Rightarrow>
          (case protected_backend_wall_clock h deadline (call_backend_with_plan h plan policy) of
             Inl WallClockError \<Rightarrow> map_sum id VDict (classify_backend_request_failure (cc_lane_columns (ch_contracts h)) policy
               (RequestFailure True False []))
           | r \<Rightarrow> r))"


section \<open>The outer alarm\<close>

text \<open>
  The interval timer of the worker process: the time left (zero is disarmed), the interval
  and whose handler is installed. The guard arms its own alarm unless the outer one is
  tighter, and hands the rest of the outer one back.
\<close>

record alarm =
  al_left :: int
  al_interval :: int
  al_own :: bool

definition guarded_alarm :: "int \<Rightarrow> alarm \<Rightarrow> alarm" where
  "guarded_alarm remaining outer =
     (if 0 < al_left outer \<and> al_left outer \<le> remaining then outer else \<lparr>al_left = remaining, al_interval = 0, al_own = True\<rparr>)"

definition restored_alarm :: "int \<Rightarrow> int \<Rightarrow> alarm \<Rightarrow> alarm" where
  "restored_alarm remaining elapsed outer =
     (if 0 < al_left outer \<and> al_left outer \<le> remaining then outer\<lparr>al_left := max 0 (al_left outer - elapsed)\<rparr>
      else if al_left outer > elapsed then outer\<lparr>al_left := al_left outer - elapsed\<rparr>
      else outer\<lparr>al_left := 0, al_interval := 0\<rparr>)"

end
