(* ===== verification/BackendCallProps.thy ===== *)
theory BackendCallProps
  imports BackendCall ServiceProps
begin

text \<open>
  What the backend call guarantees: a protected transport always ends with a closed
  envelope, an accepted answer is validated and about this request, the body is bounded in
  size and time, and a runner scope is released only on evidence.
\<close>

section \<open>Closed envelopes\<close>

lemma closed_failure:
  assumes "tp_kind policy \<noteq> GENERIC"
  obtains f where "closed_backend_transport_failure lanes policy stage = Inr f" "dget f ''ok'' = VBool False"
  using assms
  by (cases "tp_kind policy") (auto simp: closed_backend_transport_failure_def akvorado_transport_failure_response_def
      gitea_org_ci_runner_transport_failure_response_def gitea_runner_transport_failure_response_def dns_staging_transport_failure_response_def
      gitea_transport_failure_response_def gitea_docker_runner_transport_failure_response_def
      protected_publication_pair_transport_failure_response_def netbox_rq_worker_transport_failure_response_def false_result_def Let_def dget_def)

text \<open>The part of an accepted result that names the request.\<close>

definition bound_to_request :: "transport_policy \<Rightarrow> pydict \<Rightarrow> bool" where
  "bound_to_request policy res = (case tp_kind policy of
       DNS_STAGING_DEPLOY \<Rightarrow> py_eq (dget res ''commit_sha'') (VStr (dns_commit_sha policy))
     | GITEA_RUNNER \<Rightarrow> py_eq (dget res ''operation'') (VStr (policy_operation policy)) \<and> py_eq (dget res ''scope'') (VStr (runner_scope policy))
         \<and> py_eq (dget res ''fence_execution_id'') (policy_fence_execution_id policy)
         \<and> py_eq (dget res ''fence_generation'') (policy_fence_generation policy)
     | GITEA_ORG_CI_RUNNER \<Rightarrow> py_eq (dget res ''operation'') (VStr (policy_operation policy))
         \<and> py_eq (dget res ''lane'') (VStr (org_runner_lane policy)) \<and> py_eq (dget res ''scope'') (VStr (org_runner_scope policy))
         \<and> py_eq (dget res ''fence_execution_id'') (policy_fence_execution_id policy)
         \<and> py_eq (dget res ''fence_generation'') (policy_fence_generation policy)
     | GITEA_DOCKER_RUNNER \<Rightarrow> py_eq (dget res ''procedure'') (VStr (tp_name policy)) \<and> py_eq (dget res ''target_object_id'') (VInt 604)
     | GITEA_PROTECTED_PUBLICATION_PAIR \<Rightarrow> py_eq (dget res ''procedure'') (VStr (tp_name policy)) \<and> result_semantics_are_valid res = Inr True
     | _ \<Rightarrow> True)"

text \<open>An answer of the backend that was accepted as it is.\<close>

definition accepted :: "call_contracts \<Rightarrow> transport_policy \<Rightarrow> http_response \<Rightarrow> pydict \<Rightarrow> bool" where
  "accepted cc policy r res \<longleftrightarrow> is_bool (dget res ''ok'') \<and> (dget res ''ok'' = VBool True \<longrightarrow> successful r)
     \<and> validates cc res (cc_schemas cc (tp_name policy)) \<and> bound_to_request policy res"

lemma kind_names:
  assumes "policy = resolve_backend_transport_policy rq a"
  shows "tp_kind policy = GITEA_UPGRADE \<Longrightarrow> tp_name policy = ''service.gitea.production.upgrade_1_27_1''"
    "tp_kind policy = DNS_STAGING_DEPLOY \<Longrightarrow> tp_name policy = ''service.netbox.staging.deploy_dns_pair''"
    "tp_kind policy = GITEA_RUNNER \<Longrightarrow> tp_name policy = ''service.gitea.runner.register''"
    "tp_kind policy = GITEA_ORG_CI_RUNNER \<Longrightarrow> tp_name policy = ''service.gitea.actions_runner.provision_org_ci_runner''"
    "tp_kind policy = GITEA_PROTECTED_PUBLICATION_PAIR \<Longrightarrow> \<exists>b. map_of ROUTE_BUDGETS (tp_name policy) = Some b"
proof -
  have k: "map_of PROCEDURE_TRANSPORT_KINDS (tp_name policy) = Some (tp_kind policy) \<or> tp_kind policy = GENERIC" and "tp_name policy = proc_name (rq_procedure rq)"
    using assms by (auto simp: resolve_backend_transport_policy_def Let_def split: option.split)
  show "tp_kind policy = GITEA_UPGRADE \<Longrightarrow> tp_name policy = ''service.gitea.production.upgrade_1_27_1''"
    "tp_kind policy = DNS_STAGING_DEPLOY \<Longrightarrow> tp_name policy = ''service.netbox.staging.deploy_dns_pair''"
    "tp_kind policy = GITEA_RUNNER \<Longrightarrow> tp_name policy = ''service.gitea.runner.register''"
    "tp_kind policy = GITEA_ORG_CI_RUNNER \<Longrightarrow> tp_name policy = ''service.gitea.actions_runner.provision_org_ci_runner''"
    "tp_kind policy = GITEA_PROTECTED_PUBLICATION_PAIR \<Longrightarrow> \<exists>b. map_of ROUTE_BUDGETS (tp_name policy) = Some b"
    using k by (auto simp: PROCEDURE_TRANSPORT_KINDS_def ROUTE_BUDGETS_def NETBOX_PRODUCTION_RQ_WORKER_PROCEDURE_NAMES_def split: if_splits)
qed

lemma closed_result_ok: "closed_result data = Some res \<Longrightarrow> is_bool (dget res ''ok'')"
  by (auto simp: closed_result_def split: pyval.splits if_splits)

lemma reduced_ok [simp]: "dget (reduced res) ''ok'' = dget res ''ok''"
  by (simp add: reduced_def dget_def)

lemma accepted_or_failure_cases:
  assumes "accepted_or_failure cc policy r n = Inr v" "tp_kind policy \<noteq> GENERIC"
  obtains f where "closed_backend_transport_failure (cc_lane_columns cc) policy ''indeterminate'' = Inr f" "v = VDict f"
  | m where "n = Some m" "v = VDict m" "successful r \<or> dget m ''ok'' = VBool False"
proof -
  obtain f where "closed_backend_transport_failure (cc_lane_columns cc) policy ''indeterminate'' = Inr f" using closed_failure [OF assms(2)] .
  with assms(1) that show thesis
    by (auto simp: accepted_or_failure_def closed_response_matches_http_status_def split: option.splits if_splits)
qed

text \<open>What each normalizer accepts.\<close>

lemma normalizers_accept:
  "normalize_gitea_closed_response cc data = Some n \<Longrightarrow> \<exists>res. n = reduced res \<and> closed_result data = Some res
     \<and> validates cc res (cc_schemas cc ''service.gitea.production.upgrade_1_27_1'')"
  "normalize_dns_staging_closed_response cc sha data = Some n \<Longrightarrow> \<exists>res. n = reduced res \<and> closed_result data = Some res
     \<and> py_eq (dget res ''commit_sha'') (VStr sha) \<and> validates cc res (cc_schemas cc ''service.netbox.staging.deploy_dns_pair'')"
  "normalize_gitea_runner_closed_response cc policy data = Some n \<Longrightarrow> tp_kind policy = GITEA_RUNNER \<Longrightarrow> \<exists>res. n = reduced res
     \<and> closed_result data = Some res \<and> bound_to_request policy res \<and> validates cc res (cc_schemas cc ''service.gitea.runner.register'')"
  "normalize_gitea_org_ci_runner_closed_response cc policy data = Some n \<Longrightarrow> tp_kind policy = GITEA_ORG_CI_RUNNER \<Longrightarrow> \<exists>res. n = reduced res
     \<and> closed_result data = Some res \<and> bound_to_request policy res
     \<and> validates cc res (cc_schemas cc ''service.gitea.actions_runner.provision_org_ci_runner'')"
  "normalize_gitea_docker_runner_closed_response cc policy data = Some n \<Longrightarrow> tp_kind policy = GITEA_DOCKER_RUNNER \<Longrightarrow> \<exists>res. n = reduced res
     \<and> closed_result data = Some res \<and> bound_to_request policy res \<and> validates cc res (cc_schemas cc (tp_name policy))"
  "normalize_protected_publication_pair_closed_response cc policy data = Inr (Some n) \<Longrightarrow> tp_kind policy = GITEA_PROTECTED_PUBLICATION_PAIR \<Longrightarrow>
     \<exists>res. n = reduced res \<and> dget res ''ok'' = VBool True \<and> bound_to_request policy res \<and> validates cc res (cc_schemas cc (tp_name policy))"
  by (auto simp: normalize_gitea_closed_response_def normalize_dns_staging_closed_response_def normalize_gitea_runner_closed_response_def
      normalize_gitea_org_ci_runner_closed_response_def normalize_gitea_docker_runner_closed_response_def bound_to_request_def
      normalize_protected_publication_pair_closed_response_def reduced_def rbind_Inr_iff simp del: py_eq.simps
      split: option.splits if_splits pyval.splits)

lemma normalized_answer:
  assumes "normalize_backend_response cc policy r data = Inr v" "policy = resolve_backend_transport_policy rq a" "secret_protected policy"
  shows "(\<exists>f. closed_backend_transport_failure (cc_lane_columns cc) policy ''indeterminate'' = Inr f \<and> v = VDict f)
    \<or> (\<exists>res. v = VDict (reduced res) \<and> accepted cc policy r res)"
proof -
  let ?out = "(\<exists>f. closed_backend_transport_failure (cc_lane_columns cc) policy ''indeterminate'' = Inr f \<and> v = VDict f)
    \<or> (\<exists>res. v = VDict (reduced res) \<and> accepted cc policy r res)"
  have g: "tp_kind policy \<noteq> GENERIC" using assms(3) by (auto simp: secret_protected_def SECRET_PROTECTED_TRANSPORTS_def)
  have step: ?out if "accepted_or_failure cc policy r n = Inr v" "\<And>m. n = Some m \<Longrightarrow> \<exists>res. m = reduced res \<and> is_bool (dget res ''ok'')
      \<and> validates cc res (cc_schemas cc (tp_name policy)) \<and> bound_to_request policy res" for n
    using that(1) g
  proof (cases rule: accepted_or_failure_cases)
    case (2 m)
    with that(2) obtain res where res: "m = reduced res" "is_bool (dget res ''ok'')"
      "validates cc res (cc_schemas cc (tp_name policy))" "bound_to_request policy res" by blast
    with 2 have "accepted cc policy r res" by (auto simp: accepted_def)
    with res(1) 2(2) show ?thesis by blast
  qed blast
  note names = kind_names [OF assms(2)]
  from assms(3) consider "tp_kind policy = GITEA_UPGRADE" | "tp_kind policy = GITEA_RUNNER" | "tp_kind policy = GITEA_ORG_CI_RUNNER"
    | "tp_kind policy = GITEA_DOCKER_RUNNER" | "tp_kind policy = GITEA_PROTECTED_PUBLICATION_PAIR" | "tp_kind policy = DNS_STAGING_DEPLOY"
    by (auto simp: secret_protected_def SECRET_PROTECTED_TRANSPORTS_def)
  then show ?thesis
  proof cases
    case 1
    show ?thesis
      by (rule step [of "normalize_gitea_closed_response cc data"])
        (use 1 assms(1) names(1) normalizers_accept(1) closed_result_ok in \<open>fastforce simp: normalize_backend_response_def bound_to_request_def\<close>)+
  next
    case 2
    show ?thesis
      by (rule step [of "normalize_gitea_runner_closed_response cc policy data"])
        (use 2 assms(1) names(3) normalizers_accept(3) closed_result_ok in \<open>fastforce simp: normalize_backend_response_def\<close>)+
  next
    case 3
    show ?thesis
      by (rule step [of "normalize_gitea_org_ci_runner_closed_response cc policy data"])
        (use 3 assms(1) names(4) normalizers_accept(4) closed_result_ok in \<open>fastforce simp: normalize_backend_response_def\<close>)+
  next
    case 4
    show ?thesis
      by (rule step [of "normalize_gitea_docker_runner_closed_response cc policy data"])
        (use 4 assms(1) normalizers_accept(5) closed_result_ok in \<open>fastforce simp: normalize_backend_response_def\<close>)+
  next
    case 5
    then obtain n where n: "normalize_protected_publication_pair_closed_response cc policy data = Inr n"
      "accepted_or_failure cc policy r (if successful r then n else None) = Inr v"
      using assms(1) by (auto simp: normalize_backend_response_def rbind_Inr_iff)
    show ?thesis
      by (rule step [OF n(2)]) (use 5 n(1) normalizers_accept(6) in \<open>fastforce split: if_splits\<close>)
  next
    case 6
    show ?thesis
      by (rule step [of "normalize_dns_staging_closed_response cc (dns_commit_sha policy) data"])
        (use 6 assms(1) names(2) normalizers_accept(2) closed_result_ok in \<open>fastforce simp: normalize_backend_response_def bound_to_request_def\<close>)+
  qed
qed


section \<open>The whole call\<close>

abbreviation plan_of :: "call_env_http \<Rightarrow> backend_target \<Rightarrow> int \<Rightarrow> transport_policy \<Rightarrow> SignedDispatchLease option \<Rightarrow> request_plan" where
  "plan_of h target e policy lease \<equiv> build_backend_request_plan (ch_planned h) target e policy lease"

text \<open>A closed failure, with the only way it can have a stage other than indeterminate.\<close>

definition failed_closed :: "call_env_http \<Rightarrow> request_plan \<Rightarrow> transport_policy \<Rightarrow> pyval \<Rightarrow> bool" where
  "failed_closed h plan policy v \<longleftrightarrow> (\<exists>stage f. closed_backend_transport_failure (cc_lane_columns (ch_contracts h)) policy stage = Inr f
     \<and> v = VDict f \<and> (stage \<noteq> ''indeterminate'' \<longrightarrow> (\<exists>exc. ch_post h plan = Failed exc \<and> connect_timeout exc \<and> \<not> by_wall_clock exc)))"

lemma failed_closedI:
  "map_sum id VDict (closed_backend_transport_failure (cc_lane_columns (ch_contracts h)) policy ''indeterminate'') = Inr v
     \<Longrightarrow> failed_closed h plan policy v"
  "closed_backend_transport_failure (cc_lane_columns (ch_contracts h)) policy ''indeterminate'' = Inr f \<Longrightarrow> failed_closed h plan policy (VDict f)"
  unfolding failed_closed_def
  by (cases "closed_backend_transport_failure (cc_lane_columns (ch_contracts h)) policy ''indeterminate''"; force)+

lemma request_failure_closed:
  assumes "classify_backend_request_failure (cc_lane_columns (ch_contracts h)) policy exc = Inr f" "secret_protected policy"
    "by_wall_clock exc \<or> ch_post h plan = Failed exc"
  shows "failed_closed h plan policy (VDict f)"
  using assms failed_closedI(2) [of h policy f plan]
  by (auto simp: classify_backend_request_failure_def failed_closed_def split: if_splits option.splits)

lemma planned_answer:
  assumes "call_backend_with_plan h plan policy = Inr v" "policy = resolve_backend_transport_policy rq a" "secret_protected policy"
  shows "failed_closed h plan policy v \<or> (\<exists>r res. ch_post h plan = Responded r \<and> v = VDict (reduced res) \<and> accepted (ch_contracts h) policy r res)"
proof (cases "ch_post h plan")
  case (Failed exc)
  with assms(1) obtain f where "classify_backend_request_failure (cc_lane_columns (ch_contracts h)) policy exc = Inr f" "v = VDict f"
    by (cases "classify_backend_request_failure (cc_lane_columns (ch_contracts h)) policy exc")
      (auto simp: call_backend_with_plan_def perform_backend_request_def Let_def split: if_splits)
  with request_failure_closed [OF _ assms(3)] Failed show ?thesis by blast
next
  case (Responded r)
  let ?l = "cc_lane_columns (ch_contracts h)"
  obtain early where early: "classify_backend_http_response ?l policy r = Inr early"
    "(case early of Some failure \<Rightarrow> Inr (VDict failure)
      | None \<Rightarrow> rbind (read_backend_response (ch_loads h) ?l plan policy r) (\<lambda>read. case read of
            Inr failure \<Rightarrow> Inr (VDict failure) | Inl data \<Rightarrow> normalize_backend_response (ch_contracts h) policy r data)) = Inr v"
    using assms(1) Responded by (auto simp: call_backend_with_plan_def perform_backend_request_def Let_def rbind_Inr_iff)
  show ?thesis
  proof (cases early)
    case (Some f)
    then have "closed_backend_transport_failure ?l policy ''indeterminate'' = Inr f" "v = VDict f"
      using early by (cases "closed_backend_transport_failure ?l policy ''indeterminate''";
        auto simp: classify_backend_http_response_def Let_def split: if_splits)+
    with failed_closedI(2) show ?thesis by blast
  next
    case None
    with early(2) obtain out where out: "read_backend_response (ch_loads h) ?l plan policy r = Inr out"
      "(case out of Inr failure \<Rightarrow> Inr (VDict failure) | Inl data \<Rightarrow> normalize_backend_response (ch_contracts h) policy r data) = Inr v"
      by (auto simp: rbind_Inr_iff)
    show ?thesis
    proof (cases out)
      case (Inr f)
      then have "closed_backend_transport_failure ?l policy ''indeterminate'' = Inr f" "v = VDict f"
        using out by (cases "closed_backend_transport_failure ?l policy ''indeterminate''";
          auto simp: read_backend_response_def Let_def split: if_splits sum.splits)+
      with failed_closedI(2) show ?thesis by blast
    next
      case (Inl data)
      with out(2) normalized_answer [OF _ assms(2,3), of "ch_contracts h" r data v] Responded failed_closedI(2) show ?thesis by auto
    qed
  qed
qed

lemma answer_closed:
  assumes "call_backend h target e policy lease = Inr v" "policy = resolve_backend_transport_policy rq a" "secret_protected policy"
  shows "failed_closed h (plan_of h target e policy lease) policy v
    \<or> (\<exists>r res. ch_post h (plan_of h target e policy lease) = Responded r \<and> v = VDict (reduced res) \<and> accepted (ch_contracts h) policy r res)"
proof -
  let ?plan = "plan_of h target e policy lease"
  from assms(1) consider "call_backend_with_plan h ?plan policy = Inr v"
    | f where "classify_backend_request_failure (cc_lane_columns (ch_contracts h)) policy (RequestFailure True False []) = Inr f" "v = VDict f"
    by (cases "classify_backend_request_failure (cc_lane_columns (ch_contracts h)) policy (RequestFailure True False [])")
      (auto simp: call_backend_def Let_def protected_backend_wall_clock_def rbind_Inr_iff split: option.splits sum.splits call_error.splits)
  then show ?thesis
  proof cases
    case 1
    from planned_answer [OF this assms(2,3)] show ?thesis .
  next
    case 2
    with request_failure_closed [OF 2(1) assms(3)] show ?thesis by auto
  qed
qed

lemma planned_errors:
  assumes "call_backend_with_plan h plan policy = Inl err" "secret_protected policy"
  shows "err = WallClockError \<or> tp_kind policy = GITEA_PROTECTED_PUBLICATION_PAIR"
proof -
  let ?l = "cc_lane_columns (ch_contracts h)"
  have g: "tp_kind policy \<noteq> GENERIC" "tp_kind policy \<noteq> AKVORADO_INSTALL" "tp_kind policy \<noteq> NETBOX_RQ_WORKER"
    using assms(2) by (auto simp: secret_protected_def SECRET_PROTECTED_TRANSPORTS_def)
  define fs where "fs stage = (case closed_backend_transport_failure ?l policy stage of Inr f \<Rightarrow> f | Inl _ \<Rightarrow> [])" for stage
  have f: "closed_backend_transport_failure ?l policy stage = Inr (fs stage)" for stage
    by (rule closed_failure [OF g(1), of ?l stage]) (simp add: fs_def)
  have c: "classify_backend_request_failure ?l policy exc = Inl x \<Longrightarrow> tp_kind policy = GITEA_PROTECTED_PUBLICATION_PAIR" for exc x
    using assms(2) f by (cases "tp_kind policy") (auto simp: classify_backend_request_failure_def CONNECT_FAILURE_STAGES_def
        secret_protected_def SECRET_PROTECTED_TRANSPORTS_def split: if_splits)
  have hh: "classify_backend_http_response ?l policy r \<noteq> Inl x" for r x
    using assms(2) g f by (auto simp: classify_backend_http_response_def Let_def)
  have rr: "read_backend_response (ch_loads h) ?l plan policy r = Inl x \<Longrightarrow> x = WallClockError" for r x
    using assms(2) f by (auto simp: read_backend_response_def Let_def split: sum.splits if_splits)
  have nn: "normalize_backend_response (ch_contracts h) policy r data = Inl x \<Longrightarrow> tp_kind policy = GITEA_PROTECTED_PUBLICATION_PAIR" for r data x
    using g f by (cases "tp_kind policy") (auto simp: normalize_backend_response_def accepted_or_failure_def split: option.splits if_splits)
  show ?thesis
  proof (cases "ch_post h plan")
    case (Failed exc)
    with assms(1) c [of exc] show ?thesis
      by (cases "classify_backend_request_failure ?l policy exc")
        (auto simp: call_backend_with_plan_def perform_backend_request_def Let_def split: if_split_asm)
  next
    case (Responded r)
    obtain early where early: "classify_backend_http_response ?l policy r = Inr early"
      using hh [of r] by (cases "classify_backend_http_response ?l policy r") auto
    with assms(1) Responded have none: "early = None"
      by (cases early) (auto simp: call_backend_with_plan_def perform_backend_request_def Let_def)
    show ?thesis
    proof (cases "read_backend_response (ch_loads h) ?l plan policy r")
      case (Inl x)
      with assms(1) Responded early none rr [OF Inl] show ?thesis
        by (simp add: call_backend_with_plan_def perform_backend_request_def Let_def)
    next
      case (Inr out)
      with assms(1) Responded early none nn [of r _ err] show ?thesis
        by (cases out) (auto simp: call_backend_with_plan_def perform_backend_request_def Let_def)
    qed
  qed
qed

text \<open>
  C18: A secret-protected procedure never lets an unchecked answer through. Whatever the network
  returns and whenever, the call of the backend yields either the fixed failure envelope of
  its transport, whose stage is something other than indeterminate only if the connection was
  never made, or a result that passed the reviewed schema, is about this very request, and
  claims success only with a success status.
\<close>

theorem protected_answer_is_closed:
  assumes "call_backend h target e policy lease = Inr v" "policy = resolve_backend_transport_policy rq a" "secret_protected policy"
  shows "failed_closed h (plan_of h target e policy lease) policy v
    \<or> (\<exists>r res. ch_post h (plan_of h target e policy lease) = Responded r \<and> v = VDict (reduced res) \<and> accepted (ch_contracts h) policy r res)"
  using answer_closed [OF assms] .


text \<open>
  C22: The publication runner pair is the exception: a connect timeout of its call raises a
  missing-key error instead of giving the closed failure, because the table of stages has no
  entry for it.
\<close>

theorem publication_pair_connect_timeout_raises:
  assumes "policy = resolve_backend_transport_policy rq a" "tp_kind policy = GITEA_PROTECTED_PUBLICATION_PAIR"
    "rp_response_deadline (plan_of h target e policy lease) = Some deadline"
    "ch_main_thread h" "ch_entered h < deadline" "ch_post h (plan_of h target e policy lease) = Failed (RequestFailure False True m)"
  shows "call_backend h target e policy lease = Inl (CallKeyError GITEA_PROTECTED_PUBLICATION_PAIR)"
  using assms
  by (simp add: call_backend_def protected_backend_wall_clock_def call_backend_with_plan_def perform_backend_request_def
      classify_backend_request_failure_def CONNECT_FAILURE_STAGES_def secret_protected_def SECRET_PROTECTED_TRANSPORTS_def Let_def)


section \<open>The bounded body\<close>

definition chunk_bytes :: "(read_event \<times> chunk) list \<Rightarrow> string" where
  "chunk_bytes cs = concat (map (\<lambda>(e, c). case c of Bytes b \<Rightarrow> b | _ \<Rightarrow> []) cs)"

lemma chunk_bytes_simps [simp]:
  "chunk_bytes [] = []" "chunk_bytes ((e, Bytes b) # cs) = b @ chunk_bytes cs"
  by (simp_all add: chunk_bytes_def)

text \<open>Every read that gave bytes was before the deadline.\<close>

definition read_in_time :: "int \<Rightarrow> (read_event \<times> chunk) list \<Rightarrow> bool" where
  "read_in_time deadline cs \<longleftrightarrow> list_all (\<lambda>(e, c). re_now e < deadline \<and> (\<exists>b. c = Bytes b)) cs"

lemma read_in_time_simps [simp]:
  "read_in_time deadline []"
  "read_in_time deadline ((e, c) # cs) \<longleftrightarrow> re_now e < deadline \<and> (\<exists>b. c = Bytes b) \<and> read_in_time deadline cs"
  by (simp_all add: read_in_time_def)

lemma read_body_bounds:
  assumes "read_body deadline max_bytes expected final cs body = Inr out" "length body \<le> max_bytes"
  shows "length out \<le> max_bytes \<and> (\<exists>n. out = body @ chunk_bytes (take n cs) \<and> read_in_time deadline (take n cs))"
  using assms
proof (induction deadline max_bytes expected final cs body rule: read_body.induct)
  case (1 deadline max_bytes expected final body)
  then have "out = body" by (auto simp: rbind_Inr_iff split: if_split_asm)
  with 1(2) show ?case by auto
next
  case (2 deadline max_bytes expected final e c rest body)
  show ?case
  proof (cases "case expected of None \<Rightarrow> True | Some n \<Rightarrow> length body < n")
    case False
    with 2(3) have "out = body" by (simp del: read_body.simps(1) split: if_split_asm)
    with 2(4) show ?thesis by (auto intro: exI [of _ 0])
  next
    case True
    with 2(3) obtain b where b: "c = Bytes b" "re_now e < deadline"
      by (auto simp: rbind_Inr_iff set_protected_response_socket_deadline_def guard_Inr_iff split: chunk.split_asm)
    have more: "length out \<le> max_bytes \<and> (\<exists>n. out = body @ chunk_bytes (take n ((e, c) # rest)) \<and> read_in_time deadline (take n ((e, c) # rest)))"
      if "length out \<le> max_bytes \<and> (\<exists>n. out = (body @ b) @ chunk_bytes (take n rest) \<and> read_in_time deadline (take n rest))"
    proof -
      from that obtain n where "length out \<le> max_bytes" "out = (body @ b) @ chunk_bytes (take n rest)" "read_in_time deadline (take n rest)" by blast
      with b show ?thesis by (intro conjI exI [of _ "Suc n"]) auto
    qed
    consider "b = []" "read_body deadline max_bytes expected final rest body = Inr out"
      | "length (body @ b) \<le> max_bytes" "out = body @ b"
      | "b \<noteq> []" "length (body @ b) \<le> max_bytes" "read_body deadline max_bytes expected final rest (body @ b) = Inr out"
        "\<not> (expected = None \<and> length (body @ b) = max_bytes)"
      using 2(3) True b by (auto simp: rbind_Inr_iff split: if_split_asm)
    then show ?thesis
    proof cases
      case 1
      from 2(1) [OF True b(1) 1(1) 1(2) 2(4)] 1(1) show ?thesis by (intro more) simp
    next
      case 2
      then show ?thesis by (intro more) (auto intro: exI [of _ 0])
    next
      case 3
      from 2(2) [OF True b(1) 3(1) _ 3(4) 3(3,2)] 3(2) show ?thesis by (intro more) simp
    qed
  qed
qed

text \<open>
  C21: The body of a protected response is bounded in size and in time. What the reader hands
  to the parser is not empty, has at most the allowed number of bytes and exactly the declared
  number if there is one, is the concatenation of an initial part of the chunks of the
  response, and each of these was read before the deadline.
\<close>

theorem protected_body_is_bounded:
  assumes "read_bounded_body deadline max_bytes r = Inr body"
  shows "body \<noteq> [] \<and> length body \<le> max_bytes
    \<and> (hr_length r \<noteq> VNone \<longrightarrow> length body = str_nat (py_str (hr_length r)))
    \<and> (\<exists>n. body = chunk_bytes (take n (hr_chunks r)) \<and> read_in_time deadline (take n (hr_chunks r)))"
proof -
  from assms obtain expected where e: "declared_length max_bytes (hr_length r) = Inr expected"
    "read_body deadline max_bytes expected (hr_end r) (hr_chunks r) [] = Inr body"
    "case expected of None \<Rightarrow> True | Some n \<Rightarrow> length body = n" "body \<noteq> []"
    by (auto simp: read_bounded_body_def rbind_Inr_iff guard_Inr_iff)
  from e(1,3) have "hr_length r \<noteq> VNone \<longrightarrow> length body = str_nat (py_str (hr_length r))"
    by (auto simp: declared_length_def Let_def split: if_split_asm)
  with read_body_bounds [OF e(2)] e(4) show ?thesis by auto
qed


section \<open>Releasing a runner scope\<close>

text \<open>The failure envelopes of the two runner procedures never carry evidence once the outcome is unknown.\<close>

lemma indeterminate_runner_result:
  "\<exists>res. gitea_runner_transport_failure_response ''indeterminate'' op dg x g sc = false_result res
     \<and> dget res ''stage'' = VStr ''indeterminate'' \<and> dget res ''token_invalidated'' = VBool False"
  "\<exists>res. gitea_org_ci_runner_transport_failure_response lanes ''indeterminate'' op dg x g = false_result res
     \<and> dget res ''stage'' = VStr ''indeterminate'' \<and> dget res ''token_invalidated'' = VBool False"
  by (rule exI, rule conjI, (simp add: gitea_runner_transport_failure_response_def gitea_org_ci_runner_transport_failure_response_def Let_def; fail),
      simp add: dget_def)+

lemma indeterminate_keeps_scope:
  assumes "closed_backend_transport_failure lanes policy ''indeterminate'' = Inr f" "tp_kind policy \<in> {GITEA_RUNNER, GITEA_ORG_CI_RUNNER}"
    "dget f ''result'' = VDict res"
  shows "\<not> clear_without_token so operation res \<and> \<not> reset_proven res"
proof -
  have "dget res ''stage'' = VStr ''indeterminate'' \<and> dget res ''token_invalidated'' = VBool False"
    using assms(2)
  proof (elim insertE)
    assume "tp_kind policy = GITEA_RUNNER"
    with assms(1,3) indeterminate_runner_result(1) [of "policy_operation policy" "fence_digest policy" "policy_fence_execution_id policy"
        "policy_fence_generation policy" "runner_scope policy"]
    show ?thesis by (auto simp: closed_backend_transport_failure_def false_result_def dget_def)
  next
    assume "tp_kind policy = GITEA_ORG_CI_RUNNER"
    with assms(1,3) indeterminate_runner_result(2) [of lanes "policy_operation policy" "fence_digest policy" "policy_fence_execution_id policy"
        "policy_fence_generation policy"]
    show ?thesis by (auto simp: closed_backend_transport_failure_def false_result_def dget_def)
  qed simp
  then show ?thesis by (auto simp: clear_without_token_def reset_proven_def TOKENLESS_STAGES_def)
qed

text \<open>
  C19: The scope of a Gitea runner is released only on evidence. If the answer of the call makes
  the fence clear, because no token was ever made or because its invalidation is proven, then
  either the connection to the backend was never made, or the backend answered with a result
  that passed the reviewed schema and names this operation, scope and fence.
\<close>

theorem scope_released_on_evidence:
  assumes "call_backend h target e policy lease = Inr (VDict v)" "policy = resolve_backend_transport_policy rq a"
    "tp_kind policy \<in> {GITEA_RUNNER, GITEA_ORG_CI_RUNNER}" "dget v ''result'' = VDict res"
    "clear_without_token so operation res \<or> reset_proven res"
  shows "(\<exists>exc. ch_post h (plan_of h target e policy lease) = Failed exc \<and> connect_timeout exc \<and> \<not> by_wall_clock exc)
    \<or> (\<exists>r. ch_post h (plan_of h target e policy lease) = Responded r \<and> accepted (ch_contracts h) policy r res)"
proof -
  have s: "secret_protected policy" using assms(3) by (auto simp: secret_protected_def SECRET_PROTECTED_TRANSPORTS_def)
  from answer_closed [OF assms(1,2) s] show ?thesis
  proof
    assume "failed_closed h (plan_of h target e policy lease) policy (VDict v)"
    then obtain stage where f: "closed_backend_transport_failure (cc_lane_columns (ch_contracts h)) policy stage = Inr v"
      "stage \<noteq> ''indeterminate'' \<longrightarrow> (\<exists>exc. ch_post h (plan_of h target e policy lease) = Failed exc \<and> connect_timeout exc \<and> \<not> by_wall_clock exc)"
      by (auto simp: failed_closed_def)
    with indeterminate_keeps_scope [OF _ assms(3,4)] assms(5) show ?thesis by (cases "stage = ''indeterminate''") auto
  next
    assume "\<exists>r res. ch_post h (plan_of h target e policy lease) = Responded r \<and> VDict v = VDict (reduced res) \<and> accepted (ch_contracts h) policy r res"
    with assms(4) show ?thesis by (auto simp: reduced_def dget_def)
  qed
qed


section \<open>A call on samples\<close>

definition policy_for :: "string \<Rightarrow> transport_policy" where
  "policy_for name = resolve_backend_transport_policy
     (uptime_request\<lparr>rq_procedure := sample_procedure\<lparr>proc_name := name\<rparr>\<rparr>) fresh_aggregate"

definition runner_answer :: pydict where
  "runner_answer = [(''ok'', VBool True), (''operation'', VStr ''register''), (''scope'', VStr []), (''fence_execution_id'', VNone),
     (''fence_generation'', VNone), (''token_invalidated'', VBool True), (''token_reset_required'', VBool False)]"

definition runner_envelope :: pyval where
  "runner_envelope = VDict [(''ok'', VBool True), (''result'', VDict runner_answer), (''events'', VList []),
     (''error_code'', VStr []), (''error_message'', VStr [])]"

definition answering :: "request_outcome \<Rightarrow> call_env_http" where
  "answering outcome = \<lparr>ch_post = (\<lambda>_. outcome), ch_loads = (\<lambda>_. Some runner_envelope),
     ch_contracts = \<lparr>cc_schemas = (\<lambda>_. VDict []), cc_lane_columns = [], cc_validate = (\<lambda>_ _. None)\<rparr>,
     ch_main_thread = True, ch_planned = 100, ch_entered = 101, ch_left = 130\<rparr>"

definition two_chunks :: http_response where
  "two_chunks = \<lparr>hr_status = 200, hr_encoding = VNone, hr_length = VStr ''3'',
     hr_chunks = [(\<lparr>re_now = 110, re_socket = True\<rparr>, Bytes ''{''), (\<lparr>re_now = 120, re_socket = True\<rparr>, Bytes '' }'')],
     hr_end = \<lparr>re_now = 121, re_socket = True\<rparr>, hr_json = Inl None\<rparr>"

definition sample_backend_target :: backend_target where
  "sample_backend_target = \<lparr>bt_url = ''https://nms.example'', bt_headers = [], bt_verify_ssl = True\<rparr>"

lemma register_policy:
  "tp_kind (policy_for ''service.gitea.runner.register'') = GITEA_RUNNER"
  "tp_params (policy_for ''service.gitea.runner.register'') = []" "tp_normalized (policy_for ''service.gitea.runner.register'') = []"
  by (simp_all add: policy_for_def resolve_backend_transport_policy_def PROCEDURE_TRANSPORT_KINDS_def Let_def mapping_or_empty_def
      fresh_aggregate_def fresh_store_def projection_initial_def ProjectionState.defs)

lemma two_chunks_read: "read_bounded_body 400 4096 two_chunks = Inr ''{ }''"
  by code_simp

lemma answering_simps [simp]:
  "ch_post (answering outcome) plan = outcome" "ch_loads (answering outcome) body = Some runner_envelope" "ch_main_thread (answering outcome)"
  "ch_planned (answering outcome) = 100" "ch_entered (answering outcome) = 101" "ch_left (answering outcome) = 130"
  "validates (ch_contracts (answering outcome)) res schema"
  by (simp_all add: answering_def validates_def)

lemma runner_call:
  "call_backend (answering (Responded two_chunks)) sample_backend_target 5 (policy_for ''service.gitea.runner.register'') None
     = Inr (VDict (reduced runner_answer))"
proof -
  have a: "normalize_backend_response (ch_contracts (answering (Responded two_chunks))) (policy_for ''service.gitea.runner.register'')
      two_chunks runner_envelope = Inr (VDict (reduced runner_answer))"
    by (simp add: normalize_backend_response_def register_policy accepted_or_failure_def closed_response_matches_http_status_def
        normalize_gitea_runner_closed_response_def closed_result_def runner_envelope_def runner_answer_def has_envelope_keys_def
        ENVELOPE_KEYS_def dget_def policy_operation_def runner_scope_def policy_fence_execution_id_def policy_fence_generation_def
        str_or_def reduced_def two_chunks_def successful_def insert_commute)
  have p: "rp_response_deadline (build_backend_request_plan 100 sample_backend_target 5 (policy_for ''service.gitea.runner.register'') None) = Some 400"
    "rp_response_max_bytes (build_backend_request_plan 100 sample_backend_target 5 (policy_for ''service.gitea.runner.register'') None) = Some 4096"
    by (simp_all add: build_backend_request_plan_def protected_response_limits_def register_policy Let_def)
  have s: "streamed (policy_for ''service.gitea.runner.register'')" "secret_protected (policy_for ''service.gitea.runner.register'')"
    by (simp_all add: streamed_def STREAMED_TRANSPORTS_def secret_protected_def SECRET_PROTECTED_TRANSPORTS_def register_policy)
  have c: "classify_backend_http_response l (policy_for ''service.gitea.runner.register'') two_chunks = Inr None" for l
    by (simp add: classify_backend_http_response_def register_policy two_chunks_def redirected_def Let_def)
  have "read_backend_response (ch_loads (answering (Responded two_chunks))) l
      (plan_of (answering (Responded two_chunks)) sample_backend_target 5 (policy_for ''service.gitea.runner.register'') None)
      (policy_for ''service.gitea.runner.register'') two_chunks = Inr (Inl runner_envelope)" for l
    unfolding read_backend_response_def
    by (simp add: p s read_bounded_json_response_def two_chunks_read)
  with a p c show ?thesis
    by (simp add: call_backend_def protected_backend_wall_clock_def call_backend_with_plan_def perform_backend_request_def Let_def)
qed

lemmas register_resolved = policy_for_def [of "''service.gitea.runner.register''"]

lemma register_protected: "secret_protected (policy_for ''service.gitea.runner.register'')" "streamed (policy_for ''service.gitea.runner.register'')"
  by (simp_all add: streamed_def STREAMED_TRANSPORTS_def secret_protected_def SECRET_PROTECTED_TRANSPORTS_def register_policy)

theorem protected_answer_is_closed_witness:
  "\<exists>r res. Responded two_chunks = Responded r \<and> VDict (reduced runner_answer) = VDict (reduced res)
     \<and> accepted (ch_contracts (answering (Responded two_chunks))) (policy_for ''service.gitea.runner.register'') r res"
  using protected_answer_is_closed [OF runner_call register_resolved register_protected(1)]
  by (auto simp: failed_closed_def closed_backend_transport_failure_def register_policy gitea_runner_transport_failure_response_def
      false_result_def reduced_def runner_answer_def dget_def Let_def)


theorem protected_body_is_bounded_witness:
  "\<exists>n. ''{ }'' = chunk_bytes (take n (hr_chunks two_chunks)) \<and> read_in_time 400 (take n (hr_chunks two_chunks))"
  using protected_body_is_bounded [OF two_chunks_read] by blast

theorem scope_released_on_evidence_witness:
  "\<exists>r. Responded two_chunks = Responded r
     \<and> accepted (ch_contracts (answering (Responded two_chunks))) (policy_for ''service.gitea.runner.register'') r runner_answer"
  using scope_released_on_evidence [OF runner_call register_resolved, of runner_answer "''register''" "''register''"]
  by (simp add: register_policy reduced_def reset_proven_def) (simp add: runner_answer_def dget_def)

lemma pair_policy:
  "tp_kind (policy_for ''service.gitea.actions_runner.protected_pair.prove'') = GITEA_PROTECTED_PUBLICATION_PAIR"
  "tp_name (policy_for ''service.gitea.actions_runner.protected_pair.prove'') = ''service.gitea.actions_runner.protected_pair.prove''"
  by (simp_all add: policy_for_def resolve_backend_transport_policy_def PROCEDURE_TRANSPORT_KINDS_def Let_def)

theorem publication_pair_connect_timeout_raises_witness:
  "call_backend (answering (Failed (RequestFailure False True ''timed out''))) sample_backend_target 5
     (policy_for ''service.gitea.actions_runner.protected_pair.prove'') None = Inl (CallKeyError GITEA_PROTECTED_PUBLICATION_PAIR)"
  using publication_pair_connect_timeout_raises [OF policy_for_def pair_policy(1),
      of "answering (Failed (RequestFailure False True ''timed out''))" sample_backend_target 5 None 400 "''timed out''"]
  by (simp add: build_backend_request_plan_def protected_response_limits_def pair_policy ROUTE_BUDGETS_def Let_def)

end
