(* ===== verification/CredentialAuthority.thy ===== *)
theory CredentialAuthority
  imports AdmissionChecks
begin

text \<open>
  The authority for credential references of \<open>netbox_rpc/credential_authority.py\<close>: what is
  frozen with the execution when it is created, the checks of the worker before it uses the
  frozen data, and the decision whether an executor may resolve a secret for a running
  dispatch.

  The tables the checks read are a record; a restricted query finds a row if the row exists
  and the user has the object in the scope of the action. Row locks have no counterpart. The
  provider of the identities, the reader of a submitted lease and \<open>uuid4\<close> are parameters.
\<close>

section \<open>Tables\<close>

record actor =
  ac_user :: api_user
  ac_active :: bool
  ac_authenticated :: bool
  ac_views :: "(string \<times> int) list"

record backend_row =
  br_backend :: rpc_backend
  br_executor :: "int option"
  br_revision :: string

record authority_db =
  au_users :: "(int \<times> actor) list"
  au_procedures :: "(int \<times> rpc_procedure) list"
  au_backends :: "(int \<times> backend_row) list"
  au_targets :: "((string \<times> int) \<times> string) list"
  au_enabled :: bool
  au_selected_backend :: "int option"

definition denied :: handler_error where
  "denied = PermissionDenied ''Credential resolution is not authorized for this execution.''"

abbreviation require :: "bool \<Rightarrow> handler_error + unit" where
  "require condition \<equiv> guard condition denied"

definition get_user :: "authority_db \<Rightarrow> pyval \<Rightarrow> handler_error + actor" where
  "get_user db i = (case i of
       VInt n \<Rightarrow> (case map_of (au_users db) n of None \<Rightarrow> Inl DoesNotExist | Some u \<Rightarrow> Inr u)
     | _ \<Rightarrow> Inl DoesNotExist)"

text \<open>\<open>objects.restrict(user, action).filter(pk=pk)\<close> for procedures, and for the other models the view action.\<close>

definition procedure_in_scope :: "authority_db \<Rightarrow> actor \<Rightarrow> string \<Rightarrow> int \<Rightarrow> rpc_procedure option" where
  "procedure_in_scope db u action i =
     (if (action, i) \<in> set (us_scopes (ac_user u)) then map_of (au_procedures db) i else None)"

definition viewable_backend :: "authority_db \<Rightarrow> actor \<Rightarrow> pyval \<Rightarrow> (int \<times> backend_row) option" where
  "viewable_backend db u i = (case i of
       VInt n \<Rightarrow> if (''netbox_rpc.rpcbackend'', n) \<in> set (ac_views u) then map_option (Pair n) (map_of (au_backends db) n) else None
     | _ \<Rightarrow> None)"

definition viewable_target :: "authority_db \<Rightarrow> actor \<Rightarrow> string \<Rightarrow> int \<Rightarrow> string option" where
  "viewable_target db u label i = (if (label, i) \<in> set (ac_views u) then map_of (au_targets db) (label, i) else None)"

definition found :: "'a option \<Rightarrow> handler_error + 'a" where
  "found x = (case x of None \<Rightarrow> Inl denied | Some v \<Rightarrow> Inr v)"


section \<open>Permissions\<close>

definition active_actor :: "actor option \<Rightarrow> string \<Rightarrow> handler_error + actor" where
  "active_actor u permission = (case u of
       None \<Rightarrow> Inl denied
     | Some a \<Rightarrow> rbind (require (ac_active a)) (\<lambda>_. rbind (require (has_perm (ac_user a) permission)) (\<lambda>_. Inr a)))"

definition fresh_rpc_actor :: "authority_db \<Rightarrow> pyval \<Rightarrow> int \<Rightarrow> string \<Rightarrow> handler_error + actor" where
  "fresh_rpc_actor db actor_id procedure_id action =
     rbind (get_user db actor_id) (\<lambda>u.
     rbind (active_actor (Some u) (''netbox_rpc.'' @ action @ ''_rpcprocedure'')) (\<lambda>_.
     rbind (require (procedure_in_scope db u action procedure_id \<noteq> None)) (\<lambda>_.
     rbind (require (procedure_in_scope db u ''view'' procedure_id \<noteq> None)) (\<lambda>_. Inr u))))"

definition fresh_execution_permissions ::
  "authority_db \<Rightarrow> pyval \<Rightarrow> pyval \<Rightarrow> int \<Rightarrow> pyval \<Rightarrow> string \<Rightarrow> int \<Rightarrow> handler_error + unit" where
  "fresh_execution_permissions db requester_id approver_id procedure_id backend_id label target_id =
     rbind (fresh_rpc_actor db requester_id procedure_id ''execute'') (\<lambda>u.
     rbind (require (viewable_backend db u backend_id \<noteq> None)) (\<lambda>_.
     rbind (require (viewable_target db u label target_id \<noteq> None)) (\<lambda>_.
       if approver_id = VNone then Inr ()
       else rbind (fresh_rpc_actor db approver_id procedure_id ''approve'') (\<lambda>approver.
         require (viewable_target db approver label target_id \<noteq> None)))))"

definition check_execution_permissions :: "authority_db \<Rightarrow> exec_request \<Rightarrow> aggregate \<Rightarrow> handler_error + unit" where
  "check_execution_permissions db rq a =
     fresh_execution_permissions db (requested_by_id (obj (store a))) (approved_by_id (obj (store a)))
       (proc_pk (rq_procedure rq)) (rq_backend_id rq) (rq_target_model_label rq) (rq_target_id rq)"


section \<open>The snapshot\<close>

text \<open>The procedure is read again; the later checks use the row found here.\<close>

definition reference_context ::
  "authority_db \<Rightarrow> actor option \<Rightarrow> int \<Rightarrow> pyval \<Rightarrow> string \<Rightarrow> int \<Rightarrow> handler_error + (rpc_procedure \<times> (int \<times> backend_row) \<times> string)" where
  "reference_context db who procedure_id backend_id label target_id =
     rbind (active_actor who ''netbox_rpc.execute_rpcprocedure'') (\<lambda>u.
     rbind (found (procedure_in_scope db u ''view'' procedure_id)) (\<lambda>p.
     rbind (require (proc_enabled p)) (\<lambda>_.
     rbind (require (procedure_in_scope db u ''execute'' (proc_pk p) \<noteq> None)) (\<lambda>_.
     rbind (found (viewable_backend db u backend_id)) (\<lambda>(i, b).
     rbind (require (case br_executor b of None \<Rightarrow> False | Some x \<Rightarrow> (case map_of (au_users db) x of None \<Rightarrow> False | Some e \<Rightarrow> ac_active e))) (\<lambda>_.
     rbind (require (au_enabled db \<and> au_selected_backend db = Some i)) (\<lambda>_.
     rbind (found (viewable_target db u label target_id)) (\<lambda>revision.
     rbind (require (label \<in> set (proc_target_models p))) (\<lambda>_. Inr (p, (i, b), revision))))))))))"

definition reference_error :: "credential_error + 'a \<Rightarrow> handler_error + 'a" where
  "reference_error m = map_sum (\<lambda>e. case e of CredentialContractError \<Rightarrow> HandlerRaised ValueError | Uncaught x \<Rightarrow> HandlerRaised x) id m"

definition transport_policy_fields :: "rpc_procedure \<Rightarrow> pydict" where
  "transport_policy_fields p =
     [(''transport_driver'', VStr (proc_transport_driver p)), (''transport_driver_chain'', strings (proc_transport_driver_chain p)),
      (''transport_pinned'', VBool (proc_transport_pinned p)), (''output_parser'', VStr (proc_output_parser p)),
      (''output_schema'', proc_output_schema p)]"

definition procedure_policy_payload :: "rpc_procedure \<Rightarrow> pyexc + pydict" where
  "procedure_policy_payload p =
     rbind (base_command_contract_payload p) (\<lambda>contract.
       Inr [(''contract'', VDict contract), (''name'', VStr (proc_name p)), (''params_schema'', proc_params_schema p),
            (''result_schema'', proc_result_schema p), (''target_models'', strings (proc_target_models p)),
            (''approval_required'', VBool (proc_approval_required p)), (''timeout_seconds'', VInt (proc_timeout_seconds p)),
            (''transport_policy'', VDict (transport_policy_fields p))])"

definition targets_agree :: "string \<Rightarrow> int \<Rightarrow> pydict \<Rightarrow> handler_error + unit" where
  "targets_agree label target_id references =
     rbind (rmap (\<lambda>(name, value). rbind (raised (py_index value ''target'')) (\<lambda>t.
       require (py_eq t (VDict [(''object_type'', VStr label), (''object_id'', VInt target_id)])))) references) (\<lambda>_. Inr ())"

definition snapshot_payload ::
  "python_rt \<Rightarrow> rpc_procedure \<Rightarrow> pyval \<Rightarrow> pyval \<Rightarrow> pyval \<Rightarrow> string \<Rightarrow> int \<Rightarrow> (int \<times> backend_row) \<Rightarrow> string \<Rightarrow> handler_error + pydict" where
  "snapshot_payload rt p actor_pk refs stored_params label target_id backend revision =
     rbind (reference_error (validate_named_references rt refs)) (\<lambda>references.
     rbind (targets_agree label target_id references) (\<lambda>_.
     rbind (raised (procedure_policy_payload p)) (\<lambda>policy.
       (let (i, b) = backend in
        Inr [(''schema_version'', VInt 1), (''references'', VDict references), (''requested_by_id'', actor_pk),
             (''backend_id'', VInt i), (''executor_id'', opt_int (br_executor b)),
             (''backend_identity'', VDict [(''url'', VStr (backend_url (br_backend b))),
                (''verify_ssl'', VBool (rb_verify_ssl (br_backend b))),
                (''auth_header_name'', VStr (rb_auth_header_name (br_backend b))), (''revision'', VStr (br_revision b))]),
             (''target'', VDict [(''object_type'', VStr label), (''object_id'', VInt target_id), (''revision'', VStr revision)]),
             (''procedure_id'', VInt (proc_pk p)),
             (''procedure_policy_sha256'', VStr (canonical_hash rt (VDict policy))),
             (''params_sha256'', VStr (canonical_hash rt stored_params))]))))"


section \<open>Provider identities\<close>

definition PROVIDER_IDENTITY_KEYS :: "string list" where
  "PROVIDER_IDENTITY_KEYS = [''credential_uuid'', ''assignment_id'', ''target'', ''purpose'', ''username'', ''fingerprint'',
     ''credential_type'', ''policy_id'', ''engine_id'', ''engine_identity_sha256'', ''schema_sha256'']"

definition positive_identifier :: "pyval \<Rightarrow> bool" where
  "positive_identifier v = (case v of VInt i \<Rightarrow> 0 < i \<and> i \<le> 9007199254740991 | _ \<Rightarrow> False)"

definition bounded_text :: "pyval \<Rightarrow> bool" where
  "bounded_text v = (case v of VStr s \<Rightarrow> length s \<le> 1024 | _ \<Rightarrow> False)"

definition hex_digest :: "pyval \<Rightarrow> bool" where
  "hex_digest v = (case v of VStr s \<Rightarrow> fullmatch sha256_hex s | _ \<Rightarrow> False)"

text \<open>\<open>str(UUID(v)) == v\<close>. What \<open>UUID\<close> cannot read raises instead; both end the check.\<close>

definition canonical_uuid :: "pyval \<Rightarrow> bool" where
  "canonical_uuid v = (case v of VStr s \<Rightarrow> fullmatch CANONICAL_UUID s | _ \<Rightarrow> False)"

definition validated_provider_identity :: "pyval \<Rightarrow> CredentialReferenceV1 \<Rightarrow> handler_error + pyval" where
  "validated_provider_identity value ref = (case value of
       VDict d \<Rightarrow> rbind (require (
           set (map fst d) = set PROVIDER_IDENTITY_KEYS
         \<and> py_eq (dget d ''target'') (dget (to_mapping ref) ''target'')
         \<and> (case dget d ''target'' of VDict t \<Rightarrow> exact_int (dget t ''object_id'') | _ \<Rightarrow> False)
         \<and> py_eq (dget d ''purpose'') (cr_purpose ref)
         \<and> list_all (\<lambda>k. positive_identifier (dget d k)) [''assignment_id'', ''policy_id'', ''engine_id'']
         \<and> list_all (\<lambda>k. bounded_text (dget d k)) [''username'', ''fingerprint'', ''credential_type'']
         \<and> list_all (\<lambda>k. hex_digest (dget d k)) [''engine_identity_sha256'', ''schema_sha256'']
         \<and> canonical_uuid (dget d ''credential_uuid'')
         \<and> (cr_assignment_id ref = VNone \<or> py_eq (cr_assignment_id ref) (dget d ''assignment_id''))
         \<and> (cr_credential_uuid ref = VNone \<or> py_eq (cr_credential_uuid ref) (dget d ''credential_uuid'')))) (\<lambda>_. Inr value)
     | _ \<Rightarrow> Inl denied)"

definition reference_reason :: "rpc_procedure \<Rightarrow> CredentialReferenceV1 \<Rightarrow> string" where
  "reference_reason p ref = ''Execute '' @ proc_name p @ '' using the assigned '' @ py_str (cr_purpose ref) @ '' credential.''"

text \<open>\<open>capture_reference_identity\<close> of the optional provider on a reference and a reason; \<open>None\<close> is any exception.\<close>

type_synonym identity_provider = "CredentialReferenceV1 \<Rightarrow> string \<Rightarrow> pyval option"

definition capture_provider_identities ::
  "python_rt \<Rightarrow> identity_provider \<Rightarrow> rpc_procedure \<Rightarrow> pydict \<Rightarrow> handler_error + pydict" where
  "capture_provider_identities rt provider p references =
     (case rmap (\<lambda>(name, value).
         rbind (reference_error (from_mapping rt value)) (\<lambda>ref.
         rbind (found (provider ref (reference_reason p ref))) (\<lambda>identity.
         rbind (validated_provider_identity identity ref) (\<lambda>v. Inr (name, v))))) references of
        Inl _ \<Rightarrow> Inl denied
      | Inr identities \<Rightarrow> Inr identities)"


section \<open>Creation\<close>

text \<open>The references and the authority that are stored with the new row. The user of the request is \<open>u\<close>.\<close>

definition prepare_reference_execution ::
  "authority_db \<Rightarrow> python_rt \<Rightarrow> identity_provider \<Rightarrow> string \<Rightarrow> actor \<Rightarrow> creation_data \<Rightarrow> pyval \<Rightarrow> handler_error + (pyval \<times> pyval)" where
  "prepare_reference_execution db rt provider uuid4 u cd backend_id =
     (if \<not> truthy (cd_credential_references cd) then Inr (cd_credential_references cd, VDict [])
      else rbind (reference_error (validate_named_references rt (cd_credential_references cd))) (\<lambda>references.
      (case (cd_object_type cd, cd_object_id cd) of
         (Some t, VInt target_id) \<Rightarrow>
           (let label = ctype_app_label t @ ''.'' @ ctype_model t in
            rbind (reference_context db (Some u) (proc_pk (cd_procedure cd)) backend_id label target_id) (\<lambda>(p, backend, revision).
            rbind (snapshot_payload rt p (us_pk (ac_user u)) (VDict references) (cd_params cd) label target_id backend revision) (\<lambda>snapshot.
            rbind (capture_provider_identities rt provider p references) (\<lambda>identities.
            rbind (fresh_execution_permissions db (us_pk (ac_user u)) VNone (proc_pk (cd_procedure cd)) backend_id label target_id) (\<lambda>_.
              Inr (VDict references,
                   VDict (snapshot @ [(''correlation_id'', VStr uuid4), (''provider_identities'', VDict identities)])))))))
       | _ \<Rightarrow> Inl (HandlerRaised AttributeError))))"


section \<open>The worker's checks\<close>

definition authority_dict :: "pyval \<Rightarrow> handler_error + pydict" where
  "authority_dict v = (case v of VDict d \<Rightarrow> Inr d | _ \<Rightarrow> Inl (HandlerRaised TypeError))"

definition requesting_user :: "authority_db \<Rightarrow> aggregate \<Rightarrow> actor option" where
  "requesting_user db a = (case get_user db (requested_by_id (obj (store a))) of Inl _ \<Rightarrow> None | Inr u \<Rightarrow> Some u)"

text \<open>The result has the procedure row that was read again.\<close>

definition current_reference_snapshot ::
  "authority_db \<Rightarrow> python_rt \<Rightarrow> exec_request \<Rightarrow> aggregate \<Rightarrow> handler_error + (exec_request \<times> (int \<times> backend_row) \<times> string)" where
  "current_reference_snapshot db rt rq a =
     rbind (reference_context db (requesting_user db a) (proc_pk (rq_procedure rq)) (rq_backend_id rq) (rq_target_model_label rq)
       (rq_target_id rq)) (\<lambda>(p, backend, revision).
     rbind (snapshot_payload rt p (requested_by_id (obj (store a))) (rq_credential_references rq) (params (obj (store a)))
       (rq_target_model_label rq) (rq_target_id rq) backend revision) (\<lambda>current.
     rbind (authority_dict (rq_credential_authority rq)) (\<lambda>authority.
     rbind (require (case (dget authority ''provider_identities'', dget current ''references'') of
         (VDict identities, VDict references) \<Rightarrow> set (map fst identities) = set (map fst references) | _ \<Rightarrow> False)) (\<lambda>_.
     rbind (require (canonical_uuid (dget authority ''correlation_id''))) (\<lambda>_.
     rbind (case (dget authority ''provider_identities'', dget current ''references'') of
         (VDict identities, VDict references) \<Rightarrow> rmap (\<lambda>(name, value).
             rbind (reference_error (from_mapping rt value)) (\<lambda>ref. validated_provider_identity (dget identities name) ref)) references
       | _ \<Rightarrow> Inr []) (\<lambda>_.
     rbind (require (py_eq (VDict (dict_del ''provider_identities'' (dict_del ''correlation_id'' authority))) (VDict current))) (\<lambda>_.
     rbind (check_execution_permissions db (rq\<lparr>rq_procedure := p\<rparr>) a) (\<lambda>_.
       Inr (rq\<lparr>rq_procedure := p\<rparr>, backend, revision)))))))))"

definition require_reference_backend ::
  "authority_db \<Rightarrow> python_rt \<Rightarrow> exec_request \<Rightarrow> aggregate \<Rightarrow> pyval \<Rightarrow> handler_error + unit" where
  "require_reference_backend db rt rq a selector =
     (if \<not> truthy (rq_credential_references rq) then Inr ()
      else rbind (raised (py_get (rq_credential_authority rq) ''backend_id'')) (\<lambda>frozen.
        rbind (require (py_eq selector frozen)) (\<lambda>_.
        rbind (current_reference_snapshot db rt rq a) (\<lambda>_. Inr ()))))"

text \<open>
  What the remaining checks read: the tables now and at the time of the last permission
  check, the two clock readings, the network and the keys.
\<close>

record authority_env =
  av_db :: authority_db
  av_later :: authority_db
  av_policy :: policy_env
  av_reader :: manifest_reader
  av_network :: backend_network
  av_clock :: int
  av_signature :: ed25519
  av_lease_env :: lease_env
  av_read_lease :: "pyval \<Rightarrow> SignedDispatchLease option"
  av_now :: datetime
  av_later_now :: datetime

abbreviation av_rt :: "authority_env \<Rightarrow> python_rt" where
  "av_rt v \<equiv> pe_rt (av_policy v)"

abbreviation av_tables :: "authority_env \<Rightarrow> contract_tables" where
  "av_tables v \<equiv> pe_tables (av_policy v)"

definition require_reference_dispatch_ready ::
  "authority_env \<Rightarrow> exec_request \<Rightarrow> aggregate \<Rightarrow> backend_target \<Rightarrow> handler_error + unit" where
  "require_reference_dispatch_ready v rq a target =
     (if \<not> truthy (rq_credential_references rq) then Inr ()
      else rbind (current_reference_snapshot (av_db v) (av_rt v) rq a) (\<lambda>(rq', (i, b), _).
        rbind (require (bt_url target = backend_url (br_backend b))) (\<lambda>_.
        rbind (require (bt_verify_ssl target = rb_verify_ssl (br_backend b))) (\<lambda>_.
        rbind (found (fst (fetch_backend_capabilities (av_reader v) (av_network v) (av_clock v) False (Some target) []))) (\<lambda>manifest.
        rbind (raised (verify_procedure_capability (av_rt v) (av_tables v) (rq_procedure rq') (Some manifest))) (\<lambda>st.
        rbind (require (st = COMPATIBLE)) (\<lambda>_.
        rbind (require (1 \<in> set (mf_credential_reference_versions manifest))) (\<lambda>_.
        rbind (require (case map_of (mf_credential_provider_versions manifest) ''netbox-openbao'' of
            None \<Rightarrow> False | Some versions \<Rightarrow> 1 \<in> set versions)) (\<lambda>_.
        rbind (require (1 \<in> set (mf_dispatch_lease_versions manifest))) (\<lambda>_.
        rbind (raised (load_active_signing_key (av_rt v) (av_signature v) (av_lease_env v))) (\<lambda>k.
        rbind (require (k \<noteq> None)) (\<lambda>_.
          check_execution_permissions (av_db v) rq' a))))))))))))"

definition approval_backend_target ::
  "authority_env \<Rightarrow> exec_request \<Rightarrow> backend_target option \<Rightarrow> handler_error + backend_target option" where
  "approval_backend_target v rq given = (case given of
       Some t \<Rightarrow> Inr (Some t)
     | None \<Rightarrow> (case resolve_backend (av_rt v) (pe_backends (av_policy v)) (rq_backend_id rq) of
         Inl _ \<Rightarrow> Inl denied | Inr t \<Rightarrow> Inr t))"

definition approving_user :: "authority_db \<Rightarrow> aggregate \<Rightarrow> actor option" where
  "approving_user db a = (case get_user db (approved_by_id (obj (store a))) of Inl _ \<Rightarrow> None | Inr u \<Rightarrow> Some u)"

definition current_approval ::
  "authority_env \<Rightarrow> exec_request \<Rightarrow> aggregate \<Rightarrow> pydict \<Rightarrow> backend_target option \<Rightarrow> handler_error + string" where
  "current_approval v rq a normalized given =
     (let p = rq_procedure rq; x = obj (store a); approver = approving_user (av_db v) a in
      if \<not> proc_approval_required p \<and> proc_effect p \<noteq> ''destructive'' then
        rbind (require (approved_by_id x = VNone)) (\<lambda>_.
        rbind (check_execution_permissions (av_db v) rq a) (\<lambda>_. Inr []))
      else
        rbind (require (proc_name p \<in> set PROTECTED_APPROVAL_PROCEDURE_NAMES)) (\<lambda>_.
        rbind (require (py_eq (approved_by_id x) (requested_by_id x)
          \<longrightarrow> (case approver of None \<Rightarrow> False | Some u \<Rightarrow> us_superuser (ac_user u)))) (\<lambda>_.
        rbind (active_actor approver ''netbox_rpc.approve_rpcprocedure'') (\<lambda>u.
        rbind (require_protected_procedure_scope p (ac_user u) ''approve'') (\<lambda>_.
        rbind (found (procedure_in_scope (av_db v) u ''view'' (proc_pk p))) (\<lambda>_.
        rbind (found (viewable_target (av_db v) u (rq_target_model_label rq) (rq_target_id rq))) (\<lambda>_.
        rbind (approval_backend_target v rq given) (\<lambda>target.
        rbind (require_current_protected_approval (av_policy v) rq a normalized target) (\<lambda>_.
        rbind (check_execution_permissions (av_db v) rq a) (\<lambda>_.
          case approval a of None \<Rightarrow> Inl DoesNotExist | Some s \<Rightarrow> Inr (ap_payload_hash s)))))))))))"

definition require_reference_approval ::
  "authority_env \<Rightarrow> exec_request \<Rightarrow> aggregate \<Rightarrow> pydict \<Rightarrow> backend_target option \<Rightarrow> handler_error + unit" where
  "require_reference_approval v rq a normalized given =
     (if \<not> truthy (rq_credential_references rq) then Inr ()
      else (case current_approval v rq a normalized given of Inl _ \<Rightarrow> Inl denied | Inr _ \<Rightarrow> Inr ()))"

text \<open>The three stages of \<open>_reference_execution_guard\<close>.\<close>

definition reference_guard ::
  "authority_env \<Rightarrow> exec_request \<Rightarrow> aggregate \<Rightarrow> pyval \<Rightarrow> string \<Rightarrow> backend_target option \<Rightarrow> pydict \<Rightarrow> handler_error + unit" where
  "reference_guard v rq a selector stage target normalized =
     (if stage = ''backend'' then require_reference_backend (av_db v) (av_rt v) rq a selector
      else if stage = ''dispatch'' then
        (case target of None \<Rightarrow> Inl (HandlerRaised AttributeError) | Some t \<Rightarrow> require_reference_dispatch_ready v rq a t)
      else if stage = ''approval'' then require_reference_approval v rq a normalized target
      else Inl (HandlerRaised (KeyError stage)))"


section \<open>Resolving a secret\<close>

definition lease_times :: "python_rt \<Rightarrow> LeaseClaims \<Rightarrow> datetime \<Rightarrow> handler_error + unit" where
  "lease_times rt claims now = (case (fromisoformat (rt_iso rt) (lc_issued_at claims), fromisoformat (rt_iso rt) (lc_expires_at claims)) of
       (Some issued, Some expires) \<Rightarrow> require (dt_offset issued \<noteq> None \<and> dt_offset expires \<noteq> None \<and> dt_offset now \<noteq> None
         \<and> dt_instant issued \<le> dt_instant now \<and> dt_instant now < dt_instant expires
         \<and> 0 < dt_instant expires - dt_instant issued
         \<and> dt_instant expires - dt_instant issued \<le> 1000000 * MAX_REFERENCE_LEASE_SECONDS)
     | _ \<Rightarrow> Inl denied)"

definition check_authorization_lifetime :: "datetime \<Rightarrow> datetime \<Rightarrow> handler_error + unit" where
  "check_authorization_lifetime expires_at now =
     require (dt_offset expires_at \<noteq> None \<and> dt_offset now \<noteq> None \<and> dt_instant now < dt_instant expires_at)"

definition lease_event_data :: "LeaseClaims \<Rightarrow> pydict" where
  "lease_event_data c =
     [(''nonce'', VStr (lc_nonce c)), (''key_id'', VStr (lc_key_id c)), (''key_version'', VInt (lc_key_version c)),
      (''stream_version'', VInt (lc_stream_version c)), (''audience'', VStr (lc_audience c)),
      (''expires_at'', VStr (lc_expires_at c)), (''envelope_version'', VInt (lc_envelope_version c))]"

definition issuance_event :: "event_row list \<Rightarrow> LeaseClaims \<Rightarrow> handler_error + event_row" where
  "issuance_event ledger c =
     (let ordered = sort_key ev_sequence ledger in
      rbind (found (List.find (\<lambda>r. ev_event r = ''DispatchLeaseIssued'' \<and> py_eq (dget (ev_data r) ''nonce'') (VStr (lc_nonce c))) ordered)) (\<lambda>r.
      rbind (require (py_eq (VDict (ev_data r)) (VDict (lease_event_data c)))) (\<lambda>_.
      rbind (require (int (ev_sequence r) = lc_stream_version c + 1)) (\<lambda>_.
      rbind (require (\<not> list_ex (\<lambda>q. ev_sequence q > ev_sequence r) ordered)) (\<lambda>_.
      rbind (require (list_ex (\<lambda>q. int (ev_sequence q) = lc_stream_version c \<and> ev_event q = ''ParametersNormalized'') ordered)) (\<lambda>_.
        Inr r))))))"

text \<open>A maker of expectations: \<open>None\<close> leaves a claim unchecked.\<close>

definition int_of_id :: "pyval \<Rightarrow> int option" where
  "int_of_id v = (case v of VInt i \<Rightarrow> Some i | _ \<Rightarrow> None)"

definition verify_lease ::
  "authority_env \<Rightarrow> exec_request \<Rightarrow> int \<Rightarrow> aggregate \<Rightarrow> SignedDispatchLease \<Rightarrow> event_row \<Rightarrow> handler_error + unit" where
  "verify_lease v rq e a lease event =
     (let x = obj (store a); n = normalized_params x; c = sl_claims lease; rt = av_rt v; p = rq_procedure rq;
          hash = canonical_hash rt (rq_credential_authority rq) in
      rbind (case map_of n ''command_fingerprint'' of None \<Rightarrow> Inr [] | Some (VDict f) \<Rightarrow> Inr f | Some _ \<Rightarrow> Inl (HandlerRaised AttributeError)) (\<lambda>fingerprint.
      rbind (authority_dict (rq_credential_authority rq)) (\<lambda>authority.
      rbind (require (py_eq (dget fingerprint ''credential_authority_sha256'') (VStr hash))) (\<lambda>_.
      rbind (raised (py_index (VDict authority) ''references'')) (\<lambda>frozen.
      rbind (require (py_eq (dget n ''credential_references'') frozen)) (\<lambda>_.
      rbind (require (py_eq (opt_int (lc_approved_by_id c)) (approved_by_id x))) (\<lambda>_.
      rbind (raised (py_index (VDict authority) ''correlation_id'')) (\<lambda>correlation.
      rbind (require (py_eq (VStr (lc_trace_id c)) correlation)) (\<lambda>_.
      rbind (raised (load_verifier_public_keys rt (av_signature v) (av_lease_env v))) (\<lambda>keys.
      rbind (raised (derive_command_contract_hash rt (av_tables v) p)) (\<lambda>contract_hash.
      rbind (raised (verify_dispatch_lease rt (av_signature v) keys
          (py_str (py_or (case plugin_setting (av_lease_env v) ''dispatch_lease_audience'' of None \<Rightarrow> VNone | Some s \<Rightarrow> s) (VStr DEFAULT_AUDIENCE)))
          (av_now v)
          \<lparr>ex_execution_id = Some e, ex_stream_version = Some (int (ev_sequence event) - 1), ex_contract_hash = Some contract_hash,
           ex_handler_id = Some (proc_handler_id p), ex_handler_version = Some (proc_version p), ex_effect = Some (proc_effect p),
           ex_target_snapshot_hash = Some (str_or (dget fingerprint ''target_object_sha256'') []),
           ex_params_fingerprint = Some (canonical_hash rt (VDict fingerprint)),
           ex_credential_policy = Some (''credential-authority:'' @ hash),
           ex_requested_by_id = int_of_id (requested_by_id x), ex_approved_by_id = int_of_id (approved_by_id x),
           ex_seen_nonces = None\<rparr> lease)) (\<lambda>result.
        require (lv_status result = VALID)))))))))))))"

record SecretResolutionAuthorization =
  sa_initiating_actor :: pyval
  sa_executor_id :: int
  sa_execution_id :: int
  sa_stream_version :: int
  sa_target :: "string \<times> int"
  sa_reference :: CredentialReferenceV1
  sa_reference_name :: string
  sa_dispatch_nonce :: string
  sa_correlation_id :: pyval
  sa_approval_snapshot_hash :: string
  sa_reason :: string
  sa_provider_identity :: pyval
  sa_expires_at :: datetime
  sa_procedure_id :: int
  sa_backend_id :: pyval
  sa_approved_by_id :: pyval

text \<open>Any exception of the check becomes the denial.\<close>

definition check_authorization_permissions :: "authority_db \<Rightarrow> SecretResolutionAuthorization \<Rightarrow> handler_error + unit" where
  "check_authorization_permissions db auth =
     (case rbind (get_user db (VInt (sa_executor_id auth))) (\<lambda>executor.
         rbind (require (ac_active executor \<and> ac_authenticated executor)) (\<lambda>_.
         fresh_execution_permissions db (sa_initiating_actor auth) (sa_approved_by_id auth) (sa_procedure_id auth)
           (sa_backend_id auth) (fst (sa_target auth)) (snd (sa_target auth)))) of
        Inl _ \<Rightarrow> Inl denied | Inr _ \<Rightarrow> Inr ())"

definition resolve_secret ::
  "authority_env \<Rightarrow> exec_request \<Rightarrow> int \<Rightarrow> aggregate \<Rightarrow> pyval \<Rightarrow> pyval \<Rightarrow> string \<Rightarrow> handler_error + SecretResolutionAuthorization" where
  "resolve_secret v rq e a body executor_pk name =
     (let x = obj (store a); db = av_db v in
      rbind (get_user db (requested_by_id x)) (\<lambda>requester.
      rbind (if truthy (approved_by_id x) then rbind (get_user db (approved_by_id x)) (\<lambda>_. Inr ()) else Inr ()) (\<lambda>_.
      rbind (get_user db executor_pk) (\<lambda>executor.
      rbind (require (status x = RUNNING)) (\<lambda>_.
      rbind (current_reference_snapshot db (av_rt v) rq a) (\<lambda>(rq', (i, b), _).
      rbind (require (ac_authenticated executor \<and> ac_active executor)) (\<lambda>_.
      rbind (require (py_eq executor_pk (opt_int (br_executor b)))) (\<lambda>_.
      rbind (require (\<not> py_eq executor_pk (requested_by_id x))) (\<lambda>_.
      rbind (raised (py_index (rq_credential_references rq) name)) (\<lambda>value.
      rbind (reference_error (from_mapping (av_rt v) value)) (\<lambda>ref.
      rbind (found (av_read_lease v body)) (\<lambda>lease.
      rbind (lease_times (av_rt v) (sl_claims lease) (av_now v)) (\<lambda>_.
      rbind (issuance_event (events (store a)) (sl_claims lease)) (\<lambda>event.
      rbind (verify_lease v rq' e a lease event) (\<lambda>_.
      rbind (current_approval v rq' a (normalized_params x) None) (\<lambda>approval_hash.
      rbind (authority_dict (rq_credential_authority rq)) (\<lambda>authority.
      rbind (raised (py_index (dget authority ''provider_identities'') name)) (\<lambda>identity.
      rbind (found (br_executor b)) (\<lambda>executor_id.
      rbind (found (fromisoformat (rt_iso (av_rt v)) (lc_expires_at (sl_claims lease)))) (\<lambda>expires_at.
      (let auth = \<lparr>sa_initiating_actor = requested_by_id x, sa_executor_id = executor_id, sa_execution_id = e,
            sa_stream_version = lc_stream_version (sl_claims lease), sa_target = (rq_target_model_label rq, rq_target_id rq),
            sa_reference = ref, sa_reference_name = name, sa_dispatch_nonce = lc_nonce (sl_claims lease),
            sa_correlation_id = dget authority ''correlation_id'', sa_approval_snapshot_hash = approval_hash,
            sa_reason = reference_reason (rq_procedure rq') ref, sa_provider_identity = identity, sa_expires_at = expires_at,
            sa_procedure_id = proc_pk (rq_procedure rq'), sa_backend_id = rq_backend_id rq, sa_approved_by_id = approved_by_id x\<rparr> in
       rbind (check_authorization_permissions (av_later v) auth) (\<lambda>_.
       rbind (check_authorization_lifetime expires_at (av_later_now v)) (\<lambda>_. Inr auth)))))))))))))))))))))))"

text \<open>The row is read again under the lock; a step identifier is refused; every failure is the denial.\<close>

definition validate_secret_resolution_dispatch ::
  "authority_env \<Rightarrow> exec_request \<Rightarrow> int \<Rightarrow> aggregate option \<Rightarrow> pyval \<Rightarrow> pyval \<Rightarrow> string \<Rightarrow> string option
     \<Rightarrow> handler_error + SecretResolutionAuthorization" where
  "validate_secret_resolution_dispatch v rq e stored body executor_pk name step_id =
     (case rbind (require (step_id = None \<or> step_id = Some [])) (\<lambda>_.
         case stored of None \<Rightarrow> Inl DoesNotExist
         | Some a \<Rightarrow> resolve_secret v rq e (locked_aggregate a) body executor_pk name) of
        Inl _ \<Rightarrow> Inl denied | Inr auth \<Rightarrow> Inr auth)"

end
