(* ===== verification/CredentialAuthorityProps.thy ===== *)
theory CredentialAuthorityProps
  imports CredentialAuthority DispatchProps DispatchLeaseProps
begin

text \<open>
  What the credential authority guarantees: a secret is resolved only for the executor of the
  selected backend, during a dispatch that is signed, recorded and short, by an authority
  that still equals the one frozen at creation.
\<close>

section \<open>Eliminating the checks\<close>

lemma found_Inr_iff [simp, result_simps]: "found x = Inr v \<longleftrightarrow> x = Some v"
  by (auto simp: found_def split: option.splits)

lemma active_actor_Inr_iff [result_simps]:
  "active_actor u perm = Inr a \<longleftrightarrow> u = Some a \<and> ac_active a \<and> has_perm (ac_user a) perm"
  by (auto simp: active_actor_def rbind_Inr_iff split: option.splits)

lemma get_user_Inr_iff [result_simps]:
  "get_user db i = Inr u \<longleftrightarrow> (\<exists>n. i = VInt n \<and> map_of (au_users db) n = Some u)"
  by (auto simp: get_user_def split: pyval.splits option.splits)

text \<open>The current right to run a procedure on a target through a backend.\<close>

definition may_execute :: "authority_db \<Rightarrow> pyval \<Rightarrow> int \<Rightarrow> pyval \<Rightarrow> string \<Rightarrow> int \<Rightarrow> bool" where
  "may_execute db who procedure_id backend_id label target_id \<longleftrightarrow> (\<exists>u. get_user db who = Inr u \<and> ac_active u
     \<and> has_perm (ac_user u) ''netbox_rpc.execute_rpcprocedure'' \<and> procedure_in_scope db u ''execute'' procedure_id \<noteq> None
     \<and> procedure_in_scope db u ''view'' procedure_id \<noteq> None \<and> viewable_backend db u backend_id \<noteq> None
     \<and> viewable_target db u label target_id \<noteq> None)"

definition may_approve :: "authority_db \<Rightarrow> pyval \<Rightarrow> int \<Rightarrow> string \<Rightarrow> int \<Rightarrow> bool" where
  "may_approve db who procedure_id label target_id \<longleftrightarrow> (\<exists>u. get_user db who = Inr u \<and> ac_active u
     \<and> has_perm (ac_user u) ''netbox_rpc.approve_rpcprocedure'' \<and> procedure_in_scope db u ''approve'' procedure_id \<noteq> None
     \<and> viewable_target db u label target_id \<noteq> None)"

lemma fresh_permissions:
  "fresh_execution_permissions db who approver p b label t = Inr u \<longleftrightarrow>
     may_execute db who p b label t \<and> (approver \<noteq> VNone \<longrightarrow> (\<exists>w. get_user db approver = Inr w
       \<and> ac_active w \<and> has_perm (ac_user w) ''netbox_rpc.approve_rpcprocedure'' \<and> procedure_in_scope db w ''approve'' p \<noteq> None
       \<and> procedure_in_scope db w ''view'' p \<noteq> None \<and> viewable_target db w label t \<noteq> None))"
  by (auto simp: fresh_execution_permissions_def fresh_rpc_actor_def may_execute_def rbind_Inr_iff active_actor_Inr_iff)

lemma fresh_permissions_approver:
  "fresh_execution_permissions db who approver p b label t = Inr u \<Longrightarrow> approver \<noteq> VNone \<Longrightarrow> may_approve db approver p label t"
  unfolding fresh_permissions may_approve_def by blast

lemma reference_contextE:
  assumes "reference_context db who procedure_id backend_id label target_id = Inr (p, (i, b), revision)"
  obtains u x e where "who = Some u" "ac_active u" "procedure_in_scope db u ''view'' procedure_id = Some p" "proc_enabled p"
    "procedure_in_scope db u ''execute'' (proc_pk p) \<noteq> None" "viewable_backend db u backend_id = Some (i, b)"
    "br_executor b = Some x" "map_of (au_users db) x = Some e" "ac_active e" "au_enabled db" "au_selected_backend db = Some i"
    "viewable_target db u label target_id = Some revision" "label \<in> set (proc_target_models p)"
  using assms
  by (auto simp: reference_context_def rbind_Inr_iff active_actor_Inr_iff split: option.splits prod.splits)

text \<open>What the worker has established when the frozen authority still holds.\<close>

definition authority_holds :: "authority_db \<Rightarrow> python_rt \<Rightarrow> exec_request \<Rightarrow> aggregate \<Rightarrow> rpc_procedure \<Rightarrow> int \<Rightarrow> backend_row \<Rightarrow> bool" where
  "authority_holds db rt rq a p i b \<longleftrightarrow> (\<exists>revision current authority.
     reference_context db (requesting_user db a) (proc_pk (rq_procedure rq)) (rq_backend_id rq) (rq_target_model_label rq) (rq_target_id rq)
       = Inr (p, (i, b), revision)
     \<and> snapshot_payload rt p (requested_by_id (obj (store a))) (rq_credential_references rq) (params (obj (store a)))
         (rq_target_model_label rq) (rq_target_id rq) (i, b) revision = Inr current
     \<and> rq_credential_authority rq = VDict authority
     \<and> py_eq (VDict (dict_del ''provider_identities'' (dict_del ''correlation_id'' authority))) (VDict current)
     \<and> may_execute db (requested_by_id (obj (store a))) (proc_pk p) (rq_backend_id rq) (rq_target_model_label rq) (rq_target_id rq))"

lemma current_snapshot_holds:
  assumes "current_reference_snapshot db rt rq a = Inr (rq', (i, b), revision)"
  shows "authority_holds db rt rq a (rq_procedure rq') i b \<and> rq' = rq\<lparr>rq_procedure := rq_procedure rq'\<rparr>"
proof -
  from assms obtain p authority current where s:
    "reference_context db (requesting_user db a) (proc_pk (rq_procedure rq)) (rq_backend_id rq) (rq_target_model_label rq) (rq_target_id rq)
       = Inr (p, (i, b), revision)"
    "snapshot_payload rt p (requested_by_id (obj (store a))) (rq_credential_references rq) (params (obj (store a)))
         (rq_target_model_label rq) (rq_target_id rq) (i, b) revision = Inr current"
    "authority_dict (rq_credential_authority rq) = Inr authority"
    "py_eq (VDict (dict_del ''provider_identities'' (dict_del ''correlation_id'' authority))) (VDict current)"
    "check_execution_permissions db (rq\<lparr>rq_procedure := p\<rparr>) a = Inr ()" "rq' = rq\<lparr>rq_procedure := p\<rparr>"
    by (auto simp: current_reference_snapshot_def rbind_Inr_iff simp del: py_eq.simps split: prod.splits)
  then show ?thesis
    by (auto simp: authority_holds_def check_execution_permissions_def fresh_permissions authority_dict_def simp del: py_eq.simps split: pyval.splits)
qed


section \<open>Resolving a secret\<close>

lemma issuance_eventD:
  assumes "issuance_event ledger c = Inr r"
  shows "r \<in> set ledger" "ev_event r = ''DispatchLeaseIssued''" "dget (ev_data r) ''nonce'' = VStr (lc_nonce c)"
    "int (ev_sequence r) = lc_stream_version c + 1" "\<forall>q\<in>set ledger. ev_sequence q \<le> ev_sequence r"
    "\<exists>q\<in>set ledger. int (ev_sequence q) = lc_stream_version c \<and> ev_event q = ''ParametersNormalized''"
proof -
  let ?p = "\<lambda>r. ev_event r = ''DispatchLeaseIssued'' \<and> py_eq (dget (ev_data r) ''nonce'') (VStr (lc_nonce c))"
  from assms have f: "List.find ?p (sort_key ev_sequence ledger) = Some r"
    and m: "\<not> list_ex (\<lambda>q. ev_sequence q > ev_sequence r) (sort_key ev_sequence ledger)"
    and n: "list_ex (\<lambda>q. int (ev_sequence q) = lc_stream_version c \<and> ev_event q = ''ParametersNormalized'') (sort_key ev_sequence ledger)"
    and s: "int (ev_sequence r) = lc_stream_version c + 1"
    by (auto simp: issuance_event_def Let_def rbind_Inr_iff simp del: py_eq.simps)
  from find_SomeD [OF f] have "r \<in> set (sort_key ev_sequence ledger) \<and> ?p r" .
  then show "r \<in> set ledger" "ev_event r = ''DispatchLeaseIssued''" "dget (ev_data r) ''nonce'' = VStr (lc_nonce c)" by simp_all
  show "int (ev_sequence r) = lc_stream_version c + 1" by (rule s)
  show "\<forall>q\<in>set ledger. ev_sequence q \<le> ev_sequence r" using m by (auto simp: list_ex_iff not_less)
  show "\<exists>q\<in>set ledger. int (ev_sequence q) = lc_stream_version c \<and> ev_event q = ''ParametersNormalized''" using n by (auto simp: list_ex_iff)
qed

text \<open>A lease signed under a registered key, for one execution and its frozen authority.\<close>

definition signed_for :: "authority_env \<Rightarrow> exec_request \<Rightarrow> int \<Rightarrow> SignedDispatchLease \<Rightarrow> bool" where
  "signed_for v rq e lease \<longleftrightarrow> (\<exists>keys public signature.
     load_verifier_public_keys (av_rt v) (av_signature v) (av_lease_env v) = Inr keys
     \<and> map_of keys (lc_key_id (sl_claims lease), lc_key_version (sl_claims lease)) = Some public
     \<and> b64decode (sl_signature lease) = Some signature
     \<and> ed_verify (av_signature v) public signature (canonical_bytes (sl_claims lease))
     \<and> lc_execution_id (sl_claims lease) = e
     \<and> lc_credential_policy (sl_claims lease) = ''credential-authority:'' @ canonical_hash (av_rt v) (rq_credential_authority rq))"

lemma verify_lease_signed:
  assumes "verify_lease v rq e a lease event = Inr u"
  shows "signed_for v rq e lease"
proof -
  obtain keys audience ex result where k: "load_verifier_public_keys (av_rt v) (av_signature v) (av_lease_env v) = Inr keys"
    and r: "verify_dispatch_lease (av_rt v) (av_signature v) keys audience (av_now v) ex lease = Inr result" "lv_status result = VALID"
    and ex: "ex_execution_id ex = Some e" "ex_credential_policy ex = Some (''credential-authority:'' @ canonical_hash (av_rt v) (rq_credential_authority rq))"
    using assms by (auto simp: verify_lease_def Let_def rbind_Inr_iff simp del: py_eq.simps)
  from verify_lease_valid [THEN iffD1, OF conjI, OF r] verify_times_valid [THEN iffD1, of "av_rt v" "av_now v" ex "sl_claims lease" result]
  have p: "\<exists>public signature. map_of keys (lc_key_id (sl_claims lease), lc_key_version (sl_claims lease)) = Some public
      \<and> b64decode (sl_signature lease) = Some signature \<and> ed_verify (av_signature v) public signature (canonical_bytes (sl_claims lease))"
    and g: "lease_agrees ex (sl_claims lease)" by blast+
  from g ex have "lc_execution_id (sl_claims lease) = e"
    "lc_credential_policy (sl_claims lease) = ''credential-authority:'' @ canonical_hash (av_rt v) (rq_credential_authority rq)"
    by (auto simp: lease_agrees_def)
  with k p show ?thesis by (auto simp: signed_for_def)
qed

lemma resolve_secretE:
  assumes "resolve_secret v rq e a body executor_pk name = Inr auth"
  obtains rq' i b revision executor val ref lease event approval_hash authority identity executor_id expires_at where
    "status (obj (store a)) = RUNNING" "current_reference_snapshot (av_db v) (av_rt v) rq a = Inr (rq', (i, b), revision)"
    "get_user (av_db v) executor_pk = Inr executor" "ac_authenticated executor" "ac_active executor"
    "br_executor b = Some executor_id" "executor_pk = VInt executor_id" "\<not> py_eq executor_pk (requested_by_id (obj (store a)))"
    "py_index (rq_credential_references rq) name = Inr val" "from_mapping (av_rt v) val = Inr ref"
    "av_read_lease v body = Some lease" "lease_times (av_rt v) (sl_claims lease) (av_now v) = Inr ()"
    "issuance_event (events (store a)) (sl_claims lease) = Inr event" "verify_lease v rq' e a lease event = Inr ()"
    "current_approval v rq' a (normalized_params (obj (store a))) None = Inr approval_hash"
    "rq_credential_authority rq = VDict authority" "py_index (dget authority ''provider_identities'') name = Inr identity"
    "fromisoformat (rt_iso (av_rt v)) (lc_expires_at (sl_claims lease)) = Some expires_at"
    "auth = \<lparr>sa_initiating_actor = requested_by_id (obj (store a)), sa_executor_id = executor_id, sa_execution_id = e,
        sa_stream_version = lc_stream_version (sl_claims lease), sa_target = (rq_target_model_label rq, rq_target_id rq),
        sa_reference = ref, sa_reference_name = name, sa_dispatch_nonce = lc_nonce (sl_claims lease),
        sa_correlation_id = dget authority ''correlation_id'', sa_approval_snapshot_hash = approval_hash,
        sa_reason = reference_reason (rq_procedure rq') ref, sa_provider_identity = identity, sa_expires_at = expires_at,
        sa_procedure_id = proc_pk (rq_procedure rq'), sa_backend_id = rq_backend_id rq, sa_approved_by_id = approved_by_id (obj (store a))\<rparr>"
    "check_authorization_permissions (av_later v) auth = Inr ()" "check_authorization_lifetime expires_at (av_later_now v) = Inr ()"
proof -
  have e: "py_eq w (opt_int o') \<longleftrightarrow> w = VInt n" if "get_user db w = Inr u" "o' = Some n" for db w o' u n
    using that by (auto simp: get_user_Inr_iff opt_int_def)
  have r: "reference_error m = Inr x \<longleftrightarrow> m = Inr x" for m :: "credential_error + CredentialReferenceV1" and x
    by (cases m) (auto simp: reference_error_def)
  have d: "authority_dict w = Inr x \<longleftrightarrow> w = VDict x" for w x by (cases w) (auto simp: authority_dict_def)
  have i: "map_sum HandlerRaised id m = Inr x \<longleftrightarrow> m = Inr x" for m :: "pyexc + pyval" and x by (cases m) auto
  show thesis
    using assms e
    unfolding resolve_secret_def Let_def rbind_Inr_iff guard_Inr_iff found_Inr_iff r d i split_paired_Ex case_prod_conv
    by (elim exE conjE) (rule that; auto)
qed


lemma resolvedE:
  assumes "validate_secret_resolution_dispatch v rq e stored body executor_pk name step_id = Inr auth"
  obtains a where "stored = Some a" "resolve_secret v rq e (locked_aggregate a) body executor_pk name = Inr auth"
  using assms by (auto simp: validate_secret_resolution_dispatch_def rbind_Inr_iff split: sum.splits option.splits)

lemma locked_simps [simp]:
  "status (obj (store (locked_aggregate a))) = status (row (store a))"
  "events (store (locked_aggregate a)) = events (store a)" "requested_by_id (obj (store (locked_aggregate a))) = requested_by_id (obj (store a))"
  "approval (locked_aggregate a) = approval a"
  by (cases "obj (store a)"; simp add: locked_aggregate_def locked_store_def from_execution_def ProjectionState.defs)+


text \<open>
  Only the executor of the backend gets a secret. The caller is an active user, the
  executor identity of the backend that is selected in the settings and that the execution
  is bound to, and is not the requester. The tables still agree with the authority frozen at
  creation, and at the end the requester still holds every permission to execute, as does
  the approver, if there is one, to approve.
\<close>

theorem secret_only_for_backend_executor:
  assumes "validate_secret_resolution_dispatch v rq e stored body executor_pk name step_id = Inr auth"
  shows "\<exists>a p i b. stored = Some a \<and> authority_holds (av_db v) (av_rt v) rq (locked_aggregate a) p i b
    \<and> executor_pk = opt_int (br_executor b) \<and> executor_pk = VInt (sa_executor_id auth)
    \<and> executor_pk \<noteq> requested_by_id (obj (store a))
    \<and> may_execute (av_later v) (requested_by_id (obj (store a))) (proc_pk p) (rq_backend_id rq) (rq_target_model_label rq) (rq_target_id rq)
    \<and> (approved_by_id (obj (store (locked_aggregate a))) \<noteq> VNone \<longrightarrow>
        may_approve (av_later v) (approved_by_id (obj (store (locked_aggregate a)))) (proc_pk p) (rq_target_model_label rq) (rq_target_id rq))"
proof -
  from assms obtain a where a: "stored = Some a" "resolve_secret v rq e (locked_aggregate a) body executor_pk name = Inr auth"
    by (rule resolvedE)
  from a(2) show ?thesis
  proof (cases rule: resolve_secretE)
    case (1 rq' i b revision executor val ref lease event approval_hash authority identity executor_id expires_at)
    let ?x = "obj (store (locked_aggregate a))"
    from current_snapshot_holds [OF 1(2)] have h: "authority_holds (av_db v) (av_rt v) rq (locked_aggregate a) (rq_procedure rq') i b" ..
    from 1(20) have "fresh_execution_permissions (av_later v) (requested_by_id ?x) (approved_by_id ?x) (proc_pk (rq_procedure rq'))
        (rq_backend_id rq) (rq_target_model_label rq) (rq_target_id rq) = Inr ()"
      unfolding check_authorization_permissions_def 1(19) by (auto simp: rbind_Inr_iff split: sum.splits)
    then have "may_execute (av_later v) (requested_by_id (obj (store a))) (proc_pk (rq_procedure rq')) (rq_backend_id rq) (rq_target_model_label rq) (rq_target_id rq)"
      "approved_by_id ?x \<noteq> VNone \<Longrightarrow> may_approve (av_later v) (approved_by_id ?x) (proc_pk (rq_procedure rq')) (rq_target_model_label rq) (rq_target_id rq)"
      using fresh_permissions_approver by (simp_all add: fresh_permissions)
    moreover have "executor_pk \<noteq> requested_by_id (obj (store a))" using 1(7,8) by (cases "requested_by_id (obj (store a))") auto
    ultimately show ?thesis
      using a(1) h 1(6,7,19) by (intro exI [of _ a] exI [of _ "rq_procedure rq'"] exI [of _ i] exI [of _ b]) (auto simp: opt_int_def)
  qed
qed

text \<open>
  An authorization is short. The lease was issued at most five minutes before it expires,
  the decision was made within that time, and so was the last check before the secret is
  handed over.
\<close>

theorem secret_authorization_is_short:
  assumes "validate_secret_resolution_dispatch v rq e stored body executor_pk name step_id = Inr auth"
  shows "\<exists>lease issued. av_read_lease v body = Some lease \<and> fromisoformat (rt_iso (av_rt v)) (lc_issued_at (sl_claims lease)) = Some issued
    \<and> dt_instant issued \<le> dt_instant (av_now v) \<and> dt_instant (av_now v) < dt_instant (sa_expires_at auth)
    \<and> dt_instant (av_later_now v) < dt_instant (sa_expires_at auth)
    \<and> dt_instant (sa_expires_at auth) \<le> dt_instant issued + 300 * 1000000"
proof -
  from assms obtain a where a: "stored = Some a" "resolve_secret v rq e (locked_aggregate a) body executor_pk name = Inr auth"
    by (rule resolvedE)
  from a(2) show ?thesis
  proof (cases rule: resolve_secretE)
    case (1 rq' i b revision executor val ref lease event approval_hash authority identity executor_id expires_at)
    then show ?thesis
      by (auto simp: lease_times_def check_authorization_lifetime_def MAX_REFERENCE_LEASE_SECONDS_def split: option.splits)
  qed
qed


section \<open>The frozen authority\<close>

lemma snapshot_payloadE:
  assumes "snapshot_payload rt p who refs ps label target_id (i, b) revision = Inr d"
  obtains references policy where "validate_named_references rt refs = Inr references" "targets_agree label target_id references = Inr ()"
    "procedure_policy_payload p = Inr policy" "dget d ''references'' = VDict references"
    "dget d ''procedure_policy_sha256'' = VStr (canonical_hash rt (VDict policy))" "dget d ''params_sha256'' = VStr (canonical_hash rt ps)"
    "dget d ''backend_id'' = VInt i" "dget d ''executor_id'' = opt_int (br_executor b)" "dget d ''requested_by_id'' = who"
    "map fst d = [''schema_version'', ''references'', ''requested_by_id'', ''backend_id'', ''executor_id'', ''backend_identity'', ''target'',
       ''procedure_id'', ''procedure_policy_sha256'', ''params_sha256'']"
proof -
  have r: "reference_error m = Inr x \<longleftrightarrow> m = Inr x" for m :: "credential_error + pydict" and x
    by (cases m) (auto simp: reference_error_def)
  have i: "map_sum HandlerRaised id m = Inr x \<longleftrightarrow> m = Inr x" for m :: "pyexc + pydict" and x by (cases m) auto
  show thesis using assms that unfolding snapshot_payload_def rbind_Inr_iff r i by (auto simp: dget_def)
qed

lemma py_eq_dictD:
  assumes "py_eq (VDict d) (VDict e)" "map_of d k = Some v"
  shows "py_eq v (dget e k)"
proof -
  from assms(2) have "(k, v) \<in> set d" by (rule map_of_SomeD)
  with assms(1) show ?thesis by (auto simp: list_all_iff dget_def split: option.splits)
qed

lemma authority_field:
  assumes "authority_holds db rt rq a p i b" "rq_credential_authority rq = VDict authority"
    "k \<notin> {''provider_identities'', ''correlation_id''}" "map_of authority k = Some v"
  shows "\<exists>revision current. snapshot_payload rt p (requested_by_id (obj (store a))) (rq_credential_references rq) (params (obj (store a)))
         (rq_target_model_label rq) (rq_target_id rq) (i, b) revision = Inr current \<and> py_eq v (dget current k)"
proof -
  from assms(1,2) obtain revision current where c: "snapshot_payload rt p (requested_by_id (obj (store a))) (rq_credential_references rq)
      (params (obj (store a))) (rq_target_model_label rq) (rq_target_id rq) (i, b) revision = Inr current"
    "py_eq (VDict (dict_del ''provider_identities'' (dict_del ''correlation_id'' authority))) (VDict current)"
    by (auto simp: authority_holds_def simp del: py_eq.simps)
  have "map_of (dict_del ''provider_identities'' (dict_del ''correlation_id'' authority)) k = Some v" using assms(3,4) by simp
  from py_eq_dictD [OF c(2) this] c(1) show ?thesis by blast
qed

lemma policy_payload_fields:
  assumes "procedure_policy_payload p = Inr d"
  shows "distinct (map fst d)" "map_of d ''name'' = Some (VStr (proc_name p))" "map_of d ''approval_required'' = Some (VBool (proc_approval_required p))"
    "map_of d ''timeout_seconds'' = Some (VInt (proc_timeout_seconds p))" "map_of d ''params_schema'' = Some (proc_params_schema p)"
    "map_of d ''result_schema'' = Some (proc_result_schema p)" "map_of d ''target_models'' = Some (strings (proc_target_models p))"
  using assms by (auto simp: procedure_policy_payload_def rbind_Inr_iff)

lemma strings_sorted: "key_sorted (strings ss) = strings ss"
  by (simp add: strings_def comp_def)

lemma strings_inject: "strings ss = strings ts \<longleftrightarrow> ss = ts"
  by (simp add: strings_def inj_map_eq_map inj_def)


lemma rmap_total: "(\<And>x. x \<in> set xs \<Longrightarrow> \<exists>y. f x = Inr y) \<Longrightarrow> \<exists>ys. rmap f xs = Inr ys"
proof (induction xs)
  case (Cons x xs)
  then obtain y ys where "f x = Inr y" "rmap f xs = Inr ys" by (meson list.set_intros)
  then show ?case by simp
qed simp

lemma validated_identity_same: "validated_provider_identity w ref = Inr z \<Longrightarrow> z = w"
  by (cases w) (auto simp: validated_provider_identity_def rbind_Inr_iff simp del: py_eq.simps)

lemma captured_identities:
  assumes "rmap (\<lambda>(name, w). rbind (reference_error (from_mapping rt w)) (\<lambda>ref. rbind (found (provider ref (reference_reason p ref))) (\<lambda>identity.
      rbind (validated_provider_identity identity ref) (\<lambda>z. Inr (name, z))))) refs = Inr ids" "distinct (map fst refs)"
  shows "map fst ids = map fst refs \<and> (\<forall>(name, w)\<in>set refs. \<exists>ref. reference_error (from_mapping rt w) = Inr ref
    \<and> validated_provider_identity (dget ids name) ref = Inr (dget ids name))"
  using assms
proof (induction refs arbitrary: ids)
  case (Cons x refs)
  obtain name w where x: "x = (name, w)" by (cases x)
  from Cons.prems(1) x obtain ref z ids' where s: "reference_error (from_mapping rt w) = Inr ref" "validated_provider_identity z ref = Inr z" "ids = (name, z) # ids'"
    "rmap (\<lambda>(name, w). rbind (reference_error (from_mapping rt w)) (\<lambda>ref. rbind (found (provider ref (reference_reason p ref))) (\<lambda>identity.
      rbind (validated_provider_identity identity ref) (\<lambda>z. Inr (name, z))))) refs = Inr ids'"
    by (auto simp: rbind_Inr_iff dest: validated_identity_same)
  from Cons.prems(2) x have n: "name \<notin> set (map fst refs)" "distinct (map fst refs)" by auto
  from Cons.IH [OF s(4) n(2)] have ih: "map fst ids' = map fst refs" "\<And>m w. (m, w) \<in> set refs \<Longrightarrow> \<exists>ref. reference_error (from_mapping rt w) = Inr ref
    \<and> validated_provider_identity (dget ids' m) ref = Inr (dget ids' m)" by auto
  have "dget ids m = dget ids' m" if "(m, v) \<in> set refs" for m v using that n(1) s(3) by (force simp: dget_def)
  with ih s x show ?case by (auto simp: dget_def)
qed simp

lemma payload_self_equal:
  assumes "snapshot_payload rt p who refs ps label target_id (i, b) revision = Inr d" "validate_named_references rt refs = Inr named"
    "py_eq (VDict named) (VDict named)" "py_eq who who"
  shows "py_eq (VDict d) (VDict d)"
proof -
  have r: "reference_error m = Inr x \<longleftrightarrow> m = Inr x" for m :: "credential_error + pydict" and x
    by (cases m) (auto simp: reference_error_def)
  from assms(1,2) show ?thesis
    unfolding snapshot_payload_def rbind_Inr_iff r using assms(3,4) by (auto simp: opt_int_def split: option.splits)
qed

text \<open>An execution row that stores what was prepared.\<close>

definition stores_prepared :: "actor \<Rightarrow> creation_data \<Rightarrow> pyval \<Rightarrow> pyval \<Rightarrow> pyval \<Rightarrow> exec_request \<Rightarrow> aggregate \<Rightarrow> bool" where
  "stores_prepared u cd backend_id refs authority rq a \<longleftrightarrow> (\<exists>t. cd_object_type cd = Some t \<and> cd_object_id cd = VInt (rq_target_id rq)
     \<and> rq_target_model_label rq = ctype_app_label t @ ''.'' @ ctype_model t) \<and> proc_pk (rq_procedure rq) = proc_pk (cd_procedure cd)
     \<and> rq_backend_id rq = backend_id \<and> rq_credential_references rq = refs \<and> rq_credential_authority rq = authority
     \<and> requested_by_id (obj (store a)) = us_pk (ac_user u) \<and> approved_by_id (obj (store a)) = VNone \<and> params (obj (store a)) = cd_params cd"

lemma preparedE:
  assumes "prepare_reference_execution db rt provider uuid4 u cd backend_id = Inr (refs, authority)" "truthy (cd_credential_references cd)"
    "stores_prepared u cd backend_id refs authority rq a"
  obtains named p i b revision snapshot ids where "validate_named_references rt (cd_credential_references cd) = Inr named" "refs = VDict named"
    "reference_context db (Some u) (proc_pk (rq_procedure rq)) backend_id (rq_target_model_label rq) (rq_target_id rq) = Inr (p, (i, b), revision)"
    "snapshot_payload rt p (us_pk (ac_user u)) (VDict named) (cd_params cd) (rq_target_model_label rq) (rq_target_id rq) (i, b) revision = Inr snapshot"
    "capture_provider_identities rt provider p named = Inr ids"
    "fresh_execution_permissions db (us_pk (ac_user u)) VNone (proc_pk (rq_procedure rq)) backend_id (rq_target_model_label rq) (rq_target_id rq) = Inr ()"
    "authority = VDict (snapshot @ [(''correlation_id'', VStr uuid4), (''provider_identities'', VDict ids)])"
proof -
  have r: "reference_error m = Inr x \<longleftrightarrow> m = Inr x" for m :: "credential_error + pydict" and x
    by (cases m) (auto simp: reference_error_def)
  from assms(3) obtain t where t: "cd_object_type cd = Some t" "cd_object_id cd = VInt (rq_target_id rq)"
    "rq_target_model_label rq = ctype_app_label t @ ''.'' @ ctype_model t" "proc_pk (rq_procedure rq) = proc_pk (cd_procedure cd)"
    by (auto simp: stores_prepared_def)
  from assms(1,2) t(1,2) obtain named p i b revision snapshot ids where
    "validate_named_references rt (cd_credential_references cd) = Inr named" "refs = VDict named"
    "reference_context db (Some u) (proc_pk (cd_procedure cd)) backend_id (ctype_app_label t @ ''.'' @ ctype_model t) (rq_target_id rq) = Inr (p, (i, b), revision)"
    "snapshot_payload rt p (us_pk (ac_user u)) (VDict named) (cd_params cd) (ctype_app_label t @ ''.'' @ ctype_model t) (rq_target_id rq) (i, b) revision = Inr snapshot"
    "capture_provider_identities rt provider p named = Inr ids"
    "fresh_execution_permissions db (us_pk (ac_user u)) VNone (proc_pk (cd_procedure cd)) backend_id (ctype_app_label t @ ''.'' @ ctype_model t) (rq_target_id rq) = Inr ()"
    "authority = VDict (snapshot @ [(''correlation_id'', VStr uuid4), (''provider_identities'', VDict ids)])"
    unfolding prepare_reference_execution_def by (auto simp: rbind_Inr_iff r Let_def)
  then show thesis by (intro that) (simp_all add: t)
qed

lemma frozen_current:
  assumes "prepare_reference_execution db rt provider uuid4 u cd backend_id = Inr (VDict named, authority)" "truthy (cd_credential_references cd)"
    "stores_prepared u cd backend_id (VDict named) authority rq a"
    "get_user db (us_pk (ac_user u)) = Inr u" "fullmatch CANONICAL_UUID uuid4"
    "validate_named_references rt (VDict named) = Inr named" "distinct (map fst named)" "py_eq (VDict named) (VDict named)"
    "\<And>i p. map_of (au_procedures db) i = Some p \<Longrightarrow> proc_pk p = i"
  shows "\<exists>p i b revision. reference_context db (Some u) (proc_pk (rq_procedure rq)) backend_id (rq_target_model_label rq) (rq_target_id rq) = Inr (p, (i, b), revision)
    \<and> current_reference_snapshot db rt rq a = Inr (rq\<lparr>rq_procedure := p\<rparr>, (i, b), revision) \<and> backend_id = VInt i
    \<and> py_get authority ''backend_id'' = Inr (VInt i)"
proof -
  from assms(1-3) obtain p i b revision snapshot ids where pr:
    "reference_context db (Some u) (proc_pk (rq_procedure rq)) backend_id (rq_target_model_label rq) (rq_target_id rq) = Inr (p, (i, b), revision)"
    "snapshot_payload rt p (us_pk (ac_user u)) (VDict named) (cd_params cd) (rq_target_model_label rq) (rq_target_id rq) (i, b) revision = Inr snapshot"
    "capture_provider_identities rt provider p named = Inr ids"
    "fresh_execution_permissions db (us_pk (ac_user u)) VNone (proc_pk (rq_procedure rq)) backend_id (rq_target_model_label rq) (rq_target_id rq) = Inr ()"
    "authority = VDict (snapshot @ [(''correlation_id'', VStr uuid4), (''provider_identities'', VDict ids)])"
    by (cases rule: preparedE) auto
  let ?au = "snapshot @ [(''correlation_id'', VStr uuid4), (''provider_identities'', VDict ids)]"
  from assms(3) have st: "rq_backend_id rq = backend_id" "rq_credential_references rq = VDict named" "rq_credential_authority rq = VDict ?au"
    "requested_by_id (obj (store a)) = us_pk (ac_user u)" "approved_by_id (obj (store a)) = VNone" "params (obj (store a)) = cd_params cd"
    using pr(5) by (auto simp: stores_prepared_def)
  from pr(1) obtain v: "procedure_in_scope db u ''view'' (proc_pk (rq_procedure rq)) = Some p" "viewable_backend db u backend_id = Some (i, b)"
    by (rule reference_contextE) simp
  have pk: "proc_pk p = proc_pk (rq_procedure rq)" using v(1) assms(9) by (auto simp: procedure_in_scope_def split: if_splits)
  have bi: "backend_id = VInt i" using v(2) by (auto simp: viewable_backend_def split: pyval.splits if_splits)
  obtain n where n: "us_pk (ac_user u) = VInt n" using assms(4) by (auto simp: get_user_Inr_iff)
  have k: "dget snapshot ''references'' = VDict named" "dget snapshot ''backend_id'' = VInt i"
    "map fst snapshot = [''schema_version'', ''references'', ''requested_by_id'', ''backend_id'', ''executor_id'', ''backend_identity'', ''target'',
       ''procedure_id'', ''procedure_policy_sha256'', ''params_sha256'']"
    by (rule snapshot_payloadE [OF pr(2)]; use assms(6) in simp)+
  then have no: "map_of snapshot ''correlation_id'' = None" "map_of snapshot ''provider_identities'' = None"
    by (simp_all add: map_of_eq_None_iff flip: set_map)
  have look: "dget ?au ''correlation_id'' = VStr uuid4" "dget ?au ''provider_identities'' = VDict ids" "dget ?au ''backend_id'' = VInt i"
    using no k(2) by (auto simp: dget_def map_add_def split: option.splits)
  have del: "dict_del ''provider_identities'' (dict_del ''correlation_id'' ?au) = snapshot"
    using k(3) by (auto simp: dict_del_def filter_id_conv intro!: filter_True)
  have self: "py_eq (VDict snapshot) (VDict snapshot)" using payload_self_equal [OF pr(2) assms(6,8)] n by simp
  from pr(3) have "map fst ids = map fst named \<and> (\<forall>(name, w)\<in>set named. \<exists>ref. reference_error (from_mapping rt w) = Inr ref
      \<and> validated_provider_identity (dget ids name) ref = Inr (dget ids name))"
    by (intro captured_identities [OF _ assms(7)]) (auto simp: capture_provider_identities_def split: sum.splits)
  then have ids: "map fst ids = map fst named" "\<exists>zs. rmap (\<lambda>(name, w). rbind (reference_error (from_mapping rt w)) (\<lambda>ref.
      validated_provider_identity (dget ids name) ref)) named = Inr zs" by (auto intro!: rmap_total)
  have perm: "check_execution_permissions db (rq\<lparr>rq_procedure := p\<rparr>) a = Inr ()" using pr(4) st pk by (simp add: check_execution_permissions_def)
  have who: "requesting_user db a = Some u" using assms(4) st(4) by (simp add: requesting_user_def)
  have "current_reference_snapshot db rt rq a = Inr (rq\<lparr>rq_procedure := p\<rparr>, (i, b), revision)"
    using pr(1,2) st ids perm who look del self k(1) assms(5)
    by (auto simp: current_reference_snapshot_def authority_dict_def canonical_uuid_def set_map [symmetric] simp del: py_eq.simps set_map)
  then show ?thesis using pr(1,5) look(3) bi by (simp add: py_get_def)
qed



section \<open>A run with references\<close>

text \<open>
  With references, a backend is called only under the frozen authority. If a run of the
  worker, guarded by this authority, calls a backend for an execution with credential
  references, the frozen authority still holds, the called address and TLS policy are those of
  the frozen backend, its manifest supports references and leases, and the call carries a
  signed lease; if the procedure needs an approval, it is a protected one and its approver
  still holds the right to approve it.
\<close>

lemma reference_call_needs_frozen_authority:
  assumes "(t, lease, n) \<in> set (rr_calls (run_execution d rq e bpk w))" "truthy (rq_credential_references rq)"
    "\<And>a0 a selector. execs w e = Some a0 \<Longrightarrow> claim_if_procedure_enabled d rq (locked_aggregate a0) = Inr a
       \<Longrightarrow> select_backend d rq bpk = Inr selector \<Longrightarrow> de_reference_guard d = reference_guard v rq a selector"
  shows "lease \<noteq> None \<and> (\<exists>a p i b m. authority_holds (av_db v) (av_rt v) rq a p i b \<and> bt_url t = backend_url (br_backend b)
    \<and> bt_verify_ssl t = rb_verify_ssl (br_backend b)
    \<and> fst (fetch_backend_capabilities (av_reader v) (av_network v) (av_clock v) False (Some t) []) = Some m
    \<and> 1 \<in> set (mf_credential_reference_versions m) \<and> 1 \<in> set (mf_dispatch_lease_versions m)
    \<and> (proc_approval_required (rq_procedure rq) \<longrightarrow> proc_name (rq_procedure rq) \<in> set PROTECTED_APPROVAL_PROCEDURE_NAMES
        \<and> (\<exists>u. approving_user (av_db v) a = Some u \<and> ac_active u \<and> has_perm (ac_user u) ''netbox_rpc.approve_rpcprocedure'')))"
proof -
  from run_call [OF assms(1)] obtain a0 a where a: "execs w e = Some a0" "claim_if_procedure_enabled d rq (locked_aggregate a0) = Inr a"
    "(t, lease, n) \<in> set (rr_calls (run_claimed d rq e bpk a (put_aggregate e a w)))" by blast
  from claimed_call [OF a(3)] obtain selector a' where c: "select_backend d rq bpk = Inr selector"
    "prepare_dispatch d rq e t a = (a', Inr (n, lease))" by auto
  note g = assms(3) [OF a(1,2) c(1)]
  from prepare_admits [OF c(2)] assms(2) have ad: "admitted_params d rq a t = Inr n" "lease \<noteq> None"
    by (auto simp: requires_signed_dispatch_def)
  from ad(1) assms(2) g have r: "require_reference_dispatch_ready v rq a t = Inr ()" "require_reference_approval v rq a n (Some t) = Inr ()"
    by (auto simp: admitted_params_def rbind_Inr_iff reference_execution_guard_def reference_guard_def)
  from r(1) assms(2) obtain rq' i b revision m where s: "current_reference_snapshot (av_db v) (av_rt v) rq a = Inr (rq', (i, b), revision)"
    "bt_url t = backend_url (br_backend b)" "bt_verify_ssl t = rb_verify_ssl (br_backend b)"
    "fst (fetch_backend_capabilities (av_reader v) (av_network v) (av_clock v) False (Some t) []) = Some m"
    "1 \<in> set (mf_credential_reference_versions m)" "1 \<in> set (mf_dispatch_lease_versions m)"
    by (auto simp: require_reference_dispatch_ready_def rbind_Inr_iff split: prod.splits)
  from r(2) assms(2) obtain h where "current_approval v rq a n (Some t) = Inr h"
    by (auto simp: require_reference_approval_def split: sum.splits)
  then have ap: "proc_approval_required (rq_procedure rq) \<Longrightarrow> proc_name (rq_procedure rq) \<in> set PROTECTED_APPROVAL_PROCEDURE_NAMES
      \<and> (\<exists>u. approving_user (av_db v) a = Some u \<and> ac_active u \<and> has_perm (ac_user u) ''netbox_rpc.approve_rpcprocedure'')"
    by (auto simp: CredentialAuthority.current_approval_def Let_def rbind_Inr_iff active_actor_Inr_iff)
  with ad(2) current_snapshot_holds [OF s(1)] s(2-) show ?thesis by blast
qed


section \<open>Samples\<close>

definition hash_rt :: python_rt where
  "hash_rt = plain_rt\<lparr>rt_sha256 := \<lambda>_. ''h''\<rparr>"

definition ssh_reference :: CredentialReferenceV1 where
  "ssh_reference = \<lparr>cr_schema_version = 1, cr_provider = ''netbox-openbao'', cr_assignment_id = VInt 3, cr_credential_uuid = VNone,
     cr_object_type = VStr ''dcim.device'', cr_object_id = VInt 8, cr_purpose = VStr ''login'', cr_fields = [VStr ''password''],
     cr_policy = VStr ''live'', cr_number = VNone\<rparr>"

definition ssh_references :: pydict where
  "ssh_references = [(''ssh'', VDict (to_mapping ssh_reference))]"

definition sample_uuid :: string where "sample_uuid = ''01234567-89ab-cdef-0123-456789abcdef''"

definition ssh_identity :: pyval where
  "ssh_identity = VDict [(''credential_uuid'', VStr sample_uuid), (''assignment_id'', VInt 3),
     (''target'', dget (to_mapping ssh_reference) ''target''), (''purpose'', VStr ''login''), (''username'', VStr ''root''),
     (''fingerprint'', VStr []), (''credential_type'', VStr ''password''), (''policy_id'', VInt 1), (''engine_id'', VInt 1),
     (''engine_identity_sha256'', VStr (replicate 64 CHR ''0'')), (''schema_sha256'', VStr (replicate 64 CHR ''1''))]"

definition requester :: actor where
  "requester = \<lparr>ac_user = \<lparr>us_pk = VInt 1, us_superuser = False, us_perms = [''netbox_rpc.execute_rpcprocedure''],
     us_scopes = [(''view'', 7), (''execute'', 7)]\<rparr>, ac_active = True, ac_authenticated = True,
     ac_views = [(''netbox_rpc.rpcbackend'', 2), (''dcim.device'', 8)]\<rparr>"

definition reference_db :: authority_db where
  "reference_db = \<lparr>au_users = [(1, requester), (9, requester\<lparr>ac_user := (ac_user requester)\<lparr>us_pk := VInt 9\<rparr>\<rparr>)],
     au_procedures = [(7, sample_procedure)],
     au_backends = [(2, \<lparr>br_backend = \<lparr>rb_ip_address = None, rb_domain = ''b'', rb_port = 8000, rb_use_https = True, rb_base_url = [],
        rb_verify_ssl = True, rb_auth_header_name = ''X'', rb_auth_token = ''t''\<rparr>, br_executor = Some 9, br_revision = ''r2''\<rparr>)],
     au_targets = [((''dcim.device'', 8), ''r1'')], au_enabled = True, au_selected_backend = Some 2\<rparr>"

definition reference_data :: creation_data where
  "reference_data = \<lparr>cd_procedure = sample_procedure, cd_params = VDict [],
     cd_object_type = Some \<lparr>ctype_id = 3, ctype_app_label = ''dcim'', ctype_model = ''device''\<rparr>, cd_object_id = VInt 8,
     cd_credential_references = VDict ssh_references\<rparr>"

definition reference_authority :: pydict where
  "reference_authority = (case prepare_reference_execution reference_db hash_rt (\<lambda>_ _. Some ssh_identity) sample_uuid requester
     reference_data (VInt 2) of Inr (_, VDict d) \<Rightarrow> d | _ \<Rightarrow> [])"

lemma sample_patterns:
  "fullmatch NAME_PATTERN ''ssh''" "fullmatch NAME_PATTERN ''password''" "fullmatch OBJECT_TYPE_PATTERN ''dcim.device''"
  "fullmatch CANONICAL_UUID sample_uuid" "fullmatch sha256_hex (replicate 64 CHR ''0'')" "fullmatch sha256_hex (replicate 64 CHR ''1'')"
  by code_simp+

lemma ssh_mapping: "from_mapping hash_rt (VDict (to_mapping ssh_reference)) = Inr ssh_reference"
  by (simp add: from_mapping_def to_mapping_def ssh_reference_def hash_rt_def plain_rt_def strict_reference_integers_def contract_try_def
      check_uuid_def check_matches_def py_get_def dget_def sample_patterns)

lemma ssh_named: "validate_named_references hash_rt (VDict ssh_references) = Inr ssh_references"
  by (simp add: validate_named_references_def ssh_references_def validate_entry_def ssh_mapping sample_patterns)

lemma sample_context: "reference_context reference_db (Some requester) 7 (VInt 2) ''dcim.device'' 8 =
    Inr (sample_procedure, (2, snd (hd (au_backends reference_db))), ''r1'')"
  by (simp add: reference_context_def active_actor_def has_perm_def procedure_in_scope_def viewable_backend_def viewable_target_def
      reference_db_def requester_def found_def sample_procedure_def)

lemma sample_identity: "validated_provider_identity ssh_identity ssh_reference = Inr ssh_identity"
  by (simp add: validated_provider_identity_def ssh_identity_def PROVIDER_IDENTITY_KEYS_def positive_identifier_def bounded_text_def
      hex_digest_def canonical_uuid_def sample_patterns dget_def to_mapping_def ssh_reference_def insert_commute)

lemma sample_permissions: "fresh_execution_permissions reference_db (VInt 1) VNone 7 (VInt 2) ''dcim.device'' 8 = Inr ()"
  by (simp add: fresh_execution_permissions_def fresh_rpc_actor_def get_user_def active_actor_def has_perm_def procedure_in_scope_def
      viewable_backend_def viewable_target_def reference_db_def requester_def)

lemma sample_policy: "\<exists>policy. procedure_policy_payload sample_procedure = Inr policy"
  by (simp add: procedure_policy_payload_def base_command_contract_payload_def sample_procedure_def command_entry_def sample_command_def)

lemma sample_snapshot: "\<exists>d. snapshot_payload hash_rt sample_procedure (VInt 1) (VDict ssh_references) (VDict []) ''dcim.device'' 8
    (2, snd (hd (au_backends reference_db))) ''r1'' = Inr d"
proof -
  obtain policy where "procedure_policy_payload sample_procedure = Inr policy" using sample_policy ..
  moreover have "targets_agree ''dcim.device'' 8 ssh_references = Inr ()"
    by (simp add: targets_agree_def ssh_references_def to_mapping_def ssh_reference_def)
  ultimately show ?thesis by (simp add: snapshot_payload_def ssh_named reference_error_def)
qed

lemma sample_prepared:
  "prepare_reference_execution reference_db hash_rt (\<lambda>_ _. Some ssh_identity) sample_uuid requester reference_data (VInt 2)
     = Inr (VDict ssh_references, VDict reference_authority)"
proof -
  obtain d where d: "snapshot_payload hash_rt sample_procedure (VInt 1) (VDict ssh_references) (VDict []) ''dcim.device'' 8
    (2, snd (hd (au_backends reference_db))) ''r1'' = Inr d" using sample_snapshot ..
  have c: "capture_provider_identities hash_rt (\<lambda>_ _. Some ssh_identity) p ssh_references = Inr [(''ssh'', ssh_identity)]" for p
    by (simp add: capture_provider_identities_def ssh_references_def ssh_mapping reference_error_def found_def sample_identity)
  have "\<exists>authority. prepare_reference_execution reference_db hash_rt (\<lambda>_ _. Some ssh_identity) sample_uuid requester reference_data (VInt 2)
     = Inr (VDict ssh_references, VDict authority)"
    using d c sample_context sample_permissions
    by (simp add: prepare_reference_execution_def reference_data_def ssh_named reference_error_def requester_def [THEN arg_cong [of _ _ ac_user]]
        sample_procedure_def [THEN arg_cong [of _ _ proc_pk]] Let_def ssh_references_def [THEN arg_cong [of _ _ "\<lambda>d. d = []"]])
  then show ?thesis by (auto simp: reference_authority_def)
qed

definition reference_request :: exec_request where
  "reference_request = uptime_request\<lparr>rq_backend_id := VInt 2, rq_credential_references := VDict ssh_references,
     rq_credential_authority := VDict reference_authority\<rparr>"

lemma sample_stored:
  assumes "requested_by_id (obj (store a)) = VInt 1" "approved_by_id (obj (store a)) = VNone" "params (obj (store a)) = VDict []"
  shows "stores_prepared requester reference_data (VInt 2) (VDict ssh_references) (VDict reference_authority) reference_request a"
  using assms by (simp add: stores_prepared_def reference_data_def reference_request_def uptime_request_def requester_def)

lemma sample_references:
  "truthy (cd_credential_references reference_data)" "get_user reference_db (us_pk (ac_user requester)) = Inr requester"
  "distinct (map fst ssh_references)" "py_eq (VDict ssh_references) (VDict ssh_references)"
  "map_of (au_procedures reference_db) i = Some p \<Longrightarrow> proc_pk p = i"
  by (auto simp: reference_data_def ssh_references_def to_mapping_def ssh_reference_def get_user_def reference_db_def requester_def
      sample_procedure_def split: if_splits)


definition reference_claims :: LeaseClaims where
  "reference_claims = \<lparr>lc_envelope_version = 1, lc_execution_id = 5, lc_stream_version = 1, lc_nonce = ''n1'',
     lc_audience = ''netbox-rpc-backend'', lc_handler_id = ''os.linux.uptime'', lc_handler_version = 1, lc_effect = ''read'',
     lc_contract_hash = ''h'', lc_target_snapshot_hash = [], lc_params_fingerprint = ''h'', lc_credential_policy = ''credential-authority:h'',
     lc_requested_by_id = Some 1, lc_approved_by_id = None, lc_issued_at = isoformat noon, lc_expires_at = isoformat one_past_noon,
     lc_trace_id = sample_uuid, lc_key_id = ''k'', lc_key_version = 1\<rparr>"

definition reference_lease :: SignedDispatchLease where
  "reference_lease = \<lparr>sl_algorithm = ''ed25519'', sl_claims = reference_claims, sl_signature = []\<rparr>"

definition running_with_lease :: aggregate where
  "running_with_lease = fresh_aggregate\<lparr>store := (store fresh_aggregate)
     \<lparr>row := (row (store fresh_aggregate))\<lparr>status := RUNNING, normalized_params :=
        [(''command_fingerprint'', VDict [(''credential_authority_sha256'', VStr ''h'')]), (''credential_references'', VDict ssh_references)]\<rparr>,
      events := [\<lparr>ev_sequence = 1, ev_level = [], ev_event = ''ParametersNormalized'', ev_message = [], ev_data = [], ev_payload_hash = []\<rparr>,
        \<lparr>ev_sequence = 2, ev_level = [], ev_event = ''DispatchLeaseIssued'', ev_message = [], ev_data = lease_event_data reference_claims,
         ev_payload_hash = []\<rparr>]\<rparr>\<rparr>"

definition reference_env :: authority_env where
  "reference_env = \<lparr>av_db = reference_db, av_later = reference_db, av_policy = down_policy\<lparr>pe_rt := hash_rt\<rparr>,
     av_reader = \<lparr>mr_loads = (\<lambda>_. None), mr_coerce = (\<lambda>_. None)\<rparr>, av_network = (\<lambda>_ _. RequestRaises), av_clock = 0,
     av_signature = toy_ed\<lparr>ed_verify := \<lambda>_ _ _. True\<rparr>, av_lease_env = sample_env, av_read_lease = (\<lambda>_. Some reference_lease),
     av_now = noon, av_later_now = noon\<rparr>"

lemma locked_running:
  "requested_by_id (obj (store (locked_aggregate running_with_lease))) = VInt 1"
  "approved_by_id (obj (store (locked_aggregate running_with_lease))) = VNone"
  "params (obj (store (locked_aggregate running_with_lease))) = VDict []"
  "status (row (store running_with_lease)) = RUNNING"
  "normalized_params (obj (store (locked_aggregate running_with_lease))) =
     [(''command_fingerprint'', VDict [(''credential_authority_sha256'', VStr ''h'')]), (''credential_references'', VDict ssh_references)]"
  "events (store running_with_lease) =
     [\<lparr>ev_sequence = 1, ev_level = [], ev_event = ''ParametersNormalized'', ev_message = [], ev_data = [], ev_payload_hash = []\<rparr>,
      \<lparr>ev_sequence = 2, ev_level = [], ev_event = ''DispatchLeaseIssued'', ev_message = [], ev_data = lease_event_data reference_claims, ev_payload_hash = []\<rparr>]"
  by (simp_all add: running_with_lease_def locked_aggregate_def locked_store_def from_execution_def fresh_aggregate_def fresh_store_def
      projection_initial_def ProjectionState.defs)

lemma running_current:
  "current_reference_snapshot reference_db hash_rt reference_request (locked_aggregate running_with_lease) =
     Inr (reference_request\<lparr>rq_procedure := sample_procedure\<rparr>, (2, snd (hd (au_backends reference_db))), ''r1'')"
proof -
  have "\<exists>p i b revision. reference_context reference_db (Some requester) 7 (VInt 2) ''dcim.device'' 8 = Inr (p, (i, b), revision)
    \<and> current_reference_snapshot reference_db hash_rt reference_request (locked_aggregate running_with_lease)
        = Inr (reference_request\<lparr>rq_procedure := p\<rparr>, (i, b), revision)"
    using frozen_current [OF sample_prepared sample_references(1) sample_stored [OF locked_running(1-3)] sample_references(2) sample_patterns(4)
        ssh_named sample_references(3-5)]
    by (auto simp: reference_request_def uptime_request_def sample_procedure_def [THEN arg_cong [of _ _ proc_pk]])
  then show ?thesis by (simp add: sample_context)
qed

lemma sample_times:
  "fromisoformat f (isoformat noon) = Some noon" "fromisoformat f (isoformat one_past_noon) = Some one_past_noon"
  "dt_instant one_past_noon = dt_instant noon + 60000000"
  by (simp_all add: one_past_noon_def noon_def dt_instant_def dt_valid_def days_in_month_def)

lemma sample_issuance: "\<exists>r. issuance_event (events (store running_with_lease)) reference_claims = Inr r \<and> ev_sequence r = 2"
  by (simp add: locked_running(6) issuance_event_def found_def lease_event_data_def reference_claims_def dget_def)

lemma reference_authority_fields:
  "map_of reference_authority ''correlation_id'' = Some (VStr sample_uuid)" "map_of reference_authority ''references'' = Some (VDict ssh_references)"
  "map_of reference_authority ''provider_identities'' = Some (VDict [(''ssh'', ssh_identity)])"
  "map_of reference_authority ''procedure_policy_sha256'' = Some (VStr ''h'')" "map_of reference_authority ''params_sha256'' = Some (VStr ''h'')"
proof -
  obtain d where d: "snapshot_payload hash_rt sample_procedure (VInt 1) (VDict ssh_references) (VDict []) ''dcim.device'' 8
    (2, snd (hd (au_backends reference_db))) ''r1'' = Inr d" using sample_snapshot ..
  have c: "capture_provider_identities hash_rt (\<lambda>_ _. Some ssh_identity) p ssh_references = Inr [(''ssh'', ssh_identity)]" for p
    by (simp add: capture_provider_identities_def ssh_references_def ssh_mapping reference_error_def found_def sample_identity)
  have au: "reference_authority = d @ [(''correlation_id'', VStr sample_uuid), (''provider_identities'', VDict [(''ssh'', ssh_identity)])]"
    using d c sample_context sample_permissions
    by (simp add: reference_authority_def prepare_reference_execution_def reference_data_def ssh_named reference_error_def
        requester_def [THEN arg_cong [of _ _ ac_user]] sample_procedure_def [THEN arg_cong [of _ _ proc_pk]] Let_def
        ssh_references_def [THEN arg_cong [of _ _ "\<lambda>d. d = []"]])
  have h: "canonical_hash hash_rt v = ''h''" for v by (simp add: canonical_hash_def hash_rt_def)
  have "\<exists>refs1 q1 w1 b1 x1 y1 t1 p1. d = [(''schema_version'', q1), (''references'', VDict ssh_references), (''requested_by_id'', w1), (''backend_id'', b1),
      (''executor_id'', x1), (''backend_identity'', y1), (''target'', t1), (''procedure_id'', p1), (''procedure_policy_sha256'', VStr ''h''),
      (''params_sha256'', VStr ''h'')]"
    using d sample_policy by (auto simp: snapshot_payload_def ssh_named reference_error_def rbind_Inr_iff h)
  then show "map_of reference_authority ''correlation_id'' = Some (VStr sample_uuid)" "map_of reference_authority ''references'' = Some (VDict ssh_references)"
    "map_of reference_authority ''provider_identities'' = Some (VDict [(''ssh'', ssh_identity)])"
    "map_of reference_authority ''procedure_policy_sha256'' = Some (VStr ''h'')" "map_of reference_authority ''params_sha256'' = Some (VStr ''h'')"
    unfolding au by auto
qed

lemma sample_verifier_keys: "load_verifier_public_keys rt (toy_ed\<lparr>ed_verify := f\<rparr>) sample_env = Inr [((''k'', 1), ''pem'')]"
proof -
  have e: "ed_load_private (toy_ed\<lparr>ed_verify := f\<rparr>) = ed_load_private toy_ed" by simp
  have "load_environment_signing_key (toy_ed\<lparr>ed_verify := f\<rparr>) sample_env = load_environment_signing_key toy_ed sample_env"
    unfolding load_environment_signing_key_def e ..
  with sample_active_key [of rt] show ?thesis
    by (simp add: load_verifier_public_keys_def load_active_signing_key_def sample_setting_absent public_key_def) (simp add: toy_ed_def)
qed

lemma sample_contract_hash: "derive_command_contract_hash hash_rt ct sample_procedure = Inr ''h''"
  by (simp add: derive_command_contract_hash_def sample_payload hash_rt_def)

lemma sample_lease_verified:
  assumes "ev_sequence event = 2"
  shows "verify_lease reference_env (reference_request\<lparr>rq_procedure := sample_procedure\<rparr>) 5 (locked_aggregate running_with_lease)
    reference_lease event = Inr ()"
proof -
  have h: "canonical_hash hash_rt v = ''h''" for v by (simp add: canonical_hash_def hash_rt_def)
  have a: "rq_credential_authority (reference_request\<lparr>rq_procedure := sample_procedure\<rparr>) = VDict reference_authority"
    by (simp add: reference_request_def)
  have o: "dt_offset noon = Some 0" "dt_offset one_past_noon = Some 0" by (simp_all add: noon_def one_past_noon_def)
  have v: "\<exists>r. verify_dispatch_lease hash_rt (toy_ed\<lparr>ed_verify := \<lambda>_ _ _. True\<rparr>) [((''k'', 1), ''pem'')] ''netbox-rpc-backend'' noon ex reference_lease = Inr r
      \<and> lv_status r = VALID" if "lease_agrees ex reference_claims" "ex_seen_nonces ex = None" for ex
  proof -
    have "verify_times hash_rt noon ex reference_claims = Inr (verify_bindings ex reference_claims)"
      by (simp add: verify_times_def reference_claims_def parse_iso_def sample_times dt_gt_def o)
    moreover have "lv_status (verify_bindings ex reference_claims) = VALID" using that by (simp add: verify_bindings_valid nonce_unseen_def)
    ultimately have "verify_dispatch_lease hash_rt (toy_ed\<lparr>ed_verify := \<lambda>_ _ _. True\<rparr>) [((''k'', 1), ''pem'')] ''netbox-rpc-backend'' noon ex reference_lease
        = Inr (verify_bindings ex reference_claims) \<and> lv_status (verify_bindings ex reference_claims) = VALID"
      unfolding verify_lease_valid by (simp add: reference_lease_def) (simp add: reference_claims_def)
    then show ?thesis by blast
  qed
  have env: "av_rt reference_env = hash_rt" "av_signature reference_env = toy_ed\<lparr>ed_verify := \<lambda>_ _ _. True\<rparr>" "av_lease_env reference_env = sample_env"
    "av_now reference_env = noon" by (simp_all add: reference_env_def)
  have aud: "py_str (py_or (case plugin_setting sample_env ''dispatch_lease_audience'' of None \<Rightarrow> VNone | Some s \<Rightarrow> s) (VStr DEFAULT_AUDIENCE)) = ''netbox-rpc-backend''"
    by (simp add: sample_setting_absent DEFAULT_AUDIENCE_def)
  let ?ex = "\<lparr>ex_execution_id = Some 5, ex_stream_version = Some 1, ex_contract_hash = Some ''h'', ex_handler_id = Some (proc_handler_id sample_procedure),
    ex_handler_version = Some (proc_version sample_procedure), ex_effect = Some (proc_effect sample_procedure), ex_target_snapshot_hash = Some [],
    ex_params_fingerprint = Some ''h'', ex_credential_policy = Some (''credential-authority:'' @ ''h''), ex_requested_by_id = Some 1,
    ex_approved_by_id = None, ex_seen_nonces = None\<rparr>"
  have "lease_agrees ?ex reference_claims" by (simp add: lease_agrees_def reference_claims_def sample_procedure_def)
  with v obtain r where r: "verify_dispatch_lease hash_rt (toy_ed\<lparr>ed_verify := \<lambda>_ _ _. True\<rparr>) [((''k'', 1), ''pem'')] ''netbox-rpc-backend'' noon ?ex reference_lease = Inr r"
    "lv_status r = VALID" by force
  have c: "lc_approved_by_id (sl_claims reference_lease) = None" "lc_trace_id (sl_claims reference_lease) = sample_uuid"
    by (simp_all add: reference_lease_def reference_claims_def)
  show ?thesis
    unfolding verify_lease_def Let_def env locked_running a h sample_verifier_keys aud assms
    by (simp add: authority_dict_def reference_authority_fields dget_def c opt_int_def sample_contract_hash sample_references(4) int_of_id_def
        r [simplified] del: py_eq.simps)
qed

lemma sample_resolved: "\<exists>auth. validate_secret_resolution_dispatch reference_env reference_request 5 (Some running_with_lease) VNone (VInt 9) ''ssh'' None = Inr auth"
proof -
  let ?a = "locked_aggregate running_with_lease"
  have env: "av_rt reference_env = hash_rt" "av_db reference_env = reference_db" "av_later reference_env = reference_db"
    "av_now reference_env = noon" "av_later_now reference_env = noon" "av_read_lease reference_env body = Some reference_lease" for body
    by (simp_all add: reference_env_def)
  have users: "get_user reference_db (VInt 1) = Inr requester"
    "get_user reference_db (VInt 9) = Inr (requester\<lparr>ac_user := (ac_user requester)\<lparr>us_pk := VInt 9\<rparr>\<rparr>)" by (simp_all add: get_user_def reference_db_def)
  have on: "ac_active (requester\<lparr>ac_user := x\<rparr>)" "ac_authenticated (requester\<lparr>ac_user := x\<rparr>)" for x by (simp_all add: requester_def)
  have ex: "br_executor (snd (hd (au_backends reference_db))) = Some 9" by (simp add: reference_db_def)
  have ref: "py_index (rq_credential_references reference_request) ''ssh'' = Inr (VDict (to_mapping ssh_reference))"
    by (simp add: reference_request_def ssh_references_def)
  have o: "dt_offset noon = Some 0" "dt_offset one_past_noon = Some 0" by (simp_all add: noon_def one_past_noon_def)
  have ti: "lease_times hash_rt reference_claims noon = Inr ()" "check_authorization_lifetime one_past_noon noon = Inr ()"
    by (simp_all add: lease_times_def reference_claims_def sample_times o MAX_REFERENCE_LEASE_SECONDS_def check_authorization_lifetime_def)
  have ca: "check_execution_permissions reference_db (reference_request\<lparr>rq_procedure := sample_procedure\<rparr>) ?a = Inr ()"
    using sample_permissions by (simp add: check_execution_permissions_def locked_running reference_request_def uptime_request_def
        sample_procedure_def [THEN arg_cong [of _ _ proc_pk]] del: locked_simps)
  have ap: "CredentialAuthority.current_approval reference_env (reference_request\<lparr>rq_procedure := sample_procedure\<rparr>) ?a n None = Inr []" for n
    using ca by (simp add: CredentialAuthority.current_approval_def env locked_running(2) sample_procedure_def [THEN arg_cong [of _ _ proc_approval_required]]
        sample_procedure_def [THEN arg_cong [of _ _ proc_effect]])
  have rqf: "rq_credential_authority reference_request = VDict reference_authority" "rq_target_model_label reference_request = ''dcim.device''"
    "rq_target_id reference_request = 8" "rq_backend_id reference_request = VInt 2" by (simp_all add: reference_request_def uptime_request_def)
  have cl: "sl_claims reference_lease = reference_claims" "lc_expires_at reference_claims = isoformat one_past_noon"
    by (simp_all add: reference_lease_def reference_claims_def)
  obtain event where ev: "issuance_event (events (store running_with_lease)) reference_claims = Inr event" "ev_sequence event = 2"
    using sample_issuance by blast
  note vl = sample_lease_verified [OF ev(2)]
  have id: "py_index (dget reference_authority ''provider_identities'') ''ssh'' = Inr ssh_identity"
    by (simp add: dget_def reference_authority_fields)
  have pe: "check_authorization_permissions reference_db auth = Inr ()" if "sa_executor_id auth = 9" "sa_initiating_actor auth = VInt 1"
    "sa_approved_by_id auth = VNone" "sa_procedure_id auth = 7" "sa_backend_id auth = VInt 2" "sa_target auth = (''dcim.device'', 8)" for auth
    using that sample_permissions on by (simp add: check_authorization_permissions_def users)
  have "\<exists>auth. resolve_secret reference_env reference_request 5 ?a VNone (VInt 9) ''ssh'' = Inr auth"
    unfolding resolve_secret_def Let_def env
    by (simp add: found_def locked_running(1-5) locked_running(1) [unfolded locked_simps] users on ex ref ti ap rqf cl ev vl id running_current ssh_mapping reference_error_def
        authority_dict_def sample_times opt_int_def pe sample_procedure_def [THEN arg_cong [of _ _ proc_pk]])
  then show ?thesis by (auto simp: validate_secret_resolution_dispatch_def)
qed


theorem secret_only_for_backend_executor_witness:
  "\<exists>p i b. authority_holds reference_db hash_rt reference_request (locked_aggregate running_with_lease) p i b \<and> VInt 9 = opt_int (br_executor b)"
proof -
  have "av_rt reference_env = hash_rt" "av_db reference_env = reference_db" by (simp_all add: reference_env_def)
  with sample_resolved secret_only_for_backend_executor show ?thesis by (metis option.inject)
qed

theorem secret_authorization_is_short_witness:
  "\<exists>auth. validate_secret_resolution_dispatch reference_env reference_request 5 (Some running_with_lease) VNone (VInt 9) ''ssh'' None = Inr auth
     \<and> dt_instant noon < dt_instant (sa_expires_at auth)"
proof -
  have "av_now reference_env = noon" by (simp add: reference_env_def)
  with sample_resolved secret_authorization_is_short show ?thesis by metis
qed


end
