(* ===== verification/OpenBaoValidation.thy ===== *)
theory OpenBaoValidation
  imports Redaction
begin

text \<open>
  The admission scan of \<open>netbox_rpc/openbao_validation.py\<close>: no parameter of an OpenBao
  procedure may carry secret material, in a key, a value, an assignment inside a text, a
  JSON document inside a text or a quoted HCL string.

  \<open>json.loads\<close> is a parameter. A code point above U+00FF that an HCL escape denotes has no
  counterpart in the modelled texts and appears as one fixed non-word character; U+2028 and
  U+2029 become a newline in the decoded text, as in the code.
\<close>

section \<open>Patterns\<close>

definition OPENBAO_MAX_STRING_BYTES :: nat where
  "OPENBAO_MAX_STRING_BYTES = 1024 * 1024"

definition SENSITIVE_FIELD_COMPONENTS :: "string list" where
  "SENSITIVE_FIELD_COMPONENTS = [''authorization'', ''credential'', ''credentials'', ''passphrase'', ''passwd'', ''password'', ''pin'',
     ''secret'', ''secrets'', ''token'', ''tokens'', ''unseal'']"

definition SENSITIVE_KEY_PREFIXES :: "string list" where
  "SENSITIVE_KEY_PREFIXES = [''access'', ''account'', ''api'', ''client'', ''current'', ''previous'', ''private'', ''root'', ''shared'']"

definition NON_SECRET_FIELD_NAMES :: "string list" where
  "NON_SECRET_FIELD_NAMES = [''key_id'', ''key_label'', ''key_name'', ''tls_key_file'', ''token_label'']"

definition IDENTIFIER_FIELD_NAMES :: "string list" where
  "IDENTIFIER_FIELD_NAMES = [''mount_path'', ''peer_id'', ''policy_name'', ''snapshot_name'']"

definition ASSIGNMENT_RE :: regex where
  "ASSIGNMENT_RE =
     (let free = plus1 (CS (\<lambda>c. \<not> is_space c \<and> c \<notin> set '',}]'')) in
      seqs [NotAfter key_char, Grp ''key'' (seqs [quote_opt, plus1 (CS key_char), quote_opt]), star space_class, oneof '':='', star space_class,
        alts [seqs [lit [DQ], star (alts [Seq (lit [BSL]) (noneof [LF]), noneof [DQ, BSL, CR, LF]]), lit [DQ]],
              seqs [lit [SQ], star (alts [Seq (lit [BSL]) (noneof [LF]), noneof [SQ, BSL, CR, LF]]), lit [SQ]],
              seqs [ilit ''Bearer'', plus1 space_class, free], free]])"

definition escaped_code_unit :: regex where
  "escaped_code_unit = Seq (lit [BSL]) (alts
     [Seq (ilit ''u'') (Rep 4 (Some 4) (CS is_hex)), Seq (ilit ''U'') (Rep 8 (Some 8) (CS is_hex)), Seq (ilit ''x'') (Rep 2 (Some 2) (CS is_hex))])"

definition ESCAPED_ASSIGNMENT_KEY_RE :: regex where
  "ESCAPED_ASSIGNMENT_KEY_RE =
     seqs [NotAfter key_char, plus1 (alts [CS key_char, escaped_code_unit]), escaped_code_unit,
       star (alts [CS key_char, escaped_code_unit]), star space_class, oneof '':='']"

definition QUOTED_STRING_RE :: regex where
  "QUOTED_STRING_RE = alts
     [seqs [lit [DQ], star (alts [Seq (lit [BSL]) anychar, noneof [DQ, BSL]]), lit [DQ]],
      seqs [lit [SQ], star (alts [Seq (lit [BSL]) anychar, noneof [SQ, BSL]]), lit [SQ]]]"

definition token_char :: "char \<Rightarrow> bool" where
  "token_char c \<longleftrightarrow> is_alpha c \<or> is_digit c \<or> c \<in> set ''_-''"

definition TOKEN_LITERAL_RE :: regex where
  "TOKEN_LITERAL_RE = seqs [WordBoundary, alts [ilit ''hvs'', ilit ''hvb'', ilit ''s''], lit ''.'', Rep 8 None (CS token_char), WordBoundary]"

definition base64_char :: "char \<Rightarrow> bool" where
  "base64_char c \<longleftrightarrow> is_alpha c \<or> is_digit c \<or> c \<in> set ''+/_-''"

text \<open>A character that hexadecimal digits do not have: \<open>[G-Zg-z+/_-]\<close>.\<close>

definition beyond_hex :: "char \<Rightarrow> bool" where
  "beyond_hex c \<longleftrightarrow> (is_alpha c \<and> \<not> is_hex c) \<or> c \<in> set ''+/_-''"

definition BASE64_MATERIAL_RE :: regex where
  "BASE64_MATERIAL_RE =
     (let run = seqs [Rep 40 None (CS base64_char), Rep 0 (Some 2) (lit ''=''), NotLook (CS (\<lambda>c. base64_char c \<or> c = CHR ''=''))] in
      seqs [NotAfter (\<lambda>c. base64_char c \<or> c = CHR ''=''), Look run, Look (Seq (star (CS base64_char)) (CS beyond_hex)), run])"

definition HEX_MATERIAL_RE :: regex where
  "HEX_MATERIAL_RE = seqs [NotAfter is_hex, Rep 64 None (CS is_hex), NotLook (CS is_hex)]"

definition PRIVATE_KEY_RE :: regex where
  "PRIVATE_KEY_RE = seqs [lit ''-----BEGIN '', star (CS (\<lambda>c. is_upper_alpha c \<or> c = CHR '' '')), lit ''PRIVATE KEY-----'']"

definition AUTHORIZATION_RE :: regex where
  "AUTHORIZATION_RE = seqs [WordBoundary, alts [ilit ''authorization'', ilit ''bearer''], star space_class, oneof '':='', star space_class,
     LazyRep 1 None (noneof [CR, LF]), Look (Seq (optional (lit [CR])) LineEnd)]"

definition URL_CREDENTIAL_RE :: regex where
  "URL_CREDENTIAL_RE = seqs [WordBoundary, CS is_alpha, star (CS scheme_char), lit ''://'',
     plus1 (CS (\<lambda>c. \<not> is_space c \<and> c \<notin> set ''/:@'')), lit '':'', plus1 (CS (\<lambda>c. \<not> is_space c \<and> c \<notin> set ''/@'')), lit ''@'']"

definition KEY_MATERIAL_LINE_RE :: regex where
  "KEY_MATERIAL_LINE_RE = seqs [LineStart, star space_class,
     alts [seqs [ilit ''unseal'', plus1 space_class, ilit ''key'', optional (Seq (plus1 space_class) (plus1 (CS is_digit)))],
           seqs [ilit ''initial'', plus1 space_class, ilit ''root'', plus1 space_class, ilit ''token''],
           seqs [ilit ''root'', plus1 space_class, ilit ''token'']],
     star space_class, oneof ''=:'', star space_class, star (noneof [LF]), LineEnd]"

definition SECRET_SHAPE_PATTERNS :: "regex list" where
  "SECRET_SHAPE_PATTERNS = [PRIVATE_KEY_RE, AUTHORIZATION_RE, URL_CREDENTIAL_RE, TOKEN_LITERAL_RE, HEX_MATERIAL_RE, KEY_MATERIAL_LINE_RE]"

definition rx_search :: "regex \<Rightarrow> string \<Rightarrow> rx_match option" where
  "rx_search r t = search_from r t False 0"


section \<open>Field names\<close>

definition strip_quotes :: "string \<Rightarrow> string" where
  "strip_quotes s = (let q = (\<lambda>c. c = DQ \<or> c = SQ) in rev (dropWhile q (rev (dropWhile q s))))"

text \<open>\<open>re.sub(r"[.-]+", "_", ...)\<close>.\<close>

function join_separators :: "string \<Rightarrow> string" where
  "join_separators [] = []"
| "join_separators (c # cs) =
     (if c \<in> set ''.-'' then CHR ''_'' # join_separators (dropWhile (\<lambda>d. d \<in> set ''.-'') cs) else c # join_separators cs)"
  by pat_completeness auto
termination
  by (relation "measure length") (auto simp: le_imp_less_Suc length_dropWhile_le)

definition normalized_name :: "string \<Rightarrow> string" where
  "normalized_name s = join_separators (lower (strip_quotes s))"

fun key_pairs :: "string list \<Rightarrow> bool" where
  "key_pairs (a # b # rest) \<longleftrightarrow> (a \<in> set SENSITIVE_KEY_PREFIXES \<and> b \<in> {''key'', ''keys''}) \<or> key_pairs (b # rest)"
| "key_pairs _ \<longleftrightarrow> False"

definition sensitive_field_name :: "string \<Rightarrow> bool" where
  "sensitive_field_name s =
     (let normalized = normalized_name s; components = filter (\<lambda>part. part \<noteq> []) (split_on CHR ''_'' normalized) in
      if normalized \<in> set NON_SECRET_FIELD_NAMES then False
      else if components = [] then False
      else list_ex (\<lambda>part. part \<in> set SENSITIVE_FIELD_COMPONENTS) components
        \<or> normalized \<in> {''auth_info'', ''connection_string'', ''connection_url'', ''key'', ''keys''}
        \<or> key_pairs components)"


section \<open>Shapes\<close>

text \<open>
  \<open>_shannon_entropy_bits(s) < 4.5\<close> over the integers: with \<open>n\<close> characters and counts \<open>c\<close>, the
  entropy is \<open>log2 n - (\<Sum>c. c * log2 c) / n\<close>.
\<close>

definition char_counts :: "string \<Rightarrow> nat list" where
  "char_counts s = map (\<lambda>c. count_list s c) (remdups s)"

definition low_entropy :: "string \<Rightarrow> bool" where
  "low_entropy s \<longleftrightarrow> s = [] \<or> length s ^ (2 * length s) < 2 ^ (9 * length s) * prod_list (map (\<lambda>c. c ^ (2 * c)) (char_counts s))"

datatype ingress_error = NotAnObject | StringTooLong | SecretShaped | ScanUnfinished

definition matched_text :: "string \<Rightarrow> rx_match \<Rightarrow> string" where
  "matched_text t m = drop (m_start m) (take (m_end m) t)"

definition secret_shaped :: "string option \<Rightarrow> string \<Rightarrow> bool" where
  "secret_shaped identifier_field s =
     (list_ex (\<lambda>r. rx_search r s \<noteq> None) SECRET_SHAPE_PATTERNS
      \<or> (let found = finditer BASE64_MATERIAL_RE s in
          found \<noteq> [] \<and> \<not> ((case identifier_field of None \<Rightarrow> False | Some f \<Rightarrow> f \<in> set IDENTIFIER_FIELD_NAMES)
            \<and> list_all (\<lambda>m. m_span m = (0, length s) \<and> low_entropy (rstrip_char CHR ''='' (matched_text s m))) found)))"

definition reject_secret_shapes :: "string option \<Rightarrow> string \<Rightarrow> ingress_error + unit" where
  "reject_secret_shapes identifier_field s = guard (\<not> secret_shaped identifier_field s) SecretShaped"

definition assigned_names :: "string \<Rightarrow> string list" where
  "assigned_names s = map (\<lambda>m. case map_of (m_groups m) ''key'' of None \<Rightarrow> [] | Some (i, j) \<Rightarrow> drop i (take j s)) (finditer ASSIGNMENT_RE s)"

definition reject_sensitive_assignments :: "string \<Rightarrow> ingress_error + unit" where
  "reject_sensitive_assignments s = guard (\<not> list_ex sensitive_field_name (assigned_names s)) SecretShaped"


section \<open>HCL strings\<close>

definition SIMPLE_HCL_ESCAPES :: "(char \<times> char) list" where
  "SIMPLE_HCL_ESCAPES = [(DQ, DQ), (SQ, SQ), (BSL, BSL), (CHR ''n'', LF), (CHR ''r'', CR), (CHR ''t'', TAB)]"

definition hex_value :: "char \<Rightarrow> nat" where
  "hex_value c = (let n = (of_char c :: nat) in if n \<le> 57 then n - 48 else if n \<le> 70 then n - 55 else n - 87)"

definition hex_number :: "string \<Rightarrow> nat" where
  "hex_number ds = foldl (\<lambda>a c. 16 * a + hex_value c) 0 ds"

text \<open>The decoded code points; \<open>None\<close> is the \<open>ValueError\<close>.\<close>

function decode_hcl_escapes :: "string \<Rightarrow> nat list option" where
  "decode_hcl_escapes [] = Some []"
| "decode_hcl_escapes (c # cs) =
     (if c \<noteq> BSL then map_option ((#) (of_char c)) (decode_hcl_escapes cs)
      else (case cs of
          [] \<Rightarrow> None
        | e # rest \<Rightarrow> (case map_of SIMPLE_HCL_ESCAPES e of
            Some d \<Rightarrow> map_option ((#) (of_char d)) (decode_hcl_escapes rest)
          | None \<Rightarrow>
              if e \<in> set ''uU'' then
                (let width = (if e = CHR ''u'' then 4 else 8); digits = take width rest in
                 if length digits \<noteq> width \<or> \<not> list_all is_hex digits \<or> hex_number digits > 0x10FFFF then None
                 else map_option ((#) (hex_number digits)) (decode_hcl_escapes (drop width rest)))
              else None)))"
  by pat_completeness auto
termination
  by (relation "measure length") auto

definition char_of_point :: "nat \<Rightarrow> char" where
  "char_of_point n = (if n < 256 then char_of n else CHR 0xD7)"

definition literal_text :: "nat list \<Rightarrow> string" where
  "literal_text ps = map char_of_point ps"

definition decoded_text :: "nat list \<Rightarrow> string" where
  "decoded_text ps = map (\<lambda>n. if n = 0x2028 \<or> n = 0x2029 then LF else char_of_point n) ps"

definition quoted_body :: "string \<Rightarrow> rx_match \<Rightarrow> string" where
  "quoted_body t m = butlast (tl (matched_text t m))"

fun substitute :: "(rx_match \<Rightarrow> string) \<Rightarrow> string \<Rightarrow> nat \<Rightarrow> rx_match list \<Rightarrow> string" where
  "substitute f t i [] = drop i t"
| "substitute f t i (m # ms) = drop i (take (m_start m) t) @ f m @ substitute f t (m_end m) ms"

definition decode_hcl_quoted_strings :: "string \<Rightarrow> string \<times> string list" where
  "decode_hcl_quoted_strings t =
     (let found = finditer QUOTED_STRING_RE t in
      (substitute (\<lambda>m. case decode_hcl_escapes (quoted_body t m) of None \<Rightarrow> matched_text t m | Some ps \<Rightarrow> decoded_text ps) t 0 found,
       concat (map (\<lambda>m. case decode_hcl_escapes (quoted_body t m) of None \<Rightarrow> [] | Some ps \<Rightarrow> [literal_text ps]) found)))"


section \<open>The scan\<close>

lemma rmap_cong [fundef_cong]: "xs = ys \<Longrightarrow> (\<And>x. x \<in> set ys \<Longrightarrow> f x = g x) \<Longrightarrow> rmap f xs = rmap g ys"
  by (induction ys arbitrary: xs) auto

text \<open>The recursion of \<open>_scan_value\<close> over a value, with the scan of a text as an argument.\<close>

function scan_value :: "(string option \<Rightarrow> string \<Rightarrow> ingress_error + unit) \<Rightarrow> string option \<Rightarrow> bool \<Rightarrow> pyval \<Rightarrow> ingress_error + unit" where
  "scan_value text identifier_field allow (VDict d) =
     rbind (rmap (\<lambda>(key, child).
       rbind (text None key) (\<lambda>_.
       rbind (guard (\<not> sensitive_field_name key) SecretShaped) (\<lambda>_.
         scan_value text (if allow \<and> key \<in> set IDENTIFIER_FIELD_NAMES then Some key else None) False child))) d) (\<lambda>_. Inr ())"
| "scan_value text identifier_field allow (VList vs) = rbind (rmap (scan_value text None False) vs) (\<lambda>_. Inr ())"
| "scan_value text identifier_field allow (VStr s) = text identifier_field s"
| "scan_value text identifier_field allow VNone = Inr ()"
| "scan_value text identifier_field allow (VBool b) = Inr ()"
| "scan_value text identifier_field allow (VInt i) = Inr ()"
| "scan_value text identifier_field allow (VFloat x) = Inr ()"
| "scan_value text identifier_field allow (VTime t) = Inr ()"
  by pat_completeness auto
termination
  by (relation "measure (\<lambda>(_, _, _, v). size v)") (auto dest: size_in_dict size_in_list simp del: pyval.size)

definition utf8_bytes :: "string \<Rightarrow> nat" where
  "utf8_bytes s = sum_list (map (\<lambda>c. if (of_char c :: nat) < 128 then 1 else 2) s)"

text \<open>The fuel bounds the nesting of documents inside texts.\<close>

fun scan_text :: "(string \<Rightarrow> pyval option) \<Rightarrow> nat \<Rightarrow> bool \<Rightarrow> string option \<Rightarrow> string \<Rightarrow> ingress_error + unit" where
  "scan_text loads 0 decode_documents identifier_field t = Inl ScanUnfinished"
| "scan_text loads (Suc k) decode_documents identifier_field t =
     rbind (guard (utf8_bytes t \<le> OPENBAO_MAX_STRING_BYTES) StringTooLong) (\<lambda>_.
     rbind (reject_secret_shapes identifier_field t) (\<lambda>_.
     rbind (reject_sensitive_assignments t) (\<lambda>_.
     rbind (if decode_documents then (case loads t of None \<Rightarrow> Inr () | Some v \<Rightarrow> scan_value (scan_text loads k False) None False v)
            else Inr ()) (\<lambda>_.
     (let (decoded, literals) = decode_hcl_quoted_strings t in
      rbind (rmap (\<lambda>l. rbind (reject_secret_shapes None l) (\<lambda>_.
          case loads l of None \<Rightarrow> Inr () | Some v \<Rightarrow> scan_value (scan_text loads k False) None False v)) literals) (\<lambda>_.
      rbind (if decoded \<noteq> t then rbind (reject_secret_shapes None decoded) (\<lambda>_. reject_sensitive_assignments decoded) else Inr ()) (\<lambda>_.
        guard (rx_search ESCAPED_ASSIGNMENT_KEY_RE t = None) SecretShaped)))))))"

definition validate_openbao_params_for_persistence ::
  "(string \<Rightarrow> pyval option) \<Rightarrow> nat \<Rightarrow> string \<Rightarrow> pyval \<Rightarrow> ingress_error + unit" where
  "validate_openbao_params_for_persistence loads fuel procedure_name ps =
     (if \<not> startswith procedure_name ''service.openbao.1.'' then Inr ()
      else (case ps of VDict _ \<Rightarrow> scan_value (scan_text loads fuel True) None True ps | _ \<Rightarrow> Inl NotAnObject))"

definition ingress_message :: "ingress_error \<Rightarrow> string" where
  "ingress_message e = (case e of
       NotAnObject \<Rightarrow> ''OpenBao params must be an object.''
     | StringTooLong \<Rightarrow> ''OpenBao params contain a string exceeding the 1 MiB UTF-8 byte limit.''
     | _ \<Rightarrow> ''OpenBao params contain secret-shaped material and cannot be persisted.'')"

end
