(* ===== verification/OpenBaoValidationProps.thy ===== *)
theory OpenBaoValidationProps
  imports OpenBaoValidation AdmissionProps Complex_Main
begin

text \<open>
  What the OpenBao admission scan guarantees: no sensitive name and no secret shape in any
  text of the parameters or of a document hidden in one, at any nesting; the scan ends; the
  integer comparison is the entropy bound.
\<close>

section \<open>Entropy\<close>

definition shannon_entropy_bits :: "string \<Rightarrow> real" where
  "shannon_entropy_bits s = - (\<Sum>c\<in>set s. (real (count_list s c) / real (length s)) * log 2 (real (count_list s c) / real (length s)))"

lemma counts_sum: "(\<Sum>c\<in>set s. real (count_list s c)) = real (length s)"
  using sum_count_set [of s "set s"] by (simp flip: of_nat_sum)

lemma count_positive: "c \<in> set s \<Longrightarrow> 0 < count_list s c"
  by (induction s) auto

lemma entropy_split:
  assumes "s \<noteq> []"
  shows "real (length s) * shannon_entropy_bits s = real (length s) * log 2 (real (length s)) - (\<Sum>c\<in>set s. real (count_list s c) * log 2 (real (count_list s c)))"
proof -
  let ?n = "real (length s)"
  have n: "?n > 0" using assms by simp
  have pos: "real (count_list s c) > 0" if "c \<in> set s" for c using count_positive [OF that] by simp
  have "?n * shannon_entropy_bits s = - (\<Sum>c\<in>set s. real (count_list s c) * log 2 (real (count_list s c) / ?n))"
    using n by (simp add: shannon_entropy_bits_def sum_distrib_left)
  also have "\<dots> = - (\<Sum>c\<in>set s. real (count_list s c) * log 2 (real (count_list s c)) - real (count_list s c) * log 2 ?n)"
    using n pos by (auto intro!: sum.cong simp: log_divide right_diff_distrib)
  also have "\<dots> = ?n * log 2 ?n - (\<Sum>c\<in>set s. real (count_list s c) * log 2 (real (count_list s c)))"
    using counts_sum [of s] by (simp add: sum_subtractf flip: sum_distrib_right)
  finally show ?thesis .
qed

lemma log_counts:
  "log 2 (real (prod_list (map (\<lambda>c. c ^ (2 * c)) (char_counts s)))) = 2 * (\<Sum>c\<in>set s. real (count_list s c) * log 2 (real (count_list s c)))"
proof -
  have "log 2 (real (prod_list (map (\<lambda>c. c ^ (2 * c)) (map (count_list s) xs)))) = (\<Sum>c\<leftarrow>xs. 2 * (real (count_list s c) * log 2 (real (count_list s c))))"
    if "set xs \<subseteq> set s" for xs
    using that
  proof (induction xs)
    case (Cons x xs)
    have p: "0 < count_list s x" using Cons.prems by (simp add: count_positive)
    have q: "0 < prod_list (map (\<lambda>c. c ^ (2 * c)) (map (count_list s) xs))"
      using Cons.prems by (auto simp: prod_list_zero_iff count_list_0_iff zero_less_iff_neq_zero subset_iff)
    show ?case using Cons p q by (simp add: log_mult log_nat_power)
  qed simp
  from this [of "remdups s"] show ?thesis by (simp add: char_counts_def sum_list_distinct_conv_sum_set sum_distrib_left)
qed



section \<open>Hidden documents\<close>

text \<open>The keys and the string values of a value, at every depth.\<close>

fun all_keys :: "pyval \<Rightarrow> string list" where
  "all_keys (VDict d) = concat (map (\<lambda>(k, v). k # all_keys v) d)"
| "all_keys (VList vs) = concat (map all_keys vs)"
| "all_keys _ = []"

fun all_strings :: "pyval \<Rightarrow> string list" where
  "all_strings (VDict d) = concat (map (\<lambda>(k, v). all_strings v) d)"
| "all_strings (VList vs) = concat (map all_strings vs)"
| "all_strings (VStr s) = [s]"
| "all_strings _ = []"

definition plain_text :: "string \<Rightarrow> bool" where
  "plain_text t \<longleftrightarrow> list_all (\<lambda>r. rx_search r t = None) SECRET_SHAPE_PATTERNS \<and> \<not> list_ex sensitive_field_name (assigned_names t)"

lemma rmap_all: "rmap f xs = Inr ys \<Longrightarrow> x \<in> set xs \<Longrightarrow> \<exists>y. f x = Inr y"
  by (induction xs arbitrary: ys) (auto simp: rbind_Inr_iff)

lemma scan_value_accepts:
  assumes "scan_value sc f allow v = Inr u"
  shows "(\<forall>k\<in>set (all_keys v). \<not> sensitive_field_name k \<and> sc None k = Inr ()) \<and> (\<forall>s\<in>set (all_strings v). \<exists>g. sc g s = Inr ())"
  using assms
proof (induction sc f allow v arbitrary: u rule: scan_value.induct)
  case (1 sc f allow d)
  then obtain ys where ys: "rmap (\<lambda>(key, child). rbind (sc None key) (\<lambda>_. rbind (guard (\<not> sensitive_field_name key) SecretShaped) (\<lambda>_.
      scan_value sc (if allow \<and> key \<in> set IDENTIFIER_FIELD_NAMES then Some key else None) False child))) d = Inr ys" by (auto simp: rbind_Inr_iff)
  have e: "sc None k = Inr ()" "\<not> sensitive_field_name k"
    "(\<forall>k\<in>set (all_keys v). \<not> sensitive_field_name k \<and> sc None k = Inr ()) \<and> (\<forall>s\<in>set (all_strings v). \<exists>g. sc g s = Inr ())"
    if kv: "(k, v) \<in> set d" for k v
  proof -
    from rmap_all [OF ys kv] obtain y where y: "sc None k = Inr ()" "\<not> sensitive_field_name k"
      "scan_value sc (if allow \<and> k \<in> set IDENTIFIER_FIELD_NAMES then Some k else None) False v = Inr y" by (auto simp: rbind_Inr_iff)
    from 1(1) [OF kv refl y(3)] y(1,2) show "sc None k = Inr ()" "\<not> sensitive_field_name k"
      "(\<forall>k\<in>set (all_keys v). \<not> sensitive_field_name k \<and> sc None k = Inr ()) \<and> (\<forall>s\<in>set (all_strings v). \<exists>g. sc g s = Inr ())" by auto
  qed
  show ?case using e by (auto split: prod.splits)
next
  case (2 sc f allow vs)
  then obtain ys where ys: "rmap (scan_value sc None False) vs = Inr ys" by (auto simp: rbind_Inr_iff)
  have "(\<forall>k\<in>set (all_keys v). \<not> sensitive_field_name k \<and> sc None k = Inr ()) \<and> (\<forall>s\<in>set (all_strings v). \<exists>g. sc g s = Inr ())" if "v \<in> set vs" for v
    using rmap_all [OF ys that] 2(1) [OF that] by blast
  then show ?case by auto
qed auto

text \<open>
  A document is hidden in another one if some text of the outer one contains a quoted HCL
  string that, decoded, reads as the inner one.
\<close>

inductive hidden_in :: "(string \<Rightarrow> pyval option) \<Rightarrow> pyval \<Rightarrow> pyval \<Rightarrow> bool" for loads outer where
  itself: "hidden_in loads outer outer"
| literal: "hidden_in loads outer v \<Longrightarrow> t \<in> set (all_keys v) \<union> set (all_strings v) \<Longrightarrow> l \<in> set (snd (decode_hcl_quoted_strings t))
    \<Longrightarrow> loads l = Some w \<Longrightarrow> hidden_in loads outer w"

lemma scan_textE:
  assumes "scan_text loads k dd f t = Inr u"
  obtains j where "k = Suc j" "\<not> secret_shaped f t" "\<not> list_ex sensitive_field_name (assigned_names t)"
    "\<And>l v. l \<in> set (snd (decode_hcl_quoted_strings t)) \<Longrightarrow> loads l = Some v \<Longrightarrow> scan_value (scan_text loads j False) None False v = Inr ()"
    "\<And>v. dd \<Longrightarrow> loads t = Some v \<Longrightarrow> scan_value (scan_text loads j False) None False v = Inr ()"
    "utf8_bytes t \<le> OPENBAO_MAX_STRING_BYTES"
proof (cases k)
  case (Suc j)
  obtain decoded literals where d: "decode_hcl_quoted_strings t = (decoded, literals)" by (cases "decode_hcl_quoted_strings t")
  from assms Suc d have s: "\<not> secret_shaped f t" "\<not> list_ex sensitive_field_name (assigned_names t)" "utf8_bytes t \<le> OPENBAO_MAX_STRING_BYTES"
    by (auto simp: rbind_Inr_iff reject_secret_shapes_def reject_sensitive_assignments_def)
  from assms Suc d obtain ys where ys: "rmap (\<lambda>l. rbind (reject_secret_shapes None l) (\<lambda>_.
      case loads l of None \<Rightarrow> Inr () | Some v \<Rightarrow> scan_value (scan_text loads j False) None False v)) literals = Inr ys"
    by (auto simp: rbind_Inr_iff)
  have l: "scan_value (scan_text loads j False) None False v = Inr ()" if "l \<in> set literals" "loads l = Some v" for l v
    using rmap_all [OF ys that(1)] that(2) by (auto simp: rbind_Inr_iff)
  have j: "scan_value (scan_text loads j False) None False v = Inr ()" if "dd" "loads t = Some v" for v
    using assms Suc that d by (auto simp: rbind_Inr_iff)
  from that [OF Suc s(1,2) _ _ s(3)] l j d show thesis by simp
qed (use assms in simp)

lemma plainI: "\<not> secret_shaped f t \<Longrightarrow> \<not> list_ex sensitive_field_name (assigned_names t) \<Longrightarrow> plain_text t"
  by (auto simp: plain_text_def secret_shaped_def list_ex_iff list_all_iff)

lemma hidden_scanned:
  assumes "hidden_in loads outer v" "\<exists>k. \<forall>t\<in>set (all_keys outer) \<union> set (all_strings outer). \<exists>f dd. scan_text loads k dd f t = Inr ()"
  shows "\<exists>k. \<forall>t\<in>set (all_keys v) \<union> set (all_strings v). \<exists>f dd. scan_text loads k dd f t = Inr ()"
  using assms
proof (induction rule: hidden_in.induct)
  case (literal v t l w)
  then obtain k f dd where "scan_text loads k dd f t = Inr ()" by blast
  then show ?case
  proof (rule scan_textE)
    fix j
    assume "\<And>l v. l \<in> set (snd (decode_hcl_quoted_strings t)) \<Longrightarrow> loads l = Some v \<Longrightarrow> scan_value (scan_text loads j False) None False v = Inr ()"
    from scan_value_accepts [OF this [OF literal(3,4)]] show ?case by blast
  qed
qed

lemma hidden_keys:
  assumes "hidden_in loads outer v" "\<forall>k\<in>set (all_keys outer). \<not> sensitive_field_name k"
    "\<exists>k. \<forall>t\<in>set (all_keys outer) \<union> set (all_strings outer). \<exists>f dd. scan_text loads k dd f t = Inr ()"
  shows "\<forall>k\<in>set (all_keys v). \<not> sensitive_field_name k"
  using assms(1)
proof cases
  case (literal u t l)
  from hidden_scanned [OF literal(1) assms(3)] literal(2) obtain k f dd where "scan_text loads k dd f t = Inr ()" by blast
  then show ?thesis
  proof (rule scan_textE)
    fix j
    assume "\<And>l v. l \<in> set (snd (decode_hcl_quoted_strings t)) \<Longrightarrow> loads l = Some v \<Longrightarrow> scan_value (scan_text loads j False) None False v = Inr ()"
    from scan_value_accepts [OF this [OF literal(3,4)]] show ?thesis by blast
  qed
qed (use assms(2) in simp)

lemma accepted_params_hide_no_secret:
  assumes "validate_openbao_params_for_persistence loads fuel name ps = Inr ()" "startswith name ''service.openbao.1.''"
    "outer = ps \<or> (\<exists>t\<in>set (all_keys ps) \<union> set (all_strings ps). loads t = Some outer)" "hidden_in loads outer v"
  shows "list_all (\<lambda>k. \<not> sensitive_field_name k) (all_keys v) \<and> list_all plain_text (all_keys v @ all_strings v)"
proof -
  from assms(1,2) have a: "scan_value (scan_text loads fuel True) None True ps = Inr ()"
    by (auto simp: validate_openbao_params_for_persistence_def split: pyval.splits)
  note p = scan_value_accepts [OF a]
  have o: "(\<forall>k\<in>set (all_keys outer). \<not> sensitive_field_name k) \<and> (\<exists>k. \<forall>t\<in>set (all_keys outer) \<union> set (all_strings outer). \<exists>f dd. scan_text loads k dd f t = Inr ())"
    using assms(3)
  proof
    assume "outer = ps"
    with p show ?thesis by blast
  next
    assume "\<exists>t\<in>set (all_keys ps) \<union> set (all_strings ps). loads t = Some outer"
    then obtain t f where t: "scan_text loads fuel True f t = Inr ()" "loads t = Some outer" using p by blast
    from t(1) show ?thesis
    proof (rule scan_textE)
      fix j
      assume "\<And>v. True \<Longrightarrow> loads t = Some v \<Longrightarrow> scan_value (scan_text loads j False) None False v = Inr ()"
      from scan_value_accepts [OF this [OF TrueI t(2)]] show ?thesis by blast
    qed
  qed
  then have k: "\<forall>k\<in>set (all_keys v). \<not> sensitive_field_name k" using hidden_keys [OF assms(4)] by blast
  from hidden_scanned [OF assms(4)] o obtain n where n: "\<forall>t\<in>set (all_keys v) \<union> set (all_strings v). \<exists>f dd. scan_text loads n dd f t = Inr ()" by blast
  have "plain_text t" if "t \<in> set (all_keys v) \<union> set (all_strings v)" for t
    using n that by (meson plainI scan_textE)
  with k show ?thesis by (auto simp: list_all_iff)
qed



section \<open>The scan ends\<close>

text \<open>What the reader of JSON guarantees: no empty document, and no text longer than the document.\<close>

definition loads_within :: "(string \<Rightarrow> pyval option) \<Rightarrow> bool" where
  "loads_within loads \<longleftrightarrow> loads [] = None
     \<and> (\<forall>s v. loads s = Some v \<longrightarrow> list_all (\<lambda>t. length t \<le> length s) (all_keys v @ all_strings v))"

lemma loads_withinD: "loads_within loads \<Longrightarrow> loads s = Some v \<Longrightarrow> t \<in> set (all_keys v) \<union> set (all_strings v) \<Longrightarrow> length t \<le> length s"
  by (auto simp: loads_within_def list_all_iff)

lemma rmap_Inl: "rmap f xs = Inl e \<Longrightarrow> \<exists>x\<in>set xs. f x = Inl e"
  by (induction xs) (auto simp: rbind_Inl_iff)

lemma scan_value_finishes:
  assumes "\<And>t g. t \<in> set (all_keys v) \<union> set (all_strings v) \<Longrightarrow> sc g t \<noteq> Inl ScanUnfinished"
  shows "scan_value sc f allow v \<noteq> Inl ScanUnfinished"
  using assms
proof (induction sc f allow v rule: scan_value.induct)
  case (1 sc f allow d)
  show ?case
  proof
    assume "scan_value sc f allow (VDict d) = Inl ScanUnfinished"
    then obtain k v where kv: "(k, v) \<in> set d" "sc None k = Inl ScanUnfinished
        \<or> scan_value sc (if allow \<and> k \<in> set IDENTIFIER_FIELD_NAMES then Some k else None) False v = Inl ScanUnfinished"
      by (auto simp: rbind_Inl_iff dest!: rmap_Inl)
    have "set (all_keys v) \<union> set (all_strings v) \<subseteq> set (all_keys (VDict d)) \<union> set (all_strings (VDict d))" "k \<in> set (all_keys (VDict d))"
      using kv(1) by force+
    with 1(1) [OF kv(1) refl] 1(2) kv(2) show False by blast
  qed
next
  case (2 sc f allow vs)
  show ?case
  proof
    assume "scan_value sc f allow (VList vs) = Inl ScanUnfinished"
    then obtain v where v: "v \<in> set vs" "scan_value sc None False v = Inl ScanUnfinished" by (auto simp: rbind_Inl_iff dest!: rmap_Inl)
    with 2(1) [OF v(1)] 2(2) show False by force
  qed
qed auto

lemma decoded_length: "decode_hcl_escapes t = Some ps \<Longrightarrow> length ps \<le> length t"
proof (induction "length t" arbitrary: t ps rule: less_induct)
  case less
  have ih: "length qs \<le> length u" if "decode_hcl_escapes u = Some qs" "length u < length t" for u qs using less.hyps that by blast
  show ?case
  proof (cases t)
    case (Cons c cs)
    show ?thesis
    proof (cases "c = BSL")
      case True
      with less.prems Cons obtain e rest where cs: "cs = e # rest" by (cases cs) auto
      obtain u qs where u: "decode_hcl_escapes u = Some qs" "length u \<le> length rest" "length ps = Suc (length qs)"
        using less.prems Cons True cs by (auto simp: Let_def split: if_splits option.splits)
      with ih [OF u(1)] Cons cs show ?thesis by simp
    next
      case False
      with less.prems Cons obtain qs where "decode_hcl_escapes cs = Some qs" "ps = of_char c # qs" by auto
      with ih [of cs qs] Cons show ?thesis by simp
    qed
  qed (use less.prems in simp)
qed

lemma literal_length:
  assumes "l \<in> set (snd (decode_hcl_quoted_strings t))"
  shows "length l \<le> length t - 2"
proof -
  from assms obtain m where "l \<in> set (case decode_hcl_escapes (quoted_body t m) of None \<Rightarrow> [] | Some ps \<Rightarrow> [literal_text ps])"
    by (auto simp: decode_hcl_quoted_strings_def Let_def)
  then obtain ps where m: "decode_hcl_escapes (quoted_body t m) = Some ps" "l = literal_text ps"
    by (cases "decode_hcl_escapes (quoted_body t m)") auto
  have "length (quoted_body t m) \<le> length t - 2" by (simp add: quoted_body_def matched_text_def)
  with decoded_length [OF m(1)] m(2) show ?thesis by (simp add: literal_text_def)
qed

lemma scan_text_unfinished:
  assumes "scan_text loads (Suc k) dd f t = Inl ScanUnfinished"
  obtains l v where "l \<in> set (snd (decode_hcl_quoted_strings t))" "loads l = Some v" "scan_value (scan_text loads k False) None False v = Inl ScanUnfinished"
  | v where dd "loads t = Some v" "scan_value (scan_text loads k False) None False v = Inl ScanUnfinished"
proof -
  have r: "reject_secret_shapes f t \<noteq> Inl ScanUnfinished" "reject_sensitive_assignments t \<noteq> Inl ScanUnfinished" for f t
    by (auto simp: reject_secret_shapes_def reject_sensitive_assignments_def)
  obtain decoded literals where d: "decode_hcl_quoted_strings t = (decoded, literals)" by (cases "decode_hcl_quoted_strings t")
  from assms d r that show thesis
    by (auto simp: rbind_Inl_iff dest!: rmap_Inl split: if_splits option.splits)
qed

lemma scan_text_finishes:
  assumes "loads_within loads" "length t < k"
  shows "scan_text loads k False f t \<noteq> Inl ScanUnfinished"
  using assms(2)
proof (induction k arbitrary: f t)
  case (Suc k)
  show ?case
  proof
    assume "scan_text loads (Suc k) False f t = Inl ScanUnfinished"
    then obtain l v where lv: "l \<in> set (snd (decode_hcl_quoted_strings t))" "loads l = Some v" "scan_value (scan_text loads k False) None False v = Inl ScanUnfinished"
      by (rule scan_text_unfinished) simp_all
    from lv(2) assms(1) have "l \<noteq> []" by (auto simp: loads_within_def)
    with literal_length [OF lv(1)] Suc.prems have "length l < k" by (cases l) auto
    then have "scan_text loads k False g s \<noteq> Inl ScanUnfinished" if "s \<in> set (all_keys v) \<union> set (all_strings v)" for g s
      using loads_withinD [OF assms(1) lv(2) that] Suc.IH by simp
    with lv(3) scan_value_finishes show False by blast
  qed
qed simp

lemma scan_documents_finish:
  assumes "loads_within loads" "Suc (length t) < k"
  shows "scan_text loads k True f t \<noteq> Inl ScanUnfinished"
proof
  obtain j where k: "k = Suc j" using assms(2) by (cases k) auto
  assume "scan_text loads k True f t = Inl ScanUnfinished"
  then obtain l v where lv: "loads l = Some v" "length l \<le> length t" "scan_value (scan_text loads j False) None False v = Inl ScanUnfinished"
    unfolding k by (rule scan_text_unfinished) (use literal_length in force)+
  have "scan_text loads j False g s \<noteq> Inl ScanUnfinished" if "s \<in> set (all_keys v) \<union> set (all_strings v)" for g s
    using loads_withinD [OF assms(1) lv(1) that] lv(2) assms(2) k by (intro scan_text_finishes [OF assms(1)]) simp
  with lv(3) scan_value_finishes show False by blast
qed

text \<open>
  C29: The scan of documents hidden inside documents ends. With a JSON reader that never
  returns a text longer than the document, a nesting bound of two more than the longest text
  of the parameters is never exhausted, although each text may hold further documents.
\<close>

theorem openbao_scan_ends:
  assumes "loads_within loads" "list_all (\<lambda>t. Suc (length t) < fuel) (all_keys ps @ all_strings ps)"
  shows "validate_openbao_params_for_persistence loads fuel name ps \<noteq> Inl ScanUnfinished"
proof -
  have "scan_value (scan_text loads fuel True) None True ps \<noteq> Inl ScanUnfinished"
    using assms(2) by (intro scan_value_finishes scan_documents_finish [OF assms(1)]) (auto simp: list_all_iff)
  then show ?thesis by (auto simp: validate_openbao_params_for_persistence_def split: pyval.splits)
qed


section \<open>Creating an OpenBao execution\<close>

lemma admitted_openbao:
  assumes "admit d u ci = Inr am" "startswith (proc_name (cd_procedure (am_data am))) OPENBAO_PROCEDURE_PREFIX"
  shows "ad_secret_ingress d (am_params am) = None"
  using assms unfolding admit_def Let_def rbind_Inr_iff guard_Inr_iff
  by (auto simp: rbind_Inr_iff validate_openbao_payload_def split: prod.splits option.splits)

text \<open>
  With this scan as the check of the admission, whatever creation of an OpenBao execution
  stores hides no secret at any depth.
\<close>

lemma openbao_execution_stores_no_secret:
  assumes "create_execution d u ci s = (r, s')" "s' \<noteq> s" "ci_validated ci = Inr cd"
    "startswith (proc_name (cd_procedure cd)) OPENBAO_PROCEDURE_PREFIX"
    "\<And>ps. ad_secret_ingress d ps = (case validate_openbao_params_for_persistence loads fuel (proc_name (cd_procedure cd)) (VDict ps) of
        Inl e \<Rightarrow> Some (ingress_message e) | Inr _ \<Rightarrow> None)"
  shows "\<exists>a. execs (sv_world s') (ad_new_pk d) = Some a \<and> (\<forall>v. hidden_in loads (params (obj (store a))) v \<longrightarrow>
    list_all (\<lambda>k. \<not> sensitive_field_name k) (all_keys v) \<and> list_all plain_text (all_keys v @ all_strings v))"
proof -
  from stored_params [OF assms(1,2)] obtain am a where am: "admit d u ci = Inr am" "execs (sv_world s') (ad_new_pk d) = Some a"
    "params (obj (store a)) = VDict (am_params am)" by blast
  have cd: "am_data am = cd" using admit_data [OF am(1)] assms(3) by simp
  with admitted_openbao [OF am(1)] assms(4) have "ad_secret_ingress d (am_params am) = None" by simp
  with assms(5) have "validate_openbao_params_for_persistence loads fuel (proc_name (cd_procedure cd)) (VDict (am_params am)) = Inr ()"
    by (simp split: sum.splits)
  note hidden = accepted_params_hide_no_secret [OF this assms(4) [unfolded OPENBAO_PROCEDURE_PREFIX_def] disjI1 [OF refl]]
  show ?thesis unfolding am(2) by (rule exI [of _ a]) (unfold am(3), use hidden in blast)
qed


section \<open>Samples\<close>

definition empty_object_loads :: "string \<Rightarrow> pyval option" where
  "empty_object_loads s = (if s = ''{}'' then Some (VDict []) else None)"

definition lease_params :: pyval where
  "lease_params = VDict [(''ttl'', VStr ''4h'')]"

lemma scan_text_plain:
  assumes "utf8_bytes t \<le> OPENBAO_MAX_STRING_BYTES" "loads t = None"
    "\<not> secret_shaped f t \<and> assigned_names t = [] \<and> decode_hcl_quoted_strings t = (t, []) \<and> rx_search ESCAPED_ASSIGNMENT_KEY_RE t = None"
  shows "scan_text loads (Suc k) True f t = Inr ()"
  using assms by (simp add: reject_secret_shapes_def reject_sensitive_assignments_def)

lemma sample_texts_plain:
  "\<not> secret_shaped None ''ttl'' \<and> assigned_names ''ttl'' = [] \<and> decode_hcl_quoted_strings ''ttl'' = (''ttl'', []) \<and>
     rx_search ESCAPED_ASSIGNMENT_KEY_RE ''ttl'' = None"
  "\<not> secret_shaped None ''4h'' \<and> assigned_names ''4h'' = [] \<and> decode_hcl_quoted_strings ''4h'' = (''4h'', []) \<and>
     rx_search ESCAPED_ASSIGNMENT_KEY_RE ''4h'' = None"
  "\<not> sensitive_field_name ''ttl''" "''ttl'' \<notin> set IDENTIFIER_FIELD_NAMES"
  "startswith ''service.openbao.1.status'' ''service.openbao.1.''"
  by code_simp+

lemma lease_accepted: "validate_openbao_params_for_persistence empty_object_loads 20 ''service.openbao.1.status'' lease_params = Inr ()"
proof -
  have "scan_text empty_object_loads (Suc 19) True None t = Inr ()" if "t = ''ttl'' \<or> t = ''4h''" for t
    by (rule scan_text_plain)
      (use that sample_texts_plain(1,2) in \<open>auto simp: utf8_bytes_def OPENBAO_MAX_STRING_BYTES_def empty_object_loads_def\<close>)
  then have t: "scan_text empty_object_loads 20 True None t = Inr ()" if "t = ''ttl'' \<or> t = ''4h''" for t
    using that by (simp del: scan_text.simps)
  show ?thesis
    using sample_texts_plain(3,4,5) t by (simp add: validate_openbao_params_for_persistence_def lease_params_def)
qed


theorem openbao_scan_ends_witness:
  "validate_openbao_params_for_persistence empty_object_loads 20 ''service.openbao.1.status'' lease_params \<noteq> Inl ScanUnfinished"
  by (rule openbao_scan_ends) (simp_all add: loads_within_def empty_object_loads_def lease_params_def)

end
