(* ===== verification/Normalization.thy ===== *)
theory Normalization
  imports AdmissionChecks Transport
begin

text \<open>
  The helpers that the procedure normalizers of \<open>domain/normalization.py\<close> share: reading
  typed parameters, the payload with its command fingerprint, POSIX paths, and the SSH
  overrides.

  A normalizer reads the parameters of the execution (an object, as admission stores it) and
  either raises or returns the payload that is dispatched. The payload holds the dictionary
  \<open>command_fingerprint\<close>, which the worker records and the lease signs.
\<close>

section \<open>Typed parameters\<close>

abbreviation param_invalid :: "string \<Rightarrow> handler_error" where
  "param_invalid m \<equiv> RPCExecutionError m ''RPC_PARAM_INVALID''"

text \<open>\<open>str(params.get(key) or "").strip()\<close>, the idiom of every textual parameter.\<close>

definition text_of :: "pyval \<Rightarrow> string" where
  "text_of v = strip (str_or v [])"

definition hash_text :: "python_rt \<Rightarrow> string \<Rightarrow> string" where
  "hash_text rt s = rt_sha256 rt s"

text \<open>Only \<open>KeyError\<close>, \<open>TypeError\<close> and \<open>ValueError\<close> of the conversion are caught.\<close>

definition int_range :: "python_rt \<Rightarrow> pydict \<Rightarrow> string \<Rightarrow> int \<Rightarrow> int option \<Rightarrow> handler_error + int" where
  "int_range rt ps key lo hi =
     (case map_of ps key of
        None \<Rightarrow> Inl (param_invalid (key @ '' must be an integer.''))
      | Some v \<Rightarrow> (case py_int rt v of
          Inl OverflowError \<Rightarrow> Inl (HandlerRaised OverflowError)
        | Inl _ \<Rightarrow> Inl (param_invalid (key @ '' must be an integer.''))
        | Inr i \<Rightarrow>
            if i < lo \<or> (case hi of None \<Rightarrow> False | Some h \<Rightarrow> h < i)
            then Inl (RPCExecutionError (key @ '' must be >= '' @ int_str lo
                 @ (case hi of None \<Rightarrow> [] | Some h \<Rightarrow> '' and <= '' @ int_str h) @ ''.'') ''RPC_PARAM_OUT_OF_RANGE'')
            else Inr i))"

definition optional_int_range :: "python_rt \<Rightarrow> pydict \<Rightarrow> string \<Rightarrow> int \<Rightarrow> int option \<Rightarrow> handler_error + int option" where
  "optional_int_range rt ps key lo hi =
     (if dget ps key = VNone \<or> dget ps key = VStr [] then Inr None
      else rbind (int_range rt ps key lo hi) (\<lambda>i. Inr (Some i)))"

definition bool_param :: "pydict \<Rightarrow> string \<Rightarrow> bool \<Rightarrow> handler_error + bool" where
  "bool_param ps key dflt =
     (case dget ps key of
        VNone \<Rightarrow> Inr dflt
      | VBool b \<Rightarrow> Inr b
      | VStr s \<Rightarrow>
          (let lowered = lower (strip s) in
           if lowered \<in> {''true'', ''1'', ''yes'', ''on''} then Inr True
           else if lowered \<in> {''false'', ''0'', ''no'', ''off''} then Inr False
           else Inl (param_invalid (key @ '' must be a boolean.'')))
      | _ \<Rightarrow> Inl (param_invalid (key @ '' must be a boolean.'')))"

text \<open>\<open>bool(params.get(key, dflt))\<close>.\<close>

definition truth_param :: "pydict \<Rightarrow> string \<Rightarrow> bool \<Rightarrow> bool" where
  "truth_param ps key dflt = (case map_of ps key of None \<Rightarrow> dflt | Some v \<Rightarrow> truthy v)"

text \<open>\<open>int(params.get(key, dflt))\<close>, without a guard around the conversion.\<close>

definition raw_int_param :: "python_rt \<Rightarrow> pydict \<Rightarrow> string \<Rightarrow> int \<Rightarrow> handler_error + int" where
  "raw_int_param rt ps key dflt = (case map_of ps key of None \<Rightarrow> Inr dflt | Some v \<Rightarrow> raised (py_int rt v))"

definition optional_regex_param :: "regex \<Rightarrow> pydict \<Rightarrow> string \<Rightarrow> handler_error + string" where
  "optional_regex_param r ps key =
     (let v = text_of (dget ps key) in
      rbind (guard (v = [] \<or> fullmatch r v) (param_invalid (key @ '' contains invalid characters.''))) (\<lambda>_. Inr v))"

definition has_control :: "string \<Rightarrow> bool" where
  "has_control s \<longleftrightarrow> list_ex (\<lambda>c. (of_char c :: nat) < 32) s"

definition has_space_or_control :: "string \<Rightarrow> bool" where
  "has_space_or_control s \<longleftrightarrow> list_ex (\<lambda>c. is_space c \<or> (of_char c :: nat) < 32) s"


section \<open>Steps and patterns\<close>

text \<open>Statements run in order on a payload, and a loop whose body may raise.\<close>

fun rseq :: "('a \<Rightarrow> 'e + 'a) list \<Rightarrow> 'a \<Rightarrow> 'e + 'a" where
  "rseq [] n = Inr n"
| "rseq (f # fs) n = rbind (f n) (rseq fs)"

definition each :: "('a \<Rightarrow> 'e + unit) \<Rightarrow> 'a list \<Rightarrow> 'e + unit" where
  "each f xs = rbind (rmap f xs) (\<lambda>_. Inr ())"

abbreviation is_alnum :: "char \<Rightarrow> bool" where
  "is_alnum c \<equiv> is_alpha c \<or> is_digit c"

definition alnum_or :: "string \<Rightarrow> char \<Rightarrow> bool" where
  "alnum_or s c \<longleftrightarrow> is_alnum c \<or> c \<in> set s"

text \<open>\<open>^\<close> and \<open>$\<close> without the multiline flag, and the dot.\<close>

definition text_start :: regex where
  "text_start = NotAfter (\<lambda>_. True)"

definition dollar :: regex where
  "dollar = Alt TextEnd (Look (Seq (lit [CHR 0x0A]) TextEnd))"

definition rx_found :: "regex \<Rightarrow> string \<Rightarrow> bool" where
  "rx_found r t \<longleftrightarrow> search_from r t False 0 \<noteq> None"

definition dot :: regex where
  "dot = noneof [CHR 0x0A]"


section \<open>Payloads\<close>

text \<open>
  \<open>normalized["command_fingerprint"]\<close>, an assignment to it, an assignment to both the payload
  and the fingerprint, and an assignment whose fingerprint holds the digest of the text.
\<close>

definition fingerprint :: "pydict \<Rightarrow> pydict" where
  "fingerprint n = (case dget n ''command_fingerprint'' of VDict f \<Rightarrow> f | _ \<Rightarrow> [])"

definition put_fp :: "string \<Rightarrow> pyval \<Rightarrow> pydict \<Rightarrow> pydict" where
  "put_fp k v n = dict_set ''command_fingerprint'' (VDict (dict_set k v (fingerprint n))) n"

definition put_both :: "string \<Rightarrow> pyval \<Rightarrow> pydict \<Rightarrow> pydict" where
  "put_both k v n = put_fp k v (dict_set k v n)"

definition put_hashed :: "python_rt \<Rightarrow> string \<Rightarrow> string \<Rightarrow> pydict \<Rightarrow> pydict" where
  "put_hashed rt k s n = put_fp (k @ ''_sha256'') (VStr (hash_text rt s)) (dict_set k (VStr s) n)"

definition put_some :: "string \<Rightarrow> pyval option \<Rightarrow> pydict \<Rightarrow> pydict" where
  "put_some k v n = (case v of None \<Rightarrow> n | Some x \<Rightarrow> put_both k x n)"

definition put_text :: "string \<Rightarrow> string \<Rightarrow> pydict \<Rightarrow> pydict" where
  "put_text k s n = (if s = [] then n else put_both k (VStr s) n)"

definition put_all :: "pydict \<Rightarrow> pydict \<Rightarrow> pydict" where
  "put_all kvs n = fold (\<lambda>(k, v). put_both k v) kvs n"

text \<open>The two dictionaries that the normalizers open with.\<close>

definition handler_payload :: "exec_request \<Rightarrow> string \<Rightarrow> pydict" where
  "handler_payload rq target =
     [(''target'', VStr target),
      (''command_fingerprint'', VDict [(''handler_id'', VStr (proc_handler_id (rq_procedure rq)))])]"

definition procedure_payload :: "exec_request \<Rightarrow> string \<Rightarrow> pydict" where
  "procedure_payload rq target =
     [(''target'', VStr target),
      (''command_fingerprint'', VDict [(''handler_id'', VStr (proc_handler_id (rq_procedure rq))),
         (''procedure'', VStr (proc_name (rq_procedure rq)))])]"

text \<open>A parameter that is validated and copied to the payload and the fingerprint.\<close>

definition copy_valid :: "(pyval \<Rightarrow> handler_error + string) \<Rightarrow> pydict \<Rightarrow> string \<Rightarrow> pydict \<Rightarrow> handler_error + pydict" where
  "copy_valid f ps k n = rbind (f (dget ps k)) (\<lambda>s. Inr (put_both k (VStr s) n))"

definition copy_bool :: "pydict \<Rightarrow> string \<Rightarrow> bool \<Rightarrow> pydict \<Rightarrow> handler_error + pydict" where
  "copy_bool ps k dflt n = rbind (bool_param ps k dflt) (\<lambda>b. Inr (put_both k (VBool b) n))"

definition copy_optional :: "(pyval \<Rightarrow> string \<Rightarrow> handler_error + string) \<Rightarrow> pydict \<Rightarrow> string \<Rightarrow> pydict \<Rightarrow> handler_error + pydict" where
  "copy_optional f ps k n = rbind (f (dget ps k) k) (\<lambda>s. Inr (put_text k s n))"

definition when_in :: "string \<Rightarrow> string list \<Rightarrow> (pydict \<Rightarrow> handler_error + pydict) \<Rightarrow> pydict \<Rightarrow> handler_error + pydict" where
  "when_in name names f n = (if name \<in> set names then f n else Inr n)"

text \<open>\<open>len(text.encode("utf-8"))\<close>.\<close>

definition utf8_size :: "string \<Rightarrow> int" where
  "utf8_size s = int (sum_list (map (\<lambda>c. if (of_char c :: nat) < 128 then 1 else 2) s))"


text \<open>A pattern that the stripped text must match, and a value that is not \<open>None\<close> or empty.\<close>

definition pattern_param :: "regex \<Rightarrow> string \<Rightarrow> pyval \<Rightarrow> handler_error + string" where
  "pattern_param r field raw =
     (let s = text_of raw in
      rbind (guard (fullmatch r s) (param_invalid (field @ '' has an invalid or unsupported value.''))) (\<lambda>_. Inr s))"

definition choice_param :: "string list \<Rightarrow> string \<Rightarrow> pyval \<Rightarrow> handler_error + string" where
  "choice_param allowed message raw =
     (let s = lower (text_of raw) in rbind (guard (s \<in> set allowed) (param_invalid message)) (\<lambda>_. Inr s))"

definition given :: "pydict \<Rightarrow> string \<Rightarrow> bool" where
  "given ps k \<longleftrightarrow> dget ps k \<noteq> VNone \<and> dget ps k \<noteq> VStr []"

definition copy_optional_int :: "python_rt \<Rightarrow> pydict \<Rightarrow> string \<Rightarrow> int \<Rightarrow> int option \<Rightarrow> pydict \<Rightarrow> handler_error + pydict" where
  "copy_optional_int rt ps k lo hi n =
     rbind (optional_int_range rt ps k lo hi) (\<lambda>i. Inr (put_some k (map_option VInt i) n))"


definition target_object :: "exec_request \<Rightarrow> pyval" where
  "target_object rq = VDict [(''content_type'', VStr (rq_target_model_label rq)), (''object_id'', VInt (rq_target_id rq))]"

definition supplied_overrides :: "pydict \<Rightarrow> string list \<Rightarrow> string list" where
  "supplied_overrides ps forbidden = sort (filter (\<lambda>k. k \<in> set forbidden) (remdups (dict_keys ps)))"

definition unexpected_params :: "pydict \<Rightarrow> string list \<Rightarrow> string list" where
  "unexpected_params ps allowed = sort (filter (\<lambda>k. k \<notin> set allowed) (remdups (dict_keys ps)))"

definition copy_given :: "(pyval \<Rightarrow> handler_error + string) \<Rightarrow> pydict \<Rightarrow> string \<Rightarrow> pydict \<Rightarrow> handler_error + pydict" where
  "copy_given f ps k n = (if given ps k then copy_valid f ps k n else Inr n)"

section \<open>SSH overrides\<close>

definition validate_ssh_host :: "string \<Rightarrow> string \<Rightarrow> handler_error + unit" where
  "validate_ssh_host host empty_message =
     rbind (guard (host \<noteq> []) (param_invalid empty_message)) (\<lambda>_.
     rbind (guard (length host \<le> 255) (param_invalid ''rpc_ssh_host may contain at most 255 characters.'')) (\<lambda>_.
     guard (\<not> has_space_or_control host) (param_invalid ''rpc_ssh_host must not contain whitespace or control characters.'')))"

definition copy_optional_credential_override :: "python_rt \<Rightarrow> pydict \<Rightarrow> pydict \<Rightarrow> handler_error + pydict" where
  "copy_optional_credential_override rt ps n =
     rbind (optional_int_range rt ps ''rpc_ssh_credential_pk'' 1 None) (\<lambda>c.
       Inr (put_some ''rpc_ssh_credential_pk'' (map_option VInt c) n))"

definition copy_optional_ssh_overrides :: "python_rt \<Rightarrow> pydict \<Rightarrow> pydict \<Rightarrow> handler_error + pydict" where
  "copy_optional_ssh_overrides rt ps n =
     rbind (copy_optional_credential_override rt ps n) (\<lambda>n1.
     rbind (if \<not> has_key ps ''rpc_ssh_host'' then Inr n1
            else (let host = text_of (dget ps ''rpc_ssh_host'') in
              rbind (validate_ssh_host host ''rpc_ssh_host must be a non-empty string.'') (\<lambda>_.
                Inr (put_both ''rpc_ssh_host'' (VStr host) n1)))) (\<lambda>n2.
     rbind (optional_int_range rt ps ''rpc_ssh_port'' 1 (Some 65535)) (\<lambda>port.
     (let n3 = put_some ''rpc_ssh_port'' (map_option VInt port) n2;
          n4 = (if has_key ps ''rpc_ssh_known_hosts_entry''
                then put_hashed rt ''rpc_ssh_known_hosts_entry'' (text_of (dget ps ''rpc_ssh_known_hosts_entry'')) n3 else n3)
      in if \<not> has_key ps ''rpc_ssh_strict_host_key_checking'' then Inr n4
         else rbind (bool_param ps ''rpc_ssh_strict_host_key_checking'' True) (\<lambda>strict.
           Inr (put_both ''rpc_ssh_strict_host_key_checking'' (VBool strict) n4))))))"


section \<open>POSIX paths\<close>

text \<open>
  \<open>PurePosixPath(s)\<close>: exactly two leading slashes are kept as the root, any other number of
  them is one; empty and dot components vanish.
\<close>

record posix_path =
  path_root :: string
  path_names :: "string list"

definition pure_path :: "string \<Rightarrow> posix_path" where
  "pure_path s =
     \<lparr>path_root = (if \<not> prefix ''/'' s then [] else if prefix ''//'' s \<and> \<not> prefix ''///'' s then ''//'' else ''/''),
      path_names = filter (\<lambda>part. part \<noteq> [] \<and> part \<noteq> ''.'') (split_on CHR ''/'' s)\<rparr>"

definition is_absolute :: "posix_path \<Rightarrow> bool" where
  "is_absolute p \<longleftrightarrow> path_root p \<noteq> []"

definition path_parts :: "posix_path \<Rightarrow> string list" where
  "path_parts p = (if path_root p = [] then path_names p else path_root p # path_names p)"

definition path_str :: "posix_path \<Rightarrow> string" where
  "path_str p = (if path_root p = [] \<and> path_names p = [] then ''.'' else path_root p @ join_with ''/'' (path_names p))"

text \<open>\<open>a / b\<close> and \<open>p.is_relative_to(q)\<close>.\<close>

definition path_join :: "posix_path \<Rightarrow> posix_path \<Rightarrow> posix_path" where
  "path_join a b = (if is_absolute b then b else a\<lparr>path_names := path_names a @ path_names b\<rparr>)"

definition is_relative_to :: "posix_path \<Rightarrow> posix_path \<Rightarrow> bool" where
  "is_relative_to p q \<longleftrightarrow> path_root p = path_root q \<and> prefix (path_names q) (path_names p)"


section \<open>Facts on payloads\<close>

lemma rseq_invariant:
  "rseq fs n = Inr n' \<Longrightarrow> P n \<Longrightarrow> (\<And>f m m'. f \<in> set fs \<Longrightarrow> P m \<Longrightarrow> f m = Inr m' \<Longrightarrow> P m') \<Longrightarrow> P n'"
proof (induction fs arbitrary: n)
  case (Cons f fs)
  from Cons.prems(1) obtain m where m: "f n = Inr m" "rseq fs m = Inr n'" by (auto simp: rbind_Inr_iff)
  from Cons.prems(2,3) m(1) have "P m" by (metis list.set_intros(1))
  then show ?case by (rule Cons.IH [OF m(2)]) (meson Cons.prems(3) list.set_intros(2))
qed simp

lemma each_Inr_iff: "each f xs = Inr u \<longleftrightarrow> (\<forall>x \<in> set xs. f x = Inr ())"
proof -
  have "(\<exists>ys. rmap f xs = Inr ys) \<longleftrightarrow> (\<forall>x \<in> set xs. f x = Inr ())"
    by (induction xs) (auto simp: rbind_Inr_iff)
  then show ?thesis by (auto simp: each_def rbind_Inr_iff)
qed

lemma fingerprint_put_fp [simp]: "fingerprint (put_fp k v n) = dict_set k v (fingerprint n)"
  by (simp add: put_fp_def fingerprint_def)

lemma dget_put_fp [simp]: "k' \<noteq> ''command_fingerprint'' \<Longrightarrow> dget (put_fp k v n) k' = dget n k'"
  by (simp add: put_fp_def)

lemma fingerprint_dict_set [simp]: "k \<noteq> ''command_fingerprint'' \<Longrightarrow> fingerprint (dict_set k v n) = fingerprint n"
  by (simp add: fingerprint_def)

lemma fingerprint_handler_payload [simp]:
  "fingerprint (handler_payload rq t) = [(''handler_id'', VStr (proc_handler_id (rq_procedure rq)))]"
  by (simp add: handler_payload_def fingerprint_def)

lemma fingerprint_procedure_payload [simp]:
  "fingerprint (procedure_payload rq t) =
     [(''handler_id'', VStr (proc_handler_id (rq_procedure rq))), (''procedure'', VStr (proc_name (rq_procedure rq)))]"
  by (simp add: procedure_payload_def fingerprint_def)

lemma int_range_bounds:
  "int_range rt ps key lo hi = Inr i \<Longrightarrow> lo \<le> i \<and> (case hi of None \<Rightarrow> True | Some h \<Rightarrow> i \<le> h)"
  by (auto simp: int_range_def split: option.splits sum.splits pyexc.splits if_splits)

end
