(* ===== verification/SambaNormalization.thy ===== *)
theory SambaNormalization
  imports Normalization
begin

text \<open>
  The normalizer of the \<open>service.samba.1.*\<close> procedures in \<open>domain/normalization.py\<close>: the scan
  of smb.conf bodies with its line continuations, confined include files, share parameters,
  users and groups. One step per conditional statement of the code.
\<close>

section \<open>Names and patterns\<close>

definition SAMBA_INCLUDE_FILE_RE :: regex where
  "SAMBA_INCLUDE_FILE_RE =
     (let name = plus1 (CS (alnum_or ''._@+-'')) in
      seqs [text_start,
        NotLook (seqs [star dot, alts [text_start, lit ''/''], lit ''..'', alts [lit ''/'', dollar]]),
        optional (lit ''/etc/samba/''), name, star (Seq (lit ''/'') name), lit ''.conf'', dollar])"

definition SAMBA_SHARE_NAME_RE :: regex where
  "SAMBA_SHARE_NAME_RE = seqs [CS (alnum_or ''_''), Rep 0 (Some 79) (CS (alnum_or ''_.@+-'')), dollar]"

definition SAMBA_CONF_ROOT :: posix_path where
  "SAMBA_CONF_ROOT = pure_path ''/etc/samba''"

definition SAMBA_MAX_CONFIG_BODY_LEN :: nat where
  "SAMBA_MAX_CONFIG_BODY_LEN = 1024 * 1024"

definition SAMBA_SNAPSHOT_ID_RE :: regex where
  "SAMBA_SNAPSHOT_ID_RE = seqs [CS (alnum_or []), Rep 0 (Some 127) (CS (alnum_or ''_.:-'')), dollar]"

definition SAMBA_SHARE_PATH_RE :: regex where
  "SAMBA_SHARE_PATH_RE =
     (let name = Seq (lit ''/'') (plus1 (CS (alnum_or ''._@+-''))) in seqs [name, star name, dollar])"

definition SAMBA_SHARE_TEXT_MAX_LEN :: nat where
  "SAMBA_SHARE_TEXT_MAX_LEN = 240"

definition SAMBA_PRINCIPAL_RE :: regex where
  "SAMBA_PRINCIPAL_RE =
     seqs [optional (lit ''@''), CS (alnum_or ''_''), Rep 0 (Some 127) (CS (alnum_or (CHR 0x5C # ''_.@+-''))), dollar]"

definition SAMBA_MASK_RE :: regex where
  "SAMBA_MASK_RE = Seq (Rep 3 (Some 4) (oneof ''01234567'')) dollar"

definition SAMBA_SERVICE_UNITS :: "string list" where
  "SAMBA_SERVICE_UNITS = [''smbd'', ''nmbd'', ''winbind'', ''samba-ad-dc'']"

definition SAMBA_SERVICE_ACTIONS :: "string list" where
  "SAMBA_SERVICE_ACTIONS = [''start'', ''stop'', ''restart'', ''reload'']"

definition SAMBA_IDENTIFIER_RE :: regex where
  "SAMBA_IDENTIFIER_RE = seqs [CS (alnum_or ''_''), Rep 0 (Some 63) (CS (alnum_or ''_.@-'')), dollar]"

definition SAMBA_MAX_GROUP_MEMBERS :: nat where
  "SAMBA_MAX_GROUP_MEMBERS = 128"

definition HEX_SHA256_RE :: regex where
  "HEX_SHA256_RE = Seq (Rep 64 (Some 64) (CS is_lower_hex)) dollar"

definition SAMBA_COMMAND_DIRECTIVE_SUFFIXES :: "string list" where
  "SAMBA_COMMAND_DIRECTIVE_SUFFIXES = [''script'', ''command'', ''action'']"

definition SAMBA_COMMAND_DIRECTIVE_NAMES :: "string list" where
  "SAMBA_COMMAND_DIRECTIVE_NAMES =
     [''preexec'', ''postexec'', ''rootpreexec'', ''rootpostexec'', ''preexecclose'', ''rootpreexecclose'']"


section \<open>Confined values\<close>

definition normalize_samba_include_path :: "pyval \<Rightarrow> handler_error + string" where
  "normalize_samba_include_path raw =
     (let s = text_of raw; path = pure_path s;
          confined = (if is_absolute path then path else path_join SAMBA_CONF_ROOT path) in
      rbind (guard (s \<noteq> [] \<and> length s \<le> 255 \<and> fullmatch SAMBA_INCLUDE_FILE_RE s)
        (param_invalid ''include_path must be a .conf file under /etc/samba without traversal or shell metacharacters.'')) (\<lambda>_.
      rbind (guard (''..'' \<notin> set (path_parts confined) \<and> is_relative_to confined SAMBA_CONF_ROOT \<and> confined \<noteq> SAMBA_CONF_ROOT)
        (param_invalid ''include_path must be confined under /etc/samba.'')) (\<lambda>_.
        Inr (path_str confined))))"

definition normalize_samba_snapshot_id :: "pyval \<Rightarrow> handler_error + string" where
  "normalize_samba_snapshot_id raw =
     (let s = text_of raw in
      rbind (guard (s \<noteq> [] \<and> fullmatch SAMBA_SNAPSHOT_ID_RE s)
        (param_invalid ''snapshot_id must be a safe backend-issued Samba snapshot identifier.'')) (\<lambda>_. Inr s))"

definition normalize_samba_share_path :: "pyval \<Rightarrow> handler_error + string" where
  "normalize_samba_share_path raw =
     (let s = text_of raw; path = pure_path s in
      rbind (guard (s \<noteq> [] \<and> length s \<le> 255 \<and> fullmatch SAMBA_SHARE_PATH_RE s)
        (param_invalid ''path must be an absolute safe POSIX path without traversal or shell metacharacters.'')) (\<lambda>_.
      rbind (guard (is_absolute path \<and> ''..'' \<notin> set (path_parts path) \<and> path \<noteq> pure_path ''/'')
        (param_invalid ''path must be an absolute safe POSIX path below a concrete directory.'')) (\<lambda>_.
        Inr (path_str path))))"

definition normalize_samba_share_text :: "pyval \<Rightarrow> handler_error + string" where
  "normalize_samba_share_text raw =
     (let s = text_of raw in
      rbind (guard (length s \<le> SAMBA_SHARE_TEXT_MAX_LEN \<and> \<not> has_control s)
        (param_invalid (''comment must not contain control characters and may contain at most ''
           @ nat_str SAMBA_SHARE_TEXT_MAX_LEN @ '' characters.''))) (\<lambda>_. Inr s))"

definition normalize_samba_optional_principal :: "pyval \<Rightarrow> string \<Rightarrow> handler_error + string" where
  "normalize_samba_optional_principal raw field =
     (let s = text_of raw in
      rbind (guard (s = [] \<or> fullmatch SAMBA_PRINCIPAL_RE s)
        (param_invalid (field @ '' must contain only safe Samba principal characters.''))) (\<lambda>_. Inr s))"

definition add_principal :: "string \<Rightarrow> string list \<Rightarrow> pyval \<Rightarrow> handler_error + string list" where
  "add_principal field seen raw =
     rbind (normalize_samba_optional_principal raw field) (\<lambda>s.
     rbind (guard (s \<noteq> []) (param_invalid (field @ '' entries must be non-empty.''))) (\<lambda>_.
     rbind (guard (s \<notin> set seen) (param_invalid (field @ '' entries must be unique.''))) (\<lambda>_.
       Inr (seen @ [s]))))"

definition normalize_samba_principal_list :: "pyval \<Rightarrow> string \<Rightarrow> handler_error + string list" where
  "normalize_samba_principal_list raw field =
     (if raw = VNone \<or> raw = VStr [] then Inr []
      else (case raw of
          VList vs \<Rightarrow>
            rbind (guard (length vs \<le> 64) (param_invalid (field @ '' may contain at most 64 entries.''))) (\<lambda>_.
              rfold (add_principal field) [] vs)
        | _ \<Rightarrow> Inl (param_invalid (field @ '' must be a list of safe Samba principals.''))))"

definition normalize_samba_octal_mask :: "pyval \<Rightarrow> string \<Rightarrow> handler_error + string" where
  "normalize_samba_octal_mask raw field =
     (let s = text_of raw in
      rbind (guard (s = [] \<or> fullmatch SAMBA_MASK_RE s)
        (param_invalid (field @ '' must be a three- or four-digit octal mask.''))) (\<lambda>_. Inr s))"

definition normalize_samba_service_unit :: "pyval \<Rightarrow> handler_error + string" where
  "normalize_samba_service_unit raw =
     (let s = text_of raw in
      rbind (guard (s \<in> set SAMBA_SERVICE_UNITS)
        (param_invalid ''unit must be one of: samba-ad-dc, smbd, nmbd, winbind.'')) (\<lambda>_. Inr s))"

definition normalize_samba_service_action :: "pyval \<Rightarrow> handler_error + string" where
  "normalize_samba_service_action raw =
     (let s = text_of raw in
      rbind (guard (s \<in> set SAMBA_SERVICE_ACTIONS)
        (param_invalid ''action must be one of: start, stop, restart, reload.'')) (\<lambda>_. Inr s))"

definition normalize_samba_share_name :: "pyval \<Rightarrow> handler_error + string" where
  "normalize_samba_share_name raw =
     (let s = text_of raw in
      rbind (guard (s \<noteq> [] \<and> fullmatch SAMBA_SHARE_NAME_RE s)
        (param_invalid ''share_name must be a safe Samba share name without shell metacharacters.'')) (\<lambda>_. Inr s))"

definition normalize_samba_username :: "pyval \<Rightarrow> handler_error + string" where
  "normalize_samba_username raw =
     (let s = text_of raw in
      rbind (guard (s \<noteq> [] \<and> fullmatch SAMBA_IDENTIFIER_RE s)
        (param_invalid ''username must be a safe Samba/AD identifier without shell metacharacters.'')) (\<lambda>_. Inr s))"

definition normalize_samba_group_name :: "pyval \<Rightarrow> handler_error + string" where
  "normalize_samba_group_name raw =
     (let s = text_of raw in
      rbind (guard (s \<noteq> [] \<and> fullmatch SAMBA_IDENTIFIER_RE s)
        (param_invalid ''group_name must be a safe Samba/AD identifier without shell metacharacters.'')) (\<lambda>_. Inr s))"

definition add_member :: "string \<Rightarrow> string list \<Rightarrow> pyval \<Rightarrow> handler_error + string list" where
  "add_member field seen raw =
     rbind (normalize_samba_username raw) (\<lambda>s.
     rbind (guard (s \<notin> set seen) (param_invalid (field @ '' entries must be unique.''))) (\<lambda>_.
       Inr (seen @ [s])))"

definition normalize_samba_member_list :: "pyval \<Rightarrow> string \<Rightarrow> handler_error + string list" where
  "normalize_samba_member_list raw field =
     (if raw = VNone \<or> raw = VStr [] then Inr []
      else (case raw of
          VList vs \<Rightarrow>
            rbind (guard (length vs \<le> SAMBA_MAX_GROUP_MEMBERS)
              (param_invalid (field @ '' may contain at most '' @ nat_str SAMBA_MAX_GROUP_MEMBERS @ '' entries.''))) (\<lambda>_.
              rfold (add_member field) [] vs)
        | _ \<Rightarrow> Inl (param_invalid (field @ '' must be a list of safe Samba/AD identifiers.''))))"

definition extract_samba_password_fingerprint :: "pydict \<Rightarrow> handler_error + (string \<times> int)" where
  "extract_samba_password_fingerprint ps =
     (let digest = lower (text_of (dget ps ''password_sha256'')) in
      rbind (guard (digest \<noteq> [] \<and> fullmatch HEX_SHA256_RE digest)
        (param_invalid (''password_sha256 must be a 64-character lowercase hex sha256 digest computed by the server; ''
           @ ''a raw password was never expected here.''))) (\<lambda>_.
      (case dget ps ''password_bytes'' of
         VInt i \<Rightarrow>
           rbind (guard (1 \<le> i \<and> i \<le> 4096) (param_invalid ''password_bytes must be between 1 and 4096.'')) (\<lambda>_.
             Inr (digest, i))
       | _ \<Rightarrow> Inl (param_invalid ''password_bytes must be an integer byte count computed by the server.''))))"


section \<open>Bodies of smb.conf\<close>

definition line_break :: "char \<Rightarrow> bool" where
  "line_break c \<longleftrightarrow> (let n = (of_char c :: nat) in (10 \<le> n \<and> n \<le> 13) \<or> (28 \<le> n \<and> n \<le> 30) \<or> n = 133)"

text \<open>\<open>content.splitlines()\<close>.\<close>

fun splitlines_from :: "string \<Rightarrow> string \<Rightarrow> string list" where
  "splitlines_from l [] = (if l = [] then [] else [l])"
| "splitlines_from l [c] = [if line_break c then l else l @ [c]]"
| "splitlines_from l (c # d # cs) =
     (if c = CHR 0x0D \<and> d = CHR 0x0A then l # splitlines_from [] cs
      else if line_break c then l # splitlines_from [] (d # cs)
      else splitlines_from (l @ [c]) (d # cs))"

abbreviation splitlines :: "string \<Rightarrow> string list" where
  "splitlines s \<equiv> splitlines_from [] s"

definition rstrip :: "string \<Rightarrow> string" where
  "rstrip s = rev (dropWhile is_space (rev s))"

fun logical_lines :: "nat \<Rightarrow> string \<Rightarrow> nat option \<Rightarrow> string list \<Rightarrow> (nat \<times> string) list" where
  "logical_lines i joined start_line [] = (case start_line of None \<Rightarrow> [] | Some s \<Rightarrow> [(s, joined)])"
| "logical_lines i joined start_line (physical # ls) =
     (let s = (case start_line of None \<Rightarrow> i | Some s \<Rightarrow> s); trimmed = rstrip physical in
      if endswith trimmed [CHR 0x5C] then logical_lines (Suc i) (joined @ butlast trimmed) (Some s) ls
      else (s, joined @ physical) # logical_lines (Suc i) [] None ls)"

definition iter_samba_logical_lines :: "string \<Rightarrow> (nat \<times> string) list" where
  "iter_samba_logical_lines content = logical_lines 1 [] None (splitlines content)"

definition is_assignment :: "string \<Rightarrow> bool" where
  "is_assignment line \<longleftrightarrow> strip line \<noteq> [] \<and> hd (strip line) \<notin> set ''#;['' \<and> CHR ''='' \<in> set line
     \<and> strip (takeWhile (\<lambda>c. c \<noteq> CHR ''='') line) \<noteq> []"

definition iter_samba_config_assignments :: "string \<Rightarrow> (nat \<times> string \<times> string) list" where
  "iter_samba_config_assignments content =
     map (\<lambda>(i, line). (i, takeWhile (\<lambda>c. c \<noteq> CHR ''='') line, tl (dropWhile (\<lambda>c. c \<noteq> CHR ''='') line)))
       (filter (\<lambda>(i, line). is_assignment line) (iter_samba_logical_lines content))"

text \<open>\<open>"".join(str(raw_name).lower().split())\<close>.\<close>

definition normalize_samba_config_param_name :: "string \<Rightarrow> string" where
  "normalize_samba_config_param_name raw = filter (\<lambda>c. \<not> is_space c) (lower raw)"

fun strip_inline_comment_at :: "char \<Rightarrow> string \<Rightarrow> string \<Rightarrow> string" where
  "strip_inline_comment_at marker before [] = strip before"
| "strip_inline_comment_at marker before (c # cs) =
     (if c = marker \<and> (before = [] \<or> is_space (last before)) then strip before
      else strip_inline_comment_at marker (before @ [c]) cs)"

definition strip_samba_inline_comment :: "string \<Rightarrow> char \<Rightarrow> string" where
  "strip_samba_inline_comment s marker = strip_inline_comment_at marker [] s"

definition strip_samba_config_value :: "string \<Rightarrow> string" where
  "strip_samba_config_value raw =
     (let s = strip_samba_inline_comment (strip_samba_inline_comment (strip raw) CHR ''#'') CHR '';'' in
      if 2 \<le> length s \<and> hd s = last s \<and> hd s \<in> {CHR 0x27, CHR 0x22} then strip (butlast (tl s)) else s)"

definition validate_samba_config_include_directive :: "string \<Rightarrow> string \<Rightarrow> nat \<Rightarrow> handler_error + unit" where
  "validate_samba_config_include_directive raw field i =
     (let included = strip_samba_config_value raw in
      rbind (guard (lower included \<noteq> ''registry'')
        (param_invalid (field @ '' line '' @ nat_str i @ '' uses forbidden Samba registry include.''))) (\<lambda>_.
      (case normalize_samba_include_path (VStr included) of
         Inl _ \<Rightarrow> Inl (param_invalid (field @ '' line '' @ nat_str i @ '' include target must be confined under /etc/samba.''))
       | Inr _ \<Rightarrow> Inr ())))"

definition command_directive :: "string \<Rightarrow> bool" where
  "command_directive name \<longleftrightarrow> name \<in> set SAMBA_COMMAND_DIRECTIVE_NAMES \<or> list_ex (endswith name) SAMBA_COMMAND_DIRECTIVE_SUFFIXES"

definition validate_assignment :: "string \<Rightarrow> nat \<times> string \<times> string \<Rightarrow> handler_error + unit" where
  "validate_assignment field = (\<lambda>(i, raw_name, raw_value).
     (let name = normalize_samba_config_param_name raw_name in
      if name = [] then Inr ()
      else rbind (guard (\<not> command_directive name)
        (param_invalid (field @ '' line '' @ nat_str i @ '' uses forbidden Samba command directive ''
           @ str_repr (strip raw_name) @ ''.''))) (\<lambda>_.
        if name = ''include'' then validate_samba_config_include_directive raw_value field i else Inr ())))"

definition validate_samba_config_body_directives :: "string \<Rightarrow> string \<Rightarrow> handler_error + unit" where
  "validate_samba_config_body_directives content field =
     each (validate_assignment field) (iter_samba_config_assignments content)"

definition normalize_samba_config_body :: "pyval \<Rightarrow> string \<Rightarrow> handler_error + string" where
  "normalize_samba_config_body raw field =
     (let content = str_or raw [] in
      rbind (guard (strip content \<noteq> []) (param_invalid (field @ '' must be a non-empty string.''))) (\<lambda>_.
      rbind (guard (CHR 0x00 \<notin> set content) (param_invalid (field @ '' must not contain NUL bytes.''))) (\<lambda>_.
      rbind (guard (length content \<le> SAMBA_MAX_CONFIG_BODY_LEN)
        (param_invalid (field @ '' may contain at most '' @ nat_str SAMBA_MAX_CONFIG_BODY_LEN @ '' characters.''))) (\<lambda>_.
      rbind (validate_samba_config_body_directives content field) (\<lambda>_. Inr content)))))"


section \<open>The normalizer\<close>

abbreviation samba :: "string \<Rightarrow> string" where
  "samba s \<equiv> ''service.samba.1.'' @ s"

definition SAMBA_1_PROCEDURE_NAMES :: "string list" where
  "SAMBA_1_PROCEDURE_NAMES = map (\<lambda>s. samba s)
     [''config_read'', ''config_test'', ''config_list_files'', ''include_file_read'', ''service_status'', ''version'',
      ''list_shares'', ''status_report'', ''domain_info'', ''user_list'', ''group_list'', ''share_acl_read'',
      ''config_deploy'', ''config_rollback'', ''include_file_write'', ''include_file_delete'', ''share_upsert'',
      ''share_delete'', ''service_control'', ''user_create'', ''user_delete'', ''user_set_password'', ''user_enable'',
      ''user_disable'', ''group_create'', ''group_delete'', ''group_add_members'', ''group_remove_members'']"

definition copy_body :: "python_rt \<Rightarrow> pydict \<Rightarrow> string \<Rightarrow> pydict \<Rightarrow> handler_error + pydict" where
  "copy_body rt ps k n =
     rbind (normalize_samba_config_body (dget ps k) k) (\<lambda>s.
       Inr (put_fp (k @ ''_bytes'') (VInt (utf8_size s)) (put_hashed rt k s n)))"

text \<open>A text that is copied when it is not empty; its fingerprint holds the digest.\<close>

definition copy_share_text :: "python_rt \<Rightarrow> pydict \<Rightarrow> string \<Rightarrow> pydict \<Rightarrow> handler_error + pydict" where
  "copy_share_text rt ps k n =
     rbind (normalize_samba_share_text (dget ps k)) (\<lambda>s. Inr (if s = [] then n else put_hashed rt k s n))"

definition copy_principals :: "pydict \<Rightarrow> string \<Rightarrow> pydict \<Rightarrow> handler_error + pydict" where
  "copy_principals ps k n =
     rbind (normalize_samba_principal_list (dget ps k) k) (\<lambda>vs.
       Inr (if vs = [] then n else put_both k (VList (map VStr vs)) n))"

definition copy_samba_share_upsert_params :: "python_rt \<Rightarrow> pydict \<Rightarrow> pydict \<Rightarrow> handler_error + pydict" where
  "copy_samba_share_upsert_params rt ps = rseq
     [copy_valid normalize_samba_share_path ps ''path'',
      copy_share_text rt ps ''comment'',
      copy_bool ps ''read_only'' True, copy_bool ps ''browseable'' True, copy_bool ps ''guest_ok'' False,
      copy_principals ps ''valid_users'', copy_principals ps ''write_list'',
      copy_optional normalize_samba_octal_mask ps ''create_mask'', copy_optional normalize_samba_octal_mask ps ''directory_mask'',
      copy_optional normalize_samba_optional_principal ps ''force_group'']"

definition copy_service_control :: "pydict \<Rightarrow> pydict \<Rightarrow> handler_error + pydict" where
  "copy_service_control ps n =
     rbind (normalize_samba_service_unit (dget ps ''unit'')) (\<lambda>unit.
     rbind (normalize_samba_service_action (dget ps ''action'')) (\<lambda>action.
       Inr (put_both ''systemd_unit'' (VStr (unit @ ''.service''))
         (put_both ''action'' (VStr action) (put_both ''unit'' (VStr unit) n)))))"

definition copy_password :: "pydict \<Rightarrow> pydict \<Rightarrow> handler_error + pydict" where
  "copy_password ps n =
     rbind (extract_samba_password_fingerprint ps) (\<lambda>(digest, size).
       Inr (put_both ''password_bytes'' (VInt size) (put_both ''password_sha256'' (VStr digest) n)))"

definition copy_members :: "pydict \<Rightarrow> pydict \<Rightarrow> handler_error + pydict" where
  "copy_members ps n =
     rbind (normalize_samba_group_name (dget ps ''group_name'')) (\<lambda>group_name.
     rbind (normalize_samba_member_list (dget ps ''members'') ''members'') (\<lambda>members.
     rbind (guard (members \<noteq> []) (param_invalid ''members must contain at least one safe Samba/AD identifier.'')) (\<lambda>_.
       Inr (dict_set ''members_csv'' (VStr (join_with '','' members))
         (put_both ''members'' (VList (map VStr members)) (put_both ''group_name'' (VStr group_name) n))))))"

definition samba_steps :: "python_rt \<Rightarrow> string \<Rightarrow> pydict \<Rightarrow> (pydict \<Rightarrow> handler_error + pydict) list" where
  "samba_steps rt name ps =
     [when_in name [samba ''config_deploy''] (copy_body rt ps ''config_content''),
      when_in name [samba ''config_rollback''] (copy_valid normalize_samba_snapshot_id ps ''snapshot_id''),
      when_in name [samba ''include_file_read'', samba ''include_file_write'', samba ''include_file_delete'']
        (copy_valid normalize_samba_include_path ps ''include_path''),
      when_in name [samba ''include_file_write''] (copy_body rt ps ''content''),
      when_in name [samba ''share_acl_read'', samba ''share_upsert'', samba ''share_delete'']
        (copy_valid normalize_samba_share_name ps ''share_name''),
      when_in name [samba ''share_upsert''] (copy_samba_share_upsert_params rt ps),
      when_in name [samba ''service_control''] (copy_service_control ps),
      when_in name [samba ''user_create'', samba ''user_delete'', samba ''user_set_password'', samba ''user_enable'', samba ''user_disable'']
        (copy_valid normalize_samba_username ps ''username''),
      when_in name [samba ''user_create'', samba ''user_set_password''] (copy_password ps),
      when_in name [samba ''user_create''] (copy_share_text rt ps ''full_name''),
      when_in name [samba ''user_create''] (copy_bool ps ''disabled'' False),
      when_in name [samba ''group_create'', samba ''group_delete''] (copy_valid normalize_samba_group_name ps ''group_name''),
      when_in name [samba ''group_add_members'', samba ''group_remove_members''] (copy_members ps),
      copy_optional_ssh_overrides rt ps]"

definition normalize_samba_1_execution :: "python_rt \<Rightarrow> exec_request \<Rightarrow> pydict \<Rightarrow> handler_error + pydict" where
  "normalize_samba_1_execution rt rq ps =
     rseq (samba_steps rt (proc_name (rq_procedure rq)) ps) (procedure_payload rq (rq_target_display rq))"

end
