(* ===== verification/OpenBaoNormalization.thy ===== *)
theory OpenBaoNormalization
  imports Normalization
begin

text \<open>
  The normalizer of the \<open>service.openbao.1.*\<close> procedures in \<open>domain/normalization.py\<close>: a closed
  parameter list per operation, the assigned device as the only SSH target, and one step per
  operation that takes parameters.
\<close>

definition OPENBAO_TARGET_MODEL_LABELS :: "string list" where
  "OPENBAO_TARGET_MODEL_LABELS = [''dcim.device'']"

definition OPENBAO_NAME_RE :: regex where
  "OPENBAO_NAME_RE = seqs [CS (alnum_or []), Rep 0 (Some 127) (CS (alnum_or ''_.-'')), dollar]"

definition OPENBAO_MOUNT_PATH_RE :: regex where
  "OPENBAO_MOUNT_PATH_RE =
     (let name = Seq (CS (alnum_or [])) (Rep 0 (Some 63) (CS (alnum_or ''_.-''))) in
      seqs [name, star (Seq (lit ''/'') name), optional (lit ''/''), dollar])"

abbreviation lower_alnum_or :: "string \<Rightarrow> char \<Rightarrow> bool" where
  "lower_alnum_or s c \<equiv> is_lower_alpha c \<or> is_digit c \<or> c \<in> set s"

definition OPENBAO_APPROLE_SEGMENT_RE :: regex where
  "OPENBAO_APPROLE_SEGMENT_RE = seqs [CS (lower_alnum_or []), Rep 0 (Some 62) (CS (lower_alnum_or ''_-'')), TextEnd]"

definition OPENBAO_ENGINE_SLUG_RE :: regex where
  "OPENBAO_ENGINE_SLUG_RE = seqs [CS (lower_alnum_or []), Rep 0 (Some 62) (CS (lower_alnum_or ''-'')), TextEnd]"

definition OPENBAO_FORBIDDEN_SSH_OVERRIDE_PARAMS :: "string list" where
  "OPENBAO_FORBIDDEN_SSH_OVERRIDE_PARAMS =
     [''rpc_ssh_credential_pk'', ''rpc_ssh_host'', ''rpc_ssh_port'', ''rpc_ssh_known_hosts_entry'', ''rpc_ssh_strict_host_key_checking'']"

definition OPENBAO_INTERNAL_PARAM_KEYS :: "string list" where
  "OPENBAO_INTERNAL_PARAM_KEYS = [''_intent'', ''_intent_name'', ''_timeout_seconds_snapshot'']"

definition OPENBAO_AUTH_TYPES :: "string list" where
  "OPENBAO_AUTH_TYPES = [''approle'', ''cert'', ''jwt'', ''kubernetes'', ''ldap'', ''oidc'', ''userpass'']"

definition OPENBAO_ENGINE_TYPES :: "string list" where
  "OPENBAO_ENGINE_TYPES = [''database'', ''kv'', ''pki'', ''ssh'', ''transit'', ''totp'']"

definition OPENBAO_AUDIT_TYPES :: "string list" where
  "OPENBAO_AUDIT_TYPES = [''file'', ''syslog'']"

definition OPENBAO_SERVICE_ACTIONS :: "string list" where
  "OPENBAO_SERVICE_ACTIONS = [''start'', ''stop'', ''restart'', ''reload'', ''enable'', ''disable'']"

definition allowed_by_operation :: "(string \<times> string list) list" where
  "allowed_by_operation =
     map (\<lambda>k. (k, []))
       [''inspect'', ''seal_status'', ''health'', ''policies_list'', ''auth_list'', ''secrets_list'', ''audit_list'',
        ''raft_list_peers'', ''raft_autopilot_state'', ''snapshots_list'', ''seal'', ''step_down'']
     @ [(''auth_enable'', [''auth_type'', ''mount_path'']), (''secrets_enable'', [''engine_type'', ''mount_path'', ''kv_version'']),
        (''audit_enable'', [''audit_type'', ''mount_path'']), (''snapshot_create'', [''snapshot_name'']), (''service_action'', [''action'']),
        (''raft_remove_peer'', [''peer_id'']), (''policy_delete'', [''policy_name'']), (''auth_disable'', [''mount_path'']),
        (''secrets_disable'', [''mount_path'']), (''audit_disable'', [''mount_path'']),
        (''provision_netbox_approle'', [''mount'', ''role_name'', ''engine_slug'', ''path_prefix'', ''ttl_seconds'', ''restart_netbox''])]"

text \<open>\<open>procedure_name.removeprefix("service.openbao.1.")\<close>.\<close>

definition openbao_operation :: "string \<Rightarrow> string" where
  "openbao_operation name = (if startswith name ''service.openbao.1.'' then drop (length ''service.openbao.1.'') name else name)"

definition required_string :: "regex \<Rightarrow> string \<Rightarrow> pyval \<Rightarrow> handler_error + string" where
  "required_string r key v = (case v of
       VStr s \<Rightarrow> rbind (guard (fullmatch r s) (param_invalid (key @ '' has an invalid or unsupported value.''))) (\<lambda>_. Inr s)
     | _ \<Rightarrow> Inl (param_invalid (key @ '' has an invalid or unsupported value.'')))"

definition required_choice :: "string list \<Rightarrow> string \<Rightarrow> pyval \<Rightarrow> handler_error + string" where
  "required_choice allowed message v = (case v of
       VStr s \<Rightarrow> rbind (guard (s \<in> set allowed) (param_invalid message)) (\<lambda>_. Inr s)
     | _ \<Rightarrow> Inl (param_invalid message))"

definition mount_param :: "string \<Rightarrow> pyval \<Rightarrow> handler_error + string" where
  "mount_param key v = rbind (required_string OPENBAO_MOUNT_PATH_RE key v) (\<lambda>s. Inr (rstrip_char CHR ''/'' s))"

definition unless_none :: "pydict \<Rightarrow> string \<Rightarrow> (pydict \<Rightarrow> handler_error + pydict) \<Rightarrow> pydict \<Rightarrow> handler_error + pydict" where
  "unless_none ps k f n = (if dget ps k = VNone then Inr n else f n)"

definition copy_kv_version :: "pydict \<Rightarrow> pydict \<Rightarrow> handler_error + pydict" where
  "copy_kv_version ps n = (case dget ps ''kv_version'' of
       VInt i \<Rightarrow> rbind (guard (i \<in> {1, 2} \<and> dget n ''engine_type'' = VStr ''kv'')
         (param_invalid ''kv_version must be 1 or 2 and is supported only for kv.'')) (\<lambda>_. Inr (put_both ''kv_version'' (VInt i) n))
     | _ \<Rightarrow> Inl (param_invalid ''kv_version must be 1 or 2 and is supported only for kv.''))"

definition copy_ttl :: "pydict \<Rightarrow> pydict \<Rightarrow> handler_error + pydict" where
  "copy_ttl ps n = (case dget ps ''ttl_seconds'' of
       VInt i \<Rightarrow> rbind (guard (0 \<le> i \<and> i \<le> 31536000)
         (param_invalid ''ttl_seconds has an invalid or unsupported value.'')) (\<lambda>_. Inr (put_both ''ttl_seconds'' (VInt i) n))
     | _ \<Rightarrow> Inl (param_invalid ''ttl_seconds has an invalid or unsupported value.''))"

definition copy_restart :: "pydict \<Rightarrow> pydict \<Rightarrow> handler_error + pydict" where
  "copy_restart ps n = (case dget ps ''restart_netbox'' of
       VBool b \<Rightarrow> Inr (put_both ''restart_netbox'' (VBool b) n)
     | _ \<Rightarrow> Inl (param_invalid ''restart_netbox must be a boolean.''))"

definition copy_approle :: "pydict \<Rightarrow> pydict \<Rightarrow> handler_error + pydict" where
  "copy_approle ps = rseq
     [copy_valid (mount_param ''mount'') ps ''mount'',
      copy_valid (required_string OPENBAO_APPROLE_SEGMENT_RE ''role_name'') ps ''role_name'',
      copy_valid (required_string OPENBAO_ENGINE_SLUG_RE ''engine_slug'') ps ''engine_slug'',
      unless_none ps ''path_prefix'' (copy_valid (required_string OPENBAO_APPROLE_SEGMENT_RE ''path_prefix'') ps ''path_prefix''),
      unless_none ps ''ttl_seconds'' (copy_ttl ps),
      unless_none ps ''restart_netbox'' (copy_restart ps)]"

definition openbao_steps :: "string \<Rightarrow> pydict \<Rightarrow> (pydict \<Rightarrow> handler_error + pydict) list" where
  "openbao_steps operation ps =
     [when_in operation [''policy_delete''] (copy_valid (required_string OPENBAO_NAME_RE ''policy_name'') ps ''policy_name''),
      when_in operation [''auth_enable''] (copy_valid (required_choice OPENBAO_AUTH_TYPES
        ''auth_type is not a supported OpenBao authentication method.'') ps ''auth_type''),
      when_in operation [''secrets_enable''] (copy_valid (required_choice OPENBAO_ENGINE_TYPES
        ''engine_type is not a supported OpenBao secrets engine.'') ps ''engine_type''),
      when_in operation [''secrets_enable''] (unless_none ps ''kv_version'' (copy_kv_version ps)),
      when_in operation [''audit_enable''] (copy_valid (required_choice OPENBAO_AUDIT_TYPES
        ''audit_type must be file or syslog.'') ps ''audit_type''),
      when_in operation [''auth_enable'', ''secrets_enable'', ''audit_enable'']
        (unless_none ps ''mount_path'' (copy_valid (mount_param ''mount_path'') ps ''mount_path'')),
      when_in operation [''auth_disable'', ''secrets_disable'', ''audit_disable''] (copy_valid (mount_param ''mount_path'') ps ''mount_path''),
      when_in operation [''snapshot_create'']
        (unless_none ps ''snapshot_name'' (copy_valid (required_string OPENBAO_NAME_RE ''snapshot_name'') ps ''snapshot_name'')),
      when_in operation [''service_action''] (copy_valid (required_choice OPENBAO_SERVICE_ACTIONS
        ''action is not a supported OpenBao service action.'') ps ''action''),
      when_in operation [''raft_remove_peer''] (copy_valid (required_string OPENBAO_NAME_RE ''peer_id'') ps ''peer_id''),
      when_in operation [''provision_netbox_approle''] (copy_approle ps)]"

definition openbao_target :: "exec_request \<Rightarrow> handler_error + unit" where
  "openbao_target rq =
     rbind (guard (rq_target_model_label rq \<in> set OPENBAO_TARGET_MODEL_LABELS \<and> 1 \<le> rq_target_id rq)
       (RPCExecutionError ''OpenBao procedures require an existing assigned dcim.device.'' ''RPC_TARGET_INVALID'')) (\<lambda>_.
     (let target = rq_target_display rq in
      guard (target \<noteq> [] \<and> length target \<le> 255 \<and> \<not> list_ex (\<lambda>c. (of_char c :: nat) < 32 \<or> (of_char c :: nat) = 127) target)
        (RPCExecutionError ''The assigned OpenBao target has an invalid display name.'' ''RPC_TARGET_INVALID'')))"

definition openbao_payload :: "python_rt \<Rightarrow> exec_request \<Rightarrow> pydict" where
  "openbao_payload rt rq =
     (let handler = VStr (proc_handler_id (rq_procedure rq)); target = VStr (rq_target_display rq) in
      [(''target'', target), (''target_object'', target_object rq),
       (''command_fingerprint'', VDict
          [(''handler_id'', handler), (''procedure'', handler), (''target'', target), (''target_object'', target_object rq),
           (''target_object_sha256'', VStr (normalization_hash_json rt (target_object rq)))])])"

definition normalize_openbao_1_execution :: "python_rt \<Rightarrow> exec_request \<Rightarrow> pydict \<Rightarrow> handler_error + pydict" where
  "normalize_openbao_1_execution rt rq ps =
     (let name = proc_name (rq_procedure rq); operation = openbao_operation name in
      (case map_of allowed_by_operation operation of
         None \<Rightarrow> Inl (RPCExecutionError (''Procedure '' @ str_repr name @ '' has no NetBox normalizer.'') ''RPC_PROCEDURE_NOT_NORMALIZABLE'')
       | Some allowed \<Rightarrow>
           rbind (guard (supplied_overrides ps OPENBAO_FORBIDDEN_SSH_OVERRIDE_PARAMS = [])
             (param_invalid (''Caller-supplied SSH overrides are not accepted for OpenBao; the ''
                @ ''execution backend resolves SSH from the assigned NetBox object.''))) (\<lambda>_.
           (let unexpected = unexpected_params ps (allowed @ OPENBAO_INTERNAL_PARAM_KEYS) in
            rbind (guard (unexpected = [])
              (param_invalid (''Unsupported parameters for '' @ name @ '': '' @ join_with '', '' unexpected @ ''.''))) (\<lambda>_.
            rbind (openbao_target rq) (\<lambda>_.
              rseq (openbao_steps operation ps) (openbao_payload rt rq)))))))"

end
