(* ===== verification/IpAddress.thy ===== *)
theory IpAddress
  imports Prelude
begin

text \<open>
  The part of Python's \<open>ipaddress\<close> module that the normalizers use: reading IPv4 and IPv6
  addresses and networks in strict mode, and printing IPv4. An address is its number.
\<close>

section \<open>IPv4\<close>

text \<open>One decimal octet: one to three ASCII digits, no leading zero, at most 255.\<close>

definition read_octet :: "string \<Rightarrow> nat option" where
  "read_octet s =
     (if s \<noteq> [] \<and> list_all is_digit s \<and> length s \<le> 3 \<and> (length s = 1 \<or> hd s \<noteq> CHR ''0'') \<and> str_nat s \<le> 255
      then Some (str_nat s) else None)"

definition read_ipv4 :: "string \<Rightarrow> nat option" where
  "read_ipv4 s = (case map read_octet (split_on CHR ''.'' s) of
       [Some a, Some b, Some c, Some d] \<Rightarrow> Some (((a * 256 + b) * 256 + c) * 256 + d)
     | _ \<Rightarrow> None)"

definition ipv4_str :: "nat \<Rightarrow> string" where
  "ipv4_str n = join_with ''.'' [nat_str (n div 16777216), nat_str (n div 65536 mod 256), nat_str (n div 256 mod 256), nat_str (n mod 256)]"

text \<open>The prefix length of a netmask, or of a hostmask when it is no netmask.\<close>

definition netmask :: "nat \<Rightarrow> nat" where
  "netmask p = 2 ^ 32 - 2 ^ (32 - p)"

definition prefix_of_mask :: "nat \<Rightarrow> nat option" where
  "prefix_of_mask m = (case List.find (\<lambda>p. netmask p = m) [0..<33] of
       Some p \<Rightarrow> Some p
     | None \<Rightarrow> List.find (\<lambda>p. netmask p = 2 ^ 32 - 1 - m) [0..<33])"

definition read_prefix_length :: "nat \<Rightarrow> string \<Rightarrow> nat option" where
  "read_prefix_length width s =
     (if s \<noteq> [] \<and> list_all is_digit s \<and> str_nat s \<le> width then Some (str_nat s) else None)"

text \<open>\<open>ip_network(s, strict=True)\<close> for a text with one slash: no host bit is set.\<close>

definition read_ipv4_network :: "string \<Rightarrow> (nat \<times> nat) option" where
  "read_ipv4_network s = (case split_on CHR ''/'' s of
       [a, m] \<Rightarrow> (case (read_ipv4 a,
            case read_prefix_length 32 m of Some p \<Rightarrow> Some p | None \<Rightarrow> Option.bind (read_ipv4 m) prefix_of_mask) of
          (Some n, Some p) \<Rightarrow> if n mod 2 ^ (32 - p) = 0 then Some (n, p) else None
        | _ \<Rightarrow> None)
     | _ \<Rightarrow> None)"

definition ipv4_network_str :: "nat \<times> nat \<Rightarrow> string" where
  "ipv4_network_str = (\<lambda>(n, p). ipv4_str n @ ''/'' @ nat_str p)"


section \<open>IPv6\<close>

definition hex_of :: "char \<Rightarrow> nat" where
  "hex_of c = (let n = (of_char c :: nat) in if n \<le> 57 then n - 48 else if n \<le> 70 then n - 55 else n - 87)"

definition read_hextet :: "string \<Rightarrow> nat option" where
  "read_hextet s = (if s \<noteq> [] \<and> length s \<le> 4 \<and> list_all is_hex s then Some (foldl (\<lambda>a c. 16 * a + hex_of c) 0 s) else None)"

fun read_all :: "('a \<Rightarrow> 'b option) \<Rightarrow> 'a list \<Rightarrow> 'b list option" where
  "read_all f [] = Some []"
| "read_all f (x # xs) = (case (f x, read_all f xs) of (Some y, Some ys) \<Rightarrow> Some (y # ys) | _ \<Rightarrow> None)"

text \<open>The groups of the address; a dotted last group counts as two.\<close>

definition ipv6_parts :: "string \<Rightarrow> string list option" where
  "ipv6_parts s =
     (let parts = split_on CHR '':'' s in
      if length parts < 3 then None
      else if CHR ''.'' \<in> set (last parts) then
        (case read_ipv4 (last parts) of None \<Rightarrow> None
         | Some n \<Rightarrow> (let hex = (\<lambda>v. map (\<lambda>d. char_of (if d < 10 then 48 + d else 87 + d)) [v div 4096, v div 256 mod 16, v div 16 mod 16, v mod 16])
             in Some (butlast parts @ [hex (n div 65536), hex (n mod 65536)])))
      else Some parts)"

definition inner_gaps :: "string list \<Rightarrow> nat list" where
  "inner_gaps parts = filter (\<lambda>i. parts ! i = []) [1..<length parts - 1]"

text \<open>An empty group at an end is allowed only as part of a double colon.\<close>

definition ipv6_groups :: "string list \<Rightarrow> string list option" where
  "ipv6_groups parts =
     (case inner_gaps parts of
        [] \<Rightarrow> if length parts = 8 \<and> hd parts \<noteq> [] \<and> last parts \<noteq> [] then Some parts else None
      | [i] \<Rightarrow>
          (let hi = (if hd parts = [] then i - 1 else i); lo0 = length parts - i - 1;
               lo = (if last parts = [] then lo0 - 1 else lo0) in
           if (hd parts = [] \<and> hi \<noteq> 0) \<or> (last parts = [] \<and> lo \<noteq> 0) \<or> 8 \<le> hi + lo then None
           else Some (take hi parts @ replicate (8 - (hi + lo)) ''0'' @ drop (length parts - lo) parts))
      | _ \<Rightarrow> None)"

definition read_ipv6 :: "string \<Rightarrow> nat option" where
  "read_ipv6 s =
     (let addr = takeWhile (\<lambda>c. c \<noteq> CHR ''%'') s; zone = drop (length addr) s in
      if zone \<noteq> [] \<and> (tl zone = [] \<or> CHR ''%'' \<in> set (tl zone)) then None
      else Option.bind (ipv6_parts addr) (\<lambda>parts.
        if 9 < length parts then None
        else Option.bind (ipv6_groups parts) (\<lambda>gs.
          map_option (foldl (\<lambda>a g. 65536 * a + g) 0) (read_all read_hextet gs))))"

definition read_ipv6_network :: "string \<Rightarrow> (nat \<times> nat) option" where
  "read_ipv6_network s = (case split_on CHR ''/'' s of
       [a, m] \<Rightarrow> (case (read_ipv6 a, read_prefix_length 128 m) of
          (Some n, Some p) \<Rightarrow> if n mod 2 ^ (128 - p) = 0 then Some (n, p) else None
        | _ \<Rightarrow> None)
     | _ \<Rightarrow> None)"

text \<open>\<open>ip_address(s)\<close> and \<open>ip_network(s, strict=True)\<close>: version 4 first, then version 6.\<close>

datatype ip_address = IPv4 nat | IPv6 nat
datatype ip_network = Net4 nat nat | Net6 nat nat

definition read_ip_address :: "string \<Rightarrow> ip_address option" where
  "read_ip_address s = (case read_ipv4 s of Some n \<Rightarrow> Some (IPv4 n) | None \<Rightarrow> map_option IPv6 (read_ipv6 s))"

definition read_ip_network :: "string \<Rightarrow> ip_network option" where
  "read_ip_network s = (case read_ipv4_network s of
       Some (n, p) \<Rightarrow> Some (Net4 n p) | None \<Rightarrow> map_option (\<lambda>(n, p). Net6 n p) (read_ipv6_network s))"


section \<open>Round trips\<close>

lemma nat_str_small: "n < 10 \<Longrightarrow> nat_str n = [digit_char n]"
  by (simp add: nat_str.simps)

lemma nat_str_step: "10 \<le> n \<Longrightarrow> nat_str n = nat_str (n div 10) @ [digit_char (n mod 10)]"
  by (subst nat_str.simps) simp

lemma digit_char_eq_0 [simp]: "d < 10 \<Longrightarrow> digit_char d = CHR ''0'' \<longleftrightarrow> d = 0"
proof
  assume "d < 10" "digit_char d = CHR ''0''"
  then have "(of_char (digit_char d) :: nat) = of_char CHR ''0''" by simp
  with \<open>d < 10\<close> show "d = 0" by (simp add: of_char_digit_char)
next
  show "d = 0 \<Longrightarrow> digit_char d = CHR ''0''" by (simp, code_simp)
qed

lemma hd_nat_str: "0 < n \<Longrightarrow> hd (nat_str n) \<noteq> CHR ''0''"
proof (induction n rule: nat_str.induct)
  case (1 n)
  show ?case
  proof (cases "n < 10")
    case True
    with 1 show ?thesis by (simp add: nat_str_small)
  next
    case False
    then have "hd (nat_str (n div 10)) \<noteq> CHR ''0''" using 1 by simp
    with False show ?thesis by (simp add: nat_str_step)
  qed
qed

lemma length_nat_str: "n < 1000 \<Longrightarrow> length (nat_str n) \<le> 3"
  using nat_str_small [of "n div 100"] nat_str_small [of n] nat_str_small [of "n div 10"]
  by (cases "n < 10"; cases "n < 100") (auto simp: nat_str_step [of n] nat_str_step [of "n div 10"] div_mult2_eq [symmetric])

lemma read_octet_nat_str: "n \<le> 255 \<Longrightarrow> read_octet (nat_str n) = Some n"
proof -
  assume n: "n \<le> 255"
  have "length (nat_str n) = 1 \<or> hd (nat_str n) \<noteq> CHR ''0''"
    by (cases "n = 0") (simp_all add: nat_str_small hd_nat_str)
  with n length_nat_str [of n] show ?thesis by (auto simp: read_octet_def list_all_iff nat_str_digits)
qed

lemma split_on_join:
  "ws \<noteq> [] \<Longrightarrow> \<forall>w \<in> set ws. c \<notin> set w \<Longrightarrow> split_on c (join_with [c] ws) = ws"
proof (induction "[c]" ws rule: join_with.induct)
  case (2 w)
  then have "c \<notin> set w" by simp
  then show ?case by (induction w) auto
next
  case (3 w v ws)
  then have IH: "split_on c (join_with [c] (v # ws)) = v # ws" and "c \<notin> set w" by simp_all
  from this(2) show ?case by (induction w) (auto simp: IH)
qed simp

lemma nat_str_not: "\<not> is_digit c \<Longrightarrow> c \<notin> set (nat_str n)"
  using nat_str_digits by blast

lemma not_digit_seps [simp]: "\<not> is_digit CHR ''.''" "\<not> is_digit CHR ''/''" "\<not> is_digit CHR '':''"
  by (simp_all add: is_digit_def)

lemma read_ipv4_str:
  assumes "n < 2 ^ 32"
  shows "read_ipv4 (ipv4_str n) = Some n"
proof -
  have "split_on CHR ''.'' (ipv4_str n) =
      [nat_str (n div 16777216), nat_str (n div 65536 mod 256), nat_str (n div 256 mod 256), nat_str (n mod 256)]"
    unfolding ipv4_str_def by (rule split_on_join) (auto simp: nat_str_not)
  moreover have "n div 16777216 \<le> 255" using assms by simp
  moreover have "n div 65536 = n div 256 div 256" "n div 16777216 = n div 256 div 256 div 256"
    by (simp_all add: div_mult2_eq [symmetric])
  then have "((n div 16777216 * 256 + n div 65536 mod 256) * 256 + n div 256 mod 256) * 256 + n mod 256 = n"
    by (metis div_mult_mod_eq)
  ultimately show ?thesis by (simp add: read_ipv4_def read_octet_nat_str)
qed

lemma read_ipv4_bound: "read_ipv4 s = Some n \<Longrightarrow> n < 2 ^ 32"
proof -
  assume "read_ipv4 s = Some n"
  then obtain a b c d where "map read_octet (split_on CHR ''.'' s) = [Some a, Some b, Some c, Some d]"
    and n: "n = ((a * 256 + b) * 256 + c) * 256 + d"
    by (auto simp: read_ipv4_def split: list.splits option.splits)
  then have "Some a \<in> set (map read_octet (split_on CHR ''.'' s))" "Some b \<in> set (map read_octet (split_on CHR ''.'' s))"
    "Some c \<in> set (map read_octet (split_on CHR ''.'' s))" "Some d \<in> set (map read_octet (split_on CHR ''.'' s))" by simp_all
  then have "a \<le> 255" "b \<le> 255" "c \<le> 255" "d \<le> 255"
    by (auto simp: read_octet_def split: if_splits)
  with n show ?thesis by simp
qed

lemma read_prefix_length_nat_str: "p \<le> w \<Longrightarrow> read_prefix_length w (nat_str p) = Some p"
  using nat_str_digits by (auto simp: read_prefix_length_def list_all_iff)

lemma ipv4_str_no_slash: "CHR ''/'' \<notin> set (ipv4_str n)"
  by (simp add: ipv4_str_def nat_str_not)

lemma read_ipv4_network_bound: "read_ipv4_network s = Some (n, p) \<Longrightarrow> n < 2 ^ 32 \<and> p \<le> 32 \<and> n mod 2 ^ (32 - p) = 0"
proof -
  assume a: "read_ipv4_network s = Some (n, p)"
  have m: "prefix_of_mask m = Some q \<Longrightarrow> q \<le> 32" for m q
    by (auto simp: prefix_of_mask_def find_Some_iff simp del: upt_Suc split: option.splits)
  from a m show ?thesis
    by (auto simp: read_ipv4_network_def read_prefix_length_def bind_eq_Some_conv dest: read_ipv4_bound
        split: list.splits option.splits if_splits)
qed

lemma read_ipv4_network_str:
  assumes "n < 2 ^ 32" "p \<le> 32" "n mod 2 ^ (32 - p) = 0"
  shows "read_ipv4_network (ipv4_network_str (n, p)) = Some (n, p)"
proof -
  have "ipv4_network_str (n, p) = join_with [CHR ''/''] [ipv4_str n, nat_str p]" by (simp add: ipv4_network_str_def)
  then have "split_on CHR ''/'' (ipv4_network_str (n, p)) = [ipv4_str n, nat_str p]"
    by (simp only:) (rule split_on_join, auto simp: ipv4_str_no_slash nat_str_not)
  with assms show ?thesis by (simp add: read_ipv4_network_def read_ipv4_str read_prefix_length_nat_str)
qed

end
