(* ===== verification/LinuxNormalization.thy ===== *)
theory LinuxNormalization
  imports Normalization IpAddress Catalog
begin

text \<open>
  The normalizers of the Linux procedures in \<open>domain/normalization.py\<close> and of
  \<open>packer_normalizer.py\<close>: allowlisted services and plugins of \<open>models.py\<close> with their OpenBao
  credential assignments, SSH keys, DNS hosts, nmap scans, diagnostics, upgrades and agents.

  The tables the code reads are fields of \<open>norm_env\<close>: the plugin settings, the two
  allowlists, the assignments of netbox-openbao with the object permissions, and the Proxmox
  SSH resolver of netbox-nms.
\<close>

section \<open>Tables\<close>

record service_allow =
  sa_slug :: string
  sa_enabled :: bool
  sa_target_models :: "string list"
  sa_systemd_unit :: string
  sa_environment_file :: pyval
  sa_ssh_credential_override :: "int option"
  sa_openbao_assignment_id :: "int option"

record plugin_allow =
  pl_slug :: string
  pl_enabled :: bool
  pl_target_models :: "string list"
  pl_distribution :: string
  pl_module :: string
  pl_venv_python :: string
  pl_manage_py :: string
  pl_settings_file :: string
  pl_service_slugs :: "string list"
  pl_ssh_credential_override :: "int option"
  pl_openbao_assignment_id :: "int option"

record openbao_assignment =
  oa_pk :: int
  oa_enabled :: bool
  oa_purpose :: string
  oa_object_type_id :: int
  oa_object_id :: int
  oa_credential_id :: int

record norm_env =
  ne_settings :: pydict
  ne_services :: "service_allow list"
  ne_plugins :: "plugin_allow list"
  ne_openbao :: "openbao_assignment list option"
  ne_requester :: pyval
  ne_may_view_credential :: "pyval \<Rightarrow> int \<Rightarrow> bool"
  ne_proxmox_ssh :: "(int \<Rightarrow> pydict option) option"
  ne_packer :: "(pyval \<times> pyval) option option"

definition netbox_rpc_plugin_setting :: "norm_env \<Rightarrow> string \<Rightarrow> string \<Rightarrow> string" where
  "netbox_rpc_plugin_setting env key dflt =
     str_or (case map_of (ne_settings env) key of None \<Rightarrow> VStr dflt | Some v \<Rightarrow> v) dflt"

definition strip_char :: "char \<Rightarrow> string \<Rightarrow> string" where
  "strip_char c s = rstrip_char c (dropWhile (\<lambda>x. x = c) s)"

definition default_dns_host_domain :: "norm_env \<Rightarrow> string" where
  "default_dns_host_domain env = strip_char CHR ''.'' (netbox_rpc_plugin_setting env ''dns_host_domain'' [])"

definition default_zabbix_server :: "norm_env \<Rightarrow> string" where
  "default_zabbix_server env = netbox_rpc_plugin_setting env ''default_zabbix_server'' []"

definition SYSTEMD_UNIT_RE :: regex where
  "SYSTEMD_UNIT_RE =
     seqs [text_start, NotLook (Seq (star dot) (lit ''..'')), NotLook (Seq (star dot) (lit ''.service.service'')),
       CS (alnum_or ''_@-''), optional (Seq (star (CS (alnum_or ''_.@-''))) (CS (alnum_or ''_@-''))), optional (lit ''.service''), dollar]"

definition ENVIRONMENT_FILE_PATH_RE :: regex where
  "ENVIRONMENT_FILE_PATH_RE =
     seqs [text_start, lit ''/'', NotLook (Seq (star dot) (lit ''..'')), Rep 1 (Some 254) (CS (alnum_or ''/._-'')), dollar]"

definition PYTHON_DISTRIBUTION_RE :: regex where
  "PYTHON_DISTRIBUTION_RE =
     seqs [CS (alnum_or []), optional (Seq (Rep 0 (Some 98) (CS (alnum_or ''._-''))) (CS (alnum_or []))), TextEnd]"

definition PYTHON_MODULE_RE :: regex where
  "PYTHON_MODULE_RE =
     (let name = Seq (CS (\<lambda>c. is_alpha c \<or> c = CHR ''_'')) (star (CS (alnum_or ''_''))) in
      seqs [name, star (Seq (lit ''.'') name), TextEnd])"

definition PYTHON_EXACT_VERSION_RE :: regex where
  "PYTHON_EXACT_VERSION_RE = seqs [CS is_digit, Rep 0 (Some 63) (CS (alnum_or ''.!+-'')), TextEnd]"

definition LINUX_ENV_VAR_NAME_RE :: regex where
  "LINUX_ENV_VAR_NAME_RE = seqs [CS is_upper_alpha, star (CS (\<lambda>c. is_upper_alpha c \<or> is_digit c \<or> c = CHR ''_'')), TextEnd]"

text \<open>The row checks of \<open>clean\<close>.\<close>

definition validate_openbao_assignment_id_for_save :: "norm_env \<Rightarrow> int option \<Rightarrow> handler_error + unit" where
  "validate_openbao_assignment_id_for_save env assignment_id = (case assignment_id of
       None \<Rightarrow> Inr ()
     | Some i \<Rightarrow> (case ne_openbao env of
         None \<Rightarrow> Inl (ValidationError ''openbao_assignment_id'' ''netbox-openbao is not installed; this reference cannot be validated.'')
       | Some rows \<Rightarrow> (case List.find (\<lambda>a. oa_pk a = i) rows of
           None \<Rightarrow> Inl (ValidationError ''openbao_assignment_id'' ''No netbox_openbao.CredentialAssignment matches this primary key.'')
         | Some a \<Rightarrow>
             rbind (guard (oa_enabled a) (ValidationError ''openbao_assignment_id'' ''This credential assignment is disabled.'')) (\<lambda>_.
             guard (oa_purpose a = ''login'') (ValidationError ''openbao_assignment_id'' ''This assignment's purpose must be login.'')))))"

definition service_allow_clean :: "norm_env \<Rightarrow> service_allow \<Rightarrow> handler_error + unit" where
  "service_allow_clean env a =
     rbind (guard (fullmatch SYSTEMD_UNIT_RE (sa_systemd_unit a)) (ValidationError ''systemd_unit''
       (''Systemd unit must contain only letters, numbers, underscore, dash, dot, or @, with an optional .service suffix.''))) (\<lambda>_.
     rbind (guard (\<not> truthy (sa_environment_file a) \<or> fullmatch ENVIRONMENT_FILE_PATH_RE (py_str (sa_environment_file a)))
       (ValidationError ''environment_file''
         ''Environment file must be an absolute path (/... up to 255 safe chars, no traversal or control characters).'')) (\<lambda>_.
     validate_openbao_assignment_id_for_save env (sa_openbao_assignment_id a)))"


section \<open>Credential assignments\<close>

definition openbao_error :: "string \<Rightarrow> string \<Rightarrow> handler_error" where
  "openbao_error m c = RPCExecutionError m (''RPC_OPENBAO_'' @ c)"

definition resolve_openbao_assignment_reference ::
  "norm_env \<Rightarrow> exec_request \<Rightarrow> bool \<Rightarrow> int option \<Rightarrow> handler_error + int option" where
  "resolve_openbao_assignment_reference env rq enforce_target_binding assignment_id = (case assignment_id of
       None \<Rightarrow> Inr None
     | Some i \<Rightarrow> (case ne_openbao env of
         None \<Rightarrow> Inl (openbao_error ''An OpenBao credential assignment is configured but netbox-openbao is not installed.'' ''NOT_INSTALLED'')
       | Some rows \<Rightarrow> (case List.find (\<lambda>a. oa_pk a = i \<and> oa_enabled a) rows of
           None \<Rightarrow> Inl (openbao_error ''The configured OpenBao credential assignment does not exist or is disabled.'' ''ASSIGNMENT_INVALID'')
         | Some a \<Rightarrow>
             rbind (guard (oa_purpose a = ''login'')
               (openbao_error ''The configured OpenBao credential assignment has the wrong purpose for SSH dispatch.'' ''ASSIGNMENT_PURPOSE_MISMATCH'')) (\<lambda>_.
             rbind (guard (enforce_target_binding \<longrightarrow> oa_object_type_id a = rq_target_type_id rq \<and> oa_object_id a = rq_target_id rq)
               (openbao_error ''The configured OpenBao credential assignment is not bound to this execution's target.'' ''ASSIGNMENT_TARGET_MISMATCH'')) (\<lambda>_.
             rbind (guard (ne_requester env = VNone \<or> ne_may_view_credential env (ne_requester env) (oa_credential_id a))
               (openbao_error ''You do not have permission to view the configured OpenBao credential.'' ''CREDENTIAL_PERMISSION_DENIED'')) (\<lambda>_.
               Inr (Some i)))))))"

definition apply_allowlist_credential_reference ::
  "norm_env \<Rightarrow> exec_request \<Rightarrow> int option \<Rightarrow> int option \<Rightarrow> pydict \<Rightarrow> handler_error + pydict" where
  "apply_allowlist_credential_reference env rq assignment_id override_id n =
     rbind (resolve_openbao_assignment_reference env rq True assignment_id) (\<lambda>r. case r of
       Some i \<Rightarrow> Inr (put_both ''rpc_openbao_assignment_id'' (VInt i) n)
     | None \<Rightarrow> (case override_id of
         Some c \<Rightarrow> Inr (dict_set ''rpc_ssh_credential_pk'' (VInt c) n)
       | None \<Rightarrow> Inr n))"


section \<open>Allowlisted services and plugins\<close>

definition find_service :: "norm_env \<Rightarrow> string \<Rightarrow> service_allow option" where
  "find_service env slug = List.find (\<lambda>a. sa_slug a = slug \<and> sa_enabled a) (ne_services env)"

definition require_service :: "norm_env \<Rightarrow> exec_request \<Rightarrow> string \<Rightarrow> handler_error + service_allow" where
  "require_service env rq slug = (case find_service env slug of
       None \<Rightarrow> Inl (RPCExecutionError (''Linux service '' @ str_repr slug @ '' is not allowlisted.'') ''RPC_LINUX_SERVICE_NOT_ALLOWLISTED'')
     | Some a \<Rightarrow>
         rbind (guard (sa_target_models a = [] \<or> rq_target_model_label rq \<in> set (sa_target_models a))
           (RPCExecutionError (''Linux service '' @ str_repr slug @ '' is not allowed for '' @ rq_target_model_label rq @ ''.'')
              ''RPC_LINUX_SERVICE_TARGET_DENIED'')) (\<lambda>_. Inr a))"

definition normalize_linux_service_execution :: "norm_env \<Rightarrow> exec_request \<Rightarrow> pydict \<Rightarrow> handler_error + pydict" where
  "normalize_linux_service_execution env rq ps =
     (let slug = text_of (dget ps ''service_slug'') in
      rbind (require_service env rq slug) (\<lambda>a.
        apply_allowlist_credential_reference env rq (sa_openbao_assignment_id a) (sa_ssh_credential_override a)
          (put_both ''systemd_unit'' (VStr (sa_systemd_unit a))
            (dict_set ''service_slug'' (VStr slug) (handler_payload rq (rq_target_display rq))))))"

definition gate_check :: "exec_request \<Rightarrow> handler_error + unit" where
  "gate_check rq = (case code_gate_unavailable_reason (proc_name (rq_procedure rq)) of
       None \<Rightarrow> Inr () | Some m \<Rightarrow> Inl (RPCExecutionError m ''RPC_PROCEDURE_NOT_AVAILABLE''))"

definition plugin_row_invalid :: "string \<Rightarrow> string \<Rightarrow> handler_error" where
  "plugin_row_invalid slug what =
     RPCExecutionError (''NetBox plugin '' @ str_repr slug @ '' has a malformed '' @ what @ ''.'') ''RPC_NETBOX_PLUGIN_ROW_INVALID''"

definition plugin_unit :: "norm_env \<Rightarrow> string \<Rightarrow> string \<Rightarrow> handler_error + string" where
  "plugin_unit env slug service_slug = (case find_service env (strip service_slug) of
       None \<Rightarrow> Inl (RPCExecutionError (''NetBox plugin '' @ str_repr slug @ '' lists service '' @ str_repr service_slug
         @ '', which is not allowlisted.'') ''RPC_LINUX_SERVICE_NOT_ALLOWLISTED'')
     | Some a \<Rightarrow> Inr (sa_systemd_unit a))"

definition netbox_plugin_payload :: "norm_env \<Rightarrow> exec_request \<Rightarrow> pydict \<Rightarrow> handler_error + pydict" where
  "netbox_plugin_payload env rq ps =
     (let slug = text_of (dget ps ''plugin_slug'') in
      (case List.find (\<lambda>a. pl_slug a = slug \<and> pl_enabled a) (ne_plugins env) of
         None \<Rightarrow> Inl (RPCExecutionError (''NetBox plugin '' @ str_repr slug @ '' is not allowlisted.'') ''RPC_NETBOX_PLUGIN_NOT_ALLOWLISTED'')
       | Some a \<Rightarrow>
           (let distribution = strip (pl_distribution a); module = strip (pl_module a); version = text_of (dget ps ''version'');
                paths = [(''venv_python'', strip (pl_venv_python a)), (''manage_py'', strip (pl_manage_py a)), (''settings_file'', strip (pl_settings_file a))] in
            rbind (guard (pl_target_models a = [] \<or> rq_target_model_label rq \<in> set (pl_target_models a))
              (RPCExecutionError (''NetBox plugin '' @ str_repr slug @ '' is not allowed for '' @ rq_target_model_label rq @ ''.'')
                 ''RPC_NETBOX_PLUGIN_TARGET_DENIED'')) (\<lambda>_.
            rbind (guard (fullmatch PYTHON_DISTRIBUTION_RE distribution) (plugin_row_invalid slug ''distribution name'')) (\<lambda>_.
            rbind (guard (fullmatch PYTHON_MODULE_RE module) (plugin_row_invalid slug ''module path'')) (\<lambda>_.
            rbind (each (\<lambda>(field, v). guard (fullmatch ENVIRONMENT_FILE_PATH_RE v) (plugin_row_invalid slug field)) paths) (\<lambda>_.
            rbind (guard (fullmatch PYTHON_EXACT_VERSION_RE version)
              (param_invalid ''version must be an exact version, not a range or an unpinned name.'')) (\<lambda>_.
            rbind (rmap (plugin_unit env slug) (pl_service_slugs a)) (\<lambda>units.
            rbind (guard (units \<noteq> [])
              (RPCExecutionError (''NetBox plugin '' @ str_repr slug @ '' lists no services to restart; the install would never take effect.'')
                 ''RPC_NETBOX_PLUGIN_NO_SERVICES'')) (\<lambda>_.
              apply_allowlist_credential_reference env rq (pl_openbao_assignment_id a) (pl_ssh_credential_override a)
                (dict_set ''dry_run'' (VBool (truth_param ps ''dry_run'' False))
                (dict_set ''manage_py'' (VStr (strip (pl_manage_py a))) (dict_set ''venv_python'' (VStr (strip (pl_venv_python a)))
                (dict_set ''plugin_slug'' (VStr slug)
                (put_all [(''distribution'', VStr distribution), (''version'', VStr version), (''module'', VStr module),
                   (''settings_file'', VStr (strip (pl_settings_file a))), (''systemd_units'', VList (map VStr units))]
                  (handler_payload rq (rq_target_display rq)))))))))))))))))"

definition normalize_netbox_plugin_install_execution :: "norm_env \<Rightarrow> exec_request \<Rightarrow> pydict \<Rightarrow> handler_error + pydict" where
  "normalize_netbox_plugin_install_execution env rq ps = rbind (gate_check rq) (\<lambda>_. netbox_plugin_payload env rq ps)"

definition linux_env_file_payload :: "python_rt \<Rightarrow> norm_env \<Rightarrow> exec_request \<Rightarrow> pydict \<Rightarrow> handler_error + pydict" where
  "linux_env_file_payload rt env rq ps =
     (let slug = text_of (dget ps ''service_slug''); var_name = str_or (dget ps ''var_name'') [] in
      rbind (require_service env rq slug) (\<lambda>a.
      (let environment_file = text_of (sa_environment_file a) in
       rbind (guard (environment_file \<noteq> [])
         (RPCExecutionError (''Linux service '' @ str_repr slug @ '' has no environment file configured.'')
            ''RPC_LINUX_SERVICE_ENVIRONMENT_FILE_MISSING'')) (\<lambda>_.
       rbind (guard (fullmatch ENVIRONMENT_FILE_PATH_RE environment_file)
         (RPCExecutionError (''Linux service '' @ str_repr slug @ '' has a malformed environment file path.'')
            ''RPC_LINUX_SERVICE_ENVIRONMENT_FILE_MISSING'')) (\<lambda>_.
       rbind (guard (fullmatch LINUX_ENV_VAR_NAME_RE var_name) (param_invalid ''var_name must match ^[A-Z][A-Z0-9_]*$.'')) (\<lambda>_.
       rbind (int_range rt ps ''credential_pk'' 1 None) (\<lambda>credential_pk.
         apply_allowlist_credential_reference env rq (sa_openbao_assignment_id a) (sa_ssh_credential_override a)
           (dict_set ''service_slug'' (VStr slug)
             (put_all [(''systemd_unit'', VStr (sa_systemd_unit a)), (''environment_file'', VStr environment_file),
                (''var_name'', VStr var_name), (''credential_pk'', VInt credential_pk)]
               (handler_payload rq (rq_target_display rq)))))))))))"

definition normalize_linux_env_file_upsert_execution ::
  "python_rt \<Rightarrow> norm_env \<Rightarrow> exec_request \<Rightarrow> pydict \<Rightarrow> handler_error + pydict" where
  "normalize_linux_env_file_upsert_execution rt env rq ps = rbind (gate_check rq) (\<lambda>_. linux_env_file_payload rt env rq ps)"


section \<open>SSH keys and DNS hosts\<close>

definition POSIX_USERNAME_RE :: regex where
  "POSIX_USERNAME_RE =
     seqs [CS (\<lambda>c. is_lower_alpha c \<or> c = CHR ''_''), Rep 0 (Some 31) (CS (\<lambda>c. is_lower_alpha c \<or> is_digit c \<or> c \<in> set ''_-'')), dollar]"

text \<open>Key type and key of a line, without the comment: \<open>split(None, 2)\<close>.\<close>

definition key_without_comment :: "string \<Rightarrow> string" where
  "key_without_comment s =
     (let w = takeWhile (\<lambda>c. \<not> is_space c) s; rest = dropWhile is_space (dropWhile (\<lambda>c. \<not> is_space c) s) in
      if rest = [] then s else w @ '' '' @ takeWhile (\<lambda>c. \<not> is_space c) rest)"

definition normalize_ssh_install_key_execution :: "exec_request \<Rightarrow> pydict \<Rightarrow> handler_error + pydict" where
  "normalize_ssh_install_key_execution rq ps =
     (let public_key = text_of (dget ps ''public_key''); username = text_of (dget ps ''username'') in
      rbind (guard (public_key \<noteq> []) (param_invalid ''public_key is required.'')) (\<lambda>_.
      rbind (guard (CHR 0x0A \<notin> set public_key \<and> CHR 0x0D \<notin> set public_key)
        (param_invalid ''public_key must be a single line without newlines.'')) (\<lambda>_.
      rbind (guard (list_ex (startswith public_key) [''ssh-ed25519 '', ''ssh-rsa '', ''ecdsa-sha2-''])
        (param_invalid ''public_key must start with a supported key type prefix.'')) (\<lambda>_.
      (let k = key_without_comment public_key;
           n = put_fp ''public_key_prefix'' (VStr (take 64 k)) (dict_set ''public_key'' (VStr k) (handler_payload rq (rq_target_display rq))) in
       rbind (guard (username = [] \<or> fullmatch POSIX_USERNAME_RE username)
         (param_invalid (''username must be a valid POSIX username ''
            @ ''(lowercase letters, digits, _ or -; starts with letter or _; max 32 chars).''))) (\<lambda>_.
         Inr (if username = [] then n else dict_set ''username'' (VStr username) n)))))))"

definition DNS_HOST_TARGET_RE :: regex where
  "DNS_HOST_TARGET_RE = Seq (CS (alnum_or [])) (Rep 0 (Some 62) (CS (alnum_or ''-'')))"

definition DNS_HOST_COMPOSE_PROJECT :: string where
  "DNS_HOST_COMPOSE_PROJECT = ''powerdns-dns-api''"

definition validate_dns_host_ssh_host :: "string \<Rightarrow> handler_error + unit" where
  "validate_dns_host_ssh_host host = validate_ssh_host host ''rpc_ssh_host could not be resolved from params.''"

definition dns_host_name :: "norm_env \<Rightarrow> pydict \<Rightarrow> string \<Rightarrow> handler_error + string" where
  "dns_host_name env ps target =
     (let host = text_of (dget ps ''rpc_ssh_host''); domain = default_dns_host_domain env in
      if host \<noteq> [] then Inr host
      else rbind (guard (domain \<noteq> []) (param_invalid (''rpc_ssh_host is required: pass it explicitly, or configure the ''
        @ ''netbox_rpc 'dns_host_domain' plugin setting to derive '<target>.<domain>'.''))) (\<lambda>_. Inr (target @ ''.'' @ domain)))"

definition normalize_dns_host_execution :: "python_rt \<Rightarrow> norm_env \<Rightarrow> exec_request \<Rightarrow> pydict \<Rightarrow> handler_error + pydict" where
  "normalize_dns_host_execution rt env rq ps =
     (let target = text_of (dget ps ''target''); known_hosts = str_or (dget ps ''rpc_ssh_known_hosts_entry'') [] in
      rbind (guard (fullmatch DNS_HOST_TARGET_RE target)
        (param_invalid ''target must be a short DNS host name such as dns01 or dns02.'')) (\<lambda>_.
      rbind (int_range rt ps ''rpc_ssh_credential_pk'' 1 None) (\<lambda>credential_pk.
      rbind (dns_host_name env ps target) (\<lambda>host.
      rbind (validate_dns_host_ssh_host host) (\<lambda>_.
      rbind (optional_int_range rt ps ''rpc_ssh_port'' 1 (Some 65535)) (\<lambda>p.
      (let port = VInt (case p of None \<Rightarrow> 22 | Some i \<Rightarrow> i) in
       rbind (guard (CHR 0x0A \<notin> set known_hosts \<and> CHR 0x0D \<notin> set known_hosts)
         (param_invalid ''rpc_ssh_known_hosts_entry must be a single line.'')) (\<lambda>_.
       rbind (guard (length known_hosts \<le> 8192)
         (param_invalid ''rpc_ssh_known_hosts_entry may contain at most 8192 characters.'')) (\<lambda>_.
       rbind (bool_param ps ''rpc_ssh_strict_host_key_checking'' True) (\<lambda>strict.
         Inr (dict_set ''rpc_ssh_strict_host_key_checking'' (VBool strict)
             (dict_set ''rpc_ssh_known_hosts_entry'' (VStr known_hosts) (dict_set ''rpc_ssh_credential_pk'' (VInt credential_pk)
             (put_all [(''target'', VStr target), (''compose_project'', VStr DNS_HOST_COMPOSE_PROJECT), (''rpc_ssh_host'', VStr host),
                (''rpc_ssh_port'', port)] (procedure_payload rq target)))))))))))))))"

definition normalize_dns_host_deploy_execution :: "python_rt \<Rightarrow> norm_env \<Rightarrow> exec_request \<Rightarrow> pydict \<Rightarrow> handler_error + pydict" where
  "normalize_dns_host_deploy_execution rt env rq ps =
     rbind (normalize_dns_host_execution rt env rq ps) (copy_bool ps ''force_recreate'' False)"

definition normalize_dns_host_status_execution :: "python_rt \<Rightarrow> norm_env \<Rightarrow> exec_request \<Rightarrow> pydict \<Rightarrow> handler_error + pydict" where
  "normalize_dns_host_status_execution rt env rq ps = normalize_dns_host_execution rt env rq ps"


section \<open>Scans and diagnostics\<close>

definition NMAP_HOSTNAME_RE :: regex where
  "NMAP_HOSTNAME_RE =
     (let label = Seq (CS (alnum_or [])) (optional (Seq (Rep 0 (Some 61) (CS (alnum_or ''-''))) (CS (alnum_or [])))) in
      seqs [Look (seqs [Rep 1 (Some 253) dot, optional (lit ''.''), dollar]), Look (Seq (star dot) (CS is_alpha)),
        star (Seq label (lit ''.'')), label, optional (lit ''.'')])"

definition NMAP_PORT_TOKEN_RE :: regex where
  "NMAP_PORT_TOKEN_RE = Seq (Rep 1 (Some 5) (CS is_digit)) (optional (Seq (lit ''-'') (Rep 1 (Some 5) (CS is_digit))))"

definition NMAP_SCAN_TYPES :: "string list" where
  "NMAP_SCAN_TYPES = [''connect'', ''syn'', ''os-detect'']"

definition NMAP_MAX_CIDR_HOSTS :: nat where
  "NMAP_MAX_CIDR_HOSTS = 256"

definition normalize_nmap_target :: "pyval \<Rightarrow> handler_error + string" where
  "normalize_nmap_target raw =
     (let target = text_of raw in
      rbind (guard (target \<noteq> []) (param_invalid ''target is required.'')) (\<lambda>_.
      rbind (guard (\<not> has_space_or_control target) (param_invalid ''target must not contain whitespace or control characters.'')) (\<lambda>_.
      if CHR ''/'' \<in> set target then
        (case read_ip_network target of
           None \<Rightarrow> Inl (param_invalid ''target CIDR must be a valid IPv4 network.'')
         | Some (Net6 n p) \<Rightarrow> Inl (param_invalid ''target CIDR must be IPv4.'')
         | Some (Net4 n p) \<Rightarrow>
             rbind (guard (2 ^ (32 - p) \<le> NMAP_MAX_CIDR_HOSTS)
               (param_invalid ''target CIDR is too broad; use a network no larger than /24 (256 addresses).'')) (\<lambda>_.
               Inr (ipv4_network_str (n, p))))
      else (case read_ip_address target of
          Some (IPv6 n) \<Rightarrow> Inl (param_invalid ''target IP address must be IPv4.'')
        | Some (IPv4 n) \<Rightarrow> Inr (ipv4_str n)
        | None \<Rightarrow>
            if fullmatch NMAP_HOSTNAME_RE target then Inr (lower target)
            else Inl (param_invalid ''target must be an IPv4 address, IPv4 CIDR, or strict hostname.'')))))"

abbreviation is_port :: "nat \<Rightarrow> bool" where
  "is_port i \<equiv> 1 \<le> i \<and> i \<le> 65535"

definition port_token :: "string \<Rightarrow> handler_error + string" where
  "port_token token =
     rbind (guard (fullmatch NMAP_PORT_TOKEN_RE token) (param_invalid ''ports must contain only integers or integer ranges.'')) (\<lambda>_.
     if CHR ''-'' \<in> set token then
       (let lo = str_nat (takeWhile (\<lambda>c. c \<noteq> CHR ''-'') token); hi = str_nat (tl (dropWhile (\<lambda>c. c \<noteq> CHR ''-'') token)) in
        rbind (guard (lo \<le> hi) (param_invalid ''ports ranges must be ascending.'')) (\<lambda>_.
        rbind (guard (is_port lo \<and> is_port hi) (param_invalid ''ports entries must be between 1 and 65535.'')) (\<lambda>_.
          Inr (nat_str lo @ ''-'' @ nat_str hi))))
     else rbind (guard (is_port (str_nat token)) (param_invalid ''ports entries must be between 1 and 65535.'')) (\<lambda>_.
       Inr (nat_str (str_nat token))))"

definition normalize_nmap_port_tokens :: "string list \<Rightarrow> handler_error + string" where
  "normalize_nmap_port_tokens tokens =
     rbind (guard (length tokens \<le> 32) (param_invalid ''ports may contain at most 32 entries.'')) (\<lambda>_.
     rbind (rmap port_token tokens) (\<lambda>ts. Inr (join_with '','' ts)))"

definition port_entry :: "pyval \<Rightarrow> handler_error + int" where
  "port_entry v = (case v of
       VInt i \<Rightarrow> rbind (guard (1 \<le> i \<and> i \<le> 65535) (param_invalid ''ports entries must be between 1 and 65535.'')) (\<lambda>_. Inr i)
     | _ \<Rightarrow> Inl (param_invalid ''ports entries must be integers.''))"

definition normalize_nmap_ports :: "pyval \<Rightarrow> handler_error + string" where
  "normalize_nmap_ports raw = (case raw of
       VNone \<Rightarrow> Inr []
     | VStr s \<Rightarrow>
         (let ports = strip s in
          rbind (guard (ports \<noteq> []) (param_invalid ''ports must not be empty when provided.'')) (\<lambda>_.
          rbind (guard (\<not> has_space_or_control ports) (param_invalid ''ports must not contain whitespace or control characters.'')) (\<lambda>_.
            normalize_nmap_port_tokens (split_on CHR '','' ports))))
     | VList vs \<Rightarrow>
         rbind (guard (vs \<noteq> []) (param_invalid ''ports must not be empty when provided.'')) (\<lambda>_.
         rbind (guard (length vs \<le> 32) (param_invalid ''ports may contain at most 32 entries.'')) (\<lambda>_.
         rbind (rmap port_entry vs) (\<lambda>is. Inr (join_with '','' (map int_str is)))))
     | _ \<Rightarrow> Inl (param_invalid ''ports must be a comma-separated string or list of integers.''))"

definition normalize_nmap_execution :: "python_rt \<Rightarrow> exec_request \<Rightarrow> pydict \<Rightarrow> handler_error + pydict" where
  "normalize_nmap_execution rt rq ps =
     rbind (normalize_nmap_target (dget ps ''target'')) (\<lambda>target.
     (let scan_type = strip (str_or (dget ps ''scan_type'') ''connect'') in
      rbind (guard (scan_type \<in> set NMAP_SCAN_TYPES) (param_invalid ''scan_type must be one of: connect, syn, os-detect.'')) (\<lambda>_.
      rbind (normalize_nmap_ports (dget ps ''ports'')) (\<lambda>ports.
        copy_optional_ssh_overrides rt ps
          (put_text ''ports'' ports (put_all [(''target'', VStr target), (''scan_type'', VStr scan_type)] (procedure_payload rq target)))))))"

definition ABS_PATH_RE :: regex where
  "ABS_PATH_RE = seqs [text_start, lit ''/'', Rep 1 (Some 255) (CS (alnum_or ''/._-'')), dollar]"

definition abs_path_param :: "pyval \<Rightarrow> string \<Rightarrow> handler_error + string" where
  "abs_path_param raw key =
     (let s = text_of raw in
      rbind (guard (s = [] \<or> fullmatch ABS_PATH_RE s)
        (param_invalid (key @ '' must be an absolute path (/... up to 255 safe chars).''))) (\<lambda>_. Inr s))"

definition copy_ookla_ports :: "pydict \<Rightarrow> pydict \<Rightarrow> handler_error + pydict" where
  "copy_ookla_ports ps n = (case dget ps ''ports'' of
       VNone \<Rightarrow> Inr n
     | VList vs \<Rightarrow>
         rbind (guard (length vs \<le> 16) (param_invalid ''ports may contain at most 16 entries.'')) (\<lambda>_.
         rbind (rmap port_entry vs) (\<lambda>is. Inr (if is = [] then n else put_both ''ports'' (VList (map VInt is)) n)))
     | _ \<Rightarrow> Inl (param_invalid ''ports must be a list of integers.''))"

definition normalize_ookla_execution :: "python_rt \<Rightarrow> exec_request \<Rightarrow> pydict \<Rightarrow> handler_error + pydict" where
  "normalize_ookla_execution rt rq ps = rseq
     [copy_optional abs_path_param ps ''install_dir'', copy_optional abs_path_param ps ''config_path'',
      copy_ookla_ports ps, copy_optional_ssh_overrides rt ps] (procedure_payload rq (rq_target_display rq))"

definition upgrade_backup_dir :: "pydict \<Rightarrow> pydict \<Rightarrow> handler_error + pydict" where
  "upgrade_backup_dir ps n = (case map_of ps ''backup_dir'' of
       None \<Rightarrow> Inr n
     | Some v \<Rightarrow> (case v of
         VStr s \<Rightarrow> if fullmatch ABS_PATH_RE s then Inr (put_both ''backup_dir'' (VStr s) n)
           else Inl (param_invalid ''backup_dir must be an absolute path (/... up to 255 safe chars).'')
       | _ \<Rightarrow> Inl (param_invalid ''backup_dir must be an absolute path (/... up to 255 safe chars).'')))"

definition upgrade_version :: "pydict \<Rightarrow> pydict \<Rightarrow> handler_error + pydict" where
  "upgrade_version ps n = (case map_of ps ''expected_version_id'' of
       None \<Rightarrow> Inr n
     | Some v \<Rightarrow> (case v of
         VStr s \<Rightarrow> if s \<noteq> [] \<and> length s \<le> 32 then Inr (put_both ''expected_version_id'' (VStr s) n)
           else Inl (param_invalid ''expected_version_id must be a non-empty string of at most 32 characters.'')
       | _ \<Rightarrow> Inl (param_invalid ''expected_version_id must be a non-empty string of at most 32 characters.'')))"

abbreviation upgrade_26 :: "string \<Rightarrow> string" where
  "upgrade_26 s \<equiv> ''os.linux.ubuntu.24.upgrade_26.'' @ s"

definition normalize_ubuntu_upgrade_26_execution :: "python_rt \<Rightarrow> exec_request \<Rightarrow> pydict \<Rightarrow> handler_error + pydict" where
  "normalize_ubuntu_upgrade_26_execution rt rq ps =
     (let name = proc_name (rq_procedure rq) in
      rseq [when_in name [upgrade_26 ''save_preupgrade_state''] (upgrade_backup_dir ps),
            when_in name [upgrade_26 ''run_upgrade''] (\<lambda>n. Inr (put_all
              [(''dry_run'', VBool (truth_param ps ''dry_run'' True)),
               (''reboot_after_upgrade'', VBool (truth_param ps ''reboot_after_upgrade'' False))] n)),
            when_in name [upgrade_26 ''verify_postupgrade''] (upgrade_version ps),
            copy_optional_ssh_overrides rt ps] (procedure_payload rq (rq_target_display rq)))"

definition DNS_SEARCH_DOMAIN_RE :: regex where
  "DNS_SEARCH_DOMAIN_RE =
     (let label = Seq (CS (alnum_or [])) (optional (Seq (Rep 0 (Some 61) (CS (alnum_or ''-''))) (CS (alnum_or [])))) in
      seqs [label, star (Seq (lit ''.'') label), optional (lit ''.''), dollar])"

definition normalize_zabbix_server :: "string \<Rightarrow> handler_error + string" where
  "normalize_zabbix_server raw =
     (let s = rstrip_char CHR ''.'' (strip raw) in
      rbind (guard (s \<noteq> []) (param_invalid ''zabbix_server is required.'')) (\<lambda>_.
      if read_ip_address s \<noteq> None then Inr s
      else rbind (guard (length s \<le> 253 \<and> fullmatch DNS_SEARCH_DOMAIN_RE s)
        (param_invalid ''zabbix_server must be a valid DNS name or IP address.'')) (\<lambda>_. Inr s)))"

definition copy_zabbix_server :: "norm_env \<Rightarrow> string \<Rightarrow> pydict \<Rightarrow> pydict \<Rightarrow> handler_error + pydict" where
  "copy_zabbix_server env message ps n =
     (let given_server = text_of (dget ps ''zabbix_server'');
          raw = (if given_server = [] then default_zabbix_server env else given_server) in
      rbind (guard (raw \<noteq> []) (param_invalid message)) (\<lambda>_.
      rbind (normalize_zabbix_server raw) (\<lambda>server. Inr (put_both ''zabbix_server'' (VStr server) n))))"

definition normalize_linux_agent_install_execution ::
  "python_rt \<Rightarrow> norm_env \<Rightarrow> bool \<Rightarrow> exec_request \<Rightarrow> pydict \<Rightarrow> handler_error + pydict" where
  "normalize_linux_agent_install_execution rt env zabbix_server rq ps = rseq
     [\<lambda>n. if \<not> zabbix_server then Inr n
          else copy_zabbix_server env (''zabbix_server is required: pass it explicitly, or configure the ''
            @ ''netbox_rpc 'default_zabbix_server' plugin setting.'') ps n,
      copy_optional_ssh_overrides rt ps] (handler_payload rq (rq_target_display rq))"


section \<open>Packer templates\<close>

definition DEFAULT_VERIFY_SERVICES :: "string list" where
  "DEFAULT_VERIFY_SERVICES = [''qemu-guest-agent'']"

definition service_entry :: "pyval \<Rightarrow> handler_error + string" where
  "service_entry v =
     (let name = text_of v in
      rbind (guard (name \<noteq> [] \<and> length name \<le> 100 \<and> list_all (alnum_or ''_.@:-'') name)
        (param_invalid ''each services entry must be a valid systemd unit name.'')) (\<lambda>_. Inr name))"

definition coerce_services :: "pyval \<Rightarrow> handler_error + string list" where
  "coerce_services raw =
     (if raw = VNone \<or> raw = VStr [] then Inr DEFAULT_VERIFY_SERVICES
      else (case raw of
          VList vs \<Rightarrow> rbind (rmap service_entry vs) (\<lambda>ss. Inr (if ss = [] then DEFAULT_VERIFY_SERVICES else ss))
        | _ \<Rightarrow> Inl (param_invalid ''services must be a list of systemd unit names.'')))"

definition resolve_credential_reference ::
  "python_rt \<Rightarrow> norm_env \<Rightarrow> exec_request \<Rightarrow> pydict \<Rightarrow> handler_error + (int option \<times> int option)" where
  "resolve_credential_reference rt env rq ps =
     rbind (optional_int_range rt ps ''rpc_ssh_credential_pk'' 1 None) (\<lambda>legacy.
     rbind (optional_int_range rt ps ''openbao_assignment_id'' 1 None) (\<lambda>assignment.
     rbind (guard ((legacy = None) \<noteq> (assignment = None))
       (param_invalid ''Exactly one of rpc_ssh_credential_pk or openbao_assignment_id is required.'')) (\<lambda>_.
     if legacy \<noteq> None then Inr (legacy, None)
     else rbind (resolve_openbao_assignment_reference env rq True assignment) (\<lambda>r. Inr (None, r)))))"

definition resolve_ssh_host :: "pydict \<Rightarrow> pyval \<Rightarrow> bool \<Rightarrow> handler_error + string" where
  "resolve_ssh_host ps proxmox_node0 bound =
     (let proxmox_node = text_of proxmox_node0; host_override = text_of (dget ps ''ssh_host'') in
      if host_override \<noteq> [] \<and> \<not> bound then Inr host_override
      else rbind (guard (host_override = [] \<or> host_override = proxmox_node)
        (RPCExecutionError ''ssh_host must match the template's own proxmox_node.'' ''RPC_PACKER_HOST_MISMATCH'')) (\<lambda>_.
      rbind (guard (proxmox_node \<noteq> [])
        (RPCExecutionError ''The PackerTemplate has no proxmox_node; cannot resolve an SSH host.'' ''RPC_PACKER_HOST_UNRESOLVED'')) (\<lambda>_.
        Inr proxmox_node)))"

text \<open>
  \<open>ne_packer\<close>: \<open>None\<close> when netbox-packer is not installed, \<open>Some None\<close> when the assigned object
  is no template, else its \<open>proxmox_node\<close> and \<open>proxmox_template_id\<close>.
\<close>

definition template_vmid :: "python_rt \<Rightarrow> pyval \<Rightarrow> handler_error + pyval" where
  "template_vmid rt v =
     (if v = VNone then Inr VNone
      else (case py_int rt v of
          Inr i \<Rightarrow> Inr (VInt i)
        | Inl OverflowError \<Rightarrow> Inl (HandlerRaised OverflowError)
        | Inl _ \<Rightarrow> Inr VNone))"

definition normalize_packer_vm_execution :: "python_rt \<Rightarrow> norm_env \<Rightarrow> exec_request \<Rightarrow> pydict \<Rightarrow> handler_error + pydict" where
  "normalize_packer_vm_execution rt env rq ps = (case ne_packer env of
       None \<Rightarrow> Inl (RPCExecutionError ''netbox-packer is not installed; packer.vm.* procedures require it.'' ''RPC_PACKER_PLUGIN_MISSING'')
     | Some None \<Rightarrow> Inl (param_invalid ''packer.vm.* procedures must target a netbox-packer PackerTemplate.'')
     | Some (Some (proxmox_node, template_id)) \<Rightarrow>
         rbind (resolve_credential_reference rt env rq ps) (\<lambda>(legacy, reference).
         rbind (resolve_ssh_host ps proxmox_node (reference \<noteq> None)) (\<lambda>host.
         rbind (optional_int_range rt ps ''ssh_port'' 1 (Some 65535)) (\<lambda>p.
         rbind (template_vmid rt template_id) (\<lambda>vmid.
         (let n = put_all [(''proxmox_node'', VStr host), (''proxmox_template_id'', vmid)]
                (dict_set ''rpc_ssh_port'' (VInt (case p of None \<Rightarrow> 22 | Some i \<Rightarrow> i))
                  (dict_set ''rpc_ssh_host'' (VStr host) (handler_payload rq (rq_target_display rq))));
              m = (case reference of
                  Some i \<Rightarrow> put_both ''rpc_openbao_assignment_id'' (VInt i) n
                | None \<Rightarrow> put_both ''rpc_ssh_credential_pk'' (case legacy of None \<Rightarrow> VNone | Some c \<Rightarrow> VInt c) n) in
          if proc_name (rq_procedure rq) = ''packer.vm.verify_services''
          then rbind (coerce_services (dget ps ''services'')) (\<lambda>ss. Inr (put_both ''services'' (VList (map VStr ss)) m))
          else Inr m))))))"

end
