(* ===== verification/ProxmoxNormalization.thy ===== *)
theory ProxmoxNormalization
  imports LinuxNormalization
begin

text \<open>
  The normalizers of the Proxmox procedures in \<open>domain/normalization.py\<close>: the QEMU lifecycle
  with its operations, networks and guest settings, registry pulls, pvesh, the Mellanox
  conversion and the unit status. SSH bindings come from netbox-nms (\<open>ne_proxmox_ssh\<close>).
\<close>

section \<open>Patterns\<close>

definition PROXMOX_NODE_RE :: regex where
  "PROXMOX_NODE_RE = seqs [CS (alnum_or []), Rep 0 (Some 63) (CS (alnum_or ''_.-'')), dollar]"

definition PROXMOX_STORAGE_RE :: regex where
  "PROXMOX_STORAGE_RE = seqs [CS (alnum_or []), Rep 0 (Some 127) (CS (alnum_or ''_.:-'')), dollar]"

definition PROXMOX_BRIDGE_RE :: regex where
  "PROXMOX_BRIDGE_RE = seqs [CS (alnum_or []), Rep 0 (Some 63) (CS (alnum_or ''_.:-'')), dollar]"

definition PROXMOX_VM_NAME_RE :: regex where
  "PROXMOX_VM_NAME_RE = seqs [CS (alnum_or []), Rep 0 (Some 62) (CS (alnum_or ''_.-'')), dollar]"

definition PROXMOX_DISK_RE :: regex where
  "PROXMOX_DISK_RE = seqs [alts (map lit [''scsi'', ''virtio'', ''sata'', ''ide'']), plus1 (CS is_digit), dollar]"

definition PROXMOX_NO_COMMA_SPACE_RE :: regex where
  "PROXMOX_NO_COMMA_SPACE_RE = Seq (Rep 1 (Some 64) (CS (\<lambda>c. \<not> is_space c \<and> c \<noteq> CHR '',''))) dollar"

definition GUEST_INTERFACE_RE :: regex where
  "GUEST_INTERFACE_RE = Seq (CS is_alpha) (Rep 0 (Some 31) (CS (alnum_or ''_.:-'')))"

definition PROXMOX_QEMU_OPERATIONS :: "string list" where
  "PROXMOX_QEMU_OPERATIONS =
     [''nextid'', ''clone'', ''migrate'', ''configure'', ''resize'', ''start'', ''stop'', ''status'', ''agent_ping'',
      ''agent_network_get_interfaces'', ''agent_configure_debian_network'', ''agent_set_user_password'',
      ''agent_pbs_zabbix_status'', ''agent_configure_zabbix_agent2'']"

definition PROXMOX_QEMU_NIC_MODELS :: "string list" where
  "PROXMOX_QEMU_NIC_MODELS = [''virtio'', ''e1000'', ''e1000e'', ''vmxnet3'', ''rtl8139'']"


section \<open>Lists of objects\<close>

definition add_operation :: "string list \<Rightarrow> pyval \<Rightarrow> handler_error + string list" where
  "add_operation ops v =
     (let s = text_of v in
      rbind (guard (s \<in> set PROXMOX_QEMU_OPERATIONS) (param_invalid (''Unsupported Proxmox QEMU operation: '' @ s))) (\<lambda>_.
      rbind (guard (s \<notin> set ops) (param_invalid ''operations must not contain duplicates.'')) (\<lambda>_. Inr (ops @ [s]))))"

definition proxmox_operations :: "pydict \<Rightarrow> handler_error + string list" where
  "proxmox_operations ps = (case dget ps ''operations'' of
       VList (v # vs) \<Rightarrow> rfold add_operation [] (v # vs)
     | _ \<Rightarrow> Inl (param_invalid ''operations must be a non-empty list.''))"

text \<open>
  A list of at most eight objects; \<open>None\<close> and the empty text stand for the empty list. The loop stops at the first
  entry that is refused, be it no object or a bad one; \<open>f\<close> gets the keys seen so far.
\<close>

definition read_entries ::
  "string \<Rightarrow> string \<Rightarrow> ('k list \<Rightarrow> pydict \<Rightarrow> handler_error + ('k \<times> pydict)) \<Rightarrow> pyval \<Rightarrow> handler_error + ('k \<times> pydict) list" where
  "read_entries field item f raw = (if raw = VNone \<or> raw = VStr [] then Inr [] else case raw of
       VList vs \<Rightarrow>
         rbind (guard (length vs \<le> 8) (param_invalid (field @ '' may contain at most 8 entries.''))) (\<lambda>_.
           rfold (\<lambda>es v. case v of
               VDict d \<Rightarrow> rbind (f (map fst es) d) (\<lambda>e. Inr (es @ [e]))
             | _ \<Rightarrow> Inl (param_invalid (item @ '' entries must be objects.''))) [] vs)
     | _ \<Rightarrow> Inl (param_invalid (field @ '' must be a list.'')))"

definition fresh_index :: "python_rt \<Rightarrow> string \<Rightarrow> int list \<Rightarrow> pydict \<Rightarrow> handler_error + int" where
  "fresh_index rt item seen d =
     rbind (int_range rt d ''index'' 0 (Some 31)) (\<lambda>i.
     rbind (guard (i \<notin> set seen) (param_invalid (item @ '' indexes must be unique.''))) (\<lambda>_. Inr i))"

definition network_entry :: "python_rt \<Rightarrow> int list \<Rightarrow> pydict \<Rightarrow> handler_error + (int \<times> pydict)" where
  "network_entry rt seen d =
     rbind (fresh_index rt ''network'' seen d) (\<lambda>i.
     (let model = strip (str_or (dget d ''model'') ''virtio''); bridge = text_of (dget d ''bridge'') in
      rbind (guard (model \<in> set PROXMOX_QEMU_NIC_MODELS) (param_invalid ''network model is not allowlisted.'')) (\<lambda>_.
      rbind (guard (fullmatch PROXMOX_BRIDGE_RE bridge) (param_invalid ''network bridge contains invalid characters.'')) (\<lambda>_.
      rbind (optional_int_range rt d ''tag'' 1 (Some 4094)) (\<lambda>tag.
      rbind (if has_key d ''firewall'' then rbind (bool_param d ''firewall'' False) (\<lambda>b. Inr [(''firewall'', VBool b)]) else Inr []) (\<lambda>firewall.
        Inr (i, [(''index'', VInt i), (''model'', VStr model), (''bridge'', VStr bridge)]
          @ (case tag of None \<Rightarrow> [] | Some t \<Rightarrow> [(''tag'', VInt t)]) @ firewall)))))))"

definition ipconfig_entry :: "python_rt \<Rightarrow> int list \<Rightarrow> pydict \<Rightarrow> handler_error + (int \<times> pydict)" where
  "ipconfig_entry rt seen d =
     rbind (fresh_index rt ''ipconfig'' seen d) (\<lambda>i.
     (let ip = text_of (dget d ''ip''); gw = text_of (dget d ''gw'') in
      rbind (guard (fullmatch PROXMOX_NO_COMMA_SPACE_RE ip) (param_invalid ''ipconfig ip contains invalid characters.'')) (\<lambda>_.
      rbind (guard (gw = [] \<or> fullmatch PROXMOX_NO_COMMA_SPACE_RE gw) (param_invalid ''ipconfig gw contains invalid characters.'')) (\<lambda>_.
        Inr (i, [(''index'', VInt i), (''ip'', VStr ip)] @ (if gw = [] then [] else [(''gw'', VStr gw)]))))))"

definition guest_network_entry :: "string list \<Rightarrow> pydict \<Rightarrow> handler_error + (string \<times> pydict)" where
  "guest_network_entry seen d =
     (let interface = text_of (dget d ''interface''); address = text_of (dget d ''address''); gateway = text_of (dget d ''gateway'') in
      rbind (guard (fullmatch GUEST_INTERFACE_RE interface) (param_invalid ''guest_network interface contains invalid characters.'')) (\<lambda>_.
      rbind (guard (interface \<notin> set seen) (param_invalid ''guest_network interfaces must be unique.'')) (\<lambda>_.
      rbind (guard (fullmatch PROXMOX_NO_COMMA_SPACE_RE address) (param_invalid ''guest_network address contains invalid characters.'')) (\<lambda>_.
      rbind (guard (gateway = [] \<or> fullmatch PROXMOX_NO_COMMA_SPACE_RE gateway)
        (param_invalid ''guest_network gateway contains invalid characters.'')) (\<lambda>_.
        Inr (interface, [(''interface'', VStr interface), (''address'', VStr address)]
          @ (if gateway = [] then [] else [(''gateway'', VStr gateway)])))))))"

text \<open>\<open>sorted(entries, key=...)\<close>; the keys are pairwise different.\<close>

definition sorted_entries :: "('k::linorder \<times> pydict) list \<Rightarrow> pyval list" where
  "sorted_entries es = map (VDict \<circ> snd) (sort_key fst es)"

definition normalize_proxmox_networks :: "python_rt \<Rightarrow> pyval \<Rightarrow> handler_error + pyval list" where
  "normalize_proxmox_networks rt raw =
     rbind (read_entries ''networks'' ''network'' (network_entry rt) raw) (\<lambda>es. Inr (sorted_entries es))"

definition normalize_proxmox_ipconfigs :: "python_rt \<Rightarrow> pyval \<Rightarrow> handler_error + pyval list" where
  "normalize_proxmox_ipconfigs rt raw =
     rbind (read_entries ''ipconfigs'' ''ipconfig'' (ipconfig_entry rt) raw) (\<lambda>es. Inr (sorted_entries es))"

definition normalize_proxmox_guest_networks :: "pyval \<Rightarrow> handler_error + pyval list" where
  "normalize_proxmox_guest_networks raw =
     rbind (read_entries ''guest_networks'' ''guest_network'' guest_network_entry raw) (\<lambda>es. Inr (sorted_entries es))"

definition normalize_dns_search_domain :: "pyval \<Rightarrow> handler_error + string" where
  "normalize_dns_search_domain raw =
     (let s = rstrip_char CHR ''.'' (text_of raw) in
      rbind (guard (s = [] \<or> (length s \<le> 253 \<and> fullmatch DNS_SEARCH_DOMAIN_RE s))
        (param_invalid ''search_domain must be a valid DNS search domain.'')) (\<lambda>_. Inr s))"

definition add_dns_server :: "string list \<Rightarrow> pyval \<Rightarrow> handler_error + string list" where
  "add_dns_server seen v =
     (let s = text_of v in
      rbind (guard (s \<noteq> []) (param_invalid ''dns_servers must not contain empty entries.'')) (\<lambda>_.
      rbind (guard (read_ip_address s \<noteq> None) (param_invalid ''dns_servers entries must be valid IP addresses.'')) (\<lambda>_.
      rbind (guard (s \<notin> set seen) (param_invalid ''dns_servers must not contain duplicates.'')) (\<lambda>_. Inr (seen @ [s])))))"

definition normalize_dns_servers :: "pyval \<Rightarrow> handler_error + string list" where
  "normalize_dns_servers raw = (if raw = VNone \<or> raw = VStr [] then Inr [] else case raw of
       VList vs \<Rightarrow>
         rbind (guard (length vs \<le> 3) (param_invalid ''dns_servers may contain at most 3 entries.'')) (\<lambda>_. rfold add_dns_server [] vs)
     | _ \<Rightarrow> Inl (param_invalid ''dns_servers must be a list.''))"


section \<open>Required fields\<close>

definition missing :: "pydict \<Rightarrow> string \<Rightarrow> bool" where
  "missing n k \<longleftrightarrow> dget n k = VNone \<or> dget n k = VStr [] \<or> dget n k = VList []"

definition require_keys :: "pydict \<Rightarrow> string list \<Rightarrow> handler_error + unit" where
  "require_keys n ks =
     (let ms = filter (missing n) ks in
      guard (ms = []) (param_invalid (''Missing required Proxmox lifecycle field(s): '' @ join_with '', '' ms @ ''.'')))"

definition require_if :: "bool \<Rightarrow> pydict \<Rightarrow> string list \<Rightarrow> handler_error + unit" where
  "require_if b n ks = (if b then require_keys n ks else Inr ())"

definition NODE_OPERATIONS :: "string list" where
  "NODE_OPERATIONS =
     [''configure'', ''resize'', ''start'', ''stop'', ''status'', ''agent_ping'', ''agent_network_get_interfaces'',
      ''agent_configure_debian_network'', ''agent_set_user_password'', ''agent_pbs_zabbix_status'', ''agent_configure_zabbix_agent2'']"

definition require_proxmox_fields :: "string list \<Rightarrow> pydict \<Rightarrow> handler_error + unit" where
  "require_proxmox_fields ops n =
     (if ''nextid'' \<in> set ops then guard (length ops = 1) (param_invalid ''nextid must be run as a standalone operation.'')
      else
        rbind (require_keys n [''vmid'']) (\<lambda>_.
        rbind (require_if (''clone'' \<in> set ops) n [''template_vmid'', ''source_node'', ''name'']) (\<lambda>_.
        rbind (require_if (''migrate'' \<in> set ops) n [''source_node'', ''target_node'']) (\<lambda>_.
        rbind (require_if (set NODE_OPERATIONS \<inter> set ops \<noteq> {}) n [''node'']) (\<lambda>_.
        rbind (require_if (''resize'' \<in> set ops) n [''disk_gb'', ''resize_disk'']) (\<lambda>_.
        rbind (require_if (''agent_configure_debian_network'' \<in> set ops) n [''guest_networks'']) (\<lambda>_.
          require_if (''agent_set_user_password'' \<in> set ops) n [''guest_credential_pk''])))))))"


section \<open>SSH bindings\<close>

definition resolve_proxmox_ssh_binding :: "norm_env \<Rightarrow> int \<Rightarrow> handler_error + pydict" where
  "resolve_proxmox_ssh_binding env endpoint_id = (case ne_proxmox_ssh env of
       None \<Rightarrow> Inl (RPCExecutionError (''netbox-nms does not expose the Proxmox SSH resolver; ''
         @ ''upgrade netbox-nms to a version with ProxmoxEndpointSSHBinding.'') ''RPC_PROXMOX_SSH_RESOLVER_MISSING'')
     | Some resolve \<Rightarrow>
         (let binding = (case resolve endpoint_id of None \<Rightarrow> [] | Some d \<Rightarrow> d); host = text_of (dget binding ''host'');
              label = ''The Proxmox Endpoint SSH binding for endpoint '' @ int_str endpoint_id in
          rbind (guard (binding \<noteq> [])
            (RPCExecutionError (''No Proxmox Endpoint SSH binding is configured for endpoint '' @ int_str endpoint_id
               @ ''. Create one in NetBox NMS (Proxmox Endpoint SSH Bindings) before running this procedure.'') ''RPC_PROXMOX_SSH_BINDING_NOT_FOUND'')) (\<lambda>_.
          rbind (guard (host \<noteq> [])
            (RPCExecutionError (label @ '' has no resolvable host. Set an SSH host override or an endpoint IP/domain.'')
               ''RPC_PROXMOX_SSH_HOST_UNRESOLVED'')) (\<lambda>_.
          rbind (guard (dget binding ''credential_pk'' \<noteq> VNone)
            (RPCExecutionError (label @ '' has no linked SSH credential.'') ''RPC_PROXMOX_SSH_CREDENTIAL_MISSING'')) (\<lambda>_.
            Inr (dict_set ''host'' (VStr host) binding))))))"

text \<open>The five SSH keys that a binding gives; they are not part of the fingerprint.\<close>

definition ssh_keys :: "python_rt \<Rightarrow> pydict \<Rightarrow> pydict \<Rightarrow> handler_error + pydict" where
  "ssh_keys rt binding n =
     rbind (raised (py_int rt (py_or (dget binding ''port'') (VInt 22)))) (\<lambda>port.
     rbind (raised (py_int rt (dget binding ''credential_pk''))) (\<lambda>credential_pk.
       Inr (dict_set ''rpc_ssh_strict_host_key_checking'' (VBool (truth_param binding ''strict_host_key_checking'' True))
           (dict_set ''rpc_ssh_known_hosts_entry'' (VStr (str_or (dget binding ''known_hosts_entry'') []))
           (dict_set ''rpc_ssh_credential_pk'' (VInt credential_pk) (dict_set ''rpc_ssh_port'' (VInt port)
           (dict_set ''rpc_ssh_host'' (dget binding ''host'') n)))))))"


section \<open>The lifecycle\<close>

definition copy_regex :: "pydict \<Rightarrow> string \<times> regex \<Rightarrow> pydict \<Rightarrow> handler_error + pydict" where
  "copy_regex ps = (\<lambda>(k, r) n. rbind (optional_regex_param r ps k) (\<lambda>s. Inr (put_text k s n)))"

definition put_list :: "string \<Rightarrow> pyval list \<Rightarrow> pydict \<Rightarrow> pydict" where
  "put_list k vs n = (if vs = [] then n else put_both k (VList vs) n)"

definition copy_ciuser :: "pydict \<Rightarrow> pydict \<Rightarrow> handler_error + pydict" where
  "copy_ciuser ps n =
     (let s = text_of (dget ps ''ciuser'') in
      rbind (guard (s = [] \<or> fullmatch POSIX_USERNAME_RE s) (param_invalid ''ciuser must be a valid POSIX username.'')) (\<lambda>_.
        Inr (put_text ''ciuser'' s n)))"

definition copy_resize_disk :: "pydict \<Rightarrow> string list \<Rightarrow> pydict \<Rightarrow> handler_error + pydict" where
  "copy_resize_disk ps ops n =
     (let s = strip (str_or (dget ps ''resize_disk'') ''scsi0'') in
      if ''resize'' \<notin> set ops then Inr n
      else rbind (guard (fullmatch PROXMOX_DISK_RE s) (param_invalid ''resize_disk must be a valid Proxmox disk key.'')) (\<lambda>_.
        Inr (put_both ''resize_disk'' (VStr s) n)))"

text \<open>\<open>params.get(key) or []\<close>.\<close>

definition list_param :: "pydict \<Rightarrow> string \<Rightarrow> pyval" where
  "list_param ps k = py_or (dget ps k) (VList [])"

definition qemu_steps :: "python_rt \<Rightarrow> norm_env \<Rightarrow> pydict \<Rightarrow> string list \<Rightarrow> (pydict \<Rightarrow> handler_error + pydict) list" where
  "qemu_steps rt env ps ops =
     map (copy_regex ps) [(''name'', PROXMOX_VM_NAME_RE), (''source_node'', PROXMOX_NODE_RE), (''node'', PROXMOX_NODE_RE),
       (''target_node'', PROXMOX_NODE_RE), (''storage'', PROXMOX_STORAGE_RE), (''target_storage'', PROXMOX_STORAGE_RE)]
     @ map (\<lambda>(k, lo, hi). copy_optional_int rt ps k lo hi)
         [(''template_vmid'', 100, Some 999999999), (''memory_mb'', 128, Some 1048576), (''cores'', 1, Some 512),
          (''disk_gb'', 1, Some 262144), (''guest_credential_pk'', 1, None)]
     @ [copy_bool ps ''full_clone'' True, copy_bool ps ''agent_enabled'' True, copy_ciuser ps,
        \<lambda>n. rbind (normalize_dns_search_domain (dget ps ''search_domain'')) (\<lambda>s. Inr (put_text ''search_domain'' s n)),
        \<lambda>n. rbind (normalize_dns_servers (list_param ps ''dns_servers'')) (\<lambda>vs. Inr (put_list ''dns_servers'' (map VStr vs) n)),
        copy_resize_disk ps ops,
        \<lambda>n. rbind (normalize_proxmox_networks rt (list_param ps ''networks'')) (\<lambda>vs. Inr (put_list ''networks'' vs n)),
        \<lambda>n. rbind (normalize_proxmox_ipconfigs rt (list_param ps ''ipconfigs'')) (\<lambda>vs. Inr (put_list ''ipconfigs'' vs n)),
        \<lambda>n. rbind (normalize_proxmox_guest_networks (list_param ps ''guest_networks'')) (\<lambda>vs. Inr (put_list ''guest_networks'' vs n)),
        \<lambda>n. if set [''agent_pbs_zabbix_status'', ''agent_configure_zabbix_agent2''] \<inter> set ops = {} then Inr n
            else copy_zabbix_server env (''zabbix_server is required for the requested operation: pass it ''
              @ ''explicitly, or configure the netbox_rpc 'default_zabbix_server' plugin setting.'') ps n,
        \<lambda>n. rbind (require_proxmox_fields ops n) (\<lambda>_. Inr n)]"

definition normalize_proxmox_qemu_vm_lifecycle_execution ::
  "python_rt \<Rightarrow> norm_env \<Rightarrow> exec_request \<Rightarrow> pydict \<Rightarrow> handler_error + pydict" where
  "normalize_proxmox_qemu_vm_lifecycle_execution rt env rq ps =
     rbind (int_range rt ps ''proxmox_endpoint_id'' 1 None) (\<lambda>endpoint_id.
     rbind (resolve_proxmox_ssh_binding env endpoint_id) (\<lambda>binding.
     rbind (proxmox_operations ps) (\<lambda>ops.
     rbind (optional_int_range rt ps ''vmid'' 100 (Some 999999999)) (\<lambda>vmid.
     rbind (ssh_keys rt binding (handler_payload rq (rq_target_display rq))) (\<lambda>n.
       rseq (qemu_steps rt env ps ops)
         (put_some ''vmid'' (map_option VInt vmid)
           (put_all [(''proxmox_endpoint_id'', VInt endpoint_id), (''operations'', VList (map VStr ops))] n)))))))"


section \<open>Pulls, pvesh, units and the Mellanox conversion\<close>

definition PROXMOX_OCI_NODE_RE :: regex where
  "PROXMOX_OCI_NODE_RE = seqs [text_start, CS (alnum_or []), Rep 0 (Some 63) (CS (alnum_or ''_.-'')), dollar]"

definition PROXMOX_OCI_REFERENCE_RE :: regex where
  "PROXMOX_OCI_REFERENCE_RE =
     seqs [text_start, optional (lit ''docker.io/''), lit ''emersonfelipesp/netbox-proxbox:'', CS (alnum_or ''_''),
       Rep 0 (Some 127) (CS (alnum_or ''_.-'')), dollar]"

definition PROXMOX_OCI_FILENAME_RE :: regex where
  "PROXMOX_OCI_FILENAME_RE = seqs [text_start, CS (alnum_or []), Rep 0 (Some 254) (CS (alnum_or ''_.-'')), dollar]"

definition own_endpoint :: "python_rt \<Rightarrow> exec_request \<Rightarrow> pydict \<Rightarrow> handler_error + int" where
  "own_endpoint rt rq ps =
     rbind (int_range rt ps ''proxmox_endpoint_id'' 1 None) (\<lambda>endpoint_id.
     rbind (guard (rq_target_id rq = endpoint_id)
       (param_invalid ''proxmox_endpoint_id must match the execution target object.'')) (\<lambda>_. Inr endpoint_id))"

definition normalize_proxmox_oci_registry_pull_execution ::
  "python_rt \<Rightarrow> norm_env \<Rightarrow> exec_request \<Rightarrow> pydict \<Rightarrow> handler_error + pydict" where
  "normalize_proxmox_oci_registry_pull_execution rt env rq ps =
     rbind (own_endpoint rt rq ps) (\<lambda>endpoint_id.
     rbind (optional_regex_param PROXMOX_OCI_NODE_RE ps ''node'') (\<lambda>node.
     rbind (optional_regex_param PROXMOX_OCI_NODE_RE ps ''storage'') (\<lambda>storage.
     rbind (optional_regex_param PROXMOX_OCI_REFERENCE_RE ps ''reference'') (\<lambda>reference.
     rbind (guard (node \<noteq> [] \<and> storage \<noteq> [] \<and> reference \<noteq> []) (param_invalid ''node, storage, and reference are required.'')) (\<lambda>_.
     rbind (optional_regex_param PROXMOX_OCI_FILENAME_RE ps ''filename'') (\<lambda>filename.
     rbind (resolve_proxmox_ssh_binding env endpoint_id) (\<lambda>binding.
     rbind (ssh_keys rt binding (handler_payload rq (rq_target_display rq))) (\<lambda>n.
     (let m = put_all [(''proxmox_endpoint_id'', VInt endpoint_id), (''node'', VStr node), (''storage'', VStr storage),
              (''reference'', VStr reference)] n in
      Inr (put_fp ''filename'' (VStr filename) (if filename = [] then m else dict_set ''filename'' (VStr filename) m)))))))))))"

definition SYSTEMCTL_UNIT_NAME_RE :: regex where
  "SYSTEMCTL_UNIT_NAME_RE = seqs [CS (alnum_or ''_''), star (CS (alnum_or ''_.@:-'')), dollar]"

definition MAX_SYSTEMCTL_UNITS :: nat where
  "MAX_SYSTEMCTL_UNITS = 32"

definition unit_entry :: "pyval \<Rightarrow> handler_error + string" where
  "unit_entry v = (case v of
       VStr s \<Rightarrow>
         (let name = strip s in
          rbind (guard (name \<noteq> [] \<and> length name \<le> 100 \<and> fullmatch SYSTEMCTL_UNIT_NAME_RE name)
            (param_invalid ''each units entry must be a valid systemd unit name.'')) (\<lambda>_. Inr name))
     | _ \<Rightarrow> Inl (param_invalid ''each units entry must be a string systemd unit name.''))"

definition systemctl_units :: "pyval \<Rightarrow> handler_error + string list" where
  "systemctl_units raw =
     (if raw = VNone \<or> raw = VStr [] then Inr []
      else (case raw of
          VList vs \<Rightarrow>
            rbind (guard (length vs \<le> MAX_SYSTEMCTL_UNITS)
              (param_invalid (''units may contain at most '' @ nat_str MAX_SYSTEMCTL_UNITS @ '' entries.''))) (\<lambda>_. rmap unit_entry vs)
        | _ \<Rightarrow> Inl (param_invalid ''units must be a list of systemd unit names.'')))"

definition normalize_show_systemctl_services_execution :: "python_rt \<Rightarrow> exec_request \<Rightarrow> pydict \<Rightarrow> handler_error + pydict" where
  "normalize_show_systemctl_services_execution rt rq ps =
     rbind (own_endpoint rt rq ps) (\<lambda>endpoint_id.
     rbind (systemctl_units (dget ps ''units'')) (\<lambda>units.
       Inr (put_all [(''proxmox_endpoint_id'', VInt endpoint_id), (''units'', VList (map VStr units))]
         (handler_payload rq (rq_target_display rq)))))"

definition PVESH_PATH_RE :: regex where
  "PVESH_PATH_RE = seqs [text_start, lit ''/'', Rep 1 (Some 128) (CS (alnum_or ''/_.-'')), dollar]"

definition normalize_pvesh_json_execution :: "python_rt \<Rightarrow> exec_request \<Rightarrow> pydict \<Rightarrow> handler_error + pydict" where
  "normalize_pvesh_json_execution rt rq ps =
     (let path = text_of (dget ps ''pvesh_path'') in
      rbind (guard (fullmatch PVESH_PATH_RE path) (param_invalid ''pvesh_path must match ^/[A-Za-z0-9/_.-]{1,128}$.'')) (\<lambda>_.
        rseq [copy_optional_int rt ps ''timeout'' 1 (Some 600), copy_optional_credential_override rt ps]
          (put_both ''pvesh_path'' (VStr path) (handler_payload rq (rq_target_display rq)))))"

definition normalize_convert_mellanox_nic_execution :: "python_rt \<Rightarrow> norm_env \<Rightarrow> exec_request \<Rightarrow> pydict \<Rightarrow> handler_error + pydict" where
  "normalize_convert_mellanox_nic_execution rt env rq ps =
     rbind (int_range rt ps ''proxmox_endpoint_id'' 1 None) (\<lambda>endpoint_id.
     rbind (resolve_proxmox_ssh_binding env endpoint_id) (\<lambda>binding.
     (let content = str_or (dget ps ''interfaces_content'') [];
          bond_name = (let s = strip (str_or (dget ps ''bond_name'') ''bond1'') in if s = [] then ''bond1'' else s);
          bond_vlans = filter (\<lambda>c. c \<noteq> CHR '' '') (text_of (dget ps ''bond_vlans'')) in
      rbind (int_range rt [(''bond_mtu'', case map_of ps ''bond_mtu'' of None \<Rightarrow> VInt 9216 | Some v \<Rightarrow> v)] ''bond_mtu'' 576 (Some 9216)) (\<lambda>bond_mtu.
      rbind (ssh_keys rt binding (handler_payload rq (rq_target_display rq))) (\<lambda>n.
        Inr (put_fp ''interfaces_content_sha''
              (VStr (if content = [] then [] else normalization_hash_json rt (VStr content)))
            (put_fp ''proxmox_endpoint_id'' (VInt endpoint_id) (dict_set ''interfaces_content'' (VStr content)
              (put_all [(''reboot'', VBool (truth_param ps ''reboot'' False)), (''apply_network'', VBool (truth_param ps ''apply_network'' False)),
                 (''dry_run'', VBool (truth_param ps ''dry_run'' False)), (''bond_name'', VStr bond_name), (''bond_vlans'', VStr bond_vlans),
                 (''bond_mtu'', VInt bond_mtu)] n)))))))))"

end
