(* ===== verification/DeviceNormalization.thy ===== *)
theory DeviceNormalization
  imports Normalization Catalog
begin

text \<open>
  The normalizers of the network devices and of the hosted services in
  \<open>domain/normalization.py\<close>: Dell OS10 and Huawei procedures, Nginx, Pterodactyl, Minecraft and
  the Passbolt migration.
\<close>

section \<open>Dell OS10\<close>

abbreviation dell :: "string \<Rightarrow> string" where
  "dell s \<equiv> ''network.device.dell_os10.s5232f_on.'' @ s"

definition DELL_OS10_INTERFACE_RE :: regex where
  "DELL_OS10_INTERFACE_RE = seqs [CS is_alpha, Rep 0 (Some 63) (CS (alnum_or ''/._:-'')), dollar]"

definition DELL_OS10_IP_RE :: regex where
  "DELL_OS10_IP_RE = (let d = Rep 1 (Some 3) (CS is_digit) in seqs [d, lit ''.'', d, lit ''.'', d, lit ''.'', d])"

definition DELL_OS10_MAC_RE :: regex where
  "DELL_OS10_MAC_RE = (let h = Rep 2 (Some 2) (CS is_hex) in Seq h (Rep 5 (Some 5) (Seq (lit '':'') h)))"

definition DELL_OS10_TRUNK_VLANS_RE :: regex where
  "DELL_OS10_TRUNK_VLANS_RE =
     (let v = Rep 1 (Some 4) (CS is_digit); r = Seq v (optional (Seq (lit ''-'') v)) in Seq r (star (Seq (lit '','') r)))"

definition DELL_OS10_BREAKOUT_PORT_RE :: regex where
  "DELL_OS10_BREAKOUT_PORT_RE = (let d = plus1 (CS is_digit) in seqs [d, lit ''/'', d, lit ''/'', d])"

definition DELL_OS10_BREAKOUT_MODE_RE :: regex where
  "DELL_OS10_BREAKOUT_MODE_RE = (let d = plus1 (CS is_digit) in seqs [d, lit ''g-'', d, lit ''x''])"

definition dell_os10_description :: "pydict \<Rightarrow> handler_error + string" where
  "dell_os10_description ps =
     (let s = str_or (dget ps ''description'') [] in
      rbind (guard (length s \<le> 240) (param_invalid ''description may contain at most 240 characters.'')) (\<lambda>_.
      rbind (guard (\<not> list_ex (\<lambda>c. (of_char c :: nat) < 32 \<and> c \<noteq> CHR 0x09) s)
        (param_invalid ''description must not contain control characters.'')) (\<lambda>_. Inr s)))"

definition interface_name :: "pyval \<Rightarrow> handler_error + string" where
  "interface_name raw =
     (let s = text_of raw in
      rbind (guard (fullmatch DELL_OS10_INTERFACE_RE s)
        (param_invalid ''interface_name must be a valid OS10 interface identifier.'')) (\<lambda>_. Inr s))"

text \<open>An integer, a description with its digest, and a flag that only the payload holds.\<close>

definition copy_int :: "python_rt \<Rightarrow> pydict \<Rightarrow> string \<Rightarrow> int \<Rightarrow> int option \<Rightarrow> pydict \<Rightarrow> handler_error + pydict" where
  "copy_int rt ps k lo hi n = rbind (int_range rt ps k lo hi) (\<lambda>i. Inr (put_both k (VInt i) n))"

definition copy_int_or :: "python_rt \<Rightarrow> pydict \<Rightarrow> string \<Rightarrow> int \<Rightarrow> int option \<Rightarrow> int \<Rightarrow> pydict \<Rightarrow> handler_error + pydict" where
  "copy_int_or rt ps k lo hi dflt n =
     rbind (optional_int_range rt ps k lo hi) (\<lambda>i. Inr (put_both k (VInt (case i of None \<Rightarrow> dflt | Some j \<Rightarrow> j)) n))"

definition copy_description :: "python_rt \<Rightarrow> pydict \<Rightarrow> pydict \<Rightarrow> handler_error + pydict" where
  "copy_description rt ps n = rbind (dell_os10_description ps) (\<lambda>s. Inr (put_hashed rt ''description'' s n))"

definition copy_optional_description :: "python_rt \<Rightarrow> pydict \<Rightarrow> pydict \<Rightarrow> handler_error + pydict" where
  "copy_optional_description rt ps n =
     rbind (dell_os10_description ps) (\<lambda>s. Inr (if s = [] then n else put_hashed rt ''description'' s n))"

definition set_bool :: "pydict \<Rightarrow> string \<Rightarrow> bool \<Rightarrow> pydict \<Rightarrow> handler_error + pydict" where
  "set_bool ps k dflt n = rbind (bool_param ps k dflt) (\<lambda>b. Inr (dict_set k (VBool b) n))"

definition normalize_dell_os10_simple_execution :: "python_rt \<Rightarrow> exec_request \<Rightarrow> pydict \<Rightarrow> handler_error + pydict" where
  "normalize_dell_os10_simple_execution rt rq ps =
     copy_optional_credential_override rt ps (handler_payload rq (rq_target_display rq))"

definition normalize_pipeline_fixed_execution :: "python_rt \<Rightarrow> exec_request \<Rightarrow> pydict \<Rightarrow> handler_error + pydict" where
  "normalize_pipeline_fixed_execution rt rq ps =
     copy_optional_credential_override rt ps (handler_payload rq (rq_target_display rq))"

definition dell_steps :: "python_rt \<Rightarrow> exec_request \<Rightarrow> pydict \<Rightarrow> (pydict \<Rightarrow> handler_error + pydict) list \<Rightarrow> handler_error + pydict" where
  "dell_steps rt rq ps fs = rseq (fs @ [copy_optional_credential_override rt ps]) (handler_payload rq (rq_target_display rq))"

definition dell_set_interface_description :: "python_rt \<Rightarrow> exec_request \<Rightarrow> pydict \<Rightarrow> handler_error + pydict" where
  "dell_set_interface_description rt rq ps = dell_steps rt rq ps
     [copy_valid interface_name ps ''interface_name'', copy_description rt ps, copy_bool ps ''write_memory'' False]"

definition dell_set_vlan_description :: "python_rt \<Rightarrow> exec_request \<Rightarrow> pydict \<Rightarrow> handler_error + pydict" where
  "dell_set_vlan_description rt rq ps = dell_steps rt rq ps
     [copy_int rt ps ''vlan_id'' 1 (Some 4094), copy_description rt ps, copy_bool ps ''write_memory'' False]"

definition dell_show_vlt :: "python_rt \<Rightarrow> exec_request \<Rightarrow> pydict \<Rightarrow> handler_error + pydict" where
  "dell_show_vlt rt rq ps = dell_steps rt rq ps [copy_int_or rt ps ''domain_id'' 1 (Some 255) 1]"

definition backup_destination :: "pyval \<Rightarrow> handler_error + string" where
  "backup_destination raw =
     (let s = text_of raw in
      rbind (guard (fullmatch DELL_OS10_IP_RE s) (param_invalid ''backup_destination must be a valid IPv4 address.'')) (\<lambda>_. Inr s))"

definition vlt_mac :: "pyval \<Rightarrow> string \<Rightarrow> handler_error + string" where
  "vlt_mac raw key =
     (let s = text_of raw in
      rbind (guard (s = [] \<or> fullmatch DELL_OS10_MAC_RE s)
        (param_invalid ''vlt_mac must be a valid MAC address (XX:XX:XX:XX:XX:XX).'')) (\<lambda>_. Inr s))"

definition dell_configure_vlt_domain :: "python_rt \<Rightarrow> exec_request \<Rightarrow> pydict \<Rightarrow> handler_error + pydict" where
  "dell_configure_vlt_domain rt rq ps = dell_steps rt rq ps
     [copy_int rt ps ''domain_id'' 1 (Some 255), copy_optional_int rt ps ''unit_id'' 1 (Some 2),
      copy_int_or rt ps ''primary_priority'' 1 (Some 65535) 32768, copy_int rt ps ''discovery_port_channel'' 1 (Some 4096),
      copy_valid backup_destination ps ''backup_destination'', copy_optional vlt_mac ps ''vlt_mac'', set_bool ps ''write_memory'' True]"

definition dell_configure_vlt_peer :: "python_rt \<Rightarrow> exec_request \<Rightarrow> pydict \<Rightarrow> handler_error + pydict" where
  "dell_configure_vlt_peer rt rq ps = dell_steps rt rq ps
     [copy_int rt ps ''port_channel_id'' 1 (Some 4096), copy_int rt ps ''vlt_port_channel_id'' 1 (Some 4096),
      copy_bool ps ''remove'' False, set_bool ps ''write_memory'' True]"

definition trunk_vlans :: "pyval \<Rightarrow> string \<Rightarrow> handler_error + string" where
  "trunk_vlans raw key =
     (let s = text_of raw in
      rbind (guard (s = [] \<or> fullmatch DELL_OS10_TRUNK_VLANS_RE s)
        (param_invalid ''trunk_vlans must be a comma-separated list of VLAN IDs or ranges (e.g. '20,111' or '10-20,100').'')) (\<lambda>_. Inr s))"

definition dell_configure_port_channel :: "python_rt \<Rightarrow> exec_request \<Rightarrow> pydict \<Rightarrow> handler_error + pydict" where
  "dell_configure_port_channel rt rq ps = dell_steps rt rq ps
     [copy_int rt ps ''port_channel_id'' 1 (Some 4096), copy_optional trunk_vlans ps ''trunk_vlans'',
      copy_optional_description rt ps, copy_bool ps ''remove'' False, set_bool ps ''write_memory'' True]"

definition lower_choice_or :: "string list \<Rightarrow> string \<Rightarrow> string \<Rightarrow> pyval \<Rightarrow> handler_error + string" where
  "lower_choice_or allowed dflt message raw =
     (let s = lower (strip (str_or raw dflt)) in rbind (guard (s \<in> set allowed) (param_invalid message)) (\<lambda>_. Inr s))"

definition dell_configure_interface_lacp :: "python_rt \<Rightarrow> exec_request \<Rightarrow> pydict \<Rightarrow> handler_error + pydict" where
  "dell_configure_interface_lacp rt rq ps = dell_steps rt rq ps
     [copy_valid interface_name ps ''interface_name'', copy_int rt ps ''port_channel_id'' 1 (Some 4096),
      copy_valid (lower_choice_or [''active'', ''passive'', ''on''] ''active'' ''lacp_mode must be 'active', 'passive', or 'on'.'') ps ''lacp_mode'',
      copy_optional_description rt ps, copy_bool ps ''remove'' False, set_bool ps ''write_memory'' False]"

definition full_text :: "regex \<Rightarrow> string \<Rightarrow> pyval \<Rightarrow> handler_error + string" where
  "full_text r message raw = (let s = text_of raw in rbind (guard (fullmatch r s) (param_invalid message)) (\<lambda>_. Inr s))"

definition dell_configure_interface_breakout :: "python_rt \<Rightarrow> exec_request \<Rightarrow> pydict \<Rightarrow> handler_error + pydict" where
  "dell_configure_interface_breakout rt rq ps = dell_steps rt rq ps
     [copy_valid (full_text DELL_OS10_BREAKOUT_PORT_RE ''interface_port must be in slot/port/subport format, e.g. '1/1/1'.'') ps ''interface_port'',
      copy_valid (full_text DELL_OS10_BREAKOUT_MODE_RE ''breakout_mode must be in Ng-Mx format, e.g. '40g-1x' or '10g-4x'.'') ps ''breakout_mode'',
      set_bool ps ''write_memory'' True]"

definition dell_configure_interface_fec :: "python_rt \<Rightarrow> exec_request \<Rightarrow> pydict \<Rightarrow> handler_error + pydict" where
  "dell_configure_interface_fec rt rq ps = dell_steps rt rq ps
     [copy_valid interface_name ps ''interface_name'',
      copy_valid (lower_choice_or [''cl91'', ''cl108'', ''auto'', ''none''] ''cl91'' ''fec_mode must be one of: cl91, cl108, auto, none.'') ps ''fec_mode'',
      set_bool ps ''write_memory'' True]"

definition cipher_suites :: "pyval \<Rightarrow> handler_error + string list" where
  "cipher_suites raw = (case py_or raw (VList []) of
       VList vs \<Rightarrow>
         (let ss = filter (\<lambda>s. s \<noteq> []) (map (\<lambda>v. strip (py_str v)) vs) in
          rbind (guard (length ss \<le> 12) (param_invalid ''cipher_suites may contain at most 12 entries.'')) (\<lambda>_. Inr ss))
     | _ \<Rightarrow> Inl (param_invalid ''cipher_suites must be a list of OS10 cipher suite names.''))"

definition normalize_dell_os10_bootstrap_execution :: "python_rt \<Rightarrow> exec_request \<Rightarrow> pydict \<Rightarrow> handler_error + pydict" where
  "normalize_dell_os10_bootstrap_execution rt rq ps =
     rbind (bool_param ps ''configure_user'' False) (\<lambda>configure_user.
     rbind (optional_int_range rt ps ''restconf_credential_pk'' 1 None) (\<lambda>restconf.
     rbind (guard (\<not> (configure_user \<and> restconf = None))
       (param_invalid ''restconf_credential_pk is required when configure_user is true.'')) (\<lambda>_.
     rbind (optional_int_range rt ps ''session_timeout'' 1 (Some 1440)) (\<lambda>session_timeout.
     rbind (cipher_suites (dget ps ''cipher_suites'')) (\<lambda>suites.
     (let certificate_name = text_of (dget ps ''certificate_name'') in
      rbind (guard (\<not> list_ex has_space_or_control (certificate_name # suites))
        (param_invalid ''Dell OS10 RESTCONF bootstrap parameters must not contain whitespace or control characters.'')) (\<lambda>_.
        rseq [copy_bool ps ''enable_ssh'' True, copy_bool ps ''enable_restconf'' True, copy_bool ps ''write_memory'' True,
          \<lambda>n. Inr (put_some ''restconf_credential_pk'' (map_option VInt restconf) n),
          \<lambda>n. Inr (put_text ''certificate_name'' certificate_name n),
          \<lambda>n. Inr (put_some ''session_timeout'' (map_option VInt session_timeout) n),
          \<lambda>n. Inr (if suites = [] then n else put_both ''cipher_suites'' (VList (map VStr suites)) n),
          copy_optional_credential_override rt ps]
          (put_both ''configure_user'' (VBool configure_user) (handler_payload rq (rq_target_display rq))))))))))"


section \<open>Huawei\<close>

definition huawei_start_ont :: "python_rt \<Rightarrow> exec_request \<Rightarrow> pydict \<Rightarrow> handler_error + pydict" where
  "huawei_start_ont rt rq ps = rseq
     [copy_int rt ps ''frame'' 0 None, copy_int rt ps ''slot'' 1 (Some 17), copy_int rt ps ''port'' 0 (Some 15),
      copy_int rt ps ''ont_id'' 0 (Some 127)] (handler_payload rq (rq_target_display rq))"

definition HUAWEI_NE8000_TARGET_RE :: regex where
  "HUAWEI_NE8000_TARGET_RE =
     Seq (CS (alnum_or [])) (optional (Seq (Rep 0 (Some 253) (CS (alnum_or ''_.:-''))) (CS (alnum_or []))))"

definition HUAWEI_NE8000_VRF_RE :: regex where
  "HUAWEI_NE8000_VRF_RE = Rep 1 (Some 31) (CS (alnum_or ''_.:-''))"

text \<open>What follows the code gate.\<close>

definition huawei_bgp_payload :: "exec_request \<Rightarrow> pydict \<Rightarrow> handler_error + pydict" where
  "huawei_bgp_payload rq ps =
     (let unknown = sort (map (take 64) (filter (\<lambda>k. k \<noteq> ''vrf'') (dict_keys ps)));
          target = strip (rq_target_display rq);
          object = VDict [(''content_type'', VStr ''dcim.device''), (''object_id'', VInt (rq_target_id rq))] in
      rbind (guard (unknown = [])
        (param_invalid (''Unknown Huawei NE8000 BGP param(s): '' @ join_with '', '' (take 8 unknown)
           @ (if 8 < length unknown then '', ...'' else []) @ ''.''))) (\<lambda>_.
      rbind (guard (rq_target_model_label rq = ''dcim.device'')
        (RPCExecutionError ''Huawei NE8000 BGP requires a dcim.device target.'' ''RPC_TARGET_INVALID'')) (\<lambda>_.
      rbind (guard (1 \<le> rq_target_id rq)
        (RPCExecutionError ''Huawei NE8000 BGP requires an existing assigned dcim.device.'' ''RPC_TARGET_INVALID'')) (\<lambda>_.
      rbind (guard (fullmatch HUAWEI_NE8000_TARGET_RE target)
        (RPCExecutionError (''Huawei NE8000 BGP target must be a 1-255 character device name using only letters, digits, ''
           @ '''.', '_', ':', or '-' and must start and end with a letter or digit.'') ''RPC_TARGET_INVALID'')) (\<lambda>_.
      (case (case map_of ps ''vrf'' of None \<Rightarrow> VStr [] | Some v \<Rightarrow> v) of
         VStr raw \<Rightarrow>
           rbind (guard (strip raw = raw) (param_invalid ''vrf must not contain leading or trailing whitespace.'')) (\<lambda>_.
           rbind (guard (raw = [] \<or> fullmatch HUAWEI_NE8000_VRF_RE raw)
             (param_invalid ''vrf must contain 1-31 letters, digits, '.', '_', ':', or '-'.'')) (\<lambda>_.
             Inr (put_all [(''target_object'', object), (''vrf'', VStr raw)] (handler_payload rq target))))
       | _ \<Rightarrow> Inl (param_invalid ''vrf must be a string.'')))))))"

definition normalize_huawei_ne8000_bgp_execution :: "exec_request \<Rightarrow> pydict \<Rightarrow> handler_error + pydict" where
  "normalize_huawei_ne8000_bgp_execution rq ps =
     (case code_gate_unavailable_reason (proc_name (rq_procedure rq)) of
        Some m \<Rightarrow> Inl (RPCExecutionError m ''RPC_PROCEDURE_NOT_AVAILABLE'')
      | None \<Rightarrow> huawei_bgp_payload rq ps)"


section \<open>Nginx and Pterodactyl\<close>

text \<open>The extra parameters precede the fingerprint and are not part of it.\<close>

definition normalize_nginx_node_execution :: "python_rt \<Rightarrow> exec_request \<Rightarrow> pydict \<Rightarrow> pydict \<Rightarrow> handler_error + pydict" where
  "normalize_nginx_node_execution rt rq ps extra =
     rbind (int_range rt ps ''node_id'' 1 None) (\<lambda>node_id.
       Inr (put_fp ''node_id'' (VInt node_id)
         (fold (\<lambda>(k, v). dict_set k v) extra (dict_set ''node_id'' (VInt node_id) (handler_payload rq (rq_target_display rq))))))"

definition nginx_deploy :: "python_rt \<Rightarrow> exec_request \<Rightarrow> pydict \<Rightarrow> handler_error + pydict" where
  "nginx_deploy rt rq ps =
     (let content = text_of (dget ps ''config_content''); path = text_of (dget ps ''config_path'') in
      rbind (guard (content \<noteq> []) (param_invalid ''config_content must be a non-empty string.'')) (\<lambda>_.
      rbind (int_range rt ps ''deployment_id'' 1 None) (\<lambda>deployment_id.
        normalize_nginx_node_execution rt rq ps ([(''config_content'', VStr content), (''deployment_id'', VInt deployment_id)]
          @ (if path = [] then [] else [(''config_path'', VStr path)])))))"

definition nginx_rollback :: "python_rt \<Rightarrow> exec_request \<Rightarrow> pydict \<Rightarrow> handler_error + pydict" where
  "nginx_rollback rt rq ps =
     rbind (int_range rt ps ''deployment_id'' 1 None) (\<lambda>deployment_id.
     (let previous = text_of (dget ps ''previous_config'') in
      rbind (guard (previous \<noteq> []) (param_invalid ''previous_config must be a non-empty string.'')) (\<lambda>_.
        normalize_nginx_node_execution rt rq ps [(''deployment_id'', VInt deployment_id), (''previous_config'', VStr previous)])))"

definition PTERODACTYL_CONTAINER_NAME_RE :: regex where
  "PTERODACTYL_CONTAINER_NAME_RE = Seq (CS (alnum_or [])) (Rep 0 (Some 127) (CS (alnum_or ''_.-'')))"

definition PTERODACTYL_ARTISAN_ALLOWLIST :: "string list" where
  "PTERODACTYL_ARTISAN_ALLOWLIST =
     [''cache:clear'', ''config:clear'', ''migrate'', ''queue:restart'', ''queue:status'', ''schedule:run'']"

definition container_name :: "pydict \<Rightarrow> handler_error + string" where
  "container_name ps =
     (let s = strip (str_or (dget ps ''container_name'') ''pterodactyl-panel-1'') in
      rbind (guard (fullmatch PTERODACTYL_CONTAINER_NAME_RE s) (param_invalid ''container_name contains invalid characters.'')) (\<lambda>_. Inr s))"

definition pterodactyl_bootstrap :: "exec_request \<Rightarrow> pydict \<Rightarrow> handler_error + pydict" where
  "pterodactyl_bootstrap rq ps =
     rbind (container_name ps) (\<lambda>s. Inr (dict_set ''container_name'' (VStr s) (handler_payload rq (rq_target_display rq))))"

definition pterodactyl_artisan :: "exec_request \<Rightarrow> pydict \<Rightarrow> handler_error + pydict" where
  "pterodactyl_artisan rq ps =
     (let command = text_of (dget ps ''command'') in
      rbind (guard (command \<in> set PTERODACTYL_ARTISAN_ALLOWLIST)
        (param_invalid (''command must be one of: '' @ join_with '', '' PTERODACTYL_ARTISAN_ALLOWLIST))) (\<lambda>_.
      rbind (container_name ps) (\<lambda>s.
        Inr (put_all [(''command'', VStr command), (''container_name'', VStr s)] (handler_payload rq (rq_target_display rq))))))"

text \<open>\<open>max(1, min(500, int(params.get("lines", 100))))\<close>.\<close>

definition log_lines :: "python_rt \<Rightarrow> pydict \<Rightarrow> handler_error + int" where
  "log_lines rt ps = rbind (raw_int_param rt ps ''lines'' 100) (\<lambda>i. Inr (max 1 (min 500 i)))"

definition pterodactyl_logs :: "python_rt \<Rightarrow> exec_request \<Rightarrow> pydict \<Rightarrow> handler_error + pydict" where
  "pterodactyl_logs rt rq ps =
     rbind (container_name ps) (\<lambda>s.
     rbind (log_lines rt ps) (\<lambda>i.
       Inr (put_all [(''container_name'', VStr s), (''lines'', VInt i)] (handler_payload rq (rq_target_display rq)))))"

definition normalize_pterodactyl_wings_service_execution ::
  "python_rt \<Rightarrow> exec_request \<Rightarrow> string \<Rightarrow> pydict \<Rightarrow> handler_error + pydict" where
  "normalize_pterodactyl_wings_service_execution rt rq action ps =
     copy_optional_ssh_overrides rt ps
       (put_all [(''service_name'', VStr ''wings.service''), (''action'', VStr action)] (handler_payload rq (rq_target_display rq)))"

definition wings_logs :: "python_rt \<Rightarrow> exec_request \<Rightarrow> pydict \<Rightarrow> handler_error + pydict" where
  "wings_logs rt rq ps =
     rbind (normalize_pterodactyl_wings_service_execution rt rq ''logs'' ps) (\<lambda>n.
     rbind (log_lines rt ps) (\<lambda>i. Inr (put_both ''lines'' (VInt i) n)))"


section \<open>Minecraft\<close>

definition MINECRAFT_SERVER_UUID_RE :: regex where
  "MINECRAFT_SERVER_UUID_RE =
     (let h = (\<lambda>k. Rep k (Some k) (CS is_hex)) in
      seqs [h 8, lit ''-'', h 4, lit ''-'', h 4, lit ''-'', h 4, lit ''-'', h 12, dollar])"

definition MINECRAFT_JAR_FILENAME_RE :: regex where
  "MINECRAFT_JAR_FILENAME_RE = seqs [plus1 (CS (alnum_or ''._-'')), lit ''.jar'', dollar]"

definition MINECRAFT_VERSION_RE :: regex where
  "MINECRAFT_VERSION_RE = Seq (Rep 1 (Some 64) (CS (alnum_or ''._+-''))) dollar"

definition MINECRAFT_VIAVERSION_PLUGINS :: "string list" where
  "MINECRAFT_VIAVERSION_PLUGINS = [''viaversion'', ''viabackwards'', ''viarewind'']"

definition MINECRAFT_VIAVERSION_PRESETS :: "(string \<times> string list) list" where
  "MINECRAFT_VIAVERSION_PRESETS =
     [(''minimal'', [''viaversion'']), (''standard'', [''viaversion'', ''viabackwards'']), (''full'', [''viaversion'', ''viabackwards'', ''viarewind''])]"

definition MINECRAFT_PAPERMC_PROJECTS :: "string list" where
  "MINECRAFT_PAPERMC_PROJECTS = [''paper'', ''folia'', ''velocity'']"

definition minecraft_server_uuid :: "pydict \<Rightarrow> handler_error + string" where
  "minecraft_server_uuid ps =
     (let s = text_of (dget ps ''server_uuid'') in
      rbind (guard (fullmatch MINECRAFT_SERVER_UUID_RE s) (param_invalid ''server_uuid must be a canonical UUID.'')) (\<lambda>_. Inr (lower s)))"

definition minecraft_jar_filename :: "pyval \<Rightarrow> string \<Rightarrow> handler_error + string" where
  "minecraft_jar_filename raw field =
     (let s = text_of raw in
      rbind (guard (fullmatch MINECRAFT_JAR_FILENAME_RE s \<and> \<not> contains s ''..'' \<and> CHR ''/'' \<notin> set s \<and> CHR 0x5C \<notin> set s)
        (param_invalid (field @ '' must be a safe .jar filename.''))) (\<lambda>_. Inr s))"

definition viaversion_plugins :: "pydict \<Rightarrow> handler_error + (string \<times> string list)" where
  "viaversion_plugins ps =
     (if truthy (dget ps ''plugins'') then
        (case dget ps ''plugins'' of
           VList vs \<Rightarrow>
             (let plugins = map (\<lambda>v. lower (strip (py_str v))) vs in
              rbind (guard (plugins \<noteq> [] \<and> length plugins \<le> 3 \<and> distinct plugins)
                (param_invalid ''plugins must contain one to three unique entries.'')) (\<lambda>_.
              rbind (guard (list_all (\<lambda>p. p \<in> set MINECRAFT_VIAVERSION_PLUGINS) plugins)
                (param_invalid ''plugins must be viaversion, viabackwards, and/or viarewind.'')) (\<lambda>_.
                Inr (''custom'', filter (\<lambda>p. p \<in> set plugins) MINECRAFT_VIAVERSION_PLUGINS))))
         | _ \<Rightarrow> Inl (param_invalid ''plugins must be a list.''))
      else
        (let preset = lower (strip (str_or (dget ps ''preset'') ''standard'')) in
         (case map_of MINECRAFT_VIAVERSION_PRESETS preset of
            None \<Rightarrow> Inl (param_invalid ''preset must be minimal, standard, or full.'')
          | Some plugins \<Rightarrow> Inr (preset, plugins))))"

definition normalize_minecraft_viaversion_install_execution :: "python_rt \<Rightarrow> exec_request \<Rightarrow> pydict \<Rightarrow> handler_error + pydict" where
  "normalize_minecraft_viaversion_install_execution rt rq ps =
     rbind (minecraft_server_uuid ps) (\<lambda>uuid.
     rbind (viaversion_plugins ps) (\<lambda>(preset, plugins).
     rbind (bool_param ps ''restart'' False) (\<lambda>restart.
       copy_optional_ssh_overrides rt ps
         (put_all [(''server_uuid'', VStr uuid), (''preset'', VStr preset), (''plugins'', VList (map VStr plugins)), (''restart'', VBool restart)]
           (handler_payload rq (rq_target_display rq))))))"

definition normalize_minecraft_papermc_install_execution :: "python_rt \<Rightarrow> exec_request \<Rightarrow> pydict \<Rightarrow> handler_error + pydict" where
  "normalize_minecraft_papermc_install_execution rt rq ps =
     rbind (minecraft_server_uuid ps) (\<lambda>uuid.
     rbind (choice_param MINECRAFT_PAPERMC_PROJECTS ''project must be paper, folia, or velocity.'' (dget ps ''project'')) (\<lambda>project.
     rbind (full_text MINECRAFT_VERSION_RE ''version must be a safe PaperMC version identifier.'' (dget ps ''version'')) (\<lambda>version.
     rbind (minecraft_jar_filename (py_or (dget ps ''server_jarfile'') (VStr ''server.jar'')) ''server_jarfile'') (\<lambda>jar.
     rbind (bool_param ps ''restart'' False) (\<lambda>restart.
       rseq [copy_optional_int rt ps ''build_id'' 1 None, copy_optional_ssh_overrides rt ps]
         (put_all [(''server_uuid'', VStr uuid), (''project'', VStr project), (''version'', VStr version), (''server_jarfile'', VStr jar),
            (''restart'', VBool restart)] (handler_payload rq (rq_target_display rq))))))))"


section \<open>Passbolt\<close>

definition PASSBOLT_SAFE_NAME_RE :: regex where
  "PASSBOLT_SAFE_NAME_RE = seqs [CS (alnum_or []), Rep 0 (Some 127) (CS (alnum_or ''_.-'')), dollar]"

definition PASSBOLT_DB_NAME_RE :: regex where
  "PASSBOLT_DB_NAME_RE = Seq (Rep 1 (Some 64) (CS (alnum_or ''_''))) dollar"

definition PASSBOLT_ENV_NAME_RE :: regex where
  "PASSBOLT_ENV_NAME_RE = seqs [CS (\<lambda>c. is_alpha c \<or> c = CHR ''_''), Rep 0 (Some 63) (CS (alnum_or ''_'')), dollar]"

definition PASSBOLT_PATH_SAFE_CHARS_RE :: regex where
  "PASSBOLT_PATH_SAFE_CHARS_RE = Seq (lit ''/'') (Rep 1 (Some 254) (CS (alnum_or ''._/-'')))"

definition PASSBOLT_BROAD_DIRS :: "string list" where
  "PASSBOLT_BROAD_DIRS = [''/'', ''/tmp'', ''/var/tmp'', ''/etc'']"

definition PASSBOLT_HOST_RE :: regex where
  "PASSBOLT_HOST_RE =
     (let label = Seq (CS (alnum_or [])) (optional (Seq (Rep 0 (Some 61) (CS (alnum_or ''-''))) (CS (alnum_or [])))) in
      seqs [label, star (Seq (lit ''.'') label), dollar])"

definition PASSBOLT_POSIX_USER_RE :: regex where
  "PASSBOLT_POSIX_USER_RE =
     seqs [CS (\<lambda>c. is_lower_alpha c \<or> c = CHR ''_''), Rep 0 (Some 31) (CS (\<lambda>c. is_lower_alpha c \<or> is_digit c \<or> c \<in> set ''_-'')), dollar]"

definition copy_required_ssh_overrides :: "python_rt \<Rightarrow> pydict \<Rightarrow> pydict \<Rightarrow> handler_error + pydict" where
  "copy_required_ssh_overrides rt ps n =
     rbind (copy_optional_ssh_overrides rt ps n) (\<lambda>m.
     rbind (guard (has_key m ''rpc_ssh_host'' \<and> has_key m ''rpc_ssh_credential_pk'')
       (param_invalid ''rpc_ssh_host and rpc_ssh_credential_pk are required.'')) (\<lambda>_.
     rbind (guard (fullmatch PASSBOLT_HOST_RE (py_str (dget m ''rpc_ssh_host'')))
       (param_invalid ''rpc_ssh_host must be a DNS name or IP address without shell metacharacters.'')) (\<lambda>_. Inr m)))"

datatype passbolt_kind = PContainer | PDbName | PEnv | PHost | PPosixUser

fun passbolt_validator :: "passbolt_kind \<Rightarrow> regex \<times> string" where
  "passbolt_validator PContainer = (PASSBOLT_SAFE_NAME_RE, ''must be a safe Docker container name'')"
| "passbolt_validator PDbName = (PASSBOLT_DB_NAME_RE, ''must contain only letters, digits, and _'')"
| "passbolt_validator PEnv = (PASSBOLT_ENV_NAME_RE, ''must be a valid environment variable name'')"
| "passbolt_validator PHost = (PASSBOLT_HOST_RE, ''must be a DNS name or IP address'')"
| "passbolt_validator PPosixUser = (PASSBOLT_POSIX_USER_RE, ''must be a POSIX username'')"

definition copy_passbolt_field :: "pydict \<Rightarrow> passbolt_kind \<Rightarrow> string \<Rightarrow> pydict \<Rightarrow> handler_error + pydict" where
  "copy_passbolt_field ps kind key n =
     (let s = text_of (dget ps key); (r, message) = passbolt_validator kind in
      rbind (guard (s \<noteq> []) (param_invalid (key @ '' is required.''))) (\<lambda>_.
      rbind (guard (fullmatch r s) (param_invalid (key @ '' '' @ message @ ''.''))) (\<lambda>_.
        Inr (put_both key (VStr s) n))))"

definition passbolt_path :: "string \<Rightarrow> posix_path" where
  "passbolt_path s = pure_path (CHR ''/'' # dropWhile (\<lambda>c. c = CHR ''/'') s)"

definition copy_passbolt_path :: "pydict \<Rightarrow> string option \<Rightarrow> string \<Rightarrow> pydict \<Rightarrow> handler_error + pydict" where
  "copy_passbolt_path ps dflt key n =
     (let s = strip (if given ps key then py_str (dget ps key) else (case dflt of None \<Rightarrow> [] | Some d \<Rightarrow> d)); path = passbolt_path s;
          unsafe = param_invalid (key @ '' must be an absolute safe path without traversal or shell metacharacters.'') in
      rbind (guard (s \<noteq> []) (param_invalid (key @ '' is required.''))) (\<lambda>_.
      rbind (guard (fullmatch PASSBOLT_PATH_SAFE_CHARS_RE s) unsafe) (\<lambda>_.
      rbind (guard (''..'' \<notin> set (path_parts path)) unsafe) (\<lambda>_.
      rbind (guard (\<not> list_ex (\<lambda>b. path = pure_path b \<or> is_relative_to (pure_path b) path) PASSBOLT_BROAD_DIRS)
        (param_invalid (key @ '' must not be a root or broad system directory.''))) (\<lambda>_.
        Inr (put_both key (VStr s) n))))))"

definition passbolt_remote_steps :: "python_rt \<Rightarrow> pydict \<Rightarrow> (pydict \<Rightarrow> handler_error + pydict) list" where
  "passbolt_remote_steps rt ps =
     [copy_passbolt_path ps None ''source_staging_dir'', copy_passbolt_field ps PHost ''target_host'',
      copy_passbolt_field ps PPosixUser ''target_ssh_user'', copy_int rt ps ''target_ssh_port'' 1 (Some 65535),
      copy_passbolt_path ps None ''target_staging_dir'']"

definition passbolt_steps :: "python_rt \<Rightarrow> string \<Rightarrow> pydict \<Rightarrow> (pydict \<Rightarrow> handler_error + pydict) list" where
  "passbolt_steps rt name ps =
     (if name = PASSBOLT_EXPORT_SECRETS then
        [copy_passbolt_field ps PContainer ''app_container_name'', copy_passbolt_field ps PContainer ''db_container_name'',
         copy_passbolt_field ps PDbName ''db_name'', copy_passbolt_field ps PHost ''db_host'', copy_int rt ps ''db_port'' 1 (Some 65535),
         copy_passbolt_field ps PEnv ''db_user_env'', copy_passbolt_field ps PEnv ''db_password_env'',
         copy_passbolt_path ps (Some ''/etc/passbolt/gpg'') ''gpg_dir'', copy_passbolt_path ps (Some ''/etc/passbolt/jwt'') ''jwt_dir'',
         copy_passbolt_path ps None ''staging_dir'']
      else if name = PASSBOLT_TRANSFER_SECRETS then passbolt_remote_steps rt ps
      else if name = PASSBOLT_IMPORT_SECRETS then
        [copy_passbolt_path ps None ''staging_dir'', copy_passbolt_field ps PDbName ''db_name'',
         copy_passbolt_path ps (Some ''/etc/passbolt/gpg'') ''gpg_dest_dir'', copy_passbolt_path ps (Some ''/etc/passbolt/jwt'') ''jwt_dest_dir'',
         copy_passbolt_path ps (Some ''/usr/share/php/passbolt/bin/cake'') ''cake_bin_path'']
      else if name = PASSBOLT_CLEANUP then passbolt_remote_steps rt ps
      else [\<lambda>_. Inl (param_invalid (''Procedure '' @ str_repr name @ '' is not a Passbolt migration procedure.''))])"

definition normalize_passbolt_migration_execution :: "python_rt \<Rightarrow> exec_request \<Rightarrow> pydict \<Rightarrow> handler_error + pydict" where
  "normalize_passbolt_migration_execution rt rq ps =
     rseq (copy_required_ssh_overrides rt ps # passbolt_steps rt (proc_name (rq_procedure rq)) ps)
       (procedure_payload rq (rq_target_display rq))"

end
