(* ===== verification/SshIdentity.thy ===== *)
theory SshIdentity
  imports Normalization IpAddress Base64 DateArith
begin

text \<open>
  The non-secret snapshot of the one SSH service of a target that an approval freezes
  (\<open>_resolve_locked_ssh_identity\<close> of \<open>domain/normalization.py\<close>): the enabled service of
  netbox-network, or the endpoint of netbox-openbao when there is none.

  The two plugins are not part of the repository: their queries are functions of \<open>ssh_tables\<close>,
  \<open>None\<close> when a plugin is not installed; a query that raises gives \<open>None\<close>. An attribute that
  a row lacks is \<^const>\<open>VNone\<close>.
\<close>

section \<open>Rows of other plugins\<close>

record ssh_credential =
  sc_revision :: pyval
  sc_username :: pyval
  sc_auth_method :: pyval
  sc_storage_backend :: pyval
  sc_password_encrypted :: pyval
  sc_private_key_encrypted :: pyval
  sc_passphrase_encrypted :: pyval

record device_service =
  ds_pk :: pyval
  ds_revision :: pyval
  ds_management_host :: pyval
  ds_port :: pyval
  ds_strict :: pyval
  ds_known_hosts_entry :: pyval
  ds_credential_id :: pyval
  ds_credential :: "ssh_credential option"

record openbao_credential =
  oc_pk :: pyval
  oc_revision :: pyval
  oc_status :: pyval
  oc_username :: pyval
  oc_credential_type :: pyval
  oc_uuid :: pyval
  oc_kv_version :: pyval
  oc_live_kv_version :: pyval

record service_endpoint =
  ep_pk :: pyval
  ep_revision :: pyval
  ep_options :: pyval
  ep_host :: pyval
  ep_strict :: pyval
  ep_known_hosts_entry :: pyval
  ep_credential :: "openbao_credential option"

record ssh_tables =
  st_services :: "(int \<Rightarrow> int \<Rightarrow> device_service list option) option"
  st_endpoints :: "(int \<Rightarrow> int \<Rightarrow> service_endpoint list option) option"

abbreviation target_invalid :: "string \<Rightarrow> handler_error" where
  "target_invalid m \<equiv> RPCExecutionError m ''RPC_TARGET_INVALID''"


section \<open>Revisions and keys\<close>

text \<open>\<open>revision.astimezone(UTC)\<close>; a naive value raises, and so does leaving the years 1 to 9999.\<close>

definition prev_day :: "datetime \<Rightarrow> datetime option" where
  "prev_day t =
     (if 1 < dt_day t then Some (t\<lparr>dt_day := dt_day t - 1\<rparr>)
      else if 1 < dt_month t then Some (t\<lparr>dt_month := dt_month t - 1, dt_day := days_in_month (dt_year t) (dt_month t - 1)\<rparr>)
      else if 1 < dt_year t then Some (t\<lparr>dt_year := dt_year t - 1, dt_month := 12, dt_day := 31\<rparr>)
      else None)"

definition set_seconds :: "nat \<Rightarrow> datetime \<Rightarrow> datetime" where
  "set_seconds s t = t\<lparr>dt_hour := s div 3600, dt_minute := s div 60 mod 60, dt_second := s mod 60\<rparr>"

definition to_utc :: "datetime \<Rightarrow> datetime option" where
  "to_utc t = (case dt_offset t of
       None \<Rightarrow> None
     | Some z \<Rightarrow> map_option (\<lambda>u. u\<lparr>dt_offset := Some 0\<rparr>)
         (if z \<le> 0 then dt_add_seconds (nat (- z)) t
          else if nat z \<le> seconds_of_day t then Some (set_seconds (seconds_of_day t - nat z) t)
          else Option.bind (prev_day t) (dt_add_seconds (nat (86400 - z)))))"

text \<open>The rendered value has at most 32 characters, so its length check never fails.\<close>

definition utc_text :: "datetime \<Rightarrow> string" where
  "utc_text t = (let s = isoformat t in if endswith s ''+00:00'' then take (length s - 6) s @ ''Z'' else s)"

definition revision_of :: "string \<Rightarrow> pyval \<Rightarrow> handler_error + string" where
  "revision_of what revision = (case revision of
       VTime t \<Rightarrow> (case to_utc t of
           None \<Rightarrow> Inl (target_invalid (what @ '' revision is invalid.''))
         | Some u \<Rightarrow> Inr (utc_text u))
     | _ \<Rightarrow> Inl (target_invalid (what @ '' requires a stable revision.'')))"

definition model_revision :: "pyval \<Rightarrow> string \<Rightarrow> handler_error + string" where
  "model_revision revision label = revision_of (''Production Gitea '' @ label) revision"

definition positive_model_pk :: "pyval \<Rightarrow> string \<Rightarrow> handler_error + int" where
  "positive_model_pk v label = (case v of
       VInt i \<Rightarrow> rbind (guard (0 < i) (target_invalid (''Production Gitea '' @ label @ '' requires a stable positive ID.''))) (\<lambda>_. Inr i)
     | _ \<Rightarrow> Inl (target_invalid (''Production Gitea '' @ label @ '' requires a stable positive ID.'')))"

text \<open>\<open>ip_address(str(value).split("/", 1)[0])\<close> as an IPv4 address.\<close>

definition ipv4_of :: "pyval \<Rightarrow> handler_error \<Rightarrow> handler_error \<Rightarrow> handler_error + string" where
  "ipv4_of v bad other = (case read_ip_address (takeWhile (\<lambda>c. c \<noteq> CHR ''/'') (py_str v)) of
       None \<Rightarrow> Inl bad
     | Some (IPv6 n) \<Rightarrow> Inl other
     | Some (IPv4 n) \<Rightarrow> Inr (ipv4_str n))"

definition ED25519_PREFIX :: string where
  "ED25519_PREFIX = [CHR 0x00, CHR 0x00, CHR 0x00, CHR 0x0B] @ ''ssh-ed25519'' @ [CHR 0x00, CHR 0x00, CHR 0x00, CHR 0x20]"

definition validate_locked_known_hosts_entry :: "string \<Rightarrow> string \<Rightarrow> handler_error + unit" where
  "validate_locked_known_hosts_entry entry expected_host =
     rbind (guard (entry \<noteq> [] \<and> entry = strip entry \<and> set entry \<inter> {CHR 0x0A, CHR 0x0D, CHR 0x09} = {} \<and> length entry \<le> 512)
       (target_invalid ''Runner registration SSH service requires one bounded host-key entry.'')) (\<lambda>_.
     (case split_on CHR '' '' entry of
        [host, algorithm, encoded_key] \<Rightarrow>
          rbind (guard (host \<noteq> [] \<and> algorithm \<noteq> [] \<and> encoded_key \<noteq> [])
            (target_invalid ''Runner registration known-hosts entry is malformed.'')) (\<lambda>_.
          rbind (guard (host = expected_host \<and> algorithm = ''ssh-ed25519'' \<and> length encoded_key \<le> 256)
            (target_invalid ''Runner registration known-hosts entry does not match the target.'')) (\<lambda>_.
          (case b64decode encoded_key of
             None \<Rightarrow> Inl (target_invalid ''Runner registration known-hosts key is malformed.'')
           | Some k \<Rightarrow> guard (length k = length ED25519_PREFIX + 32 \<and> startswith k ED25519_PREFIX)
               (target_invalid ''Runner registration known-hosts key is not an Ed25519 wire record.''))))
      | _ \<Rightarrow> Inl (target_invalid ''Runner registration known-hosts entry is malformed.'')))"

definition principal_ok :: "string \<Rightarrow> bool" where
  "principal_ok p \<longleftrightarrow> p \<noteq> [] \<and> p = strip p \<and> length p \<le> 200
     \<and> \<not> list_ex (\<lambda>c. (of_char c :: nat) < 32 \<or> (of_char c :: nat) = 127) p"


section \<open>The endpoint of netbox-openbao\<close>

definition openbao_ssh_method :: "string \<Rightarrow> handler_error + string" where
  "openbao_ssh_method credential_type =
     (if credential_type \<in> {''ssh-keypair'', ''ssh_key''} then Inr ''key''
      else if credential_type \<in> {''password'', ''ssh-password'', ''ssh_password''} then Inr ''password''
      else Inl (target_invalid ''Runner registration OpenBao SSH identity type is unsupported.''))"

definition openbao_ssh_host :: "service_endpoint \<Rightarrow> string \<Rightarrow> handler_error + (string \<times> string)" where
  "openbao_ssh_host service expected_host =
     (let entry = str_or (ep_known_hosts_entry service) [] in
      (case read_ip_address (str_or (ep_host service) []) of
         None \<Rightarrow> Inl (target_invalid ''Runner registration OpenBao SSH service has an invalid host.'')
       | Some a \<Rightarrow>
           rbind (guard ((case a of IPv4 n \<Rightarrow> ipv4_str n = expected_host | IPv6 n \<Rightarrow> False) \<and> ep_strict service = VBool True)
             (target_invalid ''Runner registration OpenBao SSH service does not match the locked host policy.'')) (\<lambda>_.
           rbind (validate_locked_known_hosts_entry entry expected_host) (\<lambda>_. Inr (expected_host, entry)))))"

definition openbao_ssh_identity_metadata :: "openbao_credential \<Rightarrow> handler_error + (string \<times> string \<times> string \<times> int)" where
  "openbao_ssh_identity_metadata identity =
     (let principal = str_or (oc_username identity) []; credential_type = str_or (oc_credential_type identity) [];
          uuid = str_or (oc_uuid identity) [] in
      rbind (guard (str_or (oc_status identity) [] = ''active'')
        (target_invalid ''Runner registration OpenBao SSH identity is not active.'')) (\<lambda>_.
      (case (if oc_live_kv_version identity \<noteq> VNone then oc_live_kv_version identity else oc_kv_version identity) of
         VInt kv \<Rightarrow>
           rbind (guard (0 \<le> kv) (target_invalid ''Runner registration OpenBao SSH identity has no current KV version.'')) (\<lambda>_.
           rbind (guard (principal_ok principal \<and> uuid \<noteq> [] \<and> length credential_type \<le> 64)
             (target_invalid ''Runner registration OpenBao SSH identity is invalid.'')) (\<lambda>_.
             Inr (principal, credential_type, uuid, kv)))
       | _ \<Rightarrow> Inl (target_invalid ''Runner registration OpenBao SSH identity has no current KV version.''))))"

definition endpoint_enabled :: "service_endpoint \<Rightarrow> bool" where
  "endpoint_enabled ep \<longleftrightarrow> (case ep_options ep of VDict d \<Rightarrow> dget d ''enabled'' \<noteq> VBool False | _ \<Rightarrow> True)"

definition openbao_snapshot ::
  "python_rt \<Rightarrow> service_endpoint \<Rightarrow> openbao_credential \<Rightarrow> string \<Rightarrow> string \<Rightarrow> handler_error + pydict" where
  "openbao_snapshot rt service identity expected_host policy_ref =
     rbind (openbao_ssh_identity_metadata identity) (\<lambda>(principal, credential_type, uuid, kv).
     rbind (openbao_ssh_host service expected_host) (\<lambda>(host, entry).
     rbind (positive_model_pk (ep_pk service) ''OpenBao SSH service'') (\<lambda>service_id.
     rbind (model_revision (ep_revision service) ''OpenBao SSH service'') (\<lambda>service_revision.
     rbind (positive_model_pk (oc_pk identity) ''OpenBao SSH identity'') (\<lambda>identity_id.
     rbind (model_revision (oc_revision identity) ''OpenBao SSH identity'') (\<lambda>identity_revision.
     rbind (openbao_ssh_method credential_type) (\<lambda>ssh_method.
       Inr [(''ssh_storage_backend'', VStr ''openbao''), (''ssh_service_id'', VInt service_id),
            (''ssh_service_revision'', VStr service_revision), (''ssh_identity_id'', VInt identity_id),
            (''ssh_identity_revision'', VStr identity_revision), (''ssh_credential_uuid'', VStr uuid),
            (''ssh_credential_type'', VStr credential_type), (''ssh_kv_version'', VInt kv), (''ssh_principal'', VStr principal),
            (''ssh_method'', VStr ssh_method), (''ssh_host'', VStr host), (''ssh_port'', VInt 22),
            (''ssh_known_hosts_sha256'', VStr (hash_text rt entry)), (''ssh_policy_ref'', VStr policy_ref)])))))))"

definition resolve_openbao_ssh_identity ::
  "python_rt \<Rightarrow> ssh_tables \<Rightarrow> int \<Rightarrow> int \<Rightarrow> string \<Rightarrow> string \<Rightarrow> handler_error + pydict option" where
  "resolve_openbao_ssh_identity rt tables type_id object_id expected_host policy_ref = (case st_endpoints tables of
       None \<Rightarrow> Inr None
     | Some query \<Rightarrow> (case query type_id object_id of
         None \<Rightarrow> Inl (target_invalid ''Runner registration OpenBao SSH policy could not be resolved.'')
       | Some [] \<Rightarrow> Inr None
       | Some eps \<Rightarrow> (case filter (\<lambda>ep. ep_credential ep \<noteq> None) (filter endpoint_enabled eps) of
           [service] \<Rightarrow> (case ep_credential service of
               None \<Rightarrow> Inr None
             | Some identity \<Rightarrow> rbind (openbao_snapshot rt service identity expected_host policy_ref) (\<lambda>d. Inr (Some d)))
         | _ \<Rightarrow> Inl (target_invalid ''Runner registration requires exactly one enabled credentialed OpenBao SSH service.''))))"


section \<open>The service of netbox-network\<close>

definition SUPPORTED_SSH_METHODS :: "string list" where
  "SUPPORTED_SSH_METHODS = [''password'', ''key'', ''key_with_passphrase'']"

definition require_locked_ssh_identity_material :: "ssh_credential \<Rightarrow> string \<Rightarrow> handler_error + unit" where
  "require_locked_ssh_identity_material identity ssh_method =
     guard (str_or (sc_storage_backend identity) ''local'' = ''local''
         \<and> (if ssh_method = ''password'' then truthy (sc_password_encrypted identity)
            else truthy (sc_private_key_encrypted identity)
              \<and> (ssh_method = ''key_with_passphrase'' \<longrightarrow> truthy (sc_passphrase_encrypted identity))))
       (target_invalid ''Runner registration SSH identity requires local revision-bound material.'')"

definition service_identity :: "device_service \<Rightarrow> handler_error + (ssh_credential \<times> int \<times> string \<times> string)" where
  "service_identity service = (case (ds_credential service, ds_credential_id service) of
       (Some identity, VInt identity_id) \<Rightarrow>
         (let principal = str_or (sc_username identity) []; ssh_method = str_or (sc_auth_method identity) [] in
          rbind (guard (0 < identity_id \<and> principal_ok principal \<and> ssh_method \<in> set SUPPORTED_SSH_METHODS)
            (target_invalid ''Runner registration SSH identity is invalid.'')) (\<lambda>_.
          rbind (require_locked_ssh_identity_material identity ssh_method) (\<lambda>_.
            Inr (identity, identity_id, principal, ssh_method))))
     | _ \<Rightarrow> Inl (target_invalid ''Runner registration SSH identity is invalid.''))"

definition build_local_ssh_snapshot :: "python_rt \<Rightarrow> device_service \<Rightarrow> string \<Rightarrow> string \<Rightarrow> handler_error + pydict" where
  "build_local_ssh_snapshot rt service expected_host policy_ref =
     (let entry = str_or (ds_known_hosts_entry service) [];
          wrong = target_invalid ''Runner registration SSH service does not match the locked host.'' in
      rbind (ipv4_of (ds_management_host service)
        (target_invalid ''Runner registration SSH service has an invalid management host.'') wrong) (\<lambda>host.
      rbind (guard (host = expected_host) wrong) (\<lambda>_.
      rbind (guard (ds_port service = VInt 22 \<and> ds_strict service = VBool True)
        (target_invalid ''Runner registration SSH service must use strict port 22 policy.'')) (\<lambda>_.
      rbind (validate_locked_known_hosts_entry entry expected_host) (\<lambda>_.
      rbind (service_identity service) (\<lambda>(identity, identity_id, principal, ssh_method).
      rbind (positive_model_pk (ds_pk service) ''SSH service'') (\<lambda>service_id.
      rbind (model_revision (ds_revision service) ''SSH service'') (\<lambda>service_revision.
      rbind (model_revision (sc_revision identity) ''SSH identity'') (\<lambda>identity_revision.
        Inr [(''ssh_service_id'', VInt service_id), (''ssh_service_revision'', VStr service_revision),
             (''ssh_identity_id'', VInt identity_id), (''ssh_identity_revision'', VStr identity_revision),
             (''ssh_storage_backend'', VStr ''local''), (''ssh_principal'', VStr principal), (''ssh_method'', VStr ssh_method),
             (''ssh_host'', VStr host), (''ssh_port'', VInt 22), (''ssh_known_hosts_sha256'', VStr (hash_text rt entry)),
             (''ssh_policy_ref'', VStr policy_ref)]))))))))) "

text \<open>At most two enabled services are fetched; every fetched row is enabled.\<close>

definition legacy_services :: "ssh_tables \<Rightarrow> int \<Rightarrow> int \<Rightarrow> handler_error + device_service list" where
  "legacy_services tables type_id object_id = (case st_services tables of
       None \<Rightarrow> Inr []
     | Some query \<Rightarrow> (case query type_id object_id of
         None \<Rightarrow> Inl (target_invalid ''Runner registration SSH policy could not be resolved.'')
       | Some rows \<Rightarrow> Inr (take 2 rows)))"

definition resolve_locked_ssh_identity ::
  "python_rt \<Rightarrow> ssh_tables \<Rightarrow> int \<Rightarrow> int \<Rightarrow> string \<Rightarrow> string \<Rightarrow> handler_error + pydict" where
  "resolve_locked_ssh_identity rt tables type_id object_id expected_host policy_ref =
     (let none = Inl (target_invalid ''Runner registration requires exactly one enabled target-owned SSH service.'') in
      rbind (guard (0 < type_id) (target_invalid ''Runner registration requires a concrete target content type.'')) (\<lambda>_.
      rbind (legacy_services tables type_id object_id) (\<lambda>rows.
      (case rows of
         [] \<Rightarrow> rbind (resolve_openbao_ssh_identity rt tables type_id object_id expected_host policy_ref) (\<lambda>snapshot.
             (case snapshot of Some d \<Rightarrow> Inr d | None \<Rightarrow> none))
       | [service] \<Rightarrow> build_local_ssh_snapshot rt service expected_host policy_ref
       | _ \<Rightarrow> none))))"

end
