(* ===== verification/BoundNormalization.thy ===== *)
theory BoundNormalization
  imports SshIdentity LinuxNormalization SecretPatterns
begin

text \<open>
  The normalizers of \<open>domain/normalization.py\<close> that bind an execution to one reviewed object:
  the token rotation and DNS deployment of the staging front door, the OpenBao importer and
  the release markers with their \<open>RPCTargetBinding\<close> rows, the release images, PBS, the RQ worker,
  the IAM user interface, the CI runners of Gitea and Akvorado.

  Parameters are an object, as admission stores them. The content type of a target is that of
  its label (\<open>RPCExecution.target_model_label\<close>).
\<close>

section \<open>The assigned object and its bindings\<close>

record bound_object =
  bo_pk :: pyval
  bo_name :: pyval
  bo_text :: string
  bo_status :: pyval
  bo_primary_ip4 :: pyval

record target_binding =
  tb_slug :: string
  tb_pk :: pyval
  tb_device_id :: pyval
  tb_last_updated :: pyval

text \<open>
  \<open>be_bindings\<close> is \<open>None\<close> when the query fails. \<open>be_schema_ok\<close> is \<open>jsonschema.validate\<close> with
  the normalized schema of an Akvorado procedure, \<open>be_yaml\<close> is \<open>yaml.safe_load\<close>.
\<close>

record binding_env =
  be_object :: "bound_object option"
  be_bindings :: "target_binding list option"
  be_ssh :: ssh_tables
  be_schema_ok :: "string \<Rightarrow> pydict \<Rightarrow> bool"
  be_yaml :: "string \<Rightarrow> pyval option"

definition assigned_is :: "binding_env \<Rightarrow> exec_request \<Rightarrow> (pyval \<Rightarrow> bool) \<Rightarrow> bool" where
  "assigned_is env rq named \<longleftrightarrow> 1 \<le> rq_target_id rq \<and>
     (case be_object env of None \<Rightarrow> False | Some bound \<Rightarrow> bo_pk bound = VInt (rq_target_id rq) \<and> named (bo_name bound))"

definition PLATFORM_PARAM_KEYS :: "string list" where
  "PLATFORM_PARAM_KEYS = [''_intent'', ''_intent_name'', ''_timeout_seconds_snapshot'']"

definition policy_ref_of :: "exec_request \<Rightarrow> string" where
  "policy_ref_of rq = ''target-owned-ssh:'' @ rq_target_model_label rq @ '':'' @ int_str (rq_target_id rq)"

definition primary_ipv4 :: "binding_env \<Rightarrow> string \<Rightarrow> handler_error + string" where
  "primary_ipv4 env message =
     ipv4_of (case be_object env of None \<Rightarrow> VNone | Some bound \<Rightarrow> bo_primary_ip4 bound) (target_invalid message) (target_invalid message)"

text \<open>The payload of a procedure that is bound to its device.\<close>

definition device_payload :: "python_rt \<Rightarrow> exec_request \<Rightarrow> string \<Rightarrow> pydict" where
  "device_payload rt rq target =
     [(''target'', VStr target), (''target_object'', target_object rq),
      (''command_fingerprint'', VDict
         [(''handler_id'', VStr (proc_handler_id (rq_procedure rq))), (''assigned_object_id'', VInt (rq_target_id rq)),
          (''target_object_sha256'', VStr (normalization_hash_json rt (target_object rq)))])]"


section \<open>The staging front door\<close>

definition normalize_staging_backend_token_rotation_execution ::
  "python_rt \<Rightarrow> binding_env \<Rightarrow> exec_request \<Rightarrow> pydict \<Rightarrow> handler_error + pydict" where
  "normalize_staging_backend_token_rotation_execution rt env rq ps =
     (let target = strip (rq_target_display rq); unexpected = unexpected_params ps PLATFORM_PARAM_KEYS in
      rbind (guard (rq_target_model_label rq = ''dcim.device'')
        (target_invalid ''Staging backend token rotation requires the nms-front-door device target.'')) (\<lambda>_.
      rbind (guard (target = ''nms-front-door'')
        (target_invalid ''Staging backend token rotation requires the nms-front-door target.'')) (\<lambda>_.
      rbind (guard (assigned_is env rq (\<lambda>v. v = VStr target))
        (target_invalid ''Staging backend token rotation requires the existing nms-front-door device.'')) (\<lambda>_.
      rbind (guard (unexpected = [])
        (param_invalid (''Staging backend token rotation accepts no caller parameters; unexpected field(s): ''
           @ join_with '', '' unexpected @ ''.''))) (\<lambda>_.
        Inr (put_fp ''target'' (VStr target) (device_payload rt rq target)))))))"

definition COMMIT_SHA_RE :: regex where
  "COMMIT_SHA_RE = Rep 40 (Some 40) (CS is_lower_hex)"

definition RPC_PRINCIPAL :: string where
  "RPC_PRINCIPAL = ''nms-proxy''"

definition commit_of :: "pydict \<Rightarrow> handler_error + string" where
  "commit_of ps =
     (let bad = Inl (param_invalid ''Staging DNS deployment requires only one lowercase 40-hex commit_sha.'') in
      if unexpected_params ps (''commit_sha'' # PLATFORM_PARAM_KEYS) \<noteq> [] then bad
      else (case dget ps ''commit_sha'' of
          VStr s \<Rightarrow> if fullmatch COMMIT_SHA_RE s then Inr s else bad
        | _ \<Rightarrow> bad))"

definition normalize_dns_staging_deploy_execution ::
  "python_rt \<Rightarrow> binding_env \<Rightarrow> exec_request \<Rightarrow> pydict \<Rightarrow> handler_error + pydict" where
  "normalize_dns_staging_deploy_execution rt env rq ps =
     (let target = strip (rq_target_display rq); policy_ref = policy_ref_of rq in
      rbind (guard (rq_target_model_label rq = ''dcim.device'')
        (target_invalid ''Staging DNS deployment requires the nms-front-door device target.'')) (\<lambda>_.
      rbind (guard (target = ''nms-front-door'') (target_invalid ''Staging DNS deployment requires the nms-front-door target.'')) (\<lambda>_.
      rbind (guard (assigned_is env rq (\<lambda>v. v = VStr target))
        (target_invalid ''Staging DNS deployment requires the existing nms-front-door device.'')) (\<lambda>_.
      rbind (commit_of ps) (\<lambda>commit_sha.
      rbind (primary_ipv4 env ''Staging DNS deployment requires one explicit primary IPv4 address.'') (\<lambda>host.
      rbind (resolve_locked_ssh_identity rt (be_ssh env) (rq_target_type_id rq) (rq_target_id rq) host policy_ref) (\<lambda>snapshot.
      rbind (guard (dget snapshot ''ssh_principal'' = VStr RPC_PRINCIPAL \<and> dget snapshot ''ssh_policy_ref'' = VStr policy_ref)
        (target_invalid ''Staging DNS deployment requires the dedicated nms-proxy SSH identity.'')) (\<lambda>_.
        Inr (put_all [(''commit_sha'', VStr commit_sha), (''ssh_policy_ref'', VStr policy_ref)]
          (put_fp ''ssh_snapshot_sha256'' (VStr (normalization_hash_json rt (VDict snapshot)))
            (dict_set ''ssh_snapshot'' (VDict snapshot)
              (put_fp ''target'' (VStr target) (device_payload rt rq target)))))))))))))"


section \<open>Procedures with a target binding\<close>

definition RPC_TARGET_BINDING_SLUG_NMULTICLOUD_DEPLOY_HOST :: string where
  "RPC_TARGET_BINDING_SLUG_NMULTICLOUD_DEPLOY_HOST = ''nmulticloud-deploy-host''"

definition OPENBAO_IMPORT_BINDING_SLUGS :: "(string \<times> string) list" where
  "OPENBAO_IMPORT_BINDING_SLUGS =
     [(''staging'', ''netbox-openbao-import-staging''), (''production'', ''netbox-openbao-import-production'')]"

definition rpc_target_binding_revision :: "pyval \<Rightarrow> string \<Rightarrow> handler_error + string" where
  "rpc_target_binding_revision revision slug = revision_of (''netbox-openbao import target binding '' @ str_repr slug) revision"

text \<open>
  The one resolution behind \<open>_openbao_import_target_binding\<close> and
  \<open>_release_marker_target_binding\<close>, with the texts of their messages.
\<close>

definition bound_id :: "pyval \<Rightarrow> handler_error \<Rightarrow> handler_error + int" where
  "bound_id v err = (case v of VInt i \<Rightarrow> rbind (guard (1 \<le> i) err) (\<lambda>_. Inr i) | _ \<Rightarrow> Inl err)"

definition resolve_target_binding ::
  "binding_env \<Rightarrow> string \<Rightarrow> string \<Rightarrow> string \<Rightarrow> string \<Rightarrow> handler_error + (int \<times> int \<times> string)" where
  "resolve_target_binding env slug unresolved absent label =
     (let who = label @ str_repr slug in
      (case be_bindings env of
         None \<Rightarrow> Inl (target_invalid (unresolved @ str_repr slug @ '' target binding.''))
       | Some rows \<Rightarrow> (case List.find (\<lambda>b. tb_slug b = slug) rows of
           None \<Rightarrow> Inl (target_invalid (absent @ str_repr slug @ ''.''))
         | Some b \<Rightarrow>
             rbind (bound_id (tb_device_id b) (target_invalid (who @ '' has no valid device.''))) (\<lambda>device_id.
             rbind (bound_id (tb_pk b) (target_invalid (who @ '' has no valid id.''))) (\<lambda>binding_id.
             rbind (rpc_target_binding_revision (tb_last_updated b) slug) (\<lambda>revision.
               Inr (device_id, binding_id, revision)))))))"

definition openbao_import_target_binding :: "binding_env \<Rightarrow> string \<Rightarrow> handler_error + (int \<times> int \<times> string)" where
  "openbao_import_target_binding env slug =
     resolve_target_binding env slug ''netbox-openbao import could not resolve the ''
       ''netbox-openbao import requires an RPCTargetBinding with slug '' ''netbox-openbao import target binding ''"

definition release_marker_target_binding :: "binding_env \<Rightarrow> handler_error + (int \<times> int \<times> string)" where
  "release_marker_target_binding env =
     resolve_target_binding env RPC_TARGET_BINDING_SLUG_NMULTICLOUD_DEPLOY_HOST ''the release-marker procedures could not resolve the ''
       ''the release-marker procedures require an RPCTargetBinding with slug '' ''release-marker target binding ''"

definition put_binding :: "int \<times> string \<Rightarrow> pydict \<Rightarrow> pydict" where
  "put_binding = (\<lambda>(binding_id, revision) n.
     put_fp ''target_binding_revision'' (VStr revision) (put_fp ''target_binding_id'' (VInt binding_id) n))"

definition normalize_openbao_import_execution :: "python_rt \<Rightarrow> binding_env \<Rightarrow> exec_request \<Rightarrow> pydict \<Rightarrow> handler_error + pydict" where
  "normalize_openbao_import_execution rt env rq ps =
     (let unexpected = unexpected_params ps (''environment'' # PLATFORM_PARAM_KEYS) in
      rbind (guard (rq_target_model_label rq = ''dcim.device'')
        (target_invalid ''The netbox-openbao credential importer requires a dcim.device target.'')) (\<lambda>_.
      rbind (guard (assigned_is env rq (\<lambda>_. True))
        (target_invalid ''The netbox-openbao credential importer requires an existing viewable dcim.device target.'')) (\<lambda>_.
      rbind (guard (unexpected = [])
        (param_invalid (''netbox-openbao import accepts only 'environment'; unexpected field(s): '' @ join_with '', '' unexpected @ ''.''))) (\<lambda>_.
      (case dget ps ''environment'' of
         VStr environment \<Rightarrow> (case map_of OPENBAO_IMPORT_BINDING_SLUGS environment of
             Some slug \<Rightarrow>
               rbind (openbao_import_target_binding env slug) (\<lambda>(device_id, binding).
               rbind (guard (rq_target_id rq = device_id)
                 (target_invalid (''netbox-openbao import environment '' @ str_repr environment
                    @ '' is bound to a different device; the execution target must equal the device on RPCTargetBinding slug '' @ str_repr slug @ ''.''))) (\<lambda>_.
                 Inr (put_binding binding (put_both ''environment'' (VStr environment) (device_payload rt rq (rq_target_display rq))))))
           | None \<Rightarrow> Inl (param_invalid ''netbox-openbao import requires environment in ('staging', 'production').''))
       | _ \<Rightarrow> Inl (param_invalid ''netbox-openbao import requires environment in ('staging', 'production').''))))))"

definition NMULTICLOUD_DEPLOY_RELEASE_MARKER_APPS :: "string list" where
  "NMULTICLOUD_DEPLOY_RELEASE_MARKER_APPS = [''nms-backend-staging'', ''nms-backend'']"

definition release_marker_app :: "pydict \<Rightarrow> handler_error + string" where
  "release_marker_app ps = (case dget ps ''app'' of
       VStr app \<Rightarrow> rbind (guard (app \<in> set NMULTICLOUD_DEPLOY_RELEASE_MARKER_APPS)
         (param_invalid ''release-marker procedures require app in ('nms-backend-staging', 'nms-backend').'')) (\<lambda>_. Inr app)
     | _ \<Rightarrow> Inl (param_invalid ''release-marker procedures require app in ('nms-backend-staging', 'nms-backend').''))"

definition normalize_release_marker_execution :: "python_rt \<Rightarrow> binding_env \<Rightarrow> exec_request \<Rightarrow> pydict \<Rightarrow> handler_error + pydict" where
  "normalize_release_marker_execution rt env rq ps =
     (let unexpected = unexpected_params ps [''app''] in
      rbind (guard (rq_target_model_label rq = ''dcim.device'')
        (target_invalid ''the release-marker procedures require a dcim.device target.'')) (\<lambda>_.
      rbind (guard (assigned_is env rq (\<lambda>_. True))
        (target_invalid ''the release-marker procedures require an existing viewable dcim.device target.'')) (\<lambda>_.
      rbind (guard (unexpected = [])
        (param_invalid (''release-marker procedures accept only 'app'; unexpected field(s): '' @ join_with '', '' unexpected @ ''.''))) (\<lambda>_.
      rbind (release_marker_app ps) (\<lambda>app.
      rbind (release_marker_target_binding env) (\<lambda>(device_id, binding).
      rbind (guard (rq_target_id rq = device_id)
        (target_invalid (''the release-marker procedures' execution target must equal the device on RPCTargetBinding slug ''
           @ str_repr RPC_TARGET_BINDING_SLUG_NMULTICLOUD_DEPLOY_HOST @ ''.''))) (\<lambda>_.
        Inr (put_binding binding (put_both ''app'' (VStr app) (device_payload rt rq (rq_target_display rq)))))))))))"

definition normalize_proxbox_api_release_images_execution ::
  "python_rt \<Rightarrow> binding_env \<Rightarrow> exec_request \<Rightarrow> pydict \<Rightarrow> handler_error + pydict" where
  "normalize_proxbox_api_release_images_execution rt env rq ps =
     rbind (guard (rq_target_model_label rq = ''dcim.device'')
       (target_invalid ''proxbox-api release-image procedures require a dcim.device target.'')) (\<lambda>_.
     rbind (guard (assigned_is env rq (\<lambda>v. v = VStr ''nmc-prod-207'') \<and> rq_target_display rq = ''nmc-prod-207'')
       (target_invalid ''proxbox-api release-image procedures require device nmc-prod-207.'')) (\<lambda>_.
     rbind (guard (unexpected_params ps [''_timeout_seconds_snapshot''] = [])
       (param_invalid ''proxbox-api release-image procedures accept only an empty object.'')) (\<lambda>_.
     rbind (release_marker_target_binding env) (\<lambda>(device_id, binding).
     rbind (guard (rq_target_id rq = device_id)
       (target_invalid (''proxbox-api release-image target must equal the device on RPCTargetBinding slug ''
          @ str_repr RPC_TARGET_BINDING_SLUG_NMULTICLOUD_DEPLOY_HOST @ ''.''))) (\<lambda>_.
       Inr (put_binding binding (device_payload rt rq (rq_target_display rq))))))))"


section \<open>PBS\<close>

definition normalize_pbs_execution :: "binding_env \<Rightarrow> exec_request \<Rightarrow> pydict \<Rightarrow> handler_error + pydict" where
  "normalize_pbs_execution env rq ps =
     (let public = filter (\<lambda>(k, v). \<not> startswith k ''_'') ps;
          allowed = (if proc_name (rq_procedure rq) = PBS_1_DATASTORE_FROM_DISK then [''name'', ''disk'', ''filesystem'', ''disk_identity''] else []) in
      rbind (gate_check rq) (\<lambda>_.
      rbind (guard (rq_target_model_label rq \<in> {''dcim.device'', ''virtualization.virtualmachine''}
          \<and> assigned_is env rq (\<lambda>v. v = VStr (rq_target_display rq)))
        (target_invalid ''PBS procedures require one existing device or virtual machine target.'')) (\<lambda>_.
      rbind (guard (set (dict_keys public) = set allowed) (param_invalid ''PBS procedure parameters do not match the closed contract.'')) (\<lambda>_.
        Inr (put_all public (put_both ''target_object'' (target_object rq) (procedure_payload rq (rq_target_display rq))))))))"


section \<open>The production device\<close>

definition TARGET_NAME :: string where
  "TARGET_NAME = ''nmc-prod-207''"

definition TARGET_OBJECT_ID :: int where
  "TARGET_OBJECT_ID = 44"

definition production_object :: pyval where
  "production_object = VDict [(''content_type'', VStr ''dcim.device''), (''object_id'', VInt TARGET_OBJECT_ID)]"

definition is_production_device :: "binding_env \<Rightarrow> exec_request \<Rightarrow> bool" where
  "is_production_device env rq \<longleftrightarrow> rq_target_model_label rq = ''dcim.device'' \<and> rq_target_id rq = TARGET_OBJECT_ID
     \<and> assigned_is env rq (\<lambda>v. v = VStr TARGET_NAME) \<and> rq_target_display rq = TARGET_NAME"

definition const_schema :: "pyval \<Rightarrow> pyval" where
  "const_schema v = VDict [(''const'', v)]"

definition object_schema :: "(string \<times> pyval) list \<Rightarrow> pyval" where
  "object_schema props =
     VDict [(''type'', VStr ''object''), (''required'', VList (map (VStr \<circ> fst) props)), (''additionalProperties'', VBool False),
       (''properties'', VDict props)]"

definition target_object_schema :: pyval where
  "target_object_schema =
     object_schema [(''content_type'', const_schema (VStr ''dcim.device'')), (''object_id'', const_schema (VInt TARGET_OBJECT_ID))]"

definition normalized_params_schema :: "(string \<times> pyval) list \<Rightarrow> string \<Rightarrow> pyval" where
  "normalized_params_schema extra handler_id =
     object_schema [(''target'', const_schema (VStr TARGET_NAME)), (''target_object'', target_object_schema),
       (''command_fingerprint'', object_schema ([(''handler_id'', const_schema (VStr handler_id)), (''procedure'', const_schema (VStr handler_id)),
          (''target_object'', target_object_schema)] @ extra))]"

definition normalize_netbox_production_rq_worker_execution ::
  "python_rt \<Rightarrow> binding_env \<Rightarrow> exec_request \<Rightarrow> pydict \<Rightarrow> handler_error + pydict" where
  "normalize_netbox_production_rq_worker_execution rt env rq ps =
     (let name = proc_name (rq_procedure rq);
          n = put_both ''target_object'' production_object (procedure_payload rq TARGET_NAME) in
      rbind (guard (is_production_device env rq)
        (target_invalid ''NetBox RQ worker procedures require device nmc-prod-207 (id 44).'')) (\<lambda>_.
      rbind (guard (unexpected_params ps [''_timeout_seconds_snapshot''] = [])
        (param_invalid ''NetBox RQ worker procedures accept only an empty object.'')) (\<lambda>_.
      rbind (guard (name \<in> set NETBOX_PRODUCTION_RQ_WORKER_PROCEDURE_NAMES \<and> rt_schema rt (normalized_params_schema [] name) (VDict n))
        (RPCExecutionError ''NetBox RQ worker normalized contract validation failed.'' ''RPC_NORMALIZED_CONTRACT_INVALID'')) (\<lambda>_. Inr n))))"

definition HELPER :: string where
  "HELPER = ''/opt/nmulticloud/deploy/keycloak/bin/iam-ui-control''"

definition iam_argv_sha256 :: "python_rt \<Rightarrow> string \<Rightarrow> pyval" where
  "iam_argv_sha256 rt name =
     (let pre = ''service.keycloak.iam_ui.''; mode = (if startswith name pre then drop (length pre) name else name) in
      VStr (normalization_hash_json rt (VList [VStr ''sudo'', VStr ''-n'', VStr HELPER, VStr mode])))"

definition normalize_iam_ui_execution :: "python_rt \<Rightarrow> binding_env \<Rightarrow> exec_request \<Rightarrow> pydict \<Rightarrow> handler_error + pydict" where
  "normalize_iam_ui_execution rt env rq ps =
     (let name = proc_name (rq_procedure rq); argv = iam_argv_sha256 rt name;
          n = put_fp ''argv_sha256'' argv (put_both ''target_object'' production_object (procedure_payload rq (rq_target_display rq))) in
      rbind (guard (is_production_device env rq) (target_invalid ''IAM UI control requires device nmc-prod-207 (id 44).'')) (\<lambda>_.
      rbind (guard (unexpected_params ps [''_timeout_seconds_snapshot''] = [])
        (param_invalid ''IAM UI control accepts only an empty object.'')) (\<lambda>_.
      rbind (guard (name \<in> set KEYCLOAK_IAM_UI_PROCEDURE_NAMES
          \<and> rt_schema rt (normalized_params_schema [(''argv_sha256'', const_schema argv)] name) (VDict n))
        (RPCExecutionError ''IAM UI normalized contract is invalid.'' ''RPC_NORMALIZED_CONTRACT_INVALID'')) (\<lambda>_. Inr n))))"


section \<open>Runners of Gitea\<close>

definition runner_object :: "int \<Rightarrow> pyval" where
  "runner_object i = VDict [(''content_type'', VStr ''virtualization.virtualmachine''), (''object_id'', VInt i)]"

definition runner_policy_ref :: "int \<Rightarrow> string" where
  "runner_policy_ref i = ''target-owned-ssh:virtualization.virtualmachine:'' @ int_str i"

definition is_runner :: "binding_env \<Rightarrow> exec_request \<Rightarrow> int \<Rightarrow> bool" where
  "is_runner env rq i \<longleftrightarrow> rq_target_model_label rq = ''virtualization.virtualmachine'' \<and> rq_target_id rq = i
     \<and> (case be_object env of None \<Rightarrow> False | Some bound \<Rightarrow> bo_pk bound = VInt i \<and> bo_name bound = VStr ''Gitea-Runner'')
     \<and> rq_target_display rq = ''Gitea-Runner''"

definition runner_active :: "binding_env \<Rightarrow> bool" where
  "runner_active env \<longleftrightarrow> (case be_object env of None \<Rightarrow> False | Some bound \<Rightarrow> lower (str_or (bo_status bound) []) = ''active'')"

definition validate_gitea_docker_runner_target :: "binding_env \<Rightarrow> exec_request \<Rightarrow> string \<Rightarrow> handler_error + string" where
  "validate_gitea_docker_runner_target env rq lane =
     rbind (guard (is_runner env rq 604)
       (target_invalid (''Gitea '' @ lane @ '' CI runner operations require the exact dedicated runner VM.''))) (\<lambda>_.
     rbind (guard (runner_active env) (target_invalid (''Gitea '' @ lane @ '' CI runner target must be active.''))) (\<lambda>_.
       primary_ipv4 env (''Gitea '' @ lane @ '' CI runner target requires one canonical primary IPv4 address.'')))"

definition normalize_gitea_docker_runner_execution ::
  "python_rt \<Rightarrow> binding_env \<Rightarrow> exec_request \<Rightarrow> pydict \<Rightarrow> handler_error + pydict" where
  "normalize_gitea_docker_runner_execution rt env rq ps =
     (let lane = (if proc_name (rq_procedure rq) \<in> set GITEA_USER_CI_RUNNER_PROCEDURE_NAMES then ''user'' else ''organization'') in
      rbind (guard (unexpected_params ps PLATFORM_PARAM_KEYS = [])
        (param_invalid (''Gitea '' @ lane @ '' CI runner operations accept no caller parameters.''))) (\<lambda>_.
      rbind (guard (\<not> truthy (rq_credential_references rq))
        (param_invalid (''Gitea '' @ lane @ '' CI runner credentials are resolved from the assigned target.''))) (\<lambda>_.
      rbind (validate_gitea_docker_runner_target env rq lane) (\<lambda>host.
      rbind (resolve_locked_ssh_identity rt (be_ssh env) (rq_target_type_id rq) 604 host (runner_policy_ref 604)) (\<lambda>snapshot.
        Inr [(''ssh_snapshot'', VDict snapshot), (''ssh_policy_ref'', VStr (runner_policy_ref 604)),
             (''command_fingerprint'', VDict
                [(''handler_id'', VStr (proc_handler_id (rq_procedure rq))), (''assigned_object_id'', VInt 604),
                 (''target_object_sha256'', VStr (normalization_hash_json rt (runner_object 604))),
                 (''ssh_snapshot_sha256'', VStr (normalization_hash_json rt (VDict snapshot))),
                 (''ssh_policy_ref'', VStr (runner_policy_ref 604))])])))))"

definition TARGET_IPV4_ADDRESS :: string where
  "TARGET_IPV4_ADDRESS = ''10.0.30.241''"

definition validate_gitea_org_ci_runner_target :: "binding_env \<Rightarrow> exec_request \<Rightarrow> handler_error + unit" where
  "validate_gitea_org_ci_runner_target env rq =
     rbind (guard (is_runner env rq 416)
       (target_invalid ''Gitea org CI runner provisioning requires the exact dedicated runner VM.'')) (\<lambda>_.
     rbind (ipv4_of (case be_object env of None \<Rightarrow> VNone | Some bound \<Rightarrow> bo_primary_ip4 bound)
       (target_invalid ''Gitea org CI runner target primary_ip4 is invalid.'')
       (target_invalid ''Gitea org CI runner target primary_ip4 does not match reviewed policy.'')) (\<lambda>host.
     rbind (guard (host = TARGET_IPV4_ADDRESS)
       (target_invalid ''Gitea org CI runner target primary_ip4 does not match reviewed policy.'')) (\<lambda>_.
       guard (runner_active env) (target_invalid ''Gitea org CI runner target must be active.''))))"

definition HOST_GENERATION_SHA256 :: string where
  "HOST_GENERATION_SHA256 = ''11fc017aff23a9572db7b4a2d38cba895dcba50bfd600a2127dfad7bfcb778b5''"

definition PROVE_HELPER_SHA256 :: string where
  "PROVE_HELPER_SHA256 = ''43e47fe535e4497624cc423097bf7a386aedbbd10fde2ae90c72c280005aa0a7''"

definition PROVISION_HELPER_SHA256 :: string where
  "PROVISION_HELPER_SHA256 = ''a977c99a33ab26ae4beb0b8c71848d3ed116daf821a4088caa29a31ea8979216''"

definition BUILD_SANDBOX_SHA256 :: string where
  "BUILD_SANDBOX_SHA256 = ''2e644e715af33b73a91e517f6b5b59f76e0c0c2461576a9f87f522a3603f18ec''"

definition TARGET_SSH_PRINCIPAL :: string where
  "TARGET_SSH_PRINCIPAL = ''nms-runner-bootstrap''"

definition pair_role :: "string \<Rightarrow> string \<times> pyval" where
  "pair_role role =
     (let user = ''nmc-rpc-release-'' @ role in
      (role, VDict [(''runner_name'', VStr (''ci-release-'' @ role @ ''-netbox-rpc-backend'')), (''label'', VStr (''release-'' @ role)),
         (''service_user'', VStr user), (''service_name'', VStr (user @ ''.service'')), (''workspace_root'', VStr (''/var/lib/'' @ user @ ''/work'')),
         (''state_root'', VStr (''/var/lib/'' @ user)), (''cache_root'', VStr (''/var/cache/'' @ user)),
         (''config_path'', VStr (''/etc/nmc-protected-publication/'' @ role @ ''.yaml'')),
         (''package_mutation'', VStr (if role = ''publisher'' then ''broker-socket-only'' else ''none''))]))"

definition PAIR_CONTRACT :: "python_rt \<Rightarrow> pyval" where
  "PAIR_CONTRACT rt =
     (let helper = (\<lambda>path digest. VDict [(''path'', VStr path), (''sha256'', VStr digest)]) in
      VDict [(''schema_version'', VInt 1),
        (''target'', VDict [(''name'', VStr ''Gitea-Runner''), (''model'', VStr ''virtualization.virtualmachine''), (''object_id'', VInt 416),
           (''object_sha256'', VStr (normalization_hash_json rt (runner_object 416))), (''ssh_principal'', VStr TARGET_SSH_PRINCIPAL),
           (''ssh_policy_ref'', VStr (runner_policy_ref 416)), (''ssh_host'', VStr TARGET_IPV4_ADDRESS)]),
        (''scope'', VDict [(''type'', VStr ''organization''), (''owner'', VStr ''N-MultiCloud'')]),
        (''helpers'', VDict [(''prove'', helper ''/usr/local/libexec/nms/prove-protected-publication-pair'' PROVE_HELPER_SHA256),
           (''provision'', helper ''/usr/local/libexec/nms/provision-protected-publication-pair'' PROVISION_HELPER_SHA256),
           (''build_sandbox'', helper ''/usr/local/bin/nmulticloud-release-build-sandbox'' BUILD_SANDBOX_SHA256)]),
        (''host_generation_sha256'', VStr HOST_GENERATION_SHA256),
        (''runtime_inventory_sha256'', VStr ''0398104f4485b623c10a9e236a53b4e950c9b03ba4101aa6cc5d33b7679ebd4e''),
        (''runner_binary_sha256'', VStr ''7cc722a0de44af661d299c0b86eeee03231f993effa517718e48a45c2c188ef1''),
        (''roles'', VDict (map pair_role [''builder'', ''publisher'', ''validator''])),
        (''separation'', VDict [(''all_identities_distinct'', VBool True), (''validator_build_authority_absent'', VBool True),
           (''validator_publisher_socket_absent'', VBool True)]),
        (''publication_broker'', VDict [(''path'', VStr ''/run/nmc-release-control/publish.sock''),
           (''sha256'', VStr ''452b1a3b61413509e9f2de07a0d603961dfb06e3564f28eb7c9029b8d1fee153''),
           (''policy_sha256'', VStr ''75844eb1293ae8ebc06d2d2ef76c16604901a1b6825a8cea30ea664273ecac40'')]),
        (''activation_policy'', VStr ''default-dark-explicit-operator-enable''),
        (''publication_credential_boundary'', VStr ''root-broker-only''),
        (''publication_activation_policy'', VStr ''never-edit-publication-runner-json'')])"

definition normalize_gitea_protected_publication_pair_execution ::
  "python_rt \<Rightarrow> binding_env \<Rightarrow> exec_request \<Rightarrow> pydict \<Rightarrow> handler_error + pydict" where
  "normalize_gitea_protected_publication_pair_execution rt env rq ps =
     (let name = proc_name (rq_procedure rq); policy_ref = runner_policy_ref 416 in
      rbind (guard (name \<in> set GITEA_PROTECTED_PUBLICATION_PAIR_PROCEDURE_NAMES \<and> unexpected_params ps PLATFORM_PARAM_KEYS = [])
        (param_invalid ''Protected publication-pair procedures accept no caller parameters.'')) (\<lambda>_.
      rbind (guard (\<not> truthy (rq_credential_references rq))
        (param_invalid (''Protected publication-pair runners are credential-free; publication ''
           @ ''authority remains behind the independently reauthorizing root broker.''))) (\<lambda>_.
      rbind (validate_gitea_org_ci_runner_target env rq) (\<lambda>_.
      rbind (resolve_locked_ssh_identity rt (be_ssh env) (rq_target_type_id rq) 416 TARGET_IPV4_ADDRESS policy_ref) (\<lambda>snapshot.
      rbind (guard (dget snapshot ''ssh_principal'' = VStr TARGET_SSH_PRINCIPAL)
        (target_invalid ''Protected publication-pair SSH principal does not match reviewed policy.'')) (\<lambda>_.
        Inr [(''target'', VStr ''Gitea-Runner''), (''target_object'', runner_object 416), (''ssh_snapshot'', VDict snapshot),
             (''ssh_policy_ref'', VStr policy_ref),
             (''command_fingerprint'', VDict
                [(''handler_id'', VStr (proc_handler_id (rq_procedure rq))), (''procedure'', VStr name), (''assigned_object_id'', VInt 416),
                 (''target_object_sha256'', VStr (normalization_hash_json rt (runner_object 416))),
                 (''ssh_snapshot_sha256'', VStr (normalization_hash_json rt (VDict snapshot))), (''ssh_policy_ref'', VStr policy_ref),
                 (''pair_contract_sha256'', VStr (normalization_hash_json rt (PAIR_CONTRACT rt))),
                 (''host_generation_sha256'', VStr HOST_GENERATION_SHA256), (''provision_helper_sha256'', VStr PROVISION_HELPER_SHA256),
                 (''prove_helper_sha256'', VStr PROVE_HELPER_SHA256), (''build_sandbox_sha256'', VStr BUILD_SANDBOX_SHA256)])]))))))"

end
