(* ===== verification/InfluxNormalization.thy ===== *)
theory InfluxNormalization
  imports Normalization SecretPatterns
begin

text \<open>
  The normalizers of the InfluxDB families in \<open>domain/normalization.py\<close>: the typed
  \<open>service.influxdb.1.*\<close> procedures of OSS 2 and Core 3, and the Debian 13 installer of
  InfluxDB 3 Core, whose code gate is closed at this commit.
\<close>

section \<open>InfluxDB OSS 2 and Core 3\<close>

definition INFLUXDB_FAMILIES :: "string list" where
  "INFLUXDB_FAMILIES = [''oss2'', ''core3'']"

definition INFLUXDB_FILE_SCOPES :: "string list" where
  "INFLUXDB_FILE_SCOPES = [''managed'', ''plugins'']"

definition INFLUXDB_SERVICE_ACTIONS :: "string list" where
  "INFLUXDB_SERVICE_ACTIONS = [''start'', ''stop'', ''restart'', ''enable'', ''disable'']"

definition INFLUXDB_RELATIVE_PATH_RE :: regex where
  "INFLUXDB_RELATIVE_PATH_RE =
     (let name = Seq (CS (alnum_or [])) (star (CS (alnum_or ''._@+-''))) in
      seqs [NotLook (seqs [star dot, alts [text_start, lit ''/''], lit ''..'', alts [lit ''/'', dollar]]),
        name, Rep 0 (Some 7) (Seq (lit ''/'') name), lit ''.'',
        alts (map lit [''conf'', ''toml'', ''json'', ''yaml'', ''yml'', ''py'', ''txt'', ''crt'', ''pem'']), dollar])"

definition INFLUXDB_SNAPSHOT_ID_RE :: regex where
  "INFLUXDB_SNAPSHOT_ID_RE = seqs [Rep 8 (Some 8) (CS is_digit), lit ''T'', Rep 12 (Some 12) (CS is_digit), lit ''Z'', dollar]"

definition INFLUXDB_MAX_CONTENT_LEN :: nat where
  "INFLUXDB_MAX_CONTENT_LEN = 1024 * 1024"

definition INFLUXDB_FORBIDDEN_PATH_PART_RE :: regex where
  "INFLUXDB_FORBIDDEN_PATH_PART_RE = alts (map ilit [''secret'', ''token'', ''password'', ''private''])"

definition influx_quote_opt :: regex where
  "influx_quote_opt = optional (oneof [DQ, SQ])"

definition INFLUXDB_SECRET_ASSIGNMENT_RE :: regex where
  "INFLUXDB_SECRET_ASSIGNMENT_RE =
     (let key = star (CS (alnum_or ''_.-'')); sep = optional (oneof ''-_'') in
      seqs [alts [LineStart, Seq (oneof '',{'') (star space_class), Seq (lit ''-'') (plus1 space_class)],
        influx_quote_opt, key,
        alts [ilit ''token'', ilit ''password'', ilit ''passphrase'', ilit ''secret'', ilit ''authorization'',
          seqs [ilit ''api'', sep, ilit ''key''], seqs [ilit ''access'', sep, ilit ''key''],
          seqs [ilit ''private'', sep, ilit ''key''], ilit ''credential''],
        key, influx_quote_opt, star space_class, oneof '':='', star space_class, influx_quote_opt,
        NotLook (lit ''/''), plus1 (CS (\<lambda>c. \<not> is_space c \<and> c \<noteq> DQ \<and> c \<noteq> SQ))])"

definition INFLUXDB_PRIVATE_KEY_RE :: regex where
  "INFLUXDB_PRIVATE_KEY_RE =
     seqs [lit ''-----BEGIN '', star (CS (\<lambda>c. is_upper_alpha c \<or> c = CHR '' '')), lit ''PRIVATE KEY-----'']"

definition INFLUXDB_AUTHORIZATION_RE :: regex where
  "INFLUXDB_AUTHORIZATION_RE =
     seqs [WordBoundary, alts [ilit ''authorization'', ilit ''bearer''], star space_class, oneof '':='', star space_class,
       influx_quote_opt, plus1 (CS (\<lambda>c. \<not> is_space c \<and> c \<noteq> DQ \<and> c \<noteq> SQ))]"

definition INFLUXDB_URL_CREDENTIAL_RE :: regex where
  "INFLUXDB_URL_CREDENTIAL_RE =
     seqs [WordBoundary, CS is_alpha, star (CS (alnum_or ''+.-'')), lit ''://'',
       plus1 (CS (\<lambda>c. \<not> is_space c \<and> c \<notin> set ''/:@'')), lit '':'', plus1 (CS (\<lambda>c. \<not> is_space c \<and> c \<notin> set ''/@'')), lit ''@'']"

definition INFLUXDB_RESOURCE_NAME_RE :: regex where
  "INFLUXDB_RESOURCE_NAME_RE = seqs [CS (alnum_or []), Rep 0 (Some 127) (CS (alnum_or ''.-'')), dollar]"

definition INFLUXDB_USERNAME_RE :: regex where
  "INFLUXDB_USERNAME_RE = seqs [CS (alnum_or []), Rep 0 (Some 63) (CS (alnum_or ''._@-'')), dollar]"

definition INFLUXDB_SECRET_NAME_RE :: regex where
  "INFLUXDB_SECRET_NAME_RE = seqs [CS (alnum_or []), Rep 0 (Some 159) (CS (alnum_or ''._ -'')), dollar]"

definition hex_run :: "nat \<Rightarrow> regex" where
  "hex_run k = Rep k (Some k) (CS is_hex)"

definition INFLUXDB_SECRET_REF_RE :: regex where
  "INFLUXDB_SECRET_REF_RE =
     seqs [lit ''nms-secret:'', hex_run 8, lit ''-'', hex_run 4, lit ''-'', oneof ''12345'', hex_run 3, lit ''-'',
       oneof ''89abAB'', hex_run 3, lit ''-'', hex_run 12, dollar]"

definition copy_influxdb_admin_ref :: "pydict \<Rightarrow> pydict \<Rightarrow> handler_error + pydict" where
  "copy_influxdb_admin_ref ps n =
     (let s = text_of (dget ps ''admin_secret_ref'') in
      rbind (guard (fullmatch INFLUXDB_SECRET_REF_RE s)
        (param_invalid ''admin_secret_ref must be an nms-secret UUID reference.'')) (\<lambda>_.
        Inr (put_both ''admin_secret_ref'' (VStr s) n)))"

definition copy_influxdb_tenant_id :: "python_rt \<Rightarrow> pydict \<Rightarrow> pydict \<Rightarrow> handler_error + pydict" where
  "copy_influxdb_tenant_id rt ps = copy_optional_int rt ps ''tenant_id'' 1 None"

definition copy_influxdb_retention :: "python_rt \<Rightarrow> pydict \<Rightarrow> pydict \<Rightarrow> handler_error + pydict" where
  "copy_influxdb_retention rt ps = copy_optional_int rt ps ''retention_seconds'' 3600 (Some 315360000)"

definition normalize_influxdb_relative_path :: "pyval \<Rightarrow> handler_error + string" where
  "normalize_influxdb_relative_path raw =
     (let s = text_of raw; pure = pure_path s in
      rbind (guard (fullmatch INFLUXDB_RELATIVE_PATH_RE s)
        (param_invalid ''relative_path must be a confined supported InfluxDB file path.'')) (\<lambda>_.
      rbind (guard (\<not> is_absolute pure \<and> list_all (\<lambda>part. part \<notin> {[], ''.'', ''..''}) (path_parts pure))
        (param_invalid ''relative_path must stay beneath its selected InfluxDB scope.'')) (\<lambda>_.
      rbind (guard (\<not> list_ex (rx_found INFLUXDB_FORBIDDEN_PATH_PART_RE) (path_parts pure))
        (param_invalid ''relative_path must not identify secret, token, password, private, or env files.'')) (\<lambda>_.
        Inr (path_str pure)))))"

definition normalize_influxdb_content :: "pyval \<Rightarrow> string \<Rightarrow> handler_error + string" where
  "normalize_influxdb_content raw field =
     (let content = str_or raw [] in
      rbind (guard (strip content \<noteq> []) (param_invalid (field @ '' must be a non-empty string.''))) (\<lambda>_.
      rbind (guard (CHR 0x00 \<notin> set content) (param_invalid (field @ '' must not contain NUL bytes.''))) (\<lambda>_.
      rbind (guard (length content \<le> INFLUXDB_MAX_CONTENT_LEN)
        (param_invalid (field @ '' may contain at most '' @ nat_str INFLUXDB_MAX_CONTENT_LEN @ '' characters.''))) (\<lambda>_.
      rbind (guard (\<not> list_ex (\<lambda>r. rx_found r content)
            [INFLUXDB_PRIVATE_KEY_RE, INFLUXDB_SECRET_ASSIGNMENT_RE, INFLUXDB_AUTHORIZATION_RE, INFLUXDB_URL_CREDENTIAL_RE])
        (RPCExecutionError (field @ '' contains secret-shaped material; use netbox-nms secret references instead.'')
           ''RPC_PARAM_SECRET_FORBIDDEN'')) (\<lambda>_. Inr content)))))"

abbreviation influx :: "string \<Rightarrow> string" where
  "influx s \<equiv> ''service.influxdb.1.'' @ s"

definition INFLUXDB_1_PROCEDURE_NAMES :: "string list" where
  "INFLUXDB_1_PROCEDURE_NAMES = map (\<lambda>s. influx s)
     [''inspect'', ''config_read'', ''files_list'', ''file_read'', ''service_status'', ''health'', ''journal'', ''config_deploy'',
      ''config_rollback'', ''file_write'', ''file_delete'', ''service_control'', ''bootstrap'', ''database_create'', ''token_create'']"

definition copy_named :: "regex \<Rightarrow> pydict \<Rightarrow> string \<Rightarrow> pydict \<Rightarrow> handler_error + pydict" where
  "copy_named r ps k = copy_valid (pattern_param r k) ps k"

definition influx_file :: "pydict \<Rightarrow> pydict \<Rightarrow> handler_error + pydict" where
  "influx_file ps n =
     rbind (choice_param INFLUXDB_FILE_SCOPES ''scope must be 'managed' or 'plugins'.'' (dget ps ''scope'')) (\<lambda>scope.
     rbind (guard (scope = ''plugins'' \<longrightarrow> dget n ''family'' = VStr ''core3'')
       (param_invalid ''scope='plugins' is supported only for family='core3'.'')) (\<lambda>_.
     rbind (normalize_influxdb_relative_path (dget ps ''relative_path'')) (\<lambda>path.
       Inr (put_both ''relative_path'' (VStr path) (put_both ''scope'' (VStr scope) n)))))"

definition influx_content :: "python_rt \<Rightarrow> pydict \<Rightarrow> string \<Rightarrow> pydict \<Rightarrow> handler_error + pydict" where
  "influx_content rt ps k n =
     rbind (normalize_influxdb_content (dget ps k) k) (\<lambda>s.
       Inr (put_fp (k @ ''_bytes'') (VInt (utf8_size s)) (put_hashed rt k s n)))"

definition influx_mode :: "pydict \<Rightarrow> pydict \<Rightarrow> handler_error + pydict" where
  "influx_mode ps n =
     (let mode = strip (str_or (dget ps ''mode'') ''0640'') in
      rbind (guard (mode \<in> {''0640'', ''0644''}) (param_invalid ''mode must be '0640' or '0644'.'')) (\<lambda>_.
        Inr (put_both ''mode'' (VStr mode) n)))"

definition influx_snapshot :: "pydict \<Rightarrow> pydict \<Rightarrow> handler_error + pydict" where
  "influx_snapshot ps n =
     (let s = text_of (dget ps ''snapshot_id'') in
      rbind (guard (fullmatch INFLUXDB_SNAPSHOT_ID_RE s)
        (param_invalid ''snapshot_id must be a backend-issued UTC snapshot identifier.'')) (\<lambda>_.
        Inr (put_both ''snapshot_id'' (VStr s) n)))"

definition influx_journal :: "python_rt \<Rightarrow> pydict \<Rightarrow> pydict \<Rightarrow> handler_error + pydict" where
  "influx_journal rt ps n =
     rbind (optional_int_range rt ps ''lines'' 1 (Some 500)) (\<lambda>i.
       Inr (put_both ''lines'' (VInt (case i of None \<Rightarrow> 100 | Some j \<Rightarrow> j)) n))"

definition influx_bootstrap :: "python_rt \<Rightarrow> pydict \<Rightarrow> pydict \<Rightarrow> handler_error + pydict" where
  "influx_bootstrap rt ps = rseq
     [copy_named INFLUXDB_SECRET_NAME_RE ps ''secret_name_prefix'',
      copy_influxdb_tenant_id rt ps,
      \<lambda>n. if dget n ''family'' = VStr ''oss2'' then rseq
            [copy_named INFLUXDB_USERNAME_RE ps ''username'',
             copy_named INFLUXDB_RESOURCE_NAME_RE ps ''organization'',
             copy_named INFLUXDB_RESOURCE_NAME_RE ps ''database'',
             copy_influxdb_retention rt ps] n
          else rbind (guard (\<not> list_ex (given ps) [''username'', ''organization'', ''database'', ''retention_seconds''])
            (param_invalid ''Core 3 bootstrap accepts only family, secret_name_prefix, and optional tenant_id.'')) (\<lambda>_. Inr n)]"

definition influx_database :: "python_rt \<Rightarrow> pydict \<Rightarrow> pydict \<Rightarrow> handler_error + pydict" where
  "influx_database rt ps = rseq
     [copy_influxdb_admin_ref ps,
      copy_named INFLUXDB_RESOURCE_NAME_RE ps ''database'',
      copy_influxdb_retention rt ps,
      \<lambda>n. if dget n ''family'' = VStr ''oss2'' then copy_named INFLUXDB_RESOURCE_NAME_RE ps ''organization'' n
          else rbind (guard (\<not> given ps ''organization'')
            (param_invalid ''organization is supported only for family='oss2'.'')) (\<lambda>_. Inr n)]"

definition influx_token_name :: "pydict \<Rightarrow> pydict \<Rightarrow> handler_error + pydict" where
  "influx_token_name ps n =
     rbind (pattern_param INFLUXDB_SECRET_NAME_RE ''token_name'' (dget ps ''token_name'')) (\<lambda>token_name.
     (let access = lower (text_of (dget ps ''access'')) in
      rbind (guard (dget n ''family'' = VStr ''oss2'' \<longrightarrow> access \<in> {''query'', ''writer''})
        (param_invalid ''OSS 2 token access must be 'query' or 'writer'.'')) (\<lambda>_.
      rbind (guard (dget n ''family'' = VStr ''core3'' \<longrightarrow> access = ''admin'')
        (param_invalid ''Core 3 currently supports only named admin tokens.'')) (\<lambda>_.
        Inr (put_both ''access'' (VStr access) (put_both ''token_name'' (VStr token_name) n))))))"

definition influx_token :: "python_rt \<Rightarrow> pydict \<Rightarrow> pydict \<Rightarrow> handler_error + pydict" where
  "influx_token rt ps = rseq
     [copy_influxdb_admin_ref ps,
      influx_token_name ps,
      copy_influxdb_tenant_id rt ps,
      \<lambda>n. if dget n ''family'' = VStr ''oss2'' then rseq
            [copy_named INFLUXDB_RESOURCE_NAME_RE ps ''organization'',
             copy_named INFLUXDB_RESOURCE_NAME_RE ps ''database'',
             \<lambda>m. rbind (guard (dget ps ''expiry_seconds'' = VNone)
               (param_invalid ''expiry_seconds is supported only for Core 3 named admin tokens.'')) (\<lambda>_. Inr m)] n
          else rbind (guard (\<not> list_ex (given ps) [''organization'', ''database''])
            (param_invalid ''Core 3 named admin tokens are server-wide and do not accept organization/database.'')) (\<lambda>_.
              copy_optional_int rt ps ''expiry_seconds'' 3600 (Some 315360000) n)]"

definition influxdb_1_steps :: "python_rt \<Rightarrow> string \<Rightarrow> pydict \<Rightarrow> (pydict \<Rightarrow> handler_error + pydict) list" where
  "influxdb_1_steps rt name ps =
     [\<lambda>n. if name = influx ''inspect'' then Inr n
          else copy_valid (choice_param INFLUXDB_FAMILIES ''family must be 'oss2' or 'core3'.'') ps ''family'' n,
      when_in name [influx ''file_read'', influx ''file_write'', influx ''file_delete''] (influx_file ps),
      when_in name [influx ''config_deploy'', influx ''file_write'']
        (influx_content rt ps (if name = influx ''config_deploy'' then ''config_content'' else ''content'')),
      when_in name [influx ''file_write''] (influx_mode ps),
      when_in name [influx ''config_rollback''] (influx_snapshot ps),
      when_in name [influx ''journal''] (influx_journal rt ps),
      when_in name [influx ''service_control'']
        (copy_valid (choice_param INFLUXDB_SERVICE_ACTIONS ''action must be start, stop, restart, enable, or disable.'') ps ''action''),
      when_in name [influx ''bootstrap''] (influx_bootstrap rt ps),
      when_in name [influx ''database_create''] (influx_database rt ps),
      when_in name [influx ''token_create''] (influx_token rt ps),
      copy_optional_ssh_overrides rt ps]"

definition normalize_influxdb_1_execution :: "python_rt \<Rightarrow> exec_request \<Rightarrow> pydict \<Rightarrow> handler_error + pydict" where
  "normalize_influxdb_1_execution rt rq ps =
     rseq (influxdb_1_steps rt (proc_name (rq_procedure rq)) ps) (procedure_payload rq (rq_target_display rq))"


section \<open>InfluxDB 3 Core on Debian 13\<close>

definition INFLUXDB3_ABSOLUTE_PATH_RE :: regex where
  "INFLUXDB3_ABSOLUTE_PATH_RE =
     (let name = Seq (lit ''/'') (plus1 (CS (alnum_or ''._-''))) in seqs [name, star name, dollar])"

definition INFLUXDB3_NODE_ID_RE :: regex where
  "INFLUXDB3_NODE_ID_RE =
     seqs [plus1 (CS (alnum_or [])), optional (Seq (star (CS (alnum_or ''-''))) (CS (alnum_or []))), dollar]"

definition INFLUXDB3_BIND_RE :: regex where
  "INFLUXDB3_BIND_RE =
     seqs [CS (alnum_or []), Rep 0 (Some 252) (CS (alnum_or ''.-'')), lit '':'', Rep 1 (Some 5) (CS is_digit), dollar]"

definition INFLUXDB3_WAL_FLUSH_INTERVAL_RE :: regex where
  "INFLUXDB3_WAL_FLUSH_INTERVAL_RE = seqs [Rep 1 (Some 9) (CS is_digit), alts [lit ''ms'', lit ''s''], dollar]"

definition INFLUXDB3_LOG_FILTER_RE :: regex where
  "INFLUXDB3_LOG_FILTER_RE = Seq (Rep 1 (Some 128) (CS (alnum_or ''_=,.-''))) dollar"

definition INFLUXDB3_PACKAGE_VERSION_RE :: regex where
  "INFLUXDB3_PACKAGE_VERSION_RE = Seq (Rep 1 (Some 64) (CS (alnum_or ''.+:~_-''))) dollar"

definition INFLUXDB3_FORBIDDEN_DATA_DIR_ROOTS :: "string list" where
  "INFLUXDB3_FORBIDDEN_DATA_DIR_ROOTS = [''/home'', ''/root'', ''/run'', ''/tmp'', ''/var/tmp'']"

definition INFLUXDB3_LOOPBACK_BIND_HOSTS :: "string list" where
  "INFLUXDB3_LOOPBACK_BIND_HOSTS = [''127.0.0.1'', ''localhost'']"

definition INFLUXDB3_TARGET_MODEL_LABELS :: "string list" where
  "INFLUXDB3_TARGET_MODEL_LABELS = [''dcim.device'', ''virtualization.virtualmachine'']"

definition INFLUXDB3_BOOLEAN_PARAM_DEFAULTS :: "(string \<times> bool) list" where
  "INFLUXDB3_BOOLEAN_PARAM_DEFAULTS =
     [(''enable_plugins'', False), (''disable_telemetry'', True), (''hold_package'', True), (''upgrade_package'', False),
      (''force_reconfigure'', False), (''allow_plaintext_remote'', False)]"

definition INFLUXDB3_INSTALL_STRING_PARAMS :: "string list" where
  "INFLUXDB3_INSTALL_STRING_PARAMS =
     [''node_id'', ''data_dir'', ''http_bind'', ''tls_cert'', ''tls_key'', ''wal_flush_interval'', ''log_filter'', ''package_version'']"

definition INFLUXDB3_FORBIDDEN_SSH_OVERRIDE_PARAMS :: "string list" where
  "INFLUXDB3_FORBIDDEN_SSH_OVERRIDE_PARAMS =
     [''rpc_ssh_credential_pk'', ''rpc_ssh_host'', ''rpc_ssh_port'', ''rpc_ssh_known_hosts_entry'', ''rpc_ssh_strict_host_key_checking'']"

definition INFLUXDB3_INTERNAL_PARAM_KEYS :: "string list" where
  "INFLUXDB3_INTERNAL_PARAM_KEYS = [''_intent'', ''_intent_name'', ''_timeout_seconds_snapshot'']"

text \<open>\<open>posixpath.normpath\<close>.\<close>

definition norm_component :: "bool \<Rightarrow> string list \<Rightarrow> string \<Rightarrow> string list" where
  "norm_component rooted comps c =
     (if c = [] \<or> c = ''.'' then comps
      else if c \<noteq> ''..'' \<or> (\<not> rooted \<and> comps = []) \<or> (comps \<noteq> [] \<and> last comps = ''..'') then comps @ [c]
      else butlast comps)"

definition normpath :: "string \<Rightarrow> string" where
  "normpath s =
     (let root = (if \<not> prefix ''/'' s then [] else if prefix ''//'' s \<and> \<not> prefix ''///'' s then ''//'' else ''/'');
          r = root @ join_with ''/'' (foldl (norm_component (root \<noteq> [])) [] (split_on CHR ''/'' s))
      in if r = [] then ''.'' else r)"

definition influxdb3_absolute_path :: "string \<Rightarrow> pyval \<Rightarrow> handler_error + string" where
  "influxdb3_absolute_path field raw =
     (let s = text_of raw in
      rbind (guard (fullmatch INFLUXDB3_ABSOLUTE_PATH_RE s)
        (param_invalid (field @ '' must be a safe absolute path without whitespace.''))) (\<lambda>_.
      rbind (guard (length s \<le> 255) (param_invalid (field @ '' may contain at most 255 characters.''))) (\<lambda>_.
      rbind (guard (list_all (\<lambda>g. g \<notin> {[], ''.'', ''..''}) (tl (split_on CHR ''/'' s)))
        (param_invalid (field @ '' must be canonical: '.' and '..' segments are rejected.''))) (\<lambda>_.
      rbind (guard (normpath s = s)
        (param_invalid (field @ '' must already be a canonical absolute path.''))) (\<lambda>_. Inr s)))))"

definition influxdb3_data_dir :: "pyval \<Rightarrow> handler_error + string" where
  "influxdb3_data_dir raw =
     rbind (influxdb3_absolute_path ''data_dir'' raw) (\<lambda>d.
     rbind (guard (list_all (\<lambda>r. d \<noteq> r \<and> \<not> startswith d (r @ ''/'')) INFLUXDB3_FORBIDDEN_DATA_DIR_ROOTS)
       (param_invalid (''data_dir must not be under /home, /root, /run, /tmp, or /var/tmp: ''
          @ ''the packaged systemd unit sandboxes those trees.''))) (\<lambda>_. Inr d))"

definition influxdb3_node_id :: "pyval \<Rightarrow> handler_error + string" where
  "influxdb3_node_id raw =
     rbind (pattern_param INFLUXDB3_NODE_ID_RE ''node_id'' raw) (\<lambda>s.
     rbind (guard (length s \<le> 128) (param_invalid ''node_id may contain at most 128 characters.'')) (\<lambda>_. Inr s))"

definition influxdb3_target :: "exec_request \<Rightarrow> handler_error + unit" where
  "influxdb3_target rq =
     rbind (guard (rq_target_model_label rq \<in> set INFLUXDB3_TARGET_MODEL_LABELS)
       (RPCExecutionError (''Debian 13 InfluxDB 3 Core procedures require a dcim.device or ''
          @ ''virtualization.virtualmachine target.'') ''RPC_TARGET_INVALID'')) (\<lambda>_.
     guard (1 \<le> rq_target_id rq)
       (RPCExecutionError (''Debian 13 InfluxDB 3 Core procedures require an existing assigned ''
          @ ''dcim.device or virtualization.virtualmachine.'') ''RPC_TARGET_INVALID''))"

definition influxdb3_payload :: "exec_request \<Rightarrow> pydict" where
  "influxdb3_payload rq =
     [(''target'', VStr (rq_target_display rq)), (''target_object'', target_object rq),
      (''command_fingerprint'', VDict
         [(''handler_id'', VStr (proc_handler_id (rq_procedure rq))), (''procedure'', VStr (proc_name (rq_procedure rq))),
          (''target_content_type'', VStr (rq_target_model_label rq)), (''target_object_id'', VInt (rq_target_id rq))])]"

definition influxdb3_allowed :: "string \<Rightarrow> handler_error + string list" where
  "influxdb3_allowed name =
     (if name = INFLUXDB3_DEBIAN13_PREFLIGHT then Inr [''tls_cert'', ''tls_key'']
      else if name = INFLUXDB3_DEBIAN13_INSTALL then Inr (INFLUXDB3_INSTALL_STRING_PARAMS @ map fst INFLUXDB3_BOOLEAN_PARAM_DEFAULTS)
      else Inl (RPCExecutionError (''Procedure '' @ str_repr name @ '' has no NetBox normalizer.'') ''RPC_PROCEDURE_NOT_NORMALIZABLE''))"

definition influxdb3_tls :: "pydict \<Rightarrow> pydict \<Rightarrow> handler_error + pydict" where
  "influxdb3_tls ps n =
     rbind (guard (given ps ''tls_cert'' = given ps ''tls_key'')
       (param_invalid ''tls_cert and tls_key must be supplied together, or neither.'')) (\<lambda>_.
     rbind (if given ps ''tls_cert'' then rseq
         [copy_valid (influxdb3_absolute_path ''tls_cert'') ps ''tls_cert'', copy_valid (influxdb3_absolute_path ''tls_key'') ps ''tls_key''] n
       else Inr n) (\<lambda>m.
       Inr (put_both ''tls_enabled'' (VBool (given ps ''tls_cert'')) m)))"

text \<open>The host of the listener; the pattern has one colon, before the port.\<close>

definition influxdb3_bind :: "pydict \<Rightarrow> pydict \<Rightarrow> handler_error + (string \<times> pydict)" where
  "influxdb3_bind ps n =
     (if \<not> given ps ''http_bind'' then Inr (''127.0.0.1'', n)
      else (let s = text_of (dget ps ''http_bind'');
                host = takeWhile (\<lambda>c. c \<noteq> CHR '':'') s; port = str_nat (tl (dropWhile (\<lambda>c. c \<noteq> CHR '':'') s)) in
        rbind (guard (fullmatch INFLUXDB3_BIND_RE s)
          (param_invalid ''http_bind must use hostname-or-IPv4:port syntax, for example 127.0.0.1:8181.'')) (\<lambda>_.
        rbind (guard (1 \<le> port \<and> port \<le> 65535)
          (RPCExecutionError ''http_bind port must be between 1 and 65535.'' ''RPC_PARAM_OUT_OF_RANGE'')) (\<lambda>_.
          Inr (host, put_both ''http_bind'' (VStr (host @ '':'' @ nat_str port)) n)))))"

definition influxdb3_remote :: "pydict \<Rightarrow> pydict \<Rightarrow> handler_error + pydict" where
  "influxdb3_remote ps n =
     rbind (influxdb3_bind ps n) (\<lambda>(host, m).
     (let remote = (host \<notin> set INFLUXDB3_LOOPBACK_BIND_HOSTS) in
      rbind (guard (\<not> (remote \<and> dget m ''tls_enabled'' \<noteq> VBool True \<and> dget m ''allow_plaintext_remote'' \<noteq> VBool True))
        (param_invalid (''Refusing to expose token authentication over plaintext HTTP: supply tls_cert and tls_key, keep http_bind on ''
           @ ''loopback behind a TLS reverse proxy, or set allow_plaintext_remote=true for a trusted, firewalled network.''))) (\<lambda>_.
        Inr (put_both ''remote_bind'' (VBool remote) m))))"

text \<open>What follows the code gate.\<close>

definition influxdb3_normalized :: "exec_request \<Rightarrow> pydict \<Rightarrow> handler_error + pydict" where
  "influxdb3_normalized rq ps =
     (let name = proc_name (rq_procedure rq); overrides = supplied_overrides ps INFLUXDB3_FORBIDDEN_SSH_OVERRIDE_PARAMS in
      rbind (influxdb3_target rq) (\<lambda>_.
      rbind (guard (overrides = [])
        (param_invalid (''Caller-supplied SSH overrides are not accepted for '' @ name @ '': '' @ join_with '', '' overrides
           @ ''. The execution backend resolves host, port, credential, and known-host policy from the execution's assigned NetBox object.''))) (\<lambda>_.
      rbind (influxdb3_allowed name) (\<lambda>allowed.
      (let unexpected = unexpected_params ps (allowed @ INFLUXDB3_INTERNAL_PARAM_KEYS) in
       rbind (guard (unexpected = [])
         (param_invalid (''Unsupported parameters for '' @ name @ '': '' @ join_with '', '' unexpected @ ''.''))) (\<lambda>_.
       rbind (influxdb3_tls ps (influxdb3_payload rq)) (\<lambda>n.
         if name = INFLUXDB3_DEBIAN13_PREFLIGHT then Inr n
         else rseq (map (\<lambda>(k, dflt). copy_bool ps k dflt) INFLUXDB3_BOOLEAN_PARAM_DEFAULTS
           @ [copy_given influxdb3_node_id ps ''node_id'',
              copy_given influxdb3_data_dir ps ''data_dir'',
              copy_given (pattern_param INFLUXDB3_WAL_FLUSH_INTERVAL_RE ''wal_flush_interval'') ps ''wal_flush_interval'',
              copy_given (pattern_param INFLUXDB3_LOG_FILTER_RE ''log_filter'') ps ''log_filter'',
              copy_given (pattern_param INFLUXDB3_PACKAGE_VERSION_RE ''package_version'') ps ''package_version'',
              influxdb3_remote ps]) n)))))))"

definition normalize_influxdb3_debian13_execution :: "exec_request \<Rightarrow> pydict \<Rightarrow> handler_error + pydict" where
  "normalize_influxdb3_debian13_execution rq ps =
     (case code_gate_unavailable_reason (proc_name (rq_procedure rq)) of
        Some m \<Rightarrow> Inl (RPCExecutionError m ''RPC_PROCEDURE_NOT_AVAILABLE'')
      | None \<Rightarrow> influxdb3_normalized rq ps)"

end
