(* ===== verification/AkvoradoNormalization.thy ===== *)
theory AkvoradoNormalization
  imports BoundNormalization InfluxNormalization
begin

text \<open>
  The normalizers of the Akvorado procedures in \<open>domain/normalization.py\<close>: the lifecycle with
  its content guard, and the Debian 13 bootstrap, whose code gate is closed at this commit.
  The YAML parser and the validation of the normalized contract are fields of
  \<^typ>\<open>binding_env\<close>; a parsed document is a finite tree with text keys.
\<close>

definition akvorado_unsafe_codepoint :: "char \<Rightarrow> bool" where
  "akvorado_unsafe_codepoint c \<longleftrightarrow>
     (let n = (of_char c :: nat) in (n < 32 \<and> n \<notin> {9, 10, 13}) \<or> (127 \<le> n \<and> n \<le> 159))"

definition AKVORADO_MAX_CONTENT_LEN :: nat where
  "AKVORADO_MAX_CONTENT_LEN = 1024 * 1024"

definition AKVORADO_SENSITIVE_KEY_RE :: regex where
  "AKVORADO_SENSITIVE_KEY_RE =
     (let sep = optional (oneof ''-_'') in
      alts [ilit ''token'', ilit ''password'', ilit ''passphrase'', ilit ''secret'', ilit ''authorization'',
        seqs [ilit ''api'', sep, ilit ''key''], seqs [ilit ''access'', sep, ilit ''key''],
        seqs [ilit ''private'', sep, ilit ''key''], ilit ''credential''])"

definition AKVORADO_SECRET_ASSIGNMENT_RE :: regex where
  "AKVORADO_SECRET_ASSIGNMENT_RE =
     (let key = star (CS (alnum_or ''_.-'')); blank = star (CS (\<lambda>c. c = CHR '' '' \<or> c = CHR 0x09)) in
      seqs [alts [Seq LineStart blank, Seq (oneof '',{'') (star space_class), Seq (lit ''-'') (plus1 space_class)],
        influx_quote_opt, key, AKVORADO_SENSITIVE_KEY_RE, key, influx_quote_opt, star space_class, oneof '':='', star space_class,
        influx_quote_opt, blank, plus1 (CS (\<lambda>c. \<not> is_space c \<and> c \<noteq> DQ \<and> c \<noteq> SQ))])"

text \<open>
  Without the case flag. The repetition of the body may be empty, so that a match exists
  exactly when the key line matches.
\<close>

definition AKVORADO_BLOCK_SCALAR_SECRET_RE :: regex where
  "AKVORADO_BLOCK_SCALAR_SECRET_RE =
     (let key = star (CS (alnum_or ''_.-'')); blank = star (CS (\<lambda>c. c = CHR '' '' \<or> c = CHR 0x09)); sep = optional (oneof ''-_'') in
      seqs [LineStart, blank, influx_quote_opt, key,
        alts [lit ''token'', lit ''password'', lit ''passphrase'', lit ''secret'', lit ''authorization'', seqs [lit ''api'', sep, lit ''key''],
          seqs [lit ''access'', sep, lit ''key''], seqs [lit ''private'', sep, lit ''key''], lit ''credential''],
        key, influx_quote_opt, star space_class, lit '':'', star space_class, oneof ''|>'',
        optional (alts [Seq (oneof ''123456789'') (optional (oneof ''+-'')), Seq (oneof ''+-'') (optional (oneof ''123456789''))]),
        blank, optional (Seq (lit ''#'') (star (noneof [CHR 0x0D, CHR 0x0A]))), LineEnd])"

definition AKVORADO_AUTHORIZATION_RE :: regex where
  "AKVORADO_AUTHORIZATION_RE =
     seqs [WordBoundary, alts [ilit ''authorization'', ilit ''bearer''], star space_class, oneof '':='', star space_class,
       LazyRep 1 None (noneof [CHR 0x0D, CHR 0x0A]), Look (Seq (optional (lit [CHR 0x0D])) LineEnd)]"

fun akvorado_has_sensitive_decoded_key :: "pyval \<Rightarrow> bool" where
  "akvorado_has_sensitive_decoded_key (VDict d) =
     list_ex (\<lambda>(k, v). rx_found AKVORADO_SENSITIVE_KEY_RE k \<or> akvorado_has_sensitive_decoded_key v) d"
| "akvorado_has_sensitive_decoded_key (VList vs) = list_ex akvorado_has_sensitive_decoded_key vs"
| "akvorado_has_sensitive_decoded_key _ = False"

definition normalize_akvorado_content :: "binding_env \<Rightarrow> pyval \<Rightarrow> string \<Rightarrow> handler_error + string" where
  "normalize_akvorado_content env raw field =
     (let secret = RPCExecutionError (field @ '' contains secret-shaped material; use an nms-secret reference instead.'') ''RPC_PARAM_SECRET_FORBIDDEN'' in
      (case raw of
         VStr content \<Rightarrow>
           rbind (guard (strip content \<noteq> []) (param_invalid (field @ '' must be a non-empty string.''))) (\<lambda>_.
           rbind (guard (length content \<le> AKVORADO_MAX_CONTENT_LEN)
             (param_invalid (field @ '' may contain at most '' @ nat_str AKVORADO_MAX_CONTENT_LEN @ '' characters.''))) (\<lambda>_.
           rbind (guard (\<not> list_ex akvorado_unsafe_codepoint content)
             (param_invalid (field @ '' contains control characters unsafe for JSONB storage.''))) (\<lambda>_.
           rbind (guard (\<not> list_ex (\<lambda>r. rx_found r content)
               [INFLUXDB_PRIVATE_KEY_RE, AKVORADO_SECRET_ASSIGNMENT_RE, AKVORADO_BLOCK_SCALAR_SECRET_RE, AKVORADO_AUTHORIZATION_RE,
                INFLUXDB_URL_CREDENTIAL_RE]) secret) (\<lambda>_.
           (case be_yaml env content of
              None \<Rightarrow> Inr content
            | Some parsed \<Rightarrow> rbind (guard (\<not> akvorado_has_sensitive_decoded_key parsed) secret) (\<lambda>_. Inr content))))))
       | _ \<Rightarrow> Inl (param_invalid (field @ '' must be a non-empty string.''))))"

definition contract_checked :: "binding_env \<Rightarrow> string \<Rightarrow> string \<Rightarrow> pydict \<Rightarrow> handler_error + pydict" where
  "contract_checked env name message n =
     rbind (guard (be_schema_ok env name n) (RPCExecutionError message ''RPC_NORMALIZED_CONTRACT_INVALID'')) (\<lambda>_. Inr n)"

definition normalize_akvorado_1_execution :: "python_rt \<Rightarrow> binding_env \<Rightarrow> exec_request \<Rightarrow> pydict \<Rightarrow> handler_error + pydict" where
  "normalize_akvorado_1_execution rt env rq ps = (case be_object env of
       None \<Rightarrow> Inl (RPCExecutionError ''Akvorado procedures require an existing assigned NetBox object.'' ''RPC_TARGET_REQUIRED'')
     | Some bound \<Rightarrow>
         (let name = proc_name (rq_procedure rq); target = strip (str_or (bo_name bound) (bo_text bound));
              n = put_both ''target_object'' (target_object rq) (procedure_payload rq target) in
          rbind (guard (target \<noteq> [] \<and> \<not> list_ex (\<lambda>c. (of_char c :: nat) < 32 \<or> (of_char c :: nat) = 127) target)
            (target_invalid ''The assigned NetBox object does not provide a safe target name.'')) (\<lambda>_.
          rbind (if name = AKVORADO_1_CONFIG_DEPLOY
                 then rbind (normalize_akvorado_content env (dget ps ''config_content'') ''config_content'') (\<lambda>s.
                   Inr (put_fp ''config_content_bytes'' (VInt (utf8_size s)) (put_hashed rt ''config_content'' s n)))
                 else Inr n) (\<lambda>m.
            contract_checked env name ''Akvorado lifecycle normalized contract validation failed.'' m))))"

definition akvorado_install :: "python_rt \<Rightarrow> binding_env \<Rightarrow> exec_request \<Rightarrow> pydict \<Rightarrow> pydict \<Rightarrow> handler_error + pydict" where
  "akvorado_install rt env rq ps n =
     (let policy_ref = policy_ref_of rq in
      rbind (primary_ipv4 env ''Debian 13 Akvorado install requires one explicit primary IPv4 address.'') (\<lambda>host.
      rbind (resolve_locked_ssh_identity rt (be_ssh env) (rq_target_type_id rq) (rq_target_id rq) host policy_ref) (\<lambda>resolved.
      rbind (bool_param ps ''allow_resource_shortfall'' False) (\<lambda>shortfall.
        Inr (put_fp ''target_object_sha256'' (VStr (normalization_hash_json rt (target_object rq)))
          (put_all [(''allow_resource_shortfall'', VBool shortfall),
             (''ssh_snapshot'', VDict (dict_set ''ssh_strict_host_key_checking'' (VBool True) resolved)),
             (''ssh_policy_ref'', VStr policy_ref)] n))))))"

text \<open>What follows the code gate.\<close>

definition akvorado_bootstrap_normalized :: "python_rt \<Rightarrow> binding_env \<Rightarrow> exec_request \<Rightarrow> pydict \<Rightarrow> handler_error + pydict" where
  "akvorado_bootstrap_normalized rt env rq ps =
     (let name = proc_name (rq_procedure rq); install = (name = AKVORADO_BOOTSTRAP_DEBIAN13_INSTALL);
          overrides = supplied_overrides ps INFLUXDB3_FORBIDDEN_SSH_OVERRIDE_PARAMS;
          unexpected = unexpected_params ps ((if install then [''allow_resource_shortfall''] else []) @ INFLUXDB3_INTERNAL_PARAM_KEYS);
          n = put_fp ''target_object_id'' (VInt (rq_target_id rq)) (put_fp ''target_content_type'' (VStr (rq_target_model_label rq))
                (dict_set ''target_object'' (target_object rq) (procedure_payload rq (rq_target_display rq)))) in
      rbind (guard (rq_target_model_label rq = ''dcim.device'' \<and> 1 \<le> rq_target_id rq)
        (target_invalid ''Debian 13 Akvorado bootstrap requires an existing dcim.device target.'')) (\<lambda>_.
      rbind (guard (overrides = [])
        (param_invalid (''Caller-supplied SSH overrides are not accepted for '' @ name @ '': '' @ join_with '', '' overrides
           @ ''. The backend resolves SSH exclusively from the assigned device.''))) (\<lambda>_.
      rbind (guard (name \<in> set AKVORADO_BOOTSTRAP_DEBIAN13_PROCEDURE_NAMES)
        (RPCExecutionError (''Procedure '' @ str_repr name @ '' has no NetBox normalizer.'') ''RPC_PROCEDURE_NOT_NORMALIZABLE'')) (\<lambda>_.
      rbind (guard (unexpected = [])
        (param_invalid (''Unsupported parameters for '' @ name @ '': '' @ join_with '', '' unexpected @ ''.''))) (\<lambda>_.
      rbind (if install then akvorado_install rt env rq ps n else Inr n) (\<lambda>m.
        contract_checked env name ''Debian 13 Akvorado normalized contract validation failed.'' m))))))"

definition normalize_akvorado_bootstrap_debian13_execution ::
  "python_rt \<Rightarrow> binding_env \<Rightarrow> exec_request \<Rightarrow> pydict \<Rightarrow> handler_error + pydict" where
  "normalize_akvorado_bootstrap_debian13_execution rt env rq ps = rbind (gate_check rq) (\<lambda>_. akvorado_bootstrap_normalized rt env rq ps)"

end
