(* ===== verification/SambaAdDc.thy ===== *)
theory SambaAdDc
  imports BoundNormalization
begin

text \<open>
  The parameter contract of the Samba AD domain controller (\<open>samba_ad_dc_contract.py\<close>) and the
  normalizer of its three procedures. A failed parameter gives the field and the fixed reason,
  never the value. Address classes are those of the \<open>ipaddress\<close> module of Python 3.12.
\<close>

section \<open>Address classes\<close>

definition block6 :: "nat \<Rightarrow> nat \<Rightarrow> nat \<Rightarrow> bool" where
  "block6 lead bits n \<longleftrightarrow> n div 2 ^ (128 - bits) = lead * 2 ^ 112 div 2 ^ (128 - bits)"

fun is_loopback :: "ip_address \<Rightarrow> bool" where
  "is_loopback (IPv4 n) = (n div 16777216 = 127)"
| "is_loopback (IPv6 n) = (n = 1)"

fun is_unspecified :: "ip_address \<Rightarrow> bool" where
  "is_unspecified (IPv4 n) = (n = 0)"
| "is_unspecified (IPv6 n) = (n = 0)"

fun is_multicast :: "ip_address \<Rightarrow> bool" where
  "is_multicast (IPv4 n) = (n div 268435456 = 14)"
| "is_multicast (IPv6 n) = block6 0xFF00 8 n"

fun is_link_local :: "ip_address \<Rightarrow> bool" where
  "is_link_local (IPv4 n) = (n div 65536 = 43518)"
| "is_link_local (IPv6 n) = block6 0xFE80 10 n"

fun is_reserved :: "ip_address \<Rightarrow> bool" where
  "is_reserved (IPv4 n) = (n div 268435456 = 15)"
| "is_reserved (IPv6 n) = list_ex (\<lambda>(lead, bits). block6 lead bits n)
     [(0x0000, 8), (0x0100, 8), (0x0200, 7), (0x0400, 6), (0x0800, 5), (0x1000, 4), (0x4000, 3), (0x6000, 3), (0x8000, 3),
      (0xA000, 3), (0xC000, 3), (0xE000, 4), (0xF000, 5), (0xF800, 6), (0xFE00, 9)]"

text \<open>The first and the last address of a network are both in the class.\<close>

fun net_bounds :: "ip_network \<Rightarrow> ip_address \<times> ip_address" where
  "net_bounds (Net4 n p) = (IPv4 n, IPv4 (n + (2 ^ (32 - p) - 1)))"
| "net_bounds (Net6 n p) = (IPv6 n, IPv6 (n + (2 ^ (128 - p) - 1)))"

definition net_is :: "(ip_address \<Rightarrow> bool) \<Rightarrow> ip_network \<Rightarrow> bool" where
  "net_is P net \<longleftrightarrow> P (fst (net_bounds net)) \<and> P (snd (net_bounds net))"

fun prefixlen :: "ip_network \<Rightarrow> nat" where
  "prefixlen (Net4 n p) = p"
| "prefixlen (Net6 n p) = p"

fun hex_str :: "nat \<Rightarrow> string" where
  "hex_str n = (if n < 16 then [hex_digit n] else hex_str (n div 16) @ [hex_digit (n mod 16)])"

declare hex_str.simps [simp del]

definition hextets :: "nat \<Rightarrow> nat list" where
  "hextets n = map (\<lambda>i. n div 65536 ^ (7 - i) mod 65536) [0..<8]"

definition zero_run :: "nat list \<Rightarrow> nat \<Rightarrow> nat" where
  "zero_run hs i = length (takeWhile (\<lambda>h. h = 0) (drop i hs))"

text \<open>\<open>str(IPv6Address)\<close>: the first longest run of at least two zero groups is a double colon.\<close>

definition ipv6_str :: "nat \<Rightarrow> string" where
  "ipv6_str n =
     (let hs = hextets n; longest = Max (set (map (zero_run hs) [0..<8])) in
      if longest < 2 then join_with '':'' (map hex_str hs)
      else (case List.find (\<lambda>i. zero_run hs i = longest) [0..<8] of
          Some i \<Rightarrow> join_with '':'' (map hex_str (take i hs)) @ ''::'' @ join_with '':'' (map hex_str (drop (i + longest) hs))
        | None \<Rightarrow> []))"

fun ip_str :: "ip_address \<Rightarrow> string" where
  "ip_str (IPv4 n) = ipv4_str n"
| "ip_str (IPv6 n) = ipv6_str n"

fun net_str :: "ip_network \<Rightarrow> string" where
  "net_str (Net4 n p) = ipv4_network_str (n, p)"
| "net_str (Net6 n p) = ipv6_str n @ ''/'' @ nat_str p"

text \<open>\<open>ip_network(s)\<close> also takes a single address.\<close>

definition read_source_network :: "string \<Rightarrow> ip_network option" where
  "read_source_network s =
     (if CHR ''/'' \<in> set s then read_ip_network s
      else map_option (\<lambda>a. case a of IPv4 n \<Rightarrow> Net4 n 32 | IPv6 n \<Rightarrow> Net6 n 128) (read_ip_address s))"


section \<open>Validators\<close>

type_synonym samba_error = "string \<times> string"

definition SSH_OVERRIDE_PARAM_KEYS :: "string list" where
  "SSH_OVERRIDE_PARAM_KEYS =
     [''rpc_ssh_credential_pk'', ''rpc_ssh_host'', ''rpc_ssh_port'', ''rpc_ssh_known_hosts_entry'', ''rpc_ssh_strict_host_key_checking'']"

definition DEFAULT_NTP_SERVERS :: "string list" where
  "DEFAULT_NTP_SERVERS = [''a.ntp.br'', ''b.ntp.br'', ''c.ntp.br'']"

definition DEFAULT_TIMEZONE :: string where
  "DEFAULT_TIMEZONE = ''America/Sao_Paulo''"

definition DEFAULT_SHARE_NAME :: string where
  "DEFAULT_SHARE_NAME = ''shared''"

definition RESERVED_SSH_PORTS :: "int list" where
  "RESERVED_SSH_PORTS = [53, 88, 135, 139, 389, 445, 464, 636, 3268, 3269]"

definition RESERVED_SHARE_NAMES :: "string list" where
  "RESERVED_SHARE_NAMES = [''global'', ''homes'', ''printers'', ''sysvol'', ''netlogon'', ''ipc'', ''admin'']"

definition BOUNDED_INTEGER_PARAMS :: "(string \<times> int \<times> int \<times> int) list" where
  "BOUNDED_INTEGER_PARAMS =
     [(''fail2ban_findtime'', 600, 60, 86400), (''smb_max_retry'', 10, 3, 100), (''smb_bantime'', 900, 60, 86400),
      (''ssh_max_retry'', 5, 3, 100), (''ssh_bantime'', 3600, 60, 86400)]"

definition PROVISION_REQUIRED_PARAMS :: "string list" where
  "PROVISION_REQUIRED_PARAMS = [''domain'', ''netbios'', ''hostname'', ''ip'', ''forwarder'', ''client_networks'']"

definition PROVISION_OPTIONAL_PARAMS :: "string list" where
  "PROVISION_OPTIONAL_PARAMS =
     [''dry_run'', ''ntp_servers'', ''timezone'', ''share_name'', ''share_path'', ''ssh_ports'', ''ssh_networks'', ''ban_exempt_networks'',
      ''legacy_netbios'', ''freeze_cloud_init'', ''admin_credential_pk''] @ map fst BOUNDED_INTEGER_PARAMS"

definition DNS_LABEL_RE :: regex where
  "DNS_LABEL_RE =
     (let a = CS (\<lambda>c. is_lower_alpha c \<or> is_digit c) in
      Seq a (optional (Seq (Rep 0 (Some 61) (CS (\<lambda>c. is_lower_alpha c \<or> is_digit c \<or> c = CHR ''-''))) a)))"

definition SHORT_NAME_RE :: regex where
  "SHORT_NAME_RE = Seq (CS is_alpha) (optional (Seq (Rep 0 (Some 13) (CS (alnum_or ''-''))) (CS (alnum_or []))))"

definition IPV4_RE :: regex where
  "IPV4_RE = (let d = Rep 1 (Some 3) (CS is_digit) in Seq d (Rep 3 (Some 3) (Seq (lit ''.'') d)))"

definition IPV4_CIDR_RE :: regex where
  "IPV4_CIDR_RE = seqs [IPV4_RE, lit ''/'', Rep 1 (Some 2) (CS is_digit)]"

definition SOURCE_NETWORK_RE :: regex where
  "SOURCE_NETWORK_RE =
     Seq (Rep 2 (Some 45) (CS (\<lambda>c. is_hex c \<or> c \<in> set '':.''))) (optional (Seq (lit ''/'') (Rep 1 (Some 3) (CS is_digit))))"

definition TIMEZONE_RE :: regex where
  "TIMEZONE_RE = Rep 1 (Some 64) (CS (alnum_or ''_+/-''))"

definition SHARE_NAME_RE :: regex where
  "SHARE_NAME_RE = Seq (CS is_alpha) (Rep 0 (Some 63) (CS (alnum_or ''_-'')))"

definition SHARE_PATH_RE :: regex where
  "SHARE_PATH_RE = Seq (lit ''/srv'') (plus1 (Seq (lit ''/'') (plus1 (CS (alnum_or ''_.-'')))))"

definition NTP_SOURCE_RE :: regex where
  "NTP_SOURCE_RE = Rep 1 (Some 253) (CS (alnum_or '':.-''))"

definition ascii_text :: "pyval \<Rightarrow> string \<Rightarrow> samba_error + string" where
  "ascii_text v field = (case v of
       VStr s \<Rightarrow> rbind (guard (list_all (\<lambda>c. (of_char c :: nat) < 128) s) (field, ''must be an ASCII string.'')) (\<lambda>_. Inr s)
     | _ \<Rightarrow> Inl (field, ''must be an ASCII string.''))"

definition strict_bool :: "pyval \<Rightarrow> string \<Rightarrow> samba_error + bool" where
  "strict_bool v field = (case v of VBool b \<Rightarrow> Inr b | _ \<Rightarrow> Inl (field, ''must be a boolean.''))"

definition strict_int :: "pyval \<Rightarrow> string \<Rightarrow> int \<Rightarrow> int option \<Rightarrow> samba_error + int" where
  "strict_int v field lo hi = (case v of
       VInt i \<Rightarrow> rbind (guard (lo \<le> i \<and> (case hi of None \<Rightarrow> True | Some h \<Rightarrow> i \<le> h)) (field, ''is outside the permitted range.'')) (\<lambda>_. Inr i)
     | _ \<Rightarrow> Inl (field, ''must be an integer.''))"

definition strict_list :: "pyval \<Rightarrow> string \<Rightarrow> nat \<Rightarrow> nat \<Rightarrow> samba_error + pyval list" where
  "strict_list v field lo hi = (case v of
       VList vs \<Rightarrow> rbind (guard (lo \<le> length vs \<and> length vs \<le> hi)
         (field, ''must contain between '' @ nat_str lo @ '' and '' @ nat_str hi @ '' entries.'')) (\<lambda>_. Inr vs)
     | _ \<Rightarrow> Inl (field, ''must be an array.''))"

definition reject_duplicates :: "string list \<Rightarrow> string \<Rightarrow> samba_error + string list" where
  "reject_duplicates canonical field =
     rbind (guard (distinct canonical) (field, ''must not contain duplicate entries.'')) (\<lambda>_. Inr canonical)"

definition dns_name :: "pyval \<Rightarrow> string \<Rightarrow> samba_error + string" where
  "dns_name v field =
     rbind (ascii_text v field) (\<lambda>s.
     (let text = lower s in
      rbind (guard (length text \<le> 253 \<and> list_all (fullmatch DNS_LABEL_RE) (split_on CHR ''.'' text))
        (field, ''must be a DNS name of letters, digits and hyphens.'')) (\<lambda>_. Inr text)))"

definition ad_domain :: "pyval \<Rightarrow> samba_error + string" where
  "ad_domain v =
     rbind (dns_name v ''domain'') (\<lambda>text.
     rbind (guard (CHR ''.'' \<in> set text \<and> \<not> endswith text ''.local''
         \<and> \<not> (let label = last (split_on CHR ''.'' text) in label \<noteq> [] \<and> list_all is_digit label) \<and> length text \<le> 237)
       (''domain'', ''must be a multi-label DNS domain of at most 237 characters, not an IP address or a .local name.'')) (\<lambda>_. Inr text))"

definition short_name :: "pyval \<Rightarrow> string \<Rightarrow> samba_error + string" where
  "short_name v field =
     rbind (ascii_text v field) (\<lambda>text.
     rbind (guard (fullmatch SHORT_NAME_RE text)
       (field, ''must be 1-15 characters, beginning with a letter and ending in a letter or digit.'')) (\<lambda>_. Inr text))"

definition ipv4 :: "pyval \<Rightarrow> string \<Rightarrow> samba_error + string" where
  "ipv4 v field =
     rbind (ascii_text v field) (\<lambda>text.
     rbind (guard (fullmatch IPV4_RE text) (field, ''must be a dotted-quad IPv4 address.'')) (\<lambda>_.
     (case read_ipv4 text of
        None \<Rightarrow> Inl (field, ''must be a valid IPv4 address.'')
      | Some n \<Rightarrow>
          rbind (guard (\<not> (is_loopback (IPv4 n) \<or> is_unspecified (IPv4 n) \<or> is_multicast (IPv4 n) \<or> is_link_local (IPv4 n)
              \<or> is_reserved (IPv4 n) \<or> n div 16777216 = 0))
            (field, ''must be a routable unicast IPv4 address.'')) (\<lambda>_. Inr (ipv4_str n)))))"

definition client_network :: "string \<Rightarrow> pyval \<Rightarrow> samba_error + string" where
  "client_network field v =
     rbind (ascii_text v field) (\<lambda>text.
     rbind (guard (fullmatch IPV4_CIDR_RE text) (field, ''entries must be IPv4 CIDRs with a prefix length.'')) (\<lambda>_.
     (case read_ipv4_network text of
        None \<Rightarrow> Inl (field, ''entries must be strict IPv4 networks.'')
      | Some (n, p) \<Rightarrow>
          rbind (guard (p \<noteq> 0 \<and> \<not> net_is is_multicast (Net4 n p) \<and> \<not> net_is is_loopback (Net4 n p) \<and> \<not> net_is is_link_local (Net4 n p))
            (field, ''entries must be trusted client networks, not /0, loopback or multicast.'')) (\<lambda>_. Inr (ipv4_network_str (n, p))))))"

definition client_networks :: "pyval \<Rightarrow> samba_error + string list" where
  "client_networks v =
     rbind (strict_list v ''client_networks'' 1 16) (\<lambda>vs.
     rbind (rmap (client_network ''client_networks'') vs) (\<lambda>ss. reject_duplicates ss ''client_networks''))"

definition ntp_source :: "string \<Rightarrow> pyval \<Rightarrow> samba_error + string" where
  "ntp_source field v =
     rbind (ascii_text v field) (\<lambda>text.
     rbind (guard (fullmatch NTP_SOURCE_RE text) (field, ''entries must be DNS names or IP addresses.'')) (\<lambda>_.
     (case read_ip_address text of
        None \<Rightarrow> dns_name (VStr text) field
      | Some a \<Rightarrow>
          rbind (guard (\<not> (is_unspecified a \<or> is_multicast a \<or> is_loopback a \<or> is_link_local a))
            (field, ''entries must be reachable upstream unicast hosts.'')) (\<lambda>_. Inr (ip_str a)))))"

definition ntp_servers :: "pyval \<Rightarrow> samba_error + string list" where
  "ntp_servers v =
     rbind (strict_list v ''ntp_servers'' 1 8) (\<lambda>vs.
     rbind (rmap (ntp_source ''ntp_servers'') vs) (\<lambda>ss. reject_duplicates ss ''ntp_servers''))"

definition timezone_name :: "pyval \<Rightarrow> samba_error + string" where
  "timezone_name v =
     rbind (ascii_text v ''timezone'') (\<lambda>text.
     rbind (guard (fullmatch TIMEZONE_RE text \<and> \<not> startswith text ''/'' \<and> \<not> contains text ''..'' \<and> [] \<notin> set (split_on CHR ''/'' text))
       (''timezone'', ''must be a relative timezone identifier such as America/Sao_Paulo.'')) (\<lambda>_. Inr text))"

definition share_name :: "pyval \<Rightarrow> samba_error + string" where
  "share_name v =
     rbind (ascii_text v ''share_name'') (\<lambda>text.
     rbind (guard (fullmatch SHARE_NAME_RE text)
       (''share_name'', ''must be 1-64 letters, digits, underscores or hyphens, starting with a letter.'')) (\<lambda>_.
     rbind (guard (lower text \<notin> set RESERVED_SHARE_NAMES) (''share_name'', ''is a reserved share name.'')) (\<lambda>_. Inr text)))"

definition share_path :: "pyval \<Rightarrow> samba_error + string" where
  "share_path v =
     rbind (ascii_text v ''share_path'') (\<lambda>text.
     rbind (guard (length text \<le> 255 \<and> fullmatch SHARE_PATH_RE text
         \<and> \<not> list_ex (\<lambda>part. part \<in> {''.'', ''..''}) (split_on CHR ''/'' text))
       (''share_path'', ''must be an absolute path below /srv without spaces or . / .. components.'')) (\<lambda>_. Inr text))"

definition ssh_ports :: "pyval \<Rightarrow> samba_error + int list" where
  "ssh_ports v =
     rbind (strict_list v ''ssh_ports'' 0 16) (\<lambda>vs.
     rbind (rmap (\<lambda>p. strict_int p ''ssh_ports'' 1 (Some 65535)) vs) (\<lambda>ports.
     rbind (guard (distinct ports) (''ssh_ports'', ''must not contain duplicate entries.'')) (\<lambda>_.
     rbind (guard (set RESERVED_SSH_PORTS \<inter> set ports = {}) (''ssh_ports'', ''must not use a Samba AD service port.'')) (\<lambda>_. Inr ports))))"

definition source_network :: "string \<Rightarrow> pyval \<Rightarrow> samba_error + string" where
  "source_network field v =
     rbind (ascii_text v field) (\<lambda>text.
     rbind (guard (fullmatch SOURCE_NETWORK_RE text) (field, ''entries must be IPv4/IPv6 addresses or CIDRs without a scope id.'')) (\<lambda>_.
     (case read_source_network text of
        None \<Rightarrow> Inl (field, ''entries must be strict IPv4/IPv6 networks.'')
      | Some net \<Rightarrow>
          rbind (guard (\<not> (prefixlen net = 0 \<or> net_is is_multicast net \<or> net_is is_loopback net \<or> net_is is_link_local net
              \<or> net_is is_unspecified net \<or> net_is is_reserved net))
            (field, ''entries must be specific unicast hosts or networks, not /0 or special ranges.'')) (\<lambda>_. Inr (net_str net)))))"

definition source_networks :: "string \<Rightarrow> pyval \<Rightarrow> samba_error + string list" where
  "source_networks field v =
     rbind (strict_list v field 0 32) (\<lambda>vs.
     rbind (rmap (source_network field) vs) (\<lambda>ss. reject_duplicates ss field))"

definition unknown_params :: "pydict \<Rightarrow> string list \<Rightarrow> string list" where
  "unknown_params ps allowed = take 16 (sort (map (take 64) (unexpected_params ps (allowed @ PLATFORM_PARAM_KEYS))))"


section \<open>The resolved settings\<close>

definition upper_char :: "char \<Rightarrow> char" where
  "upper_char c = (if is_lower_alpha c then char_of ((of_char c :: nat) - 32) else c)"

definition upper :: "string \<Rightarrow> string" where
  "upper s = map upper_char s"

text \<open>\<open>params.get(key, dflt)\<close>.\<close>

definition get_or :: "pydict \<Rightarrow> string \<Rightarrow> pyval \<Rightarrow> pyval" where
  "get_or ps k dflt = (case map_of ps k of None \<Rightarrow> dflt | Some v \<Rightarrow> v)"

abbreviation texts :: "string list \<Rightarrow> pyval" where
  "texts ss \<equiv> VList (map VStr ss)"

definition resolve_identity :: "pydict \<Rightarrow> samba_error + pydict" where
  "resolve_identity ps =
     rbind (ad_domain (dget ps ''domain'')) (\<lambda>domain.
     rbind (short_name (dget ps ''netbios'') ''netbios'') (\<lambda>netbios.
     rbind (short_name (dget ps ''hostname'') ''hostname'') (\<lambda>hostname.
     rbind (guard (upper (lower hostname) \<noteq> upper netbios) (''hostname'', ''must differ from the NetBIOS domain name.'')) (\<lambda>_.
       Inr [(''domain'', VStr domain), (''netbios'', VStr (upper netbios)), (''hostname'', VStr (lower hostname))]))))"

definition resolve_network :: "pydict \<Rightarrow> samba_error + pydict" where
  "resolve_network ps =
     rbind (ipv4 (dget ps ''ip'') ''ip'') (\<lambda>ip.
     rbind (ipv4 (dget ps ''forwarder'') ''forwarder'') (\<lambda>forwarder.
     rbind (client_networks (dget ps ''client_networks'')) (\<lambda>clients.
     rbind (ntp_servers (get_or ps ''ntp_servers'' (texts DEFAULT_NTP_SERVERS))) (\<lambda>ntp.
     rbind (timezone_name (get_or ps ''timezone'' (VStr DEFAULT_TIMEZONE))) (\<lambda>timezone.
     rbind (guard (forwarder \<noteq> ip) (''forwarder'', ''must not point back to the DC itself.'')) (\<lambda>_.
       Inr [(''ip'', VStr ip), (''forwarder'', VStr forwarder), (''client_networks'', texts clients), (''ntp_servers'', texts ntp),
            (''timezone'', VStr timezone)]))))))"

definition resolve_share :: "pydict \<Rightarrow> samba_error + pydict" where
  "resolve_share ps =
     rbind (share_name (get_or ps ''share_name'' (VStr DEFAULT_SHARE_NAME))) (\<lambda>name.
     rbind (share_path (get_or ps ''share_path'' (VStr (''/srv/samba/'' @ name)))) (\<lambda>path.
       Inr [(''share_name'', VStr name), (''share_path'', VStr path)]))"

definition bounded_integer :: "pydict \<Rightarrow> string \<times> int \<times> int \<times> int \<Rightarrow> samba_error + (string \<times> pyval)" where
  "bounded_integer ps = (\<lambda>(name, dflt, lo, hi).
     rbind (strict_int (get_or ps name (VInt dflt)) name lo (Some hi)) (\<lambda>i. Inr (name, VInt i)))"

definition resolve_security :: "pydict \<Rightarrow> samba_error + pydict" where
  "resolve_security ps =
     rbind (ssh_ports (get_or ps ''ssh_ports'' (VList []))) (\<lambda>ports.
     rbind (source_networks ''ssh_networks'' (get_or ps ''ssh_networks'' (VList []))) (\<lambda>networks.
     rbind (source_networks ''ban_exempt_networks'' (get_or ps ''ban_exempt_networks'' (VList []))) (\<lambda>exempt.
     rbind (rmap (bounded_integer ps) BOUNDED_INTEGER_PARAMS) (\<lambda>bounded.
     rbind (strict_bool (get_or ps ''legacy_netbios'' (VBool False)) ''legacy_netbios'') (\<lambda>legacy.
     rbind (strict_bool (get_or ps ''freeze_cloud_init'' (VBool True)) ''freeze_cloud_init'') (\<lambda>freeze.
       Inr ([(''ssh_ports'', VList (map VInt ports)), (''ssh_networks'', texts networks), (''ban_exempt_networks'', texts exempt)]
         @ bounded @ [(''legacy_netbios'', VBool legacy), (''freeze_cloud_init'', VBool freeze)])))))))"

definition check_ssh_allowlist :: "pydict \<Rightarrow> bool \<Rightarrow> samba_error + unit" where
  "check_ssh_allowlist resolved dry_run =
     (let has_ports = truthy (dget resolved ''ssh_ports''); has_networks = truthy (dget resolved ''ssh_networks'') in
      rbind (guard (has_ports = has_networks) (''ssh_networks'', ''must be provided if and only if ssh_ports is provided.'')) (\<lambda>_.
      guard (dry_run \<or> has_ports) (''ssh_ports'', ''must list the executing session's SSH port for a live run; the ''
        @ ''installer proves the firewall will not lock the operator out.'')))"

definition resolve_provision_settings :: "pydict \<Rightarrow> samba_error + pydict" where
  "resolve_provision_settings ps =
     (let unexpected = unknown_params ps (PROVISION_REQUIRED_PARAMS @ PROVISION_OPTIONAL_PARAMS);
          missing = sort (filter (\<lambda>k. \<not> has_key ps k) PROVISION_REQUIRED_PARAMS) in
      rbind (guard (unexpected = []) (''params'', ''contains unsupported parameters: '' @ join_with '', '' unexpected @ ''.'')) (\<lambda>_.
      rbind (guard (missing = []) (''params'', ''is missing required parameters: '' @ join_with '', '' missing @ ''.'')) (\<lambda>_.
      rbind (strict_bool (get_or ps ''dry_run'' (VBool True)) ''dry_run'') (\<lambda>dry_run.
      rbind (resolve_identity ps) (\<lambda>identity.
      rbind (resolve_network ps) (\<lambda>network.
      rbind (resolve_share ps) (\<lambda>share.
      rbind (resolve_security ps) (\<lambda>security.
      (let settings = [(''dry_run'', VBool dry_run)] @ identity @ network @ share @ security in
       rbind (check_ssh_allowlist settings dry_run) (\<lambda>_.
       (case map_of ps ''admin_credential_pk'' of
          Some v \<Rightarrow> rbind (strict_int v ''admin_credential_pk'' 1 None) (\<lambda>i. Inr (settings @ [(''admin_credential_pk'', VInt i)]))
        | None \<Rightarrow> if dry_run then Inr settings
            else Inl (''admin_credential_pk'', ''is required for a live run (dry_run=false).''))))))))))))"


section \<open>The normalizer\<close>

record admin_credential =
  ac_pk :: pyval
  ac_revision :: pyval
  ac_auth_method :: pyval
  ac_storage_backend :: pyval
  ac_password_encrypted :: pyval

text \<open>
  \<open>DeviceCredential.objects.restrict(user, "view").filter(pk=...).first()\<close> of netbox-nms: \<open>None\<close>
  when it is not installed; the query gives \<open>None\<close> when it raises, \<open>Some None\<close> when it finds
  nothing.
\<close>

type_synonym admin_lookup = "(pyval \<Rightarrow> admin_credential option option) option"

definition samba_ad_dc_target_object :: "exec_request \<Rightarrow> handler_error + unit" where
  "samba_ad_dc_target_object rq =
     guard (rq_target_model_label rq \<in> {''dcim.device'', ''virtualization.virtualmachine''} \<and> 1 \<le> rq_target_id rq)
       (target_invalid ''Ubuntu 26.04 Samba AD DC procedures require an existing assigned dcim.device or virtualization.virtualmachine.'')"

definition resolve_samba_ad_dc_admin_credential ::
  "admin_lookup \<Rightarrow> pyval \<Rightarrow> pyval \<Rightarrow> handler_error + pydict" where
  "resolve_samba_ad_dc_admin_credential admins credential_pk ssh_identity_id = (case admins of
       None \<Rightarrow> Inl (RPCExecutionError ''Samba AD DC provision requires netbox-nms to resolve the Administrator credential.'' ''RPC_CREDENTIAL_UNAVAILABLE'')
     | Some lookup \<Rightarrow> (case lookup credential_pk of
         None \<Rightarrow> Inl (RPCExecutionError ''The Administrator credential could not be authorized.'' ''RPC_CREDENTIAL_UNAVAILABLE'')
       | Some None \<Rightarrow> Inl (RPCExecutionError ''The Administrator credential does not exist or is not viewable by the actor.'' ''RPC_CREDENTIAL_FORBIDDEN'')
       | Some (Some c) \<Rightarrow>
           rbind (guard (str_or (ac_auth_method c) [] = ''password'' \<and> str_or (ac_storage_backend c) ''local'' = ''local''
               \<and> truthy (ac_password_encrypted c) \<and> (ssh_identity_id = VNone \<or> ac_pk c \<noteq> ssh_identity_id))
             (RPCExecutionError (''The Administrator credential must be a stored local password ''
                @ ''credential distinct from the target's SSH login identity.'') ''RPC_CREDENTIAL_FORBIDDEN'')) (\<lambda>_.
           rbind (positive_model_pk (ac_pk c) ''Administrator credential'') (\<lambda>i.
           rbind (model_revision (ac_revision c) ''Administrator credential'') (\<lambda>revision.
             Inr [(''admin_credential_id'', VInt i), (''admin_credential_revision'', VStr revision)])))))"

definition apply_samba_ad_dc_frozen_bindings ::
  "python_rt \<Rightarrow> binding_env \<Rightarrow> admin_lookup \<Rightarrow> exec_request \<Rightarrow> pydict \<Rightarrow> pydict \<Rightarrow> handler_error + pydict" where
  "apply_samba_ad_dc_frozen_bindings rt env admins rq settings n =
     (let policy_ref = policy_ref_of rq in
      rbind (primary_ipv4 env ''Samba AD DC provision requires the target to have one explicit primary IPv4 address.'') (\<lambda>host.
      rbind (guard (dget settings ''ip'' = VStr host) (param_invalid ''ip must equal the target's primary IPv4 address.'')) (\<lambda>_.
      rbind (resolve_locked_ssh_identity rt (be_ssh env) (rq_target_type_id rq) (rq_target_id rq) host policy_ref) (\<lambda>resolved.
      (let snapshot = dict_set ''ssh_strict_host_key_checking'' (VBool True) resolved;
           m = put_fp ''target_object_sha256'' (VStr (normalization_hash_json rt (target_object rq)))
             (put_all [(''ssh_snapshot'', VDict snapshot), (''ssh_policy_ref'', VStr policy_ref)] n) in
       if has_key settings ''admin_credential_pk''
       then rbind (resolve_samba_ad_dc_admin_credential admins (dget settings ''admin_credential_pk'') (dget snapshot ''ssh_identity_id'')) (\<lambda>admin.
         Inr (put_both ''admin_credential_snapshot'' (VDict admin) m))
       else Inr m)))))"

definition samba_ad_dc_payload :: "exec_request \<Rightarrow> pydict" where
  "samba_ad_dc_payload rq =
     put_fp ''target_object_id'' (VInt (rq_target_id rq)) (put_fp ''target_content_type'' (VStr (rq_target_model_label rq))
       (dict_set ''target_object'' (target_object rq) (procedure_payload rq (rq_target_display rq))))"

definition normalize_ubuntu_26_samba_ad_dc_execution ::
  "python_rt \<Rightarrow> binding_env \<Rightarrow> admin_lookup \<Rightarrow> exec_request \<Rightarrow> pydict \<Rightarrow> handler_error + pydict" where
  "normalize_ubuntu_26_samba_ad_dc_execution rt env admins rq ps =
     (let name = proc_name (rq_procedure rq); supplied = supplied_overrides ps SSH_OVERRIDE_PARAM_KEYS;
          unexpected = unknown_params ps SSH_OVERRIDE_PARAM_KEYS in
      rbind (guard (name \<in> set UBUNTU_26_SAMBA_AD_DC_PROCEDURE_NAMES)
        (RPCExecutionError (''Procedure '' @ str_repr name @ '' has no NetBox normalizer.'') ''RPC_PROCEDURE_NOT_NORMALIZABLE'')) (\<lambda>_.
      rbind (samba_ad_dc_target_object rq) (\<lambda>_.
      if name = UBUNTU_26_SAMBA_AD_DC_PROVISION then
        rbind (guard (supplied = [])
          (param_invalid (''Caller-supplied SSH overrides are not accepted for '' @ name @ '': '' @ join_with '', '' supplied
             @ ''. The execution backend resolves host, port, credential and known-host policy from the ''
             @ ''execution's assigned NetBox object, so the execution always runs against the object named in the request.''))) (\<lambda>_.
        rbind (map_sum (\<lambda>(field, reason). param_invalid (field @ '' '' @ reason)) id (resolve_provision_settings ps)) (\<lambda>settings.
          apply_samba_ad_dc_frozen_bindings rt env admins rq settings (put_all settings (samba_ad_dc_payload rq))))
      else
        rbind (guard (unexpected = [])
          (param_invalid (''Unsupported parameters for '' @ name @ '': '' @ join_with '', '' unexpected @ ''.''))) (\<lambda>_.
          copy_optional_ssh_overrides rt ps (samba_ad_dc_payload rq)))))"

end
