(* ===== verification/NormalizationDispatch.thy ===== *)
theory NormalizationDispatch
  imports SambaNormalization OpenBaoNormalization ProxmoxNormalization DeviceNormalization AkvoradoNormalization SambaAdDc
    TargetSnapshot CredentialAuthority
begin

text \<open>
  \<open>normalize_execution_params\<close> of \<open>domain/normalization.py\<close>: the choice of the normalizer by the
  name of the procedure, then the transport driver, the snapshot of the target object and the
  digest of the frozen credential references.

  The chain of conditions of the code is a list of names with their normalizers, in the same
  order. Four normalizers are a parameter (\<open>nx_other\<close>): the upgrade of the production Gitea, its
  two runner registrations, and the download of a Minecraft plugin.
\<close>

type_synonym normalizer = "exec_request \<Rightarrow> pydict \<Rightarrow> handler_error + pydict"

record normalization_env =
  nx_rt :: python_rt
  nx_tables :: norm_env
  nx_binding :: binding_env
  nx_admins :: admin_lookup
  nx_policy :: "plugin_settings option"
  nx_platform :: string
  nx_target :: "target_object option"
  nx_other :: normalizer


section \<open>Names\<close>

abbreviation ubuntu_24 :: "string \<Rightarrow> string" where
  "ubuntu_24 s \<equiv> ''os.linux.ubuntu.24.'' @ s"

definition UBUNTU_24_JOURNAL_TAIL :: string where
  "UBUNTU_24_JOURNAL_TAIL = ubuntu_24 ''journal_tail''"

definition LINUX_SERVICE_PROCEDURE_NAMES :: "string list" where
  "LINUX_SERVICE_PROCEDURE_NAMES =
     map (\<lambda>s. ubuntu_24 s) [''restart_service'', ''status_service'', ''start_service'', ''stop_service'', ''reload_service'', ''enable_service'',
       ''disable_service''] @ [UBUNTU_24_JOURNAL_TAIL]"

definition OOKLA_PROCEDURE_NAMES :: "string list" where
  "OOKLA_PROCEDURE_NAMES =
     map (\<lambda>s. ubuntu_24 (''ookla.'' @ s)) [''diagnose'', ''check_service'', ''check_listeners'', ''check_tls'', ''check_firewall'']"

definition UBUNTU_UPGRADE_26_PROCEDURE_NAMES :: "string list" where
  "UBUNTU_UPGRADE_26_PROCEDURE_NAMES =
     map (\<lambda>s. upgrade_26 s) [''analyze_preupgrade'', ''save_preupgrade_state'', ''run_upgrade'', ''verify_postupgrade'']"

definition PACKER_PROCEDURE_NAMES :: "string list" where
  "PACKER_PROCEDURE_NAMES =
     map (\<lambda>s. ''packer.vm.'' @ s) [''test_ssh_connectivity'', ''check_agent_running'', ''verify_services'', ''collect_info'']"

definition OPENBAO_1_PROCEDURE_NAMES :: "string list" where
  "OPENBAO_1_PROCEDURE_NAMES = map (\<lambda>s. ''service.openbao.1.'' @ s)
     [''inspect'', ''seal_status'', ''health'', ''policies_list'', ''auth_list'', ''secrets_list'', ''audit_list'', ''raft_list_peers'',
      ''raft_autopilot_state'', ''snapshots_list'', ''provision_netbox_approle'', ''auth_enable'', ''secrets_enable'', ''audit_enable'',
      ''snapshot_create'', ''service_action'', ''seal'', ''step_down'', ''raft_remove_peer'', ''policy_delete'', ''auth_disable'',
      ''secrets_disable'', ''audit_disable'']"


section \<open>The choice of a normalizer\<close>

definition linux_service :: "normalization_env \<Rightarrow> normalizer" where
  "linux_service env rq ps =
     rbind (normalize_linux_service_execution (nx_tables env) rq ps) (\<lambda>n.
     if proc_name (rq_procedure rq) \<noteq> UBUNTU_24_JOURNAL_TAIL then Inr n
     else rbind (raw_int_param (nx_rt env) ps ''lines'' 100) (\<lambda>i. Inr (dict_set ''lines'' (VInt i) n)))"

definition daemon_reload :: normalizer where
  "daemon_reload rq ps = Inr (handler_payload rq (rq_target_display rq))"

definition dispatch_table :: "normalization_env \<Rightarrow> (string list \<times> normalizer) list" where
  "dispatch_table env =
     (let rt = nx_rt env; tables = nx_tables env; bound = nx_binding env in
      [(LINUX_SERVICE_PROCEDURE_NAMES, linux_service env),
       ([ubuntu_24 ''daemon_reload''], daemon_reload),
       ([''os.linux_env_file.upsert_var''], normalize_linux_env_file_upsert_execution rt tables),
       ([NETBOX_PLUGIN_INSTALL], normalize_netbox_plugin_install_execution tables),
       ([''network.device.huawei.olt.ma5800.r024.start_ont''], huawei_start_ont rt),
       ([HUAWEI_NE8000_F1A_SHOW_BGP_PEER], normalize_huawei_ne8000_bgp_execution),
       ([ubuntu_24 ''install_ssh_key''], normalize_ssh_install_key_execution),
       ([''os.linux.dns_host.deploy_dns_stack''], normalize_dns_host_deploy_execution rt tables),
       ([''os.linux.dns_host.status_dns_stack''], normalize_dns_host_status_execution rt tables),
       ([ubuntu_24 ''install_qemu_guest_agent''], normalize_linux_agent_install_execution rt tables False),
       ([ubuntu_24 ''install_zabbix_agent2''], normalize_linux_agent_install_execution rt tables True),
       ([''os.linux.proxmox.convert_mellanox_nic_to_ethernet''], normalize_convert_mellanox_nic_execution rt tables),
       ([''os.linux.proxmox.pvesh_json''], normalize_pvesh_json_execution rt),
       ([LINUX_PROXMOX_OCI_REGISTRY_PULL], normalize_proxmox_oci_registry_pull_execution rt tables),
       ([''os.linux.collect_facts''], normalize_pipeline_fixed_execution rt),
       (OOKLA_PROCEDURE_NAMES, normalize_ookla_execution rt),
       (UBUNTU_UPGRADE_26_PROCEDURE_NAMES, normalize_ubuntu_upgrade_26_execution rt),
       ([''nmap-scan''], normalize_nmap_execution rt),
       (PACKER_PROCEDURE_NAMES, normalize_packer_vm_execution rt tables),
       (PASSBOLT_PROCEDURE_NAMES, normalize_passbolt_migration_execution rt),
       ([NETBOX_STAGING_ROTATE_BACKEND_TOKEN], normalize_staging_backend_token_rotation_execution rt bound),
       ([NETBOX_STAGING_DEPLOY_DNS_PAIR], normalize_dns_staging_deploy_execution rt bound),
       ([GITEA_PRODUCTION_UPGRADE_1_27_1, GITEA_RUNNER_REGISTER, GITEA_ORG_CI_RUNNER_PROVISION], nx_other env),
       (SAMBA_1_PROCEDURE_NAMES, normalize_samba_1_execution rt),
       (INFLUXDB_1_PROCEDURE_NAMES, normalize_influxdb_1_execution rt),
       (INFLUXDB3_DEBIAN13_PROCEDURE_NAMES, normalize_influxdb3_debian13_execution),
       (AKVORADO_BOOTSTRAP_DEBIAN13_PROCEDURE_NAMES, normalize_akvorado_bootstrap_debian13_execution rt bound),
       (OPENBAO_1_PROCEDURE_NAMES, normalize_openbao_1_execution rt),
       (AKVORADO_1_PROCEDURE_NAMES, normalize_akvorado_1_execution rt bound),
       ([''os.linux.proxmox.qemu_vm_lifecycle''], normalize_proxmox_qemu_vm_lifecycle_execution rt tables),
       ([''os.linux.proxmox.show_systemctl_services''], normalize_show_systemctl_services_execution rt),
       ([dell ''bootstrap_restconf''], normalize_dell_os10_bootstrap_execution rt),
       ([dell ''allow_third_party_transceiver'', dell ''show_version'', dell ''write_memory''], normalize_dell_os10_simple_execution rt),
       ([dell ''show_version_structured''], normalize_pipeline_fixed_execution rt),
       ([dell ''set_interface_description''], dell_set_interface_description rt),
       ([dell ''set_vlan_description''], dell_set_vlan_description rt),
       ([dell ''show_vlt''], dell_show_vlt rt),
       ([dell ''configure_vlt_domain''], dell_configure_vlt_domain rt),
       ([dell ''configure_vlt_peer''], dell_configure_vlt_peer rt),
       ([dell ''configure_port_channel''], dell_configure_port_channel rt),
       ([dell ''configure_interface_lacp''], dell_configure_interface_lacp rt),
       ([dell ''configure_interface_breakout''], dell_configure_interface_breakout rt),
       ([dell ''configure_interface_fec''], dell_configure_interface_fec rt),
       ([''service.nginx.1.config_test''], \<lambda>rq ps. normalize_nginx_node_execution rt rq ps []),
       ([''service.nginx.1.config_deploy''], nginx_deploy rt),
       ([''service.nginx.1.reload''], \<lambda>rq ps. normalize_nginx_node_execution rt rq ps []),
       ([''service.nginx.1.rollback''], nginx_rollback rt),
       ([''services.pterodactyl.bootstrap_api_key''], pterodactyl_bootstrap),
       ([''services.pterodactyl.artisan''], pterodactyl_artisan),
       ([''services.pterodactyl.container_logs''], pterodactyl_logs rt),
       ([''services.minecraft.plugin.install_url''], nx_other env),
       ([''services.minecraft.viaversion.install''], normalize_minecraft_viaversion_install_execution rt),
       ([''services.minecraft.papermc.install''], normalize_minecraft_papermc_install_execution rt),
       ([''services.pterodactyl.wings.status''], \<lambda>rq. normalize_pterodactyl_wings_service_execution rt rq ''status''),
       ([''services.pterodactyl.wings.logs''], wings_logs rt),
       ([''services.pterodactyl.wings.restart''], \<lambda>rq. normalize_pterodactyl_wings_service_execution rt rq ''restart'')])"

definition chosen :: "(string list \<times> normalizer) list \<Rightarrow> string \<Rightarrow> normalizer option" where
  "chosen table name = map_option snd (List.find (\<lambda>(names, f). name \<in> set names) table)"

definition dispatch_normalize_execution_params :: "normalization_env \<Rightarrow> normalizer" where
  "dispatch_normalize_execution_params env rq ps =
     (let name = proc_name (rq_procedure rq) in
      (case chosen (dispatch_table env) name of
         Some f \<Rightarrow> f rq ps
       | None \<Rightarrow> Inl (RPCExecutionError (''Procedure '' @ str_repr name @ '' has no NetBox normalizer.'') ''RPC_PROCEDURE_NOT_NORMALIZABLE'')))"

definition TABLE_NORMALIZERS :: "normalization_env \<Rightarrow> (string list \<times> normalizer) list" where
  "TABLE_NORMALIZERS env =
     (let rt = nx_rt env; bound = nx_binding env in
      [(KEYCLOAK_IAM_UI_PROCEDURE_NAMES, normalize_iam_ui_execution rt bound),
       (NETBOX_OPENBAO_IMPORT_PROCEDURE_NAMES, normalize_openbao_import_execution rt bound),
       (NMULTICLOUD_DEPLOY_RELEASE_MARKER_PROCEDURE_NAMES, normalize_release_marker_execution rt bound),
       (NETBOX_PRODUCTION_RQ_WORKER_PROCEDURE_NAMES, normalize_netbox_production_rq_worker_execution rt bound),
       (PBS_1_PROCEDURE_NAMES, normalize_pbs_execution bound),
       (UBUNTU_26_SAMBA_AD_DC_PROCEDURE_NAMES, normalize_ubuntu_26_samba_ad_dc_execution rt bound (nx_admins env)),
       (PROXBOX_API_RELEASE_IMAGES_PROCEDURE_NAMES, normalize_proxbox_api_release_images_execution rt bound)])"

definition procedure_params :: "normalization_env \<Rightarrow> normalizer" where
  "procedure_params env rq ps =
     (let name = proc_name (rq_procedure rq) in
      if name \<in> set GITEA_PROTECTED_PUBLICATION_PAIR_PROCEDURE_NAMES
      then normalize_gitea_protected_publication_pair_execution (nx_rt env) (nx_binding env) rq ps
      else if name \<in> set (GITEA_USER_CI_RUNNER_PROCEDURE_NAMES @ GITEA_ORG_CI_RUNNER_RECOVERY_PROCEDURE_NAMES)
      then normalize_gitea_docker_runner_execution (nx_rt env) (nx_binding env) rq ps
      else (case chosen (TABLE_NORMALIZERS env) name of
          Some f \<Rightarrow> f rq ps
        | None \<Rightarrow> dispatch_normalize_execution_params env rq ps))"

definition normalize_execution_params :: "normalization_env \<Rightarrow> normalizer" where
  "normalize_execution_params env rq ps =
     rbind (procedure_params env rq ps) (\<lambda>n.
     (let p = rq_procedure rq;
          n1 = apply_driver_pipeline_overrides (nx_rt env) (nx_policy env) (nx_platform env) p n;
          n2 = apply_target_object_context (nx_rt env) p (nx_target env) n1 in
      reference_error (apply_credential_fingerprint (nx_rt env) (rq_credential_references rq)
        (case rq_credential_authority rq of VDict d \<Rightarrow> d | _ \<Rightarrow> []) n2)))"

end
