(* ===== verification/PayloadSeal.thy ===== *)
theory PayloadSeal
  imports NormalizationDispatch
begin

text \<open>
  The fingerprint of a payload as a commitment to it. A normalizer writes a value to the
  payload and to the fingerprint, or a text to the payload and its digest to the fingerprint;
  the worker hashes the fingerprint. The locale \<open>sealed_normalizer\<close> states what a normalizer has
  to promise for that hash to determine the payload, up to collisions of the digest, and is
  interpreted for the normalizers of Samba, InfluxDB and OpenBao.
\<close>

section \<open>Statements that keep a predicate of the payload\<close>

definition plain_json :: "pyval \<Rightarrow> bool" where
  "plain_json v \<longleftrightarrow> exact_json v \<and> key_sorted v = v"

lemma plain_json_simps [simp]:
  "plain_json (VStr s)" "plain_json (VInt i)" "plain_json (VBool b)" "plain_json VNone"
  "plain_json (VList (map VStr ss))" "plain_json (target_object rq)"
  by (auto simp: plain_json_def target_object_def list_all_iff)

definition keeps :: "(pydict \<Rightarrow> bool) \<Rightarrow> (pydict \<Rightarrow> handler_error + pydict) \<Rightarrow> bool" where
  "keeps P f \<longleftrightarrow> (\<forall>n n'. P n \<longrightarrow> f n = Inr n' \<longrightarrow> P n')"

definition takes :: "(pydict \<Rightarrow> bool) \<Rightarrow> string \<Rightarrow> bool" where
  "takes P k \<longleftrightarrow> (\<forall>v n. P n \<longrightarrow> plain_json v \<longrightarrow> P (put_both k v n))"

definition takes_hashed :: "python_rt \<Rightarrow> (pydict \<Rightarrow> bool) \<Rightarrow> string \<Rightarrow> bool" where
  "takes_hashed rt P k \<longleftrightarrow> (\<forall>s n. P n \<longrightarrow> P (put_hashed rt k s n))"

definition takes_note :: "(pydict \<Rightarrow> bool) \<Rightarrow> string \<Rightarrow> bool" where
  "takes_note P k \<longleftrightarrow> (\<forall>v n. P n \<longrightarrow> plain_json v \<longrightarrow> P (put_fp k v n))"

named_theorems keeps_intros

lemma keepsI: "(\<And>n n'. P n \<Longrightarrow> f n = Inr n' \<Longrightarrow> P n') \<Longrightarrow> keeps P f"
  by (simp add: keeps_def)

lemma keepsD: "keeps P f \<Longrightarrow> P n \<Longrightarrow> f n = Inr n' \<Longrightarrow> P n'"
  unfolding keeps_def by iprover

lemma takesD: "takes P k \<Longrightarrow> P n \<Longrightarrow> plain_json v \<Longrightarrow> P (put_both k v n)"
  by (simp add: takes_def)

lemma takes_hashedD: "takes_hashed rt P k \<Longrightarrow> P n \<Longrightarrow> P (put_hashed rt k s n)"
  by (simp add: takes_hashed_def)

lemma takes_noteD: "takes_note P k \<Longrightarrow> P n \<Longrightarrow> plain_json v \<Longrightarrow> P (put_fp k v n)"
  by (simp add: takes_note_def)

lemma keeps_Inr [keeps_intros]: "keeps P Inr"
  by (simp add: keeps_def)

lemma keeps_rseq [keeps_intros]: "list_all (keeps P) fs \<Longrightarrow> keeps P (rseq fs)"
proof (rule keepsI)
  fix n n' assume fs: "list_all (keeps P) fs" and run: "P n" "rseq fs n = Inr n'"
  show "P n'"
  proof (rule rseq_invariant [where P = P, OF run(2) run(1)])
    fix f m m' assume step: "f \<in> set fs" "P m" "f m = Inr m'"
    from fs step(1) have "keeps P f" by (simp add: list_all_iff)
    then show "P m'" using step(2,3) by (rule keepsD)
  qed
qed

lemma keeps_all [keeps_intros]:
  "list_all (keeps P) []" "keeps P f \<Longrightarrow> list_all (keeps P) fs \<Longrightarrow> list_all (keeps P) (f # fs)"
  by simp_all

lemma keeps_if [keeps_intros]:
  "keeps P f \<Longrightarrow> keeps P g \<Longrightarrow> keeps P (\<lambda>n. if b n then f n else g n)"
  by (rule keepsI, simp split: if_splits) (erule (2) keepsD)+

lemma keeps_guard [keeps_intros]: "keeps P f \<Longrightarrow> keeps P (\<lambda>n. rbind (guard (b n) e) (\<lambda>_. f n))"
  by (auto simp: keeps_def rbind_Inr_iff)

lemma keeps_when_in [keeps_intros]: "keeps P f \<Longrightarrow> keeps P (when_in name names f)"
  by (simp add: keeps_def when_in_def)

lemma keeps_unless_none [keeps_intros]: "keeps P f \<Longrightarrow> keeps P (unless_none ps k f)"
  by (simp add: keeps_def unless_none_def)

lemma put_some_kept: "takes P k \<Longrightarrow> P n \<Longrightarrow> (\<And>x. v = Some x \<Longrightarrow> plain_json x) \<Longrightarrow> P (put_some k v n)"
  by (auto simp: put_some_def takesD split: option.splits)

lemma keeps_copy_valid [keeps_intros]: "takes P k \<Longrightarrow> keeps P (copy_valid f ps k)"
  by (auto simp: keeps_def copy_valid_def rbind_Inr_iff takesD)

lemma keeps_copy_bool [keeps_intros]: "takes P k \<Longrightarrow> keeps P (copy_bool ps k dflt)"
  by (auto simp: keeps_def copy_bool_def rbind_Inr_iff takesD)

lemma keeps_copy_optional [keeps_intros]: "takes P k \<Longrightarrow> keeps P (copy_optional f ps k)"
  by (auto simp: keeps_def copy_optional_def put_text_def rbind_Inr_iff takesD)

lemma keeps_copy_optional_int [keeps_intros]: "takes P k \<Longrightarrow> keeps P (copy_optional_int rt ps k lo hi)"
  by (rule keepsI) (auto simp: copy_optional_int_def rbind_Inr_iff intro: put_some_kept)

lemma keeps_value: "(\<And>n. P n \<Longrightarrow> P (F n)) \<Longrightarrow> keeps P (\<lambda>n. Inr (F n))"
  by (simp add: keeps_def)

lemma keeps_bind: "keeps P f \<Longrightarrow> keeps P g \<Longrightarrow> keeps P (\<lambda>n. rbind (f n) g)"
  by (rule keepsI) (auto simp: rbind_Inr_iff dest: keepsD)

lemma keeps_bind_value: "(\<And>a. m = Inr a \<Longrightarrow> keeps P (g a)) \<Longrightarrow> keeps P (\<lambda>n. rbind m (\<lambda>a. g a n))"
  by (cases m) (simp_all add: keeps_def)

lemma keeps_ssh_overrides [keeps_intros]:
  assumes "takes P ''rpc_ssh_credential_pk''" "takes P ''rpc_ssh_host''" "takes P ''rpc_ssh_port''"
    "takes_hashed rt P ''rpc_ssh_known_hosts_entry''" "takes P ''rpc_ssh_strict_host_key_checking''"
  shows "keeps P (copy_optional_ssh_overrides rt ps)"
proof -
  have some: "P (put_some k (map_option VInt i) m)" if "takes P k" "P m" for k i m
    using that by (rule put_some_kept) auto
  have credential: "keeps P (copy_optional_credential_override rt ps)"
    unfolding copy_optional_credential_override_def [abs_def]
    by (intro keeps_bind_value keeps_value some assms)
  show ?thesis
    unfolding copy_optional_ssh_overrides_def [abs_def] Let_def
    by (intro keeps_bind keeps_bind_value keeps_if keeps_value keeps_Inr credential)
      (auto intro!: takesD [where P = P] takes_hashedD [where P = P] some assms)
qed


section \<open>Sealed payloads\<close>

text \<open>
  A payload is sealed by its fingerprint: a key of \<open>hashed\<close> has its digest there, a key of
  \<open>noted\<close> is only there, a key of \<open>settled\<close> is exempt, and any other key has the same value in
  both.
\<close>

definition digest_key :: "string \<Rightarrow> string" where
  "digest_key k = k @ ''_sha256''"

definition hash_matches :: "python_rt \<Rightarrow> pydict \<Rightarrow> string \<Rightarrow> bool" where
  "hash_matches rt n k \<longleftrightarrow>
     (case map_of n k of
        None \<Rightarrow> map_of (fingerprint n) (digest_key k) = None
      | Some v \<Rightarrow> \<exists>s. v = VStr s \<and> map_of (fingerprint n) (digest_key k) = Some (VStr (rt_sha256 rt s)))"

definition commitment :: "pydict \<Rightarrow> bool" where
  "commitment n \<longleftrightarrow> dget n ''command_fingerprint'' = VDict (fingerprint n) \<and> distinct (dict_keys (fingerprint n))
     \<and> (\<forall>k v. map_of (fingerprint n) k = Some v \<longrightarrow> plain_json v)"

lemma map_of_put_fp [simp]:
  "map_of (put_fp k v n) = (map_of n)(''command_fingerprint'' \<mapsto> VDict (dict_set k v (fingerprint n)))"
  by (simp add: put_fp_def)

lemma commitment_put_fp [simp]: "commitment n \<Longrightarrow> plain_json v \<Longrightarrow> commitment (put_fp k v n)"
  unfolding commitment_def fingerprint_put_fp by (simp add: distinct_dict_set) (simp add: put_fp_def)

lemma commitment_dict_set [simp]: "commitment n \<Longrightarrow> k \<noteq> ''command_fingerprint'' \<Longrightarrow> commitment (dict_set k w n)"
  by (simp add: commitment_def)

lemma hash_matches_other:
  "map_of n' k = map_of n k \<Longrightarrow> map_of (fingerprint n') (digest_key k) = map_of (fingerprint n) (digest_key k)
   \<Longrightarrow> hash_matches rt n' k = hash_matches rt n k"
  unfolding hash_matches_def by presburger

lemma hash_matches_put: "k \<noteq> ''command_fingerprint'' \<Longrightarrow> hash_matches rt (put_hashed rt k s n) k"
  by (simp add: hash_matches_def put_hashed_def digest_key_def hash_text_def)

lemma plain_dict_sorted:
  assumes "\<forall>k v. map_of d k = Some v \<longrightarrow> plain_json v" "distinct (dict_keys d)"
  shows "exact_json (VDict d)" "key_sorted (VDict d) = VDict (sort_key fst d)"
proof -
  from assms have plain: "plain_json v" if "(k, v) \<in> set d" for k v using that by auto
  then show "exact_json (VDict d)" by (auto simp: list_all_iff plain_json_def)
  from plain have "map (\<lambda>(k, v). (k, key_sorted v)) d = d" by (intro map_idI) (auto simp: plain_json_def)
  then show "key_sorted (VDict d) = VDict (sort_key fst d)" by simp
qed

lemma same_hash_same_fingerprint:
  assumes "commitment n" "commitment n'"
    and "hash_json rt (dget n ''command_fingerprint'') = hash_json rt (dget n' ''command_fingerprint'')"
  shows "map_of (fingerprint n) = map_of (fingerprint n') \<or> (\<exists>s s'. s \<noteq> s' \<and> rt_sha256 rt s = rt_sha256 rt s')"
proof (cases "json_dumps (VDict (fingerprint n)) = json_dumps (VDict (fingerprint n'))")
  case True
  with assms(1,2) have "sort_key fst (fingerprint n) = sort_key fst (fingerprint n')"
    using json_dumps_unique [OF _ _ True] plain_dict_sorted [of "fingerprint n"] plain_dict_sorted [of "fingerprint n'"]
    unfolding commitment_def by simp
  with assms(1,2) show ?thesis by (metis commitment_def map_of_sort_key_fst)
next
  case False
  moreover from assms have "rt_sha256 rt (json_dumps (VDict (fingerprint n))) = rt_sha256 rt (json_dumps (VDict (fingerprint n')))"
    by (simp only: hash_json_def commitment_def pyval.distinct if_False)
  ultimately show ?thesis by blast
qed

definition shared :: "string set \<Rightarrow> string \<Rightarrow> bool" where
  "shared own k \<longleftrightarrow> k \<notin> own \<and> k \<noteq> ''command_fingerprint''"

definition sealed :: "python_rt \<Rightarrow> string set \<Rightarrow> string set \<Rightarrow> string set \<Rightarrow> pydict \<Rightarrow> bool" where
  "sealed rt hashed noted settled n \<longleftrightarrow> commitment n \<and> (\<forall>k \<in> hashed. hash_matches rt n k) \<and> (\<forall>k \<in> noted. map_of n k = None)
     \<and> (\<forall>k. shared (hashed \<union> noted \<union> settled) k \<longrightarrow> map_of n k = map_of (fingerprint n) k)"

locale payload_keys =
  fixes hashed noted settled :: "string set"
  assumes digests_noted: "k \<in> hashed \<Longrightarrow> digest_key k \<in> noted"
    and keys_apart: "hashed \<inter> (noted \<union> settled) = {}" "noted \<inter> settled = {}"
    and fingerprint_apart: "''command_fingerprint'' \<notin> hashed \<union> noted \<union> settled"
begin

lemma digest_key_apart:
  "k \<in> hashed \<Longrightarrow> digest_key k \<notin> hashed \<union> settled" "k \<in> hashed \<Longrightarrow> k \<noteq> ''command_fingerprint''"
  using digests_noted keys_apart fingerprint_apart by auto

lemma put_both_sealed:
  assumes "sealed rt hashed noted settled n" "plain_json v" "shared (hashed \<union> noted \<union> settled) k"
  shows "sealed rt hashed noted settled (put_both k v n)"
proof -
  have "hash_matches rt (put_both k v n) h = hash_matches rt n h" if "h \<in> hashed" for h
    using that assms(3) digests_noted [OF that] digest_key_apart [OF that]
    by (intro hash_matches_other) (auto simp: put_both_def shared_def)
  with assms fingerprint_apart show ?thesis
    by (auto simp: sealed_def put_both_def shared_def)
qed

lemma put_hashed_sealed:
  assumes "sealed rt hashed noted settled n" "k \<in> hashed"
  shows "sealed rt hashed noted settled (put_hashed rt k s n)"
proof -
  have "hash_matches rt (put_hashed rt k s n) h" if "h \<in> hashed" for h
  proof (cases "h = k")
    case True
    then show ?thesis using digest_key_apart [OF that] by (simp add: hash_matches_put)
  next
    case False
    then have "hash_matches rt (put_hashed rt k s n) h = hash_matches rt n h"
      using digest_key_apart [OF that] digest_key_apart [OF assms(2)]
      by (intro hash_matches_other) (auto simp: put_hashed_def digest_key_def)
    with assms(1) that show ?thesis by (simp add: sealed_def)
  qed
  with assms digests_noted [OF assms(2)] digest_key_apart [OF assms(2)] keys_apart fingerprint_apart show ?thesis
    by (auto simp: sealed_def put_hashed_def shared_def digest_key_def)
qed

lemma put_fp_sealed:
  assumes "sealed rt hashed noted settled n" "plain_json v" "k \<in> noted" "k \<notin> digest_key ` hashed"
  shows "sealed rt hashed noted settled (put_fp k v n)"
proof -
  have "hash_matches rt (put_fp k v n) h = hash_matches rt n h" if "h \<in> hashed" for h
    using that assms(4) digest_key_apart [OF that] by (intro hash_matches_other) auto
  with assms fingerprint_apart show ?thesis by (auto simp: sealed_def shared_def)
qed

lemma put_settled_sealed:
  assumes "sealed rt hashed noted settled n" "k \<in> settled"
  shows "sealed rt hashed noted settled (dict_set k v n)"
proof -
  have k: "k \<notin> hashed" "k \<notin> noted" "k \<noteq> ''command_fingerprint''" using assms(2) keys_apart fingerprint_apart by auto
  have "hash_matches rt (dict_set k v n) h = hash_matches rt n h" if "h \<in> hashed" for h
    using that k by (intro hash_matches_other) auto
  with assms k show ?thesis by (auto simp: sealed_def shared_def)
qed

end

text \<open>A payload whose only settled key is the name of the target.\<close>

definition sealed_at :: "python_rt \<Rightarrow> string set \<Rightarrow> string set \<Rightarrow> string \<Rightarrow> pydict \<Rightarrow> bool" where
  "sealed_at rt hashed noted t n \<longleftrightarrow> sealed rt hashed noted {''target''} n \<and> map_of n ''target'' = Some (VStr t)"

locale target_keys = payload_keys hashed noted "{''target''}" for hashed noted :: "string set"
begin

lemma takes_shared:
  assumes "shared (hashed \<union> noted \<union> {''target''}) k"
  shows "takes (sealed_at rt hashed noted t) k"
proof -
  from assms have "k \<noteq> ''target''" by (simp add: shared_def)
  with assms show ?thesis by (simp add: takes_def sealed_at_def put_both_sealed) (simp add: put_both_def)
qed

lemma takes_digest:
  assumes "k \<in> hashed"
  shows "takes_hashed rt (sealed_at rt hashed noted t) k"
proof -
  from assms keys_apart have "k \<noteq> ''target''" by auto
  with assms show ?thesis by (simp add: takes_hashed_def sealed_at_def put_hashed_sealed) (simp add: put_hashed_def)
qed

lemma takes_noted:
  assumes "k \<in> noted" "k \<notin> digest_key ` hashed"
  shows "takes_note (sealed_at rt hashed noted t) k"
  using assms by (simp add: takes_note_def sealed_at_def put_fp_sealed)

end

text \<open>
  A normalizer whose payloads are sealed, and whose settled keys follow from the fingerprint:
  the hash of the fingerprint determines the payload.
\<close>

locale sealed_normalizer = payload_keys +
  fixes rt :: python_rt and run :: normalizer
  assumes payload_sealed: "run rq ps = Inr n \<Longrightarrow> sealed rt hashed noted settled n"
    and settled_follow: "run rq ps = Inr n \<Longrightarrow> run rq ps' = Inr n' \<Longrightarrow> map_of (fingerprint n) = map_of (fingerprint n')
      \<Longrightarrow> k \<in> settled \<Longrightarrow> map_of n k = map_of n' k"
begin

lemma same_text_or_collision:
  assumes "sealed rt hashed noted settled n" "sealed rt hashed noted settled n'" "k \<in> hashed"
    and "map_of (fingerprint n) = map_of (fingerprint n')"
  shows "map_of n k = map_of n' k \<or> (\<exists>s s'. s \<noteq> s' \<and> rt_sha256 rt s = rt_sha256 rt s')"
proof -
  from assms(1-3) have "hash_matches rt n k" "hash_matches rt n' k" by (auto simp: sealed_def)
  with assms(4) show ?thesis unfolding hash_matches_def
    by (cases "map_of n k"; cases "map_of n' k") (simp; metis option.inject pyval.inject)+
qed

lemma hash_binds_payload:
  assumes run: "run rq ps = Inr n" "run rq ps' = Inr n'"
    and hash: "hash_json rt (dget n ''command_fingerprint'') = hash_json rt (dget n' ''command_fingerprint'')"
    and k: "k \<noteq> ''command_fingerprint''"
  shows "map_of n k = map_of n' k \<or> (\<exists>s s'. s \<noteq> s' \<and> rt_sha256 rt s = rt_sha256 rt s')"
proof (cases "\<exists>s s'. s \<noteq> s' \<and> rt_sha256 rt s = rt_sha256 rt s'")
  case False
  have sealed: "sealed rt hashed noted settled n" "sealed rt hashed noted settled n'" using run payload_sealed by auto
  with hash False have fp: "map_of (fingerprint n) = map_of (fingerprint n')"
    using same_hash_same_fingerprint [of n n' rt] by (auto simp: sealed_def)
  consider "k \<in> settled" | "k \<in> hashed" | "k \<in> noted" | "shared (hashed \<union> noted \<union> settled) k"
    using k by (auto simp: shared_def)
  then show ?thesis
  proof cases
    case 1
    then show ?thesis using settled_follow [OF run fp] by simp
  next
    case 2
    then show ?thesis using same_text_or_collision [OF sealed _ fp] by simp
  qed (use sealed fp in \<open>auto simp: sealed_def\<close>)
qed simp

end

end
