(* ===== verification/NormalizationProps.thy ===== *)
theory NormalizationProps
  imports PayloadSeal DispatchProps
begin

text \<open>
  What the normalizers of \<open>domain/normalization.py\<close> promise: the hash of the command
  fingerprint determines the payload, smb.conf bodies run no commands, and the choice of the
  normalizer.
\<close>

section \<open>Samba\<close>

definition samba_hashed :: "string set" where
  "samba_hashed = {''config_content'', ''content'', ''comment'', ''full_name'', ''rpc_ssh_known_hosts_entry''}"

definition samba_noted :: "string set" where
  "samba_noted = {''config_content_sha256'', ''content_sha256'', ''comment_sha256'', ''full_name_sha256'',
     ''rpc_ssh_known_hosts_entry_sha256'', ''config_content_bytes'', ''content_bytes'', ''handler_id'', ''procedure''}"

definition samba_settled :: "string set" where
  "samba_settled = {''target'', ''members_csv''}"

lemmas samba_keys = samba_hashed_def samba_noted_def samba_settled_def

interpretation samba_payload: payload_keys samba_hashed samba_noted samba_settled
  by unfold_locales (auto simp: samba_keys digest_key_def)

text \<open>The comma-separated members are those of the fingerprint.\<close>

definition members_text :: "pydict \<Rightarrow> pyval option" where
  "members_text n = (case map_of (fingerprint n) ''members'' of
       Some (VList vs) \<Rightarrow> Some (VStr (join_with '','' (map py_str vs))) | _ \<Rightarrow> None)"

definition samba_sealed :: "python_rt \<Rightarrow> exec_request \<Rightarrow> pydict \<Rightarrow> bool" where
  "samba_sealed rt rq n \<longleftrightarrow> sealed rt samba_hashed samba_noted samba_settled n
     \<and> map_of n ''target'' = Some (VStr (rq_target_display rq)) \<and> map_of n ''members_csv'' = members_text n"

lemma members_text_put [simp]:
  "k \<noteq> ''members'' \<Longrightarrow> members_text (put_fp k v n) = members_text n"
  "k \<noteq> ''command_fingerprint'' \<Longrightarrow> members_text (dict_set k v n) = members_text n"
  by (simp_all add: members_text_def)

lemma samba_takes:
  assumes "shared (samba_hashed \<union> samba_noted \<union> samba_settled) k" "k \<noteq> ''members''"
  shows "takes (samba_sealed rt rq) k"
proof -
  from assms have "k \<notin> {''target'', ''members_csv'', ''command_fingerprint''}" by (simp add: shared_def samba_settled_def)
  with assms show ?thesis
    by (simp add: takes_def samba_sealed_def samba_payload.put_both_sealed) (auto simp: put_both_def)
qed

lemma samba_takes_hashed:
  assumes "k \<in> samba_hashed"
  shows "takes_hashed rt (samba_sealed rt rq) k"
proof -
  from assms have "k \<notin> {''target'', ''members_csv'', ''command_fingerprint''}" "k @ ''_sha256'' \<noteq> ''members''"
    by (auto simp: samba_hashed_def)
  with assms show ?thesis
    by (simp add: takes_hashed_def samba_sealed_def samba_payload.put_hashed_sealed) (auto simp: put_hashed_def)
qed

lemma samba_takes_note:
  assumes "k \<in> samba_noted" "k \<notin> digest_key ` samba_hashed"
  shows "takes_note (samba_sealed rt rq) k"
proof -
  from assms have "k \<noteq> ''members''" by (auto simp: samba_noted_def)
  with assms show ?thesis by (simp add: takes_note_def samba_sealed_def samba_payload.put_fp_sealed)
qed

lemma keeps_samba_body [keeps_intros]:
  assumes "takes_hashed rt P k" "takes_note P (k @ ''_bytes'')"
  shows "keeps P (copy_body rt ps k)"
  unfolding copy_body_def [abs_def]
  by (intro keeps_bind_value keeps_value takes_noteD [OF assms(2)] takes_hashedD [OF assms(1)]) simp_all

lemma keeps_share_text [keeps_intros]: "takes_hashed rt P k \<Longrightarrow> keeps P (copy_share_text rt ps k)"
  unfolding copy_share_text_def [abs_def]
  by (intro keeps_bind_value keeps_value) (simp add: takes_hashedD)

lemma keeps_principals [keeps_intros]: "takes P k \<Longrightarrow> keeps P (copy_principals ps k)"
  unfolding copy_principals_def [abs_def]
  by (intro keeps_bind_value keeps_value) (simp add: takesD)

lemma keeps_samba_members: "keeps (samba_sealed rt rq) (copy_members ps)"
proof (rule keepsI)
  fix n n' assume n: "samba_sealed rt rq n" "copy_members ps n = Inr n'"
  then obtain g members where n': "n' = dict_set ''members_csv'' (VStr (join_with '','' members))
      (put_both ''members'' (VList (map VStr members)) (put_both ''group_name'' (VStr g) n))" (is "_ = dict_set _ _ ?m")
    by (auto simp: copy_members_def rbind_Inr_iff)
  have "shared (samba_hashed \<union> samba_noted \<union> samba_settled) k" if "k \<in> {''members'', ''group_name''}" for k
    using that by (auto simp: shared_def samba_keys)
  with n(1) have "sealed rt samba_hashed samba_noted samba_settled ?m"
    by (simp add: samba_sealed_def samba_payload.put_both_sealed)
  then have "sealed rt samba_hashed samba_noted samba_settled n'"
    unfolding n' by (rule samba_payload.put_settled_sealed) (simp add: samba_settled_def)
  with n(1) show "samba_sealed rt rq n'"
    by (simp add: samba_sealed_def n' put_both_def members_text_def comp_def)
qed

lemma keeps_service_control:
  "takes P ''unit'' \<Longrightarrow> takes P ''action'' \<Longrightarrow> takes P ''systemd_unit'' \<Longrightarrow> keeps P (copy_service_control ps)"
  unfolding copy_service_control_def [abs_def]
  by (intro keeps_bind_value keeps_value) (simp add: takesD)

lemma keeps_password: "takes P ''password_sha256'' \<Longrightarrow> takes P ''password_bytes'' \<Longrightarrow> keeps P (copy_password ps)"
  by (rule keepsI) (auto simp: copy_password_def rbind_Inr_iff takesD)

lemma samba_steps_keep: "list_all (keeps (samba_sealed rt rq)) (samba_steps rt name ps)"
  unfolding samba_steps_def copy_samba_share_upsert_params_def
  by (intro keeps_intros keeps_samba_members keeps_service_control keeps_password samba_takes samba_takes_hashed samba_takes_note)
    (simp_all add: shared_def samba_keys digest_key_def)

lemma samba_payload_sealed: "normalize_samba_1_execution rt rq ps = Inr n \<Longrightarrow> samba_sealed rt rq n"
proof -
  have "samba_sealed rt rq (procedure_payload rq (rq_target_display rq))"
    by (auto simp: samba_sealed_def sealed_def commitment_def hash_matches_def members_text_def shared_def samba_keys digest_key_def
        procedure_payload_def fingerprint_def split: if_splits)
  then show "normalize_samba_1_execution rt rq ps = Inr n \<Longrightarrow> samba_sealed rt rq n"
    unfolding normalize_samba_1_execution_def by (rule keepsD [OF keeps_rseq [OF samba_steps_keep]])
qed

interpretation samba_normalizer: sealed_normalizer samba_hashed samba_noted samba_settled rt "normalize_samba_1_execution rt" for rt
proof unfold_locales
  fix rq ps n assume "normalize_samba_1_execution rt rq ps = Inr n"
  then show "sealed rt samba_hashed samba_noted samba_settled n" using samba_payload_sealed by (simp add: samba_sealed_def)
next
  fix rq ps ps' n n' k
  assume "normalize_samba_1_execution rt rq ps = Inr n" "normalize_samba_1_execution rt rq ps' = Inr n'"
    and "map_of (fingerprint n) = map_of (fingerprint n')" "k \<in> samba_settled"
  moreover from this have "samba_sealed rt rq n" "samba_sealed rt rq n'" by (simp_all add: samba_payload_sealed)
  ultimately show "map_of n k = map_of n' k" by (auto simp: samba_sealed_def samba_settled_def members_text_def)
qed


section \<open>InfluxDB\<close>

definition influx_hashed :: "string set" where
  "influx_hashed = {''config_content'', ''content'', ''rpc_ssh_known_hosts_entry''}"

definition influx_noted :: "string set" where
  "influx_noted = {''config_content_sha256'', ''content_sha256'', ''rpc_ssh_known_hosts_entry_sha256'',
     ''config_content_bytes'', ''content_bytes'', ''handler_id'', ''procedure''}"

lemmas influx_keys = influx_hashed_def influx_noted_def

interpretation influx_payload: target_keys influx_hashed influx_noted
  by unfold_locales (auto simp: influx_keys digest_key_def)

lemma keeps_influx_file: "takes P ''scope'' \<Longrightarrow> takes P ''relative_path'' \<Longrightarrow> keeps P (influx_file ps)"
  by (rule keepsI) (auto simp: influx_file_def rbind_Inr_iff takesD)

lemma keeps_influx_content:
  assumes "takes_hashed rt P k" "takes_note P (k @ ''_bytes'')"
  shows "keeps P (influx_content rt ps k)"
  unfolding influx_content_def [abs_def]
  by (intro keeps_bind_value keeps_value takes_noteD [OF assms(2)] takes_hashedD [OF assms(1)]) simp_all

lemma keeps_influx_simple:
  "takes P ''mode'' \<Longrightarrow> keeps P (influx_mode ps)"
  "takes P ''snapshot_id'' \<Longrightarrow> keeps P (influx_snapshot ps)"
  "takes P ''lines'' \<Longrightarrow> keeps P (influx_journal rt ps)"
  "takes P ''admin_secret_ref'' \<Longrightarrow> keeps P (copy_influxdb_admin_ref ps)"
  "takes P ''access'' \<Longrightarrow> takes P ''token_name'' \<Longrightarrow> keeps P (influx_token_name ps)"
  by (rule keepsI, auto simp: influx_mode_def influx_snapshot_def influx_journal_def copy_influxdb_admin_ref_def
      influx_token_name_def Let_def rbind_Inr_iff takesD)+

lemmas influx_copies = influx_bootstrap_def influx_database_def influx_token_def copy_named_def [abs_def]
  copy_influxdb_tenant_id_def [abs_def] copy_influxdb_retention_def [abs_def]

lemma influx_steps_keep: "list_all (keeps (sealed_at rt influx_hashed influx_noted t)) (influxdb_1_steps rt name ps)"
  unfolding influxdb_1_steps_def influx_copies
  by (intro keeps_intros keeps_influx_file keeps_influx_content keeps_influx_simple influx_payload.takes_shared
      influx_payload.takes_digest influx_payload.takes_noted)
    (simp_all add: shared_def influx_keys digest_key_def)

lemma influx_payload_sealed:
  "normalize_influxdb_1_execution rt rq ps = Inr n \<Longrightarrow> sealed_at rt influx_hashed influx_noted (rq_target_display rq) n"
proof -
  have "sealed_at rt influx_hashed influx_noted (rq_target_display rq) (procedure_payload rq (rq_target_display rq))"
    by (auto simp: sealed_at_def sealed_def commitment_def hash_matches_def shared_def influx_keys digest_key_def
        procedure_payload_def fingerprint_def split: if_splits)
  then show "normalize_influxdb_1_execution rt rq ps = Inr n \<Longrightarrow> sealed_at rt influx_hashed influx_noted (rq_target_display rq) n"
    unfolding normalize_influxdb_1_execution_def by (rule keepsD [OF keeps_rseq [OF influx_steps_keep]])
qed

interpretation influx_normalizer: sealed_normalizer influx_hashed influx_noted "{''target''}" rt "normalize_influxdb_1_execution rt" for rt
proof unfold_locales
  fix rq ps n assume "normalize_influxdb_1_execution rt rq ps = Inr n"
  then show "sealed rt influx_hashed influx_noted {''target''} n" using influx_payload_sealed by (simp add: sealed_at_def)
next
  fix rq ps ps' n n' k
  assume "normalize_influxdb_1_execution rt rq ps = Inr n" "normalize_influxdb_1_execution rt rq ps' = Inr n'" "k \<in> {''target''}"
  then show "map_of n k = map_of n' k"
    using influx_payload_sealed [of rt rq ps n] influx_payload_sealed [of rt rq ps' n'] by (simp add: sealed_at_def)
qed


section \<open>OpenBao\<close>

definition openbao_noted :: "string set" where
  "openbao_noted = {''handler_id'', ''procedure'', ''target_object_sha256''}"

interpretation openbao_payload: target_keys "{}" openbao_noted
  by unfold_locales (auto simp: openbao_noted_def)

lemma keeps_openbao_copies:
  "takes P ''kv_version'' \<Longrightarrow> keeps P (copy_kv_version ps)"
  "takes P ''ttl_seconds'' \<Longrightarrow> keeps P (copy_ttl ps)"
  "takes P ''restart_netbox'' \<Longrightarrow> keeps P (copy_restart ps)"
  by (rule keepsI, auto simp: copy_kv_version_def copy_ttl_def copy_restart_def rbind_Inr_iff takesD split: pyval.splits)+

lemma openbao_steps_keep: "list_all (keeps (sealed_at rt {} openbao_noted t)) (openbao_steps operation ps)"
  unfolding openbao_steps_def copy_approle_def
  by (intro keeps_intros keeps_openbao_copies openbao_payload.takes_shared) (simp_all add: shared_def openbao_noted_def)

lemma openbao_payload_sealed:
  assumes "normalize_openbao_1_execution rt rq ps = Inr n"
  shows "sealed_at rt {} openbao_noted (rq_target_display rq) n"
proof -
  have "sealed_at rt {} openbao_noted (rq_target_display rq) (openbao_payload rt rq)"
    by (auto simp: sealed_at_def sealed_def commitment_def shared_def openbao_noted_def openbao_payload_def Let_def fingerprint_def
        split: if_splits)
  moreover from assms obtain operation where "rseq (openbao_steps operation ps) (openbao_payload rt rq) = Inr n"
    by (auto simp: normalize_openbao_1_execution_def Let_def rbind_Inr_iff split: option.splits)
  ultimately show ?thesis by (rule keepsD [OF keeps_rseq [OF openbao_steps_keep]])
qed

interpretation openbao_normalizer: sealed_normalizer "{}" openbao_noted "{''target''}" rt "normalize_openbao_1_execution rt" for rt
proof unfold_locales
  fix rq ps n assume "normalize_openbao_1_execution rt rq ps = Inr n"
  then show "sealed rt {} openbao_noted {''target''} n" using openbao_payload_sealed by (simp add: sealed_at_def)
next
  fix rq ps ps' n n' k
  assume "normalize_openbao_1_execution rt rq ps = Inr n" "normalize_openbao_1_execution rt rq ps' = Inr n'" "k \<in> {''target''}"
  then show "map_of n k = map_of n' k"
    using openbao_payload_sealed [of rt rq ps n] openbao_payload_sealed [of rt rq ps' n'] by (simp add: sealed_at_def)
qed


section \<open>The choice of a normalizer\<close>

text \<open>A row is skipped when the name has a prefix that none of the row's names has.\<close>

lemma chosen_skip: "prefix p name \<Longrightarrow> list_all (\<lambda>x. \<not> prefix p x) names \<Longrightarrow> chosen ((names, f) # rows) name = chosen rows name"
  by (auto simp: chosen_def list_all_iff)

lemma chosen_hit: "name \<in> set names \<Longrightarrow> chosen ((names, f) # rows) name = Some f"
  by (simp add: chosen_def)

lemma chosen_Nil: "chosen [] name = None"
  by (simp add: chosen_def)


lemmas procedure_names =
  LINUX_SERVICE_PROCEDURE_NAMES_def UBUNTU_24_JOURNAL_TAIL_def OOKLA_PROCEDURE_NAMES_def
  UBUNTU_UPGRADE_26_PROCEDURE_NAMES_def PACKER_PROCEDURE_NAMES_def NETBOX_PLUGIN_INSTALL_def
  HUAWEI_NE8000_F1A_SHOW_BGP_PEER_def PASSBOLT_EXPORT_SECRETS_def PASSBOLT_TRANSFER_SECRETS_def
  PASSBOLT_IMPORT_SECRETS_def PASSBOLT_CLEANUP_def PASSBOLT_PROCEDURE_NAMES_def NETBOX_STAGING_ROTATE_BACKEND_TOKEN_def
  NETBOX_STAGING_DEPLOY_DNS_PAIR_def NETBOX_OPENBAO_IMPORT_DRY_RUN_def NETBOX_OPENBAO_IMPORT_APPLY_def
  NETBOX_OPENBAO_IMPORT_PROCEDURE_NAMES_def NMULTICLOUD_DEPLOY_RELEASE_MARKER_CHECK_def
  NMULTICLOUD_DEPLOY_RELEASE_MARKER_RECONCILE_def NMULTICLOUD_DEPLOY_RELEASE_MARKER_PROCEDURE_NAMES_def
  PROXBOX_API_RELEASE_IMAGES_INSPECT_def PROXBOX_API_RELEASE_IMAGES_RECOVER_def
  PROXBOX_API_RELEASE_IMAGES_PROCEDURE_NAMES_def GITEA_PRODUCTION_UPGRADE_1_27_1_def GITEA_RUNNER_REGISTER_def
  GITEA_ORG_CI_RUNNER_PROVISION_def GITEA_PROTECTED_PUBLICATION_PAIR_PROVE_def
  GITEA_PROTECTED_PUBLICATION_PAIR_PROVISION_def GITEA_PROTECTED_PUBLICATION_PAIR_PROCEDURE_NAMES_def
  GITEA_USER_CI_RUNNER_DIAGNOSE_def GITEA_USER_CI_RUNNER_RECOVER_def GITEA_USER_CI_RUNNER_PROCEDURE_NAMES_def
  GITEA_ORG_CI_RUNNER_DIAGNOSE_def GITEA_ORG_CI_RUNNER_RECOVER_def GITEA_ORG_CI_RUNNER_RECOVERY_PROCEDURE_NAMES_def
  INFLUXDB3_DEBIAN13_PREFLIGHT_def INFLUXDB3_DEBIAN13_INSTALL_def INFLUXDB3_DEBIAN13_PROCEDURE_NAMES_def PBS_1_STATUS_def
  PBS_1_CERT_FINGERPRINT_def PBS_1_DISK_LIST_def PBS_1_DATASTORE_FROM_DISK_def PBS_1_PROCEDURE_NAMES_def
  AKVORADO_BOOTSTRAP_DEBIAN13_PREFLIGHT_def AKVORADO_BOOTSTRAP_DEBIAN13_INSTALL_def
  AKVORADO_BOOTSTRAP_DEBIAN13_PROCEDURE_NAMES_def LINUX_PROXMOX_OCI_REGISTRY_PULL_def UBUNTU_26_SAMBA_AD_DC_PREFLIGHT_def
  UBUNTU_26_SAMBA_AD_DC_PROVISION_def UBUNTU_26_SAMBA_AD_DC_VERIFY_def UBUNTU_26_SAMBA_AD_DC_PROCEDURE_NAMES_def
  NETBOX_PRODUCTION_STATUS_RQ_WORKER_def NETBOX_PRODUCTION_RESTART_RQ_WORKER_def
  NETBOX_PRODUCTION_RQ_WORKER_PROCEDURE_NAMES_def KEYCLOAK_IAM_UI_PROCEDURE_NAMES_def

lemmas service_names = SAMBA_1_PROCEDURE_NAMES_def INFLUXDB_1_PROCEDURE_NAMES_def OPENBAO_1_PROCEDURE_NAMES_def

lemma service_prefixes:
  "name \<in> set SAMBA_1_PROCEDURE_NAMES \<Longrightarrow> prefix ''service.samba.1.'' name"
  "name \<in> set INFLUXDB_1_PROCEDURE_NAMES \<Longrightarrow> prefix ''service.influxdb.1.'' name"
  "name \<in> set OPENBAO_1_PROCEDURE_NAMES \<Longrightarrow> prefix ''service.openbao.1.'' name"
  by (auto simp: service_names)

lemma samba_row: "name \<in> set SAMBA_1_PROCEDURE_NAMES \<Longrightarrow>
    chosen (dispatch_table env) name = Some (normalize_samba_1_execution (nx_rt env))"
  by (frule service_prefixes) (simp add: dispatch_table_def Let_def chosen_skip chosen_hit procedure_names)

lemma influx_row: "name \<in> set INFLUXDB_1_PROCEDURE_NAMES \<Longrightarrow>
    chosen (dispatch_table env) name = Some (normalize_influxdb_1_execution (nx_rt env))"
  by (frule service_prefixes) (simp add: dispatch_table_def Let_def chosen_skip chosen_hit procedure_names SAMBA_1_PROCEDURE_NAMES_def)

lemma openbao_row: "name \<in> set OPENBAO_1_PROCEDURE_NAMES \<Longrightarrow>
    chosen (dispatch_table env) name = Some (normalize_openbao_1_execution (nx_rt env))"
  by (frule service_prefixes) (simp add: dispatch_table_def Let_def chosen_skip chosen_hit procedure_names
      SAMBA_1_PROCEDURE_NAMES_def INFLUXDB_1_PROCEDURE_NAMES_def)

lemma untabled:
  assumes "prefix p (proc_name (rq_procedure rq))"
    and "list_all (\<lambda>x. \<not> prefix p x) (concat (map fst (TABLE_NORMALIZERS env)) @ GITEA_PROTECTED_PUBLICATION_PAIR_PROCEDURE_NAMES
      @ GITEA_USER_CI_RUNNER_PROCEDURE_NAMES @ GITEA_ORG_CI_RUNNER_RECOVERY_PROCEDURE_NAMES)"
  shows "procedure_params env rq ps = dispatch_normalize_execution_params env rq ps"
proof -
  have "chosen rows name = None" if "prefix p name" "list_all (\<lambda>x. \<not> prefix p x) (concat (map fst rows))" for rows :: "(string list \<times> normalizer) list" and name
    using that by (induction rows) (auto simp: chosen_skip chosen_Nil)
  then have "chosen (TABLE_NORMALIZERS env) (proc_name (rq_procedure rq)) = None" using assms by simp
  with assms show ?thesis by (auto simp: procedure_params_def Let_def list_all_iff)
qed

lemma service_params:
  "proc_name (rq_procedure rq) \<in> set SAMBA_1_PROCEDURE_NAMES \<Longrightarrow> procedure_params env rq ps = normalize_samba_1_execution (nx_rt env) rq ps"
  "proc_name (rq_procedure rq) \<in> set INFLUXDB_1_PROCEDURE_NAMES \<Longrightarrow> procedure_params env rq ps = normalize_influxdb_1_execution (nx_rt env) rq ps"
  "proc_name (rq_procedure rq) \<in> set OPENBAO_1_PROCEDURE_NAMES \<Longrightarrow> procedure_params env rq ps = normalize_openbao_1_execution (nx_rt env) rq ps"
  by (subst untabled, erule service_prefixes, simp add: TABLE_NORMALIZERS_def Let_def procedure_names,
      simp add: dispatch_normalize_execution_params_def samba_row influx_row openbao_row)+



definition bare_env :: normalization_env where
  "bare_env = \<lparr>nx_rt = plain_rt,
     nx_tables = \<lparr>ne_settings = [], ne_services = [], ne_plugins = [], ne_openbao = None, ne_requester = VNone,
       ne_may_view_credential = (\<lambda>_ _. False), ne_proxmox_ssh = None, ne_packer = None\<rparr>,
     nx_binding = \<lparr>be_object = None, be_bindings = None, be_ssh = \<lparr>st_services = None, st_endpoints = None\<rparr>,
       be_schema_ok = (\<lambda>_ _. True), be_yaml = (\<lambda>_. None)\<rparr>,
     nx_admins = None, nx_policy = None, nx_platform = [], nx_target = None, nx_other = (\<lambda>_ _. Inr [])\<rparr>"

definition restart_request :: exec_request where
  "restart_request = uptime_request\<lparr>rq_procedure := sample_procedure\<lparr>proc_name := samba ''service_control''\<rparr>\<rparr>"

definition restart_params :: pydict where
  "restart_params = [(''unit'', VStr ''smbd''), (''action'', VStr ''restart'')]"

definition restart_payload :: pydict where
  "restart_payload =
     [(''target'', VStr ''sw1''),
      (''command_fingerprint'', VDict [(''handler_id'', VStr ''os.linux.uptime''), (''procedure'', VStr (samba ''service_control'')),
        (''unit'', VStr ''smbd''), (''action'', VStr ''restart''), (''systemd_unit'', VStr ''smbd.service'')]),
      (''unit'', VStr ''smbd''), (''action'', VStr ''restart''), (''systemd_unit'', VStr ''smbd.service'')]"

lemma restart_is_samba: "proc_name (rq_procedure restart_request) \<in> set SAMBA_1_PROCEDURE_NAMES"
  by code_simp

lemma restart_normalized:
  "normalize_samba_1_execution (nx_rt bare_env) restart_request restart_params = Inr restart_payload"
  "normalize_samba_1_execution (nx_rt bare_env) restart_request (restart_params @ [(''note'', VStr ''again'')]) = Inr restart_payload"
  by code_simp+




section \<open>Installing SSH keys\<close>

lemma install_key_params:
  assumes "proc_name (rq_procedure rq) = ubuntu_24 ''install_ssh_key''"
  shows "procedure_params env rq ps = normalize_ssh_install_key_execution rq ps"
proof -
  have name: "prefix ''os.linux.ubuntu.24.install_ssh_key'' (proc_name (rq_procedure rq))" using assms by simp
  then have "procedure_params env rq ps = dispatch_normalize_execution_params env rq ps"
    by (rule untabled) (simp add: TABLE_NORMALIZERS_def Let_def procedure_names)
  moreover have "chosen (dispatch_table env) (proc_name (rq_procedure rq)) = Some normalize_ssh_install_key_execution"
    by (simp add: dispatch_table_def Let_def chosen_def procedure_names assms)
  ultimately show ?thesis by (simp add: dispatch_normalize_execution_params_def)
qed

lemma key_fingerprint:
  assumes "normalize_ssh_install_key_execution rq ps = Inr n"
  shows "fingerprint n = [(''handler_id'', VStr (proc_handler_id (rq_procedure rq))),
      (''public_key_prefix'', VStr (take 64 (key_without_comment (text_of (dget ps ''public_key'')))))]"
    and "dget n ''command_fingerprint'' = VDict (fingerprint n)"
    and "dget n ''username'' = (let u = text_of (dget ps ''username'') in if u = [] then VNone else VStr u)"
  using assms unfolding normalize_ssh_install_key_execution_def Let_def
  by (auto simp: rbind_Inr_iff put_fp_def fingerprint_def handler_payload_def dget_def)

text \<open>
  C17: The hash of a command that installs an SSH key does not depend on the account that receives
  the key: the same key for two accounts has one hash, although the payloads differ.
\<close>

theorem key_install_hash_ignores_account:
  assumes "proc_name (rq_procedure rq) = ubuntu_24 ''install_ssh_key''"
    and run: "procedure_params env rq ps = Inr n" "procedure_params env rq (dict_set ''username'' (VStr account) ps) = Inr n'"
    and "strip account = account" "account \<noteq> []"
  shows "hash_json rt (dget n ''command_fingerprint'') = hash_json rt (dget n' ''command_fingerprint'') \<and> dget n' ''username'' = VStr account"
proof -
  note run = run [unfolded install_key_params [OF assms(1)]]
  have "dget n ''command_fingerprint'' = dget n' ''command_fingerprint''"
    using key_fingerprint(1,2) [OF run(1)] key_fingerprint(1,2) [OF run(2)] by simp
  moreover have "text_of (dget (dict_set ''username'' (VStr account) ps) ''username'') = account"
    using assms(4,5) by (simp add: text_of_def)
  ultimately show ?thesis using key_fingerprint(3) [OF run(2)] assms(5) by (simp add: Let_def)
qed

definition key_request :: exec_request where
  "key_request = uptime_request\<lparr>rq_procedure := sample_procedure\<lparr>proc_name := ubuntu_24 ''install_ssh_key''\<rparr>\<rparr>"

definition key_params :: pydict where
  "key_params = [(''public_key'', VStr ''ssh-ed25519 AAAAC3Nza''), (''username'', VStr ''deploy'')]"

lemma key_accepted:
  "\<exists>n. normalize_ssh_install_key_execution key_request key_params = Inr n"
  "\<exists>n. normalize_ssh_install_key_execution key_request (dict_set ''username'' (VStr ''root'') key_params) = Inr n"
proof -
  have "fullmatch POSIX_USERNAME_RE ''deploy''" "fullmatch POSIX_USERNAME_RE ''root''" by code_simp+
  then show "\<exists>n. normalize_ssh_install_key_execution key_request key_params = Inr n"
    "\<exists>n. normalize_ssh_install_key_execution key_request (dict_set ''username'' (VStr ''root'') key_params) = Inr n"
    by (simp_all add: normalize_ssh_install_key_execution_def key_params_def dget_def text_of_def strip_def is_space_def Let_def)
qed

theorem key_install_hash_ignores_account_witness:
  "\<exists>n n'. procedure_params bare_env key_request key_params = Inr n
     \<and> procedure_params bare_env key_request (dict_set ''username'' (VStr ''root'') key_params) = Inr n'
     \<and> hash_json plain_rt (dget n ''command_fingerprint'') = hash_json plain_rt (dget n' ''command_fingerprint'')
     \<and> dget n ''username'' = VStr ''deploy'' \<and> dget n' ''username'' = VStr ''root''"
proof -
  have name: "proc_name (rq_procedure key_request) = ubuntu_24 ''install_ssh_key''" by (simp add: key_request_def)
  obtain n n' where n: "normalize_ssh_install_key_execution key_request key_params = Inr n"
    "normalize_ssh_install_key_execution key_request (dict_set ''username'' (VStr ''root'') key_params) = Inr n'"
    using key_accepted by blast
  from key_install_hash_ignores_account [OF name, of bare_env key_params n "''root''" n' plain_rt] n install_key_params [OF name]
  have "hash_json plain_rt (dget n ''command_fingerprint'') = hash_json plain_rt (dget n' ''command_fingerprint'')"
    "dget n' ''username'' = VStr ''root''"
    by (simp_all add: strip_def is_space_def)
  moreover have "dget n ''username'' = VStr ''deploy''"
    using key_fingerprint(3) [OF n(1)] by (simp add: key_params_def dget_def text_of_def strip_def is_space_def Let_def)
  ultimately show ?thesis using n install_key_params [OF name] by auto
qed

end
