(* ===== verification/SambaConfigProps.thy ===== *)
theory SambaConfigProps
  imports NormalizationProps
begin

text \<open>
  What an accepted smb.conf body can do: no logical line of it is a command directive, also
  when the directive is split by line continuations, and its includes stay under
  \<open>/etc/samba\<close>. Physical lines are those of Python, which ends a line at a vertical tab; the last
  property shows what that hides.
\<close>

section \<open>Confined paths\<close>

lemma split_on_chars: "w \<in> set (split_on c s) \<Longrightarrow> c \<notin> set w"
  by (induction c s arbitrary: w rule: split_on.induct) (auto split: list.splits if_splits)

lemma pure_path_names: "w \<in> set (path_names (pure_path s)) \<Longrightarrow> CHR ''/'' \<notin> set w"
  by (auto simp: pure_path_def dest: split_on_chars)

lemma samba_root: "path_root SAMBA_CONF_ROOT = ''/''" "path_names SAMBA_CONF_ROOT = [''etc'', ''samba'']"
  by (simp_all add: SAMBA_CONF_ROOT_def pure_path_def)

definition under_samba :: "string \<Rightarrow> bool" where
  "under_samba p \<longleftrightarrow> prefix ''/etc/samba/'' p \<and> ''..'' \<notin> set (split_on CHR ''/'' p)"

lemma include_path_confined:
  assumes "normalize_samba_include_path raw = Inr p"
  shows "under_samba p"
proof -
  define q where "q = (let path = pure_path (text_of raw) in if is_absolute path then path else path_join SAMBA_CONF_ROOT path)"
  have names: "CHR ''/'' \<notin> set w" if "w \<in> set (path_names q)" for w
    using that by (auto simp: q_def Let_def path_join_def samba_root dest: pure_path_names split: if_splits)
  from assms have q: "''..'' \<notin> set (path_parts q)" "is_relative_to q SAMBA_CONF_ROOT" "q \<noteq> SAMBA_CONF_ROOT" "p = path_str q"
    unfolding normalize_samba_include_path_def q_def Let_def by (simp_all add: rbind_Inr_iff)
  from q(2) obtain ws where ws: "path_names q = ''etc'' # ''samba'' # ws" "path_root q = ''/''"
    by (auto simp: is_relative_to_def samba_root prefix_def)
  with q(3) have "ws \<noteq> []" using samba_root by (metis (full_types) old.unit.exhaust posix_path.surjective)
  then obtain v vs where v: "ws = v # vs" by (cases ws) auto
  with ws q(4) have p: "p = ''/'' @ join_with ''/'' (path_names q)" by (simp add: path_str_def)
  have "split_on CHR ''/'' p = [] # path_names q"
    unfolding p using split_on_join [of "path_names q" "CHR ''/''"] names ws by simp
  moreover from q(1) ws have "''..'' \<notin> set (path_names q)" by (simp add: path_parts_def)
  ultimately show ?thesis using p ws v by (simp add: under_samba_def)
qed


section \<open>Bodies\<close>

definition inert :: "string \<Rightarrow> bool" where
  "inert content \<longleftrightarrow> (\<forall>(i, name, v) \<in> set (iter_samba_config_assignments content).
     \<not> command_directive (normalize_samba_config_param_name name) \<and>
     (normalize_samba_config_param_name name = ''include'' \<longrightarrow>
        (\<exists>p. normalize_samba_include_path (VStr (strip_samba_config_value v)) = Inr p \<and> under_samba p)))"

lemma no_name_no_command: "\<not> command_directive []"
  by (simp add: command_directive_def SAMBA_COMMAND_DIRECTIVE_NAMES_def SAMBA_COMMAND_DIRECTIVE_SUFFIXES_def)

lemma accepted_assignment:
  assumes "validate_assignment field (i, name, v) = Inr ()"
  shows "\<not> command_directive (normalize_samba_config_param_name name)"
    and "normalize_samba_config_param_name name = ''include'' \<Longrightarrow>
      \<exists>p. normalize_samba_include_path (VStr (strip_samba_config_value v)) = Inr p \<and> under_samba p"
  using assms include_path_confined no_name_no_command
  by (auto simp: validate_assignment_def validate_samba_config_include_directive_def Let_def rbind_Inr_iff split: if_splits sum.splits)

lemma accepted_body_inert: "normalize_samba_config_body raw field = Inr content \<Longrightarrow> inert content"
  unfolding inert_def
  by (auto simp: normalize_samba_config_body_def Let_def rbind_Inr_iff validate_samba_config_body_directives_def each_Inr_iff
      dest: accepted_assignment)

definition inert_bodies :: "pydict \<Rightarrow> bool" where
  "inert_bodies n \<longleftrightarrow> (\<forall>k \<in> {''config_content'', ''content''}. \<forall>c. map_of n k = Some (VStr c) \<longrightarrow> inert c)"

lemma inert_takes:
  "k \<notin> {''config_content'', ''content''} \<Longrightarrow> takes inert_bodies k"
  "k \<notin> {''config_content'', ''content''} \<Longrightarrow> takes_hashed rt inert_bodies k"
  by (auto simp: takes_def takes_hashed_def inert_bodies_def put_both_def put_hashed_def)

lemma inert_body: "k \<noteq> ''command_fingerprint'' \<Longrightarrow> keeps inert_bodies (copy_body rt ps k)"
  by (rule keepsI) (auto simp: copy_body_def rbind_Inr_iff inert_bodies_def put_hashed_def
      dest: accepted_body_inert split: if_splits)

lemma inert_members: "keeps inert_bodies (copy_members ps)"
  by (rule keepsI) (auto simp: copy_members_def rbind_Inr_iff inert_bodies_def put_both_def)

lemma inert_steps: "list_all (keeps inert_bodies) (samba_steps rt name ps)"
  unfolding samba_steps_def copy_samba_share_upsert_params_def
  by (intro keeps_all keeps_when_in inert_body inert_members keeps_service_control keeps_password keeps_intros inert_takes)
    simp_all


definition continued :: "string \<Rightarrow> bool" where
  "continued l \<longleftrightarrow> endswith (rstrip l) [CHR 0x5C]"

lemma rstrip_backslash: "rstrip (p @ [CHR 0x5C]) = p @ [CHR 0x5C]"
  by (simp add: rstrip_def is_space_def)

lemma logical_lines_after:
  "before = [] \<and> st = None \<and> joined = [] \<or> before \<noteq> [] \<and> \<not> continued (last before) \<Longrightarrow>
   \<exists>done j. logical_lines i joined st (before @ ls) = done @ logical_lines j [] None ls"
proof (induction before arbitrary: i joined st)
  case (Cons l before)
  show ?case
  proof (cases "continued l")
    case True
    with Cons.prems have "before \<noteq> [] \<and> \<not> continued (last before)" by (auto split: if_splits)
    with True Cons.IH show ?thesis by (simp add: continued_def Let_def)
  next
    case False
    with Cons.prems have "before = [] \<or> before \<noteq> [] \<and> \<not> continued (last before)" by (auto split: if_splits)
    then have "\<exists>done j. logical_lines (Suc i) [] None (before @ ls) = done @ logical_lines j [] None ls"
      using Cons.IH by (cases "before = []") (auto intro: exI [of _ "[]"])
    with False show ?thesis by (auto simp: continued_def Let_def) (metis append_Cons)
  qed
qed (auto intro: exI [of _ "[]"])

lemma logical_lines_continued:
  assumes "\<not> continued final"
  shows "\<exists>s. (s, joined @ concat pieces @ final)
    \<in> set (logical_lines i joined st (map (\<lambda>p. p @ [CHR 0x5C]) pieces @ final # rest))"
proof (induction pieces arbitrary: i joined st)
  case Nil
  with assms show ?case by (auto simp: continued_def Let_def)
next
  case (Cons p pieces)
  from Cons.IH [of "joined @ p"] show ?case by (simp add: Let_def rstrip_backslash)
qed

lemma rejected_directive:
  assumes "(i, line) \<in> set (iter_samba_logical_lines content)" "is_assignment line"
    and "command_directive (normalize_samba_config_param_name (takeWhile (\<lambda>c. c \<noteq> CHR ''='') line))"
  shows "\<exists>e. normalize_samba_config_body (VStr content) field = Inl e"
proof -
  let ?name = "takeWhile (\<lambda>c. c \<noteq> CHR ''='') line"
  from assms(1,2) have "(i, ?name, tl (dropWhile (\<lambda>c. c \<noteq> CHR ''='') line)) \<in> set (iter_samba_config_assignments content)"
    by (force simp: iter_samba_config_assignments_def)
  moreover from assms(3) have "normalize_samba_config_param_name ?name \<noteq> []"
    by (auto simp: command_directive_def SAMBA_COMMAND_DIRECTIVE_NAMES_def SAMBA_COMMAND_DIRECTIVE_SUFFIXES_def)
  with assms(3) have "validate_assignment field (i, ?name, v) \<noteq> Inr ()" for v
    by (simp add: validate_assignment_def Let_def)
  ultimately have "validate_samba_config_body_directives content field \<noteq> Inr ()"
    unfolding validate_samba_config_body_directives_def each_Inr_iff by blast
  then have "normalize_samba_config_body (VStr content) field \<noteq> Inr c" for c
    by (simp add: normalize_samba_config_body_def Let_def rbind_Inr_iff)
  then show ?thesis by (cases "normalize_samba_config_body (VStr content) field") auto
qed

text \<open>
  C12: A command directive is rejected also when backslashes at the ends of lines split it, at any
  place of the body and into any number of pieces.
\<close>

theorem continued_command_is_rejected:
  assumes "splitlines content = before @ map (\<lambda>p. p @ [CHR 0x5C]) pieces @ final # after"
    and "before = [] \<or> \<not> continued (last before)" "\<not> continued final"
    and "is_assignment (concat pieces @ final)"
    and "command_directive (normalize_samba_config_param_name (takeWhile (\<lambda>c. c \<noteq> CHR ''='') (concat pieces @ final)))"
  shows "\<exists>e. normalize_samba_config_body (VStr content) field = Inl e"
proof -
  let ?rest = "map (\<lambda>p. p @ [CHR 0x5C]) pieces @ final # after"
  from assms(2) obtain seen j where "logical_lines 1 [] None (before @ ?rest) = seen @ logical_lines j [] None ?rest"
    using logical_lines_after [of before None "[]" 1 ?rest] by auto
  with logical_lines_continued [OF assms(3), of "[]" pieces j None after] assms(1)
  obtain i where "(i, concat pieces @ final) \<in> set (iter_samba_logical_lines content)"
    by (auto simp: iter_samba_logical_lines_def)
  then show ?thesis using assms(4,5) by (rule rejected_directive)
qed

lemma hidden_validates: "validate_samba_config_body_directives (''ro'' @ [CHR 0x0B] @ ''ot preexec = /bin/sh'') field = Inr ()"
  by code_simp



section \<open>Samples\<close>

definition deploy_request :: exec_request where
  "deploy_request = restart_request\<lparr>rq_procedure := sample_procedure\<lparr>proc_name := samba ''config_deploy''\<rparr>\<rparr>"

definition deploy_text :: string where
  "deploy_text = ''include = a.conf''"

lemma deploy_validates:
  "validate_samba_config_body_directives deploy_text field = Inr ()"
  "(1, ''include '', '' a.conf'') \<in> set (iter_samba_config_assignments deploy_text)"
  "normalize_samba_config_param_name ''include '' = ''include''"
  "strip_samba_config_value '' a.conf'' = ''a.conf''"
  by code_simp+

lemma deploy_normalized:
  "\<exists>n. normalize_samba_1_execution plain_rt deploy_request [(''config_content'', VStr deploy_text)] = Inr n
     \<and> dget n ''config_content'' = VStr deploy_text"
proof -
  have "normalize_samba_config_body (VStr deploy_text) field = Inr deploy_text" for field
    using deploy_validates(1) [of field]
    by (simp add: normalize_samba_config_body_def SAMBA_MAX_CONFIG_BODY_LEN_def Let_def deploy_text_def strip_def is_space_def)
  then show ?thesis
    by (simp add: normalize_samba_1_execution_def samba_steps_def deploy_request_def restart_request_def uptime_request_def
        when_in_def copy_body_def dget_def [of "[(''config_content'', VStr deploy_text)]"] copy_optional_ssh_overrides_def copy_optional_credential_override_def optional_int_range_def
        put_some_def put_hashed_def)
qed


theorem continued_command_is_rejected_witness:
  "\<exists>e. normalize_samba_config_body (VStr (''root pree'' @ [CHR 0x5C, CHR 0x0A] @ ''xec = /bin/sh'')) ''content'' = Inl e"
  by (rule continued_command_is_rejected [of _ "[]" "[''root pree'']" "''xec = /bin/sh''" "[]"]) code_simp+

end
