(* ===== verification/BoundProps.thy ===== *)
theory BoundProps
  imports NormalizationProps DispatchLeaseProps
begin

text \<open>
  What the procedures that freeze their SSH identity promise: the identity is that of the one
  service of the target, its host key is a single Ed25519 key of the target's own address, and
  the procedures with a target binding run on the bound device only.
\<close>

section \<open>The locked identity\<close>

definition pinned_entry :: "string \<Rightarrow> string \<Rightarrow> bool" where
  "pinned_entry host entry \<longleftrightarrow> (\<exists>encoded key. entry = host @ '' ssh-ed25519 '' @ encoded \<and> b64decode encoded = Some key
     \<and> length key = length ED25519_PREFIX + 32 \<and> prefix ED25519_PREFIX key)"

lemma split_on_nonempty: "split_on c s \<noteq> []"
  by (induction s) (auto split: list.splits)

lemma join_split_on: "join_with [c] (split_on c s) = s"
proof (induction s)
  case (Cons x s)
  then show ?case using split_on_nonempty [of c s] by (cases "split_on c s") (auto simp: join_Cons split: if_splits)
qed simp

lemma entry_pinned:
  assumes "validate_locked_known_hosts_entry entry host = Inr ()"
  shows "pinned_entry host entry"
proof -
  from assms obtain algorithm encoded key where split: "split_on CHR '' '' entry = [host, algorithm, encoded]"
    and rest: "algorithm = ''ssh-ed25519''" "b64decode encoded = Some key"
      "length key = length ED25519_PREFIX + 32" "prefix ED25519_PREFIX key"
    by (auto simp: validate_locked_known_hosts_entry_def rbind_Inr_iff split: list.splits option.splits)
  from split have "entry = host @ '' '' @ algorithm @ '' '' @ encoded"
    using join_split_on [of "CHR '' ''" entry] by simp
  with rest show ?thesis by (auto simp: pinned_entry_def)
qed


text \<open>The service an identity comes from: the one row of the older table, or else the one endpoint.\<close>

definition sole_entry :: "ssh_tables \<Rightarrow> int \<Rightarrow> int \<Rightarrow> string \<Rightarrow> bool" where
  "sole_entry tables type_id object_id entry \<longleftrightarrow>
     (\<exists>service. legacy_services tables type_id object_id = Inr [service] \<and> entry = str_or (ds_known_hosts_entry service) [])
   \<or> (legacy_services tables type_id object_id = Inr [] \<and>
      (\<exists>query eps service. st_endpoints tables = Some query \<and> query type_id object_id = Some eps
         \<and> filter (\<lambda>ep. ep_credential ep \<noteq> None) (filter endpoint_enabled eps) = [service]
         \<and> entry = str_or (ep_known_hosts_entry service) []))"

definition locked_to :: "python_rt \<Rightarrow> string \<Rightarrow> string \<Rightarrow> string \<Rightarrow> pydict \<Rightarrow> bool" where
  "locked_to rt host policy_ref entry d \<longleftrightarrow> dget d ''ssh_host'' = VStr host \<and> dget d ''ssh_port'' = VInt 22
     \<and> dget d ''ssh_policy_ref'' = VStr policy_ref \<and> dget d ''ssh_known_hosts_sha256'' = VStr (rt_sha256 rt entry) \<and> pinned_entry host entry"

lemma local_snapshot_locked:
  "build_local_ssh_snapshot rt service host policy_ref = Inr d \<Longrightarrow> locked_to rt host policy_ref (str_or (ds_known_hosts_entry service) []) d"
  by (auto simp: build_local_ssh_snapshot_def Let_def rbind_Inr_iff locked_to_def hash_text_def dget_def dest: entry_pinned)

lemma openbao_snapshot_locked:
  "openbao_snapshot rt service identity host policy_ref = Inr d \<Longrightarrow> locked_to rt host policy_ref (str_or (ep_known_hosts_entry service) []) d"
  by (auto simp: openbao_snapshot_def openbao_ssh_host_def Let_def rbind_Inr_iff locked_to_def hash_text_def dget_def
      dest: entry_pinned split: option.splits)

lemma endpoint_locked:
  assumes "resolve_openbao_ssh_identity rt tables type_id object_id host policy_ref = Inr (Some d)"
  obtains query eps service where "st_endpoints tables = Some query" "query type_id object_id = Some eps"
    "filter (\<lambda>ep. ep_credential ep \<noteq> None) (filter endpoint_enabled eps) = [service]"
    "locked_to rt host policy_ref (str_or (ep_known_hosts_entry service) []) d"
proof -
  from assms obtain query eps service identity where "st_endpoints tables = Some query" "query type_id object_id = Some eps"
    "filter (\<lambda>ep. ep_credential ep \<noteq> None) (filter endpoint_enabled eps) = [service]"
    "openbao_snapshot rt service identity host policy_ref = Inr d"
    unfolding resolve_openbao_ssh_identity_def
    by (auto simp: rbind_Inr_iff simp del: filter.simps filter_filter split: option.splits list.splits)
  then show ?thesis using that openbao_snapshot_locked by blast
qed

lemma resolved_locked:
  assumes "resolve_locked_ssh_identity rt tables type_id object_id host policy_ref = Inr d"
  obtains entry where "sole_entry tables type_id object_id entry" "locked_to rt host policy_ref entry d"
proof -
  from assms obtain rows where rows: "legacy_services tables type_id object_id = Inr rows"
    and cases: "(case rows of
         [] \<Rightarrow> rbind (resolve_openbao_ssh_identity rt tables type_id object_id host policy_ref) (\<lambda>snapshot.
             (case snapshot of Some d \<Rightarrow> Inr d
              | None \<Rightarrow> Inl (target_invalid ''Runner registration requires exactly one enabled target-owned SSH service.'')))
       | [service] \<Rightarrow> build_local_ssh_snapshot rt service host policy_ref
       | _ \<Rightarrow> Inl (target_invalid ''Runner registration requires exactly one enabled target-owned SSH service.'')) = Inr d"
    by (auto simp: resolve_locked_ssh_identity_def Let_def rbind_Inr_iff)
  show ?thesis
  proof (cases rows)
    case Nil
    with cases have "resolve_openbao_ssh_identity rt tables type_id object_id host policy_ref = Inr (Some d)"
      by (auto simp: rbind_Inr_iff split: option.splits)
    then show ?thesis by (rule endpoint_locked) (rule that, use rows Nil in \<open>auto simp: sole_entry_def\<close>)
  next
    case (Cons service more_rows)
    with cases have "more_rows = []" "build_local_ssh_snapshot rt service host policy_ref = Inr d"
      by (auto split: list.splits)
    with rows Cons show ?thesis by (intro that [of "str_or (ds_known_hosts_entry service) []"])
      (auto simp: sole_entry_def local_snapshot_locked)
  qed
qed



section \<open>Target bindings\<close>

definition binding_slug :: "string \<Rightarrow> pydict \<Rightarrow> string option" where
  "binding_slug name ps =
     (if name \<in> set NETBOX_OPENBAO_IMPORT_PROCEDURE_NAMES
      then (case dget ps ''environment'' of VStr e \<Rightarrow> map_of OPENBAO_IMPORT_BINDING_SLUGS e | _ \<Rightarrow> None)
      else Some RPC_TARGET_BINDING_SLUG_NMULTICLOUD_DEPLOY_HOST)"

definition bound_target :: "binding_env \<Rightarrow> exec_request \<Rightarrow> string \<Rightarrow> pydict \<Rightarrow> bool" where
  "bound_target env rq slug n \<longleftrightarrow> (\<exists>rows b revision. be_bindings env = Some rows \<and> b \<in> set rows \<and> tb_slug b = slug
     \<and> tb_device_id b = VInt (rq_target_id rq) \<and> dget (fingerprint n) ''target_binding_id'' = tb_pk b
     \<and> rpc_target_binding_revision (tb_last_updated b) slug = Inr revision \<and> dget (fingerprint n) ''target_binding_revision'' = VStr revision)"

lemma bound_id_Inr: "bound_id v e = Inr i \<longleftrightarrow> v = VInt i \<and> 1 \<le> i"
  by (auto simp: bound_id_def rbind_Inr_iff split: pyval.splits)

lemma resolved_binding:
  assumes "resolve_target_binding env slug m1 m2 m3 = Inr (rq_target_id rq, binding)"
  shows "bound_target env rq slug (put_binding binding n)"
  using assms unfolding resolve_target_binding_def
  by (auto simp: Let_def rbind_Inr_iff bound_id_Inr bound_target_def put_binding_def dget_def find_Some_iff in_set_conv_nth
      split: option.splits)


lemma bound_names_apart:
  "list_all (\<lambda>x. x \<notin> set (GITEA_PROTECTED_PUBLICATION_PAIR_PROCEDURE_NAMES @ GITEA_USER_CI_RUNNER_PROCEDURE_NAMES
      @ GITEA_ORG_CI_RUNNER_RECOVERY_PROCEDURE_NAMES @ KEYCLOAK_IAM_UI_PROCEDURE_NAMES @ NETBOX_PRODUCTION_RQ_WORKER_PROCEDURE_NAMES
      @ PBS_1_PROCEDURE_NAMES)) (NETBOX_OPENBAO_IMPORT_PROCEDURE_NAMES @ NMULTICLOUD_DEPLOY_RELEASE_MARKER_PROCEDURE_NAMES
        @ PROXBOX_API_RELEASE_IMAGES_PROCEDURE_NAMES @ UBUNTU_26_SAMBA_AD_DC_PROCEDURE_NAMES)"
  "list_all (\<lambda>x. x \<notin> set NETBOX_OPENBAO_IMPORT_PROCEDURE_NAMES) (NMULTICLOUD_DEPLOY_RELEASE_MARKER_PROCEDURE_NAMES
      @ PROXBOX_API_RELEASE_IMAGES_PROCEDURE_NAMES @ UBUNTU_26_SAMBA_AD_DC_PROCEDURE_NAMES)"
  "list_all (\<lambda>x. x \<notin> set NMULTICLOUD_DEPLOY_RELEASE_MARKER_PROCEDURE_NAMES) (PROXBOX_API_RELEASE_IMAGES_PROCEDURE_NAMES
      @ UBUNTU_26_SAMBA_AD_DC_PROCEDURE_NAMES)"
  "list_all (\<lambda>x. x \<notin> set UBUNTU_26_SAMBA_AD_DC_PROCEDURE_NAMES) PROXBOX_API_RELEASE_IMAGES_PROCEDURE_NAMES"
  by code_simp+

lemma bound_params:
  "proc_name (rq_procedure rq) \<in> set NETBOX_OPENBAO_IMPORT_PROCEDURE_NAMES \<Longrightarrow>
     procedure_params env rq ps = normalize_openbao_import_execution (nx_rt env) (nx_binding env) rq ps"
  "proc_name (rq_procedure rq) \<in> set NMULTICLOUD_DEPLOY_RELEASE_MARKER_PROCEDURE_NAMES \<Longrightarrow>
     procedure_params env rq ps = normalize_release_marker_execution (nx_rt env) (nx_binding env) rq ps"
  "proc_name (rq_procedure rq) \<in> set PROXBOX_API_RELEASE_IMAGES_PROCEDURE_NAMES \<Longrightarrow>
     procedure_params env rq ps = normalize_proxbox_api_release_images_execution (nx_rt env) (nx_binding env) rq ps"
  using bound_names_apart
  by (simp_all add: procedure_params_def TABLE_NORMALIZERS_def chosen_def Let_def list_all_iff)

lemma import_bound:
  assumes "normalize_openbao_import_execution rt env rq ps = Inr n"
  obtains e slug where "dget ps ''environment'' = VStr e" "map_of OPENBAO_IMPORT_BINDING_SLUGS e = Some slug" "bound_target env rq slug n"
  using assms unfolding normalize_openbao_import_execution_def openbao_import_target_binding_def Let_def rbind_Inr_iff
  by (auto simp: rbind_Inr_iff resolved_binding split: pyval.splits option.splits)

lemma marker_bound:
  "normalize_release_marker_execution rt env rq ps = Inr n \<Longrightarrow> bound_target env rq RPC_TARGET_BINDING_SLUG_NMULTICLOUD_DEPLOY_HOST n"
  unfolding normalize_release_marker_execution_def release_marker_target_binding_def Let_def
  by (auto simp: rbind_Inr_iff resolved_binding)

lemma images_bound:
  "normalize_proxbox_api_release_images_execution rt env rq ps = Inr n \<Longrightarrow>
     bound_target env rq RPC_TARGET_BINDING_SLUG_NMULTICLOUD_DEPLOY_HOST n"
  unfolding normalize_proxbox_api_release_images_execution_def release_marker_target_binding_def Let_def
  by (auto simp: rbind_Inr_iff resolved_binding)



section \<open>Samples\<close>

text \<open>A target with one SSH service and the production binding.\<close>

lemma address_patterns:
  "fullmatch IPV4_RE ''10.0.0.5''" "fullmatch IPV4_RE ''10.0.0.1''"
  by code_simp+

lemma address_read:
  "read_ipv4 ''10.0.0.5'' = Some 167772165" "read_ipv4 ''10.0.0.1'' = Some 167772161"
  by (simp_all add: read_ipv4_def read_octet_def is_digit_def str_nat_def char_digit_def)

lemma octet_texts: "nat_str 10 = ''10''" "nat_str 0 = ''0''" "nat_str 5 = ''5''" "nat_str (Suc 0) = ''1''" by code_simp+

lemma address_text: "ipv4_str 167772165 = ''10.0.0.5''" "ipv4_str 167772161 = ''10.0.0.1''" "ipv4_str 167772160 = ''10.0.0.0''"
  by (simp_all add: ipv4_str_def octet_texts)

definition host_key :: string where
  "host_key = ''AAAAC3NzaC1lZDI1NTE5AAAAIAAAAAAAAAAAAAAAAAAAAAAAAAAAAAAAAAAAAAAAAAAA''"

definition login_credential :: ssh_credential where
  "login_credential = \<lparr>sc_revision = VTime noon, sc_username = VStr ''ops'', sc_auth_method = VStr ''password'',
     sc_storage_backend = VStr ''local'', sc_password_encrypted = VStr ''x'', sc_private_key_encrypted = VNone, sc_passphrase_encrypted = VNone\<rparr>"

definition login_service :: device_service where
  "login_service = \<lparr>ds_pk = VInt 4, ds_revision = VTime noon, ds_management_host = VStr ''10.0.0.5'', ds_port = VInt 22,
     ds_strict = VBool True, ds_known_hosts_entry = VStr (''10.0.0.5 ssh-ed25519 '' @ host_key), ds_credential_id = VInt 6,
     ds_credential = Some login_credential\<rparr>"

definition one_service :: ssh_tables where
  "one_service = \<lparr>st_services = Some (\<lambda>_ _. Some [login_service]), st_endpoints = None\<rparr>"

lemma noon_revision: "revision_of what (VTime noon) = Inr (utc_text noon)"
proof -
  have "to_utc noon = Some noon" by (simp add: to_utc_def noon_def dt_add_seconds_def seconds_of_day_def set_seconds_def)
  then show ?thesis by (simp add: revision_of_def)
qed

lemma login_accepted:
  "validate_locked_known_hosts_entry (''10.0.0.5 ssh-ed25519 '' @ host_key) ''10.0.0.5'' = Inr ()"
  "service_identity login_service = Inr (login_credential, 6, ''ops'', ''password'')"
  by code_simp+

lemma login_fields:
  "ds_pk login_service = VInt 4" "ds_revision login_service = VTime noon" "ds_management_host login_service = VStr ''10.0.0.5''"
  "ds_port login_service = VInt 22" "ds_strict login_service = VBool True"
  "ds_known_hosts_entry login_service = VStr (''10.0.0.5 ssh-ed25519 '' @ host_key)" "sc_revision login_credential = VTime noon"
  by (simp_all add: login_service_def login_credential_def)

lemma one_service_locked:
  "\<exists>d. resolve_locked_ssh_identity plain_rt one_service 3 8 ''10.0.0.5'' policy_ref = Inr d \<and> dget d ''ssh_identity_id'' = VInt 6"
proof -
  have "ipv4_of (VStr ''10.0.0.5'') a b = Inr ''10.0.0.5''" for a b
    by (simp add: ipv4_of_def read_ip_address_def address_read address_text)
  then show ?thesis
    using login_accepted(1)
    by (simp add: resolve_locked_ssh_identity_def one_service_def legacy_services_def build_local_ssh_snapshot_def Let_def
        login_accepted(2) login_fields model_revision_def noon_revision positive_model_pk_def dget_def)
qed


definition marker_request :: exec_request where
  "marker_request = uptime_request\<lparr>rq_procedure := sample_procedure\<lparr>proc_name := NMULTICLOUD_DEPLOY_RELEASE_MARKER_CHECK\<rparr>\<rparr>"

definition bound_env :: normalization_env where
  "bound_env = bare_env\<lparr>nx_binding := \<lparr>
     be_object = Some \<lparr>bo_pk = VInt 8, bo_name = VStr ''sw1'', bo_text = ''sw1'', bo_status = VStr ''active'', bo_primary_ip4 = VStr ''10.0.0.5/24''\<rparr>,
     be_bindings = Some [\<lparr>tb_slug = ''nmulticloud-deploy-host'', tb_pk = VInt 2, tb_device_id = VInt 8, tb_last_updated = VTime noon\<rparr>],
     be_ssh = one_service, be_schema_ok = (\<lambda>_ _. True), be_yaml = (\<lambda>_. None)\<rparr>\<rparr>"

lemma marker_accepted:
  "\<exists>n. normalize_release_marker_execution plain_rt (nx_binding bound_env) marker_request [(''app'', VStr ''nms-backend'')] = Inr n"
  "proc_name (rq_procedure marker_request) \<in> set NMULTICLOUD_DEPLOY_RELEASE_MARKER_PROCEDURE_NAMES"
  by (simp_all add: normalize_release_marker_execution_def bound_env_def marker_request_def uptime_request_def assigned_is_def
      unexpected_params_def release_marker_app_def dget_def NMULTICLOUD_DEPLOY_RELEASE_MARKER_APPS_def release_marker_target_binding_def
      resolve_target_binding_def RPC_TARGET_BINDING_SLUG_NMULTICLOUD_DEPLOY_HOST_def bound_id_def rpc_target_binding_revision_def noon_revision
      NMULTICLOUD_DEPLOY_RELEASE_MARKER_PROCEDURE_NAMES_def)


end
