(* ===== verification/SambaAdDcProps.thy ===== *)
theory SambaAdDcProps
  imports BoundProps
begin

text \<open>
  The provisioning of Samba domain controllers: what the resolved settings satisfy and how a
  live run is tied to its target.
\<close>

lemma map_of_put_all:
  assumes "k \<noteq> ''command_fingerprint''" "''command_fingerprint'' \<notin> fst ` set kvs" "distinct (map fst kvs)"
  shows "map_of (put_all kvs n) k = (case map_of kvs k of Some v \<Rightarrow> Some v | None \<Rightarrow> map_of n k)"
  using assms
proof (induction kvs arbitrary: n)
  case (Cons kv kvs)
  obtain key v where kv: "kv = (key, v)" by (cases kv)
  from Cons.prems kv have "map_of (put_all kvs (put_both key v n)) k = (case map_of kvs k of Some w \<Rightarrow> Some w | None \<Rightarrow> map_of (put_both key v n) k)"
    by (intro Cons.IH) auto
  moreover from Cons.prems kv have "map_of kvs key = None" by (auto simp: map_of_eq_None_iff)
  ultimately show ?case using Cons.prems kv by (auto simp: put_all_def put_both_def split: option.splits)
qed (simp add: put_all_def)

lemma bounded_names: "rmap (bounded_integer ps) limits = Inr bounded \<Longrightarrow> map fst bounded = map fst limits"
  by (induction limits arbitrary: bounded) (auto simp: rbind_Inr_iff bounded_integer_def)

lemma strict_int_Inr: "strict_int v f lo hi = Inr i \<Longrightarrow> v = VInt i \<and> lo \<le> i \<and> (case hi of None \<Rightarrow> True | Some h \<Rightarrow> i \<le> h)"
  by (auto simp: strict_int_def rbind_Inr_iff split: pyval.splits)

lemma ssh_ports_ok:
  assumes "ssh_ports v = Inr ports" "p \<in> set ports"
  shows "1 \<le> p \<and> p \<le> 65535 \<and> p \<notin> set RESERVED_SSH_PORTS"
proof -
  have "\<forall>p \<in> set ports. 1 \<le> p \<and> p \<le> 65535" if "rmap (\<lambda>p. strict_int p f 1 (Some 65535)) vs = Inr ports" for vs f ports
    using that by (induction vs arbitrary: ports) (auto simp: rbind_Inr_iff dest!: strict_int_Inr)
  with assms show ?thesis unfolding ssh_ports_def by (auto simp: rbind_Inr_iff)
qed

lemma provision_settings:
  assumes "resolve_provision_settings ps = Inr settings"
  obtains ip forwarder ports networks where
    "distinct (map fst settings)" "''command_fingerprint'' \<notin> fst ` set settings"
    "map_of settings ''ip'' = Some (VStr ip)" "map_of settings ''forwarder'' = Some (VStr forwarder)" "forwarder \<noteq> ip"
    "map_of settings ''ssh_ports'' = Some (VList (map VInt ports))" "map_of settings ''ssh_networks'' = Some (texts networks)"
    "ports = [] \<longleftrightarrow> networks = []" "\<forall>p \<in> set ports. 1 \<le> p \<and> p \<le> 65535 \<and> p \<notin> set RESERVED_SSH_PORTS"
    "dget ps ''dry_run'' = VBool False \<Longrightarrow> ports \<noteq> [] \<and> has_key settings ''admin_credential_pk''"
proof -
  from assms obtain dry identity network share security where parts: "strict_bool (get_or ps ''dry_run'' (VBool True)) ''dry_run'' = Inr dry"
      "resolve_identity ps = Inr identity" "resolve_network ps = Inr network" "resolve_share ps = Inr share" "resolve_security ps = Inr security"
    and allow: "check_ssh_allowlist ([(''dry_run'', VBool dry)] @ identity @ network @ share @ security) dry = Inr ()"
    and settings: "settings = [(''dry_run'', VBool dry)] @ identity @ network @ share @ security \<and> dry \<or>
      (\<exists>i. settings = [(''dry_run'', VBool dry)] @ identity @ network @ share @ security @ [(''admin_credential_pk'', VInt i)])"
    unfolding resolve_provision_settings_def Let_def
    by (auto simp: rbind_Inr_iff split: option.splits if_splits)
  from parts(2) obtain domain netbios hostname where identity: "identity = [(''domain'', domain), (''netbios'', netbios), (''hostname'', hostname)]"
    by (auto simp: resolve_identity_def rbind_Inr_iff)
  from parts(3) obtain ip forwarder clients ntp timezone where network: "network = [(''ip'', VStr ip), (''forwarder'', VStr forwarder),
      (''client_networks'', clients), (''ntp_servers'', ntp), (''timezone'', timezone)]" "forwarder \<noteq> ip"
    by (auto simp: resolve_network_def rbind_Inr_iff)
  from parts(4) obtain name path where share: "share = [(''share_name'', name), (''share_path'', path)]"
    by (auto simp: resolve_share_def rbind_Inr_iff)
  from parts(5) obtain ports networks exempt bounded legacy freeze where security: "security =
      [(''ssh_ports'', VList (map VInt ports)), (''ssh_networks'', texts networks), (''ban_exempt_networks'', exempt)]
         @ bounded @ [(''legacy_netbios'', legacy), (''freeze_cloud_init'', freeze)]"
    and ports: "\<forall>p \<in> set ports. 1 \<le> p \<and> p \<le> 65535 \<and> p \<notin> set RESERVED_SSH_PORTS"
    and "map fst bounded = map fst BOUNDED_INTEGER_PARAMS"
    unfolding resolve_security_def using bounded_names ssh_ports_ok by (fastforce simp: rbind_Inr_iff)
  then have bounded: "map fst bounded = [''fail2ban_findtime'', ''smb_max_retry'', ''smb_bantime'', ''ssh_max_retry'', ''ssh_bantime'']"
    by (simp add: BOUNDED_INTEGER_PARAMS_def)
  have all: "allow_ok" if "allow_ok = ((ports = [] \<longleftrightarrow> networks = []) \<and> (dry \<or> ports \<noteq> []))" for allow_ok
    using allow that by (auto simp: check_ssh_allowlist_def Let_def rbind_Inr_iff identity network share security dget_def)
  have names: "(''command_fingerprint'', b) \<notin> set bounded" for b
  proof
    assume "(''command_fingerprint'', b) \<in> set bounded"
    then have "''command_fingerprint'' \<in> set (map fst bounded)" by force
    then show False by (simp add: bounded)
  qed
  have dry: "\<not> dry" if "dget ps ''dry_run'' = VBool False"
    using that parts(1) by (auto simp: strict_bool_def get_or_def dget_def split: option.splits pyval.splits)
  show ?thesis
  proof (rule that [of ip forwarder ports networks])
    show "distinct (map fst settings)" using settings by (auto simp: identity network share security bounded)
    show "''command_fingerprint'' \<notin> fst ` set settings" using settings by (auto simp: identity network share security names)
  qed (use settings network(2) ports all dry in \<open>auto simp: identity network share security\<close>)
qed


lemma ipv4_of_Inr: "ipv4_of v a b = Inr host \<Longrightarrow> ipv4_of v c d = Inr host"
  by (auto simp: ipv4_of_def split: option.splits ip_address.splits)

lemma no_address: "ipv4_of VNone a b \<noteq> Inr host"
proof -
  have "read_ip_address (takeWhile (\<lambda>c. c \<noteq> CHR ''/'') (py_str VNone)) = None" by code_simp
  then show ?thesis by (simp add: ipv4_of_def)
qed

lemma primary_ipv4_Inr:
  assumes "primary_ipv4 env m = Inr host"
  obtains target where "be_object env = Some target" "ipv4_of (bo_primary_ip4 target) DoesNotExist DoesNotExist = Inr host"
  using assms no_address by (cases "be_object env") (auto simp: primary_ipv4_def intro: ipv4_of_Inr)

lemma admin_credential_distinct:
  assumes "resolve_samba_ad_dc_admin_credential admins credential_pk identity = Inr admin"
  shows "dget admin ''admin_credential_id'' \<noteq> identity"
  using assms by (auto simp: resolve_samba_ad_dc_admin_credential_def rbind_Inr_iff positive_model_pk_def dget_def
      split: option.splits pyval.splits)

lemma frozen_bindings:
  assumes "apply_samba_ad_dc_frozen_bindings rt env admins rq settings n = Inr n'" "has_key settings ''admin_credential_pk''"
  obtains host resolved snapshot admin where "primary_ipv4 env ''Samba AD DC provision requires the target to have one explicit primary IPv4 address.'' = Inr host"
    "dget settings ''ip'' = VStr host"
    "resolve_locked_ssh_identity rt (be_ssh env) (rq_target_type_id rq) (rq_target_id rq) host (policy_ref_of rq) = Inr resolved"
    "snapshot = dict_set ''ssh_strict_host_key_checking'' (VBool True) resolved"
    "dget admin ''admin_credential_id'' \<noteq> dget snapshot ''ssh_identity_id''"
    "n' = put_both ''admin_credential_snapshot'' (VDict admin) (put_fp ''target_object_sha256'' (VStr (normalization_hash_json rt (target_object rq)))
             (put_all [(''ssh_snapshot'', VDict snapshot), (''ssh_policy_ref'', VStr (policy_ref_of rq))] n))"
  using assms unfolding apply_samba_ad_dc_frozen_bindings_def Let_def
  by (auto simp: rbind_Inr_iff dest: admin_credential_distinct simp del: dget_dict_set)

text \<open>
  C14: A live provisioning of a Samba domain controller is frozen to its target: the address of
  the controller is the target's primary IPv4 address and not its own forwarder, the SSH identity
  is locked to that address, the firewall keeps at least one SSH port and network open and no
  port of the directory service, and the Administrator credential is not the SSH login.
\<close>

theorem live_provision_is_bound:
  assumes "normalize_ubuntu_26_samba_ad_dc_execution rt env admins rq ps = Inr n"
    and "proc_name (rq_procedure rq) = UBUNTU_26_SAMBA_AD_DC_PROVISION" "dget ps ''dry_run'' = VBool False"
  shows "\<exists>target host snapshot admin ports networks. be_object env = Some target
     \<and> ipv4_of (bo_primary_ip4 target) DoesNotExist DoesNotExist = Inr host
     \<and> dget n ''ip'' = VStr host \<and> dget n ''forwarder'' \<noteq> VStr host
     \<and> dget n ''ssh_snapshot'' = VDict snapshot \<and> dget snapshot ''ssh_host'' = VStr host
     \<and> dget n ''admin_credential_snapshot'' = VDict admin \<and> dget admin ''admin_credential_id'' \<noteq> dget snapshot ''ssh_identity_id''
     \<and> dget n ''ssh_ports'' = VList (map VInt ports) \<and> ports \<noteq> [] \<and> set ports \<inter> set RESERVED_SSH_PORTS = {}
     \<and> dget n ''ssh_networks'' = texts networks \<and> networks \<noteq> []"
proof -
  have "proc_name (rq_procedure rq) \<in> set UBUNTU_26_SAMBA_AD_DC_PROCEDURE_NAMES" using assms(2) by (simp add: UBUNTU_26_SAMBA_AD_DC_PROCEDURE_NAMES_def)
  with assms(1,2) obtain settings where settings: "resolve_provision_settings ps = Inr settings"
    and frozen: "apply_samba_ad_dc_frozen_bindings rt env admins rq settings (put_all settings (samba_ad_dc_payload rq)) = Inr n"
    unfolding normalize_ubuntu_26_samba_ad_dc_execution_def Let_def
    by (auto simp: rbind_Inr_iff)
  from settings obtain ip forwarder ports networks where s: "distinct (map fst settings)" "''command_fingerprint'' \<notin> fst ` set settings"
    "map_of settings ''ip'' = Some (VStr ip)" "map_of settings ''forwarder'' = Some (VStr forwarder)" "forwarder \<noteq> ip"
    "map_of settings ''ssh_ports'' = Some (VList (map VInt ports))" "map_of settings ''ssh_networks'' = Some (texts networks)"
    "ports = [] \<longleftrightarrow> networks = []" "\<forall>p \<in> set ports. 1 \<le> p \<and> p \<le> 65535 \<and> p \<notin> set RESERVED_SSH_PORTS"
    "ports \<noteq> []" "has_key settings ''admin_credential_pk''"
    by (rule provision_settings) (use assms(3) in blast)
  from frozen s(11) show ?thesis
  proof (rule frozen_bindings)
    fix host resolved snapshot admin
    assume f: "primary_ipv4 env ''Samba AD DC provision requires the target to have one explicit primary IPv4 address.'' = Inr host"
      "dget settings ''ip'' = VStr host"
      "resolve_locked_ssh_identity rt (be_ssh env) (rq_target_type_id rq) (rq_target_id rq) host (policy_ref_of rq) = Inr resolved"
      "snapshot = dict_set ''ssh_strict_host_key_checking'' (VBool True) resolved"
      "dget admin ''admin_credential_id'' \<noteq> dget snapshot ''ssh_identity_id''"
      "n = put_both ''admin_credential_snapshot'' (VDict admin) (put_fp ''target_object_sha256'' (VStr (normalization_hash_json rt (target_object rq)))
             (put_all [(''ssh_snapshot'', VDict snapshot), (''ssh_policy_ref'', VStr (policy_ref_of rq))] (put_all settings (samba_ad_dc_payload rq))))"
    from f(1) obtain target where t: "be_object env = Some target" "ipv4_of (bo_primary_ip4 target) DoesNotExist DoesNotExist = Inr host"
      by (rule primary_ipv4_Inr)
    have n: "dget n k = v" if "map_of settings k = Some v" "k \<in> {''ip'', ''forwarder'', ''ssh_ports'', ''ssh_networks''}" for k v
      using that s(1,2) by (auto simp: f(6) dget_def put_both_def map_of_put_all)
    have "dget n ''ssh_snapshot'' = VDict snapshot" "dget n ''admin_credential_snapshot'' = VDict admin"
      by (simp_all add: f(6) dget_def put_both_def map_of_put_all)
    moreover have "dget snapshot ''ssh_host'' = VStr host"
      using f(3) by (rule resolved_locked) (simp add: f(4) locked_to_def)
    moreover have "ip = host" using f(2) s(3) by (simp add: dget_def)
    moreover have "dget n ''ip'' = VStr ip" "dget n ''forwarder'' = VStr forwarder" "dget n ''ssh_ports'' = VList (map VInt ports)"
      "dget n ''ssh_networks'' = texts networks"
      using n s(3,4,6,7) by auto
    ultimately show ?thesis using t f(5) s(5,8,9,10)
      by (intro exI [of _ target] exI [of _ host] exI [of _ snapshot] exI [of _ admin] exI [of _ ports] exI [of _ networks])
        (simp add: disjoint_iff)
  qed
qed


section \<open>Samples\<close>

lemma address_accepted:
  "ipv4 (VStr ''10.0.0.5'') f = Inr ''10.0.0.5''" "ipv4 (VStr ''10.0.0.1'') f = Inr ''10.0.0.1''"
  by (simp_all add: ipv4_def ascii_text_def address_patterns address_read address_text)

lemma network_patterns: "fullmatch IPV4_CIDR_RE ''10.0.0.0/24''" "fullmatch SOURCE_NETWORK_RE ''10.0.0.0/24''"
  by code_simp+

lemma width_text: "nat_str 24 = ''24''" by code_simp

lemma network_read: "read_ipv4_network ''10.0.0.0/24'' = Some (167772160, 24)"
  using read_ipv4_network_str [of 167772160 24] by (simp add: ipv4_network_str_def address_text width_text)

lemma networks_accepted:
  "client_networks (VList [VStr ''10.0.0.0/24'']) = Inr [''10.0.0.0/24'']"
  "source_networks f (VList [VStr ''10.0.0.0/24'']) = Inr [''10.0.0.0/24'']" "source_networks f (VList []) = Inr []"
  by (simp_all add: client_networks_def client_network_def source_networks_def source_network_def strict_list_def ascii_text_def network_patterns
     network_read net_is_def ipv4_network_str_def address_text width_text reject_duplicates_def read_source_network_def read_ip_network_def)

lemma names_accepted:
  "ad_domain (VStr ''ad.ex.org'') = Inr ''ad.ex.org''" "short_name (VStr ''EX'') f = Inr ''EX''" "short_name (VStr ''dc1'') f = Inr ''dc1''"
  "ntp_servers (texts DEFAULT_NTP_SERVERS) = Inr DEFAULT_NTP_SERVERS" "timezone_name (VStr DEFAULT_TIMEZONE) = Inr DEFAULT_TIMEZONE"
  "share_name (VStr DEFAULT_SHARE_NAME) = Inr DEFAULT_SHARE_NAME" "share_path (VStr ''/srv/samba/shared'') = Inr ''/srv/samba/shared''"
  by code_simp+


definition provision_request :: exec_request where
  "provision_request = uptime_request\<lparr>rq_procedure := sample_procedure\<lparr>proc_name := UBUNTU_26_SAMBA_AD_DC_PROVISION\<rparr>\<rparr>"

definition provision_params :: pydict where
  "provision_params =
     [(''domain'', VStr ''ad.ex.org''), (''netbios'', VStr ''EX''), (''hostname'', VStr ''dc1''), (''ip'', VStr ''10.0.0.5''),
      (''forwarder'', VStr ''10.0.0.1''), (''client_networks'', VList [VStr ''10.0.0.0/24'']), (''dry_run'', VBool False),
      (''ssh_ports'', VList [VInt 22]), (''ssh_networks'', VList [VStr ''10.0.0.0/24'']), (''admin_credential_pk'', VInt 9)]"

definition stored_admin :: admin_lookup where
  "stored_admin = Some (\<lambda>_. Some (Some \<lparr>ac_pk = VInt 9, ac_revision = VTime noon, ac_auth_method = VStr ''password'',
     ac_storage_backend = VStr ''local'', ac_password_encrypted = VStr ''x''\<rparr>))"

lemma provision_checked:
  "unknown_params provision_params (PROVISION_REQUIRED_PARAMS @ PROVISION_OPTIONAL_PARAMS) = []"
  "sort (filter (\<lambda>k. \<not> has_key provision_params k) PROVISION_REQUIRED_PARAMS) = []"
  "supplied_overrides provision_params SSH_OVERRIDE_PARAM_KEYS = []"
  "resolve_identity provision_params = Inr [(''domain'', VStr ''ad.ex.org''), (''netbios'', VStr ''EX''), (''hostname'', VStr ''dc1'')]"
  "resolve_share provision_params = Inr [(''share_name'', VStr ''shared''), (''share_path'', VStr ''/srv/samba/shared'')]"
  by code_simp+

lemma provision_network:
  "resolve_network provision_params = Inr [(''ip'', VStr ''10.0.0.5''), (''forwarder'', VStr ''10.0.0.1''),
     (''client_networks'', texts [''10.0.0.0/24'']), (''ntp_servers'', texts DEFAULT_NTP_SERVERS), (''timezone'', VStr DEFAULT_TIMEZONE)]"
  by (simp add: resolve_network_def provision_params_def dget_def get_or_def address_accepted networks_accepted names_accepted)

lemma provision_security:
  "\<exists>security. resolve_security provision_params = Inr ([(''ssh_ports'', VList [VInt 22]), (''ssh_networks'', texts [''10.0.0.0/24''])] @ security)"
  by (simp add: resolve_security_def provision_params_def get_or_def networks_accepted ssh_ports_def strict_list_def strict_int_def
      RESERVED_SSH_PORTS_def strict_bool_def bounded_integer_def BOUNDED_INTEGER_PARAMS_def)

lemma provision_resolved: "\<exists>settings. resolve_provision_settings provision_params = Inr settings
    \<and> dget settings ''ip'' = VStr ''10.0.0.5'' \<and> has_key settings ''admin_credential_pk''"
proof -
  obtain security where security:
    "resolve_security provision_params = Inr ([(''ssh_ports'', VList [VInt 22]), (''ssh_networks'', texts [''10.0.0.0/24''])] @ security)"
    using provision_security by blast
  have fields: "get_or provision_params ''dry_run'' (VBool True) = VBool False" "map_of provision_params ''admin_credential_pk'' = Some (VInt 9)"
    by (simp_all add: provision_params_def get_or_def)
  show ?thesis
    unfolding resolve_provision_settings_def Let_def provision_checked provision_network security fields
    by (simp add: strict_bool_def strict_int_def check_ssh_allowlist_def dget_def)
qed

lemma provision_normalized:
  "\<exists>n. normalize_ubuntu_26_samba_ad_dc_execution plain_rt (nx_binding bound_env) stored_admin provision_request provision_params = Inr n"
proof -
  obtain settings where settings: "resolve_provision_settings provision_params = Inr settings"
    "dget settings ''ip'' = VStr ''10.0.0.5''" "has_key settings ''admin_credential_pk''"
    using provision_resolved by blast
  obtain d where d: "resolve_locked_ssh_identity plain_rt one_service 3 8 ''10.0.0.5'' (policy_ref_of provision_request) = Inr d"
    "dget d ''ssh_identity_id'' = VInt 6"
    using one_service_locked by blast
  have host: "primary_ipv4 (nx_binding bound_env) m = Inr ''10.0.0.5''" for m
    by (simp add: primary_ipv4_def bound_env_def ipv4_of_def read_ip_address_def address_read address_text)
  have admin: "\<exists>admin. resolve_samba_ad_dc_admin_credential stored_admin v (VInt 6) = Inr admin" for v
    by (simp add: resolve_samba_ad_dc_admin_credential_def stored_admin_def positive_model_pk_def model_revision_def noon_revision)
  have ids: "rq_target_type_id provision_request = 3" "rq_target_id provision_request = 8" "be_ssh (nx_binding bound_env) = one_service"
    "rq_target_model_label provision_request = ''dcim.device''" "proc_name (rq_procedure provision_request) = UBUNTU_26_SAMBA_AD_DC_PROVISION"
    "UBUNTU_26_SAMBA_AD_DC_PROVISION \<in> set UBUNTU_26_SAMBA_AD_DC_PROCEDURE_NAMES"
    by (simp_all add: provision_request_def uptime_request_def bound_env_def UBUNTU_26_SAMBA_AD_DC_PROCEDURE_NAMES_def)
  have "\<exists>n'. apply_samba_ad_dc_frozen_bindings plain_rt (nx_binding bound_env) stored_admin provision_request settings n = Inr n'" for n
    unfolding apply_samba_ad_dc_frozen_bindings_def Let_def
    using settings(2,3) d admin [of "dget settings ''admin_credential_pk''"] by (auto simp: host ids)
  then show ?thesis
    unfolding normalize_ubuntu_26_samba_ad_dc_execution_def Let_def provision_checked(3)
    using settings(1) by (simp add: ids samba_ad_dc_target_object_def)
qed

theorem live_provision_is_bound_witness:
  "\<exists>n snapshot admin. normalize_ubuntu_26_samba_ad_dc_execution plain_rt (nx_binding bound_env) stored_admin provision_request provision_params = Inr n
     \<and> dget n ''ssh_snapshot'' = VDict snapshot \<and> dget n ''admin_credential_snapshot'' = VDict admin
     \<and> dget admin ''admin_credential_id'' \<noteq> dget snapshot ''ssh_identity_id''"
proof -
  obtain n where n: "normalize_ubuntu_26_samba_ad_dc_execution plain_rt (nx_binding bound_env) stored_admin provision_request provision_params = Inr n"
    using provision_normalized by blast
  have "proc_name (rq_procedure provision_request) = UBUNTU_26_SAMBA_AD_DC_PROVISION" "dget provision_params ''dry_run'' = VBool False"
    by (simp_all add: provision_request_def provision_params_def dget_def)
  from live_provision_is_bound [OF n this] n show ?thesis by blast
qed

end
