(* ===== verification/Spec2Isabelle.thy ===== *)
theory Spec2Isabelle
  imports RedactionProps EventStoreProps ResponseProps AggregateProps CapabilityProps DispatchLeaseProps
    TransportProps TargetSnapshotProps CommandTemplatingProps DispatchProps AdmissionProps ServiceProps BackendCallProps
    CredentialAuthorityProps OpenBaoValidationProps SambaConfigProps SambaAdDcProps
begin

text \<open>
  A verification library for netbox-rpc, a NetBox plugin that turns remote procedure calls
  on managed equipment into audited executions: a request names a catalog procedure and a
  target, is possibly approved by a second person, is claimed by a worker, dispatched to a
  backend over HTTP, and ends with a recorded result. Paths below are relative to
  \<open>src/netbox_rpc\<close>.

  \<^bold>\<open>The program and its model.\<close> The state of an execution is an append-only ledger of
  events plus the columns projected from it. Everything that changes the state goes through
  the event store; the aggregate guards the lifecycle; the command handlers guard the
  aggregate; the lease, the capability check and the scope fence guard the call itself.

  \<^item> \<open>Prelude\<close>, \<open>PyValues\<close>, \<open>Timestamps\<close>, \<open>DateArith\<close>, \<open>Base64\<close>, \<open>CanonicalJson\<close>, \<open>Regex\<close>:
    the part of Python the program uses. A dynamic value is \<open>pyval\<close> (a dict is an
    association list in insertion order), an exception is the left side of a sum, an aware
    time is a record with its ISO form, canonical JSON is a printer whose injectivity is
    proved, and a pattern is a term with a backtracking matcher. \<open>python_rt\<close> collects what is
    left to the runtime: reading non-canonical ISO texts and floats, the schema check, the
    digests.
  \<^item> \<open>Events\<close>, \<open>Projection\<close>: \<open>domain/events.py\<close>, \<open>domain/value_objects.py\<close>,
    \<open>domain/projection.py\<close>. The fifteen events with payload, codec and dispatch table; the
    projection is a fold.
  \<^item> \<open>SecretPatterns\<close>, \<open>SpanRedaction\<close>, \<open>Redaction\<close>, \<open>CredentialContract\<close> with \<open>RegexFacts\<close> and
    \<open>RedactionProps\<close>: the first half of \<open>event_store.py\<close> and \<open>credential_contract.py\<close>. Secret
    patterns, spans with their origin tracking, the bounded fixed point, the redaction of
    nested event data and the public part of credential references.
  \<^item> \<open>EventStore\<close>, \<open>Catalog\<close>, \<open>Response\<close> with \<open>EventStoreProps\<close> and \<open>ResponseProps\<close>: the second
    half of \<open>event_store.py\<close> and the name sets of \<open>constants.py\<close>. The store is a record of the
    object in memory, the row and the ledger; the events other writers insert before each
    attempt are an argument, so collisions and stale objects are explicit. \<open>Response\<close> is
    \<open>record_backend_response\<close> with its contracts, schema passes, progress and terminal events.
  \<^item> \<open>Aggregate\<close>, \<open>ApprovalSnapshot\<close> with \<open>AggregateProps\<close>: \<open>domain/aggregate.py\<close> and
    \<open>RPCApprovalRequest\<close> of \<open>models.py\<close>. One definition per guarded transition; a decision
    re-reads the row under the lock.
  \<^item> \<open>Procedure\<close>, \<open>Capability\<close>, \<open>CapabilityDiagnostics\<close> with \<open>CapabilityProps\<close>:
    \<open>capabilities.py\<close>, \<open>capability_diagnostics.py\<close> and the \<open>semantic_capability_extension\<close>
    functions of the contract modules. Contract hashes, the cached manifest fetch and the
    verdict on a backend.
  \<^item> \<open>KeyFile\<close>, \<open>DispatchLease\<close> with \<open>DispatchLeaseProps\<close>: \<open>dispatch_lease.py\<close>. The
    race-resistant read of the key file, key selection, issuing and verifying leases.
  \<^item> \<open>Transport\<close>, \<open>TargetSnapshot\<close>, \<open>CommandTemplating\<close> with their \<open>Props\<close> theories:
    \<open>transport.py\<close>, \<open>RpcPluginSettings\<close> of \<open>models.py\<close>, the driver pipeline and the budgeted
    snapshot of the target in \<open>domain/normalization.py\<close>, \<open>command_templating.py\<close>,
    \<open>command_contract.py\<close> and \<open>RPCProcedureCommand.clean\<close>.
  \<^item> \<open>Backends\<close>, \<open>HandlerError\<close>, \<open>ProtectedPolicy\<close>, \<open>ScopeFence\<close>, \<open>Dispatch\<close> with
    \<open>ScopeFenceProps\<close> and \<open>DispatchProps\<close>: \<open>backends.py\<close>, \<open>RPCBackend\<close> and
    \<open>RPCGiteaRunnerScopeFence\<close> of \<open>models.py\<close>, and the worker side of
    \<open>application/command_handlers.py\<close>: the reviewed contracts of protected procedures, the
    approval payload and its revalidation, the durable fence of a reusable registration
    token, and \<open>run_execution\<close> as a function from a state of all executions and fences to the
    exception it ends with, the new state and the backend calls it made.

  \<^item> \<open>AdmissionChecks\<close>, \<open>Admission\<close> with \<open>AdmissionProps\<close>: the request side of
    \<open>application/command_handlers.py\<close> and \<open>RPCExecution.save\<close>, \<open>RPCIntent\<close> of \<open>models.py\<close>. Creation
    with every check in its order, the persisted request and approval row, the decisions, and
    intents that create one execution per target.
  \<^item> \<open>Service\<close> with \<open>ServiceProps\<close>: \<open>jobs.py\<close> from the queue side, \<open>netbox_rq_worker_contract.py\<close>
    and the decision views. Jobs, the liveness of the control queue, expiry of stale restarts
    and cancellation, composed with creation, decisions and the worker into one service state.
  \<^item> \<open>BackendCall\<close> with \<open>BackendCallProps\<close>: the HTTP side of \<open>jobs.py\<close>. Transport policies, the
    request plan, the bounded body reader under a wall clock, the closed failures and the
    normalization of a response.
  \<^item> \<open>CredentialAuthority\<close> with \<open>CredentialAuthorityProps\<close>: \<open>credential_authority.py\<close>. What is
    frozen at creation, its re-check by the worker and the check of a secret resolution.
  \<^item> \<open>OpenBaoValidation\<close> with \<open>OpenBaoValidationProps\<close>: \<open>openbao_validation.py\<close>. The scan of the
    parameters of OpenBao procedures with its patterns, HCL strings and nested documents.
  \<^item> \<open>IpAddress\<close> (the standard library's \<open>ipaddress\<close>), \<open>Normalization\<close>, \<open>SambaNormalization\<close>,
    \<open>InfluxNormalization\<close>, \<open>OpenBaoNormalization\<close>, \<open>LinuxNormalization\<close>, \<open>ProxmoxNormalization\<close>,
    \<open>DeviceNormalization\<close>, \<open>AkvoradoNormalization\<close>: the per-procedure normalizers of
    \<open>domain/normalization.py\<close> and \<open>packer_normalizer.py\<close>. A normalizer takes the tables it reads,
    the request and the parameters and gives an error or the payload for the backend;
    \<open>Normalization\<close> holds the helpers, the payload and fingerprint operations they share.
  \<^item> \<open>SshIdentity\<close>, \<open>BoundNormalization\<close>, \<open>SambaAdDc\<close>: the locked SSH identity with its
    revisions, the procedures that run only on the device of their target binding, and
    \<open>samba_ad_dc_contract.py\<close> with the procedures that use it.
  \<^item> \<open>NormalizationDispatch\<close>: \<open>normalize_execution_params\<close>, which chooses the normalizer of a
    procedure from the tables of names and the handlers.
  \<^item> \<open>PayloadSeal\<close>, \<open>NormalizationProps\<close>, \<open>SambaConfigProps\<close>, \<open>BoundProps\<close>, \<open>SambaAdDcProps\<close>: what the
    normalizers promise.

  \<^bold>\<open>Interfaces.\<close> Six locales state the contracts components rely on. \<open>table_machine\<close> of
  \<open>AggregateProps\<close> is a machine whose steps follow a table of states, interpreted on the
  operations of the aggregate. \<open>stream_writer\<close> of \<open>EventStoreProps\<close> is a writer that appends to
  a numbered stream, interpreted on the event store. \<open>guarded_service\<close> of \<open>ServiceProps\<close> is a
  set of operations that keep a predicate of the service, interpreted once for each invariant
  of the whole history. \<open>payload_keys\<close>, its instance \<open>target_keys\<close> and \<open>sealed_normalizer\<close> of
  \<open>PayloadSeal\<close> are a normalizer whose fingerprint commits to its payload, interpreted on the
  normalizers of Samba, InfluxDB and OpenBao. The clients' lemmas are proved once in the locale and reach the
  properties through the interpretation.

  \<^bold>\<open>What is shown.\<close>

  \<^item> Lifecycle: successful operations refine the lifecycle table, a terminal status is final,
    one decision wins, the approver is not the requester, and a gated execution runs only
    after an approval in its ledger.
  \<^item> Ledger: appends keep the numbering contiguous under concurrent writers and fail exactly
    after three collisions; the columns always equal the fold of the ledger; rows decode to
    the events they encode; codes are catalog codes.
  \<^item> Secrets: stored data is ledger safe at every depth, structurally sensitive values are
    masked, placeholders are fresh and their search ends.
  \<^item> Responses: a response always ends the execution, a success needs agreeing envelopes and
    a validated result.
  \<^item> Dispatch: a backend is called only through the gates and at most once, a claimed
    execution never stays running, leases are authentic, bounded and verify, key files are
    trusted, a compatible verdict needs an agreeing manifest, contract hashes bind commands.
  \<^item> Runner scopes: only the newest reserver changes a fence, a scope is reused only after a
    proof, the database constraints are never violated, and a quiescent blocked scope can
    always be reconciled.
  \<^item> Catalog: unapproved edits keep the safety fields, every policy chain ends in the raw
    driver, template variables have one earlier producer, accepted templates are restricted,
    snapshots stay within their budget and carry no sensitive names.
  \<^item> Requests: an execution is created only through the gates, a protected one only as a
    request, a plain one is queued or failed, stored passwords are fingerprints, an intent is
    the sequence of direct creations.
  \<^item> Service: over every history of requests, decisions, jobs and edits no protected call is
    made without a second person and an execution calls the backend at most once.
  \<^item> Calls: a protected call gives a closed failure or a validated result and always answers
    within its byte and time bounds; a runner scope is released on evidence only.
  \<^item> Credentials: a secret is resolved only in a recorded, short dispatch by the executor of
    the backend under the frozen policy; what creation freezes the worker accepts.
  \<^item> Normalization: the hash of the command fingerprint of the Samba, InfluxDB and OpenBao
    procedures determines the payload up to collisions of the digest, that of an SSH key
    installation does not; accepted smb.conf bodies run no commands, also when continued, but a
    vertical tab hides one; a frozen SSH identity pins one host key of the target; bound
    procedures run on their device and live domain controllers are frozen to their target.
  \<^item> OpenBao: accepted parameters hide no secret at any depth, the scan ends, and the integer
    form of the entropy bound is exact.

  \<^bold>\<open>Parameters.\<close> Code outside the repository, and data too large to restate, is an argument
  of the definitions: the JSON schema validator, the signature scheme and PEM loading
  (\<open>ed25519\<close>), the operating system's view of the key file (\<open>key_fs\<close>), HTTP
  (\<open>backend_network\<close>, \<open>de_backend\<close>), the manifest reader, the template parser
  (\<open>template_tools\<close>), the configured backend resolver, the tables of the reviewed contracts
  (\<open>contract_tables\<close>, \<open>pe_contract\<close>), the normalizer of the worker (\<open>de_normalize\<close>, of which
  \<open>normalize_execution_params\<close> is the instance the program uses), the tables of the companion
  plugins that normalizers read (services, credentials, endpoints, Packer templates), the YAML
  reader, the large response schemas, the provider of credential identities, \<open>json.loads\<close> and
  the object permissions of NetBox. Laws of such code are hypotheses of the theorems that need
  them, with a witness on a concrete instance. The keys of a payload may stand in another order
  than the code inserts them; the hash of a payload sorts them, and equality of dicts ignores
  the order.

  \<^bold>\<open>Bounds.\<close> \<open>finditer_loop\<close> gets \<open>2 * length + 2\<close> steps: every match either advances or is
  empty at a position where the next one is not. The redaction passes, the three append
  attempts, the nesting depth of redaction and of the target snapshot, the fifty progress
  events and the byte budgets are the constants of the source. The search for a placeholder
  gets one step more than there are taken names, which \<open>placeholder_search_ends\<close> shows to be
  enough. The scan of nested documents gets a nesting bound, which \<open>openbao_scan_ends\<close> shows to
  be enough when it exceeds the longest text. All other recursion is structural or has a termination proof.

  \<^bold>\<open>Not modelled.\<close> Four families of normalizers, an argument \<open>nx_other\<close> of the dispatcher: the
  production upgrade of Gitea, the two registrations of Gitea runners, and the Minecraft plugin
  URL, whose host checks resolve names; \<open>current_access.py\<close>; the constant tables of the contract modules and the seeds in the
  migrations, which are data; views, forms, tables, filter sets and serializers, which are
  framework glue.
\<close>

end
